(* ===== verification/Prelude.thy ===== *)
theory Prelude
  imports Complex_Main "HOL-Library.AList"
begin

text \<open>
  Shared vocabulary of the development.

  A Python exception is a value of \<open>exn\<close>; a computation that may raise is a value of
  \<open>'a res\<close>; a method that reads and writes the state of its object (and of the world the
  object talks to) is an operation of type \<open>('s, 'a) op\<close>, which returns the state even when it
  raises, because Python keeps the writes made before a \<open>raise\<close>. A \<open>try\<close> block is
  \<open>attempt\<close> followed by a case on its result.

  The second half holds the proof library for such operations: \<open>guar R m\<close> says that the
  operation \<open>m\<close> relates every state to the state it leaves by \<open>R\<close>, and the locale
  \<open>guarantee\<close> collects the rules that compose it, for any reflexive and transitive \<open>R\<close>.
  Numbers follow Python: \<open>int\<close> for integers, \<open>rat\<close> for floats (rounding of float
  arithmetic is not modelled), \<open>nat\<close> for lengths.
\<close>

section \<open>Results\<close>

text \<open>
  The exceptions the code raises or catches by class. \<open>PolicyResolutionError\<close>,
  \<open>DuplicateDispatchError\<close>, \<open>NotReadyError\<close> and \<open>RunRegistryCorruptionError\<close> are
  subclasses of \<open>ValueError\<close>; the transport classes are subclasses of
  \<open>AdapterError\<close>. \<open>Raised c m\<close> is an exception of any other class, by its name and message.
\<close>

datatype exn =
    ValueError string
  | PolicyResolutionError string
  | DuplicateDispatchError string
  | NotReadyError string
  | RegistryCorruption string nat
  | TypeError string
  | KeyError string
  | AttributeError string
  | AuthBrokerError string
  | IntegrityError string
  | AdapterError string
  | TransportError string
  | GatewayContractError string "string option"
  | SessionBindingError string
  | IdempotencyConflict string
  | TimeoutError
  | Raised string string

type_synonym 'a res = "exn + 'a"

fun is_value_error :: "exn \<Rightarrow> bool" where
  "is_value_error (ValueError m) = True"
| "is_value_error (PolicyResolutionError m) = True"
| "is_value_error (DuplicateDispatchError m) = True"
| "is_value_error (NotReadyError m) = True"
| "is_value_error (RegistryCorruption m n) = True"
| "is_value_error _ = False"

fun is_adapter_error :: "exn \<Rightarrow> bool" where
  "is_adapter_error (AdapterError m) = True"
| "is_adapter_error (TransportError m) = True"
| "is_adapter_error (GatewayContractError m c) = True"
| "is_adapter_error (SessionBindingError m) = True"
| "is_adapter_error (IdempotencyConflict m) = True"
| "is_adapter_error _ = False"

definition rbind :: "'a res \<Rightarrow> ('a \<Rightarrow> 'b res) \<Rightarrow> 'b res" where
  "rbind r f = (case r of Inl e \<Rightarrow> Inl e | Inr x \<Rightarrow> f x)"

definition need :: "bool \<Rightarrow> exn \<Rightarrow> 'a res \<Rightarrow> 'a res" where
  "need b e r = (if b then r else Inl e)"

fun rmap :: "('a \<Rightarrow> 'b res) \<Rightarrow> 'a list \<Rightarrow> 'b list res" where
  "rmap f [] = Inr []"
| "rmap f (x # xs) = rbind (f x) (\<lambda>y. rbind (rmap f xs) (\<lambda>ys. Inr (y # ys)))"

lemma rbind_simps [simp]:
  "rbind (Inl e) f = Inl e" "rbind (Inr x) f = f x"
  by (simp_all add: rbind_def)

lemma rbind_Inr_iff: "rbind r f = Inr y \<longleftrightarrow> (\<exists>x. r = Inr x \<and> f x = Inr y)"
  by (cases r) auto

lemma rbind_Inl_iff: "rbind r f = Inl e \<longleftrightarrow> r = Inl e \<or> (\<exists>x. r = Inr x \<and> f x = Inl e)"
  by (cases r) auto

lemma need_Inr_iff [simp]: "need b e r = Inr x \<longleftrightarrow> b \<and> r = Inr x"
  by (simp add: need_def)

lemma need_simps [simp]: "need True e r = r" "need False e r = Inl e"
  by (simp_all add: need_def)

lemma rmap_cong [fundef_cong]:
  "xs = ys \<Longrightarrow> (\<And>x. x \<in> set ys \<Longrightarrow> f x = g x) \<Longrightarrow> rmap f xs = rmap g ys"
  by (induction ys arbitrary: xs) auto

lemma rmap_Inr_length: "rmap f xs = Inr ys \<Longrightarrow> length ys = length xs"
  by (induction xs arbitrary: ys) (auto simp: rbind_Inr_iff)

lemma rmap_Inr_set:
  "rmap f xs = Inr ys \<Longrightarrow> y \<in> set ys \<Longrightarrow> \<exists>x\<in>set xs. f x = Inr y"
  by (induction xs arbitrary: ys) (auto simp: rbind_Inr_iff)

section \<open>Stateful operations\<close>

type_synonym ('s, 'a) op = "'s \<Rightarrow> 'a res \<times> 's"

definition ret :: "'a \<Rightarrow> ('s, 'a) op" where
  "ret x = (\<lambda>s. (Inr x, s))"

definition raise :: "exn \<Rightarrow> ('s, 'a) op" where
  "raise e = (\<lambda>s. (Inl e, s))"

definition lift :: "'a res \<Rightarrow> ('s, 'a) op" where
  "lift r = (\<lambda>s. (r, s))"

definition bnd :: "('s, 'a) op \<Rightarrow> ('a \<Rightarrow> ('s, 'b) op) \<Rightarrow> ('s, 'b) op" where
  "bnd m f = (\<lambda>s. case m s of (r, s') \<Rightarrow> (case r of Inl e \<Rightarrow> (Inl e, s') | Inr x \<Rightarrow> f x s'))"

definition gets :: "('s \<Rightarrow> 'a) \<Rightarrow> ('s, 'a) op" where
  "gets f = (\<lambda>s. (Inr (f s), s))"

definition modify :: "('s \<Rightarrow> 's) \<Rightarrow> ('s, unit) op" where
  "modify f = (\<lambda>s. (Inr (), f s))"

definition attempt :: "('s, 'a) op \<Rightarrow> ('s, 'a res) op" where
  "attempt m = (\<lambda>s. case m s of (r, s') \<Rightarrow> (Inr r, s'))"

lemma op_simps [simp]:
  "ret x s = (Inr x, s)" "raise e s = (Inl e, s)" "lift r s = (r, s)"
  "gets f s = (Inr (f s), s)" "modify g s = (Inr (), g s)"
  by (simp_all add: ret_def raise_def lift_def gets_def modify_def)

lemma bnd_app: "bnd m f s = (case m s of (r, s') \<Rightarrow> (case r of Inl e \<Rightarrow> (Inl e, s') | Inr x \<Rightarrow> f x s'))"
  by (simp add: bnd_def)

lemma bnd_simps [simp]:
  "bnd (ret x) f s = f x s" "bnd (raise e) f s = (Inl e, s)"
  "bnd (gets g) f s = f (g s) s" "bnd (modify h) f' s = f' () (h s)"
  by (simp_all add: bnd_def)

lemma bnd_Inr: "m s = (Inr x, s') \<Longrightarrow> bnd m f s = f x s'"
  and bnd_Inl: "m s = (Inl e, s') \<Longrightarrow> bnd m f s = (Inl e, s')"
  by (simp_all add: bnd_def)

lemma bnd_InrD:
  "bnd m f s = (Inr y, t) \<Longrightarrow> \<exists>x s'. m s = (Inr x, s') \<and> f x s' = (Inr y, t)"
  by (auto simp: bnd_def split: prod.splits sum.splits)

lemma bnd_InrE:
  "bnd m f s = (Inr y, t) \<Longrightarrow> (\<And>x s'. m s = (Inr x, s') \<Longrightarrow> f x s' = (Inr y, t) \<Longrightarrow> P) \<Longrightarrow> P"
  by (auto dest: bnd_InrD)

lemma bnd_Inr_iff: "bnd m f s = (Inr y, t) \<longleftrightarrow> (\<exists>x s'. m s = (Inr x, s') \<and> f x s' = (Inr y, t))"
  by (auto simp: bnd_def split: prod.splits sum.splits)

lemma attempt_app: "attempt m s = (Inr (fst (m s)), snd (m s))"
  by (simp add: attempt_def split: prod.splits)

section \<open>Guarantees of operations\<close>

named_theorems guar_rules \<open>rules that compose guarantees of operations\<close>

definition guar :: "('s \<Rightarrow> 's \<Rightarrow> bool) \<Rightarrow> ('s, 'a) op \<Rightarrow> bool" where
  "guar R m \<longleftrightarrow> (\<forall>s. R s (snd (m s)))"

lemma guarI: "(\<And>s. R s (snd (m s))) \<Longrightarrow> guar R m"
  by (simp add: guar_def)

lemma guarD: "guar R m \<Longrightarrow> R s (snd (m s))"
  by (simp add: guar_def)

locale guarantee =
  fixes R :: "'s \<Rightarrow> 's \<Rightarrow> bool"
  assumes R_refl: "R s s"
    and R_trans: "R s t \<Longrightarrow> R t u \<Longrightarrow> R s u"
begin

lemma guar_ret [guar_rules]: "guar R (ret x)"
  by (simp add: guar_def R_refl)

lemma guar_raise [guar_rules]: "guar R (raise e)"
  by (simp add: guar_def R_refl)

lemma guar_lift [guar_rules]: "guar R (lift r)"
  by (simp add: guar_def R_refl)

lemma guar_gets [guar_rules]: "guar R (gets f)"
  by (simp add: guar_def R_refl)

lemma guar_bnd [guar_rules]:
  assumes m: "guar R m" and f: "\<And>x. guar R (f x)"
  shows "guar R (bnd m f)"
proof (rule guarI)
  fix s
  have *: "R s (snd (m s))" using m by (rule guarD)
  show "R s (snd (bnd m f s))"
    using * R_trans [OF * guarD [OF f]]
    by (auto simp: bnd_def split: prod.splits sum.splits)
qed

lemma guar_attempt [guar_rules]: "guar R m \<Longrightarrow> guar R (attempt m)"
  by (simp add: guar_def attempt_app)

lemma guar_if [guar_rules]: "guar R m \<Longrightarrow> guar R n \<Longrightarrow> guar R (if b then m else n)"
  by simp

lemma guar_let [guar_rules]: "(\<And>x. guar R (f x)) \<Longrightarrow> guar R (let x = y in f x)"
  by simp

lemma guar_option [guar_rules]:
  "guar R m \<Longrightarrow> (\<And>x. guar R (f x)) \<Longrightarrow> guar R (case v of None \<Rightarrow> m | Some x \<Rightarrow> f x)"
  by (cases v) auto

lemma guar_sum [guar_rules]:
  "(\<And>e. guar R (g e)) \<Longrightarrow> (\<And>x. guar R (f x)) \<Longrightarrow> guar R (case v of Inl e \<Rightarrow> g e | Inr x \<Rightarrow> f x)"
  by (cases v) auto

lemma guar_prod [guar_rules]:
  "(\<And>x y. guar R (f x y)) \<Longrightarrow> guar R (case v of (x, y) \<Rightarrow> f x y)"
  by (cases v) auto

end

section \<open>Triples\<close>

text \<open>From a state with \<open>P\<close>, the answer \<open>x\<close> ends in \<open>Q x\<close>, and every end, errors included, in \<open>E\<close>.\<close>

definition holds :: "('s \<Rightarrow> bool) \<Rightarrow> ('s, 'a) op \<Rightarrow> ('s \<Rightarrow> bool) \<Rightarrow> ('a \<Rightarrow> 's \<Rightarrow> bool) \<Rightarrow> bool" where
  "holds P m E Q \<longleftrightarrow> (\<forall>s. P s \<longrightarrow> E (snd (m s)) \<and> (\<forall>x. fst (m s) = Inr x \<longrightarrow> Q x (snd (m s))))"

lemma holds_bnd: "holds P m E Q \<Longrightarrow> (\<And>x. holds (Q x) (f x) E R) \<Longrightarrow> holds P (bnd m f) E R"
  unfolding holds_def bnd_app by (force split: prod.splits sum.splits)

lemma holds_pre: "holds P m E Q \<Longrightarrow> (\<And>s. P' s \<Longrightarrow> P s) \<Longrightarrow> holds P' m E Q"
  by (simp add: holds_def)

lemma holds_if: "holds P m E Q \<Longrightarrow> holds P n E Q \<Longrightarrow> holds P (if b then m else n) E Q"
  by simp

lemma holds_prod: "(\<And>x y. holds P (f x y) E Q) \<Longrightarrow> holds P (case v of (x, y) \<Rightarrow> f x y) E Q"
  by (cases v) simp

lemma holds_attempt: "holds P m E Q \<Longrightarrow> holds P (attempt m) E (\<lambda>x. E)"
  by (simp add: holds_def attempt_app)

lemma holds_frame: "guar R m \<Longrightarrow> (\<And>s t. P s \<Longrightarrow> R s t \<Longrightarrow> E t \<and> Q t) \<Longrightarrow> holds P m E (\<lambda>x. Q)"
  by (simp add: holds_def guar_def)

lemma holds_ret: "(\<And>s. P s \<Longrightarrow> E s \<and> Q x s) \<Longrightarrow> holds P (ret x) E Q"
  by (simp add: holds_def)

lemma holds_raise: "(\<And>s. P s \<Longrightarrow> E s) \<Longrightarrow> holds P (raise e) E Q"
  by (simp add: holds_def)

lemma holds_option: "holds P m E Q \<Longrightarrow> (\<And>x. holds P (f x) E Q) \<Longrightarrow> holds P (case v of None \<Rightarrow> m | Some x \<Rightarrow> f x) E Q"
  by (cases v) auto

lemma holds_sum: "(\<And>e. holds P (g e) E Q) \<Longrightarrow> (\<And>x. holds P (f x) E Q) \<Longrightarrow> holds P (case v of Inl e \<Rightarrow> g e | Inr x \<Rightarrow> f x) E Q"
  by (cases v) auto

text \<open>A fact about the answer that does not depend on the state is used as a fact.\<close>

lemma holds_fact: "(A \<Longrightarrow> holds P m E Q) \<Longrightarrow> holds (\<lambda>s. P s \<and> A) m E Q"
  by (auto simp: holds_def)

section \<open>Lists and dictionaries\<close>

text \<open>
  A Python dict keeps insertion order and overwrites in place: an association list with
  \<open>AList.update\<close>. \<open>dict.fromkeys(xs)\<close> keeps the first occurrence of each key.
\<close>

fun first_occurrences :: "'a list \<Rightarrow> 'a list" where
  "first_occurrences [] = []"
| "first_occurrences (x # xs) = x # filter (\<lambda>y. y \<noteq> x) (first_occurrences xs)"

lemma set_first_occurrences [simp]: "set (first_occurrences xs) = set xs"
  by (induction xs) auto

lemma distinct_first_occurrences [simp]: "distinct (first_occurrences xs)"
  by (induction xs) auto

lemma first_occurrences_Nil_iff [simp]: "first_occurrences xs = [] \<longleftrightarrow> xs = []"
  by (cases xs) auto

lemma first_occurrences_distinct [simp]: "distinct xs \<Longrightarrow> first_occurrences xs = xs"
  by (induction xs) (auto intro!: filter_True)

fun find_last :: "('a \<Rightarrow> bool) \<Rightarrow> 'a list \<Rightarrow> 'a option" where
  "find_last P [] = None"
| "find_last P (x # xs) =
     (case find_last P xs of Some y \<Rightarrow> Some y | None \<Rightarrow> if P x then Some x else None)"

lemma find_last_Some: "find_last P xs = Some x \<Longrightarrow> x \<in> set xs \<and> P x"
  by (induction xs) (auto split: option.splits if_splits)

lemma find_last_None: "find_last P xs = None \<longleftrightarrow> (\<forall>x\<in>set xs. \<not> P x)"
  by (induction xs) (auto split: option.splits if_splits)

lemma find_last_append:
  "find_last P (xs @ ys) = (case find_last P ys of Some y \<Rightarrow> Some y | None \<Rightarrow> find_last P xs)"
  by (induction xs) (auto split: option.splits)

lemma find_last_snoc [simp]:
  "find_last P (xs @ [x]) = (if P x then Some x else find_last P xs)"
  by (simp add: find_last_append)

lemma find_last_in: "\<exists>x\<in>set xs. P x \<Longrightarrow> \<exists>y. find_last P xs = Some y"
  using find_last_None [of P xs] by (cases "find_last P xs") auto

end
