(* ===== verification/PyText.thy ===== *)
theory PyText
  imports Prelude "HOL-Library.Char_ord"
begin

text \<open>
  The string methods of Python that the code uses, on \<open>string\<close> (a list of \<open>char\<close>, read as
  the code points 0 to 255). Case mapping is the ASCII one: letters outside ASCII are left as they
  are, which is the only place where a Python string behaves differently.
  The end of the theory is a small regular-expression matcher with the constructs the code's
  patterns use: it returns the list of all end positions of a match that starts at a given
  position, so that search and full match are existence questions about that list.
\<close>

section \<open>Characters\<close>

definition code :: "char \<Rightarrow> nat" where
  "code c = of_char c"

definition is_upper :: "char \<Rightarrow> bool" where
  "is_upper c \<longleftrightarrow> 65 \<le> code c \<and> code c \<le> 90"

definition is_lower :: "char \<Rightarrow> bool" where
  "is_lower c \<longleftrightarrow> 97 \<le> code c \<and> code c \<le> 122"

definition is_digit :: "char \<Rightarrow> bool" where
  "is_digit c \<longleftrightarrow> 48 \<le> code c \<and> code c \<le> 57"

definition is_alnum :: "char \<Rightarrow> bool" where
  "is_alnum c \<longleftrightarrow> is_upper c \<or> is_lower c \<or> is_digit c"

text \<open>\<open>str.isalnum\<close> on all of the range, which the classes \<open>\w\<close> and \<open>\b\<close> rest on.\<close>

definition uni_alnum :: "char \<Rightarrow> bool" where
  "uni_alnum c \<longleftrightarrow> is_alnum c \<or> code c \<in> {170, 178, 179, 181, 185, 186, 188, 189, 190} \<or>
     192 \<le> code c \<and> code c \<noteq> 215 \<and> code c \<noteq> 247"

text \<open>\<open>str.isspace\<close>, which \<open>strip\<close>, \<open>split\<close> and the class \<open>\s\<close> share.\<close>

definition is_space :: "char \<Rightarrow> bool" where
  "is_space c \<longleftrightarrow> 9 \<le> code c \<and> code c \<le> 13 \<or> 28 \<le> code c \<and> code c \<le> 32 \<or> code c = 133 \<or> code c = 160"

definition to_upper :: "char \<Rightarrow> char" where
  "to_upper c = (if is_lower c then char_of (code c - 32) else c)"

definition to_lower :: "char \<Rightarrow> char" where
  "to_lower c = (if is_upper c then char_of (code c + 32) else c)"

lemmas char_class_defs = is_upper_def is_lower_def is_digit_def is_alnum_def is_space_def code_def

lemma code_to_lower: "code (to_lower c) = (if is_upper c then code c + 32 else code c)"
  by (simp add: to_lower_def char_class_defs)

lemma code_to_upper: "code (to_upper c) = (if is_lower c then code c - 32 else code c)"
proof (cases "is_lower c")
  case True
  then have "code c - 32 < 256" by (auto simp: is_lower_def)
  with True show ?thesis by (simp add: to_upper_def code_def)
next
  case False
  then show ?thesis by (simp add: to_upper_def)
qed

lemma to_lower_not_upper: "\<not> is_upper (to_lower c)"
  using code_to_lower [of c] by (auto simp: is_upper_def split: if_splits)

lemma to_upper_not_lower: "\<not> is_lower (to_upper c)"
  using code_to_upper [of c] by (auto simp: is_lower_def split: if_splits)

lemma to_lower_idem [simp]: "to_lower (to_lower c) = to_lower c"
  using to_lower_not_upper [of c] by (simp add: to_lower_def [of "to_lower c"])

lemma to_upper_idem [simp]: "to_upper (to_upper c) = to_upper c"
  using to_upper_not_lower [of c] by (simp add: to_upper_def [of "to_upper c"])

lemma is_space_to_upper [simp]: "is_space (to_upper c) = is_space c"
  using code_to_upper [of c] by (auto simp: is_space_def is_lower_def split: if_splits)

lemma is_space_to_lower [simp]: "is_space (to_lower c) = is_space c"
  using code_to_lower [of c] by (auto simp: is_space_def is_upper_def split: if_splits)

lemma is_alnum_to_lower [simp]: "is_alnum (to_lower c) = is_alnum c"
  using code_to_lower [of c]
  by (auto simp: is_alnum_def is_upper_def is_lower_def is_digit_def split: if_splits)

text \<open>
  \<open>str.casefold\<close> on the code points 0 to 255. The micro sign folds to a Greek letter outside
  the range and is left alone.
\<close>

definition casefold_char :: "char \<Rightarrow> string" where
  "casefold_char c =
     (if is_upper c \<or> 192 \<le> code c \<and> code c \<le> 222 \<and> code c \<noteq> 215 then [char_of (code c + 32)]
      else if code c = 223 then ''ss'' else [c])"

section \<open>String methods\<close>

definition casefold :: "string \<Rightarrow> string" where
  "casefold s = concat (map casefold_char s)"

definition lower :: "string \<Rightarrow> string" where
  "lower s = map to_lower s"

definition upper :: "string \<Rightarrow> string" where
  "upper s = map to_upper s"

definition lstrip :: "string \<Rightarrow> string" where
  "lstrip s = dropWhile is_space s"

definition strip :: "string \<Rightarrow> string" where
  "strip s = rev (dropWhile is_space (rev (lstrip s)))"

definition blank :: "string \<Rightarrow> bool" where
  "blank s \<longleftrightarrow> strip s = []"

definition replace_char :: "char \<Rightarrow> char \<Rightarrow> string \<Rightarrow> string" where
  "replace_char a b s = map (\<lambda>c. if c = a then b else c) s"

fun starts_with :: "string \<Rightarrow> string \<Rightarrow> bool" where
  "starts_with s [] = True"
| "starts_with [] (p # ps) = False"
| "starts_with (c # s) (p # ps) = (c = p \<and> starts_with s ps)"

definition ends_with :: "string \<Rightarrow> string \<Rightarrow> bool" where
  "ends_with s p = starts_with (rev s) (rev p)"

text \<open>\<open>p in s\<close> on strings.\<close>

fun contains :: "string \<Rightarrow> string \<Rightarrow> bool" where
  "contains [] p = (p = [])"
| "contains (c # s) p = (starts_with (c # s) p \<or> contains s p)"

text \<open>\<open>s.split()\<close>: the maximal runs of characters that are not white space.\<close>

fun words_aux :: "string \<Rightarrow> string \<Rightarrow> string list" where
  "words_aux cur [] = (if cur = [] then [] else [rev cur])"
| "words_aux cur (c # s) =
     (if is_space c then (if cur = [] then words_aux [] s else rev cur # words_aux [] s)
      else words_aux (c # cur) s)"

definition split_words :: "string \<Rightarrow> string list" where
  "split_words s = words_aux [] s"

fun join :: "string \<Rightarrow> string list \<Rightarrow> string" where
  "join sep [] = []"
| "join sep [w] = w"
| "join sep (w # v # ws) = w @ sep @ join sep (v # ws)"

text \<open>The text before and after the first occurrence of a marker.\<close>

fun split_once :: "string \<Rightarrow> string \<Rightarrow> (string \<times> string) option" where
  "split_once p [] = (if p = [] then Some ([], []) else None)"
| "split_once p (c # s) =
     (if starts_with (c # s) p then Some ([], drop (length p) (c # s))
      else map_option (\<lambda>(a, b). (c # a, b)) (split_once p s))"

text \<open>\<open>s.split(sep, 1)[0]\<close> for a one-character separator.\<close>

definition before_char :: "char \<Rightarrow> string \<Rightarrow> string" where
  "before_char c s = takeWhile (\<lambda>d. d \<noteq> c) s"

text \<open>\<open>s[-n:]\<close> for a positive \<open>n\<close>.\<close>

definition last_chars :: "nat \<Rightarrow> string \<Rightarrow> string" where
  "last_chars n s = drop (length s - n) s"

text \<open>Decimal digits, as \<open>str\<close> prints an integer.\<close>

fun nat_digits :: "nat \<Rightarrow> string" where
  "nat_digits n = (if n < 10 then [char_of (48 + n)] else nat_digits (n div 10) @ [char_of (48 + n mod 10)])"

declare nat_digits.simps [simp del]

definition str_int :: "int \<Rightarrow> string" where
  "str_int i = (if i < 0 then CHR ''-'' # nat_digits (nat (- i)) else nat_digits (nat i))"

lemma length_last_chars: "length (last_chars n s) = min n (length s)"
  by (simp add: last_chars_def)

lemma lower_idem [simp]: "lower (lower s) = lower s"
  by (simp add: lower_def)

lemma upper_idem [simp]: "upper (upper s) = upper s"
  by (simp add: upper_def)

lemma starts_with_iff: "starts_with s p \<longleftrightarrow> (\<exists>r. s = p @ r)"
  by (induction s p rule: starts_with.induct) auto

lemma starts_with_append [simp]: "starts_with (p @ r) p"
  by (auto simp: starts_with_iff)

lemma contains_iff: "contains s p \<longleftrightarrow> (\<exists>u v. s = u @ p @ v)"
proof (induction s)
  case Nil
  show ?case by auto
next
  case (Cons c s)
  show ?case (is "?l \<longleftrightarrow> ?r")
  proof
    assume ?l
    then consider "starts_with (c # s) p" | "contains s p" by auto
    then show ?r
    proof cases
      case 1
      then obtain r where "c # s = [] @ p @ r" by (auto simp: starts_with_iff)
      then show ?thesis by blast
    next
      case 2
      then obtain u v where "s = u @ p @ v" using Cons.IH by blast
      then have "c # s = (c # u) @ p @ v" by simp
      then show ?thesis by blast
    qed
  next
    assume ?r
    then obtain u v where uv: "c # s = u @ p @ v" by blast
    show ?l
    proof (cases u)
      case Nil
      with uv have "starts_with (c # s) p" by (metis append_Nil starts_with_append)
      then show ?thesis by simp
    next
      case (Cons d u')
      with uv have "s = u' @ p @ v" by simp
      with Cons.IH show ?thesis by auto
    qed
  qed
qed

lemma strip_split: "\<exists>u. lstrip s = strip s @ u"
proof -
  obtain u where "rev (lstrip s) = u @ dropWhile is_space (rev (lstrip s))"
    by (metis takeWhile_dropWhile_id)
  then have "rev (rev (lstrip s)) = rev (u @ dropWhile is_space (rev (lstrip s)))" by (rule arg_cong)
  then have "lstrip s = strip s @ rev u" by (simp add: strip_def)
  then show ?thesis ..
qed

lemma strip_no_space_ends:
  assumes ne: "strip s \<noteq> []"
  shows "\<not> is_space (hd (strip s)) \<and> \<not> is_space (last (strip s))"
proof
  obtain u where u: "lstrip s = strip s @ u" using strip_split by blast
  then have "dropWhile is_space s \<noteq> []" using ne by (auto simp: lstrip_def)
  then have "\<not> is_space (hd (lstrip s))" unfolding lstrip_def by (rule hd_dropWhile)
  with u ne show "\<not> is_space (hd (strip s))" by simp
next
  from ne have "dropWhile is_space (rev (lstrip s)) \<noteq> []" by (simp add: strip_def)
  then have "\<not> is_space (hd (dropWhile is_space (rev (lstrip s))))" by (rule hd_dropWhile)
  then show "\<not> is_space (last (strip s))" using ne by (simp add: strip_def last_rev)
qed

lemma strip_id: "s = [] \<or> (\<not> is_space (hd s) \<and> \<not> is_space (last s)) \<Longrightarrow> strip s = s"
  by (cases "s = []") (simp_all add: strip_def lstrip_def dropWhile_eq_self_iff [THEN iffD2] hd_rev)

lemma strip_idem [simp]: "strip (strip s) = strip s"
  by (rule strip_id) (use strip_no_space_ends [of s] in auto)

lemma set_strip: "set (strip s) \<subseteq> set s"
  by (auto simp: strip_def lstrip_def dest!: set_dropWhileD)

lemma strip_upper: "strip (upper s) = upper (strip s)"
  by (simp add: strip_def lstrip_def upper_def dropWhile_map rev_map comp_def)

lemma words_aux_words:
  "(\<forall>c\<in>set cur. \<not> is_space c) \<Longrightarrow> w \<in> set (words_aux cur s) \<Longrightarrow> w \<noteq> [] \<and> (\<forall>c\<in>set w. \<not> is_space c)"
proof (induction s arbitrary: cur)
  case Nil
  then show ?case by (auto split: if_splits)
next
  case (Cons c s)
  show ?case
  proof (cases "is_space c")
    case True
    with Cons.prems consider "cur \<noteq> []" "w = rev cur" | "w \<in> set (words_aux [] s)"
      by (auto split: if_splits)
    then show ?thesis
    proof cases
      case 1
      with Cons.prems(1) show ?thesis by auto
    next
      case 2
      then show ?thesis by (intro Cons.IH [of "[]"]) auto
    qed
  next
    case False
    with Cons.prems show ?thesis by (intro Cons.IH [of "c # cur"]) auto
  qed
qed

lemma split_words_words:
  "w \<in> set (split_words s) \<Longrightarrow> w \<noteq> [] \<and> (\<forall>c\<in>set w. \<not> is_space c)"
  unfolding split_words_def by (rule words_aux_words) auto

lemma words_aux_word:
  "(\<forall>c\<in>set w. \<not> is_space c) \<Longrightarrow> words_aux cur (w @ s) = words_aux (rev w @ cur) s"
  by (induction w arbitrary: cur) auto

lemma is_space_blank: "is_space CHR '' ''"
  by (simp add: char_class_defs)

lemma split_words_join:
  "(\<forall>w\<in>set ws. w \<noteq> [] \<and> (\<forall>c\<in>set w. \<not> is_space c)) \<Longrightarrow> split_words (join '' '' ws) = ws"
proof (induction ws rule: induct_list012)
  case 1
  show ?case by (simp add: split_words_def)
next
  case (2 w)
  then show ?case using words_aux_word [of w "[]" "[]"] by (simp add: split_words_def)
next
  case (3 w v ws)
  then have "words_aux [] (w @ '' '' @ join '' '' (v # ws)) = w # words_aux [] (join '' '' (v # ws))"
    by (subst words_aux_word) (auto simp: is_space_blank)
  with 3 show ?case by (simp add: split_words_def)
qed

lemma join_split_words_idem:
  "join '' '' (split_words (join '' '' (split_words s))) = join '' '' (split_words s)"
  using split_words_words [of _ s] by (subst split_words_join) auto

lemma nat_digits_ne [simp]: "nat_digits n \<noteq> []"
  by (subst nat_digits.simps) simp

section \<open>Regular expressions\<close>

text \<open>
  \<open>Sat P\<close> is a character class, \<open>WordB\<close> is \<open>\b\<close>, \<open>NotAfter P\<close> and \<open>NotBefore P\<close> are
  the one-character negative look-behind and look-ahead. \<open>rx_ends r w i\<close> lists the positions
  where a match of \<open>r\<close> that starts at \<open>i\<close> can end; an iteration of a star must consume at
  least one character, so \<open>length w + 1\<close> rounds reach every end.
\<close>

datatype rx =
    Sat "char \<Rightarrow> bool"
  | Eps
  | WordB
  | NotAfter "char \<Rightarrow> bool"
  | NotBefore "char \<Rightarrow> bool"
  | Cat rx rx
  | Alt rx rx
  | Star rx

definition is_word :: "char \<Rightarrow> bool" where
  "is_word c \<longleftrightarrow> uni_alnum c \<or> c = CHR ''_''"

definition word_at :: "string \<Rightarrow> nat \<Rightarrow> bool" where
  "word_at w i \<longleftrightarrow> i < length w \<and> is_word (w ! i)"

definition word_boundary :: "string \<Rightarrow> nat \<Rightarrow> bool" where
  "word_boundary w i \<longleftrightarrow> (0 < i \<and> word_at w (i - 1)) \<noteq> word_at w i"

fun star_ends :: "nat \<Rightarrow> (nat \<Rightarrow> nat list) \<Rightarrow> nat \<Rightarrow> nat list" where
  "star_ends 0 f i = [i]"
| "star_ends (Suc n) f i = remdups (i # concat (map (star_ends n f) (filter (\<lambda>j. i < j) (f i))))"

fun rx_ends :: "rx \<Rightarrow> string \<Rightarrow> nat \<Rightarrow> nat list" where
  "rx_ends (Sat P) w i = (if i < length w \<and> P (w ! i) then [Suc i] else [])"
| "rx_ends Eps w i = [i]"
| "rx_ends WordB w i = (if word_boundary w i then [i] else [])"
| "rx_ends (NotAfter P) w i = (if 0 < i \<and> i \<le> length w \<and> P (w ! (i - 1)) then [] else [i])"
| "rx_ends (NotBefore P) w i = (if i < length w \<and> P (w ! i) then [] else [i])"
| "rx_ends (Cat r s) w i = remdups (concat (map (rx_ends s w) (rx_ends r w i)))"
| "rx_ends (Alt r s) w i = remdups (rx_ends r w i @ rx_ends s w i)"
| "rx_ends (Star r) w i = star_ends (Suc (length w)) (rx_ends r w) i"

definition rx_search :: "rx \<Rightarrow> string \<Rightarrow> bool" where
  "rx_search r w = list_ex (\<lambda>i. rx_ends r w i \<noteq> []) [0..<Suc (length w)]"

definition rx_full :: "rx \<Rightarrow> string \<Rightarrow> bool" where
  "rx_full r w = (length w \<in> set (rx_ends r w 0))"

fun lit :: "string \<Rightarrow> rx" where
  "lit [] = Eps"
| "lit [c] = Sat (\<lambda>d. d = c)"
| "lit (c # d # s) = Cat (Sat (\<lambda>d. d = c)) (lit (d # s))"

text \<open>A literal under \<open>(?i)\<close>; write it in lower case.\<close>

fun lit_i :: "string \<Rightarrow> rx" where
  "lit_i [] = Eps"
| "lit_i [c] = Sat (\<lambda>d. to_lower d = c)"
| "lit_i (c # d # s) = Cat (Sat (\<lambda>d. to_lower d = c)) (lit_i (d # s))"

fun alts :: "rx list \<Rightarrow> rx" where
  "alts [] = NotBefore (\<lambda>c. True)"
| "alts [r] = r"
| "alts (r # s # rs) = Alt r (alts (s # rs))"

fun seqs :: "rx list \<Rightarrow> rx" where
  "seqs [] = Eps"
| "seqs [r] = r"
| "seqs (r # s # rs) = Cat r (seqs (s # rs))"

definition opt :: "rx \<Rightarrow> rx" where
  "opt r = Alt r Eps"

definition plus :: "rx \<Rightarrow> rx" where
  "plus r = Cat r (Star r)"

fun times :: "nat \<Rightarrow> rx \<Rightarrow> rx" where
  "times 0 r = Eps"
| "times (Suc n) r = Cat r (times n r)"

section \<open>Exceptions as text\<close>

text \<open>\<open>type(exc).__name__\<close> and \<open>str(exc)\<close>\<close>

fun exn_name :: "exn \<Rightarrow> string" where
  "exn_name (ValueError m) = ''ValueError''"
| "exn_name (PolicyResolutionError m) = ''PolicyResolutionError''"
| "exn_name (DuplicateDispatchError m) = ''DuplicateDispatchError''"
| "exn_name (NotReadyError m) = ''NotReadyError''"
| "exn_name (RegistryCorruption m n) = ''RunRegistryCorruptionError''"
| "exn_name (TypeError m) = ''TypeError''"
| "exn_name (KeyError m) = ''KeyError''"
| "exn_name (AttributeError m) = ''AttributeError''"
| "exn_name (AuthBrokerError m) = ''AuthBrokerError''"
| "exn_name (IntegrityError m) = ''IntegrityError''"
| "exn_name (AdapterError m) = ''AdapterError''"
| "exn_name (TransportError m) = ''TransportError''"
| "exn_name (GatewayContractError m c) = ''GatewayContractError''"
| "exn_name (SessionBindingError m) = ''SessionBindingError''"
| "exn_name (IdempotencyConflict m) = ''IdempotencyConflict''"
| "exn_name TimeoutError = ''TimeoutError''"
| "exn_name (Raised c m) = c"

fun exn_text :: "exn \<Rightarrow> string" where
  "exn_text (ValueError m) = m"
| "exn_text (PolicyResolutionError m) = m"
| "exn_text (DuplicateDispatchError m) = m"
| "exn_text (NotReadyError m) = m"
| "exn_text (RegistryCorruption m n) = m @ '':line='' @ str_int (int n)"
| "exn_text (TypeError m) = m"
| "exn_text (KeyError m) = CHR 0x27 # m @ [CHR 0x27]"
| "exn_text (AttributeError m) = m"
| "exn_text (AuthBrokerError m) = m"
| "exn_text (IntegrityError m) = m"
| "exn_text (AdapterError m) = m"
| "exn_text (TransportError m) = m"
| "exn_text (GatewayContractError m c) = m"
| "exn_text (SessionBindingError m) = m"
| "exn_text (IdempotencyConflict m) = m"
| "exn_text TimeoutError = []"
| "exn_text (Raised c m) = m"

end
