(* ===== verification/PyVal.thy ===== *)
theory PyVal
  imports PyText "HOL-Library.List_Lexorder"
begin

text \<open>
  Python values as the code receives them from JSON and from its callers, dictionary access, and
  \<open>json.dumps\<close> in the compact, key-sorted form every digest of the code is taken of.
  A dictionary is an association list in insertion order whose keys are strings, as in decoded
  JSON. \<open>POther t\<close> stands for any value that JSON cannot hold; \<open>t\<close> is its type name.
  The cryptographic primitives and the printing of floats come with the record \<open>std\<close>, an
  argument of every definition that uses them.
\<close>

section \<open>Values\<close>

datatype pyval =
    PNone
  | PBool bool
  | PInt int
  | PFloat rat
  | PStr string
  | PList "pyval list"
  | PTuple "pyval list"
  | PDict "(string \<times> pyval) list"
  | POther string

type_synonym pydict = "(string \<times> pyval) list"

fun truthy :: "pyval \<Rightarrow> bool" where
  "truthy PNone = False"
| "truthy (PBool b) = b"
| "truthy (PInt i) = (i \<noteq> 0)"
| "truthy (PFloat x) = (x \<noteq> 0)"
| "truthy (PStr s) = (s \<noteq> [])"
| "truthy (PList xs) = (xs \<noteq> [])"
| "truthy (PTuple xs) = (xs \<noteq> [])"
| "truthy (PDict d) = (d \<noteq> [])"
| "truthy (POther t) = True"

text \<open>\<open>a or b\<close>.\<close>

definition por :: "pyval \<Rightarrow> pyval \<Rightarrow> pyval" where
  "por a b = (if truthy a then a else b)"

text \<open>\<open>d.get(k)\<close> and \<open>d.get(k, v)\<close>.\<close>

definition dget :: "pydict \<Rightarrow> string \<Rightarrow> pyval" where
  "dget d k = (case map_of d k of Some v \<Rightarrow> v | None \<Rightarrow> PNone)"

definition dget_or :: "pydict \<Rightarrow> string \<Rightarrow> pyval \<Rightarrow> pyval" where
  "dget_or d k v = (case map_of d k of Some w \<Rightarrow> w | None \<Rightarrow> v)"

definition dhas :: "pydict \<Rightarrow> string \<Rightarrow> bool" where
  "dhas d k = (k \<in> set (map fst d))"

fun as_dict :: "pyval \<Rightarrow> pydict option" where
  "as_dict (PDict d) = Some d"
| "as_dict _ = None"

fun as_list :: "pyval \<Rightarrow> pyval list option" where
  "as_list (PList xs) = Some xs"
| "as_list _ = None"

fun as_str :: "pyval \<Rightarrow> string option" where
  "as_str (PStr s) = Some s"
| "as_str _ = None"

text \<open>
  \<open>isinstance(v, int)\<close> without booleans, and \<open>isinstance(v, (int, float))\<close> without
  booleans, as a number.
\<close>

fun as_int :: "pyval \<Rightarrow> int option" where
  "as_int (PInt i) = Some i"
| "as_int _ = None"

fun as_num :: "pyval \<Rightarrow> rat option" where
  "as_num (PInt i) = Some (of_int i)"
| "as_num (PFloat x) = Some x"
| "as_num _ = None"

text \<open>Only hashable values can be looked up in a set; a list or a dict raises.\<close>

fun hashable :: "pyval \<Rightarrow> bool" where
  "hashable (PList xs) = False"
| "hashable (PDict d) = False"
| "hashable (PTuple xs) = list_all hashable xs"
| "hashable _ = True"

definition in_names :: "pyval \<Rightarrow> string list \<Rightarrow> bool res" where
  "in_names v names =
     need (hashable v) (TypeError ''unhashable type'')
       (Inr (case v of PStr s \<Rightarrow> List.member names s | _ \<Rightarrow> False))"

definition str_list :: "string list \<Rightarrow> pyval" where
  "str_list xs = PList (map PStr xs)"

lemma dget_simps [simp]:
  "dget [] k = PNone" "dget ((k', v) # d) k = (if k' = k then v else dget d k)"
  by (simp_all add: dget_def)

lemma dget_or_simps [simp]:
  "dget_or [] k u = u" "dget_or ((k', v) # d) k u = (if k' = k then v else dget_or d k u)"
  by (simp_all add: dget_or_def)

lemma as_dict_Some_iff [simp]: "as_dict v = Some d \<longleftrightarrow> v = PDict d"
  by (cases v) auto

lemma as_list_Some_iff [simp]: "as_list v = Some xs \<longleftrightarrow> v = PList xs"
  by (cases v) auto

lemma as_str_Some_iff [simp]: "as_str v = Some s \<longleftrightarrow> v = PStr s"
  by (cases v) auto

lemma as_int_Some_iff [simp]: "as_int v = Some i \<longleftrightarrow> v = PInt i"
  by (cases v) auto

section \<open>Compact JSON\<close>

definition hex_digit :: "nat \<Rightarrow> char" where
  "hex_digit n = (if n < 10 then char_of (48 + n) else char_of (87 + n))"

text \<open>One character of a JSON string; \<open>ea\<close> is \<open>ensure_ascii\<close>.\<close>

definition json_char :: "bool \<Rightarrow> char \<Rightarrow> string" where
  "json_char ea c =
     (if c = CHR 0x22 then [CHR 0x5C, CHR 0x22]
      else if c = CHR 0x5C then [CHR 0x5C, CHR 0x5C]
      else if c = CHR 0x0A then [CHR 0x5C, CHR ''n'']
      else if c = CHR 0x0D then [CHR 0x5C, CHR ''r'']
      else if c = CHR 0x09 then [CHR 0x5C, CHR ''t'']
      else if c = CHR 0x08 then [CHR 0x5C, CHR ''b'']
      else if c = CHR 0x0C then [CHR 0x5C, CHR ''f'']
      else if code c < 32 \<or> (ea \<and> 126 < code c)
        then [CHR 0x5C, CHR ''u'', CHR ''0'', CHR ''0'', hex_digit (code c div 16), hex_digit (code c mod 16)]
      else [c])"

definition json_str :: "bool \<Rightarrow> string \<Rightarrow> string" where
  "json_str ea s = CHR 0x22 # concat (map (json_char ea) s) @ [CHR 0x22]"

fun jdump :: "(rat \<Rightarrow> string) \<Rightarrow> bool \<Rightarrow> pyval \<Rightarrow> string" where
  "jdump fr ea PNone = ''null''"
| "jdump fr ea (PBool b) = (if b then ''true'' else ''false'')"
| "jdump fr ea (PInt i) = str_int i"
| "jdump fr ea (PFloat x) = fr x"
| "jdump fr ea (PStr s) = json_str ea s"
| "jdump fr ea (PList vs) = CHR ''['' # join '','' (map (jdump fr ea) vs) @ '']''"
| "jdump fr ea (PTuple vs) = CHR ''['' # join '','' (map (jdump fr ea) vs) @ '']''"
| "jdump fr ea (PDict d) =
     CHR ''{'' # join '','' (map (\<lambda>(k, s). json_str ea k @ '':'' @ s)
       (sort_key fst (map (\<lambda>(k, v). (k, jdump fr ea v)) d))) @ ''}''"
| "jdump fr ea (POther t) = []"

text \<open>\<open>json.dumps(v, ensure_ascii=ea, sort_keys=True)\<close>, with the blanks of the default separators.\<close>

fun jdump_wide :: "(rat \<Rightarrow> string) \<Rightarrow> bool \<Rightarrow> pyval \<Rightarrow> string" where
  "jdump_wide fr ea (PList vs) = CHR ''['' # join '', '' (map (jdump_wide fr ea) vs) @ '']''"
| "jdump_wide fr ea (PTuple vs) = CHR ''['' # join '', '' (map (jdump_wide fr ea) vs) @ '']''"
| "jdump_wide fr ea (PDict d) =
     CHR ''{'' # join '', '' (map (\<lambda>(k, s). json_str ea k @ '': '' @ s)
       (sort_key fst (map (\<lambda>(k, v). (k, jdump_wide fr ea v)) d))) @ ''}''"
| "jdump_wide fr ea v = jdump fr ea v"

fun jsonable :: "pyval \<Rightarrow> bool" where
  "jsonable (PList vs) = list_all jsonable vs"
| "jsonable (PTuple vs) = list_all jsonable vs"
| "jsonable (PDict d) = list_all (\<lambda>(k, v). jsonable v) d"
| "jsonable (POther t) = False"
| "jsonable _ = True"

text \<open>\<open>json.dumps(v, ensure_ascii=ea, sort_keys=True, separators=(",", ":"))\<close>\<close>

definition dumps :: "(rat \<Rightarrow> string) \<Rightarrow> bool \<Rightarrow> pyval \<Rightarrow> string res" where
  "dumps fr ea v = need (jsonable v) (TypeError ''not JSON serializable'') (Inr (jdump fr ea v))"

text \<open>The standard-library primitives the code applies to strings.\<close>

record std =
  sha256 :: "string \<Rightarrow> string"
  hmac_sha256 :: "string \<Rightarrow> string \<Rightarrow> string"
  float_repr :: "rat \<Rightarrow> string"
  other_str :: "pyval \<Rightarrow> string"

text \<open>\<open>str(v)\<close>; the text of a value that is not a string comes from the record.\<close>

definition str_of :: "std \<Rightarrow> pyval \<Rightarrow> string" where
  "str_of S v = (case v of PStr s \<Rightarrow> s | _ \<Rightarrow> other_str S v)"

text \<open>
  Two instances for the witnesses: the identity as digest, and a digest that is always ASCII text.
\<close>

definition plain_std :: std where
  "plain_std = \<lparr>sha256 = (\<lambda>s. s), hmac_sha256 = (\<lambda>k s. k @ s), float_repr = (\<lambda>x. ''0.0''),
     other_str = (\<lambda>v. ''<value>'')\<rparr>"

definition ascii_std :: std where
  "ascii_std = plain_std\<lparr>sha256 := map (\<lambda>c. char_of (code c mod 128))\<rparr>"

section \<open>Reading values\<close>

text \<open>\<open>str(v or "")\<close>, and numbers with booleans among them.\<close>

definition text_or :: "std \<Rightarrow> pyval \<Rightarrow> string" where
  "text_or S v = (if truthy v then str_of S v else [])"

definition named_or :: "std \<Rightarrow> string \<Rightarrow> pyval \<Rightarrow> string" where
  "named_or S s v = (if truthy v then str_of S v else s)"

fun real_of :: "pyval \<Rightarrow> rat option" where
  "real_of (PInt i) = Some (of_int i)"
| "real_of (PFloat x) = Some x"
| "real_of (PBool b) = Some (if b then 1 else 0)"
| "real_of v = None"

fun int_of :: "pyval \<Rightarrow> int option" where
  "int_of (PInt i) = Some i"
| "int_of (PBool b) = Some (if b then 1 else 0)"
| "int_of v = None"

text \<open>\<open>int(x)\<close> of a number cuts towards zero.\<close>

definition truncated :: "rat \<Rightarrow> int" where
  "truncated x = (if x < 0 then - \<lfloor>- x\<rfloor> else \<lfloor>x\<rfloor>)"

definition dict_or_empty :: "pyval \<Rightarrow> pydict" where
  "dict_or_empty v = (case as_dict v of None \<Rightarrow> [] | Some d \<Rightarrow> d)"

text \<open>What a \<open>for\<close> loop over a value sees.\<close>

fun py_items :: "pyval \<Rightarrow> pyval list res" where
  "py_items (PList vs) = Inr vs"
| "py_items (PTuple vs) = Inr vs"
| "py_items (PStr s) = Inr (map (\<lambda>c. PStr [c]) s)"
| "py_items (PDict d) = Inr (map (PStr \<circ> fst) d)"
| "py_items v = Inl (TypeError ''object is not iterable'')"

section \<open>The JSON text determines the value\<close>

text \<open>Texts that can be read off the front of a longer text.\<close>

lemma hex_digit_inj: "m < 16 \<Longrightarrow> n < 16 \<Longrightarrow> hex_digit m = hex_digit n \<Longrightarrow> m = n"
  by (auto simp: hex_digit_def split: if_splits dest!: arg_cong [of "char_of _" "char_of _" "of_char :: char \<Rightarrow> nat"])

lemma code_inj: "code c = code d \<longleftrightarrow> c = d"
  by (simp add: code_def)

lemma code_less: "code c < 256"
  by (simp add: code_def)

lemma json_char_hd: "json_char ea c \<noteq> [] \<and> hd (json_char ea c) \<noteq> CHR 0x22"
  by (simp add: json_char_def)

lemma json_char_prefix:
  assumes "json_char ea c @ r = json_char ea d @ r'" shows "c = d \<and> r = r'"
proof -
  have hex: "c = d" if "hex_digit (code c div 16) = hex_digit (code d div 16)" "hex_digit (code c mod 16) = hex_digit (code d mod 16)"
  proof -
    have "code c div 16 < 16" "code d div 16 < 16" using code_less [of c] code_less [of d] by auto
    then have "code c div 16 = code d div 16" "code c mod 16 = code d mod 16"
      using that by (auto intro: hex_digit_inj)
    then have "code c = code d" by (metis div_mult_mod_eq)
    then show ?thesis by (simp add: code_inj)
  qed
  show ?thesis
    using assms by (auto simp: json_char_def split: if_splits dest: hex)
qed

lemma json_str_prefix:
  assumes "json_str ea s @ r = json_str ea s' @ r'" shows "s = s' \<and> r = r'"
proof -
  have "concat (map (json_char ea) s) @ CHR 0x22 # r = concat (map (json_char ea) s') @ CHR 0x22 # r' \<Longrightarrow> s = s' \<and> r = r'"
  proof (induction s arbitrary: s')
    case Nil
    then show ?case
    proof (cases s')
      case (Cons d s'')
      from Nil Cons have "hd (json_char ea d @ concat (map (json_char ea) s'') @ CHR 0x22 # r') = CHR 0x22"
        by (metis append.left_neutral append_assoc concat.simps list.sel(1) list.simps(8,9))
      with json_char_hd [of ea d] show ?thesis by simp
    qed simp
  next
    case (Cons c s)
    show ?case
    proof (cases s')
      case Nil
      with Cons.prems json_char_hd [of ea c] show ?thesis by (auto dest: arg_cong [of _ _ hd])
    next
      case (Cons d s'')
      with Cons.prems have eq: "json_char ea c @ concat (map (json_char ea) s) @ CHR 0x22 # r =
          json_char ea d @ concat (map (json_char ea) s'') @ CHR 0x22 # r'" by simp
      from json_char_prefix [OF this] have "c = d"
        "concat (map (json_char ea) s) @ CHR 0x22 # r = concat (map (json_char ea) s'') @ CHR 0x22 # r'" by blast+
      with Cons.IH [of s''] Cons show ?thesis by simp
    qed
  qed
  with assms show ?thesis by (simp add: json_str_def)
qed

lemma json_str_inj [simp]: "json_str ea s = json_str ea s' \<longleftrightarrow> s = s'"
  using json_str_prefix [of ea s "[]" s' "[]"] by auto

lemma nat_digits_set: "c \<in> set (nat_digits n) \<Longrightarrow> is_digit c"
proof (induction n rule: nat_digits.induct)
  case (1 n)
  have d: "is_digit (char_of (48 + k))" if "k < 10" for k :: nat
    using that by (simp add: is_digit_def code_def)
  from 1 d [of n] d [of "n mod 10"] show ?case by (subst (asm) nat_digits.simps) (auto split: if_splits)
qed

lemma digit_char_inj: "m < 10 \<Longrightarrow> n < 10 \<Longrightarrow> (char_of (48 + m) :: char) = char_of (48 + n) \<Longrightarrow> m = (n :: nat)"
  by (auto dest!: arg_cong [of "char_of _" "char_of _" "of_char :: char \<Rightarrow> nat"])

lemma nat_digits_inj: "nat_digits m = nat_digits n \<Longrightarrow> m = n"
proof (induction m arbitrary: n rule: nat_digits.induct)
  case (1 m)
  have last: "last (nat_digits k) = char_of (48 + k mod 10)" for k by (subst nat_digits.simps) simp
  have but: "butlast (nat_digits k) = (if k < 10 then [] else nat_digits (k div 10))" for k
    by (subst nat_digits.simps) simp
  from "1.prems" last [of m] last [of n] have mod: "m mod 10 = n mod 10" by (intro digit_char_inj) auto
  from arg_cong [OF "1.prems", of butlast] have b: "(if m < 10 then [] else nat_digits (m div 10)) = (if n < 10 then [] else nat_digits (n div 10))"
    by (simp add: but)
  show ?case
  proof (cases "m < 10")
    case True
    with b nat_digits_ne [of "n div 10"] have "n < 10" by (metis (full_types))
    with True mod show ?thesis by simp
  next
    case False
    with b nat_digits_ne [of "m div 10"] have "nat_digits (m div 10) = nat_digits (n div 10)" by (metis (full_types))
    with 1 False have "m div 10 = n div 10" by blast
    with mod show ?thesis by (metis div_mult_mod_eq)
  qed
qed

lemma str_int_prefix:
  assumes "str_int i @ CHR '','' # r = str_int j @ CHR '','' # r'" shows "i = j \<and> r = r'"
proof -
  have digits: "CHR '','' \<notin> set (nat_digits n)" "CHR ''-'' \<notin> set (nat_digits n)" for n
    by (auto dest!: nat_digits_set simp: char_class_defs)
  have no: "CHR '','' \<notin> set (str_int k)" for k using digits by (auto simp: str_int_def)
  have "takeWhile (\<lambda>c. c \<noteq> CHR '','') (str_int k @ CHR '','' # q) = str_int k" for k q
    using no [of k] by (subst takeWhile_append2) auto
  with assms have eq: "str_int i = str_int j" by metis
  have hd: "hd (nat_digits n) \<noteq> CHR ''-''" for n using digits(2) [of n] by (metis hd_in_set nat_digits_ne)
  have no_sign: "CHR ''-'' # ds \<noteq> nat_digits n" for ds n using hd [of n] by (metis list.sel(1))
  have "i = j"
    using eq no_sign no_sign [symmetric] by (auto simp: str_int_def split: if_splits dest!: nat_digits_inj)
  with assms show ?thesis by simp
qed

end
