(* ===== verification/RunLog.thy ===== *)
theory RunLog
  imports PyVal
begin

text \<open>
  The registry file under \<^verbatim>\<open>RunRegistry\<close> in \<^verbatim>\<open>plachem_fast_gateway/core_engine.py\<close>: \<^verbatim>\<open>_append\<close> writes a record
  as one line of JSON without ASCII escapes, \<^verbatim>\<open>_records\<close> splits the file into lines and decodes each.
  \<open>json.loads\<close> is the argument \<open>loads\<close>; it yields nothing where the function raises.
\<close>

section \<open>Writing and reading the file\<close>

definition payload :: "(rat \<Rightarrow> string) \<Rightarrow> pydict \<Rightarrow> string" where
  "payload fr d = jdump fr False (PDict d) @ [CHR 0x0A]"

text \<open>Reading in text mode turns every line end into a newline.\<close>

fun universal_newlines :: "string \<Rightarrow> string" where
  "universal_newlines [] = []"
| "universal_newlines [c] = [if c = CHR 0x0D then CHR 0x0A else c]"
| "universal_newlines (c # d # s) =
     (if c = CHR 0x0D then CHR 0x0A # (if d = CHR 0x0A then universal_newlines s else universal_newlines (d # s))
      else c # universal_newlines (d # s))"

text \<open>The characters at which \<open>str.splitlines\<close> breaks a line.\<close>

definition line_break :: "char \<Rightarrow> bool" where
  "line_break c \<longleftrightarrow> code c \<in> {10, 11, 12, 13, 28, 29, 30, 133}"

fun splitlines_keep :: "string \<Rightarrow> string \<Rightarrow> string list" where
  "splitlines_keep cur [] = (if cur = [] then [] else [rev cur])"
| "splitlines_keep cur (c # s) =
     (if line_break c then rev (c # cur) # splitlines_keep [] s else splitlines_keep (c # cur) s)"

definition rstrip_newlines :: "string \<Rightarrow> string" where
  "rstrip_newlines s = rev (dropWhile (\<lambda>c. c = CHR 0x0A \<or> c = CHR 0x0D) (rev s))"

definition ends_in_newline :: "string \<Rightarrow> bool" where
  "ends_in_newline s \<longleftrightarrow> s \<noteq> [] \<and> (last s = CHR 0x0A \<or> last s = CHR 0x0D)"

fun parse_lines :: "(string \<Rightarrow> pyval option) \<Rightarrow> nat \<Rightarrow> nat \<Rightarrow> string list \<Rightarrow> pydict list res" where
  "parse_lines loads n count [] = Inr []"
| "parse_lines loads n count (raw # lines) =
     (let line = rstrip_newlines raw in
      if blank line then parse_lines loads (Suc n) count lines
      else (case loads line of
          None \<Rightarrow> Inl (RegistryCorruption
            (if n = count \<and> \<not> ends_in_newline raw then ''TRUNCATED_RUN_REGISTRY_TAIL'' else ''MALFORMED_RUN_REGISTRY'') n)
        | Some v \<Rightarrow> (case as_dict v of
            None \<Rightarrow> Inl (RegistryCorruption ''MALFORMED_RUN_REGISTRY'' n)
          | Some d \<Rightarrow> rbind (parse_lines loads (Suc n) count lines) (\<lambda>ds. Inr (d # ds)))))"

definition read_records :: "(string \<Rightarrow> pyval option) \<Rightarrow> string \<Rightarrow> pydict list res" where
  "read_records loads file =
     (let lines = splitlines_keep [] (universal_newlines file) in parse_lines loads 1 (length lines) lines)"

section \<open>Printed JSON and line ends\<close>

lemma char_eq_iff_code: "c = d \<longleftrightarrow> code c = code d"
  by (simp add: code_inj)

lemma hex_digit_code: "n < 16 \<Longrightarrow> 48 \<le> code (hex_digit n) \<and> code (hex_digit n) \<le> 102"
  by (auto simp: hex_digit_def code_def)

lemma json_char_no_control: "d \<in> set (json_char ea c) \<Longrightarrow> 32 \<le> code d"
proof -
  assume "d \<in> set (json_char ea c)"
  moreover have "code c div 16 < 16" using code_less [of c] by auto
  ultimately show ?thesis
    using hex_digit_code [of "code c div 16"] hex_digit_code [of "code c mod 16"]
    by (auto simp: json_char_def code_def split: if_splits)
qed

lemma json_str_no_control: "d \<in> set (json_str ea s) \<Longrightarrow> 32 \<le> code d"
  using json_char_no_control by (auto simp: json_str_def code_def)

lemma str_int_no_control: "d \<in> set (str_int i) \<Longrightarrow> 32 \<le> code d"
  by (auto simp: str_int_def is_digit_def code_def dest!: nat_digits_set split: if_splits)

lemma set_join: "set (join sep ws) \<subseteq> set sep \<union> (\<Union>w\<in>set ws. set w)"
  by (induction sep ws rule: join.induct) auto

lemma join_no_control:
  "\<forall>d\<in>set sep. 32 \<le> code d \<Longrightarrow> \<forall>w\<in>set ws. \<forall>d\<in>set w. 32 \<le> code d \<Longrightarrow> d \<in> set (join sep ws) \<Longrightarrow> 32 \<le> code d"
  using set_join [of sep ws] by blast

lemma jdump_no_control:
  "(\<And>x d. d \<in> set (fr x) \<Longrightarrow> 32 \<le> code d) \<Longrightarrow> \<forall>d\<in>set (jdump fr ea v). 32 \<le> code d"
proof (induction v)
  case (PDict d)
  have v: "32 \<le> code c" if "c \<in> set (jdump fr ea v)" "(k, v) \<in> set d" for c k v
    using PDict.IH [of "(k, v)" v] that PDict.prems by auto
  have entry: "\<forall>c\<in>set (json_str ea k @ CHR '':'' # jdump fr ea v). 32 \<le> code c" if "(k, v) \<in> set d" for k v
    using that v by (auto simp: code_def [of "CHR '':''"] dest: json_str_no_control)
  have "32 \<le> code c" if "c \<in> set (join '','' (map (\<lambda>(k, s). json_str ea k @ '':'' @ s)
       (sort_key fst (map (\<lambda>(k, v). (k, jdump fr ea v)) d))))" for c
  proof (rule join_no_control [OF _ _ that])
    show "\<forall>d\<in>set '',''. 32 \<le> code d" by (simp add: code_def)
    show "\<forall>w\<in>set (map (\<lambda>(k, s). json_str ea k @ '':'' @ s) (sort_key fst (map (\<lambda>(k, v). (k, jdump fr ea v)) d))).
        \<forall>d\<in>set w. 32 \<le> code d"
    proof
      fix w assume "w \<in> set (map (\<lambda>(k, s). json_str ea k @ '':'' @ s) (sort_key fst (map (\<lambda>(k, v). (k, jdump fr ea v)) d)))"
      then obtain k v where "(k, v) \<in> set d" "w = json_str ea k @ CHR '':'' # jdump fr ea v" by auto
      with entry show "\<forall>d\<in>set w. 32 \<le> code d" by blast
    qed
  qed
  then show ?case by (auto simp: code_def)
next
  case (PList vs)
  then have "32 \<le> code c" if "c \<in> set (join '','' (map (jdump fr ea) vs))" for c
    using that by (intro join_no_control [OF _ _ that]) (auto simp: code_def)
  then show ?case by (auto simp: code_def)
next
  case (PTuple vs)
  then have "32 \<le> code c" if "c \<in> set (join '','' (map (jdump fr ea) vs))" for c
    using that by (intro join_no_control [OF _ _ that]) (auto simp: code_def)
  then show ?case by (auto simp: code_def)
qed (auto dest: str_int_no_control json_str_no_control simp: code_def)

section \<open>The round trip and its limit\<close>

definition float_text_ok :: "(rat \<Rightarrow> string) \<Rightarrow> bool" where
  "float_text_ok fr \<longleftrightarrow> (\<forall>x. \<forall>d\<in>set (fr x). 32 \<le> code d)"

text \<open>The printed line holds no next-line character (U+0085), the one line break that JSON leaves unescaped.\<close>

definition one_line :: "(rat \<Rightarrow> string) \<Rightarrow> pydict \<Rightarrow> bool" where
  "one_line fr d \<longleftrightarrow> CHR 0x85 \<notin> set (jdump fr False (PDict d))"

lemma universal_newlines_id: "CHR 0x0D \<notin> set s \<Longrightarrow> universal_newlines s = s"
  by (induction s rule: universal_newlines.induct) auto

lemma splitlines_keep_run:
  "(\<forall>c\<in>set p. \<not> line_break c) \<Longrightarrow> splitlines_keep cur (p @ s) = splitlines_keep (rev p @ cur) s"
  by (induction p arbitrary: cur) auto

lemma splitlines_keep_break:
  "(\<forall>c\<in>set p. \<not> line_break c) \<Longrightarrow> line_break b \<Longrightarrow> splitlines_keep [] (p @ b # s) = (p @ [b]) # splitlines_keep [] s"
  by (simp add: splitlines_keep_run)

lemma payload_chars:
  assumes "float_text_ok fr" and "c \<in> set (jdump fr False (PDict d))"
  shows "c \<noteq> CHR 0x0D \<and> c \<noteq> CHR 0x0A \<and> (line_break c \<longrightarrow> c = CHR 0x85)"
proof -
  have "32 \<le> code c" using assms jdump_no_control [of fr False "PDict d"] by (auto simp: float_text_ok_def)
  then show ?thesis by (auto simp: line_break_def char_eq_iff_code [of c] code_def [of "CHR 0x85"] code_def [of "CHR 0x0D"] code_def [of "CHR 0x0A"])
qed

lemma dict_text: "\<exists>s. jdump fr False (PDict d) = CHR ''{'' # s @ ''}''"
  by auto

lemma rstrip_newlines_text:
  "rstrip_newlines (jdump fr False (PDict d) @ [CHR 0x0A]) = jdump fr False (PDict d)"
  using dict_text [of fr d] by (auto simp: rstrip_newlines_def)

lemma not_blank_brace: "\<not> blank (CHR ''{'' # s)"
proof
  assume "blank (CHR ''{'' # s)"
  then have "dropWhile is_space (rev (CHR ''{'' # s)) = []"
    by (simp add: blank_def strip_def lstrip_def char_class_defs)
  then have "\<forall>c\<in>set (rev (CHR ''{'' # s)). is_space c" by (simp only: dropWhile_eq_Nil_conv)
  then show False by (simp add: char_class_defs)
qed

lemma file_lines:
  assumes "float_text_ok fr" and "\<forall>d\<in>set ds. one_line fr d"
  shows "splitlines_keep [] (universal_newlines (concat (map (payload fr) ds) @ rest)) =
    map (payload fr) ds @ splitlines_keep [] (universal_newlines rest)"
  using assms(2)
proof (induction ds)
  case Nil
  show ?case by simp
next
  case (Cons d ds)
  let ?t = "jdump fr False (PDict d)"
  have no: "\<forall>c\<in>set ?t. \<not> line_break c \<and> c \<noteq> CHR 0x0D"
    using payload_chars [OF assms(1), of _ d] Cons.prems by (auto simp: one_line_def)
  have skip: "universal_newlines (p @ CHR 0x0A # s) = p @ CHR 0x0A # universal_newlines s" if "CHR 0x0D \<notin> set p" for p s
    using that by (induction p rule: universal_newlines.induct) (auto, (cases s; simp)+)
  have "universal_newlines (concat (map (payload fr) (d # ds)) @ rest) =
      ?t @ CHR 0x0A # universal_newlines (concat (map (payload fr) ds) @ rest)"
    using skip [of ?t] no by (auto simp: payload_def simp del: jdump.simps)
  moreover have "splitlines_keep [] (?t @ CHR 0x0A # s) = payload fr d # splitlines_keep [] s" for s
    using no splitlines_keep_break [of ?t "CHR 0x0A" s]
    by (simp add: payload_def line_break_def [of "CHR 0x0A"] code_def [of "CHR 0x0A"] del: jdump.simps)
  ultimately show ?case using Cons by (simp del: jdump.simps)
qed

lemma parse_good_lines:
  assumes "\<forall>d\<in>set ds. loads (jdump fr False (PDict d)) = Some (PDict d)"
  shows "parse_lines loads n count (map (payload fr) ds @ lines) =
    rbind (parse_lines loads (n + length ds) count lines) (\<lambda>es. Inr (ds @ es))"
  using assms
proof (induction ds arbitrary: n)
  case Nil
  show ?case by (simp add: rbind_def split: sum.split)
next
  case (Cons d ds)
  have "\<not> blank (jdump fr False (PDict d))" using dict_text [of fr d] not_blank_brace by auto
  with Cons show ?case
    by (simp add: payload_def rstrip_newlines_text Let_def del: jdump.simps) (simp add: rbind_def split: sum.split)
qed


text \<open>One record with a next-line character ruins the registry: it is written without complaint, but from then on every
  read fails as MALFORMED at its line, because the line splitter breaks the record and a proper prefix of an object's
  text is not a JSON document.\<close>

theorem next_line_corrupts_registry:
  assumes "float_text_ok fr" and "\<forall>d\<in>set ds. one_line fr d"
    and "\<forall>d\<in>set ds. loads (jdump fr False (PDict d)) = Some (PDict d)"
    and "\<not> one_line fr d" and "\<And>p s. jdump fr False (PDict d) = p @ s \<Longrightarrow> s \<noteq> [] \<Longrightarrow> loads p = None"
  shows "read_records loads (concat (map (payload fr) (ds @ [d]))) = Inl (RegistryCorruption ''MALFORMED_RUN_REGISTRY'' (Suc (length ds)))"
proof -
  let ?t = "jdump fr False (PDict d)"
  have "CHR 0x85 \<in> set ?t" using assms(4) unfolding one_line_def by blast
  then obtain p q where t: "?t = p @ CHR 0x85 # q" and p: "CHR 0x85 \<notin> set p" by (metis split_list_first)
  have nb: "\<forall>c\<in>set p. \<not> line_break c"
  proof
    fix c assume c: "c \<in> set p"
    then have "c \<in> set ?t" unfolding t by simp
    from payload_chars [OF assms(1) this] c p show "\<not> line_break c" by auto
  qed
  have cr: "CHR 0x0D \<notin> set ?t" using payload_chars [OF assms(1)] by blast
  obtain s where s: "?t = CHR ''{'' # s @ ''}''" using dict_text by blast
  have "q \<noteq> []"
  proof
    assume "q = []"
    with t have "last ?t = CHR 0x85" by (simp del: jdump.simps)
    moreover have "last ?t = CHR ''}''" unfolding s by simp
    ultimately show False by simp
  qed
  have un: "universal_newlines (payload fr d) = payload fr d"
    using cr by (intro universal_newlines_id) (simp add: payload_def del: jdump.simps)
  have lines: "splitlines_keep [] (payload fr d) = (p @ [CHR 0x85]) # splitlines_keep [] (q @ [CHR 0x0A])"
    using nb by (simp add: payload_def t splitlines_keep_break line_break_def code_def del: jdump.simps)
  have tail: "splitlines_keep cur (q @ [CHR 0x0A]) \<noteq> []" for cur q
    by (induction q arbitrary: cur) auto
  have strip: "rstrip_newlines (p @ [CHR 0x85]) = p @ [CHR 0x85]" by (simp add: rstrip_newlines_def)
  obtain p' where p': "p @ [CHR 0x85] = CHR ''{'' # p'"
    using s t by (cases p) auto
  have none: "loads (p @ [CHR 0x85]) = None" using assms(5) [of "p @ [CHR 0x85]" q] t \<open>q \<noteq> []\<close> by simp
  have nbl: "\<not> blank (p @ [CHR 0x85])" unfolding p' by (rule not_blank_brace)
  have "parse_lines loads n count (splitlines_keep [] (payload fr d)) =
      Inl (RegistryCorruption ''MALFORMED_RUN_REGISTRY'' n)" if "n \<noteq> count" for n count
    using none nbl that by (simp add: lines strip Let_def)
  moreover have "read_records loads (concat (map (payload fr) (ds @ [d]))) =
      rbind (parse_lines loads (Suc (length ds)) (length ds + length (splitlines_keep [] (payload fr d)))
        (splitlines_keep [] (payload fr d))) (\<lambda>es. Inr (ds @ es))"
    using file_lines [OF assms(1,2), of "payload fr d"] parse_good_lines [OF assms(3)]
    by (simp add: read_records_def Let_def un)
  ultimately show ?thesis using tail [of "[]" q] by (simp add: lines)
qed

definition sample_record :: "string \<Rightarrow> pydict" where
  "sample_record reason = [(''core_run_id'', PStr ''run-1''), (''reason'', PStr reason)]"

definition only_loads :: "pydict list \<Rightarrow> string \<Rightarrow> pyval option" where
  "only_loads ds t = map_option PDict (List.find (\<lambda>d. jdump (\<lambda>x. ''0.0'') False (PDict d) = t) ds)"

lemma only_loads_single:
  "only_loads [d] t = (if t = jdump (\<lambda>x. ''0.0'') False (PDict d) then Some (PDict d) else None)"
  by (auto simp: only_loads_def simp del: jdump.simps)

lemma plain_float_ok: "float_text_ok (\<lambda>x. ''0.0'')"
  by (simp add: float_text_ok_def code_def)

lemma sample_record_one_line: "one_line (\<lambda>x. ''0.0'') (sample_record ''done'')"
  by (simp add: one_line_def sample_record_def json_str_def json_char_def char_class_defs)


theorem next_line_corrupts_registry_witness:
  "read_records (only_loads [sample_record ''done'']) (concat (map (payload (\<lambda>x. ''0.0'')) ([sample_record ''done''] @ [sample_record [CHR 0x85]]))) =
     Inl (RegistryCorruption ''MALFORMED_RUN_REGISTRY'' 2)"
proof -
  let ?fr = "\<lambda>x :: rat. ''0.0''"
  have bad: "\<not> one_line ?fr (sample_record [CHR 0x85])"
    by (simp add: one_line_def sample_record_def json_str_def json_char_def char_class_defs)
  have prefix: "only_loads [sample_record ''done''] p = None"
    if "jdump ?fr False (PDict (sample_record [CHR 0x85])) = p @ s" "s \<noteq> []" for p s
  proof -
    have len: "length (jdump ?fr False (PDict (sample_record [CHR 0x85]))) < length (jdump ?fr False (PDict (sample_record ''done'')))"
      by (simp add: sample_record_def json_str_def json_char_def char_class_defs)
    have "p \<noteq> jdump ?fr False (PDict (sample_record ''done''))"
    proof
      assume "p = jdump ?fr False (PDict (sample_record ''done''))"
      with len arg_cong [OF that(1), of length] show False by simp
    qed
    then show ?thesis by (simp add: only_loads_single del: jdump.simps)
  qed
  have "read_records (only_loads [sample_record ''done'']) (concat (map (payload ?fr) ([sample_record ''done''] @ [sample_record [CHR 0x85]]))) =
     Inl (RegistryCorruption ''MALFORMED_RUN_REGISTRY'' (Suc (length [sample_record ''done''])))"
    by (rule next_line_corrupts_registry [OF plain_float_ok _ _ bad prefix])
       (simp_all add: sample_record_one_line only_loads_single del: jdump.simps)
  then show ?thesis by (simp add: numeral_2_eq_2)
qed

end
