(* ===== verification/AgentRegistry.thy ===== *)
theory AgentRegistry
  imports PyVal
begin

text \<open>
  The allow-list of agents (\<^verbatim>\<open>AgentRegistration\<close> and \<^verbatim>\<open>AgentRegistry\<close> in
  \<^verbatim>\<open>plachem_fast_gateway/core_engine.py\<close>): a dictionary from agent identifiers to registrations, in the order of
  the configuration file.
\<close>

section \<open>Loading and lookup\<close>

record registration =
  ag_id :: string
  ag_enabled :: bool
  ag_capabilities :: "string list"
  ag_model :: string
  ag_models :: "string list"
  ag_policies :: "string list"

type_synonym agents = "(string \<times> registration) list"

text \<open>The non-empty strings of a list; anything else is dropped.\<close>

definition kept_names :: "pyval \<Rightarrow> string list" where
  "kept_names v = (case v of PList vs \<Rightarrow> filter (\<lambda>s. s \<noteq> []) (List.map_filter as_str vs) | _ \<Rightarrow> [])"

definition load_capabilities :: "string \<Rightarrow> pyval \<Rightarrow> string list res" where
  "load_capabilities a v =
     (case as_list v of
        None \<Rightarrow> Inl (ValueError (''INVALID_AGENT_CAPABILITIES:'' @ a))
      | Some vs \<Rightarrow> rmap (\<lambda>x. case as_str x of
            None \<Rightarrow> Inl (ValueError (''INVALID_AGENT_CAPABILITIES:'' @ a))
          | Some s \<Rightarrow> need (s \<noteq> []) (ValueError (''INVALID_AGENT_CAPABILITIES:'' @ a)) (Inr s)) vs)"

definition load_agent :: "string \<times> pyval \<Rightarrow> (string \<times> registration) res" where
  "load_agent av = (case av of (a, v) \<Rightarrow>
     (case as_dict v of
        None \<Rightarrow> Inl (ValueError ''INVALID_AGENT_REGISTRY'')
      | Some d \<Rightarrow>
          (case dget_or d ''enabled'' (PBool True) of
             PBool on \<Rightarrow>
               rbind (load_capabilities a (dget_or d ''capabilities'' (PList []))) (\<lambda>caps.
               Inr (a, \<lparr>ag_id = a, ag_enabled = on, ag_capabilities = caps,
                 ag_model = (case as_str (dget d ''runtime_model_id'') of None \<Rightarrow> [] | Some m \<Rightarrow> m),
                 ag_models = kept_names (dget d ''allowed_model_ids''),
                 ag_policies = kept_names (dget d ''allowed_policy_profiles'')\<rparr>))
           | _ \<Rightarrow> Inl (ValueError (''INVALID_AGENT_ENABLED:'' @ a)))))"

definition load_agents :: "pyval \<Rightarrow> agents res" where
  "load_agents raw = (case as_dict raw of None \<Rightarrow> Inl (ValueError ''INVALID_AGENT_REGISTRY'') | Some d \<Rightarrow> rmap load_agent d)"

text \<open>An exact match wins; otherwise the first identifier that agrees up to case.\<close>

definition find_agent :: "agents \<Rightarrow> string \<Rightarrow> registration option" where
  "find_agent A i =
     (case map_of A i of
        Some r \<Rightarrow> Some r
      | None \<Rightarrow> map_option snd (List.find (\<lambda>(k, r). casefold k = casefold i) A))"

definition require_agent :: "agents \<Rightarrow> string \<Rightarrow> registration res" where
  "require_agent A i =
     (case find_agent A i of
        None \<Rightarrow> Inl (ValueError (''UNKNOWN_AGENT:'' @ i))
      | Some r \<Rightarrow> need (ag_enabled r) (ValueError (''UNKNOWN_AGENT:'' @ i)) (Inr r))"

definition candidate_agent_ids :: "agents \<Rightarrow> pyval list \<Rightarrow> string list" where
  "candidate_agent_ids A required =
     (let wanted = map (\<lambda>s. casefold (strip s)) (filter (\<lambda>s. \<not> blank s) (List.map_filter as_str required))
      in map fst (filter (\<lambda>(i, r). ag_enabled r \<and> set wanted \<subseteq> set (map casefold (ag_capabilities r))) A))"

section \<open>Admission\<close>

lemma find_agent_in: "find_agent A i = Some r \<Longrightarrow> \<exists>k. (k, r) \<in> set A \<and> casefold k = casefold i"
  by (auto simp: find_agent_def find_Some_iff split: option.splits dest!: map_of_SomeD) (metis nth_mem)

lemma load_agent_id: "load_agent av = Inr (a, r) \<Longrightarrow> ag_id r = a \<and> (\<forall>c\<in>set (ag_capabilities r). c \<noteq> [])"
  by (auto simp: load_agent_def load_capabilities_def rbind_Inr_iff split: prod.splits option.splits pyval.splits bool.splits
      dest!: rmap_Inr_set)

text \<open>Only enabled agents of the loaded allow-list are admitted: an admitted identifier names, up to case, an
  entry of the list that is enabled and keyed by its own identifier; a disabled entry is never admitted under its
  exact name; and every candidate for a set of capabilities is itself admitted and has all of them.\<close>

theorem only_registered_agents_admitted:
  assumes "load_agents raw = Inr A" and "distinct (map fst A)"
  shows "(require_agent A i = Inr r \<longrightarrow> (ag_id r, r) \<in> set A \<and> casefold (ag_id r) = casefold i \<and> ag_enabled r) \<and>
    ((k, q) \<in> set A \<and> \<not> ag_enabled q \<longrightarrow> require_agent A k = Inl (ValueError (''UNKNOWN_AGENT:'' @ k))) \<and>
    (c \<in> set (candidate_agent_ids A required) \<longrightarrow> (\<exists>q. require_agent A c = Inr q \<and>
       (\<forall>w\<in>set (List.map_filter as_str required). \<not> blank w \<longrightarrow> casefold (strip w) \<in> casefold ` set (ag_capabilities q))))"
proof (intro conjI impI)
  obtain d where d: "rmap load_agent d = Inr A" using assms(1) by (auto simp: load_agents_def split: option.splits)
  have own: "ag_id q = k" if "(k, q) \<in> set A" for k q
    using rmap_Inr_set [OF d that] load_agent_id by auto
  assume r: "require_agent A i = Inr r"
  then obtain k where "(k, r) \<in> set A" "casefold k = casefold i" "ag_enabled r"
    by (auto simp: require_agent_def split: option.splits dest: find_agent_in)
  with own show "(ag_id r, r) \<in> set A" "casefold (ag_id r) = casefold i" "ag_enabled r" by auto
next
  assume q: "(k, q) \<in> set A \<and> \<not> ag_enabled q"
  with assms(2) have "map_of A k = Some q" by (simp add: map_of_is_SomeI)
  with q show "require_agent A k = Inl (ValueError (''UNKNOWN_AGENT:'' @ k))"
    by (simp add: require_agent_def find_agent_def)
next
  assume "c \<in> set (candidate_agent_ids A required)"
  then obtain q where q: "(c, q) \<in> set A" "ag_enabled q" and caps: "set (map (\<lambda>s. casefold (strip s))
      (filter (\<lambda>s. \<not> blank s) (List.map_filter as_str required))) \<subseteq> set (map casefold (ag_capabilities q))"
    by (auto simp: candidate_agent_ids_def Let_def)
  from q assms(2) have "require_agent A c = Inr q" by (simp add: require_agent_def find_agent_def)
  with caps show "\<exists>q. require_agent A c = Inr q \<and> (\<forall>w\<in>set (List.map_filter as_str required). \<not> blank w \<longrightarrow>
      casefold (strip w) \<in> casefold ` set (ag_capabilities q))" by auto
qed

definition sample_agents_file :: pyval where
  "sample_agents_file = PDict [(''qa'', PDict [(''capabilities'', str_list [''Review''])]), (''ops'', PDict [(''enabled'', PBool False)])]"

definition sample_agents :: agents where
  "sample_agents =
     [(''qa'', \<lparr>ag_id = ''qa'', ag_enabled = True, ag_capabilities = [''Review''], ag_model = [], ag_models = [], ag_policies = []\<rparr>),
      (''ops'', \<lparr>ag_id = ''ops'', ag_enabled = False, ag_capabilities = [], ag_model = [], ag_models = [], ag_policies = []\<rparr>)]"

lemma sample_agents_load: "load_agents sample_agents_file = Inr sample_agents" "distinct (map fst sample_agents)"
  by (simp_all add: load_agents_def load_agent_def load_capabilities_def kept_names_def sample_agents_file_def sample_agents_def str_list_def)

theorem only_registered_agents_admitted_witness:
  "require_agent sample_agents ''QA'' = Inr (snd (hd sample_agents)) \<and>
   require_agent sample_agents ''ops'' = Inl (ValueError ''UNKNOWN_AGENT:ops'')"
proof -
  have "casefold ''QA'' = ''qa''" "casefold ''qa'' = ''qa''" by code_simp+
  then have "require_agent sample_agents ''QA'' = Inr (snd (hd sample_agents))"
    by (simp add: require_agent_def find_agent_def sample_agents_def)
  then show ?thesis
    using only_registered_agents_admitted [OF sample_agents_load, of "''QA''" "snd (hd sample_agents)" "''ops''" "snd (last sample_agents)"]
    by (simp add: sample_agents_def)
qed

end
