(* ===== verification/LoopDetector.thy ===== *)
theory LoopDetector
  imports PyVal
begin

text \<open>
  \<^verbatim>\<open>plachem_fast_gateway/loop_detector.py\<close>: the observation-only detector of repeated output.
  Its state is the record \<open>detector\<close> (the tails per run scope and the time of the last event per scope
  and repeated block). The value the clock would return is an argument of \<open>observe\<close>.
\<close>

section \<open>Normalisation\<close>

definition normalize_output :: "string \<Rightarrow> string" where
  "normalize_output s = filter uni_alnum (casefold s)"

section \<open>The repeated block at the end of a text\<close>

text \<open>The while loop: how many copies of \<open>u\<close> end at \<open>cursor\<close>, going backwards.\<close>

function count_back :: "string \<Rightarrow> string \<Rightarrow> nat \<Rightarrow> nat" where
  "count_back t u cursor =
     (if u \<noteq> [] \<and> length u \<le> cursor \<and> take (length u) (drop (cursor - length u) t) = u
      then Suc (count_back t u (cursor - length u)) else 0)"
  by pat_completeness auto
termination
proof (relation "measure (\<lambda>(t, u, c). c)")
  fix t u :: string and c :: nat
  assume "u \<noteq> [] \<and> length u \<le> c \<and> take (length u) (drop (c - length u) t) = u"
  then have "c - length u < c" by (cases u) auto
  then show "((t, u, c - length u), t, u, c) \<in> measure (\<lambda>(t, u, c). c)" by simp
qed simp

declare count_back.simps [simp del]

text \<open>The for loop over the sizes \<open>width\<close>, \<open>width + 1\<close>, ...; \<open>n\<close> of them are left.\<close>

fun scan_sizes :: "string \<Rightarrow> nat \<Rightarrow> nat \<Rightarrow> nat \<Rightarrow> (nat \<times> nat) option" where
  "scan_sizes t repeats width 0 = None"
| "scan_sizes t repeats width (Suc n) =
     (let u = drop (length t - width) t; count = 1 + count_back t u (length t - width)
      in if repeats \<le> count then Some (count, width) else scan_sizes t repeats (Suc width) n)"

definition repeated_suffix :: "string \<Rightarrow> int \<Rightarrow> int \<Rightarrow> int \<Rightarrow> (nat \<times> nat) option res" where
  "repeated_suffix value min_unit max_unit min_repeats =
     need (\<not> (min_unit < 1 \<or> max_unit < min_unit \<or> min_repeats < 2)) (ValueError ''invalid repeated suffix thresholds'')
       (let t = normalize_output value;
            largest = min (nat max_unit) (length t div nat min_repeats)
        in Inr (scan_sizes t (nat min_repeats) (nat min_unit) (Suc largest - nat min_unit)))"

section \<open>The detector\<close>

record run_scope =
  core_run :: string
  openclaw_run :: string
  session_key :: string
  agent :: string

definition make_run_scope :: "pyval \<Rightarrow> pyval \<Rightarrow> pyval \<Rightarrow> pyval \<Rightarrow> run_scope res" where
  "make_run_scope c r k a =
     (case (as_str c, as_str r, as_str k, as_str a) of
        (Some c', Some r', Some k', Some a') \<Rightarrow>
          need (c' \<noteq> [] \<and> r' \<noteq> [] \<and> k' \<noteq> [] \<and> a' \<noteq> []) (ValueError ''all run correlation fields are required'')
            (Inr \<lparr>core_run = c', openclaw_run = r', session_key = k', agent = a'\<rparr>)
      | _ \<Rightarrow> Inl (ValueError ''all run correlation fields are required''))"

record detector_config =
  tail_chars :: int
  min_unit_chars :: int
  max_unit_chars :: int
  min_repeats :: int
  cooldown :: rat
  exception_patterns :: "string list"

definition default_config :: detector_config where
  "default_config = \<lparr>tail_chars = 12000, min_unit_chars = 24, max_unit_chars = 800, min_repeats = 4,
     cooldown = 300, exception_patterns = [''context compression'', ''compressing context'', ''model loading'',
       ''loading model'', ''initialization'', ''initializing runtime'']\<rparr>"

definition check_config :: "detector_config \<Rightarrow> detector_config res" where
  "check_config c =
     need (\<not> (tail_chars c < 1 \<or> min_unit_chars c < 1)) (ValueError ''detector sizes must be positive'')
     (need (\<not> (max_unit_chars c < min_unit_chars c \<or> min_repeats c < 2)) (ValueError ''invalid detector thresholds'')
     (need (\<not> cooldown c < 0) (ValueError ''cooldown_seconds cannot be negative'') (Inr c)))"

record detector =
  tails :: "run_scope \<rightharpoonup> string"
  last_events :: "run_scope \<times> string \<rightharpoonup> rat"

definition new_detector :: detector where
  "new_detector = \<lparr>tails = (\<lambda>s. None), last_events = (\<lambda>k. None)\<rparr>"

record loop_event =
  le_scope :: run_scope
  le_repeat_count :: nat
  le_unit_chars :: nat

definition tail_of :: "detector \<Rightarrow> run_scope \<Rightarrow> string" where
  "tail_of st s = (case tails st s of None \<Rightarrow> [] | Some t \<Rightarrow> t)"

definition push_output :: "detector_config \<Rightarrow> detector \<Rightarrow> run_scope \<Rightarrow> string \<Rightarrow> string" where
  "push_output c st s out = last_chars (nat (tail_chars c)) (tail_of st s @ out)"

text \<open>The block \<open>normalized[-n:]\<close>.\<close>

definition unit_of :: "string \<Rightarrow> nat \<Rightarrow> string" where
  "unit_of t n = last_chars n (normalize_output t)"

definition excepted :: "detector_config \<Rightarrow> string \<Rightarrow> bool" where
  "excepted c u = list_ex (\<lambda>p. contains u (normalize_output p)) (exception_patterns c)"

definition observe :: "std \<Rightarrow> detector_config \<Rightarrow> run_scope \<Rightarrow> string \<Rightarrow> rat \<Rightarrow> (detector, loop_event option) op" where
  "observe S c s out now = (\<lambda>st.
     let tail = push_output c st s out; st1 = st\<lparr>tails := (tails st)(s \<mapsto> tail)\<rparr>
     in case repeated_suffix (normalize_output tail) (min_unit_chars c) (max_unit_chars c) (min_repeats c) of
          Inl e \<Rightarrow> (Inl e, st1)
        | Inr None \<Rightarrow> (Inr None, st1)
        | Inr (Some (count, width)) \<Rightarrow>
            (let u = unit_of tail width; key = (s, sha256 S u) in
             if excepted c u then (Inr None, st1)
             else if (case last_events st1 key of None \<Rightarrow> False | Some last_time \<Rightarrow> now - last_time < cooldown c)
               then (Inr None, st1)
             else (Inr (Some \<lparr>le_scope = s, le_repeat_count = count, le_unit_chars = width\<rparr>),
                   st1\<lparr>last_events := (last_events st1)(key \<mapsto> now)\<rparr>)))"

definition clear :: "run_scope \<Rightarrow> detector \<Rightarrow> detector" where
  "clear s st = st\<lparr>tails := (tails st)(s := None), last_events := (\<lambda>k. if fst k = s then None else last_events st k)\<rparr>"

section \<open>The scan finds the shortest repeated block\<close>

text \<open>\<open>t\<close> ends in \<open>k\<close> copies of a block of \<open>n\<close> characters.\<close>

definition tail_block :: "string \<Rightarrow> nat \<Rightarrow> nat \<Rightarrow> bool" where
  "tail_block t n k \<longleftrightarrow> (\<exists>p u. length u = n \<and> t = p @ concat (replicate k u))"

lemma concat_replicate_snoc: "concat (replicate (Suc k) u) = concat (replicate k u) @ u"
  by (induction k) auto

lemma length_concat_replicate: "length (concat (replicate k u)) = k * length u"
  by (induction k) auto

lemma count_back_iff:
  assumes "u \<noteq> []" and "c \<le> length t"
  shows "k \<le> count_back t u c \<longleftrightarrow> (\<exists>p. take c t = p @ concat (replicate k u))"
  using assms(2)
proof (induction k arbitrary: c)
  case 0
  show ?case by simp
next
  case (Suc k)
  let ?fits = "length u \<le> c \<and> take (length u) (drop (c - length u) t) = u"
  have cut: "take c t = take (c - length u) t @ take (length u) (drop (c - length u) t)" if "length u \<le> c"
    using that by (metis le_add_diff_inverse2 take_add)
  show ?case
  proof (cases ?fits)
    case True
    with assms have "Suc k \<le> count_back t u c \<longleftrightarrow> k \<le> count_back t u (c - length u)"
      by (subst count_back.simps) simp
    also have "\<dots> \<longleftrightarrow> (\<exists>p. take (c - length u) t = p @ concat (replicate k u))"
      using Suc.prems by (intro Suc.IH) simp
    also have "\<dots> \<longleftrightarrow> (\<exists>p. take c t = p @ concat (replicate (Suc k) u))"
      using cut True by (simp add: concat_replicate_snoc append_assoc [symmetric] del: replicate.simps append_assoc)
    finally show ?thesis .
  next
    case False
    then have "count_back t u c = 0" by (subst count_back.simps) auto
    moreover have "take c t \<noteq> p @ concat (replicate (Suc k) u)" for p
    proof
      assume eq: "take c t = p @ concat (replicate (Suc k) u)"
      then have eq': "take c t = (p @ concat (replicate k u)) @ u" by (simp only: concat_replicate_snoc append_assoc)
      from arg_cong [OF this, of length] Suc.prems have "length u \<le> c" by simp
      moreover have "length (take (length u) (drop (c - length u) t)) = length u"
        using \<open>length u \<le> c\<close> Suc.prems by simp
      moreover have "take (c - length u) t @ take (length u) (drop (c - length u) t) = (p @ concat (replicate k u)) @ u"
        using cut \<open>length u \<le> c\<close> eq' by simp
      ultimately show False using False append_eq_append_conv by metis
    qed
    ultimately show ?thesis by auto
  qed
qed

lemma tail_block_iff:
  assumes "0 < n" and "n \<le> length t" and "0 < k"
  shows "k \<le> 1 + count_back t (drop (length t - n) t) (length t - n) \<longleftrightarrow> tail_block t n k"
proof -
  let ?u = "drop (length t - n) t" and ?c = "length t - n"
  obtain j where k: "k = Suc j" using \<open>0 < k\<close> by (cases k) auto
  have u: "?u \<noteq> []" "length ?u = n" using assms by auto
  have "k \<le> 1 + count_back t ?u ?c \<longleftrightarrow> (\<exists>p. take ?c t = p @ concat (replicate j ?u))"
    using count_back_iff [OF u(1), of ?c t j] by (simp add: k)
  also have "\<dots> \<longleftrightarrow> tail_block t n k"
  proof
    assume "\<exists>p. take ?c t = p @ concat (replicate j ?u)"
    then obtain p where "take ?c t @ ?u = p @ concat (replicate k ?u)"
      by (auto simp: k concat_replicate_snoc simp del: replicate.simps append_take_drop_id)
    then show "tail_block t n k" using u(2) unfolding tail_block_def by (metis append_take_drop_id)
  next
    assume "tail_block t n k"
    then obtain p v where v: "length v = n" "t = (p @ concat (replicate j v)) @ v"
      unfolding tail_block_def k concat_replicate_snoc by auto
    then have "drop ?c t = v" "take ?c t = p @ concat (replicate j v)" by auto
    then show "\<exists>p. take ?c t = p @ concat (replicate j ?u)" by auto
  qed
  finally show ?thesis .
qed

lemma tail_block_length: "tail_block t n k \<Longrightarrow> k * n \<le> length t"
  by (auto simp: tail_block_def length_concat_replicate)

lemma scan_sizes_cases:
  assumes "0 < w" and "w + n \<le> Suc (length t)" and "0 < m"
  shows "case scan_sizes t m w n of
      None \<Rightarrow> \<forall>i\<in>{w..<w + n}. \<not> tail_block t i m
    | Some (k, i) \<Rightarrow> w \<le> i \<and> i < w + n \<and> m \<le> k \<and> tail_block t i k \<and> \<not> tail_block t i (Suc k) \<and>
        (\<forall>j\<in>{w..<i}. \<not> tail_block t j m)"
  using assms
proof (induction n arbitrary: w)
  case 0
  then show ?case by simp
next
  case (Suc n)
  let ?k = "1 + count_back t (drop (length t - w) t) (length t - w)"
  note blk = tail_block_iff [of w t]
  show ?case
  proof (cases "m \<le> ?k")
    case True
    with Suc.prems blk [of ?k] blk [of "Suc ?k"] show ?thesis by (simp add: Let_def)
  next
    case False
    with Suc.prems blk [of m] have no: "\<not> tail_block t w m" by simp
    have eq: "{w..<w + Suc n} = insert w {Suc w..<Suc w + n}"
      and eq': "\<And>i. w < i \<Longrightarrow> {w..<i} = insert w {Suc w..<i}" by auto
    from Suc.IH [of "Suc w"] Suc.prems no False show ?thesis
      by (auto simp: Let_def eq eq' split: option.splits)
  qed
qed

text \<open>C40: The scan for repeated output is exact: under valid thresholds it returns a count and a size exactly when
  some block of an admissible size is repeated often enough at the end of the normalised text; it then returns
  the shortest such size and the full number of copies.\<close>

theorem repeated_suffix_exact:
  assumes "1 \<le> lo" and "lo \<le> hi" and "2 \<le> m"
  shows "\<exists>r. repeated_suffix v lo hi m = Inr r \<and>
    (case r of
       None \<Rightarrow> \<forall>i\<in>{nat lo..nat hi}. \<not> tail_block (normalize_output v) i (nat m)
     | Some (k, i) \<Rightarrow> i \<in> {nat lo..nat hi} \<and> nat m \<le> k \<and> tail_block (normalize_output v) i k \<and>
         \<not> tail_block (normalize_output v) i (Suc k) \<and> (\<forall>j\<in>{nat lo..<i}. \<not> tail_block (normalize_output v) j (nat m)))"
proof -
  let ?t = "normalize_output v"
  define cap where "cap = min (nat hi) (length ?t div nat m)"
  define r where "r = scan_sizes ?t (nat m) (nat lo) (Suc cap - nat lo)"
  have eq: "repeated_suffix v lo hi m = Inr r"
    using assms by (simp add: repeated_suffix_def r_def cap_def Let_def)
  have m: "0 < nat m" and lo: "0 < nat lo" using assms by auto
  have "cap \<le> length ?t" unfolding cap_def by (meson div_le_dividend le_trans min.cobounded2)
  have small: "i \<le> cap" if "tail_block ?t i (nat m)" "i \<le> nat hi" for i
    using tail_block_length [OF that(1)] that(2) m unfolding cap_def
    by (simp add: less_eq_div_iff_mult_less_eq mult.commute)
  show ?thesis
  proof (cases "nat lo \<le> Suc cap")
    case True
    obtain w where w: "Suc cap = nat lo + w" using True le_Suc_ex by blast
    then have r: "r = scan_sizes ?t (nat m) (nat lo) w" by (simp add: r_def)
    have spec: "case r of None \<Rightarrow> \<forall>i\<in>{nat lo..<Suc cap}. \<not> tail_block ?t i (nat m)
      | Some (k, i) \<Rightarrow> nat lo \<le> i \<and> i < Suc cap \<and> nat m \<le> k \<and> tail_block ?t i k \<and> \<not> tail_block ?t i (Suc k) \<and>
        (\<forall>j\<in>{nat lo..<i}. \<not> tail_block ?t j (nat m))"
      unfolding r w using w \<open>cap \<le> length ?t\<close> by (intro scan_sizes_cases lo m) simp
    show ?thesis
    proof (cases r)
      case None
      with spec small have "\<forall>i\<in>{nat lo..nat hi}. \<not> tail_block ?t i (nat m)"
        by (auto simp: less_Suc_eq_le)
      with eq None show ?thesis by auto
    next
      case (Some ki)
      have "cap \<le> nat hi" by (simp add: cap_def)
      with spec Some show ?thesis by (cases ki) (auto simp: eq)
    qed
  next
    case False
    then have "r = None" by (simp add: r_def)
    moreover have "\<not> tail_block ?t i (nat m)" if "i \<in> {nat lo..nat hi}" for i
      using small [of i] that False by auto
    ultimately show ?thesis using eq by auto
  qed
qed

theorem repeated_suffix_exact_witness:
  "repeated_suffix ''Wait. a-b A b ab'' 2 4 3 = Inr (Some (3, 2)) \<and> tail_block (normalize_output ''Wait. a-b A b ab'') 2 3"
proof -
  have r: "repeated_suffix ''Wait. a-b A b ab'' 2 4 3 = Inr (Some (3, 2))" by code_simp
  from repeated_suffix_exact [of 2 4 3 "''Wait. a-b A b ab''"] r show ?thesis by auto
qed

section \<open>Sequences of observations\<close>

datatype detector_op =
    Observe run_scope string rat
  | Clear run_scope

fun op_scope :: "detector_op \<Rightarrow> run_scope" where
  "op_scope (Observe s out now) = s"
| "op_scope (Clear s) = s"

text \<open>The answers to the observations of a history of calls, each with the scope it was given for.\<close>

fun answers :: "std \<Rightarrow> detector_config \<Rightarrow> detector \<Rightarrow> detector_op list \<Rightarrow> (run_scope \<times> loop_event option res) list" where
  "answers S c st [] = []"
| "answers S c st (Observe s out now # ops) =
     (s, fst (observe S c s out now st)) # answers S c (snd (observe S c s out now st)) ops"
| "answers S c st (Clear s # ops) = answers S c (clear s st) ops"

text \<open>Two states that a run scope cannot tell apart.\<close>

definition same_view :: "run_scope \<Rightarrow> detector \<Rightarrow> detector \<Rightarrow> bool" where
  "same_view s st st' \<longleftrightarrow> tails st s = tails st' s \<and> (\<forall>sig. last_events st (s, sig) = last_events st' (s, sig))"

lemma observe_same_view:
  "same_view s st st' \<Longrightarrow> fst (observe S c s out now st) = fst (observe S c s out now st') \<and>
     same_view s (snd (observe S c s out now st)) (snd (observe S c s out now st'))"
  by (simp add: same_view_def observe_def push_output_def tail_of_def Let_def split: sum.split option.split)

lemma observe_other_view: "s' \<noteq> s \<Longrightarrow> same_view s (snd (observe S c s' out now st)) st"
  by (simp add: same_view_def observe_def Let_def split: sum.split option.split)

lemma clear_same_view: "same_view s st st' \<Longrightarrow> same_view s (clear s' st) (clear s' st')"
  by (simp add: same_view_def clear_def)

lemma clear_other_view: "s' \<noteq> s \<Longrightarrow> same_view s (clear s' st) st"
  by (simp add: same_view_def clear_def)

lemma same_view_trans: "same_view s a b \<Longrightarrow> same_view s b c \<Longrightarrow> same_view s a c"
  by (simp add: same_view_def)

lemma answers_same_view:
  "same_view s st st' \<Longrightarrow> filter (\<lambda>a. fst a = s) (answers S c st ops) = answers S c st' (filter (\<lambda>op. op_scope op = s) ops)"
proof (induction S c st ops arbitrary: st' rule: answers.induct)
  case (1 S c st)
  show ?case by simp
next
  case (2 S c st s' out now ops)
  show ?case
  proof (cases "s' = s")
    case True
    with observe_same_view [OF "2.prems", of S c out now] 2 show ?thesis by simp
  next
    case False
    from same_view_trans [OF observe_other_view [OF False] "2.prems"] 2 False show ?thesis by simp
  qed
next
  case (3 S c st s' ops)
  show ?case
  proof (cases "s' = s")
    case True
    with clear_same_view [OF "3.prems", of s'] "3.IH" show ?thesis by simp
  next
    case False
    from same_view_trans [OF clear_other_view [OF False] "3.prems"] "3.IH" False show ?thesis by simp
  qed
qed

text \<open>Run scopes are isolated: in any interleaving of observations and resets of many runs, the answers one run
  gets are exactly the answers it would get if the calls of all other runs were left out.\<close>

theorem loop_detector_scope_isolation:
  "filter (\<lambda>a. fst a = s) (answers S c new_detector ops) = answers S c new_detector (filter (\<lambda>op. op_scope op = s) ops)"
  by (rule answers_same_view) (simp add: same_view_def)

text \<open>The events of a sequence of observations, as pairs of key (scope and signature) and time.\<close>

fun alarms :: "std \<Rightarrow> detector_config \<Rightarrow> detector \<Rightarrow> (run_scope \<times> string \<times> rat) list \<Rightarrow> ((run_scope \<times> string) \<times> rat) list" where
  "alarms S c st [] = []"
| "alarms S c st ((s, out, now) # obs) =
     (case observe S c s out now st of (r, st') \<Rightarrow>
        (case r of
           Inr (Some e) \<Rightarrow> [((s, sha256 S (unit_of (tail_of st' s) (le_unit_chars e))), now)]
         | _ \<Rightarrow> []) @ alarms S c st' obs)"

lemma observe_silent:
  "observe S c s out now st = (r, st') \<Longrightarrow> (\<forall>e. r \<noteq> Inr (Some e)) \<Longrightarrow> last_events st' = last_events st"
  by (auto simp: observe_def Let_def split: sum.splits option.splits prod.splits if_splits)

lemma observe_alarm:
  assumes "observe S c s out now st = (Inr (Some e), st')"
  defines "key \<equiv> (s, sha256 S (unit_of (tail_of st' s) (le_unit_chars e)))"
  shows "last_events st' = (last_events st)(key \<mapsto> now) \<and>
    (\<forall>t. last_events st key = Some t \<longrightarrow> cooldown c \<le> now - t)"
  using assms(1) unfolding key_def
  by (auto simp: observe_def Let_def tail_of_def split: sum.splits option.splits prod.splits if_splits)

lemma alarms_spaced:
  "successively (\<lambda>a b. cooldown c \<le> b - a)
     ((case last_events st key of None \<Rightarrow> [] | Some t \<Rightarrow> [t]) @ map snd (filter (\<lambda>a. fst a = key) (alarms S c st obs)))"
proof (induction S c st obs rule: alarms.induct)
  case (1 S c st)
  show ?case by (simp split: option.split)
next
  case (2 S c st s out now obs)
  obtain r st' where o: "observe S c s out now st = (r, st')" by (cases "observe S c s out now st")
  note IH = "2.IH" [OF o [symmetric]]
  show ?case
  proof (cases "\<exists>e. r = Inr (Some e)")
    case True
    then obtain e where e: "r = Inr (Some e)" by blast
    note ev = observe_alarm [OF o [unfolded e]]
    show ?thesis
    proof (cases "key = (s, sha256 S (unit_of (tail_of st' s) (le_unit_chars e)))")
      case True
      with IH ev show ?thesis by (auto simp: o e split: option.split)
    next
      case False
      with IH ev show ?thesis by (auto simp: o e)
    qed
  next
    case False
    with observe_silent [OF o] IH show ?thesis by (auto simp: o split: sum.split option.split)
  qed
qed

text \<open>Cooldown: whatever is observed and whenever, two successive events for the same run and the same repeated
  block are at least the configured cooldown apart.\<close>

theorem loop_events_respect_cooldown:
  "successively (\<lambda>a b. cooldown c \<le> b - a)
     (map snd (filter (\<lambda>a. fst a = key) (alarms S c new_detector obs)))"
  using alarms_spaced [of c new_detector key S obs] by (simp add: new_detector_def)

end

