(* ===== verification/ValidationState.thy ===== *)
theory ValidationState
  imports PyVal
begin

text \<open>
  \<^verbatim>\<open>plachem_fast_gateway/validation_state.py\<close>: the write-once inputs of result verification. The memory dictionary
  and the SQLite table with its primary key hold the same thing, a map from run and kind to the text and its digest;
  \<^verbatim>\<open>setdefault\<close> and \<^verbatim>\<open>INSERT OR IGNORE\<close> followed by the read are one step under the lock of the store.
  \<open>json.loads\<close> is the argument \<open>loads\<close>; it yields nothing where the function raises. Errors of the database
  are not modelled.
\<close>

section \<open>The store\<close>

type_synonym validation_store = "(string \<times> string) \<rightharpoonup> (string \<times> string)"

definition put_state :: "std \<Rightarrow> string \<Rightarrow> string \<Rightarrow> pyval \<Rightarrow> (validation_store, unit) op" where
  "put_state S i kind v =
     bnd (lift (dumps (float_repr S) False v)) (\<lambda>raw.
     bnd (modify (\<lambda>m. if m (i, kind) = None then m((i, kind) \<mapsto> (raw, sha256 S raw)) else m)) (\<lambda>u.
     bnd (gets (\<lambda>m. m (i, kind))) (\<lambda>previous.
     if previous \<noteq> Some (raw, sha256 S raw) then raise (ValueError ''VALIDATION_STATE_CONFLICT'') else ret ())))"

definition get_state :: "(string \<Rightarrow> pyval option) \<Rightarrow> std \<Rightarrow> string \<Rightarrow> string \<Rightarrow> validation_store \<Rightarrow> pydict option res" where
  "get_state loads S i kind m =
     (case m (i, kind) of
        None \<Rightarrow> Inr None
      | Some (raw, digest) \<Rightarrow>
          need (sha256 S raw = digest) (ValueError ''VALIDATION_STATE_TAMPERED'')
            (case loads raw of
               None \<Rightarrow> Inl (ValueError ''JSONDecodeError'')
             | Some v \<Rightarrow> (case as_dict v of
                 None \<Rightarrow> Inl (ValueError ''VALIDATION_STATE_INVALID'')
               | Some d \<Rightarrow> Inr (Some d))))"

section \<open>Written once, read unchanged\<close>

lemma put_state_effect:
  assumes "put_state S i kind v m = (r, m')"
  shows "(\<forall>k x. m k = Some x \<longrightarrow> m' k = Some x) \<and>
    (r = Inr () \<longleftrightarrow> jsonable v \<and> m' (i, kind) = Some (jdump (float_repr S) False v, sha256 S (jdump (float_repr S) False v))) \<and>
    (m (i, kind) \<noteq> None \<longrightarrow> m' = m) \<and>
    (\<not> jsonable v \<longrightarrow> m' = m) \<and> (jsonable v \<longrightarrow> r = Inr () \<or> r = Inl (ValueError ''VALIDATION_STATE_CONFLICT''))"
  using assms by (auto simp: put_state_def dumps_def need_def bnd_app split: if_split_asm sum.split_asm)

text \<open>A history of writes, each with its own run, kind and value; refused writes included.\<close>

definition put_all :: "std \<Rightarrow> (string \<times> string \<times> pyval) list \<Rightarrow> validation_store \<Rightarrow> validation_store" where
  "put_all S ps m = fold (\<lambda>(i, kind, v) m. snd (put_state S i kind v m)) ps m"

lemma put_state_keeps: "m k = Some x \<Longrightarrow> snd (put_state S i kind v m) k = Some x"
  using put_state_effect [of S i kind v m "fst (put_state S i kind v m)" "snd (put_state S i kind v m)", OF prod.collapse [symmetric]]
  by blast

lemma put_all_keeps: "m k = Some x \<Longrightarrow> put_all S ps m k = Some x"
proof (induction ps arbitrary: m)
  case (Cons p ps)
  obtain i kind v where p: "p = (i, kind, v)" by (cases p)
  from put_state_keeps [of m k x S i kind v] Cons.prems have "snd (put_state S i kind v m) k = Some x" by blast
  with Cons.IH [of "snd (put_state S i kind v m)"] show ?case by (simp add: put_all_def p)
qed (simp add: put_all_def)

text \<open>Validation inputs are written once. After a successful write, whatever is written later, the store gives back the
  dictionary whose text was written; a later write for the same run and kind succeeds exactly when its canonical text
  is the same, and is otherwise refused without changing anything; and a stored text that was altered behind the
  store's back is reported, unless the digest collides.\<close>

theorem validation_state_write_once:
  assumes "put_state S i kind v m = (Inr (), m1)" and "loads (jdump (float_repr S) False v) = Some (PDict d)"
  shows "get_state loads S i kind (put_all S ps m1) = Inr (Some d) \<and>
    (\<forall>v' r m'. put_state S i kind v' (put_all S ps m1) = (r, m') \<longrightarrow>
       m' = put_all S ps m1 \<and> (r = Inr () \<longleftrightarrow> jsonable v' \<and> jdump (float_repr S) False v' = jdump (float_repr S) False v)) \<and>
    (\<forall>p. sha256 S p \<noteq> sha256 S (jdump (float_repr S) False v) \<longrightarrow>
       get_state loads S i kind ((put_all S ps m1)((i, kind) \<mapsto> (p, sha256 S (jdump (float_repr S) False v)))) =
         Inl (ValueError ''VALIDATION_STATE_TAMPERED''))"
proof -
  let ?t = "jdump (float_repr S) False v"
  from put_state_effect [OF assms(1)] have "m1 (i, kind) = Some (?t, sha256 S ?t)" by simp
  from put_all_keeps [of m1 "(i, kind)" "(?t, sha256 S ?t)" S ps, OF this] have row: "put_all S ps m1 (i, kind) = Some (?t, sha256 S ?t)" .
  have "m' = put_all S ps m1 \<and> (r = Inr () \<longleftrightarrow> jsonable v' \<and> jdump (float_repr S) False v' = ?t)"
    if "put_state S i kind v' (put_all S ps m1) = (r, m')" for v' r m'
  proof -
    from put_state_effect [OF that] row have "m' = put_all S ps m1" by simp
    with put_state_effect [OF that] row show ?thesis by auto
  qed
  with row assms(2) show ?thesis by (simp add: get_state_def)
qed

definition sample_input :: pyval where
  "sample_input = PDict [(''goal'', PStr ''x'')]"

definition sample_loads :: "string \<Rightarrow> pyval option" where
  "sample_loads t = (if t = jdump (\<lambda>x. ''0.0'') False sample_input then Some sample_input else None)"

theorem validation_state_write_once_witness:
  "get_state sample_loads plain_std ''run-1'' ''contract''
     (put_all plain_std [(''run-1'', ''contract'', PInt 1)] (snd (put_state plain_std ''run-1'' ''contract'' sample_input (\<lambda>k. None)))) =
     Inr (Some [(''goal'', PStr ''x'')])"
proof -
  have put: "put_state plain_std ''run-1'' ''contract'' sample_input (\<lambda>k. None) =
      (Inr (), snd (put_state plain_std ''run-1'' ''contract'' sample_input (\<lambda>k. None)))"
    by (simp add: put_state_def bnd_app dumps_def sample_input_def)
  have "sample_loads (jdump (float_repr plain_std) False sample_input) = Some (PDict [(''goal'', PStr ''x'')])"
    by (simp add: sample_loads_def plain_std_def sample_input_def)
  with validation_state_write_once [where S = plain_std and loads = sample_loads and d = "[(''goal'', PStr ''x'')]"
      and ps = "[(''run-1'', ''contract'', PInt 1)]", OF put] show ?thesis by blast
qed

end
