(* ===== verification/RuntimePolicy.thy ===== *)
theory RuntimePolicy
  imports PyVal
begin

text \<open>
  \<^verbatim>\<open>plachem_fast_gateway/runtime_policy.py\<close>: the server-owned lifecycle profiles, the
  normalisation of goal contracts and progress checkpoints, the model registry, the redacted
  signatures of runtime events and the policy engine that counts retries, tool calls and repeated
  actions. The state of the policy engine is the \<open>policy_state\<close> dictionary of a run record.
\<close>

section \<open>Profiles\<close>

datatype runtime_class = LOCAL | CLOUD | UNKNOWN_CLASS

datatype task_class = QUICK | STANDARD | LONG_CODING | HEAVY_VALIDATION | WAR_ROOM

text \<open>\<open>RuntimeClass(value)\<close> and \<open>TaskRuntimeClass(value)\<close> on a string value.\<close>

fun runtime_class_value :: "runtime_class \<Rightarrow> string" where
  "runtime_class_value LOCAL = ''LOCAL''"
| "runtime_class_value CLOUD = ''CLOUD''"
| "runtime_class_value UNKNOWN_CLASS = ''UNKNOWN''"

fun task_class_value :: "task_class \<Rightarrow> string" where
  "task_class_value QUICK = ''QUICK''"
| "task_class_value STANDARD = ''STANDARD''"
| "task_class_value LONG_CODING = ''LONG_CODING''"
| "task_class_value HEAVY_VALIDATION = ''HEAVY_VALIDATION''"
| "task_class_value WAR_ROOM = ''WAR_ROOM''"

definition runtime_class_of :: "string \<Rightarrow> runtime_class option" where
  "runtime_class_of s = List.find (\<lambda>c. runtime_class_value c = s) [LOCAL, CLOUD, UNKNOWN_CLASS]"

definition task_class_of :: "string \<Rightarrow> task_class option" where
  "task_class_of s =
     List.find (\<lambda>c. task_class_value c = s) [QUICK, STANDARD, LONG_CODING, HEAVY_VALIDATION, WAR_ROOM]"

record profile =
  model_id :: string
  runtime_class :: runtime_class
  policy_profile :: string
  max_runtime :: rat
  max_retries :: int
  max_tool_calls :: "int option"
  loop_guard :: pydict
  context_policy :: string
  fallback_policy :: string
  max_context_resets :: int
  execution_budget :: "rat option"
  finalization_budget :: "rat option"
  task_class :: task_class

definition post_init :: "profile \<Rightarrow> profile" where
  "post_init p =
     (if execution_budget p = None \<and> finalization_budget p = None then
        (if runtime_class p = LOCAL then
           (let recovery = max_runtime p / 5
            in p\<lparr>execution_budget := Some (max_runtime p - recovery), finalization_budget := Some recovery\<rparr>)
         else p\<lparr>execution_budget := Some (max_runtime p), finalization_budget := Some 0\<rparr>)
      else p)"

fun task_runtime :: "task_class \<Rightarrow> rat" where
  "task_runtime QUICK = 120"
| "task_runtime STANDARD = 300"
| "task_runtime LONG_CODING = 600"
| "task_runtime HEAVY_VALIDATION = 900"
| "task_runtime WAR_ROOM = 3600"

definition task_profile :: "task_class \<Rightarrow> profile" where
  "task_profile c =
     (let maximum = task_runtime c; reserve = min 60 (maximum / 5)
      in post_init \<lparr>model_id = ''__neutral__'', runtime_class = LOCAL, policy_profile = ''NEUTRAL'',
           max_runtime = maximum, max_retries = 1, max_tool_calls = Some 30,
           loop_guard = [(''consecutive_threshold'', PInt 3)], context_policy = ''FRESH_ON_LOOP'',
           fallback_policy = ''MANUAL'', max_context_resets = 1,
           execution_budget = Some (maximum - reserve), finalization_budget = Some reserve,
           task_class = c\<rparr>)"

definition task_runtime_profile :: "string \<Rightarrow> profile res" where
  "task_runtime_profile s =
     (case task_class_of s of
        None \<Rightarrow> Inl (ValueError (s @ '' is not a valid TaskRuntimeClass''))
      | Some c \<Rightarrow> Inr (task_profile c))"

definition neutral_profile :: profile where
  "neutral_profile = task_profile STANDARD"

section \<open>Goal contracts\<close>

definition context_policies :: "string list" where
  "context_policies = [''REUSE'', ''FRESH_ON_RETRY'', ''FRESH_ON_LOOP'', ''MANUAL'']"

definition fallback_policies :: "string list" where
  "fallback_policies = [''NONE'', ''MANUAL'', ''ELIGIBLE'']"

definition sensitive_keys :: "string list" where
  "sensitive_keys =
     [''token'', ''credential'', ''credentials'', ''api_key'', ''apikey'', ''password'', ''secret'',
      ''authorization'', ''cookie'', ''prompt'', ''message'', ''content'']"

definition contract_fields :: "string list" where
  "contract_fields =
     [''primary_objective'', ''allowed_scope'', ''forbidden_scope'', ''expected_result'', ''completion_conditions'']"

text \<open>\<open>_SAFE_CODE\<close>, matched in full.\<close>

definition code_start :: "char \<Rightarrow> bool" where
  "code_start c \<longleftrightarrow> is_upper c \<or> is_digit c"

definition code_char :: "char \<Rightarrow> bool" where
  "code_char c \<longleftrightarrow> is_upper c \<or> is_digit c \<or> c \<in> {CHR ''_'', CHR ''.'', CHR '':'', CHR ''/'', CHR ''-''}"

fun safe_code :: "string \<Rightarrow> bool" where
  "safe_code [] = False"
| "safe_code (c # s) = (code_start c \<and> length s \<le> 255 \<and> list_all code_char s)"

text \<open>\<open>_SECRET_TEXT\<close>.\<close>

definition not_space :: rx where
  "not_space = Sat (\<lambda>c. \<not> is_space c)"

definition secret_text :: rx where
  "secret_text = alts
     [seqs [lit_i ''bearer'', plus (Sat is_space), plus not_space],
      seqs [alts [lit_i ''token'', lit_i ''password'', lit_i ''secret'',
                  seqs [lit_i ''api'', opt (Sat (\<lambda>c. c = CHR ''_'' \<or> c = CHR ''-'')), lit_i ''key'']],
            Star (Sat is_space), Sat (\<lambda>c. c = CHR '':'' \<or> c = CHR ''=''), Star (Sat is_space), plus not_space],
      seqs [lit_i ''sk-'', times 8 (Sat (\<lambda>c. is_alnum c \<or> c = CHR ''_'' \<or> c = CHR ''-''))]]"

record goal_contract =
  goal_id :: string
  primary_objective :: string
  allowed_scope :: "string list"
  forbidden_scope :: "string list"
  expected_result :: string
  completion_conditions :: "string list"

definition contract_dict :: "goal_contract \<Rightarrow> pydict" where
  "contract_dict g =
     [(''goal_id'', PStr (goal_id g)),
      (''primary_objective'', PStr (primary_objective g)),
      (''allowed_scope'', str_list (allowed_scope g)),
      (''forbidden_scope'', str_list (forbidden_scope g)),
      (''expected_result'', PStr (expected_result g)),
      (''completion_conditions'', str_list (completion_conditions g))]"

definition bad_contract :: "string \<Rightarrow> exn" where
  "bad_contract field = ValueError (''INVALID_GOAL_CONTRACT:'' @ field)"

definition normalized_code :: "pyval \<Rightarrow> string \<Rightarrow> string res" where
  "normalized_code v field =
     (case as_str v of None \<Rightarrow> Inl (bad_contract field)
      | Some s \<Rightarrow> (let n = replace_char CHR '' '' CHR ''_'' (upper (strip s))
                  in need (safe_code n) (bad_contract field) (Inr n)))"

definition normalized_text :: "pyval \<Rightarrow> string \<Rightarrow> string res" where
  "normalized_text v field =
     (case as_str v of None \<Rightarrow> Inl (bad_contract field)
      | Some s \<Rightarrow> (let n = join '' '' (split_words s)
                  in need (n \<noteq> [] \<and> length n \<le> 512 \<and> \<not> rx_search secret_text n) (bad_contract field) (Inr n)))"

definition normalized_code_list :: "pyval \<Rightarrow> string \<Rightarrow> string list res" where
  "normalized_code_list v field =
     (case as_list v of None \<Rightarrow> Inl (bad_contract field)
      | Some xs \<Rightarrow> need (xs \<noteq> []) (bad_contract field)
          (rbind (rmap (\<lambda>x. normalized_code x field) xs) (\<lambda>cs. Inr (first_occurrences cs))))"

definition legacy_contract :: pydict where
  "legacy_contract =
     [(''primary_objective'', PStr ''LEGACY_VALIDATED_REQUEST''),
      (''allowed_scope'', str_list [''REQUESTED_SCOPE'']),
      (''forbidden_scope'', str_list [''UNREQUESTED_SCOPE'']),
      (''expected_result'', PStr ''VALIDATED_RESULT''),
      (''completion_conditions'', str_list [''RESULT_VALIDATED''])]"

definition goal_id_of :: "std \<Rightarrow> string \<Rightarrow> string list \<Rightarrow> string list \<Rightarrow> string \<Rightarrow> string list \<Rightarrow> string" where
  "goal_id_of S po al fo er cc =
     ''goal-'' @ take 24 (sha256 S (jdump (float_repr S) True (PDict
        [(''primary_objective'', PStr po), (''allowed_scope'', str_list al), (''forbidden_scope'', str_list fo),
         (''expected_result'', PStr er), (''completion_conditions'', str_list cc)])))"

definition normalize_goal_contract :: "std \<Rightarrow> pyval \<Rightarrow> goal_contract res" where
  "normalize_goal_contract S v =
     (case as_dict (if v = PNone then PDict legacy_contract else v) of
        None \<Rightarrow> Inl (bad_contract ''FIELDS'')
      | Some d \<Rightarrow>
          need (set (map fst d) = set contract_fields) (bad_contract ''FIELDS'')
          (rbind (normalized_text (dget d ''primary_objective'') ''primary_objective'') (\<lambda>po.
           rbind (normalized_code_list (dget d ''allowed_scope'') ''allowed_scope'') (\<lambda>al.
           rbind (normalized_code_list (dget d ''forbidden_scope'') ''forbidden_scope'') (\<lambda>fo.
           rbind (normalized_text (dget d ''expected_result'') ''expected_result'') (\<lambda>er.
           rbind (normalized_code_list (dget d ''completion_conditions'') ''completion_conditions'') (\<lambda>cc.
           Inr \<lparr>goal_id = goal_id_of S po al fo er cc, primary_objective = po, allowed_scope = al,
                forbidden_scope = fo, expected_result = er, completion_conditions = cc\<rparr>)))))))"

section \<open>Progress checkpoints\<close>

record checkpoint =
  cp_goal_id :: string
  cp_current_step :: string
  cp_completed :: "string list"
  cp_remaining :: "string list"
  cp_blocking_reason :: string
  cp_artifact_delta :: "string list"
  cp_scope_delta :: "string list"
  cp_evidence_delta :: "string list"

definition checkpoint_fields :: "string list" where
  "checkpoint_fields =
     [''goal_id'', ''current_step'', ''completed_conditions'', ''remaining_conditions'', ''blocking_reason'',
      ''artifact_delta'', ''scope_delta'', ''evidence_delta'']"

definition optional_codes :: "pydict \<Rightarrow> string \<Rightarrow> string list res" where
  "optional_codes d k = (if truthy (dget d k) then normalized_code_list (dget d k) k else Inr [])"

definition normalize_checkpoint :: "pyval \<Rightarrow> goal_contract \<Rightarrow> checkpoint res" where
  "normalize_checkpoint v g =
     (case as_dict v of
        None \<Rightarrow> Inl (ValueError ''INVALID_PROGRESS_CHECKPOINT:FIELDS'')
      | Some d \<Rightarrow>
          need (list_all (\<lambda>k. List.member checkpoint_fields k) (map fst d))
            (ValueError ''INVALID_PROGRESS_CHECKPOINT:FIELDS'')
          (case as_str (dget d ''goal_id'') of
             None \<Rightarrow> Inl (ValueError ''INVALID_PROGRESS_CHECKPOINT:goal_id'')
           | Some gid \<Rightarrow>
               need (gid \<noteq> []) (ValueError ''INVALID_PROGRESS_CHECKPOINT:goal_id'')
               (rbind (optional_codes d ''completed_conditions'') (\<lambda>completed.
                rbind (optional_codes d ''remaining_conditions'') (\<lambda>remaining.
                rbind (optional_codes d ''artifact_delta'') (\<lambda>artifacts.
                rbind (optional_codes d ''scope_delta'') (\<lambda>scopes.
                rbind (optional_codes d ''evidence_delta'') (\<lambda>evidence.
                need (set completed \<subseteq> set (completion_conditions g)) (ValueError ''UNVERIFIED_COMPLETION_CONDITION'')
                (need (set remaining \<subseteq> set (completion_conditions g)) (ValueError ''UNVERIFIED_REMAINING_CONDITION'')
                (rbind (normalized_code (dget_or d ''current_step'' (PStr ''UNSPECIFIED'')) ''current_step'') (\<lambda>step.
                 rbind (normalized_code (dget_or d ''blocking_reason'' (PStr ''NONE'')) ''blocking_reason'') (\<lambda>blocking.
                 Inr \<lparr>cp_goal_id = gid, cp_current_step = step, cp_completed = completed,
                      cp_remaining = remaining, cp_blocking_reason = blocking, cp_artifact_delta = artifacts,
                      cp_scope_delta = scopes, cp_evidence_delta = evidence\<rparr>))))))))))))"

section \<open>The model registry\<close>

definition load_runtime_class :: "string \<Rightarrow> pyval \<Rightarrow> runtime_class res" where
  "load_runtime_class m v =
     (case v of
        PStr s \<Rightarrow> (case runtime_class_of s of
            Some UNKNOWN_CLASS \<Rightarrow> Inl (ValueError (''UNKNOWN_RUNTIME_CLASS_NOT_REGISTRABLE:'' @ m))
          | Some c \<Rightarrow> Inr c
          | None \<Rightarrow> Inl (ValueError (''INVALID_RUNTIME_CLASS:'' @ m)))
      | _ \<Rightarrow> Inl (ValueError (''INVALID_RUNTIME_CLASS:'' @ m)))"

text \<open>The split of the runtime into execution and finalisation budgets.\<close>

definition load_budgets :: "string \<Rightarrow> runtime_class \<Rightarrow> rat \<Rightarrow> pyval \<Rightarrow> pyval \<Rightarrow> (rat \<times> rat) res" where
  "load_budgets m c mr eb fb =
     (if c = LOCAL then
        (let both = (eb = PNone \<and> fb = PNone);
             eb' = (if both then PFloat mr else eb);
             fb' = (if both then PFloat 0 else fb)
         in case as_num eb' of
              None \<Rightarrow> Inl (ValueError (''INVALID_EXECUTION_BUDGET:'' @ m))
            | Some e \<Rightarrow> need (0 < e) (ValueError (''INVALID_EXECUTION_BUDGET:'' @ m))
              (case as_num fb' of
                 None \<Rightarrow> Inl (ValueError (''INVALID_FINALIZATION_RECOVERY_BUDGET:'' @ m))
               | Some f \<Rightarrow> need (0 \<le> f) (ValueError (''INVALID_FINALIZATION_RECOVERY_BUDGET:'' @ m))
                   (need (\<bar>e + f - mr\<bar> \<le> 1 / 1000000000) (ValueError (''INVALID_RUNTIME_BUDGET_SUM:'' @ m))
                     (Inr (e, f)))))
      else need (eb = PNone \<and> fb = PNone) (ValueError (''CLOUD_RUNTIME_BUDGET_OVERRIDE_FORBIDDEN:'' @ m))
             (Inr (mr, 0)))"

definition load_count :: "int \<Rightarrow> exn \<Rightarrow> pyval \<Rightarrow> int res" where
  "load_count least e v = (case as_int v of None \<Rightarrow> Inl e | Some i \<Rightarrow> need (least \<le> i) e (Inr i))"

definition load_text :: "exn \<Rightarrow> pyval \<Rightarrow> string res" where
  "load_text e v = (case as_str v of None \<Rightarrow> Inl e | Some s \<Rightarrow> need (s \<noteq> []) e (Inr s))"

definition load_max_runtime :: "exn \<Rightarrow> pyval \<Rightarrow> rat res" where
  "load_max_runtime e v = (case as_num v of None \<Rightarrow> Inl e | Some x \<Rightarrow> need (0 < x) e (Inr x))"

definition load_tool_limit :: "exn \<Rightarrow> pyval \<Rightarrow> int option res" where
  "load_tool_limit e v = (if v = PNone then Inr None else rbind (load_count 1 e v) (\<lambda>i. Inr (Some i)))"

definition load_guard :: "string \<Rightarrow> pyval \<Rightarrow> pydict res" where
  "load_guard m v =
     (case as_dict v of
        None \<Rightarrow> Inl (ValueError (''INVALID_LOOP_GUARD:'' @ m))
      | Some guard \<Rightarrow>
          rbind (load_count 2 (ValueError (''INVALID_LOOP_THRESHOLD:'' @ m)) (dget guard ''consecutive_threshold''))
            (\<lambda>t. Inr guard))"

definition load_policy_name :: "exn \<Rightarrow> string list \<Rightarrow> pyval \<Rightarrow> string res" where
  "load_policy_name e names v =
     rbind (in_names v names) (\<lambda>ok. need ok e (case as_str v of None \<Rightarrow> Inl e | Some s \<Rightarrow> Inr s))"

text \<open>One entry of the registry file, its checks in the order of the loop body.\<close>

definition load_model :: "string \<times> pyval \<Rightarrow> (string \<times> profile) res" where
  "load_model mv = (case mv of (m, v) \<Rightarrow>
     (case as_dict v of
        None \<Rightarrow> Inl (ValueError ''INVALID_MODEL_REGISTRY'')
      | Some d \<Rightarrow>
          need (m \<noteq> []) (ValueError ''INVALID_MODEL_REGISTRY'')
          (rbind (load_runtime_class m (dget d ''runtime_class'')) (\<lambda>c.
           rbind (load_text (ValueError (''INVALID_POLICY_PROFILE:'' @ m)) (dget d ''policy_profile'')) (\<lambda>name.
           rbind (load_max_runtime (ValueError (''INVALID_MAX_RUNTIME:'' @ m)) (dget d ''max_runtime'')) (\<lambda>mr.
           rbind (load_budgets m c mr (dget d ''execution_budget'') (dget d ''finalization_recovery_budget'')) (\<lambda>(eb, fb).
           rbind (load_count 0 (ValueError (''INVALID_MAX_RETRIES:'' @ m)) (dget d ''max_retries'')) (\<lambda>retries.
           rbind (load_tool_limit (ValueError (''INVALID_MAX_TOOL_CALLS:'' @ m)) (dget d ''max_tool_calls'')) (\<lambda>tools.
           rbind (load_guard m (dget d ''loop_guard'')) (\<lambda>guard.
           rbind (load_policy_name (ValueError (''INVALID_CONTEXT_POLICY:'' @ m)) context_policies (dget d ''context_policy'')) (\<lambda>cp.
           rbind (load_policy_name (ValueError (''INVALID_FALLBACK_POLICY:'' @ m)) fallback_policies (dget d ''fallback_policy'')) (\<lambda>fp.
           rbind (load_count 0 (ValueError (''INVALID_CONTEXT_RESET_LIMIT:'' @ m)) (dget_or d ''max_context_resets'' (PInt 1))) (\<lambda>resets.
           Inr (m, post_init \<lparr>model_id = m, runtime_class = c, policy_profile = name,
              max_runtime = mr, max_retries = retries, max_tool_calls = tools, loop_guard = guard,
              context_policy = cp, fallback_policy = fp, max_context_resets = resets,
              execution_budget = Some eb, finalization_budget = Some fb, task_class = STANDARD\<rparr>))))))))))))))"

text \<open>\<open>ModelRegistry.load\<close> on the decoded file; the first invalid entry raises.\<close>

definition load_models :: "pyval \<Rightarrow> (string \<times> profile) list res" where
  "load_models raw =
     (case as_dict raw of
        None \<Rightarrow> Inl (ValueError ''INVALID_MODEL_REGISTRY'')
      | Some cfg \<Rightarrow>
          (case as_dict (dget cfg ''models'') of
             None \<Rightarrow> Inl (ValueError ''INVALID_MODEL_REGISTRY'')
           | Some ms \<Rightarrow> rmap load_model ms))"

definition require_model :: "(string \<times> profile) list \<Rightarrow> string \<Rightarrow> profile res" where
  "require_model ms m =
     (case map_of ms m of None \<Rightarrow> Inl (PolicyResolutionError ''UNKNOWN_MODEL'') | Some p \<Rightarrow> Inr p)"

definition resolve_model :: "(string \<times> profile) list \<Rightarrow> pyval \<Rightarrow> profile res" where
  "resolve_model ms v =
     (case as_str v of
        None \<Rightarrow> Inl (PolicyResolutionError ''MODEL_PROFILE_MISMATCH'')
      | Some m \<Rightarrow> need (m \<noteq> []) (PolicyResolutionError ''MODEL_PROFILE_MISMATCH'') (require_model ms m))"

section \<open>Redacted signatures of events\<close>

fun redacted_normalize :: "pyval \<Rightarrow> pyval" where
  "redacted_normalize (PDict d) =
     PDict (map (\<lambda>(k, v). (k, if List.member sensitive_keys (lower k) then PStr ''[REDACTED]'' else v))
       (sort_key fst (map (\<lambda>(k, v). (k, redacted_normalize v)) d)))"
| "redacted_normalize (PList xs) = PList (map redacted_normalize xs)"
| "redacted_normalize (PTuple xs) = PList (map redacted_normalize xs)"
| "redacted_normalize (PStr s) = PStr (strip s)"
| "redacted_normalize (POther t) = PStr t"
| "redacted_normalize v = v"

definition action_canonical :: "pydict \<Rightarrow> pyval" where
  "action_canonical ev = PDict
     [(''tool_name'', dget ev ''tool_name''),
      (''action_type'', dget ev ''action_type''),
      (''target'', por (dget ev ''target'') (dget ev ''resource'')),
      (''arguments'', redacted_normalize (dget_or ev ''arguments'' (PDict [])))]"

definition action_signature :: "std \<Rightarrow> pydict \<Rightarrow> string res" where
  "action_signature S ev =
     rbind (dumps (float_repr S) False (action_canonical ev)) (\<lambda>raw. Inr (sha256 S raw))"

definition progress_canonical :: "pydict \<Rightarrow> pyval" where
  "progress_canonical ev = PDict
     [(''error_code'', dget ev ''error_code''),
      (''result_code'', dget ev ''result_code''),
      (''state_changed'', PBool (truthy (dget_or ev ''state_changed'' (PBool False))))]"

definition progress_signature :: "std \<Rightarrow> pydict \<Rightarrow> string res" where
  "progress_signature S ev =
     rbind (dumps (float_repr S) True (redacted_normalize (progress_canonical ev))) (\<lambda>raw. Inr (sha256 S raw))"

section \<open>The policy engine\<close>

text \<open>
  The \<open>goal\<close> entry of the policy state, which the Core and the recovery layer keep there, and the
  policy state itself. A field that is absent from the dictionary is \<open>None\<close>.
\<close>

record goal_state =
  gs_signature :: "string option"
  gs_drift_count :: "int option"
  gs_completed :: "bool option"
  gs_recovery_source :: "string option"
  gs_recovery_dispatch :: "int option"
  gs_recovery_execution :: "int option"
  gs_watchdog_source :: "string option"
  gs_watchdog_attempt :: "int option"

definition empty_goal_state :: goal_state where
  "empty_goal_state =
     \<lparr>gs_signature = None, gs_drift_count = None, gs_completed = None, gs_recovery_source = None,
      gs_recovery_dispatch = None, gs_recovery_execution = None, gs_watchdog_source = None,
      gs_watchdog_attempt = None\<rparr>"

record policy_state =
  ps_retry_count :: "int option"
  ps_tool_call_count :: "int option"
  ps_action_signature :: "string option"
  ps_action_repeats :: "int option"
  ps_progress_signature :: "string option"
  ps_progress_repeats :: "int option"
  ps_goal :: "goal_state option"

definition empty_policy_state :: policy_state where
  "empty_policy_state =
     \<lparr>ps_retry_count = None, ps_tool_call_count = None, ps_action_signature = None, ps_action_repeats = None,
      ps_progress_signature = None, ps_progress_repeats = None, ps_goal = None\<rparr>"

definition or_zero :: "int option \<Rightarrow> int" where
  "or_zero v = (case v of None \<Rightarrow> 0 | Some i \<Rightarrow> i)"

record decision =
  dec_event_code :: "string option"
  dec_cancel_reason :: string
  dec_retry_count :: int
  dec_tool_call_count :: "int option"
  dec_state :: policy_state

definition cancel_reason_for :: "string \<Rightarrow> string" where
  "cancel_reason_for suffix =
     (if suffix = ''RUNTIME_LIMIT'' then ''EXECUTION_RUNTIME_LIMIT''
      else if suffix = ''TOOL_BUDGET'' then ''TOOL_CALL_LIMIT''
      else if suffix = ''LOOP_GUARD'' then ''REPETITIVE_TOOL_CALL''
      else if suffix = ''LOOP_DETECTED'' then ''LOOP_DETECTED''
      else if suffix = ''RETRY_LIMIT'' then ''RETRY_LIMIT''
      else if suffix = ''GOAL_DRIFT'' then ''LOOP_DETECTED''
      else ''EXECUTION_'' @ suffix)"

definition quiet :: "int \<Rightarrow> int option \<Rightarrow> policy_state \<Rightarrow> decision" where
  "quiet retries tools st =
     \<lparr>dec_event_code = None, dec_cancel_reason = [], dec_retry_count = retries,
      dec_tool_call_count = tools, dec_state = st\<rparr>"

definition alarm :: "string \<Rightarrow> string \<Rightarrow> int \<Rightarrow> int option \<Rightarrow> policy_state \<Rightarrow> decision" where
  "alarm event suffix retries tools st =
     \<lparr>dec_event_code = Some event, dec_cancel_reason = cancel_reason_for suffix, dec_retry_count = retries,
      dec_tool_call_count = tools, dec_state = st\<rparr>"

definition threshold_of :: "profile \<Rightarrow> int res" where
  "threshold_of p =
     (case map_of (loop_guard p) ''consecutive_threshold'' of
        None \<Rightarrow> Inl (KeyError ''consecutive_threshold'')
      | Some v \<Rightarrow> (case as_int v of None \<Rightarrow> Inl (TypeError ''consecutive_threshold'') | Some i \<Rightarrow> Inr i))"

text \<open>One more repetition of the last signature, or a fresh run of length one.\<close>

definition next_repeats :: "string option \<Rightarrow> int option \<Rightarrow> string \<Rightarrow> int" where
  "next_repeats previous repeats signature =
     (if previous = Some signature then or_zero repeats + 1 else 1)"

definition evaluate_retry :: "profile \<Rightarrow> policy_state \<Rightarrow> decision" where
  "evaluate_retry p st =
     (let n = or_zero (ps_retry_count st) + 1; st' = st\<lparr>ps_retry_count := Some n\<rparr>
      in if max_retries p < n then alarm ''RETRY_LIMIT'' ''RETRY_LIMIT'' n (ps_tool_call_count st) st'
         else quiet n (ps_tool_call_count st) st')"

definition evaluate_tool_call :: "std \<Rightarrow> profile \<Rightarrow> int \<Rightarrow> policy_state \<Rightarrow> pydict \<Rightarrow> decision res" where
  "evaluate_tool_call S p threshold st ev =
     (let retries = or_zero (ps_retry_count st) in
      if dget ev ''observable'' \<noteq> PBool True then Inr (quiet retries (ps_tool_call_count st) st)
      else
        (let n = or_zero (ps_tool_call_count st) + 1 in
         rbind (action_signature S ev) (\<lambda>sig.
           let repeats = next_repeats (ps_action_signature st) (ps_action_repeats st) sig;
               st' = st\<lparr>ps_tool_call_count := Some n, ps_action_signature := Some sig, ps_action_repeats := Some repeats\<rparr>
           in Inr (if (case max_tool_calls p of None \<Rightarrow> False | Some m \<Rightarrow> m < n)
                     then alarm ''TOOL_BUDGET'' ''TOOL_BUDGET'' retries (Some n) st'
                   else if threshold \<le> repeats then alarm ''LOOP_SUSPECTED'' ''LOOP_GUARD'' retries (Some n) st'
                   else quiet retries (Some n) st'))))"

definition evaluate_progress :: "std \<Rightarrow> int \<Rightarrow> policy_state \<Rightarrow> pydict \<Rightarrow> decision res" where
  "evaluate_progress S threshold st ev =
     (let retries = or_zero (ps_retry_count st) in
      if (dget ev ''kind'' = PStr ''error'' \<or> dget ev ''kind'' = PStr ''result'')
         \<and> dget ev ''state_changed'' \<noteq> PBool True then
        rbind (progress_signature S ev) (\<lambda>sig.
          let repeats = next_repeats (ps_progress_signature st) (ps_progress_repeats st) sig;
              st' = st\<lparr>ps_progress_signature := Some sig, ps_progress_repeats := Some repeats\<rparr>
          in Inr (if threshold \<le> repeats then alarm ''LOOP_SUSPECTED'' ''LOOP_DETECTED'' retries (ps_tool_call_count st) st'
                  else quiet retries (ps_tool_call_count st) st'))
      else if dget ev ''state_changed'' = PBool True then
        Inr (quiet retries (ps_tool_call_count st) (st\<lparr>ps_progress_signature := None, ps_progress_repeats := Some 0\<rparr>))
      else Inr (quiet retries (ps_tool_call_count st) st))"

definition evaluate_event :: "std \<Rightarrow> profile \<Rightarrow> policy_state \<Rightarrow> pydict \<Rightarrow> decision res" where
  "evaluate_event S p st ev =
     rbind (threshold_of p) (\<lambda>threshold.
       if dget ev ''kind'' = PStr ''retry'' then Inr (evaluate_retry p st)
       else if dget ev ''kind'' = PStr ''tool_call'' then evaluate_tool_call S p threshold st ev
       else evaluate_progress S threshold st ev)"

section \<open>Normalisation is a projection\<close>

lemma code_char_plain: "code_char c \<Longrightarrow> \<not> is_space c \<and> to_upper c = c \<and> c \<noteq> CHR '' ''"
  by (auto simp: code_char_def to_upper_def char_class_defs)

lemma code_start_char: "code_start c \<Longrightarrow> code_char c"
  by (auto simp: code_start_def code_char_def)

lemma safe_code_chars: "safe_code s \<Longrightarrow> list_all code_char s"
  by (cases s) (auto simp: code_start_char)

lemma safe_code_fixed:
  assumes "safe_code s"
  shows "replace_char CHR '' '' CHR ''_'' (upper (strip s)) = s"
proof -
  have c: "\<And>c. c \<in> set s \<Longrightarrow> \<not> is_space c \<and> to_upper c = c \<and> c \<noteq> CHR '' ''"
    using safe_code_chars [OF assms] code_char_plain by (auto simp: list_all_iff)
  have "s \<noteq> []" using assms by auto
  then have "strip s = s" using c by (intro strip_id) auto
  moreover have "upper s = s" unfolding upper_def using c by (intro map_idI) blast
  moreover have "replace_char CHR '' '' CHR ''_'' s = s"
    unfolding replace_char_def using c by (intro map_idI) auto
  ultimately show ?thesis by simp
qed

lemma normalized_code_safe: "normalized_code v f = Inr c \<Longrightarrow> safe_code c"
  by (auto simp: normalized_code_def Let_def split: option.splits)

lemma normalized_code_fixed: "safe_code c \<Longrightarrow> normalized_code (PStr c) f = Inr c"
  by (simp add: normalized_code_def Let_def safe_code_fixed)

lemma normalized_text_fixed:
  "normalized_text v f = Inr t \<Longrightarrow> normalized_text (PStr t) f' = Inr t"
  by (auto simp: normalized_text_def Let_def join_split_words_idem split: option.splits)

definition code_list :: "string list \<Rightarrow> bool" where
  "code_list cs \<longleftrightarrow> cs \<noteq> [] \<and> distinct cs \<and> (\<forall>c\<in>set cs. safe_code c)"

lemma rmap_normalized_code_safe:
  "rmap (\<lambda>x. normalized_code x f) xs = Inr cs \<Longrightarrow> c \<in> set cs \<Longrightarrow> safe_code c"
  by (auto dest!: rmap_Inr_set normalized_code_safe)

lemma normalized_code_list_codes:
  assumes "normalized_code_list v f = Inr cs"
  shows "code_list cs"
proof -
  from assms obtain xs ds where xs: "xs \<noteq> []" and
    ds: "rmap (\<lambda>x. normalized_code x f) xs = Inr ds" and cs: "cs = first_occurrences ds"
    by (auto simp: normalized_code_list_def rbind_Inr_iff split: option.splits)
  from rmap_Inr_length [OF ds] xs have "ds \<noteq> []" by auto
  with cs rmap_normalized_code_safe [OF ds] show ?thesis by (auto simp: code_list_def)
qed

lemma rmap_normalized_code_fixed:
  "\<forall>c\<in>set cs. safe_code c \<Longrightarrow> rmap (\<lambda>x. normalized_code x f) (map PStr cs) = Inr cs"
  by (induction cs) (auto simp: normalized_code_fixed)

lemma normalized_code_list_fixed: "code_list cs \<Longrightarrow> normalized_code_list (str_list cs) f = Inr cs"
  by (simp add: code_list_def normalized_code_list_def str_list_def rmap_normalized_code_fixed)

text \<open>The five input fields of a contract, without the identifier derived from them.\<close>

definition contract_input :: "goal_contract \<Rightarrow> pydict" where
  "contract_input g = filter (\<lambda>(k, v). k \<noteq> ''goal_id'') (contract_dict g)"

lemma contract_input_simps:
  "contract_input g =
     [(''primary_objective'', PStr (primary_objective g)), (''allowed_scope'', str_list (allowed_scope g)),
      (''forbidden_scope'', str_list (forbidden_scope g)), (''expected_result'', PStr (expected_result g)),
      (''completion_conditions'', str_list (completion_conditions g))]"
  by (simp add: contract_input_def contract_dict_def)

definition contract_ok :: "std \<Rightarrow> goal_contract \<Rightarrow> bool" where
  "contract_ok S g \<longleftrightarrow>
     (\<forall>f. normalized_text (PStr (primary_objective g)) f = Inr (primary_objective g)) \<and>
     (\<forall>f. normalized_text (PStr (expected_result g)) f = Inr (expected_result g)) \<and>
     code_list (allowed_scope g) \<and> code_list (forbidden_scope g) \<and> code_list (completion_conditions g) \<and>
     goal_id g = goal_id_of S (primary_objective g) (allowed_scope g) (forbidden_scope g)
                   (expected_result g) (completion_conditions g)"

lemma normalize_goal_contract_ok:
  "normalize_goal_contract S v = Inr g \<Longrightarrow> contract_ok S g"
  unfolding normalize_goal_contract_def contract_ok_def
  by (auto simp: rbind_Inr_iff split: option.splits
      dest: normalized_text_fixed normalized_code_list_codes)

lemma contract_ok_renormalize:
  assumes "contract_ok S g" shows "normalize_goal_contract S (PDict (contract_input g)) = Inr g"
proof -
  have "set (map fst (contract_input g)) = set contract_fields"
    by (auto simp: contract_input_simps contract_fields_def)
  with assms show ?thesis
    by (cases g) (simp add: normalize_goal_contract_def contract_ok_def contract_input_simps normalized_code_list_fixed)
qed

text \<open>A normalised goal contract is a fixed point: feeding its five input fields back through the
  normaliser returns the same contract with the same goal identifier, so a recovery child that is
  dispatched with the projected contract of its parent has exactly the parent's contract.\<close>

theorem goal_contract_roundtrip:
  assumes "normalize_goal_contract S v = Inr g"
  shows "normalize_goal_contract S (PDict (contract_input g)) = Inr g"
  using assms by (intro contract_ok_renormalize normalize_goal_contract_ok)

definition sample_contract :: pydict where
  "sample_contract =
     [(''primary_objective'', PStr ''Ship  it ''), (''allowed_scope'', str_list ['' repo a'', ''REPO_A'']),
      (''forbidden_scope'', str_list [''prod'']), (''expected_result'', PStr ''ok''),
      (''completion_conditions'', str_list [''done''])]"

definition sample_goal :: goal_contract where
  "sample_goal = \<lparr>goal_id = ''goal-'' @ [CHR ''{'', CHR 0x22] @ ''allowed_scope'' @ [CHR 0x22, CHR '':'', CHR ''['', CHR 0x22] @ ''REPO_'',
     primary_objective = ''Ship it'', allowed_scope = [''REPO_A''], forbidden_scope = [''PROD''],
     expected_result = ''ok'', completion_conditions = [''DONE'']\<rparr>"

lemma sample_goal_normal: "normalize_goal_contract plain_std (PDict sample_contract) = Inr sample_goal"
  by code_simp

theorem goal_contract_roundtrip_witness:
  "normalize_goal_contract plain_std (PDict (contract_input sample_goal)) = Inr sample_goal"
  by (rule goal_contract_roundtrip [OF sample_goal_normal])

section \<open>Redaction\<close>

lemma insort_key_map:
  "insort_key f (g x) (map g xs) = map g (insort_key (\<lambda>y. f (g y)) x xs)"
  by (induction xs) auto

lemma sort_key_map: "sort_key f (map g xs) = map g (sort_key (\<lambda>y. f (g y)) xs)"
  by (induction xs) (auto simp: insort_key_map)

lemma sort_key_cong_map:
  assumes "\<And>x. x \<in> set xs \<Longrightarrow> g (h x) = g x" and fst: "\<And>x. f (g x) = f x" "\<And>x. f (h x) = f x"
  shows "map g (sort_key f (map h xs)) = map g (sort_key f xs)"
proof -
  have "map g (sort_key f (map h xs)) = sort_key f (map g (map h xs))"
    using sort_key_map [of f g "map h xs"] by (simp add: fst)
  also have "map g (map h xs) = map g xs" using assms(1) by auto
  also have "sort_key f (map g xs) = map g (sort_key f xs)"
    using sort_key_map [of f g xs] by (simp add: fst)
  finally show ?thesis .
qed

text \<open>\<open>mask f v\<close> replaces every value under a sensitive key of \<open>v\<close>, at any depth.\<close>

fun mask :: "(pyval \<Rightarrow> pyval) \<Rightarrow> pyval \<Rightarrow> pyval" where
  "mask f (PDict d) = PDict (map (\<lambda>(k, v). (k, if List.member sensitive_keys (lower k) then f v else mask f v)) d)"
| "mask f (PList xs) = PList (map (mask f) xs)"
| "mask f (PTuple xs) = PTuple (map (mask f) xs)"
| "mask f v = v"

definition redact_entry :: "string \<times> pyval \<Rightarrow> string \<times> pyval" where
  "redact_entry = (\<lambda>(k, v). (k, if List.member sensitive_keys (lower k) then PStr ''[REDACTED]'' else v))"

lemma fst_redact_entry: "fst (redact_entry x) = fst x"
  by (simp add: redact_entry_def split: prod.splits)

lemma redacted_normalize_dict:
  "redacted_normalize (PDict d) =
     PDict (sort_key fst (map (\<lambda>(k, v). redact_entry (k, redacted_normalize v)) d))"
proof -
  let ?d = "map (\<lambda>(k, v). (k, redacted_normalize v)) d"
  have 1: "map redact_entry (sort_key fst ?d) = sort_key fst (map redact_entry ?d)"
    using sort_key_map [of fst redact_entry ?d] by (simp add: fst_redact_entry)
  have 2: "map redact_entry ?d = map (\<lambda>(k, v). redact_entry (k, redacted_normalize v)) d" by auto
  have 3: "redacted_normalize (PDict d) = PDict (map redact_entry (sort_key fst ?d))"
    by (simp add: redact_entry_def)
  show ?thesis by (simp only: 1 2 3)
qed

lemma redacted_normalize_mask: "redacted_normalize (mask f v) = redacted_normalize v"
proof (induction v rule: redacted_normalize.induct)
  case (1 d)
  have "\<And>k v. (k, v) \<in> set d \<Longrightarrow> redacted_normalize (mask f v) = redacted_normalize v"
    using 1 by auto
  then have "map (\<lambda>(k, v). redact_entry (k, redacted_normalize v))
       (map (\<lambda>(k, v). (k, if List.member sensitive_keys (lower k) then f v else mask f v)) d) =
     map (\<lambda>(k, v). redact_entry (k, redacted_normalize v)) d"
    by (auto simp: redact_entry_def)
  then show ?case by (simp only: redacted_normalize_dict mask.simps)
qed auto

text \<open>No sensitive entry of a redacted value holds anything but the marker.\<close>

fun redacted :: "pyval \<Rightarrow> bool" where
  "redacted (PDict d) = list_all (\<lambda>(k, v). if List.member sensitive_keys (lower k) then v = PStr ''[REDACTED]'' else redacted v) d"
| "redacted (PList xs) = list_all redacted xs"
| "redacted (PTuple xs) = False"
| "redacted (POther t) = False"
| "redacted v = True"

lemma redacted_redacted_normalize: "redacted (redacted_normalize v)"
  by (induction v rule: redacted_normalize.induct)
    (auto simp: list_all_iff redact_entry_def redacted_normalize_dict)

definition mask_event :: "(pyval \<Rightarrow> pyval) \<Rightarrow> pydict \<Rightarrow> pydict" where
  "mask_event f ev = map (\<lambda>(k, v). (k, if k = ''arguments'' then mask f v else v)) ev"

lemma dget_mask_event: "k \<noteq> ''arguments'' \<Longrightarrow> dget (mask_event f ev) k = dget ev k"
  unfolding mask_event_def by (induction ev) auto

lemma redacted_arguments_mask_event:
  "redacted_normalize (dget_or (mask_event f ev) ''arguments'' (PDict [])) =
   redacted_normalize (dget_or ev ''arguments'' (PDict []))"
  unfolding mask_event_def by (induction ev) (auto simp: redacted_normalize_mask)

text \<open>The action signature of a tool call does not depend on the values its arguments hold under
  sensitive keys (token, password, prompt, message, ...), at any depth, and the canonical form that is
  hashed holds the marker in their place.\<close>

theorem action_signature_hides_secrets:
  "action_signature S (mask_event f ev) = action_signature S ev \<and>
   redacted (redacted_normalize (dget_or ev ''arguments'' (PDict [])))"
proof -
  have "action_canonical (mask_event f ev) = action_canonical ev"
    by (simp add: action_canonical_def dget_mask_event redacted_arguments_mask_event)
  then show ?thesis by (simp add: action_signature_def redacted_redacted_normalize)
qed

section \<open>Budgets and the loop guard\<close>

text \<open>
  The counters of a policy state stay inside the profile's limits: at most \<open>max_retries\<close> retries,
  at most \<open>max_tool_calls\<close> tool calls, and runs of equal signatures shorter than the threshold.
\<close>

definition in_limits :: "profile \<Rightarrow> int \<Rightarrow> policy_state \<Rightarrow> bool" where
  "in_limits p threshold st \<longleftrightarrow>
     0 < threshold \<and> or_zero (ps_retry_count st) \<le> max_retries p \<and>
     (case max_tool_calls p of None \<Rightarrow> True | Some m \<Rightarrow> or_zero (ps_tool_call_count st) \<le> m) \<and>
     or_zero (ps_action_repeats st) < threshold \<and> or_zero (ps_progress_repeats st) < threshold"

lemma or_zero_simps [simp]: "or_zero None = 0" "or_zero (Some i) = i"
  by (simp_all add: or_zero_def)

lemmas verdict_defs = quiet_def alarm_def cancel_reason_for_def

lemma evaluate_retry_in_limits:
  "in_limits p t st \<Longrightarrow> in_limits p t (dec_state (evaluate_retry p st)) \<longleftrightarrow> dec_event_code (evaluate_retry p st) = None"
  by (auto simp: evaluate_retry_def Let_def verdict_defs in_limits_def split: option.splits)

lemma evaluate_tool_call_in_limits:
  "in_limits p t st \<Longrightarrow> evaluate_tool_call S p t st ev = Inr d \<Longrightarrow>
     in_limits p t (dec_state d) \<longleftrightarrow> dec_event_code d = None"
  by (auto simp: evaluate_tool_call_def Let_def verdict_defs in_limits_def rbind_Inr_iff
      split: option.splits if_splits)

lemma evaluate_progress_in_limits:
  "in_limits p t st \<Longrightarrow> evaluate_progress S t st ev = Inr d \<Longrightarrow>
     in_limits p t (dec_state d) \<longleftrightarrow> dec_event_code d = None"
  by (auto simp: evaluate_progress_def Let_def verdict_defs in_limits_def rbind_Inr_iff
      split: option.splits if_splits)

lemma event_code_iff_cancel:
  assumes "evaluate_event S p st ev = Inr d"
  shows "dec_event_code d = None \<longleftrightarrow> dec_cancel_reason d = []"
  using assms
  by (auto simp: evaluate_event_def evaluate_retry_def evaluate_tool_call_def evaluate_progress_def Let_def
      verdict_defs rbind_Inr_iff split: option.splits if_splits)

text \<open>The policy engine raises an alarm exactly when an event takes the counters out of the profile's
  limits: as long as no decision carries a cancel reason the recorded retries, tool calls and runs of equal
  signatures stay within bounds, and the first event that leaves them is answered with a cancel reason.\<close>

theorem policy_alarm_iff_over_limit:
  assumes "threshold_of p = Inr t" and "in_limits p t st" and "evaluate_event S p st ev = Inr d"
  shows "dec_cancel_reason d = [] \<longleftrightarrow> in_limits p t (dec_state d)"
proof -
  have "in_limits p t (dec_state d) \<longleftrightarrow> dec_event_code d = None"
    using assms evaluate_retry_in_limits evaluate_tool_call_in_limits evaluate_progress_in_limits
    by (auto simp: evaluate_event_def split: if_splits)
  then show ?thesis using event_code_iff_cancel [OF assms(3)] by simp
qed

theorem policy_alarm_iff_over_limit_witness:
  "dec_cancel_reason (evaluate_retry neutral_profile (empty_policy_state\<lparr>ps_retry_count := Some 1\<rparr>)) = [] \<longleftrightarrow>
   in_limits neutral_profile 3 (dec_state (evaluate_retry neutral_profile (empty_policy_state\<lparr>ps_retry_count := Some 1\<rparr>)))"
proof (rule policy_alarm_iff_over_limit)
  show t: "threshold_of neutral_profile = Inr 3"
    by (simp add: threshold_of_def neutral_profile_def task_profile_def Let_def post_init_def)
  show "in_limits neutral_profile 3 (empty_policy_state\<lparr>ps_retry_count := Some 1\<rparr>)"
    by (simp add: in_limits_def neutral_profile_def task_profile_def Let_def post_init_def empty_policy_state_def)
  show "evaluate_event plain_std neutral_profile (empty_policy_state\<lparr>ps_retry_count := Some 1\<rparr>) [(''kind'', PStr ''retry'')] =
      Inr (evaluate_retry neutral_profile (empty_policy_state\<lparr>ps_retry_count := Some 1\<rparr>))"
    by (simp add: evaluate_event_def t)
qed

text \<open>The policy state after a list of events, as the Core stores it between events.\<close>

fun policy_run :: "std \<Rightarrow> profile \<Rightarrow> policy_state \<Rightarrow> pydict list \<Rightarrow> policy_state res" where
  "policy_run S p st [] = Inr st"
| "policy_run S p st (ev # evs) = rbind (evaluate_event S p st ev) (\<lambda>d. policy_run S p (dec_state d) evs)"

definition observed_call :: "pydict \<Rightarrow> bool" where
  "observed_call ev \<longleftrightarrow> dget ev ''kind'' = PStr ''tool_call'' \<and> dget ev ''observable'' = PBool True"

text \<open>The length of the run of equal elements at the end of a list.\<close>

definition trailing_run :: "'a list \<Rightarrow> int" where
  "trailing_run xs = int (length (takeWhile (\<lambda>x. x = last xs) (rev xs)))"

lemma trailing_run_snoc:
  "trailing_run (xs @ [x]) = (if xs \<noteq> [] \<and> last xs = x then trailing_run xs + 1 else 1)"
  by (cases xs rule: rev_cases) (auto simp: trailing_run_def)

lemma policy_run_append:
  "policy_run S p st (evs @ fs) = rbind (policy_run S p st evs) (\<lambda>st'. policy_run S p st' fs)"
  by (induction evs arbitrary: st) (auto simp: rbind_def split: sum.splits)

lemma observed_call_step:
  assumes "threshold_of p = Inr t" and "observed_call ev" and "evaluate_event S p st ev = Inr d"
    and "action_signature S ev = Inr sig"
  shows "ps_tool_call_count (dec_state d) = Some (or_zero (ps_tool_call_count st) + 1) \<and>
    ps_action_signature (dec_state d) = Some sig \<and>
    ps_action_repeats (dec_state d) = Some (next_repeats (ps_action_signature st) (ps_action_repeats st) sig)"
  using assms
  by (auto simp: evaluate_event_def evaluate_tool_call_def observed_call_def Let_def verdict_defs split: if_splits)

lemma rmap_snoc_Inr:
  "rmap f (xs @ [x]) = Inr zs \<longleftrightarrow> (\<exists>ys y. rmap f xs = Inr ys \<and> f x = Inr y \<and> zs = ys @ [y])"
  by (induction xs arbitrary: zs) (auto simp: rbind_Inr_iff)

text \<open>On observed tool calls the policy engine counts faithfully: started from the empty policy state, after
  any sequence of observed calls the stored tool-call count is the number of calls, the stored signature is that
  of the last call, and the stored repeat counter is the length of the run of equal signatures at the end of the
  sequence.\<close>

theorem loop_guard_counts_trailing_run:
  assumes "threshold_of p = Inr t" and "\<forall>ev\<in>set evs. observed_call ev" and "evs \<noteq> []"
    and "rmap (action_signature S) evs = Inr sigs" and "policy_run S p empty_policy_state evs = Inr st"
  shows "ps_tool_call_count st = Some (int (length evs)) \<and> ps_action_signature st = Some (last sigs) \<and>
    ps_action_repeats st = Some (trailing_run sigs)"
  using assms(2-)
proof (induction evs arbitrary: sigs st rule: rev_induct)
  case Nil
  then show ?case by simp
next
  case (snoc ev evs)
  from snoc.prems(3) obtain sigs' sig where sigs': "rmap (action_signature S) evs = Inr sigs'"
    and sig: "action_signature S ev = Inr sig" and sigs: "sigs = sigs' @ [sig]" by (auto simp: rmap_snoc_Inr)
  from snoc.prems(4) obtain st' d where st': "policy_run S p empty_policy_state evs = Inr st'"
    and d: "evaluate_event S p st' ev = Inr d" and st: "st = dec_state d"
    by (auto simp: policy_run_append rbind_Inr_iff)
  have step: "ps_tool_call_count st = Some (or_zero (ps_tool_call_count st') + 1)"
    "ps_action_signature st = Some sig"
    "ps_action_repeats st = Some (next_repeats (ps_action_signature st') (ps_action_repeats st') sig)"
    using observed_call_step [OF assms(1) _ d sig] snoc.prems(1) by (simp_all add: st)
  show ?case
  proof (cases "evs = []")
    case True
    with step st' sigs' sigs show ?thesis
      by (auto simp: empty_policy_state_def next_repeats_def trailing_run_def)
  next
    case False
    then have "sigs' \<noteq> []" using rmap_Inr_length [OF sigs'] by auto
    moreover have "ps_tool_call_count st' = Some (int (length evs)) \<and> ps_action_signature st' = Some (last sigs') \<and>
        ps_action_repeats st' = Some (trailing_run sigs')"
      using snoc.IH [OF _ False sigs' st'] snoc.prems(1) by simp
    ultimately show ?thesis using step sigs by (auto simp: next_repeats_def trailing_run_snoc)
  qed
qed

definition sample_call :: pydict where
  "sample_call = [(''kind'', PStr ''tool_call''), (''observable'', PBool True), (''tool_name'', PStr ''read'')]"

theorem loop_guard_counts_trailing_run_witness:
  "\<exists>st. policy_run plain_std neutral_profile empty_policy_state [sample_call, sample_call] = Inr st \<and>
     ps_action_repeats st = Some (trailing_run [1 :: nat, 1])"
proof -
  obtain sig where sig: "action_signature plain_std sample_call = Inr sig"
    by (auto simp: action_signature_def dumps_def action_canonical_def sample_call_def por_def)
  have t: "threshold_of neutral_profile = Inr 3"
    by (simp add: threshold_of_def neutral_profile_def task_profile_def Let_def post_init_def)
  have "\<exists>st. policy_run plain_std neutral_profile empty_policy_state [sample_call, sample_call] = Inr st"
    using sig by (simp add: evaluate_event_def t) (simp add: sample_call_def evaluate_tool_call_def Let_def)
  then obtain st where st: "policy_run plain_std neutral_profile empty_policy_state [sample_call, sample_call] = Inr st" ..
  have "ps_action_repeats st = Some (trailing_run [sig, sig])"
    using loop_guard_counts_trailing_run [OF t _ _ _ st, of "[sig, sig]"] sig
    by (simp add: observed_call_def sample_call_def)
  with st show ?thesis by (simp add: trailing_run_def)
qed

section \<open>The model registry and checkpoints\<close>

definition profile_ok :: "string \<Rightarrow> profile \<Rightarrow> bool" where
  "profile_ok m p \<longleftrightarrow>
     m \<noteq> [] \<and> model_id p = m \<and> runtime_class p \<noteq> UNKNOWN_CLASS \<and> policy_profile p \<noteq> [] \<and> 0 < max_runtime p \<and>
     (\<exists>e f. execution_budget p = Some e \<and> finalization_budget p = Some f \<and> 0 < e \<and> 0 \<le> f \<and>
        \<bar>e + f - max_runtime p\<bar> \<le> 1 / 1000000000 \<and> (runtime_class p = CLOUD \<longrightarrow> e = max_runtime p \<and> f = 0)) \<and>
     0 \<le> max_retries p \<and> (\<forall>k. max_tool_calls p = Some k \<longrightarrow> 1 \<le> k) \<and>
     (\<exists>t. threshold_of p = Inr t \<and> 2 \<le> t) \<and>
     context_policy p \<in> set context_policies \<and> fallback_policy p \<in> set fallback_policies \<and> 0 \<le> max_context_resets p"

lemma load_runtime_class_Inr: "load_runtime_class m v = Inr c \<Longrightarrow> c \<noteq> UNKNOWN_CLASS"
  by (auto simp: load_runtime_class_def split: pyval.splits option.splits runtime_class.splits)

lemma load_budgets_Inr:
  "load_budgets m c mr eb fb = Inr (e, f) \<Longrightarrow> 0 < mr \<Longrightarrow>
     0 < e \<and> 0 \<le> f \<and> \<bar>e + f - mr\<bar> \<le> 1 / 1000000000 \<and> (c \<noteq> LOCAL \<longrightarrow> e = mr \<and> f = 0)"
  by (auto simp: load_budgets_def Let_def split: option.splits if_splits)

lemma load_count_Inr: "load_count l e v = Inr i \<Longrightarrow> v = PInt i \<and> l \<le> i"
  by (auto simp: load_count_def split: option.splits)

lemma load_text_Inr: "load_text e v = Inr s \<Longrightarrow> s \<noteq> []"
  by (auto simp: load_text_def split: option.splits)

lemma load_max_runtime_Inr: "load_max_runtime e v = Inr x \<Longrightarrow> 0 < x"
  by (auto simp: load_max_runtime_def split: option.splits)

lemma load_tool_limit_Inr: "load_tool_limit e v = Inr (Some i) \<Longrightarrow> 1 \<le> i"
  by (auto simp: load_tool_limit_def rbind_Inr_iff split: if_splits dest: load_count_Inr)

lemma load_guard_Inr:
  "load_guard m v = Inr guard \<Longrightarrow> \<exists>t\<ge>2. map_of guard ''consecutive_threshold'' = Some (PInt t)"
  by (auto simp: load_guard_def rbind_Inr_iff dget_def split: option.splits dest!: load_count_Inr)

lemma load_policy_name_Inr: "load_policy_name e names v = Inr s \<Longrightarrow> s \<in> set names"
  by (auto simp: load_policy_name_def in_names_def rbind_Inr_iff split: option.splits pyval.splits)

lemmas load_facts =
  load_runtime_class_Inr load_budgets_Inr load_count_Inr load_text_Inr load_max_runtime_Inr load_tool_limit_Inr
  load_guard_Inr load_policy_name_Inr

lemma load_model_ok:
  assumes "load_model mv = Inr (m, p)" shows "profile_ok m p"
proof -
  from assms obtain d c name mr e f retries tools guard cp fp resets where m: "m \<noteq> []"
    and stages: "load_runtime_class m (dget d ''runtime_class'') = Inr c"
      "load_text (ValueError (''INVALID_POLICY_PROFILE:'' @ m)) (dget d ''policy_profile'') = Inr name"
      "load_max_runtime (ValueError (''INVALID_MAX_RUNTIME:'' @ m)) (dget d ''max_runtime'') = Inr mr"
      "load_budgets m c mr (dget d ''execution_budget'') (dget d ''finalization_recovery_budget'') = Inr (e, f)"
      "load_count 0 (ValueError (''INVALID_MAX_RETRIES:'' @ m)) (dget d ''max_retries'') = Inr retries"
      "load_tool_limit (ValueError (''INVALID_MAX_TOOL_CALLS:'' @ m)) (dget d ''max_tool_calls'') = Inr tools"
      "load_guard m (dget d ''loop_guard'') = Inr guard"
      "load_policy_name (ValueError (''INVALID_CONTEXT_POLICY:'' @ m)) context_policies (dget d ''context_policy'') = Inr cp"
      "load_policy_name (ValueError (''INVALID_FALLBACK_POLICY:'' @ m)) fallback_policies (dget d ''fallback_policy'') = Inr fp"
      "load_count 0 (ValueError (''INVALID_CONTEXT_RESET_LIMIT:'' @ m)) (dget_or d ''max_context_resets'' (PInt 1)) = Inr resets"
    and p: "p = post_init \<lparr>model_id = m, runtime_class = c, policy_profile = name,
      max_runtime = mr, max_retries = retries, max_tool_calls = tools, loop_guard = guard,
      context_policy = cp, fallback_policy = fp, max_context_resets = resets,
      execution_budget = Some e, finalization_budget = Some f, task_class = STANDARD\<rparr>"
    unfolding load_model_def by (clarsimp simp: rbind_Inr_iff split: prod.splits option.splits)
  from load_guard_Inr [OF stages(7)] obtain t where "2 \<le> t" "map_of guard ''consecutive_threshold'' = Some (PInt t)"
    by blast
  then have "\<exists>t. threshold_of p = Inr t \<and> 2 \<le> t"
    by (simp add: threshold_of_def p post_init_def)
  moreover note load_facts(1) [OF stages(1)] load_facts(4) [OF stages(2)] load_facts(5) [OF stages(3)]
    load_facts(3) [OF stages(5)] load_facts(8) [OF stages(8)] load_facts(8) [OF stages(9)] load_facts(3) [OF stages(10)]
  moreover have "0 < e \<and> 0 \<le> f \<and> \<bar>e + f - mr\<bar> \<le> 1 / 1000000000 \<and> (c \<noteq> LOCAL \<longrightarrow> e = mr \<and> f = 0)"
    using load_budgets_Inr [OF stages(4)] load_max_runtime_Inr [OF stages(3)] by blast
  moreover have "\<forall>k. tools = Some k \<longrightarrow> 1 \<le> k" using load_tool_limit_Inr stages(6) by blast
  ultimately show ?thesis using m by (simp add: profile_ok_def p post_init_def)
qed


definition sample_registry :: pyval where
  "sample_registry = PDict [(''models'', PDict [(''qwen'', PDict
     [(''runtime_class'', PStr ''LOCAL''), (''policy_profile'', PStr ''P''), (''max_runtime'', PInt 100),
      (''execution_budget'', PInt 80), (''finalization_recovery_budget'', PInt 20), (''max_retries'', PInt 1),
      (''loop_guard'', PDict [(''consecutive_threshold'', PInt 3)]), (''context_policy'', PStr ''REUSE''),
      (''fallback_policy'', PStr ''NONE'')])])]"

definition sample_profile :: profile where
  "sample_profile = \<lparr>model_id = ''qwen'', runtime_class = LOCAL, policy_profile = ''P'', max_runtime = 100,
     max_retries = 1, max_tool_calls = None, loop_guard = [(''consecutive_threshold'', PInt 3)],
     context_policy = ''REUSE'', fallback_policy = ''NONE'', max_context_resets = 1,
     execution_budget = Some 80, finalization_budget = Some 20, task_class = STANDARD\<rparr>"


text \<open>A progress checkpoint that is accepted claims only conditions of its own contract, each at most once, and
  carries only codes of the safe alphabet; free text never enters it.\<close>

theorem checkpoint_within_contract:
  assumes "normalize_checkpoint v g = Inr c"
  shows "set (cp_completed c) \<subseteq> set (completion_conditions g) \<and> set (cp_remaining c) \<subseteq> set (completion_conditions g) \<and>
    distinct (cp_completed c) \<and> distinct (cp_remaining c) \<and> distinct (cp_scope_delta c) \<and> cp_goal_id c \<noteq> [] \<and>
    (\<forall>s \<in> {cp_current_step c, cp_blocking_reason c} \<union> set (cp_completed c) \<union> set (cp_remaining c) \<union>
       set (cp_artifact_delta c) \<union> set (cp_scope_delta c) \<union> set (cp_evidence_delta c). safe_code s)"
proof -
  have codes: "optional_codes d k = Inr cs \<Longrightarrow> distinct cs \<and> (\<forall>s\<in>set cs. safe_code s)" for d k cs
    by (auto simp: optional_codes_def code_list_def split: if_splits dest: normalized_code_list_codes)
  show ?thesis
    using assms unfolding normalize_checkpoint_def
    by (auto simp: rbind_Inr_iff split: option.splits dest!: codes dest: normalized_code_safe)
qed

definition sample_checkpoint :: pyval where
  "sample_checkpoint = PDict [(''goal_id'', PStr ''g''), (''completed_conditions'', str_list ['' done '']),
     (''current_step'', PStr ''build it'')]"

theorem checkpoint_within_contract_witness:
  "\<exists>c. normalize_checkpoint sample_checkpoint sample_goal = Inr c \<and> cp_completed c = [''DONE''] \<and>
     set (cp_completed c) \<subseteq> set (completion_conditions sample_goal) \<and> safe_code (cp_current_step c)"
proof -
  let ?c = "\<lparr>cp_goal_id = ''g'', cp_current_step = ''BUILD_IT'', cp_completed = [''DONE''], cp_remaining = [],
     cp_blocking_reason = ''NONE'', cp_artifact_delta = [], cp_scope_delta = [], cp_evidence_delta = []\<rparr>"
  have "case normalize_checkpoint sample_checkpoint sample_goal of Inl e \<Rightarrow> False | Inr c \<Rightarrow> c = ?c"
    by code_simp
  then have c: "normalize_checkpoint sample_checkpoint sample_goal = Inr ?c" by (simp split: sum.splits)
  from checkpoint_within_contract [OF c] c show ?thesis by auto
qed

end
