(* ===== verification/RunRegistry.thy ===== *)
theory RunRegistry
  imports RuntimePolicy
begin

text \<open>
  The durable run registry of the Core (\<^verbatim>\<open>RunRegistry\<close> in \<^verbatim>\<open>plachem_fast_gateway/core_engine.py\<close>) and the
  data it shares with the transport (\<^verbatim>\<open>CoreRunStatus\<close>, \<^verbatim>\<open>RunBinding\<close>, \<^verbatim>\<open>AdapterOutcome\<close> in
  \<^verbatim>\<open>openclaw_adapter.py\<close>). The registry is the list of all records ever appended; the current record of a run
  is the last one with its identifier. Time stamps are seconds; the readings of the clock are arguments.
\<close>

section \<open>Runs\<close>

datatype status = QUEUED | RUNNING | PASS | FAIL | BLOCKED | TIMEOUT | CANCELLED

fun status_value :: "status \<Rightarrow> string" where
  "status_value QUEUED = ''QUEUED''"
| "status_value RUNNING = ''RUNNING''"
| "status_value PASS = ''PASS''"
| "status_value FAIL = ''FAIL''"
| "status_value BLOCKED = ''BLOCKED''"
| "status_value TIMEOUT = ''TIMEOUT''"
| "status_value CANCELLED = ''CANCELLED''"

definition terminal_states :: "status list" where
  "terminal_states = [PASS, FAIL, BLOCKED, TIMEOUT, CANCELLED]"

fun successors :: "status \<Rightarrow> status list" where
  "successors QUEUED = [RUNNING, FAIL, BLOCKED, CANCELLED]"
| "successors RUNNING = terminal_states"
| "successors _ = []"

abbreviation terminal :: "status \<Rightarrow> bool" where
  "terminal s \<equiv> s \<in> set terminal_states"

record run_binding =
  bd_core_run :: string
  bd_openclaw_run :: string
  bd_agent :: string
  bd_session_key :: string
  bd_session_id :: "string option"

record adapter_outcome =
  oc_status :: status
  oc_reason :: string
  oc_result :: "pydict option"
  oc_format_error :: string
  oc_format_attempts :: int
  oc_format_rejection :: string
  oc_raw :: "string option"
  oc_rejected :: "pydict option"

definition plain_outcome :: "status \<Rightarrow> string \<Rightarrow> adapter_outcome" where
  "plain_outcome s reason = \<lparr>oc_status = s, oc_reason = reason, oc_result = None, oc_format_error = [],
     oc_format_attempts = 0, oc_format_rejection = [], oc_raw = None, oc_rejected = None\<rparr>"

text \<open>\<open>_policy_metadata\<close>: the part of a record that \<open>create\<close> copies from the profile.\<close>

record run_policy =
  pm_runtime_class :: runtime_class
  pm_task_class :: task_class
  pm_model_profile :: string
  pm_policy_profile :: string
  pm_max_runtime :: rat
  pm_execution_budget :: "rat option"
  pm_finalization_budget :: "rat option"
  pm_max_retries :: int
  pm_max_tool_calls :: "int option"
  pm_context_policy :: string
  pm_fallback_policy :: string
  pm_max_context_resets :: int

definition policy_metadata :: "profile \<Rightarrow> run_policy" where
  "policy_metadata p = \<lparr>pm_runtime_class = runtime_class p, pm_task_class = task_class p,
     pm_model_profile = model_id p, pm_policy_profile = policy_profile p, pm_max_runtime = max_runtime p,
     pm_execution_budget = execution_budget p, pm_finalization_budget = finalization_budget p,
     pm_max_retries = max_retries p, pm_max_tool_calls = max_tool_calls p, pm_context_policy = context_policy p,
     pm_fallback_policy = fallback_policy p, pm_max_context_resets = max_context_resets p\<rparr>"

record policy_event =
  ev_code :: string
  ev_at :: rat
  ev_details :: pydict

record progress =
  vp_completed :: "string list"
  vp_artifacts :: "string list"
  vp_evidence :: "string list"
  vp_scope :: "string list"

text \<open>
  A record of the registry file. The flat dictionary is grouped: \<open>r_policy\<close> holds the keys written only by
  \<open>create\<close>, the five keys of the worker's answer carry their own names.
\<close>

record run =
  r_id :: string
  r_agent :: string
  r_idempotency :: string
  r_request_hash :: string
  r_status :: status
  r_created :: rat
  r_updated :: rat
  r_started :: "rat option"
  r_completed :: "rat option"
  r_reason :: string
  r_result :: "pydict option"
  r_raw_response :: "string option"
  r_rejected_result :: "pydict option"
  r_format_error :: string
  r_format_attempts :: int
  r_format_rejection :: string
  r_binding :: "run_binding option"
  r_policy :: run_policy
  r_runtime_seconds :: rat
  r_retry_count :: int
  r_tool_call_count :: "int option"
  r_tool_metric :: string
  r_policy_status :: string
  r_policy_events :: "policy_event list"
  r_cancel_reason :: string
  r_policy_state :: policy_state
  r_goal_contract :: goal_contract
  r_goal_status :: string
  r_reinjection_ready :: bool
  r_checkpoint :: "checkpoint option"
  r_progress :: progress
  r_context_resets :: int
  r_parent :: "string option"
  r_approved_paths :: "string list"
  r_watchdog_managed :: bool
  r_escalation_required :: bool
  r_escalation_reason :: string
  r_escalation_package :: "pydict option"

section \<open>Reading the registry\<close>

definition get_run :: "string \<Rightarrow> run list \<Rightarrow> run option" where
  "get_run i rs = find_last (\<lambda>r. r_id r = i) rs"

definition get_by_idempotency :: "string \<Rightarrow> run list \<Rightarrow> run option" where
  "get_by_idempotency k rs = find_last (\<lambda>r. r_idempotency r = k) rs"

text \<open>The dictionary of latest records, in the order in which the runs were created.\<close>

definition latest_runs :: "run list \<Rightarrow> run list" where
  "latest_runs rs = List.map_filter (\<lambda>i. get_run i rs) (first_occurrences (map r_id rs))"

definition recent_runs :: "int \<Rightarrow> run list \<Rightarrow> run list res" where
  "recent_runs limit rs =
     need (1 \<le> limit \<and> limit \<le> 200) (ValueError ''INVALID_LIMIT'') (Inr (take (nat limit) (rev (latest_runs rs))))"

definition active_runs :: "run list \<Rightarrow> run list" where
  "active_runs rs = filter (\<lambda>r. r_status r = RUNNING) (latest_runs rs)"

section \<open>Appending to the registry\<close>

definition append_run :: "run \<Rightarrow> (run list, unit) op" where
  "append_run r = modify (\<lambda>rs. rs @ [r])"

definition require_run :: "string \<Rightarrow> (run list, run) op" where
  "require_run i = bnd (gets (get_run i)) (\<lambda>found.
     case found of None \<Rightarrow> raise (ValueError (''UNKNOWN_CORE_RUN:'' @ i)) | Some r \<Rightarrow> ret r)"

definition new_run ::
  "string \<Rightarrow> string \<Rightarrow> string \<Rightarrow> string \<Rightarrow> run_policy \<Rightarrow> goal_contract \<Rightarrow> string option \<Rightarrow> int \<Rightarrow> string list \<Rightarrow> bool \<Rightarrow> rat \<Rightarrow> run" where
  "new_run i ag key h pol goal parent resets approved managed now =
     \<lparr>r_id = i, r_agent = ag, r_idempotency = key, r_request_hash = h, r_status = QUEUED,
      r_created = now, r_updated = now, r_started = None, r_completed = None, r_reason = [], r_result = None,
      r_raw_response = None, r_rejected_result = None, r_format_error = [], r_format_attempts = 0,
      r_format_rejection = [], r_binding = None, r_policy = pol, r_runtime_seconds = 0, r_retry_count = 0,
      r_tool_call_count = None, r_tool_metric = ''UNSUPPORTED'', r_policy_status = ''NORMAL'', r_policy_events = [],
      r_cancel_reason = [], r_policy_state = empty_policy_state\<lparr>ps_retry_count := Some 0\<rparr>, r_goal_contract = goal,
      r_goal_status = ''NORMAL'', r_reinjection_ready = False, r_checkpoint = None,
      r_progress = \<lparr>vp_completed = [], vp_artifacts = [], vp_evidence = [], vp_scope = []\<rparr>,
      r_context_resets = resets, r_parent = parent, r_approved_paths = approved, r_watchdog_managed = managed,
      r_escalation_required = False, r_escalation_reason = [], r_escalation_package = None\<rparr>"

definition create_run ::
  "string \<Rightarrow> string \<Rightarrow> string \<Rightarrow> string \<Rightarrow> run_policy \<Rightarrow> goal_contract \<Rightarrow> string option \<Rightarrow> int \<Rightarrow> string list \<Rightarrow> bool \<Rightarrow> rat \<Rightarrow>
   (run list, run \<times> bool) op" where
  "create_run i ag key h pol goal parent resets approved managed now =
     bnd (gets (get_run i)) (\<lambda>existing. case existing of
       Some r \<Rightarrow> if r_idempotency r \<noteq> key \<or> r_request_hash r \<noteq> h then raise (ValueError ''IDEMPOTENCY_CONFLICT'')
                 else ret (r, False)
     | None \<Rightarrow> bnd (gets (get_by_idempotency key)) (\<lambda>duplicate. case duplicate of
         Some d \<Rightarrow> if r_id d = i \<and> r_request_hash d = h then ret (d, False) else raise (ValueError ''DUPLICATE_DISPATCH'')
       | None \<Rightarrow> (let r = new_run i ag key h pol goal parent resets approved managed now
                  in bnd (append_run r) (\<lambda>u. ret (r, True)))))"

definition apply_outcome :: "adapter_outcome option \<Rightarrow> run \<Rightarrow> run" where
  "apply_outcome oc r = (case oc of None \<Rightarrow> r | Some x \<Rightarrow>
     r\<lparr>r_format_error := oc_format_error x, r_format_attempts := oc_format_attempts x,
       r_format_rejection := oc_format_rejection x, r_raw_response := oc_raw x, r_rejected_result := oc_rejected x\<rparr>)"

definition finish_run :: "status \<Rightarrow> adapter_outcome option \<Rightarrow> string \<Rightarrow> rat \<Rightarrow> run \<Rightarrow> run" where
  "finish_run s oc reason now r =
     (if \<not> terminal s then r else
      (let why = (if reason \<noteq> [] then reason else (case oc of None \<Rightarrow> [] | Some x \<Rightarrow> oc_reason x));
           r1 = apply_outcome oc (r\<lparr>r_completed := Some now, r_reason := why,
                  r_result := (case oc of None \<Rightarrow> None | Some x \<Rightarrow> oc_result x)\<rparr>)
       in if s = CANCELLED then r1\<lparr>r_cancel_reason := why, r_policy_status := ''CANCELLED''\<rparr> else r1))"

definition moved_run :: "status \<Rightarrow> run_binding option \<Rightarrow> adapter_outcome option \<Rightarrow> string \<Rightarrow> rat \<Rightarrow> run \<Rightarrow> run" where
  "moved_run s b oc reason now r =
     (let r1 = r\<lparr>r_status := s, r_updated := now\<rparr>;
          r2 = (if s = RUNNING then r1\<lparr>r_started := Some now\<rparr> else r1);
          r3 = (case b of None \<Rightarrow> r2 | Some x \<Rightarrow> r2\<lparr>r_binding := Some x\<rparr>)
      in finish_run s oc reason now r3)"

definition transition ::
  "string \<Rightarrow> status \<Rightarrow> run_binding option \<Rightarrow> adapter_outcome option \<Rightarrow> string \<Rightarrow> rat \<Rightarrow> (run list, run) op" where
  "transition i s b oc reason now =
     bnd (require_run i) (\<lambda>r.
       if s = r_status r then ret r
       else if s \<notin> set (successors (r_status r)) then
         raise (ValueError (''INVALID_RUN_TRANSITION:'' @ status_value (r_status r) @ ''->'' @ status_value s))
       else
         (let r1 = moved_run s b oc reason now r in bnd (append_run r1) (\<lambda>u. ret r1)))"

text \<open>The one way out of a terminal state: FAIL with reason OPENCLAW_ERROR becomes CANCELLED.\<close>

definition reconcile_abort_observation :: "string \<Rightarrow> rat \<Rightarrow> (run list, run) op" where
  "reconcile_abort_observation i now =
     bnd (require_run i) (\<lambda>r.
       if r_status r \<noteq> FAIL \<or> r_reason r \<noteq> ''OPENCLAW_ERROR'' then ret r
       else
         (let r1 = r\<lparr>r_status := CANCELLED, r_updated := now, r_completed := Some now, r_reason := ''USER_CANCEL'',
                r_cancel_reason := ''USER_CANCEL'', r_policy_status := ''CANCELLED''\<rparr>
          in bnd (append_run r1) (\<lambda>u. ret r1)))"

text \<open>The keyword arguments of \<open>update_goal_state\<close>. The clock is read once for the event (\<open>t\<close>) and once for the
  update (\<open>now\<close>).\<close>

record goal_update =
  gu_checkpoint :: "checkpoint option"
  gu_progress :: "progress option"
  gu_goal_state :: "goal_state option"
  gu_status :: "string option"
  gu_ready :: "bool option"
  gu_event :: "string option"
  gu_details :: pydict
  gu_escalation_reason :: "string option"
  gu_escalation_package :: "pydict option"

definition no_goal_update :: goal_update where
  "no_goal_update = \<lparr>gu_checkpoint = None, gu_progress = None, gu_goal_state = None, gu_status = None, gu_ready = None,
     gu_event = None, gu_details = [], gu_escalation_reason = None, gu_escalation_package = None\<rparr>"

definition apply_some :: "('a \<Rightarrow> 'b \<Rightarrow> 'b) \<Rightarrow> 'a option \<Rightarrow> 'b \<Rightarrow> 'b" where
  "apply_some f v x = (case v of None \<Rightarrow> x | Some y \<Rightarrow> f y x)"

definition add_event :: "string \<Rightarrow> rat \<Rightarrow> pydict \<Rightarrow> run \<Rightarrow> run" where
  "add_event c t d r = r\<lparr>r_policy_events := r_policy_events r @ [\<lparr>ev_code = c, ev_at = t, ev_details = d\<rparr>]\<rparr>"

definition goal_statuses :: "string list" where
  "goal_statuses = [''NORMAL'', ''GUARDED'', ''DRIFT'']"

definition apply_goal_update :: "goal_update \<Rightarrow> rat \<Rightarrow> rat \<Rightarrow> run \<Rightarrow> run" where
  "apply_goal_update u t now r =
     (let r1 = apply_some (\<lambda>c x. x\<lparr>r_checkpoint := Some c\<rparr>) (gu_checkpoint u) r;
          r2 = apply_some (\<lambda>p x. x\<lparr>r_progress := p\<rparr>) (gu_progress u) r1;
          r3 = apply_some (\<lambda>g x. x\<lparr>r_policy_state := (r_policy_state x)\<lparr>ps_goal := Some g\<rparr>\<rparr>) (gu_goal_state u) r2;
          r4 = apply_some (\<lambda>s x. x\<lparr>r_goal_status := s\<rparr>) (gu_status u) r3;
          r5 = apply_some (\<lambda>b x. x\<lparr>r_reinjection_ready := b\<rparr>) (gu_ready u) r4;
          r6 = apply_some (\<lambda>c x. if c = [] then x else (add_event c t (gu_details u) x)\<lparr>r_policy_status := ''GUARDED''\<rparr>)
                 (gu_event u) r5;
          r7 = apply_some (\<lambda>e x. x\<lparr>r_escalation_required := True, r_escalation_reason := e\<rparr>) (gu_escalation_reason u) r6
      in (apply_some (\<lambda>p x. x\<lparr>r_escalation_package := Some p\<rparr>) (gu_escalation_package u) r7)\<lparr>r_updated := now\<rparr>)"

definition update_goal_state :: "string \<Rightarrow> goal_update \<Rightarrow> rat \<Rightarrow> rat \<Rightarrow> (run list, run) op" where
  "update_goal_state i u t now =
     bnd (require_run i) (\<lambda>r.
       case gu_status u of
         Some s \<Rightarrow>
           if \<not> List.member goal_statuses s then raise (ValueError ''INVALID_GOAL_STATUS'')
           else (let r1 = apply_goal_update u t now r in
                 if r_goal_contract r1 \<noteq> r_goal_contract r then raise (ValueError ''GOAL_CONTRACT_IMMUTABLE'')
                 else bnd (append_run r1) (\<lambda>x. ret r1))
       | None \<Rightarrow> (let r1 = apply_goal_update u t now r in
                 if r_goal_contract r1 \<noteq> r_goal_contract r then raise (ValueError ''GOAL_CONTRACT_IMMUTABLE'')
                 else bnd (append_run r1) (\<lambda>x. ret r1)))"

text \<open>The keyword arguments of \<open>update_policy\<close>.\<close>

record policy_update =
  pu_runtime :: "rat option"
  pu_retry_count :: "int option"
  pu_tool_count :: "int option"
  pu_tool_metric :: "string option"
  pu_state :: "policy_state option"
  pu_event :: "string option"
  pu_details :: pydict
  pu_cancel_reason :: "string option"
  pu_status :: "string option"

definition no_policy_update :: policy_update where
  "no_policy_update = \<lparr>pu_runtime = None, pu_retry_count = None, pu_tool_count = None, pu_tool_metric = None,
     pu_state = None, pu_event = None, pu_details = [], pu_cancel_reason = None, pu_status = None\<rparr>"

text \<open>\<open>round(x, 3)\<close>: ties go to the even neighbour.\<close>

definition round_even :: "rat \<Rightarrow> int" where
  "round_even x =
     (let f = \<lfloor>x\<rfloor>; d = x - of_int f
      in if d < 1 / 2 then f else if 1 / 2 < d then f + 1 else if even f then f else f + 1)"

definition round3 :: "rat \<Rightarrow> rat" where
  "round3 x = of_int (round_even (x * 1000)) / 1000"

definition apply_policy_update :: "policy_update \<Rightarrow> rat \<Rightarrow> rat \<Rightarrow> run \<Rightarrow> run" where
  "apply_policy_update u t now r =
     (let r1 = apply_some (\<lambda>s x. x\<lparr>r_runtime_seconds := round3 (max 0 s)\<rparr>) (pu_runtime u) r;
          r2 = apply_some (\<lambda>n x. x\<lparr>r_retry_count := max 0 n\<rparr>) (pu_retry_count u) r1;
          r3 = apply_some (\<lambda>m x. x\<lparr>r_tool_metric := m\<rparr>) (pu_tool_metric u) r2;
          r4 = apply_some (\<lambda>n x. x\<lparr>r_tool_call_count := Some (max 0 n)\<rparr>) (pu_tool_count u) r3;
          r5 = apply_some (\<lambda>s x. x\<lparr>r_policy_state := s\<rparr>) (pu_state u) r4;
          r6 = (case pu_event u of
                  Some c \<Rightarrow> (add_event c t (pu_details u) r5)\<lparr>r_policy_status :=
                    (case pu_status u of None \<Rightarrow> ''GUARDED'' | Some s \<Rightarrow> if s = [] then ''GUARDED'' else s)\<rparr>
                | None \<Rightarrow> apply_some (\<lambda>s x. x\<lparr>r_policy_status := s\<rparr>) (pu_status u) r5)
      in (apply_some (\<lambda>c x. x\<lparr>r_cancel_reason := c\<rparr>) (pu_cancel_reason u) r6)\<lparr>r_updated := now\<rparr>)"

definition check_policy_update :: "policy_update \<Rightarrow> run \<Rightarrow> unit res" where
  "check_policy_update u r =
     need (case pu_tool_metric u of None \<Rightarrow> True | Some m \<Rightarrow> m = ''SUPPORTED'' \<or> m = ''UNSUPPORTED'')
       (ValueError ''INVALID_TOOL_CALL_METRIC'')
     (need (pu_tool_count u = None \<or> pu_tool_metric u = Some ''SUPPORTED''
              \<or> (pu_tool_metric u = None \<and> r_tool_metric r = ''SUPPORTED''))
       (ValueError ''UNOBSERVABLE_TOOL_COUNT'') (Inr ()))"

text \<open>Nothing is written when only the update time would change.\<close>

definition update_policy :: "string \<Rightarrow> policy_update \<Rightarrow> rat \<Rightarrow> rat \<Rightarrow> (run list, run) op" where
  "update_policy i u t now =
     bnd (require_run i) (\<lambda>r.
     bnd (lift (check_policy_update u r)) (\<lambda>ok.
       let r1 = apply_policy_update u t now r in
       if r1\<lparr>r_updated := r_updated r\<rparr> = r then ret r1
       else bnd (append_run r1) (\<lambda>x. ret r1)))"

section \<open>How the registry may grow\<close>

text \<open>
  A registry grows by new queued runs with unused identifier and idempotency key, and by successors of the current
  record of a run that keep its identity and move its status along the transition table or the abort exception.
\<close>

definition same_identity :: "run \<Rightarrow> run \<Rightarrow> bool" where
  "same_identity r q \<longleftrightarrow>
     (r_id q, r_agent q, r_idempotency q, r_request_hash q, r_created q, r_policy q) =
     (r_id r, r_agent r, r_idempotency r, r_request_hash r, r_created r, r_policy r) \<and>
     (r_goal_contract q, r_parent q, r_approved_paths q, r_watchdog_managed q, r_context_resets q) =
     (r_goal_contract r, r_parent r, r_approved_paths r, r_watchdog_managed r, r_context_resets r)"

definition status_step :: "run \<Rightarrow> run \<Rightarrow> bool" where
  "status_step r q \<longleftrightarrow>
     r_status q = r_status r \<and> r_started q = r_started r \<and> r_completed q = r_completed r \<and> r_reason q = r_reason r \<and>
       r_result q = r_result r \<or>
     r_status q \<in> set (successors (r_status r)) \<and> (r_status q = RUNNING \<or> r_started q = r_started r) \<or>
     r_status r = FAIL \<and> r_reason r = ''OPENCLAW_ERROR'' \<and> r_status q = CANCELLED \<and> r_reason q = ''USER_CANCEL'' \<and>
       r_started q = r_started r \<and> r_result q = r_result r"

definition fresh_run :: "run list \<Rightarrow> run \<Rightarrow> bool" where
  "fresh_run rs r \<longleftrightarrow> get_run (r_id r) rs = None \<and> get_by_idempotency (r_idempotency r) rs = None \<and>
     r_status r = QUEUED \<and> r_started r = None"

inductive grows :: "run list \<Rightarrow> run list \<Rightarrow> bool" where
  grows_refl: "grows rs rs"
| grows_new: "grows rs qs \<Longrightarrow> fresh_run qs r \<Longrightarrow> grows rs (qs @ [r])"
| grows_next: "grows rs qs \<Longrightarrow> get_run (r_id r) qs = Some q \<Longrightarrow> same_identity q r \<Longrightarrow> status_step q r \<Longrightarrow> grows rs (qs @ [r])"

abbreviation log_ok :: "run list \<Rightarrow> bool" where
  "log_ok rs \<equiv> grows [] rs"

lemma grows_trans: "grows qs ps \<Longrightarrow> grows rs qs \<Longrightarrow> grows rs ps"
  by (induction rule: grows.induct) (auto intro: grows.intros)

interpretation registry: guarantee grows
  by unfold_locales (auto intro: grows_refl grows_trans)

lemmas registry_rules = registry.guar_bnd registry.guar_lift registry.guar_ret registry.guar_raise registry.guar_gets
  registry.guar_if registry.guar_let registry.guar_option registry.guar_prod

lemma get_run_Some: "get_run i rs = Some r \<Longrightarrow> r \<in> set rs \<and> r_id r = i"
  unfolding get_run_def by (drule find_last_Some) simp

lemma get_run_None: "get_run i rs = None \<longleftrightarrow> i \<notin> r_id ` set rs"
  unfolding get_run_def find_last_None by auto

lemma get_run_snoc [simp]: "get_run i (rs @ [r]) = (if r_id r = i then Some r else get_run i rs)"
  by (simp add: get_run_def)

lemma require_run_bnd:
  "bnd (require_run i) f rs =
     (case get_run i rs of None \<Rightarrow> (Inl (ValueError (''UNKNOWN_CORE_RUN:'' @ i)), rs) | Some r \<Rightarrow> f r rs)"
  by (simp add: require_run_def bnd_app split: option.split)

lemma append_run_bnd: "bnd (append_run r) f rs = f () (rs @ [r])"
  by (simp add: append_run_def)

text \<open>An operation that reads the run and appends at most one legal successor.\<close>

lemma guar_require:
  assumes "\<And>r rs. get_run i rs = Some r \<Longrightarrow> grows rs (snd (f r rs))"
  shows "guar grows (bnd (require_run i) f)"
  unfolding guar_def require_run_bnd using assms by (auto simp: grows_refl split: option.split)

lemma grows_successor:
  "get_run i rs = Some r \<Longrightarrow> same_identity r q \<Longrightarrow> status_step r q \<Longrightarrow> grows rs (rs @ [q])"
  using get_run_Some [of i rs r] by (intro grows_next [OF grows_refl, of _ _ r]) (auto simp: same_identity_def)

lemma create_run_guar [guar_rules]:
  "guar grows (create_run i ag key h pol goal parent resets approved managed now)"
  unfolding guar_def create_run_def
  by (auto simp: append_run_bnd Let_def intro!: grows_refl grows_new [OF grows_refl] split: option.split)
     (simp add: fresh_run_def new_run_def)

lemma finish_run_keeps:
  "same_identity q (finish_run s oc why now r) \<longleftrightarrow> same_identity q r"
  "r_status (finish_run s oc why now r) = r_status r" "r_started (finish_run s oc why now r) = r_started r"
  by (simp_all add: finish_run_def apply_outcome_def same_identity_def Let_def split: option.split)

lemma moved_run_keeps:
  "same_identity r (moved_run s b oc why now r)" "r_status (moved_run s b oc why now r) = s"
  "r_started (moved_run s b oc why now r) = (if s = RUNNING then Some now else r_started r)"
proof -
  have id: "same_identity r (r\<lparr>r_status := s, r_updated := t\<rparr>)" "same_identity q (r\<lparr>r_started := z\<rparr>) = same_identity q r"
    "same_identity q (r\<lparr>r_binding := y\<rparr>) = same_identity q r" for q r s t y z by (simp_all add: same_identity_def)
  show "same_identity r (moved_run s b oc why now r)"
    by (cases b) (simp_all add: moved_run_def Let_def finish_run_keeps(1) id)
  show "r_status (moved_run s b oc why now r) = s"
    "r_started (moved_run s b oc why now r) = (if s = RUNNING then Some now else r_started r)"
    by (cases b; simp add: moved_run_def Let_def finish_run_keeps(2,3))+
qed

lemma moved_run_step: "s \<in> set (successors (r_status r)) \<Longrightarrow> status_step r (moved_run s b oc why now r)"
  unfolding status_step_def by (simp add: moved_run_keeps)

lemma transition_guar [guar_rules]: "guar grows (transition i s b oc why now)"
  unfolding transition_def
  by (rule guar_require)
     (auto simp: Let_def append_run_bnd moved_run_keeps moved_run_step intro!: grows_refl grows_successor)

lemma reconcile_guar [guar_rules]: "guar grows (reconcile_abort_observation i now)"
  unfolding reconcile_abort_observation_def
  by (rule guar_require)
     (auto simp: Let_def append_run_bnd same_identity_def status_step_def intro!: grows_refl grows_successor)

definition same_stage :: "run \<Rightarrow> run \<Rightarrow> bool" where
  "same_stage r q \<longleftrightarrow> same_identity r q \<and> r_status q = r_status r \<and> r_started q = r_started r \<and>
     r_completed q = r_completed r \<and> r_reason q = r_reason r \<and> r_result q = r_result r"

lemma same_stage_step: "same_stage r q \<Longrightarrow> same_identity r q \<and> status_step r q \<and> r_goal_contract q = r_goal_contract r"
  by (simp add: same_stage_def status_step_def same_identity_def)

lemma same_stage_some:
  "(\<And>y x. same_stage r x \<Longrightarrow> same_stage r (f y x)) \<Longrightarrow> same_stage r x \<Longrightarrow> same_stage r (apply_some f v x)"
  by (cases v) (simp_all add: apply_some_def)

lemma same_stage_refl: "same_stage r r"
  by (simp add: same_stage_def same_identity_def)

lemma same_stage_updates:
  "same_stage r x \<Longrightarrow> same_stage r (r_updated_update f1 x)" "same_stage r x \<Longrightarrow> same_stage r (r_checkpoint_update f2 x)"
  "same_stage r x \<Longrightarrow> same_stage r (r_progress_update f3 x)" "same_stage r x \<Longrightarrow> same_stage r (r_policy_state_update f4 x)"
  "same_stage r x \<Longrightarrow> same_stage r (r_goal_status_update f5 x)" "same_stage r x \<Longrightarrow> same_stage r (r_reinjection_ready_update f6 x)"
  "same_stage r x \<Longrightarrow> same_stage r (r_policy_status_update f7 x)" "same_stage r x \<Longrightarrow> same_stage r (add_event c t d x)"
  "same_stage r x \<Longrightarrow> same_stage r (r_escalation_required_update f8 x)"
  "same_stage r x \<Longrightarrow> same_stage r (r_escalation_reason_update f9 x)"
  "same_stage r x \<Longrightarrow> same_stage r (r_escalation_package_update f10 x)"
  "same_stage r x \<Longrightarrow> same_stage r (r_runtime_seconds_update f11 x)" "same_stage r x \<Longrightarrow> same_stage r (r_retry_count_update f12 x)"
  "same_stage r x \<Longrightarrow> same_stage r (r_tool_metric_update f13 x)" "same_stage r x \<Longrightarrow> same_stage r (r_tool_call_count_update f14 x)"
  "same_stage r x \<Longrightarrow> same_stage r (r_cancel_reason_update f15 x)"
  by (simp_all add: same_stage_def same_identity_def add_event_def)

lemma same_stage_if: "same_stage r x \<Longrightarrow> same_stage r y \<Longrightarrow> same_stage r (if b then x else y)"
  by simp

lemma same_stage_case:
  "(\<And>y. same_stage r (f y)) \<Longrightarrow> same_stage r x \<Longrightarrow> same_stage r (case v of None \<Rightarrow> x | Some y \<Rightarrow> f y)"
  by (cases v) simp_all

lemmas same_stage_rules = same_stage_if same_stage_case same_stage_some same_stage_updates

lemma apply_goal_update_stage: "same_stage r (apply_goal_update u t now r)"
  unfolding apply_goal_update_def Let_def
  by (rule same_stage_rules same_stage_refl | assumption)+

lemma apply_policy_update_stage: "same_stage r (apply_policy_update u t now r)"
  unfolding apply_policy_update_def Let_def
  by (rule same_stage_rules same_stage_refl | assumption)+

lemmas apply_goal_update_keeps = same_stage_step [OF apply_goal_update_stage]
  and apply_policy_update_keeps = same_stage_step [OF apply_policy_update_stage]

lemma update_goal_state_guar [guar_rules]: "guar grows (update_goal_state i u t now)"
  unfolding update_goal_state_def
  by (rule guar_require)
     (auto simp: Let_def append_run_bnd apply_goal_update_keeps intro!: grows_refl grows_successor split: option.split)

lemma update_policy_guar [guar_rules]: "guar grows (update_policy i u t now)"
  unfolding update_policy_def
  by (rule guar_require)
     (auto simp: bnd_app Let_def append_run_def apply_policy_update_keeps intro!: grows_refl grows_successor split: sum.split)

section \<open>What every history of the registry satisfies\<close>

lemma same_identity_refl: "same_identity r r"
  by (simp add: same_identity_def)

lemma same_identity_trans: "same_identity r q \<Longrightarrow> same_identity q p \<Longrightarrow> same_identity r p"
  by (simp add: same_identity_def)

text \<open>The stage of a run only moves forward: a started run keeps its start, a finished run its outcome.\<close>

definition outlives :: "run \<Rightarrow> run \<Rightarrow> bool" where
  "outlives r q \<longleftrightarrow>
     (r_status r \<noteq> QUEUED \<longrightarrow> r_status q \<noteq> QUEUED \<and> r_started q = r_started r) \<and>
     (terminal (r_status r) \<longrightarrow> r_result q = r_result r \<and>
        (r_status q = r_status r \<and> r_reason q = r_reason r \<or>
         r_status r = FAIL \<and> r_reason r = ''OPENCLAW_ERROR'' \<and> r_status q = CANCELLED \<and> r_reason q = ''USER_CANCEL''))"

lemma successors_cases:
  "t \<in> set (successors s) \<Longrightarrow> t \<noteq> QUEUED \<and> (s = QUEUED \<or> s = RUNNING \<and> terminal t) \<and> \<not> terminal s"
  by (cases s) (auto simp: terminal_states_def)

lemma terminal_simps [simp]: "\<not> terminal QUEUED" "\<not> terminal RUNNING" "terminal PASS" "terminal FAIL" "terminal BLOCKED"
  "terminal TIMEOUT" "terminal CANCELLED"
  by (simp_all add: terminal_states_def)

lemma status_step_outlives: "status_step r q \<Longrightarrow> outlives r q"
  unfolding status_step_def outlives_def by (auto dest!: successors_cases)

lemma outlives_refl: "outlives r r"
  by (simp add: outlives_def)

lemma outlives_trans: "outlives r q \<Longrightarrow> outlives q p \<Longrightarrow> outlives r p"
  unfolding outlives_def by auto

lemma grows_get_run:
  "grows rs qs \<Longrightarrow> get_run i rs = Some r \<Longrightarrow> \<exists>q. get_run i qs = Some q \<and> same_identity r q \<and> outlives r q"
proof (induction rule: grows.induct)
  case (grows_refl rs)
  then show ?case by (auto intro: same_identity_refl outlives_refl)
next
  case (grows_new rs qs p)
  then obtain q where "get_run i qs = Some q" "same_identity r q" "outlives r q" by blast
  moreover from this(1) have "r_id p \<noteq> i" using grows_new.hyps(2) by (auto simp: fresh_run_def)
  ultimately show ?case by auto
next
  case (grows_next rs qs p q')
  then obtain q where q: "get_run i qs = Some q" "same_identity r q" "outlives r q" by blast
  show ?case
  proof (cases "r_id p = i")
    case True
    with q grows_next.hyps(2) have "q' = q" by auto
    with q grows_next.hyps(3,4) True show ?thesis
      by (auto intro: same_identity_trans outlives_trans status_step_outlives)
  next
    case False
    with q show ?thesis by auto
  qed
qed

lemma grows_prefix: "grows rs qs \<Longrightarrow> \<exists>new. qs = rs @ new"
  by (induction rule: grows.induct) auto

lemma log_ok_identity:
  "grows rs qs \<Longrightarrow> rs = [] \<Longrightarrow> r \<in> set qs \<Longrightarrow> q \<in> set qs \<Longrightarrow> r_id r = r_id q \<or> r_idempotency r = r_idempotency q \<Longrightarrow>
     same_identity r q"
proof (induction arbitrary: r q rule: grows.induct)
  case (grows_refl rs)
  then show ?case by simp
next
  case (grows_new rs qs p)
  have "\<not> (x \<in> set qs \<and> (r_id x = r_id p \<or> r_idempotency x = r_idempotency p))" for x
    using grows_new.hyps(2) by (auto simp: fresh_run_def get_run_def get_by_idempotency_def find_last_None)
  then have "r \<in> set qs \<and> q \<in> set qs \<or> r = p \<and> q = p"
    using grows_new.prems(2-4) by (metis UnE empty_iff empty_set list.set_intros(1) set_ConsD set_append)
  then show ?case using grows_new.IH [OF grows_new.prems(1), of r q] grows_new.prems(4) same_identity_refl by blast
next
  case (grows_next rs qs p q')
  from grows_next.hyps(2) have q': "q' \<in> set qs" "r_id q' = r_id p" by (auto dest: get_run_Some)
  have old: "same_identity x y" if "x \<in> set qs" "y \<in> set qs" "r_id x = r_id y \<or> r_idempotency x = r_idempotency y" for x y
    using grows_next.IH [OF grows_next.prems(1) that] .
  have p: "same_identity x p \<and> same_identity p x" if "x \<in> set qs" "r_id x = r_id p \<or> r_idempotency x = r_idempotency p" for x
  proof -
    have "r_id x = r_id q' \<or> r_idempotency x = r_idempotency q'"
      using that grows_next.hyps(3) by (auto simp: same_identity_def)
    from old [OF that(1) q'(1) this] grows_next.hyps(3) show ?thesis by (auto simp: same_identity_def)
  qed
  from grows_next.prems(2-4) show ?case
    using old [of r q] p [of r] p [of q] same_identity_refl [of p] by auto
qed

text \<open>The calls other components make on the registry.\<close>

datatype registry_call =
    CreateRun string string string string run_policy goal_contract "string option" int "string list" bool rat
  | MoveRun string status "run_binding option" "adapter_outcome option" string rat
  | ReconcileAbort string rat
  | UpdateGoal string goal_update rat rat
  | UpdatePolicy string policy_update rat rat

fun registry_step :: "registry_call \<Rightarrow> run list \<Rightarrow> run list" where
  "registry_step (CreateRun i ag key h pol goal parent resets approved managed now) rs =
     snd (create_run i ag key h pol goal parent resets approved managed now rs)"
| "registry_step (MoveRun i s b oc why now) rs = snd (transition i s b oc why now rs)"
| "registry_step (ReconcileAbort i now) rs = snd (reconcile_abort_observation i now rs)"
| "registry_step (UpdateGoal i u t now) rs = snd (update_goal_state i u t now rs)"
| "registry_step (UpdatePolicy i u t now) rs = snd (update_policy i u t now rs)"

lemma registry_step_grows: "grows rs (registry_step c rs)"
  by (cases c) (simp_all add: guarD create_run_guar transition_guar reconcile_guar update_goal_state_guar update_policy_guar)

lemma registry_steps_grow: "grows rs (fold registry_step cs rs)"
proof (induction cs arbitrary: rs)
  case Nil
  show ?case by (simp add: grows_refl)
next
  case (Cons c cs)
  then show ?case using grows_trans [OF Cons.IH registry_step_grows] by simp
qed

text \<open>C34: Whatever the Core does with the registry, the registry is append-only, the current record of every run keeps
  its identity (agent, idempotency key, request, lifecycle policy, goal contract, parent), a started run keeps its
  start time, and a finished run keeps status, reason and result for ever, except that a FAIL with reason
  OPENCLAW_ERROR may be reconciled into a user cancellation.\<close>

theorem registry_runs_are_durable:
  assumes "get_run i rs = Some r"
  shows "\<exists>q new. get_run i (fold registry_step cs rs) = Some q \<and> fold registry_step cs rs = rs @ new \<and>
    same_identity r q \<and> outlives r q"
  using grows_get_run [OF registry_steps_grow assms, of cs] grows_prefix [OF registry_steps_grow [of rs cs]] by blast

text \<open>An idempotency key names one request: in every registry built by the registry's operations, two records that
  share the identifier or the idempotency key belong to the same run with the same request.\<close>

theorem idempotency_key_names_one_run:
  assumes "r \<in> set (fold registry_step cs [])" and "q \<in> set (fold registry_step cs [])"
    and "r_id r = r_id q \<or> r_idempotency r = r_idempotency q"
  shows "r_id r = r_id q \<and> r_idempotency r = r_idempotency q \<and> r_request_hash r = r_request_hash q \<and>
    r_agent r = r_agent q \<and> r_goal_contract r = r_goal_contract q"
  using log_ok_identity [OF registry_steps_grow refl assms] by (simp add: same_identity_def)

text \<open>Creating a run is idempotent: repeating an accepted request returns the current record of the same run and
  writes nothing, whatever happened in between; the same identifier or key with another request is rejected and
  writes nothing either.\<close>

theorem create_run_idempotent:
  assumes "create_run i ag key h pol goal parent resets approved managed now rs = (Inr (r, b), rs1)"
    and "rs2 = fold registry_step cs rs1"
  shows "\<exists>q. get_run i rs2 = Some q \<and> same_identity r q \<and>
    create_run i ag' key h pol' goal' parent' resets' approved' managed' now' rs2 = (Inr (q, False), rs2) \<and>
    (key' \<noteq> key \<or> h' \<noteq> h \<longrightarrow>
       create_run i ag' key' h' pol' goal' parent' resets' approved' managed' now' rs2 = (Inl (ValueError ''IDEMPOTENCY_CONFLICT''), rs2))"
proof -
  have r: "get_run i rs1 = Some r \<and> r_idempotency r = key \<and> r_request_hash r = h"
    using assms(1)
    by (auto simp: create_run_def append_run_bnd Let_def get_by_idempotency_def new_run_def get_run_None
        split: option.split_asm if_split_asm dest: find_last_Some get_run_Some)
  then obtain q where q: "get_run i rs2 = Some q" "same_identity r q"
    using grows_get_run [OF registry_steps_grow] assms(2) by blast
  with r have "r_idempotency q = key" "r_request_hash q = h" by (auto simp: same_identity_def)
  with q show ?thesis by (auto simp: create_run_def)
qed

definition sample_create :: "string \<Rightarrow> string \<Rightarrow> string \<Rightarrow> registry_call" where
  "sample_create i key h = CreateRun i ''qa'' key h (policy_metadata neutral_profile) sample_goal None 0 [] False 10"

definition sample_registry_log :: "run list" where
  "sample_registry_log = fold registry_step
     [sample_create ''run-1'' ''key-1'' ''h'', MoveRun ''run-1'' RUNNING None None [] 11, sample_create ''run-2'' ''key-2'' ''h'',
      MoveRun ''run-1'' FAIL None None ''OPENCLAW_ERROR'' 12] []"

lemmas registry_run_simps = sample_registry_log_def sample_create_def create_run_def append_run_bnd transition_def require_run_bnd
  get_run_def get_by_idempotency_def Let_def moved_run_def finish_run_def apply_outcome_def append_run_def

definition sample_failed_run :: run where
  "sample_failed_run = (new_run ''run-1'' ''qa'' ''key-1'' ''h'' (policy_metadata neutral_profile) sample_goal None 0 [] False 10)
     \<lparr>r_status := FAIL, r_started := Some 11, r_updated := 12, r_completed := Some 12, r_reason := ''OPENCLAW_ERROR''\<rparr>"

lemma sample_registry_log_run: "get_run ''run-1'' sample_registry_log = Some sample_failed_run"
  by (simp add: registry_run_simps new_run_def sample_failed_run_def terminal_states_def)

theorem registry_runs_are_durable_witness:
  "\<exists>q. get_run ''run-1'' (fold registry_step [ReconcileAbort ''run-1'' 13, MoveRun ''run-1'' PASS None None [] 14] sample_registry_log) = Some q \<and>
     outlives sample_failed_run q"
  using registry_runs_are_durable [OF sample_registry_log_run] by blast

theorem idempotency_key_names_one_run_witness:
  "same_identity sample_failed_run sample_failed_run \<and> r_request_hash sample_failed_run = r_request_hash sample_failed_run"
proof -
  have "sample_failed_run \<in> set (fold registry_step
     [sample_create ''run-1'' ''key-1'' ''h'', MoveRun ''run-1'' RUNNING None None [] 11, sample_create ''run-2'' ''key-2'' ''h'',
      MoveRun ''run-1'' FAIL None None ''OPENCLAW_ERROR'' 12] [])"
    using get_run_Some [OF sample_registry_log_run] unfolding sample_registry_log_def by blast
  from idempotency_key_names_one_run [OF this this] show ?thesis by (simp add: same_identity_def)
qed

theorem create_run_idempotent_witness:
  "\<exists>q. create_run ''run-3'' ''qa'' ''key-3'' ''h'' (policy_metadata neutral_profile) sample_goal None 0 [] False 20
        (fold registry_step [MoveRun ''run-3'' RUNNING None None [] 12]
          (snd (create_run ''run-3'' ''qa'' ''key-3'' ''h'' (policy_metadata neutral_profile) sample_goal None 0 [] False 10 [])))
      = (Inr (q, False), fold registry_step [MoveRun ''run-3'' RUNNING None None [] 12]
          (snd (create_run ''run-3'' ''qa'' ''key-3'' ''h'' (policy_metadata neutral_profile) sample_goal None 0 [] False 10 [])))"
proof -
  let ?r = "new_run ''run-3'' ''qa'' ''key-3'' ''h'' (policy_metadata neutral_profile) sample_goal None 0 [] False 10"
  have c: "create_run ''run-3'' ''qa'' ''key-3'' ''h'' (policy_metadata neutral_profile) sample_goal None 0 [] False 10 [] = (Inr (?r, True), [?r])"
    by (simp add: create_run_def append_run_bnd Let_def get_run_def get_by_idempotency_def)
  from create_run_idempotent [OF c refl] show ?thesis unfolding c snd_conv by blast
qed

section \<open>Listing runs\<close>

lemma set_map_filter_Some: "set (List.map_filter f xs) = {y. \<exists>x\<in>set xs. f x = Some y}"
  by (induction xs) (auto simp: List.map_filter_simps split: option.split)

lemma latest_runs_set: "set (latest_runs rs) = {r. \<exists>i. get_run i rs = Some r}"
proof -
  have "i \<in> r_id ` set rs" if "get_run i rs = Some r" for i r using get_run_Some [OF that] by auto
  then show ?thesis unfolding latest_runs_def set_map_filter_Some by auto
qed

lemma latest_runs_ids: "map r_id (latest_runs rs) = first_occurrences (map r_id rs)"
proof -
  have "map r_id (List.map_filter (\<lambda>i. get_run i rs) is) = is" if "set is \<subseteq> r_id ` set rs" for "is"
    using that
  proof (induction "is")
    case (Cons i "is")
    then obtain r where "get_run i rs = Some r" using get_run_None [of i rs] by (cases "get_run i rs") auto
    with Cons get_run_Some [of i rs r] show ?case by (simp add: List.map_filter_simps)
  qed (simp add: List.map_filter_simps)
  then show ?thesis unfolding latest_runs_def by simp
qed

text \<open>Listing runs is complete and current: \<open>recent\<close> returns at most \<open>limit\<close> records, one per run and each the
  current one, and leaves a run out only when it is full; \<open>active\<close> returns exactly the runs that are RUNNING,
  however many runs there are.\<close>

theorem listing_is_current:
  assumes "recent_runs limit rs = Inr out"
  shows "length out \<le> nat limit \<and> distinct (map r_id out) \<and> (\<forall>r\<in>set out. get_run (r_id r) rs = Some r) \<and>
    (get_run i rs = Some r \<longrightarrow> r \<in> set out \<or> length out = nat limit) \<and>
    (r \<in> set (active_runs rs) \<longleftrightarrow> get_run (r_id r) rs = Some r \<and> r_status r = RUNNING)"
proof -
  have out: "out = take (nat limit) (rev (latest_runs rs))" using assms by (simp add: recent_runs_def)
  have "distinct (map r_id (rev (latest_runs rs)))" by (simp add: rev_map [symmetric] latest_runs_ids)
  then have 1: "distinct (map r_id out)" unfolding out take_map [symmetric] by (rule distinct_take)
  have cur: "p \<in> set (latest_runs rs) \<longleftrightarrow> get_run (r_id p) rs = Some p" for p
    unfolding latest_runs_set using get_run_Some by auto
  have 2: "get_run i rs = Some r \<longrightarrow> r \<in> set out \<or> length out = nat limit"
  proof
    assume "get_run i rs = Some r"
    then have "r \<in> set (latest_runs rs)" unfolding latest_runs_set by auto
    then show "r \<in> set out \<or> length out = nat limit"
      unfolding out by (cases "length (latest_runs rs) \<le> nat limit") auto
  qed
  have 3: "\<forall>r\<in>set out. get_run (r_id r) rs = Some r"
  proof
    fix p assume "p \<in> set out"
    then have "p \<in> set (latest_runs rs)" unfolding out by (auto dest: in_set_takeD)
    then show "get_run (r_id p) rs = Some p" unfolding cur .
  qed
  have 4: "r \<in> set (active_runs rs) \<longleftrightarrow> get_run (r_id r) rs = Some r \<and> r_status r = RUNNING"
    unfolding active_runs_def by (simp add: cur)
  have 5: "length out \<le> nat limit" unfolding out by simp
  show ?thesis by (intro conjI 1 2 3 4 5)
qed

theorem listing_is_current_witness:
  "\<exists>r. recent_runs 1 sample_registry_log = Inr [r] \<and> get_run (r_id r) sample_registry_log = Some r"
proof -
  have out: "recent_runs 1 sample_registry_log = Inr (take 1 (rev (latest_runs sample_registry_log)))"
    by (simp add: recent_runs_def)
  have "sample_failed_run \<in> set (latest_runs sample_registry_log)"
    unfolding latest_runs_set using sample_registry_log_run by blast
  then obtain r rest where "rev (latest_runs sample_registry_log) = r # rest"
    by (metis empty_iff empty_set list.exhaust set_rev)
  with out have r: "recent_runs 1 sample_registry_log = Inr [r]" by simp
  from listing_is_current [OF r, of "''run-1''" sample_failed_run] r show ?thesis by auto
qed

end
