(* ===== verification/AuthBroker.thy ===== *)
theory AuthBroker
  imports PyVal
begin

text \<open>
  \<^verbatim>\<open>plachem_fast_gateway/auth_broker.py\<close>: one-time bearer grants kept in two SQLite tables, the grants
  and a hash-chained audit log. \<open>auth_store\<close> holds the tables; a method of \<open>SQLiteAuthBroker\<close> is an
  operation on it. Pepper lookup, retries and key come with the record \<open>broker\<close>; the fresh token, the
  fresh identifiers, the two clock readings and the answers to \<open>BEGIN IMMEDIATE\<close> come with \<open>call_env\<close>.
\<close>

section \<open>Errors and scopes\<close>

definition error_codes :: "string list" where
  "error_codes =
     [''AUTH_REQUIRED'', ''INVALID_TOKEN'', ''NOT_FOUND'', ''EXPIRED'', ''REVOKED'', ''ALREADY_CONSUMED'',
      ''BINDING_MISMATCH'', ''TASK_DIGEST_MISMATCH'', ''CONFLICT'', ''STORE_BUSY'', ''STORE_CORRUPT'',
      ''AUDIT_INTEGRITY_FAILED'', ''SCHEMA_UNSUPPORTED'', ''FORBIDDEN_FIELD'']"

text \<open>What \<open>raise AuthBrokerError(code)\<close> raises.\<close>

definition auth_error :: "string \<Rightarrow> exn" where
  "auth_error c = (if List.member error_codes c then AuthBrokerError c else ValueError ''UNKNOWN_AUTH_ERROR'')"

definition broker_sensitive :: "string list" where
  "broker_sensitive =
     [''model'', ''provider'', ''endpoint'', ''token'', ''credential'', ''credentials'', ''secret'',
      ''password'', ''api_key'', ''apikey'', ''message'', ''task'']"

definition detail_keys :: "string list" where
  "detail_keys = [''reason'', ''key_id'', ''schema_version'']"

text \<open>\<open>_IDENTITY\<close>, matched in full.\<close>

definition identity_char :: "char \<Rightarrow> bool" where
  "identity_char c \<longleftrightarrow> is_alnum c \<or> c \<in> {CHR ''_'', CHR ''.'', CHR '':'', CHR ''@'', CHR ''/'', CHR ''-''}"

fun identity :: "string \<Rightarrow> bool" where
  "identity [] = False"
| "identity (c # s) = (is_alnum c \<and> length s \<le> 127 \<and> list_all identity_char s)"

record auth_scope =
  sc_agent :: string
  sc_action :: string
  sc_workspace :: string
  sc_project :: string
  sc_contract :: pyval

text \<open>\<open>hmac.compare_digest\<close> on two strings; text outside ASCII raises.\<close>

definition compare_digest :: "string \<Rightarrow> string \<Rightarrow> bool res" where
  "compare_digest a b =
     need (list_all (\<lambda>c. code c < 128) a \<and> list_all (\<lambda>c. code c < 128) b) (TypeError ''non-ASCII'') (Inr (a = b))"

definition bound :: "string \<Rightarrow> string res" where
  "bound v = need (\<not> (blank v \<or> 256 < length v)) (ValueError ''INVALID_BINDING'') (Inr (strip v))"

definition identity_digest :: "std \<Rightarrow> string \<Rightarrow> string res" where
  "identity_digest S v = need (identity v) (ValueError ''INVALID_IDENTITY'') (Inr (''id-v1:'' @ sha256 S v))"

definition forbidden_key :: "string \<Rightarrow> bool" where
  "forbidden_key k = List.member broker_sensitive (replace_char CHR ''-'' CHR ''_'' (lower k))"

fun canonical_value :: "pyval \<Rightarrow> pyval res" where
  "canonical_value (PDict d) =
     rbind (rmap (\<lambda>(k, v). need (\<not> forbidden_key k) (auth_error ''FORBIDDEN_FIELD'')
                   (rbind (canonical_value v) (\<lambda>w. Inr (k, w)))) d) (\<lambda>d'. Inr (PDict d'))"
| "canonical_value (PList vs) = rbind (rmap canonical_value vs) (\<lambda>ws. Inr (PList ws))"
| "canonical_value (PTuple vs) = rbind (rmap canonical_value vs) (\<lambda>ws. Inr (PList ws))"
| "canonical_value (POther t) = Inl (ValueError ''INVALID_TASK_CONTRACT'')"
| "canonical_value v = Inr v"

definition canonical_task_digest :: "std \<Rightarrow> auth_scope \<Rightarrow> string res" where
  "canonical_task_digest S sc =
     need (as_dict (sc_contract sc) \<noteq> None) (ValueError ''INVALID_TASK_CONTRACT'')
     (rbind (bound (sc_agent sc)) (\<lambda>ag. rbind (bound (sc_action sc)) (\<lambda>ac.
      rbind (bound (sc_workspace sc)) (\<lambda>ws. rbind (bound (sc_project sc)) (\<lambda>pr.
      rbind (canonical_value (sc_contract sc)) (\<lambda>cv.
        Inr (''v1:'' @ sha256 S (jdump (float_repr S) True (PDict
          [(''version'', PInt 1), (''agent_id'', PStr ag), (''action'', PStr ac), (''workspace_id'', PStr ws),
           (''project_id'', PStr pr), (''task_goal_contract'', cv)])))))))))"

definition execution_auth_scope ::
  "std \<Rightarrow> string \<Rightarrow> string \<Rightarrow> string \<Rightarrow> string \<Rightarrow> pydict \<Rightarrow> string \<Rightarrow> string \<Rightarrow> string \<Rightarrow> auth_scope" where
  "execution_auth_scope S ag message core_run idem goal act workspace project =
     \<lparr>sc_agent = ag, sc_action = act, sc_workspace = workspace, sc_project = project,
      sc_contract = PDict [(''authorization_version'', PInt 2), (''goal_contract'', PDict goal),
        (''instruction_sha256'', PStr (sha256 S message)), (''core_run_id'', PStr core_run),
        (''idempotency_key'', PStr idem)]\<rparr>"

section \<open>The tables\<close>

record grant_row =
  g_id :: string
  g_token_id :: string
  g_token_mac :: string
  g_key_id :: string
  g_digest :: string
  g_agent :: string
  g_action :: string
  g_workspace :: string
  g_project :: string
  g_issued :: int
  g_expires :: int
  g_revoked :: "int option"
  g_consumed :: "int option"
  g_consumed_run :: "string option"
  g_created_by :: string

text \<open>The columns the hash of an audit row covers, and the row.\<close>

record audit_body =
  b_event_id :: string
  b_grant_id :: "string option"
  b_event_type :: string
  b_outcome :: string
  b_error :: "string option"
  b_run_id :: "string option"
  b_agent :: string
  b_action :: string
  b_workspace :: string
  b_project :: string
  b_digest :: string
  b_occurred :: int
  b_prev_hash :: string
  b_key_id :: string
  b_details :: string

record audit_row =
  a_seq :: int
  a_body :: audit_body
  a_hash :: string
  a_mac :: string

record auth_store =
  grants :: "grant_row list"
  audit :: "audit_row list"

record broker =
  secret_get :: "string \<Rightarrow> string res"
  own_key :: string
  busy_retries :: nat

datatype begin_outcome = Begun | Locked | OtherError

record call_env =
  locks :: "nat \<Rightarrow> begin_outcome"
  now_ms :: int
  audit_ms :: int
  fresh_event :: string
  fresh_token :: string
  fresh_grant :: string

definition opt_str :: "string option \<Rightarrow> pyval" where
  "opt_str v = (case v of None \<Rightarrow> PNone | Some s \<Rightarrow> PStr s)"

text \<open>\<open>_audit_body\<close>; its key-sorted JSON is also what \<open>_audit\<close> hashes.\<close>

definition body_json :: "std \<Rightarrow> audit_body \<Rightarrow> string" where
  "body_json S b = jdump (float_repr S) True (PDict
     [(''event_id'', PStr (b_event_id b)), (''grant_id'', opt_str (b_grant_id b)),
      (''event_type'', PStr (b_event_type b)), (''outcome'', PStr (b_outcome b)),
      (''error_code'', opt_str (b_error b)), (''run_id'', opt_str (b_run_id b)), (''agent_id'', PStr (b_agent b)),
      (''action'', PStr (b_action b)), (''workspace_id'', PStr (b_workspace b)), (''project_id'', PStr (b_project b)),
      (''task_digest'', PStr (b_digest b)), (''occurred_at_ms'', PInt (b_occurred b)),
      (''prev_hash'', PStr (b_prev_hash b)), (''key_id'', PStr (b_key_id b)), (''details_json'', PStr (b_details b))])"

definition zero_hash :: string where
  "zero_hash = replicate 64 CHR ''0''"

definition last_hash :: "audit_row list \<Rightarrow> string" where
  "last_hash rows = (if rows = [] then zero_hash else a_hash (last rows))"

definition next_seq :: "audit_row list \<Rightarrow> int" where
  "next_seq rows = (if rows = [] then 1 else a_seq (last rows) + 1)"

section \<open>Transactions and the audit log\<close>

text \<open>
  \<open>_ImmediateTransaction\<close>: \<open>BEGIN IMMEDIATE\<close> is tried \<open>retries + 1\<close> times while the database is
  locked; the body then commits, or rolls every write back when it raises.
\<close>

fun begin_tx :: "nat \<Rightarrow> (nat \<Rightarrow> begin_outcome) \<Rightarrow> nat \<Rightarrow> bool" where
  "begin_tx retries lk 0 = (lk retries = Begun)"
| "begin_tx retries lk (Suc n) =
     (case lk (retries - Suc n) of Begun \<Rightarrow> True | Locked \<Rightarrow> begin_tx retries lk n | OtherError \<Rightarrow> False)"

definition transact :: "broker \<Rightarrow> call_env \<Rightarrow> (auth_store, 'a) op \<Rightarrow> (auth_store, 'a) op" where
  "transact B e body = (\<lambda>st.
     if begin_tx (busy_retries B) (locks e) (busy_retries B) then
       (case body st of (Inl x, st') \<Rightarrow> (Inl x, st) | (Inr v, st') \<Rightarrow> (Inr v, st'))
     else (Inl (auth_error ''STORE_BUSY''), st))"

definition find_grant :: "(grant_row \<Rightarrow> bool) \<Rightarrow> auth_store \<Rightarrow> grant_row option" where
  "find_grant P st = List.find P (grants st)"

text \<open>The insertion into \<open>auth_audit\<close> with the table's unique and foreign-key constraints.\<close>

definition insert_audit :: "audit_body \<Rightarrow> string \<Rightarrow> string \<Rightarrow> (auth_store, unit) op" where
  "insert_audit b h m = (\<lambda>st.
     if list_ex (\<lambda>r. b_event_id (a_body r) = b_event_id b \<or> a_hash r = h) (audit st)
        \<or> (case b_grant_id b of None \<Rightarrow> False | Some g \<Rightarrow> \<not> list_ex (\<lambda>r. g_id r = g) (grants st))
     then (Inl (IntegrityError ''auth_audit''), st)
     else (Inr (), st\<lparr>audit := audit st @ [\<lparr>a_seq = next_seq (audit st), a_body = b, a_hash = h, a_mac = m\<rparr>]\<rparr>))"

definition write_audit ::
  "std \<Rightarrow> broker \<Rightarrow> call_env \<Rightarrow> string option \<Rightarrow> string \<Rightarrow> string \<Rightarrow> string option \<Rightarrow> string option \<Rightarrow> auth_scope \<Rightarrow>
   string \<Rightarrow> (string \<times> string) list \<Rightarrow> (auth_store, unit) op" where
  "write_audit S B e grant_id event_type outcome error run_id sc digest details = (\<lambda>st.
     if \<not> list_all (\<lambda>d. List.member detail_keys (fst d)) details then (Inl (ValueError ''UNSAFE_AUDIT_DETAILS''), st)
     else
       (let b = \<lparr>b_event_id = fresh_event e, b_grant_id = grant_id, b_event_type = event_type, b_outcome = outcome,
              b_error = error, b_run_id = run_id, b_agent = sc_agent sc, b_action = sc_action sc,
              b_workspace = sc_workspace sc, b_project = sc_project sc, b_digest = digest,
              b_occurred = audit_ms e, b_prev_hash = last_hash (audit st), b_key_id = own_key B,
              b_details = jdump (float_repr S) True (PDict (map (\<lambda>(k, v). (k, PStr v)) details))\<rparr>;
            body = body_json S b
        in case secret_get B (own_key B) of
             Inl x \<Rightarrow> (Inl x, st)
           | Inr k \<Rightarrow> insert_audit b (sha256 S body) (hmac_sha256 S k body) st))"

definition token_mac :: "std \<Rightarrow> broker \<Rightarrow> string \<Rightarrow> string \<Rightarrow> string res" where
  "token_mac S B token key_id = rbind (secret_get B key_id) (\<lambda>k. Inr (hmac_sha256 S k token))"

section \<open>Issuing, consuming, revoking\<close>

record issued_grant =
  ig_grant :: string
  ig_token :: string
  ig_token_id :: string
  ig_digest :: string
  ig_expires :: int

record consumed_grant =
  cg_grant :: string
  cg_run :: string
  cg_agent :: string
  cg_action :: string
  cg_workspace :: string
  cg_project :: string
  cg_digest :: string

text \<open>The constraints of \<open>auth_grants\<close>: three unique columns and the two checks.\<close>

definition insert_grant :: "grant_row \<Rightarrow> (auth_store, unit) op" where
  "insert_grant r = (\<lambda>st.
     if list_ex (\<lambda>q. g_id q = g_id r \<or> g_token_id q = g_token_id r \<or> g_token_mac q = g_token_mac r) (grants st)
        \<or> \<not> g_issued r < g_expires r \<or> (g_consumed r = None) \<noteq> (g_consumed_run r = None)
     then (Inl (auth_error ''CONFLICT''), st)
     else (Inr (), st\<lparr>grants := grants st @ [r]\<rparr>))"

definition issue :: "std \<Rightarrow> broker \<Rightarrow> call_env \<Rightarrow> auth_scope \<Rightarrow> rat \<Rightarrow> string \<Rightarrow> (auth_store, issued_grant) op" where
  "issue S B e sc ttl created_by =
     (if ttl \<le> 0 then raise (ValueError ''INVALID_TTL'') else
      (let token = fresh_token e; token_id = sha256 S token; expires = now_ms e + \<lfloor>ttl * 1000\<rfloor> in
       bnd (lift (token_mac S B token (own_key B))) (\<lambda>mac.
       bnd (lift (canonical_task_digest S sc)) (\<lambda>digest.
       bnd (transact B e
         (bnd (lift (bound (sc_agent sc))) (\<lambda>ag. bnd (lift (bound (sc_action sc))) (\<lambda>ac.
          bnd (lift (bound (sc_workspace sc))) (\<lambda>ws. bnd (lift (bound (sc_project sc))) (\<lambda>pr.
          bnd (lift (identity_digest S created_by)) (\<lambda>by.
          bnd (insert_grant \<lparr>g_id = fresh_grant e, g_token_id = token_id, g_token_mac = mac, g_key_id = own_key B,
                 g_digest = digest, g_agent = ag, g_action = ac, g_workspace = ws, g_project = pr,
                 g_issued = now_ms e, g_expires = expires, g_revoked = None, g_consumed = None,
                 g_consumed_run = None, g_created_by = by\<rparr>) (\<lambda>u.
          write_audit S B e (Some (fresh_grant e)) ''ISSUED'' ''ALLOW'' None None sc digest [(''key_id'', own_key B)]))))))))
       (\<lambda>u. ret \<lparr>ig_grant = fresh_grant e, ig_token = token, ig_token_id = token_id, ig_digest = digest,
                  ig_expires = expires\<rparr>)))))"

text \<open>\<open>_deny_reason\<close>; the binding comparison stops at the first column that differs.\<close>

fun bindings_differ :: "(string \<times> string) list \<Rightarrow> bool res" where
  "bindings_differ [] = Inr False"
| "bindings_differ ((a, b) # rest) = rbind (compare_digest a b) (\<lambda>same. if same then bindings_differ rest else Inr True)"

definition deny_reason :: "grant_row \<Rightarrow> auth_scope \<Rightarrow> string \<Rightarrow> int \<Rightarrow> string option res" where
  "deny_reason r sc digest now =
     (if g_revoked r \<noteq> None then Inr (Some ''REVOKED'')
      else if g_consumed r \<noteq> None then Inr (Some ''ALREADY_CONSUMED'')
      else if g_expires r \<le> now then Inr (Some ''EXPIRED'')
      else rbind (bindings_differ [(g_agent r, sc_agent sc), (g_action r, sc_action sc),
                     (g_workspace r, sc_workspace sc), (g_project r, sc_project sc)]) (\<lambda>diff.
           if diff then Inr (Some ''BINDING_MISMATCH'')
           else rbind (compare_digest (g_digest r) digest) (\<lambda>same.
                  Inr (if same then None else Some ''TASK_DIGEST_MISMATCH''))))"

text \<open>The code with which a request is refused, after the same-run exception of \<open>verify_and_consume\<close>.\<close>

definition consume_code :: "grant_row \<Rightarrow> auth_scope \<Rightarrow> string \<Rightarrow> string \<Rightarrow> int \<Rightarrow> string option res" where
  "consume_code r sc digest run_id now =
     rbind (deny_reason r sc digest now) (\<lambda>c.
       if c = Some ''ALREADY_CONSUMED'' then
         rbind (bound run_id) (\<lambda>rid.
           if g_consumed_run r = Some rid then
             rbind (compare_digest (g_digest r) digest) (\<lambda>same. Inr (if same then None else Some ''TASK_MISMATCH''))
           else Inr c)
       else Inr c)"

definition consumable :: "string \<Rightarrow> int \<Rightarrow> grant_row \<Rightarrow> bool" where
  "consumable gid now r \<longleftrightarrow> g_id r = gid \<and> g_consumed r = None \<and> g_revoked r = None \<and> now < g_expires r"

text \<open>An \<open>UPDATE\<close> of the grants table: the number of rows that met the condition.\<close>

definition update_grants :: "(grant_row \<Rightarrow> bool) \<Rightarrow> (grant_row \<Rightarrow> grant_row) \<Rightarrow> (auth_store, nat) op" where
  "update_grants P f = (\<lambda>st. (Inr (length (filter P (grants st))),
     st\<lparr>grants := map (\<lambda>r. if P r then f r else r) (grants st)\<rparr>))"

definition consume_row ::
  "std \<Rightarrow> broker \<Rightarrow> call_env \<Rightarrow> grant_row \<Rightarrow> auth_scope \<Rightarrow> string \<Rightarrow> string \<Rightarrow> (auth_store, string + consumed_grant) op" where
  "consume_row S B e r sc digest run_id =
     bnd (lift (bound run_id)) (\<lambda>rid.
     bnd (update_grants (consumable (g_id r) (now_ms e)) (\<lambda>q. q\<lparr>g_consumed := Some (now_ms e), g_consumed_run := Some rid\<rparr>)) (\<lambda>changed.
     if changed \<noteq> 1 then raise (auth_error ''CONFLICT'') else
     bnd (write_audit S B e (Some (g_id r)) ''CONSUME'' ''ALLOW'' None (Some run_id) sc digest []) (\<lambda>u.
     ret (Inr \<lparr>cg_grant = g_id r, cg_run = run_id, cg_agent = sc_agent sc, cg_action = sc_action sc,
               cg_workspace = sc_workspace sc, cg_project = sc_project sc, cg_digest = digest\<rparr>))))"

definition deny :: 
  "std \<Rightarrow> broker \<Rightarrow> call_env \<Rightarrow> string option \<Rightarrow> string \<Rightarrow> string \<Rightarrow> auth_scope \<Rightarrow> string \<Rightarrow> (auth_store, string + consumed_grant) op" where
  "deny S B e gid c run_id sc digest =
     bnd (write_audit S B e gid ''CONSUME'' ''DENY'' (Some c) (Some run_id) sc digest [(''reason'', c)]) (\<lambda>u. ret (Inl c))"

text \<open>The body of the transaction: a refusal (committed with its audit row) or the consumed grant.\<close>

definition consume_tx ::
  "std \<Rightarrow> broker \<Rightarrow> call_env \<Rightarrow> string \<Rightarrow> auth_scope \<Rightarrow> string \<Rightarrow> string \<Rightarrow> (auth_store, string + consumed_grant) op" where
  "consume_tx S B e token sc digest run_id =
     bnd (gets (find_grant (\<lambda>r. g_token_id r = sha256 S token))) (\<lambda>found.
       case found of
         None \<Rightarrow> deny S B e None ''INVALID_TOKEN'' run_id sc digest
       | Some r \<Rightarrow>
           bnd (lift (token_mac S B token (g_key_id r))) (\<lambda>mac.
           if g_token_mac r \<noteq> mac then deny S B e (Some (g_id r)) ''INVALID_TOKEN'' run_id sc digest
           else bnd (lift (consume_code r sc digest run_id (now_ms e))) (\<lambda>c.
             case c of
               Some reason \<Rightarrow> deny S B e (Some (g_id r)) reason run_id sc digest
             | None \<Rightarrow> consume_row S B e r sc digest run_id)))"

definition verify_and_consume ::
  "std \<Rightarrow> broker \<Rightarrow> call_env \<Rightarrow> string option \<Rightarrow> auth_scope \<Rightarrow> string \<Rightarrow> (auth_store, consumed_grant) op" where
  "verify_and_consume S B e token sc run_id =
     bnd (lift (canonical_task_digest S sc)) (\<lambda>digest.
       case token of
         None \<Rightarrow> bnd (transact B e (deny S B e None ''AUTH_REQUIRED'' run_id sc digest)) (\<lambda>u. raise (auth_error ''AUTH_REQUIRED''))
       | Some t \<Rightarrow>
           if t = [] then bnd (transact B e (deny S B e None ''AUTH_REQUIRED'' run_id sc digest)) (\<lambda>u. raise (auth_error ''AUTH_REQUIRED''))
           else bnd (transact B e (consume_tx S B e t sc digest run_id)) (\<lambda>res.
             case res of Inl c \<Rightarrow> raise (auth_error c) | Inr g \<Rightarrow> ret g))"

definition revocable :: "string \<Rightarrow> grant_row \<Rightarrow> bool" where
  "revocable gid r \<longleftrightarrow> g_id r = gid \<and> g_revoked r = None \<and> g_consumed r = None"

text \<open>The transaction of \<open>revoke\<close>; \<open>True\<close> is the refusal of a consumed grant.\<close>

definition revoke_tx :: "std \<Rightarrow> broker \<Rightarrow> call_env \<Rightarrow> string \<Rightarrow> string \<Rightarrow> (auth_store, bool) op" where
  "revoke_tx S B e gid revoked_by =
     bnd (lift (bound gid)) (\<lambda>bid.
     bnd (gets (find_grant (\<lambda>r. g_id r = bid))) (\<lambda>found.
       case found of
         None \<Rightarrow> raise (auth_error ''NOT_FOUND'')
       | Some r \<Rightarrow>
           if g_revoked r \<noteq> None then raise (auth_error ''REVOKED'') else
           (let sc = \<lparr>sc_agent = g_agent r, sc_action = g_action r, sc_workspace = g_workspace r,
                sc_project = g_project r, sc_contract = PDict []\<rparr> in
            if g_consumed r \<noteq> None then
              bnd (write_audit S B e (Some gid) ''REVOKE'' ''DENY'' (Some ''ALREADY_CONSUMED'') None sc (g_digest r)
                     [(''reason'', ''ALREADY_CONSUMED'')]) (\<lambda>u. ret True)
            else
              bnd (update_grants (revocable gid) (\<lambda>q. q\<lparr>g_revoked := Some (now_ms e)\<rparr>)) (\<lambda>changed.
              if changed \<noteq> 1 then raise (auth_error ''CONFLICT'') else
              bnd (lift (identity_digest S revoked_by)) (\<lambda>by.
              bnd (write_audit S B e (Some gid) ''REVOKED'' ''ALLOW'' None None sc (g_digest r) [(''reason'', by)])
                (\<lambda>u. ret False))))))"

definition revoke :: "std \<Rightarrow> broker \<Rightarrow> call_env \<Rightarrow> string \<Rightarrow> string \<Rightarrow> (auth_store, unit) op" where
  "revoke S B e gid revoked_by =
     bnd (transact B e (revoke_tx S B e gid revoked_by)) (\<lambda>denied.
       if denied then raise (auth_error ''ALREADY_CONSUMED'') else ret ())"

section \<open>Verifying the audit log\<close>

fun verify_rows :: "std \<Rightarrow> broker \<Rightarrow> int \<Rightarrow> string \<Rightarrow> audit_row list \<Rightarrow> unit res" where
  "verify_rows S B n previous [] = Inr ()"
| "verify_rows S B n previous (r # rows) =
     (if a_seq r \<noteq> n \<or> b_prev_hash (a_body r) \<noteq> previous then Inl (auth_error ''AUDIT_INTEGRITY_FAILED'') else
      (let body = body_json S (a_body r); h = sha256 S body in
       rbind (compare_digest h (a_hash r)) (\<lambda>same.
       if \<not> same then Inl (auth_error ''AUDIT_INTEGRITY_FAILED'') else
       rbind (secret_get B (b_key_id (a_body r))) (\<lambda>k.
       if hmac_sha256 S k body \<noteq> a_mac r then Inl (auth_error ''AUDIT_INTEGRITY_FAILED'')
       else verify_rows S B (n + 1) h rows))))"

definition verify_audit :: "std \<Rightarrow> broker \<Rightarrow> auth_store \<Rightarrow> unit res" where
  "verify_audit S B st = verify_rows S B 1 zero_hash (audit st)"

section \<open>What every broker operation guarantees\<close>

text \<open>
  A row is never edited after it was consumed or revoked, and otherwise only to be consumed or revoked. The audit log
  only grows. \<open>grants_wf\<close> is the invariant of the grants table; a verified log stays verified.
\<close>

definition row_step :: "grant_row \<Rightarrow> grant_row \<Rightarrow> bool" where
  "row_step r q \<longleftrightarrow> q = r \<or> g_revoked r = None \<and> g_consumed r = None \<and>
     ((\<exists>t. q = r\<lparr>g_revoked := Some t\<rparr>) \<or> (\<exists>t rid. t < g_expires r \<and> q = r\<lparr>g_consumed := Some t, g_consumed_run := Some rid\<rparr>))"

definition rows_evolve :: "grant_row list \<Rightarrow> grant_row list \<Rightarrow> bool" where
  "rows_evolve rs qs \<longleftrightarrow> length rs \<le> length qs \<and> (\<forall>i<length rs. row_step (rs ! i) (qs ! i))"

definition row_ok :: "grant_row \<Rightarrow> bool" where
  "row_ok r \<longleftrightarrow> g_issued r < g_expires r \<and> (g_consumed r = None \<longleftrightarrow> g_consumed_run r = None) \<and>
     (g_consumed r = None \<or> g_revoked r = None) \<and> (\<forall>t. g_consumed r = Some t \<longrightarrow> t < g_expires r)"

definition grants_wf :: "auth_store \<Rightarrow> bool" where
  "grants_wf st \<longleftrightarrow> distinct (map g_id (grants st)) \<and> distinct (map g_token_id (grants st)) \<and> (\<forall>r\<in>set (grants st). row_ok r)"

text \<open>\<open>hexdigest\<close> is ASCII text.\<close>

definition ascii_sha :: "std \<Rightarrow> bool" where
  "ascii_sha S \<longleftrightarrow> (\<forall>x. list_all (\<lambda>c. code c < 128) (sha256 S x))"

definition broker_rel :: "std \<Rightarrow> broker \<Rightarrow> auth_store \<Rightarrow> auth_store \<Rightarrow> bool" where
  "broker_rel S B st st' \<longleftrightarrow>
     rows_evolve (grants st) (grants st') \<and>
     (\<exists>rows. audit st' = audit st @ rows) \<and>
     (grants_wf st \<longrightarrow> grants_wf st') \<and>
     (ascii_sha S \<longrightarrow> verify_audit S B st = Inr () \<longrightarrow> verify_audit S B st' = Inr ())"

definition live :: "grant_row \<Rightarrow> bool" where
  "live r \<longleftrightarrow> g_revoked r = None \<and> g_consumed r = None"

lemma row_step_cases: "row_step r q \<Longrightarrow> q = r \<or> live r \<and> \<not> live q"
  unfolding row_step_def live_def by (elim disjE conjE exE) simp_all

lemma row_step_trans: "row_step a b \<Longrightarrow> row_step b c \<Longrightarrow> row_step a c"
  using row_step_cases [of a b] row_step_cases [of b c] by metis

lemma row_step_refl: "row_step a a"
  by (simp add: row_step_def)

lemma rows_evolve_refl: "rows_evolve rs rs"
  by (simp add: rows_evolve_def row_step_refl)

lemma rows_evolve_snoc: "rows_evolve rs (rs @ [r])"
  by (simp add: rows_evolve_def nth_append row_step_refl)

lemma rows_evolve_map: "(\<And>r. row_step r (f r)) \<Longrightarrow> rows_evolve rs (map f rs)"
  by (simp add: rows_evolve_def)

lemma rows_evolve_trans:
  assumes 1: "rows_evolve rs qs" and 2: "rows_evolve qs ps" shows "rows_evolve rs ps"
proof -
  from 1 have l1: "length rs \<le> length qs" and r1: "\<And>i. i < length rs \<Longrightarrow> row_step (rs ! i) (qs ! i)"
    by (auto simp only: rows_evolve_def)
  from 2 have l2: "length qs \<le> length ps" and r2: "\<And>i. i < length qs \<Longrightarrow> row_step (qs ! i) (ps ! i)"
    by (auto simp only: rows_evolve_def)
  have "row_step (rs ! i) (ps ! i)" if "i < length rs" for i
    using that l1 by (intro row_step_trans [OF r1 r2]) auto
  moreover have "length rs \<le> length ps" using l1 l2 by (rule order_trans)
  ultimately show ?thesis unfolding rows_evolve_def by blast
qed

lemma broker_rel_refl: "broker_rel S B st st"
  by (simp add: broker_rel_def rows_evolve_refl)

lemma broker_rel_trans: "broker_rel S B st st' \<Longrightarrow> broker_rel S B st' st'' \<Longrightarrow> broker_rel S B st st''"
  unfolding broker_rel_def
  by (elim conjE exE, intro conjI) (blast intro: rows_evolve_trans, metis append_assoc, blast, blast)

interpretation broker: guarantee "broker_rel S B" for S B
  by unfold_locales (rule broker_rel_refl, rule broker_rel_trans)

lemmas broker_rules = broker.guar_bnd broker.guar_lift broker.guar_ret broker.guar_raise broker.guar_gets
  broker.guar_if broker.guar_let broker.guar_option broker.guar_sum

lemma transact_guar: "guar (broker_rel S B) m \<Longrightarrow> guar (broker_rel S B) (transact B e m)"
  by (auto simp: guar_def transact_def broker_rel_refl split: prod.splits sum.splits) (metis snd_conv)

subsection \<open>The audit chain\<close>

lemma compare_same: "list_all (\<lambda>c. code c < 128) a \<Longrightarrow> compare_digest a a = Inr True"
  by (simp add: compare_digest_def)

lemma compare_digest_Inr: "compare_digest a b = Inr r \<Longrightarrow> r = (a = b)"
  by (simp add: compare_digest_def)

lemma verify_rows_append:
  "verify_rows S B n h (xs @ ys) =
     rbind (verify_rows S B n h xs) (\<lambda>u. verify_rows S B (n + int (length xs)) (if xs = [] then h else a_hash (last xs)) ys)"
proof (induction xs arbitrary: n h)
  case Nil
  show ?case by simp
next
  case (Cons r xs)
  have "compare_digest x y = Inr True \<Longrightarrow> x = y" for x y by (auto dest: compare_digest_Inr)
  with Cons.IH show ?case
    by (auto simp: Let_def rbind_def algebra_simps split: sum.splits dest: compare_digest_Inr)
qed

lemma verify_rows_seq:
  "verify_rows S B n h xs = Inr () \<Longrightarrow> xs \<noteq> [] \<Longrightarrow> a_seq (last xs) = n + int (length xs) - 1"
  by (induction xs arbitrary: n h) (auto simp: Let_def rbind_Inr_iff split: if_splits)

lemma verify_audit_snoc:
  assumes "ascii_sha S" and "verify_audit S B st = Inr ()" and "secret_get B (b_key_id b) = Inr k"
    and "b_prev_hash b = last_hash (audit st)"
  shows "verify_rows S B 1 zero_hash (audit st @ [\<lparr>a_seq = next_seq (audit st), a_body = b,
      a_hash = sha256 S (body_json S b), a_mac = hmac_sha256 S k (body_json S b)\<rparr>]) = Inr ()"
proof -
  have seq: "next_seq (audit st) = 1 + int (length (audit st))"
    using assms(2) verify_rows_seq [of S B 1 zero_hash "audit st"] by (auto simp: verify_audit_def next_seq_def)
  have "compare_digest x x = Inr True" if "x = sha256 S y" for x y
    using assms(1) that by (simp add: ascii_sha_def compare_same)
  then show ?thesis
    using assms by (simp add: verify_rows_append verify_audit_def seq Let_def last_hash_def)
qed

lemma write_audit_guar [guar_rules]: "guar (broker_rel S B) (write_audit S B e gid et oc er rid sc digest details)"
proof (rule guarI)
  fix st :: auth_store
  let ?m = "write_audit S B e gid et oc er rid sc digest details"
  have "snd (?m st) = st \<or> (\<exists>b k. secret_get B (own_key B) = Inr k \<and> b_key_id b = own_key B \<and>
      b_prev_hash b = last_hash (audit st) \<and>
      snd (?m st) = st\<lparr>audit := audit st @ [\<lparr>a_seq = next_seq (audit st), a_body = b,
         a_hash = sha256 S (body_json S b), a_mac = hmac_sha256 S k (body_json S b)\<rparr>]\<rparr>)"
    unfolding write_audit_def insert_audit_def Let_def
    by (auto split: sum.splits intro!: exI)
  then show "broker_rel S B st (snd (?m st))"
  proof (elim disjE exE conjE)
    fix b k
    assume b: "secret_get B (own_key B) = Inr k" "b_key_id b = own_key B" "b_prev_hash b = last_hash (audit st)"
      and st: "snd (?m st) = st\<lparr>audit := audit st @ [\<lparr>a_seq = next_seq (audit st), a_body = b,
         a_hash = sha256 S (body_json S b), a_mac = hmac_sha256 S k (body_json S b)\<rparr>]\<rparr>"
    from b have "ascii_sha S \<Longrightarrow> verify_audit S B st = Inr () \<Longrightarrow> verify_audit S B (snd (?m st)) = Inr ()"
      using verify_audit_snoc [of S B st b k] by (simp add: verify_audit_def st)
    then show "broker_rel S B st (snd (?m st))"
      by (simp add: broker_rel_def st rows_evolve_refl grants_wf_def)
  qed (simp add: broker_rel_refl)
qed

subsection \<open>The grants table\<close>

lemma insert_grant_guar:
  assumes "g_revoked r = None" and "g_consumed r = None"
  shows "guar (broker_rel S B) (insert_grant r)"
proof (rule guarI)
  fix st :: auth_store
  let ?clash = "list_ex (\<lambda>q. g_id q = g_id r \<or> g_token_id q = g_token_id r \<or> g_token_mac q = g_token_mac r) (grants st)
        \<or> \<not> g_issued r < g_expires r \<or> (g_consumed r = None) \<noteq> (g_consumed_run r = None)"
  show "broker_rel S B st (snd (insert_grant r st))"
  proof (cases ?clash)
    case True
    then show ?thesis by (simp only: insert_grant_def if_True snd_conv broker_rel_refl)
  next
    case False
    then have st: "snd (insert_grant r st) = st\<lparr>grants := grants st @ [r]\<rparr>"
      by (simp only: insert_grant_def if_False snd_conv)
    have "grants_wf (st\<lparr>grants := grants st @ [r]\<rparr>)" if "grants_wf st"
      using that False assms by (auto simp: grants_wf_def row_ok_def list_ex_iff)
    then show ?thesis by (simp add: st broker_rel_def rows_evolve_snoc verify_audit_def)
  qed
qed

lemma update_grants_guar:
  assumes "\<And>r. P r \<Longrightarrow> row_step r (f r)" and "\<And>r. P r \<Longrightarrow> row_ok r \<Longrightarrow> row_ok (f r)"
  shows "guar (broker_rel S B) (update_grants P f)"
proof (rule guarI)
  fix st :: auth_store
  let ?g = "\<lambda>r. if P r then f r else r"
  have step: "row_step r (?g r)" for r using assms(1) by (simp add: row_step_refl)
  have "g_id (?g r) = g_id r \<and> g_token_id (?g r) = g_token_id r" for r
    using step [of r] by (auto simp: row_step_def split: if_splits)
  then have ids: "map g_id (map ?g gs) = map g_id gs" "map g_token_id (map ?g gs) = map g_token_id gs" for gs by simp_all
  have "grants_wf (st\<lparr>grants := map ?g (grants st)\<rparr>)" if "grants_wf st" for st :: auth_store
    using that assms(2) ids [of "grants st"] by (auto simp: grants_wf_def simp del: map_map)
  moreover have "rows_evolve (grants st) (map ?g (grants st))" using step by (rule rows_evolve_map)
  ultimately show "broker_rel S B st (snd (update_grants P f st))"
    by (simp add: broker_rel_def update_grants_def verify_audit_def)
qed

lemma consume_update_guar [guar_rules]:
  "guar (broker_rel S B) (update_grants (consumable gid now) (\<lambda>q. q\<lparr>g_consumed := Some now, g_consumed_run := Some rid\<rparr>))"
  by (rule update_grants_guar) (auto simp: consumable_def row_step_def row_ok_def)

lemma revoke_update_guar [guar_rules]:
  "guar (broker_rel S B) (update_grants (revocable gid) (\<lambda>q. q\<lparr>g_revoked := Some now\<rparr>))"
  by (rule update_grants_guar) (auto simp: revocable_def row_step_def row_ok_def)

lemma issue_guar: "guar (broker_rel S B) (issue S B e sc ttl by)"
  unfolding issue_def
  by (intro broker_rules transact_guar write_audit_guar insert_grant_guar) simp_all

lemma deny_guar [guar_rules]: "guar (broker_rel S B) (deny S B e gid c rid sc digest)"
  unfolding deny_def by (intro broker_rules write_audit_guar)

lemma consume_guar: "guar (broker_rel S B) (verify_and_consume S B e token sc rid)"
  unfolding verify_and_consume_def consume_tx_def consume_row_def
  by (intro broker_rules transact_guar write_audit_guar deny_guar consume_update_guar)

lemma revoke_guar: "guar (broker_rel S B) (revoke S B e gid by)"
  unfolding revoke_def revoke_tx_def
  by (intro broker_rules transact_guar write_audit_guar revoke_update_guar)

subsection \<open>Consuming a grant\<close>

lemma transact_Inr:
  "transact B e m st = (Inr v, st') \<longleftrightarrow> begin_tx (busy_retries B) (locks e) (busy_retries B) \<and> m st = (Inr v, st')"
  by (auto simp: transact_def split: prod.splits sum.splits)

lemma transact_Inl: "transact B e m st = (Inl x, st') \<Longrightarrow> st' = st"
  by (auto simp: transact_def split: prod.splits sum.splits if_splits)

lemma write_audit_Inr:
  "write_audit S B e gid et oc er rid sc digest details st = (Inr u, st') \<Longrightarrow>
     grants st' = grants st \<and> (\<exists>row. audit st' = audit st @ [row] \<and> b_grant_id (a_body row) = gid \<and>
       b_event_type (a_body row) = et \<and> b_outcome (a_body row) = oc \<and> b_error (a_body row) = er \<and>
       b_run_id (a_body row) = rid \<and> b_digest (a_body row) = digest)"
  by (auto simp: write_audit_def insert_audit_def Let_def split: if_splits sum.splits)

lemma deny_Inr: "deny S B e gid c rid sc digest st = (Inr v, st') \<Longrightarrow> v = Inl c \<and> grants st' = grants st"
  by (auto simp: deny_def bnd_Inr_iff dest: write_audit_Inr)

lemma bindings_differ_False: "bindings_differ xs = Inr False \<Longrightarrow> \<forall>(a, b)\<in>set xs. a = b"
  by (induction xs rule: bindings_differ.induct) (auto simp: rbind_Inr_iff split: if_splits dest: compare_digest_Inr)

lemma deny_reason_None:
  "deny_reason r sc digest now = Inr None \<Longrightarrow> live r \<and> now < g_expires r \<and> g_digest r = digest \<and>
     g_agent r = sc_agent sc \<and> g_action r = sc_action sc \<and> g_workspace r = sc_workspace sc \<and> g_project r = sc_project sc"
  by (auto simp: deny_reason_def live_def rbind_Inr_iff split: if_splits dest!: compare_digest_Inr bindings_differ_False)

lemma deny_reason_consumed:
  "deny_reason r sc digest now = Inr (Some ''ALREADY_CONSUMED'') \<Longrightarrow> g_consumed r \<noteq> None"
  by (auto simp: deny_reason_def rbind_Inr_iff split: if_splits)

lemma find_grant_Some: "find_grant P st = Some r \<Longrightarrow> r \<in> set (grants st) \<and> P r"
  by (auto simp: find_grant_def find_Some_iff)

text \<open>The effect of the one \<open>UPDATE\<close> that consumes.\<close>

definition mark_consumed :: "string \<Rightarrow> int \<Rightarrow> string \<Rightarrow> grant_row list \<Rightarrow> grant_row list" where
  "mark_consumed gid now rid rs =
     map (\<lambda>q. if consumable gid now q then q\<lparr>g_consumed := Some now, g_consumed_run := Some rid\<rparr> else q) rs"

lemma consume_row_Inr:
  assumes "consume_row S B e r sc digest run_id st = (Inr v, st')"
  shows "\<exists>rid g. bound run_id = Inr rid \<and> v = Inr g \<and> cg_grant g = g_id r \<and> cg_digest g = digest \<and> cg_run g = run_id \<and>
    length (filter (consumable (g_id r) (now_ms e)) (grants st)) = 1 \<and>
    grants st' = mark_consumed (g_id r) (now_ms e) rid (grants st) \<and>
    (\<exists>row. audit st' = audit st @ [row] \<and> b_grant_id (a_body row) = Some (g_id r) \<and> b_outcome (a_body row) = ''ALLOW'' \<and>
       b_run_id (a_body row) = Some run_id)"
proof -
  from assms obtain rid s1 n u where rid: "bound run_id = Inr rid"
    and up: "update_grants (consumable (g_id r) (now_ms e))
        (\<lambda>q. q\<lparr>g_consumed := Some (now_ms e), g_consumed_run := Some rid\<rparr>) st = (Inr n, s1)"
    and n: "n = 1" and w: "write_audit S B e (Some (g_id r)) ''CONSUME'' ''ALLOW'' None (Some run_id) sc digest [] s1 = (Inr u, st')"
    and v: "v = Inr \<lparr>cg_grant = g_id r, cg_run = run_id, cg_agent = sc_agent sc, cg_action = sc_action sc,
               cg_workspace = sc_workspace sc, cg_project = sc_project sc, cg_digest = digest\<rparr>"
    unfolding consume_row_def by (auto simp: bnd_Inr_iff split: if_splits)
  from up have "grants s1 = mark_consumed (g_id r) (now_ms e) rid (grants st)" "audit s1 = audit st"
    "length (filter (consumable (g_id r) (now_ms e)) (grants st)) = n"
    by (auto simp: update_grants_def mark_consumed_def)
  with rid v n write_audit_Inr [OF w] show ?thesis by fastforce
qed

lemma consume_code_None: "consume_code r sc digest rid now = Inr None \<Longrightarrow> live r \<Longrightarrow> deny_reason r sc digest now = Inr None"
  by (auto simp: consume_code_def rbind_Inr_iff live_def dest: deny_reason_consumed split: if_splits)

lemma consume_tx_Inr:
  assumes "consume_tx S B e t sc digest run_id st = (Inr (Inr g), st')"
  shows "\<exists>r. r \<in> set (grants st) \<and> g_token_id r = sha256 S t \<and> token_mac S B t (g_key_id r) = Inr (g_token_mac r) \<and>
    consume_code r sc digest run_id (now_ms e) = Inr None \<and> consume_row S B e r sc digest run_id st = (Inr (Inr g), st')"
  using assms unfolding consume_tx_def
  by (auto elim!: bnd_InrE split: option.split_asm if_split_asm dest!: deny_Inr find_grant_Some) blast

lemma id_unique: "grants_wf st \<Longrightarrow> r \<in> set (grants st) \<Longrightarrow> q \<in> set (grants st) \<Longrightarrow> g_id q = g_id r \<Longrightarrow> q = r"
  by (auto simp: grants_wf_def distinct_map dest: inj_onD)

lemma verify_and_consume_spec:
  assumes "grants_wf st" and "verify_and_consume S B e token sc run_id st = (Inr g, st')"
  shows "\<exists>t r rid. token = Some t \<and> r \<in> set (grants st) \<and> cg_grant g = g_id r \<and> bound run_id = Inr rid \<and>
    g_token_id r = sha256 S t \<and> token_mac S B t (g_key_id r) = Inr (g_token_mac r) \<and>
    g_revoked r = None \<and> g_consumed r = None \<and> now_ms e < g_expires r \<and>
    canonical_task_digest S sc = Inr (g_digest r) \<and>
    (g_agent r, g_action r, g_workspace r, g_project r) = (sc_agent sc, sc_action sc, sc_workspace sc, sc_project sc) \<and>
    grants st' = map (\<lambda>q. if q = r then r\<lparr>g_consumed := Some (now_ms e), g_consumed_run := Some rid\<rparr> else q) (grants st) \<and>
    (\<exists>row. audit st' = audit st @ [row] \<and> b_grant_id (a_body row) = Some (g_id r) \<and> b_outcome (a_body row) = ''ALLOW'')"
proof -
  from assms(2) obtain digest t where digest: "canonical_task_digest S sc = Inr digest" and t: "token = Some t"
    and tx: "consume_tx S B e t sc digest run_id st = (Inr (Inr g), st')"
    unfolding verify_and_consume_def
    by (auto elim!: bnd_InrE simp: transact_Inr split: option.split_asm if_split_asm sum.split_asm)
  from consume_tx_Inr [OF tx] obtain r where r: "r \<in> set (grants st)" "g_token_id r = sha256 S t"
      "token_mac S B t (g_key_id r) = Inr (g_token_mac r)"
    and c: "consume_code r sc digest run_id (now_ms e) = Inr None"
    and row: "consume_row S B e r sc digest run_id st = (Inr (Inr g), st')" by blast
  from consume_row_Inr [OF row] obtain rid where rid: "bound run_id = Inr rid" "cg_grant g = g_id r"
    and one: "length (filter (consumable (g_id r) (now_ms e)) (grants st)) = 1"
    and gs: "grants st' = mark_consumed (g_id r) (now_ms e) rid (grants st)"
    and au: "\<exists>row. audit st' = audit st @ [row] \<and> b_grant_id (a_body row) = Some (g_id r) \<and> b_outcome (a_body row) = ''ALLOW''"
    by auto
  from one obtain q where "q \<in> set (grants st)" "consumable (g_id r) (now_ms e) q"
    by (metis One_nat_def filter_empty_conv length_0_conv n_not_Suc_n)
  with id_unique [OF assms(1) r(1)] have cons: "consumable (g_id r) (now_ms e) r" by (auto simp: consumable_def)
  have only: "q \<in> set (grants st) \<Longrightarrow> consumable (g_id r) (now_ms e) q \<longleftrightarrow> q = r" for q
    using cons id_unique [OF assms(1) r(1)] by (auto simp: consumable_def)
  have "grants st' = map (\<lambda>q. if q = r then r\<lparr>g_consumed := Some (now_ms e), g_consumed_run := Some rid\<rparr> else q) (grants st)"
    unfolding gs mark_consumed_def by (intro map_cong refl) (simp add: only)
  moreover have "live r" using cons by (simp add: live_def consumable_def)
  ultimately show ?thesis
    using t r rid digest au cons deny_reason_None [OF consume_code_None [OF c]] by (auto simp: consumable_def)
qed

lemma verify_and_consume_facts:
  assumes "grants_wf st" and "verify_and_consume S B e token sc run_id st = (Inr g, st')"
  shows "\<exists>r rid t. r \<in> set (grants st) \<and> live r \<and> cg_grant g = g_id r \<and>
    grants st' = map (\<lambda>q. if q = r then r\<lparr>g_consumed := Some t, g_consumed_run := Some rid\<rparr> else q) (grants st)"
  using verify_and_consume_spec [OF assms] unfolding live_def by blast

text \<open>A token is honoured only for a stored grant whose digest of the token, message authentication code,
  bindings and task digest all match, that is neither revoked nor consumed nor expired; the call then marks exactly
  that grant as consumed by the run and appends one ALLOW row to the audit log, and changes nothing else.\<close>

theorem verify_and_consume_success:
  assumes "grants_wf st" and "verify_and_consume S B e token sc run_id st = (Inr g, st')"
  shows "\<exists>t r rid. token = Some t \<and> r \<in> set (grants st) \<and> cg_grant g = g_id r \<and> bound run_id = Inr rid \<and>
    g_token_id r = sha256 S t \<and> token_mac S B t (g_key_id r) = Inr (g_token_mac r) \<and>
    g_revoked r = None \<and> g_consumed r = None \<and> now_ms e < g_expires r \<and>
    canonical_task_digest S sc = Inr (g_digest r) \<and>
    (g_agent r, g_action r, g_workspace r, g_project r) = (sc_agent sc, sc_action sc, sc_workspace sc, sc_project sc) \<and>
    grants st' = map (\<lambda>q. if q = r then r\<lparr>g_consumed := Some (now_ms e), g_consumed_run := Some rid\<rparr> else q) (grants st) \<and>
    (\<exists>row. audit st' = audit st @ [row] \<and> b_grant_id (a_body row) = Some (g_id r) \<and> b_outcome (a_body row) = ''ALLOW'')"
  using assms by (rule verify_and_consume_spec)

section \<open>Grants over the life of a store\<close>

datatype broker_call =
    Issue call_env auth_scope rat string
  | Consume call_env "string option" auth_scope string
  | Revoke call_env string string

text \<open>One call and the identifier of the grant it consumed, if it did.\<close>

fun call_step :: "std \<Rightarrow> broker \<Rightarrow> broker_call \<Rightarrow> auth_store \<Rightarrow> string option \<times> auth_store" where
  "call_step S B (Issue e sc ttl by) st = (None, snd (issue S B e sc ttl by st))"
| "call_step S B (Consume e token sc rid) st =
     (case verify_and_consume S B e token sc rid st of
        (Inr g, st') \<Rightarrow> (Some (cg_grant g), st') | (Inl x, st') \<Rightarrow> (None, st'))"
| "call_step S B (Revoke e gid by) st = (None, snd (revoke S B e gid by st))"

fun consumptions :: "std \<Rightarrow> broker \<Rightarrow> auth_store \<Rightarrow> broker_call list \<Rightarrow> string list" where
  "consumptions S B st [] = []"
| "consumptions S B st (c # cs) =
     (case call_step S B c st of (used, st') \<Rightarrow>
        (case used of None \<Rightarrow> [] | Some g \<Rightarrow> [g]) @ consumptions S B st' cs)"

fun run_calls :: "std \<Rightarrow> broker \<Rightarrow> auth_store \<Rightarrow> broker_call list \<Rightarrow> auth_store" where
  "run_calls S B st [] = st"
| "run_calls S B st (c # cs) = run_calls S B (snd (call_step S B c st)) cs"

lemma call_step_rel: "broker_rel S B st (snd (call_step S B c st))"
proof (cases c)
  case (Consume e token sc rid)
  then show ?thesis
    using guarD [OF consume_guar [of S B e token sc rid], of st] by (auto split: prod.split sum.split)
qed (auto intro: guarD issue_guar revoke_guar)

lemma run_calls_rel: "broker_rel S B st (run_calls S B st cs)"
proof (induction cs arbitrary: st)
  case Nil
  show ?case by (simp add: broker_rel_refl)
next
  case (Cons c cs)
  then show ?case using broker_rel_trans [OF call_step_rel [of S B st c]] by simp
qed

text \<open>The grants that can no longer be consumed.\<close>

definition spent :: "auth_store \<Rightarrow> string set" where
  "spent st = {g_id r |r. r \<in> set (grants st) \<and> \<not> live r}"

lemma spent_mono:
  assumes "broker_rel S B st st'" shows "spent st \<subseteq> spent st'"
proof
  fix i assume "i \<in> spent st"
  then obtain k where k: "k < length (grants st)" "g_id (grants st ! k) = i" "\<not> live (grants st ! k)"
    by (auto simp: spent_def in_set_conv_nth)
  with assms have "row_step (grants st ! k) (grants st' ! k)" "k < length (grants st')"
    by (auto simp: broker_rel_def rows_evolve_def)
  then have q: "grants st' ! k = grants st ! k" "grants st' ! k \<in> set (grants st')"
    using k(3) row_step_cases [of "grants st ! k" "grants st' ! k"] nth_mem [of k "grants st'"] by blast+
  from q(2) k show "i \<in> spent st'"
    unfolding spent_def q(1) by blast
qed

lemma call_step_spends:
  assumes "grants_wf st" and "call_step S B c st = (Some i, st')"
  shows "i \<notin> spent st \<and> i \<in> spent st'"
proof -
  from assms(2) obtain e token sc rid g where v: "verify_and_consume S B e token sc rid st = (Inr g, st')"
    and i: "i = cg_grant g"
    by (cases c) (auto split: prod.split_asm sum.split_asm)
  from verify_and_consume_facts [OF assms(1) v] obtain r rid' t where r: "r \<in> set (grants st)" "live r" "cg_grant g = g_id r"
    and st': "grants st' = map (\<lambda>q. if q = r then r\<lparr>g_consumed := Some t, g_consumed_run := Some rid'\<rparr> else q) (grants st)"
    by (elim exE conjE) rule
  let ?q = "r\<lparr>g_consumed := Some t, g_consumed_run := Some rid'\<rparr>"
  have "i \<notin> spent st"
  proof
    assume "i \<in> spent st"
    then obtain q where q: "q \<in> set (grants st)" "\<not> live q" "g_id q = g_id r" unfolding spent_def i r(3) by auto
    from id_unique [OF assms(1) r(1) q(1,3)] q(2) r(2) show False by simp
  qed
  moreover have "?q \<in> set (grants st')"
    unfolding st' set_map using r(1) by (rule rev_image_eqI) simp
  moreover have "\<not> live ?q" "g_id ?q = i" by (simp_all add: live_def i r(3))
  ultimately show ?thesis unfolding spent_def by blast
qed

lemma consumptions_distinct:
  "grants_wf st \<Longrightarrow> distinct (consumptions S B st cs) \<and> set (consumptions S B st cs) \<inter> spent st = {}"
proof (induction cs arbitrary: st)
  case Nil
  show ?case by simp
next
  case (Cons c cs)
  obtain used st' where s: "call_step S B c st = (used, st')" by (cases "call_step S B c st")
  have rel: "broker_rel S B st st'" using call_step_rel [of S B st c] by (simp add: s)
  then have "grants_wf st'" using Cons.prems by (simp add: broker_rel_def)
  note IH = Cons.IH [OF this]
  show ?case
  proof (cases used)
    case None
    with IH spent_mono [OF rel] s show ?thesis by auto
  next
    case (Some i)
    with IH spent_mono [OF rel] s call_step_spends [OF Cons.prems, of S B c i st'] show ?thesis by auto
  qed
qed

definition empty_store :: auth_store where
  "empty_store = \<lparr>grants = [], audit = []\<rparr>"

lemma empty_store_wf: "grants_wf empty_store" "verify_audit S B empty_store = Inr ()"
  by (simp_all add: grants_wf_def empty_store_def verify_audit_def)

text \<open>C3: A grant is consumed at most once, and never after it was revoked: over any sequence of issue, consume and
  revoke calls with any arguments, clocks and lock conflicts, the consumed grants are pairwise distinct, and none
  of them was already spent (consumed or revoked) at any earlier point of the history.\<close>

theorem grant_consumed_at_most_once:
  "distinct (consumptions S B empty_store cs) \<and>
   set (consumptions S B (run_calls S B empty_store cs) ds) \<inter> spent (run_calls S B empty_store cs) = {}"
proof -
  have "grants_wf (run_calls S B empty_store cs)"
    using run_calls_rel [of S B empty_store cs] empty_store_wf(1) by (simp add: broker_rel_def)
  with consumptions_distinct empty_store_wf(1) show ?thesis by blast
qed

text \<open>The audit log is append-only and stays verifiable: from any store whose log verifies, every sequence of
  broker calls leaves a log that extends the old one and still passes \<open>verify_audit\<close>.\<close>

theorem audit_append_only_and_verified:
  assumes "ascii_sha S" and "verify_audit S B st = Inr ()"
  shows "verify_audit S B (run_calls S B st cs) = Inr () \<and> (\<exists>rows. audit (run_calls S B st cs) = audit st @ rows)"
  using run_calls_rel [of S B st cs] assms by (simp add: broker_rel_def)

text \<open>A failing broker call leaves the grants as they were, on every error path; only a refused consumption may
  add its row to the audit log.\<close>

theorem failed_call_keeps_grants:
  assumes "verify_and_consume S B e token sc run_id st = (Inl x, st')"
  shows "grants st' = grants st"
proof -
  have deny: "deny S B e gid c rid sc d st = (Inr v, s) \<Longrightarrow> grants s = grants st" for gid c rid d v s
    by (blast dest: deny_Inr)
  have tx: "consume_tx S B e t sc d rid st = (Inr (Inl c), s) \<Longrightarrow> grants s = grants st" for t d rid c s
    unfolding consume_tx_def
    by (auto elim!: bnd_InrE split: option.split_asm if_split_asm dest!: deny_Inr find_grant_Some consume_row_Inr)
  show ?thesis
    using assms unfolding verify_and_consume_def
    by (auto simp: bnd_app transact_Inr dest: deny tx transact_Inl
        split: option.split_asm if_split_asm sum.split_asm prod.split_asm)
qed

section \<open>Tampering with the audit log\<close>

lemma opt_str_prefix:
  assumes "jdump fr ea (opt_str a) @ r = jdump fr ea (opt_str b) @ r'" shows "a = b \<and> r = r'"
proof (cases a)
  case None
  with assms show ?thesis by (cases b) (simp_all add: opt_str_def json_str_def)
next
  case (Some s)
  with assms show ?thesis
    by (cases b) (simp add: opt_str_def json_str_def, auto simp: opt_str_def dest: json_str_prefix)
qed

text \<open>The key-sorted text of an audit body, field by field.\<close>

lemma body_json_text:
  "body_json S b = CHR ''{'' # join '','' (map (\<lambda>(k, s). json_str True k @ '':'' @ s)
     [(''action'', json_str True (b_action b)), (''agent_id'', json_str True (b_agent b)),
      (''details_json'', json_str True (b_details b)), (''error_code'', jdump (float_repr S) True (opt_str (b_error b))),
      (''event_id'', json_str True (b_event_id b)), (''event_type'', json_str True (b_event_type b)),
      (''grant_id'', jdump (float_repr S) True (opt_str (b_grant_id b))), (''key_id'', json_str True (b_key_id b)),
      (''occurred_at_ms'', str_int (b_occurred b)), (''outcome'', json_str True (b_outcome b)),
      (''prev_hash'', json_str True (b_prev_hash b)), (''project_id'', json_str True (b_project b)),
      (''run_id'', jdump (float_repr S) True (opt_str (b_run_id b))), (''task_digest'', json_str True (b_digest b)),
      (''workspace_id'', json_str True (b_workspace b))]) @ ''}''"
  by (simp add: body_json_def)

lemma body_json_inj: "body_json S b = body_json S c \<Longrightarrow> b = c"
  unfolding body_json_text
  by (cases b; cases c) (auto dest!: json_str_prefix opt_str_prefix str_int_prefix)

lemma verify_rows_snoc:
  "verify_rows S B n h (xs @ [r]) = Inr () \<Longrightarrow> verify_rows S B n h xs = Inr () \<and>
     a_seq r = n + int (length xs) \<and> b_prev_hash (a_body r) = (if xs = [] then h else a_hash (last xs)) \<and>
     a_hash r = sha256 S (body_json S (a_body r)) \<and>
     (\<exists>k. secret_get B (b_key_id (a_body r)) = Inr k \<and> a_mac r = hmac_sha256 S k (body_json S (a_body r)))"
  by (auto simp: verify_rows_append rbind_Inr_iff Let_def split: if_split_asm dest: compare_digest_Inr)

definition audit_texts :: "std \<Rightarrow> auth_store \<Rightarrow> string set" where
  "audit_texts S st = (\<lambda>r. body_json S (a_body r)) ` set (audit st)"

lemma verified_logs_equal:
  assumes "inj_on (sha256 S) T" and "zero_hash \<notin> sha256 S ` T"
    and "verify_rows S B 1 zero_hash xs = Inr ()" and "verify_rows S B 1 zero_hash ys = Inr ()"
    and "(\<lambda>r. body_json S (a_body r)) ` set xs \<subseteq> T" and "(\<lambda>r. body_json S (a_body r)) ` set ys \<subseteq> T"
    and "last_hash xs = last_hash ys"
  shows "xs = ys"
  using assms(3-)
proof (induction xs arbitrary: ys rule: rev_induct)
  case Nil
  show ?case
  proof (cases ys rule: rev_cases)
    case (snoc ys' y)
    with Nil verify_rows_snoc [of S B 1 zero_hash ys' y] have "zero_hash = sha256 S (body_json S (a_body y))"
      by (simp add: last_hash_def)
    moreover have "body_json S (a_body y) \<in> T" using Nil snoc by auto
    ultimately show ?thesis using assms(2) by auto
  qed simp
next
  case (snoc x xs)
  note vx = verify_rows_snoc [OF snoc.prems(1)]
  show ?case
  proof (cases ys rule: rev_cases)
    case Nil
    with snoc.prems vx have "zero_hash = sha256 S (body_json S (a_body x))" by (simp add: last_hash_def)
    moreover have "body_json S (a_body x) \<in> T" using snoc.prems by auto
    ultimately show ?thesis using assms(2) by auto
  next
    case ys: (snoc ys' y)
    note vy = verify_rows_snoc [OF snoc.prems(2) [unfolded ys]]
    have "sha256 S (body_json S (a_body x)) = sha256 S (body_json S (a_body y))"
      using snoc.prems(5) ys vx vy by (simp add: last_hash_def)
    moreover have "body_json S (a_body x) \<in> T" "body_json S (a_body y) \<in> T" using snoc.prems ys by auto
    ultimately have "body_json S (a_body x) = body_json S (a_body y)" using assms(1) by (auto dest: inj_onD)
    then have body: "a_body x = a_body y" by (rule body_json_inj)
    then have "last_hash xs = last_hash ys'" using vx vy by (simp add: last_hash_def)
    then have eq: "xs = ys'"
      using vx vy snoc.prems ys by (intro snoc.IH) auto
    with body vx vy have "x = y" by (intro audit_row.equality) auto
    with eq ys show ?thesis by simp
  qed
qed

text \<open>The audit log is tamper-evident: two logs that both verify and end in the same hash are the same log, row by
  row, provided the digest does not collide on the texts of their rows and hits the start value on none of them.
  Removing, reordering, editing or inserting a row therefore changes the last hash or fails verification.\<close>

theorem audit_log_tamper_evident:
  assumes "inj_on (sha256 S) (audit_texts S st \<union> audit_texts S st')"
    and "zero_hash \<notin> sha256 S ` (audit_texts S st \<union> audit_texts S st')"
    and "verify_audit S B st = Inr ()" and "verify_audit S B st' = Inr ()"
    and "last_hash (audit st) = last_hash (audit st')"
  shows "audit st = audit st'"
  using verified_logs_equal [OF assms(1,2) assms(3,4) [unfolded verify_audit_def] _ _ assms(5)]
  by (simp add: audit_texts_def)

section \<open>Replays\<close>

lemma find_grant_unique:
  assumes "grants_wf st" and "r \<in> set (grants st)"
  shows "find_grant (\<lambda>q. g_token_id q = g_token_id r) st = Some r"
proof -
  obtain q where q: "find_grant (\<lambda>q. g_token_id q = g_token_id r) st = Some q"
    using assms(2) by (cases "find_grant (\<lambda>q. g_token_id q = g_token_id r) st") (auto simp: find_grant_def find_None_iff)
  from find_grant_Some [OF q] assms have "q = r" by (auto simp: grants_wf_def distinct_map dest: inj_onD)
  with q show ?thesis by simp
qed

definition presented :: "std \<Rightarrow> broker \<Rightarrow> call_env \<Rightarrow> auth_store \<Rightarrow> grant_row \<Rightarrow> string \<Rightarrow> bool" where
  "presented S B e st r t \<longleftrightarrow>
     grants_wf st \<and> r \<in> set (grants st) \<and> t \<noteq> [] \<and> g_token_id r = sha256 S t \<and>
     token_mac S B t (g_key_id r) = Inr (g_token_mac r) \<and> begin_tx (busy_retries B) (locks e) (busy_retries B)"

lemma consume_tx_presented:
  assumes "presented S B e st r t"
  shows "consume_tx S B e t sc digest run_id st =
    (case consume_code r sc digest run_id (now_ms e) of
       Inl x \<Rightarrow> (Inl x, st)
     | Inr None \<Rightarrow> consume_row S B e r sc digest run_id st
     | Inr (Some c) \<Rightarrow> deny S B e (Some (g_id r)) c run_id sc digest st)"
proof -
  from assms have "find_grant (\<lambda>q. g_token_id q = sha256 S t) st = Some r"
    using find_grant_unique [of st r] by (auto simp: presented_def)
  with assms show ?thesis
    by (simp add: consume_tx_def presented_def bnd_app split: sum.split option.split)
qed

lemma consume_code_replay:
  assumes "g_consumed r \<noteq> None" and "g_revoked r = None" and "g_consumed_run r = Some rid" and "bound run_id = Inr rid"
    and "list_all (\<lambda>c. code c < 128) (g_digest r)" and "list_all (\<lambda>c. code c < 128) digest"
  shows "consume_code r sc digest run_id now = Inr (if g_digest r = digest then None else Some ''TASK_MISMATCH'')"
  using assms by (auto simp: consume_code_def deny_reason_def compare_digest_def)

lemma consume_row_spent:
  assumes "grants_wf st" and "r \<in> set (grants st)" and "g_consumed r \<noteq> None" and "bound run_id = Inr rid"
  shows "fst (consume_row S B e r sc digest run_id st) = Inl (AuthBrokerError ''CONFLICT'')"
proof -
  have "filter (consumable (g_id r) (now_ms e)) (grants st) = []"
    using assms id_unique [OF assms(1,2)] by (auto simp: filter_empty_conv consumable_def)
  then show ?thesis
    using assms by (simp add: consume_row_def update_grants_def bnd_app auth_error_def error_codes_def)
qed

text \<open>A replay by the run that consumed the grant is refused: with the original task the guarded update finds no
  row and the call raises CONFLICT without a trace in the store; with another task the refusal is written to the
  audit log and the call raises a plain ValueError, because TASK_MISMATCH is not a known error code.\<close>

theorem same_run_replay_refused:
  assumes "presented S B e st r t" and "g_consumed r \<noteq> None" and "g_revoked r = None"
    and "g_consumed_run r = Some rid" and "bound run_id = Inr rid" and "canonical_task_digest S sc = Inr digest"
    and "list_all (\<lambda>c. code c < 128) (g_digest r)" and "list_all (\<lambda>c. code c < 128) digest"
  shows "if g_digest r = digest
    then verify_and_consume S B e (Some t) sc run_id st = (Inl (AuthBrokerError ''CONFLICT''), st)
    else \<forall>v st'. deny S B e (Some (g_id r)) ''TASK_MISMATCH'' run_id sc digest st = (Inr v, st') \<longrightarrow>
      verify_and_consume S B e (Some t) sc run_id st = (Inl (ValueError ''UNKNOWN_AUTH_ERROR''), st')"
proof -
  note tx = consume_tx_presented [OF assms(1), of sc digest run_id]
  have code: "consume_code r sc digest run_id (now_ms e) = Inr (if g_digest r = digest then None else Some ''TASK_MISMATCH'')"
    using assms by (intro consume_code_replay) auto
  have started: "begin_tx (busy_retries B) (locks e) (busy_retries B)" and t: "t \<noteq> []"
    using assms(1) by (auto simp: presented_def)
  show ?thesis
  proof (cases "g_digest r = digest")
    case True
    then have row: "consume_tx S B e t sc digest run_id st = consume_row S B e r sc digest run_id st"
      by (simp add: tx code)
    have "fst (consume_row S B e r sc digest run_id st) = Inl (AuthBrokerError ''CONFLICT'')"
      using assms by (intro consume_row_spent) (auto simp: presented_def)
    then have "transact B e (consume_tx S B e t sc digest run_id) st = (Inl (AuthBrokerError ''CONFLICT''), st)"
      by (cases "consume_row S B e r sc digest run_id st") (simp add: transact_def row started)
    with True t assms(6) show ?thesis by (simp add: verify_and_consume_def bnd_app)
  next
    case False
    have "verify_and_consume S B e (Some t) sc run_id st = (Inl (ValueError ''UNKNOWN_AUTH_ERROR''), st')"
      if d: "deny S B e (Some (g_id r)) ''TASK_MISMATCH'' run_id sc digest st = (Inr v, st')" for v st'
    proof -
      from deny_Inr [OF d] have v: "v = Inl ''TASK_MISMATCH''" by simp
      have "transact B e (consume_tx S B e t sc digest run_id) st = (Inr v, st')"
        using False d started by (simp add: transact_def tx code)
      with t assms(6) v show ?thesis
        by (simp add: verify_and_consume_def bnd_app auth_error_def error_codes_def)
    qed
    with False show ?thesis by simp
  qed
qed

section \<open>A concrete run\<close>

definition sample_broker :: broker where
  "sample_broker = \<lparr>secret_get = (\<lambda>k. Inr ''pepper''), own_key = ''k1'', busy_retries = 1\<rparr>"

definition sample_env :: "string \<Rightarrow> int \<Rightarrow> call_env" where
  "sample_env ev t = \<lparr>locks = (\<lambda>n. if n = 0 then Locked else Begun), now_ms = t, audit_ms = t, fresh_event = ev,
     fresh_token = ''tok'', fresh_grant = ''grant-1''\<rparr>"

definition sample_scope :: auth_scope where
  "sample_scope = \<lparr>sc_agent = ''qa'', sc_action = ''dispatch'', sc_workspace = ''w'', sc_project = ''p'',
     sc_contract = PDict [(''core_run_id'', PStr ''run-1'')]\<rparr>"

definition sample_digest :: string where
  "sample_digest = (case canonical_task_digest ascii_std sample_scope of Inl x \<Rightarrow> [] | Inr d \<Rightarrow> d)"

definition sample_grant :: grant_row where
  "sample_grant = \<lparr>g_id = ''grant-1'', g_token_id = sha256 ascii_std ''tok'', g_token_mac = hmac_sha256 ascii_std ''pepper'' ''tok'',
     g_key_id = ''k1'', g_digest = sample_digest, g_agent = ''qa'', g_action = ''dispatch'', g_workspace = ''w'',
     g_project = ''p'', g_issued = 1000, g_expires = 31000, g_revoked = None, g_consumed = None,
     g_consumed_run = None, g_created_by = ''id-v1:x''\<rparr>"

definition sample_store :: auth_store where
  "sample_store = \<lparr>grants = [sample_grant], audit = []\<rparr>"

definition replay_store :: auth_store where
  "replay_store = \<lparr>grants = [sample_grant\<lparr>g_consumed := Some 2000, g_consumed_run := Some ''run-1''\<rparr>], audit = []\<rparr>"

lemma ascii_std_sha: "ascii_sha ascii_std"
  by (simp add: ascii_sha_def ascii_std_def plain_std_def list_all_iff code_def)

lemma bound_simps [simp]: "bound ''qa'' = Inr ''qa''" "bound ''dispatch'' = Inr ''dispatch''" "bound ''w'' = Inr ''w''"
  "bound ''p'' = Inr ''p''" "bound ''run-1'' = Inr ''run-1''"
  by (simp_all add: bound_def blank_def strip_def lstrip_def char_class_defs)

lemma sample_digest:
  "canonical_task_digest ascii_std sample_scope = Inr sample_digest" "list_all (\<lambda>c. code c < 128) sample_digest"
proof -
  have "\<exists>x. canonical_task_digest ascii_std sample_scope = Inr (''v1:'' @ sha256 ascii_std x)"
    by (simp add: canonical_task_digest_def sample_scope_def forbidden_key_def broker_sensitive_def lower_def
        replace_char_def to_lower_def char_class_defs) blast
  then obtain x where x: "canonical_task_digest ascii_std sample_scope = Inr (''v1:'' @ sha256 ascii_std x)" ..
  then show "canonical_task_digest ascii_std sample_scope = Inr sample_digest"
    by (simp add: sample_digest_def)
  from x ascii_std_sha show "list_all (\<lambda>c. code c < 128) sample_digest"
    by (simp add: sample_digest_def ascii_sha_def code_def)
qed

lemma sample_stores_wf: "grants_wf sample_store" "grants_wf replay_store"
  by (simp_all add: grants_wf_def row_ok_def sample_store_def replay_store_def sample_grant_def)

lemma sample_begin: "begin_tx (busy_retries sample_broker) (locks (sample_env ev t)) (busy_retries sample_broker)"
  by (simp add: sample_broker_def sample_env_def)

lemma sample_presented:
  "presented ascii_std sample_broker (sample_env ev t) sample_store sample_grant ''tok''"
  "presented ascii_std sample_broker (sample_env ev t) replay_store
     (sample_grant\<lparr>g_consumed := Some 2000, g_consumed_run := Some ''run-1''\<rparr>) ''tok''"
  using sample_stores_wf sample_begin
  by (simp_all add: presented_def sample_store_def replay_store_def sample_grant_def token_mac_def sample_broker_def)

lemma sample_write:
  "audit st = [] \<Longrightarrow> gid = None \<or> (\<exists>r\<in>set (grants st). gid = Some (g_id r)) \<Longrightarrow> list_all (\<lambda>d. fst d = ''reason'') details \<Longrightarrow>
     \<exists>st'. write_audit S sample_broker e gid et oc er rid sc digest details st = (Inr (), st')"
  by (auto simp: write_audit_def insert_audit_def sample_broker_def Let_def detail_keys_def list_all_iff list_ex_iff)

lemma sample_consume:
  "\<exists>g st'. verify_and_consume ascii_std sample_broker (sample_env ''ev-2'' 2000) (Some ''tok'') sample_scope ''run-1'' sample_store
     = (Inr g, st')"
proof -
  let ?e = "sample_env ''ev-2'' 2000"
  have "consume_code sample_grant sample_scope sample_digest ''run-1'' (now_ms ?e) = Inr None"
    using sample_digest(2)
    by (simp add: consume_code_def deny_reason_def compare_digest_def sample_grant_def sample_scope_def sample_env_def code_def)
  then have tx: "consume_tx ascii_std sample_broker ?e ''tok'' sample_scope sample_digest ''run-1'' sample_store =
      consume_row ascii_std sample_broker ?e sample_grant sample_scope sample_digest ''run-1'' sample_store"
    by (simp add: consume_tx_presented [OF sample_presented(1)])
  let ?s = "sample_store\<lparr>grants := [sample_grant\<lparr>g_consumed := Some 2000, g_consumed_run := Some ''run-1''\<rparr>]\<rparr>"
  have "\<exists>st'. write_audit ascii_std sample_broker ?e (Some (g_id sample_grant)) ''CONSUME'' ''ALLOW'' None (Some ''run-1'')
      sample_scope sample_digest [] ?s = (Inr (), st')"
    by (rule sample_write) (simp_all add: sample_store_def)
  then obtain st' where "write_audit ascii_std sample_broker ?e (Some (g_id sample_grant)) ''CONSUME'' ''ALLOW'' None (Some ''run-1'')
      sample_scope sample_digest [] ?s = (Inr (), st')" ..
  then have "\<exists>g. consume_row ascii_std sample_broker ?e sample_grant sample_scope sample_digest ''run-1'' sample_store = (Inr (Inr g), st')"
    by (simp add: consume_row_def bnd_app update_grants_def consumable_def sample_store_def sample_grant_def sample_env_def)
  then show ?thesis
    using tx sample_begin by (auto simp: verify_and_consume_def bnd_app sample_digest(1) transact_def)
qed

theorem verify_and_consume_success_witness:
  "\<exists>g st'. verify_and_consume ascii_std sample_broker (sample_env ''ev-2'' 2000) (Some ''tok'') sample_scope ''run-1'' sample_store
     = (Inr g, st') \<and> cg_grant g = ''grant-1''"
proof -
  obtain g st' where v: "verify_and_consume ascii_std sample_broker (sample_env ''ev-2'' 2000) (Some ''tok'') sample_scope
      ''run-1'' sample_store = (Inr g, st')" using sample_consume by blast
  from verify_and_consume_success [OF sample_stores_wf(1) v] have "cg_grant g \<in> g_id ` set (grants sample_store)" by auto
  then have "cg_grant g = ''grant-1''" by (simp add: sample_store_def sample_grant_def)
  with v show ?thesis by blast
qed

theorem audit_append_only_and_verified_witness:
  "verify_audit ascii_std sample_broker (run_calls ascii_std sample_broker empty_store
     [Issue (sample_env ''ev-1'' 1000) sample_scope 30 ''owner'', Consume (sample_env ''ev-2'' 2000) (Some ''tok'') sample_scope ''run-1'',
      Revoke (sample_env ''ev-3'' 3000) ''grant-1'' ''owner'']) = Inr ()"
  using audit_append_only_and_verified [OF ascii_std_sha empty_store_wf(2)] by blast

theorem failed_call_keeps_grants_witness:
  "\<exists>x st'. verify_and_consume ascii_std sample_broker (sample_env ''ev-2'' 2000) None sample_scope ''run-1'' sample_store = (Inl x, st') \<and>
     grants st' = grants sample_store"
proof -
  have "\<exists>st'. write_audit ascii_std sample_broker (sample_env ''ev-2'' 2000) None ''CONSUME'' ''DENY'' (Some ''AUTH_REQUIRED'')
      (Some ''run-1'') sample_scope sample_digest [(''reason'', ''AUTH_REQUIRED'')] sample_store = (Inr (), st')"
    by (rule sample_write) (simp_all add: sample_store_def)
  then obtain st' where "write_audit ascii_std sample_broker (sample_env ''ev-2'' 2000) None ''CONSUME'' ''DENY'' (Some ''AUTH_REQUIRED'')
      (Some ''run-1'') sample_scope sample_digest [(''reason'', ''AUTH_REQUIRED'')] sample_store = (Inr (), st')" ..
  then have "verify_and_consume ascii_std sample_broker (sample_env ''ev-2'' 2000) None sample_scope ''run-1'' sample_store =
      (Inl (AuthBrokerError ''AUTH_REQUIRED''), st')"
    using sample_begin
    by (simp add: verify_and_consume_def bnd_app sample_digest(1) transact_def deny_def auth_error_def error_codes_def)
  from failed_call_keeps_grants [OF this] this show ?thesis by blast
qed

definition sample_body :: audit_body where
  "sample_body = \<lparr>b_event_id = ''ev-1'', b_grant_id = None, b_event_type = ''CONSUME'', b_outcome = ''DENY'', b_error = None,
     b_run_id = None, b_agent = ''qa'', b_action = ''dispatch'', b_workspace = ''w'', b_project = ''p'', b_digest = ''d'',
     b_occurred = 0, b_prev_hash = zero_hash, b_key_id = ''k1'', b_details = ''{}''\<rparr>"

definition sample_log :: auth_store where
  "sample_log = \<lparr>grants = [], audit = [\<lparr>a_seq = 1, a_body = sample_body, a_hash = sha256 ascii_std (body_json ascii_std sample_body),
     a_mac = hmac_sha256 ascii_std ''pepper'' (body_json ascii_std sample_body)\<rparr>]\<rparr>"

theorem audit_log_tamper_evident_witness:
  "audit sample_log = audit (sample_log\<lparr>grants := [sample_grant]\<rparr>)"
proof (rule audit_log_tamper_evident [of ascii_std])
  have v: "verify_audit ascii_std sample_broker sample_log = Inr ()"
    using verify_audit_snoc [OF ascii_std_sha empty_store_wf(2), of sample_broker sample_body "''pepper''"]
    by (simp add: verify_audit_def sample_log_def empty_store_def next_seq_def last_hash_def sample_body_def sample_broker_def)
  then show "verify_audit ascii_std sample_broker sample_log = Inr ()"
    "verify_audit ascii_std sample_broker (sample_log\<lparr>grants := [sample_grant]\<rparr>) = Inr ()"
    by (simp_all add: verify_audit_def)
  show "inj_on (sha256 ascii_std) (audit_texts ascii_std sample_log \<union> audit_texts ascii_std (sample_log\<lparr>grants := [sample_grant]\<rparr>))"
    by (simp add: audit_texts_def sample_log_def)
  have "hd (sha256 ascii_std (body_json ascii_std sample_body)) \<noteq> hd zero_hash"
    by (auto simp: body_json_text ascii_std_def plain_std_def zero_hash_def code_def
        dest: arg_cong [of _ _ "of_char :: char \<Rightarrow> nat"])
  then show "zero_hash \<notin> sha256 ascii_std ` (audit_texts ascii_std sample_log \<union>
      audit_texts ascii_std (sample_log\<lparr>grants := [sample_grant]\<rparr>))"
    by (auto simp: audit_texts_def sample_log_def)
  show "last_hash (audit sample_log) = last_hash (audit (sample_log\<lparr>grants := [sample_grant]\<rparr>))" by simp
qed

theorem same_run_replay_refused_witness:
  "verify_and_consume ascii_std sample_broker (sample_env ''ev-3'' 3000) (Some ''tok'') sample_scope ''run-1'' replay_store =
     (Inl (AuthBrokerError ''CONFLICT''), replay_store)"
  using same_run_replay_refused [OF sample_presented(2) _ _ _ _ sample_digest(1) _ sample_digest(2), of "''run-1''" "''run-1''"]
    sample_digest(2)
  by (simp add: sample_grant_def)

end
