(* ===== verification/CoreEngine.thy ===== *)
theory CoreEngine
  imports RunRegistry AgentRegistry AuthBroker LoopDetector
begin

text \<open>
  \<^verbatim>\<open>CoreEngine\<close> of \<^verbatim>\<open>plachem_fast_gateway/core_engine.py\<close>. Its state \<open>core\<close> is the run registry, the armed
  deadline timers, the repetition detector and the outside world of type \<open>'w\<close>. The record \<open>deps\<close> holds what
  the engine is built with: the clocks, the worker transport (\<^verbatim>\<open>worker_transport.py\<close>), the authorization broker, the
  grant authorizer and the terminal-transition guard. While \<open>wait\<close> polls the transport it holds no lock: the
  field \<open>others\<close> is what other threads do to the engine meanwhile.
\<close>

section \<open>State and collaborators\<close>

record submit_payload =
  sp_message :: string
  sp_agent :: string
  sp_key :: string
  sp_timeout :: rat
  sp_approved :: "string list"
  sp_session_key :: "string option"

record 'w core =
  runs :: "run list"
  timers :: "string \<rightharpoonup> rat"
  spotter :: detector
  world :: 'w

record 'w deps =
  stdlib :: std
  agent_list :: agents
  clock :: "'w \<Rightarrow> rat \<times> 'w"
  monotonic :: "'w \<Rightarrow> rat \<times> 'w"
  new_uuid :: "'w \<Rightarrow> string \<times> 'w"
  tp_submit :: "string \<Rightarrow> submit_payload \<Rightarrow> 'w \<Rightarrow> run_binding res \<times> 'w"
  tp_wait :: "string \<Rightarrow> rat \<Rightarrow> 'w \<Rightarrow> adapter_outcome res \<times> 'w"
  tp_cancel :: "string \<Rightarrow> 'w \<Rightarrow> run_binding res \<times> 'w"
  others :: "'w core \<Rightarrow> 'w core"
  stop_guard :: "'w \<Rightarrow> string \<Rightarrow> bool"
  broker_present :: bool
  auth_required :: bool
  authorizer_present :: bool
  owns_run :: "string \<Rightarrow> bool"
  with_grant :: "auth_scope \<Rightarrow> (auth_scope \<times> string option \<Rightarrow> 'w \<Rightarrow> unit res \<times> 'w) \<Rightarrow> 'w \<Rightarrow> unit res \<times> 'w"
  consume_grant :: "string option \<Rightarrow> auth_scope \<Rightarrow> string \<Rightarrow> 'w \<Rightarrow> unit res \<times> 'w"

definition on_world :: "('w \<Rightarrow> 'a \<times> 'w) \<Rightarrow> ('w core, 'a) op" where
  "on_world f s = (case f (world s) of (x, w) \<Rightarrow> (Inr x, s\<lparr>world := w\<rparr>))"

definition ask_world :: "('w \<Rightarrow> 'a res \<times> 'w) \<Rightarrow> ('w core, 'a) op" where
  "ask_world f s = (case f (world s) of (r, w) \<Rightarrow> (r, s\<lparr>world := w\<rparr>))"

definition reg :: "(run list, 'a) op \<Rightarrow> ('w core, 'a) op" where
  "reg m s = (case m (runs s) of (r, rs) \<Rightarrow> (r, s\<lparr>runs := rs\<rparr>))"

definition require_record :: "string \<Rightarrow> ('w core, run) op" where
  "require_record i = reg (require_run i)"

definition move :: "'w deps \<Rightarrow> string \<Rightarrow> status \<Rightarrow> run_binding option \<Rightarrow> adapter_outcome option \<Rightarrow> string \<Rightarrow> ('w core, run) op" where
  "move D i s b oc reason = bnd (on_world (clock D)) (\<lambda>now. reg (transition i s b oc reason now))"

definition note_policy :: "'w deps \<Rightarrow> string \<Rightarrow> policy_update \<Rightarrow> ('w core, run) op" where
  "note_policy D i u = bnd (on_world (clock D)) (\<lambda>t. bnd (on_world (clock D)) (\<lambda>now. reg (update_policy i u t now)))"

definition note_goal :: "'w deps \<Rightarrow> string \<Rightarrow> goal_update \<Rightarrow> ('w core, run) op" where
  "note_goal D i u = bnd (on_world (clock D)) (\<lambda>t. bnd (on_world (clock D)) (\<lambda>now. reg (update_goal_state i u t now)))"

definition clear_deadline :: "string \<Rightarrow> ('w core, unit) op" where
  "clear_deadline i = modify (\<lambda>s. s\<lparr>timers := (timers s)(i := None)\<rparr>)"

text \<open>The profile the engine applies to a recorded run depends on its task class alone.\<close>

definition profile_for_record :: "run \<Rightarrow> profile" where
  "profile_for_record r = task_profile (pm_task_class (r_policy r))"

text \<open>\<open>__post_init__\<close> fills the execution budget of every profile.\<close>

definition exec_budget :: "profile \<Rightarrow> rat" where
  "exec_budget p = (case execution_budget p of None \<Rightarrow> 0 | Some x \<Rightarrow> x)"

definition runtime_seconds :: "'w deps \<Rightarrow> run \<Rightarrow> ('w core, rat) op" where
  "runtime_seconds D r =
     (case r_started r of
        None \<Rightarrow> ret 0
      | Some t \<Rightarrow> bnd (on_world (clock D)) (\<lambda>now. ret (max 0 (now - t))))"

definition schedule_deadline :: "string \<Rightarrow> profile \<Rightarrow> bool \<Rightarrow> ('w core, unit) op" where
  "schedule_deadline i p managed =
     (if managed then ret ()
      else modify (\<lambda>s. s\<lparr>timers := (timers s)(i \<mapsto> (if runtime_class p = LOCAL then exec_budget p else max_runtime p))\<rparr>))"

section \<open>Dispatch\<close>

definition request_hash :: "std \<Rightarrow> string \<Rightarrow> string \<Rightarrow> string \<Rightarrow> string \<Rightarrow> string \<Rightarrow> string \<Rightarrow> string" where
  "request_hash S ag message goal act workspace project =
     sha256 S (jdump (float_repr S) False (PDict
       [(''agent_id'', PStr ag), (''message'', PStr message), (''goal_id'', PStr goal), (''action'', PStr act),
        (''workspace_id'', PStr workspace), (''project_id'', PStr project)]))"

definition approved_path :: "pyval \<Rightarrow> string res" where
  "approved_path v =
     (case as_str v of
        None \<Rightarrow> Inl (ValueError ''INVALID_APPROVED_PATHS'')
      | Some s \<Rightarrow> need (\<not> blank s) (ValueError ''INVALID_APPROVED_PATHS'')
          (let t = strip s
           in need (starts_with t ''/'' \<and> length t \<le> 4096) (ValueError ''INVALID_APPROVED_PATHS'') (Inr t)))"

definition normalize_approved_paths :: "pyval \<Rightarrow> string list res" where
  "normalize_approved_paths v =
     (if v = PNone then Inr [] else
      (case as_list v of
         None \<Rightarrow> Inl (ValueError ''INVALID_APPROVED_PATHS'')
       | Some vs \<Rightarrow> rbind (rmap approved_path vs) (\<lambda>ps. Inr (first_occurrences ps))))"

record dispatch_request =
  dq_agent :: string
  dq_message :: pyval
  dq_timeout :: pyval
  dq_run_id :: "string option"
  dq_key :: "string option"
  dq_goal :: pyval
  dq_session_key :: "string option"
  dq_parent :: "string option"
  dq_resets :: int
  dq_managed :: bool
  dq_token :: "string option"
  dq_action :: string
  dq_workspace :: string
  dq_project :: string
  dq_task_class :: string
  dq_approved :: pyval

text \<open>The validated request: what \<open>_dispatch\<close> computes before it touches the registry.\<close>

record admission =
  ad_message :: string
  ad_approved :: "string list"
  ad_contract :: goal_contract
  ad_profile :: profile
  ad_hash :: string

definition dispatch_profile :: "'w deps \<Rightarrow> dispatch_request \<Rightarrow> string \<Rightarrow> profile res" where
  "dispatch_profile D q i =
     (if (starts_with i ''war-'' \<or> starts_with i ''core-exec-'') \<and> authorizer_present D \<and> owns_run D i
      then Inr (task_profile WAR_ROOM) else task_runtime_profile (dq_task_class q))"

definition check_dispatch :: "'w deps \<Rightarrow> dispatch_request \<Rightarrow> (string \<times> string list) res" where
  "check_dispatch D q =
     rbind (require_agent (agent_list D) (dq_agent q)) (\<lambda>registration.
     rbind (normalize_approved_paths (dq_approved q)) (\<lambda>approved.
     case as_str (dq_message q) of
       None \<Rightarrow> Inl (ValueError ''INVALID_MESSAGE'')
     | Some m \<Rightarrow> need (\<not> blank m) (ValueError ''INVALID_MESSAGE'')
         (case as_num (dq_timeout q) of
            None \<Rightarrow> Inl (ValueError ''INVALID_TIMEOUT'')
          | Some t \<Rightarrow> need (0 < t) (ValueError ''INVALID_TIMEOUT'') (Inr (m, approved)))))"

definition admit :: "'w deps \<Rightarrow> dispatch_request \<Rightarrow> string \<Rightarrow> string \<times> string list \<Rightarrow> admission res" where
  "admit D q i checked = (case checked of (m, approved) \<Rightarrow>
     rbind (normalize_goal_contract (stdlib D) (dq_goal q)) (\<lambda>contract.
     rbind (dispatch_profile D q i) (\<lambda>p.
     Inr \<lparr>ad_message = m, ad_approved = approved, ad_contract = contract, ad_profile = p,
          ad_hash = request_hash (stdlib D) (dq_agent q) m (goal_id contract) (dq_action q) (dq_workspace q) (dq_project q)\<rparr>)))"

definition dispatch_scope :: "'w deps \<Rightarrow> dispatch_request \<Rightarrow> string \<Rightarrow> string \<Rightarrow> admission \<Rightarrow> auth_scope" where
  "dispatch_scope D q i key a =
     execution_auth_scope (stdlib D) (dq_agent q) (ad_message a) i key (contract_dict (ad_contract a))
       (dq_action q) (dq_workspace q) (dq_project q)"

text \<open>
  The authorization of one run. A token and an authorizer that owns the run exclude each other; without a token the
  authorizer's context manager resolves the grant and encloses its consumption.
\<close>

definition authorize_run :: "'w deps \<Rightarrow> dispatch_request \<Rightarrow> string \<Rightarrow> auth_scope \<Rightarrow> ('w core, unit) op" where
  "authorize_run D q i sc =
     (if dq_token q \<noteq> None \<and> authorizer_present D \<and> owns_run D i then raise (auth_error ''FORBIDDEN_FIELD'')
      else if dq_token q = None \<and> authorizer_present D then
        ask_world (with_grant D sc (\<lambda>(gs, token).
          if sc_agent gs \<noteq> sc_agent sc \<or> sc_action gs \<noteq> sc_action sc \<or> sc_contract gs \<noteq> sc_contract sc
          then (\<lambda>w. (Inl (auth_error ''BINDING_MISMATCH''), w))
          else consume_grant D token gs i))
      else ask_world (consume_grant D (dq_token q) sc i))"

fun auth_code :: "exn \<Rightarrow> string option" where
  "auth_code (AuthBrokerError c) = Some c"
| "auth_code e = None"

fun transport_failure :: "exn \<Rightarrow> bool" where
  "transport_failure (TransportError m) = True"
| "transport_failure TimeoutError = True"
| "transport_failure e = False"

definition adapter_failure :: "exn \<Rightarrow> bool" where
  "adapter_failure e \<longleftrightarrow> is_adapter_error e \<or> e = TimeoutError"

text \<open>Submission, the identity check of a fresh session, and the move to RUNNING.\<close>

definition submit_run :: "'w deps \<Rightarrow> dispatch_request \<Rightarrow> string \<Rightarrow> string \<Rightarrow> admission \<Rightarrow> run \<Rightarrow> ('w core, run) op" where
  "submit_run D q i key a r =
     bnd (attempt (ask_world (tp_submit D i
       \<lparr>sp_message = ad_message a, sp_agent = dq_agent q, sp_key = key, sp_timeout = max_runtime (ad_profile a),
        sp_approved = r_approved_paths r, sp_session_key = dq_session_key q\<rparr>))) (\<lambda>answer.
     case answer of
       Inl e \<Rightarrow>
         if adapter_failure e
         then move D i FAIL None None (if transport_failure e then ''TRANSPORT_FAILURE'' else ''DISPATCH_REJECTED'')
         else raise e
     | Inr b \<Rightarrow>
         if dq_session_key q \<noteq> None \<and> dq_session_key q \<noteq> Some (bd_session_key b)
         then move D i FAIL None None ''FRESH_SESSION_IDENTITY_UNVERIFIED''
         else bnd (move D i RUNNING (Some b) None []) (\<lambda>running.
              bnd (schedule_deadline i (ad_profile a) (dq_managed q)) (\<lambda>u. ret running)))"

definition authorize_and_submit :: "'w deps \<Rightarrow> dispatch_request \<Rightarrow> string \<Rightarrow> string \<Rightarrow> admission \<Rightarrow> run \<Rightarrow> ('w core, run) op" where
  "authorize_and_submit D q i key a r =
     (if auth_required D \<and> \<not> broker_present D then move D i BLOCKED None None ''AUTH_BROKER_UNAVAILABLE''
      else if broker_present D then
        bnd (attempt (authorize_run D q i (dispatch_scope D q i key a))) (\<lambda>granted.
        case granted of
          Inr u \<Rightarrow> submit_run D q i key a r
        | Inl e \<Rightarrow> (case auth_code e of
            Some c \<Rightarrow> move D i BLOCKED None None (''AUTH_'' @ c)
          | None \<Rightarrow> raise e))
      else submit_run D q i key a r)"

definition run_identity :: "'w deps \<Rightarrow> dispatch_request \<Rightarrow> ('w core, string) op" where
  "run_identity D q =
     (case dq_run_id q of
        Some i \<Rightarrow> if i = [] then bnd (on_world (new_uuid D)) (\<lambda>u. ret (''core-'' @ u)) else ret i
      | None \<Rightarrow> bnd (on_world (new_uuid D)) (\<lambda>u. ret (''core-'' @ u)))"

definition dispatch_key :: "dispatch_request \<Rightarrow> string \<Rightarrow> string" where
  "dispatch_key q i = (case dq_key q of Some k \<Rightarrow> if k = [] then i else k | None \<Rightarrow> i)"

definition create_record :: "'w deps \<Rightarrow> dispatch_request \<Rightarrow> string \<Rightarrow> admission \<Rightarrow> ('w core, run \<times> bool) op" where
  "create_record D q i a = bnd (on_world (clock D)) (\<lambda>now.
     reg (create_run i (dq_agent q) (dispatch_key q i) (ad_hash a) (policy_metadata (ad_profile a)) (ad_contract a)
            (dq_parent q) (dq_resets q) (ad_approved a) (dq_managed q) now))"

definition dispatch :: "'w deps \<Rightarrow> dispatch_request \<Rightarrow> ('w core, run) op" where
  "dispatch D q =
     bnd (lift (check_dispatch D q)) (\<lambda>checked.
     bnd (run_identity D q) (\<lambda>i.
     bnd (lift (admit D q i checked)) (\<lambda>a.
     bnd (create_record D q i a) (\<lambda>(r, created).
     if \<not> created \<and> r_status r \<noteq> QUEUED then ret r
     else authorize_and_submit D q i (dispatch_key q i) a r))))"

section \<open>Policy cancellation and progress checkpoints\<close>

definition union_sorted :: "string list \<Rightarrow> string list \<Rightarrow> string list" where
  "union_sorted xs ys = sort (remdups (xs @ ys))"

definition progress_dict :: "progress \<Rightarrow> pydict" where
  "progress_dict p = [(''completed_conditions'', str_list (vp_completed p)), (''artifacts'', str_list (vp_artifacts p)),
     (''evidence'', str_list (vp_evidence p)), (''scope'', str_list (vp_scope p))]"

definition escalation_package :: "run \<Rightarrow> string \<Rightarrow> pydict" where
  "escalation_package r reason =
     (let g = r_goal_contract r; v = r_progress r;
          rest = (case r_checkpoint r of None \<Rightarrow> [] | Some c \<Rightarrow> cp_remaining c)
      in [(''goal_contract'', PDict (contract_dict g)), (''verified_progress'', PDict (progress_dict v)),
          (''original_goal'', PStr (primary_objective g)), (''verified_completed_work'', str_list (vp_completed v)),
          (''remaining_work'', str_list (if rest = [] then completion_conditions g else rest)),
          (''known_blocker'', PStr reason), (''allowed_scope'', str_list (allowed_scope g)),
          (''forbidden_scope'', str_list (forbidden_scope g)), (''relevant_evidence'', str_list (vp_evidence v)),
          (''source_agent'', PStr (r_agent r)),
          (''source_runtime_class'', PStr (runtime_class_value (pm_runtime_class (r_policy r)))),
          (''failure_reason'', PStr reason)])"

definition policy_event_note :: "string \<Rightarrow> policy_update" where
  "policy_event_note c = no_policy_update\<lparr>pu_event := Some c\<rparr>"

text \<open>\<open>_cancel_for_policy\<close>: record, escalate a second drift at the reset limit, abort the worker, finish the run.\<close>

definition cancel_for_policy :: "'w deps \<Rightarrow> string \<Rightarrow> profile \<Rightarrow> string \<Rightarrow> string option \<Rightarrow> bool \<Rightarrow> ('w core, run) op" where
  "cancel_for_policy D i p event reason recorded =
     (let why = (case reason of Some x \<Rightarrow> if x = [] then cancel_reason_for event else x | None \<Rightarrow> cancel_reason_for event) in
      bnd (if recorded then ret ()
           else bnd (note_policy D i ((policy_event_note event)\<lparr>pu_cancel_reason := Some why, pu_status := Some ''GUARDED''\<rparr>)) (\<lambda>x. ret ())) (\<lambda>u.
      bnd (require_record i) (\<lambda>r.
      bnd (if why = ''LOCAL_LLM_GOAL_DRIFT'' \<and> pm_max_context_resets (r_policy r) \<le> r_context_resets r
           then bnd (note_goal D i (no_goal_update\<lparr>gu_event := Some ''ESCALATION_REQUIRED'', gu_status := Some ''DRIFT'',
                  gu_escalation_reason := Some why, gu_escalation_package := Some (escalation_package r why)\<rparr>)) (\<lambda>x. ret ())
           else ret ()) (\<lambda>u.
      bnd (attempt (ask_world (tp_cancel D i))) (\<lambda>answer.
      case answer of
        Inl e \<Rightarrow> if adapter_failure e
                  then bnd (clear_deadline i) (\<lambda>u. move D i FAIL None None ''POLICY_ABORT_FAILED'') else raise e
      | Inr b \<Rightarrow> bnd (clear_deadline i) (\<lambda>u. move D i CANCELLED (Some b) None why))))))"

definition goal_state_of :: "run \<Rightarrow> goal_state" where
  "goal_state_of r = (case ps_goal (r_policy_state r) of None \<Rightarrow> empty_goal_state | Some g \<Rightarrow> g)"

definition merged_progress :: "progress \<Rightarrow> checkpoint \<Rightarrow> progress" where
  "merged_progress p c =
     \<lparr>vp_completed = union_sorted (vp_completed p) (cp_completed c), vp_artifacts = union_sorted (vp_artifacts p) (cp_artifact_delta c),
      vp_evidence = union_sorted (vp_evidence p) (cp_evidence_delta c), vp_scope = union_sorted (vp_scope p) (cp_scope_delta c)\<rparr>"

definition checkpoint_signature :: "std \<Rightarrow> checkpoint \<Rightarrow> progress \<Rightarrow> string" where
  "checkpoint_signature S c v = sha256 S (jdump (float_repr S) True (PDict
     [(''current_step'', PStr (cp_current_step c)), (''blocking_reason'', PStr (cp_blocking_reason c)),
      (''remaining_conditions'', str_list (cp_remaining c)), (''verified'', PDict (progress_dict v))]))"

text \<open>
  The drift verdict on a checkpoint and the goal state to store: another objective, a scope outside the contract, or
  no progress since the same checkpoint was seen last.
\<close>

definition judge_checkpoint :: "std \<Rightarrow> goal_contract \<Rightarrow> checkpoint \<Rightarrow> progress \<Rightarrow> goal_state \<Rightarrow> string option \<times> goal_state" where
  "judge_checkpoint S g c previous gs =
     (let verified = merged_progress previous c in
      if cp_goal_id c \<noteq> goal_id g then (Some ''OBJECTIVE_REPLACEMENT'', gs)
      else if list_ex (\<lambda>x. List.member (forbidden_scope g) x \<or> \<not> List.member (allowed_scope g) x) (cp_scope_delta c)
        then (Some ''SCOPE_EXPANSION'', gs)
      else (let sig = checkpoint_signature S c verified in
            (if verified = previous \<and> gs_signature gs = Some sig then Some ''NO_PROGRESS'' else None,
             gs\<lparr>gs_signature := Some sig\<rparr>)))"

definition observe_checkpoint :: "'w deps \<Rightarrow> string \<Rightarrow> pyval \<Rightarrow> ('w core, run) op" where
  "observe_checkpoint D i v =
     bnd (require_record i) (\<lambda>r.
     if terminal (r_status r) then ret r else
     bnd (lift (normalize_goal_contract (stdlib D) (PDict (contract_input (r_goal_contract r))))) (\<lambda>g.
     bnd (lift (normalize_checkpoint v g)) (\<lambda>c.
     let verified = merged_progress (r_progress r) c;
         judged = judge_checkpoint (stdlib D) g c (r_progress r) (goal_state_of r);
         gs = snd judged
     in case fst judged of
       None \<Rightarrow> note_goal D i (no_goal_update\<lparr>gu_checkpoint := Some c, gu_progress := Some verified,
                 gu_goal_state := Some (gs\<lparr>gs_drift_count := Some 0\<rparr>), gu_status := Some ''NORMAL'', gu_ready := Some False\<rparr>)
     | Some event \<Rightarrow>
         (let n = or_zero (gs_drift_count gs) + 1 in
          bnd (note_goal D i (no_goal_update\<lparr>gu_checkpoint := Some c, gu_progress := Some verified,
                 gu_goal_state := Some (gs\<lparr>gs_drift_count := Some n\<rparr>),
                 gu_status := Some (if n = 1 then ''GUARDED'' else ''DRIFT''), gu_ready := Some True,
                 gu_event := Some event, gu_details := [(''occurrence'', PInt n)]\<rparr>)) (\<lambda>x.
          if 2 \<le> n then
            bnd (require_record i) (\<lambda>r2. cancel_for_policy D i (profile_for_record r2) event (Some ''LOCAL_LLM_GOAL_DRIFT'') True)
          else require_record i)))))"

section \<open>Waiting\<close>

text \<open>\<open>_apply_adapter_outcome\<close>\<close>

definition abort_after_timeout :: "'w deps \<Rightarrow> string \<Rightarrow> adapter_outcome \<Rightarrow> ('w core, unit) op" where
  "abort_after_timeout D i oc =
     (if oc_reason oc = ''OPENCLAW_TERMINAL_TIMEOUT'' then ret () else
      bnd (attempt (ask_world (tp_cancel D i))) (\<lambda>answer.
      case answer of
        Inr b \<Rightarrow> ret ()
      | Inl e \<Rightarrow> if adapter_failure e
                then bnd (note_policy D i ((policy_event_note ''TIMEOUT_ABORT_FAILED'')
                       \<lparr>pu_cancel_reason := Some ''TIMEOUT_ABORT_FAILED'', pu_status := Some ''GUARDED''\<rparr>)) (\<lambda>x. ret ())
                else raise e))"

definition finish_with :: "'w deps \<Rightarrow> string \<Rightarrow> adapter_outcome \<Rightarrow> ('w core, run) op" where
  "finish_with D i oc = bnd (clear_deadline i) (\<lambda>u. move D i (oc_status oc) None (Some oc) [])"

definition apply_reported_checkpoint :: "'w deps \<Rightarrow> string \<Rightarrow> adapter_outcome \<Rightarrow> pydict \<Rightarrow> ('w core, run) op" where
  "apply_reported_checkpoint D i oc d =
     bnd (attempt (observe_checkpoint D i (PDict d))) (\<lambda>answer.
     case answer of
       Inl e \<Rightarrow>
         if is_value_error e then
           bnd (note_goal D i (no_goal_update\<lparr>gu_event := Some ''GOAL_CHECKPOINT_INVALID'', gu_status := Some ''DRIFT''\<rparr>)) (\<lambda>x.
           bnd (clear_deadline i) (\<lambda>u. move D i BLOCKED None None ''GOAL_CHECKPOINT_INVALID''))
         else raise e
     | Inr seen \<Rightarrow>
         if terminal (r_status seen) then bnd (clear_deadline i) (\<lambda>u. ret seen)
         else if r_goal_status seen = ''GUARDED'' \<or> r_goal_status seen = ''DRIFT'' then
           bnd (note_goal D i (no_goal_update\<lparr>gu_goal_state := Some ((goal_state_of seen)\<lparr>gs_completed := Some True\<rparr>)\<rparr>)) (\<lambda>x.
           bnd (clear_deadline i) (\<lambda>u. require_record i))
         else finish_with D i oc)"

definition apply_adapter_outcome :: "'w deps \<Rightarrow> string \<Rightarrow> adapter_outcome \<Rightarrow> ('w core, run) op" where
  "apply_adapter_outcome D i oc =
     (if oc_status oc = RUNNING then require_record i
      else if oc_status oc = TIMEOUT then bnd (abort_after_timeout D i oc) (\<lambda>u. finish_with D i oc)
      else (case oc_result oc of
          None \<Rightarrow> finish_with D i oc
        | Some res \<Rightarrow> (case as_dict (dget res ''progress_checkpoint'') of
            None \<Rightarrow> finish_with D i oc
          | Some d \<Rightarrow> apply_reported_checkpoint D i oc d)))"

definition set_runtime :: "'w deps \<Rightarrow> string \<Rightarrow> rat \<Rightarrow> ('w core, unit) op" where
  "set_runtime D i x = bnd (note_policy D i (no_policy_update\<lparr>pu_runtime := Some x\<rparr>)) (\<lambda>r. ret ())"

text \<open>A poll of the transport; other threads may run before its answer is used.\<close>

definition poll :: "'w deps \<Rightarrow> string \<Rightarrow> rat \<Rightarrow> ('w core, adapter_outcome) op" where
  "poll D i t s = (case ask_world (tp_wait D i t) s of (r, s') \<Rightarrow> (r, others D s'))"

definition elapsed_now :: "'w deps \<Rightarrow> string \<Rightarrow> ('w core, rat) op" where
  "elapsed_now D i = bnd (require_record i) (\<lambda>r. runtime_seconds D r)"

text \<open>\<open>_finalize_local_execution\<close>: one last collection inside the reserved budget.\<close>

definition note_exhausted :: "'w deps \<Rightarrow> string \<Rightarrow> profile \<Rightarrow> run \<Rightarrow> ('w core, unit) op" where
  "note_exhausted D i p r =
     (if list_ex (\<lambda>e. ev_code e = ''EXECUTION_BUDGET_EXHAUSTED'') (r_policy_events r) then ret ()
      else bnd (note_policy D i ((policy_event_note ''EXECUTION_BUDGET_EXHAUSTED'')\<lparr>pu_status := Some ''GUARDED'',
        pu_details := [(''execution_budget'', PFloat (exec_budget p)),
          (''finalization_recovery_budget'', case finalization_budget p of None \<Rightarrow> PNone | Some x \<Rightarrow> PFloat x)]\<rparr>)) (\<lambda>x. ret ()))"

definition finalize_local :: "'w deps \<Rightarrow> string \<Rightarrow> profile \<Rightarrow> ('w core, run) op" where
  "finalize_local D i p =
     bnd (require_record i) (\<lambda>r.
     if terminal (r_status r) then ret r else
     bnd (note_exhausted D i p r) (\<lambda>u.
     bnd (elapsed_now D i) (\<lambda>before.
     let remaining = max_runtime p - before in
     if remaining \<le> 0 then cancel_for_policy D i p ''RUNTIME_LIMIT'' None False else
     bnd (attempt (poll D i (min 10 (max (1 / 100) (remaining - 20))))) (\<lambda>answer.
     bnd (case answer of
            Inr oc \<Rightarrow> ret oc
          | Inl e \<Rightarrow> if adapter_failure e then ret (plain_outcome RUNNING ''FINALIZATION_COLLECTION_FAILED'') else raise e) (\<lambda>oc.
     bnd (elapsed_now D i) (\<lambda>elapsed.
     bnd (set_runtime D i elapsed) (\<lambda>u.
     if max_runtime p \<le> elapsed then cancel_for_policy D i p ''RUNTIME_LIMIT'' None False
     else if terminal (oc_status oc) \<and> \<not> (oc_status oc = TIMEOUT \<and> oc_reason oc = ''OPENCLAW_TIMEOUT'')
       then apply_adapter_outcome D i oc
     else cancel_for_policy D i p ''RUNTIME_LIMIT'' None False)))))))"

text \<open>One round of the loop in \<open>wait\<close>: return a record, leave the loop with an outcome, or go round again.\<close>

datatype wait_verdict = Finish run | Leave adapter_outcome | Again

definition finish_op :: "('w core, run) op \<Rightarrow> ('w core, wait_verdict) op" where
  "finish_op m = bnd m (\<lambda>r. ret (Finish r))"

definition observe_wait :: "'w deps \<Rightarrow> string \<Rightarrow> rat \<Rightarrow> ('w core, adapter_outcome) op" where
  "observe_wait D i t =
     bnd (attempt (poll D i t)) (\<lambda>answer.
     case answer of
       Inr oc \<Rightarrow> ret oc
     | Inl e \<Rightarrow>
         if e = TimeoutError then
           bnd (note_policy D i (policy_event_note ''OBSERVATION_TIMEOUT'')) (\<lambda>x. ret (plain_outcome RUNNING ''OBSERVATION_TIMEOUT''))
         else if transport_failure e then
           bnd (note_policy D i (policy_event_note ''OBSERVATION_TRANSPORT_FAILURE'')) (\<lambda>x.
             ret (plain_outcome RUNNING ''OBSERVATION_TRANSPORT_FAILURE''))
         else if is_adapter_error e then ret (plain_outcome FAIL ''WAIT_REJECTED'')
         else raise e)"

definition open_status :: "status \<Rightarrow> bool" where
  "open_status s \<longleftrightarrow> s = RUNNING \<or> s = TIMEOUT"

definition judge_wait :: "'w deps \<Rightarrow> string \<Rightarrow> profile \<Rightarrow> bool \<Rightarrow> rat \<Rightarrow> rat \<Rightarrow> adapter_outcome \<Rightarrow> rat \<Rightarrow> ('w core, wait_verdict) op" where
  "judge_wait D i p managed before bounded oc elapsed =
     (let local = (runtime_class p = LOCAL) in
      if \<not> managed \<and> local \<and> exec_budget p \<le> elapsed \<and> open_status (oc_status oc) then finish_op (finalize_local D i p)
      else if \<not> managed \<and> max_runtime p \<le> elapsed \<and> open_status (oc_status oc)
        then finish_op (cancel_for_policy D i p ''RUNTIME_LIMIT'' None False)
      else if oc_status oc \<noteq> TIMEOUT then ret (Leave oc)
      else if managed \<and> oc_reason oc = ''OPENCLAW_TIMEOUT'' then finish_op (require_record i)
      else if \<not> local then finish_op (require_record i)
      else if oc_reason oc \<noteq> ''OPENCLAW_TIMEOUT'' then ret (Leave oc)
      else if elapsed - before < min 1 (bounded / 2) then finish_op (require_record i)
      else ret Again)"

definition bounded_wait :: "profile \<Rightarrow> bool \<Rightarrow> rat \<Rightarrow> rat \<Rightarrow> rat" where
  "bounded_wait p managed requested before =
     (let remaining = max_runtime p - before in
      if managed then requested
      else min requested (min remaining (if runtime_class p = LOCAL then exec_budget p - before else remaining)))"

definition guarded :: "'w deps \<Rightarrow> string \<Rightarrow> ('w core, bool) op" where
  "guarded D i = gets (\<lambda>s. stop_guard D (world s) i)"

definition wait_step :: "'w deps \<Rightarrow> string \<Rightarrow> profile \<Rightarrow> rat \<Rightarrow> ('w core, wait_verdict) op" where
  "wait_step D i p requested =
     bnd (require_record i) (\<lambda>r.
     bnd (runtime_seconds D r) (\<lambda>before.
     bnd (set_runtime D i before) (\<lambda>u.
     let managed = r_watchdog_managed r in
     if \<not> managed \<and> max_runtime p \<le> before then finish_op (cancel_for_policy D i p ''RUNTIME_LIMIT'' None False)
     else if \<not> managed \<and> runtime_class p = LOCAL \<and> exec_budget p \<le> before then finish_op (finalize_local D i p)
     else
       bnd (observe_wait D i (bounded_wait p managed requested before)) (\<lambda>oc.
       bnd (elapsed_now D i) (\<lambda>elapsed.
       bnd (set_runtime D i elapsed) (\<lambda>u.
       bnd (guarded D i) (\<lambda>stop.
       if stop then finish_op (require_record i)
       else judge_wait D i p managed before (bounded_wait p managed requested before) oc elapsed)))))))"

definition settle :: "'w deps \<Rightarrow> string \<Rightarrow> adapter_outcome \<Rightarrow> ('w core, run) op" where
  "settle D i oc =
     bnd (require_record i) (\<lambda>r.
     if terminal (r_status r) then ret r else
     bnd (guarded D i) (\<lambda>stop. if stop then ret r else apply_adapter_outcome D i oc))"

text \<open>The loop itself; \<open>None\<close> would be a loop that never ends.\<close>

partial_function (option) wait_loop :: "'w deps \<Rightarrow> string \<Rightarrow> profile \<Rightarrow> rat \<Rightarrow> 'w core \<Rightarrow> (run res \<times> 'w core) option" where
  "wait_loop D i p requested s =
     (case wait_step D i p requested s of (answer, s') \<Rightarrow>
        (case answer of
           Inl e \<Rightarrow> Some (Inl e, s')
         | Inr v \<Rightarrow> (case v of
             Finish r \<Rightarrow> Some (Inr r, s')
           | Leave oc \<Rightarrow> Some (settle D i oc s')
           | Again \<Rightarrow> wait_loop D i p requested s')))"

definition wait :: "'w deps \<Rightarrow> string \<Rightarrow> pyval \<Rightarrow> 'w core \<Rightarrow> (run res \<times> 'w core) option" where
  "wait D i timeout s =
     (case require_record i s of (answer, s') \<Rightarrow>
        (case answer of
           Inl e \<Rightarrow> Some (Inl e, s')
         | Inr r \<Rightarrow>
             if terminal (r_status r) then Some (Inr r, s')
             else (case as_num timeout of
                 None \<Rightarrow> Some (Inl (ValueError ''INVALID_TIMEOUT''), s')
               | Some t \<Rightarrow> if t \<le> 0 then Some (Inl (ValueError ''INVALID_TIMEOUT''), s')
                           else wait_loop D i (profile_for_record r) t s')))"

section \<open>Fresh contexts\<close>

definition quoted :: "string \<Rightarrow> string" where
  "quoted s = CHR 0x22 # s @ [CHR 0x22]"

definition execution_package :: "run \<Rightarrow> pyval" where
  "execution_package r =
     (let g = r_goal_contract r; v = r_progress r;
          open_conditions = sort (remdups (filter (\<lambda>c. \<not> List.member (vp_completed v) c) (completion_conditions g)))
      in PDict
       [(''goal_contract'', PDict (contract_dict g)), (''verified_progress'', PDict (progress_dict v)),
        (''needed_artifacts'', PDict [(''expected_result'', PStr (expected_result g)),
           (''instruction'', PStr ''Supply only artifacts actually produced for the original goal.'')]),
        (''needed_evidence'', PDict [(''completion_conditions'', str_list open_conditions),
           (''instruction'', PStr ''Supply only evidence actually established while executing the original goal.'')])])"

definition evidence_rule :: string where
  "evidence_rule =
     ''required non-empty array: one or more actual verifiable evidence objects, each with string fields '' @
     ''type and detail. For text-only work with no actions, use exactly an observed runtime fact such as '' @
     ''{'' @ quoted ''type'' @ '':'' @ quoted ''runtime_observation'' @ '','' @ quoted ''detail'' @ '':'' @
     quoted ''Structured assistant result returned successfully'' @ ''}. '' @
     ''Never claim a tool call, file read or write, memory operation, artifact, database action, Git action, '' @
     ''or deployment unless that action actually occurred in this run''"

definition result_field_contract :: pyval where
  "result_field_contract = PDict
     [(''status'', PStr (''required string: use completed only when the actual goal work completed; '' @
         ''otherwise use failed or blocked'')),
      (''summary'', PStr ''required non-empty string: concise actual outcome''),
      (''evidence'', PStr evidence_rule),
      (''artifacts'', PStr (''required array of outputs newly produced by this run: use [] when none exist; every item must be '' @
         ''an object with a string path. An existing path inspected by a read-only task is evidence, not an artifact'')),
      (''scope'', PDict [(''compliant'', PStr ''required boolean: true''), (''violations'', PStr ''required array: []'')]),
      (''progress_checkpoint'', PDict
        [(''goal_id'', PStr ''string: must equal goal_contract.goal_id''),
         (''current_step'', PStr ''string: actual current execution step code''),
         (''completed_conditions'', PStr ''array: only conditions actually verified''),
         (''remaining_conditions'', PStr ''array: conditions not yet verified''),
         (''blocking_reason'', PStr ''string: actual blocker code, or NONE when absent''),
         (''artifact_delta'', PStr ''array: newly verified artifact codes''),
         (''scope_delta'', PStr ''array: scopes actually used''),
         (''evidence_delta'', PStr ''array: newly verified evidence codes'')])]"

definition context_message :: "std \<Rightarrow> run \<Rightarrow> string" where
  "context_message S r =
     ''Execute the immutable original goal from this verified execution package: '' @
     jdump (float_repr S) True (execution_package r) @
     '' Do not replace the objective or extend its allowed scope. Perform the goal work before '' @
     ''reporting its outcome. The final assistant response must be exactly one raw JSON object. '' @
     ''Do not use Markdown code fences and do not add prose before or after the JSON object. '' @
     ''The top-level fields status, summary, evidence, artifacts, and scope are mandatory. '' @
     ''Use this output field contract; populate every value from the actual result and never claim a condition, '' @
     ''artifact, or evidence that was not verified: '' @
     jdump (float_repr S) True result_field_contract"

text \<open>The request for the child run of a fresh context.\<close>

definition child_request :: "std \<Rightarrow> run \<Rightarrow> profile \<Rightarrow> string \<Rightarrow> string \<Rightarrow> dispatch_request" where
  "child_request S r p child_id session =
     (let n = r_context_resets r + 1; budget = pm_max_runtime (r_policy r) in
      \<lparr>dq_agent = r_agent r, dq_message = PStr (context_message S r),
       dq_timeout = PFloat (min (if budget = 0 then max_runtime p else budget) (max_runtime p)),
       dq_run_id = Some child_id, dq_key = Some (r_idempotency r @ '':ctx:'' @ str_int n),
       dq_goal = PDict (contract_input (r_goal_contract r)), dq_session_key = Some session, dq_parent = Some (r_id r),
       dq_resets = n, dq_managed = False, dq_token = None, dq_action = ''dispatch'', dq_workspace = ''command-center'',
       dq_project = ''fast-gateway'', dq_task_class = task_class_value (pm_task_class (r_policy r)), dq_approved = PNone\<rparr>)"

text \<open>The reset limit is reached: escalate, abort the worker as well as possible, and block the run.\<close>

definition escalate_reset :: "'w deps \<Rightarrow> string \<Rightarrow> run \<Rightarrow> ('w core, run) op" where
  "escalate_reset D i r =
     bnd (note_goal D i (no_goal_update\<lparr>gu_event := Some ''ESCALATION_REQUIRED'', gu_status := Some ''DRIFT'',
       gu_escalation_reason := Some ''CONTEXT_RESET_FAILED'',
       gu_escalation_package := Some (escalation_package r ''CONTEXT_RESET_FAILED'')\<rparr>)) (\<lambda>x.
     bnd (attempt (ask_world (tp_cancel D i))) (\<lambda>answer.
     bnd (case answer of Inr b \<Rightarrow> ret (Some b) | Inl e \<Rightarrow> if adapter_failure e then ret None else raise e) (\<lambda>b.
     bnd (clear_deadline i) (\<lambda>u. move D i BLOCKED b None ''ESCALATION_REQUIRED''))))"

definition start_child :: "'w deps \<Rightarrow> string \<Rightarrow> run \<Rightarrow> profile \<Rightarrow> ('w core, run) op" where
  "start_child D i r p =
     bnd (on_world (new_uuid D)) (\<lambda>u1. bnd (on_world (new_uuid D)) (\<lambda>u2.
     let child_id = i @ ''-ctx-'' @ str_int (r_context_resets r + 1) @ ''-'' @ take 8 u1;
         session = ''agent:'' @ r_agent r @ '':fast-gateway-'' @ u2
     in bnd (if gs_completed (goal_state_of r) = Some True then ret None
             else bnd (ask_world (tp_cancel D i)) (\<lambda>b. ret (Some b))) (\<lambda>b.
        bnd (clear_deadline i) (\<lambda>u.
        bnd (move D i CANCELLED b None ''FRESH_CONTEXT_RESET'') (\<lambda>x.
        bnd (dispatch D (child_request (stdlib D) r p child_id session)) (\<lambda>child.
        note_goal D (r_id child) (no_goal_update\<lparr>gu_goal_state :=
          Some (empty_goal_state\<lparr>gs_drift_count := Some (or_zero (gs_drift_count (goal_state_of r)))\<rparr>)\<rparr>)))))))"

definition fresh_context :: "'w deps \<Rightarrow> string \<Rightarrow> ('w core, run) op" where
  "fresh_context D i =
     bnd (require_record i) (\<lambda>r.
     if terminal (r_status r) then raise (ValueError ''SOURCE_RUN_TERMINAL'')
     else if auth_required D \<or> broker_present D then raise (ValueError ''AUTH_REAUTHORIZATION_REQUIRED'')
     else (let p = profile_for_record r in
       if context_policy p \<noteq> ''FRESH_ON_LOOP'' \<and> context_policy p \<noteq> ''FRESH_ON_RETRY'' then raise (ValueError ''FRESH_CONTEXT_NOT_ALLOWED'')
       else if context_policy p = ''FRESH_ON_LOOP'' \<and> \<not> r_reinjection_ready r then raise (ValueError ''FRESH_CONTEXT_NOT_READY'')
       else if max_context_resets p \<le> r_context_resets r then escalate_reset D i r
       else start_child D i r p))"

section \<open>Runtime events and worker output\<close>

definition event_reason :: "std \<Rightarrow> pydict \<Rightarrow> pydict" where
  "event_reason S ev =
     (let raw = str_of S (por (dget ev ''reason_code'') (PStr []))
      in if raw = [] then [] else [(''reason_signature'', PStr (sha256 S raw))])"

definition observe_runtime_event :: "'w deps \<Rightarrow> string \<Rightarrow> pyval \<Rightarrow> ('w core, run) op" where
  "observe_runtime_event D i event =
     bnd (require_record i) (\<lambda>r.
     if terminal (r_status r) then ret r else
     (case as_dict event of
        None \<Rightarrow> raise (ValueError ''INVALID_RUNTIME_EVENT'')
      | Some ev \<Rightarrow>
          bnd (lift (evaluate_event (stdlib D) (profile_for_record r) (r_policy_state r) ev)) (\<lambda>d.
          let metric = (if dget ev ''kind'' = PStr ''tool_call'' \<and> dget ev ''observable'' = PBool True then Some ''SUPPORTED'' else None);
              event_code = (if dget ev ''kind'' = PStr ''retry'' \<and> dec_event_code d = None then Some ''RETRY_RECORDED'' else dec_event_code d)
          in bnd (note_policy D i (no_policy_update\<lparr>pu_retry_count := Some (dec_retry_count d),
                 pu_tool_count := (if metric = None then None else dec_tool_call_count d), pu_tool_metric := metric,
                 pu_state := Some (dec_state d), pu_event := event_code,
                 pu_details := (if event_code = None then [] else event_reason (stdlib D) ev),
                 pu_cancel_reason := (if dec_cancel_reason d = [] then None else Some (dec_cancel_reason d))\<rparr>)) (\<lambda>x.
             if dec_cancel_reason d \<noteq> [] then
               cancel_for_policy D i (profile_for_record r) (case event_code of None \<Rightarrow> ''LOOP_SUSPECTED'' | Some c \<Rightarrow> c)
                 (Some (dec_cancel_reason d)) True
             else require_record i))))"

definition spot :: "'w deps \<Rightarrow> run_scope \<Rightarrow> string \<Rightarrow> ('w core, loop_event option) op" where
  "spot D sc out =
     bnd (on_world (monotonic D)) (\<lambda>now s. case observe (stdlib D) default_config sc out now (spotter s) of
       (r, d) \<Rightarrow> (r, s\<lparr>spotter := d\<rparr>))"

definition loop_details :: "run_scope \<Rightarrow> loop_event \<Rightarrow> pydict" where
  "loop_details sc e =
     [(''core_run_id'', PStr (core_run sc)), (''openclaw_run_id'', PStr (openclaw_run sc)),
      (''sessionKey'', PStr (session_key sc)), (''agentId'', PStr (agent sc)),
      (''repeat_count'', PInt (int (le_repeat_count e))), (''unit_chars'', PInt (int (le_unit_chars e)))]"

definition bound_to :: "run \<Rightarrow> run_scope \<Rightarrow> bool" where
  "bound_to r sc =
     (case r_binding r of
        None \<Rightarrow> False
      | Some b \<Rightarrow> bd_openclaw_run b = openclaw_run sc \<and> bd_session_key b = session_key sc \<and> bd_agent b = agent sc)"

definition observe_local_run_output :: "'w deps \<Rightarrow> run_scope \<Rightarrow> string \<Rightarrow> ('w core, run) op" where
  "observe_local_run_output D sc out =
     bnd (require_record (core_run sc)) (\<lambda>r.
     if r_status r \<noteq> RUNNING then ret r
     else if pm_runtime_class (r_policy r) \<noteq> LOCAL then raise (ValueError ''LOOP_DETECTION_LOCAL_ONLY'')
     else if \<not> bound_to r sc then raise (ValueError ''RUN_CORRELATION_MISMATCH'')
     else
       bnd (lift (make_run_scope (PStr (core_run sc)) (PStr (openclaw_run sc)) (PStr (session_key sc)) (PStr (agent sc)))) (\<lambda>scope.
       bnd (spot D scope out) (\<lambda>event.
       bnd (case event of
              None \<Rightarrow> ret ()
            | Some e \<Rightarrow> bnd (note_policy D (core_run sc) ((policy_event_note ''LOOP_SUSPECTED'')
                \<lparr>pu_details := loop_details scope e, pu_status := Some (r_policy_status r)\<rparr>)) (\<lambda>x. ret ())) (\<lambda>u.
       require_record (core_run sc)))))"

text \<open>\<open>_observe_bound_output\<close>, the callback given to the adapter.\<close>

definition observe_bound_output :: "'w deps \<Rightarrow> run_binding \<Rightarrow> string \<Rightarrow> ('w core, unit) op" where
  "observe_bound_output D b out =
     bnd (reg (gets (get_run (bd_core_run b)))) (\<lambda>found.
     case found of
       None \<Rightarrow> ret ()
     | Some r \<Rightarrow>
         if r_status r \<noteq> RUNNING \<or> pm_runtime_class (r_policy r) \<noteq> LOCAL then ret ()
         else bnd (observe_local_run_output D \<lparr>core_run = bd_core_run b, openclaw_run = bd_openclaw_run b,
                session_key = bd_session_key b, agent = bd_agent b\<rparr> out) (\<lambda>x. ret ()))"

section \<open>Cancellation, reconciliation, deadlines\<close>

definition cancel :: "'w deps \<Rightarrow> string \<Rightarrow> ('w core, run) op" where
  "cancel D i =
     bnd (require_record i) (\<lambda>r.
     if r_status r = CANCELLED then ret r
     else if terminal (r_status r) then
       (if (r_status r = TIMEOUT \<or> r_status r = FAIL) \<and> r_binding r \<noteq> None then
          bnd (attempt (ask_world (tp_cancel D i))) (\<lambda>answer.
          case answer of
            Inr b \<Rightarrow> require_record i
          | Inl e \<Rightarrow> if adapter_failure e then require_record i else raise e)
        else raise (ValueError (''RUN_ALREADY_TERMINAL:'' @ status_value (r_status r))))
     else if r_status r = QUEUED then move D i CANCELLED None None ''CORE_CANCELLED''
     else bnd (ask_world (tp_cancel D i)) (\<lambda>b.
          bnd (clear_deadline i) (\<lambda>u. move D i CANCELLED (Some b) None ''OPENCLAW_ABORTED'')))"

definition mark_user_cancelled :: "'w deps \<Rightarrow> string \<Rightarrow> ('w core, run) op" where
  "mark_user_cancelled D i =
     bnd (require_record i) (\<lambda>r.
     if terminal (r_status r) then ret r
     else bnd (clear_deadline i) (\<lambda>u. move D i CANCELLED None None ''USER_CANCEL''))"

definition mark_user_cancelled_after_abort :: "'w deps \<Rightarrow> string \<Rightarrow> ('w core, run) op" where
  "mark_user_cancelled_after_abort D i =
     bnd (require_record i) (\<lambda>r.
     if r_status r = FAIL \<and> r_reason r = ''OPENCLAW_ERROR'' then
       bnd (clear_deadline i) (\<lambda>u. bnd (on_world (clock D)) (\<lambda>now. reg (reconcile_abort_observation i now)))
     else if \<not> terminal (r_status r) then
       bnd (clear_deadline i) (\<lambda>u. move D i CANCELLED None None ''USER_CANCEL'')
     else ret r)"

definition reconcile_external_completion :: "'w deps \<Rightarrow> string \<Rightarrow> ('w core, run) op" where
  "reconcile_external_completion D i =
     bnd (require_record i) (\<lambda>r.
     if terminal (r_status r) then ret r else
     bnd (attempt (poll D i (1 / 100))) (\<lambda>answer.
     case answer of
       Inl e \<Rightarrow> if adapter_failure e then require_record i else raise e
     | Inr oc \<Rightarrow>
         bnd (require_record i) (\<lambda>r2.
         if terminal (r_status r2) then ret r2
         else if \<not> terminal (oc_status oc) then ret r2
         else bnd (clear_deadline i) (\<lambda>u. move D i (oc_status oc) None (Some oc) (oc_reason oc)))))"

text \<open>\<open>_enforce_runtime_deadline\<close>, what an armed timer runs when it fires.\<close>

definition enforce_deadline :: "'w deps \<Rightarrow> string \<Rightarrow> ('w core, unit) op" where
  "enforce_deadline D i =
     bnd (reg (gets (get_run i))) (\<lambda>found.
     case found of
       None \<Rightarrow> clear_deadline i
     | Some r \<Rightarrow>
         if terminal (r_status r) then clear_deadline i
         else if r_watchdog_managed r then ret ()
         else (let p = profile_for_record r in
           if runtime_class p = LOCAL then
             bnd (set_runtime D i (exec_budget p)) (\<lambda>u. bnd (finalize_local D i p) (\<lambda>x. ret ()))
           else
             bnd (set_runtime D i (max_runtime p)) (\<lambda>u.
             bnd (cancel_for_policy D i p ''RUNTIME_LIMIT'' None False) (\<lambda>x. ret ()))))"

section \<open>Every engine operation extends the registry legally\<close>

definition core_grows :: "'w core \<Rightarrow> 'w core \<Rightarrow> bool" where
  "core_grows s t \<longleftrightarrow> grows (runs s) (runs t)"

interpretation engine: guarantee core_grows
  by unfold_locales (auto simp: core_grows_def intro: grows_refl grows_trans)

lemma on_world_guar: "guar core_grows (on_world f)"
  by (simp add: guar_def on_world_def core_grows_def grows_refl split: prod.split)

lemma ask_world_guar: "guar core_grows (ask_world f)"
  by (simp add: guar_def ask_world_def core_grows_def grows_refl split: prod.split)

lemma reg_guar: "guar grows m \<Longrightarrow> guar core_grows (reg m)"
  by (auto simp: guar_def reg_def core_grows_def split: prod.split) (metis snd_conv)

lemma modify_timers_guar: "guar core_grows (modify (\<lambda>s. s\<lparr>timers := f s\<rparr>))"
  by (simp add: guar_def core_grows_def grows_refl)

lemma require_record_guar: "guar core_grows (require_record i)"
  unfolding require_record_def require_run_def by (intro reg_guar registry_rules)

lemma move_guar: "guar core_grows (move D i s b oc why)"
  unfolding move_def by (intro engine.guar_bnd on_world_guar reg_guar transition_guar)

lemma note_policy_guar: "guar core_grows (note_policy D i u)"
  unfolding note_policy_def by (intro engine.guar_bnd on_world_guar reg_guar update_policy_guar)

lemma note_goal_guar: "guar core_grows (note_goal D i u)"
  unfolding note_goal_def by (intro engine.guar_bnd on_world_guar reg_guar update_goal_state_guar)

lemma clear_deadline_guar: "guar core_grows (clear_deadline i)"
  unfolding clear_deadline_def by (rule modify_timers_guar)

lemma get_run_guar: "guar core_grows (reg (gets f))"
  by (intro reg_guar registry.guar_gets)

lemmas engine_rules = engine.guar_bnd engine.guar_lift engine.guar_ret engine.guar_raise engine.guar_gets engine.guar_attempt
  engine.guar_if engine.guar_let engine.guar_option engine.guar_sum engine.guar_prod on_world_guar ask_world_guar
  require_record_guar move_guar note_policy_guar note_goal_guar clear_deadline_guar get_run_guar

lemma runtime_seconds_guar: "guar core_grows (runtime_seconds D r)"
  unfolding runtime_seconds_def by (intro engine_rules)

lemma schedule_deadline_guar: "guar core_grows (schedule_deadline i p b)"
  unfolding schedule_deadline_def by (intro engine_rules modify_timers_guar)

lemma authorize_run_guar: "guar core_grows (authorize_run D q i sc)"
  unfolding authorize_run_def by (intro engine_rules)

lemma submit_run_guar: "guar core_grows (submit_run D q i key a r)"
  unfolding submit_run_def by (intro engine_rules schedule_deadline_guar)

lemma dispatch_guar: "guar core_grows (dispatch D q)"
  unfolding dispatch_def authorize_and_submit_def create_record_def run_identity_def
  by (intro engine_rules authorize_run_guar submit_run_guar reg_guar create_run_guar)

lemma cancel_for_policy_guar: "guar core_grows (cancel_for_policy D i p event reason recorded)"
  unfolding cancel_for_policy_def by (intro engine_rules)

lemma observe_checkpoint_guar: "guar core_grows (observe_checkpoint D i v)"
  unfolding observe_checkpoint_def by (intro engine_rules cancel_for_policy_guar)

lemma finish_with_guar: "guar core_grows (finish_with D i oc)"
  unfolding finish_with_def by (intro engine_rules)

lemma apply_adapter_outcome_guar: "guar core_grows (apply_adapter_outcome D i oc)"
  unfolding apply_adapter_outcome_def abort_after_timeout_def apply_reported_checkpoint_def
  by (intro engine_rules finish_with_guar observe_checkpoint_guar)

lemma set_runtime_guar: "guar core_grows (set_runtime D i x)"
  unfolding set_runtime_def by (intro engine_rules)

lemma elapsed_now_guar: "guar core_grows (elapsed_now D i)"
  unfolding elapsed_now_def by (intro engine_rules runtime_seconds_guar)

text \<open>Other threads are engine operations too: they extend the registry legally.\<close>

definition others_grow :: "'w deps \<Rightarrow> bool" where
  "others_grow D \<longleftrightarrow> (\<forall>s. core_grows s (others D s))"

lemma poll_guar:
  assumes "others_grow D" shows "guar core_grows (poll D i t)"
proof (rule guarI)
  fix s
  have "core_grows s (snd (ask_world (tp_wait D i t) s))" by (rule guarD [OF ask_world_guar])
  moreover have "core_grows (snd (ask_world (tp_wait D i t) s)) (others D (snd (ask_world (tp_wait D i t) s)))"
    using assms by (simp add: others_grow_def)
  ultimately show "core_grows s (snd (poll D i t s))"
    by (auto simp: poll_def core_grows_def split: prod.split intro: grows_trans)
qed

lemma finalize_local_guar: "others_grow D \<Longrightarrow> guar core_grows (finalize_local D i p)"
  unfolding finalize_local_def note_exhausted_def
  by (intro engine_rules poll_guar cancel_for_policy_guar apply_adapter_outcome_guar set_runtime_guar elapsed_now_guar)

lemma observe_wait_guar: "others_grow D \<Longrightarrow> guar core_grows (observe_wait D i t)"
  unfolding observe_wait_def by (intro engine_rules poll_guar)

lemma finish_op_guar: "guar core_grows m \<Longrightarrow> guar core_grows (finish_op m)"
  unfolding finish_op_def by (intro engine_rules)

lemma judge_wait_guar: "others_grow D \<Longrightarrow> guar core_grows (judge_wait D i p managed before bounded oc elapsed)"
  unfolding judge_wait_def
  by (intro engine_rules finish_op_guar finalize_local_guar cancel_for_policy_guar)

lemma wait_step_guar: "others_grow D \<Longrightarrow> guar core_grows (wait_step D i p requested)"
  unfolding wait_step_def guarded_def
  by (intro engine_rules finish_op_guar finalize_local_guar cancel_for_policy_guar judge_wait_guar observe_wait_guar
      set_runtime_guar elapsed_now_guar runtime_seconds_guar)

lemma settle_guar: "guar core_grows (settle D i oc)"
  unfolding settle_def guarded_def by (intro engine_rules apply_adapter_outcome_guar)

lemma wait_loop_grows:
  "wait_loop D i p requested s = Some res \<Longrightarrow> others_grow D \<Longrightarrow> core_grows s (snd res)"
proof (induction rule: wait_loop.raw_induct [rotated, consumes 1])
  case (1 loop D i p requested s res)
  obtain answer s' where step: "wait_step D i p requested s = (answer, s')" by fastforce
  have s': "core_grows s s'" using guarD [OF wait_step_guar [OF "1.prems"], of s i p requested] step by simp
  have settled: "core_grows s' (snd (settle D i oc s'))" for oc by (rule guarD [OF settle_guar])
  have "core_grows s' (snd res)"
    using 1 settled engine.R_refl [of s']
    by (auto simp: step split: sum.splits wait_verdict.splits)
  then show ?case using s' engine.R_trans by blast
qed

lemma wait_grows:
  assumes "others_grow D" and "wait D i timeout s = Some res" shows "core_grows s (snd res)"
proof -
  obtain answer s' where req: "require_record i s = (answer, s')" by fastforce
  have s': "core_grows s s'" using guarD [OF require_record_guar, of s i] req by simp
  have "core_grows s' (snd res)"
    using assms(2) wait_loop_grows [OF _ assms(1)] engine.R_refl [of s']
    by (auto simp: wait_def req split: sum.splits if_splits option.splits)
  then show ?thesis using s' engine.R_trans by blast
qed

lemma fresh_context_guar: "guar core_grows (fresh_context D i)"
  unfolding fresh_context_def escalate_reset_def start_child_def by (intro engine_rules dispatch_guar)

lemma observe_runtime_event_guar: "guar core_grows (observe_runtime_event D i ev)"
  unfolding observe_runtime_event_def by (intro engine_rules cancel_for_policy_guar)

lemma spot_guar: "guar core_grows (spot D sc out)"
  unfolding spot_def
  by (intro engine.guar_bnd on_world_guar) (simp add: guar_def core_grows_def grows_refl split: prod.split)

lemma observe_local_run_output_guar: "guar core_grows (observe_local_run_output D sc out)"
  unfolding observe_local_run_output_def by (intro engine_rules spot_guar)

lemma observe_bound_output_guar: "guar core_grows (observe_bound_output D b out)"
  unfolding observe_bound_output_def by (intro engine_rules observe_local_run_output_guar)

lemma cancel_guar: "guar core_grows (cancel D i)"
  unfolding cancel_def by (intro engine_rules)

lemma mark_user_cancelled_guar: "guar core_grows (mark_user_cancelled D i)"
  unfolding mark_user_cancelled_def by (intro engine_rules)

lemma mark_after_abort_guar: "guar core_grows (mark_user_cancelled_after_abort D i)"
  unfolding mark_user_cancelled_after_abort_def by (intro engine_rules reg_guar reconcile_guar)

lemma reconcile_external_guar: "others_grow D \<Longrightarrow> guar core_grows (reconcile_external_completion D i)"
  unfolding reconcile_external_completion_def by (intro engine_rules poll_guar)

lemma enforce_deadline_guar: "others_grow D \<Longrightarrow> guar core_grows (enforce_deadline D i)"
  unfolding enforce_deadline_def by (intro engine_rules finalize_local_guar cancel_for_policy_guar set_runtime_guar)

end
