(* ===== verification/CoreSafety.thy ===== *)
theory CoreSafety
  imports CoreEngine
begin

text \<open>
  Properties of the Core engine: histories of engine calls, authorization before submission, the end of every wait,
  enforcement of the runtime limit and of goal drift, and the fidelity of fresh contexts.
\<close>

section \<open>Histories of the engine\<close>

datatype engine_call =
    DispatchCall dispatch_request
  | WaitCall string pyval
  | CheckpointCall string pyval
  | FreshContextCall string
  | EventCall string pyval
  | OutputCall run_scope string
  | BoundOutputCall run_binding string
  | CancelCall string
  | UserCancelCall string
  | UserCancelAfterAbortCall string
  | ReconcileCall string
  | DeadlineFires string

text \<open>The states a call can leave; a wait that never ended would leave none.\<close>

fun engine_step :: "'w deps \<Rightarrow> engine_call \<Rightarrow> 'w core \<Rightarrow> 'w core option" where
  "engine_step D (DispatchCall q) s = Some (snd (dispatch D q s))"
| "engine_step D (WaitCall i v) s = map_option snd (wait D i v s)"
| "engine_step D (CheckpointCall i v) s = Some (snd (observe_checkpoint D i v s))"
| "engine_step D (FreshContextCall i) s = Some (snd (fresh_context D i s))"
| "engine_step D (EventCall i v) s = Some (snd (observe_runtime_event D i v s))"
| "engine_step D (OutputCall sc out) s = Some (snd (observe_local_run_output D sc out s))"
| "engine_step D (BoundOutputCall b out) s = Some (snd (observe_bound_output D b out s))"
| "engine_step D (CancelCall i) s = Some (snd (cancel D i s))"
| "engine_step D (UserCancelCall i) s = Some (snd (mark_user_cancelled D i s))"
| "engine_step D (UserCancelAfterAbortCall i) s = Some (snd (mark_user_cancelled_after_abort D i s))"
| "engine_step D (ReconcileCall i) s = Some (snd (reconcile_external_completion D i s))"
| "engine_step D (DeadlineFires i) s = Some (snd (enforce_deadline D i s))"

inductive reaches :: "'w deps \<Rightarrow> 'w core \<Rightarrow> 'w core \<Rightarrow> bool" for D where
  reaches_here: "reaches D s s"
| reaches_call: "reaches D s t \<Longrightarrow> engine_step D c t = Some u \<Longrightarrow> reaches D s u"

inductive_cases reachesE: "reaches D s t"

lemma engine_step_grows:
  assumes "others_grow D" and "engine_step D c s = Some t" shows "core_grows s t"
proof -
  note g = dispatch_guar observe_checkpoint_guar fresh_context_guar observe_runtime_event_guar observe_local_run_output_guar
    observe_bound_output_guar cancel_guar mark_user_cancelled_guar mark_after_abort_guar
    reconcile_external_guar [OF assms(1)] enforce_deadline_guar [OF assms(1)]
  show ?thesis
    using assms(2) wait_grows [OF assms(1)] by (cases c) (auto intro: guarD [OF g(1)] guarD [OF g(2)] guarD [OF g(3)]
      guarD [OF g(4)] guarD [OF g(5)] guarD [OF g(6)] guarD [OF g(7)] guarD [OF g(8)] guarD [OF g(9)] guarD [OF g(10)] guarD [OF g(11)])
qed

lemma reaches_grows: "reaches D s t \<Longrightarrow> others_grow D \<Longrightarrow> core_grows s t"
  by (induction rule: reaches.induct) (auto intro: engine.R_refl engine.R_trans engine_step_grows)


section \<open>A concrete engine\<close>

text \<open>
  A world that is only a counter of microseconds; the transport accepts every run and reports a timeout until the
  counter passes two minutes.
\<close>

definition demo_binding :: "string \<Rightarrow> run_binding" where
  "demo_binding i = \<lparr>bd_core_run = i, bd_openclaw_run = ''oc'', bd_agent = ''qa'', bd_session_key = ''agent:qa:s'', bd_session_id = None\<rparr>"

definition demo :: "bool \<Rightarrow> int deps" where
  "demo brokered = \<lparr>stdlib = plain_std, agent_list = sample_agents, clock = (\<lambda>w. (of_int w / 1000000, w)),
     monotonic = (\<lambda>w. (of_int w / 1000000, w)), new_uuid = (\<lambda>w. (''0123456789'', w)),
     tp_submit = (\<lambda>i p w. (Inr (demo_binding i), w)),
     tp_wait = (\<lambda>i t w. (Inr (plain_outcome TIMEOUT ''OPENCLAW_TIMEOUT''), w + 1000000)),
     tp_cancel = (\<lambda>i w. (Inr (demo_binding i), w)), others = (\<lambda>s. s), stop_guard = (\<lambda>w i. False),
     broker_present = brokered, auth_required = brokered, authorizer_present = False, owns_run = (\<lambda>i. False),
     with_grant = (\<lambda>sc body w. body (sc, None) w),
     consume_grant = (\<lambda>token sc i w. (if token = Some ''tok'' then Inr () else Inl (auth_error ''AUTH_REQUIRED''), w))\<rparr>"

definition demo_start :: "int core" where
  "demo_start = \<lparr>runs = [], timers = (\<lambda>i. None), spotter = new_detector, world = 0\<rparr>"

definition demo_request :: "string option \<Rightarrow> dispatch_request" where
  "demo_request token = \<lparr>dq_agent = ''qa'', dq_message = PStr ''go'', dq_timeout = PInt 5, dq_run_id = Some ''run-1'', dq_key = None,
     dq_goal = PDict sample_contract, dq_session_key = None, dq_parent = None, dq_resets = 0, dq_managed = False, dq_token = token,
     dq_action = ''dispatch'', dq_workspace = ''w'', dq_project = ''p'', dq_task_class = ''QUICK'', dq_approved = PNone\<rparr>"

lemma demo_others: "others_grow (demo b)"
  by (simp add: others_grow_def demo_def core_grows_def grows_refl)


section \<open>Computing engine operations\<close>

lemma on_world_app: "on_world f s = (Inr (fst (f (world s))), s\<lparr>world := snd (f (world s))\<rparr>)"
  by (simp add: on_world_def split: prod.split)

lemma ask_world_app: "ask_world f s = (fst (f (world s)), s\<lparr>world := snd (f (world s))\<rparr>)"
  by (simp add: ask_world_def split: prod.split)

lemma require_record_app:
  "require_record i s = (case get_run i (runs s) of
     None \<Rightarrow> (Inl (ValueError (''UNKNOWN_CORE_RUN:'' @ i)), s) | Some r \<Rightarrow> (Inr r, s))"
  by (simp add: require_record_def reg_def require_run_def bnd_app split: option.split)

lemma require_record_Inr: "require_record i s = (Inr r, t) \<longleftrightarrow> t = s \<and> get_run i (runs s) = Some r"
  by (auto simp: require_record_app split: option.split)

lemma clear_deadline_app: "clear_deadline i s = (Inr (), s\<lparr>timers := (timers s)(i := None)\<rparr>)"
  by (simp add: clear_deadline_def)

lemma get_run_moved [simp]: "get_run i rs = Some r \<Longrightarrow> r_id (moved_run st b oc why now r) = i"
  using moved_run_keeps(1) [of r st b oc why now] get_run_Some [of i rs r] by (auto simp: same_identity_def)

text \<open>A legal move of a run, and what it leaves.\<close>

lemma move_legal:
  assumes "get_run i (runs s) = Some r" and "st \<in> set (successors (r_status r))"
  shows "move D i st b oc why s =
    (let now = fst (clock D (world s)); q = moved_run st b oc why now r
     in (Inr q, s\<lparr>world := snd (clock D (world s)), runs := runs s @ [q]\<rparr>))"
proof -
  have "st \<noteq> r_status r" using assms(2) by (cases "r_status r") (auto simp: terminal_states_def)
  with assms have "transition i st b oc why now (runs s) = (Inr (moved_run st b oc why now r), runs s @ [moved_run st b oc why now r])" for now
    by (simp add: transition_def require_run_bnd append_run_bnd Let_def)
  then show ?thesis by (simp add: move_def bnd_app on_world_app reg_def Let_def)
qed

lemma move_Inr:
  assumes "move D i st b oc why s = (Inr q, t)"
  shows "get_run i (runs t) = Some q \<and> r_status q = st"
proof -
  have "transition i st b oc why (fst (clock D (world s))) (runs s) = (Inr q, runs t)"
    using assms by (auto simp: move_def bnd_app on_world_app reg_def split: prod.splits)
  then have "\<exists>r rs. get_run i (runs s) = Some r \<and> (q = r \<and> runs t = runs s \<and> r_status r = st \<or>
      q = moved_run st b oc why (fst (clock D (world s))) r \<and> runs t = runs s @ [q])"
    by (auto simp: transition_def require_run_bnd append_run_bnd Let_def split: option.splits if_splits)
  then show ?thesis by (auto simp: moved_run_keeps)
qed

lemma finished_run: "terminal st \<Longrightarrow> why \<noteq> [] \<Longrightarrow> r_reason (moved_run st b oc why now r) = why"
  by (simp add: moved_run_def finish_run_def apply_outcome_def Let_def split: option.split)

lemma moved_binding: "b \<noteq> None \<Longrightarrow> r_binding (moved_run st b oc why now r) = b"
  by (auto simp: moved_run_def finish_run_def apply_outcome_def Let_def split: option.split)

section \<open>Authorization before submission\<close>

text \<open>The stages of a dispatch that creates its run.\<close>

definition new_dispatch :: "'w deps \<Rightarrow> dispatch_request \<Rightarrow> string \<Rightarrow> 'w core \<Rightarrow> admission \<Rightarrow> run \<Rightarrow> 'w core \<Rightarrow> bool" where
  "new_dispatch D q i s a r s1 \<longleftrightarrow>
     (\<exists>checked. check_dispatch D q = Inr checked \<and> admit D q i checked = Inr a) \<and>
     create_record D q i a s = (Inr (r, True), s1) \<and> get_run i (runs s1) = Some r \<and> r_status r = QUEUED"

lemma dispatch_new:
  assumes "dispatch D q s = (Inr r', t)" and "dq_run_id q = Some i" and "i \<noteq> []" and "get_run i (runs s) = None"
  shows "\<exists>a r s1. new_dispatch D q i s a r s1 \<and> authorize_and_submit D q i (dispatch_key q i) a r s1 = (Inr r', t)"
proof -
  from assms obtain checked a r created s1 where c: "check_dispatch D q = Inr checked" "admit D q i checked = Inr a"
    and cr: "create_record D q i a s = (Inr (r, created), s1)"
    and rest: "(if \<not> created \<and> r_status r \<noteq> QUEUED then ret r else authorize_and_submit D q i (dispatch_key q i) a r) s1 = (Inr r', t)"
    unfolding dispatch_def by (auto elim!: bnd_InrE simp: run_identity_def split: prod.split_asm)
  from cr assms(4) have "created \<and> get_run i (runs s1) = Some r \<and> r_status r = QUEUED"
    by (auto simp: create_record_def bnd_app on_world_app reg_def create_run_def append_run_def new_run_def Let_def get_by_idempotency_def get_run_None
        split: prod.split_asm option.split_asm if_split_asm dest: find_last_Some)
  with c cr rest show ?thesis unfolding new_dispatch_def by auto
qed

lemma submit_run_RUNNING:
  assumes "submit_run D q i key a r s = (Inr p, t)" and "r_status p = RUNNING"
    and "get_run i (runs s) = Some r0" and "r_status r0 = QUEUED"
  shows "\<exists>b w pl. tp_submit D i pl (world s) = (Inr b, w) \<and> sp_message pl = ad_message a \<and> sp_agent pl = dq_agent q \<and>
    sp_timeout pl = max_runtime (ad_profile a) \<and> r_binding p = Some b"
proof -
  let ?pl = "\<lparr>sp_message = ad_message a, sp_agent = dq_agent q, sp_key = key, sp_timeout = max_runtime (ad_profile a),
        sp_approved = r_approved_paths r, sp_session_key = dq_session_key q\<rparr>"
  obtain answer w where ans: "tp_submit D i ?pl (world s) = (answer, w)" by fastforce
  have no: "st = RUNNING" if "move D i st b' oc why s' = (Inr p, t)" for st b' oc why s'
    using move_Inr [OF that] assms(2) by simp
  show ?thesis
  proof (cases answer)
    case (Inl e)
    with assms(1) ans show ?thesis
      by (auto simp: submit_run_def bnd_app attempt_app ask_world_app split: if_split_asm dest: no)
  next
    case (Inr b)
    have legal: "RUNNING \<in> set (successors (r_status r0))" using assms(4) by simp
    have g: "get_run i (runs (s\<lparr>world := w\<rparr>)) = Some r0" using assms(3) by simp
    have "r_binding p = Some b"
      using assms(1) ans Inr move_legal [OF g legal, of D "Some b" None "[]"]
      by (auto simp: submit_run_def bnd_app attempt_app ask_world_app schedule_deadline_def Let_def moved_binding
          split: if_split_asm dest: no)
    with ans Inr show ?thesis by fastforce
  qed
qed

lemma authorize_run_runs: "authorize_run D q i sc s = (x, t) \<Longrightarrow> runs t = runs s"
  by (auto simp: authorize_run_def ask_world_app split: if_split_asm)

text \<open>C1: With an authorization broker in place, a newly dispatched run reaches the worker only with a granted
  authorization: a result that is RUNNING comes from a granted authorization for exactly this run, agent and message,
  followed by one submission whose binding it carries; and a refused authorization blocks the run with the code of
  the refusal without the transport being called at all.\<close>

theorem dispatch_requires_grant:
  assumes "broker_present D" and "dispatch D q s = (Inr p, t)" and "dq_run_id q = Some i" and "i \<noteq> []"
    and "get_run i (runs s) = None"
  shows "\<exists>a r s1 s2 granted. new_dispatch D q i s a r s1 \<and>
    authorize_run D q i (dispatch_scope D q i (dispatch_key q i) a) s1 = (granted, s2) \<and>
    (r_status p = RUNNING \<longrightarrow> granted = Inr () \<and>
       (\<exists>b w pl. tp_submit D i pl (world s2) = (Inr b, w) \<and> sp_message pl = ad_message a \<and> sp_agent pl = dq_agent q \<and>
          r_binding p = Some b)) \<and>
    (\<forall>c. granted = Inl (AuthBrokerError c) \<longrightarrow>
       r_status p = BLOCKED \<and> r_reason p = ''AUTH_'' @ c \<and> world t = snd (clock D (world s2)))"
proof -
  from dispatch_new [OF assms(2-5)] obtain a r s1 where new: "new_dispatch D q i s a r s1"
    and sub: "authorize_and_submit D q i (dispatch_key q i) a r s1 = (Inr p, t)" by blast
  obtain granted s2 where auth: "authorize_run D q i (dispatch_scope D q i (dispatch_key q i) a) s1 = (granted, s2)" by fastforce
  have run: "get_run i (runs s2) = Some r" "r_status r = QUEUED"
    using new authorize_run_runs [OF auth] by (auto simp: new_dispatch_def)
  show ?thesis
  proof (cases granted)
    case (Inr u)
    then have "submit_run D q i (dispatch_key q i) a r s2 = (Inr p, t)"
      using sub assms(1) auth by (simp add: authorize_and_submit_def bnd_app attempt_app)
    from submit_run_RUNNING [OF this _ run] new auth Inr show ?thesis by fastforce
  next
    case (Inl e)
    show ?thesis
    proof (cases "auth_code e")
      case None
      with sub assms(1) auth Inl show ?thesis by (simp add: authorize_and_submit_def bnd_app attempt_app)
    next
      case (Some c)
      then have e: "e = AuthBrokerError c" by (cases e) auto
      have legal: "BLOCKED \<in> set (successors (r_status r))" using run(2) by simp
      have "move D i BLOCKED None None (''AUTH_'' @ c) s2 = (Inr p, t)"
        using sub assms(1) auth Inl Some by (simp add: authorize_and_submit_def bnd_app attempt_app)
      then have "r_status p = BLOCKED \<and> r_reason p = ''AUTH_'' @ c \<and> world t = snd (clock D (world s2))"
        by (auto simp: move_legal [OF run(1) legal] Let_def moved_run_keeps finished_run)
      with new auth Inl e show ?thesis by force
    qed
  qed
qed

lemmas demo_simps = demo_def demo_start_def demo_request_def

lemma dispatch_create:
  assumes "check_dispatch D q = Inr checked" and "admit D q i checked = Inr a" and "dq_run_id q = Some i" and "i \<noteq> []"
    and "get_run i (runs s) = None" and "get_by_idempotency (dispatch_key q i) (runs s) = None"
  shows "\<exists>r s1. get_run i (runs s1) = Some r \<and> r_status r = QUEUED \<and> world s1 = snd (clock D (world s)) \<and>
    dispatch D q s = authorize_and_submit D q i (dispatch_key q i) a r s1"
proof -
  define r where "r = new_run i (dq_agent q) (dispatch_key q i) (ad_hash a) (policy_metadata (ad_profile a)) (ad_contract a)
    (dq_parent q) (dq_resets q) (ad_approved a) (dq_managed q) (fst (clock D (world s)))"
  have "create_record D q i a s = (Inr (r, True), s\<lparr>world := snd (clock D (world s)), runs := runs s @ [r]\<rparr>)"
    using assms(5,6) by (simp add: create_record_def bnd_app on_world_app reg_def create_run_def append_run_def Let_def r_def)
  then have "dispatch D q s = authorize_and_submit D q i (dispatch_key q i) a r (s\<lparr>world := snd (clock D (world s)), runs := runs s @ [r]\<rparr>)"
    using assms(1-4) by (simp add: dispatch_def bnd_app run_identity_def)
  moreover have "r_id r = i" "r_status r = QUEUED" by (simp_all add: r_def new_run_def)
  ultimately show ?thesis
    by (intro exI [of _ r] exI [of _ "s\<lparr>world := snd (clock D (world s)), runs := runs s @ [r]\<rparr>"]) simp
qed

lemma demo_sel [simp]:
  "stdlib (demo b) = plain_std" "agent_list (demo b) = sample_agents" "clock (demo b) w = (of_int w / 1000000, w)"
  "tp_submit (demo b) i pl w = (Inr (demo_binding i), w)"
  "tp_wait (demo b) i x w = (Inr (plain_outcome TIMEOUT ''OPENCLAW_TIMEOUT''), w + 1000000)"
  "tp_cancel (demo b) i w = (Inr (demo_binding i), w)" "others (demo b) s = s" "stop_guard (demo b) w i = False"
  "broker_present (demo b) = b" "auth_required (demo b) = b" "authorizer_present (demo b) = False" "owns_run (demo b) i = False"
  "consume_grant (demo b) token sc i w = (if token = Some ''tok'' then Inr () else Inl (AuthBrokerError ''AUTH_REQUIRED''), w)"
  by (simp_all add: demo_def auth_error_def error_codes_def)

lemma demo_request_sel [simp]:
  "dq_token (demo_request token) = token" "dq_session_key (demo_request token) = None" "dq_run_id (demo_request token) = Some ''run-1''"
  "dq_managed (demo_request token) = False" "dq_agent (demo_request token) = ''qa''" "dispatch_key (demo_request token) ''run-1'' = ''run-1''"
  by (simp_all add: demo_request_def dispatch_key_def)

lemma demo_admits:
  "\<exists>checked a. check_dispatch (demo b) (demo_request token) = Inr checked \<and> admit (demo b) (demo_request token) ''run-1'' checked = Inr a"
proof -
  have "require_agent sample_agents ''qa'' = Inr (snd (hd sample_agents))" by (simp add: require_agent_def find_agent_def sample_agents_def)
  moreover have "\<not> blank ''go''" by (simp add: blank_def strip_def lstrip_def char_class_defs)
  ultimately show ?thesis
    by (simp add: check_dispatch_def demo_simps normalize_approved_paths_def admit_def sample_goal_normal dispatch_profile_def
        task_runtime_profile_def task_class_of_def del: demo_sel)
qed

lemma demo_dispatch:
  "\<exists>a r s1. get_run ''run-1'' (runs s1) = Some r \<and> r_status r = QUEUED \<and>
     dispatch (demo b) (demo_request token) demo_start = authorize_and_submit (demo b) (demo_request token) ''run-1'' ''run-1'' a r s1"
proof -
  obtain checked a where "check_dispatch (demo b) (demo_request token) = Inr checked"
    "admit (demo b) (demo_request token) ''run-1'' checked = Inr a" using demo_admits by blast
  from dispatch_create [OF this, of demo_start] show ?thesis
    by (auto simp: demo_request_def demo_start_def get_run_def get_by_idempotency_def dispatch_key_def)
qed

lemma demo_dispatch_denied:
  "\<exists>p t. dispatch (demo True) (demo_request None) demo_start = (Inr p, t)"
proof -
  obtain a r s1 where r: "get_run ''run-1'' (runs s1) = Some r" "r_status r = QUEUED"
    and d: "dispatch (demo True) (demo_request None) demo_start = authorize_and_submit (demo True) (demo_request None) ''run-1'' ''run-1'' a r s1"
    using demo_dispatch by blast
  have "BLOCKED \<in> set (successors (r_status r))" using r(2) by simp
  from move_legal [OF r(1) this] show ?thesis
    by (simp add: d authorize_and_submit_def bnd_app attempt_app authorize_run_def ask_world_app Let_def)
qed

theorem dispatch_requires_grant_witness:
  "\<exists>p t. dispatch (demo True) (demo_request None) demo_start = (Inr p, t) \<and> r_status p = BLOCKED \<and>
     r_reason p = ''AUTH_AUTH_REQUIRED''"
proof -
  obtain p t where d: "dispatch (demo True) (demo_request None) demo_start = (Inr p, t)" using demo_dispatch_denied by blast
  have "broker_present (demo True)" "dq_run_id (demo_request None) = Some ''run-1''" "get_run ''run-1'' (runs demo_start) = None"
    by (simp_all add: demo_start_def get_run_def)
  from dispatch_requires_grant [OF this(1) d this(2) _ this(3)] obtain a s1 s2 granted where
    auth: "authorize_run (demo True) (demo_request None) ''run-1'' (dispatch_scope (demo True) (demo_request None) ''run-1''
      (dispatch_key (demo_request None) ''run-1'') a) s1 = (granted, s2)"
    and rest: "\<forall>c. granted = Inl (AuthBrokerError c) \<longrightarrow> r_status p = BLOCKED \<and> r_reason p = ''AUTH_'' @ c \<and>
      world t = snd (clock (demo True) (world s2))" by auto
  from auth have "granted = Inl (AuthBrokerError ''AUTH_REQUIRED'')"
    by (auto simp: authorize_run_def ask_world_app)
  with rest d show ?thesis by simp
qed

section \<open>Every wait ends\<close>

text \<open>
  The clock the engine reads counts microseconds and never goes back, neither when it is read nor while the transport
  or another thread is at work.
\<close>

definition steady :: "'w deps \<Rightarrow> ('w \<Rightarrow> int) \<Rightarrow> bool" where
  "steady D micros \<longleftrightarrow>
     (\<forall>w. fst (clock D w) = of_int (micros w) / 1000000 \<and> micros w \<le> micros (snd (clock D w))) \<and>
     (\<forall>i t w. micros w \<le> micros (snd (tp_wait D i t w))) \<and> (\<forall>s. micros (world s) \<le> micros (world (others D s)))"

text \<open>A guarantee for the part of a round that leads back into the loop: legal growth in forward time.\<close>

definition onward :: "('w \<Rightarrow> int) \<Rightarrow> 'w core \<Rightarrow> 'w core \<Rightarrow> bool" where
  "onward micros s t \<longleftrightarrow> core_grows s t \<and> micros (world s) \<le> micros (world t)"

interpretation onward: guarantee "onward micros" for micros
  by unfold_locales (auto simp: onward_def intro: engine.R_refl engine.R_trans)

lemma clock_onward: "steady D micros \<Longrightarrow> guar (onward micros) (on_world (clock D))"
  by (simp add: guar_def onward_def on_world_app core_grows_def grows_refl steady_def)

lemma reg_onward: "guar grows m \<Longrightarrow> guar (onward micros) (reg m)"
  by (auto simp: guar_def onward_def reg_def core_grows_def split: prod.split) (metis snd_conv)

lemma note_policy_onward: "steady D micros \<Longrightarrow> guar (onward micros) (note_policy D i u)"
  unfolding note_policy_def by (intro onward.guar_bnd clock_onward reg_onward update_policy_guar)

lemma set_runtime_onward: "steady D micros \<Longrightarrow> guar (onward micros) (set_runtime D i x)"
  unfolding set_runtime_def by (intro onward.guar_bnd onward.guar_ret note_policy_onward)

lemma poll_onward:
  assumes "steady D micros" and "others_grow D" shows "guar (onward micros) (poll D i x)"
proof (rule guarI)
  fix s
  let ?t = "snd (ask_world (tp_wait D i x) s)"
  have "onward micros s ?t"
    using assms(1) by (simp add: onward_def ask_world_app core_grows_def grows_refl steady_def)
  moreover have "onward micros ?t (others D ?t)"
    using assms by (simp add: onward_def others_grow_def steady_def)
  ultimately have "onward micros s (others D ?t)" by (rule onward.R_trans)
  then show "onward micros s (snd (poll D i x s))" by (cases "ask_world (tp_wait D i x) s") (simp add: poll_def)
qed

lemma observe_wait_onward: "steady D micros \<Longrightarrow> others_grow D \<Longrightarrow> guar (onward micros) (observe_wait D i x)"
  unfolding observe_wait_def
  by (intro onward.guar_bnd onward.guar_attempt onward.guar_sum onward.guar_if onward.guar_ret onward.guar_raise poll_onward note_policy_onward)

lemma runtime_seconds_Inr:
  assumes "steady D micros" and "runtime_seconds D r s = (Inr x, t)"
  shows "onward micros s t \<and> x = (case r_started r of None \<Rightarrow> 0 | Some u \<Rightarrow> max 0 (of_int (micros (world s)) / 1000000 - u))"
proof -
  have c: "fst (clock D w) = of_int (micros w) / 1000000" "micros w \<le> micros (snd (clock D w))" for w
    using assms(1) by (simp_all only: steady_def)
  from assms(2) show ?thesis
    by (auto simp: runtime_seconds_def bnd_app on_world_app onward_def core_grows_def grows_refl c split: option.splits)
qed

lemma judge_wait_Again:
  "judge_wait D i p managed before bounded oc elapsed s = (Inr Again, t) \<Longrightarrow>
     t = s \<and> \<not> managed \<and> runtime_class p = LOCAL \<and> elapsed < exec_budget p \<and> min 1 (bounded / 2) \<le> elapsed - before"
  by (auto simp: judge_wait_def Let_def finish_op_def open_status_def elim!: bnd_InrE split: if_split_asm)

text \<open>What is known when a round ends with \<open>Again\<close>: the two readings of the run time and the states between.\<close>

lemma wait_step_Again:
  assumes "steady D micros" and "others_grow D" and "0 < requested" and "wait_step D i p requested s = (Inr Again, t)"
  shows "\<exists>r s1 r2 s2. get_run i (runs s) = Some r \<and> get_run i (runs s2) = Some r2 \<and> onward micros s s1 \<and>
    onward micros s1 s2 \<and> onward micros s2 t \<and>
    (let before = (case r_started r of None \<Rightarrow> 0 | Some u \<Rightarrow> max 0 (of_int (micros (world s)) / 1000000 - u));
         elapsed = (case r_started r2 of None \<Rightarrow> 0 | Some u \<Rightarrow> max 0 (of_int (micros (world s2)) / 1000000 - u))
     in before < elapsed \<and> elapsed < exec_budget p)"
proof -
  from assms(4) obtain r before s0 s1 oc s2' r2 elapsed s3 s4 where r: "get_run i (runs s) = Some r"
    and b: "runtime_seconds D r s = (Inr before, s0)" and n1: "set_runtime D i before s0 = (Inr (), s1)"
    and early: "\<not> (\<not> r_watchdog_managed r \<and> max_runtime p \<le> before)"
      "\<not> (\<not> r_watchdog_managed r \<and> runtime_class p = LOCAL \<and> exec_budget p \<le> before)"
    and w: "observe_wait D i (bounded_wait p (r_watchdog_managed r) requested before) s1 = (Inr oc, s2')"
    and r2: "get_run i (runs s2') = Some r2" and e: "runtime_seconds D r2 s2' = (Inr elapsed, s3)"
    and n2: "set_runtime D i elapsed s3 = (Inr (), s4)"
    and j: "judge_wait D i p (r_watchdog_managed r) before (bounded_wait p (r_watchdog_managed r) requested before) oc elapsed s4 = (Inr Again, t)"
    unfolding wait_step_def
    by (auto elim!: bnd_InrE simp: Let_def require_record_Inr elapsed_now_def finish_op_def guarded_def split: if_split_asm)
  note jd = judge_wait_Again [OF j]
  have bounded: "0 < bounded_wait p (r_watchdog_managed r) requested before"
    using assms(3) early jd by (auto simp: bounded_wait_def Let_def)
  have o1: "onward micros s s1"
    using runtime_seconds_Inr [OF assms(1) b] guarD [OF set_runtime_onward [OF assms(1)], of s0 i before] n1 onward.R_trans by fastforce
  have o2: "onward micros s1 s2'" using guarD [OF observe_wait_onward [OF assms(1,2)], of s1 i] w by (metis snd_conv)
  have o3: "onward micros s2' t"
    using runtime_seconds_Inr [OF assms(1) e] guarD [OF set_runtime_onward [OF assms(1)], of s3 i elapsed] n2 jd onward.R_trans by fastforce
  have "0 < min 1 (bounded_wait p (r_watchdog_managed r) requested before / 2)" using bounded by simp
  with jd have "before < elapsed" by linarith
  with r r2 o1 o2 o3 jd runtime_seconds_Inr [OF assms(1) b] runtime_seconds_Inr [OF assms(1) e] show ?thesis
    by (simp add: Let_def) blast
qed

lemma onward_run:
  assumes "onward micros s t" and "get_run i (runs s) = Some r"
  shows "\<exists>q. get_run i (runs t) = Some q \<and> same_identity r q \<and> outlives r q"
  using assms grows_get_run unfolding onward_def core_grows_def by blast

lemma wait_loop_started:
  assumes "steady D micros" and "others_grow D" and "0 < requested"
  shows "get_run i (runs s) = Some r \<Longrightarrow> r_started r = Some u \<Longrightarrow> r_status r \<noteq> QUEUED \<Longrightarrow>
    \<exists>res. wait_loop D i p requested s = Some res"
proof (induction "nat (\<lfloor>(u + exec_budget p) * 1000000\<rfloor> + 1 - micros (world s))" arbitrary: s r rule: less_induct)
  case less
  let ?bound = "\<lfloor>(u + exec_budget p) * 1000000\<rfloor> + 1"
  obtain answer t where step: "wait_step D i p requested s = (answer, t)" by fastforce
  show ?case
  proof (cases "answer = Inr Again")
    case False
    then show ?thesis by (subst wait_loop.simps) (auto simp: step split: sum.split wait_verdict.split)
  next
    case True
    from wait_step_Again [OF assms step [unfolded True]] less.prems(1) obtain s1 r2 s2 where
      r2: "get_run i (runs s2) = Some r2" and on: "onward micros s s1" "onward micros s1 s2" "onward micros s2 t"
      and bounds: "max 0 (of_int (micros (world s)) / 1000000 - u) <
          (case r_started r2 of None \<Rightarrow> 0 | Some u \<Rightarrow> max 0 (of_int (micros (world s2)) / 1000000 - u))"
        "(case r_started r2 of None \<Rightarrow> 0 | Some u \<Rightarrow> max 0 (of_int (micros (world s2)) / 1000000 - u)) < exec_budget p"
      by (auto simp: Let_def less.prems(2))
    have "r_started r2 = Some u"
      using onward_run [OF onward.R_trans [OF on(1,2)] less.prems(1)] r2 less.prems(2,3) by (auto simp: outlives_def)
    with bounds have lt: "of_int (micros (world s)) < (of_int (micros (world s2)) :: rat)"
      and ub: "of_int (micros (world s2)) < (u + exec_budget p) * 1000000"
      by (auto simp: max_def field_simps split: if_splits)
    from ub have "micros (world s2) < ?bound" by linarith
    moreover from lt have "micros (world s) < micros (world s2)" by simp
    moreover have "micros (world s2) \<le> micros (world t)" using on(3) by (simp add: onward_def)
    ultimately have smaller: "nat (?bound - micros (world t)) < nat (?bound - micros (world s))" by linarith
    obtain q where q: "get_run i (runs t) = Some q" "r_started q = Some u" "r_status q \<noteq> QUEUED"
      using onward_run [OF onward.R_trans [OF onward.R_trans [OF on(1,2)] on(3)] less.prems(1)] less.prems(2,3)
      by (auto simp: outlives_def)
    from less.hyps [OF smaller q] True show ?thesis by (subst wait_loop.simps) (simp add: step)
  qed
qed

lemma queued_not_started: "grows rs qs \<Longrightarrow> rs = [] \<Longrightarrow> r \<in> set qs \<Longrightarrow> r_status r = QUEUED \<Longrightarrow> r_started r = None"
proof (induction arbitrary: r rule: grows.induct)
  case (grows_next rs qs p q)
  then show ?case by (auto simp: status_step_def dest: successors_cases get_run_Some)
qed (auto simp: fresh_run_def)

lemma wait_loop_total:
  assumes "steady D micros" and "others_grow D" and "0 < requested" and "log_ok (runs s)" and "get_run i (runs s) = Some r"
  shows "\<exists>res. wait_loop D i p requested s = Some res"
proof (cases "r_started r")
  case (Some u)
  then have "r_status r \<noteq> QUEUED" using queued_not_started [OF assms(4) refl] get_run_Some [OF assms(5)] by auto
  with wait_loop_started [OF assms(1-3,5) Some] show ?thesis by blast
next
  case None
  obtain answer t where step: "wait_step D i p requested s = (answer, t)" by fastforce
  show ?thesis
  proof (cases "answer = Inr Again")
    case False
    then show ?thesis by (subst wait_loop.simps) (auto simp: step split: sum.split wait_verdict.split)
  next
    case True
    from wait_step_Again [OF assms(1-3) step [unfolded True]] assms(5) None obtain s1 r2 s2 u where
      r2: "get_run i (runs s2) = Some r2" "r_started r2 = Some u" and on: "onward micros s s1" "onward micros s1 s2" "onward micros s2 t"
      by (auto simp: Let_def split: option.splits)
    have "log_ok (runs s2)"
      using onward.R_trans [OF on(1,2)] grows_trans [OF _ assms(4)] by (simp add: onward_def core_grows_def)
    then have "r_status r2 \<noteq> QUEUED" using queued_not_started [OF _ refl] get_run_Some [OF r2(1)] r2(2) by fastforce
    with onward_run [OF on(3) r2(1)] r2(2) obtain q where "get_run i (runs t) = Some q" "r_started q = Some u" "r_status q \<noteq> QUEUED"
      by (auto simp: outlives_def)
    from wait_loop_started [OF assms(1-3) this] True show ?thesis by (subst wait_loop.simps) (simp add: step)
  qed
qed

text \<open>C4: Every \<open>wait\<close> returns: whatever the transport answers and whatever other threads do to the registry by legal
  operations, on a clock of microseconds that never goes back the wait loop ends, with a record or an error. The
  progress test of the loop and the execution budget bound its rounds.\<close>

theorem wait_always_returns:
  assumes "steady D micros" and "others_grow D" and "log_ok (runs s)"
  shows "\<exists>answer t. wait D i timeout s = Some (answer, t)"
proof (cases "get_run i (runs s)")
  case None
  then show ?thesis by (simp add: wait_def require_record_app)
next
  case (Some r)
  from wait_loop_total [OF assms(1,2) _ assms(3) Some] show ?thesis
    by (auto simp: wait_def require_record_app Some split: option.split)
qed

lemma demo_steady: "steady (demo b) (\<lambda>w. w)"
  by (simp add: steady_def)

definition demo_running :: "int core" where
  "demo_running = demo_start\<lparr>runs := fold registry_step
     [CreateRun ''run-1'' ''qa'' ''run-1'' ''h'' (policy_metadata (task_profile QUICK)) sample_goal None 0 [] False 0,
      MoveRun ''run-1'' RUNNING (Some (demo_binding ''run-1'')) None [] 0] []\<rparr>"

lemma runs_replaced: "runs (s\<lparr>runs := rs\<rparr>) = rs"
  by simp

lemma demo_running_log: "log_ok (runs demo_running)"
  unfolding demo_running_def runs_replaced by (rule registry_steps_grow)

theorem wait_always_returns_witness: "\<exists>answer t. wait (demo False) ''run-1'' (PInt 5) demo_running = Some (answer, t)"
  by (rule wait_always_returns [OF demo_steady demo_others demo_running_log])

end
