(* ===== verification/CoreLimits.thy ===== *)
theory CoreLimits
  imports CoreSafety
begin

text \<open>
  How the Core engine enforces the limits of a run: the functional behaviour of its registry notes and of
  \<open>cancel_for_policy\<close>, the runtime limit in \<open>wait\<close>, the armed deadline, repeated goal drift, verified progress
  and the request of a fresh context.
\<close>

section \<open>Notes on a run\<close>

text \<open>What notes never touch: identity, stage and verified progress.\<close>

definition kept :: "run \<Rightarrow> run \<Rightarrow> bool" where
  "kept r q \<longleftrightarrow> same_stage r q \<and> r_progress q = r_progress r \<and> r_binding q = r_binding r"

lemma kept_refl: "kept r r"
  by (simp add: kept_def same_stage_refl)

lemma kept_same: "kept r q \<Longrightarrow> same_identity r q \<and> r_status q = r_status r \<and> r_started q = r_started r \<and> r_progress q = r_progress r"
  by (simp add: kept_def same_stage_def)

lemma same_stage_trans: "same_stage r q \<Longrightarrow> same_stage q p \<Longrightarrow> same_stage r p"
  unfolding same_stage_def using same_identity_trans by auto

lemma kept_trans: "kept r q \<Longrightarrow> kept q p \<Longrightarrow> kept r p"
  unfolding kept_def using same_stage_trans by auto

lemma apply_some_keeps: "(\<And>y x. g (f y x) = g x) \<Longrightarrow> g (apply_some f v x) = g x"
  by (cases v) (simp_all add: apply_some_def)

lemma apply_policy_update_progress:
  "r_progress (apply_policy_update u t now r) = r_progress r" "r_binding (apply_policy_update u t now r) = r_binding r"
  unfolding apply_policy_update_def Let_def
  by (simp_all add: apply_some_keeps add_event_def split: option.split)

lemma apply_goal_update_binding: "r_binding (apply_goal_update u t now r) = r_binding r"
  unfolding apply_goal_update_def Let_def by (simp add: apply_some_keeps add_event_def)

lemma apply_goal_update_progress:
  "r_progress (apply_goal_update u t now r) = (case gu_progress u of None \<Rightarrow> r_progress r | Some p \<Rightarrow> p)"
  unfolding apply_goal_update_def Let_def
  by (simp add: apply_some_keeps add_event_def) (simp add: apply_some_def apply_some_keeps split: option.split)

lemma note_policy_ok:
  assumes "get_run i (runs s) = Some r" and "check_policy_update u r = Inr ()"
  shows "\<exists>q t p. note_policy D i u s = (Inr q, t) \<and> get_run i (runs t) = Some p \<and> kept r p \<and> timers t = timers s"
proof -
  let ?w1 = "snd (clock D (world s))"
  let ?q = "apply_policy_update u (fst (clock D (world s))) (fst (clock D ?w1)) r"
  let ?s = "s\<lparr>world := snd (clock D ?w1)\<rparr>"
  have k: "kept r ?q" using apply_policy_update_stage apply_policy_update_progress by (simp add: kept_def)
  then have i: "r_id ?q = i" using get_run_Some [OF assms(1)] by (auto dest!: kept_same simp: same_identity_def)
  have "update_policy i u (fst (clock D (world s))) (fst (clock D ?w1)) (runs s) =
      (Inr ?q, if ?q\<lparr>r_updated := r_updated r\<rparr> = r then runs s else runs s @ [?q])"
    using assms by (simp add: update_policy_def require_run_bnd bnd_app [of "lift x" for x] append_run_bnd Let_def)
  then have "note_policy D i u s = (Inr ?q, if ?q\<lparr>r_updated := r_updated r\<rparr> = r then ?s else ?s\<lparr>runs := runs s @ [?q]\<rparr>)"
    by (simp add: note_policy_def bnd_app on_world_app reg_def)
  then show ?thesis using i k assms(1) kept_refl [of r] by auto
qed

lemma note_goal_ok:
  assumes "get_run i (runs s) = Some r" and "\<And>x. gu_status u = Some x \<Longrightarrow> List.member goal_statuses x"
  shows "\<exists>t a b. note_goal D i u s = (Inr (apply_goal_update u a b r), t) \<and>
    get_run i (runs t) = Some (apply_goal_update u a b r) \<and> timers t = timers s"
proof -
  let ?w1 = "snd (clock D (world s))"
  let ?q = "apply_goal_update u (fst (clock D (world s))) (fst (clock D ?w1)) r"
  have k: "same_stage r ?q" by (rule apply_goal_update_stage)
  then have c: "r_goal_contract ?q = r_goal_contract r" and "r_id ?q = r_id r"
    by (auto simp: same_stage_def same_identity_def)
  then have i: "r_id ?q = i" using get_run_Some [OF assms(1)] by simp
  have "update_goal_state i u (fst (clock D (world s))) (fst (clock D ?w1)) (runs s) = (Inr ?q, runs s @ [?q])"
    using assms c by (simp add: update_goal_state_def require_run_bnd append_run_bnd Let_def split: option.split)
  then have "note_goal D i u s = (Inr ?q, s\<lparr>world := snd (clock D ?w1), runs := runs s @ [?q]\<rparr>)"
    by (simp add: note_goal_def bnd_app on_world_app reg_def)
  with i show ?thesis by fastforce
qed

lemma goal_statuses_known: "List.member goal_statuses ''NORMAL''" "List.member goal_statuses ''GUARDED''"
  "List.member goal_statuses ''DRIFT''"
  by (simp_all add: goal_statuses_def)

lemma check_plain_update:
  "pu_tool_metric u = None \<Longrightarrow> pu_tool_count u = None \<Longrightarrow> check_policy_update u r = Inr ()"
  by (simp add: check_policy_update_def)

lemma move_ok:
  assumes "get_run i (runs s) = Some r" and "\<not> terminal (r_status r)" and "terminal st" and "st \<noteq> PASS" and "st \<noteq> TIMEOUT"
  shows "\<exists>t now. move D i st b oc why s = (Inr (moved_run st b oc why now r), t) \<and>
    get_run i (runs t) = Some (moved_run st b oc why now r) \<and> timers t = timers s"
proof -
  have "st \<in> set (successors (r_status r))"
    using assms(2-5) by (cases "r_status r"; cases st) (simp_all add: terminal_states_def)
  from move_legal [OF assms(1) this] assms(1) show ?thesis by (simp add: Let_def) blast
qed

section \<open>Policy cancellation\<close>

text \<open>What the transport protocol promises of an abort: a binding, or one of the errors the engine expects.\<close>

definition transport_contract :: "'w deps \<Rightarrow> bool" where
  "transport_contract D \<longleftrightarrow> (\<forall>i w e. fst (tp_cancel D i w) = Inl e \<longrightarrow> adapter_failure e)"

definition stopped :: "string \<Rightarrow> run \<Rightarrow> bool" where
  "stopped why q \<longleftrightarrow> r_status q = CANCELLED \<and> r_reason q = why \<or> r_status q = FAIL \<and> r_reason q = ''POLICY_ABORT_FAILED''"

lemma stopped_terminal: "stopped why q \<Longrightarrow> terminal (r_status q)"
  by (auto simp: stopped_def)

lemma moved_progress: "r_progress (moved_run st b oc why now r) = r_progress r"
  "r_escalation_required (moved_run st b oc why now r) = r_escalation_required r"
  by (simp_all add: moved_run_def finish_run_def apply_outcome_def Let_def split: option.split)

lemma cancel_reason_nonempty: "cancel_reason_for event \<noteq> []"
  by (simp add: cancel_reason_for_def)

text \<open>The abort and the final move of a run that still stands.\<close>

lemma abort_run:
  assumes "transport_contract D" and "get_run i (runs s) = Some r" and "\<not> terminal (r_status r)" and "why \<noteq> []"
  shows "\<exists>q t. bnd (attempt (ask_world (tp_cancel D i))) (\<lambda>answer. case answer of
        Inl e \<Rightarrow> if adapter_failure e
                  then bnd (clear_deadline i) (\<lambda>u. move D i FAIL None None ''POLICY_ABORT_FAILED'') else raise e
      | Inr b \<Rightarrow> bnd (clear_deadline i) (\<lambda>u. move D i CANCELLED (Some b) None why)) s = (Inr q, t) \<and>
    get_run i (runs t) = Some q \<and> same_identity r q \<and> stopped why q \<and> timers t i = None \<and> r_progress q = r_progress r \<and>
    r_escalation_required q = r_escalation_required r"
proof -
  obtain answer w where w: "tp_cancel D i (world s) = (answer, w)" by fastforce
  let ?s = "s\<lparr>world := w, timers := (timers s)(i := None)\<rparr>"
  have r: "get_run i (runs ?s) = Some r" using assms(2) by simp
  from move_ok [OF r assms(3), of FAIL D None None "''POLICY_ABORT_FAILED''"]
  obtain t n where f: "move D i FAIL None None ''POLICY_ABORT_FAILED'' ?s =
      (Inr (moved_run FAIL None None ''POLICY_ABORT_FAILED'' n r), t)"
    "get_run i (runs t) = Some (moved_run FAIL None None ''POLICY_ABORT_FAILED'' n r)" "timers t = timers ?s" by auto
  have "\<exists>t n. move D i CANCELLED b None why ?s = (Inr (moved_run CANCELLED b None why n r), t) \<and>
    get_run i (runs t) = Some (moved_run CANCELLED b None why n r) \<and> timers t = timers ?s" for b
    using move_ok [OF r assms(3), of CANCELLED D b None why] by simp
  then obtain c n' where c: "\<And>b. move D i CANCELLED b None why ?s = (Inr (moved_run CANCELLED b None why (n' b) r), c b)"
    "\<And>b. get_run i (runs (c b)) = Some (moved_run CANCELLED b None why (n' b) r)" "\<And>b. timers (c b) = timers ?s" by metis
  have "adapter_failure e" if "answer = Inl e" for e
    using assms(1) w that by (auto simp: transport_contract_def) (metis fst_conv)
  with w f c show ?thesis
    by (cases answer)
       (simp_all add: bnd_app attempt_app ask_world_app clear_deadline_app stopped_def moved_run_keeps finished_run assms(4) moved_progress)
qed

lemma apply_goal_update_escalates:
  "gu_escalation_reason u = Some e \<Longrightarrow> r_escalation_required (apply_goal_update u t now r)"
  unfolding apply_goal_update_def Let_def by (simp add: apply_some_keeps) (simp add: apply_some_def)

lemma require_record_found: "get_run i (runs s) = Some r \<Longrightarrow> require_record i s = (Inr r, s)"
  by (simp add: require_record_Inr)

lemma cancel_for_policy_ends:
  assumes "transport_contract D" and r: "get_run i (runs s) = Some r" and "\<not> terminal (r_status r)"
    and why: "why = (case reason of Some x \<Rightarrow> if x = [] then cancel_reason_for event else x | None \<Rightarrow> cancel_reason_for event)"
  shows "\<exists>q t. cancel_for_policy D i p event reason recorded s = (Inr q, t) \<and> get_run i (runs t) = Some q \<and>
    same_identity r q \<and> stopped why q \<and> timers t i = None \<and> r_progress q = r_progress r \<and>
    (why = ''LOCAL_LLM_GOAL_DRIFT'' \<and> pm_max_context_resets (r_policy r) \<le> r_context_resets r \<longrightarrow> r_escalation_required q)"
proof -
  have ne: "why \<noteq> []" using why cancel_reason_nonempty by (auto split: option.splits if_splits)
  define noted where "noted = (if recorded then ret () else bnd (note_policy D i ((policy_event_note event)
    \<lparr>pu_cancel_reason := Some why, pu_status := Some ''GUARDED''\<rparr>)) (\<lambda>x. ret ()))"
  have "\<exists>t p. noted s = (Inr (), t) \<and> get_run i (runs t) = Some p \<and> kept r p"
  proof (cases recorded)
    case True
    with r kept_refl show ?thesis by (auto simp: noted_def)
  next
    case False
    have "check_policy_update ((policy_event_note event)\<lparr>pu_cancel_reason := Some why, pu_status := Some ''GUARDED''\<rparr>) r = Inr ()"
      by (rule check_plain_update) (simp_all add: policy_event_note_def no_policy_update_def)
    from note_policy_ok [OF r this, of D] False show ?thesis by (auto simp: noted_def bnd_app)
  qed
  then obtain s1 r1 where s1: "noted s = (Inr (), s1)" "get_run i (runs s1) = Some r1" "kept r r1" by blast
  define escalates where "escalates \<longleftrightarrow> why = ''LOCAL_LLM_GOAL_DRIFT'' \<and> pm_max_context_resets (r_policy r1) \<le> r_context_resets r1"
  let ?u = "no_goal_update\<lparr>gu_event := Some ''ESCALATION_REQUIRED'', gu_status := Some ''DRIFT'',
    gu_escalation_reason := Some why, gu_escalation_package := Some (escalation_package r1 why)\<rparr>"
  have u: "List.member goal_statuses x" if "gu_status ?u = Some x" for x
    using that goal_statuses_known by (simp add: no_goal_update_def)
  have "\<exists>t p. (if escalates then bnd (note_goal D i ?u) (\<lambda>x. ret ()) else ret ()) s1 = (Inr (), t) \<and>
    get_run i (runs t) = Some p \<and> kept r1 p \<and> (escalates \<longrightarrow> r_escalation_required p)"
  proof (cases escalates)
    case True
    from note_goal_ok [OF s1(2), of ?u D] u obtain t a b where
      "note_goal D i ?u s1 = (Inr (apply_goal_update ?u a b r1), t)" "get_run i (runs t) = Some (apply_goal_update ?u a b r1)" by blast
    moreover have "kept r1 (apply_goal_update ?u a b r1)"
      using apply_goal_update_stage apply_goal_update_progress [of ?u] apply_goal_update_binding
      by (simp add: kept_def no_goal_update_def)
    moreover have "r_escalation_required (apply_goal_update ?u a b r1)"
      by (rule apply_goal_update_escalates [where e = why]) simp
    ultimately show ?thesis using True by (auto simp: bnd_app)
  next
    case False
    with s1(2) kept_refl show ?thesis by auto
  qed
  then obtain s2 r2 where s2: "(if escalates then bnd (note_goal D i ?u) (\<lambda>x. ret ()) else ret ()) s1 = (Inr (), s2)"
    "get_run i (runs s2) = Some r2" "kept r1 r2" "escalates \<longrightarrow> r_escalation_required r2" by blast
  have k: "kept r r2" using kept_trans [OF s1(3) s2(3)] .
  then have "\<not> terminal (r_status r2)" using assms(3) by (auto dest: kept_same)
  from abort_run [OF assms(1) s2(2) this ne] obtain q t where
    a: "bnd (attempt (ask_world (tp_cancel D i))) (\<lambda>answer. case answer of
        Inl e \<Rightarrow> if adapter_failure e
                  then bnd (clear_deadline i) (\<lambda>u. move D i FAIL None None ''POLICY_ABORT_FAILED'') else raise e
      | Inr b \<Rightarrow> bnd (clear_deadline i) (\<lambda>u. move D i CANCELLED (Some b) None why)) s2 = (Inr q, t)"
    and q: "get_run i (runs t) = Some q" "same_identity r2 q" "stopped why q" "timers t i = None" "r_progress q = r_progress r2"
      "r_escalation_required q = r_escalation_required r2" by auto
  have "cancel_for_policy D i p event reason recorded s = (Inr q, t)"
    unfolding cancel_for_policy_def why [symmetric] Let_def noted_def [symmetric]
    by (simp only: bnd_Inr [where m = noted, OF s1(1)] bnd_Inr [where m = "require_record i", OF require_record_found [OF s1(2)]]
        bnd_Inr [where m = "if b then m else ret ()" for b m, OF s2(1) [unfolded escalates_def]] a)
  moreover have "escalates \<longleftrightarrow> why = ''LOCAL_LLM_GOAL_DRIFT'' \<and> pm_max_context_resets (r_policy r) \<le> r_context_resets r"
    using kept_same [OF s1(3)] by (simp add: escalates_def same_identity_def)
  moreover have "same_identity r q" using kept_same [OF k] q(2) same_identity_trans by blast
  ultimately show ?thesis using q s2(4) kept_same [OF k] by auto
qed

section \<open>The runtime limit\<close>

lemma set_runtime_ok:
  assumes "get_run i (runs s) = Some r"
  shows "\<exists>t p. set_runtime D i x s = (Inr (), t) \<and> get_run i (runs t) = Some p \<and> kept r p \<and> timers t = timers s"
proof -
  have "check_policy_update (no_policy_update\<lparr>pu_runtime := Some x\<rparr>) r = Inr ()"
    by (rule check_plain_update) (simp_all add: no_policy_update_def)
  from note_policy_ok [OF assms this, of D] show ?thesis by (auto simp: set_runtime_def bnd_app)
qed

lemma runtime_limit_reason:
  "(case None of Some x \<Rightarrow> if x = [] then cancel_reason_for ''RUNTIME_LIMIT'' else x | None \<Rightarrow> cancel_reason_for ''RUNTIME_LIMIT'') =
     ''EXECUTION_RUNTIME_LIMIT''"
  by (simp add: cancel_reason_for_def)

lemma runtime_seconds_started:
  "r_started r = Some u \<Longrightarrow> runtime_seconds D r s = (Inr (max 0 (fst (clock D (world s)) - u)), s\<lparr>world := snd (clock D (world s))\<rparr>)"
  by (simp add: runtime_seconds_def bnd_app on_world_app)


lemma demo_transport: "transport_contract (demo b)"
  by (simp add: transport_contract_def)

definition demo_run :: run where
  "demo_run = moved_run RUNNING (Some (demo_binding ''run-1'')) None [] 0
     (new_run ''run-1'' ''qa'' ''run-1'' ''h'' (policy_metadata (task_profile QUICK)) sample_goal None 0 [] False 0)"

lemma demo_run_sel [simp]:
  "r_id demo_run = ''run-1''" "r_status demo_run = RUNNING" "r_started demo_run = Some 0" "r_watchdog_managed demo_run = False"
  "r_goal_contract demo_run = sample_goal" "r_context_resets demo_run = 0"
  by (simp_all add: demo_run_def moved_run_def finish_run_def new_run_def Let_def)

lemma demo_run_policy [simp]: "r_policy demo_run = policy_metadata (task_profile QUICK)"
  by (simp add: demo_run_def moved_run_def finish_run_def new_run_def Let_def)

text \<open>A running run at a given time of the clock.\<close>

definition demo_at :: "int \<Rightarrow> run \<Rightarrow> int core" where
  "demo_at now r = demo_start\<lparr>runs := [r], world := now\<rparr>"

lemma demo_at_sel [simp]: "runs (demo_at now r) = [r]" "world (demo_at now r) = now" "timers (demo_at now r) = (\<lambda>i. None)"
  by (simp_all add: demo_at_def demo_start_def)

lemma demo_at_run: "r_id r = i \<Longrightarrow> get_run i (runs (demo_at now r)) = Some r"
  by (simp add: get_run_def)

lemma demo_profile: "max_runtime (profile_for_record demo_run) = 120" "runtime_class (profile_for_record demo_run) = LOCAL"
  by (simp_all add: profile_for_record_def policy_metadata_def task_profile_def Let_def post_init_def)


section \<open>Goal drift\<close>

lemma apply_goal_update_sets:
  "gu_status u = Some x \<Longrightarrow> r_goal_status (apply_goal_update u t now r) = x"
  "gu_ready u = Some b \<Longrightarrow> r_reinjection_ready (apply_goal_update u t now r) = b"
  "gu_checkpoint u = Some c \<Longrightarrow> r_checkpoint (apply_goal_update u t now r) = Some c"
  "gu_goal_state u = Some g \<Longrightarrow> goal_state_of (apply_goal_update u t now r) = g"
  unfolding apply_goal_update_def Let_def goal_state_of_def
  by (simp_all add: apply_some_keeps add_event_def) (simp_all add: apply_some_def apply_some_keeps)

text \<open>The note a checkpoint leaves, and the drift counter it stores.\<close>

definition drift_count_of :: "run \<Rightarrow> int" where
  "drift_count_of r = or_zero (gs_drift_count (goal_state_of r))"

lemma judge_keeps_count: "gs_drift_count (snd (judge_checkpoint S g c p gs)) = gs_drift_count gs"
  by (simp add: judge_checkpoint_def Let_def)

text \<open>The two notes a checkpoint can leave.\<close>

definition calm_note :: "checkpoint \<Rightarrow> progress \<Rightarrow> goal_state \<Rightarrow> goal_update" where
  "calm_note c p gs = no_goal_update\<lparr>gu_checkpoint := Some c, gu_progress := Some p,
     gu_goal_state := Some (gs\<lparr>gs_drift_count := Some 0\<rparr>), gu_status := Some ''NORMAL'', gu_ready := Some False\<rparr>"

definition drift_note :: "checkpoint \<Rightarrow> progress \<Rightarrow> goal_state \<Rightarrow> int \<Rightarrow> string \<Rightarrow> goal_update" where
  "drift_note c p gs n e = no_goal_update\<lparr>gu_checkpoint := Some c, gu_progress := Some p,
     gu_goal_state := Some (gs\<lparr>gs_drift_count := Some n\<rparr>), gu_status := Some (if n = 1 then ''GUARDED'' else ''DRIFT''),
     gu_ready := Some True, gu_event := Some e, gu_details := [(''occurrence'', PInt n)]\<rparr>"

lemma note_fields:
  "gu_status (calm_note c p gs) = Some ''NORMAL''" "gu_progress (calm_note c p gs) = Some p"
  "gu_goal_state (calm_note c p gs) = Some (gs\<lparr>gs_drift_count := Some 0\<rparr>)"
  "gu_status (drift_note c p gs n e) = Some (if n = 1 then ''GUARDED'' else ''DRIFT'')"
  "gu_progress (drift_note c p gs n e) = Some p" "gu_ready (drift_note c p gs n e) = Some True"
  "gu_goal_state (drift_note c p gs n e) = Some (gs\<lparr>gs_drift_count := Some n\<rparr>)"
  by (simp_all add: calm_note_def drift_note_def)

lemma drift_count_noted: "gu_goal_state u = Some (gs\<lparr>gs_drift_count := Some n\<rparr>) \<Longrightarrow> drift_count_of (apply_goal_update u t now r) = n"
  by (simp add: drift_count_of_def apply_goal_update_sets(4) or_zero_def)

lemma observe_checkpoint_live:
  assumes "get_run i (runs s) = Some r" and "\<not> terminal (r_status r)"
    and "normalize_goal_contract (stdlib D) (PDict (contract_input (r_goal_contract r))) = Inr g"
    and "normalize_checkpoint v g = Inr c"
    and j: "j = judge_checkpoint (stdlib D) g c (r_progress r) (goal_state_of r)" and n: "n = drift_count_of r + 1"
  shows "observe_checkpoint D i v s = (case fst j of
       None \<Rightarrow> note_goal D i (calm_note c (merged_progress (r_progress r) c) (snd j)) s
     | Some e \<Rightarrow>
          bnd (note_goal D i (drift_note c (merged_progress (r_progress r) c) (snd j) n e)) (\<lambda>x.
          if 2 \<le> n then
            bnd (require_record i) (\<lambda>r2. cancel_for_policy D i (profile_for_record r2) e (Some ''LOCAL_LLM_GOAL_DRIFT'') True)
          else require_record i) s)"
proof -
  have "or_zero (gs_drift_count (snd j)) + 1 = n" by (simp add: j n judge_keeps_count drift_count_of_def)
  then show ?thesis
    unfolding observe_checkpoint_def bnd_Inr [where m = "require_record i", OF require_record_found [OF assms(1)]]
    using assms(2) by (cases "fst j")
      (simp_all add: bnd_app [of "lift x" for x] assms(3,4) j [symmetric] calm_note_def drift_note_def Let_def)
qed

lemma note_checkpoint_ok:
  assumes "get_run i (runs s) = Some r" and "u = calm_note c p gs \<or> u = drift_note c p gs n e"
  shows "\<exists>t q. note_goal D i u s = (Inr q, t) \<and> get_run i (runs t) = Some q \<and> same_stage r q \<and> r_progress q = p \<and>
    (u = calm_note c p gs \<longrightarrow> r_goal_status q = ''NORMAL'' \<and> drift_count_of q = 0) \<and>
    (u = drift_note c p gs n e \<longrightarrow> r_reinjection_ready q \<and> drift_count_of q = n \<and> (n = 1 \<longrightarrow> r_goal_status q = ''GUARDED''))"
proof -
  have "List.member goal_statuses x" if "gu_status u = Some x" for x
    using that assms(2) goal_statuses_known by (auto simp: note_fields split: if_splits)
  with note_goal_ok [OF assms(1), of u D] obtain t a b where
    n: "note_goal D i u s = (Inr (apply_goal_update u a b r), t)" "get_run i (runs t) = Some (apply_goal_update u a b r)" by blast
  have "r_progress (apply_goal_update u a b r) = p"
    using assms(2) by (auto simp: apply_goal_update_progress note_fields)
  moreover have "r_goal_status (apply_goal_update (calm_note c p gs) a b r) = ''NORMAL''"
    "drift_count_of (apply_goal_update (calm_note c p gs) a b r) = 0"
    by (rule apply_goal_update_sets(1) drift_count_noted, rule note_fields)+
  moreover have "r_reinjection_ready (apply_goal_update (drift_note c p gs n e) a b r)"
    by (simp add: apply_goal_update_sets(2) [OF note_fields(6)])
  moreover have "drift_count_of (apply_goal_update (drift_note c p gs n e) a b r) = n"
    by (rule drift_count_noted) (rule note_fields)
  moreover have "n = 1 \<longrightarrow> r_goal_status (apply_goal_update (drift_note c p gs n e) a b r) = ''GUARDED''"
    by (simp add: apply_goal_update_sets(1) [OF note_fields(4)])
  ultimately show ?thesis using n apply_goal_update_stage [of r u a b]
    by (intro exI [of _ t] exI [of _ "apply_goal_update u a b r"]) auto
qed

text \<open>Goal drift is tolerated once. A checkpoint that drifts for the first time (another objective, a scope outside
  the contract, or no progress) guards the run and makes it ready for reinjection without touching its status; a
  checkpoint that drifts again stops the run, escalating it when no context reset is left; and a checkpoint without
  drift clears the counter.\<close>

theorem drift_tolerated_once:
  assumes "transport_contract D" and r: "get_run i (runs s) = Some r" and live: "\<not> terminal (r_status r)"
    and g: "normalize_goal_contract (stdlib D) (PDict (contract_input (r_goal_contract r))) = Inr g"
    and c: "normalize_checkpoint v g = Inr c"
    and event: "event = fst (judge_checkpoint (stdlib D) g c (r_progress r) (goal_state_of r))"
  shows "\<exists>q t. observe_checkpoint D i v s = (Inr q, t) \<and> get_run i (runs t) = Some q \<and> same_identity r q \<and>
    (event = None \<longrightarrow> r_status q = r_status r \<and> r_goal_status q = ''NORMAL'' \<and> drift_count_of q = 0) \<and>
    (event \<noteq> None \<and> drift_count_of r = 0 \<longrightarrow>
       r_status q = r_status r \<and> r_goal_status q = ''GUARDED'' \<and> r_reinjection_ready q \<and> drift_count_of q = 1) \<and>
    (event \<noteq> None \<and> 0 < drift_count_of r \<longrightarrow> stopped ''LOCAL_LLM_GOAL_DRIFT'' q \<and> timers t i = None \<and>
       (pm_max_context_resets (r_policy r) \<le> r_context_resets r \<longrightarrow> r_escalation_required q))"
proof -
  let ?v = "merged_progress (r_progress r) c" and ?n = "drift_count_of r + 1"
  let ?gs = "snd (judge_checkpoint (stdlib D) g c (r_progress r) (goal_state_of r))"
  note start = observe_checkpoint_live [OF r live g c refl refl, folded event]
  show ?thesis
  proof (cases event)
    case None
    with note_checkpoint_ok [OF r, of "calm_note c ?v ?gs" c ?v ?gs 0 "[]" D] start show ?thesis
      by (auto simp: same_stage_def)
  next
    case (Some e)
    from note_checkpoint_ok [OF r, of "drift_note c ?v ?gs ?n e" c ?v ?gs ?n e D] obtain t q where
      n: "note_goal D i (drift_note c ?v ?gs ?n e) s = (Inr q, t)" "get_run i (runs t) = Some q" "same_stage r q"
      "r_reinjection_ready q" "drift_count_of q = ?n" "?n = 1 \<longrightarrow> r_goal_status q = ''GUARDED''" by blast
    note go = start [unfolded Some option.simps, unfolded bnd_Inr [where m = "note_goal D i x" for x, OF n(1)]]
    show ?thesis
    proof (cases "0 < drift_count_of r")
      case True
      have "\<not> terminal (r_status q)" using live n(3) by (simp add: same_stage_def)
      from cancel_for_policy_ends [OF assms(1) n(2) this, where why = "''LOCAL_LLM_GOAL_DRIFT''" and reason = "Some ''LOCAL_LLM_GOAL_DRIFT''"
          and event = e and p = "profile_for_record q" and recorded = True]
      obtain p t' where "cancel_for_policy D i (profile_for_record q) e (Some ''LOCAL_LLM_GOAL_DRIFT'') True t = (Inr p, t')"
        "get_run i (runs t') = Some p" "same_identity q p" "stopped ''LOCAL_LLM_GOAL_DRIFT'' p" "timers t' i = None"
        "pm_max_context_resets (r_policy q) \<le> r_context_resets q \<longrightarrow> r_escalation_required p" by auto
      with True go Some n(3) show ?thesis
        by (auto simp: bnd_Inr [where m = "require_record i", OF require_record_found [OF n(2)]] same_stage_def same_identity_def)
    next
      case False
      with go Some n show ?thesis by (auto simp: require_record_found same_stage_def)
    qed
  qed
qed

definition drifted_run :: run where
  "drifted_run = demo_run\<lparr>r_policy_state := (r_policy_state demo_run)\<lparr>ps_goal := Some (empty_goal_state\<lparr>gs_drift_count := Some 1\<rparr>)\<rparr>\<rparr>"

lemma drifted_run_sel [simp]:
  "r_id drifted_run = ''run-1''" "r_status drifted_run = RUNNING" "r_goal_contract drifted_run = sample_goal"
  "drift_count_of drifted_run = 1" "r_progress drifted_run = r_progress demo_run"
  by (simp_all add: drifted_run_def drift_count_of_def goal_state_of_def or_zero_def)

definition foreign_checkpoint :: checkpoint where
  "foreign_checkpoint = \<lparr>cp_goal_id = ''g'', cp_current_step = ''BUILD_IT'', cp_completed = [''DONE''], cp_remaining = [],
     cp_blocking_reason = ''NONE'', cp_artifact_delta = [], cp_scope_delta = [], cp_evidence_delta = []\<rparr>"

lemma foreign_checkpoint_normal: "normalize_checkpoint sample_checkpoint sample_goal = Inr foreign_checkpoint"
proof -
  have "case normalize_checkpoint sample_checkpoint sample_goal of Inl e \<Rightarrow> False | Inr c \<Rightarrow> c = foreign_checkpoint" by code_simp
  then show ?thesis by (simp split: sum.splits)
qed

lemma sample_goal_stable: "normalize_goal_contract plain_std (PDict (contract_input sample_goal)) = Inr sample_goal"
  by (rule contract_ok_renormalize [OF normalize_goal_contract_ok [OF sample_goal_normal]])

theorem drift_tolerated_once_witness:
  "\<exists>q t. observe_checkpoint (demo False) ''run-1'' sample_checkpoint (demo_at 5 drifted_run) = (Inr q, t) \<and>
     stopped ''LOCAL_LLM_GOAL_DRIFT'' q"
proof -
  have "fst (judge_checkpoint plain_std sample_goal foreign_checkpoint p gs) \<noteq> None" for p gs
    by (simp add: judge_checkpoint_def Let_def foreign_checkpoint_def sample_goal_def)
  with drift_tolerated_once [OF demo_transport [of False] demo_at_run [of drifted_run "''run-1''" 5] _ _ foreign_checkpoint_normal refl]
  show ?thesis by (simp add: sample_goal_stable) blast
qed

section \<open>Verified progress\<close>

definition extends_progress :: "progress \<Rightarrow> progress \<Rightarrow> bool" where
  "extends_progress p q \<longleftrightarrow> set (vp_completed p) \<subseteq> set (vp_completed q) \<and> set (vp_artifacts p) \<subseteq> set (vp_artifacts q) \<and>
     set (vp_evidence p) \<subseteq> set (vp_evidence q) \<and> set (vp_scope p) \<subseteq> set (vp_scope q)"

lemma checkpoint_completed:
  "normalize_checkpoint v g = Inr c \<Longrightarrow> set (cp_completed c) \<subseteq> set (completion_conditions g)"
  unfolding normalize_checkpoint_def by (auto simp: rbind_Inr_iff split: option.splits)

text \<open>A checkpoint never loses verified progress: after any accepted checkpoint on an open run, whatever its drift
  verdict and even when it stops the run, the recorded progress contains all progress recorded before and all
  deltas of the checkpoint, and its completed conditions are old ones or conditions of the run's own contract.\<close>

theorem checkpoint_progress_monotone:
  assumes "transport_contract D" and r: "get_run i (runs s) = Some r" and live: "\<not> terminal (r_status r)"
    and g: "normalize_goal_contract (stdlib D) (PDict (contract_input (r_goal_contract r))) = Inr g"
    and c: "normalize_checkpoint v g = Inr c"
  shows "\<exists>q t. observe_checkpoint D i v s = (Inr q, t) \<and> get_run i (runs t) = Some q \<and>
    extends_progress (r_progress r) (r_progress q) \<and> set (cp_evidence_delta c) \<subseteq> set (vp_evidence (r_progress q)) \<and>
    set (cp_artifact_delta c) \<subseteq> set (vp_artifacts (r_progress q)) \<and> set (cp_completed c) \<subseteq> set (vp_completed (r_progress q)) \<and>
    set (vp_completed (r_progress q)) \<subseteq> set (vp_completed (r_progress r)) \<union> set (completion_conditions g)"
proof -
  let ?v = "merged_progress (r_progress r) c" and ?n = "drift_count_of r + 1"
  let ?j = "judge_checkpoint (stdlib D) g c (r_progress r) (goal_state_of r)"
  note start = observe_checkpoint_live [OF r live g c refl refl]
  have "\<exists>q t. observe_checkpoint D i v s = (Inr q, t) \<and> get_run i (runs t) = Some q \<and> r_progress q = ?v"
  proof (cases "fst ?j")
    case None
    with note_checkpoint_ok [OF r, of "calm_note c ?v (snd ?j)" c ?v "snd ?j" 0 "[]" D] start show ?thesis by auto
  next
    case (Some e)
    from note_checkpoint_ok [OF r, of "drift_note c ?v (snd ?j) ?n e" c ?v "snd ?j" ?n e D] obtain t q where
      n: "note_goal D i (drift_note c ?v (snd ?j) ?n e) s = (Inr q, t)" "get_run i (runs t) = Some q" "same_stage r q" "r_progress q = ?v"
      by blast
    have "\<not> terminal (r_status q)" using live n(3) by (simp add: same_stage_def)
    from cancel_for_policy_ends [OF assms(1) n(2) this refl, of "profile_for_record q" e "Some ''LOCAL_LLM_GOAL_DRIFT''" True] n start Some
    show ?thesis
      by (auto simp: bnd_Inr [where m = "require_record i", OF require_record_found [OF n(2)]] require_record_found
          bnd_Inr [where m = "note_goal D i x" for x, OF n(1)])
  qed
  moreover have "set (vp_completed ?v) \<subseteq> set (vp_completed (r_progress r)) \<union> set (completion_conditions g)"
    using checkpoint_completed [OF c] by (auto simp: merged_progress_def union_sorted_def)
  ultimately show ?thesis by (force simp: extends_progress_def merged_progress_def union_sorted_def)
qed

theorem checkpoint_progress_monotone_witness:
  "\<exists>q t. observe_checkpoint (demo False) ''run-1'' sample_checkpoint (demo_at 5 drifted_run) = (Inr q, t) \<and>
     ''DONE'' \<in> set (vp_completed (r_progress q))"
proof -
  from checkpoint_progress_monotone [OF demo_transport [of False] demo_at_run [of drifted_run "''run-1''" 5] _ _ foreign_checkpoint_normal]
  show ?thesis by (auto simp: sample_goal_stable foreign_checkpoint_def)
qed

section \<open>Fresh contexts\<close>

lemma create_record_new:
  assumes "create_record D q i a s = (Inr (r, True), s1)"
  shows "r = new_run i (dq_agent q) (dispatch_key q i) (ad_hash a) (policy_metadata (ad_profile a)) (ad_contract a)
            (dq_parent q) (dq_resets q) (ad_approved a) (dq_managed q) (fst (clock D (world s)))"
  using assms
  by (auto simp: create_record_def bnd_app on_world_app reg_def create_run_def append_run_def Let_def
      split: prod.split_asm option.split_asm if_split_asm)

text \<open>What a submission returns is the current record of its run; a running one is bound to the requested session.\<close>

lemma submit_run_result:
  assumes "submit_run D q i key a r s = (Inr p, t)"
  shows "get_run i (runs t) = Some p \<and>
    (r_status p = RUNNING \<and> dq_session_key q \<noteq> None \<and> r_status r0 = QUEUED \<and> get_run i (runs s) = Some r0 \<longrightarrow>
       (\<exists>b. r_binding p = Some b \<and> dq_session_key q = Some (bd_session_key b)))"
proof -
  let ?pl = "\<lparr>sp_message = ad_message a, sp_agent = dq_agent q, sp_key = key, sp_timeout = max_runtime (ad_profile a),
        sp_approved = r_approved_paths r, sp_session_key = dq_session_key q\<rparr>"
  obtain answer w where ans: "tp_submit D i ?pl (world s) = (answer, w)" by fastforce
  show ?thesis
  proof (cases answer)
    case (Inl e)
    with assms ans show ?thesis
      by (auto simp: submit_run_def bnd_app attempt_app ask_world_app split: if_split_asm dest: move_Inr)
  next
    case (Inr b)
    let ?s = "s\<lparr>world := w\<rparr>"
    show ?thesis
    proof (cases "dq_session_key q \<noteq> None \<and> dq_session_key q \<noteq> Some (bd_session_key b)")
      case True
      with assms ans Inr have "move D i FAIL None None ''FRESH_SESSION_IDENTITY_UNVERIFIED'' ?s = (Inr p, t)"
        by (auto simp: submit_run_def bnd_app attempt_app ask_world_app)
      from move_Inr [OF this] show ?thesis by simp
    next
      case False
      with assms ans Inr obtain t' where m: "move D i RUNNING (Some b) None [] ?s = (Inr p, t')" "runs t = runs t'"
        by (auto simp: submit_run_def bnd_app attempt_app ask_world_app schedule_deadline_def split: if_split_asm prod.split_asm sum.split_asm)
      have "r_binding p = Some b" if "r_status r0 = QUEUED" "get_run i (runs s) = Some r0"
        using move_legal [of i ?s r0 RUNNING D "Some b" None "[]"] that m by (auto simp: Let_def moved_binding)
      with False move_Inr [OF m(1)] m(2) show ?thesis by auto
    qed
  qed
qed

text \<open>A dispatch that creates its run in an engine without a broker.\<close>

lemma dispatch_new_direct:
  assumes "dispatch D q s = (Inr p, t)" and "dq_run_id q = Some i" and "i \<noteq> []" and "get_run i (runs s) = None"
    and "\<not> broker_present D" and "\<not> auth_required D"
  shows "\<exists>checked a. check_dispatch D q = Inr checked \<and> admit D q i checked = Inr a \<and> get_run i (runs t) = Some p \<and>
    r_id p = i \<and> r_agent p = dq_agent q \<and> r_goal_contract p = ad_contract a \<and> r_parent p = dq_parent q \<and>
    r_context_resets p = dq_resets q \<and>
    (r_status p = RUNNING \<and> dq_session_key q \<noteq> None \<longrightarrow>
       (\<exists>b. r_binding p = Some b \<and> dq_session_key q = Some (bd_session_key b)))"
proof -
  from dispatch_new [OF assms(1-4)] obtain a r s1 where new: "new_dispatch D q i s a r s1"
    and "authorize_and_submit D q i (dispatch_key q i) a r s1 = (Inr p, t)" by blast
  then have sub: "submit_run D q i (dispatch_key q i) a r s1 = (Inr p, t)" using assms(5,6) by (simp add: authorize_and_submit_def)
  from new obtain checked where c: "check_dispatch D q = Inr checked" "admit D q i checked = Inr a"
    and cr: "create_record D q i a s = (Inr (r, True), s1)" and r: "get_run i (runs s1) = Some r" "r_status r = QUEUED"
    by (auto simp: new_dispatch_def)
  have "core_grows s1 t" using guarD [OF submit_run_guar, of s1 D q i "dispatch_key q i" a r] sub by simp
  with r(1) submit_run_result [OF sub, of r] have "same_identity r p" by (auto simp: core_grows_def dest: grows_get_run)
  moreover have "r_id r = i" "r_agent r = dq_agent q" "r_goal_contract r = ad_contract a" "r_parent r = dq_parent q"
    "r_context_resets r = dq_resets q"
    unfolding create_record_new [OF cr] by (simp_all add: new_run_def)
  ultimately show ?thesis using c r submit_run_result [OF sub, of r] by (auto simp: same_identity_def)
qed

definition context_child :: "run \<Rightarrow> string \<Rightarrow> string" where
  "context_child r u = r_id r @ ''-ctx-'' @ str_int (r_context_resets r + 1) @ ''-'' @ u"

definition fresh_session :: "run \<Rightarrow> string \<Rightarrow> string" where
  "fresh_session r u = ''agent:'' @ r_agent r @ '':fast-gateway-'' @ u"

lemma start_child_at:
  "start_child D (r_id r) r p =
     bnd (on_world (new_uuid D)) (\<lambda>u1. bnd (on_world (new_uuid D)) (\<lambda>u2.
     bnd (if gs_completed (goal_state_of r) = Some True then ret None
          else bnd (ask_world (tp_cancel D (r_id r))) (\<lambda>b. ret (Some b))) (\<lambda>b.
     bnd (clear_deadline (r_id r)) (\<lambda>u.
     bnd (move D (r_id r) CANCELLED b None ''FRESH_CONTEXT_RESET'') (\<lambda>x.
     bnd (dispatch D (child_request (stdlib D) r p (context_child r (take 8 u1)) (fresh_session r u2))) (\<lambda>child.
     note_goal D (r_id child) (no_goal_update\<lparr>gu_goal_state :=
       Some (empty_goal_state\<lparr>gs_drift_count := Some (or_zero (gs_drift_count (goal_state_of r)))\<rparr>)\<rparr>)))))))"
  by (simp only: start_child_def context_child_def fresh_session_def Let_def)

text \<open>The stages of a fresh context that starts a child: the source is cancelled, the child dispatched and noted.\<close>

lemma fresh_context_stages:
  assumes r: "get_run i (runs s) = Some r" and "fresh_context D i s = (Inr child, t)"
    and "r_context_resets r < max_context_resets (profile_for_record r)"
  shows "\<not> terminal (r_status r) \<and> \<not> broker_present D \<and> \<not> auth_required D \<and>
    (\<exists>u1 u2 b s4 x s5 c s6 u. runs s4 = runs s \<and> move D i CANCELLED b None ''FRESH_CONTEXT_RESET'' s4 = (Inr x, s5) \<and>
      dispatch D (child_request (stdlib D) r (profile_for_record r) (context_child r u1) (fresh_session r u2)) s5 = (Inr c, s6) \<and>
      gu_status u = None \<and> note_goal D (r_id c) u s6 = (Inr child, t))"
proof -
  have i: "r_id r = i" using get_run_Some [OF r] by simp
  from assms(2,3) have live: "\<not> terminal (r_status r)" and nb: "\<not> broker_present D" "\<not> auth_required D"
    and "start_child D i r (profile_for_record r) s = (Inr child, t)"
    unfolding fresh_context_def bnd_Inr [where m = "require_record i", OF require_record_found [OF r]]
    by (auto simp: Let_def split: if_split_asm)
  then obtain u1 u2 b s4 x s5 c s6 where "move D i CANCELLED b None ''FRESH_CONTEXT_RESET'' s4 = (Inr x, s5)"
    "dispatch D (child_request (stdlib D) r (profile_for_record r) (context_child r (take 8 u1)) (fresh_session r u2)) s5 = (Inr c, s6)"
    "note_goal D (r_id c) (no_goal_update\<lparr>gu_goal_state :=
          Some (empty_goal_state\<lparr>gs_drift_count := Some (or_zero (gs_drift_count (goal_state_of r)))\<rparr>)\<rparr>) s6 = (Inr child, t)" "runs s4 = runs s"
    unfolding i [symmetric] start_child_at
    by (auto elim!: bnd_InrE simp: on_world_app ask_world_app clear_deadline_app split: if_split_asm)
  moreover have "gu_status (no_goal_update\<lparr>gu_goal_state := g\<rparr>) = None" for g by (simp add: no_goal_update_def)
  ultimately show ?thesis using live nb by blast
qed

lemma child_request_sel:
  "dq_run_id (child_request S r p c z) = Some c" "dq_session_key (child_request S r p c z) = Some z"
  "dq_agent (child_request S r p c z) = r_agent r" "dq_parent (child_request S r p c z) = Some (r_id r)"
  "dq_resets (child_request S r p c z) = r_context_resets r + 1"
  "dq_goal (child_request S r p c z) = PDict (contract_input (r_goal_contract r))"
  by (simp_all add: child_request_def Let_def)


text \<open>A transport that opens the session it is asked for.\<close>

definition echo :: "int deps" where
  "echo = (demo False)\<lparr>tp_submit := (\<lambda>i pl w. (Inr ((demo_binding i)
     \<lparr>bd_session_key := (case sp_session_key pl of None \<Rightarrow> [] | Some k \<Rightarrow> k)\<rparr>), w))\<rparr>"

lemma echo_sel [simp]:
  "stdlib echo = plain_std" "agent_list echo = sample_agents" "clock echo w = (of_int w / 1000000, w)"
  "tp_cancel echo i w = (Inr (demo_binding i), w)" "broker_present echo = False" "auth_required echo = False"
  "authorizer_present echo = False" "new_uuid echo w = (''0123456789'', w)"
  "tp_submit echo i pl w = (Inr ((demo_binding i)\<lparr>bd_session_key := (case sp_session_key pl of None \<Rightarrow> [] | Some k \<Rightarrow> k)\<rparr>), w)"
  by (simp_all add: echo_def) (simp add: demo_def)

definition looping_run :: run where
  "looping_run = demo_run\<lparr>r_reinjection_ready := True\<rparr>"

lemma looping_run_sel [simp]:
  "r_id looping_run = ''run-1''" "r_status looping_run = RUNNING" "r_reinjection_ready looping_run" "r_agent looping_run = ''qa''"
  "r_goal_contract looping_run = sample_goal" "r_context_resets looping_run = 0" "r_idempotency looping_run = ''run-1''"
  "profile_for_record looping_run = task_profile QUICK" "goal_state_of looping_run = empty_goal_state"
  "r_policy looping_run = policy_metadata (task_profile QUICK)"
  by (simp_all add: looping_run_def demo_run_def moved_run_def finish_run_def new_run_def Let_def profile_for_record_def
      policy_metadata_def task_profile_def post_init_def goal_state_of_def empty_policy_state_def)

lemma context_message_text: "\<not> blank (context_message S r)"
proof -
  have "\<exists>u. context_message S r = CHR ''E'' # u" by (simp add: context_message_def)
  moreover have "\<not> is_space CHR ''E''" by (simp add: char_class_defs)
  ultimately show ?thesis by (auto simp: blank_def strip_def lstrip_def)
qed

lemma echo_admits:
  "\<exists>checked a. check_dispatch echo (child_request plain_std looping_run (task_profile QUICK) c z) = Inr checked \<and>
     admit echo (child_request plain_std looping_run (task_profile QUICK) c z) c checked = Inr a"
proof -
  have "require_agent sample_agents ''qa'' = Inr (snd (hd sample_agents))" by (simp add: require_agent_def find_agent_def sample_agents_def)
  then show ?thesis
    by (simp add: check_dispatch_def child_request_def Let_def context_message_text normalize_approved_paths_def admit_def sample_goal_stable
        dispatch_profile_def task_runtime_profile_def task_class_of_def policy_metadata_def task_profile_def post_init_def)
qed

lemma str_int_one: "str_int 1 = ''1''"
  by code_simp

lemma context_child_ne: "context_child r u \<noteq> []"
  by (simp add: context_child_def)

lemma echo_dispatch:
  assumes "get_run c (runs s) = None" and "get_by_idempotency ''run-1:ctx:1'' (runs s) = None" and "c \<noteq> []"
  shows "\<exists>p t. dispatch echo (child_request plain_std looping_run (task_profile QUICK) c z) s = (Inr p, t) \<and>
    get_run (r_id p) (runs t) = Some p \<and> r_status p = RUNNING"
proof -
  let ?q = "child_request plain_std looping_run (task_profile QUICK) c z"
  obtain checked a where adm: "check_dispatch echo ?q = Inr checked" "admit echo ?q c checked = Inr a" using echo_admits by blast
  have k: "dispatch_key ?q c = ''run-1:ctx:1''"
    by (simp add: dispatch_key_def child_request_def Let_def str_int_one)
  from dispatch_create [OF adm child_request_sel(1) assms(3,1)] assms(2) obtain r s1 where
    r: "get_run c (runs s1) = Some r" "r_status r = QUEUED"
    and d: "dispatch echo ?q s = authorize_and_submit echo ?q c ''run-1:ctx:1'' a r s1" by (auto simp: k)
  have "RUNNING \<in> set (successors (r_status r))" using r(2) by simp
  from move_legal [OF r(1) this] show ?thesis
    by (simp add: d authorize_and_submit_def submit_run_def bnd_app attempt_app ask_world_app Let_def schedule_deadline_def
        child_request_sel moved_run_keeps r(1) split: if_split)
qed


end
