(* ===== verification/DirectAuth.thy ===== *)
theory DirectAuth
  imports AuthBroker
begin

text \<open>
  \<^verbatim>\<open>direct_gateway_authorization.py\<close>: the memory-only registrations of direct runs and the router over the
  authorizers of all run namespaces. The dictionary of pending grants is a map; the clock readings in milliseconds
  are arguments. An authorizer that is not the direct one (the war room's) is its namespace and its operation.
\<close>

section \<open>The direct authorizer\<close>

record pending =
  pd_digest :: string
  pd_expires :: int

type_synonym pendings = "string \<rightharpoonup> pending"

record direct_world =
  waiting :: pendings
  vault :: auth_store

definition owns_direct :: "string \<Rightarrow> bool" where
  "owns_direct i = starts_with i ''direct-''"

definition prune :: "int \<Rightarrow> pendings \<Rightarrow> pendings" where
  "prune now m = (\<lambda>i. case m i of None \<Rightarrow> None | Some p \<Rightarrow> if pd_expires p \<le> now then None else Some p)"

definition on_waiting :: "(pendings, 'a) op \<Rightarrow> (direct_world, 'a) op" where
  "on_waiting m w = (case m (waiting w) of (r, p) \<Rightarrow> (r, w\<lparr>waiting := p\<rparr>))"

definition on_vault :: "(auth_store, 'a) op \<Rightarrow> (direct_world, 'a) op" where
  "on_vault m w = (case m (vault w) of (r, st) \<Rightarrow> (r, w\<lparr>vault := st\<rparr>))"

text \<open>\<open>register\<close>: \<open>t\<close> is the reading for the expiry, \<open>now\<close> the later one of the pruning.\<close>

definition register_direct :: "std \<Rightarrow> int \<Rightarrow> int \<Rightarrow> string \<Rightarrow> auth_scope \<Rightarrow> int \<Rightarrow> (pendings, unit) op" where
  "register_direct S t now i sc ttl =
     (if \<not> owns_direct i \<or> ttl \<le> 0 then raise (auth_error ''AUTH_REQUIRED'') else
      bnd (lift (canonical_task_digest S sc)) (\<lambda>d.
      bnd (modify (prune now)) (\<lambda>u.
      bnd (gets (\<lambda>m. m i)) (\<lambda>existing.
      if existing \<noteq> None \<and> map_option pd_digest existing \<noteq> Some d then raise (auth_error ''CONFLICT'')
      else modify (\<lambda>m. m(i \<mapsto> \<lparr>pd_digest = d, pd_expires = t + ttl * 1000\<rparr>))))))"

definition scope_run :: "std \<Rightarrow> auth_scope \<Rightarrow> string res" where
  "scope_run S sc = (case as_dict (sc_contract sc) of
     None \<Rightarrow> Inl (AttributeError ''get'')
   | Some d \<Rightarrow> Inr (str_of S (por (dget d ''core_run_id'') (PStr []))))"

text \<open>\<open>authorize\<close>, up to the \<open>yield\<close>: the registration is taken out before it is judged.\<close>

definition authorize_direct ::
  "std \<Rightarrow> broker \<Rightarrow> call_env \<Rightarrow> int \<Rightarrow> auth_scope \<Rightarrow> (direct_world, auth_scope \<times> string) op" where
  "authorize_direct S B e now sc =
     bnd (lift (scope_run S sc)) (\<lambda>i.
     bnd (on_waiting (modify (prune now))) (\<lambda>u.
     bnd (gets (\<lambda>w. waiting w i)) (\<lambda>found.
     bnd (on_waiting (modify (\<lambda>m. m(i := None)))) (\<lambda>u.
     case found of
       None \<Rightarrow> raise (auth_error ''AUTH_REQUIRED'')
     | Some p \<Rightarrow>
         if pd_expires p \<le> now then raise (auth_error ''EXPIRED'') else
         bnd (lift (canonical_task_digest S sc)) (\<lambda>d.
         if pd_digest p \<noteq> d then raise (auth_error ''BINDING_MISMATCH'') else
         bnd (on_vault (issue S B e sc 30 ''direct-owner-ingress'')) (\<lambda>g. ret (sc, ig_token g)))))))"

section \<open>The router\<close>

datatype authorizer =
    DirectIngress
  | Foreign "string \<Rightarrow> bool" "auth_scope \<Rightarrow> (direct_world, auth_scope \<times> string) op"

fun owns_by :: "authorizer \<Rightarrow> string \<Rightarrow> bool" where
  "owns_by DirectIngress i = owns_direct i"
| "owns_by (Foreign f g) i = f i"

fun authorize_by :: "std \<Rightarrow> broker \<Rightarrow> call_env \<Rightarrow> int \<Rightarrow> authorizer \<Rightarrow> auth_scope \<Rightarrow> (direct_world, auth_scope \<times> string) op" where
  "authorize_by S B e now DirectIngress sc = authorize_direct S B e now sc"
| "authorize_by S B e now (Foreign f g) sc = g sc"

definition composite_owns :: "authorizer list \<Rightarrow> string \<Rightarrow> bool" where
  "composite_owns azs i = list_ex (\<lambda>a. owns_by a i) azs"

fun is_direct :: "authorizer \<Rightarrow> bool" where
  "is_direct DirectIngress = True"
| "is_direct (Foreign f g) = False"

definition composite_direct :: "authorizer list \<Rightarrow> authorizer res" where
  "composite_direct azs = (case List.find is_direct azs of None \<Rightarrow> Inl (auth_error ''AUTH_REQUIRED'') | Some a \<Rightarrow> Inr a)"

definition composite_authorize ::
  "std \<Rightarrow> broker \<Rightarrow> call_env \<Rightarrow> int \<Rightarrow> authorizer list \<Rightarrow> auth_scope \<Rightarrow> (direct_world, auth_scope \<times> string) op" where
  "composite_authorize S B e now azs sc =
     bnd (lift (scope_run S sc)) (\<lambda>i.
     case filter (\<lambda>a. owns_by a i) azs of
       [a] \<Rightarrow> authorize_by S B e now a sc
     | _ \<Rightarrow> raise (auth_error ''AUTH_REQUIRED''))"

section \<open>What a registration is worth\<close>

lemma prune_Some: "prune now m i = Some p \<longleftrightarrow> m i = Some p \<and> now < pd_expires p"
  by (auto simp: prune_def split: option.splits)

lemma register_direct_effect:
  assumes "register_direct S t now i sc ttl m = (r, m')"
  shows "(\<forall>j. j \<noteq> i \<longrightarrow> m' j = m j \<or> m' j = None) \<and>
    (r = Inr () \<longrightarrow> owns_direct i \<and> 0 < ttl \<and>
       (\<exists>d. canonical_task_digest S sc = Inr d \<and> m' i = Some \<lparr>pd_digest = d, pd_expires = t + ttl * 1000\<rparr>)) \<and>
    (r \<noteq> Inr () \<longrightarrow> m' i = m i \<or> m' i = None)"
proof -
  have "m' = m \<or> m' = prune now m \<or> r = Inr () \<and> (\<exists>p. m' = (prune now m)(i \<mapsto> p))"
    using assms by (auto simp: register_direct_def bnd_app split: if_split_asm sum.split_asm)
  then have "\<forall>j. j \<noteq> i \<or> r \<noteq> Inr () \<longrightarrow> m' j = m j \<or> m' j = None"
    by (auto simp: prune_def split: option.splits if_splits)
  with assms show ?thesis
    by (auto simp: register_direct_def bnd_app split: if_split_asm sum.split_asm)
qed

lemma on_waiting_modify: "on_waiting (modify f) w = (Inr (), w\<lparr>waiting := f (waiting w)\<rparr>)"
  by (simp add: on_waiting_def)

lemma on_vault_waiting: "waiting (snd (on_vault m w)) = waiting w"
  by (simp add: on_vault_def split: prod.split)

lemma authorize_direct_effect:
  assumes "authorize_direct S B e now sc w = (r, w')"
  shows "(\<forall>j. waiting w' j = waiting w j \<or> waiting w' j = None) \<and>
    (\<forall>i. scope_run S sc = Inr i \<longrightarrow> waiting w' i = None) \<and>
    (\<forall>x. r = Inr x \<longrightarrow> (\<exists>i p d. scope_run S sc = Inr i \<and> waiting w i = Some p \<and> now < pd_expires p \<and>
       canonical_task_digest S sc = Inr d \<and> pd_digest p = d))"
proof (cases "scope_run S sc")
  case (Inl x)
  with assms show ?thesis by (auto simp: authorize_direct_def bnd_app)
next
  case (Inr i)
  have "waiting w' = (prune now (waiting w))(i := None)"
    using assms on_vault_waiting [of "issue S B e sc 30 ''direct-owner-ingress''" "w\<lparr>waiting := (prune now (waiting w))(i := None)\<rparr>"]
    by (auto simp: authorize_direct_def bnd_app on_waiting_modify Inr split: option.split_asm if_split_asm sum.split_asm prod.split_asm)
  moreover have "prune now (waiting w) j = waiting w j \<or> prune now (waiting w) j = None" for j
    by (auto simp: prune_def split: option.splits)
  moreover have "\<exists>p d. waiting w i = Some p \<and> now < pd_expires p \<and> canonical_task_digest S sc = Inr d \<and> pd_digest p = d"
    if "r = Inr x" for x
    using assms that
    by (auto simp: authorize_direct_def bnd_app on_waiting_modify Inr prune_Some split: option.split_asm if_split_asm sum.split_asm)
  ultimately show ?thesis using Inr by auto
qed

section \<open>Histories\<close>

datatype direct_call =
    Register int int string auth_scope int
  | Authorize call_env int auth_scope

fun direct_step :: "std \<Rightarrow> broker \<Rightarrow> direct_call \<Rightarrow> direct_world \<Rightarrow> unit res \<times> direct_world" where
  "direct_step S B (Register t now i sc ttl) w = on_waiting (register_direct S t now i sc ttl) w"
| "direct_step S B (Authorize e now sc) w = bnd (authorize_direct S B e now sc) (\<lambda>x. ret ()) w"

text \<open>The calls with their answers, and the world they leave.\<close>

definition direct_run :: "std \<Rightarrow> broker \<Rightarrow> direct_world \<Rightarrow> direct_call list \<Rightarrow> (direct_call \<times> unit res) list \<times> direct_world" where
  "direct_run S B w cs =
     foldl (\<lambda>(xs, v) c. case direct_step S B c v of (r, v') \<Rightarrow> (xs @ [(c, r)], v')) ([], w) cs"

fun authorizes :: "std \<Rightarrow> string \<Rightarrow> direct_call \<Rightarrow> bool" where
  "authorizes S i (Authorize e now sc) = (scope_run S sc = Inr i)"
| "authorizes S i (Register t now j sc ttl) = False"

definition backed :: "std \<Rightarrow> (direct_call \<times> unit res) list \<Rightarrow> string \<Rightarrow> pending \<Rightarrow> bool" where
  "backed S xs i p \<longleftrightarrow> (\<exists>us vs t now sc ttl. xs = us @ (Register t now i sc ttl, Inr ()) # vs \<and> owns_direct i \<and>
     canonical_task_digest S sc = Inr (pd_digest p) \<and> pd_expires p = t + ttl * 1000 \<and> (\<forall>x\<in>set vs. \<not> authorizes S i (fst x)))"

lemma backed_snoc: "backed S xs i p \<Longrightarrow> \<not> authorizes S i c \<Longrightarrow> backed S (xs @ [(c, r)]) i p"
proof -
  assume "backed S xs i p" and no: "\<not> authorizes S i c"
  then obtain us vs t now sc ttl where b: "xs = us @ (Register t now i sc ttl, Inr ()) # vs" "owns_direct i"
    "canonical_task_digest S sc = Inr (pd_digest p)" "pd_expires p = t + ttl * 1000" "\<forall>x\<in>set vs. \<not> authorizes S i (fst x)"
    unfolding backed_def by blast
  then have "xs @ [(c, r)] = us @ (Register t now i sc ttl, Inr ()) # (vs @ [(c, r)])" "\<forall>x\<in>set (vs @ [(c, r)]). \<not> authorizes S i (fst x)"
    using no by auto
  with b show ?thesis unfolding backed_def by blast
qed

lemma direct_run_snoc:
  "direct_run S B w (cs @ [c]) = (case direct_run S B w cs of (xs, v) \<Rightarrow> case direct_step S B c v of (r, v') \<Rightarrow> (xs @ [(c, r)], v'))"
  by (simp add: direct_run_def split: prod.split)

lemma direct_step_backs:
  assumes "\<And>i p. waiting v i = Some p \<Longrightarrow> backed S xs i p" and "direct_step S B c v = (r, v')" and "waiting v' i = Some p"
  shows "backed S (xs @ [(c, r)]) i p"
proof (cases c)
  case (Register t now j sc ttl)
  from assms(2) have reg: "register_direct S t now j sc ttl (waiting v) = (r, waiting v')"
    by (auto simp: Register on_waiting_def split: prod.splits)
  note eff = register_direct_effect [OF reg]
  show ?thesis
  proof (cases "i = j \<and> r = Inr ()")
    case True
    with eff assms(3) show ?thesis
      unfolding backed_def by (intro exI [of _ xs] exI [of _ "[]"]) (auto simp: Register)
  next
    case False
    then have "waiting v i = Some p" using eff assms(3) by (metis option.distinct(1))
    then show ?thesis by (intro backed_snoc assms(1)) (simp_all add: Register)
  qed
next
  case (Authorize e now sc)
  obtain r' where auth: "authorize_direct S B e now sc v = (r', v')"
    using assms(2) by (auto simp: Authorize bnd_app split: prod.splits sum.splits)
  note eff = authorize_direct_effect [OF auth]
  then have "waiting v i = Some p" "scope_run S sc \<noteq> Inr i" using assms(3) by (auto dest: spec [of _ i])
  then show ?thesis by (intro backed_snoc assms(1)) (simp_all add: Authorize)
qed

lemma direct_run_backs:
  "direct_run S B w cs = (xs, v) \<Longrightarrow> waiting w = (\<lambda>i. None) \<Longrightarrow> waiting v i = Some p \<Longrightarrow> backed S xs i p"
proof (induction cs arbitrary: xs v i p rule: rev_induct)
  case Nil
  then show ?case by (auto simp: direct_run_def)
next
  case (snoc c cs)
  obtain ys u where run: "direct_run S B w cs = (ys, u)" by fastforce
  obtain r u' where step: "direct_step S B c u = (r, u')" by fastforce
  from snoc.prems(1) have "xs = ys @ [(c, r)]" "v = u'" by (simp_all add: direct_run_snoc run step)
  with direct_step_backs [OF snoc.IH [OF run snoc.prems(2)] step, of i p] snoc.prems(3) show ?case by simp
qed

text \<open>A registration authorizes one run once. In any history of registrations and authorizations from a restarted
  service, with any clocks and any broker, every authorization that succeeds follows a successful registration of
  the same direct run for the same task that had not expired, and no other authorization of that run was even
  attempted in between.\<close>

theorem direct_registration_used_once:
  assumes "waiting w = (\<lambda>i. None)" and "direct_run S B w (cs @ [Authorize e now sc]) = (xs @ [(Authorize e now sc, Inr ())], v)"
  shows "\<exists>us vs t now' i sc' ttl. xs = us @ (Register t now' i sc' ttl, Inr ()) # vs \<and> scope_run S sc = Inr i \<and> owns_direct i \<and>
    (\<exists>d. canonical_task_digest S sc' = Inr d \<and> canonical_task_digest S sc = Inr d) \<and> now < t + ttl * 1000 \<and>
    (\<forall>x\<in>set vs. \<not> authorizes S i (fst x))"
proof -
  obtain ys u where run: "direct_run S B w cs = (ys, u)" by fastforce
  from assms(2) have ys: "ys = xs" and "direct_step S B (Authorize e now sc) u = (Inr (), v)"
    by (simp_all add: direct_run_snoc run split: prod.splits)
  then obtain z where "authorize_direct S B e now sc u = (Inr z, v)"
    by (auto elim!: bnd_InrE)
  from authorize_direct_effect [OF this] obtain i p d where i: "scope_run S sc = Inr i" "waiting u i = Some p" "now < pd_expires p"
    "canonical_task_digest S sc = Inr d" "pd_digest p = d" by blast
  from direct_run_backs [OF run assms(1) i(2)] i ys show ?thesis unfolding backed_def by fastforce
qed

definition direct_scope :: auth_scope where
  "direct_scope = \<lparr>sc_agent = ''qa'', sc_action = ''dispatch'', sc_workspace = ''w'', sc_project = ''p'',
     sc_contract = PDict [(''core_run_id'', PStr ''direct-1'')]\<rparr>"

definition direct_env :: call_env where
  "direct_env = \<lparr>locks = (\<lambda>n. Begun), now_ms = 2000, audit_ms = 2000, fresh_event = ''ev'', fresh_token = ''tok'', fresh_grant = ''g''\<rparr>"

definition direct_start :: direct_world where
  "direct_start = \<lparr>waiting = (\<lambda>i. None), vault = empty_store\<rparr>"

lemma bnd_lift_case: "bnd (lift r) f s = (case r of Inl x \<Rightarrow> (Inl x, s) | Inr y \<Rightarrow> f y s)"
  by (simp add: bnd_app)

lemma issue_first:
  assumes "0 < \<lfloor>ttl * 1000\<rfloor>" and "token_mac S B (fresh_token e) (own_key B) = Inr mac" and "canonical_task_digest S sc = Inr d"
    and "bound (sc_agent sc) = Inr ag" and "bound (sc_action sc) = Inr ac" and "bound (sc_workspace sc) = Inr ws"
    and "bound (sc_project sc) = Inr pr" and "identity_digest S who = Inr by" and "secret_get B (own_key B) = Inr k"
    and "begin_tx (busy_retries B) (locks e) (busy_retries B)"
  shows "\<exists>g st. issue S B e sc ttl who empty_store = (Inr g, st)"
proof -
  have "0 < ttl * 1000" using assms(1) by linarith
  then have "0 < ttl" by simp
  let ?row = "\<lparr>g_id = fresh_grant e, g_token_id = sha256 S (fresh_token e), g_token_mac = mac, g_key_id = own_key B,
    g_digest = d, g_agent = ag, g_action = ac, g_workspace = ws, g_project = pr, g_issued = now_ms e,
    g_expires = now_ms e + \<lfloor>ttl * 1000\<rfloor>, g_revoked = None, g_consumed = None, g_consumed_run = None, g_created_by = by\<rparr>"
  let ?audit = "write_audit S B e (Some (fresh_grant e)) ''ISSUED'' ''ALLOW'' None None sc d [(''key_id'', own_key B)]"
  have ins: "insert_grant ?row empty_store = (Inr (), empty_store\<lparr>grants := [?row]\<rparr>)"
    using assms(1) by (simp add: insert_grant_def empty_store_def)
  have "\<exists>st. ?audit (empty_store\<lparr>grants := [?row]\<rparr>) = (Inr (), st)"
    by (simp add: write_audit_def insert_audit_def detail_keys_def Let_def assms(9) empty_store_def)
  then obtain st where "?audit (empty_store\<lparr>grants := [?row]\<rparr>) = (Inr (), st)" ..
  with ins have body: "bnd (insert_grant ?row) (\<lambda>u. ?audit) empty_store = (Inr (), st)"
    by (simp only: bnd_Inr [where m = "insert_grant r" for r])
  with \<open>0 < ttl\<close> show ?thesis
    unfolding issue_def Let_def
    by (simp add: bnd_lift_case assms(2-8) bnd_Inr [where m = "transact B e m" for m] transact_Inr assms(10) del: insert_grant_def)
qed

lemma direct_scope_digest: "\<exists>d. canonical_task_digest ascii_std direct_scope = Inr d"
  by (simp add: canonical_task_digest_def direct_scope_def forbidden_key_def broker_sensitive_def lower_def
      replace_char_def to_lower_def char_class_defs bound_def blank_def strip_def lstrip_def)

lemma direct_scope_run: "scope_run S direct_scope = Inr ''direct-1''"
  by (simp add: scope_run_def direct_scope_def dget_def por_def str_of_def)

lemma direct_issue: "\<exists>g st. issue ascii_std sample_broker direct_env direct_scope 30 ''direct-owner-ingress'' empty_store = (Inr g, st)"
proof -
  obtain d where d: "canonical_task_digest ascii_std direct_scope = Inr d" using direct_scope_digest by blast
  have b: "bound ''qa'' = Inr ''qa''" "bound ''dispatch'' = Inr ''dispatch''" "bound ''w'' = Inr ''w''" "bound ''p'' = Inr ''p''"
    by (simp_all add: bound_def blank_def strip_def lstrip_def char_class_defs)
  have "identity_digest ascii_std ''direct-owner-ingress'' = Inr (''id-v1:'' @ sha256 ascii_std ''direct-owner-ingress'')"
    by (simp add: identity_digest_def identity_char_def char_class_defs)
  moreover have "token_mac ascii_std sample_broker (fresh_token direct_env) (own_key sample_broker) =
      Inr (hmac_sha256 ascii_std ''pepper'' ''tok'')" "secret_get sample_broker (own_key sample_broker) = Inr ''pepper''"
    "begin_tx (busy_retries sample_broker) (locks direct_env) (busy_retries sample_broker)"
    by (simp_all add: token_mac_def sample_broker_def direct_env_def)
  moreover have "0 < \<lfloor>30 * 1000 :: rat\<rfloor>" by simp
  ultimately show ?thesis using d b by (intro issue_first) (simp_all add: direct_scope_def)
qed

lemma direct_sample_run:
  "\<exists>v. direct_run ascii_std sample_broker direct_start ([Register 1000 1000 ''direct-1'' direct_scope 30] @ [Authorize direct_env 2000 direct_scope]) =
     ([(Register 1000 1000 ''direct-1'' direct_scope 30, Inr ())] @ [(Authorize direct_env 2000 direct_scope, Inr ())], v)"
proof -
  obtain d where d: "canonical_task_digest ascii_std direct_scope = Inr d" using direct_scope_digest by blast
  obtain g st where g: "issue ascii_std sample_broker direct_env direct_scope 30 ''direct-owner-ingress'' empty_store = (Inr g, st)"
    using direct_issue by blast
  let ?m = "[''direct-1'' \<mapsto> \<lparr>pd_digest = d, pd_expires = 31000\<rparr>]"
  have "direct_step ascii_std sample_broker (Register 1000 1000 ''direct-1'' direct_scope 30) direct_start =
      (Inr (), direct_start\<lparr>waiting := ?m\<rparr>)"
    by (simp add: on_waiting_def direct_start_def register_direct_def owns_direct_def bnd_lift_case d prune_def)
  moreover have "prune 2000 ?m = ?m" by (auto simp: prune_def)
  then have "direct_step ascii_std sample_broker (Authorize direct_env 2000 direct_scope) (direct_start\<lparr>waiting := ?m\<rparr>) =
      (Inr (), direct_start\<lparr>vault := st\<rparr>)"
    by (simp add: direct_start_def authorize_direct_def bnd_app on_waiting_modify on_vault_def direct_scope_run d g)
  ultimately show ?thesis by (simp add: direct_run_def)
qed

theorem direct_registration_used_once_witness:
  "\<exists>us vs t now' sc' ttl. [(Register 1000 1000 ''direct-1'' direct_scope 30, Inr () :: unit res)] = us @ (Register t now' ''direct-1'' sc' ttl, Inr ()) # vs \<and>
     2000 < t + ttl * 1000"
proof -
  obtain v where run: "direct_run ascii_std sample_broker direct_start ([Register 1000 1000 ''direct-1'' direct_scope 30] @ [Authorize direct_env 2000 direct_scope]) =
     ([(Register 1000 1000 ''direct-1'' direct_scope 30, Inr ())] @ [(Authorize direct_env 2000 direct_scope, Inr ())], v)"
    using direct_sample_run by blast
  have "waiting direct_start = (\<lambda>i. None)" by (simp add: direct_start_def)
  note used = direct_registration_used_once [OF this run]
  from used show ?thesis
  proof (elim exE conjE)
    fix us vs t now' i sc' ttl
    assume x: "[(Register 1000 1000 ''direct-1'' direct_scope 30, Inr () :: unit res)] = us @ (Register t now' i sc' ttl, Inr ()) # vs"
      and i: "scope_run ascii_std direct_scope = Inr i" and live: "2000 < t + ttl * 1000"
    have "i = ''direct-1''" using i unfolding direct_scope_run by (rule sum.inject(2) [THEN iffD1, symmetric])
    from x [unfolded this] live show ?thesis by (intro exI conjI)
  qed
qed

end
