(* ===== verification/Recovery.thy ===== *)
theory Recovery
  imports CoreLimits DirectAuth
begin

text \<open>
  \<^verbatim>\<open>plachem_fast_gateway/recovery_layer.py\<close>: what happens after a run has failed. The layer reads the finished
  record, classifies it, and dispatches at most one child through the engine; its accounting lives in the goal state
  of the child. Its state is the engine's state \<open>core\<close>; the record \<open>recovery\<close> holds the engine, the grant
  authorizer as the registration sees it, and the limits. The dispatcher is the engine, as the service wires it; the
  clock handed to the constructor is not read by any method.
\<close>

section \<open>Classification\<close>

datatype fail_class = RESULT_RECOVERABLE | SESSION_RECOVERABLE | POLICY_BLOCKED | UNKNOWN

fun fail_class_value :: "fail_class \<Rightarrow> string" where
  "fail_class_value RESULT_RECOVERABLE = ''RESULT_RECOVERABLE''"
| "fail_class_value SESSION_RECOVERABLE = ''SESSION_RECOVERABLE''"
| "fail_class_value POLICY_BLOCKED = ''POLICY_BLOCKED''"
| "fail_class_value UNKNOWN = ''UNKNOWN''"

definition result_recoverable_reasons :: "string list" where
  "result_recoverable_reasons =
     [''MISSING_RESULT'', ''OPENCLAW_RUN_MISMATCH'', ''HISTORY_WATERMARK_UNVERIFIABLE'', ''UNKNOWN_OPENCLAW_STATUS'']"

definition session_recoverable_reasons :: "string list" where
  "session_recoverable_reasons =
     [''TRANSPORT_FAILURE'', ''WAIT_REJECTED'', ''WORKER_FAILED'', ''TRANSPORT_TIMEOUT'', ''OPENCLAW_ERROR'']"

definition policy_blocked_reasons :: "string list" where
  "policy_blocked_reasons = [''POLICY_ABORT_FAILED'', ''USER_CANCEL'']"

definition result_validation_prefixes :: "string list" where
  "result_validation_prefixes =
     [''EVIDENCE_VALIDATION_FAILED:'', ''SCOPE_VALIDATION_FAILED:'', ''ARTIFACT_VALIDATION_FAILED:'',
      ''RESULT_SCHEMA_VALIDATION_FAILED:'']"

definition pre_execution_block_reasons :: "string list" where
  "pre_execution_block_reasons =
     [''AUTH_AUTH_REQUIRED'', ''AUTH_BROKER_UNAVAILABLE'', ''AUTH_BINDING_MISMATCH'', ''AUTH_FORBIDDEN_FIELD'',
      ''AUTH_EXPIRED'', ''AUTH_CONFLICT'']"

definition classify_fail :: "pyval \<Rightarrow> fail_class" where
  "classify_fail reason =
     (case as_str reason of
        None \<Rightarrow> UNKNOWN
      | Some s \<Rightarrow>
          (let v = strip s in
           if List.member policy_blocked_reasons v then POLICY_BLOCKED
           else if List.member session_recoverable_reasons v then SESSION_RECOVERABLE
           else if List.member result_recoverable_reasons v then RESULT_RECOVERABLE
           else if list_ex (starts_with v) result_validation_prefixes then RESULT_RECOVERABLE
           else UNKNOWN))"

definition is_recoverable_class :: "fail_class \<Rightarrow> bool" where
  "is_recoverable_class c \<longleftrightarrow> c = RESULT_RECOVERABLE \<or> c = SESSION_RECOVERABLE"

definition is_pre_execution_block :: "status \<Rightarrow> string \<Rightarrow> bool" where
  "is_pre_execution_block s reason \<longleftrightarrow> s = BLOCKED \<and> List.member pre_execution_block_reasons reason"

definition recovery_attempt_counts :: "run \<Rightarrow> int \<times> int" where
  "recovery_attempt_counts r =
     (or_zero (gs_recovery_dispatch (goal_state_of r)), or_zero (gs_recovery_execution (goal_state_of r)))"

section \<open>Eligibility\<close>

definition max_recovery_attempts :: int where
  "max_recovery_attempts = 1"

record recovery_verdict =
  rv_class :: fail_class
  rv_eligible :: bool
  rv_reason :: string
  rv_detail :: string

definition evaluate_recovery :: "run \<Rightarrow> int option \<Rightarrow> recovery_verdict" where
  "evaluate_recovery r existing =
     (let reason = r_reason r; c = classify_fail (PStr reason) in
      if r_watchdog_managed r then
        \<lparr>rv_class = c, rv_eligible = False, rv_reason = ''WATCHDOG_MANAGED_REQUIRES_CONTROLLED_REQUEUE'', rv_detail = reason\<rparr>
      else if r_status r \<noteq> FAIL then
        \<lparr>rv_class = c, rv_eligible = False, rv_reason = ''NOT_FAIL'', rv_detail = ''status='' @ status_value (r_status r)\<rparr>
      else if \<not> is_recoverable_class c then
        \<lparr>rv_class = c, rv_eligible = False, rv_reason = ''CLASS_NOT_RECOVERABLE'', rv_detail = reason\<rparr>
      else (let n = (case existing of None \<Rightarrow> snd (recovery_attempt_counts r) | Some n \<Rightarrow> n) in
        if max_recovery_attempts \<le> n then
          \<lparr>rv_class = c, rv_eligible = False, rv_reason = ''MAX_RECOVERY_ATTEMPTS'', rv_detail = ''execution_attempts='' @ str_int n\<rparr>
        else \<lparr>rv_class = c, rv_eligible = True, rv_reason = ''ELIGIBLE'', rv_detail = reason\<rparr>))"

text \<open>The accounting is read back from the children among the 200 most recent runs.\<close>

definition is_recovery_child :: "run \<Rightarrow> bool" where
  "is_recovery_child r =
     (case gs_recovery_source (goal_state_of r) of None \<Rightarrow> False | Some x \<Rightarrow> x \<noteq> [])"

definition recovers :: "string \<Rightarrow> run \<Rightarrow> bool" where
  "recovers i r \<longleftrightarrow> is_recovery_child r \<and> gs_recovery_source (goal_state_of r) = Some i"

definition count_existing_dispatches :: "string \<Rightarrow> (run list, int) op" where
  "count_existing_dispatches i =
     bnd (gets (recent_runs 200)) (\<lambda>found. bnd (lift found) (\<lambda>rs. ret (int (length (filter (recovers i) rs)))))"

definition max_execution_attempts :: "string \<Rightarrow> (run list, int) op" where
  "max_execution_attempts i =
     bnd (gets (recent_runs 200)) (\<lambda>found. bnd (lift found) (\<lambda>rs.
       ret (fold (\<lambda>r n. if recovers i r then max n (or_zero (gs_recovery_execution (goal_state_of r))) else n) rs 0)))"

section \<open>The verdict on a record\<close>

definition final_state_of :: "run \<Rightarrow> string" where
  "final_state_of r =
     (case r_status r of
        PASS \<Rightarrow> if is_recovery_child r then ''PASS_RECOVERED'' else ''PASS_PRIMARY''
      | FAIL \<Rightarrow> ''HARD_FAIL''
      | BLOCKED \<Rightarrow> ''POLICY_BLOCKED''
      | TIMEOUT \<Rightarrow> ''HARD_FAIL''
      | CANCELLED \<Rightarrow> ''HARD_FAIL''
      | _ \<Rightarrow> ''NEEDS_REVIEW'')"

text \<open>\<open>stats\<close>: the counters in the order of the dictionary, and the nonzero failure classes.\<close>

record recovery_stats =
  st_pass_primary :: nat
  st_pass_recovered :: nat
  st_policy_blocked :: nat
  st_hard_fail :: nat
  st_needs_review :: nat
  st_fail_unrecovered :: nat
  st_classes :: "fail_class \<Rightarrow> nat"

definition no_stats :: recovery_stats where
  "no_stats = \<lparr>st_pass_primary = 0, st_pass_recovered = 0, st_policy_blocked = 0, st_hard_fail = 0, st_needs_review = 0,
     st_fail_unrecovered = 0, st_classes = (\<lambda>c. 0)\<rparr>"

definition count_record :: "run \<Rightarrow> recovery_stats \<Rightarrow> recovery_stats" where
  "count_record r k =
     (let c = classify_fail (PStr (r_reason r)); child = is_recovery_child r in
      if r_status r = PASS then
        (if child then k\<lparr>st_pass_recovered := st_pass_recovered k + 1\<rparr> else k\<lparr>st_pass_primary := st_pass_primary k + 1\<rparr>)
      else if r_status r = FAIL then
        (let k1 = k\<lparr>st_classes := (st_classes k)(c := st_classes k c + 1)\<rparr>
         in if child then k1 else k1\<lparr>st_fail_unrecovered := st_fail_unrecovered k1 + 1\<rparr>)
      else if r_status r = BLOCKED \<and> child then k\<lparr>st_policy_blocked := st_policy_blocked k + 1\<rparr>
      else if r_status r = TIMEOUT \<and> child then k\<lparr>st_hard_fail := st_hard_fail k + 1\<rparr>
      else if r_status r = CANCELLED \<and> child then k\<lparr>st_hard_fail := st_hard_fail k + 1\<rparr>
      else k)"

definition recovery_stats_of :: "run list \<Rightarrow> recovery_stats \<times> (string \<times> nat) list \<times> nat" where
  "recovery_stats_of rs =
     (let k = fold count_record rs no_stats
      in (k, filter (\<lambda>(n, v). v \<noteq> 0) (map (\<lambda>c. (fail_class_value c, st_classes k c))
               [RESULT_RECOVERABLE, SESSION_RECOVERABLE, POLICY_BLOCKED, UNKNOWN]), length rs))"

section \<open>The message and the contract of the child\<close>

definition recovery_note :: string where
  "recovery_note = ''This is one recovery attempt after a terminal FAIL. ''"

definition watchdog_note :: string where
  "watchdog_note =
     ''This is one recovery attempt after JEV Watchdog stopped a non-progressing session. '' @
     ''Do not repeat approaches recorded as failed or non-progressing. ''"

definition remaining_conditions :: "run \<Rightarrow> string list" where
  "remaining_conditions r =
     (let g = r_goal_contract r;
          open_ones = sort (remdups (filter (\<lambda>c. \<not> List.member (vp_completed (r_progress r)) c) (completion_conditions g)))
      in if open_ones = [] then completion_conditions g else open_ones)"

definition recovery_package :: "run \<Rightarrow> fail_class \<Rightarrow> pyval" where
  "recovery_package r c = PDict
     [(''goal_contract'', PDict (contract_dict (r_goal_contract r))),
      (''verified_progress'', PDict (progress_dict (r_progress r))),
      (''prior_run'', PDict [(''core_run_id'', PStr (r_id r)), (''status'', PStr (status_value (r_status r))),
         (''reason'', PStr (r_reason r)), (''fail_class'', PStr (fail_class_value c)), (''format_error'', PStr (r_format_error r))]),
      (''recovery_instruction'', PStr (recovery_note @
         ''Complete only the remaining unverified completion conditions. '' @
         ''Reuse already verified progress; do not restate it as new work. '' @
         ''Never claim evidence or artifacts that were not actually produced '' @
         ''or verified in this run.'')),
      (''needed_evidence'', PDict [(''completion_conditions'', str_list (remaining_conditions r)),
         (''instruction'', PStr ''Supply only evidence actually established in this run.'')])]"

text \<open>The prior evidence may be any JSON dictionary; an empty one is left out, one that is not JSON raises.\<close>

definition prior_block :: "std \<Rightarrow> pydict option \<Rightarrow> string res" where
  "prior_block S prior =
     (case prior of
        None \<Rightarrow> Inr []
      | Some d \<Rightarrow> if d = [] then Inr [] else
          rbind (dumps (float_repr S) True (PDict d)) (\<lambda>t. Inr ('' Prior run evidence (read-only, do not re-claim): '' @ t)))"

definition recovery_message :: "std \<Rightarrow> run \<Rightarrow> fail_class \<Rightarrow> pydict option \<Rightarrow> string res" where
  "recovery_message S r c prior =
     rbind (prior_block S prior) (\<lambda>block. Inr (
       ''Execute the immutable original goal from this verified execution package: '' @
       jdump (float_repr S) True (recovery_package r c) @
       '' Do not replace the objective or extend its allowed scope.'' @ block @ '' '' @
       ''The final assistant response must be exactly one raw JSON object. '' @
       ''Do not use Markdown code fences and do not add prose before or after the JSON object. '' @
       ''Top-level fields status, summary, evidence, artifacts, and scope are mandatory. '' @
       ''status: '' @ quoted ''completed'' @ '' only when all remaining conditions are actually verified, '' @
       ''otherwise '' @ quoted ''failed'' @ '' or '' @ quoted ''blocked'' @ ''. summary: concise actual outcome. '' @
       ''evidence: non-empty array of {'' @ quoted ''type'' @ '','' @ quoted ''detail'' @ ''} objects for this run only. '' @
       ''artifacts: array of {'' @ quoted ''path'' @ ''} for outputs newly produced by this run. '' @
       ''scope: {'' @ quoted ''compliant'' @ '': true, '' @ quoted ''violations'' @ '': []}.''))"

text \<open>\<open>message.replace(old, new, 1)\<close>\<close>

fun replace_first :: "string \<Rightarrow> string \<Rightarrow> string \<Rightarrow> string" where
  "replace_first [] old new = (if old = [] then new else [])"
| "replace_first (c # s) old new =
     (if starts_with (c # s) old then new @ drop (length old) (c # s) else c # replace_first s old new)"

definition watchdog_message :: "std \<Rightarrow> run \<Rightarrow> pydict option \<Rightarrow> string res" where
  "watchdog_message S r prior =
     rbind (recovery_message S r SESSION_RECOVERABLE prior) (\<lambda>m. Inr (replace_first m recovery_note watchdog_note))"

text \<open>A stored contract always has its five fields, so the projection drops the goal identifier only.\<close>

definition recovery_contract :: "run \<Rightarrow> pyval" where
  "recovery_contract r = PDict (contract_input (r_goal_contract r))"

section \<open>The layer\<close>

text \<open>
  The grant authorizer as \<open>_register_auth_grant\<close> distinguishes it: the router of all namespaces, the direct one, or
  an object (named by its class) without \<open>register\<close>.
\<close>

datatype registrar = Composite "authorizer list" | Direct | NoRegister string

record 'w recovery =
  rc_engine :: "'w deps"
  rc_registrar :: registrar
  rc_register :: "string \<Rightarrow> auth_scope \<Rightarrow> 'w \<Rightarrow> unit res \<times> 'w"
  rc_max_attempts :: int
  rc_max_dispatches :: int

definition recovery_layer ::
  "'w deps \<Rightarrow> registrar \<Rightarrow> (string \<Rightarrow> auth_scope \<Rightarrow> 'w \<Rightarrow> unit res \<times> 'w) \<Rightarrow> int \<Rightarrow> int \<Rightarrow> 'w recovery" where
  "recovery_layer D a register attempts dispatches =
     \<lparr>rc_engine = D, rc_registrar = a, rc_register = register, rc_max_attempts = max 1 attempts, rc_max_dispatches = max 1 dispatches\<rparr>"

definition register_auth_grant :: "'w recovery \<Rightarrow> string \<Rightarrow> auth_scope \<Rightarrow> ('w core, unit) op" where
  "register_auth_grant L i sc =
     (case rc_registrar L of
        Composite azs \<Rightarrow>
          if list_ex (\<lambda>a. owns_by a i \<and> is_direct a) azs then ask_world (rc_register L i sc)
          else raise (ValueError (''no authorizer with register() owns '' @ i))
      | Direct \<Rightarrow> ask_world (rc_register L i sc)
      | NoRegister name \<Rightarrow> raise (ValueError (''grant_authorizer '' @ name @ '' has no register()'')))"

definition found_run :: "string \<Rightarrow> ('w core, run) op" where
  "found_run i = bnd (reg (gets (get_run i))) (\<lambda>found.
     case found of None \<Rightarrow> raise (ValueError (''UNKNOWN_CORE_RUN:'' @ i)) | Some r \<Rightarrow> ret r)"

definition classify :: "string \<Rightarrow> ('w core, recovery_verdict) op" where
  "classify i = bnd (found_run i) (\<lambda>r. bnd (reg (max_execution_attempts i)) (\<lambda>n. ret (evaluate_recovery r (Some n))))"

record recovery_answer =
  ra_status :: string
  ra_verdict :: recovery_verdict
  ra_source :: string
  ra_child :: "string option"
  ra_dispatch_attempt :: int
  ra_execution_attempt :: int
  ra_started :: bool
  ra_final :: "string option"
  ra_at :: rat

definition rejected :: "'w recovery \<Rightarrow> recovery_verdict \<Rightarrow> string \<Rightarrow> string \<Rightarrow> ('w core, recovery_answer) op" where
  "rejected L v i final = bnd (on_world (clock (rc_engine L))) (\<lambda>now. ret
     \<lparr>ra_status = ''REJECTED'', ra_verdict = v\<lparr>rv_eligible := False\<rparr>, ra_source = i, ra_child = None, ra_dispatch_attempt = 0,
      ra_execution_attempt = 0, ra_started = False, ra_final = Some final, ra_at = now\<rparr>)"

section \<open>One recovery attempt\<close>

definition dispatch_reject_codes :: "string list" where
  "dispatch_reject_codes =
     [''INVALID_MESSAGE'', ''INVALID_TIMEOUT'', ''IDEMPOTENCY_CONFLICT'', ''UNKNOWN_AGENT'', ''AUTH_TOKEN_MISMATCH'',
      ''FORBIDDEN_FIELD'']"

text \<open>What a child is dispatched with. The child of a failed run keeps the defaults of \<open>dispatch\<close>; the child of a
  watchdog keeps task class, approved paths and management of its source.\<close>

definition recovery_request :: "run \<Rightarrow> string \<Rightarrow> string \<Rightarrow> string \<Rightarrow> dispatch_request" where
  "recovery_request r child key message =
     \<lparr>dq_agent = r_agent r, dq_message = PStr message, dq_timeout = PFloat 10, dq_run_id = Some child, dq_key = Some key,
      dq_goal = recovery_contract r, dq_session_key = None, dq_parent = None, dq_resets = 0, dq_managed = False, dq_token = None,
      dq_action = ''dispatch'', dq_workspace = ''command-center'', dq_project = ''fast-gateway'', dq_task_class = ''STANDARD'',
      dq_approved = PNone\<rparr>"

text \<open>The scope registered for the child; \<open>normalize_goal_contract\<close> may raise.\<close>

definition child_scope :: "'w recovery \<Rightarrow> run \<Rightarrow> string \<Rightarrow> string \<Rightarrow> string \<Rightarrow> auth_scope res" where
  "child_scope L r child key message =
     (let S = stdlib (rc_engine L) in
      rbind (normalize_goal_contract S (recovery_contract r)) (\<lambda>g. Inr
        (execution_auth_scope S (r_agent r) message child key (contract_dict g) ''dispatch'' ''command-center'' ''fast-gateway'')))"

text \<open>The grant of the child; a refusal is a reason and a detail.\<close>

definition secure_child :: "'w recovery \<Rightarrow> run \<Rightarrow> string \<Rightarrow> string \<Rightarrow> string \<Rightarrow> ('w core, (string \<times> string) option) op" where
  "secure_child L r child key message =
     (if \<not> (broker_present (rc_engine L) \<and> authorizer_present (rc_engine L)) then ret None
      else if \<not> owns_run (rc_engine L) child
        then ret (Some (''AUTH_GRANT_UNAVAILABLE'', ''grant_authorizer does not own '' @ child))
      else bnd (attempt (bnd (lift (child_scope L r child key message)) (register_auth_grant L child))) (\<lambda>answer.
        case answer of
          Inr u \<Rightarrow> ret None
        | Inl e \<Rightarrow> ret (Some (''AUTH_GRANT_REGISTRATION_FAILED'', exn_name e @ '': '' @ exn_text e))))"

record recovery_plan =
  rp_verdict :: recovery_verdict
  rp_source :: run
  rp_child :: string
  rp_dispatches :: int
  rp_request :: dispatch_request

text \<open>\<open>attempt_recovery\<close> up to the dispatch: refused, or a child whose grant is registered.\<close>

definition prepare_recovery :: "'w recovery \<Rightarrow> string \<Rightarrow> pydict option \<Rightarrow> ('w core, recovery_answer + recovery_plan) op" where
  "prepare_recovery L i prior =
     bnd (found_run i) (\<lambda>r.
     bnd (reg (max_execution_attempts i)) (\<lambda>executed.
     let v = evaluate_recovery r (Some executed) in
     if \<not> rv_eligible v then bnd (rejected L v i (final_state_of r)) (\<lambda>a. ret (Inl a)) else
     bnd (reg (count_existing_dispatches i)) (\<lambda>n.
     if rc_max_dispatches L \<le> n then
       bnd (rejected L (v\<lparr>rv_reason := ''MAX_DISPATCH_ATTEMPTS'', rv_detail := ''dispatch_attempts='' @ str_int n\<rparr>) i
         ''POLICY_BLOCKED'') (\<lambda>a. ret (Inl a))
     else
     bnd (on_world (new_uuid (rc_engine L))) (\<lambda>u.
     let child = i @ ''-rec-'' @ take 8 u;
         key = (if r_idempotency r = [] then i else r_idempotency r) @ '':rec:'' @ str_int (n + 1)
     in bnd (lift (recovery_message (stdlib (rc_engine L)) r (rv_class v) prior)) (\<lambda>message.
        bnd (secure_child L r child key message) (\<lambda>refusal.
        case refusal of
          Some (reason, detail) \<Rightarrow>
            bnd (rejected L (v\<lparr>rv_reason := reason, rv_detail := detail\<rparr>) i ''POLICY_BLOCKED'') (\<lambda>a. ret (Inl a))
        | None \<Rightarrow> ret (Inr \<lparr>rp_verdict = v, rp_source = r, rp_child = child, rp_dispatches = n,
                    rp_request = recovery_request r child key message\<rparr>)))))))"

definition recovery_goal :: "string \<Rightarrow> int \<Rightarrow> int \<Rightarrow> goal_state" where
  "recovery_goal i dispatched executed = empty_goal_state
     \<lparr>gs_recovery_source := Some i, gs_recovery_dispatch := Some dispatched, gs_recovery_execution := Some executed\<rparr>"

text \<open>After the dispatch: its refusal, or the accounting on the child and the answer.\<close>

definition conclude_recovery :: "'w recovery \<Rightarrow> string \<Rightarrow> recovery_plan \<Rightarrow> run res \<Rightarrow> ('w core, recovery_answer) op" where
  "conclude_recovery L i p answer =
     (let v = rp_verdict p in
      case answer of
        Inl e \<Rightarrow>
          if is_value_error e then
            (let c = before_char CHR '':'' (exn_text e);
                 reason = (if List.member dispatch_reject_codes c then c else ''DISPATCH_REJECTED'')
             in rejected L (v\<lparr>rv_reason := reason, rv_detail := c\<rparr>) i ''POLICY_BLOCKED'')
          else raise e
      | Inr d \<Rightarrow>
          (let n = rp_dispatches p + 1;
               started = (\<not> is_pre_execution_block (r_status d) (r_reason d));
               executed = (if started then 1 else 0);
               goal = recovery_goal i n executed
           in bnd (note_goal (rc_engine L) (rp_child p) (no_goal_update\<lparr>gu_goal_state := Some goal,
                gu_event := Some ''RECOVERY_ATTEMPTED'', gu_details :=
                  [(''source_run_id'', PStr i), (''source_reason'', PStr (r_reason (rp_source p))),
                   (''fail_class'', PStr (fail_class_value (rv_class v))), (''dispatch_attempt'', PInt n),
                   (''execution_attempt'', PInt executed), (''execution_started'', PBool started),
                   (''max_attempts'', PInt (rc_max_attempts L)), (''max_dispatch_attempts'', PInt (rc_max_dispatches L)),
                   (''dispatched_status'', PStr (status_value (r_status d))), (''dispatched_reason'', PStr (r_reason d))]\<rparr>)) (\<lambda>noted.
              bnd (if started then bnd (note_goal (rc_engine L) (rp_child p) (no_goal_update\<lparr>gu_goal_state := Some goal,
                     gu_event := Some ''RECOVERY_EXECUTION_STARTED'', gu_details :=
                       [(''source_run_id'', PStr i), (''dispatch_attempt'', PInt n), (''execution_attempt'', PInt executed)]\<rparr>))
                     (\<lambda>x. ret ())
                   else ret ()) (\<lambda>u. ret
                \<lparr>ra_status = ''DISPATCHED'', ra_verdict = v, ra_source = i, ra_child = Some (rp_child p), ra_dispatch_attempt = n,
                 ra_execution_attempt = executed, ra_started = started,
                 ra_final = (if terminal (r_status d) then Some (final_state_of d) else None), ra_at = r_updated noted\<rparr>))))"

definition attempt_recovery :: "'w recovery \<Rightarrow> string \<Rightarrow> pydict option \<Rightarrow> ('w core, recovery_answer) op" where
  "attempt_recovery L i prior =
     bnd (prepare_recovery L i prior) (\<lambda>plan.
     case plan of
       Inl a \<Rightarrow> ret a
     | Inr p \<Rightarrow> bnd (attempt (dispatch (rc_engine L) (rp_request p))) (conclude_recovery L i p))"

section \<open>Waiting for the child\<close>

text \<open>A wait whose \<open>ValueError\<close> falls back to the stored record; \<open>None\<close> outside is a wait that never returns.\<close>

definition settled_child :: "'w recovery \<Rightarrow> string \<Rightarrow> rat \<Rightarrow> 'w core \<Rightarrow> (run option res \<times> 'w core) option" where
  "settled_child L c seconds s =
     (case wait (rc_engine L) c (PFloat seconds) s of
        None \<Rightarrow> None
      | Some (answer, t) \<Rightarrow> (case answer of
          Inr q \<Rightarrow> Some (Inr (Some q), t)
        | Inl e \<Rightarrow> if is_value_error e then Some (Inr (get_run c (runs t)), t) else Some (Inl e, t)))"

definition child_verdict :: "run option \<Rightarrow> (run \<times> string) res" where
  "child_verdict found =
     (case found of
        None \<Rightarrow> Inl (ValueError (CHR 0x27 # CHR 0x27 # '' is not a valid CoreRunStatus''))
      | Some q \<Rightarrow> Inr (q, if terminal (r_status q) then final_state_of q else ''NEEDS_REVIEW''))"

definition recover :: "'w recovery \<Rightarrow> string \<Rightarrow> rat \<Rightarrow> 'w core \<Rightarrow> (recovery_answer res \<times> 'w core) option" where
  "recover L i seconds s =
     (case attempt_recovery L i None s of (answer, t) \<Rightarrow>
        (case answer of
           Inl e \<Rightarrow> Some (Inl e, t)
         | Inr a \<Rightarrow>
             if ra_status a = ''REJECTED'' \<or> ra_final a \<noteq> None then Some (Inr a, t)
             else (case ra_child a of
                 None \<Rightarrow> Some (Inr a, t)
               | Some c \<Rightarrow> (case settled_child L c seconds t of
                   None \<Rightarrow> None
                 | Some (found, u) \<Rightarrow>
                     Some (rbind found (\<lambda>q. rbind (child_verdict q) (\<lambda>(r, v). Inr (a\<lparr>ra_final := Some v\<rparr>))), u)))))"

record wait_answer =
  wa_child :: string
  wa_status :: string
  wa_reason :: string
  wa_dispatch_attempt :: int
  wa_execution_attempt :: int
  wa_final :: string
  wa_at :: rat

definition wait_recovery :: "'w recovery \<Rightarrow> string \<Rightarrow> rat \<Rightarrow> 'w core \<Rightarrow> (wait_answer res \<times> 'w core) option" where
  "wait_recovery L c seconds s =
     (case settled_child L c seconds s of
        None \<Rightarrow> None
      | Some (found, t) \<Rightarrow> Some (bnd (lift (rbind found child_verdict)) (\<lambda>(r, v).
          bnd (on_world (clock (rc_engine L))) (\<lambda>now. ret
            \<lparr>wa_child = c, wa_status = status_value (r_status r), wa_reason = r_reason r,
             wa_dispatch_attempt = fst (recovery_attempt_counts r), wa_execution_attempt = snd (recovery_attempt_counts r),
             wa_final = v, wa_at = now\<rparr>)) t))"

section \<open>Runs managed by a watchdog\<close>

record watchdog_answer =
  wd_status :: string
  wd_reason :: "string option"
  wd_source :: string
  wd_source_status :: "status option"
  wd_detail :: "string option"
  wd_child :: "string option"
  wd_child_status :: "status option"
  wd_rechecked :: bool
  wd_goal_preserved :: bool
  wd_paths_preserved :: bool

definition watchdog_says :: "string \<Rightarrow> string \<Rightarrow> string \<Rightarrow> watchdog_answer" where
  "watchdog_says st why i = \<lparr>wd_status = st, wd_reason = Some why, wd_source = i, wd_source_status = None, wd_detail = None,
     wd_child = None, wd_child_status = None, wd_rechecked = False, wd_goal_preserved = False, wd_paths_preserved = False\<rparr>"

definition requeue_package :: "run \<Rightarrow> pydict option \<Rightarrow> string \<Rightarrow> pydict" where
  "requeue_package r prior action =
     [(''source_run_id'', PStr (r_id r)), (''source_status'', PStr (status_value (r_status r))), (''agent_id'', PStr (r_agent r)),
      (''goal_contract'', PDict (contract_dict (r_goal_contract r))), (''verified_progress'', PDict (progress_dict (r_progress r))),
      (''watchdog_snapshot'', PDict (case prior of None \<Rightarrow> [] | Some d \<Rightarrow> d)), (''required_action'', PStr action)]"

definition note_requeue :: "'w recovery \<Rightarrow> string \<Rightarrow> run \<Rightarrow> pydict option \<Rightarrow> string \<Rightarrow> ('w core, watchdog_answer) op" where
  "note_requeue L i r prior action =
     bnd (note_goal (rc_engine L) i (no_goal_update\<lparr>gu_event := Some ''WATCHDOG_REQUEUE_REQUIRED'',
       gu_details := [(''source_run_id'', PStr i)], gu_escalation_reason := Some ''WATCHDOG_REQUEUE_REQUIRED'',
       gu_escalation_package := Some (requeue_package r prior action)\<rparr>)) (\<lambda>x.
     ret (watchdog_says ''REQUEUE_REQUIRED'' ''WATCHDOG_REQUEUE_REQUIRED'' i))"

definition mark_watchdog_requeue :: "'w recovery \<Rightarrow> string \<Rightarrow> pydict option \<Rightarrow> ('w core, watchdog_answer) op" where
  "mark_watchdog_requeue L i prior =
     bnd (found_run i) (\<lambda>r.
     if \<not> r_watchdog_managed r then ret (watchdog_says ''REJECTED'' ''WATCHDOG_NOT_MANAGED'' i)
     else note_requeue L i r prior ''STOP_AND_REQUEUE_THROUGH_CONTROLLED_LANE'')"

definition watchdog_children :: "string \<Rightarrow> (run list, nat) op" where
  "watchdog_children i =
     bnd (gets (recent_runs 200)) (\<lambda>found. bnd (lift found) (\<lambda>rs.
       ret (length (filter (\<lambda>r. gs_watchdog_source (goal_state_of r) = Some i) rs))))"

definition watchdog_request :: "run \<Rightarrow> string \<Rightarrow> string \<Rightarrow> string \<Rightarrow> dispatch_request" where
  "watchdog_request r child key message =
     (recovery_request r child key message)\<lparr>dq_managed := True, dq_task_class := task_class_value (pm_task_class (r_policy r)),
       dq_approved := str_list (r_approved_paths r)\<rparr>"

text \<open>Here the goal contract is normalised outside the \<open>try\<close> that guards the registration.\<close>

definition secure_watchdog_child ::
  "'w recovery \<Rightarrow> run \<Rightarrow> string \<Rightarrow> string \<Rightarrow> string \<Rightarrow> ('w core, watchdog_answer option) op" where
  "secure_watchdog_child L r child key message =
     (if \<not> (broker_present (rc_engine L) \<and> authorizer_present (rc_engine L)) then ret None
      else if \<not> owns_run (rc_engine L) child then ret (Some (watchdog_says ''POLICY_BLOCKED'' ''AUTH_GRANT_UNAVAILABLE'' (r_id r)))
      else bnd (lift (child_scope L r child key message)) (\<lambda>sc.
           bnd (attempt (register_auth_grant L child sc)) (\<lambda>answer.
           case answer of
             Inr u \<Rightarrow> ret None
           | Inl e \<Rightarrow> ret (Some ((watchdog_says ''POLICY_BLOCKED'' ''AUTH_GRANT_REGISTRATION_FAILED'' (r_id r))
               \<lparr>wd_detail := Some (exn_name e)\<rparr>)))))"

definition conclude_watchdog :: "'w recovery \<Rightarrow> string \<Rightarrow> run \<Rightarrow> string \<Rightarrow> run res \<Rightarrow> ('w core, watchdog_answer) op" where
  "conclude_watchdog L i r child answer =
     (case answer of
        Inl e \<Rightarrow> if is_value_error e then ret (watchdog_says ''POLICY_BLOCKED'' (before_char CHR '':'' (exn_text e)) i) else raise e
      | Inr d \<Rightarrow>
          bnd (note_goal (rc_engine L) child (no_goal_update
            \<lparr>gu_goal_state := Some (empty_goal_state\<lparr>gs_watchdog_source := Some i, gs_watchdog_attempt := Some 1\<rparr>),
             gu_event := Some ''WATCHDOG_RECOVERY_DISPATCHED'', gu_details :=
               [(''source_run_id'', PStr i), (''source_status'', PStr (status_value (r_status r))), (''auth_rechecked'', PBool True),
                (''approved_paths_preserved'', str_list (r_approved_paths r))]\<rparr>)) (\<lambda>c. ret
          \<lparr>wd_status = ''DISPATCHED'', wd_reason = None, wd_source = i, wd_source_status = None, wd_detail = None,
           wd_child = Some child, wd_child_status = Some (r_status d), wd_rechecked = True,
           wd_goal_preserved = (r_goal_contract c = r_goal_contract r), wd_paths_preserved = (r_approved_paths c = r_approved_paths r)\<rparr>))"

definition recover_watchdog_cancelled :: "'w recovery \<Rightarrow> string \<Rightarrow> pydict option \<Rightarrow> ('w core, watchdog_answer) op" where
  "recover_watchdog_cancelled L i prior =
     bnd (found_run i) (\<lambda>r.
     if \<not> r_watchdog_managed r then ret (watchdog_says ''REJECTED'' ''WATCHDOG_NOT_MANAGED'' i)
     else if gs_watchdog_source (goal_state_of r) \<noteq> None \<and> gs_watchdog_source (goal_state_of r) \<noteq> Some []
       then ret (watchdog_says ''REJECTED'' ''MAX_WATCHDOG_RECOVERY_GENERATION'' i)
     else if \<not> owns_direct i then note_requeue L i r prior ''REQUEUE_THROUGH_CONTROLLED_LANE''
     else if r_status r \<noteq> CANCELLED then
       ret ((watchdog_says ''REJECTED'' ''SOURCE_NOT_CANCELLED'' i)\<lparr>wd_source_status := Some (r_status r)\<rparr>)
     else
     bnd (reg (watchdog_children i)) (\<lambda>n.
     if 1 \<le> n then ret (watchdog_says ''REJECTED'' ''MAX_WATCHDOG_RECOVERY_ATTEMPTS'' i) else
     bnd (on_world (new_uuid (rc_engine L))) (\<lambda>u1. bnd (on_world (new_uuid (rc_engine L))) (\<lambda>u2.
     let child = ''direct-'' @ u1; key = ''direct:watchdog:'' @ u2
     in bnd (lift (watchdog_message (stdlib (rc_engine L)) r prior)) (\<lambda>message.
        bnd (secure_watchdog_child L r child key message) (\<lambda>refusal.
        case refusal of
          Some a \<Rightarrow> ret a
        | None \<Rightarrow> bnd (attempt (dispatch (rc_engine L) (watchdog_request r child key message)))
                    (conclude_watchdog L i r child)))))))"

end
