(* ===== verification/CoreFrame.thy ===== *)
theory CoreFrame
  imports CoreLimits
begin

text \<open>
  The frame of the engine's operations: what an operation on one run leaves alone. The relation \<open>leaves_others\<close> is
  one more instance of the locale \<open>guarantee\<close>, so the frame of a handler follows from the frames of its parts.
\<close>

section \<open>The registry\<close>

definition rest_kept :: "string \<Rightarrow> run list \<Rightarrow> run list \<Rightarrow> bool" where
  "rest_kept i rs qs \<longleftrightarrow> (\<forall>j. j \<noteq> i \<longrightarrow> get_run j qs = get_run j rs)"

interpretation rest: guarantee "rest_kept i" for i
  by unfold_locales (auto simp: rest_kept_def)

lemma rest_kept_append: "r_id r = i \<Longrightarrow> rest_kept i rs (rs @ [r])"
  by (simp add: rest_kept_def)

lemma rest_require:
  assumes "\<And>r rs. get_run i rs = Some r \<Longrightarrow> rest_kept i rs (snd (f r rs))"
  shows "guar (rest_kept i) (bnd (require_run i) f)"
  unfolding guar_def require_run_bnd using assms by (auto simp: rest.R_refl split: option.split)

lemma rest_successor: "get_run i rs = Some r \<Longrightarrow> same_identity r q \<Longrightarrow> rest_kept i rs (rs @ [q])"
  using get_run_Some [of i rs r] by (intro rest_kept_append) (simp add: same_identity_def)

lemma create_run_rest: "guar (rest_kept i) (create_run i ag key h pol goal parent resets approved managed now)"
  unfolding guar_def create_run_def
  by (auto simp: append_run_bnd Let_def new_run_def intro!: rest.R_refl rest_kept_append split: option.split)

lemma transition_rest: "guar (rest_kept i) (transition i s b oc why now)"
  unfolding transition_def
  by (rule rest_require) (auto simp: Let_def append_run_bnd moved_run_keeps intro!: rest.R_refl rest_successor)

lemma update_goal_state_rest: "guar (rest_kept i) (update_goal_state i u t now)"
  unfolding update_goal_state_def
  by (rule rest_require)
     (auto simp: Let_def append_run_bnd apply_goal_update_keeps intro!: rest.R_refl rest_successor split: option.split)

lemma update_policy_rest: "guar (rest_kept i) (update_policy i u t now)"
  unfolding update_policy_def
  by (rule rest_require)
     (auto simp: bnd_app Let_def append_run_def apply_policy_update_keeps intro!: rest.R_refl rest_successor split: sum.split)

section \<open>The engine\<close>

definition leaves_others :: "string \<Rightarrow> 'w core \<Rightarrow> 'w core \<Rightarrow> bool" where
  "leaves_others i s t \<longleftrightarrow> rest_kept i (runs s) (runs t)"

interpretation aside: guarantee "leaves_others i" for i
  by unfold_locales (auto simp: leaves_others_def rest.R_refl intro: rest.R_trans)

lemma leaves_others_runs: "runs t = runs s \<Longrightarrow> leaves_others i s t"
  by (simp add: leaves_others_def rest.R_refl)

lemma leaves_othersD: "leaves_others i s t \<Longrightarrow> j \<noteq> i \<Longrightarrow> get_run j (runs t) = get_run j (runs s)"
  by (simp add: leaves_others_def rest_kept_def)

lemma on_world_aside: "guar (leaves_others i) (on_world f)"
  by (simp add: guar_def on_world_app leaves_others_runs)

lemma ask_world_aside: "guar (leaves_others i) (ask_world f)"
  by (simp add: guar_def ask_world_app leaves_others_runs)

lemma reg_aside: "guar (rest_kept i) m \<Longrightarrow> guar (leaves_others i) (reg m)"
  by (auto simp: guar_def reg_def leaves_others_def split: prod.split) (metis snd_conv)

lemma modify_timers_aside: "guar (leaves_others i) (modify (\<lambda>s. s\<lparr>timers := f s\<rparr>))"
  by (simp add: guar_def leaves_others_runs)

lemma require_record_aside: "guar (leaves_others i) (require_record j)"
  unfolding require_record_def require_run_def
  by (intro reg_aside rest.guar_bnd rest.guar_gets rest.guar_option rest.guar_raise rest.guar_ret)

lemma move_aside: "guar (leaves_others i) (move D i s b oc why)"
  unfolding move_def by (intro aside.guar_bnd on_world_aside reg_aside transition_rest)

lemma note_policy_aside: "guar (leaves_others i) (note_policy D i u)"
  unfolding note_policy_def by (intro aside.guar_bnd on_world_aside reg_aside update_policy_rest)

lemma note_goal_aside: "guar (leaves_others i) (note_goal D i u)"
  unfolding note_goal_def by (intro aside.guar_bnd on_world_aside reg_aside update_goal_state_rest)

lemma clear_deadline_aside: "guar (leaves_others i) (clear_deadline j)"
  unfolding clear_deadline_def by (rule modify_timers_aside)

lemma gets_aside: "guar (leaves_others i) (reg (gets f))"
  by (intro reg_aside rest.guar_gets)

lemmas aside_rules = aside.guar_bnd aside.guar_lift aside.guar_ret aside.guar_raise aside.guar_gets aside.guar_attempt
  aside.guar_if aside.guar_let aside.guar_option aside.guar_sum aside.guar_prod on_world_aside ask_world_aside
  require_record_aside move_aside note_policy_aside note_goal_aside clear_deadline_aside gets_aside

lemma schedule_deadline_aside: "guar (leaves_others i) (schedule_deadline j p b)"
  unfolding schedule_deadline_def by (intro aside_rules modify_timers_aside)

lemma submit_run_aside: "guar (leaves_others i) (submit_run D q i key a r)"
  unfolding submit_run_def by (intro aside_rules schedule_deadline_aside)

lemma authorize_and_submit_aside: "guar (leaves_others i) (authorize_and_submit D q i key a r)"
  unfolding authorize_and_submit_def authorize_run_def by (intro aside_rules submit_run_aside)

lemma dispatch_aside:
  assumes "dq_run_id q = Some i" and "i \<noteq> []" shows "guar (leaves_others i) (dispatch D q)"
proof -
  have i: "run_identity D q = ret i" using assms by (auto simp: run_identity_def)
  have r: "bnd (ret i) f = f i" for f :: "string \<Rightarrow> ('w core, run) op" by (rule ext) simp
  show ?thesis
    unfolding dispatch_def create_record_def i r
    by (intro aside_rules authorize_and_submit_aside reg_aside create_run_rest)
qed

section \<open>What a dispatch leaves\<close>

lemma authorize_and_submit_result:
  assumes "authorize_and_submit D q i key a r s = (Inr p, t)" shows "get_run i (runs t) = Some p"
proof -
  have m: "get_run i (runs t) = Some p" if "move D i st b oc why s' = (Inr p, t)" for st b oc why s'
    using move_Inr [OF that] by simp
  have sub: "get_run i (runs t) = Some p" if "submit_run D q i key a r s' = (Inr p, t)" for s'
    using submit_run_result [OF that] by simp
  from assms show ?thesis
    by (auto simp: authorize_and_submit_def elim!: bnd_InrE split: if_split_asm sum.split_asm option.split_asm dest: m sub)
qed

lemma authorize_and_submit_guar: "guar core_grows (authorize_and_submit D q i key a r)"
  unfolding authorize_and_submit_def by (intro engine_rules authorize_run_guar submit_run_guar)

text \<open>A dispatch that creates its run returns the current record, with the identity that the request and its admission fix.\<close>

lemma dispatch_new_result:
  assumes "dispatch D q s = (Inr p, t)" and "dq_run_id q = Some i" and "i \<noteq> []" and "get_run i (runs s) = None"
  shows "\<exists>checked a. check_dispatch D q = Inr checked \<and> admit D q i checked = Inr a \<and> get_run i (runs t) = Some p \<and>
    r_id p = i \<and> r_agent p = dq_agent q \<and> r_goal_contract p = ad_contract a \<and> r_watchdog_managed p = dq_managed q \<and>
    r_approved_paths p = ad_approved a \<and> r_policy p = policy_metadata (ad_profile a) \<and> r_idempotency p = dispatch_key q i"
proof -
  from dispatch_new [OF assms] obtain a r s1 where new: "new_dispatch D q i s a r s1"
    and sub: "authorize_and_submit D q i (dispatch_key q i) a r s1 = (Inr p, t)" by blast
  from new obtain checked where c: "check_dispatch D q = Inr checked" "admit D q i checked = Inr a"
    and cr: "create_record D q i a s = (Inr (r, True), s1)" and r: "get_run i (runs s1) = Some r"
    by (auto simp: new_dispatch_def)
  have "core_grows s1 t"
    using guarD [OF authorize_and_submit_guar, of s1 D q i "dispatch_key q i" a r] sub by simp
  with r authorize_and_submit_result [OF sub] have "same_identity r p" by (auto simp: core_grows_def dest: grows_get_run)
  moreover have "r_id r = i" "r_agent r = dq_agent q" "r_goal_contract r = ad_contract a" "r_watchdog_managed r = dq_managed q"
    "r_approved_paths r = ad_approved a" "r_policy r = policy_metadata (ad_profile a)" "r_idempotency r = dispatch_key q i"
    unfolding create_record_new [OF cr] by (simp_all add: new_run_def)
  ultimately show ?thesis using c authorize_and_submit_result [OF sub] by (auto simp: same_identity_def)
qed

end
