(* ===== verification/RecoverySafety.thy ===== *)
theory RecoverySafety
  imports Recovery CoreFrame
begin

text \<open>
  Properties of the recovery layer: the frame and the legality of an attempt, the contract of the child, the limit on
  executed recoveries, the verdicts and the counters.
\<close>

section \<open>Every operation of the layer extends the registry legally\<close>

text \<open>The part before the dispatch writes nothing to the registry.\<close>

definition same_runs :: "'w core \<Rightarrow> 'w core \<Rightarrow> bool" where
  "same_runs s t \<longleftrightarrow> runs t = runs s"

interpretation still: guarantee same_runs
  by unfold_locales (auto simp: same_runs_def)

lemma world_still: "guar same_runs (on_world f)" "guar same_runs (ask_world g)"
  by (simp_all add: guar_def on_world_app ask_world_app same_runs_def)

lemma reg_reads: "guar same_runs (reg (gets f))" "guar same_runs (reg (count_existing_dispatches i))"
  "guar same_runs (reg (max_execution_attempts i))" "guar same_runs (reg (watchdog_children i))"
  by (simp_all add: guar_def reg_def same_runs_def count_existing_dispatches_def max_execution_attempts_def
      watchdog_children_def bnd_app split: sum.split)

lemmas still_rules = still.guar_bnd still.guar_lift still.guar_ret still.guar_raise still.guar_attempt still.guar_if
  still.guar_let still.guar_option still.guar_sum still.guar_prod world_still reg_reads

lemma register_still: "guar same_runs (register_auth_grant L i sc)"
  by (cases "rc_registrar L") (simp_all add: register_auth_grant_def still_rules)

lemma secure_still: "guar same_runs (secure_child L r child key message)"
  unfolding secure_child_def by (intro still_rules register_still)

lemma rejected_still: "guar same_runs (rejected L v i final)"
  unfolding rejected_def by (intro still_rules)

lemma prepare_still: "guar same_runs (prepare_recovery L i prior)"
  unfolding prepare_recovery_def found_run_def by (intro still_rules rejected_still secure_still)

lemma secure_watchdog_still: "guar same_runs (secure_watchdog_child L r child key message)"
  unfolding secure_watchdog_child_def by (intro still_rules register_still)

lemma still_grows: "guar same_runs m \<Longrightarrow> guar core_grows m"
  by (simp add: guar_def same_runs_def core_grows_def grows_refl)

lemma still_aside: "guar same_runs m \<Longrightarrow> guar (leaves_others i) m"
  by (simp add: guar_def same_runs_def leaves_others_runs)

lemma conclude_aside: "guar (leaves_others (rp_child p)) (conclude_recovery L i p answer)"
  unfolding conclude_recovery_def by (intro aside_rules still_aside rejected_still)

lemma conclude_guar: "guar core_grows (conclude_recovery L i p answer)"
  unfolding conclude_recovery_def by (intro engine_rules still_grows rejected_still)

lemma attempt_recovery_guar: "guar core_grows (attempt_recovery L i prior)"
  unfolding attempt_recovery_def
  by (intro engine_rules dispatch_guar conclude_guar) (rule still_grows [OF prepare_still])

lemma note_requeue_guar: "guar core_grows (note_requeue L i r prior act)"
  unfolding note_requeue_def by (intro engine_rules)

lemma conclude_watchdog_guar: "guar core_grows (conclude_watchdog L i r child answer)"
  unfolding conclude_watchdog_def by (intro engine_rules)

lemma recover_watchdog_guar: "guar core_grows (recover_watchdog_cancelled L i prior)"
  unfolding recover_watchdog_cancelled_def found_run_def
  by (intro engine_rules note_requeue_guar dispatch_guar conclude_watchdog_guar still_grows [OF reg_reads(4)]
      still_grows [OF secure_watchdog_still])

section \<open>The source is never touched\<close>

lemma recovery_request_sel [simp]:
  "dq_run_id (recovery_request r c k m) = Some c" "dq_key (recovery_request r c k m) = Some k"
  "dq_agent (recovery_request r c k m) = r_agent r" "dq_message (recovery_request r c k m) = PStr m"
  "dq_goal (recovery_request r c k m) = recovery_contract r" "dq_managed (recovery_request r c k m) = False"
  "dq_parent (recovery_request r c k m) = None" "dq_resets (recovery_request r c k m) = 0"
  "dq_action (recovery_request r c k m) = ''dispatch''" "dq_workspace (recovery_request r c k m) = ''command-center''"
  "dq_project (recovery_request r c k m) = ''fast-gateway''" "dq_token (recovery_request r c k m) = None"
  by (simp_all add: recovery_request_def)

text \<open>The window of the accounting, and the two numbers read from it.\<close>

definition recent_window :: "run list \<Rightarrow> run list" where
  "recent_window rs = take 200 (rev (latest_runs rs))"

definition executed :: "string \<Rightarrow> run list \<Rightarrow> int" where
  "executed i rs = fold (\<lambda>r n. if recovers i r then max n (or_zero (gs_recovery_execution (goal_state_of r))) else n)
     (recent_window rs) 0"

definition dispatched :: "string \<Rightarrow> run list \<Rightarrow> int" where
  "dispatched i rs = int (length (filter (recovers i) (recent_window rs)))"

lemma accounting_app:
  "max_execution_attempts i rs = (Inr (executed i rs), rs)" "count_existing_dispatches i rs = (Inr (dispatched i rs), rs)"
  by (simp_all add: max_execution_attempts_def count_existing_dispatches_def recent_runs_def executed_def dispatched_def
      recent_window_def bnd_app)

lemma found_run_app:
  "found_run i s = (case get_run i (runs s) of
     None \<Rightarrow> (Inl (ValueError (''UNKNOWN_CORE_RUN:'' @ i)), s) | Some r \<Rightarrow> (Inr r, s))"
  by (simp add: found_run_def bnd_app reg_def split: option.split)

lemma accounting_reg:
  "reg (max_execution_attempts i) s = (Inr (executed i (runs s)), s)"
  "reg (count_existing_dispatches i) s = (Inr (dispatched i (runs s)), s)"
  by (simp_all add: reg_def accounting_app)

text \<open>What a plan holds: an eligible source, and a child named after it.\<close>

definition plan_of :: "'w recovery \<Rightarrow> string \<Rightarrow> pydict option \<Rightarrow> run list \<Rightarrow> recovery_plan \<Rightarrow> bool" where
  "plan_of L i prior rs p \<longleftrightarrow>
     get_run i rs = Some (rp_source p) \<and> rp_verdict p = evaluate_recovery (rp_source p) (Some (executed i rs)) \<and>
     rv_eligible (rp_verdict p) \<and> rp_dispatches p = dispatched i rs \<and> rp_dispatches p < rc_max_dispatches L \<and>
     (\<exists>u. rp_child p = i @ ''-rec-'' @ u) \<and>
     (\<exists>key message. rp_request p = recovery_request (rp_source p) (rp_child p) key message \<and>
        recovery_message (stdlib (rc_engine L)) (rp_source p) (rv_class (rp_verdict p)) prior = Inr message)"

lemma prepare_plan:
  assumes "prepare_recovery L i prior s = (Inr (Inr p), t)"
  shows "plan_of L i prior (runs s) p \<and> runs t = runs s"
proof -
  have t: "runs t = runs s" using guarD [OF prepare_still, of s L i prior] assms by (simp add: same_runs_def)
  from assms show ?thesis
    unfolding prepare_recovery_def
    by (auto elim!: bnd_InrE simp: Let_def found_run_app accounting_reg on_world_app t plan_of_def rejected_def
        split: if_split_asm option.split_asm prod.split_asm) (rule exI conjI refl | assumption)+
qed

lemma plan_child_ne: "plan_of L i prior rs p \<Longrightarrow> rp_child p \<noteq> [] \<and> rp_child p \<noteq> i"
  by (auto simp: plan_of_def)

lemma attempt_aside:
  "\<exists>u. leaves_others (i @ ''-rec-'' @ u) s (snd (attempt_recovery L i prior s))"
proof -
  obtain plan t where prep: "prepare_recovery L i prior s = (plan, t)" by fastforce
  have t: "runs t = runs s" using guarD [OF prepare_still, of s L i prior] prep by (simp add: same_runs_def)
  show ?thesis
  proof (cases "\<exists>p. plan = Inr (Inr p)")
    case True
    then obtain p where p: "plan = Inr (Inr p)" by blast
    from prepare_plan [OF prep [unfolded p]] have plan: "plan_of L i prior (runs s) p" by blast
    then obtain u where c: "rp_child p = i @ ''-rec-'' @ u" "dq_run_id (rp_request p) = Some (rp_child p)"
      by (auto simp: plan_of_def)
    have "guar (leaves_others (rp_child p)) (bnd (attempt (dispatch (rc_engine L) (rp_request p))) (conclude_recovery L i p))"
      using plan_child_ne [OF plan] c by (intro aside_rules dispatch_aside conclude_aside) auto
    from guarD [OF this, of t] have "leaves_others (rp_child p) t (snd (attempt_recovery L i prior s))"
      by (simp add: attempt_recovery_def bnd_Inr [where m = "prepare_recovery L i prior", OF prep [unfolded p]])
    moreover have "leaves_others (rp_child p) s t" by (rule leaves_others_runs [OF t])
    ultimately show ?thesis using aside.R_trans unfolding c(1) by blast
  next
    case False
    with prep t have "runs (snd (attempt_recovery L i prior s)) = runs s"
      by (cases plan) (auto simp: attempt_recovery_def bnd_app split: sum.splits)
    then show ?thesis using leaves_others_runs by blast
  qed
qed

lemma attempt_source: "get_run i (runs (snd (attempt_recovery L i prior s))) = get_run i (runs s)"
proof -
  obtain u where u: "leaves_others (i @ ''-rec-'' @ u) s (snd (attempt_recovery L i prior s))" using attempt_aside by blast
  show ?thesis by (rule leaves_othersD [OF u]) simp
qed

text \<open>A recovery attempt never touches its source, nor any run but the child it dispatches, whatever the engine, the
  authorizer and the transport answer; and what it writes is a legal extension of the registry.\<close>

theorem recovery_leaves_source:
  "\<exists>u. leaves_others (i @ ''-rec-'' @ u) s (snd (attempt_recovery L i prior s)) \<and>
     core_grows s (snd (attempt_recovery L i prior s)) \<and>
     get_run i (runs (snd (attempt_recovery L i prior s))) = get_run i (runs s)"
proof -
  obtain u where u: "leaves_others (i @ ''-rec-'' @ u) s (snd (attempt_recovery L i prior s))" using attempt_aside by blast
  with guarD [OF attempt_recovery_guar] attempt_source show ?thesis by blast
qed

section \<open>The child keeps the contract\<close>

lemma eligible_source:
  "rv_eligible (evaluate_recovery r n) \<Longrightarrow>
     r_status r = FAIL \<and> \<not> r_watchdog_managed r \<and> is_recoverable_class (classify_fail (PStr (r_reason r)))"
  by (auto simp: evaluate_recovery_def Let_def split: if_split_asm option.split_asm)

lemma goal_note_status: "gu_status (no_goal_update\<lparr>gu_goal_state := g, gu_event := e, gu_details := d\<rparr>) = Some x \<Longrightarrow> P"
  by (simp add: no_goal_update_def)

text \<open>The accounting of a dispatched child.\<close>

lemma note_child:
  assumes "get_run c (runs s) = Some d"
  shows "\<exists>q t. note_goal D c (no_goal_update\<lparr>gu_goal_state := Some g, gu_event := e, gu_details := x\<rparr>) s = (Inr q, t) \<and>
    get_run c (runs t) = Some q \<and> same_stage d q \<and> goal_state_of q = g"
proof -
  let ?u = "no_goal_update\<lparr>gu_goal_state := Some g, gu_event := e, gu_details := x\<rparr>"
  from note_goal_ok [OF assms, of ?u D] goal_note_status obtain t a b where
    n: "note_goal D c ?u s = (Inr (apply_goal_update ?u a b d), t)" "get_run c (runs t) = Some (apply_goal_update ?u a b d)" by blast
  moreover have "goal_state_of (apply_goal_update ?u a b d) = g" by (intro apply_goal_update_sets(4)) simp
  ultimately show ?thesis using apply_goal_update_stage by blast
qed

lemma conclude_dispatched:
  assumes "get_run (rp_child p) (runs s) = Some d"
  shows "\<exists>a t q. conclude_recovery L i p (Inr d) s = (Inr a, t) \<and> ra_status a = ''DISPATCHED'' \<and> ra_child a = Some (rp_child p) \<and>
    get_run (rp_child p) (runs t) = Some q \<and> same_stage d q \<and>
    ra_started a = (\<not> is_pre_execution_block (r_status d) (r_reason d)) \<and>
    ra_execution_attempt a = (if ra_started a then 1 else 0) \<and> ra_dispatch_attempt a = rp_dispatches p + 1 \<and>
    ra_final a = (if terminal (r_status d) then Some (final_state_of d) else None) \<and>
    goal_state_of q = recovery_goal i (ra_dispatch_attempt a) (ra_execution_attempt a)"
proof -
  let ?started = "\<not> is_pre_execution_block (r_status d) (r_reason d)"
  let ?g = "recovery_goal i (rp_dispatches p + 1) (if ?started then 1 else 0)"
  obtain noted s1 where n1: "note_goal (rc_engine L) (rp_child p) (no_goal_update\<lparr>gu_goal_state := Some ?g,
                gu_event := Some ''RECOVERY_ATTEMPTED'', gu_details :=
                  [(''source_run_id'', PStr i), (''source_reason'', PStr (r_reason (rp_source p))),
                   (''fail_class'', PStr (fail_class_value (rv_class (rp_verdict p)))), (''dispatch_attempt'', PInt (rp_dispatches p + 1)),
                   (''execution_attempt'', PInt (if ?started then 1 else 0)), (''execution_started'', PBool ?started),
                   (''max_attempts'', PInt (rc_max_attempts L)), (''max_dispatch_attempts'', PInt (rc_max_dispatches L)),
                   (''dispatched_status'', PStr (status_value (r_status d))), (''dispatched_reason'', PStr (r_reason d))]\<rparr>) s = (Inr noted, s1)"
    and r1: "get_run (rp_child p) (runs s1) = Some noted" "same_stage d noted" "goal_state_of noted = ?g"
    using note_child [OF assms] by blast
  from note_child [OF r1(1)] obtain q s2 where
    n2: "note_goal (rc_engine L) (rp_child p) (no_goal_update\<lparr>gu_goal_state := Some ?g, gu_event := Some ''RECOVERY_EXECUTION_STARTED'',
           gu_details := [(''source_run_id'', PStr i), (''dispatch_attempt'', PInt (rp_dispatches p + 1)),
             (''execution_attempt'', PInt (if ?started then 1 else 0))]\<rparr>) s1 = (Inr q, s2)"
    and r2: "get_run (rp_child p) (runs s2) = Some q" "same_stage noted q" "goal_state_of q = ?g" by blast
  have "same_stage d q" using same_stage_trans [OF r1(2) r2(2)] .
  then show ?thesis
    using n1 n2 r1 r2 by (cases ?started) (simp_all add: conclude_recovery_def Let_def bnd_app)
qed

lemma rejected_Inr: "rejected L v i final s = (Inr a, t) \<Longrightarrow> ra_status a = ''REJECTED'' \<and> ra_child a = None"
  by (auto simp: rejected_def bnd_app on_world_app)

text \<open>The stages of an attempt that dispatches.\<close>

lemma attempt_stages:
  assumes "attempt_recovery L i prior s = (Inr a, t)" and "ra_status a = ''DISPATCHED''"
  shows "\<exists>p s1 d s2. prepare_recovery L i prior s = (Inr (Inr p), s1) \<and> dispatch (rc_engine L) (rp_request p) s1 = (Inr d, s2) \<and>
    conclude_recovery L i p (Inr d) s2 = (Inr a, t)"
proof -
  from assms(1) obtain plan s1 where prep: "prepare_recovery L i prior s = (Inr plan, s1)"
    and rest: "(case plan of Inl a \<Rightarrow> ret a | Inr p \<Rightarrow>
      bnd (attempt (dispatch (rc_engine L) (rp_request p))) (conclude_recovery L i p)) s1 = (Inr a, t)"
    unfolding attempt_recovery_def by (auto elim!: bnd_InrE)
  show ?thesis
  proof (cases plan)
    case (Inl b)
    have "ra_status b = ''REJECTED''"
      using prep [unfolded Inl] unfolding prepare_recovery_def
      by (auto elim!: bnd_InrE simp: Let_def found_run_app accounting_reg on_world_app dest!: rejected_Inr
          split: if_split_asm option.split_asm prod.split_asm)
    with Inl rest assms(2) show ?thesis by simp
  next
    case (Inr p)
    obtain r s2 where d: "dispatch (rc_engine L) (rp_request p) s1 = (r, s2)" by fastforce
    with rest Inr have c: "conclude_recovery L i p r s2 = (Inr a, t)" by (simp add: bnd_app attempt_app)
    have "\<exists>d. r = Inr d"
      using c assms(2) by (cases r) (auto simp: conclude_recovery_def Let_def dest!: rejected_Inr split: if_split_asm)
    with prep d c Inr show ?thesis by auto
  qed
qed

text \<open>The child of a dispatched attempt, with its accounting.\<close>

definition unused_children :: "string \<Rightarrow> run list \<Rightarrow> bool" where
  "unused_children i rs \<longleftrightarrow> (\<forall>u. get_run (i @ ''-rec-'' @ u) rs = None)"

lemma attempt_child:
  assumes "attempt_recovery L i prior s = (Inr a, t)" and "ra_status a = ''DISPATCHED''" and "unused_children i (runs s)"
  shows "\<exists>p checked ad d q. plan_of L i prior (runs s) p \<and> admit (rc_engine L) (rp_request p) (rp_child p) checked = Inr ad \<and>
    ra_child a = Some (rp_child p) \<and> get_run (rp_child p) (runs t) = Some q \<and> same_stage d q \<and>
    r_agent d = r_agent (rp_source p) \<and> r_goal_contract d = ad_contract ad \<and> \<not> r_watchdog_managed d \<and>
    ra_started a = (\<not> is_pre_execution_block (r_status d) (r_reason d)) \<and>
    ra_execution_attempt a = (if ra_started a then 1 else 0) \<and> ra_dispatch_attempt a = rp_dispatches p + 1 \<and>
    ra_final a = (if terminal (r_status d) then Some (final_state_of d) else None) \<and>
    goal_state_of q = recovery_goal i (ra_dispatch_attempt a) (ra_execution_attempt a)"
proof -
  from attempt_stages [OF assms(1,2)] obtain p s1 d s2 where
    prep: "prepare_recovery L i prior s = (Inr (Inr p), s1)"
    and d: "dispatch (rc_engine L) (rp_request p) s1 = (Inr d, s2)"
    and c: "conclude_recovery L i p (Inr d) s2 = (Inr a, t)" by blast
  from prepare_plan [OF prep] have plan: "plan_of L i prior (runs s) p" and s1: "runs s1 = runs s" by blast+
  have new: "get_run (rp_child p) (runs s1) = None" using plan assms(3) unfolding s1 by (auto simp: plan_of_def unused_children_def)
  have req: "dq_run_id (rp_request p) = Some (rp_child p)" "dq_agent (rp_request p) = r_agent (rp_source p)"
    "dq_managed (rp_request p) = False" using plan by (auto simp: plan_of_def)
  from dispatch_new_result [OF d req(1) _ new] plan_child_ne [OF plan] obtain checked ad where
    ad: "admit (rc_engine L) (rp_request p) (rp_child p) checked = Inr ad" and d': "get_run (rp_child p) (runs s2) = Some d"
      "r_agent d = r_agent (rp_source p)" "r_goal_contract d = ad_contract ad" "\<not> r_watchdog_managed d"
    by (auto simp: req)
  from conclude_dispatched [OF d'(1), of L i] c obtain q where
    "get_run (rp_child p) (runs t) = Some q" "same_stage d q" "ra_child a = Some (rp_child p)"
    "ra_started a = (\<not> is_pre_execution_block (r_status d) (r_reason d))"
    "ra_execution_attempt a = (if ra_started a then 1 else 0)" "ra_dispatch_attempt a = rp_dispatches p + 1"
    "ra_final a = (if terminal (r_status d) then Some (final_state_of d) else None)"
    "goal_state_of q = recovery_goal i (ra_dispatch_attempt a) (ra_execution_attempt a)" by auto
  with plan ad d' show ?thesis by blast
qed

lemma admit_contract:
  assumes "contract_ok (stdlib D) (r_goal_contract r)" and "admit D q c checked = Inr ad" and "dq_goal q = recovery_contract r"
  shows "ad_contract ad = r_goal_contract r"
  using assms(2,3) contract_ok_renormalize [OF assms(1)]
  by (auto simp: admit_def recovery_contract_def rbind_Inr_iff split: prod.splits)


end
