(* ===== verification/RecoveryLedger.thy ===== *)
theory RecoveryLedger
  imports RecoverySafety
begin

text \<open>
  The accounting of the recovery layer lives in the goal state of the child, where the engine also keeps its drift
  counter. That no engine operation ever alters it is one more instance of the locale \<open>guarantee\<close>; with it, an
  executed recovery stays the only one through any history of the engine.
\<close>

section \<open>The books\<close>

definition books_of :: "goal_state \<Rightarrow> string option \<times> int option \<times> int option" where
  "books_of g = (gs_recovery_source g, gs_recovery_dispatch g, gs_recovery_execution g)"

definition books :: "run \<Rightarrow> string option \<times> int option \<times> int option" where
  "books r = books_of (goal_state_of r)"

definition books_kept :: "run list \<Rightarrow> run list \<Rightarrow> bool" where
  "books_kept rs qs \<longleftrightarrow> (\<forall>i r. get_run i rs = Some r \<longrightarrow> (\<exists>q. get_run i qs = Some q \<and> books q = books r))"

interpretation kept_books: guarantee books_kept
  by unfold_locales (auto simp: books_kept_def, metis)

lemma books_state: "r_policy_state q = r_policy_state r \<Longrightarrow> books q = books r"
  by (simp add: books_def goal_state_of_def)

lemma books_kept_append:
  "get_run i rs = Some r \<Longrightarrow> r_id q = i \<Longrightarrow> books q = books r \<Longrightarrow> books_kept rs (rs @ [q])"
  by (auto simp: books_kept_def)

lemma books_kept_new: "get_run (r_id q) rs = None \<Longrightarrow> books_kept rs (rs @ [q])"
  by (auto simp: books_kept_def)

lemma books_require:
  assumes "\<And>r rs. get_run i rs = Some r \<Longrightarrow> books_kept rs (snd (f r rs))"
  shows "guar books_kept (bnd (require_run i) f)"
  unfolding guar_def require_run_bnd using assms by (auto simp: kept_books.R_refl split: option.split)

lemma books_successor:
  "get_run i rs = Some r \<Longrightarrow> same_identity r q \<Longrightarrow> books q = books r \<Longrightarrow> books_kept rs (rs @ [q])"
  using get_run_Some [of i rs r] by (intro books_kept_append) (auto simp: same_identity_def)

lemma moved_run_state: "r_policy_state (moved_run s b oc why now r) = r_policy_state r"
  by (simp add: moved_run_def finish_run_def apply_outcome_def Let_def split: option.split)

lemma policy_update_state:
  "r_policy_state (apply_policy_update u t now r) = (case pu_state u of None \<Rightarrow> r_policy_state r | Some x \<Rightarrow> x)"
  unfolding apply_policy_update_def Let_def
  by (simp add: apply_some_keeps add_event_def split: option.split) (simp add: apply_some_def apply_some_keeps split: option.split)

lemma goal_update_state: "gu_goal_state u = None \<Longrightarrow> r_policy_state (apply_goal_update u t now r) = r_policy_state r"
  unfolding apply_goal_update_def Let_def
  by (simp add: apply_some_keeps add_event_def) (simp add: apply_some_def apply_some_keeps split: option.split)

lemma create_run_books: "guar books_kept (create_run i ag key h pol goal parent resets approved managed now)"
  unfolding guar_def create_run_def
  by (auto simp: append_run_bnd Let_def new_run_def intro!: kept_books.R_refl books_kept_new split: option.split)

lemma transition_books: "guar books_kept (transition i s b oc why now)"
  unfolding transition_def
  by (rule books_require)
     (auto simp: Let_def append_run_bnd moved_run_keeps moved_run_state intro!: kept_books.R_refl books_successor books_state)

lemma reconcile_books: "guar books_kept (reconcile_abort_observation i now)"
  unfolding reconcile_abort_observation_def
  by (rule books_require)
     (auto simp: Let_def append_run_bnd same_identity_def intro!: kept_books.R_refl books_successor books_state)

text \<open>A goal note keeps the books when it leaves the goal state alone or stores one with the same books.\<close>

definition same_books :: "run \<Rightarrow> goal_update \<Rightarrow> bool" where
  "same_books r u \<longleftrightarrow> (case gu_goal_state u of None \<Rightarrow> True | Some g \<Rightarrow> books_of g = books r)"

lemma goal_update_books: "same_books r u \<Longrightarrow> books (apply_goal_update u t now r) = books r"
  using goal_update_state [of u t now r] apply_goal_update_sets(4) [of u _ t now r]
  by (cases "gu_goal_state u") (auto simp: same_books_def books_def goal_state_of_def)

lemma policy_update_books:
  "(case pu_state u of None \<Rightarrow> True | Some st \<Rightarrow> ps_goal st = ps_goal (r_policy_state r)) \<Longrightarrow>
     books (apply_policy_update u t now r) = books r"
  by (simp add: books_def goal_state_of_def policy_update_state split: option.splits)

section \<open>The engine keeps the books\<close>

definition core_books :: "'w core \<Rightarrow> 'w core \<Rightarrow> bool" where
  "core_books s t \<longleftrightarrow> books_kept (runs s) (runs t)"

interpretation ledger: guarantee core_books
  by unfold_locales (auto simp: core_books_def kept_books.R_refl intro: kept_books.R_trans)

lemma core_books_runs: "runs t = runs s \<Longrightarrow> core_books s t"
  by (simp add: core_books_def kept_books.R_refl)

lemma world_books: "guar core_books (on_world f)" "guar core_books (ask_world g)"
  by (simp_all add: guar_def on_world_app ask_world_app core_books_runs)

lemma reg_books: "guar books_kept m \<Longrightarrow> guar core_books (reg m)"
  by (auto simp: guar_def reg_def core_books_def split: prod.split) (metis snd_conv)

lemma timers_books: "guar core_books (modify (\<lambda>s. s\<lparr>timers := f s\<rparr>))"
  by (simp add: guar_def core_books_runs)

lemma require_record_books: "guar core_books (require_record i)"
  by (simp add: guar_def require_record_app core_books_runs split: option.split)

lemma move_books: "guar core_books (move D i s b oc why)"
  unfolding move_def by (intro ledger.guar_bnd world_books reg_books transition_books)

lemma require_run_found: "get_run i rs = Some r \<Longrightarrow> require_run i rs = (Inr r, rs)"
  and require_run_missing: "get_run i rs = None \<Longrightarrow> require_run i rs = (Inl (ValueError (''UNKNOWN_CORE_RUN:'' @ i)), rs)"
  by (simp_all add: require_run_def)

lemma note_policy_at:
  assumes "get_run i (runs s) = Some r" and "case pu_state u of None \<Rightarrow> True | Some st \<Rightarrow> ps_goal st = ps_goal (r_policy_state r)"
  shows "core_books s (snd (note_policy D i u s))"
proof -
  have "books_kept (runs s) (snd (update_policy i u t now (runs s)))" for t now
    using assms(1) policy_update_books [OF assms(2)]
    by (auto simp: update_policy_def require_run_found bnd_app Let_def append_run_def apply_policy_update_keeps kept_books.R_refl
        intro!: books_successor split: sum.split)
  then show ?thesis by (simp add: note_policy_def bnd_app on_world_app reg_def core_books_def split: prod.split) (metis snd_conv)
qed

lemma note_goal_at:
  assumes "get_run i (runs s) = Some r" and "same_books r u"
  shows "core_books s (snd (note_goal D i u s))"
proof -
  have "books_kept (runs s) (snd (update_goal_state i u t now (runs s)))" for t now
    using assms(1) goal_update_books [OF assms(2)]
    by (auto simp: update_goal_state_def require_run_bnd Let_def append_run_bnd apply_goal_update_keeps kept_books.R_refl
        intro!: books_successor split: option.split)
  then show ?thesis by (simp add: note_goal_def bnd_app on_world_app reg_def core_books_def split: prod.split) (metis snd_conv)
qed

lemma note_missing:
  assumes "get_run i (runs s) = None"
  shows "core_books s (snd (note_policy D i u s))" "core_books s (snd (note_goal D i v s))"
  using assms
  by (simp_all add: note_policy_def note_goal_def bnd_app on_world_app reg_def update_policy_def update_goal_state_def
      require_run_missing core_books_runs)

lemma note_policy_books: "pu_state u = None \<Longrightarrow> guar core_books (note_policy D i u)"
proof (rule guarI)
  fix s assume u: "pu_state u = None"
  show "core_books s (snd (note_policy D i u s))"
    by (cases "get_run i (runs s)") (simp_all add: note_missing note_policy_at u)
qed

lemma note_goal_books: "gu_goal_state u = None \<Longrightarrow> guar core_books (note_goal D i u)"
proof (rule guarI)
  fix s assume u: "gu_goal_state u = None"
  show "core_books s (snd (note_goal D i u s))"
    by (cases "get_run i (runs s)") (simp_all add: note_missing note_goal_at same_books_def u)
qed

lemma clear_deadline_books: "guar core_books (clear_deadline i)"
  unfolding clear_deadline_def by (rule timers_books)

lemma gets_books: "guar core_books (reg (gets f))"
  by (intro reg_books kept_books.guar_gets)

text \<open>Reading a record and using it at once.\<close>

lemma require_books:
  assumes "\<And>r s. get_run i (runs s) = Some r \<Longrightarrow> core_books s (snd (f r s))"
  shows "guar core_books (bnd (require_record i) f)"
  using assms by (auto simp: guar_def bnd_app require_record_app core_books_runs split: option.split)

lemmas ledger_rules = ledger.guar_bnd ledger.guar_lift ledger.guar_ret ledger.guar_raise ledger.guar_gets ledger.guar_attempt
  ledger.guar_if ledger.guar_let ledger.guar_option ledger.guar_sum ledger.guar_prod world_books require_record_books
  move_books clear_deadline_books gets_books timers_books

lemma plain_notes: "pu_state (no_policy_update\<lparr>pu_runtime := x\<rparr>) = None" "pu_state (policy_event_note c) = None"
  by (simp_all add: no_policy_update_def policy_event_note_def)

lemma bnd_books: "core_books s (snd (m s)) \<Longrightarrow> (\<And>x. guar core_books (f x)) \<Longrightarrow> core_books s (snd (bnd m f s))"
  unfolding bnd_app by (cases "m s") (auto split: sum.split dest: guarD intro: ledger.R_trans)

lemma lift_books: "(\<And>x. y = Inr x \<Longrightarrow> core_books s (snd (f x s))) \<Longrightarrow> core_books s (snd (bnd (lift y) f s))"
  by (cases y) (simp_all add: bnd_app core_books_runs)

lemma cancel_for_policy_books: "guar core_books (cancel_for_policy D i p event reason recorded)"
  unfolding cancel_for_policy_def
  by (intro ledger_rules note_policy_books note_goal_books) (simp_all add: policy_event_note_def no_policy_update_def no_goal_update_def)

lemma judge_books: "books_of (snd (judge_checkpoint S g c p gs)) = books_of gs"
  by (simp add: judge_checkpoint_def books_of_def Let_def)

lemma observe_checkpoint_books: "guar core_books (observe_checkpoint D i v)"
  unfolding observe_checkpoint_def
proof (rule require_books)
  fix r and s :: "'a core"
  assume r: "get_run i (runs s) = Some r"
  have kept: "same_books r (no_goal_update\<lparr>gu_checkpoint := a, gu_progress := b,
      gu_goal_state := Some ((snd (judge_checkpoint S g c p (goal_state_of r)))\<lparr>gs_drift_count := n\<rparr>),
      gu_status := st, gu_ready := rd, gu_event := ev, gu_details := dt\<rparr>)"
    "same_books r (no_goal_update\<lparr>gu_checkpoint := a, gu_progress := b,
      gu_goal_state := Some ((snd (judge_checkpoint S g c p (goal_state_of r)))\<lparr>gs_drift_count := n\<rparr>),
      gu_status := st, gu_ready := rd\<rparr>)" for a b S g c p n st rd ev dt
    using judge_books [of S g c p "goal_state_of r"] by (simp_all add: same_books_def books_def books_of_def)
  show "core_books s (snd ((if terminal (r_status r) then ret r else
     bnd (lift (normalize_goal_contract (stdlib D) (PDict (contract_input (r_goal_contract r))))) (\<lambda>g.
     bnd (lift (normalize_checkpoint v g)) (\<lambda>c.
     let verified = merged_progress (r_progress r) c;
         judged = judge_checkpoint (stdlib D) g c (r_progress r) (goal_state_of r);
         gs = snd judged
     in case fst judged of
       None \<Rightarrow> note_goal D i (no_goal_update\<lparr>gu_checkpoint := Some c, gu_progress := Some verified,
                 gu_goal_state := Some (gs\<lparr>gs_drift_count := Some 0\<rparr>), gu_status := Some ''NORMAL'', gu_ready := Some False\<rparr>)
     | Some event \<Rightarrow>
         (let n = or_zero (gs_drift_count gs) + 1 in
          bnd (note_goal D i (no_goal_update\<lparr>gu_checkpoint := Some c, gu_progress := Some verified,
                 gu_goal_state := Some (gs\<lparr>gs_drift_count := Some n\<rparr>),
                 gu_status := Some (if n = 1 then ''GUARDED'' else ''DRIFT''), gu_ready := Some True,
                 gu_event := Some event, gu_details := [(''occurrence'', PInt n)]\<rparr>)) (\<lambda>x.
          if 2 \<le> n then
            bnd (require_record i) (\<lambda>r2. cancel_for_policy D i (profile_for_record r2) event (Some ''LOCAL_LLM_GOAL_DRIFT'') True)
          else require_record i))))) s))"
    by (auto simp: Let_def core_books_runs split: option.split
        intro!: lift_books bnd_books note_goal_at [OF r] kept ledger_rules cancel_for_policy_books)
qed

lemma observe_checkpoint_result:
  assumes "observe_checkpoint D i v s = (Inr q, t)" shows "get_run i (runs t) = Some q"
proof -
  have id: "r_id (apply_goal_update u a b r) = r_id r" for u a b r
    using apply_goal_update_stage [of r u a b] by (simp add: same_stage_def same_identity_def)
  have noted: "get_run i (runs t) = Some q" if "note_goal D i u s' = (Inr q, t)" for u s'
  proof -
    from that obtain a b where "update_goal_state i u a b (runs s') = (Inr q, runs t)"
      by (auto simp: note_goal_def bnd_app on_world_app reg_def split: prod.splits)
    then have "\<exists>r. get_run i (runs s') = Some r \<and> runs t = runs s' @ [apply_goal_update u a b r] \<and> q = apply_goal_update u a b r"
      by (auto simp: update_goal_state_def require_run_bnd Let_def append_run_bnd split: option.splits if_splits)
    then show ?thesis by (auto simp: id dest: get_run_Some)
  qed
  have cancelled: "get_run i (runs t) = Some q" if "cancel_for_policy D i p e why x s' = (Inr q, t)" for p e why x s'
    using that by (auto simp: cancel_for_policy_def Let_def elim!: bnd_InrE split: sum.split_asm if_split_asm dest: move_Inr)
  from assms show ?thesis
    by (auto simp: observe_checkpoint_def Let_def require_record_Inr elim!: bnd_InrE split: if_split_asm option.split_asm
        dest!: noted cancelled)
qed

lemma finish_with_books: "guar core_books (finish_with D i oc)"
  unfolding finish_with_def by (intro ledger_rules)

text \<open>The record a checkpoint returns is the current one, so marking it completed keeps the books.\<close>

lemma apply_reported_checkpoint_books: "guar core_books (apply_reported_checkpoint D i oc d)"
proof (rule guarI)
  fix s
  obtain answer t where obs: "observe_checkpoint D i (PDict d) s = (answer, t)" by fastforce
  have first: "core_books s t" using guarD [OF observe_checkpoint_books, of s D i "PDict d"] obs by simp
  have "core_books t (snd (apply_reported_checkpoint D i oc d s))"
  proof (cases answer)
    case (Inl e)
    have "guar core_books (bnd (note_goal D i (no_goal_update\<lparr>gu_event := Some ''GOAL_CHECKPOINT_INVALID'', gu_status := Some ''DRIFT''\<rparr>))
      (\<lambda>x. bnd (clear_deadline i) (\<lambda>u. move D i BLOCKED None None ''GOAL_CHECKPOINT_INVALID'')))"
      by (intro ledger_rules note_goal_books) (simp add: no_goal_update_def)
    with obs Inl show ?thesis
      by (simp add: apply_reported_checkpoint_def bnd_Inr [where m = "attempt m" for m, OF attempt_app] guarD core_books_runs)
  next
    case (Inr seen)
    have cur: "get_run i (runs t) = Some seen" using observe_checkpoint_result obs Inr by blast
    have "core_books t (snd (bnd (note_goal D i (no_goal_update\<lparr>gu_goal_state := Some ((goal_state_of seen)\<lparr>gs_completed := Some True\<rparr>)\<rparr>)) (\<lambda>x.
           bnd (clear_deadline i) (\<lambda>u. require_record i)) t))"
      by (intro bnd_books note_goal_at [OF cur] ledger_rules) (simp add: same_books_def books_def books_of_def)
    moreover have "core_books t (snd (bnd (clear_deadline i) (\<lambda>u. ret seen) t))" by (rule guarD) (intro ledger_rules)
    ultimately show ?thesis
      using obs Inr
      by (simp add: apply_reported_checkpoint_def bnd_Inr [where m = "attempt m" for m, OF attempt_app] guarD finish_with_books)
  qed
  with first show "core_books s (snd (apply_reported_checkpoint D i oc d s))" by (rule ledger.R_trans)
qed

lemma apply_adapter_outcome_books: "guar core_books (apply_adapter_outcome D i oc)"
  unfolding apply_adapter_outcome_def abort_after_timeout_def
  by (intro ledger_rules note_policy_books finish_with_books apply_reported_checkpoint_books)
     (simp add: policy_event_note_def no_policy_update_def)

lemma set_runtime_books: "guar core_books (set_runtime D i x)"
  unfolding set_runtime_def by (intro ledger_rules note_policy_books plain_notes)

lemma elapsed_now_books: "guar core_books (elapsed_now D i)"
  unfolding elapsed_now_def runtime_seconds_def by (intro ledger_rules)

text \<open>Other threads are engine operations too.\<close>

definition others_keep_books :: "'w deps \<Rightarrow> bool" where
  "others_keep_books D \<longleftrightarrow> (\<forall>s. core_books s (others D s))"

lemma poll_books:
  assumes "others_keep_books D" shows "guar core_books (poll D i x)"
proof (rule guarI)
  fix s
  have "core_books s (snd (ask_world (tp_wait D i x) s))" by (rule guarD [OF world_books(2)])
  with assms show "core_books s (snd (poll D i x s))"
    by (auto simp: poll_def others_keep_books_def split: prod.split intro: ledger.R_trans)
qed

lemma finalize_local_books: "others_keep_books D \<Longrightarrow> guar core_books (finalize_local D i p)"
  unfolding finalize_local_def note_exhausted_def
  by (intro ledger_rules poll_books cancel_for_policy_books apply_adapter_outcome_books set_runtime_books elapsed_now_books
      note_policy_books) (simp_all add: policy_event_note_def no_policy_update_def)

lemma wait_step_books: "others_keep_books D \<Longrightarrow> guar core_books (wait_step D i p requested)"
  unfolding wait_step_def guarded_def observe_wait_def judge_wait_def finish_op_def runtime_seconds_def
  by (intro ledger_rules poll_books cancel_for_policy_books finalize_local_books set_runtime_books elapsed_now_books
      note_policy_books plain_notes)

lemma settle_books: "guar core_books (settle D i oc)"
  unfolding settle_def guarded_def by (intro ledger_rules apply_adapter_outcome_books)

text \<open>Any guarantee of a round and of the settlement is one of the whole wait.\<close>

lemma wait_loop_guarantees:
  assumes "guarantee R"
  shows "wait_loop D i p requested s = Some res \<Longrightarrow> (\<forall>i p x. guar R (wait_step D i p x)) \<Longrightarrow> (\<forall>i oc. guar R (settle D i oc)) \<Longrightarrow>
    R s (snd res)"
proof (induction rule: wait_loop.raw_induct [rotated, consumes 1])
  case (1 loop D i p requested s res)
  obtain answer s' where step: "wait_step D i p requested s = (answer, s')" by fastforce
  have s': "R s s'" using guarD [OF "1.prems"(1) [THEN spec, THEN spec, THEN spec], of s i p requested] step by simp
  have settled: "R s' (snd (settle D i oc s'))" for oc by (rule guarD [OF "1.prems"(2) [THEN spec, THEN spec]])
  have again: "R s' (snd res)" if "loop D i p requested s' = Some res" by (rule 1(1) [OF that "1.prems"])
  have refl: "R s' s'" by (rule guarantee.R_refl [OF assms])
  have "R s' (snd res)"
    using 1(2) settled refl by (auto simp: step split: sum.splits wait_verdict.splits intro: again)
  with s' show ?case by (rule guarantee.R_trans [OF assms])
qed

lemma wait_books:
  assumes "others_keep_books D" and "wait D i timeout s = Some res" shows "core_books s (snd res)"
proof -
  obtain answer s' where req: "require_record i s = (answer, s')" by fastforce
  have s': "core_books s s'" using guarD [OF require_record_books, of s i] req by simp
  have loop: "core_books s' (snd res)" if "wait_loop D i p x s' = Some res" for p x
    using wait_loop_guarantees [OF ledger.guarantee_axioms that] wait_step_books [OF assms(1)] settle_books by blast
  have "core_books s' (snd res)"
    using assms(2) loop ledger.R_refl [of s'] by (auto simp: wait_def req split: sum.splits if_splits option.splits)
  then show ?thesis using s' ledger.R_trans by blast
qed

section \<open>The other handlers\<close>

lemma evaluate_event_goal: "evaluate_event S p st ev = Inr d \<Longrightarrow> ps_goal (dec_state d) = ps_goal st"
  by (auto simp: evaluate_event_def evaluate_retry_def evaluate_tool_call_def evaluate_progress_def quiet_def alarm_def Let_def
      rbind_Inr_iff split: if_split_asm)

lemma observe_runtime_event_books: "guar core_books (observe_runtime_event D i ev)"
  unfolding observe_runtime_event_def
  by (rule require_books)
     (auto simp: Let_def core_books_runs split: option.split intro!: lift_books bnd_books note_policy_at ledger_rules cancel_for_policy_books
       dest!: evaluate_event_goal)

lemma observe_local_run_output_books: "guar core_books (observe_local_run_output D sc out)"
proof -
  have spot: "guar core_books (spot D x y)" for x y
    unfolding spot_def
    by (intro ledger.guar_bnd world_books) (simp add: guar_def core_books_runs split: prod.split)
  show ?thesis
    unfolding observe_local_run_output_def
    by (intro ledger_rules spot note_policy_books) (simp add: policy_event_note_def no_policy_update_def)
qed

lemma observe_bound_output_books: "guar core_books (observe_bound_output D b out)"
  unfolding observe_bound_output_def by (intro ledger_rules observe_local_run_output_books)

lemma cancel_books: "guar core_books (cancel D i)"
  unfolding cancel_def by (intro ledger_rules)

lemma mark_user_cancelled_books: "guar core_books (mark_user_cancelled D i)"
  unfolding mark_user_cancelled_def by (intro ledger_rules)

lemma mark_after_abort_books: "guar core_books (mark_user_cancelled_after_abort D i)"
  unfolding mark_user_cancelled_after_abort_def by (intro ledger_rules reg_books reconcile_books)

lemma reconcile_external_books: "others_keep_books D \<Longrightarrow> guar core_books (reconcile_external_completion D i)"
  unfolding reconcile_external_completion_def by (intro ledger_rules poll_books)

lemma enforce_deadline_books: "others_keep_books D \<Longrightarrow> guar core_books (enforce_deadline D i)"
  unfolding enforce_deadline_def by (intro ledger_rules finalize_local_books cancel_for_policy_books set_runtime_books)

lemma dispatch_books: "guar core_books (dispatch D q)"
  unfolding dispatch_def create_record_def run_identity_def authorize_and_submit_def authorize_run_def submit_run_def
    schedule_deadline_def
  by (intro ledger_rules reg_books create_run_books)

text \<open>With mandatory authorization, as the service builds the engine, there are no fresh contexts.\<close>

lemma fresh_context_books: "auth_required D \<Longrightarrow> core_books s (snd (fresh_context D i s))"
  by (simp add: fresh_context_def bnd_app require_record_app core_books_runs split: option.split)

lemma engine_step_books:
  assumes "others_keep_books D" and "auth_required D" and "engine_step D c s = Some t" shows "core_books s t"
proof -
  note g = dispatch_books observe_checkpoint_books observe_runtime_event_books observe_local_run_output_books
    observe_bound_output_books cancel_books mark_user_cancelled_books mark_after_abort_books
    reconcile_external_books [OF assms(1)] enforce_deadline_books [OF assms(1)]
  show ?thesis
    using assms(3) wait_books [OF assms(1)] fresh_context_books [OF assms(2)]
    by (cases c) (auto intro: guarD [OF g(1)] guarD [OF g(2)] guarD [OF g(3)] guarD [OF g(4)] guarD [OF g(5)] guarD [OF g(6)]
      guarD [OF g(7)] guarD [OF g(8)] guarD [OF g(9)] guarD [OF g(10)])
qed

lemma reaches_books: "reaches D s t \<Longrightarrow> others_keep_books D \<Longrightarrow> auth_required D \<Longrightarrow> core_books s t"
  by (induction rule: reaches.induct) (auto intro: ledger.R_refl ledger.R_trans engine_step_books)

section \<open>One executed recovery\<close>

lemma fold_max_member:
  fixes f :: "'a \<Rightarrow> int"
  assumes "q \<in> set rs" and "P q" shows "f q \<le> fold (\<lambda>r n. if P r then max n (f r) else n) rs k"
proof -
  have mono: "m \<le> fold (\<lambda>r n. if P r then max n (f r) else n) xs m" for xs m
  proof (induction xs arbitrary: m)
    case (Cons x xs)
    from Cons.IH [of "if P x then max m (f x) else m"] show ?case by auto
  qed simp
  show ?thesis using assms(1)
  proof (induction rs arbitrary: k)
    case (Cons x xs)
    then show ?case
    proof (cases "x = q")
      case True
      with assms(2) mono [of "max k (f q)" xs] show ?thesis by simp
    next
      case False
      with Cons show ?thesis by simp
    qed
  qed simp
qed

lemma executed_child: "q \<in> set (recent_window rs) \<Longrightarrow> recovers i q \<Longrightarrow> or_zero (gs_recovery_execution (goal_state_of q)) \<le> executed i rs"
  unfolding executed_def by (rule fold_max_member)

lemma in_window: "get_run c rs = Some q \<Longrightarrow> length (latest_runs rs) \<le> 200 \<Longrightarrow> q \<in> set (recent_window rs)"
  by (simp add: recent_window_def latest_runs_set) blast

text \<open>Once a child with an execution is on the books, an attempt is refused before anything is registered or dispatched.\<close>

lemma executed_exhausts:
  assumes "get_run i (runs s) = Some r" and "1 \<le> executed i (runs s)"
  shows "\<exists>a. attempt_recovery L i prior s = (Inr a, s\<lparr>world := snd (clock (rc_engine L) (world s))\<rparr>) \<and> ra_status a = ''REJECTED'' \<and>
    (rv_eligible (evaluate_recovery r (Some 0)) \<longrightarrow> rv_reason (ra_verdict a) = ''MAX_RECOVERY_ATTEMPTS'')"
proof -
  let ?v = "evaluate_recovery r (Some (executed i (runs s)))"
  have no: "\<not> rv_eligible ?v" using assms(2) by (simp add: evaluate_recovery_def Let_def max_recovery_attempts_def)
  have why: "rv_eligible (evaluate_recovery r (Some 0)) \<longrightarrow> rv_reason ?v = ''MAX_RECOVERY_ATTEMPTS''"
    using assms(2) by (simp add: evaluate_recovery_def Let_def max_recovery_attempts_def)
  from assms(1) no have "prepare_recovery L i prior s =
      bnd (rejected L ?v i (final_state_of r)) (\<lambda>a. ret (Inl a)) s"
    by (simp add: prepare_recovery_def bnd_Inr [where m = "found_run i"] found_run_app
        bnd_Inr [where m = "reg (max_execution_attempts i)"] accounting_reg Let_def)
  with why show ?thesis by (simp add: attempt_recovery_def rejected_def bnd_app on_world_app)
qed


section \<open>The counters\<close>

lemma stats_count:
  "st_pass_primary (fold count_record rs k) = st_pass_primary k + length (filter (\<lambda>r. final_state_of r = ''PASS_PRIMARY'') rs)"
  "st_pass_recovered (fold count_record rs k) = st_pass_recovered k + length (filter (\<lambda>r. final_state_of r = ''PASS_RECOVERED'') rs)"
  "st_policy_blocked (fold count_record rs k) =
     st_policy_blocked k + length (filter (\<lambda>r. is_recovery_child r \<and> final_state_of r = ''POLICY_BLOCKED'') rs)"
  "st_hard_fail (fold count_record rs k) + length (filter (\<lambda>r. is_recovery_child r \<and> r_status r = FAIL) rs) =
     st_hard_fail k + length (filter (\<lambda>r. is_recovery_child r \<and> final_state_of r = ''HARD_FAIL'') rs)"
  "st_needs_review (fold count_record rs k) = st_needs_review k"
  "st_fail_unrecovered (fold count_record rs k) =
     st_fail_unrecovered k + length (filter (\<lambda>r. \<not> is_recovery_child r \<and> r_status r = FAIL) rs)"
  "st_classes (fold count_record rs k) c =
     st_classes k c + length (filter (\<lambda>r. r_status r = FAIL \<and> classify_fail (PStr (r_reason r)) = c) rs)"
  by (induction rs arbitrary: k; (simp; fail | (simp add: count_record_def final_state_of_def Let_def split: status.split)))+

text \<open>The counters of the layer agree with its verdicts, except for failed children: over any records the numbers of
  primary passes, recovered passes and blocked children are those of the five-state verdict, every FAIL is counted in
  exactly its class, and HARD_FAIL misses exactly the recovery children that ended FAIL; NEEDS_REVIEW is never
  counted.\<close>

theorem recovery_stats_exact:
  shows "st_pass_primary (fst (recovery_stats_of rs)) = length (filter (\<lambda>r. final_state_of r = ''PASS_PRIMARY'') rs) \<and>
    st_pass_recovered (fst (recovery_stats_of rs)) = length (filter (\<lambda>r. final_state_of r = ''PASS_RECOVERED'') rs) \<and>
    st_policy_blocked (fst (recovery_stats_of rs)) =
      length (filter (\<lambda>r. is_recovery_child r \<and> final_state_of r = ''POLICY_BLOCKED'') rs) \<and>
    st_hard_fail (fst (recovery_stats_of rs)) + length (filter (\<lambda>r. is_recovery_child r \<and> r_status r = FAIL) rs) =
      length (filter (\<lambda>r. is_recovery_child r \<and> final_state_of r = ''HARD_FAIL'') rs) \<and>
    st_needs_review (fst (recovery_stats_of rs)) = 0 \<and>
    st_classes (fst (recovery_stats_of rs)) c =
      length (filter (\<lambda>r. r_status r = FAIL \<and> classify_fail (PStr (r_reason r)) = c) rs)"
  by (simp add: recovery_stats_of_def Let_def stats_count no_stats_def)

text \<open>A child that was blocked before its worker started can use up the only recovery. The refusal codes of the broker
  outside the list of pre-execution reasons (a busy or corrupt store, a revoked or consumed grant, and so on) count as
  an execution, and the next attempt is refused, although the worker was never called.\<close>

theorem blocked_child_counts_as_execution:
  assumes "attempt_recovery L i prior s = (Inr a, t)" and "ra_status a = ''DISPATCHED''" and "unused_children i (runs s)" and "i \<noteq> []"
    and "ra_child a = Some c" and "get_run c (runs t) = Some q" and "r_status q = BLOCKED" and "r_reason q = ''AUTH_'' @ e"
    and "List.member error_codes e" and "\<not> List.member pre_execution_block_reasons (''AUTH_'' @ e)"
    and "length (latest_runs (runs t)) \<le> 200"
  shows "ra_started a \<and> ra_execution_attempt a = 1 \<and>
    (\<exists>b. attempt_recovery L i prior' t = (Inr b, t\<lparr>world := snd (clock (rc_engine L) (world t))\<rparr>) \<and> ra_status b = ''REJECTED'')"
proof -
  from attempt_child [OF assms(1-3)] obtain p d where plan: "plan_of L i prior (runs s) p" and d: "same_stage d q"
    and st: "ra_started a = (\<not> is_pre_execution_block (r_status d) (r_reason d))"
      "ra_execution_attempt a = (if ra_started a then 1 else 0)"
      "goal_state_of q = recovery_goal i (ra_dispatch_attempt a) (ra_execution_attempt a)"
    using assms(5,6) by auto
  have started: "ra_started a" using st(1) d assms(7,8,10) by (simp add: same_stage_def is_pre_execution_block_def)
  with st assms(4) have "recovers i q" "or_zero (gs_recovery_execution (goal_state_of q)) = 1"
    by (simp_all add: recovery_goal_def recovers_def is_recovery_child_def or_zero_def)
  with executed_child [OF in_window [OF assms(6,11)]] have "1 \<le> executed i (runs t)" by fastforce
  moreover have "get_run i (runs t) = Some (rp_source p)"
    using attempt_source [of i L prior s] assms(1) plan by (simp add: plan_of_def)
  ultimately have "\<exists>b. attempt_recovery L i prior' t = (Inr b, t\<lparr>world := snd (clock (rc_engine L) (world t))\<rparr>) \<and>
      ra_status b = ''REJECTED''" using executed_exhausts by blast
  with started st(2) show ?thesis by simp
qed

section \<open>Concrete recoveries\<close>

text \<open>An engine with a broker whose answer is given, and the layer over it.\<close>

definition gated :: "unit res \<Rightarrow> int deps" where
  "gated r = (demo True)\<lparr>consume_grant := (\<lambda>token sc i w. (r, w))\<rparr>"

lemma gated_sel [simp]:
  "stdlib (gated r) = plain_std" "agent_list (gated r) = sample_agents" "clock (gated r) w = (of_int w / 1000000, w)"
  "tp_submit (gated r) i pl w = (Inr (demo_binding i), w)" "broker_present (gated r)" "auth_required (gated r)"
  "authorizer_present (gated r) = False" "new_uuid (gated r) w = (''0123456789'', w)" "consume_grant (gated r) token sc i w = (r, w)"
  "others (gated r) s = s"
  by (simp_all add: gated_def) (simp_all add: demo_def)

definition gated_layer :: "unit res \<Rightarrow> int recovery" where
  "gated_layer r = recovery_layer (gated r) (NoRegister ''none'') (\<lambda>i sc w. (Inr (), w)) 1 3"

lemma gated_layer_sel [simp]: "rc_engine (gated_layer r) = gated r" "rc_max_dispatches (gated_layer r) = 3"
  by (simp_all add: gated_layer_def recovery_layer_def)

definition rescue :: "int core" where
  "rescue = demo_at 5 sample_failed_run"

lemma sample_failed_sel [simp]:
  "r_id sample_failed_run = ''run-1''" "r_status sample_failed_run = FAIL" "r_reason sample_failed_run = ''OPENCLAW_ERROR''"
  "r_watchdog_managed sample_failed_run = False" "r_agent sample_failed_run = ''qa''" "r_idempotency sample_failed_run = ''key-1''"
  "r_goal_contract sample_failed_run = sample_goal" "goal_state_of sample_failed_run = empty_goal_state"
  by (simp_all add: sample_failed_run_def new_run_def goal_state_of_def empty_policy_state_def)

lemma rescue_sel [simp]: "runs rescue = [sample_failed_run]" "world rescue = 5"
  by (simp_all add: rescue_def)

lemma rescue_run: "get_run ''run-1'' (runs rescue) = Some sample_failed_run"
  by (simp add: get_run_def)

lemma rescue_books: "executed ''run-1'' (runs rescue) = 0" "dispatched ''run-1'' (runs rescue) = 0"
proof -
  have "latest_runs [sample_failed_run] = [sample_failed_run]"
    by (simp add: latest_runs_def List.map_filter_def get_run_def)
  moreover have "\<not> recovers ''run-1'' sample_failed_run"
    by (simp add: recovers_def is_recovery_child_def empty_goal_state_def)
  ultimately show "executed ''run-1'' (runs rescue) = 0" "dispatched ''run-1'' (runs rescue) = 0"
    by (simp_all add: executed_def dispatched_def recent_window_def)
qed

lemma rescue_eligible: "rv_eligible (evaluate_recovery sample_failed_run (Some 0))"
proof -
  have "strip ''OPENCLAW_ERROR'' = ''OPENCLAW_ERROR''" by (rule strip_id) (simp add: char_class_defs)
  then have "classify_fail (PStr ''OPENCLAW_ERROR'') = SESSION_RECOVERABLE"
    by (simp add: classify_fail_def Let_def policy_blocked_reasons_def session_recoverable_reasons_def)
  then show ?thesis by (simp add: evaluate_recovery_def Let_def is_recoverable_class_def max_recovery_attempts_def)
qed

lemma recovery_text: "\<exists>u. recovery_message S r c None = Inr (CHR ''E'' # u)"
  by (simp add: recovery_message_def prior_block_def)

lemma text_not_blank: "\<not> blank (CHR ''E'' # u)"
  by (simp add: blank_def strip_def lstrip_def char_class_defs)

definition rescue_child :: string where
  "rescue_child = ''run-1-rec-01234567''"

lemma gated_prepare:
  "\<exists>p key u. prepare_recovery (gated_layer r) ''run-1'' None rescue = (Inr (Inr p), rescue) \<and> rp_child p = rescue_child \<and>
     rp_request p = recovery_request sample_failed_run rescue_child key (CHR ''E'' # u) \<and> key = ''key-1:rec:1''"
proof -
  let ?v = "evaluate_recovery sample_failed_run (Some 0)"
  obtain u where u: "recovery_message plain_std sample_failed_run (rv_class ?v) None = Inr (CHR ''E'' # u)"
    using recovery_text by blast
  have w: "rescue\<lparr>world := 5\<rparr> = rescue" by (simp add: rescue_def demo_at_def)
  have c: "''run-1'' @ ''-rec-'' @ ''01234567'' = rescue_child" "''key-1'' @ '':rec:'' @ ''1'' = ''key-1:rec:1''"
    by (simp_all add: rescue_child_def)
  have "on_world (new_uuid (gated r)) rescue = (Inr ''0123456789'', rescue)" by (simp add: on_world_app w)
  moreover have "secure_child (gated_layer r) sample_failed_run x key m rescue = (Inr None, rescue)" for x key m
    by (simp add: secure_child_def)
  moreover have "found_run ''run-1'' rescue = (Inr sample_failed_run, rescue)"
    "reg (max_execution_attempts ''run-1'') rescue = (Inr 0, rescue)" "reg (count_existing_dispatches ''run-1'') rescue = (Inr 0, rescue)"
    unfolding found_run_app accounting_reg rescue_books rescue_run by simp_all
  ultimately show ?thesis
    using rescue_eligible u by (simp add: prepare_recovery_def bnd_app Let_def str_int_one c del: append_Cons) blast
qed

text \<open>A new run through the gate: it runs, or it is blocked with the code of the refusal.\<close>

lemma gated_new:
  assumes "check_dispatch (gated x) q = Inr checked" and "admit (gated x) q c checked = Inr ad" and "dq_run_id q = Some c" and "c \<noteq> []"
    and "get_run c (runs s) = None" and "get_by_idempotency (dispatch_key q c) (runs s) = None"
    and "dq_token q = None" and "dq_session_key q = None" and "x = Inr () \<or> x = Inl (AuthBrokerError e)"
  shows "\<exists>d t. dispatch (gated x) q s = (Inr d, t) \<and> get_run c (runs t) = Some d \<and>
    (if x = Inr () then r_status d = RUNNING else r_status d = BLOCKED \<and> r_reason d = ''AUTH_'' @ e)"
proof -
  from dispatch_create [OF assms(1-6)] obtain r s1 where r: "get_run c (runs s1) = Some r" "r_status r = QUEUED"
    and d: "dispatch (gated x) q s = authorize_and_submit (gated x) q c (dispatch_key q c) ad r s1" by blast
  have "RUNNING \<in> set (successors (r_status r))" "BLOCKED \<in> set (successors (r_status r))" using r(2) by simp_all
  note m = move_legal [OF r(1) this(1)] move_legal [OF r(1) this(2)]
  from assms(9) show ?thesis
  proof
    assume "x = Inr ()"
    then show ?thesis
      unfolding d by (simp add: m r(1) get_run_moved [OF r(1)] authorize_and_submit_def authorize_run_def submit_run_def bnd_app attempt_app
          ask_world_app Let_def assms(7,8) schedule_deadline_def moved_run_keeps split: if_split)
  next
    assume "x = Inl (AuthBrokerError e)"
    then show ?thesis
      unfolding d by (simp add: m r(1) get_run_moved [OF r(1)] authorize_and_submit_def authorize_run_def bnd_app attempt_app ask_world_app
          Let_def assms(7) moved_run_keeps finished_run)
  qed
qed

lemma sample_agent: "require_agent sample_agents ''qa'' = Inr (snd (hd sample_agents))"
  by (simp add: require_agent_def find_agent_def sample_agents_def)

lemma gated_dispatch:
  assumes "q = recovery_request sample_failed_run rescue_child ''key-1:rec:1'' (CHR ''E'' # u)"
    and "x = Inr () \<or> x = Inl (AuthBrokerError e)"
  shows "\<exists>d t. dispatch (gated x) q rescue = (Inr d, t) \<and> get_run rescue_child (runs t) = Some d \<and>
    (if x = Inr () then r_status d = RUNNING else r_status d = BLOCKED \<and> r_reason d = ''AUTH_'' @ e)"
proof -
  have q: "dq_run_id q = Some rescue_child" "dispatch_key q rescue_child = ''key-1:rec:1''" "dq_token q = None" "dq_session_key q = None"
    by (simp_all add: assms(1) dispatch_key_def) (simp_all add: recovery_request_def)
  have ne: "rescue_child \<noteq> []" by (simp add: rescue_child_def)
  have none: "get_run rescue_child (runs rescue) = None" "get_by_idempotency ''key-1:rec:1'' (runs rescue) = None"
    by (simp_all add: get_run_def get_by_idempotency_def rescue_child_def)
  obtain checked ad where "check_dispatch (gated x) q = Inr checked" "admit (gated x) q rescue_child checked = Inr ad"
    by (simp add: assms(1) check_dispatch_def sample_agent text_not_blank admit_def recovery_contract_def sample_goal_stable)
       (simp add: recovery_request_def normalize_approved_paths_def dispatch_profile_def task_runtime_profile_def task_class_of_def)
  from gated_new [OF this q(1) ne none(1) _ q(3,4) assms(2)] none(2) q(2) show ?thesis by simp
qed

lemma gated_recovery:
  assumes "r = Inr () \<and> st = RUNNING \<or> r = Inl (AuthBrokerError ''STORE_BUSY'') \<and> st = BLOCKED"
  shows "\<exists>a t q. attempt_recovery (gated_layer r) ''run-1'' None rescue = (Inr a, t) \<and> ra_status a = ''DISPATCHED'' \<and> ra_started a \<and>
    ra_child a = Some rescue_child \<and> get_run rescue_child (runs t) = Some q \<and> r_status q = st \<and>
    (r \<noteq> Inr () \<longrightarrow> r_reason q = ''AUTH_STORE_BUSY'')"
proof -
  obtain p key u where p: "prepare_recovery (gated_layer r) ''run-1'' None rescue = (Inr (Inr p), rescue)" "rp_child p = rescue_child"
    "rp_request p = recovery_request sample_failed_run rescue_child ''key-1:rec:1'' (CHR ''E'' # u)" using gated_prepare [of r] by blast
  obtain d t where d: "dispatch (gated r) (rp_request p) rescue = (Inr d, t)" "get_run rescue_child (runs t) = Some d" "r_status d = st"
    "r \<noteq> Inr () \<longrightarrow> r_reason d = ''AUTH_STORE_BUSY''"
    using assms gated_dispatch [OF p(3), of r "''STORE_BUSY''"] by auto
  have no: "\<not> is_pre_execution_block (r_status d) (r_reason d)"
    using assms d(3,4) by (auto simp: is_pre_execution_block_def pre_execution_block_reasons_def)
  from conclude_dispatched [of p t d "gated_layer r" "''run-1''"] d(2) p(2) no obtain a t' q where
    "conclude_recovery (gated_layer r) ''run-1'' p (Inr d) t = (Inr a, t')" "ra_status a = ''DISPATCHED''" "ra_started a"
    "ra_child a = Some rescue_child" "get_run rescue_child (runs t') = Some q" "same_stage d q" by auto
  then show ?thesis
    using p d by (auto simp: attempt_recovery_def bnd_app attempt_app same_stage_def)
qed

lemma rescue_unused: "unused_children ''run-1'' (runs rescue)"
  by (simp add: unused_children_def get_run_def)


lemma gated_others: "others_keep_books (gated r)" "others_grow (gated r)"
  by (simp_all add: others_keep_books_def others_grow_def core_books_runs core_grows_def grows_refl)

lemma one_more_run:
  assumes "leaves_others c s t" shows "length (latest_runs (runs t)) \<le> length (latest_runs (runs s)) + 1"
proof -
  have size: "length (latest_runs rs) = card (r_id ` set rs)" for rs
    by (metis distinct_card distinct_first_occurrences latest_runs_ids length_map list.set_map set_first_occurrences)
  have "r_id ` set (runs t) \<subseteq> insert c (r_id ` set (runs s))"
  proof
    fix j assume "j \<in> r_id ` set (runs t)"
    then have "get_run j (runs t) \<noteq> None" by (simp add: get_run_None)
    then have "j = c \<or> get_run j (runs s) \<noteq> None" by (cases "j = c") (simp_all add: leaves_othersD [OF assms])
    then show "j \<in> insert c (r_id ` set (runs s))" by (simp add: get_run_None)
  qed
  then have "card (r_id ` set (runs t)) \<le> card (insert c (r_id ` set (runs s)))" by (rule card_mono [rotated]) simp
  also have "\<dots> \<le> card (r_id ` set (runs s)) + 1" by (simp add: card_insert_if)
  finally show ?thesis unfolding size .
qed

lemma rescued_few:
  assumes "attempt_recovery L ''run-1'' None rescue = (Inr a, t)" shows "length (latest_runs (runs t)) \<le> 200"
proof -
  obtain u where "leaves_others (''run-1'' @ ''-rec-'' @ u) rescue (snd (attempt_recovery L ''run-1'' None rescue))"
    using attempt_aside by blast
  from one_more_run [OF this] assms show ?thesis by (simp add: latest_runs_def List.map_filter_def get_run_def)
qed


theorem blocked_child_counts_as_execution_witness:
  "\<exists>a t. attempt_recovery (gated_layer (Inl (AuthBrokerError ''STORE_BUSY''))) ''run-1'' None rescue = (Inr a, t) \<and> ra_started a"
proof -
  let ?r = "Inl (AuthBrokerError ''STORE_BUSY'') :: unit res"
  obtain a t q where a: "attempt_recovery (gated_layer ?r) ''run-1'' None rescue = (Inr a, t)" "ra_status a = ''DISPATCHED''"
    "ra_child a = Some rescue_child" "get_run rescue_child (runs t) = Some q" "r_status q = BLOCKED"
    "r_reason q = ''AUTH_'' @ ''STORE_BUSY''" using gated_recovery [of ?r BLOCKED] by auto
  have c: "List.member error_codes ''STORE_BUSY''" "\<not> List.member pre_execution_block_reasons (''AUTH_'' @ ''STORE_BUSY'')"
    by (simp_all add: error_codes_def pre_execution_block_reasons_def)
  have ne: "''run-1'' \<noteq> []" by simp
  from blocked_child_counts_as_execution [OF a(1,2) rescue_unused ne a(3-6) c rescued_few [OF a(1)], of None] a(1)
  show ?thesis by blast
qed

end
