(* ===== verification/RecoveryWatchdog.thy ===== *)
theory RecoveryWatchdog
  imports RecoveryLedger
begin

text \<open>
  Recovery of runs that a watchdog manages: the child of a cancelled direct run, and the bound of one generation and
  one child.
\<close>

section \<open>What the child inherits\<close>

lemma watchdog_request_sel [simp]:
  "dq_run_id (watchdog_request r c k m) = Some c" "dq_agent (watchdog_request r c k m) = r_agent r"
  "dq_goal (watchdog_request r c k m) = recovery_contract r" "dq_managed (watchdog_request r c k m)"
  "dq_task_class (watchdog_request r c k m) = task_class_value (pm_task_class (r_policy r))"
  "dq_approved (watchdog_request r c k m) = str_list (r_approved_paths r)"
  by (simp_all add: watchdog_request_def)

lemma task_class_roundtrip: "task_class_of (task_class_value c) = Some c"
  by (cases c) (simp_all add: task_class_of_def)

lemma task_class_kept: "pm_task_class (policy_metadata (task_profile c)) = c"
  by (simp add: policy_metadata_def task_profile_def post_init_def Let_def)

text \<open>Normalised paths are a fixed point of the normaliser.\<close>

lemma approved_path_fixed: "approved_path v = Inr p \<Longrightarrow> approved_path (PStr p) = Inr p"
proof -
  assume "approved_path v = Inr p"
  then obtain s where "\<not> blank s" "p = strip s" "starts_with p ''/''" "length p \<le> 4096"
    by (auto simp: approved_path_def Let_def split: option.split_asm)
  moreover from this(1,2) have "\<not> blank p" by (simp add: blank_def)
  ultimately show ?thesis by (simp add: approved_path_def)
qed

lemma rmap_fixed: "(\<And>p. p \<in> set ps \<Longrightarrow> f (g p) = Inr p) \<Longrightarrow> rmap f (map g ps) = Inr ps"
  by (induction ps) simp_all

lemma normalized_paths_fixed:
  assumes "normalize_approved_paths v = Inr ps" shows "normalize_approved_paths (str_list ps) = Inr ps"
proof (cases "v = PNone")
  case True
  with assms show ?thesis by (simp add: normalize_approved_paths_def str_list_def)
next
  case False
  with assms obtain vs qs where "rmap approved_path vs = Inr qs" "ps = first_occurrences qs"
    by (auto simp: normalize_approved_paths_def rbind_Inr_iff split: option.split_asm)
  then have "\<forall>p\<in>set ps. approved_path (PStr p) = Inr p" "distinct ps"
    by (auto dest: rmap_Inr_set approved_path_fixed)
  then have "rmap approved_path (map PStr ps) = Inr ps" by (intro rmap_fixed) simp
  with \<open>distinct ps\<close> show ?thesis by (simp add: normalize_approved_paths_def str_list_def)
qed

definition paths_ok :: "string list \<Rightarrow> bool" where
  "paths_ok ps \<longleftrightarrow> normalize_approved_paths (str_list ps) = Inr ps"

text \<open>The child of a watchdog recovery is a direct run, so its profile is that of the task class of its source.\<close>

lemma watchdog_admission:
  assumes "check_dispatch D (watchdog_request r c k m) = Inr checked" and "admit D (watchdog_request r c k m) c checked = Inr ad"
    and "owns_direct c" and "paths_ok (r_approved_paths r)"
  shows "ad_approved ad = r_approved_paths r \<and> ad_profile ad = task_profile (pm_task_class (r_policy r))"
proof -
  have "\<not> starts_with c ''war-''" "\<not> starts_with c ''core-exec-''" using assms(3) by (auto simp: owns_direct_def starts_with_iff)
  then have "dispatch_profile D (watchdog_request r c k m) c = Inr (task_profile (pm_task_class (r_policy r)))"
    by (simp add: dispatch_profile_def task_runtime_profile_def task_class_roundtrip)
  with assms show ?thesis
    by (auto simp: check_dispatch_def admit_def paths_ok_def rbind_Inr_iff split: option.split_asm prod.split_asm)
qed

section \<open>The stages\<close>

lemma says_status: "wd_status (watchdog_says st why i) = st"
  by (simp add: watchdog_says_def)

lemma conclude_watchdog_dispatched:
  assumes "get_run c (runs s) = Some d"
  shows "\<exists>a t q. conclude_watchdog L i r c (Inr d) s = (Inr a, t) \<and> wd_status a = ''DISPATCHED'' \<and> wd_child a = Some c \<and>
    get_run c (runs t) = Some q \<and> same_stage d q \<and> gs_watchdog_source (goal_state_of q) = Some i \<and>
    wd_goal_preserved a = (r_goal_contract q = r_goal_contract r) \<and> wd_paths_preserved a = (r_approved_paths q = r_approved_paths r)"
proof -
  obtain q t where "note_goal (rc_engine L) c (no_goal_update
      \<lparr>gu_goal_state := Some (empty_goal_state\<lparr>gs_watchdog_source := Some i, gs_watchdog_attempt := Some 1\<rparr>),
       gu_event := Some ''WATCHDOG_RECOVERY_DISPATCHED'', gu_details :=
         [(''source_run_id'', PStr i), (''source_status'', PStr (status_value (r_status r))), (''auth_rechecked'', PBool True),
          (''approved_paths_preserved'', str_list (r_approved_paths r))]\<rparr>) s = (Inr q, t)"
    "get_run c (runs t) = Some q" "same_stage d q"
    "goal_state_of q = empty_goal_state\<lparr>gs_watchdog_source := Some i, gs_watchdog_attempt := Some 1\<rparr>"
    using note_child [OF assms] by blast
  then show ?thesis by (simp add: conclude_watchdog_def bnd_app)
qed

lemma watchdog_stages:
  assumes "recover_watchdog_cancelled L i prior s = (Inr a, t)" and "wd_status a = ''DISPATCHED''"
  shows "\<exists>r w key message s1 d s2. get_run i (runs s) = Some r \<and> r_watchdog_managed r \<and> owns_direct i \<and> r_status r = CANCELLED \<and>
    (gs_watchdog_source (goal_state_of r) = None \<or> gs_watchdog_source (goal_state_of r) = Some []) \<and>
    filter (\<lambda>r. gs_watchdog_source (goal_state_of r) = Some i) (recent_window (runs s)) = [] \<and> runs s1 = runs s \<and>
    dispatch (rc_engine L) (watchdog_request r (''direct-'' @ fst (new_uuid (rc_engine L) w)) key message) s1 = (Inr d, s2) \<and>
    conclude_watchdog L i r (''direct-'' @ fst (new_uuid (rc_engine L) w)) (Inr d) s2 = (Inr a, t)"
proof -
  have secured: "runs s' = runs s1" if "secure_watchdog_child L r c k m s1 = (Inr None, s')" for r c k m s1 s'
    using guarD [OF secure_watchdog_still, of s1 L r c k m] that by (simp add: same_runs_def)
  have blocked: "wd_status x \<noteq> ''DISPATCHED''" if "secure_watchdog_child L r c k m s1 = (Inr (Some x), s')" for r c k m s1 s' x
    using that by (auto simp: secure_watchdog_child_def says_status elim!: bnd_InrE split: if_split_asm sum.split_asm)
  have requeued: "wd_status x \<noteq> ''DISPATCHED''" if "note_requeue L i r prior act s1 = (Inr x, s')" for r act s1 s' x
    using that by (auto simp: note_requeue_def says_status elim!: bnd_InrE)
  have concluded: "\<exists>d. answer = Inr d" if "conclude_watchdog L i r c answer s1 = (Inr a, t)" for r c answer s1
    using that assms(2) by (cases answer) (auto simp: conclude_watchdog_def says_status split: if_split_asm)
  from assms(1) obtain r n s3 where r: "get_run i (runs s) = Some r" and guards: "r_watchdog_managed r" "owns_direct i" "r_status r = CANCELLED"
      "gs_watchdog_source (goal_state_of r) = None \<or> gs_watchdog_source (goal_state_of r) = Some []"
    and n: "reg (watchdog_children i) s = (Inr n, s3)" "n = 0" and rest:
    "bnd (on_world (new_uuid (rc_engine L))) (\<lambda>u1. bnd (on_world (new_uuid (rc_engine L))) (\<lambda>u2.
     let child = ''direct-'' @ u1; key = ''direct:watchdog:'' @ u2
     in bnd (lift (watchdog_message (stdlib (rc_engine L)) r prior)) (\<lambda>message.
        bnd (secure_watchdog_child L r child key message) (\<lambda>refusal.
        case refusal of
          Some a \<Rightarrow> ret a
        | None \<Rightarrow> bnd (attempt (dispatch (rc_engine L) (watchdog_request r child key message)))
                    (conclude_watchdog L i r child))))) s3 = (Inr a, t)"
    using assms(2) unfolding recover_watchdog_cancelled_def
    by (auto elim!: bnd_InrE simp: found_run_app says_status split: if_split_asm option.split_asm dest!: requeued)
  from n have s3: "s3 = s" "filter (\<lambda>r. gs_watchdog_source (goal_state_of r) = Some i) (recent_window (runs s)) = []"
    by (auto simp: reg_def watchdog_children_def bnd_app recent_runs_def recent_window_def filter_empty_conv)
  let ?c = "''direct-'' @ fst (new_uuid (rc_engine L) (world s))"
  from rest obtain key message s1 where s1: "runs s1 = runs s"
    "conclude_watchdog L i r ?c (fst (dispatch (rc_engine L) (watchdog_request r ?c key message) s1))
       (snd (dispatch (rc_engine L) (watchdog_request r ?c key message) s1)) = (Inr a, t)"
    using assms(2) s3
    by (auto elim!: bnd_InrE simp: Let_def on_world_app attempt_app split: option.split_asm dest!: blocked secured)
  let ?run = "dispatch (rc_engine L) (watchdog_request r ?c key message) s1"
  from concluded [OF s1(2)] obtain d where d: "fst ?run = Inr d" by blast
  then have "?run = (Inr d, snd ?run)" by (simp add: prod_eq_iff)
  moreover from s1(2) d have "conclude_watchdog L i r ?c (Inr d) (snd ?run) = (Inr a, t)" by simp
  ultimately show ?thesis using r guards s3(2) s1(1) by blast
qed

section \<open>One child, one generation\<close>

definition fresh_direct :: "'w recovery \<Rightarrow> run list \<Rightarrow> bool" where
  "fresh_direct L rs \<longleftrightarrow> (\<forall>w. get_run (''direct-'' @ fst (new_uuid (rc_engine L) w)) rs = None)"


section \<open>A cancelled direct run\<close>

definition stalled_run :: run where
  "stalled_run = moved_run CANCELLED None None ''USER_CANCEL'' 3
     (new_run ''direct-7'' ''qa'' ''key-7'' ''h'' (policy_metadata (task_profile QUICK)) sample_goal None 0 [''/srv/a''] True 1)"

lemma stalled_sel [simp]:
  "r_id stalled_run = ''direct-7''" "r_status stalled_run = CANCELLED" "r_watchdog_managed stalled_run" "r_agent stalled_run = ''qa''"
  "r_goal_contract stalled_run = sample_goal" "r_approved_paths stalled_run = [''/srv/a'']" "r_idempotency stalled_run = ''key-7''"
  "r_policy stalled_run = policy_metadata (task_profile QUICK)" "goal_state_of stalled_run = empty_goal_state"
  by (simp_all add: stalled_run_def moved_run_def finish_run_def new_run_def Let_def apply_outcome_def goal_state_of_def empty_policy_state_def)

lemma stalled_paths: "paths_ok [''/srv/a'']"
proof -
  have "strip ''/srv/a'' = ''/srv/a''" by (rule strip_id) (simp add: char_class_defs)
  then show ?thesis by (simp add: paths_ok_def normalize_approved_paths_def str_list_def approved_path_def blank_def Let_def)
qed

lemma watchdog_text: "\<exists>u. watchdog_message S r None = Inr (CHR ''E'' # u)"
proof -
  obtain u where "recovery_message S r SESSION_RECOVERABLE None = Inr (CHR ''E'' # u)" using recovery_text by blast
  then show ?thesis by (simp add: watchdog_message_def recovery_note_def)
qed

abbreviation gate_open :: "int recovery" where
  "gate_open \<equiv> gated_layer (Inr ())"

lemma stalled_recovered:
  "\<exists>a t. recover_watchdog_cancelled gate_open ''direct-7'' None (demo_at 5 stalled_run) = (Inr a, t) \<and> wd_status a = ''DISPATCHED''"
proof -
  let ?s = "demo_at 5 stalled_run" and ?c = "''direct-0123456789''" and ?key = "''direct:watchdog:0123456789''"
  obtain u where u: "watchdog_message plain_std stalled_run None = Inr (CHR ''E'' # u)" using watchdog_text by blast
  let ?q = "watchdog_request stalled_run ?c ?key (CHR ''E'' # u)"
  have q: "dq_run_id ?q = Some ?c" "dispatch_key ?q ?c = ?key" "dq_token ?q = None" "dq_session_key ?q = None"
    by (simp_all add: dispatch_key_def watchdog_request_def recovery_request_def)
  have none: "get_run ?c (runs ?s) = None" "get_by_idempotency ?key (runs ?s) = None" "?c \<noteq> []"
    by (simp_all add: get_run_def get_by_idempotency_def)
  have m: "dq_message ?q = PStr (CHR ''E'' # u)" "dq_timeout ?q = PFloat 10" "task_class_of ''QUICK'' = Some QUICK"
    "dq_task_class ?q = ''QUICK''"
    by (simp_all add: watchdog_request_def recovery_request_def task_class_of_def task_class_kept)
  obtain checked ad where "check_dispatch (gated (Inr ())) ?q = Inr checked" "admit (gated (Inr ())) ?q ?c checked = Inr ad"
    using stalled_paths
    by (simp add: check_dispatch_def sample_agent text_not_blank admit_def recovery_contract_def sample_goal_stable m paths_ok_def
        dispatch_profile_def task_runtime_profile_def task_class_roundtrip)
  from gated_new [OF this q(1) none(3,1) _ q(3,4)] none(2) q(2) obtain d t where
    d: "dispatch (gated (Inr ())) ?q ?s = (Inr d, t)" "get_run ?c (runs t) = Some d" by auto
  from conclude_watchdog_dispatched [OF d(2)] obtain a t' where
    a: "conclude_watchdog gate_open ''direct-7'' stalled_run ?c (Inr d) t = (Inr a, t')" "wd_status a = ''DISPATCHED''" by blast
  have w: "?s\<lparr>world := 5\<rparr> = ?s" by (simp add: demo_at_def)
  have id: "on_world (new_uuid (gated (Inr ()))) ?s = (Inr ''0123456789'', ?s)" by (simp add: on_world_app w)
  have f: "found_run ''direct-7'' ?s = (Inr stalled_run, ?s)" by (simp add: found_run_app get_run_def)
  have n: "reg (watchdog_children ''direct-7'') ?s = (Inr 0, ?s)"
    by (simp add: reg_def watchdog_children_def bnd_app recent_runs_def latest_runs_def List.map_filter_def get_run_def empty_goal_state_def
        demo_at_def)
  have sec: "secure_watchdog_child gate_open stalled_run c k m ?s = (Inr None, ?s)" for c k m
    by (simp add: secure_watchdog_child_def)
  have own: "owns_direct ''direct-7''" by (simp add: owns_direct_def)
  have "recover_watchdog_cancelled gate_open ''direct-7'' None ?s = (Inr a, t')"
    using d a(1) u
    by (simp add: recover_watchdog_cancelled_def bnd_app f n id sec own attempt_app empty_goal_state_def Let_def)
  with a(2) show ?thesis by blast
qed


end
