(* ===== verification/Harness.thy ===== *)
theory Harness
  imports RecoverySafety "HOL-Library.AList"
begin

text \<open>
  The process-lifetime owner of the engine, \<^verbatim>\<open>PersistentExecutionHarness\<close> in \<^verbatim>\<open>fast_gateway_service.py\<close>: leases of
  running runs, their observers, cancel intents, and the hook that hands failed runs to the recovery layer. To the
  engine the harness is part of the outside world, because the engine reads the cancel intents through its
  terminal-transition guard; so its state is the record \<open>hworld\<close> around the rest of the world, and its methods act
  on the engine's state \<open>core\<close>. A thread is an entry of \<open>observers\<close>; a round of it is an operation of its own.
\<close>

section \<open>State\<close>

record controller =
  ct_timeout :: rat
  ct_cancel :: bool
  ct_observing :: bool

record 'v hworld =
  base :: 'v
  controllers :: "(string \<times> controller) list"
  observers :: "(string \<times> bool) list"
  intents :: "string list"
  restored :: "string list"
  watch_jobs :: "string list"
  is_closed :: bool

text \<open>The parts the harness is wired with: the engine, the recovery layer over it, the adapter's \<open>close\<close>, the
  completion subscriber, and whether a session watchdog is installed.\<close>

record 'v harness =
  hn_engine :: "'v hworld deps"
  hn_layer :: "'v hworld recovery option"
  hn_close :: "'v \<Rightarrow> 'v"
  hn_subscriber :: "(run \<Rightarrow> 'v hworld core \<Rightarrow> 'v hworld core) option"
  hn_watchdog :: bool

definition guarded_engine :: "'v hworld deps \<Rightarrow> 'v hworld deps" where
  "guarded_engine D = D\<lparr>stop_guard := (\<lambda>w i. List.member (intents w) i)\<rparr>"

definition on_harness :: "('v hworld \<Rightarrow> 'v hworld) \<Rightarrow> 'v hworld core \<Rightarrow> 'v hworld core" where
  "on_harness f s = s\<lparr>world := f (world s)\<rparr>"

section \<open>Leases and observers\<close>

definition new_controller :: "rat \<Rightarrow> controller" where
  "new_controller t = \<lparr>ct_timeout = max (1 / 10) t, ct_cancel = False, ct_observing = False\<rparr>"

definition controller_for :: "string \<Rightarrow> rat \<Rightarrow> 'v hworld \<Rightarrow> 'v hworld" where
  "controller_for i t w =
     (case map_of (controllers w) i of
        None \<Rightarrow> w\<lparr>controllers := AList.update i (new_controller t) (controllers w)\<rparr>
      | Some c \<Rightarrow> w)"

definition is_cancel_requested :: "'v hworld \<Rightarrow> string \<Rightarrow> bool" where
  "is_cancel_requested w i = List.member (intents w) i"

definition request_user_cancel :: "string \<Rightarrow> 'v hworld \<Rightarrow> 'v hworld" where
  "request_user_cancel i w =
     (let w1 = controller_for i 1 (w\<lparr>intents := List.insert i (intents w)\<rparr>)
      in case map_of (controllers w1) i of
           None \<Rightarrow> w1
         | Some c \<Rightarrow> w1\<lparr>controllers := AList.update i (c\<lparr>ct_cancel := True\<rparr>) (controllers w1)\<rparr>)"

definition start_observer :: "string \<Rightarrow> 'v hworld \<Rightarrow> 'v hworld" where
  "start_observer i w =
     (case map_of (controllers w) i of
        None \<Rightarrow> w
      | Some c \<Rightarrow>
          if is_closed w \<or> ct_observing c then w
          else w\<lparr>controllers := AList.update i (c\<lparr>ct_observing := True\<rparr>) (controllers w), observers := observers w @ [(i, False)]\<rparr>)"

text \<open>\<open>release\<close> of a lease sets the stop event its observer reads.\<close>

definition stop_observers :: "string \<Rightarrow> 'v hworld \<Rightarrow> 'v hworld" where
  "stop_observers i w = w\<lparr>observers := map (\<lambda>(j, b). (j, b \<or> j = i)) (observers w)\<rparr>"

text \<open>The last lease that goes closes the adapter.\<close>

definition release_run :: "('v \<Rightarrow> 'v) \<Rightarrow> string \<Rightarrow> 'v hworld \<Rightarrow> 'v hworld" where
  "release_run shut i w =
     (case map_of (controllers w) i of
        None \<Rightarrow> w
      | Some c \<Rightarrow>
          (let rest = AList.delete i (controllers w)
           in (stop_observers i (w\<lparr>controllers := rest\<rparr>))\<lparr>base := (if rest = [] then shut (base w) else base w)\<rparr>))"

definition schedule_watchdog :: "string \<Rightarrow> 'v hworld \<Rightarrow> 'v hworld" where
  "schedule_watchdog i w = (if is_closed w \<or> List.member (watch_jobs w) i then w else w\<lparr>watch_jobs := watch_jobs w @ [i]\<rparr>)"

text \<open>\<open>_record_active\<close> without the recovery hook: a finished run is released, an open one is observed.\<close>

definition track :: "'v harness \<Rightarrow> run \<Rightarrow> 'v hworld \<Rightarrow> 'v hworld" where
  "track H r w =
     (if r_id r = [] then w
      else if terminal (r_status r) then release_run (hn_close H) (r_id r) w
      else (let w1 = start_observer (r_id r) (controller_for (r_id r) 1 w)
            in if hn_watchdog H then schedule_watchdog (r_id r) w1 else w1))"

section \<open>The recovery hook\<close>

text \<open>\<open>_handle_recovery\<close> up to the call of the layer.\<close>

definition recovery_due :: "'v harness \<Rightarrow> run \<Rightarrow> 'v hworld \<Rightarrow> bool" where
  "recovery_due H r w \<longleftrightarrow>
     r_status r = FAIL \<and> \<not> List.member (restored w) (r_id r) \<and> r_escalation_reason r \<noteq> ''WATCHDOG_REQUEUE_REQUIRED'' \<and>
     \<not> is_recovery_child r \<and> hn_layer H \<noteq> None"

text \<open>The rest of \<open>recover\<close> after the dispatch of the child; what it raises is swallowed.\<close>

definition finish_recovery ::
  "'v hworld recovery \<Rightarrow> string \<Rightarrow> recovery_plan \<Rightarrow> run res \<Rightarrow> 'v hworld core \<Rightarrow> 'v hworld core option" where
  "finish_recovery L i p answer s =
     (case conclude_recovery L i p answer s of (result, t) \<Rightarrow>
        (case result of
           Inl e \<Rightarrow> Some t
         | Inr a \<Rightarrow>
             if ra_status a = ''REJECTED'' \<or> ra_final a \<noteq> None then Some t
             else map_option snd (settled_child L (rp_child p) 30 t)))"

text \<open>The harness's own view of a freshly dispatched run.\<close>

definition lease :: "run \<Rightarrow> rat \<Rightarrow> 'v hworld \<Rightarrow> 'v hworld" where
  "lease r t w = (if terminal (r_status r) then w else start_observer (r_id r) (controller_for (r_id r) t w))"

definition dispatch_timeout :: "dispatch_request \<Rightarrow> rat" where
  "dispatch_timeout q = (case as_num (dq_timeout q) of None \<Rightarrow> 1 | Some t \<Rightarrow> t)"

text \<open>
  \<open>_record\<close>. A failed run is recovered; its child is dispatched through the harness again, which records the child.
  Outside, \<open>None\<close> is a call that never returns.
\<close>

partial_function (option) record_run :: "'v harness \<Rightarrow> run \<Rightarrow> 'v hworld core \<Rightarrow> 'v hworld core option" where
  "record_run H r s =
     (if is_closed (world s) then Some s else
      let s1 = on_harness (track H r) s in
      (case hn_layer H of
         None \<Rightarrow> Some s1
       | Some L \<Rightarrow>
           if r_id r = [] \<or> \<not> recovery_due H r (world s1) then Some s1
           else (case prepare_recovery L (r_id r) None s1 of (plan, s2) \<Rightarrow>
             (case plan of
                Inl e \<Rightarrow> Some s2
              | Inr prepared \<Rightarrow> (case prepared of
                  Inl a \<Rightarrow> Some s2
                | Inr p \<Rightarrow> (case dispatch (hn_engine H) (rp_request p) s2 of (answer, s3) \<Rightarrow>
                    (case answer of
                       Inl e \<Rightarrow> finish_recovery L (r_id r) p (Inl e) s3
                     | Inr d \<Rightarrow> Option.bind (record_run H d (on_harness (lease d (dispatch_timeout (rp_request p))) s3))
                         (\<lambda>s4. finish_recovery L (r_id r) p (Inr d) s4))))))))"

section \<open>The methods\<close>

definition harness_dispatch :: "'v harness \<Rightarrow> dispatch_request \<Rightarrow> 'v hworld core \<Rightarrow> (run res \<times> 'v hworld core) option" where
  "harness_dispatch H q s =
     (case dispatch (hn_engine H) q s of (answer, t) \<Rightarrow>
        (case answer of
           Inl e \<Rightarrow> Some (Inl e, t)
         | Inr r \<Rightarrow> map_option (Pair (Inr r)) (record_run H r (on_harness (lease r (dispatch_timeout q)) t))))"

text \<open>The answer of an engine call, recorded unless it raised.\<close>

definition recorded :: "'v harness \<Rightarrow> run res \<times> 'v hworld core \<Rightarrow> (run res \<times> 'v hworld core) option" where
  "recorded H x = (case x of (answer, t) \<Rightarrow>
     (case answer of Inl e \<Rightarrow> Some (Inl e, t) | Inr r \<Rightarrow> map_option (Pair (Inr r)) (record_run H r t)))"

definition harness_wait :: "'v harness \<Rightarrow> string \<Rightarrow> rat \<Rightarrow> 'v hworld core \<Rightarrow> (run res \<times> 'v hworld core) option" where
  "harness_wait H i seconds s =
     Option.bind (wait (hn_engine H) i (PFloat seconds) (on_harness (controller_for i seconds) s)) (recorded H)"

definition harness_cancel :: "'v harness \<Rightarrow> string \<Rightarrow> 'v hworld core \<Rightarrow> (run res \<times> 'v hworld core) option" where
  "harness_cancel H i s =
     recorded H (cancel (hn_engine H) i (on_harness (controller_for i 1 \<circ> request_user_cancel i) s))"

definition harness_fresh_context :: "'v harness \<Rightarrow> string \<Rightarrow> 'v hworld core \<Rightarrow> (run res \<times> 'v hworld core) option" where
  "harness_fresh_context H i s = recorded H (fresh_context (hn_engine H) i (on_harness (controller_for i 1) s))"

text \<open>After a restart only the observation is resumed; \<open>knows\<close> tells whether the adapter has a binding of the run.\<close>

definition resume_observation :: "('v \<Rightarrow> string \<Rightarrow> bool) \<Rightarrow> string \<Rightarrow> ('v hworld core, run) op" where
  "resume_observation knows i =
     bnd (require_record i) (\<lambda>r.
     if r_status r \<noteq> RUNNING then ret r else
     bnd (gets (\<lambda>s. knows (base (world s)) i)) (\<lambda>known.
     if \<not> known then ret r else
     bnd (modify (on_harness (\<lambda>w. if \<not> is_closed w \<and> map_of (controllers w) i = None
       then start_observer i (controller_for i 1 (w\<lparr>restored := List.insert i (restored w)\<rparr>)) else w))) (\<lambda>u. ret r)))"

definition end_observer :: "string \<Rightarrow> 'v hworld \<Rightarrow> 'v hworld" where
  "end_observer i w = w\<lparr>intents := removeAll i (intents w), observers := filter (\<lambda>(j, b). j \<noteq> i) (observers w)\<rparr>"

text \<open>One round of the observer of a run: a stopped one ends, an error is retried, a finished run is recorded and reported.\<close>

definition observe_round :: "'v harness \<Rightarrow> string \<Rightarrow> 'v hworld core \<Rightarrow> 'v hworld core option" where
  "observe_round H i s =
     (if List.member (observers (world s)) (i, True) then Some (on_harness (end_observer i) s)
      else if \<not> List.member (observers (world s)) (i, False) then Some s
      else (let t = (case map_of (controllers (world s)) i of None \<Rightarrow> 1 | Some c \<Rightarrow> min (ct_timeout c) 1)
        in case wait (hn_engine H) i (PFloat t) s of
             None \<Rightarrow> None
           | Some (answer, s1) \<Rightarrow> (case answer of
               Inl e \<Rightarrow> Some s1
             | Inr r \<Rightarrow>
                 if terminal (r_status r) then
                   map_option (\<lambda>s2. on_harness (end_observer i) (case hn_subscriber H of None \<Rightarrow> s2 | Some f \<Rightarrow> if is_closed (world s2) then s2 else f r s2))
                     (record_run H r s1)
                 else record_run H r s1)))"

definition close_harness :: "'v harness \<Rightarrow> 'v hworld \<Rightarrow> 'v hworld" where
  "close_harness H w =
     (if is_closed w then w
      else w\<lparr>is_closed := True, controllers := [], intents := [],
             observers := map (\<lambda>(j, b). (j, b \<or> map_of (controllers w) j \<noteq> None)) (observers w), base := hn_close H (base w)\<rparr>)"

end
