(* ===== verification/HarnessRecovery.thy ===== *)
theory HarnessRecovery
  imports Harness RecoveryLedger
begin

text \<open>
  What becomes of a failed run when no submission reaches the gateway. The guard of the hook against chains reads the
  accounting on the child, but the layer writes it after the dispatch, and the dispatch of the child goes through the
  harness, which recovers a child that has failed by then. Every child therefore begets another one.
\<close>

section \<open>An outage\<close>

text \<open>The calls of the engine leave the harness's own state alone.\<close>

definition harness_kept :: "'v hworld \<Rightarrow> 'v hworld \<Rightarrow> bool" where
  "harness_kept w w' \<longleftrightarrow> is_closed w' = is_closed w \<and> restored w' = restored w"

lemma harness_kept_refl [simp]: "harness_kept w w"
  by (simp add: harness_kept_def)

text \<open>Every submission fails in the transport, while runs named after \<open>i\<close> are granted.\<close>

definition transport_down :: "string \<Rightarrow> 'v hworld recovery \<Rightarrow> bool" where
  "transport_down i L \<longleftrightarrow>
     broker_present (rc_engine L) \<and> 0 < rc_max_dispatches L \<and>
     (\<forall>w. harness_kept w (snd (clock (rc_engine L) w))) \<and> (\<forall>w. harness_kept w (snd (new_uuid (rc_engine L) w))) \<and>
     (\<forall>c pl w. \<exists>m w'. tp_submit (rc_engine L) c pl w = (Inl (TransportError m), w') \<and> harness_kept w w') \<and>
     (\<forall>q c sc s. starts_with c i \<longrightarrow> dq_token q = None \<longrightarrow>
        (\<exists>w. authorize_run (rc_engine L) q c sc s = (Inr (), s\<lparr>world := w\<rparr>) \<and> harness_kept (world s) w)) \<and>
     (\<forall>r c key m s. starts_with c i \<longrightarrow> contract_ok (stdlib (rc_engine L)) (r_goal_contract r) \<longrightarrow>
        (\<exists>w. secure_child L r c key m s = (Inr None, s\<lparr>world := w\<rparr>) \<and> harness_kept (world s) w))"

text \<open>No record yet is a recovery child of \<open>i\<close> or of one of its descendants, in name, in key or in the accounting.\<close>

definition childless :: "string \<Rightarrow> string \<Rightarrow> run list \<Rightarrow> bool" where
  "childless i key rs \<longleftrightarrow>
     (\<forall>q \<in> set rs. \<not> starts_with (r_id q) (i @ ''-rec-'') \<and> \<not> starts_with (r_idempotency q) (key @ '':rec:'') \<and>
        (is_recovery_child q \<longrightarrow> \<not> starts_with (the (gs_recovery_source (goal_state_of q))) i))"

definition base_key :: "run \<Rightarrow> string" where
  "base_key r = (if r_idempotency r = [] then r_id r else r_idempotency r)"

text \<open>A run that failed in the transport, and that the hook takes for a primary run.\<close>

definition hopeless :: "string \<Rightarrow> 'v harness \<Rightarrow> run \<Rightarrow> 'v hworld core \<Rightarrow> bool" where
  "hopeless i H r s \<longleftrightarrow> (\<exists>L.
     hn_layer H = Some L \<and> rc_engine L = hn_engine H \<and> transport_down i L \<and>
     starts_with (r_id r) i \<and> r_id r \<noteq> [] \<and> get_run (r_id r) (runs s) = Some r \<and> r_status r = FAIL \<and>
     r_reason r = ''TRANSPORT_FAILURE'' \<and> \<not> r_watchdog_managed r \<and> r_escalation_reason r = [] \<and> \<not> is_recovery_child r \<and>
     (\<exists>a. require_agent (agent_list (hn_engine H)) (r_agent r) = Inr a) \<and>
     contract_ok (stdlib (hn_engine H)) (r_goal_contract r) \<and> childless (r_id r) (base_key r) (runs s) \<and>
     \<not> is_closed (world s) \<and> (\<forall>x \<in> set (restored (world s)). \<not> starts_with x i))"

section \<open>One link of the chain\<close>

lemma starts_trans: "starts_with c j \<Longrightarrow> starts_with j i \<Longrightarrow> starts_with c i"
  by (auto simp: starts_with_iff)

text \<open>A new run that is submitted in vain: what is appended to the registry.\<close>

lemma dispatch_down:
  assumes down: "transport_down i L" and "rc_engine L = D"
    and "check_dispatch D q = Inr checked" and "admit D q c checked = Inr a" and "dq_run_id q = Some c" and "c \<noteq> []" and "starts_with c i"
    and "get_run c (runs s) = None" and "get_by_idempotency (dispatch_key q c) (runs s) = None" and "dq_token q = None"
  shows "\<exists>r d w. dispatch D q s = (Inr d, s\<lparr>world := w, runs := runs s @ [r, d]\<rparr>) \<and> harness_kept (world s) w \<and>
    r_id r = c \<and> r_id d = c \<and> r_idempotency r = dispatch_key q c \<and> r_idempotency d = dispatch_key q c \<and>
    goal_state_of r = empty_goal_state \<and> goal_state_of d = empty_goal_state \<and>
    r_status d = FAIL \<and> r_reason d = ''TRANSPORT_FAILURE'' \<and> r_escalation_reason d = [] \<and> r_agent d = dq_agent q \<and>
    r_goal_contract d = ad_contract a \<and> r_watchdog_managed d = dq_managed q"
proof -
  define r where "r = new_run c (dq_agent q) (dispatch_key q c) (ad_hash a) (policy_metadata (ad_profile a)) (ad_contract a)
    (dq_parent q) (dq_resets q) (ad_approved a) (dq_managed q) (fst (clock D (world s)))"
  let ?s = "s\<lparr>world := snd (clock D (world s)), runs := runs s @ [r]\<rparr>"
  have "create_record D q c a s = (Inr (r, True), ?s)"
    using assms(8,9) by (simp add: create_record_def bnd_app on_world_app reg_def create_run_def append_run_def Let_def r_def)
  then have new: "dispatch D q s = authorize_and_submit D q c (dispatch_key q c) a r ?s"
    using assms(3-6) by (simp add: dispatch_def bnd_app run_identity_def)
  have r: "r_id r = c" "r_status r = QUEUED" "r_idempotency r = dispatch_key q c" "goal_state_of r = empty_goal_state"
    "r_escalation_reason r = []" "r_agent r = dq_agent q" "r_goal_contract r = ad_contract a" "r_watchdog_managed r = dq_managed q"
    by (simp_all add: r_def new_run_def goal_state_of_def empty_policy_state_def)
  have kc: "harness_kept w (snd (clock D w))" for w using down assms(2) by (simp add: transport_down_def)
  obtain w1 where g: "authorize_run D q c (dispatch_scope D q c (dispatch_key q c) a) ?s = (Inr (), ?s\<lparr>world := w1\<rparr>)"
    and k1: "harness_kept (world ?s) w1" using down assms(2,7,10) unfolding transport_down_def by blast
  obtain m w2 where sub: "tp_submit D c \<lparr>sp_message = ad_message a, sp_agent = dq_agent q, sp_key = dispatch_key q c,
      sp_timeout = max_runtime (ad_profile a), sp_approved = r_approved_paths r, sp_session_key = dq_session_key q\<rparr> w1 =
      (Inl (TransportError m), w2)" and k2: "harness_kept w1 w2"
    using down assms(2) unfolding transport_down_def by metis
  have bp: "broker_present D" using down assms(2) by (simp add: transport_down_def)
  have cur: "get_run c (runs s @ [r]) = Some r" "FAIL \<in> set (successors (r_status r))" using r by simp_all
  define d where "d = moved_run FAIL None None ''TRANSPORT_FAILURE'' (fst (clock D w2)) r"
  have "dispatch D q s = (Inr d, s\<lparr>world := snd (clock D w2), runs := runs s @ [r, d]\<rparr>)"
    unfolding new using move_legal [OF _ cur(2), of c "?s\<lparr>world := w2\<rparr>" D None None "''TRANSPORT_FAILURE''"] cur(1)
    by (simp add: authorize_and_submit_def bp bnd_app attempt_app g submit_run_def ask_world_app sub Let_def d_def
        adapter_failure_def is_adapter_error.simps)
  moreover have "harness_kept (world s) (snd (clock D w2))"
    using kc [of "world s"] k1 k2 kc [of w2] by (simp add: harness_kept_def)
  moreover have "r_id d = c" "r_idempotency d = dispatch_key q c" "goal_state_of d = empty_goal_state" "r_status d = FAIL"
    "r_reason d = ''TRANSPORT_FAILURE''" "r_escalation_reason d = []" "r_agent d = dq_agent q" "r_goal_contract d = ad_contract a"
    "r_watchdog_managed d = dq_managed q"
    using r unfolding d_def by (simp_all add: moved_run_def finish_run_def apply_outcome_def Let_def goal_state_of_def)
  ultimately show ?thesis using r by blast
qed


lemma starts_self: "starts_with x x"
  by (simp add: starts_with_iff)

lemma starts_longer: "y \<noteq> [] \<Longrightarrow> \<not> starts_with x (x @ y)"
  by (simp add: starts_with_iff)

lemma starts_shorter: "starts_with x (p @ q) \<Longrightarrow> starts_with x p"
  by (auto simp: starts_with_iff)

lemma childless_child:
  assumes "childless j key rs" and "r_id q = c" and "r_id d = c" and "r_idempotency q = k" and "r_idempotency d = k"
    and "c = j @ ''-rec-'' @ u" and "k = key @ '':rec:'' @ n" and "\<not> is_recovery_child q" and "\<not> is_recovery_child d"
  shows "childless c k (rs @ [q, d])"
proof -
  have old: "\<not> starts_with (r_id x) (c @ ''-rec-'') \<and> \<not> starts_with (r_idempotency x) (k @ '':rec:'') \<and>
      (is_recovery_child x \<longrightarrow> \<not> starts_with (the (gs_recovery_source (goal_state_of x))) c)" if "x \<in> set rs" for x
  proof -
    have "\<not> starts_with (r_id x) ((j @ ''-rec-'') @ (u @ ''-rec-''))" "\<not> starts_with (r_idempotency x) ((key @ '':rec:'') @ (n @ '':rec:''))"
      "is_recovery_child x \<Longrightarrow> \<not> starts_with (the (gs_recovery_source (goal_state_of x))) (j @ (''-rec-'' @ u))"
      using bspec [OF assms(1) [unfolded childless_def] that] by (blast dest: starts_shorter)+
    then show ?thesis unfolding assms(6,7) append_assoc by blast
  qed
  show ?thesis unfolding childless_def using old assms(2-5,8,9) by (auto simp: starts_longer simp del: append_Cons)
qed

lemma childless_books: "childless i key rs \<Longrightarrow> executed i rs = 0 \<and> dispatched i rs = 0"
proof -
  assume a: "childless i key rs"
  have no: "\<not> recovers i x" if "x \<in> set (recent_window rs)" for x
  proof -
    have "x \<in> set rs" using that by (auto simp: recent_window_def latest_runs_set dest!: in_set_takeD get_run_Some)
    then show ?thesis using a by (auto simp: childless_def recovers_def starts_self)
  qed
  have "fold (\<lambda>r n. if recovers i r then max n (or_zero (gs_recovery_execution (goal_state_of r))) else n) xs m = m"
    if "\<And>x. x \<in> set xs \<Longrightarrow> \<not> recovers i x" for xs m using that by (induction xs) simp_all
  with no show ?thesis by (simp add: executed_def dispatched_def filter_empty_conv)
qed

lemma transport_eligible:
  "r_status r = FAIL \<Longrightarrow> r_reason r = ''TRANSPORT_FAILURE'' \<Longrightarrow> \<not> r_watchdog_managed r \<Longrightarrow> rv_eligible (evaluate_recovery r (Some 0))"
proof -
  assume a: "r_status r = FAIL" "r_reason r = ''TRANSPORT_FAILURE''" "\<not> r_watchdog_managed r"
  have "strip ''TRANSPORT_FAILURE'' = ''TRANSPORT_FAILURE''" by (rule strip_id) (simp add: char_class_defs)
  then have "classify_fail (PStr ''TRANSPORT_FAILURE'') = SESSION_RECOVERABLE"
    by (simp add: classify_fail_def Let_def policy_blocked_reasons_def session_recoverable_reasons_def)
  with a show ?thesis by (simp add: evaluate_recovery_def Let_def is_recoverable_class_def max_recovery_attempts_def)
qed

lemma track_kept: "harness_kept w (track H r w)" if "terminal (r_status r)"
  using that by (simp add: track_def release_run_def harness_kept_def stop_observers_def Let_def split: option.split)

lemma down_secured:
  "transport_down i L \<Longrightarrow> starts_with c i \<Longrightarrow> contract_ok (stdlib (rc_engine L)) (r_goal_contract r) \<Longrightarrow>
     \<exists>w. secure_child L r c key m s = (Inr None, s\<lparr>world := w\<rparr>) \<and> harness_kept (world s) w"
  by (simp add: transport_down_def)

lemma hopeless_prepared:
  assumes "hopeless i H r s" and "hn_layer H = Some L" and "runs s1 = runs s"
  shows "\<exists>p u m w. prepare_recovery L (r_id r) None s1 = (Inr (Inr p), s1\<lparr>world := w\<rparr>) \<and> harness_kept (world s1) w \<and>
    rp_child p = r_id r @ ''-rec-'' @ u \<and> rp_request p = recovery_request r (rp_child p) (base_key r @ '':rec:1'') (CHR ''E'' # m)"
proof -
  let ?D = "rc_engine L" and ?v = "evaluate_recovery r (Some 0)"
  from assms have h: "transport_down i L" "starts_with (r_id r) i" "get_run (r_id r) (runs s1) = Some r" "rv_eligible ?v"
    "contract_ok (stdlib ?D) (r_goal_contract r)" "executed (r_id r) (runs s1) = 0" "dispatched (r_id r) (runs s1) = 0"
    by (auto simp: hopeless_def transport_eligible dest: childless_books)
  obtain m where m: "recovery_message (stdlib ?D) r (rv_class ?v) None = Inr (CHR ''E'' # m)" using recovery_text by blast
  obtain x w1 where x: "new_uuid ?D (world s1) = (x, w1)" by fastforce
  have k1: "harness_kept (world s1) w1" using h(1) x unfolding transport_down_def by (metis snd_conv)
  let ?c = "r_id r @ ''-rec-'' @ take 8 x" and ?k = "base_key r @ '':rec:1''"
  have "starts_with ?c i" using h(2) starts_trans starts_with_append by blast
  from down_secured [OF h(1) this h(5), of ?k "CHR ''E'' # m" "s1\<lparr>world := w1\<rparr>"] obtain w2 where
    sec: "secure_child L r ?c ?k (CHR ''E'' # m) (s1\<lparr>world := w1\<rparr>) = (Inr None, s1\<lparr>world := w2\<rparr>)"
    and k2: "harness_kept w1 w2" by auto
  have key: "(if r_idempotency r = [] then r_id r else r_idempotency r) @ '':rec:'' @ ''1'' = ?k" by (simp add: base_key_def)
  have steps: "found_run (r_id r) s1 = (Inr r, s1)" "reg (max_execution_attempts (r_id r)) s1 = (Inr 0, s1)"
    "reg (count_existing_dispatches (r_id r)) s1 = (Inr 0, s1)" "on_world (new_uuid ?D) s1 = (Inr x, s1\<lparr>world := w1\<rparr>)"
    using h(3,6,7) x by (simp_all add: found_run_app accounting_reg on_world_app)
  have more: "\<not> rc_max_dispatches L \<le> 0" using h(1) by (simp add: transport_down_def)
  have "prepare_recovery L (r_id r) None s1 = (Inr (Inr \<lparr>rp_verdict = ?v, rp_source = r, rp_child = ?c, rp_dispatches = 0,
      rp_request = recovery_request r ?c ?k (CHR ''E'' # m)\<rparr>), s1\<lparr>world := w2\<rparr>)"
    unfolding prepare_recovery_def Let_def
    by (simp add: bnd_app steps h(4) more m sec str_int_one key del: append_Cons append_assoc split del: if_split)
  moreover have "harness_kept (world s1) w2" using k1 k2 by (simp add: harness_kept_def)
  ultimately show ?thesis
    by (intro exI [of _ "\<lparr>rp_verdict = ?v, rp_source = r, rp_child = ?c, rp_dispatches = 0,
      rp_request = recovery_request r ?c ?k (CHR ''E'' # m)\<rparr>"] exI [of _ "take 8 x"] exI [of _ m] exI [of _ w2] conjI)
      (simp_all del: append_Cons)
qed

text \<open>The step: the child of a hopeless run is hopeless.\<close>

lemma hopeless_step:
  assumes "hopeless i H r s" and "hn_layer H = Some L" and "runs s1 = runs s" and "harness_kept (world s) (world s1)"
  shows "\<exists>p s2 d s3. prepare_recovery L (r_id r) None s1 = (Inr (Inr p), s2) \<and>
    dispatch (hn_engine H) (rp_request p) s2 = (Inr d, s3) \<and> hopeless i H d s3 \<and> terminal (r_status d)"
proof -
  let ?D = "rc_engine L"
  from assms(1,2) have h: "transport_down i L" "starts_with (r_id r) i" "rc_engine L = hn_engine H" "childless (r_id r) (base_key r) (runs s)"
    "contract_ok (stdlib ?D) (r_goal_contract r)" "\<not> is_closed (world s)" "\<forall>x \<in> set (restored (world s)). \<not> starts_with x i"
    "\<exists>a. require_agent (agent_list ?D) (r_agent r) = Inr a"
    by (auto simp: hopeless_def)
  from hopeless_prepared [OF assms(1-3)] obtain p u m w where
    prep: "prepare_recovery L (r_id r) None s1 = (Inr (Inr p), s1\<lparr>world := w\<rparr>)" and kw: "harness_kept (world s1) w"
    and c: "rp_child p = r_id r @ ''-rec-'' @ u"
    and q: "rp_request p = recovery_request r (rp_child p) (base_key r @ '':rec:1'') (CHR ''E'' # m)" by blast
  let ?c = "rp_child p" and ?q = "rp_request p" and ?s = "s1\<lparr>world := w\<rparr>"
  have sc: "starts_with ?c i" unfolding c using h(2) starts_trans starts_with_append by blast
  have key: "dispatch_key ?q ?c = base_key r @ '':rec:1''" by (simp add: q dispatch_key_def)
  have ids: "get_run ?c (runs ?s) = None" "get_by_idempotency (dispatch_key ?q ?c) (runs ?s) = None"
  proof -
    have pre: "starts_with ?c (r_id r @ ''-rec-'')" "starts_with (base_key r @ '':rec:1'') (base_key r @ '':rec:'')"
      unfolding c by (simp_all add: starts_with_iff)
    then show "get_run ?c (runs ?s) = None" "get_by_idempotency (dispatch_key ?q ?c) (runs ?s) = None"
      using h(4) unfolding key by (auto simp: childless_def get_run_None get_by_idempotency_def find_last_None assms(3) simp del: append_Cons)
  qed
  obtain checked a where ad: "check_dispatch ?D ?q = Inr checked" "admit ?D ?q ?c checked = Inr a"
    "ad_contract a = r_goal_contract r"
  proof -
    obtain x where x: "require_agent (agent_list ?D) (r_agent r) = Inr x" using h(8) by blast
    have "normalize_approved_paths (dq_approved ?q) = Inr []" "as_num (dq_timeout ?q) = Some 10"
      by (simp_all add: q recovery_request_def normalize_approved_paths_def)
    then have "check_dispatch ?D ?q = Inr (CHR ''E'' # m, [])" by (simp add: q x check_dispatch_def text_not_blank)
    moreover obtain y where "dispatch_profile ?D ?q ?c = Inr y"
      by (cases "dispatch_profile ?D ?q ?c")
        (simp_all add: dispatch_profile_def q recovery_request_def task_runtime_profile_def task_class_of_def split: if_split_asm)
    moreover have "normalize_goal_contract (stdlib ?D) (dq_goal ?q) = Inr (r_goal_contract r)"
      using contract_ok_renormalize [OF h(5)] by (simp add: q recovery_contract_def)
    ultimately show ?thesis using that by (simp add: admit_def)
  qed
  have ne: "?c \<noteq> []" "dq_token ?q = None" "dq_run_id ?q = Some ?c" by (simp_all add: c q)
  from dispatch_down [OF h(1) refl ad(1,2) ne(3,1) sc ids ne(2)] obtain r0 d w' where
    d: "dispatch ?D ?q ?s = (Inr d, ?s\<lparr>world := w', runs := runs ?s @ [r0, d]\<rparr>)" "harness_kept (world ?s) w'"
      "r_id r0 = ?c" "r_id d = ?c" "r_idempotency r0 = dispatch_key ?q ?c" "r_idempotency d = dispatch_key ?q ?c"
      "goal_state_of r0 = empty_goal_state" "goal_state_of d = empty_goal_state" "r_status d = FAIL"
      "r_reason d = ''TRANSPORT_FAILURE''" "r_escalation_reason d = []" "r_agent d = dq_agent ?q" "r_goal_contract d = ad_contract a"
      "r_watchdog_managed d = dq_managed ?q" by blast
  have kid: "\<not> is_recovery_child r0" "\<not> is_recovery_child d" using d(7,8) by (simp_all add: is_recovery_child_def empty_goal_state_def)
  have bk: "base_key d = dispatch_key ?q ?c" using d(6) by (simp add: base_key_def key)
  have "dispatch_key ?q ?c = base_key r @ '':rec:'' @ ''1''" unfolding key by simp
  from childless_child [OF h(4) d(3-6) c this kid] have "childless (r_id d) (base_key d) (runs s @ [r0, d])" by (simp add: bk d(4))
  moreover have "get_run ?c (runs s @ [r0, d]) = Some d" using d(4) by (simp add: get_run_def find_last_append)
  ultimately have "hopeless i H d (?s\<lparr>world := w', runs := runs ?s @ [r0, d]\<rparr>)"
    using assms(2-4) h d ad(3) kw ne(1) sc kid
    by (auto simp: hopeless_def harness_kept_def q)
  moreover have "terminal (r_status d)" using d(9) by (simp add: terminal_states_def)
  ultimately show ?thesis using prep d(1) h(3) by auto
qed

section \<open>No end of the chain\<close>

lemma hopeless_due: "hopeless i H r s \<Longrightarrow> restored w = restored (world s) \<Longrightarrow> recovery_due H r w"
  by (auto simp: hopeless_def recovery_due_def)

lemma hopeless_never:
  "record_run H r s = Some t \<Longrightarrow> \<not> hopeless i H r s"
proof (induction rule: record_run.raw_induct [rotated, consumes 1])
  case (1 again H r s t)
  show ?case
  proof
    assume hope: "hopeless i H r s"
    then obtain L where L: "hn_layer H = Some L" "\<not> is_closed (world s)" "r_id r \<noteq> []" "terminal (r_status r)"
      by (auto simp: hopeless_def terminal_states_def)
    define s1 where "s1 = on_harness (track H r) s"
    have k: "harness_kept (world s) (world s1)" "runs s1 = runs s"
      using track_kept [OF L(4)] by (simp_all add: s1_def on_harness_def)
    then have due: "recovery_due H r (world s1)" using hopeless_due [OF hope] by (simp add: harness_kept_def)
    from hopeless_step [OF hope L(1) k(2,1)] obtain p s2 d s3 where
      st: "prepare_recovery L (r_id r) None s1 = (Inr (Inr p), s2)" "dispatch (hn_engine H) (rp_request p) s2 = (Inr d, s3)"
        "hopeless i H d s3" "terminal (r_status d)" by blast
    have lease: "on_harness (lease d x) s3 = s3" for x using st(4) by (simp add: lease_def on_harness_def)
    from 1(2) obtain s4 where "again H d s3 = Some s4"
      using L due st lease by (auto simp: s1_def [symmetric] Let_def bind_eq_Some_conv)
    from 1(1) [OF this] st(3) show False by blast
  qed
qed



section \<open>An outage that happens\<close>

definition idle_world :: "int hworld" where
  "idle_world = \<lparr>base = 0, controllers = [], observers = [], intents = [], restored = [], watch_jobs = [], is_closed = False\<rparr>"

definition idle_core :: "int hworld core" where
  "idle_core = \<lparr>runs = [], timers = (\<lambda>i. None), spotter = new_detector, world = idle_world\<rparr>"

definition outage :: "int hworld deps" where
  "outage = guarded_engine \<lparr>stdlib = plain_std, agent_list = sample_agents, clock = (\<lambda>w. (of_int (base w), w)),
     monotonic = (\<lambda>w. (of_int (base w), w)), new_uuid = (\<lambda>w. (''0123456789'', w)),
     tp_submit = (\<lambda>i p w. (Inl (TransportError ''GATEWAY_UNREACHABLE''), w)),
     tp_wait = (\<lambda>i t w. (Inr (plain_outcome TIMEOUT ''OPENCLAW_TIMEOUT''), w\<lparr>base := base w + 1\<rparr>)),
     tp_cancel = (\<lambda>i w. (Inr (demo_binding i), w)), others = (\<lambda>s. s), stop_guard = (\<lambda>w i. False),
     broker_present = True, auth_required = True, authorizer_present = False, owns_run = (\<lambda>i. False),
     with_grant = (\<lambda>sc body w. body (sc, None) w), consume_grant = (\<lambda>token sc i w. (Inr (), w))\<rparr>"

definition outage_layer :: "int hworld recovery" where
  "outage_layer = recovery_layer outage (NoRegister ''none'') (\<lambda>i sc w. (Inr (), w)) 1 3"

definition outage_harness :: "int harness" where
  "outage_harness = \<lparr>hn_engine = outage, hn_layer = Some outage_layer, hn_close = (\<lambda>w. w), hn_subscriber = None, hn_watchdog = False\<rparr>"

lemma outage_sel [simp]:
  "stdlib outage = plain_std" "agent_list outage = sample_agents" "clock outage w = (of_int (base w), w)"
  "new_uuid outage w = (''0123456789'', w)" "tp_submit outage i p w = (Inl (TransportError ''GATEWAY_UNREACHABLE''), w)"
  "broker_present outage" "authorizer_present outage = False" "consume_grant outage token sc i w = (Inr (), w)"
  "rc_engine outage_layer = outage" "rc_max_dispatches outage_layer = 3"
  by (simp_all add: outage_def guarded_engine_def outage_layer_def recovery_layer_def)

lemma outage_down: "transport_down i outage_layer"
proof -
  have "authorize_run outage q c sc s = (Inr (), s\<lparr>world := world s\<rparr>)" for q c sc s
    by (simp add: authorize_run_def ask_world_app)
  moreover have "secure_child outage_layer r c key m s = (Inr None, s\<lparr>world := world s\<rparr>)" for r c key m s
    by (simp add: secure_child_def)
  moreover have "\<exists>w. s = s\<lparr>world := w\<rparr> \<and> harness_kept (world s) w" for s :: "int hworld core" by (rule exI [of _ "world s"]) simp
  ultimately show ?thesis by (simp add: transport_down_def)
qed


end
