(* ===== verification/WarTables.thy ===== *)
theory WarTables
  imports PyVal "HOL-Library.Product_Lexorder"
begin

text \<open>
  The tables of the war room database that execution and authorization read and write, as lists of records in the
  order of insertion, with the columns those parts use. A nullable column is an option. The conversions that SQLite
  applies to a bound value by the affinity of its column are \<open>text_column\<close> and \<open>real_column\<close>; how it prints and reads
  reals is a parameter. JSON columns hold the value that reading back gives.
\<close>

section \<open>Rows\<close>

record war_project =
  wp_id :: string
  wp_status :: string

record war_control =
  wc_project :: string
  wc_archived :: "int option"
  wc_stop_state :: string

record war_participant =
  pt_project :: string
  pt_principal :: string
  pt_role :: string
  pt_read :: bool
  pt_approve :: bool
  pt_active :: bool

record war_message =
  wm_id :: string
  wm_project :: string
  wm_body :: string

record war_task =
  wt_id :: string
  wt_project :: string
  wt_message :: "string option"
  wt_assignee :: "string option"
  wt_scope :: string
  wt_status :: string
  wt_manyfast :: string
  wt_document :: "string option"
  wt_call_limit :: "int option"
  wt_turn_limit :: "int option"
  wt_mode :: string
  wt_deadline :: "int option"
  wt_revision :: int
  wt_workflow :: "string option"
  wt_finalized :: "int option"
  wt_finalize_count :: int

record war_delivery =
  dl_id :: string
  dl_message :: string
  dl_agent :: string
  dl_revision :: int
  dl_status :: string
  dl_deadline :: "int option"
  dl_claim :: "string option"
  dl_claim_expires :: "int option"

record war_approval =
  ap_task :: string
  ap_approver :: string
  ap_decision :: string
  ap_scope_hash :: string
  ap_document :: string
  ap_assignee :: "string option"
  ap_targets :: string
  ap_expires :: "int option"
  ap_revoked :: "int option"
  ap_created :: int

record war_calls =
  ca_task :: string
  ca_revision :: int
  ca_calls :: int
  ca_turns :: int
  ca_updated :: int

record exec_unit =
  eu_id :: string
  eu_project :: string
  eu_task :: string
  eu_correlation :: string
  eu_agent :: string
  eu_role :: string
  eu_deps :: "string list"
  eu_run :: "string option"
  eu_message :: pyval
  eu_timeout :: pyval
  eu_contract :: pyval
  eu_claimed :: "int option"
  eu_created :: int

record war_db =
  projects :: "war_project list"
  project_control :: "war_control list"
  participants :: "war_participant list"
  messages :: "war_message list"
  tasks :: "war_task list"
  task_agents :: "(string \<times> string) list"
  deliveries :: "war_delivery list"
  approvals :: "war_approval list"
  task_calls :: "war_calls list"
  packets :: "(string \<times> string) list"
  units :: "exec_unit list"

section \<open>Values bound to columns\<close>

record sqlite =
  real_text :: "rat \<Rightarrow> string"
  text_real :: "string \<Rightarrow> rat option"

definition bind_error :: exn where
  "bind_error = Raised ''ProgrammingError'' ''Error binding parameter''"

fun text_column :: "sqlite \<Rightarrow> pyval \<Rightarrow> pyval res" where
  "text_column Q PNone = Inr PNone"
| "text_column Q (PStr s) = Inr (PStr s)"
| "text_column Q (PInt i) = Inr (PStr (str_int i))"
| "text_column Q (PBool b) = Inr (PStr (if b then ''1'' else ''0''))"
| "text_column Q (PFloat x) = Inr (PStr (real_text Q x))"
| "text_column Q v = Inl bind_error"

fun real_column :: "sqlite \<Rightarrow> pyval \<Rightarrow> pyval res" where
  "real_column Q PNone = Inr PNone"
| "real_column Q (PStr s) = Inr (case text_real Q s of Some x \<Rightarrow> PFloat x | None \<Rightarrow> PStr s)"
| "real_column Q (PInt i) = Inr (PFloat (of_int i))"
| "real_column Q (PBool b) = Inr (PFloat (if b then 1 else 0))"
| "real_column Q (PFloat x) = Inr (PFloat x)"
| "real_column Q v = Inl bind_error"

text \<open>\<open>json.loads(json.dumps(v))\<close>: a tuple comes back as a list.\<close>

fun json_copy :: "pyval \<Rightarrow> pyval" where
  "json_copy (PList vs) = PList (map json_copy vs)"
| "json_copy (PTuple vs) = PList (map json_copy vs)"
| "json_copy (PDict d) = PDict (map (\<lambda>(k, v). (k, json_copy v)) d)"
| "json_copy v = v"

definition json_column :: "pyval \<Rightarrow> pyval res" where
  "json_column v = (if v = PNone then Inr PNone else need (jsonable v) (TypeError ''not JSON serializable'') (Inr (json_copy v)))"

lemma json_copy_idem: "json_copy (json_copy v) = json_copy v"
  by (induction v rule: json_copy.induct) (auto simp: case_prod_unfold)

text \<open>Looking up a row by its primary key.\<close>

lemma find_unique: "distinct (map f xs) \<Longrightarrow> x \<in> set xs \<Longrightarrow> f x = i \<Longrightarrow> find (\<lambda>y. f y = i) xs = Some x"
  by (induction xs) auto

lemma find_key: "find (\<lambda>y. f y = i) xs = Some x \<Longrightarrow> x \<in> set xs \<and> f x = i"
  by (auto simp: find_Some_iff)

end
