(* ===== verification/WorkflowUnits.thy ===== *)
theory WorkflowUnits
  imports WarTables
begin

text \<open>
  \<^verbatim>\<open>war_room_execution_units.py\<close>: the table of execution units. Every method is one transaction on the database, so it
  is an operation on \<open>war_db\<close> that leaves the tables as they were when it raises. The clock reading of a method is its
  argument \<open>now\<close>. \<open>ensure_schema\<close> is the precondition of all of them: the table and its parents exist.
\<close>

section \<open>Creating units\<close>

definition bind_unit :: "sqlite \<Rightarrow> exec_unit \<Rightarrow> exec_unit res" where
  "bind_unit Q u =
     rbind (json_column (eu_contract u)) (\<lambda>c.
     rbind (text_column Q (eu_message u)) (\<lambda>m.
     rbind (real_column Q (eu_timeout u)) (\<lambda>t.
     Inr (u\<lparr>eu_message := m, eu_timeout := t, eu_contract := c, eu_claimed := None\<rparr>))))"

definition duplicate_unit :: exn where
  "duplicate_unit = IntegrityError ''UNIQUE constraint failed: war_execution_units.execution_id''"

text \<open>The INSERT statement: primary key first, then the references to project and task.\<close>

definition insert_unit :: "sqlite \<Rightarrow> exec_unit \<Rightarrow> war_db \<Rightarrow> war_db res" where
  "insert_unit Q u d =
     rbind (bind_unit Q u) (\<lambda>row.
     if List.member (map eu_id (units d)) (eu_id u) then Inl duplicate_unit
     else if \<not> List.member (map wp_id (projects d)) (eu_project u) \<or> \<not> List.member (map wt_id (tasks d)) (eu_task u)
       then Inl (IntegrityError ''FOREIGN KEY constraint failed'')
     else Inr (d\<lparr>units := units d @ [row]\<rparr>))"

definition create_unit :: "sqlite \<Rightarrow> exec_unit \<Rightarrow> (war_db, exec_unit) op" where
  "create_unit Q u d =
     (case insert_unit Q u d of
        Inl e \<Rightarrow> (Inl (if e = duplicate_unit then ValueError (''EXECUTION_UNIT_EXISTS:'' @ eu_id u) else e), d)
      | Inr d' \<Rightarrow> (Inr (u\<lparr>eu_claimed := None\<rparr>), d'))"

fun insert_units :: "sqlite \<Rightarrow> exec_unit list \<Rightarrow> war_db \<Rightarrow> war_db res" where
  "insert_units Q [] d = Inr d"
| "insert_units Q (u # us) d = rbind (insert_unit Q u d) (insert_units Q us)"

definition units_of_task :: "string \<Rightarrow> string \<Rightarrow> war_db \<Rightarrow> exec_unit list" where
  "units_of_task p t d = filter (\<lambda>u. eu_project u = p \<and> eu_task u = t) (units d)"

text \<open>Of several groups that exist already the code names an arbitrary one, here the first.\<close>

definition create_units :: "sqlite \<Rightarrow> bool \<Rightarrow> exec_unit list \<Rightarrow> (war_db, exec_unit list) op" where
  "create_units Q reject us d =
     (if us = [] then (Inr [], d) else
      (case (if reject then find (\<lambda>(p, t). units_of_task p t d \<noteq> []) (map (\<lambda>u. (eu_project u, eu_task u)) us) else None) of
         Some (p, t) \<Rightarrow> (Inl (ValueError (''DUPLICATE_COMPILE:'' @ p @ ''/'' @ t)), d)
       | None \<Rightarrow> (case insert_units Q us d of
           Inl e \<Rightarrow> (Inl (if e = duplicate_unit then ValueError ''EXECUTION_UNIT_EXISTS'' else e), d)
         | Inr d' \<Rightarrow> (Inr us, d'))))"

section \<open>Reading units\<close>

definition get_unit :: "string \<Rightarrow> war_db \<Rightarrow> exec_unit option" where
  "get_unit i d = find (\<lambda>u. eu_id u = i) (units d)"

definition get_unit_by_core_run :: "string \<Rightarrow> war_db \<Rightarrow> exec_unit option" where
  "get_unit_by_core_run c d = find (\<lambda>u. eu_run u = Some c) (units d)"

definition in_order :: "exec_unit list \<Rightarrow> exec_unit list" where
  "in_order us = sort_key (\<lambda>u. (eu_created u, eu_id u)) us"

definition get_units_by_correlation :: "string \<Rightarrow> war_db \<Rightarrow> exec_unit list" where
  "get_units_by_correlation c d = in_order (filter (\<lambda>u. eu_correlation u = c) (units d))"

definition get_units_by_workflow :: "string \<Rightarrow> string \<Rightarrow> string \<Rightarrow> war_db \<Rightarrow> exec_unit list" where
  "get_units_by_workflow p t c d = in_order (filter (\<lambda>u. eu_project u = p \<and> eu_task u = t \<and> eu_correlation u = c) (units d))"

definition get_units_by_task :: "string \<Rightarrow> string \<Rightarrow> war_db \<Rightarrow> exec_unit list" where
  "get_units_by_task p t d = in_order (units_of_task p t d)"

section \<open>Claims and updates\<close>

definition set_unit :: "string \<Rightarrow> (exec_unit \<Rightarrow> exec_unit) \<Rightarrow> war_db \<Rightarrow> war_db" where
  "set_unit i f d = d\<lparr>units := map (\<lambda>u. if eu_id u = i then f u else u) (units d)\<rparr>"

text \<open>The guarded UPDATE: only a unit without a run and without a claim is claimed, and then it is read back.\<close>

definition claim_for_dispatch :: "int \<Rightarrow> string \<Rightarrow> (war_db, exec_unit option) op" where
  "claim_for_dispatch now i d =
     (if length (filter (\<lambda>u. eu_id u = i \<and> eu_run u = None \<and> eu_claimed u = None) (units d)) \<noteq> 1 then (Inr None, d)
      else (let d' = d\<lparr>units := map (\<lambda>u. if eu_id u = i \<and> eu_run u = None \<and> eu_claimed u = None
                       then u\<lparr>eu_claimed := Some now\<rparr> else u) (units d)\<rparr>
            in (Inr (get_unit i d'), d')))"

definition update_dispatch_input :: "string \<Rightarrow> string \<Rightarrow> rat \<Rightarrow> pydict option \<Rightarrow> (war_db, unit) op" where
  "update_dispatch_input i m t g d =
     (case (case g of None \<Rightarrow> Inr PNone | Some x \<Rightarrow> json_column (PDict x)) of
        Inl e \<Rightarrow> (Inl e, d)
      | Inr c \<Rightarrow>
          if get_unit i d = None then (Inl (ValueError (''UNKNOWN_EXECUTION_UNIT:'' @ i)), d)
          else (Inr (), set_unit i (\<lambda>u. u\<lparr>eu_message := PStr m, eu_timeout := PFloat t, eu_contract := c\<rparr>) d))"

definition update_core_run_id :: "string \<Rightarrow> string \<Rightarrow> (war_db, unit) op" where
  "update_core_run_id i c d =
     (if get_unit i d = None then (Inl (ValueError (''UNKNOWN_EXECUTION_UNIT:'' @ i)), d)
      else (Inr (), set_unit i (\<lambda>u. u\<lparr>eu_run := Some c\<rparr>) d))"

section \<open>The parent\<close>

record projection =
  pj_status :: "string option"
  pj_finalized :: "int option"
  pj_count :: int

definition get_workflow_projection :: "string \<Rightarrow> war_db \<Rightarrow> projection option" where
  "get_workflow_projection t d = map_option (\<lambda>k. \<lparr>pj_status = wt_workflow k, pj_finalized = wt_finalized k, pj_count = wt_finalize_count k\<rparr>)
     (find (\<lambda>k. wt_id k = t) (tasks d))"

definition finalize_workflow_projection :: "int \<Rightarrow> string \<Rightarrow> string \<Rightarrow> (war_db, bool) op" where
  "finalize_workflow_projection now t st d =
     (if \<not> List.member [''COMPLETED'', ''FAILED'', ''BLOCKED''] st then (Inl (ValueError (''WORKFLOW_STATUS_NOT_TERMINAL:'' @ st)), d)
      else (Inr (length (filter (\<lambda>k. wt_id k = t \<and> wt_finalized k = None) (tasks d)) = 1),
            d\<lparr>tasks := map (\<lambda>k. if wt_id k = t \<and> wt_finalized k = None
                then k\<lparr>wt_workflow := Some st, wt_finalized := Some now, wt_finalize_count := wt_finalize_count k + 1\<rparr> else k) (tasks d)\<rparr>))"

end
