(* ===== verification/WorkflowReadiness.thy ===== *)
theory WorkflowReadiness
  imports WorkflowUnits RunRegistry
begin

text \<open>
  \<^verbatim>\<open>war_room_execution_readiness.py\<close>: whether a unit may be dispatched, derived from the unit table and the run
  registry at the moment of the question. The evaluator keeps nothing; \<open>core_status\<close> is its query of a run, where
  \<open>None\<close> is the status UNKNOWN of a run that is not on record. A unit is read from the table, so its mode is always
  the default \<^verbatim>\<open>all_success\<close> and its dependencies are strings.
\<close>

section \<open>Outcomes\<close>

datatype outcome = Success | Failure | Active | NotStarted | Unknown | NotFound

datatype readiness = Waiting | Ready | Blocked

definition core_status :: "string \<Rightarrow> run list \<Rightarrow> status option" where
  "core_status c rs = map_option r_status (get_run c rs)"

definition status_text :: "status option \<Rightarrow> string" where
  "status_text s = (case s of None \<Rightarrow> ''UNKNOWN'' | Some x \<Rightarrow> status_value x)"

fun run_outcome :: "status option \<Rightarrow> outcome" where
  "run_outcome None = Unknown"
| "run_outcome (Some PASS) = Success"
| "run_outcome (Some FAIL) = Failure"
| "run_outcome (Some BLOCKED) = Failure"
| "run_outcome (Some TIMEOUT) = Failure"
| "run_outcome (Some CANCELLED) = Failure"
| "run_outcome (Some QUEUED) = Active"
| "run_outcome (Some RUNNING) = Active"

text \<open>An empty \<open>core_run_id\<close> counts as none.\<close>

definition run_of_unit :: "exec_unit \<Rightarrow> string option" where
  "run_of_unit u = (case eu_run u of None \<Rightarrow> None | Some c \<Rightarrow> if c = [] then None else Some c)"

definition execution_outcome :: "run list \<Rightarrow> exec_unit \<Rightarrow> outcome \<times> bool" where
  "execution_outcome rs u =
     (case run_of_unit u of None \<Rightarrow> (NotStarted, False) | Some c \<Rightarrow> (run_outcome (core_status c rs), True))"

record dependency =
  de_id :: string
  de_outcome :: outcome
  de_run :: "string option"
  de_status :: string

definition dependency_detail :: "run list \<Rightarrow> war_db \<Rightarrow> string \<Rightarrow> dependency" where
  "dependency_detail rs d i =
     (case get_unit i d of
        None \<Rightarrow> \<lparr>de_id = i, de_outcome = NotFound, de_run = None, de_status = ''NOT_FOUND''\<rparr>
      | Some u \<Rightarrow> (case run_of_unit u of
          None \<Rightarrow> \<lparr>de_id = i, de_outcome = NotStarted, de_run = None, de_status = ''NOT_STARTED''\<rparr>
        | Some c \<Rightarrow> \<lparr>de_id = i, de_outcome = run_outcome (core_status c rs), de_run = Some c, de_status = status_text (core_status c rs)\<rparr>))"

section \<open>Readiness\<close>

record evaluation =
  ev_id :: string
  ev_agent :: string
  ev_readiness :: readiness
  ev_outcome :: outcome
  ev_dependencies :: "dependency list"
  ev_reason :: string

definition own_reason :: "outcome \<Rightarrow> string" where
  "own_reason x =
     (if x = Success \<or> x = Failure then ''execution_already_terminal''
      else if x = Active then ''execution_already_active'' else ''execution_outcome_unknown'')"

definition unavailable :: "dependency \<Rightarrow> bool" where
  "unavailable e \<longleftrightarrow> de_outcome e = Failure \<or> de_outcome e = NotFound \<or> de_outcome e = Unknown"

definition pending_dep :: "dependency \<Rightarrow> bool" where
  "pending_dep e \<longleftrightarrow> de_outcome e = NotStarted \<or> de_outcome e = Active"

definition judge_dependencies :: "dependency list \<Rightarrow> readiness \<times> string" where
  "judge_dependencies es =
     (case find unavailable es of
        Some e \<Rightarrow> (Blocked, ''dependency '' @ de_id e @ (if de_outcome e = Failure then '' ended in failure'' else '' is unavailable''))
      | None \<Rightarrow> (case find pending_dep es of
          Some e \<Rightarrow> (Waiting, ''dependency '' @ de_id e @ '' is still pending'')
        | None \<Rightarrow> (Ready, if es = [] then ''no dependencies'' else ''all dependencies succeeded'')))"

definition evaluate :: "run list \<Rightarrow> war_db \<Rightarrow> exec_unit \<Rightarrow> evaluation res" where
  "evaluate rs d u =
     (if eu_id u = [] then Inl (ValueError ''execution_id is required'')
      else if eu_agent u = [] then Inl (ValueError ''agent_id is required'')
      else if List.member (eu_deps u) [] then Inl (ValueError ''depends_on_execution_ids must be a list of non-empty strings'')
      else (let (out, has_run) = execution_outcome rs u;
                details = map (dependency_detail rs d) (eu_deps u);
                (state, why) = (if has_run then (Blocked, own_reason out) else judge_dependencies details)
            in Inr \<lparr>ev_id = eu_id u, ev_agent = eu_agent u, ev_readiness = state, ev_outcome = out, ev_dependencies = details,
                 ev_reason = why\<rparr>))"

definition evaluate_many :: "run list \<Rightarrow> war_db \<Rightarrow> exec_unit list \<Rightarrow> evaluation list res" where
  "evaluate_many rs d us = rmap (evaluate rs d) us"

section \<open>Exactness\<close>

definition unit_ok :: "exec_unit \<Rightarrow> bool" where
  "unit_ok u \<longleftrightarrow> eu_id u \<noteq> [] \<and> eu_agent u \<noteq> [] \<and> [] \<notin> set (eu_deps u)"

definition outcome_of :: "run list \<Rightarrow> war_db \<Rightarrow> string \<Rightarrow> outcome" where
  "outcome_of rs d i = de_outcome (dependency_detail rs d i)"

lemma dependency_detail_id [simp]: "de_id (dependency_detail rs d i) = i"
  by (simp add: dependency_detail_def split: option.split)

lemma judge_dependencies_iff:
  "fst (judge_dependencies es) = Blocked \<longleftrightarrow> (\<exists>e \<in> set es. unavailable e)"
  "fst (judge_dependencies es) = Ready \<longleftrightarrow> (\<forall>e \<in> set es. de_outcome e = Success)"
  "fst (judge_dependencies es) = Waiting \<longleftrightarrow> (\<forall>e \<in> set es. \<not> unavailable e) \<and> (\<exists>e \<in> set es. pending_dep e)"
proof -
  have s: "de_outcome e = Success \<longleftrightarrow> \<not> unavailable e \<and> \<not> pending_dep e" for e
    by (cases "de_outcome e") (simp_all add: unavailable_def pending_dep_def)
  show "fst (judge_dependencies es) = Blocked \<longleftrightarrow> (\<exists>e \<in> set es. unavailable e)"
    "fst (judge_dependencies es) = Ready \<longleftrightarrow> (\<forall>e \<in> set es. de_outcome e = Success)"
    "fst (judge_dependencies es) = Waiting \<longleftrightarrow> (\<forall>e \<in> set es. \<not> unavailable e) \<and> (\<exists>e \<in> set es. pending_dep e)"
    by (auto simp: judge_dependencies_def s find_None_iff find_Some_iff split: option.split)
qed

lemma evaluate_Inr:
  assumes "unit_ok u"
  shows "\<exists>v. evaluate rs d u = Inr v \<and> ev_id v = eu_id u \<and> ev_agent v = eu_agent u \<and> ev_outcome v = fst (execution_outcome rs u) \<and>
    ev_dependencies v = map (dependency_detail rs d) (eu_deps u) \<and>
    ev_readiness v = (if run_of_unit u \<noteq> None then Blocked else fst (judge_dependencies (map (dependency_detail rs d) (eu_deps u))))"
  using assms by (auto simp: evaluate_def unit_ok_def execution_outcome_def Let_def case_prod_unfold split: option.split)

lemma evaluate_total: "unit_ok u \<longleftrightarrow> (\<exists>v. evaluate rs d u = Inr v)"
  using evaluate_Inr [of u rs d] by (auto simp: evaluate_def unit_ok_def split: if_split_asm)

definition unit_readiness :: "run list \<Rightarrow> war_db \<Rightarrow> exec_unit \<Rightarrow> readiness" where
  "unit_readiness rs d u =
     (if run_of_unit u \<noteq> None then Blocked else fst (judge_dependencies (map (dependency_detail rs d) (eu_deps u))))"

lemma evaluate_readiness: "evaluate rs d u = Inr v \<Longrightarrow> ev_readiness v = unit_readiness rs d u"
  using evaluate_Inr [of u rs d] evaluate_total [of u rs d] by (auto simp: unit_readiness_def)

lemma unit_readiness_iff:
  "unit_readiness rs d u = Ready \<longleftrightarrow> run_of_unit u = None \<and> (\<forall>i \<in> set (eu_deps u). outcome_of rs d i = Success)"
  "unit_readiness rs d u = Blocked \<longleftrightarrow> run_of_unit u \<noteq> None \<or>
     (\<exists>i \<in> set (eu_deps u). outcome_of rs d i \<in> {Failure, NotFound, Unknown})"
  "unit_readiness rs d u = Waiting \<longleftrightarrow> run_of_unit u = None \<and> (\<forall>i \<in> set (eu_deps u). outcome_of rs d i \<notin> {Failure, NotFound, Unknown}) \<and>
     (\<exists>i \<in> set (eu_deps u). outcome_of rs d i \<in> {NotStarted, Active})"
  by (auto simp: unit_readiness_def judge_dependencies_iff outcome_of_def unavailable_def pending_dep_def)

end
