(* ===== verification/WorkflowCompiler.thy ===== *)
theory WorkflowCompiler
  imports PyVal
begin

text \<open>
  \<^verbatim>\<open>war_room_execution_compiler.py\<close>: one task for several agents is compiled into execution units. The arguments
  are Python values as the callers pass them; the execution identifiers come from an operation of the caller's state
  (a factory, or the UUID generator). The depth-first search for cycles is \<open>visit_all\<close>; its lemmas show that it
  accepts exactly the acyclic dependency graphs.
\<close>

section \<open>Validation\<close>

definition required_text :: "string \<Rightarrow> pyval \<Rightarrow> string res" where
  "required_text c v = (case as_str v of None \<Rightarrow> Inl (ValueError c) | Some s \<Rightarrow> need (s \<noteq> []) (ValueError c) (Inr s))"

definition validate_agent_id :: "pyval \<Rightarrow> string res" where
  "validate_agent_id = required_text ''INVALID_AGENT_ID''"

definition validate_task_id :: "pyval \<Rightarrow> string res" where
  "validate_task_id = required_text ''INVALID_TASK_ID''"

definition validate_project_id :: "pyval \<Rightarrow> string res" where
  "validate_project_id = required_text ''INVALID_PROJECT_ID''"

definition validate_correlation_id :: "pyval \<Rightarrow> string res" where
  "validate_correlation_id = required_text ''INVALID_CORRELATION_ID''"

definition agent_sequence :: "pyval \<Rightarrow> pyval list res" where
  "agent_sequence v =
     (case v of
        PList vs \<Rightarrow> need (vs \<noteq> []) (ValueError ''agents must be non-empty'') (Inr vs)
      | PTuple vs \<Rightarrow> need (vs \<noteq> []) (ValueError ''agents must be non-empty'') (Inr vs)
      | _ \<Rightarrow> Inl (TypeError ''agents must be a list or tuple''))"

definition ordered_agents :: "pyval \<Rightarrow> string list res" where
  "ordered_agents v = rbind (agent_sequence v) (\<lambda>vs. rbind (rmap validate_agent_id vs) (\<lambda>ids. Inr (first_occurrences ids)))"

text \<open>One execution identifier per agent, as pairs of agent and identifier.\<close>

fun draw_ids :: "('s, string) op \<Rightarrow> string list \<Rightarrow> (string \<times> string) list \<Rightarrow> ('s, (string \<times> string) list) op" where
  "draw_ids factory [] drawn = ret drawn"
| "draw_ids factory (a # agents) drawn = bnd factory (\<lambda>e.
     if e = [] then raise (ValueError ''execution_id_factory must return non-empty string'')
     else if List.member (map snd drawn) e then raise (ValueError (''DUPLICATE_EXECUTION_ID:'' @ e))
     else draw_ids factory agents (drawn @ [(a, e)]))"

section \<open>The workflow\<close>

record wf_entry =
  we_role :: string
  we_deps :: "string list"
  we_message :: pyval
  we_timeout :: pyval
  we_contract :: pyval

type_synonym wf_map = "(string \<times> wf_entry) list"

definition default_entry :: wf_entry where
  "default_entry = \<lparr>we_role = ''implementation'', we_deps = [], we_message = PNone, we_timeout = PNone, we_contract = PNone\<rparr>"

definition resolve_dep :: "string list \<Rightarrow> string \<Rightarrow> pyval \<Rightarrow> string res" where
  "resolve_dep agents a v = rbind (validate_agent_id v) (\<lambda>d.
     need (d \<noteq> a) (ValueError (''WORKFLOW_SELF_DEPENDENCY:'' @ a))
     (need (List.member agents d) (ValueError (''WORKFLOW_UNKNOWN_DEPENDENCY:'' @ a @ ''->'' @ d)) (Inr d)))"

definition resolve_entry :: "string list \<Rightarrow> pydict \<Rightarrow> string \<Rightarrow> (string \<times> wf_entry) res" where
  "resolve_entry agents workflow a =
     (case map_of workflow a of
        None \<Rightarrow> Inl (ValueError (''WORKFLOW_MISSING_AGENT:'' @ a))
      | Some v \<Rightarrow> (case as_dict v of
          None \<Rightarrow> Inl (TypeError (''WORKFLOW_INVALID_ENTRY:'' @ a))
        | Some entry \<Rightarrow>
            rbind (required_text (''WORKFLOW_INVALID_ROLE:'' @ a) (dget_or entry ''role'' (PStr ''implementation''))) (\<lambda>role.
            case as_list (dget_or entry ''depends_on'' (PList [])) of
              None \<Rightarrow> Inl (ValueError (''WORKFLOW_INVALID_DEPENDS_ON:'' @ a))
            | Some deps \<Rightarrow>
                rbind (rmap (resolve_dep agents a) deps) (\<lambda>ids.
                case as_dict (por (dget entry ''dispatch_input'') (PDict [])) of
                  None \<Rightarrow> Inl (AttributeError ''get'')
                | Some given \<Rightarrow> Inr (a, \<lparr>we_role = role, we_deps = first_occurrences ids,
                    we_message = dget_or entry ''message'' (dget_or entry ''dispatch_message'' (dget given ''message'')),
                    we_timeout = dget_or entry ''timeout_seconds'' (dget given ''timeout_seconds''),
                    we_contract = dget_or entry ''goal_contract'' (dget given ''goal_contract'')\<rparr>)))))"

definition resolve_workflow :: "string list \<Rightarrow> pyval \<Rightarrow> wf_map res" where
  "resolve_workflow agents workflow =
     (if workflow = PNone then Inr (map (\<lambda>a. (a, default_entry)) agents) else
      (case as_dict workflow of
         None \<Rightarrow> Inl (TypeError ''workflow must be a Mapping'')
       | Some d \<Rightarrow> rmap (resolve_entry agents d) agents))"

section \<open>Search for cycles\<close>

text \<open>
  \<open>_visit\<close> with its loop over the dependencies, and the loop over all agents: \<open>path\<close> is the set \<open>visiting\<close>, the
  result extends the set \<open>visited\<close>. A node that is not in the map is a \<open>KeyError\<close>.
\<close>

definition cycle_error :: "string \<Rightarrow> exn" where
  "cycle_error n = ValueError (''WORKFLOW_CYCLE:'' @ n)"

function visit_all :: "(string \<times> string list) list \<Rightarrow> string list \<Rightarrow> string list \<Rightarrow> string list \<Rightarrow> string list res" where
  "visit_all G path seen [] = Inr seen"
| "visit_all G path seen (n # ns) =
     (if List.member path n then Inl (cycle_error n)
      else if List.member seen n then visit_all G path seen ns
      else (case map_of G n of
          None \<Rightarrow> Inl (KeyError n)
        | Some deps \<Rightarrow> (case visit_all G (n # path) seen deps of
            Inl e \<Rightarrow> Inl e
          | Inr seen' \<Rightarrow> visit_all G path (n # seen') ns)))"
  by pat_completeness auto

termination
proof (relation "measures [\<lambda>(G, path, seen, ns). card (set (map fst G) - set path), \<lambda>(G, path, seen, ns). length ns]")
  fix G :: "(string \<times> string list) list" and path seen ns deps n
  assume "\<not> List.member path n" and "map_of G n = Some deps"
  then have "set (map fst G) - set (n # path) \<subset> set (map fst G) - set path"
    using map_of_SomeD [of G n deps] by force
  then have "card (set (map fst G) - set (n # path)) < card (set (map fst G) - set path)" by (intro psubset_card_mono) simp_all
  then show "((G, n # path, seen, deps), (G, path, seen, n # ns)) \<in>
      measures [\<lambda>(G, path, seen, ns). card (set (map fst G) - set path), \<lambda>(G, path, seen, ns). length ns]" by simp
qed simp_all

section \<open>Compilation\<close>

record compiled_unit =
  cu_id :: string
  cu_agent :: string
  cu_correlation :: string
  cu_index :: nat
  cu_deps :: "string list"
  cu_role :: string
  cu_message :: pyval
  cu_timeout :: pyval
  cu_contract :: pyval

record compiled =
  co_project :: string
  co_task :: string
  co_correlation :: string
  co_units :: "compiled_unit list"

text \<open>The graph of the answer repeats four fields of the units.\<close>

definition workflow_graph :: "compiled \<Rightarrow> (string \<times> string \<times> string \<times> string list) list" where
  "workflow_graph c = map (\<lambda>u. (cu_agent u, cu_id u, cu_role u, cu_deps u)) (co_units c)"

definition id_of :: "(string \<times> string) list \<Rightarrow> string \<Rightarrow> string" where
  "id_of drawn a = (case map_of drawn a of Some e \<Rightarrow> e | None \<Rightarrow> [])"

definition make_unit :: "string \<Rightarrow> (string \<times> string) list \<Rightarrow> wf_map \<Rightarrow> nat \<times> string \<times> string \<Rightarrow> compiled_unit" where
  "make_unit c drawn m x = (case x of (n, a, e) \<Rightarrow>
     (let w = (case map_of m a of Some w \<Rightarrow> w | None \<Rightarrow> default_entry)
      in \<lparr>cu_id = e, cu_agent = a, cu_correlation = c, cu_index = n, cu_deps = map (id_of drawn) (we_deps w), cu_role = we_role w,
          cu_message = we_message w, cu_timeout = we_timeout w, cu_contract = we_contract w\<rparr>))"

definition compile_task_intent ::
  "('s, string) op \<Rightarrow> ('s, string) op option \<Rightarrow> pyval \<Rightarrow> pyval \<Rightarrow> pyval \<Rightarrow> pyval \<Rightarrow> pyval \<Rightarrow> ('s, compiled) op" where
  "compile_task_intent uuid factory project task agents correlation workflow =
     bnd (lift (validate_project_id project)) (\<lambda>p.
     bnd (lift (validate_task_id task)) (\<lambda>t.
     bnd (lift (ordered_agents agents)) (\<lambda>ordered.
     bnd (if correlation = PNone then bnd uuid (\<lambda>u. ret (''corr-'' @ u)) else lift (validate_correlation_id correlation)) (\<lambda>c.
     bnd (draw_ids (case factory of None \<Rightarrow> bnd uuid (\<lambda>u. ret (''exec-'' @ u)) | Some f \<Rightarrow> f) ordered []) (\<lambda>drawn.
     bnd (lift (resolve_workflow ordered workflow)) (\<lambda>m.
     bnd (lift (visit_all (map (\<lambda>(a, w). (a, we_deps w)) m) [] [] ordered)) (\<lambda>seen.
     ret \<lparr>co_project = p, co_task = t, co_correlation = c,
          co_units = map (make_unit c drawn m) (enumerate 0 drawn)\<rparr>)))))))"

section \<open>The search accepts the acyclic graphs\<close>

definition arrows :: "(string \<times> string list) list \<Rightarrow> (string \<times> string) set" where
  "arrows G = {(a, b). \<exists>deps. map_of G a = Some deps \<and> b \<in> set deps}"

text \<open>A list of visited nodes is topologically sorted: the dependencies of a node stand behind it.\<close>

fun topo :: "(string \<times> string list) list \<Rightarrow> string list \<Rightarrow> bool" where
  "topo G [] = True"
| "topo G (n # s) = ((\<exists>deps. map_of G n = Some deps \<and> set deps \<subseteq> set s) \<and> topo G s)"

lemma topo_closed: "topo G s \<Longrightarrow> (a, b) \<in> (arrows G)\<^sup>+ \<Longrightarrow> a \<in> set s \<Longrightarrow> b \<in> set s"
proof -
  assume s: "topo G s" and r: "(a, b) \<in> (arrows G)\<^sup>+" "a \<in> set s"
  have step: "a \<in> set s \<Longrightarrow> (a, b) \<in> arrows G \<Longrightarrow> b \<in> set s" for a b
    using s by (induction s) (auto simp: arrows_def)
  from r show "b \<in> set s" by (induction rule: trancl_induct) (blast intro: step)+
qed

lemma topo_no_cycle: "topo G s \<Longrightarrow> a \<in> set s \<Longrightarrow> (a, a) \<notin> (arrows G)\<^sup>+"
proof (induction s)
  case (Cons n s)
  show ?case
  proof (cases "a \<in> set s")
    case False
    with Cons.prems have a: "a = n" "topo G s" by auto
    show ?thesis
    proof
      assume "(a, a) \<in> (arrows G)\<^sup>+"
      then obtain b where b: "(a, b) \<in> arrows G" "b = a \<or> (b, a) \<in> (arrows G)\<^sup>+" by (blast dest: tranclD rtranclD)
      from b(1) Cons.prems(1) a(1) have "b \<in> set s" by (auto simp: arrows_def)
      with b(2) topo_closed [OF a(2)] False show False by blast
    qed
  qed (use Cons in auto)
qed simp

lemma visit_topo: "visit_all G path seen ns = Inr s \<Longrightarrow> topo G seen \<Longrightarrow> topo G s \<and> set seen \<union> set ns \<subseteq> set s"
proof (induction G path seen ns arbitrary: s rule: visit_all.induct)
  case (2 G path seen n ns)
  show ?case
  proof (cases "n \<in> set seen")
    case True
    with 2 show ?thesis by (auto split: if_splits)
  next
    case False
    with "2.prems"(1) obtain deps seen' where d: "n \<notin> set path" "map_of G n = Some deps" "visit_all G (n # path) seen deps = Inr seen'"
      "visit_all G path (n # seen') ns = Inr s" by (simp split: if_splits option.splits sum.splits)
    from "2.IH"(2) [OF _ _ d(2,3) "2.prems"(2)] d(1) False have "topo G seen'" "set seen \<union> set deps \<subseteq> set seen'" by simp_all
    with "2.IH"(3) [OF _ _ d(2,3,4)] d(1,2) False show ?thesis by auto
  qed
qed simp

text \<open>A search that fails has come back to its own path.\<close>

fun linked :: "(string \<times> string list) list \<Rightarrow> string list \<Rightarrow> bool" where
  "linked G (a # b # path) = ((b, a) \<in> arrows G \<and> linked G (b # path))"
| "linked G path = True"

lemma linked_reaches: "linked G (a # path) \<Longrightarrow> b \<in> set path \<Longrightarrow> (b, a) \<in> (arrows G)\<^sup>+"
proof (induction path arbitrary: a)
  case (Cons c path)
  from Cons.prems(1) have c: "(c, a) \<in> (arrows G)\<^sup>+" "linked G (c # path)" by auto
  show ?case
  proof (cases "b = c")
    case False
    with Cons.IH [OF c(2)] Cons.prems(2) have "(b, c) \<in> (arrows G)\<^sup>+" by simp
    then show ?thesis using c(1) by (rule trancl_trans)
  qed (use c(1) in simp)
qed simp

lemma visit_cycle:
  "visit_all G path seen ns = Inl e \<Longrightarrow> linked G path \<Longrightarrow> (path \<noteq> [] \<longrightarrow> (\<forall>n \<in> set ns. (hd path, n) \<in> arrows G)) \<Longrightarrow>
     (\<forall>n \<in> set ns. n \<in> set (map fst G)) \<Longrightarrow> (\<forall>deps \<in> snd ` set G. set deps \<subseteq> set (map fst G)) \<Longrightarrow>
     \<exists>n. e = cycle_error n \<and> (n, n) \<in> (arrows G)\<^sup>+"
proof (induction G path seen ns rule: visit_all.induct)
  case (2 G path seen n ns)
  obtain deps where deps: "map_of G n = Some deps" using "2.prems"(4) by (cases "map_of G n") (auto simp: map_of_eq_None_iff)
  have closed: "set deps \<subseteq> set (map fst G)" using "2.prems"(5) map_of_SomeD [OF deps] by force
  show ?case
  proof (cases "n \<in> set path")
    case True
    then obtain p path' where path: "path = p # path'" by (cases path) auto
    have edge: "(p, n) \<in> arrows G" using "2.prems"(3) by (simp add: path)
    have "(n, n) \<in> (arrows G)\<^sup>+"
    proof (cases "n = p")
      case False
      then have "(n, p) \<in> (arrows G)\<^sup>+" using linked_reaches "2.prems"(2) True unfolding path by auto
      then show ?thesis using edge by (rule trancl.trancl_into_trancl)
    qed (use edge in blast)
    then show ?thesis using "2.prems"(1) True by auto
  next
    case fresh: False
    show ?thesis
    proof (cases "n \<in> set seen")
      case True
      then show ?thesis using 2 fresh by simp
    next
      case new: False
      show ?thesis
      proof (cases "visit_all G (n # path) seen deps")
        case (Inl e')
        have link: "linked G (n # path)" using "2.prems"(2,3) by (cases path) auto
        have out: "\<forall>k \<in> set deps. (n, k) \<in> arrows G" using deps by (auto simp: arrows_def)
        have "e' = e" using "2.prems"(1) fresh new deps Inl by simp
        then show ?thesis using "2.IH"(2) [OF _ _ deps] fresh new Inl link out closed "2.prems"(5) by auto
      next
        case (Inr seen')
        then show ?thesis using "2.IH"(3) [OF _ _ deps Inr] "2.prems" fresh new deps by simp
      qed
    qed
  qed
qed simp

lemma visit_exact:
  assumes "\<forall>deps \<in> snd ` set G. set deps \<subseteq> set (map fst G)"
  shows "(\<exists>s. visit_all G [] [] (map fst G) = Inr s) \<longleftrightarrow> acyclic (arrows G)"
proof
  assume "\<exists>s. visit_all G [] [] (map fst G) = Inr s"
  then obtain s where "topo G s" "set (map fst G) \<subseteq> set s" using visit_topo [of G "[]" "[]"] by fastforce
  moreover have "a \<in> set (map fst G)" if "(a, a) \<in> (arrows G)\<^sup>+" for a
    using tranclD [OF that] by (auto simp: arrows_def dest!: map_of_SomeD) (metis fst_conv imageI)
  ultimately show "acyclic (arrows G)" unfolding acyclic_def using topo_no_cycle by blast
next
  assume "acyclic (arrows G)"
  then show "\<exists>s. visit_all G [] [] (map fst G) = Inr s"
    using visit_cycle [of G "[]" "[]" "map fst G"] assms
    by (cases "visit_all G [] [] (map fst G)") (auto simp: acyclic_def)
qed

section \<open>What is compiled\<close>

lemma draw_ids_shape:
  "draw_ids factory agents drawn s = (Inr all, t) \<Longrightarrow> distinct (map snd drawn) \<Longrightarrow> [] \<notin> set (map snd drawn) \<Longrightarrow>
     map fst all = map fst drawn @ agents \<and> distinct (map snd all) \<and> [] \<notin> set (map snd all)"
proof (induction factory agents drawn arbitrary: s rule: draw_ids.induct)
  case (2 factory a agents drawn)
  from "2.prems"(1) obtain e s1 where e: "e \<noteq> []" "e \<notin> set (map snd drawn)" "draw_ids factory agents (drawn @ [(a, e)]) s1 = (Inr all, t)"
    by (auto elim!: bnd_InrE split: if_split_asm)
  from "2.IH" [OF _ _ e(3)] e(1,2) "2.prems"(2,3) show ?case by simp
qed simp

lemma resolve_dep_Inr: "resolve_dep agents a v = Inr d \<Longrightarrow> d \<in> set agents \<and> d \<noteq> a"
  by (auto simp: resolve_dep_def rbind_Inr_iff)

lemma resolve_entry_Inr:
  assumes "resolve_entry agents d a = Inr x"
  shows "fst x = a \<and> distinct (we_deps (snd x)) \<and> set (we_deps (snd x)) \<subseteq> set agents - {a}"
  using assms unfolding resolve_entry_def
  by (auto simp: rbind_Inr_iff dest!: rmap_Inr_set resolve_dep_Inr split: option.splits)

lemma resolve_workflow_Inr:
  assumes "resolve_workflow agents workflow = Inr m"
  shows "map fst m = agents \<and> (\<forall>(a, w) \<in> set m. distinct (we_deps w) \<and> set (we_deps w) \<subseteq> set agents - {a})"
proof (cases "workflow = PNone")
  case True
  with assms show ?thesis by (auto simp: resolve_workflow_def default_entry_def o_def)
next
  case False
  with assms obtain d where d: "rmap (resolve_entry agents d) agents = Inr m" by (auto simp: resolve_workflow_def split: option.splits)
  have "rmap (resolve_entry agents d) as = Inr xs \<Longrightarrow> map fst xs = as" for as xs
    by (induction as arbitrary: xs) (auto simp: rbind_Inr_iff dest: resolve_entry_Inr)
  with d show ?thesis by (fastforce dest: rmap_Inr_set resolve_entry_Inr)
qed

definition dep_graph :: "wf_map \<Rightarrow> (string \<times> string list) list" where
  "dep_graph m = map (\<lambda>(a, w). (a, we_deps w)) m"

lemma dep_graph_fst: "map fst (dep_graph m) = map fst m"
  by (simp add: dep_graph_def o_def case_prod_unfold)

lemma dep_graph_map: "map_of (dep_graph m) a = map_option we_deps (map_of m a)"
  by (induction m) (auto simp: dep_graph_def)

text \<open>The dependencies between the units of a compilation.\<close>

definition unit_edges :: "compiled \<Rightarrow> (string \<times> string) set" where
  "unit_edges c = {(cu_id u, d) | u d. u \<in> set (co_units c) \<and> d \<in> set (cu_deps u)}"

lemma acyclic_image:
  assumes "acyclic R" and "inj_on f A" and "R \<subseteq> A \<times> A" shows "acyclic (map_prod f f ` R)"
proof -
  have "\<exists>a b. x = f a \<and> y = f b \<and> (a, b) \<in> R\<^sup>+ \<and> a \<in> A \<and> b \<in> A" if "(x, y) \<in> (map_prod f f ` R)\<^sup>+" for x y
    using that
  proof (induction rule: trancl_induct)
    case (base y)
    then obtain a b where "x = f a" "y = f b" "(a, b) \<in> R" by auto
    then show ?case using assms(3) by blast
  next
    case (step y z)
    then obtain a b c d where "x = f a" "y = f b" "(a, b) \<in> R\<^sup>+" "a \<in> A" "b \<in> A" "y = f c" "z = f d" "(c, d) \<in> R" by auto
    moreover from this(8) assms(3) have cd: "c \<in> A" "d \<in> A" by auto
    ultimately have "c = b" using inj_onD [OF assms(2), of b c] by simp
    with \<open>(a, b) \<in> R\<^sup>+\<close> \<open>(c, d) \<in> R\<close> have "(a, d) \<in> R\<^sup>+" by auto
    then show ?case using \<open>x = f a\<close> \<open>z = f d\<close> \<open>a \<in> A\<close> cd by blast
  qed
  then show ?thesis using assms(1,2) unfolding acyclic_def by (metis inj_onD)
qed

lemma make_units:
  assumes "map fst drawn = agents" and "distinct agents" and "map fst m = agents"
  shows "map cu_id (map (make_unit c drawn m) (enumerate 0 drawn)) = map snd drawn"
    and "map cu_agent (map (make_unit c drawn m) (enumerate 0 drawn)) = agents"
    and "u \<in> set (map (make_unit c drawn m) (enumerate 0 drawn)) \<Longrightarrow>
      \<exists>w. (cu_agent u, w) \<in> set m \<and> cu_id u = id_of drawn (cu_agent u) \<and> cu_deps u = map (id_of drawn) (we_deps w) \<and>
        cu_role u = we_role w \<and> cu_message u = we_message w \<and> cu_timeout u = we_timeout w \<and> cu_contract u = we_contract w"
proof -
  have sel: "cu_id (make_unit c drawn m x) = snd (snd x)" "cu_agent (make_unit c drawn m x) = fst (snd x)" for x
    by (simp_all add: make_unit_def Let_def case_prod_unfold)
  have both: "map (\<lambda>x. g (snd x)) (enumerate n ys) = map g ys" for g :: "string \<times> string \<Rightarrow> string" and n ys
    by (induction ys arbitrary: n) simp_all
  show "map cu_id (map (make_unit c drawn m) (enumerate 0 drawn)) = map snd drawn"
    "map cu_agent (map (make_unit c drawn m) (enumerate 0 drawn)) = agents"
    using assms(1) by (simp_all add: o_def sel both)
  assume "u \<in> set (map (make_unit c drawn m) (enumerate 0 drawn))"
  then obtain n a e where u: "u = make_unit c drawn m (n, a, e)" "(n, a, e) \<in> set (enumerate 0 drawn)" by auto
  have "(a, e) \<in> set drawn" using u(2) nth_mem [of n drawn] by (simp add: in_set_enumerate_eq)
  then have u: "u = make_unit c drawn m (n, a, e)" "(a, e) \<in> set drawn" using u(1) by simp_all
  from u(2) have "a \<in> set (map fst drawn)" by force
  then have "a \<in> set (map fst m)" unfolding assms(1,3) .
  then have "a \<in> fst ` set m" by simp
  then obtain w where w: "(a, w) \<in> set m" by auto
  then have "map_of m a = Some w" using assms(2,3) by (simp add: map_of_eq_Some_iff)
  moreover have "map_of drawn a = Some e" using u(2) assms(1,2) by (simp add: map_of_eq_Some_iff)
  ultimately show "\<exists>w. (cu_agent u, w) \<in> set m \<and> cu_id u = id_of drawn (cu_agent u) \<and> cu_deps u = map (id_of drawn) (we_deps w) \<and>
        cu_role u = we_role w \<and> cu_message u = we_message w \<and> cu_timeout u = we_timeout w \<and> cu_contract u = we_contract w"
    using w by (auto simp: u(1) make_unit_def Let_def id_of_def)
qed

lemma id_of_drawn:
  assumes "map fst drawn = ordered" and "distinct (map snd drawn)"
  shows "inj_on (id_of drawn) (set ordered)" and "a \<in> set ordered \<Longrightarrow> id_of drawn a \<in> set (map snd drawn)"
proof -
  have found: "(a, id_of drawn a) \<in> set drawn" if "a \<in> set ordered" for a
  proof -
    have "map_of drawn a \<noteq> None" using that unfolding map_of_eq_None_iff assms(1) [symmetric] by simp
    then obtain e where "map_of drawn a = Some e" by blast
    then show ?thesis by (simp add: id_of_def map_of_SomeD)
  qed
  show "inj_on (id_of drawn) (set ordered)"
  proof (rule inj_onI)
    fix a b assume "a \<in> set ordered" "b \<in> set ordered" "id_of drawn a = id_of drawn b"
    then have "(a, id_of drawn a) \<in> set drawn" "(b, id_of drawn a) \<in> set drawn" using found by metis+
    then show "a = b" using assms(2) inj_onD [of snd "set drawn" "(a, id_of drawn a)" "(b, id_of drawn a)"] by (simp add: distinct_map)
  qed
  assume "a \<in> set ordered"
  from found [OF this] show "id_of drawn a \<in> set (map snd drawn)" by (metis image_eqI image_set snd_conv)
qed

lemma unit_edges_image:
  assumes "map fst drawn = ordered" and "distinct ordered" and "map fst m = ordered"
    and "co_units x = map (make_unit c drawn m) (enumerate 0 drawn)"
  shows "unit_edges x \<subseteq> map_prod (id_of drawn) (id_of drawn) ` arrows (dep_graph m)"
proof
  fix z assume "z \<in> unit_edges x"
  then obtain u d where u: "z = (cu_id u, d)" "u \<in> set (co_units x)" "d \<in> set (cu_deps u)" by (auto simp: unit_edges_def)
  from make_units(3) [OF assms(1-3) u(2) [unfolded assms(4)]] obtain w where
    w: "(cu_agent u, w) \<in> set m" "cu_id u = id_of drawn (cu_agent u)" "cu_deps u = map (id_of drawn) (we_deps w)" by blast
  then have "map_of m (cu_agent u) = Some w" using assms(2,3) by (simp add: map_of_eq_Some_iff)
  with w u show "z \<in> map_prod (id_of drawn) (id_of drawn) ` arrows (dep_graph m)"
    by (auto simp: arrows_def dep_graph_map intro!: rev_image_eqI)
qed

text \<open>The units that a drawn list of identifiers and a resolved workflow give.\<close>

lemma dep_graph_shape:
  assumes "resolve_workflow ordered workflow = Inr m"
  shows "map fst (dep_graph m) = ordered" and "\<forall>deps \<in> snd ` set (dep_graph m). set deps \<subseteq> set (map fst (dep_graph m))"
    and "arrows (dep_graph m) \<subseteq> set ordered \<times> set ordered"
proof -
  from resolve_workflow_Inr [OF assms] have m: "map fst m = ordered" "\<And>a w. (a, w) \<in> set m \<Longrightarrow> set (we_deps w) \<subseteq> set ordered" by auto
  show G: "map fst (dep_graph m) = ordered" "\<forall>deps \<in> snd ` set (dep_graph m). set deps \<subseteq> set (map fst (dep_graph m))"
    using m by (auto simp: dep_graph_fst) (auto simp: dep_graph_def)
  show "arrows (dep_graph m) \<subseteq> set ordered \<times> set ordered"
  proof
    fix z assume "z \<in> arrows (dep_graph m)"
    then obtain a b deps where z: "z = (a, b)" "b \<in> set deps" "(a, deps) \<in> set (dep_graph m)" by (auto simp: arrows_def dest: map_of_SomeD)
    then have "a \<in> set (map fst (dep_graph m))" "set deps \<subseteq> set (map fst (dep_graph m))" using G(2) by force+
    then show "z \<in> set ordered \<times> set ordered" using z(1,2) by (auto simp: G(1) simp del: set_map)
  qed
qed

lemma compiled_shape:
  assumes "map fst drawn = ordered" and "distinct (map snd drawn)" and "distinct ordered" and "resolve_workflow ordered workflow = Inr m"
    and "co_units x = map (make_unit c drawn m) (enumerate 0 drawn)"
  shows "map cu_id (co_units x) = map snd drawn" and "map cu_agent (co_units x) = ordered"
    and "unit_edges x \<subseteq> set (map snd drawn) \<times> set (map snd drawn)"
    and "acyclic (arrows (dep_graph m)) \<Longrightarrow> acyclic (unit_edges x)"
proof -
  from resolve_workflow_Inr [OF assms(4)] have m: "map fst m = ordered" by simp
  show "map cu_id (co_units x) = map snd drawn" "map cu_agent (co_units x) = ordered"
    using make_units(1,2) [OF assms(1,3) m] assms(5) by simp_all
  note edges = unit_edges_image [OF assms(1,3) m assms(5)] and arrows = dep_graph_shape(3) [OF assms(4)]
  show "unit_edges x \<subseteq> set (map snd drawn) \<times> set (map snd drawn)"
    using edges arrows id_of_drawn(2) [OF assms(1,2)] by fastforce
  assume "acyclic (arrows (dep_graph m))"
  then show "acyclic (unit_edges x)" by (rule acyclic_subset [OF acyclic_image [OF _ id_of_drawn(1) [OF assms(1,2)] arrows] edges])
qed

text \<open>What every successful compilation gives.\<close>

lemma compile_task_intent_Inr:
  assumes "compile_task_intent uuid factory project task agents correlation workflow s = (Inr x, t)"
  shows "co_units x \<noteq> [] \<and> distinct (map cu_id (co_units x)) \<and> [] \<notin> set (map cu_id (co_units x)) \<and> [] \<notin> set (map cu_agent (co_units x)) \<and>
    unit_edges x \<subseteq> set (map cu_id (co_units x)) \<times> set (map cu_id (co_units x)) \<and> acyclic (unit_edges x) \<and>
    (\<forall>u \<in> set (co_units x). cu_correlation u = co_correlation x)"
proof -
  from assms obtain ordered c s1 s2 drawn m seen where
    ord: "ordered_agents agents = Inr ordered" and
    ids: "draw_ids (case factory of None \<Rightarrow> bnd uuid (\<lambda>u. ret (''exec-'' @ u)) | Some f \<Rightarrow> f) ordered [] s1 = (Inr drawn, s2)" and
    m: "resolve_workflow ordered workflow = Inr m" and seen: "visit_all (dep_graph m) [] [] ordered = Inr seen" and
    x: "co_units x = map (make_unit c drawn m) (enumerate 0 drawn)" "co_correlation x = c"
    unfolding compile_task_intent_def dep_graph_def [symmetric] by (auto elim!: bnd_InrE)
  from draw_ids_shape [OF ids] have drawn: "map fst drawn = ordered" "distinct (map snd drawn)" "[] \<notin> set (map snd drawn)" by simp_all
  from ord obtain vs names where vs: "agent_sequence agents = Inr vs" "rmap validate_agent_id vs = Inr names" "ordered = first_occurrences names"
    by (auto simp: ordered_agents_def rbind_Inr_iff)
  have "vs \<noteq> []" using vs(1) by (auto simp: agent_sequence_def split: pyval.split_asm)
  with rmap_Inr_length [OF vs(2)] vs(3) have some: "ordered \<noteq> []" by auto
  have named: "[] \<notin> set ordered"
    using rmap_Inr_set [OF vs(2)] vs(3) by (force simp: validate_agent_id_def required_text_def split: option.split_asm)
  have "distinct ordered" by (simp add: vs(3))
  note shape = compiled_shape [OF drawn(1,2) this m x(1)]
  have "acyclic (arrows (dep_graph m))" using visit_exact [OF dep_graph_shape(2) [OF m]] seen by (auto simp: dep_graph_shape(1) [OF m])
  from shape(4) [OF this] have "acyclic (unit_edges x)" .
  moreover have "co_units x \<noteq> []" using shape(2) some by auto
  moreover have "\<forall>u \<in> set (co_units x). cu_correlation u = co_correlation x" using x by (auto simp: make_unit_def Let_def case_prod_unfold)
  ultimately show ?thesis using drawn(2,3) named shape(3) by (simp only: shape(1,2)) simp
qed

text \<open>C32: Compilation. Once the identifiers, the agents and the workflow entries are valid, compilation succeeds exactly when the
  declared dependencies are acyclic, and otherwise names an agent on a cycle. The units are one per agent, in the order
  of the first mention, with distinct identifiers; the dependencies of a unit are the identifiers of the agents its
  entry names, so every dependency is a unit of the same compilation; and the dependencies between units are acyclic.\<close>

theorem compile_exact:
  assumes "validate_project_id project = Inr p" and "validate_task_id task = Inr k" and "ordered_agents agents = Inr ordered"
    and "correlation \<noteq> PNone" and "validate_correlation_id correlation = Inr c"
    and "draw_ids (case factory of None \<Rightarrow> bnd uuid (\<lambda>u. ret (''exec-'' @ u)) | Some f \<Rightarrow> f) ordered [] s = (Inr drawn, t)"
    and "resolve_workflow ordered workflow = Inr m"
  shows "if acyclic (arrows (dep_graph m))
    then \<exists>x. compile_task_intent uuid factory project task agents correlation workflow s = (Inr x, t) \<and>
      map cu_agent (co_units x) = ordered \<and> distinct ordered \<and> map cu_id (co_units x) = map snd drawn \<and> distinct (map snd drawn) \<and>
      (\<forall>u \<in> set (co_units x). \<exists>w. (cu_agent u, w) \<in> set m \<and> cu_deps u = map (id_of drawn) (we_deps w) \<and> cu_role u = we_role w \<and>
         cu_message u = we_message w \<and> cu_timeout u = we_timeout w \<and> cu_contract u = we_contract w) \<and>
      unit_edges x \<subseteq> set (map snd drawn) \<times> set (map snd drawn) \<and> acyclic (unit_edges x)
    else \<exists>n. compile_task_intent uuid factory project task agents correlation workflow s = (Inl (cycle_error n), t) \<and>
      (n, n) \<in> (arrows (dep_graph m))\<^sup>+"
proof -
  have ord: "distinct ordered" using assms(3) by (auto simp: ordered_agents_def rbind_Inr_iff)
  from draw_ids_shape [OF assms(6)] have drawn: "map fst drawn = ordered" "distinct (map snd drawn)" by simp_all
  from resolve_workflow_Inr [OF assms(7)] have m: "map fst m = ordered" by simp
  note G = dep_graph_shape(1,2) [OF assms(7)]
  define x where "x = \<lparr>co_project = p, co_task = k, co_correlation = c, co_units = map (make_unit c drawn m) (enumerate 0 drawn)\<rparr>"
  have run: "compile_task_intent uuid factory project task agents correlation workflow s =
      (case visit_all (dep_graph m) [] [] ordered of Inl e \<Rightarrow> (Inl e, t) | Inr seen \<Rightarrow> (Inr x, t))"
    using assms by (simp add: compile_task_intent_def bnd_app dep_graph_def x_def split: sum.split)
  note units = make_units [OF drawn(1) ord m, where c = c]
  have U: "co_units x = map (make_unit c drawn m) (enumerate 0 drawn)" by (simp add: x_def)
  note shape = compiled_shape [OF drawn ord assms(7) U]
  show ?thesis
  proof (cases "acyclic (arrows (dep_graph m))")
    case True
    then obtain seen where "visit_all (dep_graph m) [] [] ordered = Inr seen" using visit_exact [OF G(2)] by (auto simp: G(1))
    moreover have "\<forall>u \<in> set (co_units x). \<exists>w. (cu_agent u, w) \<in> set m \<and> cu_deps u = map (id_of drawn) (we_deps w) \<and> cu_role u = we_role w \<and>
         cu_message u = we_message w \<and> cu_timeout u = we_timeout w \<and> cu_contract u = we_contract w"
      using units(3) unfolding U by blast
    ultimately show ?thesis using True shape ord drawn(2) unfolding run U [symmetric] by simp
  next
    case False
    then obtain e where e: "visit_all (dep_graph m) [] [] ordered = Inl e"
      using visit_exact [OF G(2)] by (cases "visit_all (dep_graph m) [] [] ordered") (auto simp: G(1))
    from visit_cycle [OF this] G False show ?thesis unfolding run e by auto
  qed
qed


text \<open>A chain of three agents and a cycle of two, with identifiers drawn from a counter.\<close>

definition counted :: "(nat, string) op" where
  "counted = (\<lambda>n. (Inr (replicate (n + 1) CHR ''e''), n + 1))"

definition chain_agents :: pyval where
  "chain_agents = PList [PStr ''a'', PStr ''b'', PStr ''a'', PStr ''c'']"

definition chain_workflow :: pyval where
  "chain_workflow = PDict [(''a'', PDict []), (''b'', PDict [(''depends_on'', PList [PStr ''a''])]),
     (''c'', PDict [(''depends_on'', PList [PStr ''b''])])]"

definition loop_workflow :: pyval where
  "loop_workflow = PDict [(''a'', PDict [(''depends_on'', PList [PStr ''b''])]), (''b'', PDict [(''depends_on'', PList [PStr ''a''])]),
     (''c'', PDict [])]"

theorem compile_exact_witness:
  "(\<exists>x t. compile_task_intent counted None (PStr ''p'') (PStr ''k'') chain_agents (PStr ''corr'') chain_workflow 0 = (Inr x, t) \<and>
      map cu_agent (co_units x) = [''a'', ''b'', ''c''] \<and> acyclic (unit_edges x)) \<and>
   (\<exists>n t. compile_task_intent counted None (PStr ''p'') (PStr ''k'') chain_agents (PStr ''corr'') loop_workflow 0 = (Inl (cycle_error n), t))"
proof -
  let ?e = "\<lambda>ds. \<lparr>we_role = ''implementation'', we_deps = ds, we_message = PNone, we_timeout = PNone, we_contract = PNone\<rparr>"
  have ok: "validate_project_id (PStr ''p'') = Inr ''p''" "validate_task_id (PStr ''k'') = Inr ''k''" "PStr ''corr'' \<noteq> PNone"
    "validate_correlation_id (PStr ''corr'') = Inr ''corr''" "ordered_agents chain_agents = Inr [''a'', ''b'', ''c'']"
    by (simp_all add: validate_project_id_def validate_task_id_def validate_correlation_id_def required_text_def ordered_agents_def
        chain_agents_def agent_sequence_def validate_agent_id_def)
  have ids: "draw_ids (case None of None \<Rightarrow> bnd counted (\<lambda>u. ret (''exec-'' @ u)) | Some f \<Rightarrow> f) [''a'', ''b'', ''c''] [] 0 =
      (Inr [(''a'', ''exec-e''), (''b'', ''exec-ee''), (''c'', ''exec-eee'')], 3)"
    by (simp add: counted_def bnd_app numeral_3_eq_3)
  have m: "resolve_workflow [''a'', ''b'', ''c''] chain_workflow = Inr [(''a'', ?e []), (''b'', ?e [''a'']), (''c'', ?e [''b''])]"
    "resolve_workflow [''a'', ''b'', ''c''] loop_workflow = Inr [(''a'', ?e [''b'']), (''b'', ?e [''a'']), (''c'', ?e [])]"
    by (simp_all add: resolve_workflow_def chain_workflow_def loop_workflow_def resolve_entry_def required_text_def resolve_dep_def
        validate_agent_id_def por_def)
  have ac: "acyclic (arrows (dep_graph [(''a'', ?e []), (''b'', ?e [''a'']), (''c'', ?e [''b''])]))"
  proof -
    have "\<exists>s. visit_all (dep_graph [(''a'', ?e []), (''b'', ?e [''a'']), (''c'', ?e [''b''])]) [] [] [''a'', ''b'', ''c''] = Inr s"
      by (simp add: dep_graph_def)
    then show ?thesis using visit_exact [of "dep_graph [(''a'', ?e []), (''b'', ?e [''a'']), (''c'', ?e [''b''])]"] by (simp add: dep_graph_def)
  qed
  have cy: "\<not> acyclic (arrows (dep_graph [(''a'', ?e [''b'']), (''b'', ?e [''a'']), (''c'', ?e [])]))"
  proof -
    have "visit_all (dep_graph [(''a'', ?e [''b'']), (''b'', ?e [''a'']), (''c'', ?e [])]) [] [] [''a'', ''b'', ''c''] = Inl (cycle_error ''a'')"
      by (simp add: dep_graph_def)
    then show ?thesis using visit_exact [of "dep_graph [(''a'', ?e [''b'']), (''b'', ?e [''a'']), (''c'', ?e [])]"] by (simp add: dep_graph_def)
  qed
  from compile_exact [OF ok(1,2,5,3,4) ids m(1)] compile_exact [OF ok(1,2,5,3,4) ids m(2)] ac cy show ?thesis by auto
qed

end
