(* ===== verification/WorkflowOrchestration.thy ===== *)
theory WorkflowOrchestration
  imports WorkflowReadiness WorkflowCompiler CoreEngine
begin

text \<open>
  \<^verbatim>\<open>war_room_orchestration.py\<close>: compilation into the unit table, dispatch of ready units to the engine, continuation
  after a terminal run, and the status of the parent workflow. The database is part of the world of the engine (the
  war room's grant authorizer reads it inside a dispatch); the orchestrator itself keeps only the contracts it has
  dispatched. Every method holds the orchestrator's lock, so it is one operation on \<open>orch\<close>.
\<close>

section \<open>State\<close>

record 'v war_world =
  war :: war_db
  beyond :: 'v

record 'v orch =
  oc_core :: "'v war_world core"
  oc_contracts :: "(string \<times> string) list"

record 'v orchestrator =
  ox_engine :: "'v war_world deps"
  ox_sql :: sqlite
  ox_loads :: "string \<Rightarrow> pyval option"
  ox_stop :: "string \<Rightarrow> ('v war_world core, string \<times> string option) op"

definition on_core :: "('v war_world core, 'a) op \<Rightarrow> ('v orch, 'a) op" where
  "on_core m s = (case m (oc_core s) of (r, c) \<Rightarrow> (r, s\<lparr>oc_core := c\<rparr>))"

definition db_of :: "'v orch \<Rightarrow> war_db" where
  "db_of s = war (world (oc_core s))"

definition runs_of :: "'v orch \<Rightarrow> run list" where
  "runs_of s = runs (oc_core s)"

definition on_db :: "(war_db, 'a) op \<Rightarrow> ('v orch, 'a) op" where
  "on_db m s = (case m (db_of s) of (r, d) \<Rightarrow>
     (r, s\<lparr>oc_core := (oc_core s)\<lparr>world := (world (oc_core s))\<lparr>war := d\<rparr>\<rparr>\<rparr>))"

text \<open>A question to the registry and the tables; \<open>int(time.time())\<close>.\<close>

definition look :: "(run list \<Rightarrow> war_db \<Rightarrow> 'a) \<Rightarrow> ('v orch, 'a) op" where
  "look f = gets (\<lambda>s. f (runs_of s) (db_of s))"

definition ask :: "(run list \<Rightarrow> war_db \<Rightarrow> 'a res) \<Rightarrow> ('v orch, 'a) op" where
  "ask f = bnd (look f) lift"

definition now_seconds :: "'v orchestrator \<Rightarrow> ('v orch, int) op" where
  "now_seconds X = bnd (on_core (on_world (clock (ox_engine X)))) (\<lambda>t. ret \<lfloor>t\<rfloor>)"

section \<open>Identifiers and contracts\<close>

definition core_run_id_for :: "string \<Rightarrow> string" where
  "core_run_id_for i = ''core-exec-'' @ i"

definition idempotency_key_for :: "string \<Rightarrow> string" where
  "idempotency_key_for i = ''war-exec-'' @ i"

definition dispatch_contract :: "std \<Rightarrow> string \<Rightarrow> rat \<Rightarrow> pydict option \<Rightarrow> string res" where
  "dispatch_contract S message t goal =
     rbind (dumps (float_repr S) True (PDict [(''message'', PStr message), (''timeout_seconds'', PFloat t),
         (''goal_contract'', PDict (case goal of None \<Rightarrow> [] | Some d \<Rightarrow> d))])) (\<lambda>text. Inr (sha256 S text))"

text \<open>A stored contract is \<open>None\<close> or a dictionary; \<open>dict\<close> rejects any other value (a list of pairs apart, which no
  caller stores).\<close>

definition stored_contract :: "pyval \<Rightarrow> pydict option res" where
  "stored_contract v = (case v of PNone \<Rightarrow> Inr None | PDict d \<Rightarrow> Inr (Some d) | _ \<Rightarrow> Inl (TypeError ''goal_contract''))"

definition task_approved_paths :: "(string \<Rightarrow> pyval option) \<Rightarrow> string \<Rightarrow> war_db \<Rightarrow> string list res" where
  "task_approved_paths loads t d =
     (case map_of (packets d) t of
        None \<Rightarrow> Inr []
      | Some text \<Rightarrow> (case loads text of
          None \<Rightarrow> Inr []
        | Some v \<Rightarrow> (case as_dict v of
            None \<Rightarrow> Inl (AttributeError ''get'')
          | Some packet \<Rightarrow> (case as_list (por (dget packet ''result_artifact_paths'') (dget packet ''approved_paths'')) of
              None \<Rightarrow> Inr []
            | Some vs \<Rightarrow> Inr (filter (\<lambda>p. \<not> blank p) (List.map_filter as_str vs))))))"

section \<open>Compilation\<close>

definition unit_row :: "string \<Rightarrow> string \<Rightarrow> int \<Rightarrow> compiled_unit \<Rightarrow> exec_unit" where
  "unit_row p t now u = \<lparr>eu_id = cu_id u, eu_project = p, eu_task = t, eu_correlation = cu_correlation u, eu_agent = cu_agent u,
     eu_role = cu_role u, eu_deps = cu_deps u, eu_run = None, eu_message = cu_message u, eu_timeout = cu_timeout u,
     eu_contract = cu_contract u, eu_claimed = None, eu_created = now\<rparr>"

fun stamp_units :: "'v orchestrator \<Rightarrow> string \<Rightarrow> string \<Rightarrow> compiled_unit list \<Rightarrow> ('v orch, exec_unit list) op" where
  "stamp_units X p t [] = ret []"
| "stamp_units X p t (u # us) = bnd (now_seconds X) (\<lambda>now. bnd (stamp_units X p t us) (\<lambda>rows. ret (unit_row p t now u # rows)))"

definition compile_and_persist ::
  "'v orchestrator \<Rightarrow> string \<Rightarrow> string \<Rightarrow> string list \<Rightarrow> pyval \<Rightarrow> pyval \<Rightarrow>
   ('v orch, string \<times> exec_unit option list \<times> (string \<times> string \<times> string \<times> string list) list) op" where
  "compile_and_persist X p t agents workflow correlation =
     bnd (look (\<lambda>rs d. get_units_by_task p t d)) (\<lambda>found.
     if found \<noteq> [] then raise (ValueError (''DUPLICATE_COMPILE:'' @ p @ ''/'' @ t)) else
     bnd (lift (rmap (require_agent (agent_list (ox_engine X))) agents)) (\<lambda>registered.
     bnd (compile_task_intent (on_core (on_world (new_uuid (ox_engine X)))) None (PStr p) (PStr t) (PList (map PStr agents))
            correlation workflow) (\<lambda>c.
     bnd (stamp_units X p t (co_units c)) (\<lambda>rows.
     bnd (on_db (create_units (ox_sql X) True rows)) (\<lambda>created.
     bnd (look (\<lambda>rs d. map (\<lambda>u. get_unit (eu_id u) d) rows)) (\<lambda>persisted.
     ret (co_correlation c, persisted, workflow_graph c)))))))"

section \<open>The status of the parent\<close>

record child =
  ch_id :: string
  ch_run :: "string option"
  ch_status :: string
  ch_readiness :: readiness
  ch_role :: string
  ch_required :: bool

definition child_status :: "run list \<Rightarrow> exec_unit \<Rightarrow> string" where
  "child_status rs u = (case run_of_unit u of None \<Rightarrow> ''NOT_STARTED'' | Some c \<Rightarrow> status_text (core_status c rs))"

definition child_of :: "run list \<Rightarrow> war_db \<Rightarrow> exec_unit \<Rightarrow> child res" where
  "child_of rs d u = rbind (evaluate rs d u) (\<lambda>v. Inr
     \<lparr>ch_id = eu_id u, ch_run = eu_run u, ch_status = child_status rs u, ch_readiness = ev_readiness v, ch_role = eu_role u,
      ch_required = (eu_role u \<noteq> ''observer'')\<rparr>)"

definition runnable :: "child \<Rightarrow> bool" where
  "runnable c \<longleftrightarrow> List.member [''QUEUED'', ''RUNNING''] (ch_status c) \<or> ch_readiness c = Ready \<or> ch_readiness c = Waiting"

definition unresolved :: "child \<Rightarrow> bool" where
  "unresolved c \<longleftrightarrow> List.member [''UNKNOWN'', ''NOT_FOUND''] (ch_status c)"

definition parent_status :: "child list \<Rightarrow> string" where
  "parent_status cs =
     (let statuses = map ch_status (filter ch_required cs) in
      if list_ex runnable cs \<or> list_ex unresolved cs then ''RUNNING''
      else if statuses \<noteq> [] \<and> list_all (\<lambda>x. x = ''PASS'') statuses then ''COMPLETED''
      else if list_ex (\<lambda>x. List.member [''FAIL'', ''TIMEOUT'', ''CANCELLED''] x) statuses then ''FAILED''
      else ''BLOCKED'')"

record summary =
  su_correlation :: string
  su_project :: string
  su_task :: string
  su_status :: string
  su_terminal :: bool
  su_children :: "child list"

definition workflow_units :: "(string \<times> string) option \<Rightarrow> string \<Rightarrow> war_db \<Rightarrow> exec_unit list" where
  "workflow_units scope c d =
     (case scope of Some (p, t) \<Rightarrow> get_units_by_workflow p t c d | None \<Rightarrow> get_units_by_correlation c d)"

definition workflow_summary :: "(string \<times> string) option \<Rightarrow> string \<Rightarrow> run list \<Rightarrow> war_db \<Rightarrow> summary res" where
  "workflow_summary scope c rs d =
     (let us = workflow_units scope c d in
      if us = [] then Inl (ValueError (''UNKNOWN_WORKFLOW:'' @ c)) else
      rbind (rmap (child_of rs d) us) (\<lambda>cs. Inr
        \<lparr>su_correlation = c, su_project = eu_project (hd us), su_task = eu_task (hd us), su_status = parent_status cs,
         su_terminal = List.member [''COMPLETED'', ''FAILED'', ''BLOCKED''] (parent_status cs), su_children = cs\<rparr>))"

definition parent_projection :: "(string \<times> string) option \<Rightarrow> string \<Rightarrow> run list \<Rightarrow> war_db \<Rightarrow> (summary \<times> projection) res" where
  "parent_projection scope c rs d =
     rbind (workflow_summary scope c rs d) (\<lambda>su.
     case get_workflow_projection (su_task su) d of
       None \<Rightarrow> Inl (ValueError (''UNKNOWN_PARENT:'' @ su_task su))
     | Some pj \<Rightarrow> Inr (su\<lparr>su_status := (case pj_status pj of None \<Rightarrow> su_status su | Some x \<Rightarrow> if x = [] then su_status su else x)\<rparr>, pj))"

definition finalize_parent_if_terminal :: "'v orchestrator \<Rightarrow> string \<Rightarrow> string \<Rightarrow> string \<Rightarrow> ('v orch, summary \<times> projection) op" where
  "finalize_parent_if_terminal X c p t =
     bnd (ask (workflow_summary (Some (p, t)) c)) (\<lambda>su.
     bnd (if su_terminal su
          then bnd (now_seconds X) (\<lambda>now. bnd (on_db (finalize_workflow_projection now (su_task su) (su_status su))) (\<lambda>won. ret ()))
          else ret ()) (\<lambda>u.
     ask (parent_projection (Some (p, t)) c)))"

section \<open>Dispatch\<close>

record dispatch_answer =
  da_execution :: string
  da_run :: string
  da_status :: string
  da_replayed :: bool

definition unit_request :: "exec_unit \<Rightarrow> string \<Rightarrow> string \<Rightarrow> rat \<Rightarrow> pydict option \<Rightarrow> string list \<Rightarrow> dispatch_request" where
  "unit_request u i message t goal approved =
     \<lparr>dq_agent = eu_agent u, dq_message = PStr message, dq_timeout = PFloat t, dq_run_id = Some (core_run_id_for i),
      dq_key = Some (idempotency_key_for i), dq_goal = (case goal of None \<Rightarrow> PNone | Some d \<Rightarrow> PDict d), dq_session_key = None,
      dq_parent = None, dq_resets = 0, dq_managed = False, dq_token = None, dq_action = ''dispatch'', dq_workspace = ''command-center'',
      dq_project = ''fast-gateway'', dq_task_class = ''STANDARD'',
      dq_approved = (if approved = [] then PNone else PList (map PStr approved))\<rparr>"

definition duplicate_dispatch :: "string \<Rightarrow> exn" where
  "duplicate_dispatch i = DuplicateDispatchError (''DUPLICATE_DISPATCH:'' @ i)"

definition dispatch_conflict :: "string \<Rightarrow> exn" where
  "dispatch_conflict i = DuplicateDispatchError (''DUPLICATE_DISPATCH_CONFLICT:'' @ i)"

text \<open>Whether a unit that has a run was dispatched with another contract, by the input saved in its row.\<close>

definition saved_conflict :: "std \<Rightarrow> exec_unit \<Rightarrow> string \<Rightarrow> bool res" where
  "saved_conflict S u contract =
     (case as_str (eu_message u) of
        None \<Rightarrow> Inr False
      | Some m \<Rightarrow>
          if m = [] \<or> eu_timeout u = PNone then Inr False
          else (case as_num (eu_timeout u) of
              None \<Rightarrow> Inl (ValueError ''could not convert string to float'')
            | Some t \<Rightarrow> rbind (stored_contract (eu_contract u)) (\<lambda>g. rbind (dispatch_contract S m t g) (\<lambda>k. Inr (k \<noteq> contract)))))"

definition engine_dispatch :: "'v orchestrator \<Rightarrow> dispatch_request \<Rightarrow> ('v orch, run) op" where
  "engine_dispatch X q = on_core (dispatch (ox_engine X) q)"

definition remember :: "string \<Rightarrow> string \<Rightarrow> ('v orch, unit) op" where
  "remember i contract = modify (\<lambda>s. s\<lparr>oc_contracts := AList.update i contract (oc_contracts s)\<rparr>)"

text \<open>A unit whose run is active or has passed: the request is replayed, against the engine when this process has not
  seen its contract.\<close>

definition replay_dispatch ::
  "'v orchestrator \<Rightarrow> string \<Rightarrow> string \<Rightarrow> string \<Rightarrow> dispatch_request \<Rightarrow> string \<Rightarrow> ('v orch, dispatch_answer) op" where
  "replay_dispatch X i c status q contract =
     bnd (gets (\<lambda>s. map_of (oc_contracts s) i)) (\<lambda>known.
     bnd (case known of
            Some k \<Rightarrow> if k \<noteq> contract then raise (dispatch_conflict i) else ret ()
          | None \<Rightarrow> bnd (attempt (engine_dispatch X q)) (\<lambda>answer.
              case answer of
                Inr r \<Rightarrow> remember i contract
              | Inl e \<Rightarrow>
                  if is_value_error e \<and> (starts_with (exn_text e) ''IDEMPOTENCY_CONFLICT'' \<or> starts_with (exn_text e) ''DUPLICATE_DISPATCH'')
                  then raise (dispatch_conflict i) else raise e)) (\<lambda>u.
     ret \<lparr>da_execution = i, da_run = c, da_status = status, da_replayed = True\<rparr>))"

text \<open>The dispatch of a claimed unit.\<close>

definition run_unit :: "'v orchestrator \<Rightarrow> string \<Rightarrow> dispatch_request \<Rightarrow> string \<Rightarrow> ('v orch, dispatch_answer) op" where
  "run_unit X i q contract =
     bnd (attempt (engine_dispatch X q)) (\<lambda>answer.
     case answer of
       Inl e \<Rightarrow>
         if is_value_error e \<and> starts_with (exn_text e) ''IDEMPOTENCY_CONFLICT'' then raise (dispatch_conflict i)
         else if is_value_error e \<and> starts_with (exn_text e) ''DUPLICATE_DISPATCH'' then raise (duplicate_dispatch i)
         else raise e
     | Inr r \<Rightarrow>
         bnd (on_db (update_core_run_id i (core_run_id_for i))) (\<lambda>u.
         bnd (remember i contract) (\<lambda>u.
         ret \<lparr>da_execution = i, da_run = core_run_id_for i, da_status = status_value (r_status r), da_replayed = False\<rparr>)))"

text \<open>A claim that was lost: the run of the winner, when it has one on record (an answer without its \<^verbatim>\<open>execution_id\<close>, which the
  record here fills in).\<close>

definition lost_claim :: "string \<Rightarrow> ('v orch, dispatch_answer) op" where
  "lost_claim i =
     bnd (look (\<lambda>rs d. case Option.bind (get_unit i d) run_of_unit of
            None \<Rightarrow> None | Some c \<Rightarrow> map_option (Pair c) (core_status c rs))) (\<lambda>found.
     case found of
       Some (c, st) \<Rightarrow> ret \<lparr>da_execution = i, da_run = c, da_status = status_value st, da_replayed = True\<rparr>
     | None \<Rightarrow> raise (duplicate_dispatch i))"

text \<open>From the readiness check on; \<open>claimed\<close> tells that the caller holds the claim.\<close>

definition start_unit ::
  "'v orchestrator \<Rightarrow> string \<Rightarrow> string \<Rightarrow> rat \<Rightarrow> pydict option \<Rightarrow> bool \<Rightarrow> dispatch_request \<Rightarrow> string \<Rightarrow> ('v orch, dispatch_answer) op" where
  "start_unit X i message t goal claimed q contract =
     bnd (ask (\<lambda>rs d. case get_unit i d of None \<Rightarrow> Inl (TypeError ''unit must be a Mapping'') | Some u \<Rightarrow> evaluate rs d u)) (\<lambda>v.
     if ev_readiness v \<noteq> Ready then raise (NotReadyError (''EXECUTION_NOT_READY:'' @ i @ '':'' @ ev_reason v)) else
     bnd (on_db (update_dispatch_input i message t goal)) (\<lambda>u.
     bnd (if claimed then ret True
          else bnd (now_seconds X) (\<lambda>now. bnd (on_db (claim_for_dispatch now i)) (\<lambda>won. ret (won \<noteq> None)))) (\<lambda>won.
     if \<not> won then lost_claim i else run_unit X i q contract)))"

text \<open>A unit that has a run: replayed while that is active or has passed; otherwise its identifier is written again and the
  readiness check decides.\<close>

definition redispatch_unit ::
  "'v orchestrator \<Rightarrow> string \<Rightarrow> string \<Rightarrow> rat \<Rightarrow> pydict option \<Rightarrow> bool \<Rightarrow> exec_unit \<Rightarrow> string \<Rightarrow> dispatch_request \<Rightarrow> string \<Rightarrow>
   ('v orch, dispatch_answer) op" where
  "redispatch_unit X i m t goal claimed u c q contract =
     bnd (lift (saved_conflict (stdlib (ox_engine X)) u contract)) (\<lambda>differs.
     if differs then raise (dispatch_conflict i) else
     bnd (look (\<lambda>rs d. core_status c rs)) (\<lambda>st.
     if List.member [Some QUEUED, Some RUNNING, Some PASS] st then replay_dispatch X i c (status_text st) q contract
     else bnd (on_db (update_core_run_id i (core_run_id_for i))) (\<lambda>u. start_unit X i m t goal claimed q contract)))"

definition dispatch_unit ::
  "'v orchestrator \<Rightarrow> string \<Rightarrow> string \<Rightarrow> rat \<Rightarrow> pydict option \<Rightarrow> bool \<Rightarrow> exec_unit \<Rightarrow> ('v orch, dispatch_answer) op" where
  "dispatch_unit X i m t goal claimed u =
     bnd (ask (\<lambda>rs d. task_approved_paths (ox_loads X) (eu_task u) d)) (\<lambda>approved.
     bnd (lift (dispatch_contract (stdlib (ox_engine X)) m t goal)) (\<lambda>contract.
     case run_of_unit u of
       None \<Rightarrow> start_unit X i m t goal claimed (unit_request u i m t goal approved) contract
     | Some c \<Rightarrow> redispatch_unit X i m t goal claimed u c (unit_request u i m t goal approved) contract))"

definition dispatch_execution ::
  "'v orchestrator \<Rightarrow> string \<Rightarrow> pyval \<Rightarrow> pyval \<Rightarrow> pydict option \<Rightarrow> bool \<Rightarrow> ('v orch, dispatch_answer) op" where
  "dispatch_execution X i message timeout goal claimed =
     (case as_str message of
        None \<Rightarrow> raise (ValueError ''message must be a non-empty string'')
      | Some m \<Rightarrow>
          if m = [] then raise (ValueError ''message must be a non-empty string'') else
          (case as_num timeout of
             None \<Rightarrow> raise (ValueError ''timeout_seconds must be a positive number'')
           | Some t \<Rightarrow>
               if t \<le> 0 then raise (ValueError ''timeout_seconds must be positive'') else
               bnd (look (\<lambda>rs d. get_unit i d)) (\<lambda>found.
               case found of
                 None \<Rightarrow> raise (ValueError (''UNKNOWN_EXECUTION:'' @ i))
               | Some u \<Rightarrow> dispatch_unit X i m t goal claimed u)))"

section \<open>Continuation\<close>

text \<open>The stored input of a unit that may be dispatched without a caller.\<close>

definition stored_input :: "exec_unit \<Rightarrow> (string \<times> rat) option" where
  "stored_input u =
     (case (as_str (eu_message u), as_num (eu_timeout u)) of
        (Some m, Some t) \<Rightarrow> if m \<noteq> [] \<and> 0 < t then Some (m, t) else None
      | _ \<Rightarrow> None)"

text \<open>One unit of the loop: ready and with its input, claimed, and dispatched by the winner; what the dispatch raises is
  swallowed and the claim stays.\<close>

definition continue_unit :: "'v orchestrator \<Rightarrow> exec_unit \<Rightarrow> ('v orch, dispatch_answer list) op" where
  "continue_unit X u =
     bnd (ask (\<lambda>rs d. evaluate rs d u)) (\<lambda>v.
     if ev_readiness v \<noteq> Ready \<or> stored_input u = None then ret [] else
     bnd (now_seconds X) (\<lambda>now.
     bnd (on_db (claim_for_dispatch now (eu_id u))) (\<lambda>won.
     case won of
       None \<Rightarrow> ret []
     | Some w \<Rightarrow>
         bnd (attempt (bnd (lift (stored_contract (eu_contract w)))
                (\<lambda>g. dispatch_execution X (eu_id w) (eu_message w) (eu_timeout w) g True))) (\<lambda>answer.
         case answer of Inl e \<Rightarrow> ret [] | Inr a \<Rightarrow> ret [a]))))"

fun continue_units :: "'v orchestrator \<Rightarrow> exec_unit list \<Rightarrow> ('v orch, dispatch_answer list) op" where
  "continue_units X [] = ret []"
| "continue_units X (u # us) = bnd (continue_unit X u) (\<lambda>xs. bnd (continue_units X us) (\<lambda>ys. ret (xs @ ys)))"

definition on_core_run_terminal :: "'v orchestrator \<Rightarrow> string \<Rightarrow> ('v orch, dispatch_answer list) op" where
  "on_core_run_terminal X c =
     (if c = [] then ret [] else
      bnd (look (\<lambda>rs d. get_unit_by_core_run c d)) (\<lambda>source.
      case source of
        None \<Rightarrow> ret []
      | Some u \<Rightarrow>
          bnd (look (\<lambda>rs d. get_units_by_workflow (eu_project u) (eu_task u) (eu_correlation u) d)) (\<lambda>us.
          bnd (continue_units X us) (\<lambda>results.
          bnd (finalize_parent_if_terminal X (eu_correlation u) (eu_project u) (eu_task u)) (\<lambda>x. ret results)))))"

section \<open>Projections and stop\<close>

text \<open>What a caller sees of one unit: its readiness and the fields of its run.\<close>

record unit_view =
  uv_unit :: exec_unit
  uv_readiness :: "(readiness \<times> string) option"
  uv_status :: string
  uv_class :: "runtime_class option"
  uv_summary :: pyval
  uv_evidence :: pyval
  uv_policy :: "string option"
  uv_cancel :: "string option"
  uv_escalated :: bool

definition unstarted_view :: "exec_unit \<Rightarrow> (readiness \<times> string) option \<Rightarrow> string \<Rightarrow> unit_view" where
  "unstarted_view u ready st = \<lparr>uv_unit = u, uv_readiness = ready, uv_status = st, uv_class = None, uv_summary = PNone,
     uv_evidence = PList [], uv_policy = None, uv_cancel = None, uv_escalated = False\<rparr>"

definition project_unit :: "run list \<Rightarrow> war_db \<Rightarrow> exec_unit \<Rightarrow> unit_view" where
  "project_unit rs d u =
     (let ready = (case evaluate rs d u of Inl e \<Rightarrow> None | Inr v \<Rightarrow> Some (ev_readiness v, ev_reason v)) in
      case run_of_unit u of
        None \<Rightarrow> unstarted_view u ready ''NOT_STARTED''
      | Some c \<Rightarrow> (case get_run c rs of
          None \<Rightarrow> unstarted_view u ready ''NOT_FOUND''
        | Some r \<Rightarrow> (let result = (case r_result r of None \<Rightarrow> [] | Some x \<Rightarrow> x) in
            \<lparr>uv_unit = u, uv_readiness = ready, uv_status = status_value (r_status r), uv_class = Some (pm_runtime_class (r_policy r)),
             uv_summary = por (dget result ''summary'') (dget result ''status''), uv_evidence = por (dget result ''evidence'') (PList []),
             uv_policy = Some (r_policy_status r), uv_cancel = Some (r_cancel_reason r), uv_escalated = r_escalation_required r\<rparr>)))"

definition get_execution :: "string \<Rightarrow> ('v orch, unit_view option) op" where
  "get_execution i = look (\<lambda>rs d. map_option (project_unit rs d) (get_unit i d))"

definition list_executions :: "string \<Rightarrow> string \<Rightarrow> ('v orch, unit_view list) op" where
  "list_executions p t = look (\<lambda>rs d. map (project_unit rs d) (get_units_by_task p t d))"

definition list_by_correlation :: "string \<Rightarrow> ('v orch, unit_view list) op" where
  "list_by_correlation c = look (\<lambda>rs d. map (project_unit rs d) (get_units_by_correlation c d))"

definition unit_evaluation :: "string \<Rightarrow> ('v orch, evaluation) op" where
  "unit_evaluation i = ask (\<lambda>rs d. case get_unit i d of None \<Rightarrow> Inl (ValueError (''UNKNOWN_EXECUTION:'' @ i)) | Some u \<Rightarrow> evaluate rs d u)"

definition stop_execution :: "'v orchestrator \<Rightarrow> string \<Rightarrow> ('v orch, string \<times> string \<times> string option) op" where
  "stop_execution X i =
     bnd (look (\<lambda>rs d. get_unit i d)) (\<lambda>found.
     case found of
       None \<Rightarrow> raise (ValueError (''UNKNOWN_EXECUTION:'' @ i))
     | Some u \<Rightarrow> (case run_of_unit u of
         None \<Rightarrow> raise (ValueError (''EXECUTION_NOT_DISPATCHED:'' @ i))
       | Some c \<Rightarrow> bnd (on_core (ox_stop X c)) (\<lambda>(st, err). ret (c, st, err))))"

end
