(* ===== verification/WorkflowVerdict.thy ===== *)
theory WorkflowVerdict
  imports WorkflowOrchestration
begin

text \<open>
  The status of a parent workflow: when it is final, and when it can never become final. Both are statements about any
  legal later registry (relation \<open>grows\<close>), so they hold whatever the engine does in between.
\<close>

section \<open>Children of a workflow\<close>

definition child_view :: "run list \<Rightarrow> war_db \<Rightarrow> exec_unit \<Rightarrow> child" where
  "child_view rs d u = \<lparr>ch_id = eu_id u, ch_run = eu_run u, ch_status = child_status rs u, ch_readiness = unit_readiness rs d u,
     ch_role = eu_role u, ch_required = (eu_role u \<noteq> ''observer'')\<rparr>"

lemma child_of_view: "child_of rs d u = Inr c \<longleftrightarrow> unit_ok u \<and> c = child_view rs d u"
  using evaluate_total [of u rs d] by (auto simp: child_of_def rbind_Inr_iff child_view_def dest: evaluate_readiness)

lemma rmap_child: "rmap (child_of rs d) us = Inr cs \<longleftrightarrow> list_all unit_ok us \<and> cs = map (child_view rs d) us"
  by (induction us arbitrary: cs) (auto simp: rbind_Inr_iff child_of_view)

lemma workflow_summary_Inr:
  "workflow_summary scope c rs d = Inr su \<longleftrightarrow> workflow_units scope c d \<noteq> [] \<and> list_all unit_ok (workflow_units scope c d) \<and>
     su = \<lparr>su_correlation = c, su_project = eu_project (hd (workflow_units scope c d)), su_task = eu_task (hd (workflow_units scope c d)),
       su_status = parent_status (map (child_view rs d) (workflow_units scope c d)),
       su_terminal = List.member [''COMPLETED'', ''FAILED'', ''BLOCKED''] (parent_status (map (child_view rs d) (workflow_units scope c d))),
       su_children = map (child_view rs d) (workflow_units scope c d)\<rparr>"
  by (auto simp: workflow_summary_def Let_def rbind_Inr_iff rmap_child)

text \<open>The outcome of a unit, as its dependants see it and as the summary prints it.\<close>

definition unit_outcome :: "run list \<Rightarrow> exec_unit \<Rightarrow> outcome" where
  "unit_outcome rs u = fst (execution_outcome rs u)"

lemma outcome_of_unit: "get_unit i d = Some u \<Longrightarrow> outcome_of rs d i = unit_outcome rs u"
  by (simp add: outcome_of_def dependency_detail_def unit_outcome_def execution_outcome_def split: option.split)

lemma status_text_outcome:
  "List.member [''QUEUED'', ''RUNNING''] (status_text st) \<longleftrightarrow> run_outcome st = Active"
  "List.member [''UNKNOWN'', ''NOT_FOUND''] (status_text st) \<longleftrightarrow> run_outcome st = Unknown"
  "status_text st = ''PASS'' \<longleftrightarrow> run_outcome st = Success"
  by (cases st rule: run_outcome.cases; simp add: status_text_def)+

lemma child_status_outcome:
  "List.member [''QUEUED'', ''RUNNING''] (child_status rs u) \<longleftrightarrow> unit_outcome rs u = Active"
  "List.member [''UNKNOWN'', ''NOT_FOUND''] (child_status rs u) \<longleftrightarrow> unit_outcome rs u = Unknown"
  "child_status rs u = ''PASS'' \<longleftrightarrow> unit_outcome rs u = Success"
proof -
  show "List.member [''QUEUED'', ''RUNNING''] (child_status rs u) \<longleftrightarrow> unit_outcome rs u = Active"
  proof (cases "run_of_unit u")
    case (Some c)
    then show ?thesis using status_text_outcome(1) by (simp only: child_status_def unit_outcome_def execution_outcome_def option.case fst_conv)
  qed (simp add: child_status_def unit_outcome_def execution_outcome_def)
  show "List.member [''UNKNOWN'', ''NOT_FOUND''] (child_status rs u) \<longleftrightarrow> unit_outcome rs u = Unknown"
  proof (cases "run_of_unit u")
    case (Some c)
    then show ?thesis using status_text_outcome(2) by (simp only: child_status_def unit_outcome_def execution_outcome_def option.case fst_conv)
  qed (simp add: child_status_def unit_outcome_def execution_outcome_def)
  show "child_status rs u = ''PASS'' \<longleftrightarrow> unit_outcome rs u = Success"
  proof (cases "run_of_unit u")
    case (Some c)
    then show ?thesis using status_text_outcome(3) by (simp only: child_status_def unit_outcome_def execution_outcome_def option.case fst_conv)
  qed (simp add: child_status_def unit_outcome_def execution_outcome_def)
qed

text \<open>A child keeps the parent open when its run is open or unknown, or when it may still run.\<close>

definition open_child :: "run list \<Rightarrow> war_db \<Rightarrow> exec_unit \<Rightarrow> bool" where
  "open_child rs d u \<longleftrightarrow> unit_outcome rs u = Active \<or> unit_outcome rs u = Unknown \<or> unit_readiness rs d u \<noteq> Blocked"

lemma child_view_sel [simp]:
  "ch_status (child_view rs d u) = child_status rs u" "ch_readiness (child_view rs d u) = unit_readiness rs d u"
  "ch_required (child_view rs d u) = (eu_role u \<noteq> ''observer'')"
  by (simp_all add: child_view_def)

lemma open_child_iff: "runnable (child_view rs d u) \<or> unresolved (child_view rs d u) \<longleftrightarrow> open_child rs d u"
  unfolding runnable_def unresolved_def open_child_def child_view_sel child_status_outcome
  by (cases "unit_readiness rs d u") auto

lemma parent_running:
  "parent_status (map (child_view rs d) us) = ''RUNNING'' \<longleftrightarrow> (\<exists>u \<in> set us. open_child rs d u)"
proof -
  have "list_ex runnable (map (child_view rs d) us) \<or> list_ex unresolved (map (child_view rs d) us) \<longleftrightarrow> (\<exists>u \<in> set us. open_child rs d u)"
    using open_child_iff by (fastforce simp: list_ex_iff)
  then show ?thesis by (simp add: parent_status_def Let_def)
qed

lemma terminal_parent: "List.member [''COMPLETED'', ''FAILED'', ''BLOCKED''] (parent_status cs) \<longleftrightarrow> parent_status cs \<noteq> ''RUNNING''"
  by (simp add: parent_status_def Let_def)

section \<open>What later registries keep\<close>

lemma settled_status:
  assumes "grows rs qs" and "run_outcome (core_status c rs) \<notin> {Active, Unknown}"
  shows "core_status c qs = core_status c rs \<or> core_status c rs = Some FAIL \<and> core_status c qs = Some CANCELLED"
proof -
  from assms(2) obtain r where r: "get_run c rs = Some r" by (cases "get_run c rs") (simp_all add: core_status_def)
  from grows_get_run [OF assms(1) r] obtain q where q: "get_run c qs = Some q" "outlives r q" by blast
  have "terminal (r_status r)" using assms(2) r by (cases "r_status r") (simp_all add: core_status_def terminal_states_def)
  with q r show ?thesis by (auto simp: outlives_def core_status_def)
qed

lemma settled_unit:
  assumes "grows rs qs" and "unit_outcome rs u \<notin> {Active, Unknown}"
  shows "unit_outcome qs u = unit_outcome rs u"
    and "child_status qs u = child_status rs u \<or> child_status rs u = ''FAIL'' \<and> child_status qs u = ''CANCELLED''"
proof -
  show "unit_outcome qs u = unit_outcome rs u"
    using assms settled_status [OF assms(1)] by (force simp: unit_outcome_def execution_outcome_def split: option.splits)
  show "child_status qs u = child_status rs u \<or> child_status rs u = ''FAIL'' \<and> child_status qs u = ''CANCELLED''"
  proof (cases "run_of_unit u")
    case (Some c)
    then have "run_outcome (core_status c rs) \<notin> {Active, Unknown}" using assms(2) by (simp add: unit_outcome_def execution_outcome_def)
    from settled_status [OF assms(1) this] Some show ?thesis by (auto simp: child_status_def status_text_def)
  qed (simp add: child_status_def)
qed

text \<open>The units of a workflow are rows of the table, and their dependencies are units of the workflow.\<close>

definition closed_units :: "exec_unit list \<Rightarrow> war_db \<Rightarrow> bool" where
  "closed_units us d \<longleftrightarrow> (\<forall>u \<in> set us. get_unit (eu_id u) d = Some u \<and> (\<forall>i \<in> set (eu_deps u). \<exists>v \<in> set us. eu_id v = i))"

lemma closed_dep:
  assumes "closed_units us d" and "u \<in> set us" and "i \<in> set (eu_deps u)"
  obtains v where "v \<in> set us" "eu_id v = i" "outcome_of rs d i = unit_outcome rs v"
  using assms by (metis closed_units_def outcome_of_unit)

lemma settled_readiness:
  assumes "grows rs qs" and "closed_units us d" and "u \<in> set us" and "\<forall>u \<in> set us. unit_outcome rs u \<notin> {Active, Unknown}"
  shows "unit_readiness qs d u = unit_readiness rs d u"
proof -
  have "outcome_of qs d i = outcome_of rs d i" if "i \<in> set (eu_deps u)" for i
    using assms(2,4) settled_unit(1) [OF assms(1)] that assms(3)
    by (metis closed_units_def outcome_of_unit)
  then have "unit_readiness qs d u = Ready \<longleftrightarrow> unit_readiness rs d u = Ready" "unit_readiness qs d u = Blocked \<longleftrightarrow> unit_readiness rs d u = Blocked"
    by (simp_all add: unit_readiness_iff)
  then show ?thesis by (cases "unit_readiness rs d u"; cases "unit_readiness qs d u") simp_all
qed

section \<open>A verdict is final\<close>

lemma verdict_kept:
  assumes "\<And>u. u \<in> set us \<Longrightarrow> child_status qs u = child_status rs u \<or> child_status rs u = ''FAIL'' \<and> child_status qs u = ''CANCELLED''"
    and "\<And>u. u \<in> set us \<Longrightarrow> \<not> open_child rs d u \<and> \<not> open_child qs d u"
  shows "parent_status (map (child_view qs d) us) = parent_status (map (child_view rs d) us)"
proof -
  let ?S = "\<lambda>rs. map ch_status (filter ch_required (map (child_view rs d) us))"
  have S: "?S rs = map (child_status rs) (filter (\<lambda>u. eu_role u \<noteq> ''observer'') us)" for rs
    by (induction us) simp_all
  have pass: "list_all (\<lambda>x. x = ''PASS'') (?S qs) \<longleftrightarrow> list_all (\<lambda>x. x = ''PASS'') (?S rs)"
    using assms(1) unfolding S list_all_iff by fastforce
  have bad: "list_ex (\<lambda>x. List.member [''FAIL'', ''TIMEOUT'', ''CANCELLED''] x) (?S qs) \<longleftrightarrow>
      list_ex (\<lambda>x. List.member [''FAIL'', ''TIMEOUT'', ''CANCELLED''] x) (?S rs)"
    using assms(1) unfolding S list_ex_iff by fastforce
  have shut: "list_ex runnable (map (child_view rs d) us) = False" "list_ex unresolved (map (child_view rs d) us) = False"
    if "\<And>u. u \<in> set us \<Longrightarrow> \<not> open_child rs d u" for rs using that open_child_iff by (fastforce simp: list_ex_iff)+
  have none: "?S qs = [] \<longleftrightarrow> ?S rs = []" unfolding S by simp
  note closed = shut [of qs] shut [of rs]
  show ?thesis unfolding parent_status_def Let_def using assms(2) by (simp only: pass bad none closed simp_thms if_False)
qed

lemma finalize_once:
  assumes "finalize_workflow_projection now t st d = (Inr True, d')" and "distinct (map wt_id (tasks d))"
  shows "(\<exists>n. get_workflow_projection t d' = Some \<lparr>pj_status = Some st, pj_finalized = Some now, pj_count = n + 1\<rparr> \<and>
      map_option pj_count (get_workflow_projection t d) = Some n) \<and> (\<forall>later st. snd (finalize_workflow_projection later t st d') = d')"
proof -
  let ?p = "\<lambda>k. wt_id k = t \<and> wt_finalized k = None"
  let ?f = "\<lambda>k. if ?p k then k\<lparr>wt_workflow := Some st, wt_finalized := Some now, wt_finalize_count := wt_finalize_count k + 1\<rparr> else k"
  from assms(1) have one: "length (filter ?p (tasks d)) = 1" and d': "d' = d\<lparr>tasks := map ?f (tasks d)\<rparr>"
    by (auto simp: finalize_workflow_projection_def split: if_split_asm)
  have none: "filter (\<lambda>k. wt_id k = t \<and> wt_finalized k = None) (map ?f ks) = []" for ks by (induction ks) simp_all
  have fixed: "map (\<lambda>k. if wt_id k = t \<and> wt_finalized k = None then g k else k) (map ?f ks) = map ?f ks" for g ks
    by (induction ks) simp_all
  have "snd (finalize_workflow_projection later t st' d') = d'" for later st'
    unfolding d' finalize_workflow_projection_def by (simp add: fixed del: map_map)
  moreover have "\<exists>n. get_workflow_projection t d' = Some \<lparr>pj_status = Some st, pj_finalized = Some now, pj_count = n + 1\<rparr> \<and>
      map_option pj_count (get_workflow_projection t d) = Some n"
  proof -
    obtain k where "filter ?p (tasks d) = [k]" using one by (auto simp: length_Suc_conv)
    then have "k \<in> set (filter ?p (tasks d))" by simp
    then have k: "k \<in> set (tasks d)" "wt_id k = t" "wt_finalized k = None" by simp_all
    have "map wt_id (map ?f ks) = map wt_id ks" for ks by (induction ks) simp_all
    moreover have "tasks d' = map ?f (tasks d)" by (simp add: d')
    ultimately have "map wt_id (tasks d') = map wt_id (tasks d)" by (simp only:)
    then have "distinct (map wt_id (tasks d'))" using assms(2) by simp
    moreover have "?f k \<in> set (tasks d')" using k(1) unfolding d' by simp
    ultimately have "find (\<lambda>k. wt_id k = t) (tasks d') = Some (?f k)" using k(2) by (intro find_unique) auto
    with find_unique [OF assms(2) k(1,2)] k(2,3) show ?thesis by (simp add: get_workflow_projection_def)
  qed
  ultimately show ?thesis by blast
qed

text \<open>C29: The verdict on a workflow is final. When the summary of a workflow, whose dependencies lie inside it, is COMPLETED,
  FAILED or BLOCKED, it is the same in every legal later registry; and when it has been written to the parent, no later
  finalization, with whatever status, changes it or counts again.\<close>

theorem workflow_verdict_final:
  assumes "workflow_summary scope c rs d = Inr su" and "su_terminal su" and "closed_units (workflow_units scope c d) d"
    and "grows rs qs" and "distinct (map wt_id (tasks d))"
  shows "(\<exists>su'. workflow_summary scope c qs d = Inr su' \<and> su_status su' = su_status su \<and> su_terminal su') \<and>
    (\<forall>now d'. finalize_workflow_projection now (su_task su) (su_status su) d = (Inr True, d') \<longrightarrow>
       (\<exists>n. get_workflow_projection (su_task su) d' = Some \<lparr>pj_status = Some (su_status su), pj_finalized = Some now, pj_count = n + 1\<rparr> \<and>
          map_option pj_count (get_workflow_projection (su_task su) d) = Some n) \<and>
       (\<forall>later st. snd (finalize_workflow_projection later (su_task su) st d') = d'))"
proof -
  let ?us = "workflow_units scope c d"
  note su = assms(1) [unfolded workflow_summary_Inr]
  from su assms(2) have "parent_status (map (child_view rs d) ?us) \<noteq> ''RUNNING''" by (auto simp: terminal_parent)
  then have shut: "\<not> open_child rs d u" if "u \<in> set ?us" for u using that unfolding parent_running by blast
  then have settled: "\<forall>u \<in> set ?us. unit_outcome rs u \<notin> {Active, Unknown}" by (auto simp: open_child_def)
  have later: "\<not> open_child qs d u" if "u \<in> set ?us" for u
    using shut [OF that] settled that settled_unit(1) [OF assms(4)] settled_readiness [OF assms(4,3) that settled]
    by (simp add: open_child_def)
  have same: "parent_status (map (child_view qs d) ?us) = parent_status (map (child_view rs d) ?us)"
    using verdict_kept shut later settled settled_unit(2) [OF assms(4)] by blast
  have "\<exists>su'. workflow_summary scope c qs d = Inr su' \<and> su_status su' = su_status su \<and> su_terminal su'"
    using su assms(2) unfolding workflow_summary_Inr by (auto simp: same)
  moreover have "(\<exists>n. get_workflow_projection t d' = Some \<lparr>pj_status = Some st, pj_finalized = Some now, pj_count = n + 1\<rparr> \<and>
        map_option pj_count (get_workflow_projection t d) = Some n) \<and> (\<forall>later st. snd (finalize_workflow_projection later t st d') = d')"
    if "finalize_workflow_projection now t st d = (Inr True, d')" for now t st d'
    by (rule finalize_once [OF that assms(5)])
  ultimately show ?thesis by blast
qed

section \<open>A workflow that stalls\<close>

definition waits_on :: "exec_unit list \<Rightarrow> (string \<times> string) set" where
  "waits_on us = {(eu_id u, i) | u i. u \<in> set us \<and> i \<in> set (eu_deps u)}"

text \<open>The unit \<open>v\<close> is lost because a dependency failed, and \<open>u\<close> waits for \<open>v\<close> without a failed dependency of its own.\<close>

definition hidden_failure :: "run list \<Rightarrow> war_db \<Rightarrow> exec_unit \<Rightarrow> exec_unit \<Rightarrow> bool" where
  "hidden_failure rs d u v \<longleftrightarrow>
     eu_id v \<in> set (eu_deps u) \<and> run_of_unit u = None \<and> run_of_unit v = None \<and>
     (\<exists>i \<in> set (eu_deps v). outcome_of rs d i = Failure) \<and> (\<forall>i \<in> set (eu_deps u). outcome_of rs d i \<noteq> Failure)"

lemma run_outcome_range: "run_outcome st \<noteq> NotFound \<and> run_outcome st \<noteq> NotStarted"
  by (cases st rule: run_outcome.cases) simp_all

lemma not_started_run: "unit_outcome rs u = NotStarted \<longleftrightarrow> run_of_unit u = None" "unit_outcome rs u \<noteq> NotFound"
  by (simp_all add: unit_outcome_def execution_outcome_def run_outcome_range split: option.split)

lemma closed_outcomes:
  assumes "closed_units us d" and "\<forall>u \<in> set us. unit_outcome rs u \<notin> {Active, Unknown}" and "u \<in> set us" and "i \<in> set (eu_deps u)"
  shows "outcome_of rs d i \<in> {Success, Failure, NotStarted}"
proof -
  obtain v where v: "v \<in> set us" "outcome_of rs d i = unit_outcome rs v" using closed_dep [OF assms(1,3,4)] by blast
  with assms(2) not_started_run(2) show ?thesis by (cases "unit_outcome rs v") auto
qed

lemma stalled_waiting:
  assumes "closed_units us d" and "acyclic (waits_on us)" and "\<forall>u \<in> set us. unit_outcome rs u \<notin> {Active, Unknown}"
    and "\<forall>u \<in> set us. unit_readiness rs d u \<noteq> Ready" and "u \<in> set us" and "unit_readiness rs d u = Waiting"
  shows "\<exists>u \<in> set us. \<exists>v \<in> set us. hidden_failure rs d u v"
proof -
  have fin: "finite (waits_on us)"
  proof (rule finite_subset)
    show "waits_on us \<subseteq> eu_id ` set us \<times> (\<Union>u \<in> set us. set (eu_deps u))" by (auto simp: waits_on_def)
  qed simp
  have "wf ((waits_on us)\<inverse>)" by (rule finite_acyclic_wf_converse [OF fin assms(2)])
  then show ?thesis using assms(5,6)
  proof (induction "eu_id u" arbitrary: u rule: wf_induct_rule)
    case less
    from less.prems(2) obtain i where u: "run_of_unit u = None" "i \<in> set (eu_deps u)" "outcome_of rs d i \<in> {NotStarted, Active}"
      "\<forall>i \<in> set (eu_deps u). outcome_of rs d i \<noteq> Failure" by (auto simp: unit_readiness_iff)
    obtain v where v: "v \<in> set us" "eu_id v = i" "outcome_of rs d i = unit_outcome rs v" using closed_dep [OF assms(1) less.prems(1) u(2)] .
    with u(3) assms(3) have "unit_outcome rs v = NotStarted" by auto
    then have none: "run_of_unit v = None" by (simp add: not_started_run)
    show ?case
    proof (cases "unit_readiness rs d v")
      case Waiting
      have "(eu_id u, eu_id v) \<in> waits_on us" using less.prems(1) u(2) v(2) by (auto simp: waits_on_def)
      then show ?thesis using less.hyps [of v] v(1) Waiting by simp
    next
      case Blocked
      then obtain j where "j \<in> set (eu_deps v)" "outcome_of rs d j \<in> {Failure, NotFound, Unknown}" using none by (auto simp: unit_readiness_iff)
      with closed_outcomes [OF assms(1,3) v(1)] have "\<exists>j \<in> set (eu_deps v). outcome_of rs d j = Failure" by fastforce
      with u v none less.prems(1) show ?thesis by (auto simp: hidden_failure_def)
    qed (use assms(4) v(1) in auto)
  qed
qed

text \<open>C30: Failure is not passed on beyond direct dependants. In an acyclic workflow where no run is open or unknown and no unit is
  ready, the parent is RUNNING exactly when a unit waits for one that is itself lost to a failed dependency; and then
  it stays RUNNING, and no unit becomes ready, in every legal later registry, so the parent is never finalized.\<close>

theorem stalled_workflow_exact:
  assumes "closed_units us d" and "acyclic (waits_on us)" and "\<forall>u \<in> set us. unit_outcome rs u \<notin> {Active, Unknown}"
    and "\<forall>u \<in> set us. unit_readiness rs d u \<noteq> Ready"
  shows "(parent_status (map (child_view rs d) us) = ''RUNNING'' \<longleftrightarrow> (\<exists>u \<in> set us. \<exists>v \<in> set us. hidden_failure rs d u v)) \<and>
    (\<forall>qs. grows rs qs \<longrightarrow> (\<forall>u \<in> set us. unit_readiness qs d u \<noteq> Ready) \<and>
       (parent_status (map (child_view qs d) us) = ''RUNNING'' \<longleftrightarrow> parent_status (map (child_view rs d) us) = ''RUNNING''))"
proof -
  have waiting: "unit_readiness rs d u = Waiting" if h: "hidden_failure rs d u v" "u \<in> set us" "v \<in> set us" for u v
  proof -
    have "get_unit (eu_id v) d = Some v" using assms(1) h(3) by (auto simp: closed_units_def)
    then have "outcome_of rs d (eu_id v) = NotStarted" using h(1) by (simp add: outcome_of_unit not_started_run hidden_failure_def)
    moreover have "outcome_of rs d i \<notin> {Failure, NotFound, Unknown}" if "i \<in> set (eu_deps u)" for i
      using closed_outcomes [OF assms(1,3) h(2) that] h(1) that by (auto simp: hidden_failure_def)
    ultimately show ?thesis using h(1) by (auto simp: unit_readiness_iff hidden_failure_def)
  qed
  have "parent_status (map (child_view rs d) us) = ''RUNNING'' \<longleftrightarrow> (\<exists>u \<in> set us. unit_readiness rs d u = Waiting)"
  proof -
    have "open_child rs d u \<longleftrightarrow> unit_readiness rs d u = Waiting" if "u \<in> set us" for u
      using assms(3,4) that by (cases "unit_readiness rs d u") (auto simp: open_child_def)
    then show ?thesis unfolding parent_running by blast
  qed
  then have first: "parent_status (map (child_view rs d) us) = ''RUNNING'' \<longleftrightarrow> (\<exists>u \<in> set us. \<exists>v \<in> set us. hidden_failure rs d u v)"
    using stalled_waiting [OF assms] waiting by blast
  have later: "(\<forall>u \<in> set us. unit_readiness qs d u \<noteq> Ready) \<and>
      (parent_status (map (child_view qs d) us) = ''RUNNING'' \<longleftrightarrow> parent_status (map (child_view rs d) us) = ''RUNNING'')" if g: "grows rs qs" for qs
  proof -
    have same: "unit_readiness qs d u = unit_readiness rs d u" "unit_outcome qs u = unit_outcome rs u" if "u \<in> set us" for u
      using settled_readiness [OF g assms(1) that assms(3)] settled_unit(1) [OF g] assms(3) that by auto
    then have "open_child qs d u \<longleftrightarrow> open_child rs d u" if "u \<in> set us" for u using that by (simp add: open_child_def)
    then show ?thesis using same(1) assms(4) unfolding parent_running by auto
  qed
  show ?thesis using first later by blast
qed

section \<open>A chain of three\<close>

text \<open>Three units in a row, of which the first has a run with the given status.\<close>

definition chain_unit :: "string \<Rightarrow> string list \<Rightarrow> string option \<Rightarrow> exec_unit" where
  "chain_unit i deps c = \<lparr>eu_id = i, eu_project = ''p'', eu_task = ''t'', eu_correlation = ''corr'', eu_agent = ''qa'',
     eu_role = ''implementation'', eu_deps = deps, eu_run = c, eu_message = PStr ''go'', eu_timeout = PFloat 5, eu_contract = PNone,
     eu_claimed = None, eu_created = 0\<rparr>"

definition chain_units :: "exec_unit list" where
  "chain_units = [chain_unit ''a'' [] (Some ''core-exec-a''), chain_unit ''b'' [''a''] None, chain_unit ''c'' [''b''] None]"

definition chain_task :: war_task where
  "chain_task = \<lparr>wt_id = ''t'', wt_project = ''p'', wt_message = None, wt_assignee = None, wt_scope = ''s'', wt_status = ''running'',
     wt_manyfast = ''1'', wt_document = None, wt_call_limit = None, wt_turn_limit = None, wt_mode = ''FAST_GATEWAY'', wt_deadline = None,
     wt_revision = 1, wt_workflow = None, wt_finalized = None, wt_finalize_count = 0\<rparr>"

definition tables_with :: "exec_unit list \<Rightarrow> war_db" where
  "tables_with us = \<lparr>projects = [\<lparr>wp_id = ''p'', wp_status = ''active''\<rparr>], project_control = [], participants = [], messages = [],
     tasks = [chain_task], task_agents = [], deliveries = [], approvals = [], task_calls = [], packets = [], units = us\<rparr>"

definition failed_registry :: "run list" where
  "failed_registry = [sample_failed_run\<lparr>r_id := ''core-exec-a''\<rparr>]"

lemma chain_sel [simp]:
  "eu_id (chain_unit i ds c) = i" "eu_deps (chain_unit i ds c) = ds" "eu_run (chain_unit i ds c) = c" "eu_role (chain_unit i ds c) = ''implementation''"
  "eu_project (chain_unit i ds c) = ''p''" "eu_task (chain_unit i ds c) = ''t''" "eu_correlation (chain_unit i ds c) = ''corr''"
  "eu_agent (chain_unit i ds c) = ''qa''" "eu_created (chain_unit i ds c) = 0" "units (tables_with us) = us" "tasks (tables_with us) = [chain_task]"
  "eu_claimed (chain_unit i ds c) = None"
  by (simp_all add: chain_unit_def tables_with_def)

lemma chain_closed: "closed_units chain_units (tables_with chain_units)"
  by (simp add: closed_units_def chain_units_def get_unit_def)

lemma chain_acyclic: "acyclic (waits_on chain_units)"
proof -
  have "waits_on us = set (concat (map (\<lambda>u. map (Pair (eu_id u)) (eu_deps u)) us))" for us by (auto simp: waits_on_def)
  then have "waits_on chain_units = {(''b'', ''a''), (''c'', ''b'')}" by (simp add: chain_units_def insert_commute)
  moreover have "acyclic {(''b'', ''a''), (''c'', ''b'')}"
    unfolding acyclic_insert by (auto simp: acyclic_def dest: rtranclD tranclD)
  ultimately show ?thesis by simp
qed

lemma failed_status: "core_status ''core-exec-a'' failed_registry = Some FAIL"
  by (simp add: core_status_def failed_registry_def get_run_def sample_failed_run_def)

lemma chain_states:
  "\<forall>u \<in> set chain_units. unit_outcome failed_registry u \<notin> {Active, Unknown}"
  "\<forall>u \<in> set chain_units. unit_readiness failed_registry (tables_with chain_units) u \<noteq> Ready"
  "hidden_failure failed_registry (tables_with chain_units) (chain_unit ''c'' [''b''] None) (chain_unit ''b'' [''a''] None)"
  by (simp_all add: chain_units_def unit_outcome_def execution_outcome_def run_of_unit_def failed_status unit_readiness_iff
      hidden_failure_def outcome_of_def dependency_detail_def get_unit_def)

theorem stalled_workflow_exact_witness:
  "parent_status (map (child_view failed_registry (tables_with chain_units)) chain_units) = ''RUNNING''"
  using stalled_workflow_exact [OF chain_closed chain_acyclic chain_states(1,2)] chain_states(3)
  by (auto simp: chain_units_def)

definition single_unit :: "exec_unit list" where
  "single_unit = [chain_unit ''a'' [] (Some ''core-exec-a'')]"

theorem workflow_verdict_final_witness:
  "\<exists>su. workflow_summary None ''corr'' failed_registry (tables_with single_unit) = Inr su \<and> su_status su = ''FAILED'' \<and> su_terminal su"
proof -
  let ?d = "tables_with single_unit"
  have us: "workflow_units None ''corr'' ?d = single_unit"
    by (simp add: workflow_units_def get_units_by_correlation_def single_unit_def in_order_def)
  have st: "parent_status (map (child_view failed_registry ?d) single_unit) = ''FAILED''"
    by (simp add: single_unit_def parent_status_def child_status_def run_of_unit_def failed_status status_text_def unit_readiness_def
        runnable_def unresolved_def)
  have cl: "closed_units (workflow_units None ''corr'' ?d) ?d" unfolding us by (simp add: closed_units_def single_unit_def get_unit_def)
  have di: "distinct (map wt_id (tasks ?d))" by simp
  obtain su where su: "workflow_summary None ''corr'' failed_registry ?d = Inr su" "su_status su = ''FAILED''" "su_terminal su"
    unfolding workflow_summary_Inr us by (simp add: st) (simp add: single_unit_def unit_ok_def)
  from workflow_verdict_final [OF su(1,3) cl grows_refl di] su(2) show ?thesis by auto
qed

end
