(* ===== verification/WorkflowDispatch.thy ===== *)
theory WorkflowDispatch
  imports WorkflowVerdict CoreSafety
begin

text \<open>
  What a dispatch does to the row of its unit. A unit is handed to the engine as a new run only while its row has
  neither a run nor a claim, and leaves with both; from then on it is only replayed. A claim whose dispatch raises is
  never given back.
\<close>

section \<open>Operations on the parts of the state\<close>

lemma look_app [simp]: "look f s = (Inr (f (runs_of s) (db_of s)), s)"
  by (simp add: look_def)

lemma ask_app [simp]: "ask f s = (f (runs_of s) (db_of s), s)"
  by (simp add: ask_def bnd_app)

definition with_db :: "war_db \<Rightarrow> 'v orch \<Rightarrow> 'v orch" where
  "with_db d s = s\<lparr>oc_core := (oc_core s)\<lparr>world := (world (oc_core s))\<lparr>war := d\<rparr>\<rparr>\<rparr>"

lemma on_db_app: "on_db m s = (fst (m (db_of s)), with_db (snd (m (db_of s))) s)"
  by (simp add: on_db_def with_db_def case_prod_unfold)

lemma with_db_sel [simp]: "db_of (with_db d s) = d" "runs_of (with_db d s) = runs_of s" "oc_contracts (with_db d s) = oc_contracts s"
  by (simp_all add: with_db_def db_of_def runs_of_def)

text \<open>What the engine is built with may do anything to the world except touch the table of units; the scope of a grant
  encloses a continuation, which is then the only thing that could.\<close>

definition same_units :: "'v war_world \<Rightarrow> 'v war_world \<Rightarrow> bool" where
  "same_units w v \<longleftrightarrow> units (war v) = units (war w)"

definition engine_keeps_units :: "'v war_world deps \<Rightarrow> bool" where
  "engine_keeps_units D \<longleftrightarrow>
     (\<forall>w. same_units w (snd (clock D w))) \<and> (\<forall>w. same_units w (snd (new_uuid D w))) \<and>
     (\<forall>i p w. same_units w (snd (tp_submit D i p w))) \<and> (\<forall>t sc i w. same_units w (snd (consume_grant D t sc i w))) \<and>
     (\<forall>sc k. (\<forall>g w. same_units w (snd (k g w))) \<longrightarrow> (\<forall>w. same_units w (snd (with_grant D sc k w))))"

definition hooks_keep_units :: "'v orchestrator \<Rightarrow> bool" where
  "hooks_keep_units X \<longleftrightarrow> engine_keeps_units (ox_engine X) \<and>
     (\<forall>c s. same_units (world s) (world (snd (ox_stop X c s))))"

definition core_units :: "'v war_world core \<Rightarrow> 'v war_world core \<Rightarrow> bool" where
  "core_units s t \<longleftrightarrow> same_units (world s) (world t)"

interpretation unit_frame: guarantee core_units
  by unfold_locales (auto simp: core_units_def same_units_def)

lemma on_world_units: "(\<And>w. same_units w (snd (f w))) \<Longrightarrow> guar core_units (on_world f)"
  by (simp add: guar_def on_world_app core_units_def)

lemma ask_world_units: "(\<And>w. same_units w (snd (f w))) \<Longrightarrow> guar core_units (ask_world f)"
  by (simp add: guar_def ask_world_app core_units_def)

lemma reg_units: "guar core_units (reg m)"
  by (simp add: guar_def reg_def core_units_def same_units_def split: prod.split)

lemma deadline_units: "guar core_units (schedule_deadline i p managed)"
  by (simp add: guar_def schedule_deadline_def core_units_def same_units_def)

lemmas unit_frame_rules = unit_frame.guar_bnd unit_frame.guar_if unit_frame.guar_option unit_frame.guar_sum unit_frame.guar_prod
  unit_frame.guar_attempt unit_frame.guar_raise unit_frame.guar_ret unit_frame.guar_lift reg_units deadline_units

lemma dispatch_units:
  assumes "engine_keeps_units D"
  shows "guar core_units (dispatch D q)"
proof -
  have hooks: "guar core_units (on_world (clock D))" "guar core_units (on_world (new_uuid D))" "guar core_units (ask_world (tp_submit D i p))"
    "guar core_units (ask_world (consume_grant D t sc i))" for i p t sc
    using assms by (auto simp: engine_keeps_units_def intro: on_world_units ask_world_units)
  have grant: "guar core_units (ask_world (with_grant D sc (\<lambda>(gs, token).
      if P gs then (\<lambda>w. (Inl e, w)) else consume_grant D token gs i)))" for sc P e i
    using assms by (intro ask_world_units) (auto simp: engine_keeps_units_def same_units_def)
  have move: "guar core_units (move D i st b oc why)" for i st b oc why
    unfolding move_def by (intro unit_frame_rules hooks)
  have submit: "guar core_units (submit_run D q i key a r)" for i key a r
    unfolding submit_run_def by (intro unit_frame_rules hooks move)
  have authorize: "guar core_units (authorize_run D q i sc)" for i sc
    unfolding authorize_run_def by (intro unit_frame_rules hooks grant)
  show ?thesis
    unfolding dispatch_def run_identity_def create_record_def authorize_and_submit_def
    by (intro unit_frame_rules hooks move submit authorize)
qed

lemma now_seconds_app:
  assumes "hooks_keep_units X"
  shows "\<exists>n t. now_seconds X s = (Inr n, t) \<and> units (db_of t) = units (db_of s) \<and> runs_of t = runs_of s \<and> oc_contracts t = oc_contracts s"
  using assms by (simp add: now_seconds_def bnd_app on_core_def on_world_app db_of_def runs_of_def hooks_keep_units_def
      engine_keeps_units_def same_units_def case_prod_unfold)

lemma engine_dispatch_app:
  "engine_dispatch X q s = (fst (dispatch (ox_engine X) q (oc_core s)), s\<lparr>oc_core := snd (dispatch (ox_engine X) q (oc_core s))\<rparr>)"
  by (simp add: engine_dispatch_def on_core_def case_prod_unfold)

lemma engine_dispatch_units:
  assumes "hooks_keep_units X"
  shows "units (db_of (snd (engine_dispatch X q s))) = units (db_of s)"
  using guarD [OF dispatch_units [of "ox_engine X" q], of "oc_core s"] assms
  by (simp add: engine_dispatch_app db_of_def hooks_keep_units_def core_units_def same_units_def)

lemma remember_app [simp]: "remember i k s = (Inr (), s\<lparr>oc_contracts := AList.update i k (oc_contracts s)\<rparr>)"
  by (simp add: remember_def)

lemma contracts_sel [simp]: "db_of (s\<lparr>oc_contracts := m\<rparr>) = db_of s" "runs_of (s\<lparr>oc_contracts := m\<rparr>) = runs_of s"
  by (simp_all add: db_of_def runs_of_def)

section \<open>Rows\<close>

lemma set_unit_get:
  assumes "\<And>u. eu_id (f u) = eu_id u"
  shows "get_unit j (set_unit i f d) = (if i = j then map_option f (get_unit j d) else get_unit j d)"
proof -
  have "find (\<lambda>u. eu_id u = j) (map (\<lambda>u. if eu_id u = i then f u else u) us) =
      (if i = j then map_option f (find (\<lambda>u. eu_id u = j) us) else find (\<lambda>u. eu_id u = j) us)" for us
    by (induction us) (auto simp: assms)
  then show ?thesis by (simp add: get_unit_def set_unit_def)
qed

lemma update_core_run_id_app:
  "get_unit i d = Some u \<Longrightarrow> update_core_run_id i c d = (Inr (), set_unit i (\<lambda>u. u\<lparr>eu_run := Some c\<rparr>) d)"
  by (simp add: update_core_run_id_def)

lemma update_dispatch_input_cases:
  assumes "update_dispatch_input i m t g d = (r, d')" and "get_unit j d = Some u"
  shows "\<exists>u'. get_unit j d' = Some u' \<and> eu_run u' = eu_run u \<and> eu_claimed u' = eu_claimed u \<and> eu_id u' = eu_id u \<and>
    eu_deps u' = eu_deps u \<and> eu_agent u' = eu_agent u"
  using assms by (auto simp: update_dispatch_input_def set_unit_get split: sum.splits if_split_asm option.splits)

text \<open>A claim is given only to a row with neither a run nor a claim, when identifiers are unique.\<close>

lemma claim_cases:
  assumes "distinct (map eu_id (units d))" and "get_unit i d = Some u"
  shows "claim_for_dispatch now i d =
    (if eu_run u = None \<and> eu_claimed u = None
     then (Inr (Some (u\<lparr>eu_claimed := Some now\<rparr>)), set_unit i (\<lambda>u. u\<lparr>eu_claimed := Some now\<rparr>) d) else (Inr None, d))"
proof -
  have u: "u \<in> set (units d)" "eu_id u = i" using assms(2) by (auto simp: get_unit_def dest: find_key)
  have only: "v = u" if "v \<in> set (units d)" "eu_id v = i" for v
    using find_unique [OF assms(1) that(1) refl] find_unique [OF assms(1) u(1) refl] that(2) u(2) by simp
  have fil: "filter (\<lambda>v. eu_id v = i \<and> eu_run v = None \<and> eu_claimed v = None) (units d) =
      (if eu_run u = None \<and> eu_claimed u = None then filter (\<lambda>v. eu_id v = i) (units d) else [])"
    using only by (auto intro!: filter_cong simp: filter_empty_conv)
  have one: "length (filter (\<lambda>v. eu_id v = i) us) = 1" if "distinct (map eu_id us)" "u \<in> set us" for us
    using that u(2) by (induction us) (auto simp: filter_empty_conv image_iff)
  have upd: "map (\<lambda>v. if eu_id v = i \<and> eu_run v = None \<and> eu_claimed v = None then v\<lparr>eu_claimed := Some now\<rparr> else v) (units d) =
      map (\<lambda>v. if eu_id v = i then v\<lparr>eu_claimed := Some now\<rparr> else v) (units d)" if free: "eu_run u = None" "eu_claimed u = None"
  proof (rule map_cong [OF refl])
    fix v assume "v \<in> set (units d)"
    then have "eu_id v = i \<Longrightarrow> v = u" using only by blast
    with free show "(if eu_id v = i \<and> eu_run v = None \<and> eu_claimed v = None then v\<lparr>eu_claimed := Some now\<rparr> else v) =
        (if eu_id v = i then v\<lparr>eu_claimed := Some now\<rparr> else v)" by auto
  qed
  show ?thesis
  proof (cases "eu_run u = None \<and> eu_claimed u = None")
    case True
    then have "get_unit i (set_unit i (\<lambda>u. u\<lparr>eu_claimed := Some now\<rparr>) d) = Some (u\<lparr>eu_claimed := Some now\<rparr>)"
      using assms(2) by (simp add: set_unit_get)
    moreover have "length (filter (\<lambda>v. eu_id v = i \<and> eu_run v = None \<and> eu_claimed v = None) (units d)) = 1"
      unfolding fil using True one [OF assms(1) u(1)] by simp
    moreover have "d\<lparr>units := map (\<lambda>v. if eu_id v = i \<and> eu_run v = None \<and> eu_claimed v = None then v\<lparr>eu_claimed := Some now\<rparr> else v)
        (units d)\<rparr> = set_unit i (\<lambda>u. u\<lparr>eu_claimed := Some now\<rparr>) d" unfolding set_unit_def using True by (simp only: upd)
    ultimately show ?thesis using True unfolding claim_for_dispatch_def Let_def by simp
  next
    case False
    then have "length (filter (\<lambda>v. eu_id v = i \<and> eu_run v = None \<and> eu_claimed v = None) (units d)) \<noteq> 1" using fil by auto
    then show ?thesis using False by (simp add: claim_for_dispatch_def)
  qed
qed

section \<open>A unit that has a run, or a claim\<close>

lemma core_run_ne: "core_run_id_for i \<noteq> []"
  by (simp add: core_run_id_for_def)

lemma start_unit_run:
  assumes "get_unit i (db_of s) = Some u" and "run_of_unit u \<noteq> None"
  shows "\<exists>e. start_unit X i m t goal claimed q contract s = (Inl e, s)"
proof (cases "evaluate (runs_of s) (db_of s) u")
  case (Inr v)
  then have "ev_readiness v \<noteq> Ready" using assms(2) by (simp add: evaluate_readiness unit_readiness_def)
  with Inr show ?thesis by (simp add: start_unit_def bnd_app assms(1))
qed (simp add: start_unit_def bnd_app assms(1))

lemma replay_dispatch_Inr: "replay_dispatch X i c st q k s = (Inr a, s') \<Longrightarrow> da_replayed a"
  by (auto simp: replay_dispatch_def elim!: bnd_InrE)

lemma lost_claim_Inr: "lost_claim i s = (Inr a, s') \<Longrightarrow> da_replayed a"
  by (auto simp: lost_claim_def bnd_app split: option.split_asm)

lemma redispatch_Inr:
  assumes "redispatch_unit X i m t goal claimed u c q k s = (Inr a, s')" and "get_unit i (db_of s) = Some u"
  shows "da_replayed a"
proof -
  let ?d = "set_unit i (\<lambda>u. u\<lparr>eu_run := Some (core_run_id_for i)\<rparr>) (db_of s)"
  have row: "get_unit i ?d = Some (u\<lparr>eu_run := Some (core_run_id_for i)\<rparr>)" using assms(2) by (simp add: set_unit_get)
  have "\<exists>e. start_unit X i m t goal claimed q k (with_db ?d s) = (Inl e, with_db ?d s)"
    by (rule start_unit_run [where u = "u\<lparr>eu_run := Some (core_run_id_for i)\<rparr>"]) (simp_all add: row run_of_unit_def core_run_ne)
  then obtain e where no: "start_unit X i m t goal claimed q k (with_db ?d s) = (Inl e, with_db ?d s)" by blast
  have up: "on_db (update_core_run_id i (core_run_id_for i)) s = (Inr (), with_db ?d s)"
    using assms(2) by (simp add: on_db_app update_core_run_id_app)
  have fails: "bnd (on_db (update_core_run_id i (core_run_id_for i))) (\<lambda>u. start_unit X i m t goal claimed q k) s = (Inl e, with_db ?d s)"
    using no by (simp add: bnd_app up)
  let ?st = "core_status c (runs_of s)"
  show ?thesis
  proof (cases "saved_conflict (stdlib (ox_engine X)) u k = Inr False \<and> List.member [Some QUEUED, Some RUNNING, Some PASS] ?st")
    case True
    with assms(1) have "replay_dispatch X i c (status_text ?st) q k s = (Inr a, s')"
      by (simp add: redispatch_unit_def bnd_app del: List.member_iff)
    then show ?thesis by (rule replay_dispatch_Inr)
  next
    case False
    with assms(1) fails have False
      by (simp add: redispatch_unit_def bnd_app split: sum.split_asm if_split_asm)
    then show ?thesis by simp
  qed
qed

lemma dispatch_execution_Inr:
  assumes "dispatch_execution X i message timeout goal claimed s = (Inr a, s')"
  shows "\<exists>m t u. message = PStr m \<and> m \<noteq> [] \<and> as_num timeout = Some t \<and> 0 < t \<and> get_unit i (db_of s) = Some u \<and>
    dispatch_unit X i m t goal claimed u s = (Inr a, s')"
  using assms by (auto simp: dispatch_execution_def bnd_app split: option.splits if_split_asm)

text \<open>A dispatch of a unit whose row has a run only replays.\<close>

lemma dispatch_with_run:
  assumes "dispatch_execution X i message timeout goal claimed s = (Inr a, s')"
    and "get_unit i (db_of s) = Some u" and "run_of_unit u = Some c"
  shows "da_replayed a"
proof -
  from dispatch_execution_Inr [OF assms(1)] assms(2) obtain m t where "dispatch_unit X i m t goal claimed u s = (Inr a, s')" by auto
  then obtain q k where "redispatch_unit X i m t goal claimed u c q k s = (Inr a, s')"
    using assms(3) by (auto simp: dispatch_unit_def elim!: bnd_InrE)
  then show ?thesis using assms(2) by (rule redispatch_Inr)
qed

end
