(* ===== verification/WorkflowOnce.thy ===== *)
theory WorkflowOnce
  imports WorkflowDispatch
begin

text \<open>
  Whatever sequence of calls reaches the orchestrator, a unit is started at most once, and only when its dependencies
  have passed. The other side of the same guard: a claim whose dispatch raised is never given back, so its unit is
  never started at all.
\<close>

section \<open>Properties of the table of units\<close>

definition keeps_table :: "(exec_unit list \<Rightarrow> bool) \<Rightarrow> 'v orch \<Rightarrow> 'v orch \<Rightarrow> bool" where
  "keeps_table P s t \<longleftrightarrow> (P (units (db_of s)) \<longrightarrow> P (units (db_of t)))"

interpretation keep: guarantee "keeps_table P" for P
  by unfold_locales (auto simp: keeps_table_def)

lemma keep_same: "(\<And>s. units (db_of (snd (m s))) = units (db_of s)) \<Longrightarrow> guar (keeps_table P) m"
  by (simp add: guar_def keeps_table_def)

lemma on_core_db: "(\<And>c. same_units (world c) (world (snd (m c)))) \<Longrightarrow> units (db_of (snd (on_core m s))) = units (db_of s)"
  by (simp add: on_core_def db_of_def case_prod_unfold same_units_def)

lemma keep_reads: "guar (keeps_table P) (look f)" "guar (keeps_table P) (ask g)" "guar (keeps_table P) (remember i k)"
  by (auto intro: keep_same)

lemma keep_hooks:
  assumes "hooks_keep_units X"
  shows "guar (keeps_table P) (now_seconds X)" "guar (keeps_table P) (engine_dispatch X q)" "guar (keeps_table P) (on_core (ox_stop X c))"
    "guar (keeps_table P) (on_core (on_world (new_uuid (ox_engine X))))"
proof -
  show "guar (keeps_table P) (now_seconds X)"
    using now_seconds_app [OF assms] by (intro keep_same) (metis snd_conv)
  show "guar (keeps_table P) (engine_dispatch X q)" by (intro keep_same engine_dispatch_units assms)
  show "guar (keeps_table P) (on_core (ox_stop X c))" "guar (keeps_table P) (on_core (on_world (new_uuid (ox_engine X))))"
    using assms by (intro keep_same on_core_db; simp add: on_world_app hooks_keep_units_def engine_keeps_units_def)+
qed

lemma keep_db: "(\<And>d. P (units d) \<Longrightarrow> P (units (snd (m d)))) \<Longrightarrow> guar (keeps_table P) (on_db m)"
  by (simp add: guar_def keeps_table_def on_db_app)

lemmas keep_rules = keep.guar_bnd keep.guar_if keep.guar_option keep.guar_sum keep.guar_prod keep.guar_attempt keep.guar_raise
  keep.guar_ret keep.guar_lift keep.guar_gets keep_reads

text \<open>The finalization of a parent does not touch the units.\<close>

lemma keep_finalize:
  assumes "hooks_keep_units X"
  shows "guar (keeps_table P) (finalize_parent_if_terminal X c p t)"
  unfolding finalize_parent_if_terminal_def
  by (intro keep_rules keep_hooks [OF assms] keep_db) (simp add: finalize_workflow_projection_def)

section \<open>A start\<close>

definition has_run :: "string \<Rightarrow> exec_unit list \<Rightarrow> bool" where
  "has_run i us \<longleftrightarrow> (\<exists>u c. find (\<lambda>u. eu_id u = i) us = Some u \<and> run_of_unit u = Some c)"

lemma has_run_get: "has_run i (units d) \<longleftrightarrow> (\<exists>u c. get_unit i d = Some u \<and> run_of_unit u = Some c)"
  by (simp add: has_run_def get_unit_def)

lemma has_run_map:
  assumes "has_run i us" and "\<And>u. eu_id (f u) = eu_id u" and "\<And>u c. run_of_unit u = Some c \<Longrightarrow> \<exists>c. run_of_unit (f u) = Some c"
  shows "has_run i (map f us)"
  using assms(1) by (induction us) (auto simp: has_run_def assms(2,3) split: if_split_asm)

lemma has_run_append: "has_run i us \<Longrightarrow> has_run i (us @ vs)"
  by (induction us) (auto simp: has_run_def split: if_split_asm)

lemma run_of_unit_upd [simp]:
  "run_of_unit (u\<lparr>eu_message := m, eu_timeout := t, eu_contract := c\<rparr>) = run_of_unit u" "run_of_unit (u\<lparr>eu_claimed := x\<rparr>) = run_of_unit u"
  "run_of_unit (u\<lparr>eu_run := Some (core_run_id_for i)\<rparr>) = Some (core_run_id_for i)"
  by (simp_all add: run_of_unit_def core_run_ne)

lemma set_unit_has_run:
  assumes "has_run i (units d)" and "\<And>u. eu_id (f u) = eu_id u" and "\<And>u c. run_of_unit u = Some c \<Longrightarrow> \<exists>c. run_of_unit (f u) = Some c"
  shows "has_run i (units (set_unit j f d))"
  unfolding set_unit_def using assms by (auto intro!: has_run_map)

lemma keep_has_run:
  "guar (keeps_table (has_run i)) (on_db (update_dispatch_input j m t g))"
  "guar (keeps_table (has_run i)) (on_db (update_core_run_id j (core_run_id_for k)))"
  "guar (keeps_table (has_run i)) (on_db (claim_for_dispatch now j))"
proof -
  show "guar (keeps_table (has_run i)) (on_db (update_dispatch_input j m t g))"
    by (rule keep_db) (auto simp: update_dispatch_input_def split: sum.splits intro!: set_unit_has_run)
  show "guar (keeps_table (has_run i)) (on_db (update_core_run_id j (core_run_id_for k)))"
    by (rule keep_db) (auto simp: update_core_run_id_def intro!: set_unit_has_run)
  show "guar (keeps_table (has_run i)) (on_db (claim_for_dispatch now j))"
    by (rule keep_db) (auto simp: claim_for_dispatch_def Let_def intro!: has_run_map)
qed

lemma run_unit_starts:
  assumes "run_unit X i q k s = (Inr a, t)"
  shows "da_execution a = i \<and> da_run a = core_run_id_for i \<and> (\<exists>u. get_unit i (db_of t) = Some u \<and> eu_run u = Some (core_run_id_for i))"
proof -
  obtain r where d: "engine_dispatch X q s = (Inr r, snd (engine_dispatch X q s))"
    using assms by (cases "engine_dispatch X q s") (auto simp: run_unit_def attempt_app split: sum.split_asm if_split_asm elim!: bnd_InrE)
  define s1 where "s1 = snd (engine_dispatch X q s)"
  have "get_unit i (db_of s1) \<noteq> None" using assms d
    by (cases "get_unit i (db_of s1)") (auto simp: run_unit_def attempt_app bnd_app s1_def [symmetric] on_db_app update_core_run_id_def)
  then obtain u where u: "get_unit i (db_of s1) = Some u" by blast
  with assms d show ?thesis
    by (auto simp: run_unit_def attempt_app bnd_app s1_def [symmetric] on_db_app update_core_run_id_app set_unit_get)
qed

lemma start_unit_starts:
  assumes "start_unit X i m tm goal claimed q k s = (Inr a, t)" and "\<not> da_replayed a"
  shows "\<exists>u. get_unit i (db_of s) = Some u \<and> unit_readiness (runs_of s) (db_of s) u = Ready \<and> da_execution a = i \<and>
    da_run a = core_run_id_for i \<and> (\<exists>u. get_unit i (db_of t) = Some u \<and> eu_run u = Some (core_run_id_for i))"
proof -
  from assms(1) obtain v where v: "(case get_unit i (db_of s) of None \<Rightarrow> Inl (TypeError ''unit must be a Mapping'') | Some u \<Rightarrow>
      evaluate (runs_of s) (db_of s) u) = Inr v" "ev_readiness v = Ready"
    by (auto simp: start_unit_def elim!: bnd_InrE split: if_split_asm)
  then obtain u where u: "get_unit i (db_of s) = Some u" "evaluate (runs_of s) (db_of s) u = Inr v" by (auto split: option.split_asm)
  from assms obtain s1 where "run_unit X i q k s1 = (Inr a, t)"
    by (auto simp: start_unit_def elim!: bnd_InrE split: if_split_asm dest!: lost_claim_Inr)
  from run_unit_starts [OF this] u v evaluate_readiness [OF u(2)] show ?thesis by auto
qed

lemma lost_claim_execution: "lost_claim i s = (Inr a, t) \<Longrightarrow> da_execution a = i"
  by (auto simp: lost_claim_def bnd_app split: option.split_asm)

text \<open>A dispatch that is not a replay has started its unit: it was ready, and now has its run.\<close>

lemma dispatch_starts:
  assumes "dispatch_execution X i message timeout goal claimed s = (Inr a, t)" and "\<not> da_replayed a"
  shows "\<exists>u. get_unit i (db_of s) = Some u \<and> unit_readiness (runs_of s) (db_of s) u = Ready \<and> da_execution a = i \<and>
    da_run a = core_run_id_for i \<and> (\<exists>u. get_unit i (db_of t) = Some u \<and> eu_run u = Some (core_run_id_for i))"
proof -
  from dispatch_execution_Inr [OF assms(1)] obtain m tm u where u: "get_unit i (db_of s) = Some u"
    "dispatch_unit X i m tm goal claimed u s = (Inr a, t)" by auto
  have "run_of_unit u = None" using dispatch_with_run [OF assms(1) u(1)] assms(2) by (cases "run_of_unit u") auto
  with u(2) obtain q k where "start_unit X i m tm goal claimed q k s = (Inr a, t)"
    by (auto simp: dispatch_unit_def elim!: bnd_InrE)
  then show ?thesis using assms(2) by (rule start_unit_starts)
qed

lemma keep_dispatch:
  assumes "hooks_keep_units X"
  shows "guar (keeps_table (has_run i)) (dispatch_execution X j message timeout goal claimed)"
proof -
  note rules = keep_rules keep_hooks [OF assms] keep_has_run
  have "guar (keeps_table (has_run i)) (start_unit X j m tm goal claimed q k)" for m tm q k
    unfolding start_unit_def lost_claim_def run_unit_def by (intro rules)
  moreover have "guar (keeps_table (has_run i)) (replay_dispatch X j c st q k)" for c st q k
    unfolding replay_dispatch_def by (intro rules)
  ultimately show ?thesis
    unfolding dispatch_execution_def dispatch_unit_def redispatch_unit_def by (intro rules)
qed

section \<open>Sequences of calls\<close>

text \<open>The calls that may change a unit. Each answers with the units it dispatched; a call that raises answers with none.\<close>

datatype call =
    Compile string string "string list" pyval pyval
  | Dispatch string pyval pyval "pydict option"
  | CoreTerminal string
  | Stop string

fun perform :: "'v orchestrator \<Rightarrow> call \<Rightarrow> ('v orch, dispatch_answer list) op" where
  "perform X (Compile p t agents workflow correlation) = bnd (compile_and_persist X p t agents workflow correlation) (\<lambda>x. ret [])"
| "perform X (Dispatch i message timeout goal) = bnd (dispatch_execution X i message timeout goal False) (\<lambda>a. ret [a])"
| "perform X (CoreTerminal c) = on_core_run_terminal X c"
| "perform X (Stop i) = bnd (stop_execution X i) (\<lambda>x. ret [])"

fun serve :: "'v orchestrator \<Rightarrow> call list \<Rightarrow> 'v orch \<Rightarrow> dispatch_answer list \<times> 'v orch" where
  "serve X [] s = ([], s)"
| "serve X (c # cs) s =
     (case perform X c s of (r, t) \<Rightarrow> (case serve X cs t of (rest, z) \<Rightarrow> ((case r of Inl e \<Rightarrow> [] | Inr as \<Rightarrow> as) @ rest, z)))"

definition starts :: "string \<Rightarrow> dispatch_answer list \<Rightarrow> nat" where
  "starts i as = length (filter (\<lambda>a. da_execution a = i \<and> \<not> da_replayed a) as)"

lemma starts_simps [simp]: "starts i [] = 0" "starts i (xs @ ys) = starts i xs + starts i ys"
  by (simp_all add: starts_def)

definition rank :: "string \<Rightarrow> 'v orch \<Rightarrow> nat" where
  "rank i s = (if has_run i (units (db_of s)) then 1 else 0)"

text \<open>An operation that starts a unit leaves it with a run that it did not have.\<close>

definition counted_starts :: "string \<Rightarrow> ('v orch, dispatch_answer list) op \<Rightarrow> bool" where
  "counted_starts i m \<longleftrightarrow> (\<forall>s. (case fst (m s) of Inl e \<Rightarrow> 0 | Inr as \<Rightarrow> starts i as) + rank i s \<le> rank i (snd (m s)))"

lemma rank_mono: "guar (keeps_table (has_run i)) m \<Longrightarrow> rank i s \<le> rank i (snd (m s))"
  by (auto simp: guar_def keeps_table_def rank_def)

lemma counted_none:
  assumes "guar (keeps_table (has_run i)) m" and "\<And>s as t. m s = (Inr as, t) \<Longrightarrow> starts i as = 0"
  shows "counted_starts i m"
  using rank_mono [OF assms(1)] assms(2) by (auto simp: counted_starts_def split: sum.split) (metis prod.collapse add_0)

lemma counted_one:
  assumes "guar (keeps_table (has_run i)) m" and "\<And>s a t. m s = (Inr a, t) \<Longrightarrow> \<not> da_replayed a \<Longrightarrow> da_execution a = i \<Longrightarrow>
    \<not> has_run i (units (db_of s)) \<and> has_run i (units (db_of t))"
  shows "counted_starts i (bnd m (\<lambda>a. ret [a]))"
  unfolding counted_starts_def
proof
  fix s
  obtain r t where m: "m s = (r, t)" by (cases "m s") auto
  have "rank i s \<le> rank i t" using rank_mono [OF assms(1), of s] by (simp add: m)
  then show "(case fst (bnd m (\<lambda>a. ret [a]) s) of Inl e \<Rightarrow> 0 | Inr as \<Rightarrow> starts i as) + rank i s \<le> rank i (snd (bnd m (\<lambda>a. ret [a]) s))"
  proof (cases r)
    case (Inr a)
    with m have "m s = (Inr a, t)" by simp
    from assms(2) [OF this] \<open>rank i s \<le> rank i t\<close> m Inr show ?thesis by (auto simp: bnd_app starts_def rank_def split: if_split_asm)
  qed (simp add: bnd_app m)
qed

lemma counted_bnd:
  assumes "guar (keeps_table (has_run i)) m" and "\<And>x. counted_starts i (f x)"
  shows "counted_starts i (bnd m f)"
  unfolding counted_starts_def
proof
  fix s
  obtain r t where m: "m s = (r, t)" by (cases "m s") auto
  have "rank i s \<le> rank i t" using rank_mono [OF assms(1), of s] by (simp add: m)
  then show "(case fst (bnd m f s) of Inl e \<Rightarrow> 0 | Inr as \<Rightarrow> starts i as) + rank i s \<le> rank i (snd (bnd m f s))"
  proof (cases r)
    case (Inr x)
    have "(case fst (f x t) of Inl e \<Rightarrow> 0 | Inr as \<Rightarrow> starts i as) + rank i t \<le> rank i (snd (f x t))"
      using assms(2) by (simp add: counted_starts_def)
    with \<open>rank i s \<le> rank i t\<close> have "(case fst (f x t) of Inl e \<Rightarrow> 0 | Inr as \<Rightarrow> starts i as) + rank i s \<le> rank i (snd (f x t))" by linarith
    then show ?thesis by (simp add: bnd_app m Inr)
  qed (simp add: bnd_app m)
qed

lemma counted_append:
  assumes "counted_starts i m" and "counted_starts i n"
  shows "counted_starts i (bnd m (\<lambda>xs. bnd n (\<lambda>ys. ret (xs @ ys))))"
  unfolding counted_starts_def
proof
  fix s
  obtain r t where m: "m s = (r, t)" by (cases "m s") auto
  obtain r' t' where n: "n t = (r', t')" by (cases "n t") auto
  from assms(1) m have a: "(case r of Inl e \<Rightarrow> 0 | Inr as \<Rightarrow> starts i as) + rank i s \<le> rank i t" by (metis counted_starts_def fst_conv snd_conv)
  from assms(2) n have b: "(case r' of Inl e \<Rightarrow> 0 | Inr as \<Rightarrow> starts i as) + rank i t \<le> rank i t'" by (metis counted_starts_def fst_conv snd_conv)
  show "(case fst (bnd m (\<lambda>xs. bnd n (\<lambda>ys. ret (xs @ ys))) s) of Inl e \<Rightarrow> 0 | Inr as \<Rightarrow> starts i as) + rank i s
      \<le> rank i (snd (bnd m (\<lambda>xs. bnd n (\<lambda>ys. ret (xs @ ys))) s))"
    using a b by (cases r; cases r') (auto simp: bnd_app m n)
qed

lemma counted_then:
  assumes "counted_starts i m" and "\<And>x. guar (keeps_table (has_run i)) (n x)"
  shows "counted_starts i (bnd m (\<lambda>xs. bnd (n xs) (\<lambda>y. ret xs)))"
  unfolding counted_starts_def
proof
  fix s
  obtain r t where m: "m s = (r, t)" by (cases "m s") auto
  from assms(1) m have a: "(case r of Inl e \<Rightarrow> 0 | Inr as \<Rightarrow> starts i as) + rank i s \<le> rank i t" by (metis counted_starts_def fst_conv snd_conv)
  have b: "rank i t \<le> rank i (snd (n xs t))" for xs by (rule rank_mono [OF assms(2)])
  show "(case fst (bnd m (\<lambda>xs. bnd (n xs) (\<lambda>y. ret xs)) s) of Inl e \<Rightarrow> 0 | Inr as \<Rightarrow> starts i as) + rank i s
      \<le> rank i (snd (bnd m (\<lambda>xs. bnd (n xs) (\<lambda>y. ret xs)) s))"
  proof (cases r)
    case (Inr x)
    obtain r' z where z: "n x t = (r', z)" by (cases "n x t") auto
    with b [of x] have "rank i t \<le> rank i z" by simp
    then show ?thesis using a Inr z by (cases r') (simp_all add: bnd_app m)
  qed (use a in \<open>simp add: bnd_app m\<close>)
qed

lemma counted_dispatch:
  assumes "hooks_keep_units X"
  shows "counted_starts i (bnd (dispatch_execution X j message timeout goal claimed) (\<lambda>a. ret [a]))"
proof (rule counted_one [OF keep_dispatch [OF assms]])
  fix s a t assume d: "dispatch_execution X j message timeout goal claimed s = (Inr a, t)" "\<not> da_replayed a" "da_execution a = i"
  from dispatch_starts [OF d(1,2)] d(3) show "\<not> has_run i (units (db_of s)) \<and> has_run i (units (db_of t))"
    by (auto simp: has_run_get unit_readiness_iff run_of_unit_def core_run_ne)
qed

lemma counted_try:
  assumes "counted_starts i (bnd m (\<lambda>a. ret [a]))"
  shows "counted_starts i (bnd (attempt m) (\<lambda>answer. case answer of Inl e \<Rightarrow> ret [] | Inr a \<Rightarrow> ret [a]))"
  unfolding counted_starts_def
proof
  fix s
  obtain r t where m: "m s = (r, t)" by (cases "m s") auto
  have "(case fst (bnd m (\<lambda>a. ret [a]) s) of Inl e \<Rightarrow> 0 | Inr as \<Rightarrow> starts i as) + rank i s \<le> rank i (snd (bnd m (\<lambda>a. ret [a]) s))"
    using assms by (simp add: counted_starts_def)
  then show "(case fst (bnd (attempt m) (\<lambda>answer. case answer of Inl e \<Rightarrow> ret [] | Inr a \<Rightarrow> ret [a]) s) of Inl e \<Rightarrow> 0 | Inr as \<Rightarrow> starts i as) +
      rank i s \<le> rank i (snd (bnd (attempt m) (\<lambda>answer. case answer of Inl e \<Rightarrow> ret [] | Inr a \<Rightarrow> ret [a]) s))"
    by (cases r) (simp_all add: bnd_app attempt_app m)
qed

lemma counted_ret: "counted_starts i (ret [])" "counted_starts i (raise e)"
  by (simp_all add: counted_starts_def)

lemma counted_cases:
  "counted_starts i m \<Longrightarrow> counted_starts i (if b then ret [] else m)"
  "(\<And>x. counted_starts i (f x)) \<Longrightarrow> counted_starts i (case w of None \<Rightarrow> ret [] | Some x \<Rightarrow> f x)"
  by (simp_all add: counted_ret split: option.split)

lemma counted_continue_unit:
  assumes "hooks_keep_units X"
  shows "counted_starts i (continue_unit X u)"
proof -
  note rules = keep_rules keep_hooks [OF assms] keep_has_run
  have step: "counted_starts i (bnd (bnd (lift g) (\<lambda>c. dispatch_execution X j message timeout c True)) (\<lambda>a. ret [a]))" for g j message timeout
  proof -
    have "bnd (bnd (lift g) (\<lambda>c. dispatch_execution X j message timeout c True)) (\<lambda>a. ret [a]) =
        bnd (lift g) (\<lambda>c. bnd (dispatch_execution X j message timeout c True) (\<lambda>a. ret [a]))"
      by (cases g) (simp_all add: bnd_def lift_def)
    then show ?thesis using counted_bnd [OF keep.guar_lift counted_dispatch [OF assms]] by simp
  qed
  show ?thesis
    unfolding continue_unit_def by (intro counted_bnd rules counted_cases counted_try step)
qed

lemma keep_continue_unit:
  assumes "hooks_keep_units X"
  shows "guar (keeps_table (has_run i)) (continue_unit X u)"
  unfolding continue_unit_def by (intro keep_rules keep_hooks [OF assms] keep_has_run keep_dispatch [OF assms])

lemma counted_continue:
  assumes "hooks_keep_units X"
  shows "counted_starts i (continue_units X us)"
proof (induction us)
  case (Cons u us)
  then show ?case using counted_append [OF counted_continue_unit [OF assms] Cons] by simp
qed (simp only: continue_units.simps counted_ret)

lemma counted_terminal:
  assumes "hooks_keep_units X"
  shows "counted_starts i (on_core_run_terminal X c)"
  unfolding on_core_run_terminal_def
  by (rule counted_cases, rule counted_bnd, rule keep_reads, rule counted_cases, rule counted_bnd, rule keep_reads, rule counted_then)
     (intro counted_continue keep_finalize assms)+

text \<open>Compilation only adds rows.\<close>

lemma insert_units_rows: "insert_units Q us d = Inr d' \<Longrightarrow> \<exists>rows. units d' = units d @ rows \<and> map eu_id rows = map eu_id us \<and>
    (distinct (map eu_id (units d)) \<longrightarrow> distinct (map eu_id (units d')))"
proof (induction us arbitrary: d)
  case (Cons u us)
  then obtain d1 where d1: "insert_unit Q u d = Inr d1" "insert_units Q us d1 = Inr d'" by (auto simp: rbind_Inr_iff)
  then obtain row where row: "bind_unit Q u = Inr row" "units d1 = units d @ [row]" "eu_id u \<notin> set (map eu_id (units d))"
    by (auto simp: insert_unit_def rbind_Inr_iff split: if_split_asm)
  have "eu_id row = eu_id u" using row(1) by (auto simp: bind_unit_def rbind_Inr_iff)
  with row Cons.IH [OF d1(2)] show ?case by auto
qed simp

lemma create_units_rows:
  "\<exists>rows. units (snd (create_units Q reject us d)) = units d @ rows \<and>
    (distinct (map eu_id (units d)) \<longrightarrow> distinct (map eu_id (units (snd (create_units Q reject us d)))))"
  by (auto simp: create_units_def split: option.split sum.split dest: insert_units_rows)

lemma draw_ids_keep: "guar R factory \<Longrightarrow> guarantee R \<Longrightarrow> guar R (draw_ids factory agents drawn)"
  by (induction agents arbitrary: drawn)
     (auto intro!: guarantee.guar_bnd guarantee.guar_if guarantee.guar_raise guarantee.guar_ret)

lemma compile_keep:
  assumes "guar R uuid" and "guarantee R"
  shows "guar R (compile_task_intent uuid None project task agents correlation workflow)"
  unfolding compile_task_intent_def
  using assms by (auto intro!: guarantee.guar_bnd guarantee.guar_if guarantee.guar_lift guarantee.guar_ret draw_ids_keep)

lemma keep_compile:
  assumes "hooks_keep_units X"
    and "\<And>us rows. P us \<Longrightarrow> (distinct (map eu_id us) \<longrightarrow> distinct (map eu_id (us @ rows))) \<Longrightarrow> P (us @ rows)"
  shows "guar (keeps_table P) (compile_and_persist X p t agents workflow correlation)"
proof -
  have stamp: "guar (keeps_table P) (stamp_units X p t us)" for us
    by (induction us) (simp_all only: stamp_units.simps, intro keep_rules, intro keep_rules keep_hooks [OF assms(1)])
  have create: "guar (keeps_table P) (on_db (create_units Q True rows))" for Q rows
  proof (rule keep_db)
    fix d :: war_db assume "P (units d)"
    with create_units_rows [of Q True rows d] assms(2) [of "units d"] show "P (units (snd (create_units Q True rows d)))" by auto
  qed
  show ?thesis
    unfolding compile_and_persist_def
    by (intro keep_rules compile_keep keep_hooks [OF assms(1)] stamp create) (rule keep.guarantee_axioms)
qed

lemma keep_stop:
  assumes "hooks_keep_units X"
  shows "guar (keeps_table P) (stop_execution X i)"
  unfolding stop_execution_def by (intro keep_rules keep_hooks [OF assms])

lemma counted_perform:
  assumes "hooks_keep_units X"
  shows "counted_starts i (perform X c)"
proof (cases c)
  case (Compile p t agents workflow correlation)
  have "guar (keeps_table (has_run i)) (compile_and_persist X p t agents workflow correlation)"
    by (rule keep_compile [OF assms]) (rule has_run_append)
  then show ?thesis by (simp add: Compile counted_bnd counted_ret)
next
  case (Dispatch j message timeout goal)
  then show ?thesis using counted_dispatch [OF assms] by simp
next
  case (CoreTerminal r)
  then show ?thesis using counted_terminal [OF assms] by simp
next
  case (Stop j)
  then show ?thesis by (simp add: counted_bnd counted_ret keep_stop [OF assms])
qed

lemma serve_counts:
  assumes "hooks_keep_units X"
  shows "starts i (fst (serve X cs s)) + rank i s \<le> rank i (snd (serve X cs s))"
proof (induction cs arbitrary: s)
  case (Cons c cs)
  obtain r t where r: "perform X c s = (r, t)" by (cases "perform X c s") auto
  have "(case r of Inl e \<Rightarrow> 0 | Inr as \<Rightarrow> starts i as) + rank i s \<le> rank i t"
    using counted_perform [OF assms] r unfolding counted_starts_def by (metis fst_conv snd_conv)
  with Cons [of t] show ?case by (auto simp: r split: prod.split sum.split_asm)
qed simp

section \<open>Started at most once, after its dependencies\<close>

text \<open>C27: A dispatch that is not a replay has started a unit that had no run and whose dependencies have all passed: each of them
  is a unit of the table whose run is on record with the status PASS. The unit leaves with its own run.\<close>

theorem dispatch_after_dependencies:
  assumes "dispatch_execution X i message timeout goal claimed s = (Inr a, t)" and "\<not> da_replayed a"
  shows "\<exists>u. get_unit i (db_of s) = Some u \<and> run_of_unit u = None \<and>
    (\<forall>j \<in> set (eu_deps u). \<exists>v c r. get_unit j (db_of s) = Some v \<and> eu_run v = Some c \<and> get_run c (runs_of s) = Some r \<and> r_status r = PASS) \<and>
    da_execution a = i \<and> da_run a = core_run_id_for i \<and> (\<exists>u'. get_unit i (db_of t) = Some u' \<and> eu_run u' = Some (core_run_id_for i))"
proof -
  have pass: "\<exists>v c r. get_unit j (db_of s) = Some v \<and> eu_run v = Some c \<and> get_run c (runs_of s) = Some r \<and> r_status r = PASS"
    if out: "outcome_of (runs_of s) (db_of s) j = Success" for j
  proof -
    obtain v where v: "get_unit j (db_of s) = Some v" using out by (cases "get_unit j (db_of s)") (auto simp: outcome_of_def dependency_detail_def)
    then have "unit_outcome (runs_of s) v = Success" using out outcome_of_unit by metis
    then obtain c where c: "run_of_unit v = Some c" "run_outcome (core_status c (runs_of s)) = Success"
      by (auto simp: unit_outcome_def execution_outcome_def split: option.split_asm)
    have "core_status c (runs_of s) = Some PASS" using c(2) by (cases "core_status c (runs_of s)" rule: run_outcome.cases) simp_all
    with v c(1) show ?thesis by (auto simp: core_status_def run_of_unit_def split: option.split_asm if_split_asm)
  qed
  from dispatch_starts [OF assms] pass show ?thesis unfolding unit_readiness_iff by blast
qed


section \<open>A small orchestrator\<close>

definition war_deps :: "unit war_world deps" where
  "war_deps = \<lparr>stdlib = plain_std, agent_list = sample_agents, clock = (\<lambda>w. (0, w)), monotonic = (\<lambda>w. (0, w)),
     new_uuid = (\<lambda>w. (''0123456789'', w)), tp_submit = (\<lambda>i p w. (Inr (demo_binding i), w)),
     tp_wait = (\<lambda>i t w. (Inr (plain_outcome TIMEOUT ''OPENCLAW_TIMEOUT''), w)), tp_cancel = (\<lambda>i w. (Inr (demo_binding i), w)),
     others = (\<lambda>s. s), stop_guard = (\<lambda>w i. False), broker_present = False, auth_required = False, authorizer_present = False,
     owns_run = (\<lambda>i. False), with_grant = (\<lambda>sc body w. body (sc, None) w), consume_grant = (\<lambda>token sc i w. (Inr (), w))\<rparr>"

definition war_orchestrator :: "unit orchestrator" where
  "war_orchestrator = \<lparr>ox_engine = war_deps, ox_sql = \<lparr>real_text = (\<lambda>x. ''0.0''), text_real = (\<lambda>s. None)\<rparr>, ox_loads = (\<lambda>s. None),
     ox_stop = (\<lambda>c s. (Inr (''CANCELLED'', None), s))\<rparr>"

definition war_start :: "exec_unit list \<Rightarrow> unit orch" where
  "war_start us = \<lparr>oc_core = \<lparr>runs = [], timers = (\<lambda>i. None), spotter = new_detector, world = \<lparr>war = tables_with us, beyond = ()\<rparr>\<rparr>,
     oc_contracts = []\<rparr>"

lemma war_hooks: "hooks_keep_units war_orchestrator"
  by (simp add: hooks_keep_units_def engine_keeps_units_def same_units_def war_orchestrator_def war_deps_def)

lemma war_sel [simp]:
  "ox_engine war_orchestrator = war_deps" "stdlib war_deps = plain_std" "broker_present war_deps = False" "auth_required war_deps = False"
  "agent_list war_deps = sample_agents" "authorizer_present war_deps = False" "tp_submit war_deps c pl w = (Inr (demo_binding c), w)"
  "clock war_deps w = (0, w)" "ox_loads war_orchestrator x = None"
  "db_of (war_start us) = tables_with us" "runs_of (war_start us) = []" "runs (oc_core (war_start us)) = []"
  by (simp_all add: war_orchestrator_def war_deps_def war_start_def db_of_def runs_of_def)

definition lone :: exec_unit where
  "lone = chain_unit ''a'' [] None"

definition lone_request :: "string \<Rightarrow> dispatch_request" where
  "lone_request m = unit_request lone ''a'' m 5 (Some sample_contract) []"

lemma lone_admitted:
  "\<exists>checked a. check_dispatch war_deps (lone_request ''go'') = Inr checked \<and> admit war_deps (lone_request ''go'') ''core-exec-a'' checked = Inr a"
proof -
  have "require_agent sample_agents ''qa'' = Inr (snd (hd sample_agents))" by (simp add: require_agent_def find_agent_def sample_agents_def)
  moreover have "\<not> blank ''go''" by (simp add: blank_def strip_def lstrip_def char_class_defs)
  ultimately show ?thesis
    by (simp add: check_dispatch_def lone_request_def unit_request_def lone_def normalize_approved_paths_def admit_def sample_goal_normal
        dispatch_profile_def task_runtime_profile_def task_class_of_def)
qed

lemma lone_engine:
  "runs (oc_core s) = [] \<Longrightarrow> \<exists>r c. dispatch war_deps (lone_request ''go'') (oc_core s) = (Inr r, c) \<and> world c = world (oc_core s)"
proof -
  assume none: "runs (oc_core s) = []"
  obtain checked a where adm: "check_dispatch war_deps (lone_request ''go'') = Inr checked"
    "admit war_deps (lone_request ''go'') ''core-exec-a'' checked = Inr a" using lone_admitted by blast
  have key: "dq_run_id (lone_request ''go'') = Some ''core-exec-a''" "dq_session_key (lone_request ''go'') = None"
    by (simp_all add: lone_request_def unit_request_def core_run_id_for_def)
  from dispatch_create [OF adm key(1), of "oc_core s"] none obtain r s1 where d: "get_run ''core-exec-a'' (runs s1) = Some r" "r_status r = QUEUED"
    "dispatch war_deps (lone_request ''go'') (oc_core s) =
      authorize_and_submit war_deps (lone_request ''go'') ''core-exec-a'' (dispatch_key (lone_request ''go'') ''core-exec-a'') a r s1"
    "world s1 = world (oc_core s)"
    by (auto simp: get_run_def get_by_idempotency_def)
  have "RUNNING \<in> set (successors (r_status r))" using d(2) by simp
  then have go: "move war_deps ''core-exec-a'' RUNNING b None [] (s1\<lparr>world := x\<rparr>) =
      (Inr (moved_run RUNNING b None [] 0 r), s1\<lparr>world := x, runs := runs s1 @ [moved_run RUNNING b None [] 0 r]\<rparr>)" for b x
    using move_legal [of "''core-exec-a''" "s1\<lparr>world := x\<rparr>" r RUNNING war_deps b None "[]"] d(1) by (simp add: Let_def)
  show ?thesis
    by (simp add: d go authorize_and_submit_def submit_run_def bnd_app attempt_app ask_world_app key schedule_deadline_def Let_def)
qed

lemma lone_contract: "\<exists>k. dispatch_contract plain_std m t (Some sample_contract) = Inr k" "jsonable (PDict sample_contract)"
  by (simp_all add: dispatch_contract_def dumps_def sample_contract_def str_list_def)

lemma lone_dispatch:
  "\<exists>a t. dispatch_execution war_orchestrator ''a'' (PStr ''go'') (PInt 5) (Some sample_contract) False (war_start [lone]) = (Inr a, t) \<and>
     \<not> da_replayed a"
proof -
  obtain k where k: "dispatch_contract plain_std ''go'' 5 (Some sample_contract) = Inr k" using lone_contract(1) by blast
  let ?s = "war_start [lone]"
  define g where "g = json_copy (PDict sample_contract)"
  have g: "json_column (PDict sample_contract) = Inr g" using lone_contract(2) by (simp add: json_column_def g_def del: json_copy.simps)
  let ?u = "lone\<lparr>eu_message := PStr ''go'', eu_timeout := PFloat 5, eu_contract := g\<rparr>"
  have row: "get_unit ''a'' (tables_with [lone]) = Some lone" by (simp add: get_unit_def lone_def)
  have "unit_ok lone" by (simp add: unit_ok_def lone_def)
  then obtain v where v: "evaluate [] (tables_with [lone]) lone = Inr v" using evaluate_total by blast
  have ready: "ev_readiness v = Ready" using evaluate_readiness [OF v] by (simp add: unit_readiness_def lone_def run_of_unit_def judge_dependencies_def)
  have input: "update_dispatch_input ''a'' ''go'' 5 (Some sample_contract) (tables_with [lone]) = (Inr (), tables_with [?u])"
    by (simp add: update_dispatch_input_def g row) (simp add: set_unit_def tables_with_def lone_def)
  have claim: "claim_for_dispatch 0 ''a'' (tables_with [?u]) = (Inr (Some (?u\<lparr>eu_claimed := Some 0\<rparr>)), tables_with [?u\<lparr>eu_claimed := Some 0\<rparr>])"
    by (simp add: claim_for_dispatch_def get_unit_def lone_def) (simp add: tables_with_def)
  define z where "z = with_db (tables_with [?u\<lparr>eu_claimed := Some 0\<rparr>]) ?s"
  obtain r c where eng: "dispatch war_deps (lone_request ''go'') (oc_core z) = (Inr r, c)" "world c = world (oc_core z)"
    using lone_engine [of z] by (auto simp: z_def with_db_def)
  have row': "get_unit ''a'' (war (world c)) = Some (?u\<lparr>eu_claimed := Some 0\<rparr>)"
    unfolding eng(2) by (simp add: z_def with_db_def get_unit_def lone_def)
  have run: "\<exists>a t. run_unit war_orchestrator ''a'' (lone_request ''go'') k z = (Inr a, t) \<and> \<not> da_replayed a"
    by (simp add: run_unit_def bnd_app attempt_app engine_dispatch_app eng on_db_app update_core_run_id_def db_of_def row' [unfolded eng(2)])
  have now: "now_seconds war_orchestrator s = (Inr 0, s)" for s
    by (simp add: now_seconds_def bnd_app on_core_def on_world_app)
  have "start_unit war_orchestrator ''a'' ''go'' 5 (Some sample_contract) False (lone_request ''go'') k ?s =
      run_unit war_orchestrator ''a'' (lone_request ''go'') k z"
    by (simp add: start_unit_def bnd_app row v ready on_db_app input now claim z_def) (simp add: with_db_def)
  moreover have "dispatch_execution war_orchestrator ''a'' (PStr ''go'') (PInt 5) (Some sample_contract) False ?s =
      start_unit war_orchestrator ''a'' ''go'' 5 (Some sample_contract) False (lone_request ''go'') k ?s"
    by (simp add: dispatch_execution_def bnd_app row dispatch_unit_def task_approved_paths_def k)
      (simp add: lone_def run_of_unit_def lone_request_def tables_with_def bnd_app)
  ultimately show ?thesis using run by simp
qed

theorem dispatch_after_dependencies_witness:
  "\<exists>a t u'. dispatch_execution war_orchestrator ''a'' (PStr ''go'') (PInt 5) (Some sample_contract) False (war_start [lone]) = (Inr a, t) \<and>
     da_run a = ''core-exec-a'' \<and> get_unit ''a'' (db_of t) = Some u' \<and> eu_run u' = Some ''core-exec-a''"
proof -
  obtain a t where d: "dispatch_execution war_orchestrator ''a'' (PStr ''go'') (PInt 5) (Some sample_contract) False (war_start [lone]) = (Inr a, t)"
    "\<not> da_replayed a" using lone_dispatch by blast
  from dispatch_after_dependencies [OF d] d(1) show ?thesis by (auto simp: core_run_id_for_def)
qed


end
