(* ===== verification/WorkflowClaim.thy ===== *)
theory WorkflowClaim
  imports WorkflowOnce
begin

text \<open>
  The life of a claim. A unit is claimed before the engine is asked, and nothing ever clears the claim, so a dispatch
  that the engine rejects leaves a unit that no later call can start and no later call can end.
\<close>

section \<open>A claimed unit without a run\<close>

definition wedged :: "string list \<Rightarrow> string \<Rightarrow> exec_unit list \<Rightarrow> bool" where
  "wedged ds i us \<longleftrightarrow> distinct (map eu_id us) \<and>
     (\<exists>u \<in> set us. eu_id u = i \<and> eu_run u = None \<and> eu_claimed u \<noteq> None \<and> eu_deps u = ds)"

lemma wedged_row:
  assumes "wedged ds i (units d)"
  obtains u where "get_unit i d = Some u" "eu_run u = None" "eu_claimed u \<noteq> None" "eu_deps u = ds" "run_of_unit u = None"
proof -
  from assms obtain u where u: "u \<in> set (units d)" "eu_id u = i" "eu_run u = None" "eu_claimed u \<noteq> None" "eu_deps u = ds"
    and d: "distinct (map eu_id (units d))" by (auto simp: wedged_def)
  have "get_unit i d = Some u" unfolding get_unit_def by (rule find_unique [OF d u(1,2)])
  then show ?thesis using that u by (simp add: run_of_unit_def)
qed

lemma wedged_no_run: "wedged ds i us \<Longrightarrow> \<not> has_run i us"
proof
  assume w: "wedged ds i us" "has_run i us"
  from w(1) obtain u where u: "u \<in> set us" "eu_id u = i" "eu_run u = None" and d: "distinct (map eu_id us)" by (auto simp: wedged_def)
  from w(2) find_unique [OF d u(1,2)] u(3) show False by (auto simp: has_run_def run_of_unit_def)
qed

lemma map_ids: "(\<And>u. eu_id (f u) = eu_id u) \<Longrightarrow> map eu_id (map f us) = map eu_id us"
  by simp

lemma wedged_map:
  assumes "wedged ds i us" and "\<And>u. eu_id (f u) = eu_id u"
    and "\<And>u. eu_id u = i \<Longrightarrow> eu_run u = None \<Longrightarrow> eu_claimed u \<noteq> None \<Longrightarrow> eu_run (f u) = None \<and> eu_claimed (f u) \<noteq> None \<and> eu_deps (f u) = eu_deps u"
  shows "wedged ds i (map f us)"
  unfolding wedged_def map_ids [OF assms(2)]
proof
  from assms(1) obtain u where u: "u \<in> set us" "eu_id u = i" "eu_run u = None" "eu_claimed u \<noteq> None" "eu_deps u = ds"
    by (auto simp: wedged_def)
  from assms(3) [OF u(2-4)] u assms(2)
  show "\<exists>v \<in> set (map f us). eu_id v = i \<and> eu_run v = None \<and> eu_claimed v \<noteq> None \<and> eu_deps v = ds" by (intro bexI [of _ "f u"]) auto
qed (use assms(1) in \<open>simp add: wedged_def\<close>)

lemma wedged_set_unit:
  assumes "wedged ds i (units d)" and "\<And>u. eu_id (f u) = eu_id u"
    and "j = i \<Longrightarrow> \<forall>u. eu_run (f u) = eu_run u \<and> eu_claimed (f u) = eu_claimed u \<and> eu_deps (f u) = eu_deps u"
  shows "wedged ds i (units (set_unit j f d))"
  unfolding set_unit_def using assms by (auto intro!: wedged_map)

lemma wedged_append: "wedged ds i us \<Longrightarrow> (distinct (map eu_id us) \<longrightarrow> distinct (map eu_id (us @ rows))) \<Longrightarrow> wedged ds i (us @ rows)"
  by (auto simp: wedged_def)

lemma keep_wedged:
  "guar (keeps_table (wedged ds i)) (on_db (update_dispatch_input j m t g))"
  "guar (keeps_table (wedged ds i)) (on_db (claim_for_dispatch now j))"
  "j \<noteq> i \<Longrightarrow> guar (keeps_table (wedged ds i)) (on_db (update_core_run_id j c))"
proof -
  show "guar (keeps_table (wedged ds i)) (on_db (update_dispatch_input j m t g))"
    by (rule keep_db) (auto simp: update_dispatch_input_def split: sum.splits intro!: wedged_set_unit)
  show "guar (keeps_table (wedged ds i)) (on_db (claim_for_dispatch now j))"
    by (rule keep_db) (auto simp: claim_for_dispatch_def Let_def intro!: wedged_map)
  show "j \<noteq> i \<Longrightarrow> guar (keeps_table (wedged ds i)) (on_db (update_core_run_id j c))"
    by (rule keep_db) (auto simp: update_core_run_id_def intro!: wedged_set_unit)
qed

section \<open>Dispatches around it\<close>

lemma keep_others:
  assumes "hooks_keep_units X" and "j \<noteq> i"
  shows "guar (keeps_table (wedged ds i)) (dispatch_execution X j message timeout goal claimed)"
proof -
  note rules = keep_rules keep_hooks [OF assms(1)] keep_wedged(1,2) keep_wedged(3) [OF assms(2)]
  have "guar (keeps_table (wedged ds i)) (start_unit X j m tm goal claimed q k)" for m tm q k
    unfolding start_unit_def lost_claim_def run_unit_def by (intro rules)
  moreover have "guar (keeps_table (wedged ds i)) (replay_dispatch X j c st q k)" for c st q k
    unfolding replay_dispatch_def by (intro rules)
  ultimately show ?thesis
    unfolding dispatch_execution_def dispatch_unit_def redispatch_unit_def by (intro rules)
qed

lemma bnd_assoc: "bnd (bnd m f) g = bnd m (\<lambda>x. bnd (f x) g)"
  by (auto simp: fun_eq_iff bnd_def split: prod.split sum.split)

lemma bnd_ret: "bnd (ret x) f = f x"
  by (simp add: fun_eq_iff)

text \<open>A claim on it is lost.\<close>

lemma claim_wedged: "wedged ds i (units d) \<Longrightarrow> claim_for_dispatch now i d = (Inr None, d)"
proof -
  assume w: "wedged ds i (units d)"
  then obtain u where u: "get_unit i d = Some u" "eu_claimed u \<noteq> None" by (rule wedged_row)
  have "distinct (map eu_id (units d))" using w by (simp add: wedged_def)
  from claim_cases [OF this u(1), of now] u(2) show ?thesis by simp
qed

lemma keep_claim:
  assumes "guar (keeps_table (wedged ds i)) (f None)"
  shows "guar (keeps_table (wedged ds i)) (bnd (on_db (claim_for_dispatch now i)) f)"
proof (rule guarI)
  fix s
  have "keeps_table (wedged ds i) s (snd (bnd (on_db (claim_for_dispatch now i)) f s))" if w: "wedged ds i (units (db_of s))"
  proof -
    have "bnd (on_db (claim_for_dispatch now i)) f s = f None (with_db (db_of s) s)"
      by (simp add: bnd_app on_db_app claim_wedged [OF w])
    then show ?thesis using guarD [OF assms, of "with_db (db_of s) s"] by (simp add: keeps_table_def)
  qed
  then show "keeps_table (wedged ds i) s (snd (bnd (on_db (claim_for_dispatch now i)) f s))" by (auto simp: keeps_table_def)
qed

lemma keep_itself:
  assumes "hooks_keep_units X"
  shows "guar (keeps_table (wedged ds i)) (dispatch_execution X i message timeout goal False)"
proof -
  note rules = keep_rules keep_hooks [OF assms] keep_wedged(1)
  have start: "guar (keeps_table (wedged ds i)) (start_unit X i m tm goal False q k)" for m tm q k
    unfolding start_unit_def if_False bnd_assoc bnd_ret
    by (rule keep.guar_bnd, rule keep_reads, rule keep.guar_if, rule keep.guar_raise, rule keep.guar_bnd, rule keep_wedged,
        rule keep.guar_bnd, rule keep_hooks [OF assms], rule keep_claim) (simp only: simp_thms if_True lost_claim_def, intro rules)
  have unit: "guar (keeps_table (wedged ds i)) (bnd (look (\<lambda>rs d. get_unit i d)) (\<lambda>found.
               case found of
                 None \<Rightarrow> raise e
               | Some u \<Rightarrow> dispatch_unit X i m tm goal False u))" for e m tm
  proof (rule guarI)
    fix s
    let ?m = "bnd (look (\<lambda>rs d. get_unit i d)) (\<lambda>found. case found of None \<Rightarrow> raise e | Some u \<Rightarrow> dispatch_unit X i m tm goal False u)"
    have "keeps_table (wedged ds i) s (snd (?m s))" if w: "wedged ds i (units (db_of s))"
    proof -
      from w obtain u where u: "get_unit i (db_of s) = Some u" "run_of_unit u = None" by (rule wedged_row)
      have "guar (keeps_table (wedged ds i)) (dispatch_unit X i m tm goal False u)"
        unfolding dispatch_unit_def u(2) option.case by (intro rules start)
      then show ?thesis using u(1) by (simp add: guar_def bnd_app)
    qed
    then show "keeps_table (wedged ds i) s (snd (?m s))" by (auto simp: keeps_table_def)
  qed
  show ?thesis unfolding dispatch_execution_def by (intro keep.guar_option keep.guar_if keep.guar_raise unit)
qed

lemma keep_dispatches:
  "hooks_keep_units X \<Longrightarrow> guar (keeps_table (wedged ds i)) (dispatch_execution X j message timeout goal False)"
  using keep_others keep_itself by (cases "j = i") auto

section \<open>Every call leaves it\<close>

lemma keep_result:
  assumes "guar (keeps_table P) m" and "\<And>s x t. m s = (Inr x, t) \<Longrightarrow> guar (keeps_table P) (f x)"
  shows "guar (keeps_table P) (bnd m f)"
proof (rule guarI)
  fix s
  obtain r t where m: "m s = (r, t)" by (cases "m s") auto
  have first: "keeps_table P s t" using guarD [OF assms(1), of s] by (simp add: m)
  show "keeps_table P s (snd (bnd m f s))"
  proof (cases r)
    case (Inr x)
    with guarD [OF assms(2), of s x t t] m have "keeps_table P t (snd (f x t))" by simp
    from keep.R_trans [OF first this] show ?thesis by (simp add: bnd_app m Inr)
  qed (use first in \<open>simp add: bnd_app m\<close>)
qed

lemma keep_continue_wedged:
  assumes "hooks_keep_units X"
  shows "guar (keeps_table (wedged ds i)) (continue_unit X u)"
proof (cases "eu_id u = i")
  case True
  have "guar (keeps_table (wedged ds i)) (bnd (on_db (claim_for_dispatch now i)) (\<lambda>won. case won of None \<Rightarrow> ret [] | Some w \<Rightarrow> f w))"
    for now and f :: "exec_unit \<Rightarrow> ('a orch, dispatch_answer list) op"
    by (rule keep_claim) (simp only: option.case keep.guar_ret)
  then show ?thesis
    unfolding continue_unit_def True
    by (intro keep.guar_bnd [OF keep_reads(2)] keep.guar_if keep.guar_ret keep.guar_bnd [OF keep_hooks(1) [OF assms]])
next
  case False
  have "guar (keeps_table (wedged ds i)) (bnd (on_db (claim_for_dispatch now (eu_id u))) (\<lambda>won. case won of None \<Rightarrow> ret [] | Some w \<Rightarrow>
      bnd (attempt (bnd (lift (stored_contract (eu_contract w)))
        (\<lambda>g. dispatch_execution X (eu_id w) (eu_message w) (eu_timeout w) g True))) (\<lambda>answer.
      case answer of Inl e \<Rightarrow> ret [] | Inr a \<Rightarrow> ret [a])))" for now
  proof (rule keep_result [OF keep_wedged(2)])
    fix s t won assume "on_db (claim_for_dispatch now (eu_id u)) s = (Inr won, t)"
    then have "eu_id w = eu_id u" if "won = Some w" for w using that
      by (auto simp: on_db_app claim_for_dispatch_def Let_def get_unit_def dest: find_key split: if_split_asm)
    then show "guar (keeps_table (wedged ds i)) (case won of None \<Rightarrow> ret [] | Some w \<Rightarrow>
        bnd (attempt (bnd (lift (stored_contract (eu_contract w)))
          (\<lambda>g. dispatch_execution X (eu_id w) (eu_message w) (eu_timeout w) g True))) (\<lambda>answer.
        case answer of Inl e \<Rightarrow> ret [] | Inr a \<Rightarrow> ret [a]))"
      using False by (cases won) (auto simp only: option.case intro!: keep_rules keep_others [OF assms])
  qed
  then show ?thesis
    unfolding continue_unit_def
    by (intro keep.guar_bnd [OF keep_reads(2)] keep.guar_if keep.guar_ret keep.guar_bnd [OF keep_hooks(1) [OF assms]])
qed

lemma keep_terminal_wedged:
  assumes "hooks_keep_units X"
  shows "guar (keeps_table (wedged ds i)) (on_core_run_terminal X c)"
proof -
  have "guar (keeps_table (wedged ds i)) (continue_units X us)" for us
    by (induction us) (simp_all only: continue_units.simps, intro keep_rules, intro keep_rules keep_continue_wedged [OF assms])
  then show ?thesis
    unfolding on_core_run_terminal_def by (intro keep_rules keep_finalize [OF assms])
qed

lemma keep_perform_wedged:
  assumes "hooks_keep_units X"
  shows "guar (keeps_table (wedged ds i)) (perform X c)"
proof (cases c)
  case (Compile p t agents workflow correlation)
  have "guar (keeps_table (wedged ds i)) (compile_and_persist X p t agents workflow correlation)"
    by (rule keep_compile [OF assms]) (rule wedged_append)
  then show ?thesis unfolding Compile perform.simps by (intro keep_rules)
next
  case (Dispatch j message timeout goal)
  then show ?thesis unfolding Dispatch perform.simps by (intro keep_rules keep_dispatches [OF assms])
next
  case (CoreTerminal r)
  then show ?thesis using keep_terminal_wedged [OF assms] by simp
next
  case (Stop j)
  then show ?thesis unfolding Stop perform.simps by (intro keep_rules keep_stop [OF assms])
qed

lemma serve_wedged:
  assumes "hooks_keep_units X" and "wedged ds i (units (db_of s))"
  shows "wedged ds i (units (db_of (snd (serve X cs s))))"
  using assms(2)
proof (induction cs arbitrary: s)
  case (Cons c cs)
  have "wedged ds i (units (db_of (snd (perform X c s))))"
    using guarD [OF keep_perform_wedged [OF assms(1)], of ds i s c] Cons.prems by (simp add: keeps_table_def)
  from Cons.IH [OF this] show ?case by (simp add: case_prod_unfold)
qed simp

section \<open>How it comes about\<close>

lemma dispatch_rejected: "check_dispatch D q = Inl e \<Longrightarrow> dispatch D q c = (Inl e, c)"
  by (simp add: dispatch_def bnd_app)

lemma contract_jsonable: "dispatch_contract S m t (Some g) = Inr k \<Longrightarrow> jsonable (PDict g)"
  by (auto simp: dispatch_contract_def rbind_Inr_iff dumps_def)

lemma run_unit_rejected:
  assumes "check_dispatch (ox_engine X) q = Inl e"
  shows "\<exists>e. run_unit X i q k s = (Inl e, s)"
proof -
  have "engine_dispatch X q s = (Inl e, s)" by (simp add: engine_dispatch_app dispatch_rejected [OF assms])
  then show ?thesis by (simp add: run_unit_def bnd_app attempt_app)
qed

lemma start_rejected:
  assumes "hooks_keep_units X" and "distinct (map eu_id (units (db_of s)))" and "get_unit i (db_of s) = Some u" and "unit_ok u"
    and "eu_run u = None" and "eu_claimed u = None" and "unit_readiness (runs_of s) (db_of s) u = Ready"
    and "goal = None \<or> jsonable (PDict (the goal))" and "check_dispatch (ox_engine X) q = Inl e"
  shows "\<exists>x t. start_unit X i m tm goal False q k s = (Inl x, t) \<and> wedged (eu_deps u) i (units (db_of t))"
proof -
  obtain v where v: "evaluate (runs_of s) (db_of s) u = Inr v" using assms(4) evaluate_total by blast
  have ready: "ev_readiness v = Ready" using evaluate_readiness [OF v] assms(7) by simp
  obtain g where g: "(case goal of None \<Rightarrow> Inr PNone | Some x \<Rightarrow> json_column (PDict x)) = Inr g"
    using assms(8) by (cases goal) (auto simp: json_column_def)
  let ?f = "\<lambda>u. u\<lparr>eu_message := PStr m, eu_timeout := PFloat tm, eu_contract := g\<rparr>"
  define s1 where "s1 = with_db (set_unit i ?f (db_of s)) s"
  have input: "on_db (update_dispatch_input i m tm goal) s = (Inr (), s1)"
    by (simp add: on_db_app update_dispatch_input_def g assms(3) s1_def)
  obtain n s2 where s2: "now_seconds X s1 = (Inr n, s2)" "units (db_of s2) = units (db_of s1)" using now_seconds_app [OF assms(1)] by blast
  have row: "get_unit i (db_of s2) = Some (?f u)" using assms(3) s2(2) by (simp add: get_unit_def s1_def set_unit_get [unfolded get_unit_def])
  have ids: "distinct (map eu_id (units (db_of s2)))" using assms(2) by (simp add: s2(2) s1_def set_unit_def o_def if_distrib cong: if_cong)
  have free: "eu_run (?f u) = None" "eu_claimed (?f u) = None" using assms(5,6) by simp_all
  define s3 where "s3 = with_db (set_unit i (\<lambda>u. u\<lparr>eu_claimed := Some n\<rparr>) (db_of s2)) s2"
  have claim: "on_db (claim_for_dispatch n i) s2 = (Inr (Some (?f u\<lparr>eu_claimed := Some n\<rparr>)), s3)"
    using claim_cases [OF ids row, of n] free by (simp add: on_db_app s3_def)
  obtain x where x: "run_unit X i q k s3 = (Inl x, s3)" using run_unit_rejected [OF assms(9)] by blast
  have start: "start_unit X i m tm goal False q k s = (Inl x, s3)"
    by (simp add: start_unit_def bnd_app assms(3) v ready input s2(1) claim x)
  have "get_unit i (db_of s3) = Some (?f u\<lparr>eu_claimed := Some n\<rparr>)" unfolding s3_def by (simp add: set_unit_get row)
  then have "?f u\<lparr>eu_claimed := Some n\<rparr> \<in> set (units (db_of s3))" "eu_id (?f u\<lparr>eu_claimed := Some n\<rparr>) = i"
    by (auto simp: get_unit_def dest: find_key)
  moreover have "distinct (map eu_id (units (db_of s3)))" using ids by (simp add: s3_def set_unit_def o_def if_distrib cong: if_cong)
  ultimately have "wedged (eu_deps u) i (units (db_of s3))"
    unfolding wedged_def using free by (intro conjI bexI [of _ "?f u\<lparr>eu_claimed := Some n\<rparr>"]) simp_all
  with start show ?thesis by blast
qed

text \<open>C28: A claim is never given back. When the engine rejects the first dispatch of a ready unit as malformed (a message of spaces, an
  approved path that is not absolute, an agent disabled since), the dispatch raises but the unit stays claimed. No later
  sequence of calls starts it or gives it a run, and while its dependencies are passed its workflow is RUNNING: it is
  never finalized.\<close>

theorem rejected_dispatch_wedges:
  assumes "hooks_keep_units X" and "distinct (map eu_id (units (db_of s)))" and "get_unit i (db_of s) = Some u" and "unit_ok u"
    and "eu_run u = None" and "eu_claimed u = None" and "unit_readiness (runs_of s) (db_of s) u = Ready" and "m \<noteq> []" and "0 < t"
    and "task_approved_paths (ox_loads X) (eu_task u) (db_of s) = Inr paths" and "dispatch_contract (stdlib (ox_engine X)) m t goal = Inr k"
    and "check_dispatch (ox_engine X) (unit_request u i m t goal paths) = Inl e"
  shows "\<exists>x s'. dispatch_execution X i (PStr m) (PFloat t) goal False s = (Inl x, s') \<and>
    (\<forall>calls as z. serve X calls s' = (as, z) \<longrightarrow> starts i as = 0 \<and>
       (\<exists>v. get_unit i (db_of z) = Some v \<and> eu_run v = None \<and> eu_claimed v \<noteq> None \<and>
          (\<forall>us. v \<in> set us \<and> (\<forall>j \<in> set (eu_deps u). outcome_of (runs_of z) (db_of z) j = Success) \<longrightarrow>
             parent_status (map (child_view (runs_of z) (db_of z)) us) = ''RUNNING'')))"
proof -
  have goal: "goal = None \<or> jsonable (PDict (the goal))" using contract_jsonable assms(11) by (cases goal) auto
  from start_rejected [OF assms(1-7) goal assms(12)] obtain x s' where
    no: "start_unit X i m t goal False (unit_request u i m t goal paths) k s = (Inl x, s')" "wedged (eu_deps u) i (units (db_of s'))" by blast
  have "run_of_unit u = None" using assms(5) by (simp add: run_of_unit_def)
  with no(1) assms(3,8-11) have "dispatch_execution X i (PStr m) (PFloat t) goal False s = (Inl x, s')"
    by (simp add: dispatch_execution_def bnd_app dispatch_unit_def)
  moreover have "starts i as = 0 \<and> (\<exists>v. get_unit i (db_of z) = Some v \<and> eu_run v = None \<and> eu_claimed v \<noteq> None \<and>
      (\<forall>us. v \<in> set us \<and> (\<forall>j \<in> set (eu_deps u). outcome_of (runs_of z) (db_of z) j = Success) \<longrightarrow>
         parent_status (map (child_view (runs_of z) (db_of z)) us) = ''RUNNING''))" if z: "serve X calls s' = (as, z)" for calls as z
  proof -
    have w: "wedged (eu_deps u) i (units (db_of z))" using serve_wedged [OF assms(1) no(2), of calls] z by simp
    then obtain v where v: "get_unit i (db_of z) = Some v" "eu_run v = None" "eu_claimed v \<noteq> None" "eu_deps v = eu_deps u" "run_of_unit v = None"
      by (rule wedged_row)
    have "starts i as = 0" using serve_counts [OF assms(1), of i calls s'] z wedged_no_run [OF w] by (simp add: rank_def)
    moreover have "parent_status (map (child_view (runs_of z) (db_of z)) us) = ''RUNNING''"
      if "v \<in> set us" "\<forall>j \<in> set (eu_deps u). outcome_of (runs_of z) (db_of z) j = Success" for us
    proof -
      have "unit_readiness (runs_of z) (db_of z) v = Ready" using that(2) v(4,5) by (simp add: unit_readiness_iff)
      with that(1) show ?thesis unfolding parent_running open_child_def by (intro bexI [of _ v]) simp_all
    qed
    ultimately show ?thesis using v by blast
  qed
  ultimately show ?thesis by blast
qed

theorem rejected_dispatch_wedges_witness:
  "\<exists>x s'. dispatch_execution war_orchestrator ''a'' (PStr '' '') (PFloat 5) (Some sample_contract) False (war_start [lone]) = (Inl x, s') \<and>
     starts ''a'' (fst (serve war_orchestrator [Dispatch ''a'' (PStr ''go'') (PInt 5) (Some sample_contract)] s')) = 0"
proof -
  obtain k where k: "dispatch_contract (stdlib (ox_engine war_orchestrator)) '' '' 5 (Some sample_contract) = Inr k"
    using lone_contract(1) by auto
  have row: "get_unit ''a'' (db_of (war_start [lone])) = Some lone" "distinct (map eu_id (units (db_of (war_start [lone]))))"
    "unit_ok lone" "eu_run lone = None" "eu_claimed lone = None" "unit_readiness (runs_of (war_start [lone])) (db_of (war_start [lone])) lone = Ready"
    "task_approved_paths (ox_loads war_orchestrator) (eu_task lone) (db_of (war_start [lone])) = Inr []"
    by (simp_all add: get_unit_def lone_def unit_ok_def unit_readiness_def run_of_unit_def judge_dependencies_def task_approved_paths_def)
      (simp add: tables_with_def)
  have "require_agent sample_agents ''qa'' = Inr (snd (hd sample_agents))" by (simp add: require_agent_def find_agent_def sample_agents_def)
  moreover have "blank '' ''" by code_simp
  ultimately have bad: "check_dispatch (ox_engine war_orchestrator) (unit_request lone ''a'' '' '' 5 (Some sample_contract) []) = Inl (ValueError ''INVALID_MESSAGE'')"
    by (simp add: check_dispatch_def unit_request_def lone_def normalize_approved_paths_def)
  from rejected_dispatch_wedges [OF war_hooks row(2,1,3-6) _ _ row(7) k bad] show ?thesis
    by (metis fst_conv surj_pair list.distinct(1) zero_less_numeral)
qed

end
