(* ===== verification/WorkflowPersist.thy ===== *)
theory WorkflowPersist
  imports WorkflowOnce
begin

text \<open>
  From a task to its first running state: what a successful \<open>compile_and_persist\<close> leaves in the table of units meets
  the assumptions under which \<open>WorkflowVerdict\<close> speaks of a workflow.
\<close>

section \<open>Rows\<close>

text \<open>What no binding of a column changes.\<close>

definition plain_row :: "exec_unit \<Rightarrow> exec_unit" where
  "plain_row u = u\<lparr>eu_message := PNone, eu_timeout := PNone, eu_contract := PNone, eu_claimed := None\<rparr>"

lemma plain_row_sel [simp]:
  "eu_id (plain_row u) = eu_id u" "eu_project (plain_row u) = eu_project u" "eu_task (plain_row u) = eu_task u"
  "eu_correlation (plain_row u) = eu_correlation u" "eu_agent (plain_row u) = eu_agent u" "eu_deps (plain_row u) = eu_deps u"
  "eu_run (plain_row u) = eu_run u" "eu_claimed (plain_row u) = None"
  by (simp_all add: plain_row_def)

lemma plain_row_sels: "map plain_row us = map plain_row vs \<Longrightarrow> (\<And>u. g (plain_row u) = g u) \<Longrightarrow> map g us = map g vs"
  by (drule arg_cong [of _ _ "map g"]) (simp add: o_def)

lemma insert_units_plain:
  "insert_units Q us d = Inr d' \<Longrightarrow> \<exists>rows. units d' = units d @ rows \<and> map plain_row rows = map plain_row us \<and>
     (\<forall>r \<in> set rows. eu_claimed r = None) \<and> (distinct (map eu_id (units d)) \<longrightarrow> distinct (map eu_id (units d')))"
proof (induction us arbitrary: d)
  case (Cons u us)
  then obtain d1 where d1: "insert_unit Q u d = Inr d1" "insert_units Q us d1 = Inr d'" by (auto simp: rbind_Inr_iff)
  then obtain row where row: "bind_unit Q u = Inr row" "units d1 = units d @ [row]" "eu_id u \<notin> set (map eu_id (units d))"
    by (auto simp: insert_unit_def rbind_Inr_iff split: if_split_asm)
  have "plain_row row = plain_row u" "eu_claimed row = None" using row(1) by (auto simp: bind_unit_def rbind_Inr_iff plain_row_def)
  moreover have "eu_id row = eu_id u" using row(1) by (auto simp: bind_unit_def rbind_Inr_iff)
  moreover obtain rows where "units d' = units d1 @ rows" "map plain_row rows = map plain_row us" "\<forall>r \<in> set rows. eu_claimed r = None"
    "distinct (map eu_id (units d1)) \<longrightarrow> distinct (map eu_id (units d'))" using Cons.IH [OF d1(2)] by blast
  ultimately show ?case using row by (intro exI [of _ "row # rows"]) auto
qed simp

lemma stamp_units_rows:
  "stamp_units X p t us s = (Inr rows, s') \<Longrightarrow> list_all2 (\<lambda>u r. \<exists>now. r = unit_row p t now u) us rows"
  by (induction us arbitrary: s s' rows) (auto elim!: bnd_InrE)

lemma stamped_maps:
  assumes "list_all2 (\<lambda>u r. \<exists>now. r = unit_row p t now u) us rows"
  shows "map eu_id rows = map cu_id us" "map eu_agent rows = map cu_agent us" "map eu_deps rows = map cu_deps us"
    "\<forall>r \<in> set rows. eu_project r = p \<and> eu_task r = t \<and> eu_run r = None" "map eu_correlation rows = map cu_correlation us"
  using assms by (induction rule: list_all2_induct) (auto simp: unit_row_def)

text \<open>The tables are left alone until the rows are inserted.\<close>

lemma units_kept:
  assumes "\<And>P. guar (keeps_table P) m" and "m s = (r, t)"
  shows "units (db_of t) = units (db_of s)"
  using guarD [OF assms(1) [of "\<lambda>us. us = units (db_of s)"], of s] assms(2) by (simp add: keeps_table_def)

lemma stamp_keep:
  assumes "hooks_keep_units X"
  shows "guar (keeps_table P) (stamp_units X p t us)"
  by (induction us) (simp_all only: stamp_units.simps, intro keep_rules, intro keep_rules keep_hooks [OF assms])

lemma compile_and_persist_Inr:
  assumes "compile_and_persist X p t agents workflow correlation s = (Inr (c, persisted, graph), s')" and "hooks_keep_units X"
  shows "\<exists>x rows. units_of_task p t (db_of s) = [] \<and> units (db_of s') = units (db_of s) @ rows \<and> co_correlation x = c \<and> co_units x \<noteq> [] \<and>
    distinct (map cu_id (co_units x)) \<and> [] \<notin> set (map cu_id (co_units x)) \<and> [] \<notin> set (map cu_agent (co_units x)) \<and>
    unit_edges x \<subseteq> set (map cu_id (co_units x)) \<times> set (map cu_id (co_units x)) \<and> acyclic (unit_edges x) \<and>
    map eu_id rows = map cu_id (co_units x) \<and> map eu_agent rows = map cu_agent (co_units x) \<and> map eu_deps rows = map cu_deps (co_units x) \<and>
    (\<forall>r \<in> set rows. eu_project r = p \<and> eu_task r = t \<and> eu_correlation r = c \<and> eu_run r = None \<and> eu_claimed r = None) \<and>
    (distinct (map eu_id (units (db_of s))) \<longrightarrow> distinct (map eu_id (units (db_of s'))))"
proof -
  let ?uuid = "on_core (on_world (new_uuid (ox_engine X)))"
  from assms(1) obtain x s1 given s2 s3 where
    new: "get_units_by_task p t (db_of s) = []" and
    x: "compile_task_intent ?uuid None (PStr p) (PStr t) (PList (map PStr agents)) correlation workflow s = (Inr x, s1)" and
    given: "stamp_units X p t (co_units x) s1 = (Inr given, s2)" and
    made: "on_db (create_units (ox_sql X) True given) s2 = (Inr s3, s')" and c: "c = co_correlation x"
    unfolding compile_and_persist_def by (auto elim!: bnd_InrE split: if_split_asm)
  note shape = compile_task_intent_Inr [OF x]
  have "units (db_of s1) = units (db_of s)"
    by (rule units_kept [where m = "compile_task_intent ?uuid None (PStr p) (PStr t) (PList (map PStr agents)) correlation workflow", OF _ x])
      (intro compile_keep keep_hooks(4) assms(2) keep.guarantee_axioms)
  moreover have "units (db_of s2) = units (db_of s1)" 
    by (rule units_kept [where m = "stamp_units X p t (co_units x)", OF stamp_keep given]) (rule assms(2))
  ultimately have same: "units (db_of s2) = units (db_of s)" by simp
  note rows = stamp_units_rows [OF given]
  note g = stamped_maps [OF rows]
  have "given \<noteq> []" using rows shape by auto
  with made obtain d where d: "insert_units (ox_sql X) given (db_of s2) = Inr d" "db_of s' = d"
    by (auto simp: on_db_app create_units_def split: option.split_asm sum.split_asm)
  from insert_units_plain [OF d(1)] obtain rs where rs: "units d = units (db_of s2) @ rs" "map plain_row rs = map plain_row given"
    "\<forall>r \<in> set rs. eu_claimed r = None" "distinct (map eu_id (units (db_of s2))) \<longrightarrow> distinct (map eu_id (units d))" by blast
  note r = plain_row_sels [OF rs(2)]
  have maps: "map eu_id rs = map cu_id (co_units x)" "map eu_agent rs = map cu_agent (co_units x)" "map eu_deps rs = map cu_deps (co_units x)"
    "map eu_correlation rs = map cu_correlation (co_units x)" using g r [of eu_id] r [of eu_agent] r [of eu_deps] r [of eu_correlation] by simp_all
  have "\<forall>r \<in> set rs. eu_project r = p \<and> eu_task r = t \<and> eu_run r = None"
  proof
    fix q assume "q \<in> set rs"
    then have "(eu_project q, eu_task q, eu_run q) \<in> set (map (\<lambda>u. (eu_project u, eu_task u, eu_run u)) rs)" by force
    also have "map (\<lambda>u. (eu_project u, eu_task u, eu_run u)) rs = map (\<lambda>u. (eu_project u, eu_task u, eu_run u)) given" by (rule r) simp
    finally show "eu_project q = p \<and> eu_task q = t \<and> eu_run q = None" using g(4) by auto
  qed
  moreover have "\<forall>r \<in> set rs. eu_correlation r = c"
  proof
    fix q assume "q \<in> set rs"
    then have "eu_correlation q \<in> set (map eu_correlation rs)" by simp
    then show "eu_correlation q = c" using shape unfolding maps(4) c by auto
  qed
  moreover have "units_of_task p t (db_of s) = []" using new by (simp add: get_units_by_task_def in_order_def) (metis length_0_conv length_sort)
  ultimately show ?thesis using shape rs d(2) same maps c by (intro exI [of _ x] exI [of _ rs]) auto
qed

section \<open>The workflow that is persisted\<close>

lemma in_order_set [simp]: "set (in_order us) = set us"
  by (simp add: in_order_def)

lemma waits_on_set: "set us = set vs \<Longrightarrow> waits_on us = waits_on vs"
  by (auto simp: waits_on_def)

lemma waits_on_zip:
  assumes "map eu_id rows = map cu_id us" and "map eu_deps rows = map cu_deps us"
  shows "waits_on rows = {(cu_id u, d) | u d. u \<in> set us \<and> d \<in> set (cu_deps u)}"
proof -
  have "map (\<lambda>r. (eu_id r, eu_deps r)) rows = map (\<lambda>u. (cu_id u, cu_deps u)) us"
    using assms by (simp add: list_eq_iff_nth_eq)
  then have "set (map (\<lambda>r. (eu_id r, eu_deps r)) rows) = set (map (\<lambda>u. (cu_id u, cu_deps u)) us)" by simp
  then have same: "(\<lambda>r. (eu_id r, eu_deps r)) ` set rows = (\<lambda>u. (cu_id u, cu_deps u)) ` set us" by simp
  have "waits_on rows = {(i, d). \<exists>ds. (i, ds) \<in> (\<lambda>r. (eu_id r, eu_deps r)) ` set rows \<and> d \<in> set ds}" by (auto simp: waits_on_def)
  also have "\<dots> = {(cu_id u, d) | u d. u \<in> set us \<and> d \<in> set (cu_deps u)}" unfolding same by auto
  finally show ?thesis .
qed

text \<open>In a closed acyclic workflow some unit has no dependencies.\<close>

lemma some_root:
  assumes "us \<noteq> []" and "acyclic (waits_on us)" and "waits_on us \<subseteq> eu_id ` set us \<times> eu_id ` set us"
  shows "\<exists>u \<in> set us. eu_deps u = []"
proof -
  have "finite (waits_on us)" by (rule finite_subset [OF assms(3)]) simp
  then have "wf ((waits_on us)\<inverse>)" using assms(2) by (rule finite_acyclic_wf_converse)
  moreover have "eu_id (hd us) \<in> eu_id ` set us" using assms(1) by simp
  ultimately obtain i where i: "i \<in> eu_id ` set us" "\<And>j. (j, i) \<in> (waits_on us)\<inverse> \<Longrightarrow> j \<notin> eu_id ` set us"
    by (metis wfE_min)
  then obtain u where u: "u \<in> set us" "eu_id u = i" by auto
  have "eu_deps u = []"
  proof (rule ccontr)
    assume "eu_deps u \<noteq> []"
    then obtain d where "d \<in> set (eu_deps u)" by (cases "eu_deps u") auto
    then have e: "(i, d) \<in> waits_on us" using u by (auto simp: waits_on_def)
    with assms(3) have "d \<in> eu_id ` set us" by auto
    with i(2) [of d] e show False by simp
  qed
  with u show ?thesis by blast
qed

text \<open>C33: What compilation persists. When compile-and-persist succeeds on a table with unique identifiers, the units of the new workflow
  are exactly the rows it added: well formed, closed under dependencies and acyclic, none with a run or a claim. With
  any registry at least one of them is ready, and the summary of the parent is RUNNING and not terminal.\<close>

theorem compiled_workflow_starts:
  assumes "compile_and_persist X p t agents workflow correlation s = (Inr (c, persisted, graph), s')" and "hooks_keep_units X"
    and "distinct (map eu_id (units (db_of s)))" and "us = get_units_by_workflow p t c (db_of s')"
  shows "us \<noteq> [] \<and> set us = set (units (db_of s')) - set (units (db_of s)) \<and> closed_units us (db_of s') \<and> acyclic (waits_on us) \<and>
    (\<forall>u \<in> set us. unit_ok u \<and> eu_run u = None \<and> eu_claimed u = None) \<and>
    (\<forall>rs. (\<exists>u \<in> set us. unit_readiness rs (db_of s') u = Ready) \<and>
       (\<exists>su. workflow_summary (Some (p, t)) c rs (db_of s') = Inr su \<and> su_status su = ''RUNNING'' \<and> \<not> su_terminal su))"
proof -
  from compile_and_persist_Inr [OF assms(1,2)] obtain x rows where old: "units_of_task p t (db_of s) = []"
    and new: "units (db_of s') = units (db_of s) @ rows"
    and shape: "co_units x \<noteq> []" "[] \<notin> set (map cu_id (co_units x))" "[] \<notin> set (map cu_agent (co_units x))"
      "unit_edges x \<subseteq> set (map cu_id (co_units x)) \<times> set (map cu_id (co_units x))" "acyclic (unit_edges x)"
    and maps: "map eu_id rows = map cu_id (co_units x)" "map eu_agent rows = map cu_agent (co_units x)" "map eu_deps rows = map cu_deps (co_units x)"
    and own: "\<forall>r \<in> set rows. eu_project r = p \<and> eu_task r = t \<and> eu_correlation r = c \<and> eu_run r = None \<and> eu_claimed r = None"
    and ids: "distinct (map eu_id (units (db_of s')))" using assms(3) by blast
  have "filter (\<lambda>u. eu_project u = p \<and> eu_task u = t \<and> eu_correlation u = c) (units (db_of s')) = rows"
    using old own by (auto simp: new units_of_task_def filter_empty_conv)
  then have us: "us = in_order rows" by (simp add: assms(4) get_units_by_workflow_def)
  have waits: "waits_on us = unit_edges x"
    using waits_on_zip [OF maps(1,3)] waits_on_set [of us rows] by (simp add: us unit_edges_def)
  have idset: "eu_id ` set us = set (map cu_id (co_units x))" unfolding maps(1) [symmetric] by (simp add: us)
  have some: "rows \<noteq> []" using maps(1) shape(1) by auto
  then have some': "us \<noteq> []" using in_order_set [of rows] us by (metis set_empty)
  have disj: "set rows = set (units (db_of s')) - set (units (db_of s))" using ids by (auto simp: new)
  have edges: "waits_on us \<subseteq> eu_id ` set us \<times> eu_id ` set us" using shape(4) by (simp only: waits idset)
  have ok: "unit_ok u" if u: "u \<in> set us" for u
  proof -
    have "eu_id u \<in> set (map eu_id rows)" "eu_agent u \<in> set (map eu_agent rows)" using u by (simp_all add: us)
    then have "eu_id u \<noteq> []" "eu_agent u \<noteq> []" using shape(2,3) unfolding maps by auto
    moreover have "[] \<notin> set (eu_deps u)"
    proof
      assume "[] \<in> set (eu_deps u)"
      then have "(eu_id u, []) \<in> waits_on us" using u by (auto simp: waits_on_def)
      with edges idset shape(2) show False by auto
    qed
    ultimately show ?thesis by (simp add: unit_ok_def)
  qed
  have free: "eu_run u = None \<and> eu_claimed u = None" if "u \<in> set us" for u using own that by (simp add: us)
  have closed: "closed_units us (db_of s')"
    unfolding closed_units_def
  proof (intro ballI conjI)
    fix u assume u: "u \<in> set us"
    then have "u \<in> set (units (db_of s'))" by (simp add: us new)
    then show "get_unit (eu_id u) (db_of s') = Some u" unfolding get_unit_def by (rule find_unique [OF ids]) simp
    fix i assume "i \<in> set (eu_deps u)"
    then have "(eu_id u, i) \<in> waits_on us" using u by (auto simp: waits_on_def)
    with edges show "\<exists>v \<in> set us. eu_id v = i" by auto
  qed
  have ac: "acyclic (waits_on us)" using shape(5) by (simp add: waits)
  have ready: "\<exists>u \<in> set us. unit_readiness rs (db_of s') u = Ready" for rs
  proof -
    obtain u where u: "u \<in> set us" "eu_deps u = []" using some_root [OF some' ac edges] by blast
    with free have "unit_readiness rs (db_of s') u = Ready" by (simp add: unit_readiness_iff run_of_unit_def)
    with u show ?thesis by blast
  qed
  have summary: "\<exists>su. workflow_summary (Some (p, t)) c rs (db_of s') = Inr su \<and> su_status su = ''RUNNING'' \<and> \<not> su_terminal su" for rs
  proof -
    have W: "workflow_units (Some (p, t)) c (db_of s') = us" by (simp add: workflow_units_def assms(4))
    have "parent_status (map (child_view rs (db_of s')) us) = ''RUNNING''"
      using ready [of rs] unfolding parent_running open_child_def by force
    then show ?thesis unfolding workflow_summary_Inr W using some' ok by (simp add: list_all_iff)
  qed
  show ?thesis using some' disj closed ac ok free ready summary us by simp
qed

lemma one_agent_compiles:
  "\<exists>persisted graph s'. compile_and_persist war_orchestrator ''p'' ''t'' [''qa''] PNone (PStr ''corr'') (war_start []) =
     (Inr (''corr'', persisted, graph), s') \<and> length persisted = 1"
proof -
  have agent: "rmap (require_agent sample_agents) [''qa''] = Inr [snd (hd sample_agents)]"
    by (simp add: require_agent_def find_agent_def sample_agents_def)
  have uuid: "on_core (on_world (new_uuid war_deps)) s = (Inr ''0123456789'', s)" for s :: "unit orch"
    by (simp add: on_core_def on_world_app war_deps_def)
  have now: "now_seconds war_orchestrator s = (Inr 0, s)" for s
    by (simp add: now_seconds_def bnd_app on_core_def on_world_app)
  have ids: "draw_ids (case None of None \<Rightarrow> bnd (on_core (on_world (new_uuid war_deps))) (\<lambda>u. ret (''exec-'' @ u)) | Some f \<Rightarrow> f) [''qa''] [] s =
      (Inr [(''qa'', ''exec-0123456789'')], s)" for s :: "unit orch"
    by (simp add: bnd_app uuid)
  obtain x where x: "compile_task_intent (on_core (on_world (new_uuid war_deps))) None (PStr ''p'') (PStr ''t'') (PList (map PStr [''qa'']))
      (PStr ''corr'') PNone s = (Inr x, s)" "co_correlation x = ''corr''" "co_units x = [\<lparr>cu_id = ''exec-0123456789'', cu_agent = ''qa'',
        cu_correlation = ''corr'', cu_index = 0, cu_deps = [], cu_role = ''implementation'', cu_message = PNone, cu_timeout = PNone,
        cu_contract = PNone\<rparr>]" for s :: "unit orch"
    using ids
    by (simp add: compile_task_intent_def bnd_app validate_project_id_def validate_task_id_def validate_correlation_id_def required_text_def
        ordered_agents_def agent_sequence_def validate_agent_id_def resolve_workflow_def default_entry_def make_unit_def)
  let ?row = "unit_row ''p'' ''t'' 0 (hd (co_units x))"
  have rows: "stamp_units war_orchestrator ''p'' ''t'' (co_units x) s = (Inr [?row], s)" for s
    by (simp add: x(3) bnd_app now)
  have "insert_units Q [?row] (tables_with []) = Inr (tables_with [?row])" for Q
    by (simp add: insert_unit_def bind_unit_def json_column_def unit_row_def x(3)) (simp add: tables_with_def chain_task_def)
  then have made: "create_units Q True [?row] (tables_with []) = (Inr [?row], tables_with [?row])" for Q
    by (simp add: create_units_def units_of_task_def)
  show ?thesis
    using agent x(1) x(2)
    by (simp add: compile_and_persist_def bnd_app get_units_by_task_def in_order_def units_of_task_def rows on_db_app made)
qed

theorem compiled_workflow_starts_witness:
  "\<exists>persisted graph s' u. compile_and_persist war_orchestrator ''p'' ''t'' [''qa''] PNone (PStr ''corr'') (war_start []) =
     (Inr (''corr'', persisted, graph), s') \<and> u \<in> set (units (db_of s')) \<and> unit_readiness [] (db_of s') u = Ready"
proof -
  obtain persisted graph s' where c: "compile_and_persist war_orchestrator ''p'' ''t'' [''qa''] PNone (PStr ''corr'') (war_start []) =
     (Inr (''corr'', persisted, graph), s')" using one_agent_compiles by blast
  have "distinct (map eu_id (units (db_of (war_start []))))" by simp
  from compiled_workflow_starts [OF c war_hooks this refl] c show ?thesis by blast
qed

end
