(* ===== verification/WarAuthorization.thy ===== *)
theory WarAuthorization
  imports WarTables CoreEngine
begin

text \<open>
  \<^verbatim>\<open>war_room_authorization.py\<close>: the authorizer that turns an approval of the war room into a one-time grant of the
  broker. The tables and the broker's store are one state; the body of the \<^verbatim>\<open>with\<close> block is an argument, and so are
  the clock and the answers of SQLite to opening and committing the transaction. A row that a query leaves open to
  choose is the first; the keys of the schema leave no choice for deliveries, units, tasks and messages.
\<close>

section \<open>Instructions\<close>

text \<open>A text with its quotation marks written as the sign \<^verbatim>\<open>~\<close>, which the texts do not use otherwise.\<close>

definition with_quotes :: "string \<Rightarrow> string" where
  "with_quotes s = map (\<lambda>c. if c = CHR ''~'' then CHR 0x22 else c) s"

definition line_end :: string where
  "line_end = [CHR 0x0A]"

definition fast_contract :: string where
  "fast_contract = ''[FAST_GATEWAY_RESULT]'' @ line_end @
     ''FINAL RESPONSE CONTRACT (highest priority): return only one JSON object with exactly these top-level keys: '' @
     with_quotes ''{~status~:~completed|blocked|failed~,~summary~:~...~,~evidence~:[{~type~:~...~,~detail~:~...~}],'' @
     with_quotes ''~artifacts~:[{~path~:~...~}],~scope~:{~compliant~:true,~violations~:[]}}. '' @
     ''The final response must be raw JSON only: its first character must be { and its last character must be }. '' @
     ''Do not use Markdown, code fences, backticks, or any prose before or after the JSON object. '' @
     ''Use evidence and artifacts only for actually verified work. '' @
     ''Artifacts are outputs newly produced by this run; for a read-only task, put inspected existing paths in evidence '' @
     ''and return an empty artifacts array. Do not add fields outside this contract.'' @ line_end"

definition structured_contract :: string where
  "structured_contract = ''[STRUCTURED_RESULT]'' @ line_end @
     ''FINAL RESPONSE CONTRACT (highest priority): return only one JSON object with exactly: '' @
     with_quotes ''{~confirmed_worktree~:~...~,~confirmed_revision~:~...~,~verdict~:~PASS|FAIL|REWORK~,'' @
     with_quotes ''~evidence~:[~/absolute/path~],~summary~:~...~,~representative_completion_claimed~:false,'' @
     with_quotes ''~documents~:[{~title~:~...~,~category~:~requirements|architecture|decision|reference|report|handoff|other~,'' @
     with_quotes ''~path~:~/absolute/path~,~action~:~create|update~,~summary~:~...~,~document_id~:~optional~,'' @
     with_quotes ''~expected_version~:1,~relation~:~input|output|reference|decision|handoff~}]}. '' @
     ''confirmed_worktree MUST exactly copy IMMUTABLE_GROUNDING_PACKET.worktree. '' @
     ''confirmed_revision MUST exactly copy IMMUTABLE_GROUNDING_PACKET.revision; it is a War Room grounding revision, '' @
     ''not a Git revision lookup. Never replace it with HEAD/commit hash unless the packet itself contains that hash. '' @
     ''Do not claim representative completion; only main can approve it.'' @ line_end"

definition grounded_instruction :: "std \<Rightarrow> string \<Rightarrow> pyval \<Rightarrow> string \<Rightarrow> string" where
  "grounded_instruction S instruction packet mode =
     (let middle = ''[IMMUTABLE_GROUNDING_PACKET]'' @ line_end @ jdump_wide (float_repr S) False packet @ line_end @
            ''[ORIGINAL_INSTRUCTION_CONTEXT]'' @ line_end @ strip instruction @ line_end
      in if mode = ''FAST_GATEWAY''
         then fast_contract @ middle @
           ''Follow the original instruction as the task. Use the envelope only for approved constraints and final response formatting.''
         else structured_contract @ middle @
           ''Return the JSON object above; treat the original instruction only as context.'')"

definition role_permissions :: "(string \<times> string list) list" where
  "role_permissions =
     [(''project_manager'', [''read'', ''comment'', ''approve'', ''execute'', ''manage'']), (''developer'', [''read'', ''comment'']),
      (''qa'', [''read'', ''comment'']), (''observer'', [''read''])]"

section \<open>The source of a run\<close>

record grant_world =
  gw_war :: war_db
  gw_vault :: auth_store

text \<open>The authorizer with its environment: the answers of SQLite to opening the database and to the commit, a message when
  it fails.\<close>

record war_authorizer =
  az_file :: bool
  az_open :: "string option"
  az_commit :: "string option"
  az_loads :: "string \<Rightarrow> pyval option"

definition owns_war_run :: "string \<Rightarrow> bool" where
  "owns_war_run i \<longleftrightarrow> starts_with i ''war-'' \<or> starts_with i ''core-exec-''"

definition refuse :: "string \<Rightarrow> exn" where
  "refuse c = auth_error c"

text \<open>The joined row of the delivery or the unit, its message and its task.\<close>

record source =
  so_task :: war_task
  so_body :: string
  so_project :: string
  so_agent :: string
  so_revision :: int

definition int_or :: "int \<Rightarrow> int option \<Rightarrow> int" where
  "int_or n v = (case v of None \<Rightarrow> n | Some x \<Rightarrow> if x = 0 then n else x)"

definition delivery_source :: "string \<Rightarrow> int \<Rightarrow> war_db \<Rightarrow> source res" where
  "delivery_source key now d =
     (case find (\<lambda>x. dl_id x = key) (deliveries d) of
        None \<Rightarrow> Inl (refuse ''AUTH_REQUIRED'')
      | Some x \<Rightarrow> (case find (\<lambda>m. wm_id m = dl_message x) (messages d) of
          None \<Rightarrow> Inl (refuse ''AUTH_REQUIRED'')
        | Some m \<Rightarrow> (case find (\<lambda>t. wt_message t = Some (wm_id m)) (tasks d) of
            None \<Rightarrow> Inl (refuse ''AUTH_REQUIRED'')
          | Some t \<Rightarrow>
              if dl_status x \<noteq> ''sent'' \<or> dl_claim x = None \<or> dl_claim x = Some [] \<or> int_or 0 (dl_claim_expires x) \<le> now \<or>
                 int_or 0 (dl_deadline x) \<le> now
              then Inl (refuse ''AUTH_REQUIRED'')
              else Inr \<lparr>so_task = t, so_body = wm_body m, so_project = wm_project m, so_agent = dl_agent x, so_revision = dl_revision x\<rparr>)))"

definition unit_source :: "string \<Rightarrow> war_db \<Rightarrow> source res" where
  "unit_source i d =
     (case find (\<lambda>u. eu_id u = i) (units d) of
        None \<Rightarrow> Inl (refuse ''AUTH_REQUIRED'')
      | Some u \<Rightarrow> (case find (\<lambda>t. wt_id t = eu_task u) (tasks d) of
          None \<Rightarrow> Inl (refuse ''AUTH_REQUIRED'')
        | Some t \<Rightarrow> (case find (\<lambda>m. Some (wm_id m) = wt_message t) (messages d) of
            None \<Rightarrow> Inl (refuse ''AUTH_REQUIRED'')
          | Some m \<Rightarrow>
              if eu_claimed u = None \<or> eu_project u \<noteq> wt_project t \<or> eu_message u \<noteq> PStr (wm_body m)
              then Inl (refuse ''AUTH_REQUIRED'')
              else Inr \<lparr>so_task = t, so_body = wm_body m, so_project = wm_project m, so_agent = eu_agent u, so_revision = wt_revision t\<rparr>)))"

definition run_source :: "string \<Rightarrow> pyval \<Rightarrow> int \<Rightarrow> war_db \<Rightarrow> source res" where
  "run_source i key now d =
     (if starts_with i ''war-'' \<and> key = PStr (drop 4 i) then delivery_source (drop 4 i) now d
      else if starts_with i ''core-exec-'' \<and> key = PStr (''war-exec-'' @ drop 10 i) then unit_source (drop 10 i) d
      else Inl (refuse ''AUTH_REQUIRED''))"

section \<open>The checks\<close>

text \<open>The guard clauses of \<open>authorize\<close> in their order, each a function of the tables that raises or lets pass.\<close>

definition check_binding :: "auth_scope \<Rightarrow> int \<Rightarrow> source \<Rightarrow> unit res" where
  "check_binding sc now so =
     (let t = so_task so in
      need (wt_mode t = ''FAST_GATEWAY'' \<and> wt_status t = ''running'' \<and> so_project so = wt_project t \<and>
            casefold (so_agent so) = sc_agent sc \<and> now < int_or 0 (wt_deadline t) \<and>
            wt_document t \<noteq> None \<and> wt_document t \<noteq> Some [] \<and> wt_document t = Some (wt_manyfast t))
        (refuse ''BINDING_MISMATCH'') (Inr ()))"

definition authorized_instruction :: "std \<Rightarrow> war_authorizer \<Rightarrow> string \<Rightarrow> source \<Rightarrow> war_db \<Rightarrow> string res" where
  "authorized_instruction S A i so d =
     (if \<not> starts_with i ''war-'' then Inr (so_body so) else
      (case map_of (packets d) (wt_id (so_task so)) of
         None \<Rightarrow> Inl (refuse ''AUTH_REQUIRED'')
       | Some text \<Rightarrow> (case az_loads A text of
           None \<Rightarrow> Inl (ValueError ''JSONDecodeError'')
         | Some packet \<Rightarrow> Inr (grounded_instruction S (so_body so) packet (wt_mode (so_task so))))))"

definition check_project :: "string \<Rightarrow> war_db \<Rightarrow> unit res" where
  "check_project p d =
     (case (find (\<lambda>x. wp_id x = p) (projects d), find (\<lambda>x. wc_project x = p) (project_control d)) of
        (Some x, Some c) \<Rightarrow>
          need (wp_status x \<noteq> ''archived'' \<and> wc_archived c = None \<and> wc_stop_state c = ''running'') (refuse ''AUTH_REQUIRED'') (Inr ())
      | _ \<Rightarrow> Inl (refuse ''AUTH_REQUIRED''))"

definition targets_of :: "string \<Rightarrow> war_db \<Rightarrow> string list" where
  "targets_of t d = sort (map snd (filter (\<lambda>x. fst x = t) (task_agents d)))"

definition check_participant :: "string \<Rightarrow> string \<Rightarrow> war_db \<Rightarrow> unit res" where
  "check_participant p ag d =
     (case find (\<lambda>x. pt_project x = p \<and> lower (pt_principal x) = ag) (participants d) of
        None \<Rightarrow> Inl (refuse ''AUTH_REQUIRED'')
      | Some x \<Rightarrow> need (pt_active x \<and> pt_read x) (refuse ''AUTH_REQUIRED'') (Inr ()))"

text \<open>The latest decision, the later row of two with the same time.\<close>

definition latest_approval :: "string \<Rightarrow> war_db \<Rightarrow> war_approval option" where
  "latest_approval t d =
     (case filter (\<lambda>a. ap_task a = t) (approvals d) of
        [] \<Rightarrow> None
      | a # as \<Rightarrow> Some (foldl (\<lambda>best x. if ap_created best \<le> ap_created x then x else best) a as))"

definition targets_hash :: "std \<Rightarrow> string list \<Rightarrow> string" where
  "targets_hash S targets = sha256 S (jdump_wide (float_repr S) True (str_list targets))"

definition check_approval :: "std \<Rightarrow> int \<Rightarrow> war_task \<Rightarrow> war_db \<Rightarrow> war_approval res" where
  "check_approval S now t d =
     (case latest_approval (wt_id t) d of
        None \<Rightarrow> Inl (refuse ''AUTH_REQUIRED'')
      | Some a \<Rightarrow>
          need (ap_decision a = ''approved'' \<and> ap_revoked a = None \<and> now < int_or 0 (ap_expires a) \<and>
                ap_scope_hash a = sha256 S (wt_scope t) \<and> Some (ap_document a) = wt_document t \<and>
                ap_assignee a = wt_assignee t \<and> ap_targets a = targets_hash S (targets_of (wt_id t) d))
            (refuse ''AUTH_REQUIRED'') (Inr a))"

definition check_approver :: "string \<Rightarrow> string \<Rightarrow> war_db \<Rightarrow> unit res" where
  "check_approver p who d =
     (case find (\<lambda>x. pt_project x = p \<and> pt_principal x = who) (participants d) of
        None \<Rightarrow> Inl (refuse ''AUTH_REQUIRED'')
      | Some x \<Rightarrow>
          need (pt_active x \<and> pt_read x \<and> pt_approve x \<and>
                List.member (case map_of role_permissions (pt_role x) of None \<Rightarrow> [] | Some ps \<Rightarrow> ps) ''approve'')
            (refuse ''AUTH_REQUIRED'') (Inr ()))"

definition revision_of :: "int \<Rightarrow> int" where
  "revision_of n = (if n = 0 then 1 else n)"

definition calls_of :: "string \<Rightarrow> int \<Rightarrow> war_db \<Rightarrow> war_calls option" where
  "calls_of t n d = find (\<lambda>c. ca_task c = t \<and> ca_revision c = n) (task_calls d)"

definition check_calls :: "war_task \<Rightarrow> war_db \<Rightarrow> unit res" where
  "check_calls t d =
     (let c = calls_of (wt_id t) (revision_of (wt_revision t)) d in
      need ((case c of None \<Rightarrow> 0 | Some x \<Rightarrow> ca_calls x) < int_or 0 (wt_call_limit t) \<and>
            (case c of None \<Rightarrow> 0 | Some x \<Rightarrow> ca_turns x) < int_or 0 (wt_turn_limit t))
        (refuse ''AUTH_REQUIRED'') (Inr ()))"

section \<open>The grant\<close>

text \<open>What \<open>authorize\<close> knows at the \<open>yield\<close>: the time, the task, the widened scope and the approval.\<close>

record ticket =
  tk_now :: int
  tk_task :: war_task
  tk_scope :: auth_scope
  tk_approval :: war_approval

text \<open>Equality of two dictionaries, whatever their order.\<close>

definition same_dict :: "pydict \<Rightarrow> pydict \<Rightarrow> bool" where
  "same_dict d e = list_all (\<lambda>k. map_of d k = map_of e k) (map fst d @ map fst e)"

definition envelope_field :: "pydict \<Rightarrow> string \<Rightarrow> pyval res" where
  "envelope_field d k = (case map_of d k of None \<Rightarrow> Inl (KeyError k) | Some v \<Rightarrow> Inr v)"

text \<open>Before the database is opened.\<close>

definition check_envelope :: "std \<Rightarrow> war_authorizer \<Rightarrow> auth_scope \<Rightarrow> (pyval \<times> pyval \<times> pydict) res" where
  "check_envelope S A sc =
     (if sc_action sc \<noteq> ''dispatch'' \<or> sc_workspace sc \<noteq> ''command-center'' \<or> sc_project sc \<noteq> ''fast-gateway'' \<or> \<not> az_file A
      then Inl (refuse ''AUTH_REQUIRED'') else
      (case as_dict (sc_contract sc) of
         None \<Rightarrow> Inl (AttributeError ''get'')
       | Some d \<Rightarrow>
           rbind (normalize_goal_contract S PNone) (\<lambda>g.
           if (case as_dict (dget d ''goal_contract'') of None \<Rightarrow> True | Some e \<Rightarrow> \<not> same_dict e (contract_dict g))
           then Inl (refuse ''TASK_DIGEST_MISMATCH'') else
           rbind (envelope_field d ''core_run_id'') (\<lambda>i. rbind (envelope_field d ''idempotency_key'') (\<lambda>key. Inr (i, key, d))))))"

definition admit_run :: "std \<Rightarrow> war_authorizer \<Rightarrow> int \<Rightarrow> auth_scope \<Rightarrow> pyval \<Rightarrow> pyval \<Rightarrow> pydict \<Rightarrow> war_db \<Rightarrow> ticket res" where
  "admit_run S A now sc run key envelope d =
     (case as_str run of None \<Rightarrow> Inl (AttributeError ''startswith'') | Some i \<Rightarrow>
     rbind (run_source i key now d) (\<lambda>so. let t = so_task so in
     rbind (check_binding sc now so) (\<lambda>u.
     rbind (authorized_instruction S A i so d) (\<lambda>instruction.
     rbind (envelope_field envelope ''instruction_sha256'') (\<lambda>digest.
     if digest \<noteq> PStr (sha256 S instruction) then Inl (refuse ''TASK_DIGEST_MISMATCH'') else
     rbind (check_project (wt_project t) d) (\<lambda>u.
     if \<not> List.member (map casefold (targets_of (wt_id t) d)) (sc_agent sc) then Inl (refuse ''BINDING_MISMATCH'') else
     rbind (check_participant (wt_project t) (sc_agent sc) d) (\<lambda>u.
     rbind (check_approval S now t d) (\<lambda>a.
     rbind (check_approver (wt_project t) (ap_approver a) d) (\<lambda>u.
     if starts_with i ''war-'' \<and> revision_of (so_revision so) \<noteq> revision_of (wt_revision t) then Inl (refuse ''BINDING_MISMATCH'') else
     rbind (check_calls t d) (\<lambda>u.
     Inr \<lparr>tk_now = now, tk_task = t,
       tk_scope = sc\<lparr>sc_workspace := ''war-room:'' @ wt_id t, sc_project := wt_project t\<rparr>, tk_approval = a\<rparr>))))))))))"

definition grant_seconds :: "ticket \<Rightarrow> int" where
  "grant_seconds k = min 30 (min (int_or 0 (ap_expires (tk_approval k)) - tk_now k) (int_or 0 (wt_deadline (tk_task k)) - tk_now k))"

text \<open>After the body: the upsert of the call counter.\<close>

definition reserve_call :: "ticket \<Rightarrow> war_db \<Rightarrow> war_db" where
  "reserve_call k d =
     (let t = wt_id (tk_task k); n = revision_of (wt_revision (tk_task k)) in
      if calls_of t n d = None
      then d\<lparr>task_calls := task_calls d @ [\<lparr>ca_task = t, ca_revision = n, ca_calls = 1, ca_turns = 0, ca_updated = tk_now k\<rparr>]\<rparr>
      else d\<lparr>task_calls := map (\<lambda>c. if ca_task c = t \<and> ca_revision c = n
             then c\<lparr>ca_calls := ca_calls c + 1, ca_updated := tk_now k\<rparr> else c) (task_calls d)\<rparr>)"

text \<open>\<open>except sqlite3.Error\<close>.\<close>

definition store_error :: "string \<Rightarrow> exn" where
  "store_error m = refuse (if contains ''locked'' (lower m) then ''STORE_BUSY'' else ''STORE_CORRUPT'')"

fun as_store_error :: "exn \<Rightarrow> exn" where
  "as_store_error (IntegrityError m) = store_error m"
| "as_store_error e = e"

definition on_gw_vault :: "(auth_store, 'a) op \<Rightarrow> (grant_world, 'a) op" where
  "on_gw_vault m w = (case m (gw_vault w) of (r, st) \<Rightarrow> (r, w\<lparr>gw_vault := st\<rparr>))"

definition war_authorize ::
  "std \<Rightarrow> broker \<Rightarrow> call_env \<Rightarrow> war_authorizer \<Rightarrow> int \<Rightarrow> auth_scope \<Rightarrow> (auth_scope \<times> string option \<Rightarrow> (grant_world, unit) op) \<Rightarrow> (grant_world, unit) op" where
  "war_authorize S B e A now sc body =
     bnd (lift (check_envelope S A sc)) (\<lambda>(run, key, envelope).
     case az_open A of
       Some m \<Rightarrow> raise (store_error m)
     | None \<Rightarrow>
         bnd (gets (\<lambda>w. admit_run S A now sc run key envelope (gw_war w))) (\<lambda>admitted.
         bnd (lift admitted) (\<lambda>k.
         bnd (attempt (bnd (on_gw_vault (issue S B e (tk_scope k) (of_int (grant_seconds k)) (ap_approver (tk_approval k)))) (\<lambda>g.
                body (tk_scope k, Some (ig_token g))))) (\<lambda>answer.
         case answer of
           Inl x \<Rightarrow> raise (as_store_error x)
         | Inr u \<Rightarrow> (case az_commit A of
             Some m \<Rightarrow> raise (store_error m)
           | None \<Rightarrow> modify (\<lambda>w. w\<lparr>gw_war := reserve_call k (gw_war w)\<rparr>))))))"

end
