(* ===== verification/WarGrants.thy ===== *)
theory WarGrants
  imports WarAuthorization CoreSafety
begin

text \<open>
  What the authorizer promises: a grant only under a current approval, and never more runs of a task revision than its
  call limit. The last section puts it under the engine: a war room run that reaches a worker was approved.
\<close>

section \<open>One authorization\<close>

text \<open>The checks before the grant, as one function of the tables.\<close>

definition ticket_of :: "std \<Rightarrow> war_authorizer \<Rightarrow> int \<Rightarrow> auth_scope \<Rightarrow> war_db \<Rightarrow> ticket res" where
  "ticket_of S A now sc d = rbind (check_envelope S A sc) (\<lambda>(run, key, envelope). admit_run S A now sc run key envelope d)"

text \<open>The block from the grant to the commit, with the body in it.\<close>

definition granted_block ::
  "std \<Rightarrow> broker \<Rightarrow> call_env \<Rightarrow> war_authorizer \<Rightarrow> ticket \<Rightarrow> (auth_scope \<times> string option \<Rightarrow> (grant_world, unit) op) \<Rightarrow> (grant_world, unit) op" where
  "granted_block S B e A k body w =
     (case issue S B e (tk_scope k) (of_int (grant_seconds k)) (ap_approver (tk_approval k)) (gw_vault w) of
        (Inl x, st) \<Rightarrow> (Inl (as_store_error x), w\<lparr>gw_vault := st\<rparr>)
      | (Inr g, st) \<Rightarrow> (case body (tk_scope k, Some (ig_token g)) (w\<lparr>gw_vault := st\<rparr>) of
          (Inl x, v) \<Rightarrow> (Inl (as_store_error x), v)
        | (Inr u, v) \<Rightarrow> (case az_commit A of
            Some m \<Rightarrow> (Inl (store_error m), v)
          | None \<Rightarrow> (Inr (), v\<lparr>gw_war := reserve_call k (gw_war v)\<rparr>))))"

lemma war_authorize_app:
  "war_authorize S B e A now sc body w =
     (case check_envelope S A sc of
        Inl x \<Rightarrow> (Inl x, w)
      | Inr (run, key, envelope) \<Rightarrow> (case az_open A of
          Some m \<Rightarrow> (Inl (store_error m), w)
        | None \<Rightarrow> (case admit_run S A now sc run key envelope (gw_war w) of
            Inl x \<Rightarrow> (Inl x, w)
          | Inr k \<Rightarrow> granted_block S B e A k body w)))"
proof (cases "check_envelope S A sc")
  case (Inr x)
  obtain run key envelope where x: "x = (run, key, envelope)" by (cases x)
  show ?thesis
  proof (cases "az_open A")
    case None
    show ?thesis
    proof (cases "admit_run S A now sc run key envelope (gw_war w)")
      case (Inr k)
      obtain r st where i: "issue S B e (tk_scope k) (of_int (grant_seconds k)) (ap_approver (tk_approval k)) (gw_vault w) = (r, st)" by fastforce
      show ?thesis
      proof (cases r)
        case (Inr g)
        obtain a v where "body (tk_scope k, Some (ig_token g)) (w\<lparr>gw_vault := st\<rparr>) = (a, v)" by fastforce
        then show ?thesis using \<open>check_envelope S A sc = Inr x\<close> x None \<open>admit_run S A now sc run key envelope (gw_war w) = Inr k\<close> i Inr
          by (cases a) (simp_all add: war_authorize_def granted_block_def bnd_app attempt_app on_gw_vault_def split: option.split)
      qed (use \<open>check_envelope S A sc = Inr x\<close> x None Inr i in \<open>simp add: war_authorize_def granted_block_def bnd_app attempt_app on_gw_vault_def\<close>)
    qed (use Inr x None in \<open>simp add: war_authorize_def bnd_app\<close>)
  qed (use Inr x in \<open>simp add: war_authorize_def bnd_app\<close>)
qed (simp add: war_authorize_def bnd_app)

lemma war_authorize_Inr:
  assumes "war_authorize S B e A now sc body w = (Inr u, w')"
  shows "\<exists>k g st v. ticket_of S A now sc (gw_war w) = Inr k \<and>
    issue S B e (tk_scope k) (of_int (grant_seconds k)) (ap_approver (tk_approval k)) (gw_vault w) = (Inr g, st) \<and>
    body (tk_scope k, Some (ig_token g)) (w\<lparr>gw_vault := st\<rparr>) = (Inr (), v) \<and> w' = v\<lparr>gw_war := reserve_call k (gw_war v)\<rparr>"
proof -
  from assms obtain run key envelope k where k: "check_envelope S A sc = Inr (run, key, envelope)"
    "admit_run S A now sc run key envelope (gw_war w) = Inr k" and block: "granted_block S B e A k body w = (Inr u, w')"
    unfolding war_authorize_app by (auto split: sum.split_asm option.split_asm prod.split_asm)
  from block show ?thesis
    using k by (auto simp: granted_block_def ticket_of_def split: sum.split_asm option.split_asm prod.split_asm)
qed

lemma war_authorize_Inl:
  assumes "war_authorize S B e A now sc body w = (Inl x, w')" and "\<And>y v. gw_war (snd (body y v)) = gw_war v"
  shows "gw_war w' = gw_war w"
proof -
  have "gw_war v' = gw_war w" if "granted_block S B e A k body w = (Inl x, v')" for k v'
    using that assms(2) by (auto simp: granted_block_def split: sum.split_asm option.split_asm prod.split_asm) (metis snd_conv grant_world.select_convs(1) grant_world.ext_inject grant_world.surjective grant_world.update_convs(2))+
  with assms(1) show ?thesis unfolding war_authorize_app by (auto split: sum.split_asm option.split_asm prod.split_asm)
qed

section \<open>What the checks establish\<close>

text \<open>The task may run now: the abstract reading of the guard clauses.\<close>

definition approved_task :: "std \<Rightarrow> int \<Rightarrow> string \<Rightarrow> war_db \<Rightarrow> war_task \<Rightarrow> war_approval \<Rightarrow> bool" where
  "approved_task S now ag d t a \<longleftrightarrow>
     t \<in> set (tasks d) \<and> wt_status t = ''running'' \<and> wt_mode t = ''FAST_GATEWAY'' \<and> now < int_or 0 (wt_deadline t) \<and>
     latest_approval (wt_id t) d = Some a \<and> ap_decision a = ''approved'' \<and> ap_revoked a = None \<and> now < int_or 0 (ap_expires a) \<and>
     ap_scope_hash a = sha256 S (wt_scope t) \<and> Some (ap_document a) = wt_document t \<and> wt_document t = Some (wt_manyfast t) \<and>
     ap_targets a = targets_hash S (targets_of (wt_id t) d) \<and> (\<exists>x \<in> set (targets_of (wt_id t) d). casefold x = ag) \<and>
     (\<exists>x \<in> set (participants d). pt_project x = wt_project t \<and> pt_principal x = ap_approver a \<and> pt_role x = ''project_manager'' \<and>
        pt_active x \<and> pt_approve x) \<and>
     (\<exists>x \<in> set (participants d). pt_project x = wt_project t \<and> lower (pt_principal x) = ag \<and> pt_active x \<and> pt_read x) \<and>
     (\<exists>x \<in> set (projects d). wp_id x = wt_project t \<and> wp_status x \<noteq> ''archived'') \<and>
     (\<exists>c \<in> set (project_control d). wc_project c = wt_project t \<and> wc_stop_state c = ''running'')"

definition calls_made :: "string \<Rightarrow> int \<Rightarrow> war_db \<Rightarrow> int" where
  "calls_made t n d = (case calls_of t n d of None \<Rightarrow> 0 | Some c \<Rightarrow> ca_calls c)"

definition revision_key :: "war_task \<Rightarrow> string \<times> int" where
  "revision_key t = (wt_id t, revision_of (wt_revision t))"

lemma run_source_task:
  assumes "run_source i key now d = Inr so"
  shows "so_task so \<in> set (tasks d) \<and> owns_war_run i"
  using assms
  by (auto simp: run_source_def delivery_source_def unit_source_def owns_war_run_def split: if_split_asm option.split_asm dest: find_key)

lemma approver_role:
  "List.member (case map_of role_permissions r of None \<Rightarrow> [] | Some ps \<Rightarrow> ps) ''approve'' \<longleftrightarrow> r = ''project_manager''"
  by (simp add: role_permissions_def)

lemma ticket_of_Inr:
  assumes "ticket_of S A now sc d = Inr k"
  shows "tk_now k = now \<and> approved_task S now (sc_agent sc) d (tk_task k) (tk_approval k) \<and>
    calls_made (fst (revision_key (tk_task k))) (snd (revision_key (tk_task k))) d < int_or 0 (wt_call_limit (tk_task k)) \<and>
    tk_scope k = sc\<lparr>sc_workspace := ''war-room:'' @ wt_id (tk_task k), sc_project := wt_project (tk_task k)\<rparr> \<and>
    (\<exists>env i so instruction. sc_contract sc = PDict env \<and> map_of env ''core_run_id'' = Some (PStr i) \<and> owns_war_run i \<and>
       (\<exists>key. run_source i key now d = Inr so) \<and> so_task so = tk_task k \<and> authorized_instruction S A i so d = Inr instruction \<and>
       map_of env ''instruction_sha256'' = Some (PStr (sha256 S instruction)))"
proof -
  from assms obtain run key env where e: "check_envelope S A sc = Inr (run, key, env)" "admit_run S A now sc run key env d = Inr k"
    by (auto simp: ticket_of_def rbind_Inr_iff)
  then have env: "sc_contract sc = PDict env" "map_of env ''core_run_id'' = Some run"
    by (auto simp: check_envelope_def rbind_Inr_iff envelope_field_def split: if_split_asm option.split_asm)
  from e(2) obtain i so instruction a where
    r: "run = PStr i" and so: "run_source i key now d = Inr so" and k: "k = \<lparr>tk_now = now, tk_task = so_task so,
       tk_scope = sc\<lparr>sc_workspace := ''war-room:'' @ wt_id (so_task so), sc_project := wt_project (so_task so)\<rparr>, tk_approval = a\<rparr>" and
    b: "check_binding sc now so = Inr ()" and ins: "authorized_instruction S A i so d = Inr instruction"
    "envelope_field env ''instruction_sha256'' = Inr (PStr (sha256 S instruction))" and
    p: "check_project (wt_project (so_task so)) d = Inr ()" and t: "sc_agent sc \<in> set (map casefold (targets_of (wt_id (so_task so)) d))" and
    m: "check_participant (wt_project (so_task so)) (sc_agent sc) d = Inr ()" and a: "check_approval S now (so_task so) d = Inr a" and
    v: "check_approver (wt_project (so_task so)) (ap_approver a) d = Inr ()" and c: "check_calls (so_task so) d = Inr ()"
    by (auto simp: admit_run_def Let_def rbind_Inr_iff split: option.split_asm if_split_asm)
  have appr: "latest_approval (wt_id (so_task so)) d = Some a" "ap_decision a = ''approved''" "ap_revoked a = None" "now < int_or 0 (ap_expires a)"
    "ap_scope_hash a = sha256 S (wt_scope (so_task so))" "Some (ap_document a) = wt_document (so_task so)"
    "ap_targets a = targets_hash S (targets_of (wt_id (so_task so)) d)"
    using a by (auto simp: check_approval_def split: option.split_asm)
  have bind: "wt_mode (so_task so) = ''FAST_GATEWAY''" "wt_status (so_task so) = ''running''" "now < int_or 0 (wt_deadline (so_task so))"
    "wt_document (so_task so) = Some (wt_manyfast (so_task so))"
    using b by (auto simp: check_binding_def Let_def)
  have who: "\<exists>x \<in> set (participants d). pt_project x = wt_project (so_task so) \<and> pt_principal x = ap_approver a \<and> pt_role x = ''project_manager'' \<and>
      pt_active x \<and> pt_approve x"
    using v by (auto simp: check_approver_def approver_role find_Some_iff simp del: List.member_iff split: option.split_asm intro!: bexI)
  have part: "\<exists>x \<in> set (participants d). pt_project x = wt_project (so_task so) \<and> lower (pt_principal x) = sc_agent sc \<and> pt_active x \<and> pt_read x"
    using m by (auto simp: check_participant_def find_Some_iff split: option.split_asm intro!: bexI)
  have proj: "\<exists>x \<in> set (projects d). wp_id x = wt_project (so_task so) \<and> wp_status x \<noteq> ''archived''"
    "\<exists>c \<in> set (project_control d). wc_project c = wt_project (so_task so) \<and> wc_stop_state c = ''running''"
    using p by (auto simp: check_project_def find_Some_iff split: option.split_asm intro!: bexI)
  have calls: "calls_made (wt_id (so_task so)) (revision_of (wt_revision (so_task so))) d < int_or 0 (wt_call_limit (so_task so))"
    using c by (auto simp: check_calls_def Let_def calls_made_def)
  have "approved_task S now (sc_agent sc) d (so_task so) a"
    unfolding approved_task_def using run_source_task [OF so] appr bind who part proj t by auto
  then show ?thesis using env ins so calls run_source_task [OF so] unfolding k r
    by (auto simp: revision_key_def envelope_field_def split: option.split_asm)
qed

section \<open>The call limit\<close>

lemma reserve_call_made:
  "calls_made t n (reserve_call k d) = calls_made t n d + (if revision_key (tk_task k) = (t, n) then 1 else 0)"
proof -
  have app: "find P (xs @ [x]) = (case find P xs of None \<Rightarrow> if P x then Some x else None | Some y \<Rightarrow> Some y)" for P and xs :: "war_calls list" and x
    by (induction xs) auto
  have upd: "find (\<lambda>c. ca_task c = t \<and> ca_revision c = n) (map (\<lambda>c. if ca_task c = u \<and> ca_revision c = m
        then c\<lparr>ca_calls := ca_calls c + 1, ca_updated := x\<rparr> else c) cs) =
      map_option (\<lambda>c. if t = u \<and> n = m then c\<lparr>ca_calls := ca_calls c + 1, ca_updated := x\<rparr> else c)
        (find (\<lambda>c. ca_task c = t \<and> ca_revision c = n) cs)" for u m x cs
    by (induction cs) auto
  let ?u = "wt_id (tk_task k)" and ?m = "revision_of (wt_revision (tk_task k))"
  show ?thesis
  proof (cases "calls_of ?u ?m d")
    case None
    then show ?thesis
      by (auto simp: reserve_call_def Let_def calls_made_def calls_of_def app revision_key_def split: option.split)
  next
    case (Some c)
    then show ?thesis
      by (auto simp: reserve_call_def Let_def calls_made_def calls_of_def upd revision_key_def split: option.split)
  qed
qed

lemma reserve_call_tasks [simp]: "tasks (reserve_call k d) = tasks d"
  by (simp add: reserve_call_def Let_def)

text \<open>Histories of the tables: authorizations, with any environment and body, and changes by everything else.\<close>

datatype grant_event =
    Authorization call_env war_authorizer int auth_scope "auth_scope \<times> string option \<Rightarrow> (grant_world, unit) op"
  | Change "grant_world \<Rightarrow> grant_world"

text \<open>The task revisions for which an authorization was given, in order.\<close>

fun grants_given :: "std \<Rightarrow> broker \<Rightarrow> grant_event list \<Rightarrow> grant_world \<Rightarrow> (string \<times> int) list \<times> grant_world" where
  "grants_given S B [] w = ([], w)"
| "grants_given S B (Change f # es) w = grants_given S B es (f w)"
| "grants_given S B (Authorization e A now sc body # es) w =
     (case war_authorize S B e A now sc body w of (r, v) \<Rightarrow>
        (case grants_given S B es v of (given, z) \<Rightarrow>
           ((case r of Inl x \<Rightarrow> [] | Inr u \<Rightarrow> (case ticket_of S A now sc (gw_war w) of
               Inl x \<Rightarrow> [] | Inr k \<Rightarrow> [revision_key (tk_task k)])) @ given, z)))"

text \<open>A body works on the broker's store only; other writers keep the counter of the revision, and its limit.\<close>

fun keeps_budget :: "string \<Rightarrow> int \<Rightarrow> int \<Rightarrow> grant_event \<Rightarrow> bool" where
  "keeps_budget t n limit (Authorization e A now sc body) = (\<forall>y v. gw_war (snd (body y v)) = gw_war v)"
| "keeps_budget t n limit (Change f) = (\<forall>w. calls_made t n (gw_war w) \<le> calls_made t n (gw_war (f w)) \<and>
     ((\<forall>k \<in> set (tasks (gw_war w)). wt_id k = t \<longrightarrow> int_or 0 (wt_call_limit k) \<le> limit) \<longrightarrow>
      (\<forall>k \<in> set (tasks (gw_war (f w))). wt_id k = t \<longrightarrow> int_or 0 (wt_call_limit k) \<le> limit)))"

lemma authorize_charges:
  assumes "war_authorize S B e A now sc body w = (Inr u, v)" and "\<And>y v. gw_war (snd (body y v)) = gw_war v"
  shows "\<exists>k. ticket_of S A now sc (gw_war w) = Inr k \<and> gw_war v = reserve_call k (gw_war w)"
proof -
  from war_authorize_Inr [OF assms(1)] obtain k st z and g :: issued_grant where k: "ticket_of S A now sc (gw_war w) = Inr k"
    "body (tk_scope k, Some (ig_token g)) (w\<lparr>gw_vault := st\<rparr>) = (Inr (), z)" "v = z\<lparr>gw_war := reserve_call k (gw_war z)\<rparr>" by auto
  from assms(2) [of "(tk_scope k, Some (ig_token g))" "w\<lparr>gw_vault := st\<rparr>"] k(2) have "gw_war z = gw_war w" by simp
  with k show ?thesis by simp
qed

lemma budget_step:
  assumes "war_authorize S B e A now sc body w = (r, v)" and "\<And>y v. gw_war (snd (body y v)) = gw_war v"
    and "\<forall>k \<in> set (tasks (gw_war w)). wt_id k = t \<longrightarrow> int_or 0 (wt_call_limit k) \<le> limit"
    and "m = count_list (case r of Inl x \<Rightarrow> [] | Inr u \<Rightarrow> (case ticket_of S A now sc (gw_war w) of Inl x \<Rightarrow> [] | Inr k \<Rightarrow> [revision_key (tk_task k)])) (t, n)"
  shows "calls_made t n (gw_war v) = calls_made t n (gw_war w) + int m \<and> (0 < m \<longrightarrow> m = 1 \<and> calls_made t n (gw_war w) < limit) \<and>
    tasks (gw_war v) = tasks (gw_war w)"
proof (cases r)
  case (Inl x)
  with war_authorize_Inl [OF _ assms(2)] assms(1,4) show ?thesis by auto
next
  case (Inr u)
  with assms(1) have "war_authorize S B e A now sc body w = (Inr u, v)" by simp
  from authorize_charges [OF this assms(2)] obtain k where k: "ticket_of S A now sc (gw_war w) = Inr k" "gw_war v = reserve_call k (gw_war w)"
    by auto
  note tk = ticket_of_Inr [OF k(1)]
  then have "tk_task k \<in> set (tasks (gw_war w))" by (simp add: approved_task_def)
  with assms(3) have lim: "wt_id (tk_task k) = t \<Longrightarrow> int_or 0 (wt_call_limit (tk_task k)) \<le> limit" by simp
  show ?thesis
  proof (cases "revision_key (tk_task k) = (t, n)")
    case True
    with tk lim have "calls_made t n (gw_war w) < limit" by (auto simp: revision_key_def)
    then show ?thesis using True Inr k assms(4) by (simp add: reserve_call_made)
  next
    case False
    then show ?thesis using Inr k assms(4) by (simp add: reserve_call_made)
  qed
qed

text \<open>C18: The call limit holds. In any history of authorizations, with any clocks, scopes and bodies, and of other writers that never
  lower the call counter of a task revision nor raise its limit, at most as many authorizations are given for that
  revision as the limit leaves; each is counted in the table, and one that fails counts nothing.\<close>

theorem call_limit_never_exceeded:
  assumes "list_all (keeps_budget t n limit) es" and "\<forall>k \<in> set (tasks (gw_war w)). wt_id k = t \<longrightarrow> int_or 0 (wt_call_limit k) \<le> limit"
    and "grants_given S B es w = (given, z)"
  shows "int (count_list given (t, n)) \<le> max 0 (limit - calls_made t n (gw_war w)) \<and>
    calls_made t n (gw_war w) + int (count_list given (t, n)) \<le> calls_made t n (gw_war z)"
  using assms
proof (induction es arbitrary: w given)
  case (Cons ev es)
  show ?case
  proof (cases ev)
    case (Change f)
    have up: "calls_made t n (gw_war w) \<le> calls_made t n (gw_war (f w))" using Cons.prems(1) Change by simp
    have "\<forall>k \<in> set (tasks (gw_war (f w))). wt_id k = t \<longrightarrow> int_or 0 (wt_call_limit k) \<le> limit"
      using Cons.prems(1,2) Change by simp
    from Cons.IH [OF _ this] Cons.prems(1,3) Change have "int (count_list given (t, n)) \<le> max 0 (limit - calls_made t n (gw_war (f w))) \<and>
      calls_made t n (gw_war (f w)) + int (count_list given (t, n)) \<le> calls_made t n (gw_war z)" by simp
    with up show ?thesis by linarith
  next
    case (Authorization e A now sc body)
    obtain r v where r: "war_authorize S B e A now sc body w = (r, v)" by fastforce
    obtain rest where rest: "grants_given S B es v = (rest, z)"
      using Cons.prems(3) Authorization r by (auto split: prod.split_asm)
    have body: "gw_war (snd (body y v)) = gw_war v" for y v using Cons.prems(1) Authorization by (cases y) simp
    define own where "own = (case r of Inl x \<Rightarrow> [] | Inr u \<Rightarrow> (case ticket_of S A now sc (gw_war w) of Inl x \<Rightarrow> [] | Inr k \<Rightarrow> [revision_key (tk_task k)]))"
    have given: "given = own @ rest" using Cons.prems(3) Authorization r rest by (simp add: own_def)
    note step = budget_step [OF r body Cons.prems(2) refl, of n, folded own_def]
    have "\<forall>k \<in> set (tasks (gw_war v)). wt_id k = t \<longrightarrow> int_or 0 (wt_call_limit k) \<le> limit" using step Cons.prems(2) by simp
    from Cons.IH [OF _ this rest] Cons.prems(1) have ih: "int (count_list rest (t, n)) \<le> max 0 (limit - calls_made t n (gw_war v))"
      "calls_made t n (gw_war v) + int (count_list rest (t, n)) \<le> calls_made t n (gw_war z)" by simp_all
    with step show ?thesis unfolding given count_list_append by (cases "count_list own (t, n) = 0") auto
  qed
qed simp

section \<open>Under the engine\<close>

definition consume_via :: "std \<Rightarrow> broker \<Rightarrow> call_env \<Rightarrow> string option \<Rightarrow> auth_scope \<Rightarrow> string \<Rightarrow> (grant_world, unit) op" where
  "consume_via S B e token sc i = on_gw_vault (bnd (verify_and_consume S B e token sc i) (\<lambda>g. ret ()))"

lemma consume_via_war [simp]: "gw_war (snd (consume_via S B e token sc i w)) = gw_war w"
  by (simp add: consume_via_def on_gw_vault_def split: prod.split)

text \<open>What the engine does in the block: it compares the granted scope with its own and consumes the token.\<close>

definition engine_body ::
  "std \<Rightarrow> broker \<Rightarrow> call_env \<Rightarrow> auth_scope \<Rightarrow> string \<Rightarrow> auth_scope \<times> string option \<Rightarrow> (grant_world, unit) op" where
  "engine_body S B e sc i x = (case x of (gs, token) \<Rightarrow>
     if sc_agent gs \<noteq> sc_agent sc \<or> sc_action gs \<noteq> sc_action sc \<or> sc_contract gs \<noteq> sc_contract sc
     then (\<lambda>w. (Inl (auth_error ''BINDING_MISMATCH''), w)) else consume_via S B e token gs i)"

lemma engine_body_war: "gw_war (snd (engine_body S B e2 sc i y v)) = gw_war v"
  by (simp add: engine_body_def split: prod.split)

lemma authorize_run_war:
  assumes "authorizer_present D" and "dq_token q = None" and "with_grant D = war_authorize S B e A now" and "consume_grant D = consume_via S B e2"
  shows "authorize_run D q i sc = ask_world (war_authorize S B e A now sc (engine_body S B e2 sc i))"
proof -
  have "(\<lambda>(gs, token). if sc_agent gs \<noteq> sc_agent sc \<or> sc_action gs \<noteq> sc_action sc \<or> sc_contract gs \<noteq> sc_contract sc
      then (\<lambda>w. (Inl (auth_error ''BINDING_MISMATCH''), w)) else consume_grant D token gs i) = engine_body S B e2 sc i"
    unfolding assms(4) by (simp add: fun_eq_iff engine_body_def)
  then show ?thesis unfolding authorize_run_def assms(3) using assms(1,2) by simp
qed

lemma submitted_after_authorization:
  assumes "authorize_and_submit D q i key a r s = (Inr p, t)" and "r_status p = RUNNING" and "broker_present D"
    and "get_run i (runs s) = Some r" and "r_status r = QUEUED"
  shows "\<exists>s2 pl b w. authorize_run D q i (dispatch_scope D q i key a) s = (Inr (), s2) \<and> tp_submit D i pl (world s2) = (Inr b, w) \<and>
    sp_message pl = ad_message a \<and> r_binding p = Some b"
proof -
  obtain granted s2 where auth: "authorize_run D q i (dispatch_scope D q i key a) s = (granted, s2)" by fastforce
  have run: "get_run i (runs s2) = Some r" using assms(4) authorize_run_runs [OF auth] by simp
  show ?thesis
  proof (cases granted)
    case (Inr u)
    then have "submit_run D q i key a r s2 = (Inr p, t)"
      using assms(1,3) auth by (simp add: authorize_and_submit_def bnd_app attempt_app)
    from submit_run_RUNNING [OF this assms(2) run assms(5)] auth Inr show ?thesis by fastforce
  next
    case (Inl x)
    then obtain c where "move D i BLOCKED None None (''AUTH_'' @ c) s2 = (Inr p, t)"
      using assms(1,3) auth by (auto simp: authorize_and_submit_def bnd_app attempt_app split: option.split_asm simp del: append_Cons)
    from move_Inr [OF this] assms(2) show ?thesis by simp
  qed
qed

text \<open>C17: No approval, no run. When the engine, with the war room's authorizer in front of the broker, answers a new dispatch
  without a token with a RUNNING run, then its identifier is one of the war room's and belongs to a task that was
  running, before its deadline, under the latest decision, an unrevoked and unexpired approval by an active project
  manager for this very scope, document and set of agents; the agent is one of them; the message sent to the worker is
  the approved instruction (up to a collision of the digest); and the call was within the limit and is counted.\<close>

theorem war_run_needs_approval:
  assumes "broker_present D" and "authorizer_present D" and "with_grant D = war_authorize S B e A now"
    and "consume_grant D = consume_via S B e2" and "dispatch D q s = (Inr p, t)" and "r_status p = RUNNING" and "dq_token q = None"
    and "dq_run_id q = Some i" and "i \<noteq> []" and "get_run i (runs s) = None" and "d = gw_war (snd (clock D (world s)))"
  shows "\<exists>k a key so instruction pl b v w. approved_task S now (dq_agent q) d k a \<and> owns_war_run i \<and>
    run_source i key now d = Inr so \<and> so_task so = k \<and> authorized_instruction S A i so d = Inr instruction \<and>
    tp_submit D i pl v = (Inr b, w) \<and> r_binding p = Some b \<and> sha256 (stdlib D) (sp_message pl) = sha256 S instruction \<and>
    calls_made (wt_id k) (revision_of (wt_revision k)) d < int_or 0 (wt_call_limit k) \<and>
    calls_made (wt_id k) (revision_of (wt_revision k)) (gw_war v) = calls_made (wt_id k) (revision_of (wt_revision k)) d + 1"
proof -
  from dispatch_new [OF assms(5,8-10)] obtain a r s1 where new: "new_dispatch D q i s a r s1"
    and sub: "authorize_and_submit D q i (dispatch_key q i) a r s1 = (Inr p, t)" by blast
  let ?sc = "dispatch_scope D q i (dispatch_key q i) a"
  have s1: "get_run i (runs s1) = Some r" "r_status r = QUEUED" "gw_war (world s1) = d"
    using new assms(11) by (auto simp: new_dispatch_def create_record_def bnd_app on_world_app reg_def split: prod.split_asm)
  from submitted_after_authorization [OF sub assms(6,1) s1(1,2)] obtain s2 pl b w where
    auth: "authorize_run D q i ?sc s1 = (Inr (), s2)" and go: "tp_submit D i pl (world s2) = (Inr b, w)" "sp_message pl = ad_message a"
      "r_binding p = Some b" by blast
  have "war_authorize S B e A now ?sc (engine_body S B e2 ?sc i) (world s1) = (Inr (), world s2)"
    using auth unfolding authorize_run_war [OF assms(2,7,3,4)] ask_world_app by (auto simp: prod_eq_iff)
  from authorize_charges [OF this engine_body_war] obtain k where k: "ticket_of S A now ?sc d = Inr k" "gw_war (world s2) = reserve_call k d"
    unfolding s1(3) by auto
  have sc: "sc_agent ?sc = dq_agent q" "sc_contract ?sc = PDict env \<Longrightarrow> map_of env ''core_run_id'' = Some (PStr i) \<and>
      map_of env ''instruction_sha256'' = Some (PStr (sha256 (stdlib D) (ad_message a)))" for env
    by (auto simp: dispatch_scope_def execution_auth_scope_def)
  note tk = ticket_of_Inr [OF k(1), unfolded sc(1)]
  then obtain env j so instruction key where e: "sc_contract ?sc = PDict env" "map_of env ''core_run_id'' = Some (PStr j)" "owns_war_run j"
    "run_source j key now d = Inr so" "so_task so = tk_task k" "authorized_instruction S A j so d = Inr instruction"
    "map_of env ''instruction_sha256'' = Some (PStr (sha256 S instruction))" by blast
  with sc(2) [OF e(1)] have ji: "j = i" and sha: "sha256 (stdlib D) (sp_message pl) = sha256 S instruction" using go(2) by simp_all
  have "calls_made (wt_id (tk_task k)) (revision_of (wt_revision (tk_task k))) (gw_war (world s2)) =
      calls_made (wt_id (tk_task k)) (revision_of (wt_revision (tk_task k))) d + 1"
    unfolding k(2) by (simp add: reserve_call_made revision_key_def)
  moreover have "approved_task S now (dq_agent q) d (tk_task k) (tk_approval k)"
    "calls_made (wt_id (tk_task k)) (revision_of (wt_revision (tk_task k))) d < int_or 0 (wt_call_limit (tk_task k))"
    using tk by (simp_all add: revision_key_def)
  ultimately show ?thesis using e(3-6) go sha unfolding ji by blast
qed

end
