(* ===== verification/WarExample.thy ===== *)
theory WarExample
  imports WarGrants
begin

text \<open>
  A war room with one approved task, its unit dispatched through the engine under the authorizer: the grant is issued,
  consumed and counted. The statements of \<^theory_text>\<open>WarGrants\<close> are applied to it.
\<close>

section \<open>A digest and the broker\<close>

text \<open>An injective digest with values in ASCII: the code points in base sixteen.\<close>

definition hex_std :: std where
  "hex_std = plain_std\<lparr>sha256 := (\<lambda>s. concat (map (\<lambda>c. [char_of (code c div 16), char_of (code c mod 16)]) s))\<rparr>"

lemma high_digit: "of_char c div 16 < (16 :: nat)"
  by (rule less_mult_imp_div_less) simp

lemma hex_ascii: "list_all (\<lambda>c. code c < 128) (sha256 hex_std s)"
proof (induction s)
  case (Cons c s)
  have "of_char c div 16 < (128 :: nat)" "of_char c mod 16 < (16 :: nat)" using high_digit [of c] by simp_all
  then have "of_char c div 16 mod 256 < (128 :: nat)" "of_char c mod 16 < (128 :: nat)" by simp_all
  with Cons.IH show ?case by (simp add: hex_std_def plain_std_def code_def)
qed (simp add: hex_std_def)

lemma hex_inj [simp]: "sha256 hex_std s = sha256 hex_std t \<longleftrightarrow> s = t"
proof (induction s arbitrary: t)
  case Nil
  show ?case by (cases t) (simp_all add: hex_std_def)
next
  case (Cons c s)
  show ?case
  proof (cases t)
    case Nil
    then show ?thesis by (simp add: hex_std_def)
  next
    case (Cons b u)
    have "c = b" if "char_of (code c div 16) = (char_of (code b div 16) :: char)" "char_of (code c mod 16) = (char_of (code b mod 16) :: char)"
    proof -
      have "of_char c div 16 < (256 :: nat)" "of_char b div 16 < (256 :: nat)" using high_digit [of c] high_digit [of b] by simp_all
      then have "code c div 16 = code b div 16" "code c mod 16 = code b mod 16"
        using that [THEN arg_cong [where f = "of_char :: char \<Rightarrow> nat"]] by (simp_all add: code_def)
      then have "code c = code b" by (metis mult_div_mod_eq)
      then show ?thesis by (simp add: code_def)
    qed
    then show ?thesis using Cons.IH [of u] Cons by (auto simp: hex_std_def)
  qed
qed

text \<open>A digest over any contract text is in ASCII.\<close>

lemma digest_ascii:
  assumes "canonical_task_digest hex_std sc = Inr d" shows "list_all (\<lambda>c. code c < 128) d"
proof -
  obtain x where "d = ''v1:'' @ sha256 hex_std x"
    using assms unfolding canonical_task_digest_def need_def by (auto simp: rbind_Inr_iff simp del: append_Cons split: if_split_asm)
  then show ?thesis using hex_ascii [of x] by (simp add: code_def)
qed

text \<open>Issuing into an empty store and consuming the grant at once.\<close>

definition grant_env :: "string \<Rightarrow> call_env" where
  "grant_env ev = \<lparr>locks = (\<lambda>n. Begun), now_ms = 2000, audit_ms = 2000, fresh_event = ev, fresh_token = ''tok'', fresh_grant = ''g''\<rparr>"

definition first_row :: "auth_scope \<Rightarrow> string \<Rightarrow> rat \<Rightarrow> string \<Rightarrow> grant_row" where
  "first_row sc d ttl by = \<lparr>g_id = ''g'', g_token_id = sha256 hex_std ''tok'', g_token_mac = ''peppertok'', g_key_id = ''k1'', g_digest = d,
     g_agent = sc_agent sc, g_action = sc_action sc, g_workspace = sc_workspace sc, g_project = sc_project sc, g_issued = 2000,
     g_expires = 2000 + \<lfloor>ttl * 1000\<rfloor>, g_revoked = None, g_consumed = None, g_consumed_run = None, g_created_by = by\<rparr>"

lemma grant_env_sel [simp]:
  "locks (grant_env ev) n = Begun" "now_ms (grant_env ev) = 2000" "audit_ms (grant_env ev) = 2000" "fresh_event (grant_env ev) = ev"
  "fresh_token (grant_env ev) = ''tok''" "fresh_grant (grant_env ev) = ''g''"
  by (simp_all add: grant_env_def)

lemma sample_broker_sel [simp]: "secret_get sample_broker k = Inr ''pepper''" "own_key sample_broker = ''k1''" "busy_retries sample_broker = 1"
  by (simp_all add: sample_broker_def)

lemma tok_mac: "token_mac hex_std sample_broker ''tok'' ''k1'' = Inr ''peppertok''"
  by (simp add: token_mac_def hex_std_def plain_std_def)

lemma write_fresh:
  assumes "list_all (\<lambda>x. List.member detail_keys (fst x)) details" and "r \<in> set (grants st)" and "g_id r = ''g''"
    and "\<forall>x \<in> set (audit st). b_event_id (a_body x) \<noteq> ev \<and> a_hash x = sha256 hex_std (body_json hex_std (a_body x))"
  shows "\<exists>x. write_audit hex_std sample_broker (grant_env ev) (Some ''g'') et oc er rid sc d details st = (Inr (), st\<lparr>audit := audit st @ [x]\<rparr>) \<and>
    b_event_id (a_body x) = ev \<and> a_hash x = sha256 hex_std (body_json hex_std (a_body x))"
proof -
  have "\<not> list_ex (\<lambda>x. b_event_id (a_body x) = ev \<or> a_hash x = sha256 hex_std (body_json hex_std b)) (audit st)" if "b_event_id b = ev" for b
    using assms(4) that by (auto simp: list_ex_iff dest: body_json_inj)
  moreover have "list_ex (\<lambda>r. g_id r = ''g'') (grants st)" using assms(2,3) by (auto simp: list_ex_iff)
  ultimately show ?thesis using assms(1)
    by (auto simp: write_audit_def insert_audit_def Let_def)
qed

text \<open>The two steps, with what the broker and the scope must satisfy.\<close>

lemma first_issue:
  assumes "canonical_task_digest hex_std sc = Inr d" and "identity_digest hex_std who = Inr by" and "0 < ttl" and "0 < \<lfloor>ttl * 1000\<rfloor>"
    and "bound (sc_agent sc) = Inr (sc_agent sc)" and "bound (sc_action sc) = Inr (sc_action sc)"
    and "bound (sc_workspace sc) = Inr (sc_workspace sc)" and "bound (sc_project sc) = Inr (sc_project sc)"
  shows "\<exists>g x. issue hex_std sample_broker (grant_env ev) sc ttl who empty_store =
      (Inr g, empty_store\<lparr>grants := [first_row sc d ttl by], audit := [x]\<rparr>) \<and>
    ig_token g = ''tok'' \<and> b_event_id (a_body x) = ev \<and> a_hash x = sha256 hex_std (body_json hex_std (a_body x))"
proof -
  let ?st = "empty_store\<lparr>grants := [first_row sc d ttl by]\<rparr>"
  have ins: "insert_grant (first_row sc d ttl by) empty_store = (Inr (), ?st)"
    using assms(4) by (simp add: insert_grant_def empty_store_def first_row_def)
  from write_fresh [of "[(''key_id'', ''k1'')]" "first_row sc d ttl by" ?st ev "''ISSUED''" "''ALLOW''" None None sc d]
  obtain x where x: "write_audit hex_std sample_broker (grant_env ev) (Some ''g'') ''ISSUED'' ''ALLOW'' None None sc d [(''key_id'', ''k1'')] ?st =
      (Inr (), ?st\<lparr>audit := [x]\<rparr>)" "b_event_id (a_body x) = ev" "a_hash x = sha256 hex_std (body_json hex_std (a_body x))"
    by (auto simp: detail_keys_def first_row_def empty_store_def)
  have "\<exists>g. issue hex_std sample_broker (grant_env ev) sc ttl who empty_store = (Inr g, ?st\<lparr>audit := [x]\<rparr>) \<and> ig_token g = ''tok''"
    using assms(3) [unfolded not_le [symmetric]] unfolding issue_def Let_def
    by (auto simp: bnd_app tok_mac assms transact_def ins [unfolded first_row_def] x(1) [unfolded first_row_def] first_row_def)
  with x(2,3) show ?thesis by auto
qed

lemma then_consume:
  assumes "canonical_task_digest hex_std sc = Inr d" and "0 < \<lfloor>ttl * 1000\<rfloor>" and "bound i = Inr i" and "st = empty_store\<lparr>grants := [first_row sc d ttl by], audit := [x]\<rparr>"
    and "b_event_id (a_body x) \<noteq> ev" and "a_hash x = sha256 hex_std (body_json hex_std (a_body x))"
    and "list_all (\<lambda>c. code c < 128) (sc_agent sc @ sc_action sc @ sc_workspace sc @ sc_project sc)"
  shows "\<exists>g st'. verify_and_consume hex_std sample_broker (grant_env ev) (Some ''tok'') sc i st = (Inr g, st')"
proof -
  let ?r = "first_row sc d ttl by"
  have code: "consume_code ?r sc d i 2000 = Inr None"
    using assms(2,7) digest_ascii [OF assms(1)] by (simp add: consume_code_def deny_reason_def compare_digest_def first_row_def)
  let ?s = "st\<lparr>grants := [?r\<lparr>g_consumed := Some 2000, g_consumed_run := Some i\<rparr>]\<rparr>"
  from write_fresh [of "[]" "?r\<lparr>g_consumed := Some 2000, g_consumed_run := Some i\<rparr>" ?s ev "''CONSUME''" "''ALLOW''" None "Some i" sc d]
  obtain y where y: "write_audit hex_std sample_broker (grant_env ev) (Some ''g'') ''CONSUME'' ''ALLOW'' None (Some i) sc d [] ?s =
      (Inr (), ?s\<lparr>audit := [x, y]\<rparr>)"
    using assms(4-6) by (auto simp: first_row_def)
  have row: "find_grant (\<lambda>r. g_token_id r = sha256 hex_std ''tok'') st = Some ?r" using assms(4) by (simp add: find_grant_def first_row_def)
  have upd: "update_grants (consumable ''g'' 2000) (\<lambda>q. q\<lparr>g_consumed := Some 2000, g_consumed_run := Some i\<rparr>) st = (Inr 1, ?s)"
    using assms(2,4) by (simp add: update_grants_def consumable_def first_row_def)
  have sel: "g_key_id ?r = ''k1''" "g_token_mac ?r = ''peppertok''" "g_id ?r = ''g''" by (simp_all add: first_row_def)
  have "\<exists>g. consume_row hex_std sample_broker (grant_env ev) ?r sc d i st = (Inr (Inr g), ?s\<lparr>audit := [x, y]\<rparr>)"
    by (simp add: consume_row_def bnd_app assms(3) upd sel y)
  then obtain g where "consume_tx hex_std sample_broker (grant_env ev) ''tok'' sc d i st = (Inr (Inr g), ?s\<lparr>audit := [x, y]\<rparr>)"
    by (auto simp: consume_tx_def bnd_app row tok_mac sel code)
  then show ?thesis by (simp add: verify_and_consume_def bnd_app assms(1) transact_def)
qed

section \<open>The tables\<close>

definition unit_task :: war_task where
  "unit_task = \<lparr>wt_id = ''t'', wt_project = ''p'', wt_message = Some ''m'', wt_assignee = None, wt_scope = ''s'', wt_status = ''running'',
     wt_manyfast = ''1'', wt_document = Some ''1'', wt_call_limit = Some 1, wt_turn_limit = Some 1, wt_mode = ''FAST_GATEWAY'',
     wt_deadline = Some 100, wt_revision = 1, wt_workflow = None, wt_finalized = None, wt_finalize_count = 0\<rparr>"

definition unit_approval :: war_approval where
  "unit_approval = \<lparr>ap_task = ''t'', ap_approver = ''boss'', ap_decision = ''approved'', ap_scope_hash = sha256 hex_std ''s'', ap_document = ''1'',
     ap_assignee = None, ap_targets = targets_hash hex_std [''qa''], ap_expires = Some 100, ap_revoked = None, ap_created = 1\<rparr>"

definition approved_db :: war_db where
  "approved_db = \<lparr>projects = [\<lparr>wp_id = ''p'', wp_status = ''active''\<rparr>],
     project_control = [\<lparr>wc_project = ''p'', wc_archived = None, wc_stop_state = ''running''\<rparr>],
     participants = [\<lparr>pt_project = ''p'', pt_principal = ''qa'', pt_role = ''qa'', pt_read = True, pt_approve = False, pt_active = True\<rparr>,
       \<lparr>pt_project = ''p'', pt_principal = ''boss'', pt_role = ''project_manager'', pt_read = True, pt_approve = True, pt_active = True\<rparr>],
     messages = [\<lparr>wm_id = ''m'', wm_project = ''p'', wm_body = ''go''\<rparr>], tasks = [unit_task], task_agents = [(''t'', ''qa'')], deliveries = [],
     approvals = [unit_approval], task_calls = [], packets = [],
     units = [\<lparr>eu_id = ''a'', eu_project = ''p'', eu_task = ''t'', eu_correlation = ''c'', eu_agent = ''qa'', eu_role = ''implementation'', eu_deps = [],
       eu_run = None, eu_message = PStr ''go'', eu_timeout = PFloat 5, eu_contract = PNone, eu_claimed = Some 1, eu_created = 0\<rparr>]\<rparr>"

definition open_authorizer :: war_authorizer where
  "open_authorizer = \<lparr>az_file = True, az_open = None, az_commit = None, az_loads = (\<lambda>s. None)\<rparr>"

definition guarded_deps :: "grant_world deps" where
  "guarded_deps = \<lparr>stdlib = hex_std, agent_list = sample_agents, clock = (\<lambda>w. (2, w)), monotonic = (\<lambda>w. (2, w)),
     new_uuid = (\<lambda>w. (''0123456789'', w)), tp_submit = (\<lambda>i p w. (Inr (demo_binding i), w)),
     tp_wait = (\<lambda>i t w. (Inr (plain_outcome TIMEOUT ''OPENCLAW_TIMEOUT''), w)), tp_cancel = (\<lambda>i w. (Inr (demo_binding i), w)),
     others = (\<lambda>s. s), stop_guard = (\<lambda>w i. False), broker_present = True, auth_required = True, authorizer_present = True,
     owns_run = owns_war_run, with_grant = war_authorize hex_std sample_broker (grant_env ''e1'') open_authorizer 2,
     consume_grant = consume_via hex_std sample_broker (grant_env ''e2'')\<rparr>"

definition guarded_start :: "grant_world core" where
  "guarded_start = \<lparr>runs = [], timers = (\<lambda>i. None), spotter = new_detector, world = \<lparr>gw_war = approved_db, gw_vault = empty_store\<rparr>\<rparr>"

definition guarded_request :: dispatch_request where
  "guarded_request = \<lparr>dq_agent = ''qa'', dq_message = PStr ''go'', dq_timeout = PInt 5, dq_run_id = Some ''core-exec-a'',
     dq_key = Some ''war-exec-a'', dq_goal = PNone, dq_session_key = None, dq_parent = None, dq_resets = 0, dq_managed = False, dq_token = None,
     dq_action = ''dispatch'', dq_workspace = ''command-center'', dq_project = ''fast-gateway'', dq_task_class = ''STANDARD'', dq_approved = PNone\<rparr>"

lemma guarded_sel [simp]:
  "stdlib guarded_deps = hex_std" "agent_list guarded_deps = sample_agents" "clock guarded_deps w = (2, w)"
  "tp_submit guarded_deps i pl w = (Inr (demo_binding i), w)" "broker_present guarded_deps" "auth_required guarded_deps"
  "authorizer_present guarded_deps" "owns_run guarded_deps = owns_war_run"
  "with_grant guarded_deps = war_authorize hex_std sample_broker (grant_env ''e1'') open_authorizer 2"
  "consume_grant guarded_deps = consume_via hex_std sample_broker (grant_env ''e2'')"
  by (simp_all add: guarded_deps_def)

section \<open>The ticket\<close>

lemma legacy_texts:
  "normalized_text (PStr ''LEGACY_VALIDATED_REQUEST'') f = Inr ''LEGACY_VALIDATED_REQUEST''"
  unfolding normalized_text_def by code_simp

lemma legacy_texts2:
  "normalized_text (PStr ''VALIDATED_RESULT'') f = Inr ''VALIDATED_RESULT''"
  unfolding normalized_text_def by code_simp

lemma legacy_codes:
  "normalized_code (PStr ''REQUESTED_SCOPE'') f = Inr ''REQUESTED_SCOPE''"
  "normalized_code (PStr ''UNREQUESTED_SCOPE'') f = Inr ''UNREQUESTED_SCOPE''"
  "normalized_code (PStr ''RESULT_VALIDATED'') f = Inr ''RESULT_VALIDATED''"
  unfolding normalized_code_def by code_simp+

lemma legacy_normal: "\<exists>g. normalize_goal_contract S PNone = Inr g"
    by (auto simp: normalize_goal_contract_def legacy_contract_def contract_fields_def dget_def legacy_texts legacy_texts2 normalized_code_list_def str_list_def legacy_codes)

text \<open>The scope the engine presents for the unit's run.\<close>

definition unit_scope :: "goal_contract \<Rightarrow> auth_scope" where
  "unit_scope g = execution_auth_scope hex_std ''qa'' ''go'' ''core-exec-a'' ''war-exec-a'' (contract_dict g) ''dispatch'' ''command-center'' ''fast-gateway''"

lemma unit_ticket:
  assumes "normalize_goal_contract hex_std PNone = Inr g"
  shows "ticket_of hex_std open_authorizer 2 (unit_scope g) approved_db =
    Inr \<lparr>tk_now = 2, tk_task = unit_task, tk_scope = (unit_scope g)\<lparr>sc_workspace := ''war-room:t'', sc_project := ''p''\<rparr>, tk_approval = unit_approval\<rparr>"
proof -
  have env: "check_envelope hex_std open_authorizer (unit_scope g) = Inr (PStr ''core-exec-a'', PStr ''war-exec-a'',
      [(''authorization_version'', PInt 2), (''goal_contract'', PDict (contract_dict g)),
        (''instruction_sha256'', PStr (sha256 hex_std ''go'')), (''core_run_id'', PStr ''core-exec-a''), (''idempotency_key'', PStr ''war-exec-a'')])"
    by (simp add: check_envelope_def unit_scope_def execution_auth_scope_def open_authorizer_def dget_def assms envelope_field_def
        same_dict_def list_all_iff)
  have "casefold ''qa'' = ''qa''" "lower ''qa'' = ''qa''" by code_simp+
  moreover have "sc_agent (unit_scope g) = ''qa''" by (simp add: unit_scope_def execution_auth_scope_def)
  ultimately show ?thesis unfolding ticket_of_def env
    by (simp add: admit_run_def run_source_def unit_source_def approved_db_def unit_task_def unit_approval_def check_binding_def
        authorized_instruction_def check_project_def targets_of_def check_participant_def check_approval_def latest_approval_def
        check_approver_def approver_role check_calls_def calls_of_def envelope_field_def int_or_def Let_def revision_of_def role_permissions_def)
qed

abbreviation task_scope :: "goal_contract \<Rightarrow> auth_scope" where
  "task_scope g \<equiv> (unit_scope g)\<lparr>sc_workspace := ''war-room:t'', sc_project := ''p''\<rparr>"

lemma scope_sel [simp]:
  "sc_agent (unit_scope g) = ''qa''" "sc_action (unit_scope g) = ''dispatch''" "sc_contract (task_scope g) = sc_contract (unit_scope g)"
  by (simp_all add: unit_scope_def execution_auth_scope_def)

lemma rmap_texts: "rmap canonical_value (map PStr xs) = Inr (map PStr xs)"
  by (induction xs) simp_all

lemma scope_bounds: "bound ''war-room:t'' = Inr ''war-room:t''" "bound ''core-exec-a'' = Inr ''core-exec-a''"
  by (simp_all add: bound_def blank_def strip_def lstrip_def char_class_defs)

lemma scope_digest: "\<exists>d. canonical_task_digest hex_std (task_scope g) = Inr d"
proof -
  have "\<exists>v. canonical_value (PDict (contract_dict g)) = Inr v"
    by (simp add: contract_dict_def str_list_def rmap_texts forbidden_key_def broker_sensitive_def lower_def replace_char_def to_lower_def char_class_defs)
  then obtain v where v: "canonical_value (PDict (contract_dict g)) = Inr v" ..
  then have "\<exists>v. canonical_value (sc_contract (unit_scope g)) = Inr v"
    by (simp add: unit_scope_def execution_auth_scope_def forbidden_key_def broker_sensitive_def lower_def replace_char_def to_lower_def
        char_class_defs del: canonical_value.simps(1) add: canonical_value.simps(1) [of "_ # _"])
  then obtain v where v: "canonical_value (sc_contract (unit_scope g)) = Inr v" ..
  then show ?thesis
    by (simp add: canonical_task_digest_def v scope_bounds) (simp add: unit_scope_def execution_auth_scope_def)
qed

text \<open>The grant for that ticket, with any body that accepts it.\<close>

lemma unit_authorized:
  assumes "normalize_goal_contract hex_std PNone = Inr g" and "gw_war w = approved_db" and "gw_vault w = empty_store"
    and "\<And>d by x. canonical_task_digest hex_std (task_scope g) = Inr d \<Longrightarrow> b_event_id (a_body x) = ''e1'' \<Longrightarrow>
      a_hash x = sha256 hex_std (body_json hex_std (a_body x)) \<Longrightarrow>
      \<exists>v. body (task_scope g, Some ''tok'') (w\<lparr>gw_vault := empty_store\<lparr>grants := [first_row (task_scope g) d 30 by], audit := [x]\<rparr>\<rparr>) = (Inr (), v)"
  shows "\<exists>v. war_authorize hex_std sample_broker (grant_env ''e1'') open_authorizer 2 (unit_scope g) body w = (Inr (), v)"
proof -
  note k = unit_ticket [OF assms(1)]
  obtain run key env where env: "check_envelope hex_std open_authorizer (unit_scope g) = Inr (run, key, env)"
    "admit_run hex_std open_authorizer 2 (unit_scope g) run key env approved_db =
      Inr \<lparr>tk_now = 2, tk_task = unit_task, tk_scope = task_scope g, tk_approval = unit_approval\<rparr>"
    using k by (auto simp: ticket_of_def rbind_Inr_iff)
  obtain d where d: "canonical_task_digest hex_std (task_scope g) = Inr d" using scope_digest by blast
  have who: "identity_digest hex_std ''boss'' = Inr (''id-v1:'' @ sha256 hex_std ''boss'')"
    by (simp add: identity_digest_def identity_char_def char_class_defs)
  have "0 < \<lfloor>30 * 1000 :: rat\<rfloor>" by simp
  from first_issue [OF d who _ this, of "''e1''"] obtain i x where
    i: "issue hex_std sample_broker (grant_env ''e1'') (task_scope g) 30 ''boss'' empty_store =
      (Inr i, empty_store\<lparr>grants := [first_row (task_scope g) d 30 (''id-v1:'' @ sha256 hex_std ''boss'')], audit := [x]\<rparr>)"
    "ig_token i = ''tok''" "b_event_id (a_body x) = ''e1''" "a_hash x = sha256 hex_std (body_json hex_std (a_body x))"
    using scope_bounds by auto
  from assms(4) [OF d i(3,4)] obtain v where
    "body (task_scope g, Some ''tok'') (w\<lparr>gw_vault := empty_store\<lparr>grants := [first_row (task_scope g) d 30 (''id-v1:'' @ sha256 hex_std ''boss'')],
      audit := [x]\<rparr>\<rparr>) = (Inr (), v)" by blast
  moreover have "az_open open_authorizer = None" "az_commit open_authorizer = None" "ap_approver unit_approval = ''boss''"
    "grant_seconds \<lparr>tk_now = 2, tk_task = unit_task, tk_scope = task_scope g, tk_approval = unit_approval\<rparr> = 30"
    by (simp_all add: open_authorizer_def unit_approval_def unit_task_def grant_seconds_def int_or_def)
  ultimately show ?thesis
    by (simp add: war_authorize_app env assms(2,3) granted_block_def i(1,2))
qed

lemma unit_granted:
  assumes "normalize_goal_contract hex_std PNone = Inr g" and "gw_war w = approved_db" and "gw_vault w = empty_store"
  shows "\<exists>v. war_authorize hex_std sample_broker (grant_env ''e1'') open_authorizer 2 (unit_scope g)
    (engine_body hex_std sample_broker (grant_env ''e2'') (unit_scope g) ''core-exec-a'') w = (Inr (), v)"
proof (rule unit_authorized [OF assms])
  fix d b and x :: audit_row
  assume d: "canonical_task_digest hex_std (task_scope g) = Inr d" and x: "b_event_id (a_body x) = ''e1''"
    "a_hash x = sha256 hex_std (body_json hex_std (a_body x))"
  let ?st = "empty_store\<lparr>grants := [first_row (task_scope g) d 30 b], audit := [x]\<rparr>"
  have "0 < \<lfloor>30 * 1000 :: rat\<rfloor>" by simp
  from then_consume [OF d this scope_bounds(2) refl _ x(2), of "''e2''" b] x(1)
  obtain c st where "verify_and_consume hex_std sample_broker (grant_env ''e2'') (Some ''tok'') (task_scope g) ''core-exec-a'' ?st = (Inr c, st)"
    by (auto simp: code_def)
  then show "\<exists>v. engine_body hex_std sample_broker (grant_env ''e2'') (unit_scope g) ''core-exec-a'' (task_scope g, Some ''tok'')
      (w\<lparr>gw_vault := ?st\<rparr>) = (Inr (), v)"
    by (simp add: engine_body_def consume_via_def on_gw_vault_def bnd_app)
qed

section \<open>The properties at this war room\<close>

lemma unit_admits:
  assumes "normalize_goal_contract hex_std PNone = Inr g"
  shows "\<exists>a checked. check_dispatch guarded_deps guarded_request = Inr checked \<and> admit guarded_deps guarded_request ''core-exec-a'' checked = Inr a \<and>
    dispatch_scope guarded_deps guarded_request ''core-exec-a'' (dispatch_key guarded_request ''core-exec-a'') a = unit_scope g"
proof -
  have "require_agent sample_agents ''qa'' = Inr (snd (hd sample_agents))" by (simp add: require_agent_def find_agent_def sample_agents_def)
  moreover have "\<not> blank ''go''" by (simp add: blank_def strip_def lstrip_def char_class_defs)
  ultimately show ?thesis
    by (simp add: check_dispatch_def guarded_request_def normalize_approved_paths_def admit_def assms dispatch_profile_def owns_war_run_def
        dispatch_scope_def unit_scope_def dispatch_key_def)
qed

lemma guarded_dispatch: "\<exists>p t. dispatch guarded_deps guarded_request guarded_start = (Inr p, t) \<and> r_status p = RUNNING"
proof -
  obtain g where g: "normalize_goal_contract hex_std PNone = Inr g" using legacy_normal by blast
  let ?i = "''core-exec-a''"
  obtain a checked where a: "check_dispatch guarded_deps guarded_request = Inr checked" "admit guarded_deps guarded_request ?i checked = Inr a"
    "dispatch_scope guarded_deps guarded_request ?i (dispatch_key guarded_request ?i) a = unit_scope g"
    using unit_admits [OF g] by blast
  have q: "dq_run_id guarded_request = Some ?i" "dq_token guarded_request = None" "dq_session_key guarded_request = None" "dq_managed guarded_request = False"
    by (simp_all add: guarded_request_def)
  have start: "runs guarded_start = []" "gw_war (world guarded_start) = approved_db" "gw_vault (world guarded_start) = empty_store"
    by (simp_all add: guarded_start_def)
  from dispatch_create [OF a(1,2) q(1), of guarded_start] obtain r s1 where r: "get_run ?i (runs s1) = Some r" "r_status r = QUEUED"
    "world s1 = world guarded_start" "dispatch guarded_deps guarded_request guarded_start =
      authorize_and_submit guarded_deps guarded_request ?i (dispatch_key guarded_request ?i) a r s1"
    by (auto simp: get_run_def get_by_idempotency_def start)
  obtain v where v: "war_authorize hex_std sample_broker (grant_env ''e1'') open_authorizer 2 (unit_scope g)
      (engine_body hex_std sample_broker (grant_env ''e2'') (unit_scope g) ?i) (world s1) = (Inr (), v)"
    using unit_granted [OF g, of "world s1"] start r(3) by auto
  have auth: "authorize_run guarded_deps guarded_request ?i (unit_scope g) s1 = (Inr (), s1\<lparr>world := v\<rparr>)"
    using authorize_run_war [of guarded_deps guarded_request hex_std sample_broker "grant_env ''e1''" open_authorizer 2 "grant_env ''e2''" ?i "unit_scope g"]
    by (simp add: q ask_world_app v)
  have "RUNNING \<in> set (successors (r_status r))" using r(2) by simp
  then have go: "move guarded_deps ?i RUNNING b None [] (s1\<lparr>world := x\<rparr>) =
      (Inr (moved_run RUNNING b None [] 2 r), s1\<lparr>world := x, runs := runs s1 @ [moved_run RUNNING b None [] 2 r]\<rparr>)" for b x
    using move_legal [of ?i "s1\<lparr>world := x\<rparr>" r RUNNING guarded_deps b None "[]"] r(1) by (simp add: Let_def)
  show ?thesis
    by (simp add: r(4) authorize_and_submit_def bnd_app attempt_app a(3) auth submit_run_def ask_world_app q go schedule_deadline_def Let_def moved_run_keeps)
qed

theorem war_run_needs_approval_witness:
  "\<exists>p t k a. dispatch guarded_deps guarded_request guarded_start = (Inr p, t) \<and> r_status p = RUNNING \<and>
     approved_task hex_std 2 ''qa'' approved_db k a \<and> r_binding p = Some (demo_binding ''core-exec-a'')"
proof -
  obtain p t where d: "dispatch guarded_deps guarded_request guarded_start = (Inr p, t)" "r_status p = RUNNING" using guarded_dispatch by blast
  have "approved_db = gw_war (snd (clock guarded_deps (world guarded_start)))" by (simp add: guarded_start_def)
  from war_run_needs_approval [OF _ _ _ _ d(1,2) _ _ _ _ this, of hex_std sample_broker "grant_env ''e1''" open_authorizer 2 "grant_env ''e2''" "''core-exec-a''"]
  obtain k a pl b v w where "approved_task hex_std 2 ''qa'' approved_db k a" "tp_submit guarded_deps ''core-exec-a'' pl v = (Inr b, w)" "r_binding p = Some b"
    by (auto simp: guarded_request_def guarded_start_def get_run_def)
  with d show ?thesis by auto
qed

theorem call_limit_never_exceeded_witness:
  "\<exists>g given z. grants_given hex_std sample_broker (replicate 3 (Authorization (grant_env ''e1'') open_authorizer 2 (unit_scope g) (\<lambda>x. ret ())))
     \<lparr>gw_war = approved_db, gw_vault = empty_store\<rparr> = (given, z) \<and> count_list given (''t'', 1) = 1"
proof -
  obtain g where g: "normalize_goal_contract hex_std PNone = Inr g" using legacy_normal by blast
  let ?w = "\<lparr>gw_war = approved_db, gw_vault = empty_store\<rparr>"
  let ?e = "Authorization (grant_env ''e1'') open_authorizer 2 (unit_scope g) (\<lambda>x. ret ())"
  obtain given z where r: "grants_given hex_std sample_broker (replicate 3 ?e) ?w = (given, z)" by fastforce
  obtain v where "war_authorize hex_std sample_broker (grant_env ''e1'') open_authorizer 2 (unit_scope g) (\<lambda>x. ret ()) ?w = (Inr (), v)"
    using unit_authorized [OF g, of ?w "\<lambda>x. ret ()"] by auto
  with r have "(''t'', 1) \<in> set given"
    by (auto simp: numeral_3_eq_3 unit_ticket [OF g] revision_key_def unit_task_def revision_of_def split: prod.split_asm)
  moreover have "int (count_list given (''t'', 1)) \<le> max 0 (1 - calls_made ''t'' 1 (gw_war ?w))"
    using call_limit_never_exceeded [OF _ _ r, of "''t''" 1 1] by (simp add: numeral_3_eq_3 approved_db_def unit_task_def int_or_def)
  moreover have "calls_made ''t'' 1 approved_db = 0" by (simp add: calls_made_def calls_of_def approved_db_def)
  ultimately have "count_list given (''t'', 1) = 1" by (simp add: count_list_0_iff) (metis One_nat_def count_list_0_iff le_antisym less_one linorder_not_le)
  with r show ?thesis by blast
qed

end
