(* ===== verification/JevTrace.thy ===== *)
theory JevTrace
  imports RunRegistry
begin

text \<open>
  \<open>_read_session_trace\<close> of \<^verbatim>\<open>jev_recovery_shadow.py\<close>: the tool calls and results of a session, read off its latest
  transcript events, and the counts the watchdog judges by. The rows of the query (newest first), the time in
  milliseconds and \<open>json.loads\<close> are arguments.
\<close>

section \<open>Reading values\<close>

definition round1 :: "rat \<Rightarrow> rat" where
  "round1 x = of_int (round_even (x * 10)) / 10"

definition trace_hash :: "std \<Rightarrow> pyval \<Rightarrow> string" where
  "trace_hash S v = sha256 S (jdump_wide (float_repr S) False v)"

definition text_part :: "pyval \<Rightarrow> pydict option" where
  "text_part v = (case as_dict v of None \<Rightarrow> None | Some d \<Rightarrow> if dget d ''type'' = PStr ''text'' then Some d else None)"

definition text_parts :: "std \<Rightarrow> pyval list \<Rightarrow> string list" where
  "text_parts S vs = List.map_filter (\<lambda>v. map_option (\<lambda>d. str_of S (dget_or d ''text'' (PStr []))) (text_part v)) vs"

text \<open>\<open>_tool_result_text\<close> and \<open>_message_text\<close>.\<close>

definition tool_result_text :: "std \<Rightarrow> pydict \<Rightarrow> string" where
  "tool_result_text S m =
     (case dget m ''content'' of PStr s \<Rightarrow> s | PList vs \<Rightarrow> join [CHR 0x0A] (text_parts S vs) | v \<Rightarrow> [])"

definition message_text :: "std \<Rightarrow> pydict \<Rightarrow> string" where
  "message_text S m =
     (case dget m ''content'' of PStr s \<Rightarrow> strip s | PList vs \<Rightarrow> strip (join '' '' (map strip (text_parts S vs))) | v \<Rightarrow> [])"

section \<open>The events\<close>

record tool_call =
  tc_name :: string
  tc_sig :: string
  tc_args :: pydict

record tool_result =
  tr_name :: string
  tr_args :: pydict
  tr_hash :: string
  tr_error :: bool
  tr_status :: pyval
  tr_exit :: pyval
  tr_time :: pyval

record trace =
  tx_calls :: "tool_call list"
  tx_results :: "tool_result list"
  tx_turns :: int
  tx_tokens :: "int option"
  tx_token_sum :: int
  tx_recent :: "pyval list"
  tx_by_id :: "string \<rightharpoonup> pydict"
  tx_last :: "int option"
  tx_first :: "int option"

definition no_trace :: trace where
  "no_trace = \<lparr>tx_calls = [], tx_results = [], tx_turns = 0, tx_tokens = None, tx_token_sum = 0, tx_recent = [], tx_by_id = Map.empty,
     tx_last = None, tx_first = None\<rparr>"

definition signature_args :: "pydict \<Rightarrow> pydict" where
  "signature_args d = filter (\<lambda>(k, v). \<not> List.member [''title'', ''yieldMs'', ''timeout'', ''timeoutSeconds''] k) d"

definition stamp_last :: "pyval \<Rightarrow> trace \<Rightarrow> trace" where
  "stamp_last time x = (case real_of time of None \<Rightarrow> x | Some t \<Rightarrow> x\<lparr>tx_last := Some (truncated t)\<rparr>)"

definition see_call :: "std \<Rightarrow> pyval \<Rightarrow> pyval \<Rightarrow> trace \<Rightarrow> trace" where
  "see_call S time part x =
     (case as_dict part of
        None \<Rightarrow> x
      | Some d \<Rightarrow>
          if dget d ''type'' \<noteq> PStr ''toolCall'' then x else
          (let name = named_or S ''unknown'' (dget d ''name''); cid = text_or S (dget d ''id''); args = dict_or_empty (dget d ''arguments'');
               sig = trace_hash S (PDict [(''name'', PStr name), (''arguments'', PDict (signature_args args))])
           in stamp_last time (x\<lparr>tx_calls := tx_calls x @ [\<lparr>tc_name = name, tc_sig = sig, tc_args = args\<rparr>],
                tx_by_id := (if cid = [] then tx_by_id x else (tx_by_id x)(cid \<mapsto> args)),
                tx_recent := tx_recent x @ [PDict [(''kind'', PStr ''tool_call''), (''name'', PStr name), (''signature'', PStr (take 12 sig))]]\<rparr>)))"

definition see_assistant :: "std \<Rightarrow> pydict \<Rightarrow> pyval \<Rightarrow> trace \<Rightarrow> trace" where
  "see_assistant S m time x =
     (let x1 = x\<lparr>tx_turns := tx_turns x + 1\<rparr>;
          x2 = (case real_of (dget (dict_or_empty (dget m ''usage'')) ''totalTokens'') of
                  None \<Rightarrow> x1
                | Some n \<Rightarrow> x1\<lparr>tx_tokens := Some (truncated n), tx_token_sum := tx_token_sum x1 + truncated n\<rparr>)
      in case as_list (dget m ''content'') of None \<Rightarrow> x2 | Some parts \<Rightarrow> fold (see_call S time) parts x2)"

definition see_result :: "std \<Rightarrow> pydict \<Rightarrow> pyval \<Rightarrow> trace \<Rightarrow> trace" where
  "see_result S m time x =
     (let name = named_or S ''unknown'' (dget m ''toolName''); cid = text_or S (dget m ''toolCallId'');
          args = (case tx_by_id x cid of None \<Rightarrow> [] | Some a \<Rightarrow> a); details = dict_or_empty (dget m ''details'');
          failed = truthy (dget m ''isError'');
          h = trace_hash S (PDict [(''name'', PStr name), (''text'', PStr (tool_result_text S m)), (''status'', dget details ''status''),
                (''exit_code'', dget details ''exitCode''), (''is_error'', PBool failed)])
      in stamp_last time (x\<lparr>tx_results := tx_results x @ [\<lparr>tr_name = name, tr_args = args, tr_hash = h, tr_error = failed,
             tr_status = dget details ''status'', tr_exit = dget details ''exitCode'', tr_time = time\<rparr>],
           tx_recent := tx_recent x @ [PDict [(''kind'', PStr ''tool_result''), (''name'', PStr name), (''status'', dget details ''status''),
             (''is_error'', PBool failed), (''result_hash'', PStr (take 12 h))]]\<rparr>))"

definition see_event :: "std \<Rightarrow> pydict \<Rightarrow> trace \<Rightarrow> trace" where
  "see_event S event x =
     (if dget event ''type'' \<noteq> PStr ''message'' then x else
      (case as_dict (dget event ''message'') of
         None \<Rightarrow> x
       | Some m \<Rightarrow>
           (let time = dget m ''timestamp'';
                x1 = (case real_of time of
                        None \<Rightarrow> x
                      | Some t \<Rightarrow> x\<lparr>tx_first := Some (case tx_first x of None \<Rightarrow> truncated t | Some f \<Rightarrow> min f (truncated t))\<rparr>)
            in if dget m ''role'' = PStr ''assistant'' then see_assistant S m time x1
               else if dget m ''role'' = PStr ''toolResult'' then see_result S m time x1 else x1)))"

definition trace_of :: "std \<Rightarrow> (string \<Rightarrow> pyval option) \<Rightarrow> string list \<Rightarrow> trace" where
  "trace_of S loads rows =
     fold (see_event S) (List.map_filter (\<lambda>t. Option.bind (loads t) as_dict) (rev rows)) no_trace"

section \<open>Progress\<close>

definition result_status :: "std \<Rightarrow> tool_result \<Rightarrow> string" where
  "result_status S r = lower (text_or S (tr_status r))"

definition nonterminal_result :: "std \<Rightarrow> tool_result \<Rightarrow> bool" where
  "nonterminal_result S r = List.member [''running'', ''pending'', ''in_progress'', ''accepted''] (result_status S r)"

definition probe_prefixes :: "string list" where
  "probe_prefixes = [''ls'', ''pwd'', ''stat '', ''cat '', ''head '', ''tail '', ''grep '', ''find '', ''wc '', ''git status'', ''git diff --stat'']"

fun after_first :: "string \<Rightarrow> string \<Rightarrow> string option" where
  "after_first p [] = (if p = [] then Some [] else None)"
| "after_first p (c # s) = (if starts_with (c # s) p then Some (drop (length p) (c # s)) else after_first p s)"

definition rstrip :: "string \<Rightarrow> string" where
  "rstrip s = rev (dropWhile is_space (rev s))"

text \<open>\<open>is_state_probe\<close>: a look at the state that changes nothing.\<close>

definition probe_command :: "string \<Rightarrow> string" where
  "probe_command raw =
     (let c = join '' '' (split_words (lower (strip raw))) in
      if starts_with c ''cd '' then (case after_first ''&&'' c of None \<Rightarrow> c | Some rest \<Rightarrow> strip rest) else c)"

definition state_probe :: "std \<Rightarrow> tool_result \<Rightarrow> bool" where
  "state_probe S r =
     (if lower (tr_name r) = ''process'' then List.member [''list'', ''poll'', ''log''] (lower (text_or S (dget (tr_args r) ''action'')))
      else if lower (tr_name r) \<noteq> ''exec'' then False
      else (let c = probe_command (text_or S (dget (tr_args r) ''command''))
            in list_ex (\<lambda>p. c = rstrip p \<or> starts_with c p) probe_prefixes))"

definition nonzero_exec :: "tool_result \<Rightarrow> bool" where
  "nonzero_exec r \<longleftrightarrow> tr_name r = ''exec'' \<and> (case int_of (tr_exit r) of None \<Rightarrow> False | Some n \<Rightarrow> n \<noteq> 0)"

definition meaningful_result :: "std \<Rightarrow> tool_result \<Rightarrow> bool" where
  "meaningful_result S r \<longleftrightarrow> \<not> nonterminal_result S r \<and> \<not> tr_error r \<and> \<not> state_probe S r \<and> \<not> nonzero_exec r"

definition opt_int :: "int option \<Rightarrow> pyval" where
  "opt_int v = (case v of None \<Rightarrow> PNone | Some n \<Rightarrow> PInt n)"

definition age_of :: "int \<Rightarrow> int option \<Rightarrow> pyval" where
  "age_of now t = (case t of None \<Rightarrow> PNone | Some n \<Rightarrow> PFloat (round1 (of_int (now - n) / 1000)))"

definition repeats :: "string list \<Rightarrow> int" where
  "repeats xs = int (length xs) - int (length (remdups xs))"

definition dominant_ratio :: "tool_call list \<Rightarrow> pyval" where
  "dominant_ratio cs =
     (if cs = [] then PNone
      else PFloat (round3 (of_nat (foldl max 0 (map (\<lambda>n. length (filter (\<lambda>c. tc_name c = n) cs)) (remdups (map tc_name cs)))) / of_nat (length cs))))"

definition read_session_trace :: "std \<Rightarrow> (string \<Rightarrow> pyval option) \<Rightarrow> int \<Rightarrow> string list \<Rightarrow> pydict" where
  "read_session_trace S loads now rows =
     (let x = trace_of S loads rows; calls = tx_calls x; results = tx_results x;
          ended = filter (\<lambda>r. \<not> nonterminal_result S r) results; ok = filter (\<lambda>r. \<not> tr_error r) ended;
          good = filter (meaningful_result S) results;
          times = List.map_filter (\<lambda>r. map_option truncated (real_of (tr_time r))) good;
          latest = (if times = [] then tx_first x else Some (foldl max (hd times) times));
          zero = (\<lambda>r. real_of (tr_exit r) = Some 0 \<or> List.member [''completed'', ''success''] (result_status S r));
          count = (\<lambda>n. PInt (int n))
      in [(''available'', PBool True), (''tool_call_count'', count (length calls)), (''tool_result_count'', count (length results)),
          (''completed_tool_results'', count (length ended)),
          (''nonterminal_tool_results'', count (length (filter (nonterminal_result S) results))),
          (''inflight_tool_calls'', PInt (max 0 (int (length calls) - int (length ended)))),
          (''last_tool_name'', if calls = [] then PNone else PStr (tc_name (List.last calls))),
          (''successful_tool_results'', count (length ok)), (''tool_error_count'', count (length (filter tr_error results))),
          (''mutating_tool_calls'', count (length (filter (\<lambda>c. List.member [''write'', ''edit'', ''apply_patch''] (tc_name c)) calls))),
          (''exec_success_count'', count (length (filter (\<lambda>r. tr_name r = ''exec'' \<and> zero r) good))),
          (''exec_nonzero_count'', count (length (filter nonzero_exec ended))),
          (''probe_result_count'', count (length (filter (state_probe S) ok))),
          (''meaningful_result_count'', count (length good)), (''meaningful_progress_age_sec'', age_of now latest),
          (''repeated_tool_calls'', PInt (repeats (map tc_sig calls))), (''repeated_results'', PInt (repeats (map tr_hash results))),
          (''unique_tool_count'', count (length (remdups (map tc_name calls)))), (''dominant_tool_ratio'', dominant_ratio calls),
          (''assistant_turns'', PInt (tx_turns x)), (''latest_total_tokens'', opt_int (tx_tokens x)), (''token_sum'', PInt (tx_token_sum x)),
          (''last_tool_event_age_sec'', age_of now (tx_last x)),
          (''recent_events'', PList (drop (length (tx_recent x) - 10) (tx_recent x)))])"

text \<open>The answers when the database is missing or cannot be read.\<close>

definition no_session_trace :: pydict where
  "no_session_trace = [(''available'', PBool False), (''reason'', PStr ''agent_session_db_unavailable'')]"

definition trace_failed :: "exn \<Rightarrow> pydict" where
  "trace_failed e = [(''available'', PBool False), (''reason'', PStr (''trace_read_failed:'' @ exn_name e))]"

end
