(* ===== verification/JevWatchdog.thy ===== *)
theory JevWatchdog
  imports RunLog
begin

text \<open>
  \<^verbatim>\<open>jev_agent_recovery_watchdog_v01.py\<close>: the recovery watchdog of agent sessions. It collects a snapshot of facts,
  has a judge pick an action for exactly these facts, and hands a stuck session over by a written document. Its
  state \<open>watch\<close> is the set of handoffs generated, the handoff file, the history and the evidence streams; the
  collector, the judge, the ports that create sessions, the clock and the identifiers are the record \<open>watch_deps\<close>.
  Failures of the file system itself are not modelled, and neither is the collector that lists a work directory.
\<close>

section \<open>Facts\<close>

definition choices :: "string list" where
  "choices = [''CONTINUE'', ''WATCH'', ''NUDGE'', ''SALVAGE'', ''DEAD'']"

definition terminal_activity :: "string list" where
  "terminal_activity = [''COMPLETED'', ''FAILED'', ''CANCELLED'', ''DEAD'']"

record availability =
  av_ok :: bool
  av_value :: pyval
  av_reason :: "string option"

definition unsupported :: "string \<Rightarrow> availability" where
  "unsupported why = \<lparr>av_ok = False, av_value = PNone, av_reason = Some why\<rparr>"

record activity =
  ac_agent :: string
  ac_session :: string
  ac_status :: string
  ac_progress :: availability
  ac_process :: availability
  ac_context :: availability
  ac_scope :: availability
  ac_events :: availability
  ac_task :: string
  ac_generation :: int

record snapshot =
  sn_id :: string
  sn_captured :: rat
  sn_activity :: activity
  sn_progress :: availability
  sn_artifacts :: availability
  sn_git :: availability
  sn_checkpoint :: availability
  sn_tests :: availability
  sn_repetition :: availability

text \<open>\<open>_jsonable\<close> on values: tuples become lists.\<close>

fun jsonable_form :: "pyval \<Rightarrow> pyval" where
  "jsonable_form (PList vs) = PList (map jsonable_form vs)"
| "jsonable_form (PTuple vs) = PList (map jsonable_form vs)"
| "jsonable_form (PDict d) = PDict (map (\<lambda>(k, v). (k, jsonable_form v)) d)"
| "jsonable_form v = v"

definition opt_text :: "string option \<Rightarrow> pyval" where
  "opt_text v = (case v of None \<Rightarrow> PNone | Some s \<Rightarrow> PStr s)"

definition availability_fact :: "availability \<Rightarrow> pyval" where
  "availability_fact a = PDict [(''available'', PBool (av_ok a)), (''value'', jsonable_form (av_value a)), (''reason'', opt_text (av_reason a))]"

definition activity_fact :: "activity \<Rightarrow> pydict" where
  "activity_fact a =
     [(''agent_id'', PStr (ac_agent a)), (''session_id'', PStr (ac_session a)), (''status'', PStr (ac_status a)),
      (''last_meaningful_activity'', availability_fact (ac_progress a)), (''active_process'', availability_fact (ac_process a)),
      (''context'', availability_fact (ac_context a)), (''scope'', availability_fact (ac_scope a)),
      (''recent_events'', availability_fact (ac_events a)), (''task_id'', PStr (ac_task a)),
      (''recovery_generation'', PInt (ac_generation a))]"

definition snapshot_facts :: "snapshot \<Rightarrow> pydict" where
  "snapshot_facts s =
     [(''snapshot_id'', PStr (sn_id s)), (''captured_at'', PFloat (sn_captured s)), (''activity'', PDict (activity_fact (sn_activity s))),
      (''progress'', availability_fact (sn_progress s)), (''artifacts'', availability_fact (sn_artifacts s)),
      (''git_diff'', availability_fact (sn_git s)), (''checkpoint'', availability_fact (sn_checkpoint s)),
      (''test_result'', availability_fact (sn_tests s)), (''repetition'', availability_fact (sn_repetition s))]"

definition canonical_json :: "std \<Rightarrow> pyval \<Rightarrow> string res" where
  "canonical_json S v = dumps (float_repr S) False v"

definition state_digest :: "std \<Rightarrow> pydict \<Rightarrow> string res" where
  "state_digest S d = rbind (canonical_json S (PDict d)) (\<lambda>t. Inr (sha256 S t))"

text \<open>The facts without what changes from one look to the next.\<close>

definition volatile_keys :: "string list" where
  "volatile_keys = [''snapshot_id'', ''captured_at'', ''observed_at'', ''last_message_age_sec'', ''idle_seconds'', ''running_seconds'',
     ''observation_delta'', ''no_forward_change'', ''no_forward_change_sec'', ''token_telemetry'']"

definition volatile :: "string \<Rightarrow> bool" where
  "volatile k \<longleftrightarrow> List.member volatile_keys k \<or> ends_with k ''_age_sec''"

fun stable_material :: "pyval \<Rightarrow> pyval" where
  "stable_material (PDict d) = PDict (filter (\<lambda>(k, v). \<not> volatile k) (map (\<lambda>(k, v). (k, stable_material v)) d))"
| "stable_material (PList vs) = PList (map stable_material vs)"
| "stable_material (PTuple vs) = PList (map stable_material vs)"
| "stable_material v = v"

definition snapshot_state_digest :: "std \<Rightarrow> snapshot \<Rightarrow> string res" where
  "snapshot_state_digest S s =
     rbind (canonical_json S (stable_material (PDict (snapshot_facts s)))) (\<lambda>t. Inr (sha256 S t))"

section \<open>Features and the judge\<close>

fun py_len :: "pyval \<Rightarrow> int res" where
  "py_len (PStr s) = Inr (int (length s))"
| "py_len (PList vs) = Inr (int (length vs))"
| "py_len (PTuple vs) = Inr (int (length vs))"
| "py_len (PDict d) = Inr (int (length d))"
| "py_len v = Inl (TypeError ''object has no len()'')"

text \<open>The length of an available fact, \<open>None\<close> for an unsupported one.\<close>

definition counted_fact :: "availability \<Rightarrow> pyval res" where
  "counted_fact a = (if av_ok a then rbind (py_len (jsonable_form (av_value a))) (\<lambda>n. Inr (PInt n)) else Inr PNone)"

definition repetition_count :: "availability \<Rightarrow> pyval" where
  "repetition_count a = (if av_ok a then (case as_dict (jsonable_form (av_value a)) of None \<Rightarrow> PNone | Some d \<Rightarrow> dget d ''count'') else PNone)"

definition build_features :: "std \<Rightarrow> snapshot \<Rightarrow> (string \<times> pydict) res" where
  "build_features S s =
     rbind (state_digest S (snapshot_facts s)) (\<lambda>digest.
     rbind (counted_fact (sn_artifacts s)) (\<lambda>artifacts.
     rbind (counted_fact (ac_events (sn_activity s))) (\<lambda>events.
     Inr (digest,
       [(''schema'', PStr ''jev-agent-recovery-watchdog-v0.1''), (''state_digest'', PStr digest),
        (''progress_observed'', PBool (av_ok (sn_progress s))),
        (''progress_value'', if av_ok (sn_progress s) then jsonable_form (av_value (sn_progress s)) else PNone),
        (''artifact_count'', artifacts), (''git_diff_available'', PBool (av_ok (sn_git s))),
        (''checkpoint_available'', PBool (av_ok (sn_checkpoint s))), (''test_result_available'', PBool (av_ok (sn_tests s))),
        (''repetition_count'', repetition_count (sn_repetition s)), (''recent_event_count'', events),
        (''session_response_available'', PBool (av_ok (ac_context (sn_activity s)))),
        (''active_process_available'', PBool (av_ok (ac_process (sn_activity s)))),
        (''scope_available'', PBool (av_ok (ac_scope (sn_activity s)))),
        (''availability_policy'', PStr ''unsupported_is_not_zero''), (''choices'', str_list choices),
        (''snapshot'', PDict (snapshot_facts s))]))))"

record jev_decision =
  jd_choice :: string
  jd_probabilities :: pydict
  jd_digest :: string
  jd_id :: string
  jd_confidence :: pyval

text \<open>The judge's answer, made one of the five choices: anything unknown is DEAD.\<close>

definition normalize_choice :: "string \<Rightarrow> string" where
  "normalize_choice raw =
     (let c = (case map_of [(''RECHECK'', ''WATCH''), (''RESTART_SESSION'', ''SALVAGE''), (''ESCALATE_MAIN'', ''DEAD'')] raw of
          None \<Rightarrow> raw | Some x \<Rightarrow> x)
      in if List.member choices c then c else ''DEAD'')"

definition judged :: "std \<Rightarrow> pydict \<Rightarrow> pydict \<Rightarrow> string \<Rightarrow> jev_decision res" where
  "judged S features result i =
     rbind (case map_of features ''state_digest'' of None \<Rightarrow> Inl (KeyError ''state_digest'') | Some v \<Rightarrow> Inr (str_of S v)) (\<lambda>digest.
     Inr \<lparr>jd_choice = normalize_choice (upper (str_of S (dget_or result ''choice'' (PStr ''DEAD'')))),
          jd_probabilities = (case as_dict (dget result ''probabilities'') of None \<Rightarrow> [] | Some p \<Rightarrow> p),
          jd_digest = digest, jd_id = i, jd_confidence = dget result ''confidence''\<rparr>)"

definition safety_interlock :: "snapshot \<Rightarrow> bool \<times> string" where
  "safety_interlock s =
     (let a = ac_scope (sn_activity s) in
      if \<not> av_ok a then (False, ''SCOPE_UNAVAILABLE'') else
      (case as_dict (av_value a) of
         None \<Rightarrow> (False, ''SCOPE_INVALID'')
       | Some d \<Rightarrow>
           if list_ex (\<lambda>k. dget d k = PBool True) [''production'', ''destructive'', ''external_send'', ''unknown'']
           then (False, ''PROTECTED_SCOPE'') else (True, ''SAFE_SCOPE'')))"

section \<open>The handoff document\<close>

record handoff =
  ho_id :: string
  ho_task :: string
  ho_agent :: string
  ho_session :: string
  ho_generation :: int
  ho_completed :: "string list"
  ho_changed :: "string list"
  ho_tests :: "string list"
  ho_problem :: string
  ho_failed :: "string list"
  ho_remaining :: "string list"
  ho_first :: string
  ho_attempt :: int
  ho_target :: string
  ho_evidence :: string
  ho_created :: rat

definition nl :: string where
  "nl = [CHR 0x0A]"

definition bullets :: "string list \<Rightarrow> string" where
  "bullets vs = join nl (map (\<lambda>v. ''- '' @ v) vs)"

definition required_sections :: "string list" where
  "required_sections = [''Task'', ''Previous Agent'', ''Session ID'', ''Recovery Generation'', ''Completed Work'', ''Changed Files'',
     ''Test Results'', ''Current Problem'', ''Failed Methods'', ''Remaining Work'', ''Next Agent First Action'']"

definition section_values :: "handoff \<Rightarrow> string list" where
  "section_values h = [ho_task h, ho_agent h, ho_session h, str_int (ho_generation h), bullets (ho_completed h), bullets (ho_changed h),
     bullets (ho_tests h), ho_problem h, bullets (ho_failed h), bullets (ho_remaining h), ho_first h]"

definition section_text :: "string \<Rightarrow> string \<Rightarrow> string" where
  "section_text name v = ''## '' @ name @ nl @ v @ nl @ nl"

definition handoff_text :: "std \<Rightarrow> handoff \<Rightarrow> string" where
  "handoff_text S h =
     ''# RECOVERY_HANDOFF'' @ nl @ nl @ concat (map2 section_text required_sections (section_values h)) @
     ''## Recovery Metadata'' @ nl @
     ''- handoff_id: '' @ ho_id h @ nl @ ''- attempt: '' @ str_int (ho_attempt h) @ nl @ ''- target_agent: '' @ ho_target h @ nl @
     ''- evidence_digest: '' @ ho_evidence h @ nl @ ''- created_at: '' @ float_repr S (ho_created h) @ nl @ nl @
     ''## Safety'' @ nl @ ''- Old-session cleanup is forbidden until target acknowledgement.'' @ nl"

text \<open>\<open>text.split(marker, 1)[1].split("\n\n", 1)[0].strip()\<close>\<close>

definition section_value :: "string \<Rightarrow> string \<Rightarrow> string res" where
  "section_value text name =
     (case split_once (''## '' @ name @ nl) text of
        None \<Rightarrow> Inl (Raised ''IndexError'' ''list index out of range'')
      | Some (a, b) \<Rightarrow> Inr (strip (case split_once (nl @ nl) b of None \<Rightarrow> b | Some (v, r) \<Rightarrow> v)))"

fun check_sections :: "string \<Rightarrow> string list \<Rightarrow> unit res" where
  "check_sections text [] = Inr ()"
| "check_sections text (name # names) =
     rbind (section_value text name) (\<lambda>v.
     need (v \<noteq> []) (ValueError (''RECOVERY_HANDOFF.md has empty section: '' @ name)) (check_sections text names))"

definition validate_handoff :: "string \<Rightarrow> unit res" where
  "validate_handoff text =
     need (\<not> blank text \<and> list_all (\<lambda>name. contains text (''## '' @ name)) required_sections)
       (ValueError ''RECOVERY_HANDOFF.md missing required non-empty sections'') (check_sections text required_sections)"

section \<open>The watchdog's state\<close>

record recovery_outcome =
  ro_id :: string
  ro_kind :: string
  ro_state :: string
  ro_source :: string
  ro_target :: "string option"
  ro_handoff :: "string option"
  ro_why :: string
  ro_digest :: string
  ro_task :: string
  ro_generation :: int
  ro_observed :: rat

record 'w watch =
  wd_generated :: "string list"
  wd_handoff_file :: "string option"
  wd_history :: "pydict list"
  wd_evidence :: "(string \<times> pydict) list"
  wd_inflight :: bool
  wd_last_digest :: "string option"
  wd_beyond :: 'w

record 'w watch_deps =
  ws_std :: std
  ws_clock :: "'w \<Rightarrow> rat \<times> 'w"
  ws_uuid :: "'w \<Rightarrow> string \<times> 'w"
  ws_collect :: "activity \<Rightarrow> 'w \<Rightarrow> snapshot res \<times> 'w"
  ws_decide :: "pydict \<Rightarrow> string \<Rightarrow> 'w \<Rightarrow> jev_decision res \<times> 'w"
  ws_writer :: "string option"
  ws_create :: "(string \<Rightarrow> string \<Rightarrow> int \<Rightarrow> 'w \<Rightarrow> string res \<times> 'w) option"
  ws_ack :: "string \<Rightarrow> string \<Rightarrow> 'w \<Rightarrow> bool res \<times> 'w"
  ws_factory :: "(string \<Rightarrow> handoff \<Rightarrow> int \<Rightarrow> 'w \<Rightarrow> string res \<times> 'w) option"
  ws_cleanup :: "(string \<Rightarrow> 'w \<Rightarrow> unit res \<times> 'w) option"
  ws_main :: string
  ws_store :: bool

definition at_world :: "('w \<Rightarrow> 'a res \<times> 'w) \<Rightarrow> ('w watch, 'a) op" where
  "at_world f s = (case f (wd_beyond s) of (r, w) \<Rightarrow> (r, s\<lparr>wd_beyond := w\<rparr>))"

definition read_world :: "('w \<Rightarrow> 'a \<times> 'w) \<Rightarrow> ('w watch, 'a) op" where
  "read_world f s = (case f (wd_beyond s) of (x, w) \<Rightarrow> (Inr x, s\<lparr>wd_beyond := w\<rparr>))"

text \<open>\<open>AppendOnlyHistory.append\<close>: a row that JSON cannot hold raises before it is written.\<close>

definition append_history :: "std \<Rightarrow> pydict \<Rightarrow> ('w watch, unit) op" where
  "append_history S row = bnd (lift (canonical_json S (PDict row))) (\<lambda>t. modify (\<lambda>s. s\<lparr>wd_history := wd_history s @ [row]\<rparr>))"

definition append_evidence :: "std \<Rightarrow> string \<Rightarrow> activity \<Rightarrow> string \<Rightarrow> rat \<Rightarrow> pydict \<Rightarrow> ('w watch, unit) op" where
  "append_evidence S kind a digest now extra =
     (if \<not> List.member [''agent_activity'', ''observer_snapshot'', ''jev_decision'', ''recovery_outcome''] kind
      then raise (ValueError (''unsupported evidence stream: '' @ kind)) else
      (let row = AList.updates (map fst extra) (map snd extra)
            [(''task_id'', PStr (ac_task a)), (''session_id'', PStr (ac_session a)), (''recovery_generation'', PInt (ac_generation a)),
             (''state_digest'', PStr digest), (''observed_at'', PFloat now), (''type'', PStr kind)]
       in bnd (lift (canonical_json S (PDict row))) (\<lambda>t. modify (\<lambda>s. s\<lparr>wd_evidence := wd_evidence s @ [(kind, row)]\<rparr>))))"

definition write_handoff :: "std \<Rightarrow> handoff \<Rightarrow> ('w watch, unit) op" where
  "write_handoff S h =
     bnd (gets wd_handoff_file) (\<lambda>file.
     if file \<noteq> None then raise (Raised ''FileExistsError'' ''RECOVERY_HANDOFF.md already exists'') else
     bnd (modify (\<lambda>s. s\<lparr>wd_handoff_file := Some (handoff_text S h)\<rparr>)) (\<lambda>u. lift (validate_handoff (universal_newlines (handoff_text S h)))))"

section \<open>The recovery controller\<close>

text \<open>\<open>_record\<close>; the task and the generation of the outcome keep their defaults.\<close>

definition outcome_row :: "recovery_outcome \<Rightarrow> pydict" where
  "outcome_row x = [(''outcome_id'', PStr (ro_id x)), (''kind'', PStr (ro_kind x)), (''status'', PStr (ro_state x)),
     (''source_session_id'', PStr (ro_source x)), (''target_session_id'', opt_text (ro_target x)), (''handoff_id'', opt_text (ro_handoff x)),
     (''reason'', PStr (ro_why x)), (''state_digest'', PStr (ro_digest x)), (''task_id'', PStr (ro_task x)),
     (''recovery_generation'', PInt (ro_generation x)), (''observed_at'', PFloat (ro_observed x))]"

definition record_outcome ::
  "'w watch_deps \<Rightarrow> string \<Rightarrow> string \<Rightarrow> activity \<Rightarrow> string option \<Rightarrow> string option \<Rightarrow> string \<Rightarrow> string \<Rightarrow> ('w watch, recovery_outcome) op" where
  "record_outcome D kind state a target ho why digest =
     bnd (read_world (ws_uuid D)) (\<lambda>i.
     bnd (read_world (ws_clock D)) (\<lambda>now.
     let x = \<lparr>ro_id = i, ro_kind = kind, ro_state = state, ro_source = ac_session a, ro_target = target, ro_handoff = ho, ro_why = why,
              ro_digest = digest, ro_task = ''unknown-task'', ro_generation = 0, ro_observed = now\<rparr>
     in bnd (append_history (ws_std D) ((''type'', PStr ''recovery_outcome'') # outcome_row x)) (\<lambda>u. ret x)))"

definition handoff_from ::
  "'w watch_deps \<Rightarrow> activity \<Rightarrow> int \<Rightarrow> string \<Rightarrow> string \<Rightarrow> string list \<Rightarrow> snapshot \<Rightarrow> ('w watch, handoff) op" where
  "handoff_from D a n target digest remaining sn =
     (let artifacts = (if av_ok (sn_artifacts sn) then av_value (sn_artifacts sn) else PList []);
          tests = (if av_ok (sn_tests sn) then av_value (sn_tests sn) else PList [])
      in bnd (lift (py_items artifacts)) (\<lambda>items.
         bnd (lift (if truthy tests then canonical_json (ws_std D) tests else Inr ''Test result unavailable'')) (\<lambda>results.
         bnd (read_world (ws_uuid D)) (\<lambda>i.
         bnd (read_world (ws_clock D)) (\<lambda>now.
         ret \<lparr>ho_id = i, ho_task = ac_task a, ho_agent = ac_agent a, ho_session = ac_session a, ho_generation = ac_generation a,
              ho_completed = [''Evidence collection and JEV decision completed''],
              ho_changed = (if items = [] then [''No changed files observed''] else map (str_of (ws_std D)) items),
              ho_tests = [results],
              ho_problem = ''Source session status requires '' @ lower (ac_status a) @ '' recovery handling'',
              ho_failed = [''No failed method recorded in current evidence''], ho_remaining = remaining,
              ho_first = ''Read and acknowledge RECOVERY_HANDOFF.md before continuing the remaining work'',
              ho_attempt = n, ho_target = target, ho_evidence = digest, ho_created = now\<rparr>)))))"

definition valid_handoff :: "handoff \<Rightarrow> string \<Rightarrow> string \<Rightarrow> bool" where
  "valid_handoff h source digest \<longleftrightarrow> ho_id h \<noteq> [] \<and> ho_session h = source \<and> ho_evidence h = digest \<and> ho_remaining h \<noteq> []"

text \<open>The session that takes over: created by the direct port and acknowledged before the cleanup of the old one, or by the
  factory; a refusal is an outcome, and the third attempt creates none.\<close>

definition hand_over ::
  "'w watch_deps \<Rightarrow> activity \<Rightarrow> handoff \<Rightarrow> string option \<Rightarrow> int \<Rightarrow> string \<Rightarrow> ('w watch, string + string option) op" where
  "hand_over D a h path n target =
     (if n < 3 then
        (case ws_create D of
           Some create \<Rightarrow>
             (case path of
                None \<Rightarrow> ret (Inl ''HANDOFF_WRITER_REQUIRED'')
              | Some pth \<Rightarrow>
                  if pth = [] then ret (Inl ''HANDOFF_WRITER_REQUIRED'') else
                  bnd (at_world (create target pth n)) (\<lambda>session.
                  bnd (at_world (ws_ack D session pth)) (\<lambda>acknowledged.
                  if \<not> acknowledged then ret (Inl ''HANDOFF_ACK_REQUIRED'') else
                  bnd (case ws_cleanup D of None \<Rightarrow> ret () | Some cleanup \<Rightarrow> at_world (cleanup (ac_session a))) (\<lambda>u.
                  ret (Inr (Some session))))))
         | None \<Rightarrow>
             (case ws_factory D of
                None \<Rightarrow> ret (Inl ''SESSION_FACTORY_UNAVAILABLE'')
              | Some factory \<Rightarrow> bnd (at_world (factory target h n)) (\<lambda>session. ret (Inr (Some session)))))
      else ret (Inr None))"

fun try_targets ::
  "'w watch_deps \<Rightarrow> activity \<Rightarrow> snapshot \<Rightarrow> string list \<Rightarrow> string \<Rightarrow> (int \<times> string) list \<Rightarrow> ('w watch, recovery_outcome) op" where
  "try_targets D a sn remaining digest [] =
     record_outcome D ''SALVAGE_BLOCKED'' ''ESCALATE_MAIN'' a None None ''HANDOFF_VALIDATION_FAILED'' digest"
| "try_targets D a sn remaining digest ((n, target) # rest) =
     bnd (handoff_from D a n target digest remaining sn) (\<lambda>h.
     if \<not> valid_handoff h (ac_session a) digest then try_targets D a sn remaining digest rest else
     bnd (if ws_writer D = None then ret () else write_handoff (ws_std D) h) (\<lambda>u.
     bnd (hand_over D a h (ws_writer D) n target) (\<lambda>answer.
     case answer of
       Inl why \<Rightarrow> record_outcome D ''SALVAGE_BLOCKED'' ''ESCALATE_MAIN'' a None (Some (ho_id h)) why digest
     | Inr session \<Rightarrow> record_outcome D ''SALVAGE_HANDOFF'' ''HANDOFF_CREATED'' a session (Some (ho_id h)) (''ATTEMPT_'' @ str_int n) digest)))"

definition handoff_base :: "std \<Rightarrow> activity \<Rightarrow> string \<Rightarrow> string list \<Rightarrow> string res" where
  "handoff_base S a digest remaining =
     canonical_json S (PDict [(''session'', PStr (ac_session a)), (''digest'', PStr digest), (''remaining'', str_list remaining)])"

definition apply_decision ::
  "'w watch_deps \<Rightarrow> jev_decision \<Rightarrow> activity \<Rightarrow> snapshot \<Rightarrow> string list \<Rightarrow> bool \<Rightarrow> ('w watch, recovery_outcome) op" where
  "apply_decision D j a sn remaining safe =
     bnd (lift (state_digest (ws_std D) (snapshot_facts sn))) (\<lambda>digest.
     if digest \<noteq> jd_digest j then record_outcome D ''STALE_REJECTED'' ''BLOCKED'' a None None ''DIGEST_MISMATCH'' digest
     else if jd_choice j = ''DEAD'' then record_outcome D ''MAIN_ESCALATION'' ''ESCALATE_MAIN'' a None None ''DEAD_MAIN_ONLY'' digest
     else if jd_choice j \<noteq> ''SALVAGE'' then
       record_outcome D (if List.member [''CONTINUE'', ''WATCH'', ''NUDGE''] (jd_choice j) then ''NO_ACTION'' else ''BLOCKED'') (jd_choice j) a
         None None ''OBSERVE_ONLY'' digest
     else if \<not> safe then record_outcome D ''SALVAGE_BLOCKED'' ''ESCALATE_MAIN'' a None None ''SAFETY_INTERLOCK'' digest
     else if remaining = [] then record_outcome D ''SALVAGE_BLOCKED'' ''ESCALATE_MAIN'' a None None ''NO_REMAINING_WORK'' digest
     else
       bnd (lift (handoff_base (ws_std D) a digest remaining)) (\<lambda>base.
       bnd (gets wd_generated) (\<lambda>done.
       if List.member done base then
         record_outcome D ''SALVAGE_DUPLICATE'' ''NO_ACTION'' a None None ''HANDOFF_ALREADY_GENERATED'' digest
       else
         bnd (modify (\<lambda>s. s\<lparr>wd_generated := base # wd_generated s\<rparr>)) (\<lambda>u.
         try_targets D a sn remaining digest [(1, ac_agent a), (2, ''alternate''), (3, ws_main D)]))))"

section \<open>The observer\<close>

definition decision_row :: "jev_decision \<Rightarrow> pydict" where
  "decision_row j = [(''choice'', PStr (jd_choice j)), (''probabilities'', PDict (jd_probabilities j)), (''state_digest'', PStr (jd_digest j)),
     (''decision_id'', PStr (jd_id j)), (''confidence'', jd_confidence j)]"

datatype observation =
    OverlapBlocked
  | TerminalActivity
  | Observed jev_decision recovery_outcome string

text \<open>\<open>now or time.time()\<close>.\<close>

definition time_or :: "'w watch_deps \<Rightarrow> rat option \<Rightarrow> ('w watch, rat) op" where
  "time_or D now = (case now of None \<Rightarrow> read_world (ws_clock D) | Some t \<Rightarrow> if t = 0 then read_world (ws_clock D) else ret t)"

definition dead_decision :: "string \<Rightarrow> string \<Rightarrow> jev_decision" where
  "dead_decision digest i = \<lparr>jd_choice = ''DEAD'', jd_probabilities = map (\<lambda>x. (x, PFloat (if x = ''DEAD'' then 1 else 0))) choices,
     jd_digest = digest, jd_id = i, jd_confidence = PNone\<rparr>"

definition stored :: "'w watch_deps \<Rightarrow> string \<Rightarrow> activity \<Rightarrow> string \<Rightarrow> rat \<Rightarrow> pydict \<Rightarrow> ('w watch, unit) op" where
  "stored D kind a digest now extra = (if ws_store D then append_evidence (ws_std D) kind a digest now extra else ret ())"

text \<open>The three stretches of \<open>observe\<close>: the facts and their record, the choice, and the record of what was done.\<close>

definition look ::
  "'w watch_deps \<Rightarrow> activity \<Rightarrow> rat option \<Rightarrow> ('w watch, snapshot \<times> string \<times> pydict \<times> rat) op" where
  "look D a now =
     bnd (at_world (ws_collect D a)) (\<lambda>sn.
     bnd (lift (build_features (ws_std D) sn)) (\<lambda>(digest, features).
     bnd (modify (\<lambda>s. s\<lparr>wd_last_digest := Some digest\<rparr>)) (\<lambda>u.
     bnd (time_or D now) (\<lambda>t.
     bnd (append_history (ws_std D) [(''type'', PStr ''agent_activity''), (''activity'', PDict (activity_fact a)), (''captured_at'', PFloat t)]) (\<lambda>u.
     bnd (append_history (ws_std D) [(''type'', PStr ''observer_snapshot''), (''snapshot'', PDict (snapshot_facts sn)),
            (''state_digest'', PStr digest)]) (\<lambda>u.
     bnd (time_or D now) (\<lambda>observed_at.
     bnd (stored D ''agent_activity'' a digest observed_at [(''activity'', PDict (activity_fact a))]) (\<lambda>u.
     bnd (stored D ''observer_snapshot'' a digest observed_at [(''snapshot'', PDict (snapshot_facts sn))]) (\<lambda>u.
     ret (sn, digest, features, observed_at))))))))))"

definition ask_judge :: "'w watch_deps \<Rightarrow> activity \<Rightarrow> string \<Rightarrow> pydict \<Rightarrow> ('w watch, jev_decision) op" where
  "ask_judge D a digest features =
     bnd (at_world (ws_decide D features (''jev-recovery-v01:'' @ ac_session a @ '':'' @ digest))) (\<lambda>j.
     if jd_digest j \<noteq> digest \<or> \<not> List.member choices (jd_choice j)
     then bnd (read_world (ws_uuid D)) (\<lambda>i. ret (dead_decision digest i)) else ret j)"

definition note_observation ::
  "'w watch_deps \<Rightarrow> activity \<Rightarrow> rat option \<Rightarrow> string \<Rightarrow> snapshot \<Rightarrow> string \<Rightarrow> pydict \<Rightarrow> rat \<Rightarrow> jev_decision \<Rightarrow> recovery_outcome \<Rightarrow> ('w watch, unit) op" where
  "note_observation D a now trigger sn digest features observed_at j x =
     bnd (time_or D now) (\<lambda>t.
     bnd (append_history (ws_std D) [(''type'', PStr ''jev_decision''), (''trigger'', PStr trigger), (''captured_at'', PFloat t),
            (''activity'', PDict (activity_fact a)), (''observer_snapshot'', PDict (snapshot_facts sn)), (''feature_state'', PDict features),
            (''state_digest'', PStr digest), (''jev_decision'', PDict (decision_row j)), (''recovery_outcome'', PDict (outcome_row x))]) (\<lambda>u.
     bnd (stored D ''jev_decision'' a digest observed_at
            [(''trigger'', PStr trigger), (''feature_state'', PDict features), (''decision'', PDict (decision_row j))]) (\<lambda>u.
     stored D ''recovery_outcome'' a digest observed_at [(''outcome'', PDict (outcome_row x))])))"

definition observe_body ::
  "'w watch_deps \<Rightarrow> activity \<Rightarrow> string list \<Rightarrow> rat option \<Rightarrow> string \<Rightarrow> ('w watch, observation) op" where
  "observe_body D a remaining now trigger =
     bnd (look D a now) (\<lambda>(sn, digest, features, observed_at).
     bnd (ask_judge D a digest features) (\<lambda>j.
     bnd (apply_decision D j a sn remaining (fst (safety_interlock sn))) (\<lambda>x.
     bnd (note_observation D a now trigger sn digest features observed_at j x) (\<lambda>u.
     ret (Observed j x digest)))))"

definition observe_session ::
  "'w watch_deps \<Rightarrow> activity \<Rightarrow> string list \<Rightarrow> rat option \<Rightarrow> string \<Rightarrow> ('w watch, observation) op" where
  "observe_session D a remaining now trigger s =
     (if wd_inflight s then (Inr OverlapBlocked, s)
      else if List.member terminal_activity (ac_status a) then (Inr TerminalActivity, s)
      else (case observe_body D a remaining now trigger (s\<lparr>wd_inflight := True\<rparr>) of (r, t) \<Rightarrow> (r, t\<lparr>wd_inflight := False\<rparr>)))"

text \<open>The events that reach the observer, and the timer behind them.\<close>

definition on_event :: "'w watch_deps \<Rightarrow> activity \<Rightarrow> pydict \<Rightarrow> string list \<Rightarrow> ('w watch, observation) op" where
  "on_event D a event remaining = observe_session D a remaining None (str_of (ws_std D) (dget_or event ''type'' (PStr ''event'')))"

definition on_backstop :: "'w watch_deps \<Rightarrow> (rat \<Rightarrow> bool) \<Rightarrow> activity \<Rightarrow> rat \<Rightarrow> string list \<Rightarrow> ('w watch, observation option) op" where
  "on_backstop D due a now remaining =
     (if due now then bnd (observe_session D a remaining (Some now) ''backstop_timer'') (\<lambda>x. ret (Some x)) else ret None)"

text \<open>\<open>FinalValidation.validate\<close>: the verdict and its five checks.\<close>

definition final_validation :: "pydict \<Rightarrow> availability \<Rightarrow> availability \<Rightarrow> availability \<Rightarrow> string list \<Rightarrow> string \<times> (string \<times> bool) list" where
  "final_validation actual tests files advisory remaining =
     (let checks = [(''actual_result'', actual \<noteq> []), (''tests'', av_ok tests), (''files'', av_ok files),
            (''result_verifier_advisory'', av_ok advisory), (''remaining_work_empty'', remaining = [])]
      in (if list_all snd checks then ''PASS'' else ''BLOCKED'', checks))"

section \<open>Sessions in memory\<close>

text \<open>\<open>InMemoryDirectSessionPort\<close>: sessions are noted with their document and attempt, and every handoff is acknowledged.\<close>

record memory_port =
  mp_created :: "(string \<times> string \<times> int) list"
  mp_acks :: "string list"

definition create_in_memory ::
  "(memory_port \<Rightarrow> string \<times> memory_port) \<Rightarrow> string \<Rightarrow> string \<Rightarrow> int \<Rightarrow> memory_port \<Rightarrow> string res \<times> memory_port" where
  "create_in_memory uuid agent path n w =
     (case uuid w of (u, v) \<Rightarrow>
        (let sid = ''direct-'' @ str_int n @ ''-'' @ u in (Inr sid, v\<lparr>mp_created := mp_created v @ [(sid, path, n)]\<rparr>)))"

definition acknowledge_in_memory :: "string \<Rightarrow> string \<Rightarrow> memory_port \<Rightarrow> bool res \<times> memory_port" where
  "acknowledge_in_memory session path w = (Inr True, w\<lparr>mp_acks := (if List.member (mp_acks w) session then mp_acks w else session # mp_acks w)\<rparr>)"

end
