(* ===== verification/JevSession.thy ===== *)
theory JevSession
  imports JevTrace JevWatchdog
begin

text \<open>
  How \<^verbatim>\<open>jev_recovery_live.py\<close> reads a session: the rows that the queries on the agent's database yield, newest first, are
  the record \<open>session_db\<close>; the context, the risk of the session and the snapshot for the judge are functions of it.
  Patterns with Korean letters cannot match the characters of the model and are left out of the risk patterns.
\<close>

section \<open>The database\<close>

record session_db =
  sd_window :: "pydict option"
  sd_transcript :: "string list"
  sd_run :: "string option"
  sd_runtime :: "(string \<times> string) list"

definition terminal_sessions :: "string list" where
  "terminal_sessions = [''done'', ''failed'', ''killed'', ''timeout'', ''cancelled'', ''canceled'']"

definition handoff_tag :: string where
  "handoff_tag = '':jev-handoff:''"

definition recovery_tag :: string where
  "recovery_tag = '':jev-recovery:''"

definition nudge_prefix :: string where
  "nudge_prefix = ''JEV SAME-SESSION NUDGE.''"

definition control_prefixes :: "string list" where
  "control_prefixes = [''Agent-to-agent announce step.'', ''JEV RECOVERY MODE.'']"

definition no_get :: exn where
  "no_get = AttributeError ''get''"

definition get_of :: "pyval \<Rightarrow> string \<Rightarrow> pyval res" where
  "get_of v k = (case as_dict v of None \<Rightarrow> Inl no_get | Some d \<Rightarrow> Inr (dget d k))"

text \<open>\<open>_latest_run_state\<close>: the events of the newest run, in their order, up to the end of the session.\<close>

fun scan_run :: "std \<Rightarrow> string \<Rightarrow> pyval list \<Rightarrow> (string \<times> bool \<times> string option) res" where
  "scan_run S prompt [] = Inr (prompt, False, None)"
| "scan_run S prompt (event # events) =
     rbind (get_of event ''type'') (\<lambda>ty.
     rbind (get_of event ''data'') (\<lambda>data.
     let etype = text_or S ty; d = dict_or_empty data;
         p = (if etype = ''prompt.submitted'' \<and> prompt = [] then strip (text_or S (dget d ''prompt'')) else prompt)
     in if etype = ''session.ended''
        then Inr (p, True, (let st = lower (text_or S (dget d ''status'')) in if st = [] then None else Some st))
        else scan_run S p events))"

definition latest_run_state :: "std \<Rightarrow> (string \<Rightarrow> pyval option) \<Rightarrow> (string \<times> string) list \<Rightarrow> pydict res" where
  "latest_run_state S loads rows =
     (case rows of
        [] \<Rightarrow> Inr [(''available'', PBool False), (''run_id'', PNone), (''terminal'', PBool False), (''active'', PBool False),
                  (''control_only'', PBool False), (''prompt'', PStr []), (''status'', PNone)]
      | (i, _) # _ \<Rightarrow>
          rbind (scan_run S [] (rev (List.map_filter (\<lambda>(j, t). if j = i then loads t else None) rows))) (\<lambda>(prompt, ended, status).
          Inr [(''available'', PBool True), (''run_id'', PStr i), (''terminal'', PBool ended), (''active'', PBool (\<not> ended)),
               (''control_only'', PBool (list_ex (starts_with prompt) control_prefixes)), (''prompt'', PStr (take 400 prompt)),
               (''status'', opt_text status)]))"

section \<open>The context of a session\<close>

record context_acc =
  cx_user :: string
  cx_commands :: "string list"
  cx_texts :: "string list"
  cx_run :: "string option"

definition see_command :: "std \<Rightarrow> pydict \<Rightarrow> string list" where
  "see_command S args = List.map_filter (\<lambda>k. if truthy (dget args k) then Some (take 500 (str_of S (dget args k))) else None)
     [''command'', ''path'', ''workdir'']"

definition see_part :: "std \<Rightarrow> pyval \<Rightarrow> string list" where
  "see_part S part =
     (case as_dict part of
        None \<Rightarrow> []
      | Some d \<Rightarrow> if dget d ''type'' \<noteq> PStr ''toolCall'' then [] else see_command S (dict_or_empty (dget d ''arguments'')))"

definition see_message :: "std \<Rightarrow> pydict \<Rightarrow> context_acc \<Rightarrow> context_acc" where
  "see_message S m c =
     (let rid = dget (dict_or_empty (dget m ''__openclaw'')) ''runId''; text = message_text S m;
          c1 = (if cx_run c = None \<and> truthy rid then c\<lparr>cx_run := Some (str_of S rid)\<rparr> else c);
          c2 = (if dget m ''role'' = PStr ''user'' \<and> cx_user c1 = [] \<and> text \<noteq> [] \<and>
                   \<not> list_ex (starts_with text) (control_prefixes @ [nudge_prefix]) then c1\<lparr>cx_user := text\<rparr> else c1)
      in case as_list (dget m ''content'') of
           None \<Rightarrow> c2
         | Some parts \<Rightarrow>
             if dget m ''role'' \<noteq> PStr ''assistant'' then c2
             else c2\<lparr>cx_texts := cx_texts c2 @ (if text = [] then [] else [take 1800 text]),
                     cx_commands := cx_commands c2 @ concat (map (see_part S) parts)\<rparr>)"

fun see_rows :: "std \<Rightarrow> pyval list \<Rightarrow> context_acc \<Rightarrow> context_acc res" where
  "see_rows S [] c = Inr c"
| "see_rows S (event # events) c =
     (case as_dict event of
        None \<Rightarrow> Inl no_get
      | Some d \<Rightarrow>
          see_rows S events (if dget d ''type'' \<noteq> PStr ''message'' then c
            else (case as_dict (dget d ''message'') of None \<Rightarrow> c | Some m \<Rightarrow> see_message S m c)))"

definition session_context :: "std \<Rightarrow> (string \<Rightarrow> pyval option) \<Rightarrow> session_db option \<Rightarrow> pydict res" where
  "session_context S loads db =
     (case db of
        None \<Rightarrow> Inl (Raised ''RuntimeError'' ''AGENT_DB_UNAVAILABLE'')
      | Some d \<Rightarrow> (case sd_window d of
          None \<Rightarrow> Inl (Raised ''RuntimeError'' ''SESSION_WINDOW_NOT_FOUND'')
        | Some window \<Rightarrow>
            rbind (latest_run_state S loads (sd_runtime d)) (\<lambda>latest.
            rbind (see_rows S (List.map_filter loads (sd_transcript d)) \<lparr>cx_user = [], cx_commands = [], cx_texts = [], cx_run = None\<rparr>) (\<lambda>c.
            let fields = [(''latest_user'', PStr (take 1200 (cx_user c))),
                  (''command_texts'', str_list (drop (length (cx_commands c) - 12) (cx_commands c))),
                  (''recent_assistant_texts'', str_list (take 4 (cx_texts c))), (''latest_run'', PDict latest),
                  (''run_id'', opt_text (case sd_run d of None \<Rightarrow> cx_run c | Some i \<Rightarrow> if i = [] then cx_run c else Some i))]
            in Inr (AList.updates (map fst fields) (map snd fields) window)))))"

section \<open>Roles, activity, age\<close>

definition session_role :: "string \<Rightarrow> string" where
  "session_role key = (if contains key handoff_tag then ''handoff'' else if contains key recovery_tag then ''recovery'' else ''task'')"

definition source_task_active :: "std \<Rightarrow> pydict \<Rightarrow> bool \<times> string" where
  "source_task_active S ctx =
     (let status = lower (text_or S (dget ctx ''status'')) in
      if session_role (text_or S (dget ctx ''session_key'')) = ''handoff'' then (False, ''control_handoff_session'')
      else if List.member terminal_sessions status then (False, ''session_terminal:'' @ status)
      else (case as_dict (dget ctx ''latest_run'') of
          None \<Rightarrow> (True, ''runtime_run_unavailable'')
        | Some run \<Rightarrow>
            if \<not> truthy (dget run ''available'') then (True, ''runtime_run_unavailable'')
            else if truthy (dget run ''control_only'') then (False, ''control_only_run'')
            else if truthy (dget run ''terminal'') then (False, ''latest_run_terminal:'' @ named_or S ''unknown'' (dget run ''status''))
            else if \<not> truthy (dget run ''active'') then (False, ''no_active_runtime_run'')
            else (True, ''active_task_run'')))"

definition session_age :: "pydict \<Rightarrow> rat \<Rightarrow> rat option" where
  "session_age ctx now =
     (case real_of (dget ctx ''started_at'') of
        None \<Rightarrow> None
      | Some raw \<Rightarrow> if raw \<le> 0 then None else Some (max 0 (now - (if 10000000000 < raw then raw / 1000 else raw))))"

definition runtime_recovery_safe :: "std \<Rightarrow> pydict \<Rightarrow> snapshot option \<Rightarrow> bool" where
  "runtime_recovery_safe S ctx sn =
     (let fallback = truthy (dget ctx ''run_id'') \<and>
            (case sn of
               None \<Rightarrow> False
             | Some x \<Rightarrow> av_ok (ac_process (sn_activity x)) \<and>
                 (case as_dict (av_value (ac_process (sn_activity x))) of
                    None \<Rightarrow> False
                  | Some d \<Rightarrow> truthy (dget d ''session_nonterminal'') \<and> \<not> List.member terminal_sessions (lower (text_or S (dget ctx ''status'')))))
      in case as_dict (dget ctx ''latest_run'') of
           None \<Rightarrow> fallback
         | Some run \<Rightarrow>
             if truthy (dget run ''available'')
             then truthy (dget run ''active'') \<and> \<not> truthy (dget run ''terminal'') \<and> \<not> truthy (dget run ''control_only'')
             else fallback)"

section \<open>Risk\<close>

text \<open>\<open>re.sub\<close>: every leftmost match is replaced, and the search goes on behind it. From one start each pattern below has
  at most one end, and none matches the empty text.\<close>

definition rx_first :: "rx \<Rightarrow> string \<Rightarrow> nat \<Rightarrow> nat option" where
  "rx_first r w i = (case rx_ends r w i of [] \<Rightarrow> None | j # _ \<Rightarrow> if i < j then Some j else None)"

fun rx_sub_at :: "nat \<Rightarrow> rx \<Rightarrow> string \<Rightarrow> string \<Rightarrow> nat \<Rightarrow> string" where
  "rx_sub_at 0 r by w i = []"
| "rx_sub_at (Suc n) r by w i =
     (if length w \<le> i then []
      else (case rx_first r w i of
          Some j \<Rightarrow> by @ rx_sub_at n r by w j
        | None \<Rightarrow> w ! i # rx_sub_at n r by w (Suc i)))"

definition rx_sub :: "rx \<Rightarrow> string \<Rightarrow> string \<Rightarrow> string" where
  "rx_sub r by w = rx_sub_at (length w) r by w 0"

definition gap1 :: rx where
  "gap1 = plus (Sat is_space)"

text \<open>A word or phrase between word boundaries, in any case.\<close>

definition phrase :: "string list \<Rightarrow> rx" where
  "phrase ws = seqs (WordB # (case ws of [] \<Rightarrow> [] | w # vs \<Rightarrow> lit_i w # concat (map (\<lambda>v. [gap1, lit_i v]) vs)) @ [WordB])"

definition negated_patterns :: "rx list" where
  "negated_patterns =
     [seqs [WordB, lit_i ''non'', opt (Sat (\<lambda>c. c = CHR ''-'' \<or> c = CHR '' '')), lit_i ''production'', WordB],
      phrase [''no'', ''production''], phrase [''no'', ''deployment''],
      seqs [WordB, lit_i ''do'', gap1, lit_i ''not'', gap1,
        alts (map lit_i [''deploy'', ''push'', ''merge'', ''delete'', ''restart'', ''send'']), WordB],
      seqs [WordB, alts (map lit_i [''production'', ''deployment'', ''deploy'', ''merge'', ''delete'']), gap1,
        alts [lit_i ''forbidden'', lit_i ''prohibited'', seqs [lit_i ''not'', gap1, lit_i ''allowed'']], WordB]]"

text \<open>The patterns with their texts; \<^verbatim>\<open>~\<close> stands for the backslash.\<close>

definition pattern_text :: "string \<Rightarrow> string" where
  "pattern_text s = map (\<lambda>c. if c = CHR ''~'' then CHR 0x5C else c) s"

definition risk_patterns :: "(string \<times> rx) list" where
  "risk_patterns = map (\<lambda>(t, r). (pattern_text t, r))
     [(''~bproduction~b'', phrase [''production'']), (''~bprod~b'', phrase [''prod'']), (''~bdeploy~b'', phrase [''deploy'']),
      (''~bgit~s+push~b'', phrase [''git'', ''push'']), (''~bmerge~b'', phrase [''merge'']),
      (''~brm~s+-'', seqs [WordB, lit_i ''rm'', gap1, lit ''-'']), (''~bdrop~s+table~b'', phrase [''drop'', ''table'']),
      (''~btruncate~b'', phrase [''truncate'']), (''~bsystemctl~s+restart~b'', phrase [''systemctl'', ''restart'']),
      (''~bservice~s+restart~b'', phrase [''service'', ''restart'']), (''~bdelete~b'', phrase [''delete'']),
      (''~bexternal~s+send~b'', phrase [''external'', ''send'']),
      (''DB~s*(write|update|delete|insert)'', seqs [lit_i ''db'', Star (Sat is_space), alts (map lit_i [''write'', ''update'', ''delete'', ''insert''])])]"

definition risk_text :: "string \<Rightarrow> string" where
  "risk_text text = foldl (\<lambda>w r. rx_sub r ''SAFE_BOUNDARY'' w) text negated_patterns"

definition context_text :: "std \<Rightarrow> pydict \<Rightarrow> string res" where
  "context_text S ctx =
     rbind (py_items (dget_or ctx ''command_texts'' (PList []))) (\<lambda>cs.
     Inr (join [CHR 0x0A] (text_or S (dget ctx ''latest_user'') # map (str_of S) cs)))"

definition mail_channels :: "string list" where
  "mail_channels = [''telegram'', ''whatsapp'', ''slack'', ''email'']"

text \<open>The facts about the scope of the session.\<close>

definition risk_scope :: "std \<Rightarrow> pydict \<Rightarrow> pydict res" where
  "risk_scope S ctx =
     rbind (context_text S ctx) (\<lambda>text.
     let key = text_or S (dget ctx ''session_key''); channel = lower (text_or S (dget ctx ''channel''));
         matches = map fst (filter (\<lambda>(t, r). rx_search r (risk_text text)) risk_patterns);
         protected_key = list_ex (contains key) ['':telegram:'', '':cron:'', '':fast-gateway'', handoff_tag, recovery_tag];
         protected = protected_key \<or> List.member mail_channels channel \<or> matches \<noteq> []
     in Inr [(''production'', PBool (matches \<noteq> [])),
             (''destructive'', PBool (list_ex (\<lambda>r. rx_search r text)
                [lit_i ''delete'', lit_i ''drop'', lit_i ''truncate'', seqs [lit_i ''rm'', gap1, lit ''-'']])),
             (''external_send'', PBool (List.member mail_channels channel \<or> rx_search (seqs [lit_i ''external'', gap1, lit_i ''send'']) text)),
             (''unknown'', PBool False), (''protected_session_key'', PBool protected_key),
             (''risk_matches'', str_list (take 8 matches)),
             (''auto_recovery_allowed'', PBool (\<not> protected \<and> \<not> List.member terminal_sessions (lower (text_or S (dget ctx ''status'')))))])"

section \<open>The snapshot\<close>

text \<open>\<open>_make_snapshot\<close>; the two clock readings and the identifier of the snapshot are arguments.\<close>

definition last_activity_age :: "pydict \<Rightarrow> int \<Rightarrow> pyval" where
  "last_activity_age ctx now_ms =
     (case real_of (por (dget ctx ''transcript_updated_at'') (dget ctx ''started_at'')) of
        None \<Rightarrow> PNone
      | Some t \<Rightarrow> PFloat (round1 (of_int (now_ms - truncated t) / 1000)))"

definition trace_int :: "pydict \<Rightarrow> string \<Rightarrow> int" where
  "trace_int trace k = (case int_of (dget trace k) of None \<Rightarrow> 0 | Some n \<Rightarrow> n)"

definition detected :: "pydict \<Rightarrow> pyval" where
  "detected detection = por (dget detection ''evidence'') (PDict [])"

definition progress_facts :: "pydict \<Rightarrow> pydict \<Rightarrow> pydict \<Rightarrow> int \<Rightarrow> pydict" where
  "progress_facts ctx trace detection now_ms =
     [(''session_status'', dget ctx ''status''), (''latest_run'', dget ctx ''latest_run''), (''last_activity_age_sec'', last_activity_age ctx now_ms)] @
     map (\<lambda>k. (k, dget trace k)) [''assistant_turns'', ''tool_call_count'', ''tool_result_count'', ''inflight_tool_calls'', ''successful_tool_results'',
       ''tool_error_count'', ''exec_nonzero_count'', ''meaningful_result_count'', ''meaningful_progress_age_sec'', ''latest_total_tokens''] @
     [(''detection_kind'', dget detection ''kind''), (''detection_severity'', dget detection ''severity''), (''detection_evidence'', detected detection)]"

definition repetition_facts :: "pydict \<Rightarrow> pydict \<Rightarrow> pydict" where
  "repetition_facts trace detection =
     map (\<lambda>k. (k, dget trace k)) [''repeated_tool_calls'', ''repeated_results'', ''unique_tool_count'', ''dominant_tool_ratio'', ''exec_nonzero_count'',
       ''meaningful_result_count''] @
     [(''detector_kind'', dget detection ''kind''),
      (''count'', PInt (max (trace_int trace ''repeated_tool_calls'') (trace_int trace ''repeated_results'')))]"

definition recent_facts :: "std \<Rightarrow> pydict \<Rightarrow> pydict \<Rightarrow> pydict \<Rightarrow> pyval list" where
  "recent_facts S ctx trace detection =
     (let seen = (case as_list (dget trace ''recent_events'') of None \<Rightarrow> [] | Some xs \<Rightarrow> xs) in
      PDict [(''type'', PStr ''detector''), (''kind'', dget detection ''kind''), (''severity'', dget detection ''severity''), (''evidence'', detected detection)] #
      drop (length seen - 8) seen @
      (if truthy (dget ctx ''latest_user'')
       then [PDict [(''type'', PStr ''task_context''), (''text'', PStr (take 700 (str_of S (dget ctx ''latest_user''))))]] else []))"

definition known :: "pyval \<Rightarrow> availability" where
  "known v = \<lparr>av_ok = True, av_value = v, av_reason = None\<rparr>"

text \<open>The database is opened twice, once for the context and once for the trace; a trace that cannot be read is
  unavailable.\<close>

definition make_snapshot ::
  "std \<Rightarrow> (string \<Rightarrow> pyval option) \<Rightarrow> session_db option \<Rightarrow> session_db option \<Rightarrow> string \<Rightarrow> string \<Rightarrow> pydict \<Rightarrow> int \<Rightarrow> int \<Rightarrow> rat \<Rightarrow> string \<Rightarrow>
   (pydict \<times> snapshot) res" where
  "make_snapshot S loads db traced ag session detection trace_ms now_ms now i =
     rbind (session_context S loads db) (\<lambda>ctx.
     rbind (case traced of None \<Rightarrow> Inl (Raised ''RuntimeError'' ''SESSION_TRACE_UNAVAILABLE'')
                         | Some d \<Rightarrow> Inr (read_session_trace S loads trace_ms (sd_transcript d))) (\<lambda>trace.
     rbind (risk_scope S ctx) (\<lambda>scope.
     let status = lower (text_or S (dget ctx ''status'')); live_now = \<not> List.member terminal_sessions status;
         a = \<lparr>ac_agent = ag, ac_session = session, ac_status = (if live_now then ''RUNNING'' else upper status),
              ac_progress = known (PDict (progress_facts ctx trace detection now_ms)),
              ac_process = known (PDict [(''session_nonterminal'', PBool live_now), (''inflight_tool_calls'', dget trace ''inflight_tool_calls'')]),
              ac_context = known (PDict [(''latest_total_tokens'', dget trace ''latest_total_tokens''), (''token_sum'', dget trace ''token_sum'')]),
              ac_scope = known (PDict scope), ac_events = known (PList (recent_facts S ctx trace detection)),
              ac_task = ''live:'' @ ag @ '':'' @ session, ac_generation = 0\<rparr>
     in Inr (ctx, \<lparr>sn_id = i, sn_captured = now, sn_activity = a, sn_progress = ac_progress a,
          sn_artifacts = unsupported ''generic live task artifact contract unavailable'', sn_git = unsupported ''generic live task git contract unavailable'',
          sn_checkpoint = unsupported ''generic live checkpoint unavailable'',
          sn_tests = (if 0 < trace_int trace ''exec_success_count'' then known (PDict [(''exec_success_count'', dget trace ''exec_success_count'')])
                      else unsupported ''no successful exec evidence''),
          sn_repetition = known (PDict (repetition_facts trace detection))\<rparr>))))"

end
