(* ===== verification/JevLive.thy ===== *)
theory JevLive
  imports JevSession
begin

text \<open>
  \<^verbatim>\<open>jev_recovery_live.py\<close>: the supervised recovery of live agent sessions. Its state \<open>live\<close> is the module's: the rows of the
  history file, the sessions under recovery and under a nudge, the confirmations, the files it writes and the threads it has
  started; the databases, the judge, the agent's command line, the bridge to the gateway, the configuration, the clock and
  the identifiers are the record \<open>live_deps\<close>. A row of the history is kept as the value its line is read back to, and a
  thread runs in one step, after the request that started it.
\<close>

section \<open>State\<close>

record nudge_job =
  nj_agent :: string
  nj_session :: string
  nj_key :: string
  nj_digest :: string
  nj_id :: string
  nj_baseline :: pydict

record recover_job =
  rj_agent :: string
  rj_session :: string
  rj_key :: string
  rj_ctx :: pydict
  rj_snapshot :: snapshot
  rj_detection :: pydict
  rj_choice :: string
  rj_confidence :: pyval

record 'w live =
  lv_history :: "pydict list"
  lv_inflight :: "string list"
  lv_nudging :: "string list"
  lv_confirm :: "(string \<times> nat \<times> rat \<times> string) list"
  lv_files :: "(string \<times> string) list"
  lv_nudges :: "nudge_job list"
  lv_recoveries :: "recover_job list"
  lv_phase :: string
  lv_beyond :: 'w

record 'w live_deps =
  le_std :: std
  le_loads :: "string \<Rightarrow> pyval option"
  le_float :: "string \<Rightarrow> rat option"
  le_clock :: "'w \<Rightarrow> rat \<times> 'w"
  le_uuid :: "'w \<Rightarrow> string \<times> 'w"
  le_session :: "string \<Rightarrow> string \<Rightarrow> 'w \<Rightarrow> session_db option res \<times> 'w"
  le_judge :: "pydict \<Rightarrow> string \<Rightarrow> 'w \<Rightarrow> jev_decision res \<times> 'w"
  le_enabled :: "'w \<Rightarrow> string"
  le_config :: "'w \<Rightarrow> pyval res \<times> 'w"
  le_home :: string
  le_resolve :: "string \<Rightarrow> string"
  le_turn :: "string \<Rightarrow> string \<Rightarrow> string \<Rightarrow> int \<Rightarrow> 'w \<Rightarrow> (int \<times> string) res \<times> 'w"
  le_hello :: "'w \<Rightarrow> pydict res \<times> 'w"
  le_reply :: "pydict \<Rightarrow> 'w \<Rightarrow> pydict res \<times> 'w"

definition live_world :: "('w \<Rightarrow> 'a res \<times> 'w) \<Rightarrow> ('w live, 'a) op" where
  "live_world f s = (case f (lv_beyond s) of (r, w) \<Rightarrow> (r, s\<lparr>lv_beyond := w\<rparr>))"

definition live_read :: "('w \<Rightarrow> 'a \<times> 'w) \<Rightarrow> ('w live, 'a) op" where
  "live_read f s = (case f (lv_beyond s) of (x, w) \<Rightarrow> (Inr x, s\<lparr>lv_beyond := w\<rparr>))"

definition live_clock :: "'w live_deps \<Rightarrow> ('w live, rat) op" where
  "live_clock D = live_read (le_clock D)"

definition append_live :: "pydict \<Rightarrow> ('w live, unit) op" where
  "append_live row = modify (\<lambda>s. s\<lparr>lv_history := lv_history s @ [row]\<rparr>)"

definition latest :: "nat \<Rightarrow> 'a list \<Rightarrow> 'a list" where
  "latest n xs = drop (length xs - n) xs"

definition has_text :: "pydict \<Rightarrow> string \<Rightarrow> string \<Rightarrow> bool" where
  "has_text row k s \<longleftrightarrow> dget row k = PStr s"

section \<open>Confirmations\<close>

text \<open>\<open>_reset_salvage_confirmation\<close> and \<open>_confirm_salvage\<close>: two decisions on the same state, 45 seconds apart.\<close>

definition reset_confirmation :: "string \<Rightarrow> ('w live, unit) op" where
  "reset_confirmation session = modify (\<lambda>s. s\<lparr>lv_confirm := AList.delete session (lv_confirm s)\<rparr>)"

definition next_confirmation :: "rat \<Rightarrow> string \<Rightarrow> (nat \<times> rat \<times> string) option \<Rightarrow> nat \<times> rat \<times> string" where
  "next_confirmation current digest previous =
     (case previous of
        None \<Rightarrow> (1, current, digest)
      | Some (count, last_at, earlier) \<Rightarrow>
          if earlier \<noteq> digest then (1, current, digest)
          else if 45 \<le> current - last_at then (count + 1, current, digest) else (count, last_at, digest))"

definition confirm_salvage :: "'w live_deps \<Rightarrow> string \<Rightarrow> string \<Rightarrow> ('w live, nat) op" where
  "confirm_salvage D session digest =
     bnd (live_clock D) (\<lambda>current.
     bnd (gets lv_confirm) (\<lambda>m.
     let entry = next_confirmation current digest (map_of m session)
     in bnd (modify (\<lambda>s. s\<lparr>lv_confirm := AList.update session entry (lv_confirm s)\<rparr>)) (\<lambda>u. ret (fst entry))))"

text \<open>\<open>_recovery_attempt_exists\<close>: a phase or an outcome of a recovery among the latest rows.\<close>

definition recovery_phases :: "string list" where
  "recovery_phases = [''A_HANDOFF'', ''B_TERMINATE'', ''C_RESTART'', ''D_ACK'', ''E_COMPLETE'']"

definition attempt_row :: "string \<Rightarrow> pydict \<Rightarrow> bool" where
  "attempt_row session row \<longleftrightarrow> has_text row ''source_session_id'' session \<and>
     (has_text row ''type'' ''live_recovery_phase'' \<and> list_ex (has_text row ''phase'') recovery_phases \<or>
      has_text row ''type'' ''live_recovery_outcome'')"

definition attempt_exists :: "pydict list \<Rightarrow> string \<Rightarrow> bool" where
  "attempt_exists history session = list_ex (attempt_row session) (latest 2000 history)"

section \<open>Nudges\<close>

definition count_metrics :: "string list" where
  "count_metrics = [''assistant_turns'', ''tool_call_count'', ''tool_result_count'', ''meaningful_result_count'', ''latest_total_tokens'']"

text \<open>\<open>int(value.get(k) or 0)\<close> of the numbers that the trace and the rows hold.\<close>

definition metric :: "pydict \<Rightarrow> string \<Rightarrow> int" where
  "metric d k = (case real_of (dget d k) of None \<Rightarrow> 0 | Some x \<Rightarrow> truncated x)"

definition metrics_of :: "pydict \<Rightarrow> pydict" where
  "metrics_of v =
     map (\<lambda>k. (k, PInt (metric v k))) count_metrics @
     [(''meaningful_progress_age_sec'', case real_of (dget v ''meaningful_progress_age_sec'') of None \<Rightarrow> PNone | Some x \<Rightarrow> PFloat x),
      (''inflight_tool_calls'', PInt (metric v ''inflight_tool_calls''))]"

definition snapshot_metrics :: "snapshot \<Rightarrow> pydict" where
  "snapshot_metrics sn = metrics_of (if av_ok (sn_progress sn) then dict_or_empty (av_value (sn_progress sn)) else [])"

text \<open>\<open>_nudge_worker_activity\<close>: what moved since the baseline.\<close>

definition worker_activity :: "pydict \<Rightarrow> pydict \<Rightarrow> string \<Rightarrow> string list" where
  "worker_activity baseline now reply =
     filter (\<lambda>k. metric baseline k < metric now k) count_metrics @
     (case (real_of (dget baseline ''meaningful_progress_age_sec''), real_of (dget now ''meaningful_progress_age_sec'')) of
        (Some earlier, Some later) \<Rightarrow> if later + 5 < earlier then [''meaningful_progress_age_sec''] else []
      | _ \<Rightarrow> []) @
     (if strip reply = [] then [] else [''assistant_reply''])"

text \<open>\<open>_latest_nudge_state\<close>: the last dispatch for the session, and what became of it.\<close>

definition nudge_row :: "string \<Rightarrow> pydict option \<times> pydict option \<Rightarrow> pydict \<Rightarrow> pydict option \<times> pydict option" where
  "nudge_row session acc row =
     (if \<not> has_text row ''session_id'' session then acc
      else if has_text row ''type'' ''live_nudge_dispatch'' then (Some row, None)
      else (case fst acc of
          None \<Rightarrow> acc
        | Some d \<Rightarrow>
            if dget row ''dispatch_id'' = dget d ''dispatch_id'' \<and>
               (has_text row ''type'' ''live_nudge_outcome'' \<or> has_text row ''type'' ''live_nudge_error'')
            then (Some d, Some row) else acc))"

definition latest_nudge :: "pydict list \<Rightarrow> string \<Rightarrow> pydict option \<times> pydict option" where
  "latest_nudge history session = foldl (nudge_row session) (None, None) (latest 2000 history)"

definition periodic_candidate :: "string \<Rightarrow> pydict \<Rightarrow> bool" where
  "periodic_candidate kind detection \<longleftrightarrow>
     kind = ''PERIODIC_HEALTH'' \<and> has_text (dict_or_empty (dget detection ''evidence'')) ''source'' ''periodic_supervisor''"

text \<open>\<open>_nudge_guard\<close>: the first check that fails, or the reason to go on.\<close>

definition guard_checks ::
  "std \<Rightarrow> pydict list \<Rightarrow> pydict \<Rightarrow> snapshot \<Rightarrow> pydict \<Rightarrow> string \<Rightarrow> string \<Rightarrow> string \<Rightarrow> pydict \<Rightarrow> (bool \<times> string) list" where
  "guard_checks S history ctx sn scope session role kind detection =
     (let m = snapshot_metrics sn in
      [(role = ''task'', ''not_task_session''), source_task_active S ctx,
       (runtime_recovery_safe S ctx (Some sn), ''runtime_evidence_not_safe''),
       (metric m ''inflight_tool_calls'' = 0, ''inflight_tool_active''),
       (case real_of (dget m ''meaningful_progress_age_sec'') of None \<Rightarrow> False | Some x \<Rightarrow> 60 \<le> x, ''recent_or_unobservable_progress''),
       (truthy (dget scope ''auto_recovery_allowed''), ''scope_blocks_auto_action''),
       (\<not> attempt_exists history session, ''recovery_attempt_exists''),
       (periodic_candidate kind detection, ''periodic_supervisor_only'')])"

definition nudge_guard ::
  "std \<Rightarrow> pydict list \<Rightarrow> pydict \<Rightarrow> snapshot \<Rightarrow> pydict \<Rightarrow> string \<Rightarrow> string \<Rightarrow> string \<Rightarrow> string \<Rightarrow> pydict \<Rightarrow> bool \<times> string" where
  "nudge_guard S history ctx sn scope session role digest kind detection =
     (case filter (\<lambda>(ok, why). \<not> ok) (guard_checks S history ctx sn scope session role kind detection) of
        (ok, why) # _ \<Rightarrow> (False, why)
      | [] \<Rightarrow>
          (case fst (latest_nudge history session) of
             None \<Rightarrow> (True, ''nudge_guard_pass'')
           | Some prior \<Rightarrow>
               if text_or S (dget prior ''stable_state_digest'') = digest then (False, ''same_stable_state_already_nudged'')
               else if worker_activity (dict_or_empty (dget prior ''baseline'')) (snapshot_metrics sn) [] = []
               then (False, ''prior_nudge_without_worker_activity'')
               else (True, ''nudge_guard_pass'')))"

section \<open>The agent's command line and the bridge\<close>

text \<open>\<open>_parse_agent_turn_stdout\<close>: the four fields the callers read.\<close>

record agent_reply =
  ar_status :: pyval
  ar_text :: string
  ar_session :: pyval
  ar_summary :: pyval

definition or_dict :: "pyval \<Rightarrow> pyval" where
  "or_dict v = por v (PDict [])"

definition payload_text :: "std \<Rightarrow> pyval list \<Rightarrow> string" where
  "payload_text S vs = strip (join nl (map (\<lambda>d. text_or S (dget d ''text'')) (List.map_filter as_dict vs)))"

definition parse_turn :: "std \<Rightarrow> (string \<Rightarrow> pyval option) \<Rightarrow> string \<Rightarrow> agent_reply res" where
  "parse_turn S loads out =
     (case loads out of
        None \<Rightarrow> Inl (Raised ''RuntimeError'' ''OPENCLAW_AGENT_INVALID_JSON'')
      | Some v \<Rightarrow> (case as_dict v of
          None \<Rightarrow> Inl no_get
        | Some d \<Rightarrow>
            rbind (get_of (or_dict (dget d ''result'')) ''payloads'') (\<lambda>ps.
            rbind (py_items (por ps (PList []))) (\<lambda>vs.
            rbind (get_of (or_dict (dget d ''result'')) ''meta'') (\<lambda>meta.
            rbind (get_of (case as_dict (or_dict meta) of None \<Rightarrow> PDict [] | Some m \<Rightarrow> or_dict (dget m ''agentMeta'')) ''sessionId'') (\<lambda>i.
            Inr \<lparr>ar_status = dget d ''status'', ar_text = payload_text S vs, ar_session = i, ar_summary = dget d ''summary''\<rparr>))))))"

definition agent_turn :: "'w live_deps \<Rightarrow> string \<Rightarrow> string \<Rightarrow> string \<Rightarrow> int \<Rightarrow> ('w live, agent_reply) op" where
  "agent_turn D ag key message timeout =
     bnd (live_world (le_turn D ag key message timeout)) (\<lambda>(rc, out).
     if rc \<noteq> 0 then raise (Raised ''RuntimeError'' (''OPENCLAW_AGENT_FAILED:'' @ str_int rc))
     else lift (parse_turn (le_std D) (le_loads D) out))"

text \<open>The bridge: a fresh process per call, whose greeting is checked before the request is sent.\<close>

definition open_bridge :: "'w live_deps \<Rightarrow> ('w live, unit) op" where
  "open_bridge D =
     bnd (live_world (le_hello D)) (\<lambda>hello.
     if truthy (dget hello ''ready'') \<and> truthy (dget hello ''connectionId'') then ret ()
     else raise (Raised ''RuntimeError'' ''watchdog_abort_bridge_not_ready''))"

definition abort_request :: "string \<Rightarrow> string \<Rightarrow> string \<Rightarrow> pydict" where
  "abort_request ag key run_id =
     [(''id'', PStr ''jev-abort-1''), (''method'', PStr ''sessions.abort''),
      (''params'', PDict [(''key'', PStr key), (''agentId'', PStr ag), (''runId'', PStr run_id)]), (''timeoutMs'', PInt 10000)]"

definition request_abort :: "'w live_deps \<Rightarrow> string \<Rightarrow> string \<Rightarrow> string \<Rightarrow> ('w live, pydict) op" where
  "request_abort D ag key run_id =
     bnd (live_world (le_reply D (abort_request ag key run_id))) (\<lambda>response.
     case as_dict (dget response ''result'') of
       Some result \<Rightarrow>
         if has_text response ''id'' ''jev-abort-1'' \<and> dget response ''ok'' = PBool True then ret result
         else raise (Raised ''RuntimeError'' (named_or (le_std D) ''watchdog_abort_bridge_rejected'' (dget response ''error'')))
     | None \<Rightarrow> raise (Raised ''RuntimeError'' (named_or (le_std D) ''watchdog_abort_bridge_rejected'' (dget response ''error''))))"

definition abort_failures :: "string list" where
  "abort_failures = [''OSError'', ''BrokenPipeError'', ''RuntimeError'', ''TimeoutError'', ''JSONDecodeError'']"

definition abort_accepted :: "pydict \<Rightarrow> bool" where
  "abort_accepted d \<longleftrightarrow> has_text d ''status'' ''aborted'' \<or> truthy (dget d ''abortedRunId'') \<or> dget d ''aborted'' = PBool True"

definition abort_session :: "'w live_deps \<Rightarrow> string \<Rightarrow> string \<Rightarrow> string \<Rightarrow> ('w live, bool) op" where
  "abort_session D ag key run_id =
     (if run_id = [] then ret False else
      bnd (open_bridge D) (\<lambda>u.
      bnd (attempt (request_abort D ag key run_id)) (\<lambda>r.
      case r of
        Inl e \<Rightarrow> if List.member abort_failures (exn_name e) then ret False else raise e
      | Inr d \<Rightarrow> ret (abort_accepted d))))"

section \<open>The thread of a nudge\<close>

definition nudge_message :: string where
  "nudge_message = nudge_prefix @ nl @ ''Continue the current task in this same session and same scope.'' @
     nl @ ''Do not repeat completed work or expand the scope.'' @ nl @ ''If progress is possible, continue now.'' @
     nl @ ''Otherwise report only the current blocker.''"

definition nudge_fields :: "nudge_job \<Rightarrow> string \<Rightarrow> rat \<Rightarrow> pydict" where
  "nudge_fields j type now =
     [(''type'', PStr type), (''observed_at'', PFloat now), (''agent_id'', PStr (nj_agent j)), (''session_id'', PStr (nj_session j)),
      (''session_key'', PStr (nj_key j)), (''stable_state_digest'', PStr (nj_digest j)), (''dispatch_id'', PStr (nj_id j))]"

text \<open>The trace, and \<open>available: False\<close> when the database cannot be read.\<close>

definition live_trace :: "'w live_deps \<Rightarrow> string \<Rightarrow> string \<Rightarrow> ('w live, pydict) op" where
  "live_trace D ag session =
     bnd (attempt (live_world (le_session D ag session))) (\<lambda>r.
     case r of
       Inr (Some d) \<Rightarrow> bnd (live_clock D) (\<lambda>now. ret (read_session_trace (le_std D) (le_loads D) (truncated (now * 1000)) (sd_transcript d)))
     | Inr None \<Rightarrow> ret no_session_trace
     | Inl e \<Rightarrow> ret (trace_failed e))"

definition nudge_turn :: "'w live_deps \<Rightarrow> nudge_job \<Rightarrow> ('w live, unit) op" where
  "nudge_turn D j =
     bnd (agent_turn D (nj_agent j) (nj_key j) nudge_message 180) (\<lambda>reply.
     let returned = text_or (le_std D) (ar_session reply); same = (returned = nj_session j) in
     bnd (live_trace D (nj_agent j) (nj_session j)) (\<lambda>trace.
     let now = metrics_of trace; reasons = worker_activity (nj_baseline j) now (if same then ar_text reply else []) in
     bnd (live_clock D) (\<lambda>t.
     append_live (nudge_fields j ''live_nudge_outcome'' t @
       [(''status'', PStr (if same \<and> reasons \<noteq> [] then ''NUDGE_RECOVERED'' else if \<not> same then ''NUDGE_SESSION_MISMATCH'' else ''NUDGE_NO_ACTIVITY'')),
        (''same_session'', PBool same), (''returned_session_id'', if returned = [] then PNone else PStr returned),
        (''activity_reasons'', str_list reasons), (''baseline'', PDict (nj_baseline j)), (''current'', PDict now)]))))"

definition run_nudge :: "'w live_deps \<Rightarrow> nudge_job \<Rightarrow> ('w live, unit) op" where
  "run_nudge D j =
     bnd (attempt (nudge_turn D j)) (\<lambda>r.
     bnd (case r of
            Inr u \<Rightarrow> ret ()
          | Inl e \<Rightarrow> bnd (live_clock D) (\<lambda>t. append_live (nudge_fields j ''live_nudge_error'' t @
              [(''status'', PStr ''NUDGE_ERROR''), (''error'', PStr (exn_name e)), (''error_detail'', PStr (take 240 (exn_text e)))]))) (\<lambda>u.
     modify (\<lambda>s. s\<lparr>lv_nudging := removeAll (nj_session j) (lv_nudging s)\<rparr>)))"

text \<open>\<open>_pending_nudge_observation\<close>: a dispatch without an answer is recovered, awaited, or given up.\<close>

definition pending_fields :: "string \<Rightarrow> string \<Rightarrow> string \<Rightarrow> pydict \<Rightarrow> rat \<Rightarrow> pydict" where
  "pending_fields ag session key dispatch t =
     [(''type'', PStr ''live_nudge_outcome''), (''observed_at'', PFloat t), (''agent_id'', PStr ag), (''session_id'', PStr session),
      (''session_key'', PStr key), (''stable_state_digest'', dget dispatch ''stable_state_digest''), (''dispatch_id'', dget dispatch ''dispatch_id'')]"

definition pending_nudge :: "'w live_deps \<Rightarrow> string \<Rightarrow> string \<Rightarrow> string \<Rightarrow> snapshot \<Rightarrow> ('w live, pydict option) op" where
  "pending_nudge D ag session key sn =
     bnd (gets (\<lambda>s. latest_nudge (lv_history s) session)) (\<lambda>(dispatch, resolution).
     case (dispatch, resolution) of
       (Some d, None) \<Rightarrow>
         (let baseline = dict_or_empty (dget d ''baseline''); now = snapshot_metrics sn; reasons = worker_activity baseline now [] in
          if reasons \<noteq> [] then
            bnd (live_clock D) (\<lambda>t.
            let row = pending_fields ag session key d t @ [(''status'', PStr ''NUDGE_RECOVERED''), (''same_session'', PBool True),
                  (''activity_reasons'', str_list reasons), (''baseline'', PDict baseline), (''current'', PDict now)]
            in bnd (append_live row) (\<lambda>u. ret (Some (row @ [(''choice'', PStr ''CONTINUE''), (''action'', PStr ''NUDGE_RECOVERED'')]))))
          else
            bnd (gets (\<lambda>s. List.member (lv_nudging s) session)) (\<lambda>running.
            bnd (live_clock D) (\<lambda>t.
            let age = max 0 (t - (case real_of (dget d ''observed_at'') of None \<Rightarrow> 0 | Some x \<Rightarrow> x)) in
            if running \<or> age < 240 then
              ret (Some [(''status'', PStr ''NUDGE_PENDING''), (''agent_id'', PStr ag), (''session_id'', PStr session), (''choice'', PStr ''NUDGE''),
                         (''action'', PStr ''NUDGE_INFLIGHT_OBSERVE''), (''nudge_age_seconds'', PFloat (round1 age))])
            else
              bnd (live_clock D) (\<lambda>t2.
              bnd (append_live (pending_fields ag session key d t2 @ [(''status'', PStr ''NUDGE_NO_ACTIVITY''), (''same_session'', PBool True),
                (''reason'', PStr ''restart_hold_expired_without_worker_activity''), (''baseline'', PDict baseline), (''current'', PDict now)])) (\<lambda>u.
              ret None)))))
     | _ \<Rightarrow> ret None)"

section \<open>The handoff\<close>

definition phase_row :: "string \<Rightarrow> string \<Rightarrow> string \<Rightarrow> string \<Rightarrow> rat \<Rightarrow> pydict \<Rightarrow> pydict" where
  "phase_row session ag phase status now extra =
     [(''type'', PStr ''live_recovery_phase''), (''observed_at'', PFloat now), (''source_session_id'', PStr session), (''agent_id'', PStr ag),
      (''phase'', PStr phase), (''status'', PStr status)] @ extra"

definition append_phase :: "'w live_deps \<Rightarrow> string \<Rightarrow> string \<Rightarrow> string \<Rightarrow> string \<Rightarrow> pydict \<Rightarrow> ('w live, unit) op" where
  "append_phase D session ag phase status extra =
     bnd (live_clock D) (\<lambda>now. append_live (phase_row session ag phase status now extra))"

definition read_handoff :: "string \<Rightarrow> ('w live, unit) op" where
  "read_handoff path =
     bnd (gets (\<lambda>s. map_of (lv_files s) path)) (\<lambda>content.
     case content of
       None \<Rightarrow> raise (Raised ''FileNotFoundError'' path)
     | Some text \<Rightarrow> lift (validate_handoff (universal_newlines text)))"

text \<open>\<open>_validate_handoff\<close> and \<open>_bounded_lines\<close>.\<close>

definition handoff_ok :: "(string \<times> string) list \<Rightarrow> string \<Rightarrow> bool" where
  "handoff_ok written path = (case map_of written path of None \<Rightarrow> False | Some text \<Rightarrow> validate_handoff (universal_newlines text) = Inr ())"

definition single_line :: "string \<Rightarrow> string" where
  "single_line s = join '' '' (split_words s)"

definition bounded_lines :: "std \<Rightarrow> pyval \<Rightarrow> string \<Rightarrow> nat \<Rightarrow> nat \<Rightarrow> string list" where
  "bounded_lines S v fallback limit width =
     (let vs = (case v of PList xs \<Rightarrow> xs | PTuple xs \<Rightarrow> xs | _ \<Rightarrow> []);
          lines = take limit (filter (\<lambda>t. t \<noteq> []) (map (\<lambda>x. single_line (text_or S x)) vs))
      in if lines = [] then [fallback] else map (take width) lines)"

definition code_task :: "std \<Rightarrow> pydict \<Rightarrow> string \<Rightarrow> string" where
  "code_task S ctx session =
     (let t = take 1200 (single_line (text_or S (dget ctx ''latest_user'')))
      in if t = [] then ''Continue unresolved task from source session '' @ session @ ''.'' else t)"

definition code_tests :: "std \<Rightarrow> pydict \<Rightarrow> string" where
  "code_tests S ctx =
     (let run = dict_or_empty (dget ctx ''latest_run'')
      in ''Latest runtime run_id='' @ named_or S ''unavailable'' (por (dget run ''run_id'') (dget ctx ''run_id'')) @ ''; status='' @
         named_or S ''unknown'' (dget run ''status'') @ ''; verify task-specific tests in the recovery session.'')"

definition code_failed :: "std \<Rightarrow> pydict \<Rightarrow> string \<Rightarrow> string list" where
  "code_failed S ctx trigger =
     (if trigger \<noteq> ''LOOP''
      then [''No single failed method was deterministically identified. Do not repeat any recent approach that produces the same no-progress state.'']
      else bounded_lines S (dget ctx ''command_texts'')
        ''Exact failed command unavailable; do not repeat the recent no-progress method identified by the watchdog.'' 4 500)"

definition code_values :: "std \<Rightarrow> string \<Rightarrow> string \<Rightarrow> pydict \<Rightarrow> pydict \<Rightarrow> string list" where
  "code_values S ag session detection ctx =
     (let task = code_task S ctx session; trigger = upper (named_or S ''UNKNOWN'' (dget detection ''kind'')) in
      [task, ag, session, ''1'',
       bullets (bounded_lines S (dget ctx ''recent_assistant_texts'')
         ''No verified completed-work summary is available from generic watchdog evidence.'' 3 700),
       ''- No changed-file evidence is available from the generic watchdog snapshot; verify current workspace state before editing.'',
       bullets [code_tests S ctx],
       ''JEV recovery trigger='' @ trigger @ '', severity='' @ named_or S ''UNSPECIFIED'' (dget detection ''severity'') @
         ''. The source session showed sustained no-progress/abnormal evidence and requires a fresh bounded recovery attempt.'',
       bullets (code_failed S ctx trigger),
       ''- Re-check current workspace/task state, preserve completed work, and finish only unresolved requirements from this source task: '' @ take 800 task,
       ''Read this handoff, inspect only directly relevant current task files/state, and continue with a method different from anything listed under Failed Methods.''])"

definition code_handoff :: "std \<Rightarrow> string \<Rightarrow> string \<Rightarrow> string \<Rightarrow> pydict \<Rightarrow> pydict \<Rightarrow> rat \<Rightarrow> string" where
  "code_handoff S ag session key detection ctx now =
     ''# RECOVERY_HANDOFF'' @ nl @ nl @ concat (map2 section_text required_sections (code_values S ag session detection ctx)) @
     ''## Recovery Metadata'' @ nl @ ''- source_session_key: '' @ key @ nl @ ''- writer: deterministic-code'' @ nl @
     ''- created_at: '' @ float_repr S now @ nl @ nl @ ''## Safety'' @ nl @
     ''- This handoff is evidence, not authorization. Preserve original approval/policy boundaries.'' @ nl"

definition is_runtime_error :: "exn \<Rightarrow> bool" where
  "is_runtime_error e \<longleftrightarrow> exn_name e = ''RuntimeError''"

definition live_context :: "'w live_deps \<Rightarrow> string \<Rightarrow> string \<Rightarrow> ('w live, pydict) op" where
  "live_context D ag session =
     bnd (live_world (le_session D ag session)) (\<lambda>db. lift (session_context (le_std D) (le_loads D) db))"

text \<open>\<open>_write_code_handoff\<close>: a valid document is kept; otherwise one is written beside its place, read, moved and read again.\<close>

definition write_code_handoff ::
  "'w live_deps \<Rightarrow> string \<Rightarrow> string \<Rightarrow> string \<Rightarrow> pydict \<Rightarrow> string \<Rightarrow> ('w live, unit) op" where
  "write_code_handoff D ag session key detection path =
     (let extra = [(''handoff_path'', PStr path), (''writer'', PStr ''code'')]; temp = path @ ''.tmp'' in
      bnd (gets (\<lambda>s. handoff_ok (lv_files s) path)) (\<lambda>there.
      if there then append_phase D session ag ''A_HANDOFF'' ''REUSED'' extra else
      bnd (append_phase D session ag ''A_HANDOFF'' ''STARTED'' extra) (\<lambda>u.
      bnd (attempt (live_context D ag session)) (\<lambda>r.
      bnd (case r of Inr ctx \<Rightarrow> ret ctx | Inl e \<Rightarrow> if is_runtime_error e then ret [] else raise e) (\<lambda>ctx.
      bnd (live_clock D) (\<lambda>now.
      bnd (modify (\<lambda>s. s\<lparr>lv_files := AList.update temp (code_handoff (le_std D) ag session key detection ctx now) (lv_files s)\<rparr>)) (\<lambda>u.
      bnd (read_handoff temp) (\<lambda>u.
      bnd (modify (\<lambda>s. s\<lparr>lv_files := AList.update path (code_handoff (le_std D) ag session key detection ctx now) (AList.delete temp (lv_files s))\<rparr>)) (\<lambda>u.
      bnd (read_handoff path) (\<lambda>u.
      append_phase D session ag ''A_HANDOFF'' ''COMPLETE'' extra))))))))))"

section \<open>Termination and restart\<close>

text \<open>\<open>_phase_b_terminate_source\<close>: attempted, confirmed, and whether to go on.\<close>

definition terminate_source :: "'w live_deps \<Rightarrow> string \<Rightarrow> string \<Rightarrow> string \<Rightarrow> ('w live, bool \<times> bool \<times> bool) op" where
  "terminate_source D ag session key =
     bnd (append_phase D session ag ''B_TERMINATE'' ''STARTED'' []) (\<lambda>u.
     bnd (live_context D ag session) (\<lambda>fresh.
     case source_task_active (le_std D) fresh of (active, why) \<Rightarrow>
     if \<not> active then
       bnd (append_phase D session ag ''B_TERMINATE'' ''SKIPPED_NO_ACTIVE_TASK''
              [(''reason'', PStr why), (''abort_attempted'', PBool False), (''abort_confirmed'', PBool False)]) (\<lambda>u.
       ret (False, False, False))
     else (let run_id = text_or (le_std D) (dget fresh ''run_id'') in
       if run_id = [] then raise (Raised ''RuntimeError'' ''SOURCE_RUN_ID_MISSING'') else
       bnd (abort_session D ag key run_id) (\<lambda>confirmed.
       if confirmed then
         bnd (append_phase D session ag ''B_TERMINATE'' ''COMPLETE'' [(''abort_attempted'', PBool True), (''abort_confirmed'', PBool True)]) (\<lambda>u.
         ret (True, True, True))
       else
         bnd (live_context D ag session) (\<lambda>later.
         case source_task_active (le_std D) later of (still, why2) \<Rightarrow>
         if still then raise (Raised ''RuntimeError'' ''SOURCE_ABORT_FAILED'') else
         bnd (append_phase D session ag ''B_TERMINATE'' ''SOURCE_TERMINATED_ABORT_UNCONFIRMED''
                [(''reason'', PStr why2), (''abort_attempted'', PBool True), (''abort_confirmed'', PBool False)]) (\<lambda>u.
         ret (True, False, False)))))))"

text \<open>\<open>_latest_target_key\<close>: the newest session that a recovery of the source was restarted in.\<close>

definition target_row :: "string \<Rightarrow> pydict \<Rightarrow> bool" where
  "target_row session row \<longleftrightarrow> has_text row ''type'' ''live_recovery_phase'' \<and> has_text row ''source_session_id'' session \<and>
     has_text row ''phase'' ''C_RESTART'' \<and> truthy (dget row ''target_session_key'')"

definition latest_target_key :: "std \<Rightarrow> pydict list \<Rightarrow> string \<Rightarrow> string option" where
  "latest_target_key S history session =
     map_option (\<lambda>row. str_of S (dget row ''target_session_key'')) (find_last (target_row session) (latest 1000 history))"

definition target_key :: "std \<Rightarrow> pydict list \<Rightarrow> string \<Rightarrow> string \<Rightarrow> string" where
  "target_key S history ag session =
     (case latest_target_key S history session of Some k \<Rightarrow> if k = [] then ''agent:'' @ ag @ '':jev-recovery:'' @ session else k
      | None \<Rightarrow> ''agent:'' @ ag @ '':jev-recovery:'' @ session)"

definition resume_message :: "string \<Rightarrow> string" where
  "resume_message path = ''JEV RECOVERY MODE. Read '' @ path @ '' first. '' @
     ''Continue the interrupted task from that bounded handoff and current directly relevant workspace state. '' @
     ''Do not repeat completed work or any command/method listed under ## Failed Methods. '' @
     ''Do not search global OpenClaw history, unrelated sessions, detector logs, or the wider ~/.openclaw tree. '' @
     ''Respect all original approval, production, destructive-action, external-send, and permission boundaries. '' @
     ''If the handoff lacks enough evidence to continue safely, reply RECOVERY_BLOCKED with the missing evidence. '' @
     ''Otherwise finish and verify the legitimate remaining work, then reply RECOVERY_COMPLETE with a concise result.''"

definition recovery_status :: "string \<Rightarrow> string" where
  "recovery_status text =
     (if contains text ''RECOVERY_COMPLETE'' then ''RECOVERY_COMPLETE''
      else if contains text ''RECOVERY_BLOCKED'' then ''RECOVERY_BLOCKED'' else ''RECOVERY_UNVERIFIED'')"

definition restart_and_resume :: "'w live_deps \<Rightarrow> string \<Rightarrow> string \<Rightarrow> string \<Rightarrow> string \<Rightarrow> ('w live, agent_reply \<times> string) op" where
  "restart_and_resume D ag session path target =
     bnd (append_phase D session ag ''C_RESTART'' ''STARTED'' [(''target_session_key'', PStr target)]) (\<lambda>u.
     bnd (agent_turn D ag target (resume_message path) 600) (\<lambda>reply.
     let extra = [(''target_session_key'', PStr target), (''target_session_id'', ar_session reply)]; final = recovery_status (ar_text reply) in
     bnd (append_phase D session ag ''C_RESTART'' ''COMPLETE'' extra) (\<lambda>u.
     bnd (append_phase D session ag ''D_ACK'' ''IMPLICIT_BY_RECOVERY_TURN'' extra) (\<lambda>u.
     bnd (append_phase D session ag ''E_COMPLETE'' final extra) (\<lambda>u.
     ret (reply, final))))))"

section \<open>The thread of a recovery\<close>

definition get_or :: "pyval \<Rightarrow> string \<Rightarrow> pyval \<Rightarrow> pyval res" where
  "get_or v k w = (case as_dict v of None \<Rightarrow> Inl no_get | Some d \<Rightarrow> Inr (dget_or d k w))"

definition workspace_of :: "std \<Rightarrow> string \<Rightarrow> pyval \<Rightarrow> string \<Rightarrow> string res" where
  "workspace_of S home config ag =
     rbind (get_or config ''agents'' (PDict [])) (\<lambda>agents.
     rbind (get_or agents ''entries'' (PDict [])) (\<lambda>entries.
     rbind (get_of entries ag) (\<lambda>mine.
     rbind (get_of entries (lower ag)) (\<lambda>lowered.
     let workspace = dget (dict_or_empty (por mine (por lowered (PDict [])))) ''workspace'' in
     Inr (if truthy workspace then str_of S workspace else home @ ''/.openclaw/agents/'' @ ag)))))"

definition path_join :: "string \<Rightarrow> string \<Rightarrow> string" where
  "path_join a b = (if starts_with b ''/'' then b else a @ ''/'' @ b)"

definition handoff_path :: "'w live_deps \<Rightarrow> string \<Rightarrow> string \<Rightarrow> string" where
  "handoff_path D workspace session = path_join (path_join (le_resolve D workspace) ''.jev-recovery'') session @ ''/RECOVERY_HANDOFF.md''"

definition enter_phase :: "string \<Rightarrow> ('w live, unit) op" where
  "enter_phase p = modify (\<lambda>s. s\<lparr>lv_phase := p\<rparr>)"

definition live_snapshot :: "'w live_deps \<Rightarrow> string \<Rightarrow> string \<Rightarrow> pydict \<Rightarrow> ('w live, pydict \<times> snapshot) op" where
  "live_snapshot D ag session detection =
     bnd (live_world (le_session D ag session)) (\<lambda>db.
     bnd (lift (session_context (le_std D) (le_loads D) db)) (\<lambda>ctx.
     bnd (attempt (live_world (le_session D ag session))) (\<lambda>traced.
     bnd (live_clock D) (\<lambda>t1.
     bnd (live_clock D) (\<lambda>t2.
     bnd (live_read (le_uuid D)) (\<lambda>i.
     bnd (live_clock D) (\<lambda>t3.
     lift (make_snapshot (le_std D) (le_loads D) db (case traced of Inl e \<Rightarrow> None | Inr d \<Rightarrow> d) ag session detection
       (truncated (t1 * 1000)) (truncated (t2 * 1000)) t3 i))))))))"

definition scope_of :: "snapshot \<Rightarrow> pydict" where
  "scope_of sn = (if av_ok (ac_scope (sn_activity sn)) then dict_or_empty (av_value (ac_scope (sn_activity sn))) else [])"

definition stale_outcome :: "'w live_deps \<Rightarrow> recover_job \<Rightarrow> string \<Rightarrow> pydict \<Rightarrow> ('w live, unit) op" where
  "stale_outcome D j choice extra =
     bnd (live_clock D) (\<lambda>t. append_live
       ([(''type'', PStr ''live_recovery_outcome''), (''source_session_id'', PStr (rj_session j)), (''agent_id'', PStr (rj_agent j)),
         (''status'', PStr ''STALE_REEVALUATED_NO_ACTION''), (''observed_at'', PFloat t), (''fresh_choice'', PStr choice)] @ extra))"

text \<open>The facts are collected again; when they have changed the judge is asked again. The answer is the recovery to go on
  with, or nothing.\<close>

definition recheck :: "'w live_deps \<Rightarrow> recover_job \<Rightarrow> ('w live, recover_job option) op" where
  "recheck D j =
     bnd (live_snapshot D (rj_agent j) (rj_session j) (rj_detection j)) (\<lambda>(ctx, fresh).
     bnd (lift (snapshot_state_digest (le_std D) fresh)) (\<lambda>digest.
     bnd (lift (snapshot_state_digest (le_std D) (rj_snapshot j))) (\<lambda>earlier.
     if digest = earlier then ret (Some j) else
     bnd (lift (build_features (le_std D) fresh)) (\<lambda>(state, features).
     bnd (live_world (le_judge D features (''jev-live-recheck:'' @ rj_agent j @ '':'' @ rj_session j @ '':'' @ state))) (\<lambda>decision.
     bnd (live_clock D) (\<lambda>t.
     bnd (append_live [(''type'', PStr ''live_stale_recheck''), (''observed_at'', PFloat t), (''source_session_id'', PStr (rj_session j)),
            (''agent_id'', PStr (rj_agent j)), (''choice'', PStr (jd_choice decision)), (''confidence'', jd_confidence decision),
            (''stable_state_digest'', PStr digest)]) (\<lambda>u.
     if jd_choice decision \<noteq> ''SALVAGE'' \<or> \<not> truthy (dget (scope_of fresh) ''auto_recovery_allowed'')
     then bnd (stale_outcome D j (jd_choice decision) []) (\<lambda>u. ret None)
     else ret (Some (j\<lparr>rj_snapshot := fresh,
            rj_ctx := AList.updates [''agent_id'', ''session_id'', ''session_key''] [PStr (rj_agent j), PStr (rj_session j), PStr (rj_key j)] ctx,
            rj_choice := jd_choice decision, rj_confidence := jd_confidence decision\<rparr>)))))))))"

definition outcome_base :: "recover_job \<Rightarrow> string \<Rightarrow> bool \<Rightarrow> bool \<Rightarrow> rat \<Rightarrow> pydict" where
  "outcome_base j path attempted confirmed t =
     [(''type'', PStr ''live_recovery_outcome''), (''observed_at'', PFloat t), (''source_session_id'', PStr (rj_session j)),
      (''source_session_key'', PStr (rj_key j)), (''agent_id'', PStr (rj_agent j)), (''jev_choice'', PStr (rj_choice j)),
      (''jev_confidence'', rj_confidence j), (''handoff_path'', PStr path), (''handoff_valid'', PBool True),
      (''abort_attempted'', PBool attempted), (''abort_confirmed'', PBool confirmed)]"

text \<open>The phases of a recovery that is still wanted.\<close>

definition hand_on :: "'w live_deps \<Rightarrow> recover_job \<Rightarrow> ('w live, unit) op" where
  "hand_on D j =
     (case source_task_active (le_std D) (rj_ctx j) of (active, why) \<Rightarrow>
      if \<not> active then stale_outcome D j (rj_choice j) [(''reason'', PStr why)] else
      bnd (live_world (le_config D)) (\<lambda>config.
      bnd (lift (workspace_of (le_std D) (le_home D) config (rj_agent j))) (\<lambda>workspace.
      let path = handoff_path D workspace (rj_session j) in
      bnd (enter_phase ''A_HANDOFF'') (\<lambda>u.
      bnd (write_code_handoff D (rj_agent j) (rj_session j) (rj_key j) (rj_detection j) path) (\<lambda>u.
      bnd (enter_phase ''B_TERMINATE'') (\<lambda>u.
      bnd (terminate_source D (rj_agent j) (rj_session j) (rj_key j)) (\<lambda>(attempted, confirmed, go_on).
      if \<not> go_on then
        bnd (live_clock D) (\<lambda>t. append_live (outcome_base j path attempted confirmed t @
          [(''status'', PStr ''STALE_REEVALUATED_NO_ACTION''), (''reason'', PStr ''source_finished_before_confirmed_abort'')]))
      else
        bnd (enter_phase ''C_RESTART'') (\<lambda>u.
        bnd (gets (\<lambda>s. target_key (le_std D) (lv_history s) (rj_agent j) (rj_session j))) (\<lambda>target.
        bnd (restart_and_resume D (rj_agent j) (rj_session j) path target) (\<lambda>(reply, final).
        bnd (enter_phase ''E_COMPLETE'') (\<lambda>u.
        bnd (live_clock D) (\<lambda>t. append_live (outcome_base j path attempted confirmed t @
          [(''target_session_id'', ar_session reply), (''target_session_key'', PStr target), (''handoff_ack'', PBool True),
           (''logical_close'', PBool True), (''force_kill'', PBool False), (''delete'', PBool False),
           (''target_reply'', PStr (take 2000 (ar_text reply))), (''status'', PStr final)])))))))))))))"

definition recover_body :: "'w live_deps \<Rightarrow> recover_job \<Rightarrow> ('w live, unit) op" where
  "recover_body D j =
     bnd (enter_phase ''PRECHECK'') (\<lambda>u.
     bnd (recheck D j) (\<lambda>r. case r of None \<Rightarrow> ret () | Some k \<Rightarrow> hand_on D k))"

text \<open>\<open>_recover_live\<close>: whatever goes wrong ends in an outcome of its own.\<close>

definition recover_live :: "'w live_deps \<Rightarrow> recover_job \<Rightarrow> ('w live, unit) op" where
  "recover_live D j =
     bnd (attempt (recover_body D j)) (\<lambda>r.
     bnd (case r of
            Inr u \<Rightarrow> ret ()
          | Inl e \<Rightarrow>
              bnd (gets lv_phase) (\<lambda>phase.
              bnd (live_clock D) (\<lambda>t. append_live
                [(''type'', PStr ''live_recovery_outcome''), (''observed_at'', PFloat t), (''source_session_id'', PStr (rj_session j)),
                 (''agent_id'', PStr (rj_agent j)), (''status'', PStr ''RECOVERY_ERROR''), (''phase'', PStr phase),
                 (''error'', PStr (exn_name e)), (''error_detail'', PStr (take 240 (exn_text e)))]))) (\<lambda>u.
     modify (\<lambda>s. s\<lparr>lv_inflight := removeAll (rj_session j) (lv_inflight s)\<rparr>)))"

text \<open>\<open>_already_recovered\<close>, which nothing calls.\<close>

definition already_recovered :: "pydict list \<Rightarrow> string \<Rightarrow> bool" where
  "already_recovered history session =
     list_ex (\<lambda>row. has_text row ''type'' ''live_recovery_outcome'' \<and> has_text row ''source_session_id'' session \<and>
       list_ex (has_text row ''status'') [''RECOVERY_COMPLETE'', ''RECOVERY_BLOCKED'', ''RECOVERY_UNVERIFIED'']) (latest 500 history)"

end
