(* ===== verification/JevCandidate.thy ===== *)
theory JevCandidate
  imports JevLive
begin

text \<open>
  \<open>evaluate_live_candidate\<close> of \<^verbatim>\<open>jev_recovery_live.py\<close>: one request of the supervisor about one session, from the first
  checks to the thread it may start, and the module as a machine of such requests and of the threads they leave.
\<close>

section \<open>Skipping\<close>

definition allowed_kinds :: "string list" where
  "allowed_kinds = [''STALL'', ''LOOP'', ''COMPACTION_STREAK'', ''CONTEXT_EVIDENCE'', ''PERIODIC_HEALTH'']"

record candidate =
  cd_agent :: string
  cd_session :: string
  cd_key :: string
  cd_kind :: string
  cd_detection :: pydict

definition candidate_of :: "std \<Rightarrow> pydict \<Rightarrow> candidate res" where
  "candidate_of S p =
     (let field = (\<lambda>k. strip (text_or S (dget p k))); kind = upper (field ''kind'') in
      need (field ''agent_id'' \<noteq> [] \<and> field ''session_id'' \<noteq> [] \<and> field ''session_key'' \<noteq> [] \<and> List.member allowed_kinds kind)
        (ValueError ''INVALID_LIVE_CANDIDATE'')
        (Inr \<lparr>cd_agent = field ''agent_id'', cd_session = field ''session_id'', cd_key = field ''session_key'', cd_kind = kind,
              cd_detection = [(''kind'', PStr kind), (''severity'', dget p ''severity''), (''evidence'', por (dget p ''evidence'') (PDict []))]\<rparr>))"

definition skip_row :: "candidate \<Rightarrow> rat \<Rightarrow> string \<Rightarrow> string \<Rightarrow> pydict \<Rightarrow> pydict" where
  "skip_row c now status why extra =
     [(''type'', PStr ''live_candidate_skip''), (''observed_at'', PFloat now), (''agent_id'', PStr (cd_agent c)),
      (''session_id'', PStr (cd_session c)), (''session_key'', PStr (cd_key c)), (''kind'', PStr (cd_kind c)), (''status'', PStr status),
      (''reason'', PStr why)] @ extra @ [(''action'', PStr ''OBSERVE_ONLY'')]"

definition skipped :: "'w live_deps \<Rightarrow> candidate \<Rightarrow> string \<Rightarrow> string \<Rightarrow> pydict \<Rightarrow> ('w live, pydict) op" where
  "skipped D c status why extra =
     bnd (reset_confirmation (cd_session c)) (\<lambda>u.
     bnd (live_clock D) (\<lambda>now.
     let row = skip_row c now status why extra in bnd (append_live row) (\<lambda>u. ret row)))"

section \<open>Acting on the judge's answer\<close>

text \<open>\<open>_salvage_is_confident\<close>: the confidence, and the margin to the runner-up when the judge gives probabilities.\<close>

definition float_of :: "(string \<Rightarrow> rat option) \<Rightarrow> pyval \<Rightarrow> rat option" where
  "float_of parse v = (case v of PStr s \<Rightarrow> parse s | _ \<Rightarrow> real_of v)"

definition salvage_margin :: "(string \<Rightarrow> rat option) \<Rightarrow> jev_decision \<Rightarrow> rat option" where
  "salvage_margin parse j =
     (let others = List.map_filter (\<lambda>k. float_of parse (dget (jd_probabilities j) k)) [''WATCH'', ''CONTINUE'', ''NUDGE'', ''DEAD''] in
      case (float_of parse (dget (jd_probabilities j) ''SALVAGE''), others) of
        (Some x, y # ys) \<Rightarrow> Some (x - foldl max y ys)
      | _ \<Rightarrow> None)"

definition salvage_confident :: "(string \<Rightarrow> rat option) \<Rightarrow> jev_decision \<Rightarrow> bool \<times> string" where
  "salvage_confident parse j =
     (case float_of parse (jd_confidence j) of
        None \<Rightarrow> (False, ''low_confidence'')
      | Some x \<Rightarrow>
          if x < 7 / 10 then (False, ''low_confidence'')
          else (case salvage_margin parse j of
              None \<Rightarrow> (True, ''confident'')
            | Some m \<Rightarrow> if m < 1 / 5 then (False, ''low_margin'') else (True, ''confident'')))"

text \<open>The reasons not to recover, in their order, with what they add to the row.\<close>

definition salvage_blocks ::
  "'w live_deps \<Rightarrow> pydict list \<Rightarrow> candidate \<Rightarrow> pydict \<Rightarrow> snapshot \<Rightarrow> jev_decision \<Rightarrow> (bool \<times> string \<times> pydict) list" where
  "salvage_blocks D history c ctx sn j =
     (let role = session_role (cd_key c); (confident, why) = salvage_confident (le_float D) j;
          deferred = (\<lambda>r. [(''auto_recovery_deferred'', PBool True), (''defer_reason'', PStr r)]) in
      [(\<not> confident, ''SALVAGE_DEFERRED_RECHECK'', deferred why),
       (role = ''recovery'', ''RECOVERY_GENERATION_LIMIT'', [(''recovery_generation_limit'', PInt 1)]),
       (lower (cd_agent c) = ''main'', ''ESCALATE_MAIN'', []),
       (\<not> runtime_recovery_safe (le_std D) ctx (Some sn), ''SALVAGE_BLOCKED_NO_RUNTIME_EVIDENCE'', []),
       (\<not> truthy (dget (scope_of sn) ''auto_recovery_allowed''), ''SALVAGE_BLOCKED_BY_SCOPE'', []),
       (attempt_exists history (cd_session c), ''RECOVERY_ATTEMPT_EXISTS'', []),
       (\<not> periodic_candidate (cd_kind c) (cd_detection c), ''EVENT_EVIDENCE_ONLY'', deferred ''single_entry_periodic_supervisor_only'')])"

text \<open>\<open>_auto_recovery_execution_enabled\<close>.\<close>

definition recovery_enabled :: "string \<Rightarrow> bool" where
  "recovery_enabled v = List.member [''1'', ''true'', ''yes'', ''on''] (lower (strip v))"

definition recovery_job :: "candidate \<Rightarrow> pydict \<Rightarrow> snapshot \<Rightarrow> jev_decision \<Rightarrow> recover_job" where
  "recovery_job c ctx sn j =
     \<lparr>rj_agent = cd_agent c, rj_session = cd_session c, rj_key = cd_key c,
      rj_ctx = AList.updates [''agent_id'', ''session_id'', ''session_key''] [PStr (cd_agent c), PStr (cd_session c), PStr (cd_key c)] ctx,
      rj_snapshot = sn, rj_detection = cd_detection c, rj_choice = jd_choice j, rj_confidence = jd_confidence j\<rparr>"

definition start_recovery :: "candidate \<Rightarrow> pydict \<Rightarrow> snapshot \<Rightarrow> jev_decision \<Rightarrow> ('w live, string) op" where
  "start_recovery c ctx sn j =
     bnd (reset_confirmation (cd_session c)) (\<lambda>u.
     bnd (gets (\<lambda>s. List.member (lv_inflight s) (cd_session c))) (\<lambda>running.
     if running then ret ''RECOVERY_INFLIGHT'' else
     bnd (modify (\<lambda>s. s\<lparr>lv_inflight := cd_session c # lv_inflight s, lv_recoveries := lv_recoveries s @ [recovery_job c ctx sn j]\<rparr>)) (\<lambda>u.
     ret ''RECOVERY_STARTED'')))"

definition margin_field :: "'w live_deps \<Rightarrow> jev_decision \<Rightarrow> pydict" where
  "margin_field D j = [(''salvage_margin'', case salvage_margin (le_float D) j of None \<Rightarrow> PNone | Some m \<Rightarrow> PFloat m)]"

definition act_salvage ::
  "'w live_deps \<Rightarrow> candidate \<Rightarrow> pydict \<Rightarrow> snapshot \<Rightarrow> string \<Rightarrow> jev_decision \<Rightarrow> ('w live, string \<times> pydict) op" where
  "act_salvage D c ctx sn digest j =
     bnd (gets (\<lambda>s. filter fst (salvage_blocks D (lv_history s) c ctx sn j))) (\<lambda>blocks.
     case blocks of
       (b, action, extra) # _ \<Rightarrow> bnd (reset_confirmation (cd_session c)) (\<lambda>u. ret (action, margin_field D j @ extra))
     | [] \<Rightarrow>
         bnd (confirm_salvage D (cd_session c) digest) (\<lambda>n.
         let counted = margin_field D j @ [(''salvage_confirmation_count'', PInt (int n)), (''salvage_confirmation_required'', PInt 2)] in
         if n < 2 then ret (''SALVAGE_DEFERRED_RECHECK'',
                counted @ [(''auto_recovery_deferred'', PBool True), (''defer_reason'', PStr ''confirmation_required'')]) else
         bnd (gets (\<lambda>s. recovery_enabled (le_enabled D (lv_beyond s)))) (\<lambda>enabled.
         if \<not> enabled then ret (''RECOVERY_READY_OBSERVE_ONLY'',
                counted @ [(''auto_recovery_execution_enabled'', PBool False), (''recovery_ready'', PBool True)])
         else bnd (start_recovery c ctx sn j) (\<lambda>action. ret (action, counted)))))"

definition dispatch_row :: "candidate \<Rightarrow> string \<Rightarrow> string \<Rightarrow> pydict \<Rightarrow> rat \<Rightarrow> pydict" where
  "dispatch_row c digest i baseline now =
     [(''type'', PStr ''live_nudge_dispatch''), (''observed_at'', PFloat now), (''agent_id'', PStr (cd_agent c)),
      (''session_id'', PStr (cd_session c)), (''session_key'', PStr (cd_key c)), (''stable_state_digest'', PStr digest),
      (''dispatch_id'', PStr i), (''baseline'', PDict baseline), (''message_prefix'', PStr nudge_prefix)]"

text \<open>The nudge is recorded before its thread is started.\<close>

definition act_nudge ::
  "'w live_deps \<Rightarrow> candidate \<Rightarrow> pydict \<Rightarrow> snapshot \<Rightarrow> string \<Rightarrow> ('w live, string \<times> pydict) op" where
  "act_nudge D c ctx sn digest =
     bnd (gets (\<lambda>s. nudge_guard (le_std D) (lv_history s) ctx sn (scope_of sn) (cd_session c) (session_role (cd_key c)) digest (cd_kind c)
            (cd_detection c))) (\<lambda>(allowed, why).
     let noted = [(''nudge_guard_reason'', PStr why)]; baseline = snapshot_metrics sn in
     if \<not> allowed then ret (''NUDGE_BLOCKED_OBSERVE_ONLY'', noted) else
     bnd (live_read (le_uuid D)) (\<lambda>u4.
     bnd (live_clock D) (\<lambda>now.
     let i = ''nudge-'' @ filter (\<lambda>x. x \<noteq> CHR ''-'') u4 in
     bnd (gets (\<lambda>s. List.member (lv_nudging s) (cd_session c))) (\<lambda>running.
     if running then ret (''NUDGE_INFLIGHT_OBSERVE'', noted) else
     bnd (append_live (dispatch_row c digest i baseline now)) (\<lambda>u.
     bnd (modify (\<lambda>s. s\<lparr>lv_nudging := cd_session c # lv_nudging s,
            lv_nudges := lv_nudges s @ [\<lparr>nj_agent = cd_agent c, nj_session = cd_session c, nj_key = cd_key c, nj_digest = digest, nj_id = i,
                nj_baseline = baseline\<rparr>]\<rparr>)) (\<lambda>u.
     ret (''NUDGE_DISPATCHED'', noted @ [(''nudge_dispatch_id'', PStr i)])))))))"

definition act_on ::
  "'w live_deps \<Rightarrow> candidate \<Rightarrow> pydict \<Rightarrow> snapshot \<Rightarrow> string \<Rightarrow> jev_decision \<Rightarrow> ('w live, string \<times> pydict) op" where
  "act_on D c ctx sn digest j =
     bnd (if jd_choice j \<noteq> ''SALVAGE'' then reset_confirmation (cd_session c) else ret ()) (\<lambda>u.
     if jd_choice j = ''DEAD'' then ret (''ESCALATE_MAIN'', [])
     else if jd_choice j = ''NUDGE'' then act_nudge D c ctx sn digest
     else if jd_choice j = ''SALVAGE'' then act_salvage D c ctx sn digest j
     else ret (''OBSERVE_ONLY'', []))"

section \<open>The request\<close>

definition live_decision_row :: "candidate \<Rightarrow> snapshot \<Rightarrow> rat \<Rightarrow> string \<Rightarrow> string \<Rightarrow> jev_decision \<Rightarrow> pydict" where
  "live_decision_row c sn now state digest j =
     [(''type'', PStr ''live_jev_decision''), (''observed_at'', PFloat now), (''agent_id'', PStr (cd_agent c)), (''session_id'', PStr (cd_session c)),
      (''session_key'', PStr (cd_key c)), (''session_role'', PStr (session_role (cd_key c))), (''kind'', PStr (cd_kind c)),
      (''state_digest'', PStr state), (''stable_state_digest'', PStr digest), (''choice'', PStr (jd_choice j)),
      (''confidence'', jd_confidence j), (''probabilities'', PDict (jd_probabilities j)),
      (''auto_recovery_allowed'', PBool (truthy (dget (scope_of sn) ''auto_recovery_allowed''))), (''risk'', PDict (scope_of sn))]"

definition judge_live :: "'w live_deps \<Rightarrow> candidate \<Rightarrow> pydict \<Rightarrow> snapshot \<Rightarrow> ('w live, pydict) op" where
  "judge_live D c ctx sn =
     bnd (lift (build_features (le_std D) sn)) (\<lambda>(state, features).
     bnd (lift (snapshot_state_digest (le_std D) sn)) (\<lambda>digest.
     bnd (live_world (le_judge D features (''jev-live:'' @ cd_agent c @ '':'' @ cd_session c @ '':'' @ state))) (\<lambda>j.
     bnd (live_clock D) (\<lambda>now.
     bnd (act_on D c ctx sn digest j) (\<lambda>(action, extra).
     let row = live_decision_row c sn now state digest j @ extra @ [(''action'', PStr action)] in
     bnd (append_live row) (\<lambda>u. ret row))))))"

definition judge_active :: "'w live_deps \<Rightarrow> candidate \<Rightarrow> pydict \<Rightarrow> snapshot \<Rightarrow> ('w live, pydict) op" where
  "judge_active D c ctx sn =
     (case source_task_active (le_std D) ctx of (active, why) \<Rightarrow>
      if \<not> active then skipped D c ''NO_ACTIVE_TASK'' why [(''latest_run'', por (dget ctx ''latest_run'') (PDict []))] else
      bnd (pending_nudge D (cd_agent c) (cd_session c) (cd_key c) sn) (\<lambda>pending.
      case pending of Some row \<Rightarrow> ret row | None \<Rightarrow> judge_live D c ctx sn))"

definition evaluate_live :: "'w live_deps \<Rightarrow> pydict \<Rightarrow> ('w live, pydict) op" where
  "evaluate_live D p =
     bnd (lift (candidate_of (le_std D) p)) (\<lambda>c.
     if session_role (cd_key c) = ''handoff'' then skipped D c ''CONTROL_SESSION_SKIP'' ''jev_handoff_session'' [] else
     bnd (live_snapshot D (cd_agent c) (cd_session c) (cd_detection c)) (\<lambda>(ctx, sn).
     if List.member terminal_sessions (lower (text_or (le_std D) (dget ctx ''status''))) then
       bnd (reset_confirmation (cd_session c)) (\<lambda>u.
       ret [(''status'', PStr ''TERMINAL_SKIP''), (''agent_id'', PStr (cd_agent c)), (''session_id'', PStr (cd_session c)),
            (''action'', PStr ''OBSERVE_ONLY'')])
     else
       bnd (live_clock D) (\<lambda>now.
       case session_age ctx now of
         Some age \<Rightarrow>
           if age < 300 then skipped D c ''GRACE_PERIOD'' ''session_under_5m'' [(''session_age_seconds'', PFloat (round1 age))]
           else judge_active D c ctx sn
       | None \<Rightarrow> judge_active D c ctx sn)))"

section \<open>The module as a machine\<close>

text \<open>Requests come one after the other; a pending thread runs when it is chosen.\<close>

datatype live_call = Candidate pydict | RunNudge nat | RunRecovery nat

definition drop_at :: "nat \<Rightarrow> 'a list \<Rightarrow> 'a list" where
  "drop_at i xs = take i xs @ drop (Suc i) xs"

fun live_step :: "'w live_deps \<Rightarrow> live_call \<Rightarrow> 'w live \<Rightarrow> 'w live" where
  "live_step D (Candidate p) s = snd (evaluate_live D p s)"
| "live_step D (RunNudge i) s =
     (if i < length (lv_nudges s) then snd (run_nudge D (lv_nudges s ! i) (s\<lparr>lv_nudges := drop_at i (lv_nudges s)\<rparr>)) else s)"
| "live_step D (RunRecovery i) s =
     (if i < length (lv_recoveries s) then snd (recover_live D (lv_recoveries s ! i) (s\<lparr>lv_recoveries := drop_at i (lv_recoveries s)\<rparr>)) else s)"

definition live_run :: "'w live_deps \<Rightarrow> live_call list \<Rightarrow> 'w live \<Rightarrow> 'w live" where
  "live_run D calls s = foldl (\<lambda>t c. live_step D c t) s calls"

definition live_start :: "'w \<Rightarrow> 'w live" where
  "live_start w = \<lparr>lv_history = [], lv_inflight = [], lv_nudging = [], lv_confirm = [], lv_files = [], lv_nudges = [], lv_recoveries = [],
     lv_phase = ''PRECHECK'', lv_beyond = w\<rparr>"

end
