(* ===== verification/JevProtocol.thy ===== *)
theory JevProtocol
  imports JevCandidate
begin

text \<open>
  What the recovery of a live session promises: its phases follow one protocol, the handoff is readable before the source
  is stopped, and a session is restarted only behind a confirmed abort.
\<close>

section \<open>The rows an operation adds\<close>

definition new_rows :: "'w live \<Rightarrow> 'w live \<Rightarrow> pydict list" where
  "new_rows s t = drop (length (lv_history s)) (lv_history t)"

text \<open>The phases named by rows, each with its status.\<close>

definition row_text :: "pydict \<Rightarrow> string \<Rightarrow> string" where
  "row_text row k = (case as_str (dget row k) of None \<Rightarrow> [] | Some t \<Rightarrow> t)"

definition phase_log :: "pydict list \<Rightarrow> (string \<times> string) list" where
  "phase_log rows = map (\<lambda>r. (row_text r ''phase'', row_text r ''status'')) (filter (\<lambda>r. has_text r ''type'' ''live_recovery_phase'') rows)"

lemma phase_log_simps [simp]: "phase_log [] = []" "phase_log (xs @ ys) = phase_log xs @ phase_log ys"
  by (simp_all add: phase_log_def)

text \<open>The protocol: which phase may follow which.\<close>

definition phase_next :: "(string \<times> string) option \<Rightarrow> (string \<times> string) list" where
  "phase_next p =
     (case p of
        None \<Rightarrow> [(''A_HANDOFF'', ''STARTED''), (''A_HANDOFF'', ''REUSED'')]
      | Some x \<Rightarrow>
          if x = (''A_HANDOFF'', ''STARTED'') then [(''A_HANDOFF'', ''COMPLETE'')]
          else if x = (''A_HANDOFF'', ''COMPLETE'') \<or> x = (''A_HANDOFF'', ''REUSED'') then [(''B_TERMINATE'', ''STARTED'')]
          else if x = (''B_TERMINATE'', ''STARTED'') then
            [(''B_TERMINATE'', ''COMPLETE''), (''B_TERMINATE'', ''SKIPPED_NO_ACTIVE_TASK''), (''B_TERMINATE'', ''SOURCE_TERMINATED_ABORT_UNCONFIRMED'')]
          else if x = (''B_TERMINATE'', ''COMPLETE'') then [(''C_RESTART'', ''STARTED'')]
          else if x = (''C_RESTART'', ''STARTED'') then [(''C_RESTART'', ''COMPLETE'')]
          else if x = (''C_RESTART'', ''COMPLETE'') then [(''D_ACK'', ''IMPLICIT_BY_RECOVERY_TURN'')]
          else if x = (''D_ACK'', ''IMPLICIT_BY_RECOVERY_TURN'') then
            [(''E_COMPLETE'', ''RECOVERY_COMPLETE''), (''E_COMPLETE'', ''RECOVERY_BLOCKED''), (''E_COMPLETE'', ''RECOVERY_UNVERIFIED'')]
          else [])"

fun protocol :: "(string \<times> string) option \<Rightarrow> (string \<times> string) list \<Rightarrow> bool" where
  "protocol p [] = True"
| "protocol p (x # xs) = (List.member (phase_next p) x \<and> protocol (Some x) xs)"

definition reached :: "(string \<times> string) option \<Rightarrow> (string \<times> string) list \<Rightarrow> (string \<times> string) option" where
  "reached p xs = (if xs = [] then p else Some (last xs))"

lemma reached_simps [simp]: "reached p [] = p" "reached p (xs @ ys) = reached (reached p xs) ys" "reached p (x # xs) = reached (Some x) xs"
  by (simp_all add: reached_def)

lemma protocol_append: "protocol p (xs @ ys) \<longleftrightarrow> protocol p xs \<and> protocol (reached p xs) ys"
  by (induction xs arbitrary: p) auto

section \<open>Operations that follow the protocol\<close>

text \<open>From phase \<open>p\<close> the operation adds rows that go on with the protocol, and its answer \<open>x\<close> in phase \<open>q\<close> satisfies \<open>Q x q\<close>.\<close>

definition follows :: "(string \<times> string) option \<Rightarrow> ('w live, 'a) op \<Rightarrow> ('a \<Rightarrow> (string \<times> string) option \<Rightarrow> bool) \<Rightarrow> bool" where
  "follows p m Q \<longleftrightarrow> (\<forall>s. \<exists>rows. lv_history (snd (m s)) = lv_history s @ rows \<and> protocol p (phase_log rows) \<and>
     (\<forall>x. fst (m s) = Inr x \<longrightarrow> Q x (reached p (phase_log rows))))"

named_theorems follow_rules \<open>operations that follow the protocol\<close>

lemma followsI:
  "(\<And>s. \<exists>rows. lv_history (snd (m s)) = lv_history s @ rows \<and> protocol p (phase_log rows) \<and>
     (\<forall>x. fst (m s) = Inr x \<longrightarrow> Q x (reached p (phase_log rows)))) \<Longrightarrow> follows p m Q"
  by (simp add: follows_def)

lemma follows_weaken: "follows p m Q \<Longrightarrow> (\<And>x q. Q x q \<Longrightarrow> R x q) \<Longrightarrow> follows p m R"
  unfolding follows_def by blast

lemma follows_bnd [follow_rules]:
  assumes m: "follows p m Q" and f: "\<And>x q. Q x q \<Longrightarrow> follows q (f x) R"
  shows "follows p (bnd m f) R"
proof (rule followsI)
  fix s
  obtain r t where ms: "m s = (r, t)" by (cases "m s")
  obtain rows where rows: "lv_history t = lv_history s @ rows" "protocol p (phase_log rows)" "\<forall>x. r = Inr x \<longrightarrow> Q x (reached p (phase_log rows))"
    using m ms unfolding follows_def by (metis fst_conv snd_conv)
  show "\<exists>rows. lv_history (snd (bnd m f s)) = lv_history s @ rows \<and> protocol p (phase_log rows) \<and>
      (\<forall>x. fst (bnd m f s) = Inr x \<longrightarrow> R x (reached p (phase_log rows)))"
  proof (cases r)
    case (Inl e)
    with ms rows show ?thesis by (intro exI [of _ rows]) (simp add: bnd_app)
  next
    case (Inr x)
    with rows(3) have "Q x (reached p (phase_log rows))" by simp
    from f [OF this] obtain rows' where rows': "lv_history (snd (f x t)) = lv_history t @ rows'"
        "protocol (reached p (phase_log rows)) (phase_log rows')"
        "\<forall>y. fst (f x t) = Inr y \<longrightarrow> R y (reached (reached p (phase_log rows)) (phase_log rows'))"
      unfolding follows_def by metis
    with ms Inr rows show ?thesis by (intro exI [of _ "rows @ rows'"]) (simp add: bnd_app protocol_append)
  qed
qed

text \<open>What adds no row stays in its phase.\<close>

definition silent :: "'w live \<Rightarrow> 'w live \<Rightarrow> bool" where
  "silent s t \<longleftrightarrow> lv_history t = lv_history s"

interpretation silent: guarantee silent
  by unfold_locales (auto simp: silent_def)

lemma follows_silent: "guar silent m \<Longrightarrow> follows p m (\<lambda>x q. q = p)"
  unfolding follows_def guar_def silent_def by (metis append_Nil2 phase_log_simps(1) protocol.simps(1) reached_simps(1))

lemma follows_ret: "Q x p \<Longrightarrow> follows p (ret x) Q"
  by (rule followsI) (rule exI [of _ "[]"], simp)

lemma follows_raise [follow_rules]: "follows p (raise e) Q"
  by (rule followsI) (rule exI [of _ "[]"], simp)

lemma follows_if [follow_rules]: "(b \<Longrightarrow> follows p m Q) \<Longrightarrow> (\<not> b \<Longrightarrow> follows p n Q) \<Longrightarrow> follows p (if b then m else n) Q"
  by simp

lemma silent_world: "guar silent (live_world f)"
  by (simp add: guar_def live_world_def silent_def split: prod.split)

lemma silent_read: "guar silent (live_read f)"
  by (simp add: guar_def live_read_def silent_def split: prod.split)

lemma silent_clock: "guar silent (live_clock D)"
  by (simp add: live_clock_def silent_read)

lemma silent_modify: "(\<And>s. lv_history (f s) = lv_history s) \<Longrightarrow> guar silent (modify f)"
  by (simp add: guar_def silent_def)

lemma silent_phase: "guar silent (enter_phase p)"
  by (simp add: enter_phase_def silent_modify)

lemma silent_files: "guar silent (modify (\<lambda>s. s\<lparr>lv_files := f s\<rparr>))"
  by (simp add: silent_modify)

lemmas silent_rules = guar_rules silent_world silent_read silent_clock silent_phase silent_files

section \<open>The operations\<close>

lemma follows_phase [follow_rules]:
  "List.member (phase_next p) (ph, st) \<Longrightarrow> follows p (append_phase D session ag ph st extra) (\<lambda>x q. q = Some (ph, st))"
proof (rule followsI)
  fix s :: "'a live"
  assume "List.member (phase_next p) (ph, st)"
  then show "\<exists>rows. lv_history (snd (append_phase D session ag ph st extra s)) = lv_history s @ rows \<and> protocol p (phase_log rows) \<and>
      (\<forall>x. fst (append_phase D session ag ph st extra s) = Inr x \<longrightarrow> reached p (phase_log rows) = Some (ph, st))"
    by (simp add: append_phase_def live_clock_def live_read_def append_live_def bnd_app phase_log_def phase_row_def has_text_def row_text_def
        split: prod.split)
qed

lemma follows_row [follow_rules]:
  "\<not> has_text row ''type'' ''live_recovery_phase'' \<Longrightarrow> follows p (append_live row) (\<lambda>x q. q = p)"
  by (rule followsI) (simp add: append_live_def phase_log_def)

lemma silent_context: "guar silent (live_context D ag session)"
  unfolding live_context_def by (intro silent_rules)

lemma silent_abort: "guar silent (abort_session D ag key run_id)"
  unfolding abort_session_def open_bridge_def request_abort_def Let_def by (intro silent_rules)

lemma silent_turn: "guar silent (agent_turn D ag key message timeout)"
  unfolding agent_turn_def by (intro silent_rules)

lemma silent_handoff: "guar silent (read_handoff path)"
  unfolding read_handoff_def by (intro silent_rules)

lemma silent_snapshot: "guar silent (live_snapshot D ag session detection)"
  unfolding live_snapshot_def by (intro silent_rules)

lemmas silent_ops = silent_context silent_abort silent_turn silent_handoff silent_snapshot

lemma follows_prod [follow_rules]: "(\<And>x y. v = (x, y) \<Longrightarrow> follows p (f x y) Q) \<Longrightarrow> follows p (case v of (x, y) \<Rightarrow> f x y) Q"
  by (cases v) simp

text \<open>A silent operation, then one that follows the protocol.\<close>

lemma follows_then [follow_rules]: "guar silent m \<Longrightarrow> (\<And>x. follows p (f x) Q) \<Longrightarrow> follows p (bnd m f) Q"
  by (rule follows_bnd [OF follows_silent]) auto

lemma handoff_follows:
  "follows None (write_code_handoff D ag session key detection path) (\<lambda>x q. q = Some (''A_HANDOFF'', ''COMPLETE'') \<or> q = Some (''A_HANDOFF'', ''REUSED''))"
proof -
  let ?Q = "\<lambda>x q. q = Some (''A_HANDOFF'', ''COMPLETE'') \<or> q = Some (''A_HANDOFF'', ''REUSED'')"
  let ?extra = "[(''handoff_path'', PStr path), (''writer'', PStr ''code'')]"
  have there: "follows None (append_phase D session ag ''A_HANDOFF'' ''REUSED'' ?extra) ?Q"
    by (rule follows_weaken, rule follows_phase) (auto simp: phase_next_def)
  have started: "follows None (append_phase D session ag ''A_HANDOFF'' ''STARTED'' ?extra) (\<lambda>x q. q = Some (''A_HANDOFF'', ''STARTED''))"
    by (rule follows_phase) (simp add: phase_next_def)
  have end': "follows (Some (''A_HANDOFF'', ''STARTED'')) (append_phase D session ag ''A_HANDOFF'' ''COMPLETE'' ?extra) ?Q"
    by (rule follows_weaken, rule follows_phase) (auto simp: phase_next_def)
  have rest: "follows (Some (''A_HANDOFF'', ''STARTED''))
      (bnd (attempt (live_context D ag session)) (\<lambda>r.
       bnd (case r of Inr ctx \<Rightarrow> ret ctx | Inl e \<Rightarrow> if is_runtime_error e then ret [] else raise e) (\<lambda>ctx.
       bnd (live_clock D) (\<lambda>now.
       bnd (modify (\<lambda>s. s\<lparr>lv_files := AList.update (path @ ''.tmp'') (code_handoff (le_std D) ag session key detection ctx now) (lv_files s)\<rparr>)) (\<lambda>u.
       bnd (read_handoff (path @ ''.tmp'')) (\<lambda>u.
       bnd (modify (\<lambda>s. s\<lparr>lv_files := AList.update path (code_handoff (le_std D) ag session key detection ctx now)
              (AList.delete (path @ ''.tmp'') (lv_files s))\<rparr>)) (\<lambda>u.
       bnd (read_handoff path) (\<lambda>u. append_phase D session ag ''A_HANDOFF'' ''COMPLETE'' ?extra)))))))) ?Q"
    by (intro follows_then silent_rules silent_ops end')
  show ?thesis
    unfolding write_code_handoff_def Let_def
    by (rule follows_then, (intro silent_rules)) (auto intro!: follows_if there follows_bnd [OF started] rest)
qed

lemma terminate_follows:
  assumes "p = Some (''A_HANDOFF'', ''COMPLETE'') \<or> p = Some (''A_HANDOFF'', ''REUSED'')"
  shows "follows p (terminate_source D ag session key) (\<lambda>(a, b, go_on) q. go_on \<longrightarrow> q = Some (''B_TERMINATE'', ''COMPLETE''))"
proof -
  let ?Q = "\<lambda>(a, b, go_on) q. go_on \<longrightarrow> q = Some (''B_TERMINATE'', ''COMPLETE'')"
  let ?b = "Some (''B_TERMINATE'', ''STARTED'')"
  have started: "follows p (append_phase D session ag ''B_TERMINATE'' ''STARTED'' []) (\<lambda>x q. q = ?b)"
    using assms by (intro follows_phase) (auto simp: phase_next_def)
  have step: "List.member (phase_next ?b) (''B_TERMINATE'', st) \<Longrightarrow> ?Q r (Some (''B_TERMINATE'', st)) \<Longrightarrow>
      follows ?b (bnd (append_phase D session ag ''B_TERMINATE'' st extra) (\<lambda>u. ret r)) ?Q" for st extra r
    by (rule follows_bnd, rule follows_phase) (auto intro: follows_ret)
  show ?thesis
    unfolding terminate_source_def Let_def
    by (rule follows_bnd [OF started])
      (auto intro!: follows_then follows_prod follows_if follows_raise silent_ops step simp: phase_next_def)
qed

lemma restart_follows:
  "follows (Some (''B_TERMINATE'', ''COMPLETE'')) (restart_and_resume D ag session path target) (\<lambda>x q. True)"
proof -
  have final: "recovery_status t = ''RECOVERY_COMPLETE'' \<or> recovery_status t = ''RECOVERY_BLOCKED'' \<or> recovery_status t = ''RECOVERY_UNVERIFIED''" for t
    by (simp add: recovery_status_def)
  have chain: "List.member (phase_next p) (ph, st) \<Longrightarrow> follows (Some (ph, st)) m Q \<Longrightarrow>
      follows p (bnd (append_phase D session ag ph st extra) (\<lambda>u. m)) Q" for p ph st extra m and Q :: "agent_reply \<times> string \<Rightarrow> (string \<times> string) option \<Rightarrow> bool"
    by (rule follows_bnd, rule follows_phase) auto
  show ?thesis
    unfolding restart_and_resume_def Let_def
    by (intro chain follows_then silent_turn follows_ret) (use final in \<open>auto simp: phase_next_def\<close>)
qed

section \<open>The recovery\<close>

lemma follows_true: "follows p m Q \<Longrightarrow> follows p m (\<lambda>x q. True)"
  by (rule follows_weaken [OF _ TrueI])

lemma stale_follows [follow_rules]: "follows p (stale_outcome D j choice extra) (\<lambda>x q. q = p)"
  unfolding stale_outcome_def by (intro follows_then silent_rules follows_row) (simp add: has_text_def)

lemma recheck_follows: "follows p (recheck D j) (\<lambda>x q. q = p)"
  unfolding recheck_def
  by (intro follows_then follows_prod follows_if silent_ops silent_rules follows_ret refl follows_bnd [OF follows_row] follows_bnd [OF stale_follows])
    (simp_all add: has_text_def follows_ret)

lemma follows_case3: "(\<And>a b c. v = (a, b, c) \<Longrightarrow> follows p (f a b c) Q) \<Longrightarrow> follows p (case v of (a, b, c) \<Rightarrow> f a b c) Q"
  by (cases v) simp

lemma outcome_follows: "follows p (bnd (live_clock D) (\<lambda>t. append_live (outcome_base j path a b t @ extra))) (\<lambda>x q. True)"
  by (intro follows_then silent_clock follows_true [OF follows_row]) (simp add: outcome_base_def has_text_def)

lemma hand_on_follows: "follows None (hand_on D j) (\<lambda>x q. True)"
  unfolding hand_on_def Let_def
  by (intro follows_prod follows_if follows_true [OF stale_follows] follows_then [OF silent_world] follows_then [OF silent.guar_lift]
      follows_then [OF silent_phase] follows_bnd [OF handoff_follows] follows_bnd [OF terminate_follows] outcome_follows
      follows_then [OF silent.guar_gets])
    (auto intro!: follows_bnd [OF restart_follows] follows_then [OF silent_phase] outcome_follows follows_then [OF silent.guar_gets])

lemma body_follows: "follows None (recover_body D j) (\<lambda>x q. True)"
  unfolding recover_body_def
  by (intro follows_then [OF silent_phase] follows_bnd [OF recheck_follows]) (auto intro: follows_ret hand_on_follows split: option.split)

lemma error_row_follows:
  "follows p (case r of Inr u \<Rightarrow> ret ()
     | Inl e \<Rightarrow> bnd (gets lv_phase) (\<lambda>phase. bnd (live_clock D) (\<lambda>t. append_live
         [(''type'', PStr ''live_recovery_outcome''), (''observed_at'', PFloat t), (''source_session_id'', PStr (rj_session j)),
          (''agent_id'', PStr (rj_agent j)), (''status'', PStr ''RECOVERY_ERROR''), (''phase'', PStr phase),
          (''error'', PStr (exn_name e)), (''error_detail'', PStr (take 240 (exn_text e)))]))) (\<lambda>x q. q = p)"
  by (cases r) (auto intro!: follows_ret follows_then silent_rules follows_row simp: has_text_def)

lemma follows_attempt: "follows p m Q \<Longrightarrow> follows p (attempt m) (\<lambda>x q. True)"
  unfolding follows_def attempt_app by fastforce

lemma recover_follows: "follows None (recover_live D j) (\<lambda>x q. True)"
  unfolding recover_live_def
  by (rule follows_bnd [OF follows_attempt [OF body_follows]], rule follows_bnd [OF error_row_follows])
    (rule follows_true, rule follows_silent, rule silent_modify, simp)

lemma recover_log: "protocol None (phase_log (new_rows s (snd (recover_live D j s))))"
  using recover_follows [of D j] unfolding follows_def new_rows_def by (metis append_eq_conv_conj)

text \<open>What must have come before.\<close>

lemma next_terminate: "(''B_TERMINATE'', st) \<in> set (phase_next p) \<Longrightarrow>
    p = Some (''A_HANDOFF'', ''COMPLETE'') \<or> p = Some (''A_HANDOFF'', ''REUSED'') \<or> p = Some (''B_TERMINATE'', ''STARTED'')"
  by (auto simp: phase_next_def split: option.splits if_split_asm)

lemma next_restart: "(''C_RESTART'', st) \<in> set (phase_next p) \<Longrightarrow> p = Some (''B_TERMINATE'', ''COMPLETE'') \<or> p = Some (''C_RESTART'', ''STARTED'')"
  by (auto simp: phase_next_def split: option.splits if_split_asm)

lemma protocol_before: "protocol p (xs @ x # ys) \<Longrightarrow> x \<in> set (phase_next (reached p xs))"
  by (simp add: protocol_append)

lemma reached_in: "reached None xs = Some y \<Longrightarrow> y \<in> set xs"
  by (auto simp: reached_def split: if_split_asm)

lemma terminate_behind:
  "protocol None xs \<Longrightarrow> (''B_TERMINATE'', st) \<in> set xs \<Longrightarrow> (''A_HANDOFF'', ''COMPLETE'') \<in> set xs \<or> (''A_HANDOFF'', ''REUSED'') \<in> set xs"
proof (induction xs arbitrary: st rule: rev_induct)
  case (snoc x xs)
  show ?case
  proof (cases "(''B_TERMINATE'', st) \<in> set xs")
    case True
    with snoc.IH [of st] snoc.prems(1) show ?thesis by (auto simp: protocol_append)
  next
    case False
    with snoc.prems have "x = (''B_TERMINATE'', st)" by simp
    with snoc.prems(1) have "(''B_TERMINATE'', st) \<in> set (phase_next (reached None xs))" by (simp add: protocol_append)
    from next_terminate [OF this] show ?thesis
      using snoc.IH [of "''STARTED''"] snoc.prems(1) reached_in by (auto simp: protocol_append)
  qed
qed simp

lemma restart_behind: "protocol None xs \<Longrightarrow> (''C_RESTART'', st) \<in> set xs \<Longrightarrow> (''B_TERMINATE'', ''COMPLETE'') \<in> set xs"
proof (induction xs arbitrary: st rule: rev_induct)
  case (snoc x xs)
  show ?case
  proof (cases "(''C_RESTART'', st) \<in> set xs")
    case True
    with snoc.IH [of st] snoc.prems(1) show ?thesis by (auto simp: protocol_append)
  next
    case False
    with snoc.prems have "x = (''C_RESTART'', st)" by simp
    with snoc.prems(1) have "(''C_RESTART'', st) \<in> set (phase_next (reached None xs))" by (simp add: protocol_append)
    from next_restart [OF this] show ?thesis
      using snoc.IH [of "''STARTED''"] snoc.prems(1) reached_in by (auto simp: protocol_append)
  qed
qed simp


section \<open>The handoff behind a stopped source\<close>

text \<open>Operations that write no file, and among them those that report no phase.\<close>

definition adds_rows :: "'w live \<Rightarrow> 'w live \<Rightarrow> bool" where
  "adds_rows s t \<longleftrightarrow> lv_files t = lv_files s \<and> (\<exists>rows. lv_history t = lv_history s @ rows)"

interpretation adds: guarantee adds_rows
  by unfold_locales (auto simp: adds_rows_def)

definition mute :: "'w live \<Rightarrow> 'w live \<Rightarrow> bool" where
  "mute s t \<longleftrightarrow> lv_files t = lv_files s \<and> (\<exists>rows. lv_history t = lv_history s @ rows \<and> phase_log rows = [])"

lemma mute_refl: "mute s s"
  by (auto simp: mute_def intro: exI [of _ "[]"])

lemma mute_trans: "mute s t \<Longrightarrow> mute t u \<Longrightarrow> mute s u"
  unfolding mute_def by (metis append_assoc append_Nil phase_log_simps(2))

interpretation mute: guarantee mute
  by unfold_locales (rule mute_refl, erule (1) mute_trans)

lemma mute_adds: "guar mute m \<Longrightarrow> guar adds_rows m"
  by (auto simp: guar_def mute_def adds_rows_def)

lemma mute_world: "guar mute (live_world f)"
  by (auto simp: guar_def live_world_def mute_def split: prod.split)

lemma mute_read: "guar mute (live_read f)"
  by (auto simp: guar_def live_read_def mute_def split: prod.split)

lemma mute_clock: "guar mute (live_clock D)"
  by (simp add: live_clock_def mute_read)

lemma mute_phase: "guar mute (enter_phase p)"
  by (auto simp: guar_def enter_phase_def mute_def)

lemma mute_row: "\<not> has_text row ''type'' ''live_recovery_phase'' \<Longrightarrow> guar mute (append_live row)"
  by (auto simp: guar_def append_live_def mute_def phase_log_def)

lemmas mute_rules = mute.guar_bnd mute.guar_ret mute.guar_raise mute.guar_lift mute.guar_gets mute.guar_if mute.guar_let mute.guar_option
  mute.guar_sum mute.guar_prod mute.guar_attempt mute_world mute_read mute_clock mute_phase

lemma mute_context: "guar mute (live_context D ag session)"
  unfolding live_context_def by (intro mute_rules)

lemma mute_abort: "guar mute (abort_session D ag key run_id)"
  unfolding abort_session_def open_bridge_def request_abort_def Let_def by (intro mute_rules)

lemma mute_turn: "guar mute (agent_turn D ag key message timeout)"
  unfolding agent_turn_def by (intro mute_rules)

lemma mute_stale: "guar mute (stale_outcome D j choice extra)"
  unfolding stale_outcome_def by (intro mute_rules mute_row) (simp add: has_text_def)

lemma mute_recheck: "guar mute (recheck D j)"
  unfolding recheck_def live_snapshot_def by (intro mute_rules mute_stale mute_row) (simp add: has_text_def)

lemma adds_phase: "guar adds_rows (append_phase D session ag ph st extra)"
  by (auto simp: guar_def append_phase_def live_clock_def live_read_def append_live_def bnd_app adds_rows_def split: prod.split)

lemmas adds_rules = adds.guar_bnd adds.guar_ret adds.guar_raise adds.guar_lift adds.guar_gets adds.guar_if adds.guar_let adds.guar_option
  adds.guar_sum adds.guar_prod adds.guar_attempt adds_phase mute_adds [OF mute_clock] mute_adds [OF mute_context] mute_adds [OF mute_abort]
  mute_adds [OF mute_turn] mute_adds [OF mute_phase]

lemma adds_terminate: "guar adds_rows (terminate_source D ag session key)"
  unfolding terminate_source_def Let_def by (intro adds_rules)

lemma adds_restart: "guar adds_rows (restart_and_resume D ag session path target)"
  unfolding restart_and_resume_def Let_def by (intro adds_rules)

definition clean :: "'w live \<Rightarrow> 'w live \<Rightarrow> bool" where
  "clean s t \<longleftrightarrow> (\<exists>rows. lv_history t = lv_history s @ rows \<and> ''B_TERMINATE'' \<notin> fst ` set (phase_log rows))"

text \<open>The row that names a readable handoff.\<close>

definition handoff_row :: "(string \<times> string) list \<Rightarrow> pydict \<Rightarrow> bool" where
  "handoff_row written row \<longleftrightarrow> has_text row ''phase'' ''A_HANDOFF'' \<and>
     (case dget row ''handoff_path'' of PStr path \<Rightarrow> handoff_ok written path | _ \<Rightarrow> False)"

definition backed :: "'w live \<Rightarrow> 'w live \<Rightarrow> bool" where
  "backed s t \<longleftrightarrow> (\<exists>rows. lv_history t = lv_history s @ rows \<and> list_ex (handoff_row (lv_files t)) rows)"

definition ends :: "'w live \<Rightarrow> 'w live \<Rightarrow> bool" where
  "ends s t \<longleftrightarrow> clean s t \<or> backed s t"

lemma clean_silent: "clean s t \<Longrightarrow> silent t u \<Longrightarrow> clean s u"
  by (simp add: clean_def silent_def)

lemma clean_mute: "clean s t \<Longrightarrow> mute t u \<Longrightarrow> clean s u"
  unfolding clean_def mute_def by (metis append_Nil2 append_assoc phase_log_simps(2))

lemma backed_adds: "backed s t \<Longrightarrow> adds_rows t u \<Longrightarrow> backed s u"
  unfolding backed_def adds_rows_def by (metis append_assoc list_ex_append)

lemma holds_silent: "guar silent m \<Longrightarrow> holds (clean s) m (ends s) (\<lambda>x. clean s)"
  by (erule holds_frame) (auto simp: ends_def intro: clean_silent)

lemma holds_mute: "guar mute m \<Longrightarrow> holds (clean s) m (ends s) (\<lambda>x. clean s)"
  by (erule holds_frame) (auto simp: ends_def intro: clean_mute)

lemma holds_adds: "guar adds_rows m \<Longrightarrow> holds (backed s) m (ends s) (\<lambda>x. backed s)"
  by (erule holds_frame) (auto simp: ends_def intro: backed_adds)

lemma phase_history: "lv_history (snd (append_phase D session ag ph st extra s)) =
    lv_history s @ [phase_row session ag ph st (fst (le_clock D (lv_beyond s))) extra]"
  "lv_files (snd (append_phase D session ag ph st extra s)) = lv_files s"
  by (simp_all add: append_phase_def live_clock_def live_read_def append_live_def bnd_app split: prod.split)

lemma holds_started: "holds (clean s) (append_phase D session ag ''A_HANDOFF'' st extra) (ends s) (\<lambda>x. clean s)"
proof -
  have "clean s t \<Longrightarrow> clean s (snd (append_phase D session ag ''A_HANDOFF'' st extra t))" for t
    unfolding clean_def phase_history(1)
    by (elim exE conjE, rule exI, rule conjI, simp, simp) (simp add: phase_log_def phase_row_def has_text_def row_text_def)
  then show ?thesis by (simp add: holds_def ends_def)
qed

text \<open>The last row of the handoff, behind a document that has been read.\<close>

lemma holds_complete:
  "holds (\<lambda>t. clean s t \<and> handoff_ok (lv_files t) path)
     (append_phase D session ag ''A_HANDOFF'' st [(''handoff_path'', PStr path), (''writer'', PStr ''code'')]) (ends s) (\<lambda>x. backed s)"
  unfolding holds_def clean_def ends_def backed_def
  by (auto simp: phase_history handoff_row_def phase_row_def has_text_def)

lemma holds_read: "holds (clean s) (read_handoff path) (ends s) (\<lambda>x t. clean s t \<and> handoff_ok (lv_files t) path)"
  unfolding holds_def ends_def by (auto simp: read_handoff_def handoff_ok_def split: option.split)

lemma write_holds: "holds (clean s) (write_code_handoff D ag session key detection path) (ends s) (\<lambda>x. backed s)"
proof -
  let ?extra = "[(''handoff_path'', PStr path), (''writer'', PStr ''code'')]"
  have there: "holds (\<lambda>t. clean s t \<and> handoff_ok (lv_files t) path) (append_phase D session ag ''A_HANDOFF'' ''REUSED'' ?extra) (ends s) (\<lambda>x. backed s)"
    by (rule holds_complete)
  have fresh: "holds (clean s)
      (bnd (append_phase D session ag ''A_HANDOFF'' ''STARTED'' ?extra) (\<lambda>u.
       bnd (attempt (live_context D ag session)) (\<lambda>r.
       bnd (case r of Inr ctx \<Rightarrow> ret ctx | Inl e \<Rightarrow> if is_runtime_error e then ret [] else raise e) (\<lambda>ctx.
       bnd (live_clock D) (\<lambda>now.
       bnd (modify (\<lambda>s. s\<lparr>lv_files := AList.update (path @ ''.tmp'') (code_handoff (le_std D) ag session key detection ctx now) (lv_files s)\<rparr>)) (\<lambda>u.
       bnd (read_handoff (path @ ''.tmp'')) (\<lambda>u.
       bnd (modify (\<lambda>s. s\<lparr>lv_files := AList.update path (code_handoff (le_std D) ag session key detection ctx now)
              (AList.delete (path @ ''.tmp'') (lv_files s))\<rparr>)) (\<lambda>u.
       bnd (read_handoff path) (\<lambda>u. append_phase D session ag ''A_HANDOFF'' ''COMPLETE'' ?extra))))))))) (ends s) (\<lambda>x. backed s)"
    by (rule holds_bnd [OF holds_started], rule holds_bnd [OF holds_silent], (intro silent_rules silent_ops),
        rule holds_bnd [OF holds_silent], (intro silent_rules), rule holds_bnd [OF holds_silent], (intro silent_rules),
        rule holds_bnd [OF holds_silent], (intro silent_rules), rule holds_bnd [OF holds_silent], (intro silent_ops),
        rule holds_bnd [OF holds_silent], (intro silent_rules), rule holds_bnd [OF holds_read], rule holds_complete)
  show ?thesis
    unfolding write_code_handoff_def Let_def
    using there fresh by (simp add: holds_def)
qed

lemma hand_on_holds: "holds (clean s) (hand_on D j) (ends s) (\<lambda>x. ends s)"
proof -
  have weaken: "holds P m (ends s) Q \<Longrightarrow> holds P m (ends s) (\<lambda>x. ends s)" for P Q and m :: "('a live, 'b) op"
    by (simp add: holds_def)
  have row: "guar adds_rows (bnd (live_clock D) (\<lambda>t. append_live (outcome_base j' path a b t @ extra)))" for j' path a b extra
    by (intro mute_adds mute_rules mute_row) (simp add: outcome_base_def has_text_def)
  have row2: "guar adds_rows (bnd (live_clock D) (\<lambda>t. append_live (outcome_base j' path a b t @ e t)))" for j' path a b e
    by (intro mute_adds mute_rules mute_row) (simp add: outcome_base_def has_text_def)
  have behind: "guar adds_rows (bnd (enter_phase ''B_TERMINATE'') (\<lambda>u.
      bnd (terminate_source D ag session key) (\<lambda>(attempted, confirmed, go_on).
      if \<not> go_on then bnd (live_clock D) (\<lambda>t. append_live (outcome_base j path attempted confirmed t @ extra))
      else bnd (enter_phase ''C_RESTART'') (\<lambda>u.
        bnd (gets (\<lambda>s. target_key (le_std D) (lv_history s) ag session)) (\<lambda>target.
        bnd (restart_and_resume D ag session path target) (\<lambda>(reply, final).
        bnd (enter_phase ''E_COMPLETE'') (\<lambda>u.
        bnd (live_clock D) (\<lambda>t. append_live (outcome_base j path attempted confirmed t @ extra2 target reply final)))))))))"
    for ag session key path extra extra2
    by (intro adds_rules adds_terminate adds_restart row row2)
  show ?thesis
    unfolding hand_on_def Let_def
    by (intro holds_prod holds_if weaken [OF holds_mute [OF mute_stale]] holds_bnd [OF holds_mute] mute_rules
        holds_bnd [OF write_holds] weaken [OF holds_adds] behind)
qed

lemma recover_ends: "ends s (snd (recover_live D j s))"
proof -
  have clean: "clean s s" by (auto simp: clean_def intro: exI [of _ "[]"])
  have body: "holds (clean s) (recover_body D j) (ends s) (\<lambda>x. ends s)"
    unfolding recover_body_def
    by (intro holds_bnd [OF holds_mute] mute_phase mute_recheck) (auto simp: holds_def ends_def split: option.split dest: hand_on_holds [unfolded holds_def, rule_format])
  have keep: "mute t u \<Longrightarrow> ends s t \<Longrightarrow> ends s u" for t u
    by (auto simp: ends_def mute_def adds_rows_def intro: clean_mute [unfolded mute_def] backed_adds [unfolded adds_rows_def])
  have e: "ends s (snd (recover_body D j s))" using body clean by (simp add: holds_def)
  have error: "guar mute (case r of Inr u \<Rightarrow> ret ()
     | Inl e \<Rightarrow> bnd (gets lv_phase) (\<lambda>phase. bnd (live_clock D) (\<lambda>t. append_live
         [(''type'', PStr ''live_recovery_outcome''), (''observed_at'', PFloat t), (''source_session_id'', PStr (rj_session j)),
          (''agent_id'', PStr (rj_agent j)), (''status'', PStr ''RECOVERY_ERROR''), (''phase'', PStr phase),
          (''error'', PStr (exn_name e)), (''error_detail'', PStr (take 240 (exn_text e)))])))" for r :: "unit res"
    by (intro mute_rules mute_row) (simp add: has_text_def)
  have release: "guar mute (modify (\<lambda>s. s\<lparr>lv_inflight := removeAll (rj_session j) (lv_inflight s)\<rparr>))"
    by (auto simp: guar_def mute_def)
  from e keep [OF guarD [OF mute.guar_bnd [OF error release]]] show ?thesis
    unfolding recover_live_def by (simp add: bnd_app attempt_app split: prod.splits sum.splits)
qed

text \<open>C22: when a recovery has reported that it stops the source, a row of it names a handoff file that is there and can be read
  section by section at the end of the recovery, whatever went wrong afterwards.\<close>

theorem source_stopped_behind_handoff:
  assumes "recover_live D j s = (r, t)"
    and "''B_TERMINATE'' \<in> fst ` set (phase_log (new_rows s t))"
  shows "\<exists>row \<in> set (new_rows s t). handoff_row (lv_files t) row"
proof -
  have "ends s t" using recover_ends [of s D j] assms(1) by simp
  then show ?thesis
    using assms(2) by (auto simp: ends_def clean_def backed_def new_rows_def list_ex_iff)
qed

end
