(* ===== verification/JevOnce.thy ===== *)
theory JevOnce
  imports JevProtocol
begin

text \<open>
  Who is recovered and who is nudged: the conditions of a start, one thread per session, and one recovery per session as
  long as the window of the history holds its rows.
\<close>

section \<open>The conditions of a start\<close>

lemma dget_absent: "k \<notin> fst ` set d \<Longrightarrow> dget (d @ e) k = dget e k"
  by (induction d) auto

text \<open>What an answer of SALVAGE leads to.\<close>

definition confirmed :: "'w live_deps \<Rightarrow> 'w live \<Rightarrow> string \<Rightarrow> string \<Rightarrow> bool" where
  "confirmed D s session digest \<longleftrightarrow>
     (case map_of (lv_confirm s) session of
        None \<Rightarrow> False
      | Some (n, last_at, earlier) \<Rightarrow> earlier = digest \<and> 1 \<le> n \<and> (2 \<le> n \<or> 45 \<le> fst (le_clock D (lv_beyond s)) - last_at))"

definition may_start :: "'w live_deps \<Rightarrow> 'w live \<Rightarrow> candidate \<Rightarrow> pydict \<Rightarrow> snapshot \<Rightarrow> string \<Rightarrow> jev_decision \<Rightarrow> bool" where
  "may_start D s c ctx sn digest j \<longleftrightarrow>
     jd_choice j = ''SALVAGE'' \<and> fst (salvage_confident (le_float D) j) \<and> session_role (cd_key c) \<noteq> ''recovery'' \<and>
     lower (cd_agent c) \<noteq> ''main'' \<and> runtime_recovery_safe (le_std D) ctx (Some sn) \<and>
     truthy (dget (scope_of sn) ''auto_recovery_allowed'') \<and> \<not> attempt_exists (lv_history s) (cd_session c) \<and>
     periodic_candidate (cd_kind c) (cd_detection c) \<and> cd_session c \<notin> set (lv_inflight s) \<and> confirmed D s (cd_session c) digest"

lemma next_confirmation_two:
  "2 \<le> fst (next_confirmation now digest e) \<Longrightarrow>
     \<exists>n last_at. e = Some (n, last_at, digest) \<and> 1 \<le> n \<and> (2 \<le> n \<or> 45 \<le> now - last_at)"
  by (auto simp: next_confirmation_def split: option.splits if_split_asm)

lemma filter_none: "filter P xs = [] \<Longrightarrow> x \<in> set xs \<Longrightarrow> \<not> P x"
  by (auto simp: filter_empty_conv)

lemma no_blocks:
  "filter fst (salvage_blocks D h c ctx sn j) = [] \<Longrightarrow>
     fst (salvage_confident (le_float D) j) \<and> session_role (cd_key c) \<noteq> ''recovery'' \<and> lower (cd_agent c) \<noteq> ''main'' \<and>
     runtime_recovery_safe (le_std D) ctx (Some sn) \<and> truthy (dget (scope_of sn) ''auto_recovery_allowed'') \<and>
     \<not> attempt_exists h (cd_session c) \<and> periodic_candidate (cd_kind c) (cd_detection c)"
  by (simp add: salvage_blocks_def Let_def split: prod.splits if_split_asm)

lemma start_app:
  "start_recovery c ctx sn j s =
     (if cd_session c \<in> set (lv_inflight s) then (Inr ''RECOVERY_INFLIGHT'', s\<lparr>lv_confirm := AList.delete (cd_session c) (lv_confirm s)\<rparr>)
      else (Inr ''RECOVERY_STARTED'', s\<lparr>lv_confirm := AList.delete (cd_session c) (lv_confirm s),
              lv_inflight := cd_session c # lv_inflight s, lv_recoveries := lv_recoveries s @ [recovery_job c ctx sn j]\<rparr>))"
  by (simp add: start_recovery_def reset_confirmation_def bnd_app)

lemma confirm_app:
  "confirm_salvage D session digest s =
     (let e = next_confirmation (fst (le_clock D (lv_beyond s))) digest (map_of (lv_confirm s) session) in
      (Inr (fst e), s\<lparr>lv_beyond := snd (le_clock D (lv_beyond s)), lv_confirm := AList.update session e (lv_confirm s)\<rparr>))"
  by (simp add: confirm_salvage_def live_clock_def live_read_def bnd_app Let_def split: prod.split)

text \<open>The part of the state that decides who has a thread.\<close>

definition threads :: "'w live \<Rightarrow> string list \<times> recover_job list \<times> string list \<times> nudge_job list" where
  "threads s = (lv_inflight s, lv_recoveries s, lv_nudging s, lv_nudges s)"

text \<open>The name of an action is not a key of what is noted beside it.\<close>

definition unnamed :: "pydict \<Rightarrow> bool" where
  "unnamed d \<longleftrightarrow> ''action'' \<notin> fst ` set d"

lemma unnamed_append [simp]: "unnamed (a @ b) \<longleftrightarrow> unnamed a \<and> unnamed b"
  by (auto simp: unnamed_def)

lemma unnamed_Cons [simp]: "unnamed ((k, v) # b) \<longleftrightarrow> k \<noteq> ''action'' \<and> unnamed b"
  by (auto simp: unnamed_def)

lemma unnamed_Nil [simp]: "unnamed []"
  by (simp add: unnamed_def)

lemma unnamed_margin [simp]: "unnamed (margin_field D j)"
  by (simp add: margin_field_def)

lemma blocks_action: "(b, action, extra) \<in> set (salvage_blocks D h c ctx sn j) \<Longrightarrow>
    action \<noteq> ''RECOVERY_STARTED'' \<and> action \<noteq> ''NUDGE_DISPATCHED'' \<and> unnamed extra"
  by (auto simp: salvage_blocks_def Let_def split: prod.splits)

lemma act_salvage_blocked:
  "filter fst (salvage_blocks D (lv_history s) c ctx sn j) = (b, action, extra) # xs \<Longrightarrow>
     act_salvage D c ctx sn digest j s = (Inr (action, margin_field D j @ extra), s\<lparr>lv_confirm := AList.delete (cd_session c) (lv_confirm s)\<rparr>)"
  by (simp add: act_salvage_def reset_confirmation_def)

lemma act_salvage_free:
  fixes D :: "'w live_deps" and s :: "'w live" and digest :: string
  assumes "filter fst (salvage_blocks D (lv_history s) c ctx sn j) = []"
  defines "e \<equiv> next_confirmation (fst (le_clock D (lv_beyond s))) digest (map_of (lv_confirm s) (cd_session c))"
  defines "t \<equiv> s\<lparr>lv_beyond := snd (le_clock D (lv_beyond s)), lv_confirm := AList.update (cd_session c) e (lv_confirm s)\<rparr>"
  shows "\<exists>action extra u. act_salvage D c ctx sn digest j s = (Inr (action, extra), u) \<and> unnamed extra \<and> action \<noteq> ''NUDGE_DISPATCHED'' \<and>
    (action \<noteq> ''RECOVERY_STARTED'' \<and> u = t \<or>
     2 \<le> fst e \<and> (Inr action, u) = start_recovery c ctx sn j t)"
proof -
  have step: "act_salvage D c ctx sn digest j s =
      (let counted = margin_field D j @ [(''salvage_confirmation_count'', PInt (int (fst e))), (''salvage_confirmation_required'', PInt 2)] in
       if fst e < 2 then (Inr (''SALVAGE_DEFERRED_RECHECK'',
              counted @ [(''auto_recovery_deferred'', PBool True), (''defer_reason'', PStr ''confirmation_required'')]), t)
       else if \<not> recovery_enabled (le_enabled D (lv_beyond t)) then (Inr (''RECOVERY_READY_OBSERVE_ONLY'',
              counted @ [(''auto_recovery_execution_enabled'', PBool False), (''recovery_ready'', PBool True)]), t)
       else bnd (start_recovery c ctx sn j) (\<lambda>action. ret (action, counted)) t)"
    using assms by (simp add: act_salvage_def bnd_Inr [OF confirm_app [unfolded Let_def]] Let_def)
  consider "fst e < 2" | "2 \<le> fst e" "\<not> recovery_enabled (le_enabled D (lv_beyond t))" | "2 \<le> fst e" "recovery_enabled (le_enabled D (lv_beyond t))"
    by linarith
  then show ?thesis
  proof cases
    case 1
    then show ?thesis by (simp add: step Let_def)
  next
    case 2
    then show ?thesis by (simp add: step Let_def)
  next
    case 3
    then show ?thesis by (simp add: step Let_def bnd_app start_app)
  qed
qed

definition recovery_at :: "'w live_deps \<Rightarrow> 'w live \<Rightarrow> candidate \<Rightarrow> pydict \<Rightarrow> snapshot \<Rightarrow> string \<Rightarrow> jev_decision \<Rightarrow> 'w live \<Rightarrow> bool" where
  "recovery_at D s c ctx sn digest j t \<longleftrightarrow>
     lv_history t = lv_history s \<and> lv_beyond t = snd (le_clock D (lv_beyond s)) \<and> may_start D s c ctx sn digest j \<and>
     threads t = (cd_session c # lv_inflight s, lv_recoveries s @ [recovery_job c ctx sn j], lv_nudging s, lv_nudges s)"

lemma act_salvage_cases:
  assumes "jd_choice j = ''SALVAGE''"
  shows "\<exists>action extra t. act_salvage D c ctx sn digest j s = (Inr (action, extra), t) \<and> unnamed extra \<and> action \<noteq> ''NUDGE_DISPATCHED'' \<and>
    (action = ''RECOVERY_STARTED'' \<and> recovery_at D s c ctx sn digest j t \<or>
     action \<noteq> ''RECOVERY_STARTED'' \<and> lv_history t = lv_history s \<and> threads t = threads s)"
proof (cases "filter fst (salvage_blocks D (lv_history s) c ctx sn j)")
  case (Cons x xs)
  obtain b a e where x: "x = (b, a, e)" by (cases x)
  have "(b, a, e) \<in> set (salvage_blocks D (lv_history s) c ctx sn j)"
    using arg_cong [OF Cons, of set] x by auto
  from blocks_action [OF this] show ?thesis
    using act_salvage_blocked [OF Cons [unfolded x], of digest] by (simp add: threads_def)
next
  case Nil
  let ?e = "next_confirmation (fst (le_clock D (lv_beyond s))) digest (map_of (lv_confirm s) (cd_session c))"
  let ?t = "s\<lparr>lv_beyond := snd (le_clock D (lv_beyond s)), lv_confirm := AList.update (cd_session c) ?e (lv_confirm s)\<rparr>"
  from act_salvage_free [OF Nil] obtain action extra u where
    act: "act_salvage D c ctx sn digest j s = (Inr (action, extra), u)" "unnamed extra" "action \<noteq> ''NUDGE_DISPATCHED''" and
    which: "action \<noteq> ''RECOVERY_STARTED'' \<and> u = ?t \<or> 2 \<le> fst ?e \<and> (Inr action, u) = start_recovery c ctx sn j ?t" by blast
  from which show ?thesis
  proof
    assume "action \<noteq> ''RECOVERY_STARTED'' \<and> u = ?t"
    with act show ?thesis by (simp add: threads_def)
  next
    assume go: "2 \<le> fst ?e \<and> (Inr action, u) = start_recovery c ctx sn j ?t"
    show ?thesis
    proof (cases "cd_session c \<in> set (lv_inflight s)")
      case True
      with go act show ?thesis by (simp add: start_app threads_def)
    next
      case False
      have "confirmed D s (cd_session c) digest"
        using next_confirmation_two [OF conjunct1 [OF go]] by (auto simp: confirmed_def)
      then have "may_start D s c ctx sn digest j"
        using no_blocks [OF Nil] False assms by (simp add: may_start_def)
      with go act False show ?thesis by (simp add: start_app threads_def recovery_at_def)
    qed
  qed
qed

section \<open>The conditions of a nudge\<close>

definition guard_passes :: "'w live_deps \<Rightarrow> pydict list \<Rightarrow> candidate \<Rightarrow> pydict \<Rightarrow> snapshot \<Rightarrow> string \<Rightarrow> bool" where
  "guard_passes D h c ctx sn digest \<longleftrightarrow>
     fst (nudge_guard (le_std D) h ctx sn (scope_of sn) (cd_session c) (session_role (cd_key c)) digest (cd_kind c) (cd_detection c))"

definition nudge_at :: "'w live_deps \<Rightarrow> 'w live \<Rightarrow> candidate \<Rightarrow> pydict \<Rightarrow> snapshot \<Rightarrow> string \<Rightarrow> 'w live \<Rightarrow> bool" where
  "nudge_at D s c ctx sn digest t \<longleftrightarrow>
     guard_passes D (lv_history s) c ctx sn digest \<and> cd_session c \<notin> set (lv_nudging s) \<and>
     (\<exists>i now. lv_history t = lv_history s @ [dispatch_row c digest i (snapshot_metrics sn) now] \<and>
        threads t = (lv_inflight s, lv_recoveries s, cd_session c # lv_nudging s,
          lv_nudges s @ [\<lparr>nj_agent = cd_agent c, nj_session = cd_session c, nj_key = cd_key c, nj_digest = digest, nj_id = i,
            nj_baseline = snapshot_metrics sn\<rparr>]))"

lemma live_read_app: "live_read f s = (Inr (fst (f (lv_beyond s))), s\<lparr>lv_beyond := snd (f (lv_beyond s))\<rparr>)"
  by (simp add: live_read_def split: prod.split)

lemma act_nudge_cases:
  "\<exists>action extra t. act_nudge D c ctx sn digest s = (Inr (action, extra), t) \<and> unnamed extra \<and> action \<noteq> ''RECOVERY_STARTED'' \<and>
     (action = ''NUDGE_DISPATCHED'' \<and> nudge_at D s c ctx sn digest t \<or>
      action \<noteq> ''NUDGE_DISPATCHED'' \<and> lv_history t = lv_history s \<and> threads t = threads s)"
proof -
  obtain ok why where g: "nudge_guard (le_std D) (lv_history s) ctx sn (scope_of sn) (cd_session c) (session_role (cd_key c)) digest (cd_kind c)
      (cd_detection c) = (ok, why)" by (rule prod.exhaust)
  consider "\<not> ok" | "ok" "cd_session c \<in> set (lv_nudging s)" | "ok" "cd_session c \<notin> set (lv_nudging s)" by blast
  then show ?thesis
  proof cases
    case 1
    then show ?thesis by (simp add: act_nudge_def g Let_def threads_def)
  next
    case 2
    then show ?thesis by (simp add: act_nudge_def g Let_def threads_def live_clock_def bnd_app live_read_app)
  next
    case 3
    then have pass: "guard_passes D (lv_history s) c ctx sn digest" by (simp add: guard_passes_def g)
    from 3 show ?thesis
      by (simp add: act_nudge_def g Let_def threads_def live_clock_def bnd_app live_read_app append_live_def nudge_at_def pass) blast
  qed
qed

lemma act_on_cases:
  "\<exists>action extra t. act_on D c ctx sn digest j s = (Inr (action, extra), t) \<and> unnamed extra \<and>
     (action = ''RECOVERY_STARTED'' \<and> recovery_at D s c ctx sn digest j t \<or>
      action = ''NUDGE_DISPATCHED'' \<and> jd_choice j = ''NUDGE'' \<and> nudge_at D s c ctx sn digest t \<or>
      action \<noteq> ''RECOVERY_STARTED'' \<and> action \<noteq> ''NUDGE_DISPATCHED'' \<and> lv_history t = lv_history s \<and> threads t = threads s)"
proof -
  let ?s = "s\<lparr>lv_confirm := AList.delete (cd_session c) (lv_confirm s)\<rparr>"
  consider "jd_choice j = ''SALVAGE''" | "jd_choice j = ''NUDGE''" | "jd_choice j \<noteq> ''SALVAGE''" "jd_choice j \<noteq> ''NUDGE''" by blast
  then show ?thesis
  proof cases
    case 1
    then have "act_on D c ctx sn digest j s = act_salvage D c ctx sn digest j s" by (simp add: act_on_def)
    with act_salvage_cases [OF 1, of D c ctx sn digest s] show ?thesis by fastforce
  next
    case 2
    then have step: "act_on D c ctx sn digest j s = act_nudge D c ctx sn digest ?s" by (simp add: act_on_def reset_confirmation_def)
    have "nudge_at D ?s c ctx sn digest t \<Longrightarrow> nudge_at D s c ctx sn digest t" for t by (simp add: nudge_at_def)
    with step act_nudge_cases [of D c ctx sn digest ?s] 2 show ?thesis by (fastforce simp: threads_def)
  next
    case 3
    then show ?thesis by (auto simp: act_on_def reset_confirmation_def threads_def)
  qed
qed

section \<open>A request\<close>

text \<open>What changes no thread and reports no decision.\<close>

definition calm :: "'w live \<Rightarrow> 'w live \<Rightarrow> bool" where
  "calm s t \<longleftrightarrow> threads t = threads s \<and>
     (\<exists>rows. lv_history t = lv_history s @ rows \<and> list_all (\<lambda>r. \<not> has_text r ''type'' ''live_jev_decision'') rows)"

lemma calm_refl: "calm s s"
  by (auto simp: calm_def intro: exI [of _ "[]"])

lemma calm_trans: "calm s t \<Longrightarrow> calm t u \<Longrightarrow> calm s u"
  unfolding calm_def by (elim conjE exE) (auto simp: list_all_iff)

interpretation calm: guarantee calm
  by unfold_locales (rule calm_refl, erule (1) calm_trans)

text \<open>And, of these, what leaves the confirmations alone.\<close>

definition waits :: "'w live \<Rightarrow> 'w live \<Rightarrow> bool" where
  "waits s t \<longleftrightarrow> calm s t \<and> lv_confirm t = lv_confirm s"

interpretation waits: guarantee waits
  by unfold_locales (auto simp: waits_def calm_refl intro: calm_trans)

lemma waits_calm: "guar waits m \<Longrightarrow> guar calm m"
  by (simp add: guar_def waits_def)

lemma waits_world: "guar waits (live_world f)"
  by (auto simp: guar_def live_world_def waits_def calm_def threads_def split: prod.split)

lemma waits_read: "guar waits (live_read f)"
  by (auto simp: guar_def live_read_app waits_def calm_def threads_def)

lemma waits_clock: "guar waits (live_clock D)"
  by (simp add: live_clock_def waits_read)

lemma waits_row: "\<not> has_text row ''type'' ''live_jev_decision'' \<Longrightarrow> guar waits (append_live row)"
  by (auto simp: guar_def append_live_def waits_def calm_def threads_def)

lemmas waits_rules = waits.guar_bnd waits.guar_ret waits.guar_raise waits.guar_lift waits.guar_gets waits.guar_if waits.guar_let
  waits.guar_option waits.guar_sum waits.guar_prod waits.guar_attempt waits_world waits_read waits_clock

lemma waits_snapshot: "guar waits (live_snapshot D ag session detection)"
  unfolding live_snapshot_def by (intro waits_rules)

lemma pending_row: "guar waits (append_live (pending_fields ag session key d t @ extra))"
  by (rule waits_row) (simp add: pending_fields_def has_text_def)

lemma waits_pending: "guar waits (pending_nudge D ag session key sn)"
  unfolding pending_nudge_def Let_def by (intro waits_rules pending_row)

lemma calm_reset: "guar calm (reset_confirmation session)"
  by (auto simp: guar_def reset_confirmation_def calm_def threads_def)

lemma calm_skipped: "guar calm (skipped D c status why extra)"
  unfolding skipped_def Let_def
  by (intro calm.guar_bnd calm_reset calm.guar_ret waits_calm [OF waits_clock] waits_calm [OF waits_row]) (simp add: skip_row_def has_text_def)

text \<open>A request that reaches the judge: the state in which its answer is acted on, and what is recorded of it.\<close>

definition decided ::
  "'w live_deps \<Rightarrow> 'w live \<Rightarrow> candidate \<Rightarrow> pydict \<Rightarrow> snapshot \<Rightarrow> 'w live \<Rightarrow> string \<Rightarrow> jev_decision \<Rightarrow> string \<Rightarrow> pydict \<Rightarrow> 'w live \<Rightarrow> bool" where
  "decided D s c ctx sn s1 digest j action row t \<longleftrightarrow>
     waits s s1 \<and> snapshot_state_digest (le_std D) sn = Inr digest \<and> (\<exists>state now extra u. act_on D c ctx sn digest j s1 = (Inr (action, extra), u) \<and>
        row = live_decision_row c sn now state digest j @ extra @ [(''action'', PStr action)] \<and> t = u\<lparr>lv_history := lv_history u @ [row]\<rparr>)"

lemma judge_live_cases:
  assumes "judge_live D c ctx sn s = (r, t)"
  shows "(\<exists>e. r = Inl e \<and> calm s t) \<or> (\<exists>row s1 digest j action. r = Inr row \<and> decided D s c ctx sn s1 digest j action row t)"
proof -
  let ?key = "\<lambda>state. ''jev-live:'' @ cd_agent c @ '':'' @ cd_session c @ '':'' @ state"
  show ?thesis
  proof (cases "build_features (le_std D) sn")
    case (Inl e)
    with assms show ?thesis by (auto simp: judge_live_def bnd_app calm_refl)
  next
    case (Inr sf)
    obtain state features where sf: "sf = (state, features)" by (cases sf)
    show ?thesis
    proof (cases "snapshot_state_digest (le_std D) sn")
      case (Inl e)
      with assms Inr sf show ?thesis by (auto simp: judge_live_def bnd_app calm_refl)
    next
      case (Inr digest)
      obtain jr w where judge: "le_judge D features (?key state) (lv_beyond s) = (jr, w)" by (rule prod.exhaust)
      show ?thesis
      proof (cases jr)
        case (Inl e)
        have "calm s (s\<lparr>lv_beyond := w\<rparr>)" by (auto simp: calm_def threads_def)
        with assms \<open>build_features (le_std D) sn = Inr sf\<close> sf Inr judge Inl show ?thesis
          by (auto simp: judge_live_def bnd_app live_world_def)
      next
        case j: (Inr j)
        let ?s = "s\<lparr>lv_beyond := snd (le_clock D w)\<rparr>"
        have w: "waits s ?s" by (auto simp: waits_def calm_def threads_def)
        obtain action extra u where act: "act_on D c ctx sn digest j ?s = (Inr (action, extra), u)"
          using act_on_cases [of D c ctx sn digest j ?s] by blast
        let ?row = "live_decision_row c sn (fst (le_clock D w)) state digest j @ extra @ [(''action'', PStr action)]"
        have d: "decided D s c ctx sn ?s digest j action ?row (u\<lparr>lv_history := lv_history u @ [?row]\<rparr>)"
          unfolding decided_def using w act \<open>snapshot_state_digest (le_std D) sn = Inr digest\<close> by blast
        have "r = Inr ?row \<and> t = u\<lparr>lv_history := lv_history u @ [?row]\<rparr>"
          using assms \<open>build_features (le_std D) sn = Inr sf\<close> sf Inr judge j act
          by (simp add: judge_live_def bnd_app live_world_def live_clock_def live_read_app Let_def append_live_def)
        with d show ?thesis by blast
      qed
    qed
  qed
qed

lemma decided_shift: "waits s0 s \<Longrightarrow> decided D s c ctx sn s1 digest j action row t \<Longrightarrow> decided D s0 c ctx sn s1 digest j action row t"
  by (auto simp: decided_def intro: waits.R_trans)

text \<open>Every other request names a different action.\<close>

definition idle :: "pydict \<Rightarrow> bool" where
  "idle row \<longleftrightarrow> \<not> has_text row ''action'' ''RECOVERY_STARTED'' \<and> \<not> has_text row ''action'' ''NUDGE_DISPATCHED''"

lemma dget_unnamed: "unnamed d \<Longrightarrow> dget (d @ e) ''action'' = dget e ''action''"
  by (simp add: unnamed_def dget_absent)

lemma skipped_idle: "unnamed extra \<Longrightarrow> skipped D c status why extra s = (Inr row, t) \<Longrightarrow> idle row"
  by (auto simp: skipped_def reset_confirmation_def live_clock_def live_read_app bnd_app append_live_def Let_def skip_row_def idle_def has_text_def
      dget_unnamed)

lemma pending_idle:
  assumes "pending_nudge D ag session key sn s = (Inr (Some row), t)"
  shows "idle row"
proof -
  obtain dispatch resolution where n: "latest_nudge (lv_history s) session = (dispatch, resolution)" by (rule prod.exhaust)
  from assms n obtain d where "dispatch = Some d" "resolution = None"
    by (auto simp: pending_nudge_def split: option.splits)
  with assms n show ?thesis
    by (simp add: pending_nudge_def Let_def live_clock_def live_read_app bnd_app append_live_def split: if_split_asm)
      (auto simp: idle_def has_text_def pending_fields_def)
qed

lemma judge_active_cases:
  assumes "judge_active D c ctx sn s = (r, t)"
  shows "calm s t \<and> (\<forall>row. r = Inr row \<longrightarrow> idle row) \<or>
    (\<exists>row s1 digest j action. r = Inr row \<and> fst (source_task_active (le_std D) ctx) \<and> decided D s c ctx sn s1 digest j action row t)"
proof -
  obtain active why where a: "source_task_active (le_std D) ctx = (active, why)" by (rule prod.exhaust)
  show ?thesis
  proof (cases active)
    case False
    let ?op = "skipped D c ''NO_ACTIVE_TASK'' why [(''latest_run'', por (dget ctx ''latest_run'') (PDict []))]"
    have "?op s = (r, t)" using assms a False by (simp add: judge_active_def)
    with guarD [OF calm_skipped, of s D c "''NO_ACTIVE_TASK''" why "[(''latest_run'', por (dget ctx ''latest_run'') (PDict []))]"]
    show ?thesis using skipped_idle [of "[(''latest_run'', por (dget ctx ''latest_run'') (PDict []))]" D c "''NO_ACTIVE_TASK''" why s _ t] by auto
  next
    case True
    obtain p u where pend: "pending_nudge D (cd_agent c) (cd_session c) (cd_key c) sn s = (p, u)" by (rule prod.exhaust)
    have w: "waits s u" using guarD [OF waits_pending, of s D "cd_agent c" "cd_session c" "cd_key c" sn] pend by simp
    then have calm: "calm s u" by (simp add: waits_def)
    consider e where "p = Inl e" | row where "p = Inr (Some row)" | "p = Inr None" by (metis option.exhaust sum.exhaust)
    then show ?thesis
    proof cases
      case 1
      with assms a True pend calm show ?thesis by (auto simp: judge_active_def bnd_app)
    next
      case 2
      with assms a True pend calm pending_idle [of D "cd_agent c" "cd_session c" "cd_key c" sn s row u] show ?thesis
        by (auto simp: judge_active_def bnd_app)
    next
      case 3
      then have "judge_live D c ctx sn u = (r, t)" using assms a True pend by (simp add: judge_active_def bnd_app)
      from judge_live_cases [OF this] show ?thesis
      proof
        assume "\<exists>e. r = Inl e \<and> calm u t"
        then show ?thesis using calm.R_trans [OF calm] by auto
      next
        assume "\<exists>row s1 digest j action. r = Inr row \<and> decided D u c ctx sn s1 digest j action row t"
        then obtain row s1 digest j action where "r = Inr row" "decided D u c ctx sn s1 digest j action row t" by blast
        with decided_shift [OF w] a True show ?thesis by (metis fst_conv)
      qed
    qed
  qed
qed

lemma evaluate_steps:
  assumes "evaluate_live D p s = (r, t)"
  shows "calm s t \<and> (\<forall>row. r = Inr row \<longrightarrow> idle row) \<or>
    (\<exists>c ctx sn row s1 digest j action. candidate_of (le_std D) p = Inr c \<and> session_role (cd_key c) \<noteq> ''handoff'' \<and> r = Inr row \<and>
       fst (live_snapshot D (cd_agent c) (cd_session c) (cd_detection c) s) = Inr (ctx, sn) \<and>
       fst (source_task_active (le_std D) ctx) \<and> decided D s c ctx sn s1 digest j action row t)"
proof (cases "candidate_of (le_std D) p")
  case (Inl e)
  with assms show ?thesis by (auto simp: evaluate_live_def bnd_app calm_refl)
next
  case (Inr c)
  show ?thesis
  proof (cases "session_role (cd_key c) = ''handoff''")
    case True
    have "skipped D c ''CONTROL_SESSION_SKIP'' ''jev_handoff_session'' [] s = (r, t)"
      using assms Inr True by (simp add: evaluate_live_def bnd_app)
    with guarD [OF calm_skipped, of s D c "''CONTROL_SESSION_SKIP''" "''jev_handoff_session''" "[]"]
    show ?thesis using skipped_idle [of "[]" D c "''CONTROL_SESSION_SKIP''" "''jev_handoff_session''" s _ t] by auto
  next
    case False
    obtain x u where snap: "live_snapshot D (cd_agent c) (cd_session c) (cd_detection c) s = (x, u)" by (rule prod.exhaust)
    have w: "waits s u" using guarD [OF waits_snapshot, of s D "cd_agent c" "cd_session c" "cd_detection c"] snap by simp
    show ?thesis
    proof (cases x)
      case (Inl e)
      with assms Inr False snap w show ?thesis by (auto simp: evaluate_live_def bnd_app waits_def)
    next
      case x: (Inr y)
      obtain ctx sn where y: "y = (ctx, sn)" by (cases y)
      let ?v = "u\<lparr>lv_beyond := snd (le_clock D (lv_beyond u))\<rparr>"
      have v: "waits s ?v" using w by (auto simp: waits_def calm_def threads_def)
      show ?thesis
      proof (cases "List.member terminal_sessions (lower (text_or (le_std D) (dget ctx ''status'')))")
        case True
        with assms Inr False snap w x y show ?thesis
          by (auto simp: evaluate_live_def bnd_app reset_confirmation_def waits_def calm_def threads_def idle_def has_text_def)
      next
        case running: False
        have rest: "(case session_age ctx (fst (le_clock D (lv_beyond u))) of
            Some age \<Rightarrow> if age < 300 then skipped D c ''GRACE_PERIOD'' ''session_under_5m'' [(''session_age_seconds'', PFloat (round1 age))]
                         else judge_active D c ctx sn
          | None \<Rightarrow> judge_active D c ctx sn) ?v = (r, t)"
          using assms Inr False snap x y running by (simp add: evaluate_live_def bnd_app live_clock_def live_read_app)
        show ?thesis
        proof (cases "\<exists>age. session_age ctx (fst (le_clock D (lv_beyond u))) = Some age \<and> age < 300")
          case True
          then obtain age where young: "skipped D c ''GRACE_PERIOD'' ''session_under_5m'' [(''session_age_seconds'', PFloat (round1 age))] ?v = (r, t)"
            using rest by auto
          with guarD [OF calm_skipped, of ?v D c "''GRACE_PERIOD''" "''session_under_5m''" "[(''session_age_seconds'', PFloat (round1 age))]"] v
          have "calm s t" by (auto simp: waits_def intro: calm.R_trans)
          with young show ?thesis
            using skipped_idle [of "[(''session_age_seconds'', PFloat (round1 age))]" D c "''GRACE_PERIOD''" "''session_under_5m''" ?v _ t] by auto
        next
          case old: False
          then have "judge_active D c ctx sn ?v = (r, t)" using rest by (auto split: option.splits)
          from judge_active_cases [OF this] show ?thesis
          proof
            assume "calm ?v t \<and> (\<forall>row. r = Inr row \<longrightarrow> idle row)"
            with v show ?thesis by (auto simp: waits_def intro: calm.R_trans)
          next
            assume "\<exists>row s1 digest j action. r = Inr row \<and> fst (source_task_active (le_std D) ctx) \<and> decided D ?v c ctx sn s1 digest j action row t"
            then obtain row s1 digest j action where "r = Inr row" "fst (source_task_active (le_std D) ctx)"
                "decided D ?v c ctx sn s1 digest j action row t" by blast
            moreover have "fst (live_snapshot D (cd_agent c) (cd_session c) (cd_detection c) s) = Inr (ctx, sn)" using snap x y by simp
            ultimately show ?thesis using Inr False decided_shift [OF v] by metis
          qed
        qed
      qed
    qed
  qed
qed

lemma evaluate_cases:
  assumes "evaluate_live D p s = (r, t)"
  shows "calm s t \<and> (\<forall>row. r = Inr row \<longrightarrow> idle row) \<or>
    (\<exists>c ctx sn row s1 digest j action. candidate_of (le_std D) p = Inr c \<and> session_role (cd_key c) \<noteq> ''handoff'' \<and> r = Inr row \<and>
       fst (source_task_active (le_std D) ctx) \<and> decided D s c ctx sn s1 digest j action row t)"
  using evaluate_steps [OF assms] by blast

lemma decision_action [simp]: "unnamed extra \<Longrightarrow> dget (live_decision_row c sn now state digest j @ extra @ [(''action'', PStr action)]) ''action'' = PStr action"
  by (simp add: live_decision_row_def dget_unnamed)

lemma decided_acts:
  assumes "decided D s c ctx sn s1 digest j action row t"
  shows "\<exists>u. has_text row ''action'' action \<and> t = u\<lparr>lv_history := lv_history u @ [row]\<rparr> \<and> waits s s1 \<and>
     (action = ''RECOVERY_STARTED'' \<and> recovery_at D s1 c ctx sn digest j u \<or>
      action = ''NUDGE_DISPATCHED'' \<and> jd_choice j = ''NUDGE'' \<and> nudge_at D s1 c ctx sn digest u \<or>
      action \<noteq> ''RECOVERY_STARTED'' \<and> action \<noteq> ''NUDGE_DISPATCHED'' \<and> lv_history u = lv_history s1 \<and> threads u = threads s1)"
proof -
  from assms obtain state now extra u where d: "waits s s1" "act_on D c ctx sn digest j s1 = (Inr (action, extra), u)"
      "row = live_decision_row c sn now state digest j @ extra @ [(''action'', PStr action)]" "t = u\<lparr>lv_history := lv_history u @ [row]\<rparr>"
    by (auto simp: decided_def)
  from act_on_cases [of D c ctx sn digest j s1] d(2) have a: "unnamed extra"
      "action = ''RECOVERY_STARTED'' \<and> recovery_at D s1 c ctx sn digest j u \<or>
       action = ''NUDGE_DISPATCHED'' \<and> jd_choice j = ''NUDGE'' \<and> nudge_at D s1 c ctx sn digest u \<or>
       action \<noteq> ''RECOVERY_STARTED'' \<and> action \<noteq> ''NUDGE_DISPATCHED'' \<and> lv_history u = lv_history s1 \<and> threads u = threads s1"
    by auto
  have "has_text row ''action'' action" using d(3) a(1) by (simp add: has_text_def)
  with d a(2) show ?thesis by blast
qed

lemma decided_fields:
  assumes "decided D s c ctx sn s1 digest j action row t"
  shows "has_text row ''type'' ''live_jev_decision''" "has_text row ''session_id'' (cd_session c)" "has_text row ''stable_state_digest'' digest"
    "has_text row ''choice'' (jd_choice j)"
  using assms by (auto simp: decided_def live_decision_row_def has_text_def)

text \<open>A recovery is started only for a task session of another agent than main with a running task, whose context and snapshot
  the request has just read, within a scope that allows it, asked for by the periodic supervisor, with no recovery running or recorded
  in the window, on a SALVAGE decision about a state for which an earlier SALVAGE decision was noted, at least 45 seconds before
  unless the two confirmations were already there.\<close>

theorem recovery_start_conditions:
  assumes "evaluate_live D p s = (Inr row, t)" and "has_text row ''action'' ''RECOVERY_STARTED''"
  shows "\<exists>c ctx sn digest n last_at w. candidate_of (le_std D) p = Inr c \<and>
    fst (live_snapshot D (cd_agent c) (cd_session c) (cd_detection c) s) = Inr (ctx, sn) \<and> fst (source_task_active (le_std D) ctx) \<and>
    runtime_recovery_safe (le_std D) ctx (Some sn) \<and> truthy (dget (scope_of sn) ''auto_recovery_allowed'') \<and> snapshot_state_digest (le_std D) sn = Inr digest \<and>
    session_role (cd_key c) = ''task'' \<and> lower (cd_agent c) \<noteq> ''main'' \<and>
    periodic_candidate (cd_kind c) (cd_detection c) \<and> cd_session c \<notin> set (lv_inflight s) \<and>
    \<not> attempt_exists (butlast (lv_history t)) (cd_session c) \<and> has_text row ''choice'' ''SALVAGE'' \<and>
    has_text row ''stable_state_digest'' digest \<and> map_of (lv_confirm s) (cd_session c) = Some (n, last_at, digest) \<and> 1 \<le> n \<and>
    lv_beyond t = snd (le_clock D w) \<and> (n = 1 \<longrightarrow> 45 \<le> fst (le_clock D w) - last_at)"
proof -
  have "\<not> idle row" using assms(2) by (simp add: idle_def)
  with evaluate_steps [OF assms(1)] obtain c ctx sn s1 digest j action where c: "candidate_of (le_std D) p = Inr c"
      "session_role (cd_key c) \<noteq> ''handoff''" "fst (live_snapshot D (cd_agent c) (cd_session c) (cd_detection c) s) = Inr (ctx, sn)"
      "fst (source_task_active (le_std D) ctx)" and d: "decided D s c ctx sn s1 digest j action row t" by blast
  from decided_acts [OF d] obtain u where u: "has_text row ''action'' action" "t = u\<lparr>lv_history := lv_history u @ [row]\<rparr>" "waits s s1"
      "action = ''RECOVERY_STARTED'' \<longrightarrow> recovery_at D s1 c ctx sn digest j u" by auto
  from u(1) assms(2) have "action = ''RECOVERY_STARTED''" by (simp add: has_text_def)
  with u(4) have r: "recovery_at D s1 c ctx sn digest j u" by simp
  have start: "may_start D s1 c ctx sn digest j" using r by (simp add: recovery_at_def)
  have role: "session_role (cd_key c) = ''task''"
    using c(2) start by (auto simp: session_role_def may_start_def split: if_split_asm)
  from start obtain n last_at where "map_of (lv_confirm s1) (cd_session c) = Some (n, last_at, digest)" "1 \<le> n"
      "2 \<le> n \<or> 45 \<le> fst (le_clock D (lv_beyond s1)) - last_at"
    by (auto simp: may_start_def confirmed_def split: option.splits)
  moreover have "snapshot_state_digest (le_std D) sn = Inr digest" using d by (simp add: decided_def)
  ultimately show ?thesis using c role start r u decided_fields [OF d]
    by (intro exI [of _ c] exI [of _ ctx] exI [of _ sn] exI [of _ digest] exI [of _ n] exI [of _ last_at] exI [of _ "lv_beyond s1"])
      (auto simp: may_start_def waits_def calm_def threads_def recovery_at_def)
qed

section \<open>What a recovery leaves behind\<close>

lemma waits_files: "guar waits (modify (\<lambda>s. s\<lparr>lv_files := f s\<rparr>))"
  by (auto simp: guar_def waits_def calm_def threads_def)

lemma waits_enter: "guar waits (enter_phase p)"
  by (auto simp: guar_def enter_phase_def waits_def calm_def threads_def)

lemma waits_phase: "guar waits (append_phase D session ag ph st extra)"
  unfolding append_phase_def by (intro waits_rules waits_row) (simp add: phase_row_def has_text_def)

lemma waits_context: "guar waits (live_context D ag session)"
  unfolding live_context_def by (intro waits_rules)

lemma waits_turn: "guar waits (agent_turn D ag key message timeout)"
  unfolding agent_turn_def by (intro waits_rules)

lemma waits_abort: "guar waits (abort_session D ag key run_id)"
  unfolding abort_session_def open_bridge_def request_abort_def Let_def by (intro waits_rules)

lemma waits_read_handoff: "guar waits (read_handoff path)"
  unfolding read_handoff_def by (intro waits_rules)

lemma waits_handoff: "guar waits (write_code_handoff D ag session key detection path)"
  unfolding write_code_handoff_def Let_def by (intro waits_rules waits_phase waits_context waits_files waits_read_handoff)

lemma waits_terminate: "guar waits (terminate_source D ag session key)"
  unfolding terminate_source_def Let_def by (intro waits_rules waits_phase waits_context waits_abort)

lemma waits_restart: "guar waits (restart_and_resume D ag session path target)"
  unfolding restart_and_resume_def Let_def by (intro waits_rules waits_phase waits_turn)

lemma waits_stale: "guar waits (stale_outcome D j choice extra)"
  unfolding stale_outcome_def by (intro waits_rules waits_row) (simp add: has_text_def)

lemma waits_recheck: "guar waits (recheck D j)"
  unfolding recheck_def by (intro waits_rules waits_snapshot waits_stale waits_row) (simp add: has_text_def)

lemma waits_outcome: "guar waits (append_live (outcome_base j path a b t @ extra))"
  by (rule waits_row) (simp add: outcome_base_def has_text_def)

lemma waits_hand_on: "guar waits (hand_on D j)"
  unfolding hand_on_def Let_def
  by (intro waits_rules waits_stale waits_enter waits_handoff waits_terminate waits_restart waits_outcome)

lemma waits_body: "guar waits (recover_body D j)"
  unfolding recover_body_def by (intro waits_rules waits_enter waits_recheck waits_hand_on)

text \<open>Every recovery ends with an outcome of its session.\<close>

definition extends :: "'w live \<Rightarrow> 'w live \<Rightarrow> bool" where
  "extends s t \<longleftrightarrow> (\<exists>rows. lv_history t = lv_history s @ rows)"

definition noted :: "string \<Rightarrow> 'w live \<Rightarrow> 'w live \<Rightarrow> bool" where
  "noted session s t \<longleftrightarrow> (\<exists>rows. lv_history t = lv_history s @ rows \<and> list_ex (attempt_row session) rows)"

lemma noted_extends: "noted session s t \<Longrightarrow> extends s t"
  by (auto simp: noted_def extends_def)

lemma extends_waits: "extends s t \<Longrightarrow> waits t u \<Longrightarrow> extends s u"
  by (auto simp: extends_def waits_def calm_def)

lemma holds_waits: "guar waits m \<Longrightarrow> holds (extends s) m (extends s) (\<lambda>x. extends s)"
  by (erule holds_frame) (blast intro: extends_waits)

lemma holds_row: "attempt_row session row \<Longrightarrow> holds (extends s) (append_live row) (extends s) (\<lambda>x. noted session s)"
  by (auto simp: holds_def append_live_def extends_def noted_def)

lemma holds_outcome:
  "holds (extends s) (bnd (live_clock D) (\<lambda>t. append_live (outcome_base j path a b t @ extra))) (extends s) (\<lambda>x. noted (rj_session j) s)"
  by (rule holds_bnd [OF holds_waits [OF waits_clock]], rule holds_row) (simp add: attempt_row_def outcome_base_def has_text_def)

lemma holds_stale: "holds (extends s) (stale_outcome D j choice extra) (extends s) (\<lambda>x. noted (rj_session j) s)"
  unfolding stale_outcome_def
  by (rule holds_bnd [OF holds_waits [OF waits_clock]], rule holds_row) (simp add: attempt_row_def has_text_def)

lemma hand_on_noted: "holds (extends s) (hand_on D j) (extends s) (\<lambda>x. noted (rj_session j) s)"
  unfolding hand_on_def Let_def
  by (intro holds_prod holds_if holds_stale holds_outcome holds_bnd [OF holds_waits] waits_rules waits_enter waits_handoff waits_terminate
      waits_restart)

definition rechecked :: "recover_job \<Rightarrow> 'w live \<Rightarrow> recover_job option \<Rightarrow> 'w live \<Rightarrow> bool" where
  "rechecked j s r t \<longleftrightarrow> (case r of None \<Rightarrow> noted (rj_session j) s t | Some k \<Rightarrow> extends s t \<and> rj_session k = rj_session j)"

lemma recheck_noted: "holds (extends s) (recheck D j) (extends s) (rechecked j s)"
proof -
  have some: "rj_session k = rj_session j \<Longrightarrow> holds (extends s) (ret (Some k)) (extends s) (rechecked j s)" for k
    by (simp add: holds_def rechecked_def)
  have none: "holds (noted (rj_session j) s) (ret None) (extends s) (rechecked j s)"
    by (simp add: holds_def rechecked_def noted_extends)
  show ?thesis
    unfolding recheck_def
    by (intro holds_prod holds_if some holds_bnd [OF holds_waits] holds_bnd [OF holds_stale] none waits_rules waits_snapshot waits_row)
      (simp_all add: has_text_def)
qed

lemma body_noted: "holds (extends s) (recover_body D j) (extends s) (\<lambda>x. noted (rj_session j) s)"
proof -
  have "holds (rechecked j s r) (case r of None \<Rightarrow> ret () | Some k \<Rightarrow> hand_on D k) (extends s) (\<lambda>x. noted (rj_session j) s)" for r
  proof (cases r)
    case None
    then show ?thesis by (auto simp: holds_def rechecked_def noted_extends)
  next
    case (Some k)
    with hand_on_noted [of s D k] show ?thesis by (auto simp: holds_def rechecked_def)
  qed
  then show ?thesis
    unfolding recover_body_def by (intro holds_bnd [OF holds_waits [OF waits_enter]] holds_bnd [OF recheck_noted])
qed

lemma recover_leaves:
  "\<exists>rows. lv_history (snd (recover_live D j s)) = lv_history s @ rows \<and> list_ex (attempt_row (rj_session j)) rows \<and>
     list_all (\<lambda>r. \<not> has_text r ''type'' ''live_jev_decision'') rows \<and>
     threads (snd (recover_live D j s)) = (removeAll (rj_session j) (lv_inflight s), lv_recoveries s, lv_nudging s, lv_nudges s)"
proof -
  obtain r u where b: "recover_body D j s = (r, u)" by (rule prod.exhaust)
  have w: "waits s u" using guarD [OF waits_body, of s D j] b by simp
  have "extends s s" by (auto simp: extends_def)
  then have n: "r = Inr () \<Longrightarrow> noted (rj_session j) s u"
    using body_noted [of s D j] b unfolding holds_def by (metis fst_conv snd_conv)
  show ?thesis
  proof (cases r)
    case (Inl e)
    with w b show ?thesis
      by (auto simp: recover_live_def bnd_app attempt_app live_clock_def live_read_app append_live_def waits_def calm_def threads_def
          attempt_row_def has_text_def)
  next
    case (Inr x)
    with n have "noted (rj_session j) s u" by simp
    with w b Inr show ?thesis
      by (auto simp: recover_live_def bnd_app attempt_app waits_def calm_def threads_def noted_def)
  qed
qed

section \<open>One thread per session\<close>

text \<open>A list of pending jobs and the sessions marked as busy.\<close>

definition one_each :: "string list \<Rightarrow> string list \<Rightarrow> bool" where
  "one_each busy sessions \<longleftrightarrow> distinct busy \<and> distinct sessions \<and> set sessions = set busy"

lemma one_each_add: "one_each busy sessions \<Longrightarrow> x \<notin> set busy \<Longrightarrow> one_each (x # busy) (sessions @ [x])"
  by (auto simp: one_each_def)

lemma map_drop_at: "map f (drop_at i xs) = drop_at i (map f xs)"
  by (simp add: drop_at_def take_map drop_map)

lemma one_each_drop:
  assumes "one_each busy sessions" and "i < length sessions"
  shows "one_each (removeAll (sessions ! i) busy) (drop_at i sessions)"
proof -
  have split: "sessions = take i sessions @ sessions ! i # drop (Suc i) sessions" using assms(2) by (rule id_take_nth_drop)
  then have d: "distinct (take i sessions @ sessions ! i # drop (Suc i) sessions)" using assms(1) unfolding one_each_def by metis
  have b: "set busy = insert (sessions ! i) (set (take i sessions) \<union> set (drop (Suc i) sessions))"
    using assms(1) arg_cong [OF split, of set] by (simp add: one_each_def)
  show ?thesis
    using assms(1) d b by (auto simp: one_each_def drop_at_def distinct_removeAll)
qed

definition one_thread :: "'w live \<Rightarrow> bool" where
  "one_thread s \<longleftrightarrow> one_each (lv_inflight s) (map rj_session (lv_recoveries s)) \<and> one_each (lv_nudging s) (map nj_session (lv_nudges s))"

lemma one_thread_threads: "threads t = threads s \<Longrightarrow> one_thread s \<Longrightarrow> one_thread t"
  by (simp add: one_thread_def threads_def)

lemma waits_nudge_turn: "guar waits (nudge_turn D j)"
  unfolding nudge_turn_def live_trace_def Let_def
  by (intro waits_rules waits_turn waits_row) (simp add: nudge_fields_def has_text_def)

lemma nudge_leaves:
  "\<exists>rows. lv_history (snd (run_nudge D j s)) = lv_history s @ rows \<and> list_all (\<lambda>r. \<not> has_text r ''type'' ''live_jev_decision'') rows \<and>
     threads (snd (run_nudge D j s)) = (lv_inflight s, lv_recoveries s, removeAll (nj_session j) (lv_nudging s), lv_nudges s)"
proof -
  obtain r u where b: "nudge_turn D j s = (r, u)" by (rule prod.exhaust)
  have w: "waits s u" using guarD [OF waits_nudge_turn, of s D j] b by simp
  then show ?thesis
    by (cases r) (auto simp: b run_nudge_def bnd_app attempt_app live_clock_def live_read_app append_live_def waits_def calm_def threads_def
        nudge_fields_def has_text_def)
qed

lemma decided_threads:
  assumes "decided D s c ctx sn s1 digest j action row t" and "one_thread s"
  shows "one_thread t"
proof -
  from decided_acts [OF assms(1)] obtain u where u: "t = u\<lparr>lv_history := lv_history u @ [row]\<rparr>" "waits s s1"
      "recovery_at D s1 c ctx sn digest j u \<or> nudge_at D s1 c ctx sn digest u \<or> threads u = threads s1" by auto
  have s1: "one_thread s1" using u(2) assms(2) by (auto simp: waits_def calm_def intro: one_thread_threads)
  from u(3) have "one_thread u"
  proof (elim disjE)
    assume "recovery_at D s1 c ctx sn digest j u"
    then show ?thesis
      using s1 one_each_add by (auto simp: recovery_at_def may_start_def one_thread_def threads_def recovery_job_def)
  next
    assume "nudge_at D s1 c ctx sn digest u"
    then show ?thesis using s1 one_each_add by (auto simp: nudge_at_def one_thread_def threads_def)
  next
    assume "threads u = threads s1"
    then show ?thesis using s1 by (rule one_thread_threads)
  qed
  then show ?thesis using u(1) by (auto simp: threads_def intro: one_thread_threads)
qed

lemma step_threads: "one_thread s \<Longrightarrow> one_thread (live_step D call s)"
proof (cases call)
  case (Candidate p)
  assume inv: "one_thread s"
  obtain r t where e: "evaluate_live D p s = (r, t)" by (rule prod.exhaust)
  from evaluate_cases [OF e] have "one_thread t"
  proof
    assume "calm s t \<and> (\<forall>row. r = Inr row \<longrightarrow> idle row)"
    then show ?thesis using inv by (auto simp: calm_def intro: one_thread_threads)
  next
    assume "\<exists>c ctx sn row s1 digest j action. candidate_of (le_std D) p = Inr c \<and> session_role (cd_key c) \<noteq> ''handoff'' \<and> r = Inr row \<and>
        fst (source_task_active (le_std D) ctx) \<and> decided D s c ctx sn s1 digest j action row t"
    then show ?thesis using inv decided_threads by blast
  qed
  with Candidate e show ?thesis by simp
next
  case (RunNudge i)
  assume inv: "one_thread s"
  show ?thesis
  proof (cases "i < length (lv_nudges s)")
    case True
    from nudge_leaves [of D "lv_nudges s ! i" "s\<lparr>lv_nudges := drop_at i (lv_nudges s)\<rparr>"] one_each_drop [of "lv_nudging s" "map nj_session (lv_nudges s)" i]
    show ?thesis using True inv RunNudge by (auto simp: one_thread_def threads_def map_drop_at)
  qed (use inv RunNudge in simp)
next
  case (RunRecovery i)
  assume inv: "one_thread s"
  show ?thesis
  proof (cases "i < length (lv_recoveries s)")
    case True
    from recover_leaves [of D "lv_recoveries s ! i" "s\<lparr>lv_recoveries := drop_at i (lv_recoveries s)\<rparr>"]
      one_each_drop [of "lv_inflight s" "map rj_session (lv_recoveries s)" i]
    show ?thesis using True inv RunRecovery by (auto simp: one_thread_def threads_def map_drop_at)
  qed (use inv RunRecovery in simp)
qed

text \<open>C24: whatever requests come and whichever threads run, no session has two recovery threads or two nudge threads pending, and
  the sessions marked as busy are exactly those with a pending thread.\<close>

theorem one_thread_per_session: "one_thread (live_run D calls (live_start w))"
proof -
  have "one_thread s \<Longrightarrow> one_thread (live_run D calls s)" for s
    by (induction calls arbitrary: s) (auto simp: live_run_def step_threads)
  moreover have "one_thread (live_start w)" by (simp add: one_thread_def live_start_def one_each_def)
  ultimately show ?thesis by blast
qed

section \<open>One recovery per session\<close>

definition started :: "string \<Rightarrow> pydict \<Rightarrow> bool" where
  "started session row \<longleftrightarrow>
     has_text row ''type'' ''live_jev_decision'' \<and> has_text row ''session_id'' session \<and> has_text row ''action'' ''RECOVERY_STARTED''"

definition starts :: "string \<Rightarrow> pydict list \<Rightarrow> nat" where
  "starts session rows = length (filter (started session) rows)"

lemma starts_append [simp]: "starts session (xs @ ys) = starts session xs + starts session ys"
  by (simp add: starts_def)

lemma starts_none: "list_all (\<lambda>r. \<not> has_text r ''type'' ''live_jev_decision'') rows \<Longrightarrow> starts session rows = 0"
  by (auto simp: starts_def started_def list_all_iff filter_empty_conv)

definition recovered_once :: "string \<Rightarrow> 'w live \<Rightarrow> bool" where
  "recovered_once session s \<longleftrightarrow> starts session (lv_history s) \<le> 1 \<and>
     (starts session (lv_history s) = 1 \<longrightarrow> session \<in> set (lv_inflight s) \<or> list_ex (attempt_row session) (lv_history s))"

lemma latest_all: "length xs \<le> n \<Longrightarrow> latest n xs = xs"
  by (simp add: latest_def)

lemma once_calm: "calm s t \<Longrightarrow> recovered_once session s \<Longrightarrow> recovered_once session t"
  by (auto simp: calm_def recovered_once_def threads_def starts_none)

lemma decided_once:
  assumes "decided D s c ctx sn s1 digest j action row t" and "recovered_once session s" and "length (lv_history t) \<le> 2000"
  shows "recovered_once session t"
proof -
  from decided_acts [OF assms(1)] obtain u where u: "has_text row ''action'' action" "t = u\<lparr>lv_history := lv_history u @ [row]\<rparr>" "waits s s1"
      "action = ''RECOVERY_STARTED'' \<and> recovery_at D s1 c ctx sn digest j u \<or>
       action \<noteq> ''RECOVERY_STARTED'' \<and> nudge_at D s1 c ctx sn digest u \<or>
       action \<noteq> ''RECOVERY_STARTED'' \<and> lv_history u = lv_history s1 \<and> threads u = threads s1" by auto
  have s1: "recovered_once session s1" using u(3) assms(2) by (auto simp: waits_def intro: once_calm)
  from u(4) show ?thesis
  proof (elim disjE conjE)
    assume start: "action = ''RECOVERY_STARTED''" and r: "recovery_at D s1 c ctx sn digest j u"
    show ?thesis
    proof (cases "session = cd_session c")
      case True
      have "length (lv_history s1) \<le> 2000" using r assms(3) u(2) by (simp add: recovery_at_def)
      with r have "\<not> list_ex (attempt_row session) (lv_history s1)" "session \<notin> set (lv_inflight s1)"
        using True by (auto simp: recovery_at_def may_start_def attempt_exists_def latest_all)
      then have "starts session (lv_history s1) = 0" using s1 by (auto simp: recovered_once_def)
      with r u(2) True show ?thesis by (auto simp: recovered_once_def recovery_at_def threads_def starts_def)
    next
      case False
      then have "starts session [row] = 0" using decided_fields(2) [OF assms(1)] by (simp add: starts_def started_def has_text_def)
      with r u(2) s1 show ?thesis by (auto simp: recovered_once_def recovery_at_def threads_def)
    qed
  next
    assume "action \<noteq> ''RECOVERY_STARTED''" and n: "nudge_at D s1 c ctx sn digest u"
    with u(1) have "starts session [row] = 0" by (auto simp: starts_def started_def has_text_def)
    moreover have "starts session [dispatch_row c digest i b now] = 0" for i b now
      by (simp add: starts_def started_def dispatch_row_def has_text_def)
    ultimately show ?thesis using n u(2) s1 by (auto simp: recovered_once_def nudge_at_def threads_def)
  next
    assume "action \<noteq> ''RECOVERY_STARTED''" and k: "lv_history u = lv_history s1" "threads u = threads s1"
    with u(1) have "starts session [row] = 0" by (auto simp: starts_def started_def has_text_def)
    with k u(2) s1 show ?thesis by (auto simp: recovered_once_def threads_def)
  qed
qed

lemma step_once:
  assumes "recovered_once session s" and "length (lv_history (live_step D call s)) \<le> 2000"
  shows "recovered_once session (live_step D call s)"
proof (cases call)
  case (Candidate p)
  obtain r t where e: "evaluate_live D p s = (r, t)" by (rule prod.exhaust)
  have short: "length (lv_history t) \<le> 2000" using assms(2) Candidate e by simp
  from evaluate_cases [OF e] have "recovered_once session t"
  proof
    assume "calm s t \<and> (\<forall>row. r = Inr row \<longrightarrow> idle row)"
    then show ?thesis using assms(1) once_calm by blast
  next
    assume "\<exists>c ctx sn row s1 digest j action. candidate_of (le_std D) p = Inr c \<and> session_role (cd_key c) \<noteq> ''handoff'' \<and> r = Inr row \<and>
        fst (source_task_active (le_std D) ctx) \<and> decided D s c ctx sn s1 digest j action row t"
    then show ?thesis using decided_once [OF _ assms(1) short] by blast
  qed
  with Candidate e show ?thesis by simp
next
  case (RunNudge i)
  with assms(1) nudge_leaves [of D "lv_nudges s ! i" "s\<lparr>lv_nudges := drop_at i (lv_nudges s)\<rparr>"] show ?thesis
    by (auto simp: recovered_once_def threads_def starts_none)
next
  case (RunRecovery i)
  from recover_leaves [of D "lv_recoveries s ! i" "s\<lparr>lv_recoveries := drop_at i (lv_recoveries s)\<rparr>"] obtain rows where
    "lv_history (snd (recover_live D (lv_recoveries s ! i) (s\<lparr>lv_recoveries := drop_at i (lv_recoveries s)\<rparr>))) = lv_history s @ rows"
    "list_ex (attempt_row (rj_session (lv_recoveries s ! i))) rows" "list_all (\<lambda>r. \<not> has_text r ''type'' ''live_jev_decision'') rows"
    "lv_inflight (snd (recover_live D (lv_recoveries s ! i) (s\<lparr>lv_recoveries := drop_at i (lv_recoveries s)\<rparr>))) =
       removeAll (rj_session (lv_recoveries s ! i)) (lv_inflight s)"
    by (auto simp: threads_def)
  with assms(1) RunRecovery show ?thesis
    by (cases "session = rj_session (lv_recoveries s ! i)") (auto simp: recovered_once_def starts_none)
qed

lemma step_extends: "length (lv_history s) \<le> length (lv_history (live_step D call s))"
proof (cases call)
  case (Candidate p)
  obtain r t where e: "evaluate_live D p s = (r, t)" by (rule prod.exhaust)
  from evaluate_cases [OF e] have "length (lv_history s) \<le> length (lv_history t)"
  proof
    assume "calm s t \<and> (\<forall>row. r = Inr row \<longrightarrow> idle row)"
    then show ?thesis by (auto simp: calm_def)
  next
    assume "\<exists>c ctx sn row s1 digest j action. candidate_of (le_std D) p = Inr c \<and> session_role (cd_key c) \<noteq> ''handoff'' \<and> r = Inr row \<and>
        fst (source_task_active (le_std D) ctx) \<and> decided D s c ctx sn s1 digest j action row t"
    then obtain c ctx sn row s1 digest j action where "decided D s c ctx sn s1 digest j action row t" by blast
    from decided_acts [OF this] show ?thesis
      by (auto simp: waits_def calm_def recovery_at_def nudge_at_def)
  qed
  with Candidate e show ?thesis by simp
next
  case (RunNudge i)
  with nudge_leaves [of D "lv_nudges s ! i" "s\<lparr>lv_nudges := drop_at i (lv_nudges s)\<rparr>"] show ?thesis by auto
next
  case (RunRecovery i)
  with recover_leaves [of D "lv_recoveries s ! i" "s\<lparr>lv_recoveries := drop_at i (lv_recoveries s)\<rparr>"] show ?thesis by auto
qed

lemma run_snoc: "live_run D (calls @ [call]) s = live_step D call (live_run D calls s)"
  by (simp add: live_run_def)


text \<open>A nudge is sent only when every check of the guard passes on the context and the snapshot that the request has just read:
  a task session with a running task, nothing in flight, no progress for a minute, a safe scope, no recovery recorded, asked for by the
  periodic supervisor; and not twice for the same state, nor again when the last one moved nothing.\<close>

theorem nudge_conditions:
  assumes "evaluate_live D p s = (Inr row, t)" and "has_text row ''action'' ''NUDGE_DISPATCHED''"
  shows "\<exists>c ctx sn h digest. candidate_of (le_std D) p = Inr c \<and>
    fst (live_snapshot D (cd_agent c) (cd_session c) (cd_detection c) s) = Inr (ctx, sn) \<and> snapshot_state_digest (le_std D) sn = Inr digest \<and> has_text row ''stable_state_digest'' digest \<and> has_text row ''choice'' ''NUDGE'' \<and>
    cd_session c \<notin> set (lv_nudging s) \<and> lv_nudging t = cd_session c # lv_nudging s \<and>
    h = butlast (butlast (lv_history t)) \<and>
    list_all fst (guard_checks (le_std D) h ctx sn (scope_of sn) (cd_session c) (session_role (cd_key c)) (cd_kind c) (cd_detection c)) \<and>
    (\<forall>prior. fst (latest_nudge h (cd_session c)) = Some prior \<longrightarrow>
       text_or (le_std D) (dget prior ''stable_state_digest'') \<noteq> digest \<and>
       worker_activity (dict_or_empty (dget prior ''baseline'')) (snapshot_metrics sn) [] \<noteq> [])"
proof -
  have "\<not> idle row" using assms(2) by (simp add: idle_def)
  with evaluate_steps [OF assms(1)] obtain c ctx sn s1 digest j action where c: "candidate_of (le_std D) p = Inr c"
      "fst (live_snapshot D (cd_agent c) (cd_session c) (cd_detection c) s) = Inr (ctx, sn)" and d: "decided D s c ctx sn s1 digest j action row t" by blast
  from decided_acts [OF d] obtain u where u: "has_text row ''action'' action" "t = u\<lparr>lv_history := lv_history u @ [row]\<rparr>" "waits s s1"
      "action = ''NUDGE_DISPATCHED'' \<longrightarrow> jd_choice j = ''NUDGE'' \<and> nudge_at D s1 c ctx sn digest u" by auto
  from u(1) assms(2) have "action = ''NUDGE_DISPATCHED''" by (simp add: has_text_def)
  with u(4) have n: "nudge_at D s1 c ctx sn digest u" "jd_choice j = ''NUDGE''" by auto
  have h: "butlast (butlast (lv_history t)) = lv_history s1" using n u(2) by (auto simp: nudge_at_def)
  have pass: "guard_passes D (lv_history s1) c ctx sn digest" using n by (simp add: nudge_at_def)
  have checks: "list_all fst (guard_checks (le_std D) (lv_history s1) ctx sn (scope_of sn) (cd_session c) (session_role (cd_key c)) (cd_kind c)
      (cd_detection c))"
    using pass by (auto simp: guard_passes_def nudge_guard_def list_all_iff filter_empty_conv split: list.splits)
  have prior: "\<forall>prior. fst (latest_nudge (lv_history s1) (cd_session c)) = Some prior \<longrightarrow>
       text_or (le_std D) (dget prior ''stable_state_digest'') \<noteq> digest \<and>
       worker_activity (dict_or_empty (dget prior ''baseline'')) (snapshot_metrics sn) [] \<noteq> []"
    using pass by (auto simp: guard_passes_def nudge_guard_def split: list.splits if_split_asm)
  have "snapshot_state_digest (le_std D) sn = Inr digest" using d by (simp add: decided_def)
  then show ?thesis
    using c n u h checks prior decided_fields [OF d]
    by (intro exI [of _ c] exI [of _ ctx] exI [of _ sn] exI [of _ "lv_history s1"] exI [of _ digest])
      (auto simp: waits_def calm_def threads_def nudge_at_def)
qed

end
