(* ===== verification/JevHandover.thy ===== *)
theory JevHandover
  imports JevWatchdog
begin

text \<open>
  What the recovery watchdog promises: the handoff document can be read back section by section, a session is handed over
  only on a safe SALVAGE decision about the very facts observed, and once.
\<close>

section \<open>Reading a handoff back\<close>

lemma not_blank_head: "\<not> is_space c \<Longrightarrow> \<not> blank (c # s)"
  by (simp add: blank_def strip_def lstrip_def)

text \<open>The text after the first occurrence of a marker.\<close>

definition after :: "string \<Rightarrow> string \<Rightarrow> string option" where
  "after m s = map_option snd (split_once m s)"

lemma after_Cons: "\<not> starts_with (c # s) m \<Longrightarrow> after m (c # s) = after m s"
  by (simp add: after_def option.map_comp comp_def case_prod_unfold)

lemma after_here: "m \<noteq> [] \<Longrightarrow> starts_with s m \<Longrightarrow> after m s = Some (drop (length m) s)"
  by (cases s; cases m) (auto simp: after_def)

lemma starts_with_self [simp]: "starts_with (p @ s) p"
  by (induction p) auto

text \<open>Text without the sign that opens a marker is passed over.\<close>

lemma after_free: "CHR ''#'' \<notin> set p \<Longrightarrow> after (CHR ''#'' # m) (p @ s) = after (CHR ''#'' # m) s"
  by (induction p) (auto simp: after_Cons)

lemma starts_with_line:
  "c \<notin> set a \<Longrightarrow> c \<notin> set b \<Longrightarrow> starts_with (a @ c # s) (b @ [c]) \<longleftrightarrow> a = b"
proof (induction a arbitrary: b)
  case Nil
  then show ?case by (cases b) auto
next
  case (Cons x a)
  then show ?case by (cases b) auto
qed

definition plain_name :: "string \<Rightarrow> bool" where
  "plain_name s \<longleftrightarrow> CHR ''#'' \<notin> set s \<and> CHR 0x0A \<notin> set s \<and> CHR 0x0D \<notin> set s"

lemma after_other_section:
  assumes "plain_name x" and "plain_name y" and "x \<noteq> y" and "CHR ''#'' \<notin> set v"
  shows "after (''## '' @ y @ nl) (section_text x v @ s) = after (''## '' @ y @ nl) s"
proof -
  have "\<not> starts_with (x @ CHR 0x0A # r) (y @ [CHR 0x0A])" for r
    using starts_with_line [of "CHR 0x0A" x y r] assms(1-3) by (auto simp: plain_name_def)
  then have "after (''## '' @ y @ nl) (section_text x v @ s) = after (''## '' @ y @ nl) ('' '' @ x @ nl @ v @ nl @ nl @ s)"
    by (simp add: section_text_def nl_def after_Cons)
  also have "\<dots> = after (''## '' @ y @ nl) (('' '' @ x @ nl @ v @ nl @ nl) @ s)" by simp
  also have "\<dots> = after (''## '' @ y @ nl) s"
    using after_free [of "'' '' @ x @ nl @ v @ nl @ nl" "''# '' @ y @ nl" s] assms(1,4) by (simp add: plain_name_def nl_def)
  finally show ?thesis .
qed

lemma after_own_section: "after (''## '' @ x @ nl) (section_text x v @ s) = Some (v @ nl @ nl @ s)"
  using after_here [of "''## '' @ x @ nl" "section_text x v @ s"] starts_with_self [of "''## '' @ x @ nl" "v @ nl @ nl @ s"]
  by (simp add: section_text_def nl_def)

lemma after_sections:
  assumes "length names = length vs" and "i < length names" and "distinct names" and "\<forall>x \<in> set names. plain_name x" and "\<forall>v \<in> set vs. CHR ''#'' \<notin> set v"
  shows "\<exists>r. after (''## '' @ names ! i @ nl) (concat (map2 section_text names vs) @ s) = Some (vs ! i @ nl @ nl @ r)"
  using assms
proof (induction names vs arbitrary: i rule: list_induct2)
  case (Cons x names v vs)
  show ?case
  proof (cases i)
    case 0
    then show ?thesis using after_own_section [of x v] by auto
  next
    case (Suc k)
    then have "x \<noteq> names ! k" "names ! k \<in> set names" using Cons.prems(1,2) by auto
    then have "after (''## '' @ names ! k @ nl) (section_text x v @ concat (map2 section_text names vs) @ s) =
        after (''## '' @ names ! k @ nl) (concat (map2 section_text names vs) @ s)"
      using Cons.prems(3,4) by (intro after_other_section) auto
    moreover obtain r where "after (''## '' @ names ! k @ nl) (concat (map2 section_text names vs) @ s) = Some (vs ! k @ nl @ nl @ r)"
      using Cons.IH [of k] Cons.prems Suc by auto
    ultimately show ?thesis using Suc by simp
  qed
qed simp

text \<open>A value whose paragraph ends at the blank line behind it.\<close>

definition one_paragraph :: "string \<Rightarrow> bool" where
  "one_paragraph v \<longleftrightarrow> CHR ''#'' \<notin> set v \<and> (\<forall>r. split_once (nl @ nl) (v @ nl @ nl @ r) = Some (v, r))"

lemma split_once_line: "CHR 0x0A \<notin> set v \<Longrightarrow> split_once (nl @ nl) (v @ nl @ nl @ r) = Some (v, r)"
  by (induction v) (auto simp: nl_def)

lemma one_paragraph_line: "plain_name v \<Longrightarrow> one_paragraph v"
  by (auto simp: one_paragraph_def plain_name_def split_once_line)

lemma split_once_lines:
  "CHR 0x0A \<notin> set v \<Longrightarrow> w = c # u \<Longrightarrow> c \<noteq> CHR 0x0A \<Longrightarrow> split_once (nl @ nl) (v @ nl @ w @ s) = map_option (\<lambda>(a, b). (v @ nl @ a, b)) (split_once (nl @ nl) (w @ s))"
  by (induction v) (auto simp: nl_def option.map_comp comp_def case_prod_unfold)

lemma one_paragraph_bullets: "\<forall>v \<in> set vs. plain_name v \<Longrightarrow> one_paragraph (bullets vs)"
proof (induction vs rule: induct_list012)
  case 1
  show ?case by (simp add: bullets_def one_paragraph_line plain_name_def)
next
  case (2 v)
  then show ?case by (simp add: bullets_def one_paragraph_line plain_name_def)
next
  case (3 v w vs)
  then have ih: "one_paragraph (bullets (w # vs))" by simp
  obtain u where u: "bullets (w # vs) = CHR ''-'' # u" by (cases vs) (simp_all add: bullets_def)
  have b: "bullets (v # w # vs) = (''- '' @ v) @ nl @ bullets (w # vs)" by (simp add: bullets_def)
  have "split_once (nl @ nl) (bullets (v # w # vs) @ nl @ nl @ r) = Some (bullets (v # w # vs), r)" for r
  proof -
    have "CHR 0x0A \<notin> set (''- '' @ v)" using 3(3) by (simp add: plain_name_def)
    from split_once_lines [OF this u, of "nl @ nl @ r"]
    have "split_once (nl @ nl) ((''- '' @ v) @ nl @ bullets (w # vs) @ nl @ nl @ r) =
        map_option (\<lambda>(a, b). ((''- '' @ v) @ nl @ a, b)) (split_once (nl @ nl) (bullets (w # vs) @ nl @ nl @ r))" by simp
    also have "\<dots> = Some (bullets (v # w # vs), r)" using ih unfolding one_paragraph_def b by (simp del: append.simps)
    finally show ?thesis unfolding b by (simp only: append_assoc)
  qed
  moreover have "CHR ''#'' \<notin> set (bullets (v # w # vs))"
    using ih 3(3) unfolding b one_paragraph_def plain_name_def by (simp add: nl_def)
  ultimately show ?case unfolding one_paragraph_def by blast
qed

definition readable :: "std \<Rightarrow> handoff \<Rightarrow> bool" where
  "readable S h \<longleftrightarrow> list_all plain_name [ho_task h, ho_agent h, ho_session h, ho_problem h, ho_first h] \<and>
     list_all (list_all plain_name) [ho_completed h, ho_changed h, ho_tests h, ho_failed h, ho_remaining h] \<and>
     CHR 0x0D \<notin> set (ho_id h @ ho_target h @ ho_evidence h @ float_repr S (ho_created h))"

lemma str_int_plain: "plain_name (str_int n)"
  by (auto simp: plain_name_def str_int_def is_digit_def code_def dest!: nat_digits_set split: if_split_asm)

lemma readable_values: "readable S h \<Longrightarrow> v \<in> set (section_values h) \<Longrightarrow> one_paragraph v"
  by (auto simp: readable_def section_values_def list_all_iff intro: one_paragraph_line one_paragraph_bullets str_int_plain)

lemma required_plain: "distinct required_sections" "\<forall>x \<in> set required_sections. plain_name x"
  by (simp_all add: required_sections_def plain_name_def)

text \<open>A document: the heading, the sections, and what follows them.\<close>

definition document :: "string list \<Rightarrow> string \<Rightarrow> string" where
  "document vs tail = ''# RECOVERY_HANDOFF'' @ nl @ nl @ concat (map2 section_text required_sections vs) @ tail"

lemma section_value_written:
  assumes len: "length required_sections = length vs" and "\<forall>v \<in> set vs. one_paragraph v" and "i < length required_sections"
  shows "section_value (document vs tail) (required_sections ! i) = Inr (strip (vs ! i))"
proof -
  let ?m = "''## '' @ required_sections ! i @ nl"
  have head: "after ?m (''# RECOVERY_HANDOFF'' @ nl @ nl @ r) = after ?m r" for r
    using after_free [of "'' RECOVERY_HANDOFF'' @ nl @ nl" "''# '' @ required_sections ! i @ nl" r] by (simp add: after_Cons nl_def)
  obtain r where "after ?m (document vs tail) = Some (vs ! i @ nl @ nl @ r)"
    unfolding document_def head
    using after_sections [OF len assms(3) required_plain, of tail] assms(2) by (auto simp: one_paragraph_def)
  then obtain a where a: "split_once ?m (document vs tail) = Some (a, vs ! i @ nl @ nl @ r)"
    by (auto simp: after_def)
  have "one_paragraph (vs ! i)" using assms(2,3) len by simp
  then show ?thesis by (simp add: section_value_def a one_paragraph_def del: append.simps)
qed

lemma document_read:
  assumes "\<forall>v \<in> set vs. CHR 0x0D \<notin> set v" and "CHR 0x0D \<notin> set tail"
  shows "universal_newlines (document vs tail) = document vs tail"
proof (rule universal_newlines_id)
  have "CHR 0x0D \<notin> set (concat (map2 section_text required_sections vs))"
    using required_plain(2) assms(1) by (auto simp: section_text_def nl_def plain_name_def dest: set_zip_leftD set_zip_rightD)
  then show "CHR 0x0D \<notin> set (document vs tail)"
    using assms(2) by (simp add: document_def nl_def)
qed

lemma contains_after: "contains (p @ m @ s) m"
proof (induction p)
  case Nil
  then show ?case using starts_with_self [of m s] by (cases "m @ s") auto
qed auto

lemma split_once_parts: "split_once m s = Some (a, b) \<Longrightarrow> s = a @ m @ b"
proof (induction s arbitrary: a)
  case (Cons c s)
  have sw: "starts_with t m \<Longrightarrow> t = m @ drop (length m) t" for t m
    by (induction t m rule: starts_with.induct) auto
  show ?case
  proof (cases "starts_with (c # s) m")
    case True
    then show ?thesis using Cons.prems sw [OF True] by auto
  next
    case False
    then show ?thesis using Cons by auto
  qed
qed (auto split: if_split_asm)

lemma check_sections_iff:
  "(\<forall>x \<in> set names. section_value text x = Inr (f x)) \<Longrightarrow> check_sections text names = Inr () \<longleftrightarrow> (\<forall>x \<in> set names. f x \<noteq> [])"
  by (induction names) auto

lemma document_valid:
  assumes len: "length required_sections = length vs" and par: "\<forall>v \<in> set vs. one_paragraph v"
    and cr: "\<forall>v \<in> set vs. CHR 0x0D \<notin> set v" and tail: "CHR 0x0D \<notin> set tail"
  shows "map (section_value (universal_newlines (document vs tail))) required_sections = map (Inr \<circ> strip) vs \<and>
    (validate_handoff (universal_newlines (document vs tail)) = Inr () \<longleftrightarrow> list_all (\<lambda>v. \<not> blank v) vs)"
proof -
  have vals: "map (section_value (document vs tail)) required_sections = map (Inr \<circ> strip) vs"
    using section_value_written [OF len par] len by (intro nth_equalityI) auto
  have in_text: "contains (document vs tail) (''## '' @ x)" if "x \<in> set required_sections" for x
  proof -
    obtain i where i: "i < length required_sections" "x = required_sections ! i" using \<open>x \<in> set required_sections\<close> by (auto simp: in_set_conv_nth)
    then obtain a b where "split_once (''## '' @ x @ nl) (document vs tail) = Some (a, b)"
      using section_value_written [OF len par i(1), of tail] by (auto simp: section_value_def split: option.split_asm)
    from split_once_parts [OF this] show ?thesis using contains_after [of a "''## '' @ x" "nl @ b"] by simp
  qed
  have "\<not> blank (document vs tail)"
  proof -
    have "document vs tail = CHR ''#'' # drop 1 (document vs tail)" by (simp add: document_def)
    then show ?thesis using not_blank_head [of "CHR ''#''" "drop 1 (document vs tail)"] by (simp add: is_space_def code_def)
  qed
  moreover have "check_sections (document vs tail) required_sections = Inr () \<longleftrightarrow> list_all (\<lambda>v. \<not> blank v) vs"
  proof -
    have "check_sections t xs = Inr () \<longleftrightarrow> list_all (\<lambda>v. \<not> blank v) us"
      if "map (section_value t) xs = map (Inr \<circ> strip) us" for t xs us
      using that by (induction xs arbitrary: us) (auto simp: blank_def)
    from this [OF vals] show ?thesis .
  qed
  ultimately show ?thesis using vals in_text unfolding document_read [OF cr tail] by (simp add: validate_handoff_def list_all_iff)
qed

lemma bullets_no_return: "list_all plain_name vs \<Longrightarrow> CHR 0x0D \<notin> set (bullets vs)"
  by (induction vs rule: induct_list012) (auto simp: bullets_def plain_name_def nl_def)

lemma read_back:
  assumes "readable S h"
  shows "map (section_value (universal_newlines (handoff_text S h))) required_sections = map (Inr \<circ> strip) (section_values h) \<and>
    (validate_handoff (universal_newlines (handoff_text S h)) = Inr () \<longleftrightarrow> list_all (\<lambda>v. \<not> blank v) (section_values h))"
proof -
  obtain tail where tail: "handoff_text S h = document (section_values h) tail" "CHR 0x0D \<notin> set tail"
    using assms str_int_plain [of "ho_attempt h"]
    by (auto simp: handoff_text_def document_def readable_def plain_name_def nl_def)
  have len: "length required_sections = length (section_values h)" by (simp add: required_sections_def section_values_def)
  have cr: "\<forall>v \<in> set (section_values h). CHR 0x0D \<notin> set v"
    using assms bullets_no_return str_int_plain [of "ho_generation h"] by (auto simp: section_values_def readable_def plain_name_def)
  have par: "\<forall>v \<in> set (section_values h). one_paragraph v" using readable_values [OF assms] by blast
  from document_valid [OF len par cr tail(2)] show ?thesis unfolding tail(1) .
qed

text \<open>The handoff document can be read back. If no field holds a line end or the sign of a heading, then reading the document section by
  section yields the fields, without surrounding blanks, and the document is valid exactly when none of its sections is
  blank.\<close>

theorem handoff_read_back:
  assumes "readable S h"
  shows "map (section_value (universal_newlines (handoff_text S h))) required_sections = map (Inr \<circ> strip) (section_values h) \<and>
    (validate_handoff (universal_newlines (handoff_text S h)) = Inr () \<longleftrightarrow> list_all (\<lambda>v. \<not> blank v) (section_values h))"
  using assms by (rule read_back)

section \<open>What every step keeps\<close>

text \<open>Bases are only added, and the handoff file is written once.\<close>

definition keeps_handoffs :: "'w watch \<Rightarrow> 'w watch \<Rightarrow> bool" where
  "keeps_handoffs s t \<longleftrightarrow> set (wd_generated s) \<subseteq> set (wd_generated t) \<and> (wd_handoff_file s \<noteq> None \<longrightarrow> wd_handoff_file t = wd_handoff_file s)"

interpretation handoffs: guarantee keeps_handoffs
  by unfold_locales (auto simp: keeps_handoffs_def)

text \<open>Steps that touch neither.\<close>

definition same_handoffs :: "'w watch \<Rightarrow> 'w watch \<Rightarrow> bool" where
  "same_handoffs s t \<longleftrightarrow> wd_generated t = wd_generated s \<and> wd_handoff_file t = wd_handoff_file s"

interpretation same: guarantee same_handoffs
  by unfold_locales (auto simp: same_handoffs_def)

lemma same_keeps: "guar same_handoffs m \<Longrightarrow> guar keeps_handoffs m"
  by (simp add: guar_def same_handoffs_def keeps_handoffs_def)

named_theorems quiet \<open>operations that touch no handoff\<close>

lemma at_world_quiet [quiet]: "guar same_handoffs (at_world f)"
  and read_world_quiet [quiet]: "guar same_handoffs (read_world g)"
  by (simp_all add: guar_def same_handoffs_def at_world_def read_world_def split: prod.split)

lemma modify_quiet [quiet]: "(\<And>s. same_handoffs s (f s)) \<Longrightarrow> guar same_handoffs (modify f)"
  by (simp add: guar_def)

lemmas quiet_rules = same.guar_bnd same.guar_ret same.guar_raise same.guar_lift same.guar_gets same.guar_if same.guar_option same.guar_sum
  same.guar_prod same.guar_let

lemma append_history_quiet [quiet]: "guar same_handoffs (append_history S row)"
  unfolding append_history_def by (intro quiet_rules quiet) (simp add: same_handoffs_def)

lemma append_evidence_quiet [quiet]: "guar same_handoffs (append_evidence S kind a digest now extra)"
  unfolding append_evidence_def by (intro quiet_rules quiet) (simp add: same_handoffs_def)

lemma record_outcome_quiet [quiet]: "guar same_handoffs (record_outcome D kind state a target ho why digest)"
  unfolding record_outcome_def Let_def by (intro quiet_rules quiet)

lemma handoff_from_quiet [quiet]: "guar same_handoffs (handoff_from D a n target digest remaining sn)"
  unfolding handoff_from_def Let_def by (intro quiet_rules quiet)

lemma hand_over_quiet [quiet]: "guar same_handoffs (hand_over D a h path n target)"
  unfolding hand_over_def by (intro quiet_rules quiet)

lemma time_or_quiet [quiet]: "guar same_handoffs (time_or D now)"
  unfolding time_or_def by (intro quiet_rules quiet)

lemma stored_quiet [quiet]: "guar same_handoffs (stored D kind a digest now extra)"
  unfolding stored_def by (intro quiet_rules quiet)

lemma write_handoff_keeps: "guar keeps_handoffs (write_handoff S h)"
  by (auto simp: guar_def write_handoff_def keeps_handoffs_def)

lemmas keep_rules = handoffs.guar_bnd handoffs.guar_ret handoffs.guar_raise handoffs.guar_lift handoffs.guar_gets handoffs.guar_if
  handoffs.guar_option handoffs.guar_sum handoffs.guar_prod handoffs.guar_let

lemmas kept = record_outcome_quiet [THEN same_keeps] handoff_from_quiet [THEN same_keeps] hand_over_quiet [THEN same_keeps]
  append_history_quiet [THEN same_keeps] time_or_quiet [THEN same_keeps] stored_quiet [THEN same_keeps] at_world_quiet [THEN same_keeps]
  read_world_quiet [THEN same_keeps] write_handoff_keeps

lemma try_targets_keeps: "guar keeps_handoffs (try_targets D a sn remaining digest ts)"
proof (induction ts)
  case (Cons t ts)
  obtain n target where "t = (n, target)" by fastforce
  then show ?case by (simp only: try_targets.simps) (intro keep_rules kept Cons.IH)
qed (simp add: kept)

lemma apply_decision_keeps: "guar keeps_handoffs (apply_decision D j a sn remaining safe)"
proof -
  have "guar keeps_handoffs (modify (\<lambda>s. s\<lparr>wd_generated := base # wd_generated s\<rparr>))" for base
    by (auto simp: guar_def keeps_handoffs_def)
  then show ?thesis unfolding apply_decision_def by (intro keep_rules try_targets_keeps kept)
qed

section \<open>When a session is handed over\<close>

lemma record_outcome_app:
  "\<exists>i now w. record_outcome D kind state a target ho why digest s =
     (Inr \<lparr>ro_id = i, ro_kind = kind, ro_state = state, ro_source = ac_session a, ro_target = target, ro_handoff = ho, ro_why = why,
       ro_digest = digest, ro_task = ''unknown-task'', ro_generation = 0, ro_observed = now\<rparr>, w)"
  by (auto simp: record_outcome_def bnd_app read_world_def append_history_def canonical_json_def dumps_def outcome_row_def opt_text_def
      split: prod.split option.split)

lemma record_outcome_Inr:
  "record_outcome D kind state a target ho why digest s = (Inr x, t) \<Longrightarrow>
    ro_kind x = kind \<and> ro_why x = why \<and> ro_source x = ac_session a \<and> ro_digest x = digest \<and> ro_target x = target"
  using record_outcome_app [of D kind state a target ho why digest s] by auto

lemma try_targets_handoff:
  assumes "try_targets D a sn remaining digest ts s = (Inr x, t)" and "ro_kind x = ''SALVAGE_HANDOFF''"
  shows "(ws_writer D \<noteq> None \<longrightarrow> wd_handoff_file s = None \<and> wd_handoff_file t \<noteq> None) \<and> ro_digest x = digest \<and> ro_source x = ac_session a"
  using assms
proof (induction ts arbitrary: s)
  case Nil
  then show ?case by (auto dest!: record_outcome_Inr)
next
  case (Cons p ts)
  obtain n target where p: "p = (n, target)" by fastforce
  from Cons.prems(1) obtain h s1 where h: "handoff_from D a n target digest remaining sn s = (Inr h, s1)"
    "(if \<not> valid_handoff h (ac_session a) digest then try_targets D a sn remaining digest ts else
     bnd (if ws_writer D = None then ret () else write_handoff (ws_std D) h) (\<lambda>u.
     bnd (hand_over D a h (ws_writer D) n target) (\<lambda>answer.
     case answer of
       Inl why \<Rightarrow> record_outcome D ''SALVAGE_BLOCKED'' ''ESCALATE_MAIN'' a None (Some (ho_id h)) why digest
     | Inr session \<Rightarrow> record_outcome D ''SALVAGE_HANDOFF'' ''HANDOFF_CREATED'' a session (Some (ho_id h)) (''ATTEMPT_'' @ str_int n) digest))) s1 = (Inr x, t)"
    unfolding p by (auto elim!: bnd_InrE)
  have unwritten: "wd_handoff_file s1 = wd_handoff_file s"
    using guarD [OF handoff_from_quiet, of s D a n target digest remaining sn] h(1) by (simp add: same_handoffs_def)
  show ?case
  proof (cases "valid_handoff h (ac_session a) digest")
    case False
    then show ?thesis using Cons.IH [of s1] h(2) Cons.prems(2) unwritten by simp
  next
    case True
    from h(2) obtain u s2 answer s3 where w: "(if ws_writer D = None then ret () else write_handoff (ws_std D) h) s1 = (Inr u, s2)"
      "hand_over D a h (ws_writer D) n target s2 = (Inr answer, s3)"
      "(case answer of
       Inl why \<Rightarrow> record_outcome D ''SALVAGE_BLOCKED'' ''ESCALATE_MAIN'' a None (Some (ho_id h)) why digest
     | Inr session \<Rightarrow> record_outcome D ''SALVAGE_HANDOFF'' ''HANDOFF_CREATED'' a session (Some (ho_id h)) (''ATTEMPT_'' @ str_int n) digest) s3 = (Inr x, t)"
      unfolding eqTrueI [OF True] not_True_eq_False if_False bnd_Inr_iff by blast
    then obtain session where s: "record_outcome D ''SALVAGE_HANDOFF'' ''HANDOFF_CREATED'' a session (Some (ho_id h)) (''ATTEMPT_'' @ str_int n) digest s3 = (Inr x, t)"
      using Cons.prems(2) by (cases answer) (auto dest!: record_outcome_Inr)
    have "wd_handoff_file t = wd_handoff_file s2"
      using guarD [OF hand_over_quiet, of s2 D a h "ws_writer D" n target] w(2)
        guarD [OF record_outcome_quiet, of s3 D "''SALVAGE_HANDOFF''" "''HANDOFF_CREATED''" a session "Some (ho_id h)" "''ATTEMPT_'' @ str_int n" digest] s
      by (simp add: same_handoffs_def)
    moreover have "ws_writer D \<noteq> None \<Longrightarrow> wd_handoff_file s1 = None \<and> wd_handoff_file s2 \<noteq> None"
      using w(1) by (auto simp: write_handoff_def bnd_app split: if_split_asm)
    ultimately show ?thesis using unwritten record_outcome_Inr [OF s] by auto
  qed
qed

lemma apply_handoff:
  assumes "apply_decision D j a sn remaining safe s = (Inr x, t)" and "ro_kind x = ''SALVAGE_HANDOFF''"
  shows "jd_choice j = ''SALVAGE'' \<and> safe \<and> remaining \<noteq> [] \<and> state_digest (ws_std D) (snapshot_facts sn) = Inr (jd_digest j) \<and>
    (\<exists>base. handoff_base (ws_std D) a (jd_digest j) remaining = Inr base \<and> base \<notin> set (wd_generated s) \<and> base \<in> set (wd_generated t)) \<and>
    (ws_writer D \<noteq> None \<longrightarrow> wd_handoff_file s = None \<and> wd_handoff_file t \<noteq> None) \<and> ro_source x = ac_session a"
proof -
  obtain digest where digest: "state_digest (ws_std D) (snapshot_facts sn) = Inr digest"
    using assms(1) by (auto simp: apply_decision_def elim!: bnd_InrE)
  note none = record_outcome_Inr [of D _ _ a _ _ _ digest s x t]
  have c: "digest = jd_digest j" "jd_choice j = ''SALVAGE''" "safe" "remaining \<noteq> []"
    using assms by (auto simp: apply_decision_def bnd_app digest split: if_split_asm dest!: record_outcome_Inr)
  then obtain base where base: "handoff_base (ws_std D) a digest remaining = Inr base"
    using assms(1) by (auto simp: apply_decision_def bnd_app digest split: sum.split_asm)
  have new: "base \<notin> set (wd_generated s)"
    using assms c base by (auto simp: apply_decision_def bnd_app digest split: if_split_asm dest!: record_outcome_Inr)
  let ?s = "s\<lparr>wd_generated := base # wd_generated s\<rparr>"
  have run: "try_targets D a sn remaining digest [(1, ac_agent a), (2, ''alternate''), (3, ws_main D)] ?s = (Inr x, t)"
    using assms(1) c base new by (auto simp: apply_decision_def bnd_app digest simp del: try_targets.simps)
  have "base \<in> set (wd_generated t)"
    using guarD [OF try_targets_keeps, of ?s D a sn remaining digest "[(1, ac_agent a), (2, ''alternate''), (3, ws_main D)]"] run
    by (auto simp: keeps_handoffs_def)
  with try_targets_handoff [OF run assms(2)] c base new digest show ?thesis by auto
qed

lemma look_quiet [quiet]: "guar same_handoffs (look D a now)"
  unfolding look_def by (intro quiet_rules quiet) (simp add: same_handoffs_def)

lemma ask_judge_quiet [quiet]: "guar same_handoffs (ask_judge D a digest features)"
  unfolding ask_judge_def by (intro quiet_rules quiet)

lemma note_quiet [quiet]: "guar same_handoffs (note_observation D a now trigger sn digest features t j x)"
  unfolding note_observation_def by (intro quiet_rules quiet)

lemmas quiet_stretches = look_quiet [THEN guarD] ask_judge_quiet [THEN guarD] note_quiet [THEN guarD]

lemma look_Inr:
  "look D a now s = (Inr (sn, digest, features, t), s') \<Longrightarrow>
    (\<exists>w. ws_collect D a (wd_beyond s) = (Inr sn, w)) \<and> build_features (ws_std D) sn = Inr (digest, features)"
  by (auto simp: look_def at_world_def elim!: bnd_InrE split: prod.split_asm)

lemma ask_judge_Inr:
  assumes "ask_judge D a digest features s = (Inr j, s')" and "jd_choice j \<noteq> ''DEAD''"
  shows "jd_digest j = digest \<and> (\<exists>w w'. ws_decide D features (''jev-recovery-v01:'' @ ac_session a @ '':'' @ digest) w = (Inr j, w'))"
proof -
  obtain k w where d: "ws_decide D features (''jev-recovery-v01:'' @ ac_session a @ '':'' @ digest) (wd_beyond s) = (k, w)" by fastforce
  show ?thesis
  proof (cases k)
    case (Inr i)
    show ?thesis
    proof (cases "jd_digest i \<noteq> digest \<or> \<not> List.member choices (jd_choice i)")
      case True
      then show ?thesis using assms d Inr
        by (auto simp: ask_judge_def at_world_def bnd_app dead_decision_def read_world_def split: prod.split_asm)
    next
      case False
      then have "i = j" using assms(1) d Inr by (simp add: ask_judge_def at_world_def bnd_app)
      with False d Inr show ?thesis by blast
    qed
  qed (use assms d in \<open>simp add: ask_judge_def at_world_def bnd_app\<close>)
qed

lemma observed_steps:
  assumes "observe_session D a remaining now trigger s = (Inr (Observed j x digest), t)"
  shows "\<exists>sn features o1 s1 s2 s3. look D a now (s\<lparr>wd_inflight := True\<rparr>) = (Inr (sn, digest, features, o1), s1) \<and>
    ask_judge D a digest features s1 = (Inr j, s2) \<and> apply_decision D j a sn remaining (fst (safety_interlock sn)) s2 = (Inr x, s3) \<and>
    same_handoffs s s2 \<and> same_handoffs s3 t"
proof -
  from assms obtain s4 where t: "t = s4\<lparr>wd_inflight := False\<rparr>" and
    body: "observe_body D a remaining now trigger (s\<lparr>wd_inflight := True\<rparr>) = (Inr (Observed j x digest), s4)"
    by (auto simp: observe_session_def split: if_split_asm prod.split_asm)
  from body obtain sn features o1 s1 s2 s3 where l: "look D a now (s\<lparr>wd_inflight := True\<rparr>) = (Inr (sn, digest, features, o1), s1)" and
    c: "ask_judge D a digest features s1 = (Inr j, s2)" and ap: "apply_decision D j a sn remaining (fst (safety_interlock sn)) s2 = (Inr x, s3)" and
    n: "note_observation D a now trigger sn digest features o1 j x s3 = (Inr (), s4)"
    unfolding observe_body_def by (auto elim!: bnd_InrE)
  have "same_handoffs s s2" using quiet_stretches(1) [of "s\<lparr>wd_inflight := True\<rparr>" D a now] quiet_stretches(2) [of s1 D a digest features] l c
    by (simp add: same_handoffs_def)
  moreover have "same_handoffs s3 t" using quiet_stretches(3) [of s3 D a now trigger sn digest features o1 j x] n t by (simp add: same_handoffs_def)
  ultimately show ?thesis using l c ap by blast
qed

lemma interlock_safe:
  "fst (safety_interlock sn) \<Longrightarrow> \<exists>d. av_ok (ac_scope (sn_activity sn)) \<and> av_value (ac_scope (sn_activity sn)) = PDict d \<and>
    (\<forall>k \<in> {''production'', ''destructive'', ''external_send'', ''unknown''}. dget d k \<noteq> PBool True)"
  by (auto simp: safety_interlock_def Let_def split: if_split_asm option.split_asm)

text \<open>When a session is handed over. An observation that ends in a handoff chose SALVAGE for exactly the facts it collected; their scope was
  available and flagged nothing as production, destructive, sent outside or unknown; work remained; the same handoff had
  not been generated before, and no handoff document existed where one is written.\<close>

theorem handover_conditions:
  assumes "observe_session D a remaining now trigger s = (Inr (Observed j x digest), t)" and "ro_kind x = ''SALVAGE_HANDOFF''"
  shows "\<exists>sn features w u v d base. ws_collect D a (wd_beyond s) = (Inr sn, w) \<and> build_features (ws_std D) sn = Inr (digest, features) \<and>
    ws_decide D features (''jev-recovery-v01:'' @ ac_session a @ '':'' @ digest) u = (Inr j, v) \<and> jd_choice j = ''SALVAGE'' \<and> jd_digest j = digest \<and>
    av_value (ac_scope (sn_activity sn)) = PDict d \<and>
    (\<forall>k \<in> {''production'', ''destructive'', ''external_send'', ''unknown''}. dget d k \<noteq> PBool True) \<and> remaining \<noteq> [] \<and>
    handoff_base (ws_std D) a digest remaining = Inr base \<and> base \<notin> set (wd_generated s) \<and> base \<in> set (wd_generated t) \<and>
    (ws_writer D \<noteq> None \<longrightarrow> wd_handoff_file s = None \<and> wd_handoff_file t \<noteq> None)"
proof -
  obtain sn features o1 s1 s2 s3 where st: "look D a now (s\<lparr>wd_inflight := True\<rparr>) = (Inr (sn, digest, features, o1), s1)"
    "ask_judge D a digest features s1 = (Inr j, s2)" "apply_decision D j a sn remaining (fst (safety_interlock sn)) s2 = (Inr x, s3)"
    "same_handoffs s s2" "same_handoffs s3 t"
    using observed_steps [OF assms(1)] by blast
  note ap = apply_handoff [OF st(3) assms(2)]
  note ch = ask_judge_Inr [OF st(2)]
  obtain d where d: "av_value (ac_scope (sn_activity sn)) = PDict d"
    "\<forall>k \<in> {''production'', ''destructive'', ''external_send'', ''unknown''}. dget d k \<noteq> PBool True"
    using interlock_safe ap by blast
  have "jd_digest j = digest" "\<exists>u v. ws_decide D features (''jev-recovery-v01:'' @ ac_session a @ '':'' @ digest) u = (Inr j, v)"
    using ap ch by auto
  with ap d look_Inr [OF st(1)] st(4,5) show ?thesis by (simp add: same_handoffs_def) metis
qed

section \<open>Once\<close>

text \<open>Sequences of observations of any activities, between which anything else may change the world.\<close>

datatype 'w watch_event = Look activity "string list" "rat option" string | Elsewhere "'w \<Rightarrow> 'w"

fun watch_run :: "'w watch_deps \<Rightarrow> 'w watch_event list \<Rightarrow> 'w watch \<Rightarrow> ('w watch_event \<times> observation res) list \<times> 'w watch" where
  "watch_run D [] s = ([], s)"
| "watch_run D (Elsewhere f # es) s = watch_run D es (s\<lparr>wd_beyond := f (wd_beyond s)\<rparr>)"
| "watch_run D (Look a remaining now trigger # es) s =
     (case observe_session D a remaining now trigger s of (r, t) \<Rightarrow>
        (case watch_run D es t of (rs, u) \<Rightarrow> ((Look a remaining now trigger, r) # rs, u)))"

text \<open>The base text of the handoff an observation made.\<close>

fun handed :: "std \<Rightarrow> 'w watch_event \<times> observation res \<Rightarrow> string option" where
  "handed S (Look a remaining now trigger, Inr (Observed j x digest)) =
     (if ro_kind x = ''SALVAGE_HANDOFF'' then (case handoff_base S a digest remaining of Inl e \<Rightarrow> None | Inr base \<Rightarrow> Some base) else None)"
| "handed S _ = None"

lemma observe_keeps: "keeps_handoffs s (snd (observe_session D a remaining now trigger s))"
proof -
  have "guar keeps_handoffs (observe_body D a remaining now trigger)"
    unfolding observe_body_def
    by (intro keep_rules apply_decision_keeps kept look_quiet [THEN same_keeps] ask_judge_quiet [THEN same_keeps] note_quiet [THEN same_keeps])
  from guarD [OF this, of "s\<lparr>wd_inflight := True\<rparr>"] show ?thesis
    by (auto simp: observe_session_def keeps_handoffs_def split: prod.split)
qed

lemma handed_step:
  assumes "handed (ws_std D) (Look a remaining now trigger, r) = Some base" and "observe_session D a remaining now trigger s = (r, t)"
  shows "base \<notin> set (wd_generated s) \<and> base \<in> set (wd_generated t) \<and> (ws_writer D \<noteq> None \<longrightarrow> wd_handoff_file s = None \<and> wd_handoff_file t \<noteq> None)"
proof -
  obtain j x digest where r: "r = Inr (Observed j x digest)" "ro_kind x = ''SALVAGE_HANDOFF''" "handoff_base (ws_std D) a digest remaining = Inr base"
    using assms(1) by (cases r rule: sum.exhaust; cases "projr r") (auto split: if_split_asm sum.split_asm)
  from handover_conditions [of D a remaining now trigger s j x digest t] r assms(2) show ?thesis by auto
qed

text \<open>C25: Handed over once. In any sequence of observations no handoff is repeated for the same session, facts and remaining
  work; and where handoffs are written to a document, there is at most one handoff in all, and none when the document is
  already there.\<close>

theorem handed_over_once:
  assumes "watch_run D es s = (rs, t)"
  shows "distinct (List.map_filter (handed (ws_std D)) rs) \<and> set (List.map_filter (handed (ws_std D)) rs) \<inter> set (wd_generated s) = {} \<and>
    (ws_writer D \<noteq> None \<longrightarrow> length (List.map_filter (handed (ws_std D)) rs) \<le> (if wd_handoff_file s = None then 1 else 0))"
  using assms
proof (induction es arbitrary: s rs)
  case (Cons ev es)
  show ?case
  proof (cases ev)
    case (Elsewhere f)
    then show ?thesis using Cons.IH [of "s\<lparr>wd_beyond := f (wd_beyond s)\<rparr>" rs] Cons.prems by simp
  next
  case ev: (Look a remaining now trigger)
  obtain r u rest where r: "observe_session D a remaining now trigger s = (r, u)" "watch_run D es u = (rest, t)" "rs = (ev, r) # rest"
    using Cons.prems by (auto simp: ev split: prod.split_asm)
  note ih = Cons.IH [OF r(2)]
  have keep: "keeps_handoffs s u" using observe_keeps [of s D a remaining now trigger] r(1) by simp
  show ?thesis
  proof (cases "handed (ws_std D) (ev, r)")
    case None
    then show ?thesis using ih keep r(3) by (auto simp: map_filter_simps keeps_handoffs_def split: if_split_asm)
  next
    case (Some base)
    from handed_step [OF Some [unfolded ev] r(1)] ih keep r(3) Some show ?thesis
      by (auto simp: map_filter_simps keeps_handoffs_def)
  qed
  qed
qed (simp add: map_filter_simps)

section \<open>What fails\<close>

lemma write_handoff_exists:
  "wd_handoff_file s \<noteq> None \<Longrightarrow> write_handoff S h s = (Inl (Raised ''FileExistsError'' ''RECOVERY_HANDOFF.md already exists''), s)"
  by (auto simp: write_handoff_def bnd_app)

lemma handoff_from_Inr:
  assumes "handoff_from D a n target digest remaining sn s = (Inr h, t)" and "\<And>w. fst (ws_uuid D w) \<noteq> []" and "remaining \<noteq> []"
  shows "valid_handoff h (ac_session a) digest"
  using assms(1,3) assms(2) [of "wd_beyond s"]
  by (auto simp: handoff_from_def Let_def valid_handoff_def read_world_def elim!: bnd_InrE split: prod.split_asm)

text \<open>The fallbacks are never tried. The controller lists three takers of a handoff, the agent itself, an alternate and the main agent, but
  whatever happens to the first attempt ends the operation: an outcome, or an exception of the ports. The other
  entries of the list make no difference.\<close>

theorem fallback_targets_unreachable:
  assumes "\<And>w. fst (ws_uuid D w) \<noteq> []" and "remaining \<noteq> []"
  shows "try_targets D a sn remaining digest ((n, target) # rest) s = try_targets D a sn remaining digest [(n, target)] s"
proof (cases "handoff_from D a n target digest remaining sn s")
  case (Pair r t)
  show ?thesis
  proof (cases r)
    case (Inr h)
    with Pair have "valid_handoff h (ac_session a) digest" using handoff_from_Inr [OF _ assms] by blast
    with Pair Inr show ?thesis by (simp add: bnd_app)
  qed (use Pair in \<open>simp add: bnd_app\<close>)
qed

text \<open>A second handoff fails in the file system. With the document of an earlier handoff in place, a safe SALVAGE decision for
  new facts does not end in an outcome: the writer raises, no session is created, nothing is recorded of the decision,
  and the handoff counts as generated, so that a repetition is taken for a duplicate.\<close>

theorem second_handoff_raises:
  assumes "wd_handoff_file s \<noteq> None" and "ws_writer D \<noteq> None" and "\<And>w. fst (ws_uuid D w) \<noteq> []"
    and "state_digest (ws_std D) (snapshot_facts sn) = Inr (jd_digest j)" and "jd_choice j = ''SALVAGE''" and "remaining \<noteq> []"
    and "handoff_base (ws_std D) a (jd_digest j) remaining = Inr base" and "base \<notin> set (wd_generated s)"
    and "handoff_from D a 1 (ac_agent a) (jd_digest j) remaining sn (s\<lparr>wd_generated := base # wd_generated s\<rparr>) = (Inr h, t)"
  shows "apply_decision D j a sn remaining True s = (Inl (Raised ''FileExistsError'' ''RECOVERY_HANDOFF.md already exists''), t) \<and>
    wd_history t = wd_history s \<and> base \<in> set (wd_generated t) \<and>
    (\<exists>x u. apply_decision D j a sn remaining True t = (Inr x, u) \<and> ro_kind x = ''SALVAGE_DUPLICATE'')"
proof -
  let ?s = "s\<lparr>wd_generated := base # wd_generated s\<rparr>"
  have "same_handoffs ?s t" using guarD [OF handoff_from_quiet, of ?s D a 1 "ac_agent a" "jd_digest j" remaining sn] assms(9) by simp
  then have t: "wd_handoff_file t \<noteq> None" "wd_generated t = base # wd_generated s" using assms(1) by (auto simp: same_handoffs_def)
  have h: "wd_history t = wd_history s" using assms(9)
    by (auto simp: handoff_from_def Let_def read_world_def elim!: bnd_InrE split: prod.split_asm)
  have v: "valid_handoff h (ac_session a) (jd_digest j)" using handoff_from_Inr [OF assms(9,3,6)] .
  have "try_targets D a sn remaining (jd_digest j) ((1, ac_agent a) # ts) ?s =
      (Inl (Raised ''FileExistsError'' ''RECOVERY_HANDOFF.md already exists''), t)" for ts
    using assms(2) v write_handoff_exists [OF t(1)] by (auto simp: bnd_app assms(9))
  then have "apply_decision D j a sn remaining True s = (Inl (Raised ''FileExistsError'' ''RECOVERY_HANDOFF.md already exists''), t)"
    using assms(4-8) by (simp add: apply_decision_def bnd_app del: try_targets.simps)
  moreover have "\<exists>x u. apply_decision D j a sn remaining True t = (Inr x, u) \<and> ro_kind x = ''SALVAGE_DUPLICATE''"
    using record_outcome_app [of D "''SALVAGE_DUPLICATE''" "''NO_ACTION''" a None None "''HANDOFF_ALREADY_GENERATED''" "jd_digest j" t] assms(4-7) t(2)
    by (auto simp: apply_decision_def bnd_app)
  ultimately show ?thesis using h t(2) by simp
qed

section \<open>A stuck session\<close>

definition stuck_activity :: activity where
  "stuck_activity = \<lparr>ac_agent = ''qa'', ac_session = ''s1'', ac_status = ''RUNNING'', ac_progress = unsupported ''x'', ac_process = unsupported ''x'',
     ac_context = unsupported ''x'', ac_scope = \<lparr>av_ok = True, av_value = PDict [(''production'', PBool False)], av_reason = None\<rparr>,
     ac_events = unsupported ''x'', ac_task = ''t1'', ac_generation = 0\<rparr>"

definition stuck_snapshot :: snapshot where
  "stuck_snapshot = \<lparr>sn_id = ''n1'', sn_captured = 0, sn_activity = stuck_activity, sn_progress = unsupported ''x'', sn_artifacts = unsupported ''x'',
     sn_git = unsupported ''x'', sn_checkpoint = unsupported ''x'', sn_tests = unsupported ''x'', sn_repetition = unsupported ''x''\<rparr>"

definition stuck_deps :: "memory_port watch_deps" where
  "stuck_deps = \<lparr>ws_std = plain_std, ws_clock = (\<lambda>w. (1, w)), ws_uuid = (\<lambda>w. (''u'', w)), ws_collect = (\<lambda>a w. (Inr stuck_snapshot, w)),
     ws_decide = (\<lambda>f k w. (judged plain_std f [(''choice'', PStr ''restart_session'')] ''d1'', w)), ws_writer = Some ''RECOVERY_HANDOFF.md'',
     ws_create = Some (create_in_memory (\<lambda>w. (''u'', w))), ws_ack = acknowledge_in_memory, ws_factory = None, ws_cleanup = None, ws_main = ''main'', ws_store = True\<rparr>"

definition fresh_watch :: "memory_port watch" where
  "fresh_watch = \<lparr>wd_generated = [], wd_handoff_file = None, wd_history = [], wd_evidence = [], wd_inflight = False, wd_last_digest = None,
     wd_beyond = \<lparr>mp_created = [], mp_acks = []\<rparr>\<rparr>"

lemma stuck_sel [simp]:
  "ws_std stuck_deps = plain_std" "ws_clock stuck_deps w = (1, w)" "ws_uuid stuck_deps w = (''u'', w)" "ws_collect stuck_deps a w = (Inr stuck_snapshot, w)"
  "ws_writer stuck_deps = Some ''RECOVERY_HANDOFF.md''" "ws_decide stuck_deps f k w = (judged plain_std f [(''choice'', PStr ''restart_session'')] ''d1'', w)"
  "ws_create stuck_deps = Some (create_in_memory (\<lambda>w. (''u'', w)))" "ws_ack stuck_deps = acknowledge_in_memory" "ws_cleanup stuck_deps = None"
  "ws_store stuck_deps = True" "ws_main stuck_deps = ''main''"
  by (simp_all add: stuck_deps_def)

text \<open>The digest of these facts.\<close>

definition stuck_digest :: string where
  "stuck_digest = (case state_digest plain_std (snapshot_facts stuck_snapshot) of Inl x \<Rightarrow> [] | Inr t \<Rightarrow> t)"

lemma stuck_facts: "jsonable (PDict (snapshot_facts stuck_snapshot))" "jsonable (PDict (activity_fact stuck_activity))"
  by (simp_all add: snapshot_facts_def stuck_snapshot_def activity_fact_def stuck_activity_def availability_fact_def opt_text_def unsupported_def)

lemma stuck_state: "state_digest plain_std (snapshot_facts stuck_snapshot) = Inr stuck_digest"
  using stuck_facts(1) by (simp add: stuck_digest_def state_digest_def canonical_json_def dumps_def del: jdump.simps jsonable.simps)

lemma stuck_features:
  "\<exists>f. build_features plain_std stuck_snapshot = Inr (stuck_digest, f) \<and> map_of f ''state_digest'' = Some (PStr stuck_digest) \<and> jsonable (PDict f)"
  using stuck_facts(1) by (simp add: build_features_def stuck_state counted_fact_def)
    (simp add: stuck_snapshot_def stuck_activity_def unsupported_def str_list_def choices_def repetition_count_def)

definition stuck_handoff :: "string \<Rightarrow> handoff" where
  "stuck_handoff digest = \<lparr>ho_id = ''u'', ho_task = ''t1'', ho_agent = ''qa'', ho_session = ''s1'', ho_generation = 0,
     ho_completed = [''Evidence collection and JEV decision completed''], ho_changed = [''No changed files observed''],
     ho_tests = [''Test result unavailable''], ho_problem = ''Source session status requires '' @ lower ''RUNNING'' @ '' recovery handling'',
     ho_failed = [''No failed method recorded in current evidence''], ho_remaining = [''finish''],
     ho_first = ''Read and acknowledge RECOVERY_HANDOFF.md before continuing the remaining work'', ho_attempt = 1, ho_target = ''qa'',
     ho_evidence = digest, ho_created = 1\<rparr>"

lemma stuck_from: "handoff_from stuck_deps stuck_activity 1 ''qa'' digest [''finish''] stuck_snapshot s = (Inr (stuck_handoff digest), s)"
  by (simp add: handoff_from_def bnd_app read_world_def stuck_handoff_def) (simp add: stuck_activity_def stuck_snapshot_def unsupported_def)

lemma lower_running: "lower ''RUNNING'' = ''running''"
  by code_simp

lemma stuck_readable: "readable plain_std (stuck_handoff stuck_digest)"
proof -
  have "\<forall>c \<in> set (jdump (float_repr plain_std) False (PDict (snapshot_facts stuck_snapshot))). 32 \<le> code c"
    by (rule jdump_no_control) (auto simp: plain_std_def code_def)
  then have "CHR 0x0D \<notin> set stuck_digest" using stuck_facts(1)
    by (auto simp: stuck_digest_def state_digest_def canonical_json_def dumps_def code_def plain_std_def simp del: jdump.simps jsonable.simps)
  then show ?thesis by (simp add: readable_def stuck_handoff_def plain_name_def lower_running) (simp add: plain_std_def)
qed

lemma stuck_valid: "validate_handoff (universal_newlines (handoff_text plain_std (stuck_handoff stuck_digest))) = Inr ()"
  using read_back [OF stuck_readable]
  by (simp add: section_values_def stuck_handoff_def not_blank_head is_space_def code_def bullets_def str_int_def nat_digits.simps)

theorem handoff_read_back_witness: "section_value (universal_newlines (handoff_text plain_std (stuck_handoff stuck_digest))) ''Task'' = Inr ''t1''"
  using handoff_read_back [OF stuck_readable] by (simp add: required_sections_def section_values_def stuck_handoff_def strip_def lstrip_def is_space_def code_def)

theorem fallback_targets_unreachable_witness:
  "try_targets stuck_deps stuck_activity stuck_snapshot [''finish''] stuck_digest [(1, ''qa''), (2, ''alternate''), (3, ''main'')] fresh_watch =
   try_targets stuck_deps stuck_activity stuck_snapshot [''finish''] stuck_digest [(1, ''qa'')] fresh_watch"
  by (rule fallback_targets_unreachable) simp_all

lemma stuck_base: "\<exists>base. handoff_base plain_std stuck_activity stuck_digest [''finish''] = Inr base"
  by (simp add: handoff_base_def canonical_json_def dumps_def str_list_def)

theorem second_handoff_raises_witness:
  "\<exists>j t. apply_decision stuck_deps j stuck_activity stuck_snapshot [''finish''] True (fresh_watch\<lparr>wd_handoff_file := Some []\<rparr>) =
     (Inl (Raised ''FileExistsError'' ''RECOVERY_HANDOFF.md already exists''), t)"
proof -
  obtain base where b: "handoff_base plain_std stuck_activity stuck_digest [''finish''] = Inr base" using stuck_base ..
  let ?j = "\<lparr>jd_choice = ''SALVAGE'', jd_probabilities = [], jd_digest = stuck_digest, jd_id = ''d1'', jd_confidence = PNone\<rparr>"
  have a: "ac_agent stuck_activity = ''qa''" by (simp add: stuck_activity_def)
  from second_handoff_raises [of "fresh_watch\<lparr>wd_handoff_file := Some []\<rparr>" stuck_deps stuck_snapshot ?j "[''finish'']" stuck_activity base]
  show ?thesis using b stuck_state by (auto simp: a stuck_from fresh_watch_def)
qed

lemma stuck_apply:
  assumes "jd_choice j = ''SALVAGE''" and "jd_digest j = stuck_digest" and "wd_generated s = []" and "wd_handoff_file s = None"
  shows "\<exists>x t. apply_decision stuck_deps j stuck_activity stuck_snapshot [''finish''] True s = (Inr x, t) \<and> ro_kind x = ''SALVAGE_HANDOFF'' \<and>
    jsonable (PDict (outcome_row x))"
proof -
  obtain base where b: "handoff_base plain_std stuck_activity stuck_digest [''finish''] = Inr base" using stuck_base ..
  have a: "ac_agent stuck_activity = ''qa''" "ac_session stuck_activity = ''s1''" by (simp_all add: stuck_activity_def)
  have v: "valid_handoff (stuck_handoff stuck_digest) ''s1'' stuck_digest" by (simp add: valid_handoff_def stuck_handoff_def)
  let ?s = "s\<lparr>wd_generated := [base], wd_handoff_file := Some (handoff_text plain_std (stuck_handoff stuck_digest))\<rparr>"
  have w: "write_handoff plain_std (stuck_handoff stuck_digest) (s\<lparr>wd_generated := [base]\<rparr>) = (Inr (), ?s)"
    using assms(4) stuck_valid by (simp add: write_handoff_def)
  obtain session u where h: "hand_over stuck_deps stuck_activity (stuck_handoff stuck_digest) (Some ''RECOVERY_HANDOFF.md'') 1 ''qa'' ?s = (Inr (Inr (Some session)), u)"
    by (simp add: hand_over_def bnd_app at_world_def create_in_memory_def acknowledge_in_memory_def Let_def)
  obtain x t where x: "record_outcome stuck_deps ''SALVAGE_HANDOFF'' ''HANDOFF_CREATED'' stuck_activity (Some session) (Some ''u'') (''ATTEMPT_'' @ str_int 1) stuck_digest u =
      (Inr x, t)" "ro_kind x = ''SALVAGE_HANDOFF''"
    using record_outcome_app [of stuck_deps "''SALVAGE_HANDOFF''" "''HANDOFF_CREATED''" stuck_activity "Some session" "Some ''u''" "''ATTEMPT_'' @ str_int 1" stuck_digest u]
    by auto
  have id: "ho_id (stuck_handoff stuck_digest) = ''u''" by (simp add: stuck_handoff_def)
  have "apply_decision stuck_deps j stuck_activity stuck_snapshot [''finish''] True s = (Inr x, t)"
    using assms b v w h x(1) by (simp add: apply_decision_def bnd_app stuck_state a stuck_from id)
  moreover have "jsonable (PDict (outcome_row x))" by (simp add: outcome_row_def opt_text_def split: option.split)
  ultimately show ?thesis using x(2) by blast
qed

lemma stuck_look:
  "\<exists>f o1 t. look stuck_deps stuck_activity None s = (Inr (stuck_snapshot, stuck_digest, f, o1), t) \<and> map_of f ''state_digest'' = Some (PStr stuck_digest) \<and>
     jsonable (PDict f) \<and> same_handoffs s t"
proof -
  obtain f where f: "build_features plain_std stuck_snapshot = Inr (stuck_digest, f)" "map_of f ''state_digest'' = Some (PStr stuck_digest)" "jsonable (PDict f)"
    using stuck_features by blast
  have "\<exists>o1 t. look stuck_deps stuck_activity None s = (Inr (stuck_snapshot, stuck_digest, f, o1), t)"
    using stuck_facts by (simp add: look_def bnd_app at_world_def f(1) time_or_def read_world_def append_history_def canonical_json_def dumps_def stored_def
        append_evidence_def Let_def)
  then obtain o1 t where l: "look stuck_deps stuck_activity None s = (Inr (stuck_snapshot, stuck_digest, f, o1), t)" by blast
  with quiet_stretches(1) [of s stuck_deps stuck_activity None] f(2,3) show ?thesis by auto
qed

lemma stuck_observe:
  assumes "\<not> wd_inflight s" and "wd_generated s = []" and "wd_handoff_file s = None"
  shows "\<exists>j x t. observe_session stuck_deps stuck_activity [''finish''] None ''event'' s = (Inr (Observed j x stuck_digest), t) \<and> ro_kind x = ''SALVAGE_HANDOFF''"
proof -
  let ?s = "s\<lparr>wd_inflight := True\<rparr>"
  obtain f o1 t where l: "look stuck_deps stuck_activity None ?s = (Inr (stuck_snapshot, stuck_digest, f, o1), t)" "map_of f ''state_digest'' = Some (PStr stuck_digest)"
    "jsonable (PDict f)" "same_handoffs ?s t" using stuck_look by blast
  have up: "upper ''restart_session'' = ''RESTART_SESSION''" by code_simp
  obtain j where j: "judged plain_std f [(''choice'', PStr ''restart_session'')] ''d1'' = Inr j" "jd_choice j = ''SALVAGE''" "jd_digest j = stuck_digest"
    "jd_probabilities j = []" "jd_confidence j = PNone"
    using l(2) by (simp add: judged_def normalize_choice_def choices_def str_of_def up)
  have c: "ask_judge stuck_deps stuck_activity stuck_digest f t = (Inr j, t)"
    using j by (simp add: ask_judge_def at_world_def bnd_app choices_def)
  have "fst (safety_interlock stuck_snapshot)" by (simp add: safety_interlock_def stuck_snapshot_def stuck_activity_def)
  moreover obtain x u where x: "apply_decision stuck_deps j stuck_activity stuck_snapshot [''finish''] True t = (Inr x, u)" "ro_kind x = ''SALVAGE_HANDOFF''"
    "jsonable (PDict (outcome_row x))"
    using stuck_apply [OF j(2,3), of t] l(4) assms(2,3) by (auto simp: same_handoffs_def)
  moreover have "\<exists>v. note_observation stuck_deps stuck_activity None ''event'' stuck_snapshot stuck_digest f o1 j x u = (Inr (), v)"
    using stuck_facts x(3) l(3) j by (simp add: note_observation_def bnd_app time_or_def read_world_def append_history_def canonical_json_def dumps_def
        stored_def append_evidence_def Let_def decision_row_def)
  then obtain v where "note_observation stuck_deps stuck_activity None ''event'' stuck_snapshot stuck_digest f o1 j x u = (Inr (), v)" ..
  moreover have "\<not> List.member terminal_activity (ac_status stuck_activity)" by (simp add: terminal_activity_def stuck_activity_def)
  ultimately show ?thesis using assms(1) l(1) c by (simp add: observe_session_def observe_body_def bnd_app)
qed

theorem handover_conditions_witness:
  "\<exists>j x digest t. observe_session stuck_deps stuck_activity [''finish''] None ''event'' fresh_watch = (Inr (Observed j x digest), t) \<and>
     jd_choice j = ''SALVAGE'' \<and> wd_handoff_file t \<noteq> None"
proof -
  obtain j x t where o: "observe_session stuck_deps stuck_activity [''finish''] None ''event'' fresh_watch = (Inr (Observed j x stuck_digest), t)" "ro_kind x = ''SALVAGE_HANDOFF''"
    using stuck_observe [of fresh_watch] by (auto simp: fresh_watch_def)
  from handover_conditions [OF o] have "jd_choice j = ''SALVAGE'' \<and> wd_handoff_file t \<noteq> None" by auto
  with o(1) show ?thesis by blast
qed

theorem handed_over_once_witness:
  "\<exists>rs t. watch_run stuck_deps [Look stuck_activity [''finish''] None ''event'', Look stuck_activity [''finish''] None ''event''] fresh_watch = (rs, t) \<and>
     length (List.map_filter (handed plain_std) rs) = 1"
proof -
  let ?l = "Look stuck_activity [''finish''] None ''event''"
  obtain rs t where r: "watch_run stuck_deps [?l, ?l] fresh_watch = (rs, t)" by fastforce
  obtain j x u where o: "observe_session stuck_deps stuck_activity [''finish''] None ''event'' fresh_watch = (Inr (Observed j x stuck_digest), u)" "ro_kind x = ''SALVAGE_HANDOFF''"
    using stuck_observe [of fresh_watch] by (auto simp: fresh_watch_def)
  obtain base where "handoff_base plain_std stuck_activity stuck_digest [''finish''] = Inr base" using stuck_base ..
  with r o have "0 < length (List.map_filter (handed plain_std) rs)" by (auto simp: List.map_filter_simps split: prod.split_asm)
  moreover have "length (List.map_filter (handed plain_std) rs) \<le> 1"
    using handed_over_once [OF r] by (simp add: fresh_watch_def)
  ultimately have "length (List.map_filter (handed plain_std) rs) = 1" by linarith
  with r show ?thesis by blast
qed

end
