(* ===== verification/JevDocument.thy ===== *)
theory JevDocument
  imports JevLive JevHandover
begin

text \<open>
  The handoff that \<^verbatim>\<open>jev_recovery_live.py\<close> writes by itself passes the reader that guards the next phase: the texts it takes
  from the session are put on one line each, so no section can end early.
\<close>

section \<open>Texts on one line\<close>

lemma single_line_chars: "c \<in> set (single_line s) \<Longrightarrow> c = CHR '' '' \<or> \<not> is_space c"
  using set_join [of "'' ''" "split_words s"] split_words_words [of _ s] by (auto simp: single_line_def)

lemma single_line_head: "single_line s = [] \<or> (\<exists>c r. single_line s = c # r \<and> \<not> is_space c)"
proof (cases "split_words s")
  case (Cons w ws)
  then have w: "w \<noteq> [] \<and> (\<forall>c\<in>set w. \<not> is_space c)" using split_words_words [of w s] by simp
  then obtain c r where "w = c # r" "\<not> is_space c" by (cases w) auto
  then show ?thesis using Cons by (cases ws) (auto simp: single_line_def)
qed (simp add: single_line_def)

definition no_break :: "string \<Rightarrow> bool" where
  "no_break s \<longleftrightarrow> CHR 0x0A \<notin> set s \<and> CHR 0x0D \<notin> set s"

lemma no_break_take: "no_break s \<Longrightarrow> no_break (take n s)"
  by (auto simp: no_break_def dest: in_set_takeD)

lemma no_break_line: "no_break (single_line s)"
  using single_line_chars [of "CHR 0x0A" s] single_line_chars [of "CHR 0x0D" s] by (auto simp: no_break_def is_space_def code_def)

lemma plain_break: "no_break s \<Longrightarrow> CHR ''#'' \<notin> set s \<Longrightarrow> plain_name s"
  by (simp add: plain_name_def no_break_def)

lemma bounded_no_break: "no_break fallback \<Longrightarrow> v \<in> set (bounded_lines S x fallback n k) \<Longrightarrow> no_break v"
  by (auto simp: bounded_lines_def Let_def no_break_take no_break_line split: if_split_asm dest!: in_set_takeD)

lemma task_line: "no_break session \<Longrightarrow> no_break (code_task S ctx session)"
  by (auto simp: code_task_def Let_def no_break_take no_break_line) (simp add: no_break_def)

lemma task_full: "\<not> blank (code_task S ctx session)"
proof (cases "single_line (text_or S (dget ctx ''latest_user''))")
  case Nil
  then show ?thesis by (simp add: code_task_def not_blank_head is_space_def code_def)
next
  case (Cons c r)
  then have "\<not> is_space c" using single_line_head [of "text_or S (dget ctx ''latest_user'')"] by auto
  with Cons show ?thesis by (simp add: code_task_def not_blank_head)
qed

lemma bullets_full: "vs \<noteq> [] \<Longrightarrow> \<not> blank (bullets vs)"
  by (induction vs rule: induct_list012) (simp_all add: bullets_def not_blank_head is_space_def code_def)

section \<open>The document\<close>

text \<open>What the code takes over as it stands: the names of the agent and of the session, the key, the run and the detection.\<close>

definition plain_source :: "std \<Rightarrow> string \<Rightarrow> string \<Rightarrow> string \<Rightarrow> pydict \<Rightarrow> pydict \<Rightarrow> rat \<Rightarrow> bool" where
  "plain_source S ag session key detection ctx now \<longleftrightarrow>
     plain_name ag \<and> \<not> blank ag \<and> plain_name session \<and> \<not> blank session \<and> plain_name (code_tests S ctx) \<and>
     plain_name (upper (named_or S ''UNKNOWN'' (dget detection ''kind''))) \<and> plain_name (named_or S ''UNSPECIFIED'' (dget detection ''severity'')) \<and>
     CHR 0x0D \<notin> set (key @ float_repr S now)"

text \<open>What it puts on one line: the task, the last answers and the last commands.\<close>

definition unmarked :: "std \<Rightarrow> pydict \<Rightarrow> string \<Rightarrow> bool" where
  "unmarked S ctx session \<longleftrightarrow> CHR ''#'' \<notin> set (code_task S ctx session) \<and>
     (\<forall>v \<in> set (bounded_lines S (dget ctx ''recent_assistant_texts'')
        ''No verified completed-work summary is available from generic watchdog evidence.'' 3 700). CHR ''#'' \<notin> set v) \<and>
     (\<forall>v \<in> set (code_failed S ctx ''LOOP''). CHR ''#'' \<notin> set v)"

lemma bounded_plain:
  "\<forall>v \<in> set (bounded_lines S x fallback n k). CHR ''#'' \<notin> set v \<Longrightarrow> no_break fallback \<Longrightarrow> \<forall>v \<in> set (bounded_lines S x fallback n k). plain_name v"
  by (blast intro: plain_break bounded_no_break)

lemma code_values_ok:
  assumes "plain_source S ag session key detection ctx now" and "unmarked S ctx session"
  shows "\<forall>v \<in> set (code_values S ag session detection ctx). one_paragraph v \<and> CHR 0x0D \<notin> set v \<and> \<not> blank v"
proof -
  have session: "no_break session" using assms(1) by (simp add: plain_source_def plain_name_def no_break_def)
  have task: "plain_name (code_task S ctx session)"
    using assms(2) task_line [OF session] by (intro plain_break) (simp_all add: unmarked_def)
  then have short: "plain_name (take 800 (code_task S ctx session))" by (auto simp: plain_name_def dest: in_set_takeD)
  let ?answers = "bounded_lines S (dget ctx ''recent_assistant_texts'') ''No verified completed-work summary is available from generic watchdog evidence.'' 3 700"
  have answers: "\<forall>v \<in> set ?answers. plain_name v"
    by (rule bounded_plain) (use assms(2) in \<open>simp_all add: unmarked_def no_break_def\<close>)
  have failed: "\<forall>v \<in> set (code_failed S ctx t). plain_name v" for t
  proof (cases "t = ''LOOP''")
    case True
    have "\<forall>v \<in> set (code_failed S ctx ''LOOP''). plain_name v"
      using assms(2) unfolding unmarked_def code_failed_def by (simp only: if_False refl simp_thms) (intro bounded_plain, simp_all add: no_break_def)
    then show ?thesis using True by simp
  next
    case False
    then show ?thesis by (simp add: code_failed_def plain_name_def)
  qed
  have filled: "?answers \<noteq> []" "code_failed S ctx t \<noteq> []" for t by (simp_all add: bounded_lines_def code_failed_def Let_def)
  have full: "\<not> blank (CHR ''-'' # r)" "\<not> blank (CHR ''J'' # r)" "\<not> blank (CHR ''R'' # r)" "\<not> blank (CHR ''1'' # r)" for r
    by (simp_all add: not_blank_head is_space_def code_def)
  have listed: "one_paragraph (bullets vs) \<and> CHR 0x0D \<notin> set (bullets vs) \<and> \<not> blank (bullets vs)" if "\<forall>v \<in> set vs. plain_name v" "vs \<noteq> []" for vs
    using that by (simp add: one_paragraph_bullets bullets_no_return bullets_full list_all_iff)
  have line: "one_paragraph v \<and> CHR 0x0D \<notin> set v" if "plain_name v" for v
    using that by (simp add: one_paragraph_line) (simp add: plain_name_def)
  have joined: "plain_name (a @ b) \<longleftrightarrow> plain_name a \<and> plain_name b" for a b by (auto simp: plain_name_def)
  have named: "plain_name ag" "\<not> blank ag" "plain_name session" "\<not> blank session" "plain_name (code_tests S ctx)"
    "plain_name (upper (named_or S ''UNKNOWN'' (dget detection ''kind'')))" "plain_name (named_or S ''UNSPECIFIED'' (dget detection ''severity''))"
    using assms(1) by (simp_all add: plain_source_def)
  have words: "plain_name ''JEV recovery trigger=''" "plain_name '', severity=''" "plain_name ''1''"
    "plain_name ''. The source session showed sustained no-progress/abnormal evidence and requires a fresh bounded recovery attempt.''"
    "plain_name ''- No changed-file evidence is available from the generic watchdog snapshot; verify current workspace state before editing.''"
    "plain_name ''- Re-check current workspace/task state, preserve completed work, and finish only unresolved requirements from this source task: ''"
    "plain_name ''Read this handoff, inspect only directly relevant current task files/state, and continue with a method different from anything listed under Failed Methods.''"
    by (simp_all add: plain_name_def)
  show ?thesis
    unfolding code_values_def Let_def
    using named words task short answers failed filled
    by (simp add: line joined listed task_full full del: append.simps) (simp add: full)
qed

text \<open>Whatever the session said, the handoff that the watchdog writes by itself is accepted by the reader that the next phase waits
  for, when the names it takes over are plain, not blank, and no text it quotes holds the sign of a heading.\<close>

theorem code_handoff_valid:
  assumes "plain_source S ag session key detection ctx now" and "unmarked S ctx session"
  shows "validate_handoff (universal_newlines (code_handoff S ag session key detection ctx now)) = Inr ()"
proof -
  let ?vs = "code_values S ag session detection ctx"
  obtain tail where tail: "code_handoff S ag session key detection ctx now = document ?vs tail" "CHR 0x0D \<notin> set tail"
    using assms(1) by (auto simp: code_handoff_def document_def plain_source_def nl_def)
  have len: "length required_sections = length ?vs" by (simp add: required_sections_def code_values_def Let_def)
  from document_valid [OF len _ _ tail(2)] code_values_ok [OF assms] show ?thesis unfolding tail(1) by (simp add: list_all_iff)
qed

end
