(* ===== verification/JevExample.thy ===== *)
theory JevExample
  imports JevOnce JevDocument
begin

text \<open>
  A worked case for the properties of \<open>JevProtocol\<close> and \<open>JevOnce\<close>: a session that has said nothing since its run began, with
  a judge whose answer is the parameter.
\<close>

section \<open>The session\<close>

definition hash_std :: std where
  "hash_std = plain_std\<lparr>sha256 := \<lambda>t. ''h''\<rparr>"

definition sample_session :: session_db where
  "sample_session = \<lparr>sd_window = Some [(''session_id'', PStr ''s1''), (''session_key'', PStr ''agent:dev:s1''), (''status'', PStr ''running''),
       (''started_at'', PInt 1)],
     sd_transcript = [''m''], sd_run = Some ''r1'', sd_runtime = [(''r1'', ''e'')]\<rparr>"

definition sample_loads :: "string \<Rightarrow> pyval option" where
  "sample_loads t =
     (if t = ''e'' then Some (PDict [(''type'', PStr ''prompt.submitted''), (''data'', PDict [(''prompt'', PStr ''Fix it'')])])
      else if t = ''m'' then Some (PDict [(''type'', PStr ''message''), (''message'', PDict [(''role'', PStr ''user''), (''content'', PStr []),
             (''timestamp'', PInt 2)])])
      else if t = ''ok'' then Some (PDict [(''status'', PStr ''ok''), (''result'', PDict [(''payloads'', PList [PDict [(''text'', PStr ''RECOVERY_COMPLETE'')]])])])
      else None)"

definition sample_judge :: "string \<Rightarrow> pydict \<Rightarrow> string \<Rightarrow> int \<Rightarrow> jev_decision res \<times> int" where
  "sample_judge answer features key w = (Inr \<lparr>jd_choice = answer, jd_probabilities = [], jd_digest = [], jd_id = ''d'', jd_confidence = PInt 1\<rparr>, w)"

definition sample_live :: "string \<Rightarrow> int live_deps" where
  "sample_live answer =
     \<lparr>le_std = hash_std, le_loads = sample_loads, le_float = (\<lambda>t. None), le_clock = (\<lambda>w. (of_int w, w + 60)), le_uuid = (\<lambda>w. (''u-1'', w)),
      le_session = (\<lambda>ag session w. (Inr (Some sample_session), w)), le_judge = sample_judge answer, le_enabled = (\<lambda>w. ''1''),
      le_config = (\<lambda>w. (Inr (PDict []), w)), le_home = ''/home/a'', le_resolve = (\<lambda>p. p),
      le_turn = (\<lambda>ag key message timeout w. (Inr (0, ''ok''), w)),
      le_hello = (\<lambda>w. (Inr [(''ready'', PBool True), (''connectionId'', PStr ''c'')], w)),
      le_reply = (\<lambda>request w. (Inr [(''id'', PStr ''jev-abort-1''), (''ok'', PBool True), (''result'', PDict [(''status'', PStr ''aborted'')])], w))\<rparr>"

definition sample_candidate :: pydict where
  "sample_candidate = [(''agent_id'', PStr ''dev''), (''session_id'', PStr ''s1''), (''session_key'', PStr ''agent:dev:s1''),
     (''kind'', PStr ''periodic_health''), (''evidence'', PDict [(''source'', PStr ''periodic_supervisor'')])]"

definition sample_asked :: candidate where
  "sample_asked = \<lparr>cd_agent = ''dev'', cd_session = ''s1'', cd_key = ''agent:dev:s1'', cd_kind = ''PERIODIC_HEALTH'',
     cd_detection = [(''kind'', PStr ''PERIODIC_HEALTH''), (''severity'', PNone), (''evidence'', PDict [(''source'', PStr ''periodic_supervisor'')])]\<rparr>"

lemma sample_std [simp]: "le_std (sample_live a) = hash_std" "le_loads (sample_live a) = sample_loads" "le_clock (sample_live a) w = (of_int w, w + 60)"
  "le_uuid (sample_live a) w = (''u-1'', w)" "le_session (sample_live a) ag session w = (Inr (Some sample_session), w)"
  "le_judge (sample_live a) = sample_judge a" "le_enabled (sample_live a) w = ''1''" "le_float (sample_live a) t = None"
  by (simp_all add: sample_live_def)

lemma hash_str [simp]: "str_of hash_std (PStr s) = s" "sha256 hash_std t = ''h''"
  by (simp_all add: hash_std_def str_of_def)

lemma sample_candidate_of: "candidate_of hash_std sample_candidate = Inr sample_asked"
  by code_simp

definition sample_run :: pydict where
  "sample_run = [(''available'', PBool True), (''run_id'', PStr ''r1''), (''terminal'', PBool False), (''active'', PBool True),
     (''control_only'', PBool False), (''prompt'', PStr ''Fix it''), (''status'', PNone)]"

definition sample_context :: pydict where
  "sample_context = [(''session_id'', PStr ''s1''), (''session_key'', PStr ''agent:dev:s1''), (''status'', PStr ''running''), (''started_at'', PInt 1),
     (''latest_user'', PStr []), (''command_texts'', PList []), (''recent_assistant_texts'', PList []), (''latest_run'', PDict sample_run),
     (''run_id'', PStr ''r1'')]"

lemma sample_context_read: "session_context hash_std sample_loads (Some sample_session) = Inr sample_context"
  by code_simp

lemma sample_trace: "trace_of hash_std sample_loads (sd_transcript sample_session) = no_trace\<lparr>tx_first := Some 2\<rparr>"
  by (simp add: trace_of_def sample_session_def sample_loads_def see_event_def no_trace_def truncated_def)

lemma sample_active: "source_task_active hash_std sample_context = (True, ''active_task_run'')"
  by code_simp

lemma sample_safe: "runtime_recovery_safe hash_std sample_context sn"
  by (simp add: runtime_recovery_safe_def sample_context_def sample_run_def)

section \<open>Nothing risky has been said\<close>

lemma search_empty: "rx_search r [] \<longleftrightarrow> rx_ends r [] 0 \<noteq> []"
  by (simp add: rx_search_def)

lemma boundary_empty: "\<not> rx_search (seqs (WordB # rs @ [r])) []"
  by (cases rs) (simp_all add: search_empty word_boundary_def word_at_def)

lemma boundary_empty2: "\<not> rx_search (seqs (WordB # r # rs)) []"
  by (cases rs) (simp_all add: search_empty word_boundary_def word_at_def)

lemma letter_empty: "\<not> rx_search (seqs (lit_i (c # s) # rs)) []"
  by (cases s; cases rs) (simp_all add: search_empty)

lemma word_empty: "\<not> rx_search (lit_i (c # s)) []"
  by (cases s) (simp_all add: search_empty)

lemma phrase_empty: "\<not> rx_search (phrase ws) []"
  unfolding phrase_def by (rule boundary_empty)

lemma no_risk_empty: "filter (\<lambda>(t, r). rx_search r []) risk_patterns = []"
  by (simp add: risk_patterns_def phrase_empty boundary_empty2 letter_empty del: seqs.simps lit_i.simps)

lemma risk_text_empty: "risk_text [] = []"
  by (simp add: risk_text_def rx_sub_def negated_patterns_def)

definition sample_scope :: pydict where
  "sample_scope = [(''production'', PBool False), (''destructive'', PBool False), (''external_send'', PBool False), (''unknown'', PBool False),
     (''protected_session_key'', PBool False), (''risk_matches'', PList []), (''auto_recovery_allowed'', PBool True)]"

lemma sample_risk: "risk_scope hash_std sample_context = Inr sample_scope"
proof -
  have said: "context_text hash_std sample_context = Inr []"
    by (simp add: context_text_def sample_context_def text_or_def hash_str)
  have key: "\<not> contains ''agent:dev:s1'' '':telegram:'' \<and> \<not> contains ''agent:dev:s1'' '':cron:'' \<and> \<not> contains ''agent:dev:s1'' '':fast-gateway'' \<and>
      \<not> contains ''agent:dev:s1'' handoff_tag \<and> \<not> contains ''agent:dev:s1'' recovery_tag" by code_simp
  have low: "lower ''running'' = ''running''" by code_simp
  have fields: "text_or hash_std (dget sample_context ''session_key'') = ''agent:dev:s1''" "text_or hash_std (dget sample_context ''channel'') = []"
    "text_or hash_std (dget sample_context ''status'') = ''running''"
    by (simp_all add: sample_context_def text_or_def)
  show ?thesis
    unfolding risk_scope_def said fields Let_def
    by (simp add: rbind_def risk_text_empty no_risk_empty key low word_empty letter_empty lower_def mail_channels_def terminal_sessions_def sample_scope_def
        str_list_def del: seqs.simps lit_i.simps contains.simps)
qed

section \<open>The snapshot and the judge\<close>

definition sample_progress :: "int \<Rightarrow> pydict" where
  "sample_progress t = [(''meaningful_progress_age_sec'', PFloat (round1 (of_int (t - 2) / 1000)))]"

definition plain_facts :: "int \<Rightarrow> snapshot \<Rightarrow> bool" where
  "plain_facts t sn \<longleftrightarrow> jsonable (PDict (snapshot_facts sn)) \<and> scope_of sn = sample_scope \<and>
     sn_artifacts sn = unsupported ''generic live task artifact contract unavailable'' \<and> (\<exists>vs. ac_events (sn_activity sn) = known (PList vs)) \<and>
     snapshot_metrics sn = metrics_of (sample_progress t)"

definition sample_read :: "int \<Rightarrow> pydict" where
  "sample_read t = read_session_trace hash_std sample_loads t (sd_transcript sample_session)"

lemma sample_read_fields:
  "dget (sample_read t) ''exec_success_count'' = PInt 0" "dget (sample_read t) ''meaningful_progress_age_sec'' = PFloat (round1 (of_int (t - 2) / 1000))"
  "dget (sample_read t) ''recent_events'' = PList []" "dget (sample_read t) ''inflight_tool_calls'' = PInt 0" "dget (sample_read t) ''assistant_turns'' = PInt 0"
  "dget (sample_read t) ''tool_call_count'' = PInt 0" "dget (sample_read t) ''tool_result_count'' = PInt 0" "dget (sample_read t) ''meaningful_result_count'' = PInt 0"
  "dget (sample_read t) ''latest_total_tokens'' = PNone" "dget (sample_read t) ''token_sum'' = PInt 0" "dget (sample_read t) ''successful_tool_results'' = PInt 0"
  "dget (sample_read t) ''tool_error_count'' = PInt 0" "dget (sample_read t) ''exec_nonzero_count'' = PInt 0" "dget (sample_read t) ''repeated_tool_calls'' = PInt 0"
  "dget (sample_read t) ''repeated_results'' = PInt 0" "dget (sample_read t) ''unique_tool_count'' = PInt 0" "dget (sample_read t) ''dominant_tool_ratio'' = PNone"
  by (simp_all add: sample_read_def read_session_trace_def sample_trace no_trace_def Let_def List.map_filter_simps opt_int_def repeats_def dominant_ratio_def
      age_of_def)

lemma sample_made:
  "\<exists>sn. make_snapshot hash_std sample_loads (Some sample_session) (Some sample_session) ''dev'' ''s1'' (cd_detection sample_asked) t t2 t3 u =
      Inr (sample_context, sn) \<and> plain_facts t sn"
proof -
  have low: "lower ''running'' = ''running''" by code_simp
  have status: "text_or hash_std (dget sample_context ''status'') = ''running''" by (simp add: sample_context_def text_or_def)
  have run: "jsonable (jsonable_form (dget sample_context ''latest_run''))" "jsonable (jsonable_form (dget sample_context ''status''))"
    by (simp_all add: sample_context_def sample_run_def)
  have age: "jsonable (jsonable_form (last_activity_age sample_context t2))" by (simp add: last_activity_age_def split: option.split)
  have zero: "truncated 0 = 0" by (simp add: truncated_def)
  have user: "dget sample_context ''latest_user'' = PStr []" by (simp add: sample_context_def)
  show ?thesis
    unfolding make_snapshot_def sample_context_read sample_risk rbind_def sum.case option.case sample_read_def [symmetric] status low Let_def
    by (rule exI, rule conjI, rule refl)
      (simp add: plain_facts_def run age zero user sample_read_fields snapshot_facts_def activity_fact_def availability_fact_def known_def unsupported_def
        progress_facts_def repetition_facts_def recent_facts_def opt_text_def sample_scope_def detected_def sample_asked_def por_def scope_of_def
        dict_or_empty_def snapshot_metrics_def metrics_of_def count_metrics_def metric_def sample_progress_def trace_int_def terminal_sessions_def)
qed

lemma jsonable_stable: "jsonable v \<Longrightarrow> jsonable (stable_material v)"
  by (induction v rule: stable_material.induct) (auto simp: list_all_iff)

lemma hash_digests:
  "jsonable (PDict (snapshot_facts sn)) \<Longrightarrow> snapshot_state_digest hash_std sn = Inr ''h''"
  "jsonable (PDict (snapshot_facts sn)) \<Longrightarrow> state_digest hash_std (snapshot_facts sn) = Inr ''h''"
  using jsonable_stable [of "PDict (snapshot_facts sn)"]
  by (simp_all add: snapshot_state_digest_def state_digest_def canonical_json_def dumps_def del: jdump.simps jsonable.simps stable_material.simps)

lemma hash_features: "plain_facts t sn \<Longrightarrow> \<exists>f. build_features hash_std sn = Inr (''h'', f)"
  by (auto simp: plain_facts_def build_features_def hash_digests counted_fact_def unsupported_def known_def simp del: jsonable.simps)

lemma sample_snapshot:
  assumes "lv_beyond s = 1000"
  shows "\<exists>sn. live_snapshot (sample_live a) ''dev'' ''s1'' (cd_detection sample_asked) s = (Inr (sample_context, sn), s\<lparr>lv_beyond := 1180\<rparr>) \<and>
     plain_facts 1000000 sn"
proof -
  have times: "truncated 1000000 = 1000000" by (simp add: truncated_def)
  obtain sn where "make_snapshot hash_std sample_loads (Some sample_session) (Some sample_session) ''dev'' ''s1'' (cd_detection sample_asked)
      1000000 (truncated 1060000) 1120 ''u-1'' = Inr (sample_context, sn)" "plain_facts 1000000 sn" using sample_made by blast
  then show ?thesis
    using assms by (simp add: live_snapshot_def bnd_app live_world_def live_clock_def live_read_def sample_context_read attempt_app times)
qed

text \<open>A request about the session, once the judge has been asked.\<close>

lemma sample_asks:
  assumes "lv_beyond s = 1000" and "lv_history s = []"
  shows "\<exists>sn. evaluate_live (sample_live a) sample_candidate s = judge_live (sample_live a) sample_asked sample_context sn (s\<lparr>lv_beyond := 1240\<rparr>) \<and>
    plain_facts 1000000 sn"
proof -
  obtain sn where sn: "live_snapshot (sample_live a) ''dev'' ''s1'' (cd_detection sample_asked) s = (Inr (sample_context, sn), s\<lparr>lv_beyond := 1180\<rparr>)"
    "plain_facts 1000000 sn" using sample_snapshot [OF assms(1)] by blast
  have asked: "cd_agent sample_asked = ''dev''" "cd_session sample_asked = ''s1''" "cd_key sample_asked = ''agent:dev:s1''" by (simp_all add: sample_asked_def)
  have role: "session_role ''agent:dev:s1'' = ''task''" by code_simp
  have status: "text_or hash_std (dget sample_context ''status'') = ''running''" by (simp add: sample_context_def text_or_def)
  have low: "lower ''running'' = ''running''" by code_simp
  have "real_of (dget sample_context ''started_at'') = Some 1" by (simp add: sample_context_def)
  then have age: "session_age sample_context 1180 = Some 1179" by (simp add: session_age_def)
  have pending: "pending_nudge (sample_live a) ''dev'' ''s1'' ''agent:dev:s1'' sn u = (Inr None, u)" if "lv_history u = []" for u
    using that by (simp add: pending_nudge_def latest_nudge_def latest_def)
  show ?thesis
    using sn(2) assms(2) by (intro exI [of _ sn])
      (simp add: evaluate_live_def bnd_app sample_candidate_of asked role sn(1) status low terminal_sessions_def live_clock_def live_read_def age
        judge_active_def sample_active pending)
qed

text \<open>What is done with the judge's answer.\<close>

lemma sample_judged:
  assumes "plain_facts t sn" and "act_on (sample_live a) sample_asked sample_context sn ''h''
      \<lparr>jd_choice = a, jd_probabilities = [], jd_digest = [], jd_id = ''d'', jd_confidence = PInt 1\<rparr> (s\<lparr>lv_beyond := lv_beyond s + 60\<rparr>) = (Inr (action, extra), u)"
    and "unnamed extra"
  shows "\<exists>row v. judge_live (sample_live a) sample_asked sample_context sn s = (Inr row, v) \<and> has_text row ''action'' action"
proof -
  obtain f where "build_features hash_std sn = Inr (''h'', f)" using hash_features [OF assms(1)] by blast
  moreover have "snapshot_state_digest hash_std sn = Inr ''h''" using assms(1) by (simp add: plain_facts_def hash_digests(1))
  ultimately show ?thesis
    using assms(2,3) by (simp add: judge_live_def bnd_app live_world_def sample_judge_def live_clock_def live_read_def Let_def append_live_def has_text_def)
qed

section \<open>Witnesses\<close>

lemma sample_names: "upper ''PERIODIC_HEALTH'' = ''PERIODIC_HEALTH''" "lower ''dev'' = ''dev''" "lower ''1'' = ''1''" "strip ''1'' = ''1''"
  by code_simp+

lemma sample_source: "plain_source hash_std ''dev'' ''s1'' ''agent:dev:s1'' (cd_detection sample_asked) sample_context now"
proof -
  have detection: "named_or hash_std ''UNKNOWN'' (dget (cd_detection sample_asked) ''kind'') = ''PERIODIC_HEALTH''"
    "named_or hash_std ''UNSPECIFIED'' (dget (cd_detection sample_asked) ''severity'') = ''UNSPECIFIED''"
    by (simp_all add: sample_asked_def named_or_def)
  have tests: "code_tests hash_std sample_context = ''Latest runtime run_id='' @ ''r1'' @ ''; status='' @ ''unknown'' @ ''; verify task-specific tests in the recovery session.''"
    by (simp add: code_tests_def sample_context_def sample_run_def dict_or_empty_def named_or_def por_def)
  show ?thesis
    by (simp add: plain_source_def detection tests sample_names not_blank_head is_space_def code_def plain_name_def)
      (simp add: hash_std_def plain_std_def)
qed

lemma sample_task: "code_task hash_std sample_context ''s1'' = ''Continue unresolved task from source session s1.''"
  by (simp add: code_task_def sample_context_def text_or_def single_line_def split_words_def)

lemma sample_unmarked: "unmarked hash_std sample_context ''s1''"
proof -
  have "dget sample_context ''recent_assistant_texts'' = PList []" "dget sample_context ''command_texts'' = PList []" by (simp_all add: sample_context_def)
  then show ?thesis by (simp add: unmarked_def sample_task code_failed_def bounded_lines_def)
qed

theorem code_handoff_valid_witness:
  "validate_handoff (universal_newlines (code_handoff hash_std ''dev'' ''s1'' ''agent:dev:s1'' (cd_detection sample_asked) sample_context 0)) = Inr ()"
  by (rule code_handoff_valid [OF sample_source sample_unmarked])

definition confirmed_state :: "int live" where
  "confirmed_state = (live_start 1000)\<lparr>lv_confirm := [(''s1'', 1, 0, ''h'')]\<rparr>"

lemma sample_fields: "cd_agent sample_asked = ''dev''" "cd_session sample_asked = ''s1''" "cd_key sample_asked = ''agent:dev:s1''" "cd_kind sample_asked = ''PERIODIC_HEALTH''"
  "session_role ''agent:dev:s1'' = ''task''" "periodic_candidate ''PERIODIC_HEALTH'' (cd_detection sample_asked)"
  "truthy (dget sample_scope ''auto_recovery_allowed'')"
  by (simp_all add: sample_asked_def periodic_candidate_def dict_or_empty_def has_text_def sample_scope_def) code_simp

lemma sample_unblocked:
  assumes "plain_facts t sn"
  shows "filter fst (salvage_blocks (sample_live a) [] sample_asked sample_context sn
      \<lparr>jd_choice = ''SALVAGE'', jd_probabilities = [], jd_digest = [], jd_id = ''d'', jd_confidence = PInt 1\<rparr>) = []"
  using assms by (simp add: salvage_blocks_def Let_def sample_fields sample_names sample_safe plain_facts_def salvage_confident_def float_of_def
      salvage_margin_def List.map_filter_simps attempt_exists_def latest_def)

lemma sample_salvage:
  "\<exists>row t. evaluate_live (sample_live ''SALVAGE'') sample_candidate confirmed_state = (Inr row, t) \<and> has_text row ''action'' ''RECOVERY_STARTED''"
proof -
  have start: "lv_beyond confirmed_state = 1000" "lv_history confirmed_state = []" by (simp_all add: confirmed_state_def live_start_def)
  obtain sn where sn: "evaluate_live (sample_live ''SALVAGE'') sample_candidate confirmed_state =
      judge_live (sample_live ''SALVAGE'') sample_asked sample_context sn (confirmed_state\<lparr>lv_beyond := 1240\<rparr>)" "plain_facts 1000000 sn"
    using sample_asks [OF start] by blast
  let ?j = "\<lparr>jd_choice = ''SALVAGE'', jd_probabilities = [], jd_digest = [], jd_id = ''d'', jd_confidence = PInt 1\<rparr>"
  let ?s = "confirmed_state\<lparr>lv_beyond := 1300\<rparr>"
  have "\<exists>extra u. act_on (sample_live ''SALVAGE'') sample_asked sample_context sn ''h'' ?j ?s = (Inr (''RECOVERY_STARTED'', extra), u) \<and> unnamed extra"
    by (simp add: act_on_def act_salvage_def start sample_unblocked [OF sn(2)] bnd_app confirm_app sample_fields start_app recovery_enabled_def sample_names Let_def)
      (simp add: confirmed_state_def live_start_def next_confirmation_def sample_names)
  then obtain extra u where act: "act_on (sample_live ''SALVAGE'') sample_asked sample_context sn ''h'' ?j ?s = (Inr (''RECOVERY_STARTED'', extra), u)" "unnamed extra" by blast
  with sample_judged [OF sn(2), of "''SALVAGE''" "confirmed_state\<lparr>lv_beyond := 1240\<rparr>"] sn(1) show ?thesis by simp
qed

theorem recovery_start_conditions_witness:
  "\<exists>row t. evaluate_live (sample_live ''SALVAGE'') sample_candidate confirmed_state = (Inr row, t) \<and> has_text row ''choice'' ''SALVAGE''"
proof -
  obtain row t where "evaluate_live (sample_live ''SALVAGE'') sample_candidate confirmed_state = (Inr row, t)" "has_text row ''action'' ''RECOVERY_STARTED''"
    using sample_salvage by blast
  with recovery_start_conditions [OF this] show ?thesis by blast
qed


lemma sample_unguarded:
  assumes "plain_facts 1000000 sn"
  shows "nudge_guard hash_std [] sample_context sn sample_scope ''s1'' ''task'' ''h'' ''PERIODIC_HEALTH'' (cd_detection sample_asked) = (True, ''nudge_guard_pass'')"
proof -
  have m: "snapshot_metrics sn = metrics_of (sample_progress 1000000)" using assms by (simp add: plain_facts_def)
  have age: "round1 (499999 / 500) = 1000"
  proof -
    have "\<lfloor>499999 / 50 :: rat\<rfloor> = 9999" by (rule floor_unique) simp_all
    then show ?thesis by (simp add: round1_def round_even_def Let_def)
  qed
  have zero: "truncated 0 = 0" by (simp add: truncated_def)
  show ?thesis
    by (simp add: nudge_guard_def guard_checks_def Let_def sample_active sample_safe sample_fields m metrics_of_def count_metrics_def metric_def
        sample_progress_def age zero attempt_exists_def latest_def latest_nudge_def)
qed

lemma sample_nudge:
  "\<exists>row t. evaluate_live (sample_live ''NUDGE'') sample_candidate (live_start 1000) = (Inr row, t) \<and> has_text row ''action'' ''NUDGE_DISPATCHED''"
proof -
  have start: "lv_beyond (live_start (1000 :: int)) = 1000" "lv_history (live_start (1000 :: int)) = []" by (simp_all add: live_start_def)
  obtain sn where sn: "evaluate_live (sample_live ''NUDGE'') sample_candidate (live_start 1000) =
      judge_live (sample_live ''NUDGE'') sample_asked sample_context sn ((live_start 1000)\<lparr>lv_beyond := 1240\<rparr>)" "plain_facts 1000000 sn"
    using sample_asks [OF start] by blast
  let ?j = "\<lparr>jd_choice = ''NUDGE'', jd_probabilities = [], jd_digest = [], jd_id = ''d'', jd_confidence = PInt 1\<rparr>"
  let ?s = "(live_start (1000 :: int))\<lparr>lv_beyond := 1300\<rparr>"
  have scope: "scope_of sn = sample_scope" using sn(2) by (simp add: plain_facts_def)
  have "\<exists>extra u. act_on (sample_live ''NUDGE'') sample_asked sample_context sn ''h'' ?j ?s = (Inr (''NUDGE_DISPATCHED'', extra), u) \<and> unnamed extra"
    by (simp add: act_on_def reset_confirmation_def act_nudge_def start sample_fields scope sample_unguarded [OF sn(2)] bnd_app live_read_def live_clock_def
        append_live_def Let_def) (simp add: live_start_def)
  then obtain extra u where act: "act_on (sample_live ''NUDGE'') sample_asked sample_context sn ''h'' ?j ?s = (Inr (''NUDGE_DISPATCHED'', extra), u)" "unnamed extra" by blast
  with sample_judged [OF sn(2), of "''NUDGE''" "(live_start 1000)\<lparr>lv_beyond := 1240\<rparr>"] sn(1) show ?thesis by simp
qed

theorem nudge_conditions_witness:
  "\<exists>row t. evaluate_live (sample_live ''NUDGE'') sample_candidate (live_start 1000) = (Inr row, t) \<and> has_text row ''choice'' ''NUDGE''"
proof -
  obtain row t where "evaluate_live (sample_live ''NUDGE'') sample_candidate (live_start 1000) = (Inr row, t)" "has_text row ''action'' ''NUDGE_DISPATCHED''"
    using sample_nudge by blast
  with nudge_conditions [OF this] show ?thesis by blast
qed

text \<open>A recovery that runs through.\<close>

lemma sample_document:
  "validate_handoff (universal_newlines (code_handoff hash_std ''dev'' ''s1'' ''agent:dev:s1'' (cd_detection sample_asked) sample_context now)) = Inr ()"
proof -
  obtain tail where tail: "code_handoff hash_std ''dev'' ''s1'' ''agent:dev:s1'' (cd_detection sample_asked) sample_context now =
      document (code_values hash_std ''dev'' ''s1'' (cd_detection sample_asked) sample_context) tail" "CHR 0x0D \<notin> set tail"
    using sample_source [of now] by (auto simp: code_handoff_def document_def plain_source_def nl_def)
  show ?thesis
    using document_valid [OF _ _ _ tail(2)] code_values_ok [OF sample_source sample_unmarked] unfolding tail(1)
    by (simp add: required_sections_def code_values_def Let_def list_all_iff)
qed

lemma live_clock_app: "live_clock (sample_live a) s = (Inr (of_int (lv_beyond s)), s\<lparr>lv_beyond := lv_beyond s + 60\<rparr>)"
  by (simp add: live_clock_def live_read_def)

lemma live_context_app: "live_context (sample_live a) ag session s = (Inr sample_context, s)"
  by (simp add: live_context_def bnd_app live_world_def sample_context_read)

lemma append_phase_app: "append_phase (sample_live a) session ag ph st extra s =
    (Inr (), s\<lparr>lv_beyond := lv_beyond s + 60, lv_history := lv_history s @ [phase_row session ag ph st (of_int (lv_beyond s)) extra]\<rparr>)"
  by (simp add: append_phase_def bnd_app live_clock_app append_live_def)

lemma sample_written:
  assumes "map_of (lv_files s) path = None"
  shows "\<exists>t rows. write_code_handoff (sample_live a) ''dev'' ''s1'' ''agent:dev:s1'' (cd_detection sample_asked) path s = (Inr (), t)"
  using assms by (simp add: write_code_handoff_def Let_def handoff_ok_def bnd_app append_phase_app live_context_app attempt_app live_clock_app read_handoff_def
      sample_document map_of_delete update_conv')

lemma first_row:
  assumes "guar waits (f ())"
  shows "\<exists>rows. lv_history (snd (bnd (append_phase D session ag ph st extra) f s)) =
    lv_history s @ phase_row session ag ph st (fst (le_clock D (lv_beyond s))) extra # rows"
proof -
  obtain u where u: "append_phase D session ag ph st extra s = (Inr (), u)" "lv_history u = lv_history s @ [phase_row session ag ph st (fst (le_clock D (lv_beyond s))) extra]"
    by (simp add: append_phase_def live_clock_def live_read_app append_live_def bnd_app)
  have "waits u (snd (f () u))" using assms by (rule guarD)
  with u show ?thesis by (auto simp: bnd_app waits_def calm_def)
qed

lemma terminate_reports:
  "\<exists>rows. lv_history (snd (terminate_source D ag session key s)) =
     lv_history s @ phase_row session ag ''B_TERMINATE'' ''STARTED'' (fst (le_clock D (lv_beyond s))) [] # rows"
  unfolding terminate_source_def Let_def
  by (rule first_row) (intro waits_rules waits_phase waits_context waits_abort)

lemma then_reports:
  assumes "\<And>s. \<exists>rows. lv_history (snd (m s)) = lv_history s @ row (lv_beyond s) # rows" and "\<And>x. guar waits (f x)"
  shows "\<exists>rows. lv_history (snd (bnd m f s)) = lv_history s @ row (lv_beyond s) # rows"
proof -
  obtain r u where m: "m s = (r, u)" by (rule prod.exhaust)
  obtain rows where rows: "lv_history u = lv_history s @ row (lv_beyond s) # rows" using assms(1) [of s] m by auto
  show ?thesis
  proof (cases r)
    case (Inr x)
    have "waits u (snd (f x u))" using assms(2) by (rule guarD)
    with m rows Inr show ?thesis by (auto simp: bnd_app waits_def calm_def)
  qed (use m rows in \<open>simp add: bnd_app\<close>)
qed

definition sample_job :: "snapshot \<Rightarrow> recover_job" where
  "sample_job sn = \<lparr>rj_agent = ''dev'', rj_session = ''s1'', rj_key = ''agent:dev:s1'', rj_ctx = sample_context, rj_snapshot = sn,
     rj_detection = cd_detection sample_asked, rj_choice = ''SALVAGE'', rj_confidence = PInt 1\<rparr>"

lemma sample_hand_on:
  assumes "lv_files s = []"
  shows "\<exists>pre now rows. lv_history (snd (hand_on (sample_live a) (sample_job sn) s)) = pre @ phase_row ''s1'' ''dev'' ''B_TERMINATE'' ''STARTED'' now [] # rows"
proof -
  have job: "rj_agent (sample_job sn) = ''dev''" "rj_session (sample_job sn) = ''s1''" "rj_key (sample_job sn) = ''agent:dev:s1''"
    "rj_detection (sample_job sn) = cd_detection sample_asked" "rj_ctx (sample_job sn) = sample_context" by (simp_all add: sample_job_def)
  obtain workspace where w: "workspace_of hash_std ''/home/a'' (PDict []) ''dev'' = Inr workspace"
    by (simp add: workspace_of_def get_or_def get_of_def rbind_def Let_def)
  let ?path = "handoff_path (sample_live a) workspace ''s1''"
  obtain t where t: "write_code_handoff (sample_live a) ''dev'' ''s1'' ''agent:dev:s1'' (cd_detection sample_asked) ?path (s\<lparr>lv_phase := ''A_HANDOFF''\<rparr>) = (Inr (), t)"
    using sample_written [of "s\<lparr>lv_phase := ''A_HANDOFF''\<rparr>" ?path a] assms by auto
  let ?t = "t\<lparr>lv_phase := ''B_TERMINATE''\<rparr>" and ?j = "sample_job sn" and ?D = "sample_live a"
  let ?f = "\<lambda>(attempted, confirmed, go_on).
      if \<not> go_on then
        bnd (live_clock ?D) (\<lambda>t. append_live (outcome_base ?j ?path attempted confirmed t @
          [(''status'', PStr ''STALE_REEVALUATED_NO_ACTION''), (''reason'', PStr ''source_finished_before_confirmed_abort'')]))
      else
        bnd (enter_phase ''C_RESTART'') (\<lambda>u.
        bnd (gets (\<lambda>s. target_key hash_std (lv_history s) ''dev'' ''s1'')) (\<lambda>target.
        bnd (restart_and_resume ?D ''dev'' ''s1'' ?path target) (\<lambda>(reply, final).
        bnd (enter_phase ''E_COMPLETE'') (\<lambda>u.
        bnd (live_clock ?D) (\<lambda>t. append_live (outcome_base ?j ?path attempted confirmed t @
          [(''target_session_id'', ar_session reply), (''target_session_key'', PStr target), (''handoff_ack'', PBool True),
           (''logical_close'', PBool True), (''force_kill'', PBool False), (''delete'', PBool False),
           (''target_reply'', PStr (take 2000 (ar_text reply))), (''status'', PStr final)])))))) "
  have config: "live_world (le_config ?D) u = (Inr (PDict []), u)" "le_home ?D = ''/home/a''" for u
    by (simp_all add: live_world_def sample_live_def)
  have step: "hand_on ?D ?j s = bnd (terminate_source ?D ''dev'' ''s1'' ''agent:dev:s1'') ?f ?t"
    unfolding hand_on_def job sample_std by (simp add: sample_active bnd_app config w t enter_phase_def Let_def)
  have quiet: "guar waits (?f x)" for x by (intro waits_rules waits_enter waits_restart waits_outcome)
  show ?thesis
    unfolding step using then_reports [where m = "terminate_source ?D ''dev'' ''s1'' ''agent:dev:s1''" and f = ?f and s = ?t, OF terminate_reports quiet] by metis
qed

lemma sample_recheck:
  assumes "lv_beyond s = 1000" and "jsonable (PDict (snapshot_facts sn))"
  shows "recheck (sample_live a) (sample_job sn) s = (Inr (Some (sample_job sn)), s\<lparr>lv_beyond := 1180\<rparr>)"
proof -
  obtain fresh where f: "live_snapshot (sample_live a) ''dev'' ''s1'' (cd_detection sample_asked) s = (Inr (sample_context, fresh), s\<lparr>lv_beyond := 1180\<rparr>)"
    "plain_facts 1000000 fresh" using sample_snapshot [OF assms(1)] by blast
  then have "snapshot_state_digest hash_std fresh = Inr ''h''" by (simp add: plain_facts_def hash_digests(1))
  with f(1) hash_digests(1) [OF assms(2)] show ?thesis by (simp add: recheck_def sample_job_def bnd_app)
qed

lemma sample_stops:
  "\<exists>sn r t. recover_live (sample_live ''SALVAGE'') (sample_job sn) (live_start 1000) = (r, t) \<and>
     ''B_TERMINATE'' \<in> fst ` set (phase_log (new_rows (live_start 1000) t))"
proof -
  have start: "lv_beyond (live_start (1000 :: int)) = 1000" and empty: "lv_history (live_start (1000 :: int)) = []" by (simp_all add: live_start_def)
  obtain sn where sn: "jsonable (PDict (snapshot_facts sn))" using sample_made unfolding plain_facts_def by blast
  let ?j = "sample_job sn" and ?D = "sample_live ''SALVAGE''" and ?s = "(live_start (1000 :: int))\<lparr>lv_phase := ''PRECHECK''\<rparr>"
  obtain r t where run: "recover_live ?D ?j (live_start 1000) = (r, t)" by (rule prod.exhaust)
  have body: "recover_body ?D ?j (live_start 1000) = hand_on ?D ?j (?s\<lparr>lv_beyond := 1180\<rparr>)"
    using sample_recheck [of ?s sn "''SALVAGE''"] sn by (simp add: recover_body_def enter_phase_def bnd_app start)
  obtain pre now rows where "lv_history (snd (recover_body ?D ?j (live_start 1000))) = pre @ phase_row ''s1'' ''dev'' ''B_TERMINATE'' ''STARTED'' now [] # rows"
    using sample_hand_on [of "?s\<lparr>lv_beyond := 1180\<rparr>" "''SALVAGE''" sn] unfolding body by (auto simp: live_start_def)
  moreover have "\<exists>more. lv_history t = lv_history (snd (recover_body ?D ?j (live_start 1000))) @ more"
    using run by (auto simp: recover_live_def bnd_app attempt_app append_live_def live_clock_app split: sum.splits prod.splits)
  ultimately have "(''B_TERMINATE'', ''STARTED'') \<in> set (phase_log (new_rows (live_start 1000) t))"
    using empty by (auto simp: new_rows_def phase_log_def phase_row_def has_text_def row_text_def simp del: set_map)
  then have "''B_TERMINATE'' \<in> fst ` set (phase_log (new_rows (live_start 1000) t))" by force
  with run show ?thesis by blast
qed

theorem source_stopped_behind_handoff_witness:
  "\<exists>sn t. snd (recover_live (sample_live ''SALVAGE'') (sample_job sn) (live_start 1000)) = t \<and>
     (\<exists>row \<in> set (new_rows (live_start 1000) t). handoff_row (lv_files t) row)"
proof -
  obtain sn r t where run: "recover_live (sample_live ''SALVAGE'') (sample_job sn) (live_start 1000) = (r, t)"
    "''B_TERMINATE'' \<in> fst ` set (phase_log (new_rows (live_start 1000) t))" using sample_stops by blast
  from source_stopped_behind_handoff [OF run] run(1) show ?thesis by (metis snd_conv)
qed


end
