(* ===== verification/EnginePasses.thy ===== *)
theory EnginePasses
  imports CoreSafety
begin

text \<open>
  What the engine makes of the word of its transport: a run is recorded PASS only when the transport has answered PASS
  for this run. The contract between the two is \<open>vouching\<close>: an invariant of the world that every collaborator keeps,
  and a fact about a run that the transport vouches for when it answers PASS.
\<close>

section \<open>The registry\<close>

definition passes :: "(string \<Rightarrow> bool) \<Rightarrow> run list \<Rightarrow> bool" where
  "passes V rs \<longleftrightarrow> (\<forall>r \<in> set rs. r_status r = PASS \<longrightarrow> V (r_id r))"

definition keeps_passes :: "(string \<Rightarrow> bool) \<Rightarrow> run list \<Rightarrow> run list \<Rightarrow> bool" where
  "keeps_passes V rs qs \<longleftrightarrow> (passes V rs \<longrightarrow> passes V qs)"

interpretation passing: guarantee "keeps_passes V" for V
  by unfold_locales (auto simp: keeps_passes_def)

lemma keeps_append: "(passes V rs \<Longrightarrow> r_status r = PASS \<Longrightarrow> V (r_id r)) \<Longrightarrow> keeps_passes V rs (rs @ [r])"
  by (auto simp: keeps_passes_def passes_def)

lemma passes_current: "get_run i rs = Some r \<Longrightarrow> passes V rs \<Longrightarrow> r_status r = PASS \<Longrightarrow> V i"
  using get_run_Some [of i rs r] by (auto simp: passes_def)

lemma keeps_require:
  assumes "\<And>r rs. get_run i rs = Some r \<Longrightarrow> keeps_passes V rs (snd (f r rs))"
  shows "guar (keeps_passes V) (bnd (require_run i) f)"
  unfolding guar_def require_run_bnd using assms by (auto simp: passing.R_refl split: option.split)

lemma keeps_successor: "get_run i rs = Some r \<Longrightarrow> r_status q = r_status r \<Longrightarrow> r_id q = r_id r \<Longrightarrow> keeps_passes V rs (rs @ [q])"
  using passes_current [of i rs r] get_run_Some [of i rs r] by (intro keeps_append) auto

lemma create_run_passes: "guar (keeps_passes V) (create_run i ag key h pol goal parent resets approved managed now)"
  unfolding guar_def create_run_def
  by (auto simp: append_run_bnd Let_def new_run_def intro!: passing.R_refl keeps_append split: option.split)

lemma transition_passes: "(st = PASS \<Longrightarrow> V i) \<Longrightarrow> guar (keeps_passes V) (transition i st b oc why now)"
  unfolding transition_def
  by (rule keeps_require) (auto simp: Let_def append_run_bnd moved_run_keeps same_identity_def intro!: passing.R_refl keeps_append
      dest: get_run_Some)

lemma same_stage_parts: "same_stage r q \<Longrightarrow> r_status q = r_status r" "same_stage r q \<Longrightarrow> r_id q = r_id r"
  by (simp_all add: same_stage_def same_identity_def)

lemmas updates_keep = same_stage_parts [OF apply_goal_update_stage] same_stage_parts [OF apply_policy_update_stage]

lemma reconcile_passes: "guar (keeps_passes V) (reconcile_abort_observation i now)"
  unfolding reconcile_abort_observation_def
  by (rule keeps_require) (auto simp: Let_def append_run_bnd intro!: passing.R_refl keeps_append)

lemma update_goal_state_passes: "guar (keeps_passes V) (update_goal_state i u t now)"
  unfolding update_goal_state_def
  by (rule keeps_require)
     (auto simp: Let_def append_run_bnd updates_keep intro!: passing.R_refl keeps_successor split: option.split)

lemma update_policy_passes: "guar (keeps_passes V) (update_policy i u t now)"
  unfolding update_policy_def
  by (rule keeps_require)
     (auto simp: bnd_app Let_def append_run_def updates_keep intro!: passing.R_refl keeps_successor split: sum.split)

section \<open>The contract\<close>

text \<open>\<open>V w i\<close>: in the world \<open>w\<close> there is evidence for the run \<open>i\<close>. Evidence is never lost.\<close>

definition sound :: "('w \<Rightarrow> bool) \<Rightarrow> ('w \<Rightarrow> string \<Rightarrow> bool) \<Rightarrow> 'w core \<Rightarrow> bool" where
  "sound J V s \<longleftrightarrow> J (world s) \<and> passes (V (world s)) (runs s)"

definition keeps_world :: "('w \<Rightarrow> bool) \<Rightarrow> ('w \<Rightarrow> string \<Rightarrow> bool) \<Rightarrow> ('w \<Rightarrow> 'a \<times> 'w) \<Rightarrow> bool" where
  "keeps_world J V f \<longleftrightarrow> (\<forall>w. J w \<longrightarrow> J (snd (f w)) \<and> V w \<le> V (snd (f w)))"

definition stays_sound :: "('w \<Rightarrow> bool) \<Rightarrow> ('w \<Rightarrow> string \<Rightarrow> bool) \<Rightarrow> 'w core \<Rightarrow> 'w core \<Rightarrow> bool" where
  "stays_sound J V s t \<longleftrightarrow> (sound J V s \<longrightarrow> sound J V t \<and> V (world s) \<le> V (world t))"

interpretation backing: guarantee "stays_sound J V" for J V
  by unfold_locales (auto simp: stays_sound_def)

definition vouching :: "'w deps \<Rightarrow> ('w \<Rightarrow> bool) \<Rightarrow> ('w \<Rightarrow> string \<Rightarrow> bool) \<Rightarrow> bool" where
  "vouching D J V \<longleftrightarrow>
     keeps_world J V (clock D) \<and> keeps_world J V (monotonic D) \<and> keeps_world J V (new_uuid D) \<and>
     (\<forall>i p. keeps_world J V (tp_submit D i p)) \<and> (\<forall>i x. keeps_world J V (tp_wait D i x)) \<and> (\<forall>i. keeps_world J V (tp_cancel D i)) \<and>
     (\<forall>token sc i. keeps_world J V (consume_grant D token sc i)) \<and>
     (\<forall>sc body. (\<forall>x. keeps_world J V (body x)) \<longrightarrow> keeps_world J V (with_grant D sc body)) \<and>
     (\<forall>s. stays_sound J V s (others D s)) \<and>
     (\<forall>i x w oc w'. J w \<longrightarrow> tp_wait D i x w = (Inr oc, w') \<longrightarrow> oc_status oc = PASS \<longrightarrow> V w' i)"

lemma vouchingD:
  assumes "vouching D J V"
  shows "keeps_world J V (clock D)" "keeps_world J V (monotonic D)" "keeps_world J V (new_uuid D)" "keeps_world J V (tp_submit D i p)"
    "keeps_world J V (tp_wait D i x)" "keeps_world J V (tp_cancel D i)" "keeps_world J V (consume_grant D token sc i)"
    "(\<And>y. keeps_world J V (body y)) \<Longrightarrow> keeps_world J V (with_grant D sc body)"
    "stays_sound J V s (others D s)" "J w \<Longrightarrow> tp_wait D i x w = (Inr oc, w') \<Longrightarrow> oc_status oc = PASS \<Longrightarrow> V w' i"
  using assms unfolding vouching_def by blast+

lemma passes_mono: "passes V rs \<Longrightarrow> V \<le> W \<Longrightarrow> passes W rs"
  by (auto simp: passes_def)

lemma keeps_worldD: "keeps_world J V f \<Longrightarrow> stays_sound J V s (s\<lparr>world := snd (f (world s))\<rparr>)"
  by (auto simp: stays_sound_def sound_def keeps_world_def intro: passes_mono)

lemma keep_on_world: "keeps_world J V f \<Longrightarrow> guar (stays_sound J V) (on_world f)"
  by (auto simp: guar_def on_world_def split: prod.split dest: keeps_worldD) (metis keeps_worldD snd_conv)

lemma keep_ask_world: "keeps_world J V f \<Longrightarrow> guar (stays_sound J V) (ask_world f)"
  by (auto simp: guar_def ask_world_def split: prod.split dest: keeps_worldD) (metis keeps_worldD snd_conv)

lemma keep_reg:
  fixes V :: "'w \<Rightarrow> string \<Rightarrow> bool"
  assumes "\<And>W. guar (keeps_passes W) m" shows "guar (stays_sound J V) (reg m)"
proof (rule guarI)
  fix s :: "'w core"
  obtain r rs where "m (runs s) = (r, rs)" by (rule prod.exhaust)
  with guarD [OF assms, of "V (world s)" "runs s"] show "stays_sound J V s (snd (reg m s))"
    by (simp add: stays_sound_def sound_def keeps_passes_def reg_def)
qed

lemma keep_timers: "guar (stays_sound J V) (modify (\<lambda>s. s\<lparr>timers := f s\<rparr>))"
  by (simp add: guar_def stays_sound_def sound_def)

lemma keep_get: "guar (stays_sound J V) (reg (gets f))"
  by (intro keep_reg passing.guar_gets)

lemma keep_require: "guar (stays_sound J V) (require_record i)"
  unfolding require_record_def require_run_def
  by (intro keep_reg passing.guar_bnd passing.guar_gets passing.guar_option passing.guar_raise passing.guar_ret)

lemma keep_clear: "guar (stays_sound J V) (clear_deadline i)"
  unfolding clear_deadline_def by (rule keep_timers)

lemma keep_move: "vouching D J V \<Longrightarrow> st \<noteq> PASS \<Longrightarrow> guar (stays_sound J V) (move D i st b oc why)"
  unfolding move_def by (intro backing.guar_bnd keep_on_world keep_reg transition_passes) (auto dest: vouchingD)

lemma keep_note_policy: "vouching D J V \<Longrightarrow> guar (stays_sound J V) (note_policy D i u)"
  unfolding note_policy_def by (intro backing.guar_bnd keep_on_world keep_reg update_policy_passes) (auto dest: vouchingD)

lemma keep_note_goal: "vouching D J V \<Longrightarrow> guar (stays_sound J V) (note_goal D i u)"
  unfolding note_goal_def by (intro backing.guar_bnd keep_on_world keep_reg update_goal_state_passes) (auto dest: vouchingD)

lemma keep_clock: "vouching D J V \<Longrightarrow> guar (stays_sound J V) (on_world (clock D))"
  by (rule keep_on_world [OF vouchingD(1)])

lemma keep_uuid: "vouching D J V \<Longrightarrow> guar (stays_sound J V) (on_world (new_uuid D))"
  by (rule keep_on_world [OF vouchingD(3)])

lemma keep_abort: "vouching D J V \<Longrightarrow> guar (stays_sound J V) (ask_world (tp_cancel D i))"
  by (rule keep_ask_world [OF vouchingD(6)])

lemma keep_send: "vouching D J V \<Longrightarrow> guar (stays_sound J V) (ask_world (tp_submit D i p))"
  by (rule keep_ask_world [OF vouchingD(4)])

lemmas keep_rules = backing.guar_bnd backing.guar_lift backing.guar_ret backing.guar_raise backing.guar_gets backing.guar_attempt
  backing.guar_if backing.guar_let backing.guar_option backing.guar_sum backing.guar_prod keep_get keep_require keep_timers keep_clear
  keep_move keep_note_policy keep_note_goal keep_clock keep_uuid keep_abort keep_send

lemma keep_authorize:
  assumes "vouching D J V" shows "guar (stays_sound J V) (authorize_run D q i sc)"
proof -
  have same: "keeps_world J V (\<lambda>w. (x, w))" for x :: "unit res" by (simp add: keeps_world_def)
  have "keeps_world J V (with_grant D sc (\<lambda>(gs, token).
      if sc_agent gs \<noteq> sc_agent sc \<or> sc_action gs \<noteq> sc_action sc \<or> sc_contract gs \<noteq> sc_contract sc
      then (\<lambda>w. (Inl (auth_error ''BINDING_MISMATCH''), w)) else consume_grant D token gs i))"
    using vouchingD(7) [OF assms] same by (intro vouchingD(8) [OF assms]) (simp split: prod.split)
  then show ?thesis
    unfolding authorize_run_def by (intro keep_rules keep_ask_world vouchingD(7) [OF assms])
qed

lemma keep_submit_run: "vouching D J V \<Longrightarrow> guar (stays_sound J V) (submit_run D q i key a r)"
  unfolding submit_run_def schedule_deadline_def by (intro keep_rules) simp_all

lemma keep_create: "vouching D J V \<Longrightarrow> guar (stays_sound J V) (create_record D q i a)"
  unfolding create_record_def by (intro keep_rules keep_reg create_run_passes)

lemma keep_dispatched: "vouching D J V \<Longrightarrow> guar (stays_sound J V) (dispatch D q)"
  unfolding dispatch_def authorize_and_submit_def run_identity_def
  by (intro keep_rules keep_authorize keep_submit_run keep_create) simp_all

lemma keep_cancel_for_policy: "vouching D J V \<Longrightarrow> guar (stays_sound J V) (cancel_for_policy D i p event reason recorded)"
  unfolding cancel_for_policy_def by (intro keep_rules) simp_all

lemma keep_checkpoint: "vouching D J V \<Longrightarrow> guar (stays_sound J V) (observe_checkpoint D i v)"
  unfolding observe_checkpoint_def by (intro keep_rules keep_cancel_for_policy)

lemma keep_runtime: "vouching D J V \<Longrightarrow> guar (stays_sound J V) (runtime_seconds D r)"
  unfolding runtime_seconds_def by (intro keep_rules)

lemma keep_elapsed: "vouching D J V \<Longrightarrow> guar (stays_sound J V) (elapsed_now D i)"
  unfolding elapsed_now_def by (intro keep_rules keep_runtime)

lemma keep_set_runtime: "vouching D J V \<Longrightarrow> guar (stays_sound J V) (set_runtime D i x)"
  unfolding set_runtime_def by (intro keep_rules)

section \<open>Outcomes with evidence\<close>

text \<open>The state is sound, and if \<open>c\<close> holds there is evidence for the run. Both outlast every other operation.\<close>

definition backed :: "('w \<Rightarrow> bool) \<Rightarrow> ('w \<Rightarrow> string \<Rightarrow> bool) \<Rightarrow> string \<Rightarrow> bool \<Rightarrow> 'w core \<Rightarrow> bool" where
  "backed J V i c s \<longleftrightarrow> sound J V s \<and> (c \<longrightarrow> V (world s) i)"

abbreviation closing :: "('w \<Rightarrow> bool) \<Rightarrow> ('w \<Rightarrow> string \<Rightarrow> bool) \<Rightarrow> string \<Rightarrow> bool \<Rightarrow> ('w core, 'a) op \<Rightarrow> bool" where
  "closing J V i c m \<equiv> holds (backed J V i c) m (sound J V) (\<lambda>x. sound J V)"

abbreviation seeing :: "('w \<Rightarrow> bool) \<Rightarrow> ('w \<Rightarrow> string \<Rightarrow> bool) \<Rightarrow> string \<Rightarrow> ('w core, 'a) op \<Rightarrow> ('a \<Rightarrow> bool) \<Rightarrow> bool" where
  "seeing J V i m c \<equiv> holds (sound J V) m (sound J V) (\<lambda>x. backed J V i (c x))"

lemma close_behind: "guar (stays_sound J V) m \<Longrightarrow> (\<And>x. holds (backed J V i c) (f x) (sound J V) Q) \<Longrightarrow> holds (backed J V i c) (bnd m f) (sound J V) Q"
  by (rule holds_bnd [where Q = "\<lambda>x. backed J V i c"], erule holds_frame) (auto simp: backed_def stays_sound_def)

lemma close_last: "guar (stays_sound J V) m \<Longrightarrow> closing J V i c m"
  by (erule holds_frame) (auto simp: backed_def stays_sound_def)

lemma closing_option: "closing J V i c m \<Longrightarrow> (\<And>x. closing J V i c (f x)) \<Longrightarrow> closing J V i c (case v of None \<Rightarrow> m | Some x \<Rightarrow> f x)"
  by (rule holds_option)

lemma keeps_closed: "guar (stays_sound J V) m \<Longrightarrow> (\<And>x. holds (sound J V) (f x) (sound J V) Q) \<Longrightarrow> holds (sound J V) (bnd m f) (sound J V) Q"
  by (rule holds_bnd [where Q = "\<lambda>x. sound J V"], erule holds_frame) (auto simp: stays_sound_def)

lemma close_move:
  assumes "vouching D J V" "st = PASS \<Longrightarrow> c" shows "closing J V i c (move D i st b oc why)"
  unfolding move_def
proof (rule close_behind [OF keep_clock [OF assms(1)]])
  fix now
  have "sound J V (snd (reg (transition i st b oc why now) s))" if "backed J V i c s" for s
  proof -
    obtain r rs where t: "transition i st b oc why now (runs s) = (r, rs)" by (rule prod.exhaust)
    have "guar (keeps_passes (V (world s))) (transition i st b oc why now)"
      using that assms(2) by (intro transition_passes) (auto simp: backed_def)
    from guarD [OF this, of "runs s"] t that show ?thesis by (simp add: reg_def backed_def sound_def keeps_passes_def)
  qed
  then show "closing J V i c (reg (transition i st b oc why now))" by (simp add: holds_def)
qed

lemma close_finish: "vouching D J V \<Longrightarrow> closing J V i (oc_status oc = PASS) (finish_with D i oc)"
  unfolding finish_with_def by (intro close_behind keep_clear close_move)

lemma holds_post: "holds P m E Q \<Longrightarrow> (\<And>x s. Q x s \<Longrightarrow> R x s) \<Longrightarrow> holds P m E R"
  by (simp add: holds_def)

lemma close_attempt:
  "holds P m E Q \<Longrightarrow> holds P (attempt m) E (\<lambda>r s. E s \<and> (\<forall>x. r = Inr x \<longrightarrow> Q x s))"
  by (simp add: holds_def attempt_app)

lemma close_outcome:
  assumes "vouching D J V" shows "closing J V i (oc_status oc = PASS) (apply_adapter_outcome D i oc)"
  unfolding apply_adapter_outcome_def abort_after_timeout_def apply_reported_checkpoint_def
  by (intro holds_if holds_option holds_sum close_behind [OF backing.guar_attempt [OF keep_checkpoint [OF assms]]] close_finish close_last
      close_behind keep_rules assms) simp_all

section \<open>Waiting\<close>

lemma see_poll:
  assumes "vouching D J V" shows "seeing J V i (poll D i x) (\<lambda>oc. oc_status oc = PASS)"
proof -
  have "sound J V (snd (poll D i x s)) \<and> (\<forall>oc. fst (poll D i x s) = Inr oc \<longrightarrow> backed J V i (oc_status oc = PASS) (snd (poll D i x s)))"
    if s: "sound J V s" for s
  proof -
    obtain r w where r: "tp_wait D i x (world s) = (r, w)" by (rule prod.exhaust)
    let ?t = "s\<lparr>world := w\<rparr>"
    have "stays_sound J V s ?t" using keeps_worldD [OF vouchingD(5) [OF assms], of s i x] r by simp
    with s have t: "sound J V ?t" by (simp add: stays_sound_def)
    with vouchingD(9) [OF assms, of ?t] have o: "sound J V (others D ?t)" "V w \<le> V (world (others D ?t))" by (auto simp: stays_sound_def)
    have "V w i" if "r = Inr oc" "oc_status oc = PASS" for oc
      using vouchingD(10) [OF assms, of "world s" i x oc w] r that s by (simp add: sound_def)
    with o have "r = Inr oc \<Longrightarrow> backed J V i (oc_status oc = PASS) (others D ?t)" for oc by (auto simp: backed_def)
    with o(1) r show ?thesis by (simp add: poll_def ask_world_def)
  qed
  then show ?thesis by (simp add: holds_def)
qed

text \<open>An answer that was caught.\<close>

definition caught :: "('w \<Rightarrow> bool) \<Rightarrow> ('w \<Rightarrow> string \<Rightarrow> bool) \<Rightarrow> string \<Rightarrow> adapter_outcome res \<Rightarrow> 'w core \<Rightarrow> bool" where
  "caught J V i r s \<longleftrightarrow> sound J V s \<and> (\<forall>oc. r = Inr oc \<longrightarrow> backed J V i (oc_status oc = PASS) s)"

lemma see_answer:
  "vouching D J V \<Longrightarrow> holds (sound J V) (attempt (poll D i x)) (sound J V) (caught J V i)"
  by (rule holds_post [OF close_attempt [OF see_poll]]) (simp_all add: caught_def)

lemma caught_cases:
  assumes "\<And>oc. holds (backed J V i (oc_status oc = PASS)) (f oc) (sound J V) Q" "\<And>e. holds (sound J V) (g e) (sound J V) Q"
  shows "holds (caught J V i r) (case r of Inl e \<Rightarrow> g e | Inr oc \<Rightarrow> f oc) (sound J V) Q"
  using assms by (cases r) (auto simp: holds_def caught_def)

lemma sound_plain: "st \<noteq> PASS \<Longrightarrow> holds (sound J V) (ret (plain_outcome st why)) (sound J V) (\<lambda>oc. backed J V i (oc_status oc = PASS))"
  by (rule holds_ret) (simp add: backed_def plain_outcome_def)

lemma sound_known: "holds (backed J V i (oc_status oc = PASS)) (ret oc) (sound J V) (\<lambda>oc. backed J V i (oc_status oc = PASS))"
  by (rule holds_ret) (simp add: backed_def)

lemma sound_raise: "holds (sound J V) (raise e) (sound J V) Q"
  by (rule holds_raise)

lemma see_observe:
  assumes "vouching D J V" shows "seeing J V i (observe_wait D i x) (\<lambda>oc. oc_status oc = PASS)"
  unfolding observe_wait_def
  by (intro holds_bnd [OF see_answer] caught_cases holds_if sound_known sound_plain sound_raise keeps_closed keep_note_policy assms) simp_all

lemma keep_exhausted: "vouching D J V \<Longrightarrow> guar (stays_sound J V) (note_exhausted D i p r)"
  unfolding note_exhausted_def by (intro keep_rules)

lemma keeps_last: "guar (stays_sound J V) m \<Longrightarrow> holds (sound J V) m (sound J V) (\<lambda>x. sound J V)"
  by (erule holds_frame) (auto simp: stays_sound_def)

lemma see_taken:
  "holds (caught J V i answer) (case answer of
     Inr oc \<Rightarrow> ret oc
   | Inl e \<Rightarrow> if adapter_failure e then ret (plain_outcome RUNNING ''FINALIZATION_COLLECTION_FAILED'') else raise e) (sound J V)
   (\<lambda>oc. backed J V i (oc_status oc = PASS))"
  by (intro caught_cases holds_if sound_known sound_plain sound_raise) simp_all

lemma keep_finalized:
  assumes "vouching D J V" shows "holds (sound J V) (finalize_local D i p) (sound J V) (\<lambda>x. sound J V)"
  unfolding finalize_local_def Let_def
  by (intro keeps_closed holds_if keeps_last holds_bnd [OF see_answer] holds_bnd [OF see_taken] close_behind close_last close_outcome
      keep_require keep_exhausted keep_elapsed keep_set_runtime keep_cancel_for_policy backing.guar_ret assms)

definition leaving :: "('w \<Rightarrow> bool) \<Rightarrow> ('w \<Rightarrow> string \<Rightarrow> bool) \<Rightarrow> string \<Rightarrow> wait_verdict \<Rightarrow> 'w core \<Rightarrow> bool" where
  "leaving J V i v s \<longleftrightarrow> sound J V s \<and> (\<forall>oc. v = Leave oc \<longrightarrow> backed J V i (oc_status oc = PASS) s)"

lemma see_finish:
  "holds P m (sound J V) (\<lambda>x. sound J V) \<Longrightarrow> holds P (finish_op m) (sound J V) (leaving J V i)"
  unfolding finish_op_def by (erule holds_bnd) (simp add: holds_def leaving_def)

lemma close_sound: "holds (sound J V) m E Q \<Longrightarrow> holds (backed J V i c) m E Q"
  by (erule holds_pre) (simp add: backed_def)

lemma see_judge:
  assumes "vouching D J V"
  shows "holds (backed J V i (oc_status oc = PASS)) (judge_wait D i p managed before bounded oc elapsed) (sound J V) (leaving J V i)"
proof -
  have out: "holds (backed J V i (oc_status oc = PASS)) (ret (Leave oc)) (sound J V) (leaving J V i)"
    "holds (backed J V i (oc_status oc = PASS)) (ret Again) (sound J V) (leaving J V i)"
    by (simp_all add: holds_def leaving_def backed_def)
  show ?thesis
    unfolding judge_wait_def Let_def
    by (intro holds_if out see_finish close_sound [OF keep_finalized] close_last keep_cancel_for_policy keep_require assms)
qed

lemma see_wait_step:
  assumes "vouching D J V" shows "holds (sound J V) (wait_step D i p requested) (sound J V) (leaving J V i)"
  unfolding wait_step_def Let_def guarded_def
  by (intro keeps_closed holds_if see_finish keep_finalized keeps_last holds_bnd [OF see_observe] close_behind see_judge close_last
      keep_require keep_runtime keep_set_runtime keep_elapsed keep_cancel_for_policy backing.guar_gets assms)

lemma close_settle:
  "vouching D J V \<Longrightarrow> closing J V i (oc_status oc = PASS) (settle D i oc)"
  unfolding settle_def guarded_def
  by (intro close_behind holds_if close_last close_outcome keep_require backing.guar_ret backing.guar_gets)

lemma wait_loop_sound:
  "wait_loop D i p requested s = Some res \<Longrightarrow> vouching D J V \<Longrightarrow> sound J V s \<Longrightarrow> sound J V (snd res)"
proof (induction rule: wait_loop.raw_induct [rotated, consumes 1])
  case (1 loop D i p requested s res)
  obtain answer s' where step: "wait_step D i p requested s = (answer, s')" by fastforce
  from see_wait_step [OF "1.prems"(1), of i p requested] "1.prems"(2) step
  have s': "sound J V s'" and l: "answer = Inr v \<Longrightarrow> leaving J V i v s'" for v by (auto simp: holds_def)
  have settled: "sound J V (snd (settle D i oc s'))" if "answer = Inr (Leave oc)" for oc
    using close_settle [OF "1.prems"(1), of i oc] l [OF that] by (simp add: leaving_def holds_def)
  show ?case using 1 settled s' by (auto simp: step split: sum.splits wait_verdict.splits)
qed

lemma wait_sound:
  assumes "vouching D J V" "wait D i timeout s = Some res" "sound J V s" shows "sound J V (snd res)"
proof -
  obtain answer s' where req: "require_record i s = (answer, s')" by fastforce
  have s': "sound J V s'" using guarD [OF keep_require, of J V s i] req assms(3) by (simp add: stays_sound_def)
  then show ?thesis
    using assms(2) wait_loop_sound [OF _ assms(1)] by (auto simp: wait_def req split: sum.splits if_splits option.splits)
qed

section \<open>Histories\<close>

lemma keep_fresh_context: "vouching D J V \<Longrightarrow> guar (stays_sound J V) (fresh_context D i)"
  unfolding fresh_context_def escalate_reset_def start_child_def
  by (intro keep_rules keep_dispatched) simp_all

lemma keep_runtime_event: "vouching D J V \<Longrightarrow> guar (stays_sound J V) (observe_runtime_event D i ev)"
  unfolding observe_runtime_event_def by (intro keep_rules keep_cancel_for_policy)

lemma keep_spot: "vouching D J V \<Longrightarrow> guar (stays_sound J V) (spot D sc out)"
  unfolding spot_def
  by (intro backing.guar_bnd keep_on_world vouchingD(2)) (auto simp: guar_def stays_sound_def sound_def split: prod.split)

lemma keep_output: "vouching D J V \<Longrightarrow> guar (stays_sound J V) (observe_local_run_output D sc out)"
  unfolding observe_local_run_output_def by (intro keep_rules keep_spot)

lemma keep_bound_output: "vouching D J V \<Longrightarrow> guar (stays_sound J V) (observe_bound_output D b out)"
  unfolding observe_bound_output_def by (intro keep_rules keep_output)

lemma keep_cancel: "vouching D J V \<Longrightarrow> guar (stays_sound J V) (cancel D i)"
  unfolding cancel_def by (intro keep_rules) simp_all

lemma keep_user_cancel: "vouching D J V \<Longrightarrow> guar (stays_sound J V) (mark_user_cancelled D i)"
  unfolding mark_user_cancelled_def by (intro keep_rules) simp_all

lemma keep_after_abort: "vouching D J V \<Longrightarrow> guar (stays_sound J V) (mark_user_cancelled_after_abort D i)"
  unfolding mark_user_cancelled_after_abort_def by (intro keep_rules keep_reg reconcile_passes) simp_all

lemma keep_reconcile:
  assumes "vouching D J V" shows "holds (sound J V) (reconcile_external_completion D i) (sound J V) (\<lambda>x. sound J V)"
  unfolding reconcile_external_completion_def
  by (intro keeps_closed holds_if keeps_last holds_bnd [OF see_answer] caught_cases close_behind close_last close_move
      keep_require keep_clear backing.guar_ret backing.guar_raise assms)

lemma keep_deadline:
  assumes "vouching D J V" shows "holds (sound J V) (enforce_deadline D i) (sound J V) (\<lambda>x. sound J V)"
  unfolding enforce_deadline_def Let_def
  by (intro keeps_closed holds_option holds_if keeps_last holds_bnd [OF keep_finalized] backing.guar_bnd keep_get keep_clear backing.guar_ret
      keep_set_runtime keep_cancel_for_policy assms)

lemma engine_step_sound:
  assumes "vouching D J V" "engine_step D c s = Some t" "sound J V s" shows "sound J V t"
proof -
  note v = assms(1)
  have u: "guar (stays_sound J V) m \<Longrightarrow> sound J V (snd (m s))" for m :: "('a core, unit) op"
    using assms(3) by (simp add: guar_def stays_sound_def)
  have d: "guar (stays_sound J V) m \<Longrightarrow> sound J V (snd (m s))" for m :: "('a core, run) op"
    using assms(3) by (simp add: guar_def stays_sound_def)
  have h: "sound J V (snd (reconcile_external_completion D i s))" "sound J V (snd (enforce_deadline D i s))" for i
    using keep_reconcile [OF v, of i] keep_deadline [OF v, of i] assms(3) by (simp_all add: holds_def)
  show ?thesis
  proof (cases "\<exists>i. c = ReconcileCall i \<or> c = DeadlineFires i")
    case True
    with assms(2) h show ?thesis by auto
  next
    case False
    with assms(2) wait_sound [OF v _ assms(3)] show ?thesis
      by (cases c) (auto intro!: u d keep_dispatched keep_checkpoint keep_fresh_context keep_runtime_event keep_output keep_bound_output
          keep_cancel keep_user_cancel keep_after_abort v)
  qed
qed

lemma reaches_sound: "reaches D s t \<Longrightarrow> vouching D J V \<Longrightarrow> sound J V s \<Longrightarrow> sound J V t"
  by (induction rule: reaches.induct) (auto intro: engine_step_sound)

end
