(* ===== verification/GatewayClient.thy ===== *)
theory GatewayClient
  imports PyVal
begin

text \<open>
  \<^verbatim>\<open>GatewayRPCClient\<close> of \<^verbatim>\<open>plachem_fast_gateway/openclaw_adapter.py\<close>: one WebSocket connection to the gateway, its
  handshake, and calls over it. A socket is the queue of what its next reads yield: texts, or exceptions; a read of the
  empty queue times out. Sending a frame adds what arrives until the time-out of the call, so an endless stream of
  events within one call is not expressible. Frames are sent as values. The socket factory, the secret, the clocks, the
  identifiers and the signature of the device are the record \<open>gateway_deps\<close>. The branch for in-process sockets with
  an attribute \<^verbatim>\<open>responses\<close> is left out: no socket of the factory has one.
\<close>

section \<open>State\<close>

record 'w gateway =
  gc_socket :: "string res list option"
  gc_last :: rat
  gc_methods :: "string list"
  gc_role :: string
  gc_scopes :: "string list"
  gc_beyond :: 'w

record 'w gateway_deps =
  gd_std :: std
  gd_loads :: "string \<Rightarrow> pyval option"
  gd_secret :: "'w \<Rightarrow> string res \<times> 'w"
  gd_open :: "'w \<Rightarrow> string res list res \<times> 'w"
  gd_send :: "pydict \<Rightarrow> rat \<Rightarrow> 'w \<Rightarrow> string res list res \<times> 'w"
  gd_close :: "'w \<Rightarrow> 'w"
  gd_monotonic :: "'w \<Rightarrow> rat \<times> 'w"
  gd_clock :: "'w \<Rightarrow> rat \<times> 'w"
  gd_uuid :: "'w \<Rightarrow> string \<times> 'w"
  gd_sign :: "string \<Rightarrow> string"
  gd_device :: string
  gd_public :: string
  gd_client :: string
  gd_version :: string
  gd_connect_timeout :: rat
  gd_stale :: rat

definition required_scopes :: "string list" where
  "required_scopes = [''operator.read'', ''operator.write'']"

definition required_methods :: "string list" where
  "required_methods = [''agent'', ''agent.wait'', ''chat.history'']"

definition gw_read :: "('w \<Rightarrow> 'a \<times> 'w) \<Rightarrow> ('w gateway, 'a) op" where
  "gw_read f s = (case f (gc_beyond s) of (x, w) \<Rightarrow> (Inr x, s\<lparr>gc_beyond := w\<rparr>))"

definition gw_ask :: "('w \<Rightarrow> 'a res \<times> 'w) \<Rightarrow> ('w gateway, 'a) op" where
  "gw_ask f s = (case f (gc_beyond s) of (r, w) \<Rightarrow> (r, s\<lparr>gc_beyond := w\<rparr>))"

definition contract_error :: "string \<Rightarrow> exn" where
  "contract_error m = GatewayContractError m None"

text \<open>An exception of the socket or of the decoder leaves a call as a \<open>TransportError\<close>.\<close>

definition lost :: "string \<Rightarrow> exn \<Rightarrow> exn" where
  "lost m e = (if is_adapter_error e \<or> e = TimeoutError then e else TransportError m)"

section \<open>Calls\<close>

text \<open>\<open>_disconnect_locked\<close>: everything negotiated is forgotten with the socket.\<close>

definition disconnect :: "'w gateway_deps \<Rightarrow> ('w gateway, unit) op" where
  "disconnect D = modify (\<lambda>s. s\<lparr>gc_socket := None, gc_last := 0, gc_methods := [], gc_role := [], gc_scopes := [],
     gc_beyond := (if gc_socket s = None then gc_beyond s else gd_close D (gc_beyond s))\<rparr>)"

definition is_stale :: "'w gateway_deps \<Rightarrow> ('w gateway, bool) op" where
  "is_stale D =
     bnd (gets (\<lambda>s. (gc_socket s, gc_last s))) (\<lambda>(k, last_seen).
     if k = None \<or> last_seen \<le> 0 then ret False
     else bnd (gw_read (gd_monotonic D)) (\<lambda>now. ret (gd_stale D \<le> now - last_seen)))"

text \<open>What a response frame is worth.\<close>

definition answer_of :: "std \<Rightarrow> pydict \<Rightarrow> pydict res" where
  "answer_of S d =
     (if dget d ''ok'' \<noteq> PBool True then
        (let c = (case as_dict (dget d ''error'') of None \<Rightarrow> ''GATEWAY_REJECTED'' | Some e \<Rightarrow> named_or S ''GATEWAY_REJECTED'' (dget e ''code''))
         in Inl (GatewayContractError (''OpenClaw RPC rejected: '' @ c) (Some c)))
      else (case as_dict (dget d ''payload'') of
          None \<Rightarrow> Inl (contract_error ''OpenClaw RPC payload is not an object'')
        | Some p \<Rightarrow> Inr p))"

text \<open>The loop of \<open>_request_locked\<close>: events go to the handler, answers to other calls are skipped.\<close>

fun await :: "'w gateway_deps \<Rightarrow> (pydict \<Rightarrow> 'w \<Rightarrow> 'w) \<Rightarrow> string \<Rightarrow> string res list \<Rightarrow> 'w \<Rightarrow> pydict res \<times> string res list \<times> 'w" where
  "await D h i [] w = (Inl TimeoutError, [], w)"
| "await D h i (Inl e # q) w = (Inl (lost ''OpenClaw Gateway transport failed'' e), q, w)"
| "await D h i (Inr t # q) w =
     (case gd_loads D t of
        None \<Rightarrow> (Inl (TransportError ''OpenClaw Gateway transport failed''), q, w)
      | Some v \<Rightarrow> (case as_dict v of
          None \<Rightarrow> (Inl (contract_error ''OpenClaw returned a non-object frame''), q, w)
        | Some d \<Rightarrow>
            if dget d ''type'' = PStr ''event'' then await D h i q (h d w)
            else if dget d ''type'' \<noteq> PStr ''res'' \<or> dget d ''id'' \<noteq> PStr i then await D h i q w
            else (answer_of (gd_std D) d, q, w)))"

definition request_frame :: "string \<Rightarrow> string \<Rightarrow> pydict \<Rightarrow> pydict" where
  "request_frame i name params = [(''type'', PStr ''req''), (''id'', PStr i), (''method'', PStr name), (''params'', PDict params)]"

definition exchange ::
  "'w gateway_deps \<Rightarrow> (pydict \<Rightarrow> 'w \<Rightarrow> 'w) \<Rightarrow> string \<Rightarrow> pydict \<Rightarrow> rat \<Rightarrow> string res list \<Rightarrow> ('w gateway, pydict) op" where
  "exchange D h i frame timeout q s =
     (case gd_send D frame timeout (gc_beyond s) of
        (Inl e, w) \<Rightarrow> (Inl (lost ''OpenClaw Gateway transport failed'' e), s\<lparr>gc_beyond := w\<rparr>)
      | (Inr arrived, w) \<Rightarrow> (case await D h i (q @ arrived) w of (r, rest, w') \<Rightarrow> (r, s\<lparr>gc_socket := Some rest, gc_beyond := w'\<rparr>)))"

definition request_locked ::
  "'w gateway_deps \<Rightarrow> (pydict \<Rightarrow> 'w \<Rightarrow> 'w) \<Rightarrow> string \<Rightarrow> pydict \<Rightarrow> rat \<Rightarrow> ('w gateway, pydict) op" where
  "request_locked D h name params timeout =
     bnd (gets gc_socket) (\<lambda>k.
     case k of
       None \<Rightarrow> raise (TransportError ''OpenClaw Gateway is not connected'')
     | Some q \<Rightarrow>
         bnd (gw_read (gd_uuid D)) (\<lambda>i.
         if \<not> jsonable (PDict params) then raise (TransportError ''OpenClaw Gateway transport failed'') else
         bnd (exchange D h i (request_frame i name params) timeout q) (\<lambda>p.
         bnd (gw_read (gd_monotonic D)) (\<lambda>now.
         bnd (modify (\<lambda>s. s\<lparr>gc_last := now\<rparr>)) (\<lambda>u. ret p)))))"

section \<open>The handshake\<close>

text \<open>\<open>_receive_challenge_locked\<close>: the time stamp, when it is an integer, and the nonce.\<close>

definition challenge_of :: "pyval \<Rightarrow> (int option \<times> string) res" where
  "challenge_of v =
     (case as_dict v of
        None \<Rightarrow> Inl (contract_error ''OpenClaw challenge is not an object'')
      | Some d \<Rightarrow>
          (case (if dget d ''type'' = PStr ''event'' \<and> dget d ''event'' = PStr ''connect.challenge'' then as_dict (dget d ''payload'') else None) of
             None \<Rightarrow> Inl (contract_error ''OpenClaw connect.challenge was not returned'')
           | Some p \<Rightarrow> (case dget p ''nonce'' of
               PStr n \<Rightarrow> need (n \<noteq> []) (contract_error ''OpenClaw connect.challenge was not returned'') (Inr (as_int (dget p ''ts''), n))
             | _ \<Rightarrow> Inl (contract_error ''OpenClaw connect.challenge was not returned''))))"

definition read_challenge :: "'w gateway_deps \<Rightarrow> string res list \<Rightarrow> (int option \<times> string) res \<times> string res list" where
  "read_challenge D q =
     (case q of
        [] \<Rightarrow> (Inl TimeoutError, [])
      | Inl e # rest \<Rightarrow> (Inl (if e = TimeoutError then e else TransportError ''OpenClaw Gateway challenge failed''), rest)
      | Inr t # rest \<Rightarrow> (case gd_loads D t of None \<Rightarrow> Inl (TransportError ''OpenClaw Gateway challenge failed'') | Some v \<Rightarrow> challenge_of v, rest))"

definition receive_challenge :: "'w gateway_deps \<Rightarrow> ('w gateway, int option \<times> string) op" where
  "receive_challenge D =
     bnd (gets gc_socket) (\<lambda>k.
     case k of
       None \<Rightarrow> raise (TransportError ''OpenClaw Gateway is not connected'')
     | Some q \<Rightarrow>
         bnd (modify (\<lambda>s. s\<lparr>gc_socket := Some (snd (read_challenge D q))\<rparr>)) (\<lambda>u.
         bnd (lift (fst (read_challenge D q))) (\<lambda>c.
         bnd (gw_read (gd_monotonic D)) (\<lambda>now.
         bnd (modify (\<lambda>s. s\<lparr>gc_last := now\<rparr>)) (\<lambda>u. ret c)))))"

text \<open>\<open>_sign_device_payload\<close>: the text that is signed.\<close>

definition device_payload :: "'w gateway_deps \<Rightarrow> int \<Rightarrow> string \<Rightarrow> string \<Rightarrow> string" where
  "device_payload D stamp token nonce =
     join ''|'' [''v3'', gd_device D, gd_client D, ''backend'', ''operator'', join '','' required_scopes, str_int stamp, token, nonce, ''linux'', []]"

definition connect_params :: "'w gateway_deps \<Rightarrow> int \<Rightarrow> string \<Rightarrow> string \<Rightarrow> pydict" where
  "connect_params D stamp token nonce =
     [(''minProtocol'', PInt 4), (''maxProtocol'', PInt 4),
      (''client'', PDict [(''id'', PStr (gd_client D)), (''version'', PStr (gd_version D)), (''platform'', PStr ''linux''), (''mode'', PStr ''backend'')]),
      (''role'', PStr ''operator''), (''scopes'', str_list required_scopes), (''auth'', PDict [(''token'', PStr token)]),
      (''device'', PDict [(''id'', PStr (gd_device D)), (''publicKey'', PStr (gd_public D)),
         (''signature'', PStr (gd_sign D (device_payload D stamp token nonce))), (''signedAt'', PInt stamp), (''nonce'', PStr nonce)])]"

definition no_handler :: "pydict \<Rightarrow> 'w \<Rightarrow> 'w" where
  "no_handler frame w = w"

definition handshake :: "'w gateway_deps \<Rightarrow> string \<Rightarrow> ('w gateway, pydict) op" where
  "handshake D token =
     bnd (gw_ask (gd_open D)) (\<lambda>q.
     bnd (modify (\<lambda>s. s\<lparr>gc_socket := Some q\<rparr>)) (\<lambda>u.
     bnd (gw_read (gd_monotonic D)) (\<lambda>now.
     bnd (modify (\<lambda>s. s\<lparr>gc_last := now\<rparr>)) (\<lambda>u.
     bnd (receive_challenge D) (\<lambda>(ts, nonce).
     bnd (case ts of Some n \<Rightarrow> ret n | None \<Rightarrow> bnd (gw_read (gd_clock D)) (\<lambda>t. ret (truncated (t * 1000)))) (\<lambda>stamp.
     request_locked D no_handler ''connect'' (connect_params D stamp token nonce) (gd_connect_timeout D)))))))"

text \<open>\<open>_hello_payload\<close>, \<open>_extract_negotiated_auth\<close>, \<open>_extract_methods\<close>.\<close>

definition hello_payload :: "pydict \<Rightarrow> pydict" where
  "hello_payload p = (case as_dict (dget p ''hello'') of None \<Rightarrow> p | Some h \<Rightarrow> h)"

definition negotiated :: "pydict \<Rightarrow> string \<times> string list" where
  "negotiated hello =
     (let d = (case as_dict (dget hello ''auth'') of None \<Rightarrow> hello | Some a \<Rightarrow> a) in
      case por (dget d ''role'') (dget d ''negotiatedRole'') of
        PStr role \<Rightarrow>
          (role, case por (dget d ''scopes'') (dget d ''negotiatedScopes'') of
                   PList vs \<Rightarrow> if list_all (\<lambda>v. as_str v \<noteq> None) vs then List.map_filter as_str vs else []
                 | _ \<Rightarrow> [])
      | _ \<Rightarrow> ([], []))"

definition methods_in :: "pyval \<Rightarrow> string list option" where
  "methods_in v =
     (case v of
        PList vs \<Rightarrow> Some (List.map_filter as_str vs)
      | PDict d \<Rightarrow> Some (List.map_filter (\<lambda>(k, x). if truthy x then Some k else None) d)
      | _ \<Rightarrow> None)"

definition offered_methods :: "pydict \<Rightarrow> string list" where
  "offered_methods hello =
     (let nested = (\<lambda>k. case as_dict (dget hello k) of None \<Rightarrow> [] | Some d \<Rightarrow> [dget d ''methods'']) in
      case List.map_filter methods_in (dget hello ''methods'' # nested ''features'' @ nested ''snapshot'') of
        ms # _ \<Rightarrow> ms
      | [] \<Rightarrow> [])"

text \<open>What is negotiated must suffice, or the connection is given up.\<close>

definition refuse :: "'w gateway_deps \<Rightarrow> string \<Rightarrow> ('w gateway, 'a) op" where
  "refuse D m = bnd (disconnect D) (\<lambda>u. raise (contract_error m))"

definition admit_hello :: "'w gateway_deps \<Rightarrow> pydict \<Rightarrow> ('w gateway, pydict) op" where
  "admit_hello D hello =
     (if dget hello ''type'' \<noteq> PStr ''hello-ok'' then refuse D ''OpenClaw hello-ok was not returned'' else
      case negotiated hello of (role, scopes) \<Rightarrow>
      let offered = offered_methods hello; missing = filter (\<lambda>m. \<not> List.member offered m) required_methods in
      bnd (modify (\<lambda>s. s\<lparr>gc_role := role, gc_scopes := scopes, gc_methods := offered\<rparr>)) (\<lambda>u.
      if missing \<noteq> [] then refuse D (''OpenClaw required method is unavailable: '' @ hd missing)
      else if role \<noteq> ''operator'' then refuse D ''OpenClaw operator role was not negotiated''
      else if \<not> List.member scopes ''operator.admin'' \<and> \<not> List.member scopes ''operator.write''
        then refuse D ''OpenClaw operator.read/write scopes were not negotiated''
      else ret hello))"

definition held_hello :: "'w gateway \<Rightarrow> pydict" where
  "held_hello s = [(''type'', PStr ''hello-ok''), (''role'', PStr (gc_role s)), (''scopes'', str_list (gc_scopes s)),
     (''methods'', str_list (sort (remdups (gc_methods s))))]"

definition open_connection :: "'w gateway_deps \<Rightarrow> ('w gateway, pydict) op" where
  "open_connection D =
     bnd (gw_ask (gd_secret D)) (\<lambda>token.
     if token = [] then raise (AdapterError ''OpenClaw Gateway SecretRef resolved empty'') else
     bnd (attempt (handshake D token)) (\<lambda>r.
     case r of
       Inl e \<Rightarrow> bnd (disconnect D) (\<lambda>u. raise (if is_adapter_error e then e else TransportError ''OpenClaw Gateway connect failed''))
     | Inr p \<Rightarrow> admit_hello D (hello_payload p)))"

definition connect :: "'w gateway_deps \<Rightarrow> ('w gateway, pydict) op" where
  "connect D =
     bnd (gets gc_socket) (\<lambda>k.
     if k = None then open_connection D else
     bnd (is_stale D) (\<lambda>stale. if stale then bnd (disconnect D) (\<lambda>u. open_connection D) else gets held_hello))"

section \<open>Requests\<close>

fun retryable :: "exn \<Rightarrow> bool" where
  "retryable (TransportError m) = True"
| "retryable TimeoutError = True"
| "retryable e = False"

definition request_once ::
  "'w gateway_deps \<Rightarrow> (pydict \<Rightarrow> 'w \<Rightarrow> 'w) \<Rightarrow> string \<Rightarrow> pydict \<Rightarrow> rat \<Rightarrow> ('w gateway, pydict) op" where
  "request_once D h name params timeout =
     bnd (is_stale D) (\<lambda>stale.
     bnd (if stale then disconnect D else ret ()) (\<lambda>u.
     bnd (gets gc_socket) (\<lambda>k.
     bnd (if k = None then bnd (connect D) (\<lambda>hello. ret ()) else ret ()) (\<lambda>u.
     request_locked D h name params timeout))))"

text \<open>\<open>request\<close>: a transport failure is answered by one repetition of the same call on a fresh connection.\<close>

definition retry_with :: "'w gateway_deps \<Rightarrow> (exn \<Rightarrow> ('w gateway, 'a) op) \<Rightarrow> ('w gateway, 'a) op \<Rightarrow> ('w gateway, 'a) op" where
  "retry_with D f m =
     bnd (attempt m) (\<lambda>r. case r of Inr x \<Rightarrow> ret x | Inl e \<Rightarrow> if retryable e then bnd (disconnect D) (\<lambda>u. f e) else raise e)"

definition request ::
  "'w gateway_deps \<Rightarrow> (pydict \<Rightarrow> 'w \<Rightarrow> 'w) \<Rightarrow> string \<Rightarrow> pydict \<Rightarrow> rat \<Rightarrow> ('w gateway, pydict) op" where
  "request D h name params timeout =
     retry_with D
       (\<lambda>e. retry_with D (\<lambda>e. raise (if e = TimeoutError then TransportError ''OpenClaw Gateway transport failed'' else e))
          (request_once D h name params timeout))
       (request_once D h name params timeout)"

text \<open>A private client: the same device, a connection of its own, closed at the end.\<close>

definition fresh_client :: "'w \<Rightarrow> 'w gateway" where
  "fresh_client w = \<lparr>gc_socket = None, gc_last = 0, gc_methods = [], gc_role = [], gc_scopes = [], gc_beyond = w\<rparr>"

definition on_fresh :: "'w gateway_deps \<Rightarrow> ('w gateway, 'a) op \<Rightarrow> ('w gateway, 'a) op" where
  "on_fresh D m s =
     (case m (fresh_client (gc_beyond s)) of (r, c) \<Rightarrow> (r, s\<lparr>gc_beyond := gc_beyond (snd (disconnect D c))\<rparr>))"

definition request_fresh ::
  "'w gateway_deps \<Rightarrow> (pydict \<Rightarrow> 'w \<Rightarrow> 'w) \<Rightarrow> string \<Rightarrow> pydict \<Rightarrow> rat \<Rightarrow> ('w gateway, pydict) op" where
  "request_fresh D h name params timeout = on_fresh D (request D h name params timeout)"

definition request_on_owner :: "'w gateway_deps \<Rightarrow> string \<Rightarrow> pydict \<Rightarrow> rat \<Rightarrow> ('w gateway, pydict) op" where
  "request_on_owner D name params timeout =
     bnd (gets gc_socket) (\<lambda>k.
     if k = None then raise (TransportError ''OpenClaw Gateway owner connection is unavailable'')
     else request_locked D no_handler name params timeout)"

text \<open>The call that aborts a run, by the methods that are offered.\<close>

definition abort_call :: "string list \<Rightarrow> string \<Rightarrow> string \<Rightarrow> string \<Rightarrow> (string \<times> pydict) res" where
  "abort_call offered key run_id ag =
     (if List.member offered ''sessions.abort''
      then Inr (''sessions.abort'', [(''key'', PStr key), (''runId'', PStr run_id), (''agentId'', PStr ag)])
      else if List.member offered ''chat.abort''
      then Inr (''chat.abort'', [(''sessionKey'', PStr key), (''runId'', PStr run_id), (''agentId'', PStr ag)])
      else Inl (contract_error ''OpenClaw abort method is unavailable''))"

definition request_fresh_abort :: "'w gateway_deps \<Rightarrow> string \<Rightarrow> string \<Rightarrow> string \<Rightarrow> rat \<Rightarrow> ('w gateway, pydict) op" where
  "request_fresh_abort D key run_id ag timeout =
     on_fresh D
       (bnd (connect D) (\<lambda>hello.
        bnd (gets (\<lambda>s. abort_call (gc_methods s) key run_id ag)) (\<lambda>c.
        bnd (lift c) (\<lambda>(name, params). request_on_owner D name params timeout))))"

end
