(* ===== verification/OpenClawAdapter.thy ===== *)
theory OpenClawAdapter
  imports GatewayClient RunRegistry ValidationState
begin

text \<open>
  \<^verbatim>\<open>OpenClawAdapter\<close> of \<^verbatim>\<open>plachem_fast_gateway/openclaw_adapter.py\<close>, the transport of the engine: a run is prepared
  (a watermark of the session's history is stored), submitted once, waited for, judged by what the session says after
  the watermark, and cancelled. Its state is the two tables of the binding store, the trusted contexts, the store of
  validation inputs and the gateway client; the validator, the format recovery and the observer of output are the
  record \<open>adapter_deps\<close>. A call runs alone. The tables are the SQLite ones, with their unique columns.
\<close>

section \<open>The binding store\<close>

record stored_binding = run_binding +
  sb_key :: string
  sb_status :: status

record preparation =
  pp_core_run :: string
  pp_agent :: string
  pp_session_key :: string
  pp_key :: string
  pp_seq :: "int option"
  pp_message :: "string option"
  pp_captured :: int
  pp_empty :: bool

definition find_binding :: "string \<Rightarrow> stored_binding list \<Rightarrow> stored_binding option" where
  "find_binding i bs = find (\<lambda>b. bd_core_run b = i) bs"

definition find_preparation :: "string \<Rightarrow> preparation list \<Rightarrow> preparation option" where
  "find_preparation i ps = find (\<lambda>p. pp_core_run p = i) ps"

text \<open>\<open>SQLiteRunBindingStore.put\<close>: the run and the key of another row are refused, the row of the core run is replaced.\<close>

definition put_binding :: "stored_binding \<Rightarrow> stored_binding list \<Rightarrow> stored_binding list res" where
  "put_binding b bs =
     need (\<not> list_ex (\<lambda>x. bd_core_run x \<noteq> bd_core_run b \<and> (bd_openclaw_run x = bd_openclaw_run b \<or> sb_key x = sb_key b)) bs)
       (IdempotencyConflict ''run or idempotency binding conflicts'')
       (Inr (if find_binding (bd_core_run b) bs = None then bs @ [b] else map (\<lambda>x. if bd_core_run x = bd_core_run b then b else x) bs))"

definition put_preparation :: "preparation \<Rightarrow> preparation list \<Rightarrow> preparation list res" where
  "put_preparation p ps =
     (case find_preparation (pp_core_run p) ps of
        Some x \<Rightarrow> need (x = p) (IdempotencyConflict ''run preparation conflicts'') (Inr ps)
      | None \<Rightarrow> need (\<not> list_ex (\<lambda>x. pp_key x = pp_key p) ps) (IdempotencyConflict ''run preparation conflicts'') (Inr (ps @ [p])))"

text \<open>The stores of \<open>MemoryRunBindingStore\<close>, dictionaries by the core run.\<close>

definition memory_put :: "stored_binding \<Rightarrow> (string \<times> stored_binding) list \<Rightarrow> (string \<times> stored_binding) list" where
  "memory_put b m = AList.update (bd_core_run b) b m"

definition memory_prepare :: "preparation \<Rightarrow> (string \<times> preparation) list \<Rightarrow> (string \<times> preparation) list res" where
  "memory_prepare p m =
     need (case map_of m (pp_core_run p) of None \<Rightarrow> True | Some x \<Rightarrow> x = p) (IdempotencyConflict ''run preparation conflicts'')
       (need (\<not> list_ex (\<lambda>x. pp_key x = pp_key p \<and> pp_core_run x \<noteq> pp_core_run p) (map snd m))
          (IdempotencyConflict ''run preparation idempotency conflicts'') (Inr (AList.update (pp_core_run p) p m)))"

section \<open>State and collaborators\<close>

record validation =
  vd_status :: status
  vd_reason :: string
  vd_result :: "pydict option"

record 'w adapter =
  oa_bindings :: "stored_binding list"
  oa_prepared :: "preparation list"
  oa_contexts :: "(string \<times> pydict) list"
  oa_states :: validation_store
  oa_rpc :: "'w gateway"

record 'w adapter_deps =
  ad_gateway :: "'w gateway_deps"
  ad_validate :: "pydict \<Rightarrow> 'w \<Rightarrow> validation res \<times> 'w"
  ad_recover :: "(pydict \<Rightarrow> pydict \<Rightarrow> 'w \<Rightarrow> pydict option res \<times> 'w) option"
  ad_recover_agents :: "string list"
  ad_limit :: int
  ad_observe :: "run_binding \<Rightarrow> string \<Rightarrow> 'w \<Rightarrow> 'w"

definition on_rpc :: "('w gateway, 'a) op \<Rightarrow> ('w adapter, 'a) op" where
  "on_rpc m s = (case m (oa_rpc s) of (r, g) \<Rightarrow> (r, s\<lparr>oa_rpc := g\<rparr>))"

definition save_binding :: "stored_binding \<Rightarrow> ('w adapter, unit) op" where
  "save_binding b = bnd (gets (\<lambda>s. put_binding b (oa_bindings s))) (\<lambda>r. bnd (lift r) (\<lambda>bs. modify (\<lambda>s. s\<lparr>oa_bindings := bs\<rparr>)))"

definition save_preparation :: "preparation \<Rightarrow> ('w adapter, unit) op" where
  "save_preparation p = bnd (gets (\<lambda>s. put_preparation p (oa_prepared s))) (\<lambda>r. bnd (lift r) (\<lambda>ps. modify (\<lambda>s. s\<lparr>oa_prepared := ps\<rparr>)))"

definition save_state :: "'w adapter_deps \<Rightarrow> string \<Rightarrow> string \<Rightarrow> pydict \<Rightarrow> ('w adapter, unit) op" where
  "save_state D i kind d s = (case put_state (gd_std (ad_gateway D)) i kind (PDict d) (oa_states s) of (r, m) \<Rightarrow> (r, s\<lparr>oa_states := m\<rparr>))"

definition read_state :: "'w adapter_deps \<Rightarrow> string \<Rightarrow> string \<Rightarrow> ('w adapter, pydict option) op" where
  "read_state D i kind s = (get_state (gd_loads (ad_gateway D)) (gd_std (ad_gateway D)) i kind (oa_states s), s)"

text \<open>\<open>_set_status\<close>.\<close>

definition set_status :: "stored_binding \<Rightarrow> status \<Rightarrow> ('w adapter, stored_binding) op" where
  "set_status b st = bnd (save_binding (b\<lparr>sb_status := st\<rparr>)) (\<lambda>u. ret (b\<lparr>sb_status := st\<rparr>))"

section \<open>Task contracts\<close>

text \<open>\<open>profiled\<close> and \<open>contract_from_message\<close> of \<^verbatim>\<open>war_room_task_contract.py\<close>. A number equals 2 whatever its type; an
  unhashable profile raises.\<close>

definition profiles :: "string list" where
  "profiles = [''ACKNOWLEDGEMENT'', ''READ_ONLY'', ''CODE_CHANGE'']"

definition profiled :: "pydict \<Rightarrow> bool res" where
  "profiled packet = (if as_num (dget packet ''contract_version'') = Some 2 then in_names (dget packet ''task_profile'') profiles else Inr False)"

definition line :: "string \<Rightarrow> string" where
  "line s = CHR 0x0A # s @ [CHR 0x0A]"

definition contract_from_message :: "(string \<Rightarrow> pyval option) \<Rightarrow> string \<Rightarrow> pydict res" where
  "contract_from_message loads message =
     (if \<not> starts_with message (''[FAST_GATEWAY_RESULT]'' @ [CHR 0x0A]) then Inr [] else
      (case (case split_once (line ''[IMMUTABLE_GROUNDING_PACKET]'') message of
               None \<Rightarrow> None | Some (a, b) \<Rightarrow> split_once (line ''[ORIGINAL_INSTRUCTION_CONTEXT]'') b) of
         None \<Rightarrow> Inr []
       | Some (raw, rest) \<Rightarrow> (case Option.bind (loads raw) as_dict of
           None \<Rightarrow> Inr []
         | Some packet \<Rightarrow> rbind (profiled packet) (\<lambda>ok. Inr (if ok then packet else [])))))"

section \<open>Submitting\<close>

definition allowed_fields :: "string list" where
  "allowed_fields = [''message'', ''agentId'', ''idempotencyKey'', ''timeout'', ''sessionKey'', ''_trustedValidationContext'']"

definition forbidden_fields :: "string list" where
  "forbidden_fields = [''model'', ''provider'', ''endpoint'', ''base_url'', ''baseUrl'', ''credential'', ''credentials'', ''token'', ''api_key'',
     ''apiKey'', ''workspace'', ''workspace_id'', ''workspaceId'', ''cwd'', ''sessionId'', ''delivery'', ''channel'', ''accountId'']"

definition agent_ok :: "string \<Rightarrow> bool" where
  "agent_ok a \<longleftrightarrow> a \<noteq> [] \<and> length a \<le> 128 \<and> (is_lower (hd a) \<or> is_digit (hd a)) \<and>
     list_all (\<lambda>c. is_lower c \<or> is_digit c \<or> c = CHR ''_'' \<or> c = CHR ''-'') a"

definition check_agent :: "pyval \<Rightarrow> string res" where
  "check_agent v = (case v of PStr a \<Rightarrow> need (agent_ok a) (contract_error ''INVALID_AGENT_ID'') (Inr a) | _ \<Rightarrow> Inl (contract_error ''INVALID_AGENT_ID''))"

definition check_session :: "pyval \<Rightarrow> string \<Rightarrow> string res" where
  "check_session v ag =
     (case v of
        PStr k \<Rightarrow>
          need (k \<noteq> []) (SessionBindingError ''OpenClaw sessionKey is missing'')
            (need (starts_with k (''agent:'' @ ag @ '':'')) (SessionBindingError ''OpenClaw sessionKey does not match agentId'') (Inr k))
      | _ \<Rightarrow> Inl (SessionBindingError ''OpenClaw sessionKey is missing''))"

definition first_of :: "string list \<Rightarrow> string option" where
  "first_of ks = (case sort ks of [] \<Rightarrow> None | k # _ \<Rightarrow> Some k)"

definition named_unless :: "string \<Rightarrow> string list \<Rightarrow> 'a res \<Rightarrow> 'a res" where
  "named_unless m ks r = (case first_of ks of None \<Rightarrow> r | Some k \<Rightarrow> Inl (contract_error (m @ k)))"

record submit_fields =
  sf_agent :: string
  sf_key :: string
  sf_message :: string
  sf_timeout :: rat

text \<open>\<open>_validate_submit\<close>; what it returns is the payload itself, the fields are what later steps read of it.\<close>

definition validate_submit :: "pydict \<Rightarrow> submit_fields res" where
  "validate_submit p =
     (let keys = map fst p in
      named_unless ''FORBIDDEN_RUNTIME_FIELD:'' (filter (List.member forbidden_fields) keys)
     (named_unless ''UNKNOWN_SUBMIT_FIELD:'' (filter (\<lambda>k. \<not> List.member allowed_fields k) keys)
     (named_unless ''MISSING_SUBMIT_FIELD:'' (filter (\<lambda>k. \<not> List.member keys k) [''message'', ''agentId'', ''idempotencyKey'', ''timeout''])
     (case as_str (dget p ''message'') of
        None \<Rightarrow> Inl (contract_error ''message must be a non-empty string'')
      | Some m \<Rightarrow> need (\<not> blank m) (contract_error ''message must be a non-empty string'')
     (case as_str (dget p ''idempotencyKey'') of
        None \<Rightarrow> Inl (contract_error ''idempotencyKey is invalid'')
      | Some k \<Rightarrow> need (k \<noteq> [] \<and> length k \<le> 256) (contract_error ''idempotencyKey is invalid'')
     (case as_num (dget p ''timeout'') of
        None \<Rightarrow> Inl (contract_error ''timeout must be positive'')
      | Some t \<Rightarrow> need (0 < t) (contract_error ''timeout must be positive'')
     (rbind (check_agent (dget p ''agentId'')) (\<lambda>a.
      rbind (if List.member keys ''sessionKey'' then check_session (dget p ''sessionKey'') a else Inr []) (\<lambda>k'.
      Inr \<lparr>sf_agent = a, sf_key = k, sf_message = m, sf_timeout = t\<rparr>)))))))))"

text \<open>The approved paths of the trusted context.\<close>

definition approved_paths_of :: "pydict \<Rightarrow> pyval list res" where
  "approved_paths_of p =
     (case as_dict (dget_or p ''_trustedValidationContext'' (PDict [])) of
        None \<Rightarrow> Inl (contract_error ''INVALID_TRUSTED_VALIDATION_CONTEXT'')
      | Some c \<Rightarrow> (case as_list (dget_or c ''approved_paths'' (PList [])) of
          None \<Rightarrow> Inl (contract_error ''INVALID_TRUSTED_VALIDATION_CONTEXT'')
        | Some vs \<Rightarrow>
            need (list_all (\<lambda>v. case as_str v of None \<Rightarrow> False | Some x \<Rightarrow> x \<noteq> []) vs) (contract_error ''INVALID_TRUSTED_VALIDATION_CONTEXT'') (Inr vs)))"

text \<open>\<open>_message_cursor\<close> and \<open>_capture_watermark\<close>.\<close>

definition id_text :: "pyval \<Rightarrow> string option" where
  "id_text v = (case as_str v of None \<Rightarrow> None | Some t \<Rightarrow> if t = [] then None else Some t)"

definition message_cursor :: "pydict \<Rightarrow> int option \<times> string option" where
  "message_cursor m =
     (let meta = as_dict (dget m ''__openclaw''); field = (\<lambda>k. case meta of None \<Rightarrow> PNone | Some d \<Rightarrow> dget d k) in
      (as_int (field ''seq''),
       case id_text (field ''id'') of Some t \<Rightarrow> Some t | None \<Rightarrow> id_text (por (dget m ''id'') (dget m ''messageId''))))"

definition assistant :: "pyval \<Rightarrow> bool" where
  "assistant v = (case as_dict v of None \<Rightarrow> False | Some m \<Rightarrow> dget m ''role'' = PStr ''assistant'')"

definition unverifiable :: exn where
  "unverifiable = contract_error ''HISTORY_WATERMARK_UNVERIFIABLE''"

definition capture_watermark :: "pydict \<Rightarrow> (int option \<times> string option \<times> bool) res" where
  "capture_watermark history =
     (case as_list (dget history ''messages'') of
        None \<Rightarrow> Inl unverifiable
      | Some vs \<Rightarrow> (case find_last assistant vs of
          Some (PDict m) \<Rightarrow> (case message_cursor m of (n, t) \<Rightarrow> Inr (n, t, False))
        | _ \<Rightarrow> Inr (None, None, True)))"

definition history_params :: "string \<Rightarrow> int \<Rightarrow> pydict" where
  "history_params key n = [(''sessionKey'', PStr key), (''limit'', PInt n)]"

text \<open>\<open>_resolve_session_id\<close>: any failure only leaves the identifier open.\<close>

definition resolve_session :: "'w adapter_deps \<Rightarrow> string \<Rightarrow> ('w adapter, string option) op" where
  "resolve_session D key =
     bnd (gets (\<lambda>s. List.member (gc_methods (oa_rpc s)) ''sessions.describe'')) (\<lambda>there.
     if \<not> there then ret None else
     bnd (attempt (on_rpc (request_fresh (ad_gateway D) no_handler ''sessions.describe''
            [(''key'', PStr key), (''includeDerivedTitles'', PBool False), (''includeLastMessage'', PBool False)] 15))) (\<lambda>r.
     case r of
       Inl e \<Rightarrow> ret None
     | Inr d \<Rightarrow> ret (case as_dict (dget d ''session'') of None \<Rightarrow> None | Some x \<Rightarrow> id_text (dget x ''sessionId''))))"

text \<open>The watermark is stored before the run is submitted; a preparation that is there is used again.\<close>

definition prepare :: "'w adapter_deps \<Rightarrow> string \<Rightarrow> submit_fields \<Rightarrow> string \<Rightarrow> ('w adapter, preparation) op" where
  "prepare D i f key =
     bnd (gets (\<lambda>s. find_preparation i (oa_prepared s))) (\<lambda>p.
     case p of
       Some q \<Rightarrow>
         if pp_agent q \<noteq> sf_agent f \<or> pp_session_key q \<noteq> key \<or> pp_key q \<noteq> sf_key f
         then raise (IdempotencyConflict ''core run preparation does not match retry'') else ret q
     | None \<Rightarrow>
         bnd (on_rpc (request (ad_gateway D) no_handler ''chat.history'' (history_params key (ad_limit D)) 15)) (\<lambda>history.
         bnd (lift (capture_watermark history)) (\<lambda>(n, t, none).
         bnd (on_rpc (gw_read (gd_clock (ad_gateway D)))) (\<lambda>now.
         let q = \<lparr>pp_core_run = i, pp_agent = sf_agent f, pp_session_key = key, pp_key = sf_key f, pp_seq = n, pp_message = t,
                  pp_captured = truncated (now * 1000), pp_empty = none\<rparr>
         in bnd (save_preparation q) (\<lambda>u. ret q)))))"

text \<open>What the gateway answers to the submission.\<close>

definition accepted_run :: "std \<Rightarrow> pydict \<Rightarrow> string \<Rightarrow> string \<Rightarrow> (string \<times> string option) res" where
  "accepted_run S response ag key =
     need (List.member [''accepted'', ''in_flight'', ''ok''] (text_or S (dget response ''status'')))
       (contract_error ''OpenClaw did not accept the agent run'')
       (case id_text (dget response ''runId'') of
          None \<Rightarrow> Inl (contract_error ''OpenClaw runId is missing'')
        | Some r \<Rightarrow> rbind (check_session (dget response ''sessionKey'') ag) (\<lambda>k.
            need (k = key) (SessionBindingError ''OpenClaw response sessionKey does not match preparation'')
              (case dget response ''sessionId'' of
                 PNone \<Rightarrow> Inr (r, None)
               | PStr t \<Rightarrow> Inr (r, Some t)
               | _ \<Rightarrow> Inl (contract_error ''OpenClaw sessionId is invalid''))))"

definition launch :: "'w adapter_deps \<Rightarrow> string \<Rightarrow> pydict \<Rightarrow> submit_fields \<Rightarrow> string \<Rightarrow> ('w adapter, stored_binding) op" where
  "launch D i params f key =
     bnd (prepare D i f key) (\<lambda>q.
     bnd (on_rpc (request (ad_gateway D) no_handler ''agent'' params (sf_timeout f + 5))) (\<lambda>response.
     bnd (lift (accepted_run (gd_std (ad_gateway D)) response (sf_agent f) (pp_session_key q))) (\<lambda>(r, sid).
     bnd (case sid of Some t \<Rightarrow> ret (Some t) | None \<Rightarrow> resolve_session D key) (\<lambda>found.
     let b = \<lparr>bd_core_run = i, bd_openclaw_run = r, bd_agent = sf_agent f, bd_session_key = key, bd_session_id = found,
              sb_key = sf_key f, sb_status = RUNNING\<rparr>
     in bnd (save_binding b) (\<lambda>u. ret b)))))"

text \<open>The trusted context is kept, in memory and in the store of validation inputs.\<close>

definition trusted_context :: "'w adapter_deps \<Rightarrow> string \<Rightarrow> pyval list \<Rightarrow> string \<Rightarrow> ('w adapter, unit) op" where
  "trusted_context D i paths message =
     bnd (modify (\<lambda>s. s\<lparr>oa_contexts := AList.update i [(''approved_paths'', PList paths)] (oa_contexts s)\<rparr>)) (\<lambda>u.
     bnd (lift (contract_from_message (gd_loads (ad_gateway D)) message)) (\<lambda>contract.
     let context = (''approved_paths'', PList paths) #
           (if contract = [] then [] else [(''war_room_task_profile'', dget contract ''task_profile'')]) in
     bnd (modify (\<lambda>s. s\<lparr>oa_contexts := AList.update i context (oa_contexts s)\<rparr>)) (\<lambda>u.
     save_state D i ''context'' context)))"

text \<open>A core run that is bound already.\<close>

definition resubmitted :: "stored_binding \<Rightarrow> submit_fields \<Rightarrow> string \<Rightarrow> stored_binding res" where
  "resubmitted b f k =
     need (bd_agent b = sf_agent f \<and> sb_key b = sf_key f) (IdempotencyConflict ''core run binding does not match retry'')
       (need (k = bd_session_key b) (SessionBindingError ''core run sessionKey does not match retry binding'') (Inr b))"

definition submit :: "'w adapter_deps \<Rightarrow> string \<Rightarrow> pydict \<Rightarrow> ('w adapter, stored_binding) op" where
  "submit D i p =
     (if i = [] then raise (contract_error ''core_run_id is required'') else
      bnd (lift (validate_submit p)) (\<lambda>f.
      bnd (lift (approved_paths_of p)) (\<lambda>paths.
      bnd (trusted_context D i paths (sf_message f)) (\<lambda>u.
      let requested = dget p ''sessionKey'';
          key = (if truthy requested then requested else PStr (''agent:'' @ sf_agent f @ '':fast-gateway-'' @ i)) in
      bnd (lift (check_session key (sf_agent f))) (\<lambda>k.
      let params = AList.update ''sessionKey'' (PStr k) (AList.delete ''_trustedValidationContext'' p) in
      bnd (gets (\<lambda>s. find_binding i (oa_bindings s))) (\<lambda>known.
      case known of
        Some b \<Rightarrow> lift (resubmitted b f k)
      | None \<Rightarrow> launch D i params f k))))))"

section \<open>Bindings and events\<close>

text \<open>\<open>_require_binding\<close>.\<close>

definition require_binding :: "string \<Rightarrow> ('w adapter, stored_binding) op" where
  "require_binding i =
     bnd (gets (\<lambda>s. find_binding i (oa_bindings s))) (\<lambda>known.
     case known of
       None \<Rightarrow> raise (SessionBindingError ''UNKNOWN_CORE_RUN'')
     | Some b \<Rightarrow>
         bnd (lift (check_agent (PStr (bd_agent b)))) (\<lambda>a.
         bnd (lift (check_session (PStr (bd_session_key b)) (bd_agent b))) (\<lambda>k. ret b)))"

text \<open>\<open>_observe_agent_event\<close>: only text of this very run goes to the observer.\<close>

definition event_delta :: "stored_binding \<Rightarrow> pydict \<Rightarrow> string option" where
  "event_delta b frame =
     (if dget frame ''event'' \<noteq> PStr ''agent'' then None
      else (case as_dict (dget frame ''payload'') of
          None \<Rightarrow> None
        | Some p \<Rightarrow>
            if dget p ''runId'' = PStr (bd_openclaw_run b) \<and> dget p ''sessionKey'' = PStr (bd_session_key b) \<and> dget p ''agentId'' = PStr (bd_agent b) \<and>
               as_int (dget p ''seq'') \<noteq> None \<and> dget p ''stream'' = PStr ''assistant'' \<and>
               (real_of (dget p ''ts'') \<noteq> None \<or> as_str (dget p ''ts'') \<noteq> None)
            then (case as_dict (dget p ''data'') of None \<Rightarrow> None | Some d \<Rightarrow> id_text (dget d ''delta''))
            else None))"

definition observe_event :: "'w adapter_deps \<Rightarrow> stored_binding \<Rightarrow> pydict \<Rightarrow> 'w \<Rightarrow> 'w" where
  "observe_event D b frame w = (case event_delta b frame of None \<Rightarrow> w | Some t \<Rightarrow> ad_observe D (run_binding.truncate b) t w)"

section \<open>What a session said after the watermark\<close>

definition at_mark :: "preparation \<Rightarrow> pyval \<Rightarrow> bool" where
  "at_mark q v =
     (case as_dict v of
        None \<Rightarrow> False
      | Some m \<Rightarrow> (case message_cursor m of (n, t) \<Rightarrow>
          (case pp_seq q of
             Some k \<Rightarrow> n = Some k \<and> (pp_message q = None \<or> t = pp_message q)
           | None \<Rightarrow> pp_message q \<noteq> None \<and> t = pp_message q)))"

definition behind_mark :: "preparation \<Rightarrow> pyval list \<Rightarrow> pyval list option" where
  "behind_mark q vs = (if pp_empty q then Some vs else (case dropWhile (\<lambda>v. \<not> at_mark q v) vs of [] \<Rightarrow> None | v # rest \<Rightarrow> Some rest))"

text \<open>\<open>_history_after_watermark\<close>.\<close>

definition history_after :: "preparation \<Rightarrow> pydict \<Rightarrow> pydict res" where
  "history_after q history =
     (case as_list (dget history ''messages'') of
        None \<Rightarrow> Inl unverifiable
      | Some vs \<Rightarrow> (case behind_mark q vs of
          None \<Rightarrow> Inl unverifiable
        | Some new \<Rightarrow> need (list_ex assistant new) (contract_error ''MISSING_POST_SUBMIT_RESULT'') (Inr (AList.update ''messages'' (PList new) history))))"

text \<open>\<open>_terminal_assistant_text\<close>.\<close>

fun block_text :: "pyval \<Rightarrow> string" where
  "block_text (PStr t) = t"
| "block_text (PDict d) = (case dget d ''text'' of PStr t \<Rightarrow> t | _ \<Rightarrow> [])"
| "block_text v = []"

definition spoken :: "pyval \<Rightarrow> string option" where
  "spoken v =
     (if \<not> assistant v then None
      else (let t = (case dget (dict_or_empty v) ''content'' of PStr t \<Rightarrow> t | PList vs \<Rightarrow> concat (map block_text vs) | _ \<Rightarrow> [])
            in if blank t then None else Some t))"

definition terminal_text :: "pydict \<Rightarrow> string option" where
  "terminal_text history =
     (case as_list (dget history ''messages'') of
        None \<Rightarrow> None
      | Some vs \<Rightarrow> (case List.map_filter spoken (rev vs) of [] \<Rightarrow> None | t # _ \<Rightarrow> Some t))"

section \<open>Judging a result\<close>

definition rejecting :: "string \<Rightarrow> bool" where
  "rejecting why \<longleftrightarrow> contains why ''_VALIDATION_FAILED:'' \<or> ends_with why ''_VALIDATION_ERROR''"

definition format_failure :: "string \<Rightarrow> bool" where
  "format_failure why \<longleftrightarrow> why = ''MISSING_RESULT'' \<or> starts_with why ''RESULT_SCHEMA_VALIDATION_FAILED:''"

definition decide :: "'w adapter_deps \<Rightarrow> pydict \<Rightarrow> ('w adapter, validation) op" where
  "decide D payload = on_rpc (gw_ask (ad_validate D payload))"

text \<open>One attempt to repair the format: the decision that counts, the result shown to the operators, the reason why not.\<close>

definition recover_format ::
  "'w adapter_deps \<Rightarrow> (pydict \<Rightarrow> pydict \<Rightarrow> 'w \<Rightarrow> pydict option res \<times> 'w) \<Rightarrow> pydict \<Rightarrow> pydict \<Rightarrow> validation \<Rightarrow>
   ('w adapter, validation \<times> pydict option \<times> string) op" where
  "recover_format D f payload observed d =
     bnd (attempt (on_rpc (gw_ask (f payload observed)))) (\<lambda>r.
     case r of
       Inl e \<Rightarrow> ret (d, vd_result d, ''RECOVERY_ERROR'')
     | Inr None \<Rightarrow> ret (d, vd_result d, ''RECOVERY_UNAVAILABLE'')
     | Inr (Some p) \<Rightarrow>
         bnd (decide D p) (\<lambda>again.
         let shown = (case vd_result again of None \<Rightarrow> vd_result d | Some x \<Rightarrow> Some x) in
         if vd_result again \<noteq> None \<and> \<not> rejecting (vd_reason again) then ret (again, shown, [])
         else ret (d, shown, if vd_reason again = [] then ''RECOVERY_VALIDATION_FAILED'' else vd_reason again)))"

definition observed_run :: "string \<Rightarrow> stored_binding \<Rightarrow> pydict" where
  "observed_run i b = [(''core_run_id'', PStr i), (''openclaw_run_id'', PStr (bd_openclaw_run b)), (''agent_id'', PStr (bd_agent b)),
     (''session_key'', PStr (bd_session_key b)), (''terminal_status'', PStr ''ok'')]"

definition judged_outcome :: "string option \<Rightarrow> validation \<Rightarrow> pydict option \<Rightarrow> string \<Rightarrow> int \<Rightarrow> string \<Rightarrow> adapter_outcome" where
  "judged_outcome raw d shown format_error attempts rejection =
     (let refused = (vd_reason d = ''MISSING_RESULT'' \<or> rejecting (vd_reason d)) in
      \<lparr>oc_status = vd_status d, oc_reason = vd_reason d, oc_result = (if refused then None else vd_result d), oc_format_error = format_error,
       oc_format_attempts = attempts, oc_format_rejection = rejection, oc_raw = raw, oc_rejected = (if refused then shown else None)\<rparr>)"

definition judge_result :: "'w adapter_deps \<Rightarrow> string \<Rightarrow> stored_binding \<Rightarrow> pydict \<Rightarrow> string option \<Rightarrow> ('w adapter, adapter_outcome) op" where
  "judge_result D i b payload raw =
     bnd (decide D payload) (\<lambda>d.
     case ad_recover D of
       Some f \<Rightarrow>
         if List.member (ad_recover_agents D) (bd_agent b) \<and> format_failure (vd_reason d)
         then bnd (recover_format D f payload (observed_run i b) d) (\<lambda>(d', shown, rejection).
              ret (judged_outcome raw d' shown ''RESULT_FORMAT_ERROR'' 1 rejection))
         else ret (judged_outcome raw d (vd_result d) [] 0 [])
     | None \<Rightarrow> ret (judged_outcome raw d (vd_result d) [] 0 []))"

text \<open>\<open>asdict(outcome)\<close>, and what is read back of it.\<close>

definition opt_value :: "('a \<Rightarrow> pyval) \<Rightarrow> 'a option \<Rightarrow> pyval" where
  "opt_value f x = (case x of None \<Rightarrow> PNone | Some y \<Rightarrow> f y)"

definition outcome_dict :: "adapter_outcome \<Rightarrow> pydict" where
  "outcome_dict x =
     [(''status'', PStr (status_value (oc_status x))), (''reason'', PStr (oc_reason x)), (''result'', opt_value PDict (oc_result x)),
      (''format_error'', PStr (oc_format_error x)), (''format_recovery_attempts'', PInt (oc_format_attempts x)),
      (''format_recovery_rejection'', PStr (oc_format_rejection x)), (''raw_response'', opt_value PStr (oc_raw x)),
      (''rejected_result'', opt_value PDict (oc_rejected x))]"

definition field_text :: "pydict \<Rightarrow> string \<Rightarrow> string" where
  "field_text d k = (case as_str (dget d k) of None \<Rightarrow> [] | Some t \<Rightarrow> t)"

definition saved_outcome :: "status \<Rightarrow> pydict \<Rightarrow> adapter_outcome" where
  "saved_outcome st d =
     \<lparr>oc_status = st, oc_reason = field_text d ''reason'', oc_result = as_dict (dget d ''result''), oc_format_error = field_text d ''format_error'',
      oc_format_attempts = (case as_int (dget d ''format_recovery_attempts'') of None \<Rightarrow> 0 | Some n \<Rightarrow> n),
      oc_format_rejection = field_text d ''format_recovery_rejection'', oc_raw = as_str (dget d ''raw_response''),
      oc_rejected = as_dict (dget d ''rejected_result'')\<rparr>"

section \<open>Waiting\<close>

text \<open>\<open>{**d, **e}\<close>.\<close>

definition merged :: "pydict \<Rightarrow> pydict \<Rightarrow> pydict" where
  "merged d e = fold (\<lambda>(k, v). AList.update k v) e d"

definition context_of :: "'w adapter_deps \<Rightarrow> string \<Rightarrow> ('w adapter, pydict) op" where
  "context_of D i =
     bnd (read_state D i ''context'') (\<lambda>c.
     bnd (gets (\<lambda>s. case map_of (oa_contexts s) i of None \<Rightarrow> [] | Some d \<Rightarrow> d)) (\<lambda>mem.
     ret (case c of None \<Rightarrow> mem | Some d \<Rightarrow> if d = [] then mem else d)))"

text \<open>What \<open>agent.wait\<close> says of results is dropped; the history behind the watermark takes its place.\<close>

definition control_part :: "pydict \<Rightarrow> pydict" where
  "control_part response = filter (\<lambda>(k, v). k \<notin> {''result'', ''evidence'', ''artifacts'', ''messages'', ''history''}) response"

definition bound_identity :: "stored_binding \<Rightarrow> pydict" where
  "bound_identity b = [(''core_run_id'', PStr (bd_core_run b)), (''openclaw_run_id'', PStr (bd_openclaw_run b)), (''session_key'', PStr (bd_session_key b))]"

definition ended :: "stored_binding \<Rightarrow> status \<Rightarrow> string \<Rightarrow> ('w adapter, adapter_outcome) op" where
  "ended b st why = bnd (set_status b st) (\<lambda>u. ret (plain_outcome st why))"

definition collect_result :: "'w adapter_deps \<Rightarrow> string \<Rightarrow> stored_binding \<Rightarrow> pydict \<Rightarrow> pydict \<Rightarrow> ('w adapter, adapter_outcome) op" where
  "collect_result D i b response history =
     bnd (context_of D i) (\<lambda>context.
     let payload = merged (merged (control_part response) context) [(''history'', PDict history)]; raw = terminal_text history in
     bnd (if raw = None then ret () else save_state D i ''result_input'' [(''binding'', PDict (bound_identity b)), (''envelope'', PDict payload)]) (\<lambda>u.
     bnd (judge_result D i b payload raw) (\<lambda>x.
     bnd (save_state D i ''outcome'' (outcome_dict x)) (\<lambda>u.
     bnd (set_status b (oc_status x)) (\<lambda>u. ret x)))))"

definition finished_run_result :: "'w adapter_deps \<Rightarrow> string \<Rightarrow> stored_binding \<Rightarrow> pydict \<Rightarrow> rat \<Rightarrow> ('w adapter, adapter_outcome) op" where
  "finished_run_result D i b response timeout =
     bnd (on_rpc (request_fresh (ad_gateway D) no_handler ''chat.history'' (history_params (bd_session_key b) (ad_limit D)) (min (timeout + 5) 30))) (\<lambda>history.
     bnd (gets (\<lambda>s. find_preparation i (oa_prepared s))) (\<lambda>p.
     case p of
       None \<Rightarrow> ended b FAIL ''HISTORY_WATERMARK_UNVERIFIABLE''
     | Some q \<Rightarrow> (case history_after q history of
         Inl e \<Rightarrow> ended b FAIL (exn_text e)
       | Inr new \<Rightarrow> collect_result D i b response new)))"

text \<open>\<open>_session_run_is_active\<close>.\<close>

definition session_active :: "'w adapter_deps \<Rightarrow> stored_binding \<Rightarrow> ('w adapter, bool option) op" where
  "session_active D b =
     bnd (attempt (on_rpc (request_fresh (ad_gateway D) no_handler ''chat.history'' (history_params (bd_session_key b) 1) 15))) (\<lambda>r.
     ret (case r of
            Inl e \<Rightarrow> None
          | Inr history \<Rightarrow> (case as_dict (dget history ''sessionInfo'') of
              None \<Rightarrow> None
            | Some d \<Rightarrow>
                if dget d ''hasActiveRun'' = PBool True then Some True
                else (case as_list (dget d ''activeRunIds'') of
                    Some ids \<Rightarrow> Some (List.member ids (PStr (bd_openclaw_run b)))
                  | None \<Rightarrow> if dget d ''hasActiveRun'' = PBool False then Some False else None))))"

definition wait_params :: "stored_binding \<Rightarrow> rat \<Rightarrow> pydict" where
  "wait_params b timeout = [(''runId'', PStr (bd_openclaw_run b)), (''timeoutMs'', PInt (max 1 (truncated (timeout * 1000))))]"

definition judge_answer :: "'w adapter_deps \<Rightarrow> string \<Rightarrow> stored_binding \<Rightarrow> pydict \<Rightarrow> rat \<Rightarrow> ('w adapter, adapter_outcome) op" where
  "judge_answer D i b response timeout =
     (let S = gd_std (ad_gateway D); observed = text_or S (dget response ''status'') in
      if dget response ''runId'' \<noteq> PNone \<and> dget response ''runId'' \<noteq> PStr (bd_openclaw_run b) then ended b FAIL ''OPENCLAW_RUN_MISMATCH''
      else if List.member [''pending'', ''accepted'', ''in_flight''] observed then ended b RUNNING ''RUN_STILL_ACTIVE''
      else if observed = ''timeout'' then
        bnd (session_active D b) (\<lambda>active.
        if active = Some False then ended b TIMEOUT ''OPENCLAW_TERMINAL_TIMEOUT'' else ret (plain_outcome TIMEOUT ''OPENCLAW_TIMEOUT''))
      else if observed = ''error'' then
        (if lower (text_or S (dget response ''error'')) = ''aborted'' then ended b CANCELLED ''OPENCLAW_ABORTED'' else ended b FAIL ''OPENCLAW_ERROR'')
      else if observed \<noteq> ''ok'' then ended b FAIL ''UNKNOWN_OPENCLAW_STATUS''
      else finished_run_result D i b response timeout)"

definition known_outcome :: "'w adapter_deps \<Rightarrow> string \<Rightarrow> stored_binding \<Rightarrow> ('w adapter, adapter_outcome) op" where
  "known_outcome D i b =
     bnd (read_state D i ''outcome'') (\<lambda>saved.
     ret (case saved of
            Some d \<Rightarrow> if dget d ''status'' = PStr (status_value (sb_status b)) then saved_outcome (sb_status b) d
                        else plain_outcome (sb_status b) (status_value (sb_status b))
          | None \<Rightarrow> plain_outcome (sb_status b) (status_value (sb_status b))))"

definition wait_run :: "'w adapter_deps \<Rightarrow> string \<Rightarrow> rat \<Rightarrow> ('w adapter, adapter_outcome) op" where
  "wait_run D i timeout =
     bnd (require_binding i) (\<lambda>b.
     if terminal (sb_status b) then known_outcome D i b else
     bnd (on_rpc (request_fresh (ad_gateway D) (observe_event D b) ''agent.wait'' (wait_params b timeout) (timeout + 5))) (\<lambda>response.
     judge_answer D i b response timeout))"

text \<open>\<open>revalidate_result\<close>: the saved input is judged again, and nothing is written.\<close>

definition names_run :: "pydict \<Rightarrow> stored_binding \<Rightarrow> bool" where
  "names_run d b \<longleftrightarrow> set (map fst d) = set (map fst (bound_identity b)) \<and> list_all (\<lambda>(k, v). dget d k = v) (bound_identity b)"

definition revalidate :: "'w adapter_deps \<Rightarrow> string \<Rightarrow> ('w adapter, adapter_outcome) op" where
  "revalidate D i =
     bnd (require_binding i) (\<lambda>b.
     bnd (read_state D i ''result_input'') (\<lambda>snap.
     case snap of
       None \<Rightarrow> raise (ValueError ''RESULT_SNAPSHOT_UNAVAILABLE'')
     | Some d \<Rightarrow>
         if \<not> (case as_dict (dget d ''binding'') of None \<Rightarrow> False | Some x \<Rightarrow> names_run x b) then raise (ValueError ''RESULT_SNAPSHOT_IDENTITY_MISMATCH'')
         else (case as_dict (dget d ''envelope'') of
             None \<Rightarrow> raise (KeyError ''envelope'')
           | Some env \<Rightarrow> bnd (decide D env) (\<lambda>v.
               ret ((plain_outcome (vd_status v) (vd_reason v))\<lparr>oc_result := vd_result v, oc_raw := terminal_text (dict_or_empty (dget env ''history''))\<rparr>)))))"

section \<open>Cancelling\<close>

definition abort_run :: "'w adapter_deps \<Rightarrow> stored_binding \<Rightarrow> ('w adapter, pydict) op" where
  "abort_run D b =
     (let fresh = on_rpc (request_fresh_abort (ad_gateway D) (bd_session_key b) (bd_openclaw_run b) (bd_agent b) 15) in
      if bd_session_key b = [] \<or> bd_openclaw_run b = [] \<or> bd_agent b = [] then raise (contract_error ''invalid abort binding'') else
      bnd (gets (\<lambda>s. (gc_socket (oa_rpc s), abort_call (gc_methods (oa_rpc s)) (bd_session_key b) (bd_openclaw_run b) (bd_agent b)))) (\<lambda>(k, c).
      if k = None then fresh else
      bnd (lift c) (\<lambda>(name, params).
      bnd (attempt (on_rpc (request_on_owner (ad_gateway D) name params 15))) (\<lambda>r.
      case r of
        Inr d \<Rightarrow> ret d
      | Inl e \<Rightarrow> if retryable e then bnd (on_rpc (disconnect (ad_gateway D))) (\<lambda>u. fresh) else raise e))))"

definition finished_codes :: "string list" where
  "finished_codes = [''RUN_NOT_FOUND'', ''ALREADY_FINISHED'', ''RUN_ALREADY_FINISHED'', ''NO_ACTIVE_RUN'']"

fun already_finished :: "exn \<Rightarrow> bool" where
  "already_finished (GatewayContractError m (Some c)) = List.member finished_codes c"
| "already_finished e = False"

definition abort_confirmed :: "pydict \<Rightarrow> string \<Rightarrow> bool res" where
  "abort_confirmed d run_id =
     (if dget d ''aborted'' = PBool True \<or> dget d ''abortedRunId'' = PStr run_id then Inr True
      else rbind (in_names (dget d ''status'') [''aborted'', ''no-active-run'']) (\<lambda>b.
        Inr (b \<or> dget d ''ok'' = PBool True \<and> dget d ''runIds'' = PList [])))"

definition cancel_run :: "'w adapter_deps \<Rightarrow> string \<Rightarrow> ('w adapter, stored_binding) op" where
  "cancel_run D i =
     bnd (require_binding i) (\<lambda>b.
     bnd (attempt (abort_run D b)) (\<lambda>r.
     case r of
       Inl e \<Rightarrow> if already_finished e then set_status b CANCELLED else raise e
     | Inr d \<Rightarrow>
         bnd (lift (abort_confirmed d (bd_openclaw_run b))) (\<lambda>sure.
         if sure then set_status b CANCELLED else raise (contract_error ''OpenClaw did not confirm abort''))))"

end
