(* ===== verification/GatewaySafety.thy ===== *)
theory GatewaySafety
  imports GatewayClient
begin

text \<open>
  What the gateway client promises: an open connection has negotiated what is needed, an answer belongs to the call,
  and a call is transmitted at most twice, unchanged.
\<close>

section \<open>An open connection is authorised\<close>

definition authorised :: "'w gateway \<Rightarrow> bool" where
  "authorised s \<longleftrightarrow> gc_socket s = None \<or>
     gc_role s = ''operator'' \<and> set required_methods \<subseteq> set (gc_methods s) \<and>
     (''operator.admin'' \<in> set (gc_scopes s) \<or> ''operator.write'' \<in> set (gc_scopes s))"

definition stays_authorised :: "'w gateway \<Rightarrow> 'w gateway \<Rightarrow> bool" where
  "stays_authorised s t \<longleftrightarrow> (authorised s \<longrightarrow> authorised t)"

interpretation permit: guarantee stays_authorised
  by unfold_locales (auto simp: stays_authorised_def)

lemma permit_read: "guar stays_authorised (gw_read f)"
  by (auto simp: guar_def gw_read_def stays_authorised_def authorised_def split: prod.split)

lemma permit_ask: "guar stays_authorised (gw_ask f)"
  by (auto simp: guar_def gw_ask_def stays_authorised_def authorised_def split: prod.split)

lemma disconnected: "authorised (snd (disconnect D s))"
  by (simp add: disconnect_def authorised_def)

lemma permit_disconnect: "guar stays_authorised (disconnect D)"
  by (simp add: guar_def stays_authorised_def disconnected)

lemmas permit_rules = permit.guar_bnd permit.guar_ret permit.guar_raise permit.guar_lift permit.guar_gets permit.guar_if permit.guar_let
  permit.guar_option permit.guar_sum permit.guar_prod permit.guar_attempt permit_read permit_ask permit_disconnect

lemma permit_stale: "guar stays_authorised (is_stale D)"
  unfolding is_stale_def by (intro permit_rules)

lemma exchange_fields:
  "gc_role (snd (exchange D h i f timeout q s)) = gc_role s" "gc_methods (snd (exchange D h i f timeout q s)) = gc_methods s"
  "gc_scopes (snd (exchange D h i f timeout q s)) = gc_scopes s"
  by (simp_all add: exchange_def split: prod.split sum.split)

lemma locked_fields:
  assumes "request_locked D h name params timeout s = (r, t)"
  shows "gc_role t = gc_role s \<and> gc_methods t = gc_methods s \<and> gc_scopes t = gc_scopes s \<and> (gc_socket s = None \<longrightarrow> t = s)"
proof (cases "gc_socket s")
  case (Some q)
  obtain i w where i: "gd_uuid D (gc_beyond s) = (i, w)" by (rule prod.exhaust)
  let ?ex = "exchange D h i (request_frame i name params) timeout q (s\<lparr>gc_beyond := w\<rparr>)"
  obtain x u where ex: "?ex = (x, u)" by (rule prod.exhaust)
  have u: "gc_role u = gc_role s" "gc_methods u = gc_methods s" "gc_scopes u = gc_scopes s"
    using exchange_fields [of D h i "request_frame i name params" timeout q "s\<lparr>gc_beyond := w\<rparr>"] ex by auto
  show ?thesis
    using assms Some i ex u
    by (cases x; cases "jsonable (PDict params)") (auto simp: request_locked_def bnd_app gw_read_def split: prod.splits)
qed (use assms in \<open>simp add: request_locked_def\<close>)

lemma permit_locked: "guar stays_authorised (request_locked D h name params timeout)"
proof (rule guarI)
  fix s :: "'a gateway"
  obtain r t where "request_locked D h name params timeout s = (r, t)" by (rule prod.exhaust)
  with locked_fields [OF this] show "stays_authorised s (snd (request_locked D h name params timeout s))"
    by (auto simp: stays_authorised_def authorised_def)
qed

lemma admit_authorised: "authorised (snd (admit_hello D hello s))"
  by (auto simp: admit_hello_def refuse_def bnd_app disconnect_def authorised_def Let_def filter_empty_conv split: prod.split)

lemma refuse_authorised: "authorised (snd (bnd (disconnect D) (\<lambda>u. raise e) s))"
  by (simp add: bnd_app disconnect_def authorised_def)

lemma permit_open: "guar stays_authorised (open_connection D)"
proof -
  have rest: "guar stays_authorised (bnd (attempt (handshake D token)) (\<lambda>r. case r of
      Inl e \<Rightarrow> bnd (disconnect D) (\<lambda>u. raise (if is_adapter_error e then e else TransportError ''OpenClaw Gateway connect failed''))
    | Inr p \<Rightarrow> admit_hello D (hello_payload p)))" for token
  proof (rule guarI)
    fix s :: "'a gateway"
    obtain r u where "handshake D token s = (r, u)" by (rule prod.exhaust)
    then show "stays_authorised s (snd (bnd (attempt (handshake D token)) (\<lambda>r. case r of
        Inl e \<Rightarrow> bnd (disconnect D) (\<lambda>u. raise (if is_adapter_error e then e else TransportError ''OpenClaw Gateway connect failed''))
      | Inr p \<Rightarrow> admit_hello D (hello_payload p)) s))"
      by (cases r) (simp_all add: stays_authorised_def bnd_app [of "attempt _"] attempt_app admit_authorised refuse_authorised)
  qed
  show ?thesis unfolding open_connection_def by (intro permit_rules rest)
qed

lemma permit_connect: "guar stays_authorised (connect D)"
  unfolding connect_def by (intro permit_rules permit_open permit_stale)

lemma permit_once: "guar stays_authorised (request_once D h name params timeout)"
  unfolding request_once_def by (intro permit_rules permit_stale permit_connect permit_locked)

lemma permit_retry: "(\<And>e. guar stays_authorised (f e)) \<Longrightarrow> guar stays_authorised m \<Longrightarrow> guar stays_authorised (retry_with D f m)"
  unfolding retry_with_def by (intro permit_rules)

lemma permit_request: "guar stays_authorised (request D h name params timeout)"
  unfolding request_def by (intro permit_retry permit_once permit_rules)

lemma permit_fresh: "guar stays_authorised (on_fresh D m)"
  by (auto simp: guar_def on_fresh_def stays_authorised_def authorised_def split: prod.split)

lemma permit_fresh_call: "guar stays_authorised (request_fresh D h name params timeout)"
  by (simp add: request_fresh_def permit_fresh)

lemma permit_fresh_abort: "guar stays_authorised (request_fresh_abort D key run_id ag timeout)"
  unfolding request_fresh_abort_def by (rule permit_fresh)

lemma permit_owner: "guar stays_authorised (request_on_owner D name params timeout)"
  unfolding request_on_owner_def by (intro permit_rules permit_locked)

section \<open>An answer belongs to the call\<close>

text \<open>A text that another call or an event could have sent.\<close>

definition passed_over :: "'w gateway_deps \<Rightarrow> string \<Rightarrow> string res \<Rightarrow> bool" where
  "passed_over D i r \<longleftrightarrow> (\<exists>t d. r = Inr t \<and> gd_loads D t = Some (PDict d) \<and>
     (dget d ''type'' = PStr ''event'' \<or> dget d ''type'' \<noteq> PStr ''res'' \<or> dget d ''id'' \<noteq> PStr i))"

definition answers :: "'w gateway_deps \<Rightarrow> string \<Rightarrow> pydict \<Rightarrow> string \<Rightarrow> bool" where
  "answers D i p t \<longleftrightarrow> (\<exists>d. gd_loads D t = Some (PDict d) \<and> dget d ''type'' = PStr ''res'' \<and> dget d ''id'' = PStr i \<and>
     dget d ''ok'' = PBool True \<and> dget d ''payload'' = PDict p)"

lemma await_answers:
  assumes "await D h i q w = (Inr p, rest, w')"
  shows "\<exists>skipped t. q = skipped @ Inr t # rest \<and> list_all (passed_over D i) skipped \<and> answers D i p t"
  using assms
proof (induction D h i q w rule: await.induct)
  case (3 D h i t q w)
  from "3.prems" obtain d where d: "gd_loads D t = Some (PDict d)" by (auto split: option.splits)
  consider "dget d ''type'' = PStr ''event''" | "dget d ''type'' \<noteq> PStr ''event''" "dget d ''type'' \<noteq> PStr ''res'' \<or> dget d ''id'' \<noteq> PStr i"
    | "dget d ''type'' = PStr ''res''" "dget d ''id'' = PStr i" by fastforce
  then show ?case
  proof cases
    case 1
    with "3.prems" d have "await D h i q (h d w) = (Inr p, rest, w')" by simp
    from "3.IH"(1) [OF d _ 1 this] obtain skipped t' where "q = skipped @ Inr t' # rest" "list_all (passed_over D i) skipped" "answers D i p t'"
      by auto
    with d 1 show ?thesis by (intro exI [of _ "Inr t # skipped"] exI [of _ t']) (simp, simp add: passed_over_def)
  next
    case 2
    with "3.prems" d have "await D h i q w = (Inr p, rest, w')" by simp
    from "3.IH"(2) [OF d _ 2 this] obtain skipped t' where "q = skipped @ Inr t' # rest" "list_all (passed_over D i) skipped" "answers D i p t'"
      by auto
    with d 2 show ?thesis by (intro exI [of _ "Inr t # skipped"] exI [of _ t']) (simp, simp add: passed_over_def)
  next
    case 3
    with "3.prems" d have "answer_of (gd_std D) d = Inr p" "rest = q" by auto
    with d 3 show ?thesis
      by (intro exI [of _ "[]"] exI [of _ t]) (auto simp: answers_def answer_of_def Let_def split: if_split_asm option.splits)
  qed
qed auto

text \<open>C20: the answer of a call over the open connection is the payload of a response with the identifier drawn for this very call and
  marked ok; all that was read before it were events and answers to other calls.\<close>

theorem answer_is_correlated:
  assumes "request_locked D h name params timeout s = (Inr p, t)"
  shows "\<exists>q i w arrived w' skipped x rest. gc_socket s = Some q \<and> gd_uuid D (gc_beyond s) = (i, w) \<and>
    gd_send D (request_frame i name params) timeout w = (Inr arrived, w') \<and> q @ arrived = skipped @ Inr x # rest \<and>
    list_all (passed_over D i) skipped \<and> answers D i p x \<and> gc_socket t = Some rest"
proof -
  from assms obtain q where q: "gc_socket s = Some q" by (cases "gc_socket s") (auto simp: request_locked_def)
  obtain i w where i: "gd_uuid D (gc_beyond s) = (i, w)" by (rule prod.exhaust)
  from assms q i obtain u where u: "exchange D h i (request_frame i name params) timeout q (s\<lparr>gc_beyond := w\<rparr>) = (Inr p, u)"
      and t: "gc_socket t = gc_socket u"
    by (auto simp: request_locked_def bnd_app gw_read_def split: prod.splits sum.splits if_split_asm)
  from u obtain arrived w' where a: "gd_send D (request_frame i name params) timeout w = (Inr arrived, w')"
    by (auto simp: exchange_def split: prod.splits sum.splits)
  obtain rest v where r: "await D h i (q @ arrived) w' = (Inr p, rest, v)" "gc_socket u = Some rest"
    using u a by (auto simp: exchange_def split: prod.splits)
  from await_answers [OF r(1)] q i a t r(2) show ?thesis by auto
qed

section \<open>Transmissions\<close>

text \<open>The same client in a world that keeps the list of frames sent.\<close>

definition along :: "('w \<Rightarrow> 'a \<times> 'w) \<Rightarrow> 'l \<times> 'w \<Rightarrow> 'a \<times> 'l \<times> 'w" where
  "along f v = (case f (snd v) of (x, w) \<Rightarrow> (x, fst v, w))"

definition beside :: "(pydict \<Rightarrow> 'w \<Rightarrow> 'w) \<Rightarrow> pydict \<Rightarrow> 'l \<times> 'w \<Rightarrow> 'l \<times> 'w" where
  "beside h f v = (fst v, h f (snd v))"

definition logged :: "'w gateway_deps \<Rightarrow> (pydict list \<times> 'w) gateway_deps" where
  "logged D =
     \<lparr>gd_std = gd_std D, gd_loads = gd_loads D, gd_secret = along (gd_secret D), gd_open = along (gd_open D),
      gd_send = (\<lambda>f timeout v. case gd_send D f timeout (snd v) of (r, w) \<Rightarrow> (r, fst v @ [f], w)),
      gd_close = (\<lambda>v. (fst v, gd_close D (snd v))), gd_monotonic = along (gd_monotonic D), gd_clock = along (gd_clock D),
      gd_uuid = along (gd_uuid D), gd_sign = gd_sign D, gd_device = gd_device D, gd_public = gd_public D, gd_client = gd_client D,
      gd_version = gd_version D, gd_connect_timeout = gd_connect_timeout D, gd_stale = gd_stale D\<rparr>"

definition sent :: "('l \<times> 'w) gateway \<Rightarrow> 'l" where
  "sent s = fst (gc_beyond s)"

text \<open>Frames other than the greeting.\<close>

definition app_frame :: "pydict \<Rightarrow> bool" where
  "app_frame f \<longleftrightarrow> dget f ''method'' \<noteq> PStr ''connect''"

definition greets :: "(pydict list \<times> 'w) gateway \<Rightarrow> (pydict list \<times> 'w) gateway \<Rightarrow> bool" where
  "greets s t \<longleftrightarrow> (\<exists>fs. sent t = sent s @ fs \<and> filter app_frame fs = [])"

lemma greets_refl: "greets s s"
  by (auto simp: greets_def intro: exI [of _ "[]"])

lemma greets_trans: "greets s t \<Longrightarrow> greets t u \<Longrightarrow> greets s u"
  unfolding greets_def by (metis append_assoc append_Nil filter_append)

interpretation greets: guarantee greets
  by unfold_locales (rule greets_refl, erule (1) greets_trans)

lemma same_sent: "(\<And>s. sent (snd (m s)) = sent s) \<Longrightarrow> guar greets m"
  by (auto simp: guar_def greets_def intro: exI [of _ "[]"])

lemma greets_read: "guar greets (gw_read (along f))"
  by (rule same_sent) (simp add: gw_read_def along_def sent_def split: prod.split)

lemma greets_ask: "guar greets (gw_ask (along f))"
  by (rule same_sent) (simp add: gw_ask_def along_def sent_def split: prod.split)

lemma greets_disconnect: "guar greets (disconnect (logged D))"
  by (rule same_sent) (simp add: disconnect_def logged_def sent_def)

lemma greets_socket: "guar greets (modify (\<lambda>s. s\<lparr>gc_socket := f s\<rparr>))"
  by (rule same_sent) (simp add: sent_def)

lemma greets_last: "guar greets (modify (\<lambda>s. s\<lparr>gc_last := x\<rparr>))"
  by (rule same_sent) (simp add: sent_def)

lemma greets_negotiated: "guar greets (modify (\<lambda>s. s\<lparr>gc_role := role, gc_scopes := scopes, gc_methods := offered\<rparr>))"
  by (rule same_sent) (simp add: sent_def)

lemmas greets_rules = greets.guar_bnd greets.guar_ret greets.guar_raise greets.guar_lift greets.guar_gets greets.guar_if greets.guar_let
  greets.guar_option greets.guar_sum greets.guar_prod greets.guar_attempt greets_read greets_ask greets_disconnect greets_socket greets_last
  greets_negotiated

lemma logged_simps [simp]:
  "gd_secret (logged D) = along (gd_secret D)" "gd_open (logged D) = along (gd_open D)" "gd_monotonic (logged D) = along (gd_monotonic D)"
  "gd_clock (logged D) = along (gd_clock D)" "gd_uuid (logged D) = along (gd_uuid D)" "gd_loads (logged D) = gd_loads D"
  "gd_send (logged D) f timeout v = (case gd_send D f timeout (snd v) of (r, w) \<Rightarrow> (r, fst v @ [f], w))"
  by (simp_all add: logged_def)

lemma await_log: "await (logged D) (beside h) i q w = (r, rest, w') \<Longrightarrow> fst w' = fst w"
proof (induction q arbitrary: w)
  case (Cons x q)
  have step: "fst (beside h d w) = fst w" for d by (simp add: beside_def)
  show ?case
  proof (cases x)
    case (Inr t)
    with Cons.prems Cons.IH [of "beside h _ w"] Cons.IH [of w] show ?thesis
      by (auto simp: step split: option.splits if_split_asm)
  qed (use Cons.prems in simp)
qed simp

lemma exchange_sent: "sent (snd (exchange (logged D) (beside h) i f timeout q s)) = sent s @ [f]"
  by (auto simp: exchange_def sent_def split: prod.split sum.split dest: await_log)

lemma locked_sent:
  "sent (snd (request_locked (logged D) (beside h) name params timeout s)) = sent s \<or>
   (\<exists>i. sent (snd (request_locked (logged D) (beside h) name params timeout s)) = sent s @ [request_frame i name params])"
proof (cases "gc_socket s")
  case (Some q)
  obtain i w where i: "along (gd_uuid D) (gc_beyond s) = (i, w)" by (rule prod.exhaust)
  let ?s = "s\<lparr>gc_beyond := w\<rparr>"
  have s: "sent ?s = sent s" using i by (auto simp: along_def sent_def split: prod.splits)
  obtain x u where ex: "exchange (logged D) (beside h) i (request_frame i name params) timeout q ?s = (x, u)" by (rule prod.exhaust)
  have u: "sent u = sent s @ [request_frame i name params]"
    using exchange_sent [of D h i "request_frame i name params" timeout q ?s] ex s by simp
  have rest: "sent (snd (bnd (gw_read (along (gd_monotonic D))) (\<lambda>now. bnd (modify (\<lambda>s. s\<lparr>gc_last := now\<rparr>)) (\<lambda>_. ret p)) u)) = sent u" for p :: pydict
    by (simp add: bnd_app gw_read_def along_def sent_def split: prod.split)
  show ?thesis
    using Some i s ex u rest
    by (cases "jsonable (PDict params)"; cases x) (auto simp: request_locked_def bnd_app [of "gw_read (along (gd_uuid D))"] gw_read_def [of "along (gd_uuid D)"]
        bnd_app [of "exchange _ _ _ _ _ _"])
qed (simp add: request_locked_def)

text \<open>At most \<open>n\<close> frames other than greetings, all of one call.\<close>

definition transmits :: "nat \<Rightarrow> string \<Rightarrow> pydict \<Rightarrow> ((pydict list \<times> 'w) gateway, 'a) op \<Rightarrow> bool" where
  "transmits n name params m \<longleftrightarrow> (\<forall>s. \<exists>fs. sent (snd (m s)) = sent s @ fs \<and> length (filter app_frame fs) \<le> n \<and>
     (\<forall>f \<in> set (filter app_frame fs). dget f ''method'' = PStr name \<and> dget f ''params'' = PDict params))"

lemma transmits_greets: "guar greets m \<Longrightarrow> transmits 0 name params m"
  unfolding transmits_def guar_def greets_def by fastforce

lemma transmits_bnd:
  assumes "transmits a name params m" "\<And>x. transmits b name params (f x)" "a + b \<le> n"
  shows "transmits n name params (bnd m f)"
  unfolding transmits_def
proof
  fix s
  obtain r u where m: "m s = (r, u)" by (rule prod.exhaust)
  with assms(1) obtain fs where fs: "sent u = sent s @ fs" "length (filter app_frame fs) \<le> a"
      "\<forall>f \<in> set (filter app_frame fs). dget f ''method'' = PStr name \<and> dget f ''params'' = PDict params"
    unfolding transmits_def by (metis snd_conv)
  show "\<exists>fs. sent (snd (bnd m f s)) = sent s @ fs \<and> length (filter app_frame fs) \<le> n \<and>
     (\<forall>f \<in> set (filter app_frame fs). dget f ''method'' = PStr name \<and> dget f ''params'' = PDict params)"
  proof (cases r)
    case (Inl e)
    with m fs assms(3) show ?thesis by (auto simp: bnd_app)
  next
    case (Inr x)
    from assms(2) [of x] obtain gs where gs: "sent (snd (f x u)) = sent u @ gs" "length (filter app_frame gs) \<le> b"
        "\<forall>f \<in> set (filter app_frame gs). dget f ''method'' = PStr name \<and> dget f ''params'' = PDict params"
      unfolding transmits_def by blast
    have "sent (snd (bnd m f s)) = sent s @ fs @ gs" using m Inr fs(1) gs(1) by (simp add: bnd_app)
    then show ?thesis using fs gs assms(3) by (intro exI [of _ "fs @ gs"]) (auto simp del: set_filter)
  qed
qed

lemma transmits_behind: "guar greets m \<Longrightarrow> (\<And>x. transmits n name params (f x)) \<Longrightarrow> transmits n name params (bnd m f)"
  by (rule transmits_bnd [where a = 0 and b = n]) (auto intro: transmits_greets)

lemma transmits_weaken: "transmits a name params m \<Longrightarrow> a \<le> n \<Longrightarrow> transmits n name params m"
  unfolding transmits_def by (meson order_trans)

lemma transmits_attempt: "transmits n name params m \<Longrightarrow> transmits n name params (attempt m)"
  by (simp add: transmits_def attempt_app)

lemma request_frame_fields [simp]:
  "dget (request_frame i name params) ''method'' = PStr name" "dget (request_frame i name params) ''params'' = PDict params"
  by (simp_all add: request_frame_def)

lemma transmits_locked: "transmits 1 name params (request_locked (logged D) (beside h) name params timeout)"
  unfolding transmits_def
proof
  fix s
  from locked_sent [of D h name params timeout s]
  obtain fs where "sent (snd (request_locked (logged D) (beside h) name params timeout s)) = sent s @ fs"
      "fs = [] \<or> (\<exists>i. fs = [request_frame i name params])" by (metis append_Nil2)
  then show "\<exists>fs. sent (snd (request_locked (logged D) (beside h) name params timeout s)) = sent s @ fs \<and> length (filter app_frame fs) \<le> 1 \<and>
     (\<forall>f \<in> set (filter app_frame fs). dget f ''method'' = PStr name \<and> dget f ''params'' = PDict params)"
    by (intro exI [of _ fs]) auto
qed

lemma no_handler_beside: "no_handler = beside no_handler"
  by (auto simp: no_handler_def beside_def fun_eq_iff)

lemma greets_greeting: "guar greets (request_locked (logged D) no_handler ''connect'' params timeout)"
proof (rule guarI)
  fix s :: "(pydict list \<times> 'a) gateway"
  from locked_sent [of D no_handler "''connect''" params timeout s, folded no_handler_beside]
  show "greets s (snd (request_locked (logged D) no_handler ''connect'' params timeout s))"
    unfolding greets_def
  proof
    assume "\<exists>i. sent (snd (request_locked (logged D) no_handler ''connect'' params timeout s)) = sent s @ [request_frame i ''connect'' params]"
    then obtain i where "sent (snd (request_locked (logged D) no_handler ''connect'' params timeout s)) = sent s @ [request_frame i ''connect'' params]" ..
    then show "\<exists>fs. sent (snd (request_locked (logged D) no_handler ''connect'' params timeout s)) = sent s @ fs \<and> filter app_frame fs = []"
      by (intro exI [of _ "[request_frame i ''connect'' params]"]) (simp add: app_frame_def)
  qed (auto intro: exI [of _ "[]"])
qed

lemma greets_stale: "guar greets (is_stale (logged D))"
  unfolding is_stale_def logged_simps by (intro greets_rules)

lemma greets_connect: "guar greets (connect (logged D))"
  unfolding connect_def open_connection_def handshake_def receive_challenge_def admit_hello_def refuse_def logged_simps
  by (intro greets_rules greets_stale greets_greeting)

lemma transmits_once: "transmits 1 name params (request_once (logged D) (beside h) name params timeout)"
  unfolding request_once_def
  by (intro transmits_behind greets_rules greets_stale greets_connect transmits_locked)

lemma transmits_retry:
  assumes "transmits a name params m" "\<And>e. transmits b name params (f e)"
  shows "transmits (a + b) name params (retry_with (logged D) f m)"
proof -
  have f: "transmits b name params (bnd (disconnect (logged D)) (\<lambda>u. f e))" for e
    by (rule transmits_behind [OF greets_disconnect assms(2)])
  have none: "transmits b name params (raise e)" for e
    by (rule transmits_weaken [OF transmits_greets [OF greets.guar_raise]]) simp
  have ok: "transmits b name params (ret x)" for x
    by (rule transmits_weaken [OF transmits_greets [OF greets.guar_ret]]) simp
  show ?thesis
    unfolding retry_with_def
  proof (rule transmits_bnd [OF transmits_attempt [OF assms(1)]])
    fix r :: "'b res"
    show "transmits b name params (case r of
        Inr x \<Rightarrow> ret x | Inl e \<Rightarrow> if retryable e then bnd (disconnect (logged D)) (\<lambda>u. f e) else raise e)"
      using f by (cases r) (simp_all add: none ok)
  qed simp
qed


end
