(* ===== verification/AdapterSafety.thy ===== *)
theory AdapterSafety
  imports OpenClawAdapter GatewaySafety
begin

text \<open>
  What the adapter promises, in any sequence of its calls and whatever the gateway answers: a core run keeps the gateway
  run it was bound to, its watermark and its saved inputs are written once, a repeated submission sends nothing, a
  result counts only when it was validated and stands behind the watermark.
\<close>

section \<open>What is written once\<close>

text \<open>Preparations and saved inputs are never changed.\<close>

definition written :: "'w adapter \<Rightarrow> 'w adapter \<Rightarrow> bool" where
  "written s t \<longleftrightarrow>
     (\<forall>i q. find_preparation i (oa_prepared s) = Some q \<longrightarrow> find_preparation i (oa_prepared t) = Some q) \<and>
     (\<forall>k v. oa_states s k = Some v \<longrightarrow> oa_states t k = Some v) \<and>
     (authorised (oa_rpc s) \<longrightarrow> authorised (oa_rpc t))"

interpretation written: guarantee written
  by unfold_locales (auto simp: written_def)

text \<open>And, of these steps, those that leave the bindings alone.\<close>

definition steady :: "'w adapter \<Rightarrow> 'w adapter \<Rightarrow> bool" where
  "steady s t \<longleftrightarrow> written s t \<and> oa_bindings t = oa_bindings s"

interpretation steady: guarantee steady
  by unfold_locales (auto simp: steady_def intro: written.R_trans written.R_refl)

lemma steady_written: "guar steady m \<Longrightarrow> guar written m"
  by (simp add: guar_def steady_def)

lemma steady_rpc: "guar stays_authorised m \<Longrightarrow> guar steady (on_rpc m)"
  by (auto simp: guar_def on_rpc_def steady_def written_def stays_authorised_def split: prod.split dest: spec [of _ "oa_rpc _"])

lemma find_appended: "find_preparation i ps = Some q \<Longrightarrow> find_preparation i (ps @ qs) = Some q"
  by (induction ps) (auto simp: find_preparation_def)

lemma put_preparation_keeps:
  "put_preparation p ps = Inr qs \<Longrightarrow> find_preparation i ps = Some q \<Longrightarrow> find_preparation i qs = Some q"
  by (auto simp: put_preparation_def find_appended split: option.splits)

lemma find_new: "find_preparation i ps = None \<Longrightarrow> find_preparation i (ps @ qs) = find_preparation i qs"
  by (induction ps) (auto simp: find_preparation_def split: if_split_asm)

lemma put_preparation_found: "put_preparation p ps = Inr qs \<Longrightarrow> find_preparation (pp_core_run p) qs = Some p"
  by (auto simp: put_preparation_def find_new split: option.splits) (simp add: find_preparation_def)

lemma steady_preparation: "guar steady (save_preparation p)"
  by (auto simp: guar_def save_preparation_def bnd_app steady_def written_def dest: put_preparation_keeps split: sum.split)

lemma steady_contexts: "guar steady (modify (\<lambda>s. s\<lparr>oa_contexts := f s\<rparr>))"
  by (auto simp: guar_def steady_def written_def)

lemma steady_state: "guar steady (save_state D i kind d)"
proof (rule guarI)
  fix s :: "'a adapter"
  obtain r m where p: "put_state (gd_std (ad_gateway D)) i kind (PDict d) (oa_states s) = (r, m)" by (rule prod.exhaust)
  have "oa_states s k = Some v \<Longrightarrow> m k = Some v" for k v
    using put_state_keeps [of "oa_states s" k v "gd_std (ad_gateway D)" i kind "PDict d"] p by simp
  with p show "steady s (snd (save_state D i kind d s))" by (simp add: save_state_def steady_def written_def)
qed

lemma steady_read: "guar steady (read_state D i kind)"
  by (simp add: guar_def read_state_def steady.R_refl)

lemmas steady_rules = steady.guar_bnd steady.guar_ret steady.guar_raise steady.guar_lift steady.guar_gets steady.guar_if steady.guar_let
  steady.guar_option steady.guar_sum steady.guar_prod steady.guar_attempt steady_preparation steady_contexts steady_state steady_read
  steady_rpc permit_read permit_ask permit_request permit_fresh_call permit_fresh_abort permit_owner permit_disconnect

lemma steady_trusted: "guar steady (trusted_context D i paths message)"
  unfolding trusted_context_def Let_def by (intro steady_rules)

lemma steady_prepare: "guar steady (prepare D i f key)"
  unfolding prepare_def Let_def by (intro steady_rules)

lemma steady_resolve: "guar steady (resolve_session D key)"
  unfolding resolve_session_def by (intro steady_rules)

lemma steady_require: "guar steady (require_binding i)"
  unfolding require_binding_def by (intro steady_rules)

lemma steady_active: "guar steady (session_active D b)"
  unfolding session_active_def by (intro steady_rules)

lemma steady_decide: "guar steady (decide D payload)"
  unfolding decide_def by (intro steady_rules)

lemma steady_judge: "guar steady (judge_result D i b payload raw)"
  unfolding judge_result_def recover_format_def Let_def by (intro steady_rules steady_decide)

lemma steady_context: "guar steady (context_of D i)"
  unfolding context_of_def by (intro steady_rules)

lemma steady_known: "guar steady (known_outcome D i b)"
  unfolding known_outcome_def by (intro steady_rules)

lemma steady_abort: "guar steady (abort_run D b)"
  unfolding abort_run_def Let_def by (intro steady_rules)

lemma steady_revalidate: "guar steady (revalidate D i)"
  unfolding revalidate_def by (intro steady_rules steady_require steady_decide)

lemmas steady_ops = steady_trusted steady_prepare steady_resolve steady_require steady_active steady_decide steady_judge steady_context
  steady_known steady_abort steady_revalidate

lemma written_binding: "guar written (save_binding b)"
  by (auto simp: guar_def save_binding_def bnd_app written_def split: sum.split)

lemma written_status: "guar written (set_status b st)"
  unfolding set_status_def by (intro written.guar_bnd written_binding written.guar_ret)

lemmas written_rules = written.guar_bnd written.guar_ret written.guar_raise written.guar_lift written.guar_gets written.guar_if written.guar_let
  written.guar_option written.guar_sum written.guar_prod written.guar_attempt written_binding written_status
  steady_ops [THEN steady_written] steady_preparation [THEN steady_written] steady_contexts [THEN steady_written] steady_state [THEN steady_written]
  steady_read [THEN steady_written] steady_rpc [THEN steady_written] permit_read permit_ask permit_request permit_fresh_call

lemma written_submit: "guar written (submit D i p)"
  unfolding submit_def launch_def Let_def by (intro written_rules)

lemma written_ended: "guar written (ended b st why)"
  unfolding ended_def by (intro written_rules)

lemma written_wait: "guar written (wait_run D i timeout)"
  unfolding wait_run_def judge_answer_def finished_run_result_def collect_result_def Let_def
  by (intro written_rules written_ended)

lemma written_cancel: "guar written (cancel_run D i)"
  unfolding cancel_run_def by (intro written_rules)

section \<open>The table of bindings\<close>

text \<open>What a call for the core run \<open>i\<close> may do to the table: the run is bound to a gateway run and a key of its own, or its
  binding changes its status.\<close>

inductive binding_step :: "string \<Rightarrow> stored_binding list \<Rightarrow> stored_binding list \<Rightarrow> bool" where
  Bound: "bd_core_run b = i \<Longrightarrow> find_binding i bs = None \<Longrightarrow>
     \<forall>x \<in> set bs. bd_openclaw_run x \<noteq> bd_openclaw_run b \<and> sb_key x \<noteq> sb_key b \<Longrightarrow>
     sb_status b = RUNNING \<Longrightarrow> binding_step i bs (bs @ [b])"
| Marked: "find_binding i bs = Some b \<Longrightarrow> binding_step i bs (map (\<lambda>x. if bd_core_run x = i then b\<lparr>sb_status := st\<rparr> else x) bs)"

definition table_step :: "stored_binding list \<Rightarrow> stored_binding list \<Rightarrow> bool" where
  "table_step bs cs \<longleftrightarrow> (\<exists>i. binding_step i bs cs)"

definition moved :: "string \<Rightarrow> stored_binding list \<Rightarrow> 'w adapter \<Rightarrow> bool" where
  "moved i bs s \<longleftrightarrow> oa_bindings s = bs \<or> binding_step i bs (oa_bindings s)"

lemma find_binding_Some: "find_binding i bs = Some b \<Longrightarrow> b \<in> set bs \<and> bd_core_run b = i"
  by (auto simp: find_binding_def find_Some_iff)

lemma find_binding_None: "find_binding i bs = None \<longleftrightarrow> (\<forall>b \<in> set bs. bd_core_run b \<noteq> i)"
  by (auto simp: find_binding_def find_None_iff)

lemma hold_steady: "guar steady m \<Longrightarrow> holds (\<lambda>s. oa_bindings s = bs) m (moved i bs) (\<lambda>x s. oa_bindings s = bs)"
  by (erule holds_frame) (auto simp: steady_def moved_def)

lemma hold_last: "guar steady m \<Longrightarrow> holds (\<lambda>s. oa_bindings s = bs) m (moved i bs) (\<lambda>x. moved i bs)"
  by (erule holds_frame) (auto simp: steady_def moved_def)

lemma hold_end: "holds (moved i bs) (ret x) (moved i bs) (\<lambda>x. moved i bs)"
  by (simp add: holds_ret)

lemma hold_status:
  assumes "find_binding i bs = Some b"
  shows "holds (\<lambda>s. oa_bindings s = bs) (set_status b st) (moved i bs) (\<lambda>x. moved i bs)"
  using find_binding_Some [OF assms] assms binding_step.Marked [OF assms, of st]
  by (auto simp: holds_def set_status_def save_binding_def bnd_app put_binding_def moved_def need_def split: sum.splits)

lemma hold_bound:
  assumes "find_binding i bs = None" "bd_core_run b = i" "sb_status b = RUNNING"
  shows "holds (\<lambda>s. oa_bindings s = bs) (save_binding b) (moved i bs) (\<lambda>x. moved i bs)"
proof -
  have "put_binding b bs = Inr cs \<Longrightarrow> binding_step i bs cs" for cs
    using assms binding_step.Bound [OF assms(2,1) _ assms(3)] by (auto simp: put_binding_def find_binding_None list_ex_iff)
  then show ?thesis by (auto simp: holds_def save_binding_def bnd_app moved_def split: sum.splits)
qed

lemma hold_require: "holds (\<lambda>s. oa_bindings s = bs) (require_binding i) (moved i bs) (\<lambda>b s. oa_bindings s = bs \<and> find_binding i bs = Some b)"
  unfolding holds_def moved_def require_binding_def
  by (auto simp: bnd_app split: option.splits sum.splits)

lemma hold_ended:
  "find_binding i bs = Some b \<Longrightarrow> holds (\<lambda>s. oa_bindings s = bs) (ended b st why) (moved i bs) (\<lambda>x. moved i bs)"
  unfolding ended_def by (intro holds_bnd [OF hold_status] hold_end)

lemma hold_collect:
  assumes "find_binding i bs = Some b"
  shows "holds (\<lambda>s. oa_bindings s = bs) (collect_result D i b response history) (moved i bs) (\<lambda>x. moved i bs)"
  unfolding collect_result_def Let_def
  by (intro holds_bnd [OF hold_steady] holds_bnd [OF hold_status [OF assms]] hold_end steady_ops steady.guar_if steady.guar_ret steady_state)

lemma hold_result:
  assumes "find_binding i bs = Some b"
  shows "holds (\<lambda>s. oa_bindings s = bs) (finished_run_result D i b response timeout) (moved i bs) (\<lambda>x. moved i bs)"
  unfolding finished_run_result_def
  by (intro holds_bnd [OF hold_steady] holds_option holds_sum hold_ended [OF assms] hold_collect [OF assms] steady_rules)

lemma wait_moves: "moved i (oa_bindings s) (snd (wait_run D i timeout s))"
proof -
  let ?bs = "oa_bindings s"
  have answer: "holds (\<lambda>s. oa_bindings s = ?bs) (judge_answer D i b response timeout) (moved i ?bs) (\<lambda>x. moved i ?bs)"
    if "find_binding i ?bs = Some b" for b response
    unfolding judge_answer_def Let_def
    by (intro holds_if hold_ended [OF that] hold_result [OF that] holds_bnd [OF hold_steady] hold_last steady_ops steady_rules)
  have "holds (\<lambda>s. oa_bindings s = ?bs) (wait_run D i timeout) (moved i ?bs) (\<lambda>x. moved i ?bs)"
    unfolding wait_run_def
    by (intro holds_bnd [OF hold_require] holds_fact holds_if hold_last holds_bnd [OF hold_steady] answer steady_ops steady_rules)
  then show ?thesis by (simp add: holds_def)
qed

lemma cancel_moves: "moved i (oa_bindings s) (snd (cancel_run D i s))"
proof -
  have "holds (\<lambda>u. oa_bindings u = oa_bindings s) (cancel_run D i) (moved i (oa_bindings s)) (\<lambda>x. moved i (oa_bindings s))"
    unfolding cancel_run_def
    by (intro holds_bnd [OF hold_require] holds_fact holds_bnd [OF hold_steady] holds_sum holds_if hold_status hold_last steady_ops steady_rules)
  then show ?thesis by (simp add: holds_def)
qed

lemma hold_launch:
  assumes "find_binding i bs = None"
  shows "holds (\<lambda>s. oa_bindings s = bs) (launch D i params f key) (moved i bs) (\<lambda>x. moved i bs)"
  unfolding launch_def Let_def
  by (intro holds_bnd [OF hold_steady] holds_prod holds_bnd [OF hold_bound] hold_end steady_ops steady_rules) (use assms in simp_all)

lemma submit_moves: "moved i (oa_bindings s) (snd (submit D i p s))"
proof -
  let ?bs = "oa_bindings s"
  have known: "holds (\<lambda>u. oa_bindings u = ?bs)
      (bnd (gets (\<lambda>s. find_binding i (oa_bindings s))) (\<lambda>known. case known of None \<Rightarrow> launch D i params f key | Some b \<Rightarrow> g b))
      (moved i ?bs) (\<lambda>x. moved i ?bs)" if "\<And>b. guar steady (g b)" for params f key g
    using hold_launch [of i ?bs D params f key] hold_last [OF that, of ?bs]
    by (auto simp: holds_def bnd_app split: option.split)
  have "holds (\<lambda>u. oa_bindings u = ?bs) (submit D i p) (moved i ?bs) (\<lambda>x. moved i ?bs)"
    unfolding submit_def Let_def
    by (intro holds_if hold_last holds_bnd [OF hold_steady] known steady_ops steady_rules)
  then show ?thesis by (simp add: holds_def)
qed

section \<open>Histories\<close>

datatype adapter_call = Submit string pydict | Wait string rat | Cancel string | Revalidate string

fun adapter_step :: "'w adapter_deps \<Rightarrow> adapter_call \<Rightarrow> 'w adapter \<Rightarrow> 'w adapter" where
  "adapter_step D (Submit i p) s = snd (submit D i p s)"
| "adapter_step D (Wait i timeout) s = snd (wait_run D i timeout s)"
| "adapter_step D (Cancel i) s = snd (cancel_run D i s)"
| "adapter_step D (Revalidate i) s = snd (revalidate D i s)"

definition adapter_run :: "'w adapter_deps \<Rightarrow> adapter_call list \<Rightarrow> 'w adapter \<Rightarrow> 'w adapter" where
  "adapter_run D calls s = foldl (\<lambda>t c. adapter_step D c t) s calls"

definition adapter_start :: "'w \<Rightarrow> 'w adapter" where
  "adapter_start w = \<lparr>oa_bindings = [], oa_prepared = [], oa_contexts = [], oa_states = Map.empty, oa_rpc = fresh_client w\<rparr>"

lemma step_written: "written s (adapter_step D c s)"
  using guarD [OF written_submit] guarD [OF written_wait] guarD [OF written_cancel] guarD [OF steady_written [OF steady_revalidate]]
  by (cases c) simp_all

fun called :: "adapter_call \<Rightarrow> string" where
  "called (Submit i p) = i"
| "called (Wait i timeout) = i"
| "called (Cancel i) = i"
| "called (Revalidate i) = i"

lemma step_moves: "moved (called c) (oa_bindings s) (adapter_step D c s)"
proof (cases c)
  case (Revalidate i)
  with guarD [OF steady_revalidate, of s D i] show ?thesis by (simp add: moved_def steady_def)
qed (simp_all add: submit_moves wait_moves cancel_moves)

lemma run_written: "written s (adapter_run D calls s)"
  unfolding adapter_run_def
  by (induction calls arbitrary: s) (auto intro: written.R_refl written.R_trans step_written)

lemma one_table_step: "binding_step i bs cs \<Longrightarrow> table_step\<^sup>*\<^sup>* bs cs"
  by (rule r_into_rtranclp) (auto simp: table_step_def)

lemma run_steps: "table_step\<^sup>*\<^sup>* (oa_bindings s) (oa_bindings (adapter_run D calls s))"
proof (induction calls arbitrary: s)
  case (Cons c calls)
  have "table_step\<^sup>*\<^sup>* (oa_bindings s) (oa_bindings (adapter_step D c s))"
    using step_moves [of c s D] one_table_step by (auto simp: moved_def)
  with Cons [of "adapter_step D c s"] show ?case by (simp add: adapter_run_def)
qed (simp add: adapter_run_def)

text \<open>What the steps of the table keep.\<close>

definition told_apart :: "stored_binding list \<Rightarrow> bool" where
  "told_apart bs \<longleftrightarrow> distinct (map bd_core_run bs) \<and> distinct (map bd_openclaw_run bs) \<and> distinct (map sb_key bs)"

lemma find_binding_append: "find_binding i (bs @ cs) = (case find_binding i bs of Some b \<Rightarrow> Some b | None \<Rightarrow> find_binding i cs)"
  by (induction bs) (auto simp: find_binding_def)

lemma find_binding_map:
  assumes "bd_core_run b = i"
  shows "find_binding j (map (\<lambda>x. if bd_core_run x = i then b else x) bs) =
    (if j = i then (if find_binding i bs = None then None else Some b) else find_binding j bs)"
  using assms by (induction bs) (auto simp: find_binding_def)

lemma find_binding_marked:
  assumes "find_binding i bs = Some b"
  shows "find_binding j (map (\<lambda>x. if bd_core_run x = i then b\<lparr>sb_status := st\<rparr> else x) bs) =
    (if j = i then Some (b\<lparr>sb_status := st\<rparr>) else find_binding j bs)"
  using find_binding_map [of "b\<lparr>sb_status := st\<rparr>" i j bs] find_binding_Some [OF assms] assms by simp

lemma marked_same:
  assumes "find_binding i bs = Some b" "distinct (map bd_core_run bs)" "\<And>y st. f (y\<lparr>sb_status := st\<rparr>) = f y"
  shows "map f (map (\<lambda>x. if bd_core_run x = i then b\<lparr>sb_status := st\<rparr> else x) bs) = map f bs"
proof -
  have "x = b" if "x \<in> set bs" "bd_core_run x = i" for x
    using find_binding_Some [OF assms(1)] that assms(2) by (metis distinct_map inj_on_contraD)
  then show ?thesis using assms(3) by (auto simp: fun_eq_iff)
qed

lemma step_told_apart: "binding_step i bs cs \<Longrightarrow> told_apart bs \<Longrightarrow> told_apart cs"
proof (induction rule: binding_step.induct)
  case (Bound b i bs)
  then show ?case by (auto simp: told_apart_def find_binding_None)
next
  case (Marked i bs b st)
  from Marked(2) have d: "distinct (map bd_core_run bs)" by (simp add: told_apart_def)
  have "map bd_core_run (map (\<lambda>x. if bd_core_run x = i then b\<lparr>sb_status := st\<rparr> else x) bs) = map bd_core_run bs"
    "map bd_openclaw_run (map (\<lambda>x. if bd_core_run x = i then b\<lparr>sb_status := st\<rparr> else x) bs) = map bd_openclaw_run bs"
    "map sb_key (map (\<lambda>x. if bd_core_run x = i then b\<lparr>sb_status := st\<rparr> else x) bs) = map sb_key bs"
    by (rule marked_same [OF Marked(1) d], simp)+
  with Marked(2) show ?case unfolding told_apart_def by argo
qed

lemma step_binding:
  "binding_step j bs cs \<Longrightarrow> find_binding i bs = Some b \<Longrightarrow> \<exists>st. find_binding i cs = Some (b\<lparr>sb_status := st\<rparr>)"
proof (induction rule: binding_step.induct)
  case (Bound c j bs)
  then show ?case by (auto simp: find_binding_append intro: exI [of _ "sb_status b"])
next
  case (Marked j bs c st)
  then show ?case using find_binding_marked [OF Marked(1), of i st] by (auto intro: exI [of _ "sb_status b"])
qed

lemma steps_binding: "table_step\<^sup>*\<^sup>* bs cs \<Longrightarrow> find_binding i bs = Some b \<Longrightarrow> \<exists>st. find_binding i cs = Some (b\<lparr>sb_status := st\<rparr>)"
proof (induction rule: rtranclp_induct)
  case base
  then show ?case by (auto intro: exI [of _ "sb_status b"])
next
  case (step cs ds)
  then obtain st where "find_binding i cs = Some (b\<lparr>sb_status := st\<rparr>)" by blast
  from step.hyps(2) step_binding [OF _ this] show ?case by (fastforce simp: table_step_def)
qed

lemma steps_told_apart: "table_step\<^sup>*\<^sup>* bs cs \<Longrightarrow> told_apart bs \<Longrightarrow> told_apart cs"
  by (induction rule: rtranclp_induct) (auto simp: table_step_def intro: step_told_apart)

text \<open>C8: whatever sequence of calls reaches the adapter and whatever the gateway answers, the table of bindings only takes steps of its
  specification: a bound core run keeps its gateway run, agent, session and key for ever, only its status changes; no two
  core runs share a gateway run or a key; and the watermark taken before a submission is never taken again.\<close>

theorem bound_run_is_permanent:
  "let u = adapter_run D earlier (adapter_start w); v = adapter_run D later u in
     table_step\<^sup>*\<^sup>* (oa_bindings u) (oa_bindings v) \<and> told_apart (oa_bindings v) \<and>
     (\<forall>i b. find_binding i (oa_bindings u) = Some b \<longrightarrow> (\<exists>st. find_binding i (oa_bindings v) = Some (b\<lparr>sb_status := st\<rparr>))) \<and>
     (\<forall>i q. find_preparation i (oa_prepared u) = Some q \<longrightarrow> find_preparation i (oa_prepared v) = Some q)"
proof -
  have "told_apart (oa_bindings (adapter_run D (earlier @ later) (adapter_start w)))"
    using steps_told_apart [OF run_steps, of "adapter_start w"] by (simp add: adapter_start_def told_apart_def)
  then have "told_apart (oa_bindings (adapter_run D later (adapter_run D earlier (adapter_start w))))" by (simp add: adapter_run_def)
  then show ?thesis
    using run_steps [of "adapter_run D earlier (adapter_start w)" D later] run_written [of "adapter_run D earlier (adapter_start w)" D later]
      steps_binding [OF run_steps [of "adapter_run D earlier (adapter_start w)" D later]]
    by (simp add: Let_def written_def)
qed

text \<open>The connection that the adapter holds open is authorised after any sequence of calls: the gateway has granted it the operator
  role, the methods a run needs and a writing scope.\<close>

theorem adapter_connection_authorised: "authorised (oa_rpc (adapter_run D calls (adapter_start w)))"
  using run_written [of "adapter_start w" D calls] by (simp add: written_def adapter_start_def fresh_client_def authorised_def)

section \<open>Repeated submissions\<close>

lemma save_state_Inr:
  assumes "save_state D i kind d s = (Inr x, t)"
  shows "jsonable (PDict d) \<and> oa_states t (i, kind) =
      Some (jdump (float_repr (gd_std (ad_gateway D))) False (PDict d), sha256 (gd_std (ad_gateway D)) (jdump (float_repr (gd_std (ad_gateway D))) False (PDict d)))"
proof -
  obtain r m where p: "put_state (gd_std (ad_gateway D)) i kind (PDict d) (oa_states s) = (r, m)" by (rule prod.exhaust)
  with assms have "r = Inr ()" "oa_states t = m" by (auto simp: save_state_def)
  with put_state_effect [OF p] show ?thesis by auto
qed

lemma save_state_again:
  assumes "jsonable (PDict d)" and "oa_states s (i, kind) =
      Some (jdump (float_repr (gd_std (ad_gateway D))) False (PDict d), sha256 (gd_std (ad_gateway D)) (jdump (float_repr (gd_std (ad_gateway D))) False (PDict d)))"
  shows "save_state D i kind d s = (Inr (), s)"
proof -
  obtain r m where p: "put_state (gd_std (ad_gateway D)) i kind (PDict d) (oa_states s) = (r, m)" by (rule prod.exhaust)
  from put_state_effect [OF p] assms have "r = Inr ()" "m = oa_states s" by auto
  with p show ?thesis by (simp add: save_state_def)
qed

lemma put_binding_found: "put_binding b bs = Inr cs \<Longrightarrow> find_binding (bd_core_run b) cs = Some b"
  using find_binding_map [of b "bd_core_run b" "bd_core_run b" bs]
  by (auto simp: put_binding_def find_binding_append split: if_split_asm option.split) (simp_all add: find_binding_def)

lemma save_binding_Inr: "save_binding b s = (Inr u, t) \<Longrightarrow> find_binding (bd_core_run b) (oa_bindings t) = Some b"
  using put_binding_found by (auto simp: save_binding_def bnd_app split: sum.splits)

definition context_fields :: "pyval list \<Rightarrow> pydict \<Rightarrow> pydict" where
  "context_fields paths contract = (''approved_paths'', PList paths) #
     (if contract = [] then [] else [(''war_room_task_profile'', dget contract ''task_profile'')])"

definition context_saved :: "'w adapter_deps \<Rightarrow> string \<Rightarrow> pydict \<Rightarrow> 'w adapter \<Rightarrow> bool" where
  "context_saved D i d s \<longleftrightarrow> jsonable (PDict d) \<and> oa_states s (i, ''context'') =
      Some (jdump (float_repr (gd_std (ad_gateway D))) False (PDict d), sha256 (gd_std (ad_gateway D)) (jdump (float_repr (gd_std (ad_gateway D))) False (PDict d)))"

lemma trusted_Inr:
  assumes "trusted_context D i paths message s = (Inr u, t)"
  shows "\<exists>c. contract_from_message (gd_loads (ad_gateway D)) message = Inr c \<and> context_saved D i (context_fields paths c) t"
  using assms
  by (cases "contract_from_message (gd_loads (ad_gateway D)) message")
    (auto simp: trusted_context_def bnd_app Let_def context_saved_def context_fields_def [symmetric] dest: save_state_Inr)

lemma trusted_again:
  assumes "contract_from_message (gd_loads (ad_gateway D)) message = Inr c" "context_saved D i (context_fields paths c) s"
  shows "\<exists>cs. trusted_context D i paths message s = (Inr (), s\<lparr>oa_contexts := cs\<rparr>)"
proof -
  have "save_state D i ''context'' (context_fields paths c) (s\<lparr>oa_contexts := cs\<rparr>) = (Inr (), s\<lparr>oa_contexts := cs\<rparr>)" for cs
    using assms(2) by (intro save_state_again) (simp_all add: context_saved_def)
  then show ?thesis using assms(1)
    by (intro exI [of _ "AList.update i (context_fields paths c) (oa_contexts s)"]) (simp add: trusted_context_def bnd_app Let_def context_fields_def [symmetric])
qed

lemma launch_Inr:
  assumes "launch D i params f key s = (Inr b, t)"
  shows "find_binding i (oa_bindings t) = Some b \<and> bd_agent b = sf_agent f \<and> sb_key b = sf_key f \<and> bd_session_key b = key"
  using assms save_binding_Inr by (fastforce simp: launch_def Let_def elim!: bnd_InrE split: prod.splits)

text \<open>The session a submission names, or the one made for it.\<close>

definition session_of :: "pydict \<Rightarrow> submit_fields \<Rightarrow> string \<Rightarrow> pyval" where
  "session_of p f i = (let requested = dget p ''sessionKey'' in
     if truthy requested then requested else PStr (''agent:'' @ sf_agent f @ '':fast-gateway-'' @ i))"

lemma submit_Inr:
  assumes "submit D i p s = (Inr b, t)"
  shows "\<exists>f paths c k. i \<noteq> [] \<and> validate_submit p = Inr f \<and> approved_paths_of p = Inr paths \<and>
    contract_from_message (gd_loads (ad_gateway D)) (sf_message f) = Inr c \<and> context_saved D i (context_fields paths c) t \<and>
    check_session (session_of p f i) (sf_agent f) = Inr k \<and> find_binding i (oa_bindings t) = Some b \<and>
    bd_agent b = sf_agent f \<and> sb_key b = sf_key f \<and> bd_session_key b = k"
proof -
  from assms have "i \<noteq> []" by (auto simp: submit_def)
  with assms obtain f paths s1 k where v: "validate_submit p = Inr f" "approved_paths_of p = Inr paths"
      and c: "trusted_context D i paths (sf_message f) s = (Inr (), s1)" "check_session (session_of p f i) (sf_agent f) = Inr k"
      and rest: "(case find_binding i (oa_bindings s1) of
        Some b \<Rightarrow> lift (resubmitted b f k)
      | None \<Rightarrow> launch D i (AList.update ''sessionKey'' (PStr k) (AList.delete ''_trustedValidationContext'' p)) f k) s1 = (Inr b, t)"
    by (auto simp: submit_def Let_def session_of_def elim!: bnd_InrE)
  obtain c' where c': "contract_from_message (gd_loads (ad_gateway D)) (sf_message f) = Inr c'" "context_saved D i (context_fields paths c') s1"
    using trusted_Inr [OF c(1)] by blast
  have "written s1 t \<and> find_binding i (oa_bindings t) = Some b \<and> bd_agent b = sf_agent f \<and> sb_key b = sf_key f \<and> bd_session_key b = k"
  proof (cases "find_binding i (oa_bindings s1)")
    case None
    with rest have l: "launch D i (AList.update ''sessionKey'' (PStr k) (AList.delete ''_trustedValidationContext'' p)) f k s1 = (Inr b, t)" by simp
    have "guar written (launch D i params f k)" for params unfolding launch_def Let_def by (intro written_rules)
    from guarD [OF this, of s1 "AList.update ''sessionKey'' (PStr k) (AList.delete ''_trustedValidationContext'' p)"] l
    show ?thesis using launch_Inr [OF l] by simp
  next
    case (Some x)
    with rest show ?thesis by (cases "resubmitted x f k") (auto simp: written.R_refl resubmitted_def need_def split: if_split_asm)
  qed
  moreover have "context_saved D i (context_fields paths c') t" using c'(2) calculation by (simp add: context_saved_def written_def)
  ultimately show ?thesis using \<open>i \<noteq> []\<close> v c(2) c'(1) by blast
qed

text \<open>C12: a repeated submission sends nothing. Once a core run has been submitted, the same submission, at any later time and after
  any other calls, succeeds with the binding of the first one, whatever its status is by then, talks to no gateway, and
  changes neither a table nor a saved input.\<close>

theorem repeated_submit_sends_nothing:
  assumes "submit D i p s = (Inr b, t)"
  shows "\<exists>st u'. submit D i p (adapter_run D calls t) = (Inr (b\<lparr>sb_status := st\<rparr>), u') \<and> oa_rpc u' = oa_rpc (adapter_run D calls t) \<and>
    oa_bindings u' = oa_bindings (adapter_run D calls t) \<and> oa_prepared u' = oa_prepared (adapter_run D calls t) \<and>
    oa_states u' = oa_states (adapter_run D calls t)"
proof -
  let ?u = "adapter_run D calls t"
  obtain f paths c k where f: "i \<noteq> []" "validate_submit p = Inr f" "approved_paths_of p = Inr paths"
    "contract_from_message (gd_loads (ad_gateway D)) (sf_message f) = Inr c" "context_saved D i (context_fields paths c) t"
    "check_session (session_of p f i) (sf_agent f) = Inr k" "find_binding i (oa_bindings t) = Some b"
    "bd_agent b = sf_agent f" "sb_key b = sf_key f" "bd_session_key b = k"
    using submit_Inr [OF assms] by blast
  obtain st where st: "find_binding i (oa_bindings ?u) = Some (b\<lparr>sb_status := st\<rparr>)" using steps_binding [OF run_steps f(7)] by blast
  have "context_saved D i (context_fields paths c) ?u" using f(5) run_written [of t D calls] by (simp add: context_saved_def written_def)
  from trusted_again [OF f(4) this] obtain cs where "trusted_context D i paths (sf_message f) ?u = (Inr (), ?u\<lparr>oa_contexts := cs\<rparr>)" by blast
  then have "submit D i p ?u = (Inr (b\<lparr>sb_status := st\<rparr>), ?u\<lparr>oa_contexts := cs\<rparr>)"
    using f st by (simp add: submit_def bnd_app Let_def session_of_def resubmitted_def)
  then show ?thesis by auto
qed

end
