(* ===== verification/AdapterResults.thy ===== *)
theory AdapterResults
  imports AdapterSafety
begin

text \<open>
  What a result of the adapter is worth: which texts count as said after the submission, that a result that passes was
  validated, that a settled outcome stays what it is, and what a cancellation rests on.
\<close>

section \<open>The watermark\<close>

lemma find_last_split: "find_last P xs = Some x \<Longrightarrow> \<exists>ys zs. xs = ys @ x # zs \<and> P x \<and> \<not> list_ex P zs"
proof (induction xs)
  case (Cons y xs)
  show ?case
  proof (cases "find_last P xs")
    case None
    with Cons.prems have "y = x" "P x" by (simp_all split: if_split_asm)
    with None show ?thesis by (intro exI [of _ "[]"] exI [of _ xs]) (simp add: find_last_None list_ex_iff)
  next
    case (Some z)
    with Cons obtain ys zs where "xs = ys @ x # zs \<and> P x \<and> \<not> list_ex P zs" by auto
    then show ?thesis by (intro exI [of _ "y # ys"] exI [of _ zs]) simp
  qed
qed simp

text \<open>The preparation that a reading of the history gives.\<close>

definition marks :: "pyval list \<Rightarrow> preparation \<Rightarrow> bool" where
  "marks old q \<longleftrightarrow> capture_watermark [(''messages'', PList old)] = Inr (pp_seq q, pp_message q, pp_empty q)"

lemma marks_cases:
  assumes "marks old q"
  shows "(pp_empty q \<and> \<not> list_ex assistant old) \<or>
    (\<exists>ys m zs. old = ys @ PDict m # zs \<and> assistant (PDict m) \<and> \<not> list_ex assistant zs \<and> \<not> pp_empty q \<and>
       message_cursor m = (pp_seq q, pp_message q))"
proof (cases "find_last assistant old")
  case None
  with assms show ?thesis by (simp add: marks_def capture_watermark_def find_last_None list_ex_iff)
next
  case (Some v)
  from find_last_split [OF this] obtain ys zs where v: "old = ys @ v # zs" "assistant v" "\<not> list_ex assistant zs" by blast
  then obtain m where "v = PDict m" by (cases v) (auto simp: assistant_def)
  with v Some assms show ?thesis by (auto simp: marks_def capture_watermark_def split: prod.split_asm)
qed

lemma own_mark: "message_cursor m = (pp_seq q, pp_message q) \<Longrightarrow>
    at_mark q (PDict m) \<longleftrightarrow> pp_seq q \<noteq> None \<or> pp_message q \<noteq> None"
  by (auto simp: at_mark_def split: option.split)

lemma dropWhile_at: "\<forall>y \<in> set ys. \<not> P y \<Longrightarrow> P x \<Longrightarrow> dropWhile (\<lambda>v. \<not> P v) (ys @ x # zs) = x # zs"
  by (induction ys) auto


section \<open>Results that pass\<close>

lemma require_cases: "require_binding i s = (r, u) \<Longrightarrow> u = s \<and> (\<forall>b. r = Inr b \<longrightarrow> find_binding i (oa_bindings s) = Some b)"
  by (auto simp: require_binding_def bnd_app split: option.splits sum.splits)

lemma on_rpc_Inr: "on_rpc m s = (Inr x, t) \<Longrightarrow> \<exists>g. m (oa_rpc s) = (Inr x, g) \<and> t = s\<lparr>oa_rpc := g\<rparr>"
  by (auto simp: on_rpc_def split: prod.splits)

text \<open>An outcome that no branch of the code makes up by itself.\<close>

definition judged :: "adapter_outcome \<Rightarrow> bool" where
  "judged x \<longleftrightarrow> oc_status x = PASS \<or> oc_raw x \<noteq> None"

lemma ended_Inr: "ended b st why s = (Inr x, t) \<Longrightarrow> x = plain_outcome st why"
  by (auto simp: ended_def elim!: bnd_InrE)

lemma not_judged: "st \<noteq> PASS \<Longrightarrow> \<not> judged (plain_outcome st why)"
  by (simp add: judged_def plain_outcome_def)

text \<open>What the gateway has said when a result is judged.\<close>

record finished =
  fi_response :: pydict
  fi_history :: pydict
  fi_mark :: preparation
  fi_new :: pydict

definition finished_by ::
  "'w adapter_deps \<Rightarrow> string \<Rightarrow> rat \<Rightarrow> stored_binding \<Rightarrow> 'w adapter \<Rightarrow> 'w gateway \<Rightarrow> finished \<Rightarrow> bool" where
  "finished_by D i timeout b s g' z \<longleftrightarrow>
     (\<exists>g. request_fresh (ad_gateway D) (observe_event D b) ''agent.wait'' (wait_params b timeout) (timeout + 5) (oa_rpc s) = (Inr (fi_response z), g) \<and>
        request_fresh (ad_gateway D) no_handler ''chat.history'' (history_params (bd_session_key b) (ad_limit D)) (min (timeout + 5) 30) g =
          (Inr (fi_history z), g')) \<and>
     (dget (fi_response z) ''runId'' = PNone \<or> dget (fi_response z) ''runId'' = PStr (bd_openclaw_run b)) \<and>
     text_or (gd_std (ad_gateway D)) (dget (fi_response z) ''status'') = ''ok'' \<and>
     find_preparation i (oa_prepared s) = Some (fi_mark z) \<and> history_after (fi_mark z) (fi_history z) = Inr (fi_new z)"

lemma result_collected:
  assumes "finished_run_result D i b response timeout s = (Inr x, t)" "judged x"
  shows "\<exists>history g q new. request_fresh (ad_gateway D) no_handler ''chat.history'' (history_params (bd_session_key b) (ad_limit D))
      (min (timeout + 5) 30) (oa_rpc s) = (Inr history, g) \<and> find_preparation i (oa_prepared s) = Some q \<and>
    history_after q history = Inr new \<and> collect_result D i b response new (s\<lparr>oa_rpc := g\<rparr>) = (Inr x, t)"
proof -
  from assms(1) obtain history u where h: "on_rpc (request_fresh (ad_gateway D) no_handler ''chat.history''
      (history_params (bd_session_key b) (ad_limit D)) (min (timeout + 5) 30)) s = (Inr history, u)"
    and rest: "(case find_preparation i (oa_prepared u) of
       None \<Rightarrow> ended b FAIL ''HISTORY_WATERMARK_UNVERIFIABLE''
     | Some q \<Rightarrow> (case history_after q history of Inl e \<Rightarrow> ended b FAIL (exn_text e) | Inr new \<Rightarrow> collect_result D i b response new)) u = (Inr x, t)"
    unfolding finished_run_result_def by (auto elim!: bnd_InrE)
  from on_rpc_Inr [OF h] rest assms(2) show ?thesis
    by (auto split: option.splits sum.splits dest!: ended_Inr simp: not_judged)
qed

lemma wait_judged:
  assumes "wait_run D i timeout s = (Inr x, t)" "find_binding i (oa_bindings s) = Some b" "\<not> terminal (sb_status b)" "judged x"
  shows "\<exists>g z. finished_by D i timeout b s g z \<and> collect_result D i b (fi_response z) (fi_new z) (s\<lparr>oa_rpc := g\<rparr>) = (Inr x, t)"
proof -
  from assms(1) obtain b' u where r: "require_binding i s = (Inr b', u)" and rest: "(if terminal (sb_status b') then known_outcome D i b' else
     bnd (on_rpc (request_fresh (ad_gateway D) (observe_event D b') ''agent.wait'' (wait_params b' timeout) (timeout + 5))) (\<lambda>response.
     judge_answer D i b' response timeout)) u = (Inr x, t)" unfolding wait_run_def by (auto elim!: bnd_InrE)
  from require_cases [OF r] assms(2) have b': "b' = b" "u = s" by auto
  with rest assms(3) obtain response v where w: "on_rpc (request_fresh (ad_gateway D) (observe_event D b) ''agent.wait'' (wait_params b timeout)
      (timeout + 5)) s = (Inr response, v)" and j: "judge_answer D i b response timeout v = (Inr x, t)" by (auto elim!: bnd_InrE)
  from j assms(4) have f: "dget response ''runId'' = PNone \<or> dget response ''runId'' = PStr (bd_openclaw_run b)"
      "text_or (gd_std (ad_gateway D)) (dget response ''status'') = ''ok''" "finished_run_result D i b response timeout v = (Inr x, t)"
    by (auto simp: judge_answer_def Let_def not_judged split: if_split_asm dest!: ended_Inr elim!: bnd_InrE)
  from on_rpc_Inr [OF w] obtain g where g: "request_fresh (ad_gateway D) (observe_event D b) ''agent.wait'' (wait_params b timeout) (timeout + 5) (oa_rpc s) =
      (Inr response, g)" "v = s\<lparr>oa_rpc := g\<rparr>" by blast
  from result_collected [OF f(3) assms(4)] g(2) obtain history g' q new where h:
      "request_fresh (ad_gateway D) no_handler ''chat.history'' (history_params (bd_session_key b) (ad_limit D)) (min (timeout + 5) 30) g = (Inr history, g')"
      "find_preparation i (oa_prepared s) = Some q" "history_after q history = Inr new"
      "collect_result D i b response new (s\<lparr>oa_rpc := g'\<rparr>) = (Inr x, t)" by auto
  show ?thesis
    by (intro exI [of _ g'] exI [of _ "\<lparr>fi_response = response, fi_history = history, fi_mark = q, fi_new = new\<rparr>"])
      (use f g h in \<open>auto simp: finished_by_def\<close>)
qed

text \<open>The payload is judged, or what the recovery made of it.\<close>

definition refused :: "string \<Rightarrow> bool" where
  "refused why \<longleftrightarrow> why = ''MISSING_RESULT'' \<or> rejecting why"

definition validated :: "'w adapter_deps \<Rightarrow> string \<Rightarrow> stored_binding \<Rightarrow> pydict \<Rightarrow> adapter_outcome \<Rightarrow> bool" where
  "validated D i b payload x \<longleftrightarrow>
     (\<exists>p v w w'. ad_validate D p w = (Inr v, w') \<and> oc_status x = vd_status v \<and> oc_reason x = vd_reason v \<and>
        oc_result x = (if refused (vd_reason v) then None else vd_result v) \<and>
        (p = payload \<or>
         (\<exists>f w w'. ad_recover D = Some f \<and> List.member (ad_recover_agents D) (bd_agent b) \<and>
            f payload (observed_run i b) w = (Inr (Some p), w') \<and> vd_result v \<noteq> None \<and> \<not> rejecting (vd_reason v))))"

lemma decide_Inr: "decide D p s = (Inr v, t) \<Longrightarrow> \<exists>w w'. ad_validate D p w = (Inr v, w')"
  by (auto simp: decide_def on_rpc_def gw_ask_def split: prod.splits)

lemma raw_judged: "oc_raw (judged_outcome raw v shown fe n rej) = raw"
  by (simp add: judged_outcome_def Let_def)

lemma validated_self:
  "ad_validate D payload w = (Inr v, w') \<Longrightarrow> validated D i b payload (judged_outcome raw v shown fe n rej)"
  unfolding validated_def by (intro exI [of _ payload] exI [of _ v]) (auto simp: judged_outcome_def refused_def Let_def)

lemma validated_other:
  assumes "ad_recover D = Some f" "List.member (ad_recover_agents D) (bd_agent b)" "f payload (observed_run i b) w = (Inr (Some p), w')"
    and "ad_validate D p w0 = (Inr v, w1)" "vd_result v \<noteq> None" "\<not> rejecting (vd_reason v)"
  shows "validated D i b payload (judged_outcome raw v shown fe n rej)"
  unfolding validated_def using assms
  by (intro exI [of _ p] exI [of _ v]) (auto simp: judged_outcome_def refused_def Let_def)

lemma asked: "attempt (on_rpc (gw_ask f)) s = (Inr r, u) \<Longrightarrow> \<exists>w w'. f w = (r, w')"
  by (auto simp: attempt_app on_rpc_def gw_ask_def split: prod.splits)

lemma recovered_validated:
  assumes "recover_format D f payload (observed_run i b) d s = (Inr (d', shown, rej), t)" "ad_recover D = Some f"
    and "List.member (ad_recover_agents D) (bd_agent b)" "ad_validate D payload w = (Inr d, w')"
  shows "validated D i b payload (judged_outcome raw d' shown2 fe n rej2)"
proof -
  from assms(1) obtain r u where r: "attempt (on_rpc (gw_ask (f payload (observed_run i b)))) s = (Inr r, u)"
    and rest: "(case r of
       Inl e \<Rightarrow> ret (d, vd_result d, ''RECOVERY_ERROR'')
     | Inr None \<Rightarrow> ret (d, vd_result d, ''RECOVERY_UNAVAILABLE'')
     | Inr (Some p) \<Rightarrow>
         bnd (decide D p) (\<lambda>again.
         let shown = (case vd_result again of None \<Rightarrow> vd_result d | Some x \<Rightarrow> Some x) in
         if vd_result again \<noteq> None \<and> \<not> rejecting (vd_reason again) then ret (again, shown, [])
         else ret (d, shown, if vd_reason again = [] then ''RECOVERY_VALIDATION_FAILED'' else vd_reason again))) u = (Inr (d', shown, rej), t)"
    unfolding recover_format_def by (rule bnd_InrE)
  show ?thesis
  proof (cases "d' = d")
    case True
    with validated_self [OF assms(4)] show ?thesis by simp
  next
    case False
    with rest obtain p v where p: "r = Inr (Some p)" "decide D p u = (Inr d', v)" "vd_result d' \<noteq> None" "\<not> rejecting (vd_reason d')"
      by (auto simp: Let_def split: sum.splits option.splits if_split_asm elim!: bnd_InrE) (metis)
    from asked [OF r] p(1) decide_Inr [OF p(2)] validated_other [OF assms(2,3)] p(3,4) show ?thesis by blast
  qed
qed

lemma judge_validated:
  assumes "judge_result D i b payload raw s = (Inr x, t)"
  shows "validated D i b payload x \<and> oc_raw x = raw"
proof -
  from assms obtain d u where d: "decide D payload s = (Inr d, u)" and rest: "(case ad_recover D of
       Some f \<Rightarrow>
         if List.member (ad_recover_agents D) (bd_agent b) \<and> format_failure (vd_reason d)
         then bnd (recover_format D f payload (observed_run i b) d) (\<lambda>(d', shown, rejection).
              ret (judged_outcome raw d' shown ''RESULT_FORMAT_ERROR'' 1 rejection))
         else ret (judged_outcome raw d (vd_result d) [] 0 [])
     | None \<Rightarrow> ret (judged_outcome raw d (vd_result d) [] 0 [])) u = (Inr x, t)"
    unfolding judge_result_def by (auto elim!: bnd_InrE)
  from decide_Inr [OF d] obtain w w' where v: "ad_validate D payload w = (Inr d, w')" by blast
  show ?thesis using rest validated_self [OF v, of i b] recovered_validated [OF _ _ _ v, of _ i b]
    by (auto simp: raw_judged split: option.splits if_split_asm prod.splits elim!: bnd_InrE)
qed

text \<open>The payload of a result: what \<open>agent.wait\<close> says, without anything that could pass for a result, overridden by the trusted
  context and by the messages behind the watermark.\<close>

lemma dget_merged_last: "dget (merged d [(k, v)]) k = v"
  by (simp add: merged_def dget_def update_conv)

lemma collect_judged:
  assumes "collect_result D i b response new s = (Inr x, t)" "bd_core_run b = i"
  shows "\<exists>context payload u. context_of D i s = (Inr context, s) \<and>
    payload = merged (merged (control_part response) context) [(''history'', PDict new)] \<and> dget payload ''history'' = PDict new \<and>
    validated D i b payload x \<and> oc_raw x = terminal_text new \<and> save_state D i ''outcome'' (outcome_dict x) u = (Inr (), snd (save_state D i ''outcome'' (outcome_dict x) u)) \<and>
    oa_states t = oa_states (snd (save_state D i ''outcome'' (outcome_dict x) u)) \<and>
    find_binding i (oa_bindings t) = Some (b\<lparr>sb_status := oc_status x\<rparr>)"
proof -
  from assms(1) obtain ctx s1 s2 u v where c: "context_of D i s = (Inr ctx, s1)"
    and j: "judge_result D i b (merged (merged (control_part response) ctx) [(''history'', PDict new)]) (terminal_text new) s2 = (Inr x, u)"
    and o: "save_state D i ''outcome'' (outcome_dict x) u = (Inr (), v)" and b: "save_binding (b\<lparr>sb_status := oc_status x\<rparr>) v = (Inr (), t)"
    unfolding collect_result_def Let_def by (auto elim!: bnd_InrE simp: set_status_def)
  have s1: "s1 = s" using c by (auto simp: context_of_def read_state_def bnd_app split: sum.splits)
  from b have "oa_states t = oa_states v" by (auto simp: save_binding_def bnd_app split: sum.splits)
  with save_binding_Inr [OF b] c s1 judge_validated [OF j] o assms(2) show ?thesis
    by (intro exI [of _ ctx] exI [of _ "merged (merged (control_part response) ctx) [(''history'', PDict new)]"] exI [of _ u])
      (simp add: dget_merged_last)
qed

lemma pass_validated:
  assumes "wait_run D i timeout s = (Inr x, t)" and "find_binding i (oa_bindings s) = Some b" and "\<not> terminal (sb_status b)"
    and "oc_status x = PASS"
  shows "\<exists>g z context payload.
    finished_by D i timeout b s g z \<and> context_of D i (s\<lparr>oa_rpc := g\<rparr>) = (Inr context, s\<lparr>oa_rpc := g\<rparr>) \<and>
    payload = merged (merged (control_part (fi_response z)) context) [(''history'', PDict (fi_new z))] \<and>
    dget payload ''history'' = PDict (fi_new z) \<and> validated D i b payload x \<and> oc_raw x = terminal_text (fi_new z) \<and>
    oa_states t (i, ''outcome'') \<noteq> None \<and> find_binding i (oa_bindings t) = Some (b\<lparr>sb_status := PASS\<rparr>)"
proof -
  have "judged x" using assms(4) by (simp add: judged_def)
  from wait_judged [OF assms(1-3) this] obtain g z where z: "finished_by D i timeout b s g z"
    "collect_result D i b (fi_response z) (fi_new z) (s\<lparr>oa_rpc := g\<rparr>) = (Inr x, t)" by blast
  have "bd_core_run b = i" using find_binding_Some [OF assms(2)] by blast
  from collect_judged [OF z(2) this] obtain ctx payload u where c: "context_of D i (s\<lparr>oa_rpc := g\<rparr>) = (Inr ctx, s\<lparr>oa_rpc := g\<rparr>)"
      "payload = merged (merged (control_part (fi_response z)) ctx) [(''history'', PDict (fi_new z))]"
      "dget payload ''history'' = PDict (fi_new z)" "validated D i b payload x" "oc_raw x = terminal_text (fi_new z)"
      "find_binding i (oa_bindings t) = Some (b\<lparr>sb_status := PASS\<rparr>)"
    and o: "save_state D i ''outcome'' (outcome_dict x) u = (Inr (), snd (save_state D i ''outcome'' (outcome_dict x) u))"
      "oa_states t = oa_states (snd (save_state D i ''outcome'' (outcome_dict x) u))" using assms(4) by auto
  from save_state_Inr [OF o(1)] o(2) have "oa_states t (i, ''outcome'') \<noteq> None" by simp
  with z(1) c show ?thesis by blast
qed

text \<open>A run passes on what it said, and on nothing else. When waiting for a run that was not settled yet answers PASS, the gateway
  has answered \<open>agent.wait\<close> for this very run with ok, the session's history was read after that, the watermark stored
  before the submission was found in it, and the validator passed the messages behind the watermark, or what the
  format recovery, enabled for this agent, made of them; whatever \<open>agent.wait\<close> called a result was dropped, the outcome
  holds the validator's result and reason, it is stored, and the binding is marked PASS.\<close>

theorem accepted_result_is_validated:
  assumes "wait_run D i timeout s = (Inr x, t)" and "find_binding i (oa_bindings s) = Some b" and "\<not> terminal (sb_status b)"
    and "oc_status x = PASS"
  shows "\<exists>g z context payload.
    finished_by D i timeout b s g z \<and> context_of D i (s\<lparr>oa_rpc := g\<rparr>) = (Inr context, s\<lparr>oa_rpc := g\<rparr>) \<and>
    payload = merged (merged (control_part (fi_response z)) context) [(''history'', PDict (fi_new z))] \<and>
    dget payload ''history'' = PDict (fi_new z) \<and> validated D i b payload x \<and> oc_raw x = terminal_text (fi_new z) \<and>
    oa_states t (i, ''outcome'') \<noteq> None \<and> find_binding i (oa_bindings t) = Some (b\<lparr>sb_status := PASS\<rparr>)"
  by (rule pass_validated [OF assms])

section \<open>Settled outcomes\<close>

lemma other_binding: "binding_step j bs cs \<Longrightarrow> j \<noteq> i \<Longrightarrow> find_binding i cs = find_binding i bs"
proof (induction rule: binding_step.induct)
  case (Bound b j bs)
  then have "find_binding i [b] = None" by (simp add: find_binding_def)
  then show ?case by (simp add: find_binding_append split: option.split)
next
  case (Marked j bs b st)
  then show ?case using find_binding_marked [OF Marked(1), of i st] by simp
qed

lemma known_same: "known_outcome D i b s = (fst (known_outcome D i b s), s)"
  by (simp add: known_outcome_def read_state_def bnd_app split: sum.split)

lemma wait_settled:
  assumes "find_binding i (oa_bindings s) = Some b" "terminal (sb_status b)"
  shows "snd (wait_run D i timeout s) = s"
proof -
  obtain r u where r: "require_binding i s = (r, u)" by (rule prod.exhaust)
  from require_cases [OF r] assms r show ?thesis
    using known_same [of D i b s] by (cases r) (auto simp: wait_run_def bnd_app dest: arg_cong [of _ _ snd])
qed

lemma hold_still: "guar steady m \<Longrightarrow> holds (\<lambda>s. oa_bindings s = bs) m (\<lambda>s. oa_bindings s = bs) (\<lambda>x s. oa_bindings s = bs)"
  by (erule holds_frame) (auto simp: steady_def)

lemma submit_bound:
  assumes "find_binding i (oa_bindings s) = Some b"
  shows "oa_bindings (snd (submit D i p s)) = oa_bindings s"
proof -
  let ?P = "\<lambda>u. oa_bindings u = oa_bindings s"
  have last_step: "holds ?P (bnd (gets (\<lambda>s. find_binding i (oa_bindings s))) (\<lambda>known. case known of
      Some b \<Rightarrow> lift (resubmitted b f k) | None \<Rightarrow> launch D i params f k)) ?P (\<lambda>x. ?P)" for f k params
    using assms by (auto simp: holds_def bnd_app split: sum.split)
  have "holds ?P (submit D i p) ?P (\<lambda>x. ?P)"
    unfolding submit_def Let_def
    by (intro holds_if last_step holds_bnd [OF hold_still] hold_still steady_ops steady_rules)
  then show ?thesis by (simp add: holds_def)
qed

lemma settled_step:
  assumes "find_binding i (oa_bindings s) = Some b" "terminal (sb_status b)" "c \<noteq> Cancel i"
  shows "find_binding i (oa_bindings (adapter_step D c s)) = Some b"
proof (cases "called c = i")
  case False
  with step_moves [of c s D] assms(1) other_binding show ?thesis by (fastforce simp: moved_def)
next
  case True
  with assms show ?thesis
    using wait_settled [OF assms(1,2), of D] submit_bound [OF assms(1), of D] guarD [OF steady_revalidate, of s D i]
    by (cases c) (auto simp: steady_def)
qed

lemma settled_run:
  "find_binding i (oa_bindings s) = Some b \<Longrightarrow> terminal (sb_status b) \<Longrightarrow> Cancel i \<notin> set calls \<Longrightarrow>
     find_binding i (oa_bindings (adapter_run D calls s)) = Some b"
  unfolding adapter_run_def
  by (induction calls arbitrary: s) (auto simp: settled_step)

lemma require_again:
  assumes "require_binding i s = (Inr b, v)" "find_binding i (oa_bindings u) = Some (b\<lparr>sb_status := st\<rparr>)"
  shows "require_binding i u = (Inr (b\<lparr>sb_status := st\<rparr>), u)"
  using assms by (auto simp: require_binding_def bnd_app split: option.splits sum.splits)

lemma known_cong:
  "oa_states u (i, ''outcome'') = oa_states s (i, ''outcome'') \<Longrightarrow> fst (known_outcome D i b u) = fst (known_outcome D i b s)"
  by (simp add: known_outcome_def read_state_def get_state_def bnd_app split: sum.split)

lemma wait_known:
  "require_binding i u = (Inr b, u) \<Longrightarrow> terminal (sb_status b) \<Longrightarrow> wait_run D i timeout u = (fst (known_outcome D i b u), u)"
  using known_same [of D i b u] by (simp add: wait_run_def bnd_app)

lemma saved_again: "\<forall>k. dget d k = dget (outcome_dict x) k \<Longrightarrow> saved_outcome (oc_status x) d = x"
proof -
  assume d: "\<forall>k. dget d k = dget (outcome_dict x) k"
  have r: "as_dict (opt_value PDict y) = y" "as_str (opt_value PStr z) = z" for y z by (cases y; cases z; simp add: opt_value_def)+
  show ?thesis by (simp add: saved_outcome_def field_text_def d) (simp add: outcome_dict_def dget_def r)
qed

lemma known_saved:
  assumes "oa_states u (i, ''outcome'') = Some (raw, sha256 (gd_std (ad_gateway D)) raw)" "gd_loads (ad_gateway D) raw = Some (PDict d)"
    and "\<forall>k. dget d k = dget (outcome_dict x) k" "sb_status b = oc_status x"
  shows "fst (known_outcome D i b u) = Inr x"
proof -
  have "dget d ''status'' = PStr (status_value (oc_status x))" using assms(3) by (simp add: outcome_dict_def dget_def)
  with assms saved_again [OF assms(3)] show ?thesis by (simp add: known_outcome_def read_state_def get_state_def bnd_app)
qed

lemma known_judged: "fst (known_outcome D i b s) = Inr x \<Longrightarrow> oc_raw x \<noteq> None \<Longrightarrow> oa_states s (i, ''outcome'') \<noteq> None"
  by (cases "oa_states s (i, ''outcome'')") (auto simp: known_outcome_def read_state_def get_state_def bnd_app plain_outcome_def)

text \<open>C15: a settled result is the same for ever. When waiting has answered with what the session said and the run is over by that, then
  after any further calls other than a cancellation of this run, waiting again answers the very same outcome, without
  talking to the gateway and without changing anything. \<open>json.loads\<close> is assumed to give back the fields of the
  outcome that was written.\<close>

theorem settled_outcome_is_stable:
  assumes "wait_run D i timeout s = (Inr x, t)" and "oc_raw x \<noteq> None" and "terminal (oc_status x)" and "Cancel i \<notin> set calls"
    and "gd_loads (ad_gateway D) (jdump (float_repr (gd_std (ad_gateway D))) False (PDict (outcome_dict x))) = Some (PDict d)"
    and "\<forall>k. dget d k = dget (outcome_dict x) k"
  shows "wait_run D i timeout' (adapter_run D calls t) = (Inr x, adapter_run D calls t)"
proof -
  let ?u = "adapter_run D calls t"
  from assms(1) obtain b v where r: "require_binding i s = (Inr b, v)" unfolding wait_run_def by (auto elim!: bnd_InrE)
  from require_cases [OF r] have b: "find_binding i (oa_bindings s) = Some b" "v = s" by auto
  have kept: "oa_states t (i, ''outcome'') = Some row \<Longrightarrow> oa_states ?u (i, ''outcome'') = Some row" for row
    using run_written [of t D calls] unfolding written_def by blast
  show ?thesis
  proof (cases "terminal (sb_status b)")
    case True
    with wait_known [of i s b D timeout] r b(2) assms(1) have t: "t = s" "fst (known_outcome D i b s) = Inr x" by auto
    from settled_run [OF b(1) True assms(4)] t(1) have u: "find_binding i (oa_bindings ?u) = Some (b\<lparr>sb_status := sb_status b\<rparr>)" by simp
    from known_judged [OF t(2) assms(2)] t(1) kept have "oa_states ?u (i, ''outcome'') = oa_states s (i, ''outcome'')" by fastforce
    from known_cong [OF this, of D b] t(2) wait_known [OF require_again [OF r u], of D timeout'] True show ?thesis by simp
  next
    case False
    from assms(2) have "judged x" by (simp add: judged_def)
    from wait_judged [OF assms(1) b(1) False this] obtain g and z :: finished where
      "collect_result D i b (fi_response z) (fi_new z) (s\<lparr>oa_rpc := g\<rparr>) = (Inr x, t)" by blast
    from collect_judged [OF this] find_binding_Some [OF b(1)] obtain w where
        o: "save_state D i ''outcome'' (outcome_dict x) w = (Inr (), snd (save_state D i ''outcome'' (outcome_dict x) w))"
        "oa_states t = oa_states (snd (save_state D i ''outcome'' (outcome_dict x) w))"
      and t: "find_binding i (oa_bindings t) = Some (b\<lparr>sb_status := oc_status x\<rparr>)" by auto
    from settled_run [OF t _ assms(4)] assms(3) have u: "find_binding i (oa_bindings ?u) = Some (b\<lparr>sb_status := oc_status x\<rparr>)" by simp
    from save_state_Inr [OF o(1)] o(2) kept have "oa_states ?u (i, ''outcome'') =
      Some (jdump (float_repr (gd_std (ad_gateway D))) False (PDict (outcome_dict x)),
        sha256 (gd_std (ad_gateway D)) (jdump (float_repr (gd_std (ad_gateway D))) False (PDict (outcome_dict x))))" by simp
    from known_saved [OF this assms(5,6), of "b\<lparr>sb_status := oc_status x\<rparr>"] wait_known [OF require_again [OF r u], of D timeout'] assms(3)
    show ?thesis by simp
  qed
qed

section \<open>Cancelling\<close>

text \<open>C16: a run is called cancelled only on the word of the gateway. A cancellation that succeeds marks the binding of the core run
  CANCELLED and nothing else of it, and the abort request sent for it was answered with a confirmation, or with one of
  the codes that say the run is over; one that fails leaves all bindings as they are.\<close>

theorem cancel_needs_confirmation:
  "(\<forall>b' t. cancel_run D i s = (Inr b', t) \<longrightarrow>
     (\<exists>b r u. find_binding i (oa_bindings s) = Some b \<and> abort_run D b s = (r, u) \<and> b' = b\<lparr>sb_status := CANCELLED\<rparr> \<and>
        find_binding i (oa_bindings t) = Some b' \<and>
        (case r of Inr d \<Rightarrow> abort_confirmed d (bd_openclaw_run b) = Inr True | Inl e \<Rightarrow> already_finished e))) \<and>
   (\<forall>e t. cancel_run D i s = (Inl e, t) \<longrightarrow> oa_bindings t = oa_bindings s)"
proof (intro conjI allI impI)
  fix b' t
  assume "cancel_run D i s = (Inr b', t)"
  then obtain b r v u where r: "require_binding i s = (Inr b, v)" and a: "attempt (abort_run D b) v = (Inr r, u)"
    and rest: "(case r of
       Inl e \<Rightarrow> if already_finished e then set_status b CANCELLED else raise e
     | Inr d \<Rightarrow> bnd (lift (abort_confirmed d (bd_openclaw_run b))) (\<lambda>sure.
         if sure then set_status b CANCELLED else raise (contract_error ''OpenClaw did not confirm abort''))) u = (Inr b', t)"
    unfolding cancel_run_def by (auto elim!: bnd_InrE)
  from require_cases [OF r] have b: "v = s" "find_binding i (oa_bindings s) = Some b" by auto
  with find_binding_Some have i: "bd_core_run b = i" by blast
  have marked: "b' = b\<lparr>sb_status := CANCELLED\<rparr> \<and> find_binding i (oa_bindings t) = Some b'" if "set_status b CANCELLED u = (Inr b', t)"
    using that i save_binding_Inr by (fastforce simp: set_status_def elim!: bnd_InrE)
  from a b(1) have ab: "abort_run D b s = (r, u)" by (auto simp: attempt_app split: prod.splits)
  from rest have "set_status b CANCELLED u = (Inr b', t) \<and>
      (case r of Inr d \<Rightarrow> abort_confirmed d (bd_openclaw_run b) = Inr True | Inl e \<Rightarrow> already_finished e)"
    by (cases r) (auto split: if_split_asm elim!: bnd_InrE)
  with marked ab b show "\<exists>b r u. find_binding i (oa_bindings s) = Some b \<and> abort_run D b s = (r, u) \<and> b' = b\<lparr>sb_status := CANCELLED\<rparr> \<and>
      find_binding i (oa_bindings t) = Some b' \<and>
      (case r of Inr d \<Rightarrow> abort_confirmed d (bd_openclaw_run b) = Inr True | Inl e \<Rightarrow> already_finished e)" by blast
next
  fix e t
  assume c: "cancel_run D i s = (Inl e, t)"
  obtain r u where r: "require_binding i s = (r, u)" by (rule prod.exhaust)
  show "oa_bindings t = oa_bindings s"
  proof (cases r)
    case (Inr b)
    obtain y v where a: "abort_run D b s = (y, v)" by (rule prod.exhaust)
    have st: "set_status b CANCELLED v = (Inl x, w) \<Longrightarrow> oa_bindings w = oa_bindings v" for x w
      by (auto simp: set_status_def save_binding_def bnd_app split: sum.splits)
    from guarD [OF steady_abort, of s D b] a have "oa_bindings v = oa_bindings s" by (simp add: steady_def)
    with c r Inr a require_cases [OF r] st show ?thesis
      by (cases y) (auto simp: cancel_run_def bnd_app attempt_app split: if_split_asm sum.splits dest!: st)
  qed (use c r require_cases [OF r] in \<open>auto simp: cancel_run_def bnd_app\<close>)
qed

end
