(* ===== verification/EngineAdapter.thy ===== *)
theory EngineAdapter
  imports EnginePasses AdapterResults
begin

text \<open>
  The engine on top of the adapter, as \<^verbatim>\<open>production_runtime.py\<close> and \<^verbatim>\<open>ubuntu_transport.py\<close> put them together: the world of
  the engine is the state of the adapter, beside a list of the waits that were made, which nothing reads.
\<close>

section \<open>Failed and successful waits\<close>

text \<open>A call of the adapter that fails leaves the bindings as they are.\<close>

definition clean :: "('w adapter, 'a) op \<Rightarrow> bool" where
  "clean m \<longleftrightarrow> (\<forall>s e t. m s = (Inl e, t) \<longrightarrow> oa_bindings t = oa_bindings s)"

lemma clean_steady: "guar steady m \<Longrightarrow> clean m"
  unfolding clean_def guar_def steady_def by (metis snd_conv)

lemma clean_bnd:
  assumes "guar steady m" "\<And>x. clean (f x)" shows "clean (bnd m f)"
  unfolding clean_def
proof (intro allI impI)
  fix s e t
  assume m: "bnd m f s = (Inl e, t)"
  obtain r u where r: "m s = (r, u)" by (rule prod.exhaust)
  with assms(1) have "oa_bindings u = oa_bindings s" unfolding guar_def steady_def by (metis snd_conv)
  with m r assms(2) show "oa_bindings t = oa_bindings s" by (cases r) (auto simp: bnd_app clean_def)
qed

lemma clean_status: "clean (bnd (set_status b st) (\<lambda>u. ret x))"
  by (auto simp: clean_def set_status_def save_binding_def bnd_app split: sum.splits prod.splits)

lemma clean_cases:
  "clean m \<Longrightarrow> clean n \<Longrightarrow> clean (if c then m else n)" "clean m \<Longrightarrow> (\<And>y. clean (f y)) \<Longrightarrow> clean (case v of None \<Rightarrow> m | Some y \<Rightarrow> f y)"
  "(\<And>z. clean (g z)) \<Longrightarrow> (\<And>y. clean (h y)) \<Longrightarrow> clean (case w of Inl z \<Rightarrow> g z | Inr y \<Rightarrow> h y)"
  by (auto split: option.split sum.split)

lemma clean_wait: "clean (wait_run D i timeout)"
  unfolding wait_run_def judge_answer_def finished_run_result_def collect_result_def ended_def Let_def
  by (intro clean_bnd clean_cases clean_status clean_steady steady_ops steady_rules)

lemma hold_mark:
  assumes "bd_core_run b = i"
  shows "holds P (bnd (set_status b (oc_status x)) (\<lambda>u. ret x)) (\<lambda>s. True)
    (\<lambda>y s. find_binding i (oa_bindings s) = Some (b\<lparr>sb_status := oc_status y\<rparr>))"
  using save_binding_Inr [of "b\<lparr>sb_status := oc_status x\<rparr>"] assms
  by (auto simp: holds_def set_status_def bnd_app split: prod.splits sum.splits)

lemma plain_status: "oc_status (plain_outcome st why) = st"
  by (simp add: plain_outcome_def)

definition marked :: "string \<Rightarrow> stored_binding \<Rightarrow> stored_binding list \<Rightarrow> adapter_outcome \<Rightarrow> 'w adapter \<Rightarrow> bool" where
  "marked i b bs x s \<longleftrightarrow> oa_bindings s = bs \<or> find_binding i (oa_bindings s) = Some (b\<lparr>sb_status := oc_status x\<rparr>)"

lemma mark_behind:
  "guar steady m \<Longrightarrow> (\<And>y. holds (\<lambda>u. oa_bindings u = bs) (f y) (\<lambda>u. True) Q) \<Longrightarrow> holds (\<lambda>u. oa_bindings u = bs) (bnd m f) (\<lambda>u. True) Q"
  by (rule holds_bnd [where Q = "\<lambda>y u. oa_bindings u = bs"], erule holds_frame) (auto simp: steady_def)

lemma mark_status:
  "bd_core_run b = i \<Longrightarrow> holds (\<lambda>u. oa_bindings u = bs) (bnd (set_status b (oc_status y)) (\<lambda>u. ret y)) (\<lambda>u. True) (marked i b bs)"
  using hold_mark [of b i "\<lambda>u. oa_bindings u = bs" y] by (auto simp: holds_def marked_def)

lemma mark_ended: "bd_core_run b = i \<Longrightarrow> holds (\<lambda>u. oa_bindings u = bs) (ended b st why) (\<lambda>u. True) (marked i b bs)"
  using mark_status [of b i bs "plain_outcome st why"] by (simp add: ended_def plain_status)

lemma mark_none: "holds (\<lambda>u. oa_bindings u = bs) (ret y) (\<lambda>u. True) (marked i b bs)"
  by (simp add: holds_def marked_def)

lemma mark_answer:
  "bd_core_run b = i \<Longrightarrow> holds (\<lambda>u. oa_bindings u = bs) (judge_answer D i b response timeout) (\<lambda>u. True) (marked i b bs)"
  unfolding judge_answer_def finished_run_result_def collect_result_def Let_def
  by (intro holds_if holds_option holds_sum mark_behind mark_ended mark_none mark_status steady_ops steady_rules)

lemma wait_marks:
  assumes "wait_run D i timeout s = (Inr x, t)" "find_binding i (oa_bindings s) = Some b" "\<not> terminal (sb_status b)"
  shows "oa_bindings t = oa_bindings s \<or> find_binding i (oa_bindings t) = Some (b\<lparr>sb_status := oc_status x\<rparr>)"
proof -
  have i: "bd_core_run b = i" using find_binding_Some [OF assms(2)] by blast
  from assms(1) obtain b' u where r: "require_binding i s = (Inr b', u)" and rest: "(if terminal (sb_status b') then known_outcome D i b' else
     bnd (on_rpc (request_fresh (ad_gateway D) (observe_event D b') ''agent.wait'' (wait_params b' timeout) (timeout + 5))) (\<lambda>response.
     judge_answer D i b' response timeout)) u = (Inr x, t)" unfolding wait_run_def by (auto elim!: bnd_InrE)
  from require_cases [OF r] assms(2) have b': "b' = b" "u = s" by auto
  have "holds (\<lambda>u. oa_bindings u = oa_bindings s)
    (bnd (on_rpc (request_fresh (ad_gateway D) (observe_event D b) ''agent.wait'' (wait_params b timeout) (timeout + 5))) (\<lambda>response.
     judge_answer D i b response timeout)) (\<lambda>u. True) (marked i b (oa_bindings s))"
    by (intro mark_behind mark_answer i steady_rules)
  with rest b' assms(3) show ?thesis by (auto simp: holds_def marked_def dest: spec [of _ s])
qed

lemma wait_unbound: "find_binding i (oa_bindings s) = None \<Longrightarrow> \<exists>e. wait_run D i timeout s = (Inl e, s)"
  by (auto simp: wait_run_def require_binding_def bnd_app)

lemma wait_settled_status:
  assumes "wait_run D i timeout s = (Inr x, t)" "find_binding i (oa_bindings s) = Some b" "terminal (sb_status b)"
  shows "oc_status x = sb_status b"
proof -
  from assms(1) obtain b' u where r: "require_binding i s = (Inr b', u)" unfolding wait_run_def by (auto elim!: bnd_InrE)
  from require_cases [OF r] assms(2) r have "require_binding i s = (Inr b, s)" by auto
  from wait_known [OF this assms(3), of D timeout] assms(1) have "fst (known_outcome D i b s) = Inr x" by simp
  then show ?thesis
    by (auto simp: known_outcome_def read_state_def bnd_app plain_outcome_def saved_outcome_def split: sum.splits option.splits if_split_asm)
qed

lemma find_single: "find_binding j [b] = (if bd_core_run b = j then Some b else None)"
  by (simp add: find_binding_def)

lemma submit_running:
  assumes "find_binding j (oa_bindings (snd (submit D i p s))) = Some b" "sb_status b \<noteq> RUNNING"
  shows "find_binding j (oa_bindings s) = Some b"
proof (cases "find_binding i (oa_bindings s)")
  case (Some c)
  with assms(1) submit_bound [OF Some, of D p] show ?thesis by simp
next
  case None
  from submit_moves [of i s D p] show ?thesis
    unfolding moved_def
  proof
    assume "binding_step i (oa_bindings s) (oa_bindings (snd (submit D i p s)))"
    then show ?thesis using None assms
      by (cases rule: binding_step.cases) (auto simp: find_binding_append find_single split: option.splits if_split_asm)
  qed (use assms in simp)
qed

definition only_cancelled :: "stored_binding list \<Rightarrow> 'w adapter \<Rightarrow> bool" where
  "only_cancelled bs u \<longleftrightarrow> (\<forall>j b. find_binding j (oa_bindings u) = Some b \<longrightarrow> sb_status b \<noteq> CANCELLED \<longrightarrow> find_binding j bs = Some b)"

lemma cancel_behind:
  "guar steady m \<Longrightarrow> (\<And>y. holds (\<lambda>u. oa_bindings u = bs) (f y) (only_cancelled bs) Q) \<Longrightarrow>
     holds (\<lambda>u. oa_bindings u = bs) (bnd m f) (only_cancelled bs) Q"
  by (rule holds_bnd [where Q = "\<lambda>y u. oa_bindings u = bs"], erule holds_frame) (auto simp: steady_def only_cancelled_def)

lemma cancel_mark:
  assumes "find_binding i bs = Some b"
  shows "holds (\<lambda>u. oa_bindings u = bs) (set_status b CANCELLED) (only_cancelled bs) (\<lambda>x. only_cancelled bs)"
  using find_binding_Some [OF assms] find_binding_marked [OF assms, of _ CANCELLED] assms
  by (auto simp: holds_def set_status_def save_binding_def bnd_app put_binding_def need_def only_cancelled_def
      split: sum.splits if_split_asm)

lemma cancel_raise: "holds (\<lambda>u. oa_bindings u = bs) (raise e) (only_cancelled bs) Q"
  by (simp add: holds_def only_cancelled_def)

lemma cancel_require:
  "holds (\<lambda>u. oa_bindings u = bs) (require_binding i) (only_cancelled bs) (\<lambda>b u. oa_bindings u = bs \<and> find_binding i bs = Some b)"
  unfolding holds_def only_cancelled_def
proof (intro allI impI)
  fix u :: "'a adapter"
  assume "oa_bindings u = bs"
  moreover obtain r v where "require_binding i u = (r, v)" by (rule prod.exhaust)
  ultimately show "(\<forall>j b. find_binding j (oa_bindings (snd (require_binding i u))) = Some b \<longrightarrow> sb_status b \<noteq> CANCELLED \<longrightarrow> find_binding j bs = Some b) \<and>
      (\<forall>x. fst (require_binding i u) = Inr x \<longrightarrow> oa_bindings (snd (require_binding i u)) = bs \<and> find_binding i bs = Some x)"
    using require_cases [of i u r v] by auto
qed

lemma cancel_only: "holds (\<lambda>u. oa_bindings u = bs) (cancel_run D i) (only_cancelled bs) (\<lambda>x. only_cancelled bs)"
  unfolding cancel_run_def
  by (intro holds_bnd [OF cancel_require] holds_fact cancel_behind holds_sum holds_if cancel_mark cancel_raise steady_ops steady_rules)

lemma cancel_cancelled:
  assumes "find_binding j (oa_bindings (snd (cancel_run D i s))) = Some b" "sb_status b \<noteq> CANCELLED"
  shows "find_binding j (oa_bindings s) = Some b"
  using cancel_only [of "oa_bindings s" D i] assms by (auto simp: holds_def only_cancelled_def)

section \<open>The composition\<close>

text \<open>The payload the engine submits, and the adapter as its transport.\<close>

definition payload_dict :: "submit_payload \<Rightarrow> pydict" where
  "payload_dict p =
     [(''message'', PStr (sp_message p)), (''agentId'', PStr (sp_agent p)), (''idempotencyKey'', PStr (sp_key p)),
      (''timeout'', PFloat (sp_timeout p)), (''_trustedValidationContext'', PDict [(''approved_paths'', str_list (sp_approved p))])] @
     (case sp_session_key p of None \<Rightarrow> [] | Some k \<Rightarrow> [(''sessionKey'', PStr k)])"

record 'w waited =
  wt_run :: string
  wt_timeout :: rat
  wt_before :: "'w adapter"
  wt_answer :: "adapter_outcome res"
  wt_after :: "'w adapter"

type_synonym 'w stage = "'w waited list \<times> 'w adapter"

definition told :: "stored_binding res \<Rightarrow> run_binding res" where
  "told r = (case r of Inl e \<Rightarrow> Inl e | Inr b \<Rightarrow> Inr (run_binding.truncate b))"

definition stage_submit :: "'w adapter_deps \<Rightarrow> string \<Rightarrow> submit_payload \<Rightarrow> 'w stage \<Rightarrow> run_binding res \<times> 'w stage" where
  "stage_submit A i p v = (case submit A i (payload_dict p) (snd v) of (r, t) \<Rightarrow> (told r, fst v, t))"

definition stage_wait :: "'w adapter_deps \<Rightarrow> string \<Rightarrow> rat \<Rightarrow> 'w stage \<Rightarrow> adapter_outcome res \<times> 'w stage" where
  "stage_wait A i x v = (case wait_run A i x (snd v) of (r, t) \<Rightarrow>
     (r, fst v @ [\<lparr>wt_run = i, wt_timeout = x, wt_before = snd v, wt_answer = r, wt_after = t\<rparr>], t))"

definition stage_cancel :: "'w adapter_deps \<Rightarrow> string \<Rightarrow> 'w stage \<Rightarrow> run_binding res \<times> 'w stage" where
  "stage_cancel A i v = (case cancel_run A i (snd v) of (r, t) \<Rightarrow> (told r, fst v, t))"

definition over_adapter :: "'w adapter_deps \<Rightarrow> 'w stage deps \<Rightarrow> 'w stage deps" where
  "over_adapter A E = E\<lparr>tp_submit := stage_submit A, tp_wait := stage_wait A, tp_cancel := stage_cancel A\<rparr>"

text \<open>The other collaborators of the engine have no access to the tables of the adapter: clocks, identifiers and the broker
  leave the bindings alone, the authorizer runs the consumption of the grant at most once, and the other threads run
  operations of the same engine.\<close>

definition same_tables :: "'w stage \<Rightarrow> 'w stage \<Rightarrow> bool" where
  "same_tables v u \<longleftrightarrow> fst u = fst v \<and> oa_bindings (snd u) = oa_bindings (snd v)"

definition undisturbed :: "'w adapter_deps \<Rightarrow> 'w stage deps \<Rightarrow> bool" where
  "undisturbed A E \<longleftrightarrow>
     (\<forall>v. same_tables v (snd (clock E v)) \<and> same_tables v (snd (monotonic E v)) \<and> same_tables v (snd (new_uuid E v)) \<and>
        (\<forall>token sc i. same_tables v (snd (consume_grant E token sc i v))) \<and>
        (\<forall>sc body. same_tables v (snd (with_grant E sc body v)) \<or>
           (\<exists>x u. same_tables v u \<and> same_tables (snd (body x u)) (snd (with_grant E sc body v))))) \<and>
     (\<forall>s. reaches ((over_adapter A E)\<lparr>others := (\<lambda>s. s)\<rparr>) s (others E s))"

text \<open>The evidence for a run: a wait that was made, and judged the run while it was not settled.\<close>

definition passed_wait :: "'w adapter_deps \<Rightarrow> string \<Rightarrow> 'w waited \<Rightarrow> bool" where
  "passed_wait A i e \<longleftrightarrow> wt_run e = i \<and>
     (\<exists>x b. wait_run A i (wt_timeout e) (wt_before e) = (Inr x, wt_after e) \<and> oc_status x = PASS \<and>
        find_binding i (oa_bindings (wt_before e)) = Some b \<and> \<not> terminal (sb_status b))"

definition evidence :: "'w adapter_deps \<Rightarrow> 'w stage \<Rightarrow> string \<Rightarrow> bool" where
  "evidence A v i \<longleftrightarrow> (\<exists>e \<in> set (fst v). passed_wait A i e)"

definition evident :: "'w adapter_deps \<Rightarrow> 'w stage \<Rightarrow> bool" where
  "evident A v \<longleftrightarrow> (\<forall>i b. find_binding i (oa_bindings (snd v)) = Some b \<longrightarrow> sb_status b = PASS \<longrightarrow> evidence A v i)"

lemma same_tables_evident: "same_tables v u \<Longrightarrow> evident A v \<Longrightarrow> evident A u \<and> evidence A v \<le> evidence A u"
  by (auto simp: same_tables_def evident_def evidence_def le_fun_def)

lemma quiet_keeps: "(\<And>v. same_tables v (snd (f v))) \<Longrightarrow> keeps_world (evident A) (evidence A) f"
  using same_tables_evident unfolding keeps_world_def by blast

lemma table_evident:
  assumes "\<And>j b. find_binding j (oa_bindings t) = Some b \<Longrightarrow> sb_status b = PASS \<Longrightarrow> find_binding j (oa_bindings s) = Some b"
  shows "evident A (l, s) \<Longrightarrow> evident A (l, t) \<and> evidence A (l, s) \<le> evidence A (l, t)"
  using assms by (auto simp: evident_def evidence_def le_fun_def)

lemma submit_evident: "keeps_world (evident A) (evidence A) (stage_submit A i p)"
  unfolding keeps_world_def
proof (intro allI impI)
  fix v assume v: "evident A v"
  have "find_binding j (oa_bindings (snd (submit A i (payload_dict p) (snd v)))) = Some b \<Longrightarrow> sb_status b = PASS \<Longrightarrow>
      find_binding j (oa_bindings (snd v)) = Some b" for j b
    by (rule submit_running) simp_all
  from table_evident [of _ "snd v" A "fst v", OF this] v
  show "evident A (snd (stage_submit A i p v)) \<and> evidence A v \<le> evidence A (snd (stage_submit A i p v))"
    by (simp add: stage_submit_def split: prod.split)
qed

lemma cancel_evident: "keeps_world (evident A) (evidence A) (stage_cancel A i)"
  unfolding keeps_world_def
proof (intro allI impI)
  fix v assume v: "evident A v"
  have "find_binding j (oa_bindings (snd (cancel_run A i (snd v)))) = Some b \<Longrightarrow> sb_status b = PASS \<Longrightarrow>
      find_binding j (oa_bindings (snd v)) = Some b" for j b
    by (rule cancel_cancelled) simp_all
  from table_evident [of _ "snd v" A "fst v", OF this] v
  show "evident A (snd (stage_cancel A i v)) \<and> evidence A v \<le> evidence A (snd (stage_cancel A i v))"
    by (simp add: stage_cancel_def split: prod.split)
qed

lemma wait_evident:
  assumes "evident A v" "stage_wait A i x v = (r, v')"
  shows "evident A v' \<and> evidence A v \<le> evidence A v' \<and> (\<forall>oc. r = Inr oc \<longrightarrow> oc_status oc = PASS \<longrightarrow> evidence A v' i)"
proof -
  obtain l s where v: "v = (l, s)" by (rule prod.exhaust)
  obtain r' t where w: "wait_run A i x s = (r', t)" by (rule prod.exhaust)
  let ?e = "\<lparr>wt_run = i, wt_timeout = x, wt_before = s, wt_answer = r, wt_after = t\<rparr>"
  from assms(2) v w have r: "r' = r" and v': "v' = (l @ [?e], t)" by (auto simp: stage_wait_def)
  have grown: "evidence A v \<le> evidence A v'" by (auto simp: v v' evidence_def le_fun_def)
  show ?thesis
  proof (cases "\<exists>b. find_binding i (oa_bindings s) = Some b \<and> \<not> terminal (sb_status b)")
    case False
    have t: "t = s"
      using False wait_unbound [of i s A x] wait_settled [of i s _ A x] w by (cases "find_binding i (oa_bindings s)") auto
    have "evidence A v i" if "r = Inr oc" "oc_status oc = PASS" for oc
    proof -
      from that w r wait_unbound [of i s A x] obtain b where b: "find_binding i (oa_bindings s) = Some b"
        by (cases "find_binding i (oa_bindings s)") auto
      with False have "terminal (sb_status b)" by blast
      from wait_settled_status [OF _ b this, of A x oc t] w r that have "sb_status b = PASS" by simp
      with b assms(1) v show ?thesis by (simp add: evident_def)
    qed
    with t v v' grown assms(1) show ?thesis by (auto simp: evident_def le_fun_def)
  next
    case True
    then obtain b where b: "find_binding i (oa_bindings s) = Some b" "\<not> terminal (sb_status b)" by blast
    have pass: "evidence A v' i" if "r = Inr oc" "oc_status oc = PASS" for oc
      using that w r b unfolding v' evidence_def passed_wait_def by auto
    have "evidence A v' j" if f: "find_binding j (oa_bindings t) = Some c" "sb_status c = PASS" for j c
    proof (cases "j = i")
      case False
      have "find_binding j (oa_bindings t) = find_binding j (oa_bindings s)"
        using wait_moves [of i s A x] w False other_binding by (fastforce simp: moved_def)
      with f assms(1) v have "evidence A v j" by (simp add: evident_def)
      with grown show ?thesis by (auto simp: le_fun_def)
    next
      case True
      show ?thesis
      proof (cases r)
        case (Inl e)
        with clean_wait [of A i x] w r have "oa_bindings t = oa_bindings s" by (simp add: clean_def)
        with f True b show ?thesis by (auto simp: terminal_states_def)
      next
        case (Inr oc)
        from wait_marks [of A i x s oc t b] w r Inr b f True show ?thesis using pass [OF Inr] by auto
      qed
    qed
    with grown pass v' show ?thesis by (auto simp: evident_def)
  qed
qed

text \<open>The invariant, from a point on at which there was the evidence \<open>K\<close>.\<close>

definition since :: "'w adapter_deps \<Rightarrow> (string \<Rightarrow> bool) \<Rightarrow> 'w stage \<Rightarrow> bool" where
  "since A K v \<longleftrightarrow> evident A v \<and> K \<le> evidence A v"

lemma keeps_since: "keeps_world (evident A) (evidence A) f \<Longrightarrow> keeps_world (since A K) (evidence A) f"
  unfolding keeps_world_def since_def by (meson order_trans)

lemma same_tables_since: "same_tables v u \<Longrightarrow> since A K v \<Longrightarrow> since A K u \<and> evidence A v \<le> evidence A u"
  using same_tables_evident unfolding since_def by (meson order_trans)

lemma grant_since:
  assumes "undisturbed A E" "\<And>x. keeps_world (since A K) (evidence A) (body x)"
  shows "keeps_world (since A K) (evidence A) (with_grant E sc body)"
  unfolding keeps_world_def
proof (intro allI impI)
  fix v assume v: "since A K v"
  have "same_tables v (snd (with_grant E sc body v)) \<or>
      (\<exists>x u. same_tables v u \<and> same_tables (snd (body x u)) (snd (with_grant E sc body v)))"
    using assms(1) unfolding undisturbed_def by blast
  then show "since A K (snd (with_grant E sc body v)) \<and> evidence A v \<le> evidence A (snd (with_grant E sc body v))"
  proof
    assume "same_tables v (snd (with_grant E sc body v))"
    from same_tables_since [OF this v] show ?thesis .
  next
    assume "\<exists>x u. same_tables v u \<and> same_tables (snd (body x u)) (snd (with_grant E sc body v))"
    then obtain x u where u: "same_tables v u" "same_tables (snd (body x u)) (snd (with_grant E sc body v))" by blast
    from same_tables_since [OF u(1) v] have e: "since A K u" "evidence A v \<le> evidence A u" by auto
    from assms(2) [of x] e(1) have b: "since A K (snd (body x u))" "evidence A u \<le> evidence A (snd (body x u))"
      unfolding keeps_world_def by blast+
    from same_tables_since [OF u(2) b(1)] b(2) e(2) show ?thesis by (meson order_trans)
  qed
qed

lemma staged_keeps:
  assumes "undisturbed A E" "D = over_adapter A E \<or> D = (over_adapter A E)\<lparr>others := (\<lambda>s. s)\<rparr>"
    and "\<And>s. stays_sound (since A K) (evidence A) s (others D s)"
  shows "vouching D (since A K) (evidence A)"
proof -
  have same: "same_tables v (snd (clock E v))" "same_tables v (snd (monotonic E v))" "same_tables v (snd (new_uuid E v))"
    "same_tables v (snd (consume_grant E token sc i v))" for v token sc i
    using assms(1) unfolding undisturbed_def by blast+
  note quiet = keeps_since [OF quiet_keeps]
  have wait: "keeps_world (since A K) (evidence A) (stage_wait A i x)" for i x
    by (rule keeps_since) (unfold keeps_world_def, metis wait_evident prod.collapse)
  have fields: "clock D = clock E" "monotonic D = monotonic E" "new_uuid D = new_uuid E" "consume_grant D = consume_grant E"
    "with_grant D = with_grant E" "tp_submit D = stage_submit A" "tp_wait D = stage_wait A" "tp_cancel D = stage_cancel A"
    using assms(2) by (auto simp: over_adapter_def)
  have word: "evidence A v' i" if "since A K v" "stage_wait A i x v = (Inr oc, v')" "oc_status oc = PASS" for i x v oc v'
    using wait_evident [OF _ that(2)] that(1,3) by (simp add: since_def)
  show ?thesis
    unfolding vouching_def fields
  proof (intro conjI allI impI)
    show "keeps_world (since A K) (evidence A) (with_grant E sc body)" if "\<forall>x. keeps_world (since A K) (evidence A) (body x)" for sc body
      using that by (intro grant_since [OF assms(1)]) blast
  qed (rule quiet, rule same, rule quiet, rule same, rule quiet, rule same, rule keeps_since [OF submit_evident], rule wait,
      rule keeps_since [OF cancel_evident], rule quiet, rule same, rule assms(3), rule word)
qed

lemma staged_vouching:
  assumes "undisturbed A E" shows "vouching (over_adapter A E) (since A (\<lambda>i. False)) (evidence A)"
proof (rule staged_keeps [OF assms])
  fix s
  let ?D = "(over_adapter A E)\<lparr>others := (\<lambda>s. s)\<rparr>"
  have r: "reaches ?D s (others (over_adapter A E) s)" using assms unfolding undisturbed_def by (simp add: over_adapter_def)
  have v: "vouching ?D (since A K) (evidence A)" for K
    by (rule staged_keeps [OF assms]) (simp_all add: backing.R_refl)
  from reaches_sound [OF r v, of "evidence A (world s)"] reaches_sound [OF r v, of "\<lambda>i. False"]
  show "stays_sound (since A (\<lambda>i. False)) (evidence A) s (others (over_adapter A E) s)"
    unfolding stays_sound_def sound_def since_def by blast
qed simp

lemma pass_has_evidence:
  assumes "undisturbed A E" "reaches (over_adapter A E) s t" "runs s = []" "world s = ([], adapter_start w)"
    and "r \<in> set (runs t)" "r_status r = PASS"
  shows "evidence A (world t) (r_id r)"
proof -
  have "sound (since A (\<lambda>i. False)) (evidence A) s"
    using assms(3,4) by (simp add: sound_def since_def evident_def passes_def adapter_start_def find_binding_def le_fun_def)
  from reaches_sound [OF assms(2) staged_vouching [OF assms(1)] this] assms(5,6) show ?thesis by (simp add: sound_def passes_def)
qed

text \<open>No run passes unless its result was validated. In any history of engine calls on a new registry with the adapter as
  transport, whatever the gateway answers and whatever other threads do with the same engine: a record of the registry
  says PASS only if, at some wait that was made for this very run, the gateway answered \<open>agent.wait\<close> for the run bound
  to it with ok, the history of its session was read, and the validator passed the messages behind the watermark of its
  submission, or what the format recovery made of them.\<close>

theorem passed_run_was_validated:
  assumes "undisturbed A E" and "reaches (over_adapter A E) s t" and "runs s = []" and "world s = ([], adapter_start w)"
    and "r \<in> set (runs t)" and "r_status r = PASS"
  shows "\<exists>e x b g z context. e \<in> set (fst (world t)) \<and> wt_run e = r_id r \<and>
    wait_run A (r_id r) (wt_timeout e) (wt_before e) = (Inr x, wt_after e) \<and> oc_status x = PASS \<and>
    find_binding (r_id r) (oa_bindings (wt_before e)) = Some b \<and> \<not> terminal (sb_status b) \<and>
    finished_by A (r_id r) (wt_timeout e) b (wt_before e) g z \<and>
    validated A (r_id r) b (merged (merged (control_part (fi_response z)) context) [(''history'', PDict (fi_new z))]) x"
proof -
  from pass_has_evidence [OF assms] obtain e x b where e: "e \<in> set (fst (world t))" "wt_run e = r_id r"
      "wait_run A (r_id r) (wt_timeout e) (wt_before e) = (Inr x, wt_after e)" "oc_status x = PASS"
      "find_binding (r_id r) (oa_bindings (wt_before e)) = Some b" "\<not> terminal (sb_status b)"
    unfolding evidence_def passed_wait_def by blast
  from pass_validated [OF e(3,5,6,4)] obtain g z ctx where "finished_by A (r_id r) (wt_timeout e) b (wt_before e) g z"
      "validated A (r_id r) b (merged (merged (control_part (fi_response z)) ctx) [(''history'', PDict (fi_new z))]) x" by blast
  with e show ?thesis by blast
qed

end
