(* ===== verification/PosixPath.thy ===== *)
theory PosixPath
  imports PyVal
begin

text \<open>
  The paths of \<^verbatim>\<open>pathlib\<close> on POSIX, and the file system as the code sees it: a record of the answers it gets.
  A path is its root (nothing, one or two slashes) and its components; components that are empty or a dot are dropped
  when the text is read.
\<close>

datatype posix = Posix string "string list"

fun split_char :: "char \<Rightarrow> string \<Rightarrow> string list" where
  "split_char c [] = [[]]"
| "split_char c (x # s) =
     (if x = c then [] # split_char c s else (case split_char c s of [] \<Rightarrow> [[x]] | w # ws \<Rightarrow> (x # w) # ws))"

definition path_of :: "string \<Rightarrow> posix" where
  "path_of t =
     (let n = length (takeWhile (\<lambda>c. c = CHR ''/'') t)
      in Posix (if n = 0 then [] else if n = 2 then ''//'' else ''/'')
           (filter (\<lambda>w. w \<noteq> [] \<and> w \<noteq> ''.'') (split_char (CHR ''/'') t)))"

fun path_parts :: "posix \<Rightarrow> string list" where
  "path_parts (Posix r ps) = (if r = [] then ps else r # ps)"

fun absolute :: "posix \<Rightarrow> bool" where
  "absolute (Posix r ps) = (r \<noteq> [])"

definition climbs :: "posix \<Rightarrow> bool" where
  "climbs p = List.member (path_parts p) ''..''"

text \<open>\<open>os.path.normpath\<close> on the components; it keeps the root. A path without a root may start with steps upwards.\<close>

fun collapse :: "bool \<Rightarrow> string list \<Rightarrow> string list \<Rightarrow> string list" where
  "collapse rooted acc [] = rev acc"
| "collapse rooted acc (w # ws) =
     (if w \<noteq> ''..'' \<or> (\<not> rooted \<and> acc = []) \<or> (acc \<noteq> [] \<and> hd acc = ''..'') then collapse rooted (w # acc) ws
      else collapse rooted (tl acc) ws)"

fun normal_path :: "posix \<Rightarrow> posix" where
  "normal_path (Posix r ps) = Posix r (collapse (r \<noteq> []) [] ps)"

text \<open>
  The file system: the home directory for a component that starts with a tilde, whether a path exists (some errors of
  the system are raised), whether it is a symbolic link (errors count as no), the bytes of a file, their text when they
  are UTF-8, and their digest.
\<close>

record disk =
  dk_home :: "string \<Rightarrow> string"
  dk_exists :: "posix \<Rightarrow> bool res"
  dk_link :: "posix \<Rightarrow> bool"
  dk_read :: "posix \<Rightarrow> string option"
  dk_decode :: "string \<Rightarrow> string option"
  dk_digest :: "string \<Rightarrow> string"

fun expand_user :: "disk \<Rightarrow> posix \<Rightarrow> posix res" where
  "expand_user K (Posix r ps) =
     (if r = [] \<and> ps \<noteq> [] \<and> starts_with (hd ps) ''~'' then
        (let h = dk_home K (hd ps) in
         if starts_with h ''~'' then Inl (Raised ''RuntimeError'' ''Could not determine home directory.'')
         else (case path_of h of Posix r' qs \<Rightarrow> Inr (Posix r' (qs @ tl ps))))
      else Inr (Posix r ps))"

definition path_exists :: "disk \<Rightarrow> string \<Rightarrow> bool res" where
  "path_exists K t = rbind (expand_user K (path_of t)) (dk_exists K)"

text \<open>A path or one of its parents is a link; the loop ends at the root.\<close>

fun has_link :: "disk \<Rightarrow> posix \<Rightarrow> bool" where
  "has_link K (Posix r ps) = list_ex (\<lambda>n. dk_link K (Posix r (take n ps))) [1..<Suc (length ps)]"

definition read_only_path :: "disk \<Rightarrow> posix \<Rightarrow> posix res" where
  "read_only_path K p = (if climbs p then Inr p else rbind (expand_user K p) (\<lambda>q. Inr (normal_path q)))"

lemma expand_absolute: "absolute p \<Longrightarrow> expand_user K p = Inr p"
  by (cases p) simp

lemma collapse_plain: "\<not> List.member ws ''..'' \<Longrightarrow> collapse rooted acc ws = rev acc @ ws"
  by (induction ws arbitrary: acc) auto

lemma normal_plain: "\<not> climbs p \<Longrightarrow> normal_path p = p"
  by (cases p) (auto simp: climbs_def collapse_plain split: if_splits)

text \<open>An absolute path without steps upwards is compared as it is.\<close>

lemma read_only_absolute: "absolute p \<Longrightarrow> read_only_path K p = Inr p"
  by (simp add: read_only_path_def expand_absolute normal_plain)

end
