(* ===== verification/ResultValidator.thy ===== *)
theory ResultValidator
  imports PosixPath OpenClawAdapter AuthBroker
begin

text \<open>
  What the worker's result has to pass: \<open>CompositeResultValidator\<close> of \<^verbatim>\<open>openclaw_adapter.py\<close> and the production checks
  of \<^verbatim>\<open>core_engine.py\<close> (\<open>production_result_validator\<close>). A check is a function of the result and of the envelope it came in;
  it answers nothing, a reason, or raises. \<open>json.loads\<close> (\<open>L\<close>) and the file system (\<open>K\<close>) are arguments, and do not change
  during one validation. Alternatives of a pattern that need Korean letters cannot match the 8-bit characters of the
  model and are left out.
\<close>

section \<open>The frame of the checks\<close>

type_synonym result_check = "pydict \<Rightarrow> pydict \<Rightarrow> string option res"

definition item_text :: "std \<Rightarrow> pyval \<Rightarrow> string" where
  "item_text S v = (case v of PStr t \<Rightarrow> t | PDict d \<Rightarrow> text_or S (dget d ''text'') | _ \<Rightarrow> [])"

definition parsed_dict :: "(string \<Rightarrow> pyval option) \<Rightarrow> string \<Rightarrow> pydict option" where
  "parsed_dict L t = (case L t of None \<Rightarrow> None | Some v \<Rightarrow> as_dict v)"

definition said_result :: "std \<Rightarrow> (string \<Rightarrow> pyval option) \<Rightarrow> pyval \<Rightarrow> pydict option" where
  "said_result S L v =
     (if \<not> assistant v then None
      else (case dget (dict_or_empty v) ''content'' of
          PDict d \<Rightarrow> Some d
        | PList vs \<Rightarrow> parsed_dict L (concat (map (item_text S) vs))
        | PStr t \<Rightarrow> parsed_dict L t
        | _ \<Rightarrow> None))"

definition messages_of :: "pydict \<Rightarrow> pyval list option" where
  "messages_of p = (case dget p ''history'' of PDict h \<Rightarrow> as_list (dget h ''messages'') | _ \<Rightarrow> None)"

definition extract_result :: "std \<Rightarrow> (string \<Rightarrow> pyval option) \<Rightarrow> pydict \<Rightarrow> pydict option" where
  "extract_result S L p =
     (case dget p ''result'' of
        PDict r \<Rightarrow> Some r
      | _ \<Rightarrow> (case messages_of p of
          None \<Rightarrow> None
        | Some vs \<Rightarrow> (case List.map_filter (said_result S L) (rev vs) of [] \<Rightarrow> None | r # _ \<Rightarrow> Some r)))"

fun first_failure :: "(string \<times> result_check) list \<Rightarrow> pydict \<Rightarrow> pydict \<Rightarrow> validation option" where
  "first_failure [] r p = None"
| "first_failure ((name, check) # cs) r p =
     (case check r p of
        Inl e \<Rightarrow> Some \<lparr>vd_status = FAIL, vd_reason = name @ ''_VALIDATION_ERROR'', vd_result = None\<rparr>
      | Inr (Some why) \<Rightarrow>
          if why = [] then first_failure cs r p
          else Some \<lparr>vd_status = FAIL, vd_reason = name @ ''_VALIDATION_FAILED:'' @ why, vd_result = Some r\<rparr>
      | Inr None \<Rightarrow> first_failure cs r p)"

definition worker_verdict :: "std \<Rightarrow> pydict \<Rightarrow> validation" where
  "worker_verdict S r =
     (let said = lower (text_or S (dget r ''status'')) in
      if said = ''completed'' then \<lparr>vd_status = PASS, vd_reason = [], vd_result = Some r\<rparr>
      else if said = ''blocked'' then \<lparr>vd_status = BLOCKED, vd_reason = named_or S ''WORKER_BLOCKED'' (dget r ''reason''), vd_result = Some r\<rparr>
      else \<lparr>vd_status = FAIL, vd_reason = named_or S ''WORKER_FAILED'' (dget r ''reason''), vd_result = Some r\<rparr>)"

definition composite_validator :: "std \<Rightarrow> (string \<Rightarrow> pyval option) \<Rightarrow> (string \<times> result_check) list \<Rightarrow> pydict \<Rightarrow> validation" where
  "composite_validator S L checks p =
     (case extract_result S L p of
        None \<Rightarrow> \<lparr>vd_status = FAIL, vd_reason = ''MISSING_RESULT'', vd_result = None\<rparr>
      | Some r \<Rightarrow> (case first_failure checks r p of Some d \<Rightarrow> d | None \<Rightarrow> worker_verdict S r))"

section \<open>Searching and printing\<close>

text \<open>\<open>any\<close> and a loop that returns the first reason, both cut short; a raise goes through.\<close>

fun any_res :: "('a \<Rightarrow> bool res) \<Rightarrow> 'a list \<Rightarrow> bool res" where
  "any_res f [] = Inr False"
| "any_res f (x # xs) = rbind (f x) (\<lambda>b. if b then Inr True else any_res f xs)"

fun first_reason :: "('a \<Rightarrow> string option res) \<Rightarrow> 'a list \<Rightarrow> string option res" where
  "first_reason f [] = Inr None"
| "first_reason f (x # xs) = rbind (f x) (\<lambda>w. if w = None then first_reason f xs else Inr w)"

text \<open>\<open>json.dumps(v, ensure_ascii=False)\<close>: the keys in their order, blanks behind the separators.\<close>

fun jdump_spaced :: "(rat \<Rightarrow> string) \<Rightarrow> bool \<Rightarrow> pyval \<Rightarrow> string" where
  "jdump_spaced fr ea (PList vs) = CHR ''['' # join '', '' (map (jdump_spaced fr ea) vs) @ '']''"
| "jdump_spaced fr ea (PTuple vs) = CHR ''['' # join '', '' (map (jdump_spaced fr ea) vs) @ '']''"
| "jdump_spaced fr ea (PDict d) = CHR ''{'' # join '', '' (map (\<lambda>(k, v). json_str ea k @ '': '' @ jdump_spaced fr ea v) d) @ ''}''"
| "jdump_spaced fr ea v = jdump fr ea v"

definition spaced_json :: "std \<Rightarrow> pyval \<Rightarrow> string res" where
  "spaced_json S v = need (jsonable v) (TypeError ''not JSON serializable'') (Inr (jdump_spaced (float_repr S) False v))"

definition word_of :: "rx list \<Rightarrow> rx" where
  "word_of rs = seqs [WordB, alts rs, WordB]"

text \<open>At most \<open>n\<close> characters of one line.\<close>

fun line_gap :: "nat \<Rightarrow> rx" where
  "line_gap 0 = Eps"
| "line_gap (Suc n) = opt (Cat (Sat (\<lambda>c. c \<noteq> CHR 0x0A)) (line_gap n))"

definition word_rest :: rx where
  "word_rest = Star (Sat is_word)"

definition spaces1 :: rx where
  "spaces1 = plus (Sat is_space)"

text \<open>A literal with any ending of the word, as in \<^verbatim>\<open>writ\w*\<close>.\<close>

definition stem :: "string \<Rightarrow> rx" where
  "stem t = Cat (lit_i t) word_rest"

text \<open>One word, then within \<open>n\<close> characters another.\<close>

definition near :: "rx list \<Rightarrow> nat \<Rightarrow> rx list \<Rightarrow> rx" where
  "near vs n ws = seqs [WordB, alts vs, WordB, line_gap n, WordB, alts ws, WordB]"

section \<open>What the transcript shows\<close>

definition claim_patterns :: "(string \<times> rx) list" where
  "claim_patterns =
     [(''tool'', alts
        [seqs [WordB, lit_i ''tool'',
           alts [seqs [spaces1, alts (map lit_i [''call'', ''execution'', ''use''])],
                 seqs [opt (lit_i ''s''), spaces1, alts (map lit_i [''were'', ''was'']), spaces1, lit_i ''used'']], WordB],
         seqs [WordB, lit_i ''used'', spaces1, opt (seqs [lit_i ''a'', spaces1]), lit_i ''tool'', WordB],
         seqs [WordB, lit_i ''invoked'', spaces1, lit_i ''via'', WordB],
         near [lit_i ''process''] 40 [lit_i ''exited'', seqs [lit_i ''exit'', spaces1, lit_i ''code''], lit_i ''ran'', lit_i ''executed'']]),
      (''file'', alts
        [near (map lit_i [''file'', ''files'']) 40 (lit_i ''read'' # map stem [''writ'', ''modif'', ''creat'', ''edit'', ''access'']),
         near (map lit_i [''read'', ''wrote'', ''written'', ''modified'', ''created'', ''edited'', ''accessed'', ''reads'']) 40
           (map lit_i [''file'', ''files'', ''jsonl''])]),
      (''memory'', alts
        [near [lit_i ''memory''] 30 (lit_i ''read'' # map stem [''writ'', ''sav'', ''updat'']),
         near (map lit_i [''read'', ''wrote'', ''written'', ''saved'', ''updated'', ''write'']) 30 [lit_i ''memory'']]),
      (''db'', near (map lit_i [''db'', ''database'', ''sql'', ''sqlite'', ''postgres'', ''supabase'']) 30
         (lit_i ''read'' # map stem [''quer'', ''writ'', ''updat'', ''insert'', ''execut'', ''access''])),
      (''git'', near [lit_i ''git''] 30
         (stem ''execut'' # map lit_i [''status'', ''diff'', ''commit'', ''push'', ''pull'', ''checkout'', ''merge'', ''ran'', ''run''])),
      (''deploy'', seqs [WordB, lit_i ''deploy'', opt (alts (map lit_i [''ed'', ''ment'', ''ing''])), WordB]),
      (''artifact'', near [lit_i ''artifact''] 30 (map stem [''creat'', ''produc'', ''writ'', ''exist'']))]"

definition no_word :: "rx list \<Rightarrow> rx" where
  "no_word rs = seqs [WordB, alts (map lit_i [''no'', ''without'', ''zero'']), spaces1, alts rs, WordB]"

definition denial_patterns :: "(string \<times> rx) list" where
  "denial_patterns =
     [(''tool'', no_word [Cat (lit_i ''tool'') (opt (lit_i ''s''))]), (''file'', no_word (map lit_i [''file'', ''files''])),
      (''memory'', no_word [lit_i ''memory'']), (''db'', no_word (map lit_i [''db'', ''database'', ''sql''])),
      (''git'', no_word [lit_i ''git'']),
      (''deploy'', alts [no_word [Cat (lit_i ''deploy'') (opt (lit_i ''ment''))],
         seqs [WordB, lit_i ''deploy'', opt (alts (map lit_i [''ed'', ''ment'', ''ing''])), WordB, line_gap 40, alts (map lit_i [''not'', ''never''])]])]"

text \<open>The tool calls among the blocks of messages.\<close>

definition message_blocks :: "pyval \<Rightarrow> pyval list" where
  "message_blocks v =
     (case v of PDict m \<Rightarrow> (case dget m ''content'' of PList vs \<Rightarrow> vs | c \<Rightarrow> [c]) | _ \<Rightarrow> [])"

definition called_tool :: "std \<Rightarrow> pyval \<Rightarrow> pydict option" where
  "called_tool S v =
     (case v of
        PDict b \<Rightarrow>
          if List.member [''toolcall'', ''tooluse''] (filter (\<lambda>c. c \<noteq> CHR ''_'') (lower (text_or S (dget b ''type'')))) then Some b else None
      | _ \<Rightarrow> None)"

definition tool_calls :: "std \<Rightarrow> pyval list \<Rightarrow> pydict list" where
  "tool_calls S ms = List.map_filter (called_tool S) (concat (map message_blocks ms))"

definition call_name :: "std \<Rightarrow> pydict \<Rightarrow> string" where
  "call_name S b = text_or S (por (dget b ''name'') (dget b ''toolName''))"

definition call_arguments :: "pydict \<Rightarrow> pyval" where
  "call_arguments b = por (por (dget b ''arguments'') (dget b ''input'')) (PDict [])"

text \<open>\<open>(?<![0-9])>(?![>&])\<close>\<close>

definition redirection :: rx where
  "redirection = seqs [NotAfter is_digit, lit ''>'', NotBefore (\<lambda>c. c = CHR ''>'' \<or> c = CHR ''&'')]"

definition file_writers :: rx where
  "file_writers = alts [seqs [alts [NotAfter (\<lambda>c. True), Sat is_space], alts (map lit [''tee'', ''touch'', ''cp'', ''mv'']), Sat is_space], redirection]"

definition file_readers :: rx where
  "file_readers = word_of (map lit [''cat'', ''sed'', ''rg'', ''head'', ''tail'', ''stat'', ''ls'', ''find'', ''pwd'', ''tree'', ''file'', ''realpath'', ''readlink''])"

definition file_tools :: "string list" where
  "file_tools = [''read'', ''write'', ''edit'', ''apply_patch'', ''view_image'']"

definition deploy_commands :: rx where
  "deploy_commands = alts [seqs [WordB, lit ''deploy'', opt (alts (map lit [''ed'', ''ment'', ''ing''])), WordB],
     seqs [WordB, lit ''wrangler'', spaces1, alts (map lit [''deploy'', ''pages'']), WordB]]"

definition call_actions :: "std \<Rightarrow> pydict \<Rightarrow> string list res" where
  "call_actions S b =
     rbind (spaced_json S (call_arguments b)) (\<lambda>t.
     let name = lower (call_name S b); arguments = lower t; joined = name @ '' '' @ arguments in
     Inr (''tool'' #
       (if List.member file_tools name \<or> rx_search file_writers joined \<or> rx_search file_readers joined then [''file''] else []) @
       (if contains name ''memory'' \<or> contains arguments ''/memory/'' \<or> contains arguments ''memory.md'' then [''memory''] else []) @
       (if rx_search (word_of (map lit [''sqlite3'', ''psql'', ''supabase'', ''postgres'', ''mysql''])) joined then [''db''] else []) @
       (if rx_search (word_of [lit ''git'']) joined then [''git''] else []) @
       (if rx_search deploy_commands joined then [''deploy''] else [])))"

text \<open>The messages since the last one of the user.\<close>

definition from_user :: "pyval \<Rightarrow> bool" where
  "from_user v = (case as_dict v of None \<Rightarrow> False | Some m \<Rightarrow> dget m ''role'' = PStr ''user'')"

definition this_turn :: "pyval list \<Rightarrow> pyval list option" where
  "this_turn ms =
     (case dropWhile (\<lambda>m. \<not> from_user m) (rev ms) of
        [] \<Rightarrow> None
      | u # _ \<Rightarrow> Some (u # rev (takeWhile (\<lambda>m. \<not> from_user m) (rev ms))))"

definition artifact_exists :: "disk \<Rightarrow> pyval \<Rightarrow> bool res" where
  "artifact_exists K v =
     (case v of PDict d \<Rightarrow> (case dget d ''path'' of PStr t \<Rightarrow> path_exists K t | _ \<Rightarrow> Inr False) | _ \<Rightarrow> Inr False)"

definition artifact_seen :: "disk \<Rightarrow> pydict \<Rightarrow> bool res" where
  "artifact_seen K r =
     (if \<not> dhas r ''artifacts'' then Inr False
      else (case dget r ''artifacts'' of PList vs \<Rightarrow> any_res (artifact_exists K) vs | v \<Rightarrow> rbind (py_items v) (\<lambda>vs. Inr False)))"

definition observed_actions :: "std \<Rightarrow> disk \<Rightarrow> pydict \<Rightarrow> pydict \<Rightarrow> string list res" where
  "observed_actions S K p r =
     rbind (artifact_seen K r) (\<lambda>seen.
     let made = (if seen then [''artifact''] else []) in
     case messages_of p of
       None \<Rightarrow> Inr made
     | Some ms \<Rightarrow> (case this_turn ms of
         None \<Rightarrow> Inr made
       | Some turn \<Rightarrow> rbind (rmap (call_actions S) (tool_calls S turn)) (\<lambda>as. Inr (made @ concat as))))"

section \<open>Schema and evidence\<close>

definition result_fields :: "string list" where
  "result_fields = [''status'', ''summary'', ''evidence'', ''artifacts'', ''scope'']"

definition schema_check :: result_check where
  "schema_check r p =
     (if \<not> list_all (dhas r) result_fields then Inr (Some ''MISSING_REQUIRED_FIELD'')
      else rbind (in_names (dget r ''status'') [''completed'', ''blocked'', ''failed'']) (\<lambda>known.
        if \<not> known then Inr (Some ''INVALID_STATUS'')
        else Inr (case dget r ''summary'' of PStr t \<Rightarrow> if blank t then Some ''INVALID_SUMMARY'' else None | _ \<Rightarrow> Some ''INVALID_SUMMARY'')))"

definition evidence_fields :: "string list" where
  "evidence_fields = [''task_id'', ''run_id'', ''evidence_id'', ''evidence_type'', ''source_command'', ''created_at'', ''sha256'']"

definition text_field :: "pydict \<Rightarrow> string \<Rightarrow> string option" where
  "text_field d k = (case dget d k of PStr t \<Rightarrow> if blank t then None else Some t | _ \<Rightarrow> None)"

text \<open>A path lies under an approved one by the texts alone.\<close>

definition rstrip_slash :: "string \<Rightarrow> string" where
  "rstrip_slash t = rev (dropWhile (\<lambda>c. c = CHR ''/'') (rev t))"

definition covered :: "string \<Rightarrow> pyval \<Rightarrow> bool" where
  "covered path v = (case v of PStr t \<Rightarrow> path = t \<or> starts_with path (rstrip_slash t @ ''/'') | _ \<Rightarrow> False)"

definition path_approved :: "pydict \<Rightarrow> pydict \<Rightarrow> string \<Rightarrow> bool" where
  "path_approved r p path =
     (case por (dget p ''approved_paths'') (dget r ''approved_paths'') of
        PNone \<Rightarrow> True
      | PList vs \<Rightarrow> list_ex (covered path) vs
      | _ \<Rightarrow> False)"

definition file_matches :: "disk \<Rightarrow> std \<Rightarrow> pydict \<Rightarrow> string \<Rightarrow> string option res" where
  "file_matches K S meta path =
     rbind (expand_user K (path_of path)) (\<lambda>q.
     case dk_read K q of
       None \<Rightarrow> Inr (Some ''EVIDENCE_UNVERIFIED'')
     | Some data \<Rightarrow>
         rbind (compare_digest (dk_digest K data) (str_of S (dget meta ''sha256''))) (\<lambda>same.
         if \<not> same then Inr (Some ''EVIDENCE_TAMPERED'')
         else Inr (case dget meta ''expected_contains'' of
             PStr marker \<Rightarrow> (case dk_decode K data of
                 None \<Rightarrow> Some ''EVIDENCE_UNVERIFIED''
               | Some content \<Rightarrow> if contains content marker then None else Some ''EVIDENCE_UNVERIFIED'')
           | _ \<Rightarrow> Some ''EVIDENCE_UNVERIFIED'')))"

definition immutable_evidence :: "disk \<Rightarrow> std \<Rightarrow> pydict \<Rightarrow> pydict \<Rightarrow> pydict \<Rightarrow> string option res" where
  "immutable_evidence K S r p item =
     (let meta = (case dget item ''metadata'' of PDict d \<Rightarrow> d | _ \<Rightarrow> item);
          task = por (dget r ''task_id'') (dget p ''task_id'');
          run = por (por (dget r ''run_id'') (dget p ''run_id'')) (dget p ''core_run_id'') in
      if \<not> list_all (dhas meta) evidence_fields \<or> dget meta ''immutable'' \<noteq> PBool True then Inr (Some ''EVIDENCE_UNVERIFIED'')
      else if list_ex (\<lambda>k. text_field meta k = None) evidence_fields then Inr (Some ''EVIDENCE_UNVERIFIED'')
      else if dget_or item ''purpose'' (dget meta ''purpose'') \<noteq> PStr ''verification'' then Inr (Some ''EVIDENCE_UNVERIFIED'')
      else if task = PNone \<or> run = PNone \<or> str_of S (dget meta ''task_id'') \<noteq> str_of S task \<or> str_of S (dget meta ''run_id'') \<noteq> str_of S run
        then Inr (Some ''EVIDENCE_IDENTITY_MISMATCH'')
      else (case por (dget item ''path'') (dget item ''uri'') of
          PStr path \<Rightarrow>
            if \<not> starts_with path ''/'' \<or> \<not> path_approved r p path then Inr (Some ''EVIDENCE_SCOPE_VIOLATION'')
            else file_matches K S meta path
        | _ \<Rightarrow> Inr (Some ''EVIDENCE_SCOPE_VIOLATION'')))"

definition claim_text :: "std \<Rightarrow> pydict \<Rightarrow> string" where
  "claim_text S d = str_of S (dget_or d ''type'' (PStr [])) @ '' '' @ str_of S (dget_or d ''detail'' (PStr []))"

definition claim_fault :: "string list \<Rightarrow> string \<Rightarrow> string \<times> rx \<Rightarrow> string option" where
  "claim_fault observed claim = (\<lambda>(action, pattern).
     if (case map_of denial_patterns action of Some r \<Rightarrow> rx_search r claim | None \<Rightarrow> False) then
       (if List.member observed action then Some ''EVIDENCE_CONTRADICTION'' else None)
     else if rx_search pattern claim \<and> \<not> List.member observed action then Some ''EVIDENCE_UNVERIFIED'' else None)"

definition claims_fault :: "std \<Rightarrow> string list \<Rightarrow> pyval \<Rightarrow> string option res" where
  "claims_fault S observed v = first_reason (\<lambda>a. Inr (claim_fault observed (claim_text S (dict_or_empty v)) a)) claim_patterns"

text \<open>Under a task profile the transcript counts, not what the evidence says.\<close>

definition profile_evidence :: "pydict \<Rightarrow> string list \<Rightarrow> string option" where
  "profile_evidence p observed =
     (if \<not> (case messages_of p of None \<Rightarrow> False | Some ms \<Rightarrow> list_ex from_user ms) then Some ''EVIDENCE_TRACE_UNAVAILABLE''
      else if dget p ''war_room_task_profile'' = PStr ''ACKNOWLEDGEMENT'' \<and> List.member observed ''tool'' then Some ''ACKNOWLEDGEMENT_TOOL_USE''
      else None)"

definition typed_item :: "pyval \<Rightarrow> bool" where
  "typed_item v = (case v of PDict d \<Rightarrow> as_str (dget d ''type'') \<noteq> None | _ \<Rightarrow> False)"

definition evidence_check :: "std \<Rightarrow> disk \<Rightarrow> result_check" where
  "evidence_check S K r p =
     (case dget r ''evidence'' of
        PList items \<Rightarrow>
          let mode = dget_or r ''evidence_mode'' (PStr ''CREATE_EVIDENCE''); in_profile = in_names (dget p ''war_room_task_profile'') profiles in
          rbind (if items = [] then in_profile else Inr True) (\<lambda>enough.
          if \<not> enough then Inr (Some ''MISSING_EVIDENCE'')
          else if \<not> list_all typed_item items then Inr (Some ''INVALID_EVIDENCE'')
          else rbind (in_names mode [''CREATE_EVIDENCE'', ''VERIFY_EVIDENCE'']) (\<lambda>known.
            if \<not> known then Inr (Some ''INVALID_EVIDENCE_MODE'')
            else rbind (if mode = PStr ''VERIFY_EVIDENCE''
                        then first_reason (immutable_evidence K S r p \<circ> dict_or_empty) items else Inr None) (\<lambda>why.
              if why \<noteq> None then Inr why
              else rbind (observed_actions S K p r) (\<lambda>observed.
                rbind in_profile (\<lambda>profiled.
                if profiled then Inr (profile_evidence p observed) else first_reason (claims_fault S observed) items)))))
      | _ \<Rightarrow> Inr (Some ''INVALID_EVIDENCE''))"

section \<open>Artifacts\<close>

definition artifact_fault :: "disk \<Rightarrow> pyval \<Rightarrow> string option res" where
  "artifact_fault K v =
     (case v of
        PDict d \<Rightarrow> (case dget d ''path'' of
            PStr t \<Rightarrow> rbind (path_exists K t) (\<lambda>there. Inr (if there then None else Some ''ARTIFACT_NOT_FOUND''))
          | _ \<Rightarrow> Inr (Some ''INVALID_ARTIFACT''))
      | _ \<Rightarrow> Inr (Some ''INVALID_ARTIFACT''))"

definition artifacts_check :: "disk \<Rightarrow> result_check" where
  "artifacts_check K r p =
     (case dget r ''artifacts'' of PList vs \<Rightarrow> first_reason (artifact_fault K) vs | _ \<Rightarrow> Inr (Some ''INVALID_ARTIFACTS''))"

section \<open>Scope\<close>

text \<open>\<open>a == b\<close> on values: numbers and booleans by value, dictionaries whatever the order of their keys.\<close>

fun py_eq :: "pyval \<Rightarrow> pyval \<Rightarrow> bool" where
  "py_eq (PDict d) v = (case v of
     PDict e \<Rightarrow> length d = length e \<and> list_all (\<lambda>(k, x). case map_of e k of None \<Rightarrow> False | Some y \<Rightarrow> py_eq x y) d | _ \<Rightarrow> False)"
| "py_eq (PList xs) v = (case v of PList ys \<Rightarrow> list_all2 py_eq xs ys | _ \<Rightarrow> False)"
| "py_eq (PTuple xs) v = (case v of PTuple ys \<Rightarrow> list_all2 py_eq xs ys | _ \<Rightarrow> False)"
| "py_eq u v = (case (real_of u, real_of v) of (Some x, Some y) \<Rightarrow> x = y | _ \<Rightarrow> u = v)"

definition output_root :: "string list" where
  "output_root = [''/'', ''home'', ''plachem-sever'', ''.openclaw'', ''agents'']"

text \<open>The places a read-only run may write to: two directories of an agent.\<close>

definition output_place :: "posix \<Rightarrow> bool" where
  "output_place q \<longleftrightarrow> absolute q \<and> \<not> climbs q \<and> length output_root + 3 \<le> length (path_parts q) \<and>
     take (length output_root) (path_parts q) = output_root \<and>
     List.member [''01_ACTIVE'', ''05_QA_EVIDENCE''] (path_parts q ! (length output_root + 1))"

definition designated_texts :: "pydict \<Rightarrow> string list" where
  "designated_texts p =
     (case dget p ''approved_paths'' of
        PList vs \<Rightarrow> if list_all (\<lambda>v. case v of PStr t \<Rightarrow> \<not> blank t | _ \<Rightarrow> False) vs then List.map_filter as_str vs else []
      | _ \<Rightarrow> [])"

text \<open>The designated paths and whether a link is among them; nothing when one is out of place.\<close>

fun designate :: "disk \<Rightarrow> string list \<Rightarrow> (posix list \<times> bool) option res" where
  "designate K [] = Inr (Some ([], False))"
| "designate K (t # ts) =
     rbind (read_only_path K (path_of t)) (\<lambda>q.
     if \<not> output_place q then Inr None
     else rbind (designate K ts) (\<lambda>rest.
       Inr (map_option (\<lambda>(qs, linked). (q # qs, has_link K (path_of t) \<or> has_link K q \<or> linked)) rest)))"

definition reuse :: string where
  "reuse = ''READ_ONLY_ARTIFACT_REUSE''"

definition write_attempt :: string where
  "write_attempt = ''READ_ONLY_WRITE_ATTEMPT''"

definition artifact_place :: "disk \<Rightarrow> posix list \<Rightarrow> bool \<Rightarrow> pyval \<Rightarrow> string option res" where
  "artifact_place K qs linked v =
     (case v of
        PDict d \<Rightarrow> (case dget d ''path'' of
            PStr t \<Rightarrow>
              rbind (expand_user K (path_of t)) (\<lambda>q.
              if \<not> absolute q \<or> climbs q then Inr (Some reuse)
              else rbind (read_only_path K q) (\<lambda>n.
                Inr (if linked \<or> \<not> List.member qs n \<or> has_link K q then Some reuse else None)))
          | _ \<Rightarrow> Inr (Some reuse))
      | _ \<Rightarrow> Inr (Some reuse))"

text \<open>\<open>re.findall(r"/[^\s\\\"']+", command)\<close>\<close>

definition path_char :: "char \<Rightarrow> bool" where
  "path_char c \<longleftrightarrow> \<not> is_space c \<and> c \<noteq> CHR 0x5C \<and> c \<noteq> CHR 0x22 \<and> c \<noteq> CHR 0x27"

function slash_runs :: "string \<Rightarrow> string list" where
  "slash_runs [] = []"
| "slash_runs (c # s) =
     (let w = takeWhile path_char s in
      if c = CHR ''/'' \<and> w \<noteq> [] then (c # w) # slash_runs (drop (length w) s) else slash_runs s)"
  by pat_completeness auto
termination by (relation "measure length") auto

definition shell_writers :: rx where
  "shell_writers = alts [seqs [WordB, alts (map lit [''tee'', ''touch'', ''cp'', ''mv'']), Sat is_space], redirection]"

definition test_commands :: rx where
  "test_commands = word_of
     [lit ''pytest'', lit ''unittest'', seqs [lit ''npm'', spaces1, opt (seqs [lit ''run'', spaces1]), lit ''test''],
      seqs [lit ''node'', spaces1, Star (Sat (\<lambda>c. c \<noteq> CHR 0x0A)), lit ''test'']]"

text \<open>The targets of the write tool; nothing when they are missing or ambiguous.\<close>

definition target_ok :: "pyval \<Rightarrow> bool" where
  "target_ok v = (case v of PStr t \<Rightarrow> t \<noteq> [] \<and> \<not> List.member t (CHR 0x00) | _ \<Rightarrow> False)"

definition write_targets :: "pydict \<Rightarrow> posix list option" where
  "write_targets b =
     (case call_arguments b of
        PDict a \<Rightarrow>
          let ts = map (dget a) (filter (dhas a) [''path'', ''file_path'']); qs = map path_of (List.map_filter as_str ts) in
          if dhas b ''arguments'' \<and> dhas b ''input'' \<and> \<not> py_eq (dget b ''arguments'') (dget b ''input'') then None
          else if \<not> list_all target_ok ts \<or> length (remdups ts) \<noteq> 1 then None
          else if list_ex (\<lambda>q. \<not> absolute q \<or> climbs q) qs then None else Some qs
      | _ \<Rightarrow> None)"

datatype call_verdict = Refused string | Wrote | Quiet

definition call_writes :: "string \<Rightarrow> string \<Rightarrow> bool" where
  "call_writes name command \<longleftrightarrow> List.member [''write'', ''edit'', ''apply_patch''] name \<or> rx_search shell_writers command"

definition mentioned_paths :: "disk \<Rightarrow> string \<Rightarrow> string \<Rightarrow> pydict \<Rightarrow> posix list option res" where
  "mentioned_paths K name command b =
     (if name = ''write'' then Inr (write_targets b)
      else rbind (rmap (expand_user K \<circ> path_of) (slash_runs command)) (\<lambda>qs. Inr (Some qs)))"

text \<open>The write goes to designated paths and to nothing else.\<close>

definition confined :: "disk \<Rightarrow> posix list \<Rightarrow> bool \<Rightarrow> posix list \<Rightarrow> bool" where
  "confined K qs linked ns \<longleftrightarrow> \<not> linked \<and> ns \<noteq> [] \<and> list_all (List.member qs) ns \<and> \<not> list_ex (has_link K) ns"

definition judge_call :: "std \<Rightarrow> disk \<Rightarrow> posix list \<Rightarrow> bool \<Rightarrow> nat \<Rightarrow> pydict \<Rightarrow> call_verdict res" where
  "judge_call S K qs linked artifacts b =
     rbind (spaced_json S (call_arguments b)) (\<lambda>t.
     let name = casefold (call_name S b); command = name @ '' '' @ t; wrote = call_writes name command;
         verdict = (if name \<noteq> ''write'' \<and> rx_search test_commands command then Refused ''READ_ONLY_SCOPE_EXPANSION''
                    else if wrote then Wrote else Quiet) in
     if \<not> wrote then Inr verdict
     else if artifacts = 0 \<or> length (remdups qs) \<noteq> artifacts then Inr (Refused write_attempt)
     else rbind (mentioned_paths K name command b) (\<lambda>found. case found of
         None \<Rightarrow> Inr (Refused write_attempt)
       | Some ms \<Rightarrow> rbind (rmap (read_only_path K) ms) (\<lambda>ns.
           Inr (if confined K qs linked ns then verdict else Refused write_attempt))))"

fun judge_calls :: "std \<Rightarrow> disk \<Rightarrow> posix list \<Rightarrow> bool \<Rightarrow> nat \<Rightarrow> bool \<Rightarrow> pydict list \<Rightarrow> string option res" where
  "judge_calls S K qs linked artifacts seen [] = Inr (if artifacts \<noteq> 0 \<and> \<not> seen then Some reuse else None)"
| "judge_calls S K qs linked artifacts seen (b # bs) =
     rbind (judge_call S K qs linked artifacts b) (\<lambda>v. case v of
         Refused why \<Rightarrow> Inr (Some why)
       | Wrote \<Rightarrow> judge_calls S K qs linked artifacts True bs
       | Quiet \<Rightarrow> judge_calls S K qs linked artifacts seen bs)"

definition read_only_run :: "std \<Rightarrow> pydict \<Rightarrow> pyval list \<Rightarrow> bool res" where
  "read_only_run S p ms =
     (let said = casefold (join [CHR 0x0A] (map (\<lambda>m. text_or S (dget (dict_or_empty m) ''content'')) (filter from_user ms))) in
      rbind (in_names (dget p ''war_room_task_profile'') profiles) (\<lambda>known.
      if known then in_names (dget p ''war_room_task_profile'') [''ACKNOWLEDGEMENT'', ''READ_ONLY'']
      else Inr (contains said ''read-only'' \<or> contains said ''read only'')))"

definition read_only_fault :: "std \<Rightarrow> disk \<Rightarrow> pydict \<Rightarrow> pydict \<Rightarrow> pyval list \<Rightarrow> string option res" where
  "read_only_fault S K r p ms =
     (let artifacts = dget r ''artifacts'' in
      rbind (designate K (designated_texts p)) (\<lambda>found. case found of
        None \<Rightarrow> Inr (Some (if truthy artifacts then reuse else write_attempt))
      | Some (qs, linked) \<Rightarrow>
          if truthy artifacts \<and> qs = [] then Inr (Some reuse)
          else rbind (if truthy artifacts then py_items artifacts else Inr []) (\<lambda>items.
            rbind (first_reason (artifact_place K qs linked) items) (\<lambda>why.
            if why \<noteq> None then Inr why else judge_calls S K qs linked (length items) False (tool_calls S ms)))))"

definition scope_check :: "std \<Rightarrow> disk \<Rightarrow> result_check" where
  "scope_check S K r p =
     (case dget r ''scope'' of
        PDict s \<Rightarrow>
          if dget s ''compliant'' \<noteq> PBool True then Inr (Some ''NON_COMPLIANT'')
          else if dget_or s ''violations'' (PList []) \<noteq> PList [] then Inr (Some ''SCOPE_VIOLATION'')
          else (case messages_of p of
              None \<Rightarrow> Inr None
            | Some ms \<Rightarrow> rbind (read_only_run S p ms) (\<lambda>ro. if ro then read_only_fault S K r p ms else Inr None))
      | _ \<Rightarrow> Inr (Some ''NON_COMPLIANT''))"

definition production_checks :: "std \<Rightarrow> disk \<Rightarrow> (string \<times> result_check) list" where
  "production_checks S K =
     [(''RESULT_SCHEMA'', schema_check), (''EVIDENCE'', evidence_check S K), (''ARTIFACT'', artifacts_check K), (''SCOPE'', scope_check S K)]"

definition production_validator :: "std \<Rightarrow> (string \<Rightarrow> pyval option) \<Rightarrow> disk \<Rightarrow> pydict \<Rightarrow> validation" where
  "production_validator S L K = composite_validator S L (production_checks S K)"

end
