(* ===== verification/ResultSafety.thy ===== *)
theory ResultSafety
  imports ResultValidator
begin

text \<open>What a pass of the production checks is worth, and where they can be got around.\<close>

section \<open>Loops cut short\<close>

lemma first_reason_None: "first_reason f xs = Inr None \<longleftrightarrow> (\<forall>x \<in> set xs. f x = Inr None)"
  by (induction xs) (auto simp: rbind_Inr_iff)

lemma first_reason_in: "first_reason f xs = Inr (Some w) \<Longrightarrow> \<exists>x \<in> set xs. f x = Inr (Some w)"
  by (induction xs) (auto simp: rbind_Inr_iff split: if_splits)

definition silent :: "string option res \<Rightarrow> bool" where
  "silent x \<longleftrightarrow> x = Inr None \<or> x = Inr (Some [])"

lemma first_failure_None: "first_failure cs r p = None \<longleftrightarrow> list_all (\<lambda>(n, c). silent (c r p)) cs"
proof (induction cs)
  case (Cons x cs)
  obtain n c where x: "x = (n, c)" by (rule prod.exhaust)
  show ?case
  proof (cases "c r p")
    case (Inr w) then show ?thesis using Cons.IH by (cases w) (auto simp: x silent_def)
  qed (simp add: x silent_def)
qed simp

lemma first_failure_FAIL: "first_failure cs r p = Some d \<Longrightarrow> vd_status d = FAIL"
  by (induction cs) (auto split: sum.splits option.splits if_splits)

declare first_failure.simps [simp del]

text \<open>No check answers with an empty reason, so a silent one found nothing.\<close>

lemma spoken_up: "(\<And>w. x = Inr (Some w) \<Longrightarrow> w \<noteq> []) \<Longrightarrow> silent x \<longleftrightarrow> x = Inr None"
  by (auto simp: silent_def)

lemma schema_reason: "schema_check r p = Inr (Some w) \<Longrightarrow> w \<noteq> []"
  by (auto simp: schema_check_def rbind_Inr_iff split: if_splits pyval.splits)

lemma file_reason: "file_matches K S meta path = Inr (Some w) \<Longrightarrow> w \<noteq> []"
  by (cases "dget meta ''expected_contains''") (auto simp: file_matches_def rbind_Inr_iff split: if_splits option.splits)

lemma immutable_reason: "immutable_evidence K S r p d = Inr (Some w) \<Longrightarrow> w \<noteq> []"
  by (auto simp: immutable_evidence_def Let_def dest: file_reason split: if_splits pyval.splits)

lemma claims_reason: "claims_fault S as v = Inr (Some w) \<Longrightarrow> w \<noteq> []"
  by (auto simp: claims_fault_def claim_fault_def dest!: first_reason_in split: if_splits)

lemma profile_reason: "profile_evidence p as = Some w \<Longrightarrow> w \<noteq> []"
  by (auto simp: profile_evidence_def split: if_splits)

lemma evidence_reason: "evidence_check S K r p = Inr (Some w) \<Longrightarrow> w \<noteq> []"
  by (auto simp: evidence_check_def Let_def rbind_Inr_iff dest!: first_reason_in dest: immutable_reason claims_reason profile_reason
      split: pyval.splits if_splits)

lemma artifacts_reason: "artifacts_check K r p = Inr (Some w) \<Longrightarrow> w \<noteq> []"
  by (auto simp: artifacts_check_def artifact_fault_def rbind_Inr_iff dest!: first_reason_in split: pyval.splits if_splits)

lemma artifact_place_reason: "artifact_place K qs linked v = Inr (Some w) \<Longrightarrow> w = reuse"
  by (auto simp: artifact_place_def rbind_Inr_iff split: pyval.splits if_splits)

lemma judge_call_reason: "judge_call S K qs linked n b = Inr (Refused w) \<Longrightarrow> w \<noteq> []"
  by (auto simp: judge_call_def Let_def rbind_Inr_iff write_attempt_def split: if_splits option.splits)

lemma judge_calls_reason: "judge_calls S K qs linked n seen bs = Inr (Some w) \<Longrightarrow> w \<noteq> []"
proof (induction bs arbitrary: seen)
  case (Cons b bs)
  then obtain v where v: "judge_call S K qs linked n b = Inr v" by (auto simp: rbind_Inr_iff)
  from Cons judge_call_reason [of S K qs linked n b] show ?case by (cases v) (auto simp: v)
qed (auto simp: reuse_def split: if_splits)

text \<open>The read-only checks, in their order.\<close>

lemma read_only_cases:
  assumes "read_only_fault S K r p ms = Inr x"
  obtains (out_of_place) "designate K (designated_texts p) = Inr None" "x = Some reuse \<or> x = Some write_attempt"
    | (no_place) qs linked where "designate K (designated_texts p) = Inr (Some (qs, linked))" "truthy (dget r ''artifacts'')" "qs = []" "x = Some reuse"
    | (artifact) qs linked items where "designate K (designated_texts p) = Inr (Some (qs, linked))"
        "(if truthy (dget r ''artifacts'') then py_items (dget r ''artifacts'') else Inr []) = Inr items"
        "first_reason (artifact_place K qs linked) items = Inr x" "x \<noteq> None"
    | (calls) qs linked items where "designate K (designated_texts p) = Inr (Some (qs, linked))" "truthy (dget r ''artifacts'') \<longrightarrow> qs \<noteq> []"
        "(if truthy (dget r ''artifacts'') then py_items (dget r ''artifacts'') else Inr []) = Inr items"
        "first_reason (artifact_place K qs linked) items = Inr None"
        "judge_calls S K qs linked (length items) False (tool_calls S ms) = Inr x"
proof -
  from assms obtain found where f: "designate K (designated_texts p) = Inr found"
    by (auto simp: read_only_fault_def Let_def rbind_Inr_iff)
  show thesis
  proof (cases found)
    case None
    with assms f show thesis by (intro out_of_place) (auto simp: read_only_fault_def Let_def split: if_splits)
  next
    case (Some a)
    obtain qs linked where a: "a = (qs, linked)" by (rule prod.exhaust)
    note f = f [unfolded Some a]
    show thesis
    proof (cases "truthy (dget r ''artifacts'') \<and> qs = []")
      case True
      with assms f show thesis by (intro no_place) (auto simp: read_only_fault_def Let_def)
    next
      case False
      let ?items = "if truthy (dget r ''artifacts'') then py_items (dget r ''artifacts'') else Inr []"
      from assms f False obtain items why where i: "?items = Inr items" and w: "first_reason (artifact_place K qs linked) items = Inr why"
          and x: "(if why \<noteq> None then Inr why else judge_calls S K qs linked (length items) False (tool_calls S ms)) = Inr x"
        by (auto simp: read_only_fault_def Let_def rbind_Inr_iff split: if_splits)
      show thesis
      proof (cases why)
        case None
        with x w i f False show thesis by (intro calls) auto
      next
        case (Some a)
        with x w i f show thesis by (intro artifact) auto
      qed
    qed
  qed
qed

lemma read_only_reason: "read_only_fault S K r p ms = Inr (Some w) \<Longrightarrow> w \<noteq> []"
proof (erule read_only_cases)
  fix qs linked items assume "first_reason (artifact_place K qs linked) items = Inr (Some w)"
  then show "w \<noteq> []" using artifact_place_reason by (fastforce simp: reuse_def dest!: first_reason_in)
qed (auto simp: reuse_def write_attempt_def dest: judge_calls_reason)

lemma scope_reason: "scope_check S K r p = Inr (Some w) \<Longrightarrow> w \<noteq> []"
  by (cases "dget r ''scope''") (auto simp: scope_check_def rbind_Inr_iff dest: read_only_reason split: if_splits option.splits)

section \<open>A pass\<close>

lemma checks_silent:
  "first_failure (production_checks S K) r p = None \<longleftrightarrow>
     schema_check r p = Inr None \<and> evidence_check S K r p = Inr None \<and> artifacts_check K r p = Inr None \<and> scope_check S K r p = Inr None"
  by (simp add: production_checks_def first_failure_None
      spoken_up [OF schema_reason] spoken_up [OF evidence_reason] spoken_up [OF artifacts_reason] spoken_up [OF scope_reason])

lemma production_cases:
  obtains (missing) "extract_result S L p = None" "vd_status (production_validator S L K p) = FAIL"
    | (failed) r d where "extract_result S L p = Some r" "first_failure (production_checks S K) r p = Some d" "vd_status (production_validator S L K p) = FAIL"
    | (judged) r where "extract_result S L p = Some r" "first_failure (production_checks S K) r p = None"
        "production_validator S L K p = worker_verdict S r"
proof (cases "extract_result S L p")
  case None
  then show thesis by (intro missing) (simp_all add: production_validator_def composite_validator_def)
next
  case (Some r)
  show thesis
  proof (cases "first_failure (production_checks S K) r p")
    case None
    with Some show thesis by (intro judged) (simp_all add: production_validator_def composite_validator_def)
  next
    case f: (Some d)
    with Some first_failure_FAIL [OF f] show thesis by (intro failed) (simp_all add: production_validator_def composite_validator_def)
  qed
qed

lemma production_pass_iff:
  "vd_status (production_validator S L K p) = PASS \<longleftrightarrow>
     (\<exists>r. extract_result S L p = Some r \<and> first_failure (production_checks S K) r p = None \<and> lower (text_or S (dget r ''status'')) = ''completed'')"
  by (rule production_cases [of S L p K]) (auto simp: worker_verdict_def Let_def)

lemma artifacts_silent:
  "artifacts_check K r p = Inr None \<longleftrightarrow>
     (\<exists>vs. dget r ''artifacts'' = PList vs \<and>
        (\<forall>v \<in> set vs. \<exists>d t. v = PDict d \<and> dget d ''path'' = PStr t \<and> path_exists K t = Inr True))"
proof -
  have "artifact_fault K v = Inr None \<longleftrightarrow> (\<exists>d t. v = PDict d \<and> dget d ''path'' = PStr t \<and> path_exists K t = Inr True)" for v
    by (auto simp: artifact_fault_def rbind_Inr_iff split: pyval.split)
  then show ?thesis by (auto simp: artifacts_check_def first_reason_None split: pyval.split)
qed

text \<open>The file that a piece of evidence names is the one whose digest it gives, and holds the text it was made for.\<close>

definition verified_file :: "disk \<Rightarrow> std \<Rightarrow> pydict \<Rightarrow> pydict \<Rightarrow> pydict \<Rightarrow> bool" where
  "verified_file K S r p item \<longleftrightarrow>
     (\<exists>path data content marker. let meta = (case dget item ''metadata'' of PDict d \<Rightarrow> d | _ \<Rightarrow> item) in
        por (dget item ''path'') (dget item ''uri'') = PStr path \<and> starts_with path ''/'' \<and> path_approved r p path \<and>
        dk_read K (path_of path) = Some data \<and> dget meta ''sha256'' = PStr (dk_digest K data) \<and>
        dget meta ''expected_contains'' = PStr marker \<and> dk_decode K data = Some content \<and> contains content marker)"

lemma starts_slash: "starts_with t ''/'' \<Longrightarrow> absolute (path_of t)"
  by (cases t) (auto simp: path_of_def Let_def)

lemma file_silent:
  assumes "file_matches K S meta path = Inr None" and "starts_with path ''/''"
  shows "\<exists>data content marker. dk_read K (path_of path) = Some data \<and> dk_digest K data = str_of S (dget meta ''sha256'') \<and>
    dget meta ''expected_contains'' = PStr marker \<and> dk_decode K data = Some content \<and> contains content marker"
  using assms
  by (cases "dget meta ''expected_contains''")
    (auto simp: file_matches_def expand_absolute starts_slash rbind_Inr_iff compare_digest_def split: option.splits if_splits)

lemma text_field_Some: "text_field d k \<noteq> None \<longleftrightarrow> (\<exists>t. dget d k = PStr t \<and> \<not> blank t)"
  by (auto simp: text_field_def split: pyval.split)

lemma immutable_silent:
  assumes "immutable_evidence K S r p item = Inr None"
  shows "verified_file K S r p item"
proof -
  define meta where "meta = (case dget item ''metadata'' of PDict d \<Rightarrow> d | _ \<Rightarrow> item)"
  from assms have n: "\<not> list_ex (\<lambda>k. text_field meta k = None) evidence_fields"
    by (auto simp: immutable_evidence_def meta_def Let_def split: if_splits)
  then have "text_field meta ''sha256'' \<noteq> None" by (simp add: evidence_fields_def)
  then obtain h where h: "dget meta ''sha256'' = PStr h" unfolding text_field_Some by blast
  from assms obtain path where p: "por (dget item ''path'') (dget item ''uri'') = PStr path" "starts_with path ''/''" "path_approved r p path"
      and m: "file_matches K S meta path = Inr None"
    unfolding immutable_evidence_def meta_def [symmetric] Let_def
    by (cases "por (dget item ''path'') (dget item ''uri'')") (auto split: if_splits)
  from file_silent [OF m p(2)] h p show ?thesis unfolding verified_file_def meta_def [symmetric] Let_def by (auto simp: str_of_def)
qed

lemma evidence_silent:
  assumes "evidence_check S K r p = Inr None"
  shows "\<exists>items observed profiled. dget r ''evidence'' = PList items \<and> list_all typed_item items \<and>
    in_names (dget p ''war_room_task_profile'') profiles = Inr profiled \<and> (items = [] \<longrightarrow> profiled) \<and>
    (dget r ''evidence_mode'' = PStr ''VERIFY_EVIDENCE'' \<longrightarrow> (\<forall>v \<in> set items. verified_file K S r p (dict_or_empty v))) \<and>
    observed_actions S K p r = Inr observed \<and>
    (if profiled then profile_evidence p observed = None else \<forall>v \<in> set items. claims_fault S observed v = Inr None)"
proof (cases "dget r ''evidence''")
  case (PList items)
  let ?mode = "dget_or r ''evidence_mode'' (PStr ''CREATE_EVIDENCE'')"
  have mode: "?mode = PStr ''VERIFY_EVIDENCE''" if "dget r ''evidence_mode'' = PStr ''VERIFY_EVIDENCE''"
    using that by (auto simp: dget_def dget_or_def split: option.splits)
  let ?verify = "if ?mode = PStr ''VERIFY_EVIDENCE'' then first_reason (immutable_evidence K S r p \<circ> dict_or_empty) items else Inr None"
  from assms PList obtain enough known why observed profiled where
      enough: "(if items = [] then in_names (dget p ''war_room_task_profile'') profiles else Inr True) = Inr enough" enough
      and typed: "list_all typed_item items" and known: "in_names ?mode [''CREATE_EVIDENCE'', ''VERIFY_EVIDENCE''] = Inr known" known
      and why: "?verify = Inr None" and seen: "observed_actions S K p r = Inr observed"
      and prof: "in_names (dget p ''war_room_task_profile'') profiles = Inr profiled"
      and last: "(if profiled then Inr (profile_evidence p observed) else first_reason (claims_fault S observed) items) = Inr None"
    unfolding evidence_check_def Let_def rbind_Inr_iff by (auto simp: rbind_Inr_iff split: if_split_asm)
  have "\<forall>v \<in> set items. verified_file K S r p (dict_or_empty v)" if "dget r ''evidence_mode'' = PStr ''VERIFY_EVIDENCE''"
    using why mode [OF that] by (auto simp: first_reason_None intro: immutable_silent)
  moreover have "items = [] \<longrightarrow> profiled" using enough prof by auto
  moreover have "if profiled then profile_evidence p observed = None else \<forall>v \<in> set items. claims_fault S observed v = Inr None"
    using last by (auto simp: first_reason_None split: if_splits)
  ultimately show ?thesis using PList typed prof seen by blast
qed (use assms in \<open>auto simp: evidence_check_def\<close>)

lemma known_status:
  assumes "schema_check r p = Inr None"
  obtains t s where "dget r ''status'' = PStr s" "s = ''completed'' \<or> s = ''blocked'' \<or> s = ''failed''"
    "dget r ''summary'' = PStr t" "\<not> blank t"
  using assms
  by (cases "dget r ''status''"; cases "dget r ''summary''") (auto simp: schema_check_def in_names_def rbind_Inr_iff split: if_splits)

lemma scope_silent:
  assumes "scope_check S K r p = Inr None"
  obtains s where "dget r ''scope'' = PDict s" "dget s ''compliant'' = PBool True" "dget_or s ''violations'' (PList []) = PList []"
    "\<And>ms. messages_of p = Some ms \<Longrightarrow> read_only_run S p ms = Inr True \<Longrightarrow> read_only_fault S K r p ms = Inr None"
proof (cases "dget r ''scope''")
  case (PDict s)
  with assms show thesis by (intro that [of s]) (auto simp: scope_check_def split: if_splits)
qed (use assms in \<open>auto simp: scope_check_def\<close>)

text \<open>The contract of a result: completed, with a summary, typed evidence (none only under a task profile), artifacts that all exist,
  and a scope that claims compliance without violations; evidence that is to be verified names files whose digests it
  gives and that contain what they are said to contain.\<close>

definition conforming :: "std \<Rightarrow> disk \<Rightarrow> pydict \<Rightarrow> pydict \<Rightarrow> bool" where
  "conforming S K p r \<longleftrightarrow>
     (\<exists>t items artifacts s. dget r ''status'' = PStr ''completed'' \<and> dget r ''summary'' = PStr t \<and> \<not> blank t \<and>
        dget r ''evidence'' = PList items \<and> list_all typed_item items \<and>
        (items = [] \<longrightarrow> in_names (dget p ''war_room_task_profile'') profiles = Inr True) \<and>
        (dget r ''evidence_mode'' = PStr ''VERIFY_EVIDENCE'' \<longrightarrow> (\<forall>v \<in> set items. verified_file K S r p (dict_or_empty v))) \<and>
        dget r ''artifacts'' = PList artifacts \<and>
        (\<forall>v \<in> set artifacts. \<exists>d a. v = PDict d \<and> dget d ''path'' = PStr a \<and> path_exists K a = Inr True) \<and>
        dget r ''scope'' = PDict s \<and> dget s ''compliant'' = PBool True \<and> dget_or s ''violations'' (PList []) = PList [])"

lemma pass_conforms:
  assumes "vd_status (production_validator S L K p) = PASS"
  shows "\<exists>r. extract_result S L p = Some r \<and> vd_result (production_validator S L K p) = Some r \<and>
    vd_reason (production_validator S L K p) = [] \<and> conforming S K p r"
proof -
  from assms obtain r where r: "extract_result S L p = Some r" and c: "first_failure (production_checks S K) r p = None"
      and said: "lower (text_or S (dget r ''status'')) = ''completed''" by (auto simp: production_pass_iff)
  from r c said have d: "vd_result (production_validator S L K p) = Some r" "vd_reason (production_validator S L K p) = []"
    by (simp_all add: production_validator_def composite_validator_def worker_verdict_def)
  note parts = c [unfolded checks_silent]
  from known_status [of r p] parts obtain t st where "dget r ''status'' = PStr st" "st = ''completed'' \<or> st = ''blocked'' \<or> st = ''failed''"
      "dget r ''summary'' = PStr t" "\<not> blank t" by metis
  with said have st: "dget r ''status'' = PStr ''completed''" and t: "dget r ''summary'' = PStr t" "\<not> blank t"
    by (auto simp: text_or_def str_of_def lower_def to_lower_def is_upper_def code_def)
  from scope_silent [of S K r p] parts obtain s where s: "dget r ''scope'' = PDict s" "dget s ''compliant'' = PBool True"
      "dget_or s ''violations'' (PList []) = PList []" by metis
  from evidence_silent parts obtain items profiled where e: "dget r ''evidence'' = PList items" "list_all typed_item items"
      "in_names (dget p ''war_room_task_profile'') profiles = Inr profiled" "items = [] \<longrightarrow> profiled"
      "dget r ''evidence_mode'' = PStr ''VERIFY_EVIDENCE'' \<longrightarrow> (\<forall>v \<in> set items. verified_file K S r p (dict_or_empty v))" by blast
  from parts artifacts_silent obtain artifacts where "dget r ''artifacts'' = PList artifacts"
      "\<forall>v \<in> set artifacts. \<exists>d a. v = PDict d \<and> dget d ''path'' = PStr a \<and> path_exists K a = Inr True" by metis
  with st t s e have "conforming S K p r" unfolding conforming_def by auto
  with r d show ?thesis by blast
qed

section \<open>Claims and actions\<close>

lemma claims_silent:
  assumes "claims_fault S observed v = Inr None" and "(action, pattern) \<in> set claim_patterns"
    and "denied \<longleftrightarrow> (\<exists>d. map_of denial_patterns action = Some d \<and> rx_search d (claim_text S (dict_or_empty v)))"
  shows "(denied \<longrightarrow> action \<notin> set observed) \<and>
    (\<not> denied \<longrightarrow> rx_search pattern (claim_text S (dict_or_empty v)) \<longrightarrow> action \<in> set observed)"
proof -
  from assms(1,2) have "claim_fault observed (claim_text S (dict_or_empty v)) (action, pattern) = None"
    by (fastforce simp: claims_fault_def first_reason_None)
  with assms(3) show ?thesis by (auto simp: claim_fault_def split: option.splits if_splits)
qed

text \<open>What is observed beside artifacts is done by a tool call of this turn.\<close>

lemma observed_from_calls:
  assumes "observed_actions S K p r = Inr observed" and "action \<in> set observed" and "action \<noteq> ''artifact''"
  shows "\<exists>ms turn b done. messages_of p = Some ms \<and> this_turn ms = Some turn \<and> b \<in> set (tool_calls S turn) \<and>
    call_actions S b = Inr done \<and> action \<in> set done"
  using assms
  by (fastforce simp: observed_actions_def Let_def rbind_Inr_iff split: if_splits option.splits dest: rmap_Inr_set)

text \<open>C10: no action is claimed that was not done. When a result outside the task profiles passes, there is evidence, and every action
  that an item speaks of, without denying it, was seen: an artifact exists, or a tool call of this turn did it. What an
  item denies was not seen.\<close>

theorem claimed_actions_were_done:
  assumes "vd_status (production_validator S L K p) = PASS" and "in_names (dget p ''war_room_task_profile'') profiles = Inr False"
  shows "\<exists>r items observed. extract_result S L p = Some r \<and> dget r ''evidence'' = PList items \<and> items \<noteq> [] \<and>
    observed_actions S K p r = Inr observed \<and>
    (\<forall>v \<in> set items. \<forall>(action, pattern) \<in> set claim_patterns.
       let claim = claim_text S (dict_or_empty v); denied = (\<exists>d. map_of denial_patterns action = Some d \<and> rx_search d claim) in
       (denied \<longrightarrow> action \<notin> set observed) \<and> (\<not> denied \<longrightarrow> rx_search pattern claim \<longrightarrow> action \<in> set observed)) \<and>
    (\<forall>action \<in> set observed. action \<noteq> ''artifact'' \<longrightarrow>
       (\<exists>ms turn b done. messages_of p = Some ms \<and> this_turn ms = Some turn \<and> b \<in> set (tool_calls S turn) \<and>
          call_actions S b = Inr done \<and> action \<in> set done))"
proof -
  from assms(1) obtain r where r: "extract_result S L p = Some r" and e: "evidence_check S K r p = Inr None"
    by (auto simp: production_pass_iff checks_silent)
  from evidence_silent [OF e] assms(2) obtain items observed where i: "dget r ''evidence'' = PList items" "items \<noteq> []"
      and o: "observed_actions S K p r = Inr observed" and c: "\<forall>v \<in> set items. claims_fault S observed v = Inr None" by auto
  have "(denied \<longrightarrow> action \<notin> set observed) \<and>
      (\<not> denied \<longrightarrow> rx_search pattern (claim_text S (dict_or_empty v)) \<longrightarrow> action \<in> set observed)"
    if "v \<in> set items" "(action, pattern) \<in> set claim_patterns"
      "denied = (\<exists>d. map_of denial_patterns action = Some d \<and> rx_search d (claim_text S (dict_or_empty v)))" for v action pattern denied
    using claims_silent [of S observed v action pattern denied] c that by blast
  with r i o observed_from_calls [OF o] show ?thesis by (fastforce simp: Let_def)
qed

section \<open>Read-only runs\<close>

lemma designate_places: "designate K ts = Inr (Some (qs, linked)) \<Longrightarrow> q \<in> set qs \<Longrightarrow> output_place q"
  by (induction ts arbitrary: qs linked) (auto simp: rbind_Inr_iff split: if_splits)

lemma slash_runs_head: "t \<in> set (slash_runs s) \<Longrightarrow> absolute (path_of t)"
  by (induction s rule: slash_runs.induct) (auto simp: Let_def path_of_def split: if_splits)

lemma expand_all: "(\<And>t. t \<in> set ts \<Longrightarrow> absolute (path_of t)) \<Longrightarrow> rmap (expand_user K \<circ> path_of) ts = Inr (map path_of ts)"
  by (induction ts) (simp_all add: expand_absolute)

lemma read_only_all: "(\<And>q. q \<in> set qs \<Longrightarrow> absolute q) \<Longrightarrow> rmap (read_only_path K) qs = Inr qs"
  by (induction qs) (simp_all add: read_only_absolute)

lemma targets_absolute: "write_targets b = Some qs \<Longrightarrow> q \<in> set qs \<Longrightarrow> absolute q"
  by (auto simp: write_targets_def Let_def list_ex_iff split: pyval.splits if_splits)

lemma mentioned_absolute: "mentioned_paths K name command b = Inr (Some qs) \<Longrightarrow> q \<in> set qs \<Longrightarrow> absolute q"
  by (auto simp: mentioned_paths_def expand_all slash_runs_head targets_absolute split: if_splits)

text \<open>A call that was let through.\<close>

definition call_confined :: "std \<Rightarrow> disk \<Rightarrow> posix list \<Rightarrow> bool \<Rightarrow> pydict \<Rightarrow> bool" where
  "call_confined S K qs linked b \<longleftrightarrow>
     (\<exists>t. spaced_json S (call_arguments b) = Inr t \<and>
        (let name = casefold (call_name S b); command = name @ '' '' @ t in
         (name \<noteq> ''write'' \<longrightarrow> \<not> rx_search test_commands command) \<and>
         (call_writes name command \<longrightarrow> \<not> linked \<and>
            (\<exists>found. mentioned_paths K name command b = Inr (Some found) \<and> found \<noteq> [] \<and>
               (\<forall>q \<in> set found. q \<in> set qs \<and> \<not> has_link K q)))))"

lemma judge_call_confined:
  assumes "judge_call S K qs linked n b = Inr v" and "\<And>w. v \<noteq> Refused w"
  shows "call_confined S K qs linked b"
proof -
  from assms(1) obtain t where t: "spaced_json S (call_arguments b) = Inr t" by (auto simp: judge_call_def rbind_Inr_iff)
  let ?name = "casefold (call_name S b)"
  let ?command = "?name @ '' '' @ t"
  show ?thesis
  proof (cases "call_writes ?name ?command")
    case False
    with assms t show ?thesis by (auto simp: judge_call_def call_confined_def Let_def split: if_splits)
  next
    case True
    with assms t obtain found where f: "mentioned_paths K ?name ?command b = Inr (Some found)"
      and v: "(if confined K qs linked found
               then if ?name \<noteq> ''write'' \<and> rx_search test_commands ?command then Refused ''READ_ONLY_SCOPE_EXPANSION'' else Wrote
               else Refused write_attempt) = v"
      by (fastforce simp: judge_call_def Let_def rbind_Inr_iff read_only_all mentioned_absolute split: if_splits option.splits)
    from v assms(2) have c: "confined K qs linked found" "?name \<noteq> ''write'' \<longrightarrow> \<not> rx_search test_commands ?command"
      by (auto split: if_splits)
    from c(1) have "\<not> linked" "found \<noteq> []" "\<forall>q \<in> set found. q \<in> set qs \<and> \<not> has_link K q"
      by (auto simp: confined_def list_all_iff list_ex_iff)
    with t f c(2) show ?thesis unfolding call_confined_def Let_def by blast
  qed
qed

lemma judge_calls_confined: "judge_calls S K qs linked n seen bs = Inr None \<Longrightarrow> b \<in> set bs \<Longrightarrow> call_confined S K qs linked b"
proof (induction bs arbitrary: seen)
  case (Cons c bs)
  then obtain v where v: "judge_call S K qs linked n c = Inr v" by (auto simp: rbind_Inr_iff)
  with Cons.prems have "\<And>w. v \<noteq> Refused w" by auto
  from judge_call_confined [OF v this] Cons v show ?case by (cases v) auto
qed simp

lemma placed_artifact:
  assumes "artifact_place K qs linked v = Inr None"
  shows "\<exists>d t q. v = PDict d \<and> dget d ''path'' = PStr t \<and> expand_user K (path_of t) = Inr q \<and> q \<in> set qs \<and> \<not> has_link K q"
  using assms by (auto simp: artifact_place_def rbind_Inr_iff read_only_absolute split: pyval.splits if_splits)

text \<open>C9: a read-only run that passes kept to the places it was given. The approved paths are all output places of an agent. No tool
  call ran tests, and each call that the checks take for a write names paths, only approved ones, none behind a
  symbolic link. The artifacts are approved paths too.\<close>

theorem read_only_run_confined:
  assumes "vd_status (production_validator S L K p) = PASS" and "messages_of p = Some ms" and "read_only_run S p ms = Inr True"
  shows "\<exists>r qs linked artifacts. extract_result S L p = Some r \<and> designate K (designated_texts p) = Inr (Some (qs, linked)) \<and>
    (\<forall>q \<in> set qs. output_place q) \<and> (\<forall>b \<in> set (tool_calls S ms). call_confined S K qs linked b) \<and>
    dget r ''artifacts'' = PList artifacts \<and>
    (\<forall>v \<in> set artifacts. \<exists>d t q. v = PDict d \<and> dget d ''path'' = PStr t \<and> expand_user K (path_of t) = Inr q \<and>
       q \<in> set qs \<and> \<not> has_link K q)"
proof -
  from assms(1) obtain r where r: "extract_result S L p = Some r" and a: "artifacts_check K r p = Inr None" and s: "scope_check S K r p = Inr None"
    by (auto simp: production_pass_iff checks_silent)
  from a obtain artifacts where l: "dget r ''artifacts'' = PList artifacts" by (auto simp: artifacts_silent)
  from s assms(2,3) have "read_only_fault S K r p ms = Inr None" by (metis scope_silent)
  then show ?thesis
  proof (cases rule: read_only_cases)
    case (calls qs linked items)
    from calls(3) l have "items = artifacts" by (auto split: if_splits)
    with calls placed_artifact have "\<forall>v \<in> set artifacts. \<exists>d t q. v = PDict d \<and> dget d ''path'' = PStr t \<and>
        expand_user K (path_of t) = Inr q \<and> q \<in> set qs \<and> \<not> has_link K q" by (fastforce simp: first_reason_None)
    with r l calls(1) designate_places [OF calls(1)] judge_calls_confined [OF calls(5)] show ?thesis by blast
  qed auto
qed

section \<open>Ways around\<close>

lemma starts_with_front: "starts_with (a @ b) a"
  by (induction a) auto

text \<open>What a match of a pattern leaves in the text.\<close>

lemma alts_ends: "j \<in> set (rx_ends (alts rs) w i) \<Longrightarrow> rs \<noteq> [] \<Longrightarrow> \<exists>r \<in> set rs. j \<in> set (rx_ends r w i)"
  by (induction rs rule: alts.induct) auto

lemma lit_ends: "j \<in> set (rx_ends (lit u) w i) \<Longrightarrow> i \<le> length w \<Longrightarrow> \<exists>rest. drop i w = u @ rest"
proof (induction u arbitrary: i rule: lit.induct)
  case (3 c d u)
  then have i: "i < length w" "w ! i = c" and "j \<in> set (rx_ends (lit (d # u)) w (Suc i))" by (auto split: if_splits)
  with 3(1) obtain rest where "drop (Suc i) w = (d # u) @ rest" by force
  with i show ?case by (metis Cons_nth_drop_Suc append_Cons)
qed (auto simp: Cons_nth_drop_Suc [symmetric] split: if_splits)

lemma lit_contains:
  assumes "j \<in> set (rx_ends (lit u) w i)" and "u \<noteq> []"
  shows "contains w u"
proof -
  have "i \<le> length w" using assms by (cases u rule: lit.cases) (auto split: if_splits)
  from lit_ends [OF assms(1) this] obtain rest where "drop i w = u @ rest" by blast
  then have "w = take i w @ u @ rest" by (metis append_take_drop_id)
  then show ?thesis unfolding contains_iff by blast
qed

lemma words_contain:
  "j \<in> set (rx_ends (seqs [WordB, alts (map lit us), Sat P]) w i) \<Longrightarrow> us \<noteq> [] \<Longrightarrow> [] \<notin> set us \<Longrightarrow> \<exists>u \<in> set us. contains w u"
  by (auto dest!: alts_ends split: if_splits) (metis lit_contains)

lemma cat_ends: "k \<in> set (rx_ends (Cat r s) w i) \<Longrightarrow> \<exists>l. k \<in> set (rx_ends s w l)"
  by auto

lemma word_of_ends: "j \<in> set (rx_ends (word_of rs) w i) \<Longrightarrow> rs \<noteq> [] \<Longrightarrow> \<exists>r \<in> set rs. \<exists>k. k \<in> set (rx_ends r w i)"
  by (auto simp: word_of_def dest!: alts_ends split: if_splits)

lemma contains_part: "contains w (a @ u @ b) \<Longrightarrow> contains w u"
  unfolding contains_iff by (metis append.assoc)

lemma writer_found: "rx_search shell_writers w \<Longrightarrow> CHR ''>'' \<in> set w \<or> (\<exists>u \<in> {''tee'', ''touch'', ''cp'', ''mv''}. contains w u)"
  unfolding rx_search_def list_ex_iff
proof (elim bexE)
  fix i assume "rx_ends shell_writers w i \<noteq> []"
  then obtain j where "j \<in> set (rx_ends shell_writers w i)" by (cases "rx_ends shell_writers w i") auto
  then have "j \<in> set (rx_ends (seqs [WordB, alts (map lit [''tee'', ''touch'', ''cp'', ''mv'']), Sat is_space]) w i) \<or>
      j \<in> set (rx_ends redirection w i)"
    unfolding shell_writers_def by (simp only: alts.simps rx_ends.simps set_remdups set_append Un_iff)
  then show ?thesis
  proof
    assume "j \<in> set (rx_ends (seqs [WordB, alts (map lit [''tee'', ''touch'', ''cp'', ''mv'']), Sat is_space]) w i)"
    from words_contain [OF this] show ?thesis by auto
  next
    assume "j \<in> set (rx_ends redirection w i)"
    then have "i < length w" "w ! i = CHR ''>''" by (auto simp: redirection_def split: if_splits)
    then show ?thesis using nth_mem by fastforce
  qed
qed

lemma test_found: "rx_search test_commands w \<Longrightarrow> contains w ''test''"
  unfolding rx_search_def list_ex_iff
proof (elim bexE)
  fix i assume "rx_ends test_commands w i \<noteq> []"
  then obtain j where "j \<in> set (rx_ends test_commands w i)" by (cases "rx_ends test_commands w i") auto
  from word_of_ends [OF this [unfolded test_commands_def]]
  obtain k l where "k \<in> set (rx_ends (lit ''pytest'') w l) \<or> k \<in> set (rx_ends (lit ''unittest'') w l) \<or> k \<in> set (rx_ends (lit ''test'') w l)"
    by (auto simp del: lit.simps rx_ends.simps dest!: cat_ends)
  then have "contains w ''pytest'' \<or> contains w ''unittest'' \<or> contains w ''test''" using lit_contains by blast
  then show ?thesis using contains_part [of w "''py''" "''test''" "[]"] contains_part [of w "''unit''" "''test''" "[]"] by auto
qed

text \<open>The read-only checks know a handful of commands. A tool call that is no file tool passes them unseen whatever it does, as long
  as its text holds no greater-than sign and none of the words tee, touch, cp, mv and test.\<close>

theorem other_commands_unseen:
  assumes "spaced_json S (call_arguments b) = Inr t" and "casefold (call_name S b) \<notin> {''write'', ''edit'', ''apply_patch''}"
    and "CHR ''>'' \<notin> set (casefold (call_name S b) @ '' '' @ t)"
    and "\<forall>u \<in> {''tee'', ''touch'', ''cp'', ''mv'', ''test''}. \<not> contains (casefold (call_name S b) @ '' '' @ t) u"
  shows "judge_call S K qs linked n b = Inr Quiet"
proof -
  let ?command = "casefold (call_name S b) @ '' '' @ t"
  have "\<not> rx_search test_commands ?command" using test_found assms(4) by blast
  moreover have "\<not> rx_search shell_writers ?command" using writer_found assms(3,4) by blast
  then have "\<not> call_writes (casefold (call_name S b)) ?command" using assms(2) by (simp add: call_writes_def)
  ultimately show ?thesis by (simp add: judge_call_def assms(1))
qed



end
