(* ===== verification/ResultFormat.thy ===== *)
theory ResultFormat
  imports ResultSafety
begin

text \<open>
  The one attempt to bring a malformed result into its form: \<open>_close_result_containers\<close> and
  \<open>recover_production_result_format\<close> of \<^verbatim>\<open>openclaw_adapter.py\<close>. \<open>L\<close> is \<^verbatim>\<open>json.loads\<close>, \<open>R\<close> the value that
  \<^verbatim>\<open>JSONDecoder.raw_decode\<close> reads at the front of a text.
\<close>

section \<open>Missing closers\<close>

text \<open>One character: inside a string or not, behind a backslash or not, and the closers still missing, innermost first.\<close>

fun scan_char :: "char \<Rightarrow> bool \<times> bool \<times> string \<Rightarrow> (bool \<times> bool \<times> string) option" where
  "scan_char c (quoted, escaped, stack) =
     (if quoted then
        Some (if escaped then (True, False, stack) else if c = CHR 0x5C then (True, True, stack) else (c \<noteq> CHR 0x22, False, stack))
      else if c = CHR 0x22 then Some (True, escaped, stack)
      else if c = CHR ''{'' then Some (False, escaped, CHR ''}'' # stack)
      else if c = CHR ''['' then Some (False, escaped, CHR '']'' # stack)
      else if c = CHR ''}'' \<or> c = CHR '']'' then
        (if stack \<noteq> [] \<and> hd stack = c then Some (False, escaped, tl stack) else None)
      else Some (False, escaped, stack))"

fun scan_text :: "string \<Rightarrow> bool \<times> bool \<times> string \<Rightarrow> (bool \<times> bool \<times> string) option" where
  "scan_text [] x = Some x"
| "scan_text (c # t) x = (case scan_char c x of None \<Rightarrow> None | Some y \<Rightarrow> scan_text t y)"

definition close_containers :: "(string \<Rightarrow> pyval option) \<Rightarrow> string \<Rightarrow> pydict option" where
  "close_containers L t =
     (case scan_text t (False, False, []) of
        Some (quoted, escaped, stack) \<Rightarrow> if quoted \<or> stack = [] then None else parsed_dict L (t @ stack)
      | None \<Rightarrow> None)"

definition closers :: "string \<Rightarrow> bool" where
  "closers st \<longleftrightarrow> set st \<subseteq> {CHR ''}'', CHR '']''}"

lemma scan_append: "scan_text (t @ u) x = (case scan_text t x of None \<Rightarrow> None | Some y \<Rightarrow> scan_text u y)"
  by (induction t arbitrary: x) (auto split: option.split)

lemma scan_char_closers: "scan_char c x = Some y \<Longrightarrow> closers (snd (snd x)) \<Longrightarrow> closers (snd (snd y))"
  by (cases x; cases "snd (snd x)") (auto simp: closers_def split: if_splits)

lemma scan_closers: "scan_text t x = Some y \<Longrightarrow> closers (snd (snd x)) \<Longrightarrow> closers (snd (snd y))"
  by (induction t arbitrary: x) (auto split: option.splits dest: scan_char_closers)

lemma scan_stack: "closers st \<Longrightarrow> scan_text st (False, e, st) = Some (False, e, [])"
  by (induction st) (auto simp: closers_def)

text \<open>The repair of a cut-off result only closes. What is appended are the brackets that the text left open outside of
  strings, in the order that closes them, at least one of them; and nothing but closing brackets is appended.\<close>

theorem closed_text_is_balanced:
  assumes "close_containers L t = Some d"
  shows "\<exists>e stack. L (t @ stack) = Some (PDict d) \<and> stack \<noteq> [] \<and> closers stack \<and> scan_text t (False, False, []) = Some (False, e, stack) \<and>
    scan_text (t @ stack) (False, False, []) = Some (False, e, [])"
proof -
  from assms obtain e stack where s: "scan_text t (False, False, []) = Some (False, e, stack)" "stack \<noteq> []" and l: "L (t @ stack) = Some (PDict d)"
    by (auto simp: close_containers_def parsed_dict_def split: option.splits if_splits)
  have "closers stack" using scan_closers [OF s(1)] by (simp add: closers_def)
  with scan_stack [OF this] s l show ?thesis by (simp add: scan_append)
qed

section \<open>Recovery\<close>

definition response_text :: "std \<Rightarrow> pyval \<Rightarrow> string option" where
  "response_text S v =
     (if \<not> assistant v then None
      else (let t = strip (case dget (dict_or_empty v) ''content'' of
                PStr t \<Rightarrow> t | PList vs \<Rightarrow> concat (map (item_text S) vs) | _ \<Rightarrow> [])
            in if t = [] then None else Some t))"

definition history_text :: "std \<Rightarrow> pydict \<Rightarrow> string option" where
  "history_text S p =
     (case messages_of p of
        None \<Rightarrow> None
      | Some vs \<Rightarrow> (case List.map_filter (response_text S) (rev vs) of [] \<Rightarrow> None | t # _ \<Rightarrow> Some t))"

definition assistant_text :: "std \<Rightarrow> pydict \<Rightarrow> string option" where
  "assistant_text S p =
     (case dget p ''result'' of
        PStr t \<Rightarrow> if blank t then history_text S p else Some (strip t)
      | _ \<Rightarrow> history_text S p)"

text \<open>\<open>\s*```(?:json)?\s*\n?(.*?)\n?```\s*\<close> on a stripped text, the group stripped.\<close>

definition fence :: string where
  "fence = replicate 3 (CHR 0x60)"

definition unfenced :: "string \<Rightarrow> string" where
  "unfenced raw =
     (if 6 \<le> length raw \<and> starts_with raw fence \<and> ends_with raw fence then
        (let body = take (length raw - 6) (drop 3 raw)
         in strip (if lower (take 4 body) = ''json'' then drop 4 body else body))
      else raw)"

definition parsed_candidate :: "(string \<Rightarrow> pyval option) \<Rightarrow> (string \<Rightarrow> pyval option) \<Rightarrow> string \<Rightarrow> pydict option" where
  "parsed_candidate L R raw =
     (let text = unfenced raw in
      case L text of
        Some v \<Rightarrow> as_dict v
      | None \<Rightarrow>
          (let object = dropWhile (\<lambda>c. c \<noteq> CHR ''{'') text in
           if object = [] then None
           else (case R object of Some v \<Rightarrow> as_dict v | None \<Rightarrow> close_containers L object)))"

text \<open>A text that looks like a structured result is not taken for prose.\<close>

definition structured :: "string \<Rightarrow> bool" where
  "structured raw \<longleftrightarrow>
     list_ex (starts_with (lstrip raw)) [''{'', ''['', fence] \<or> contains raw (CHR 0x22 # ''status'' @ [CHR 0x22])"

definition result_candidate :: "std \<Rightarrow> (string \<Rightarrow> pyval option) \<Rightarrow> (string \<Rightarrow> pyval option) \<Rightarrow> pydict \<Rightarrow> pydict option" where
  "result_candidate S L R p =
     (case dget p ''result'' of
        PDict d \<Rightarrow> Some d
      | _ \<Rightarrow> (case assistant_text S p of
          None \<Rightarrow> None
        | Some raw \<Rightarrow> (case parsed_candidate L R raw of
            Some d \<Rightarrow> Some d
          | None \<Rightarrow> if structured raw then None else Some [])))"

definition blocked_words :: rx where
  "blocked_words = word_of [lit ''blocked'']"

definition failed_words :: rx where
  "failed_words = alts [word_of [lit ''failed''], word_of [lit ''failure'']]"

definition completed_words :: rx where
  "completed_words = alts [word_of [lit ''completed''], word_of [lit ''complete''], word_of [lit ''done'']]"

definition status_of_text :: "string \<Rightarrow> string" where
  "status_of_text t =
     (if rx_search blocked_words t then ''blocked''
      else if rx_search failed_words t then ''failed''
      else if rx_search completed_words t then ''completed''
      else ''failed'')"

definition known_states :: "string list" where
  "known_states = [''completed'', ''blocked'', ''failed'']"

definition own_status :: "pydict \<Rightarrow> pydict" where
  "own_status d = (case dget d ''status'' of PStr t \<Rightarrow> AList.update ''status'' (PStr (lower (strip t))) d | _ \<Rightarrow> d)"

definition texts_of :: "std \<Rightarrow> string \<Rightarrow> pydict \<Rightarrow> string" where
  "texts_of S raw d = casefold (str_of S (dget_or d ''status'' (PStr [])) @ '' '' @ str_of S (dget_or d ''summary'' (PStr [])) @ '' '' @ raw)"

definition with_status :: "std \<Rightarrow> string \<Rightarrow> pydict \<Rightarrow> pydict res" where
  "with_status S raw d =
     (let e = own_status d in
      rbind (in_names (dget e ''status'') known_states) (\<lambda>known.
      Inr (if known then e else AList.update ''status'' (PStr (status_of_text (texts_of S raw e))) e)))"

definition with_summary :: "string \<Rightarrow> pydict \<Rightarrow> pydict" where
  "with_summary raw d =
     (if (case dget d ''summary'' of PStr t \<Rightarrow> \<not> blank t | _ \<Rightarrow> False) then d
      else AList.update ''summary'' (PStr (if raw = [] then ''Agent returned an incomplete Result envelope.'' else raw)) d)"

definition with_evidence :: "pydict \<Rightarrow> pydict" where
  "with_evidence d =
     (if dhas d ''evidence'' then d
      else AList.update ''evidence'' (PList [PDict [(''type'', PStr ''runtime_observation''),
             (''detail'', PStr ''Agent terminal response observed by execution harness'')]]) d)"

definition evidence_items :: "pydict \<Rightarrow> pydict list" where
  "evidence_items d = (case dget d ''evidence'' of PList vs \<Rightarrow> List.map_filter as_dict vs | _ \<Rightarrow> [])"

definition with_artifacts :: "pydict \<Rightarrow> pydict" where
  "with_artifacts d =
     (if dhas d ''artifacts'' \<and> dget d ''artifacts'' \<noteq> PList [] then d
      else AList.update ''artifacts'' (PList (concat (List.map_filter (\<lambda>i. as_list (dget i ''artifacts'')) (evidence_items d)))) d)"

definition clean_scope :: "pyval \<Rightarrow> bool" where
  "clean_scope v = (case v of PDict s \<Rightarrow> dget s ''compliant'' = PBool True \<and> \<not> truthy (dget s ''violations'') | _ \<Rightarrow> False)"

definition with_scope :: "pydict \<Rightarrow> pydict" where
  "with_scope d =
     (if dhas d ''scope'' then d
      else (let nested = map (\<lambda>i. dget i ''scope'') (filter (\<lambda>i. dhas i ''scope'') (evidence_items d)) in
            AList.update ''scope''
              (case filter (\<lambda>v. \<not> clean_scope v) nested of
                 v # _ \<Rightarrow> v
               | [] \<Rightarrow> (case nested of v # _ \<Rightarrow> v | [] \<Rightarrow> PDict [(''compliant'', PBool True), (''violations'', PList [])])) d))"

definition recover_format_of ::
  "std \<Rightarrow> (string \<Rightarrow> pyval option) \<Rightarrow> (string \<Rightarrow> pyval option) \<Rightarrow> pydict \<Rightarrow> pydict \<Rightarrow> pydict option res" where
  "recover_format_of S L R p observed =
     (case result_candidate S L R p of
        None \<Rightarrow> Inr None
      | Some d \<Rightarrow>
          (let raw = (case assistant_text S p of None \<Rightarrow> [] | Some t \<Rightarrow> t) in
           rbind (with_status S raw d) (\<lambda>e.
           Inr (Some (merged p [(''result'', PDict (with_scope (with_artifacts (with_evidence (with_summary raw e))))),
                                (''observed_run'', PDict observed)])))))"

lemma dget_update: "dget (AList.update k v d) k' = (if k' = k then v else dget d k')"
  by (simp add: dget_def update_conv)

lemma dhas_update: "dhas (AList.update k v d) k' \<longleftrightarrow> k' = k \<or> dhas d k'"
  by (simp add: dhas_def dom_update)

lemma dget_merged: "dget (merged p [(k, v), (l, u)]) x = (if x = l then u else if x = k then v else dget p x)"
  by (simp add: merged_def dget_update)

lemma blank_strip: "\<not> blank t \<Longrightarrow> \<not> blank (strip t)"
  by (simp add: blank_def strip_idem)

lemma response_not_blank: "response_text S v = Some t \<Longrightarrow> \<not> blank t"
  by (auto simp: response_text_def Let_def blank_def strip_idem split: if_splits)

lemma assistant_not_blank: "assistant_text S p = Some t \<Longrightarrow> \<not> blank t"
proof -
  have h: "history_text S p = Some t \<Longrightarrow> \<not> blank t" for t
  proof -
    assume "history_text S p = Some t"
    then obtain vs where "t \<in> set (List.map_filter (response_text S) vs)"
      by (auto simp: history_text_def split: option.splits list.splits) (metis list.set_intros(1))
    then show "\<not> blank t" by (auto simp: map_filter_def dest: response_not_blank)
  qed
  show "assistant_text S p = Some t \<Longrightarrow> ?thesis"
    by (auto simp: assistant_text_def dest: h blank_strip split: pyval.splits if_splits)
qed

lemma dget_has: "dget d k \<noteq> PNone \<Longrightarrow> dhas d k"
  by (auto simp: dget_def dhas_def dest: map_of_SomeD split: option.splits intro: rev_image_eqI)

text \<open>The status of the result is the worker's own, or read off the texts.\<close>

definition says_completed :: "string \<Rightarrow> bool" where
  "says_completed w \<longleftrightarrow> rx_search completed_words w \<and> \<not> rx_search failed_words w \<and> \<not> rx_search blocked_words w"

lemma with_status_Inr:
  assumes "with_status S raw d = Inr e"
  shows "(\<exists>t. dget e ''status'' = PStr t \<and> List.member known_states t) \<and> (\<forall>k. k \<noteq> ''status'' \<longrightarrow> dget e k = dget d k \<and> (dhas e k \<longleftrightarrow> dhas d k)) \<and>
    dhas e ''status'' \<and>
    (dget e ''status'' = PStr ''completed'' \<longrightarrow>
       (\<exists>t. dget d ''status'' = PStr t \<and> lower (strip t) = ''completed'') \<or> says_completed (texts_of S raw (own_status d)))"
proof -
  have other: "dget (own_status d) k = dget d k \<and> (dhas (own_status d) k \<longleftrightarrow> dhas d k)" if "k \<noteq> ''status''" for k
    using that by (auto simp: own_status_def dget_update dhas_update split: pyval.split)
  have own: "\<exists>t. dget d ''status'' = PStr t \<and> lower (strip t) = s" if "dget (own_status d) ''status'' = PStr s" for s
    using that by (cases "dget d ''status''") (auto simp: own_status_def dget_update)
  from assms obtain known where k: "in_names (dget (own_status d) ''status'') known_states = Inr known"
      and e: "e = (if known then own_status d else AList.update ''status'' (PStr (status_of_text (texts_of S raw (own_status d)))) (own_status d))"
    by (auto simp: with_status_def Let_def rbind_Inr_iff)
  show ?thesis
  proof (cases known)
    case True
    with k obtain t where t: "dget (own_status d) ''status'' = PStr t" "List.member known_states t"
      by (auto simp: in_names_def split: pyval.splits)
    then have "dhas (own_status d) ''status''" by (intro dget_has) simp
    with True e t other own show ?thesis by auto
  next
    case False
    have "List.member known_states (status_of_text w)" for w by (simp add: status_of_text_def known_states_def)
    moreover have "status_of_text w = ''completed'' \<Longrightarrow> says_completed w" for w
      by (auto simp: status_of_text_def says_completed_def split: if_splits)
    ultimately show ?thesis using False e other by (simp add: dget_update dhas_update)
  qed
qed


text \<open>Words are counted, not read: a status that is denied is taken for one that is reached.\<close>

lemma negated_status_counts: "status_of_text ''not done'' = ''completed''"
  by code_simp

end
