(* ===== verification/ProductionRun.thy ===== *)
theory ProductionRun
  imports EngineAdapter ResultFormat
begin

text \<open>
  The compositions that run in production: the engine over the adapter, the adapter with the production checks. The service
  (\<^verbatim>\<open>fast_gateway_service.py\<close>) lets the format of results be recovered for its agents, the tracked composition root
  (\<^verbatim>\<open>ubuntu_transport.py\<close>) does not. What is read of the file system may depend on the state of the world.
\<close>

definition checked_adapter ::
  "(string \<Rightarrow> pyval option) \<Rightarrow> 'w gateway_deps \<Rightarrow> ('w \<Rightarrow> disk) \<Rightarrow> (run_binding \<Rightarrow> string \<Rightarrow> 'w \<Rightarrow> 'w) \<Rightarrow> string list option \<Rightarrow> 'w adapter_deps" where
  "checked_adapter R G files output recovering =
     \<lparr>ad_gateway = G, ad_validate = (\<lambda>p w. (Inr (production_validator (gd_std G) (gd_loads G) (files w) p), w)),
      ad_recover = map_option (\<lambda>agents p observed w. (recover_format_of (gd_std G) (gd_loads G) R p observed, w)) recovering,
      ad_recover_agents = (case recovering of None \<Rightarrow> [] | Some agents \<Rightarrow> agents), ad_limit = 20, ad_observe = output\<rparr>"

definition service_adapter ::
  "(string \<Rightarrow> pyval option) \<Rightarrow> 'w gateway_deps \<Rightarrow> ('w \<Rightarrow> disk) \<Rightarrow> (run_binding \<Rightarrow> string \<Rightarrow> 'w \<Rightarrow> 'w) \<Rightarrow> agents \<Rightarrow> 'w adapter_deps" where
  "service_adapter R G files output registry = checked_adapter R G files output (Some (candidate_agent_ids registry []))"

definition ubuntu_adapter ::
  "(string \<Rightarrow> pyval option) \<Rightarrow> 'w gateway_deps \<Rightarrow> ('w \<Rightarrow> disk) \<Rightarrow> (run_binding \<Rightarrow> string \<Rightarrow> 'w \<Rightarrow> 'w) \<Rightarrow> 'w adapter_deps" where
  "ubuntu_adapter R G files output = checked_adapter R G files output None"

lemma checked_validated:
  assumes "validated (checked_adapter R G files output recovering) i b payload x" and "oc_status x = PASS"
  shows "\<exists>p now result. (p = payload \<or> (\<exists>agents. recovering = Some agents \<and> bd_agent b \<in> set agents \<and>
        recover_format_of (gd_std G) (gd_loads G) R payload (observed_run i b) = Inr (Some p))) \<and>
     vd_status (production_validator (gd_std G) (gd_loads G) (files now) p) = PASS \<and>
     extract_result (gd_std G) (gd_loads G) p = Some result \<and> conforming (gd_std G) (files now) p result \<and> oc_result x = Some result"
proof -
  let ?v = "\<lambda>p now. production_validator (gd_std G) (gd_loads G) (files now) p"
  from assms(1) obtain p now where o: "oc_status x = vd_status (?v p now)" "oc_result x = (if refused (vd_reason (?v p now)) then None else vd_result (?v p now))"
    and p: "p = payload \<or> (\<exists>agents. recovering = Some agents \<and> bd_agent b \<in> set agents \<and>
        recover_format_of (gd_std G) (gd_loads G) R payload (observed_run i b) = Inr (Some p))"
    by (auto simp: validated_def checked_adapter_def split: option.splits)
  from o(1) assms(2) have pass: "vd_status (?v p now) = PASS" by simp
  from pass_conforms [OF this] obtain result where "extract_result (gd_std G) (gd_loads G) p = Some result"
      "conforming (gd_std G) (files now) p result" "oc_result x = Some result"
    using o(2) by (auto simp: refused_def rejecting_def ends_with_def)
  with p pass show ?thesis by blast
qed


end
