(* ===== verification/AdapterExample.thy ===== *)
theory AdapterExample
  imports ProductionRun
begin

text \<open>A gateway that answers from a script, and the adapter over it: the properties at a concrete run.\<close>

section \<open>The gateway\<close>

text \<open>The world counts the runs started. Texts stand for the frames they name.\<close>

definition ok_frame :: "pydict \<Rightarrow> pyval" where
  "ok_frame p = PDict [(''type'', PStr ''res''), (''id'', PStr ''id''), (''ok'', PBool True), (''payload'', PDict p)]"

definition said :: "string \<Rightarrow> int \<Rightarrow> string \<Rightarrow> pyval" where
  "said role n t = PDict [(''role'', PStr role), (''content'', PStr t), (''__openclaw'', PDict [(''seq'', PInt n)])]"

definition hello_ok :: pydict where
  "hello_ok = [(''type'', PStr ''hello-ok''), (''role'', PStr ''operator''), (''scopes'', str_list [''operator.write'']),
     (''methods'', str_list [''agent'', ''agent.wait'', ''chat.history'', ''sessions.abort''])]"

definition old_messages :: "pyval list" where
  "old_messages = [said ''assistant'' 1 ''old'']"

definition new_messages :: "pyval list" where
  "new_messages = [said ''user'' 2 ''go'', said ''assistant'' 3 ''done'']"

definition started_run :: pydict where
  "started_run = [(''status'', PStr ''accepted''), (''runId'', PStr ''r1''), (''sessionKey'', PStr ''agent:qa:s''), (''sessionId'', PStr ''s1'')]"

definition demo_context :: pydict where
  "demo_context = [(''approved_paths'', PList [])]"

definition demo_result :: pydict where
  "demo_result = [(''status'', PStr ''completed''), (''summary'', PStr ''done''), (''evidence'', PList [PDict [(''type'', PStr ''x'')]]),
     (''artifacts'', PList []), (''scope'', PDict [(''compliant'', PBool True), (''violations'', PList [])])]"

definition demo_outcome :: adapter_outcome where
  "demo_outcome = \<lparr>oc_status = PASS, oc_reason = [], oc_result = Some demo_result, oc_format_error = [],
     oc_format_attempts = 0, oc_format_rejection = [], oc_raw = Some ''done'', oc_rejected = None\<rparr>"

definition stored_text :: "pydict \<Rightarrow> string" where
  "stored_text d = jdump (float_repr plain_std) False (PDict d)"

definition demo_loads :: "string \<Rightarrow> pyval option" where
  "demo_loads t =
     (if t = ''greeting'' then Some (PDict [(''type'', PStr ''event''), (''event'', PStr ''connect.challenge''), (''payload'', PDict [(''nonce'', PStr ''n'')])])
      else if t = ''hello'' then Some (ok_frame hello_ok)
      else if t = ''before'' then Some (ok_frame [(''messages'', PList old_messages)])
      else if t = ''after'' then Some (ok_frame [(''messages'', PList (old_messages @ new_messages))])
      else if t = ''done'' then Some (PDict demo_result)
      else if t = ''started'' then Some (ok_frame started_run)
      else if t = ''ended'' then Some (ok_frame [(''status'', PStr ''ok''), (''runId'', PStr ''r1'')])
      else if t = ''stopped'' then Some (ok_frame [(''aborted'', PBool True)])
      else if t = stored_text demo_context then Some (PDict demo_context)
      else if t = stored_text (outcome_dict demo_outcome) then Some (PDict (outcome_dict demo_outcome))
      else None)"

definition demo_answer :: "string \<Rightarrow> int \<Rightarrow> string" where
  "demo_answer name n =
     (if name = ''connect'' then ''hello'' else if name = ''chat.history'' then (if n = 0 then ''before'' else ''after'')
      else if name = ''agent'' then ''started'' else if name = ''agent.wait'' then ''ended'' else ''stopped'')"

definition demo_send :: "pydict \<Rightarrow> rat \<Rightarrow> int \<Rightarrow> string res list res \<times> int" where
  "demo_send f timeout n = (case dget f ''method'' of
     PStr name \<Rightarrow> (Inr [Inr (demo_answer name n)], if name = ''agent'' then n + 1 else n) | _ \<Rightarrow> (Inr [], n))"

definition demo_gateway :: "int gateway_deps" where
  "demo_gateway = \<lparr>gd_std = plain_std, gd_loads = demo_loads, gd_secret = (\<lambda>n. (Inr ''tok'', n)), gd_open = (\<lambda>n. (Inr [Inr ''greeting''], n)),
     gd_send = demo_send, gd_close = (\<lambda>n. n), gd_monotonic = (\<lambda>n. (1, n)), gd_clock = (\<lambda>n. (0, n)), gd_uuid = (\<lambda>n. (''id'', n)),
     gd_sign = (\<lambda>t. t), gd_device = ''d'', gd_public = ''p'', gd_client = ''c'', gd_version = ''v'', gd_connect_timeout = 5, gd_stale = 60\<rparr>"

definition open_gateway :: "int \<Rightarrow> int gateway" where
  "open_gateway n = \<lparr>gc_socket = Some [], gc_last = 1, gc_methods = [''agent'', ''agent.wait'', ''chat.history'', ''sessions.abort''],
     gc_role = ''operator'', gc_scopes = [''operator.write''], gc_beyond = n\<rparr>"

lemma demo_fields [simp]:
  "gd_std demo_gateway = plain_std" "gd_loads demo_gateway = demo_loads" "gd_secret demo_gateway n = (Inr ''tok'', n)"
  "gd_open demo_gateway n = (Inr [Inr ''greeting''], n)" "gd_send demo_gateway = demo_send" "gd_close demo_gateway n = n"
  "gd_monotonic demo_gateway n = (1, n)" "gd_clock demo_gateway n = (0, n)" "gd_uuid demo_gateway n = (''id'', n)"
  "gd_stale demo_gateway = 60" "gd_connect_timeout demo_gateway = 5"
  by (simp_all add: demo_gateway_def)

lemma demo_texts [simp]:
  "demo_loads ''hello'' = Some (ok_frame hello_ok)" "demo_loads ''before'' = Some (ok_frame [(''messages'', PList old_messages)])"
  "demo_loads ''after'' = Some (ok_frame [(''messages'', PList (old_messages @ new_messages))])"
  "demo_loads ''started'' = Some (ok_frame started_run)" "demo_loads ''ended'' = Some (ok_frame [(''status'', PStr ''ok''), (''runId'', PStr ''r1'')])"
  "demo_loads ''stopped'' = Some (ok_frame [(''aborted'', PBool True)])" "demo_loads ''done'' = Some (PDict demo_result)"
  by (simp_all add: demo_loads_def)

lemma stored_distinct: "stored_text d \<noteq> CHR ''g'' # u" "stored_text d \<noteq> CHR ''h'' # u" "stored_text d \<noteq> CHR ''b'' # u" "stored_text d \<noteq> CHR ''a'' # u" "stored_text d \<noteq> CHR ''d'' # u"
  "stored_text d \<noteq> CHR ''s'' # u" "stored_text d \<noteq> CHR ''e'' # u"
  by (simp_all add: stored_text_def)

lemma stored_length: "length (stored_text demo_context) = 21" "length (stored_text (outcome_dict demo_outcome)) \<noteq> 21"
  by (simp_all add: stored_text_def demo_context_def json_str_def json_char_def outcome_dict_def demo_outcome_def demo_result_def opt_value_def code_def)

lemma demo_stored: "demo_loads (stored_text demo_context) = Some (PDict demo_context)"
  "demo_loads (stored_text (outcome_dict demo_outcome)) = Some (PDict (outcome_dict demo_outcome))"
  using stored_length by (auto simp: demo_loads_def stored_distinct)

lemma demo_exchange:
  assumes "demo_loads (demo_answer name n) = Some (ok_frame p)" "jsonable (PDict params)" "gc_socket s = Some []" "gc_beyond s = n"
  shows "request_locked demo_gateway h name params timeout s =
    (Inr p, s\<lparr>gc_last := 1, gc_beyond := (if name = ''agent'' then n + 1 else n)\<rparr>)"
  using assms
  by (simp add: request_locked_def gw_read_def bnd_app exchange_def demo_send_def request_frame_def dget_def ok_frame_def answer_of_def)

lemma demo_greeting: "demo_loads ''greeting'' = Some (PDict [(''type'', PStr ''event''), (''event'', PStr ''connect.challenge''), (''payload'', PDict [(''nonce'', PStr ''n'')])])"
  by (simp add: demo_loads_def)

lemma demo_handshake:
  "handshake demo_gateway ''tok'' (fresh_client n) = (Inr hello_ok, (fresh_client n)\<lparr>gc_socket := Some [], gc_last := 1\<rparr>)"
proof -
  have "demo_loads (demo_answer ''connect'' n) = Some (ok_frame hello_ok)" by (simp add: demo_answer_def)
  note call = demo_exchange [OF this]
  show ?thesis
    by (simp add: handshake_def gw_ask_def gw_read_def bnd_app receive_challenge_def read_challenge_def demo_greeting challenge_of_def
        dget_def need_def call connect_params_def str_list_def required_scopes_def fresh_client_def)
qed

lemma demo_admit: "admit_hello demo_gateway hello_ok ((fresh_client n)\<lparr>gc_socket := Some [], gc_last := 1\<rparr>) = (Inr hello_ok, open_gateway n)"
  by (simp add: admit_hello_def hello_ok_def dget_def negotiated_def offered_methods_def methods_in_def List.map_filter_def por_def str_list_def
      required_methods_def open_gateway_def fresh_client_def)

lemma demo_connect: "connect demo_gateway (fresh_client n) = (Inr hello_ok, open_gateway n)"
proof -
  have "hello_payload hello_ok = hello_ok" by (simp add: hello_payload_def hello_ok_def dget_def)
  then show ?thesis
    using demo_handshake [of n] demo_admit [of n]
    by (simp add: connect_def open_connection_def gw_ask_def bnd_app attempt_app fresh_client_def)
qed

text \<open>A call over the open connection, over one that is opened for it, and over a private one.\<close>

lemma demo_request:
  assumes "demo_loads (demo_answer name n) = Some (ok_frame p)" "jsonable (PDict params)" "s = open_gateway n \<or> s = fresh_client n"
  shows "request demo_gateway h name params timeout s = (Inr p, open_gateway (if name = ''agent'' then n + 1 else n))"
proof -
  have e: "request_locked demo_gateway h name params timeout (open_gateway n) = (Inr p, open_gateway (if name = ''agent'' then n + 1 else n))"
    using demo_exchange [OF assms(1,2), of "open_gateway n"] by (simp add: open_gateway_def)
  have "request_once demo_gateway h name params timeout s = (Inr p, open_gateway (if name = ''agent'' then n + 1 else n))"
    using assms(3) e demo_connect [of n]
    by (auto simp: request_once_def is_stale_def bnd_app gw_read_def fresh_client_def open_gateway_def)
  then show ?thesis by (simp add: request_def retry_with_def bnd_app attempt_app)
qed

lemma demo_fresh:
  assumes "demo_loads (demo_answer name (gc_beyond s)) = Some (ok_frame p)" "jsonable (PDict params)" "name \<noteq> ''agent''"
  shows "request_fresh demo_gateway h name params timeout s = (Inr p, s)"
  using demo_request [OF assms(1,2), of "fresh_client (gc_beyond s)"] assms(3)
  by (simp add: request_fresh_def on_fresh_def disconnect_def open_gateway_def)

section \<open>A run\<close>

definition demo_disk :: disk where
  "demo_disk = \<lparr>dk_home = (\<lambda>t. ''/home/qa''), dk_exists = (\<lambda>p. Inr True), dk_link = (\<lambda>p. False), dk_read = (\<lambda>p. None), dk_decode = Some,
     dk_digest = (\<lambda>t. t)\<rparr>"

definition demo_adapter :: "int adapter_deps" where
  "demo_adapter = service_adapter demo_loads demo_gateway (\<lambda>n. demo_disk) (\<lambda>b t n. n) []"

lemma demo_adapter_eq:
  "demo_adapter = \<lparr>ad_gateway = demo_gateway, ad_validate = (\<lambda>p n. (Inr (production_validator plain_std demo_loads demo_disk p), n)),
     ad_recover = Some (\<lambda>p observed n. (recover_format_of plain_std demo_loads demo_loads p observed, n)), ad_recover_agents = [],
     ad_limit = 20, ad_observe = (\<lambda>b t n. n)\<rparr>"
  by (simp add: demo_adapter_def service_adapter_def checked_adapter_def candidate_agent_ids_def)

definition demo_payload :: pydict where
  "demo_payload = [(''message'', PStr ''go''), (''agentId'', PStr ''qa''), (''idempotencyKey'', PStr ''run-1''), (''timeout'', PFloat 120),
     (''_trustedValidationContext'', PDict [(''approved_paths'', PList [])]), (''sessionKey'', PStr ''agent:qa:s'')]"

definition demo_params :: pydict where
  "demo_params = [(''message'', PStr ''go''), (''agentId'', PStr ''qa''), (''idempotencyKey'', PStr ''run-1''), (''timeout'', PFloat 120),
     (''sessionKey'', PStr ''agent:qa:s'')]"

definition demo_bound :: stored_binding where
  "demo_bound = \<lparr>bd_core_run = ''run-1'', bd_openclaw_run = ''r1'', bd_agent = ''qa'', bd_session_key = ''agent:qa:s'', bd_session_id = Some ''s1'',
     sb_key = ''run-1'', sb_status = RUNNING\<rparr>"

definition demo_mark :: preparation where
  "demo_mark = \<lparr>pp_core_run = ''run-1'', pp_agent = ''qa'', pp_session_key = ''agent:qa:s'', pp_key = ''run-1'', pp_seq = Some 1, pp_message = None,
     pp_captured = 0, pp_empty = False\<rparr>"

definition demo_row :: "pydict \<Rightarrow> string \<times> string" where
  "demo_row d = (stored_text d, sha256 plain_std (stored_text d))"

definition submitted :: "int adapter" where
  "submitted = \<lparr>oa_bindings = [demo_bound], oa_prepared = [demo_mark], oa_contexts = [(''run-1'', demo_context)],
     oa_states = [(''run-1'', ''context'') \<mapsto> demo_row demo_context], oa_rpc = open_gateway 1\<rparr>"

lemma demo_trusted:
  "trusted_context demo_adapter ''run-1'' [] ''go'' (adapter_start 0) =
     (Inr (), submitted\<lparr>oa_bindings := [], oa_prepared := [], oa_rpc := fresh_client 0\<rparr>)"
  by (simp add: trusted_context_def bnd_app contract_from_message_def save_state_def put_state_def dumps_def need_def
      demo_adapter_eq demo_context_def adapter_start_def submitted_def demo_row_def stored_text_def Let_def)

definition demo_submit_fields :: submit_fields where
  "demo_submit_fields = \<lparr>sf_agent = ''qa'', sf_key = ''run-1'', sf_message = ''go'', sf_timeout = 120\<rparr>"

lemma demo_session: "check_session (PStr ''agent:qa:s'') ''qa'' = Inr ''agent:qa:s''"
  by (simp add: check_session_def need_def)

lemma demo_valid: "validate_submit demo_payload = Inr demo_submit_fields"
  by (simp add: validate_submit_def demo_payload_def named_unless_def first_of_def forbidden_fields_def allowed_fields_def
      dget_def need_def check_agent_def agent_ok_def is_lower_def is_digit_def demo_session blank_def strip_def lstrip_def is_space_def code_def demo_submit_fields_def)

lemma demo_prepare:
  "prepare demo_adapter ''run-1'' demo_submit_fields ''agent:qa:s'' (submitted\<lparr>oa_bindings := [], oa_prepared := [], oa_rpc := fresh_client 0\<rparr>) =
     (Inr demo_mark, submitted\<lparr>oa_bindings := [], oa_rpc := open_gateway 0\<rparr>)"
proof -
  have "demo_loads (demo_answer ''chat.history'' 0) = Some (ok_frame [(''messages'', PList old_messages)])" by (simp add: demo_answer_def)
  note call = demo_request [OF this _ disjI2, OF _ refl]
  show ?thesis
    by (simp add: prepare_def bnd_app on_rpc_def gw_read_def find_preparation_def save_preparation_def put_preparation_def need_def
        demo_adapter_eq call history_params_def capture_watermark_def dget_def old_messages_def said_def assistant_def message_cursor_def
        id_text_def por_def demo_submit_fields_def demo_mark_def submitted_def truncated_def Let_def)
qed

lemma demo_launch:
  "launch demo_adapter ''run-1'' demo_params demo_submit_fields ''agent:qa:s'' (submitted\<lparr>oa_bindings := [], oa_prepared := [], oa_rpc := fresh_client 0\<rparr>) =
     (Inr demo_bound, submitted)"
proof -
  have "demo_loads (demo_answer ''agent'' 0) = Some (ok_frame started_run)" by (simp add: demo_answer_def)
  note call = demo_request [OF this _ disjI1, OF _ refl]
  show ?thesis
    by (simp add: launch_def bnd_app demo_prepare on_rpc_def)
      (simp add: demo_adapter_eq call demo_params_def submitted_def accepted_run_def text_or_def str_of_def started_run_def dget_def need_def id_text_def
        demo_session demo_mark_def demo_submit_fields_def save_binding_def put_binding_def find_binding_def bnd_app demo_bound_def Let_def)
qed

lemma demo_submit: "submit demo_adapter ''run-1'' demo_payload (adapter_start 0) = (Inr demo_bound, submitted)"
proof -
  have p: "approved_paths_of demo_payload = Inr []" "dget demo_payload ''sessionKey'' = PStr ''agent:qa:s''"
    "AList.update ''sessionKey'' (PStr ''agent:qa:s'') (AList.delete ''_trustedValidationContext'' demo_payload) = demo_params"
    by (simp_all add: approved_paths_of_def demo_payload_def demo_params_def dget_def dget_or_def)
  have f: "sf_message demo_submit_fields = ''go''" "sf_agent demo_submit_fields = ''qa''" by (simp_all add: demo_submit_fields_def)
  show ?thesis
    by (simp add: submit_def demo_valid p f demo_trusted bnd_app demo_session find_binding_def demo_launch)
qed

section \<open>Its end\<close>

definition demo_response :: pydict where
  "demo_response = [(''status'', PStr ''ok''), (''runId'', PStr ''r1'')]"

definition demo_new :: pydict where
  "demo_new = [(''messages'', PList new_messages)]"

definition demo_envelope :: pydict where
  "demo_envelope = [(''status'', PStr ''ok''), (''runId'', PStr ''r1''), (''approved_paths'', PList []), (''history'', PDict demo_new)]"

definition waited :: "int adapter" where
  "waited = submitted\<lparr>oa_bindings := [demo_bound\<lparr>sb_status := PASS\<rparr>],
     oa_states := [(''run-1'', ''context'') \<mapsto> demo_row demo_context,
       (''run-1'', ''result_input'') \<mapsto> demo_row [(''binding'', PDict (bound_identity demo_bound)), (''envelope'', PDict demo_envelope)],
       (''run-1'', ''outcome'') \<mapsto> demo_row (outcome_dict demo_outcome)]\<rparr>"

lemma demo_history: "history_after demo_mark [(''messages'', PList (old_messages @ new_messages))] = Inr demo_new"
  by (simp add: history_after_def dget_def behind_mark_def demo_mark_def at_mark_def old_messages_def said_def message_cursor_def id_text_def
      por_def new_messages_def assistant_def need_def demo_new_def)

lemma demo_terminal: "terminal_text demo_new = Some ''done''"
  by (simp add: terminal_text_def demo_new_def dget_def new_messages_def said_def spoken_def assistant_def List.map_filter_def
      dict_or_empty_def blank_def strip_def lstrip_def is_space_def code_def Let_def)

lemma demo_required: "find_binding ''run-1'' bs = Some demo_bound \<Longrightarrow> oa_bindings s = bs \<Longrightarrow> require_binding ''run-1'' s = (Inr demo_bound, s)"
  by (simp add: require_binding_def bnd_app demo_bound_def check_agent_def agent_ok_def is_lower_def is_digit_def code_def need_def demo_session)

lemma submitted_found: "find_binding ''run-1'' (oa_bindings submitted) = Some demo_bound"
  by (simp add: submitted_def find_binding_def demo_bound_def)

lemma demo_calls:
  "on_rpc (request_fresh demo_gateway h ''agent.wait'' (wait_params demo_bound x) timeout) submitted = (Inr demo_response, submitted)"
  "on_rpc (request_fresh demo_gateway h ''chat.history'' (history_params k n) timeout) submitted =
     (Inr [(''messages'', PList (old_messages @ new_messages))], submitted)"
proof -
  have b: "gc_beyond (oa_rpc submitted) = 1" by (simp add: submitted_def open_gateway_def)
  have t: "demo_loads (demo_answer ''agent.wait'' (gc_beyond (oa_rpc submitted))) = Some (ok_frame demo_response)"
    "demo_loads (demo_answer ''chat.history'' (gc_beyond (oa_rpc submitted))) = Some (ok_frame [(''messages'', PList (old_messages @ new_messages))])"
    by (simp_all add: demo_answer_def demo_response_def b)
  show "on_rpc (request_fresh demo_gateway h ''agent.wait'' (wait_params demo_bound x) timeout) submitted = (Inr demo_response, submitted)"
    by (simp add: on_rpc_def demo_fresh [OF t(1)] wait_params_def)
  show "on_rpc (request_fresh demo_gateway h ''chat.history'' (history_params k n) timeout) submitted =
     (Inr [(''messages'', PList (old_messages @ new_messages))], submitted)"
    by (simp add: on_rpc_def demo_fresh [OF t(2)] history_params_def)
qed

lemma demo_gateway_of: "ad_gateway demo_adapter = demo_gateway" "ad_recover_agents demo_adapter = []"
  "ad_validate demo_adapter = (\<lambda>p n. (Inr (production_validator plain_std demo_loads demo_disk p), n))"
  by (simp_all add: demo_adapter_eq)

lemma demo_context_of: "context_of demo_adapter ''run-1'' submitted = (Inr demo_context, submitted)"
proof -
  have "get_state demo_loads plain_std ''run-1'' ''context'' (oa_states submitted) = Inr (Some demo_context)"
    using demo_stored(1) by (simp add: get_state_def submitted_def demo_row_def need_def)
  then show ?thesis by (simp add: context_of_def read_state_def bnd_app demo_gateway_of demo_context_def)
qed

text \<open>The worker says a result that conforms; its evidence claims no action.\<close>

lemma demo_claims: "list_all (\<lambda>(a, r). \<not> rx_search r ''x '') (claim_patterns @ denial_patterns)"
  by code_simp

lemma demo_evidence: "evidence_check plain_std demo_disk demo_result demo_envelope = Inr None"
proof -
  have m: "messages_of demo_envelope = Some new_messages" by (simp add: messages_of_def demo_envelope_def demo_new_def)
  have "this_turn new_messages = Some new_messages" by (simp add: this_turn_def new_messages_def said_def from_user_def)
  moreover have "tool_calls plain_std new_messages = []"
    by (simp add: tool_calls_def message_blocks_def new_messages_def said_def called_tool_def List.map_filter_def)
  ultimately have o: "observed_actions plain_std demo_disk demo_envelope demo_result = Inr []"
    by (simp add: observed_actions_def m artifact_seen_def demo_result_def dhas_def)
  have none: "\<not> rx_search r ''x ''" if "(a, r) \<in> set claim_patterns \<or> (a, r) \<in> set denial_patterns" for a r
    using that demo_claims by (fastforce simp: list_all_iff)
  have "map_of denial_patterns a = Some r \<Longrightarrow> \<not> rx_search r ''x ''" for a r using none by (blast dest: map_of_SomeD)
  then have "claim_fault [] ''x '' (a, r) = None" if "(a, r) \<in> set claim_patterns" for a r
    using that none by (auto simp: claim_fault_def split: option.splits)
  then have "first_reason (\<lambda>a. Inr (claim_fault [] ''x '' a)) claim_patterns = Inr None" by (auto simp: first_reason_None)
  moreover have "dget demo_result ''evidence'' = PList [PDict [(''type'', PStr ''x'')]]" "dget demo_envelope ''war_room_task_profile'' = PNone"
    "dget_or demo_result ''evidence_mode'' v = v" for v
    by (simp_all add: demo_result_def demo_envelope_def)
  ultimately show ?thesis
    by (simp add: evidence_check_def o in_names_def typed_item_def claims_fault_def claim_text_def dict_or_empty_def str_of_def)
qed

lemma demo_extracted: "extract_result plain_std demo_loads demo_envelope = Some demo_result"
proof -
  have "messages_of demo_envelope = Some new_messages" by (simp add: messages_of_def demo_envelope_def demo_new_def)
  moreover have "dget demo_envelope ''result'' = PNone" by (simp add: demo_envelope_def)
  ultimately show ?thesis
    by (simp add: extract_result_def)
      (simp add: new_messages_def said_def said_result_def assistant_def parsed_dict_def dict_or_empty_def List.map_filter_def)
qed

lemma demo_judged: "production_validator plain_std demo_loads demo_disk demo_envelope = \<lparr>vd_status = PASS, vd_reason = [], vd_result = Some demo_result\<rparr>"
proof -
  have m: "messages_of demo_envelope = Some new_messages" by (simp add: messages_of_def demo_envelope_def demo_new_def)
  have "schema_check demo_result demo_envelope = Inr None"
    by (simp add: schema_check_def result_fields_def dhas_def demo_result_def in_names_def need_def blank_def strip_def lstrip_def is_space_def code_def)
  moreover have "artifacts_check demo_disk demo_result demo_envelope = Inr None" by (simp add: artifacts_check_def demo_result_def)
  moreover have "read_only_run plain_std demo_envelope new_messages = Inr False"
    by (simp add: read_only_run_def in_names_def demo_envelope_def new_messages_def said_def from_user_def text_or_def str_of_def dict_or_empty_def
        casefold_def casefold_char_def is_upper_def code_def)
  then have "scope_check plain_std demo_disk demo_result demo_envelope = Inr None" by (simp add: scope_check_def m demo_result_def)
  ultimately have "first_failure (production_checks plain_std demo_disk) demo_result demo_envelope = None" by (simp add: checks_silent demo_evidence)
  then show ?thesis
    by (simp add: production_validator_def composite_validator_def demo_extracted)
      (simp add: worker_verdict_def demo_result_def text_or_def str_of_def lower_def to_lower_def is_upper_def code_def)
qed

lemma demo_collect: "collect_result demo_adapter ''run-1'' demo_bound demo_response demo_new submitted = (Inr demo_outcome, waited)"
proof -
  have env: "merged (merged (control_part demo_response) demo_context) [(''history'', PDict demo_new)] = demo_envelope"
    by (simp add: merged_def control_part_def demo_response_def demo_context_def demo_envelope_def)
  have saved: "save_state demo_adapter ''run-1'' kind d s = (Inr (), s\<lparr>oa_states := (oa_states s)((''run-1'', kind) \<mapsto> demo_row d)\<rparr>)"
    if "jsonable (PDict d)" "oa_states s (''run-1'', kind) = None" for kind d s
    using that by (simp add: save_state_def put_state_def bnd_app dumps_def need_def demo_gateway_of demo_row_def stored_text_def)
  have j: "list_all (\<lambda>(k, v). jsonable v) (bound_identity demo_bound)" "list_all (\<lambda>(k, v). jsonable v) demo_envelope"
    "list_all (\<lambda>(k, v). jsonable v) (outcome_dict demo_outcome)"
    by (simp_all add: bound_identity_def demo_envelope_def demo_new_def new_messages_def said_def outcome_dict_def demo_outcome_def demo_result_def opt_value_def)
  have new: "oa_states submitted (''run-1'', ''result_input'') = None" "oa_states submitted (''run-1'', ''outcome'') = None"
    by (simp_all add: submitted_def)
  have judge: "judge_result demo_adapter ''run-1'' demo_bound demo_envelope (Some ''done'') s = (Inr demo_outcome, s)" for s
    by (simp add: judge_result_def decide_def on_rpc_def gw_ask_def bnd_app demo_gateway_of demo_judged judged_outcome_def rejecting_def contains_def ends_with_def
        demo_outcome_def split: option.split)
  show ?thesis
    unfolding collect_result_def Let_def env
    by (simp add: bnd_app demo_context_of env demo_terminal saved j judge new)
      (simp add: set_status_def save_binding_def put_binding_def find_binding_def need_def bnd_app waited_def submitted_def demo_bound_def demo_outcome_def)
qed

lemma demo_wait: "wait_run demo_adapter ''run-1'' x submitted = (Inr demo_outcome, waited)"
proof -
  have t: "\<not> terminal (sb_status demo_bound)" by (simp add: demo_bound_def)
  have p: "find_preparation ''run-1'' (oa_prepared submitted) = Some demo_mark" by (simp add: submitted_def find_preparation_def demo_mark_def)
  have answer: "dget demo_response ''runId'' = PStr (bd_openclaw_run demo_bound)" "text_or plain_std (dget demo_response ''status'') = ''ok''"
    by (simp_all add: demo_response_def dget_def demo_bound_def text_or_def str_of_def)
  show ?thesis
    by (simp add: wait_run_def bnd_app demo_required [OF submitted_found refl] t demo_gateway_of demo_calls judge_answer_def answer
        finished_run_result_def p demo_history demo_collect Let_def)
qed

text \<open>The engine over this adapter: no broker, a clock that stands still, no other threads.\<close>

definition demo_stage :: "int stage deps" where
  "demo_stage = \<lparr>stdlib = plain_std, agent_list = sample_agents, clock = (\<lambda>v. (0, v)), monotonic = (\<lambda>v. (0, v)),
     new_uuid = (\<lambda>v. (''0123456789'', v)), tp_submit = (\<lambda>i p v. (Inl TimeoutError, v)), tp_wait = (\<lambda>i x v. (Inl TimeoutError, v)),
     tp_cancel = (\<lambda>i v. (Inl TimeoutError, v)), others = (\<lambda>s. s), stop_guard = (\<lambda>v i. False), broker_present = False,
     auth_required = False, authorizer_present = False, owns_run = (\<lambda>i. False), with_grant = (\<lambda>sc body v. (Inr (), v)),
     consume_grant = (\<lambda>token sc i v. (Inr (), v))\<rparr>"

abbreviation demo_engine :: "int stage deps" where
  "demo_engine \<equiv> over_adapter demo_adapter demo_stage"

lemma demo_engine_sel [simp]:
  "stdlib demo_engine = plain_std" "agent_list demo_engine = sample_agents" "clock demo_engine v = (0, v)" "others demo_engine s = s"
  "broker_present demo_engine = False" "auth_required demo_engine = False" "authorizer_present demo_engine = False"
  "tp_submit demo_engine = stage_submit demo_adapter" "tp_wait demo_engine = stage_wait demo_adapter"
  by (simp_all add: over_adapter_def demo_stage_def)

definition stage_start :: "int stage core" where
  "stage_start = \<lparr>runs = [], timers = (\<lambda>i. None), spotter = new_detector, world = ([], adapter_start 0)\<rparr>"

definition stage_request :: dispatch_request where
  "stage_request = (demo_request None)\<lparr>dq_session_key := Some ''agent:qa:s''\<rparr>"

lemma demo_undisturbed: "undisturbed demo_adapter demo_stage"
  by (simp add: undisturbed_def demo_stage_def same_tables_def reaches_here)

lemma stage_admits:
  "\<exists>checked a. check_dispatch demo_engine stage_request = Inr checked \<and> admit demo_engine stage_request ''run-1'' checked = Inr a \<and>
     ad_message a = ''go'' \<and> ad_approved a = [] \<and> ad_profile a = task_profile QUICK"
proof -
  have "require_agent sample_agents ''qa'' = Inr (snd (hd sample_agents))" by (simp add: require_agent_def find_agent_def sample_agents_def)
  moreover have "\<not> blank ''go''" by (simp add: blank_def strip_def lstrip_def char_class_defs)
  ultimately show ?thesis
    by (simp add: check_dispatch_def stage_request_def demo_request_def normalize_approved_paths_def admit_def sample_goal_normal dispatch_profile_def
        task_runtime_profile_def task_class_of_def)
qed

lemma stage_dispatch:
  "\<exists>p t. dispatch demo_engine stage_request stage_start = (Inr p, t) \<and> get_run ''run-1'' (runs t) = Some p \<and> r_status p = RUNNING \<and>
     world t = ([], submitted)"
proof -
  let ?D = demo_engine and ?q = stage_request
  obtain checked a where a: "check_dispatch ?D ?q = Inr checked" "admit ?D ?q ''run-1'' checked = Inr a"
    "ad_message a = ''go''" "ad_approved a = []" "ad_profile a = task_profile QUICK" using stage_admits by blast
  have q: "dq_run_id ?q = Some ''run-1''" "dispatch_key ?q ''run-1'' = ''run-1''" "dq_agent ?q = ''qa''" "dq_session_key ?q = Some ''agent:qa:s''"
    by (simp_all add: stage_request_def demo_request_def dispatch_key_def)
  define r where "r = new_run ''run-1'' ''qa'' ''run-1'' (ad_hash a) (policy_metadata (task_profile QUICK)) (ad_contract a)
    (dq_parent ?q) (dq_resets ?q) [] (dq_managed ?q) 0"
  let ?s = "stage_start\<lparr>runs := [r]\<rparr>"
  have r: "get_run ''run-1'' (runs ?s) = Some r" "r_status r = QUEUED" "r_approved_paths r = []"
    by (simp_all add: r_def new_run_def get_run_def)
  have created: "create_record ?D ?q ''run-1'' a stage_start = (Inr (r, True), ?s)"
    using a(4,5) q by (simp add: create_record_def bnd_app on_world_app reg_def create_run_def append_run_def Let_def r_def stage_start_def get_run_def
        get_by_idempotency_def)
  have payload: "payload_dict \<lparr>sp_message = ''go'', sp_agent = ''qa'', sp_key = ''run-1'', sp_timeout = max_runtime (task_profile QUICK),
      sp_approved = [], sp_session_key = Some ''agent:qa:s''\<rparr> = demo_payload"
    by (simp add: payload_dict_def demo_payload_def str_list_def task_profile_def post_init_def)
  have sent: "ask_world (stage_submit demo_adapter ''run-1'' \<lparr>sp_message = ''go'', sp_agent = ''qa'', sp_key = ''run-1'', sp_timeout = max_runtime (task_profile QUICK),
      sp_approved = [], sp_session_key = Some ''agent:qa:s''\<rparr>) ?s = (Inr (run_binding.truncate demo_bound), ?s\<lparr>world := ([], submitted)\<rparr>)"
    by (simp add: ask_world_app stage_submit_def payload stage_start_def demo_submit told_def)
  have d: "dispatch ?D ?q stage_start = submit_run ?D ?q ''run-1'' ''run-1'' a r ?s"
    using a(1,2) q created r(2) by (simp add: dispatch_def bnd_app CoreEngine.run_identity_def authorize_and_submit_def)
  have run: "get_run ''run-1'' (runs (?s\<lparr>world := ([], submitted)\<rparr>)) = Some r" "RUNNING \<in> set (successors (r_status r))"
    using r by simp_all
  have key: "bd_session_key (run_binding.truncate demo_bound) = ''agent:qa:s''" by (simp add: demo_bound_def run_binding.truncate_def)
  have now: "get_run ''run-1'' [r, moved_run st b oc why x r] = Some (moved_run st b oc why x r)" for st b oc why x
    using get_run_moved [of "''run-1''" "[r]" r] r(1) by (simp add: get_run_def)
  show ?thesis
    using move_legal [OF run, of ?D "Some (run_binding.truncate demo_bound)" None "[]"] r
    by (simp add: d submit_run_def bnd_app attempt_app a(3,5) q sent key Let_def schedule_deadline_def moved_run_keeps now)
qed

lemma stage_passes:
  "\<exists>t r. reaches demo_engine stage_start t \<and> r \<in> set (runs t) \<and> r_id r = ''run-1'' \<and> r_status r = PASS"
proof -
  obtain p t where t: "dispatch demo_engine stage_request stage_start = (Inr p, t)" "get_run ''run-1'' (runs t) = Some p"
    "r_status p = RUNNING" "world t = ([], submitted)" using stage_dispatch by blast
  have first: "reaches demo_engine stage_start t"
    by (rule reaches_call [OF reaches_here, of _ "DispatchCall stage_request"]) (simp add: t(1))
  let ?u = "snd (reconcile_external_completion demo_engine ''run-1'' t)"
  have r: "reaches demo_engine stage_start ?u"
    by (rule reaches_call [OF first, of "ReconcileCall ''run-1''"]) simp
  let ?v = "t\<lparr>world := ([\<lparr>wt_run = ''run-1'', wt_timeout = 1 / 100, wt_before = submitted, wt_answer = Inr demo_outcome, wt_after = waited\<rparr>], waited)\<rparr>"
  have polled: "poll demo_engine ''run-1'' (1 / 100) t = (Inr demo_outcome, ?v)"
    by (simp add: poll_def ask_world_app stage_wait_def t(4) demo_wait)
  have o: "oc_status demo_outcome = PASS" by (simp add: demo_outcome_def)
  let ?w = "?v\<lparr>timers := (timers ?v)(''run-1'' := None)\<rparr>"
  have p: "get_run ''run-1'' (runs ?w) = Some p" "PASS \<in> set (successors (r_status p))" using t(2,3) by (simp_all add: terminal_states_def)
  let ?q = "moved_run PASS None (Some demo_outcome) [] 0 p"
  have "runs ?u = runs t @ [?q]"
    using move_legal [OF p, of demo_engine None "Some demo_outcome" "[]"] t(2,3) o
    by (simp add: reconcile_external_completion_def bnd_app require_record_app attempt_app polled clear_deadline_app demo_outcome_def Let_def)
  moreover have "r_id ?q = ''run-1''" "r_status ?q = PASS" using get_run_moved [OF t(2)] by (simp_all add: moved_run_keeps)
  ultimately show ?thesis using r by (intro exI [of _ ?u] exI [of _ ?q]) simp
qed

section \<open>The properties at this run\<close>


theorem claimed_actions_were_done_witness:
  "\<exists>items observed. dget demo_result ''evidence'' = PList items \<and> items \<noteq> [] \<and>
     observed_actions plain_std demo_disk demo_envelope demo_result = Inr observed"
proof -
  have "vd_status (production_validator plain_std demo_loads demo_disk demo_envelope) = PASS" by (simp add: demo_judged)
  moreover have "in_names (dget demo_envelope ''war_room_task_profile'') profiles = Inr False" by (simp add: in_names_def demo_envelope_def)
  moreover have "extract_result plain_std demo_loads demo_envelope = Some demo_result" by (rule demo_extracted)
  ultimately show ?thesis using claimed_actions_were_done [of plain_std demo_loads demo_disk demo_envelope] by auto
qed

theorem passed_run_was_validated_witness:
  "\<exists>t r e b g z. reaches demo_engine stage_start t \<and> r \<in> set (runs t) \<and> r_status r = PASS \<and> e \<in> set (fst (world t)) \<and> wt_run e = ''run-1'' \<and>
     finished_by demo_adapter ''run-1'' (wt_timeout e) b (wt_before e) g z"
proof -
  obtain t r where t: "reaches demo_engine stage_start t" "r \<in> set (runs t)" "r_id r = ''run-1''" "r_status r = PASS" using stage_passes by blast
  have "runs stage_start = []" "world stage_start = ([], adapter_start 0)" by (simp_all add: stage_start_def)
  from passed_run_was_validated [OF demo_undisturbed t(1) this t(2,4)] t show ?thesis by metis
qed

theorem accepted_result_is_validated_witness:
  "\<exists>g z context. finished_by demo_adapter ''run-1'' 30 demo_bound submitted g z \<and>
     validated demo_adapter ''run-1'' demo_bound (merged (merged (control_part (fi_response z)) context) [(''history'', PDict (fi_new z))]) demo_outcome"
proof -
  have "\<not> terminal (sb_status demo_bound)" "oc_status demo_outcome = PASS" by (simp_all add: demo_bound_def demo_outcome_def)
  from accepted_result_is_validated [OF demo_wait submitted_found this] show ?thesis by blast
qed

theorem settled_outcome_is_stable_witness:
  "wait_run demo_adapter ''run-1'' 5 (adapter_run demo_adapter [Submit ''run-1'' demo_payload, Revalidate ''run-1''] waited) =
     (Inr demo_outcome, adapter_run demo_adapter [Submit ''run-1'' demo_payload, Revalidate ''run-1''] waited)"
proof -
  have "oc_raw demo_outcome \<noteq> None" "terminal (oc_status demo_outcome)" by (simp_all add: demo_outcome_def)
  moreover have "Cancel ''run-1'' \<notin> set [Submit ''run-1'' demo_payload, Revalidate ''run-1'']" by simp
  moreover have "gd_loads (ad_gateway demo_adapter) (jdump (float_repr (gd_std (ad_gateway demo_adapter))) False (PDict (outcome_dict demo_outcome))) =
      Some (PDict (outcome_dict demo_outcome))" using demo_stored(2) by (simp only: demo_gateway_of demo_fields stored_text_def)
  ultimately show ?thesis by (rule settled_outcome_is_stable [OF demo_wait]) simp
qed


theorem answer_is_correlated_witness:
  "answers demo_gateway ''id'' started_run ''started''"
proof -
  have t: "demo_loads (demo_answer ''agent'' 0) = Some (ok_frame started_run)" by (simp add: demo_answer_def)
  have "request_locked demo_gateway no_handler ''agent'' demo_params 5 (open_gateway 0) = (Inr started_run, (open_gateway 0)\<lparr>gc_last := 1, gc_beyond := 1\<rparr>)"
    using demo_exchange [OF t, of demo_params "open_gateway 0"] by (simp add: open_gateway_def demo_params_def)
  from answer_is_correlated [OF this] show ?thesis
    by (auto simp: open_gateway_def demo_send_def request_frame_def dget_def demo_answer_def)
qed


theorem bound_run_is_permanent_witness:
  "\<exists>st. find_binding ''run-1'' (oa_bindings (adapter_run demo_adapter [Cancel ''run-1'', Wait ''run-1'' 5] submitted)) = Some (demo_bound\<lparr>sb_status := st\<rparr>)"
proof -
  have "adapter_run demo_adapter [Submit ''run-1'' demo_payload] (adapter_start 0) = submitted"
    by (simp add: adapter_run_def demo_submit)
  with bound_run_is_permanent [of demo_adapter "[Submit ''run-1'' demo_payload]" 0 "[Cancel ''run-1'', Wait ''run-1'' 5]"] submitted_found
  show ?thesis by (simp add: Let_def)
qed

theorem repeated_submit_sends_nothing_witness:
  "\<exists>st u. submit demo_adapter ''run-1'' demo_payload (adapter_run demo_adapter [Wait ''run-1'' 5] submitted) = (Inr (demo_bound\<lparr>sb_status := st\<rparr>), u) \<and>
     oa_rpc u = oa_rpc (adapter_run demo_adapter [Wait ''run-1'' 5] submitted)"
  using repeated_submit_sends_nothing [OF demo_submit, of "[Wait ''run-1'' 5]"] by blast

lemma demo_abort: "abort_run demo_adapter demo_bound submitted = (Inr [(''aborted'', PBool True)], submitted)"
proof -
  have t: "demo_loads (demo_answer ''sessions.abort'' 1) = Some (ok_frame [(''aborted'', PBool True)])" by (simp add: demo_answer_def)
  have "request_locked demo_gateway h ''sessions.abort'' [(''key'', PStr k), (''runId'', PStr i), (''agentId'', PStr ag)] 15 (open_gateway 1) =
      (Inr [(''aborted'', PBool True)], open_gateway 1)" for h k i ag
    using demo_exchange [OF t, of "[(''key'', PStr k), (''runId'', PStr i), (''agentId'', PStr ag)]" "open_gateway 1"] by (simp add: open_gateway_def)
  then show ?thesis
    by (simp add: abort_run_def demo_bound_def bnd_app submitted_def open_gateway_def abort_call_def attempt_app on_rpc_def request_on_owner_def
        demo_gateway_of Let_def)
qed

theorem cancel_needs_confirmation_witness:
  "\<exists>t. cancel_run demo_adapter ''run-1'' submitted = (Inr (demo_bound\<lparr>sb_status := CANCELLED\<rparr>), t) \<and>
     find_binding ''run-1'' (oa_bindings t) = Some (demo_bound\<lparr>sb_status := CANCELLED\<rparr>)"
proof -
  have "abort_confirmed [(''aborted'', PBool True)] x = Inr True" for x by (simp add: abort_confirmed_def dget_def)
  moreover have "save_binding (demo_bound\<lparr>sb_status := CANCELLED\<rparr>) submitted = (Inr (), submitted\<lparr>oa_bindings := [demo_bound\<lparr>sb_status := CANCELLED\<rparr>]\<rparr>)"
    by (simp add: save_binding_def put_binding_def submitted_def need_def find_binding_def demo_bound_def bnd_app)
  ultimately obtain b t where "cancel_run demo_adapter ''run-1'' submitted = (Inr b, t)"
    by (simp add: cancel_run_def bnd_app demo_required [OF submitted_found refl] demo_abort attempt_app set_status_def)
  with cancel_needs_confirmation [of demo_adapter "''run-1''" submitted] submitted_found show ?thesis by fastforce
qed

end
