(* ===== verification/ResultExample.thy ===== *)
theory ResultExample
  imports ResultFormat
begin

text \<open>A read-only run that writes its report to the place it was given, and commands that the read-only checks do not see.\<close>

definition report_path :: string where
  "report_path = ''/home/plachem-sever/.openclaw/agents/qa/01_ACTIVE/r.md''"

definition report_place :: posix where
  "report_place = Posix ''/'' [''home'', ''plachem-sever'', ''.openclaw'', ''agents'', ''qa'', ''01_ACTIVE'', ''r.md'']"

definition report_disk :: disk where
  "report_disk = \<lparr>dk_home = (\<lambda>t. ''/home/qa''), dk_exists = (\<lambda>p. Inr (p = report_place)), dk_link = (\<lambda>p. False), dk_read = (\<lambda>p. None),
     dk_decode = Some, dk_digest = (\<lambda>t. t)\<rparr>"

definition write_call :: pydict where
  "write_call = [(''type'', PStr ''toolCall''), (''name'', PStr ''write''), (''arguments'', PDict [(''path'', PStr report_path)])]"

definition report_result :: pydict where
  "report_result = [(''status'', PStr ''completed''), (''summary'', PStr ''done''), (''evidence'', PList []),
     (''artifacts'', PList [PDict [(''path'', PStr report_path)]]), (''scope'', PDict [(''compliant'', PBool True)])]"

definition report_messages :: "pyval list" where
  "report_messages =
     [PDict [(''role'', PStr ''user''), (''content'', PStr ''go'')],
      PDict [(''role'', PStr ''assistant''), (''content'', PList [PDict write_call])],
      PDict [(''role'', PStr ''assistant''), (''content'', PDict report_result)]]"

definition report_envelope :: pydict where
  "report_envelope = [(''approved_paths'', PList [PStr report_path]), (''war_room_task_profile'', PStr ''READ_ONLY''),
     (''history'', PDict [(''messages'', PList report_messages)])]"

lemma report_fields [simp]:
  "dget report_envelope ''result'' = PNone" "dget report_envelope ''war_room_task_profile'' = PStr ''READ_ONLY''"
  "dget report_envelope ''approved_paths'' = PList [PStr report_path]" "messages_of report_envelope = Some report_messages"
  "dget report_result ''evidence'' = PList []" "dget report_result ''artifacts'' = PList [PDict [(''path'', PStr report_path)]]"
  "dget report_result ''status'' = PStr ''completed''" "dget report_result ''summary'' = PStr ''done''"
  "dget report_result ''scope'' = PDict [(''compliant'', PBool True)]" "dget_or report_result ''evidence_mode'' v = v"
  "list_all (dhas report_result) result_fields" "dhas report_result ''artifacts''" "dk_link report_disk = (\<lambda>p. False)"
  by (simp_all add: report_envelope_def report_result_def messages_of_def result_fields_def dhas_def report_disk_def)

lemma report_at [simp]: "path_of report_path = report_place"
  by (simp add: path_of_def report_path_def report_place_def)

lemma report_found [simp]: "path_exists report_disk report_path = Inr True"
  by (simp add: path_exists_def report_place_def report_disk_def)

lemma report_text: "\<not> blank report_path" "\<not> blank ''done''" "report_path \<noteq> []" "CHR 0x00 \<notin> set report_path"
  by (simp_all add: report_path_def blank_def strip_def lstrip_def is_space_def code_def)

lemma report_linked [simp]: "has_link report_disk p = False"
  by (cases p) (simp add: list_ex_iff)

lemma report_calls: "tool_calls S report_messages = [write_call]"
proof -
  have "lower ''toolCall'' = ''toolcall''" by code_simp
  then show ?thesis
    by (simp add: tool_calls_def message_blocks_def report_messages_def called_tool_def List.map_filter_def write_call_def report_result_def text_or_def
        str_of_def) (simp add: lower_def)
qed

lemma report_turn: "this_turn report_messages = Some report_messages"
  by (simp add: this_turn_def report_messages_def from_user_def)

lemma write_arguments: "call_arguments write_call = PDict [(''path'', PStr report_path)]"
  by (simp add: call_arguments_def write_call_def por_def)

lemma report_evidence: "evidence_check plain_std report_disk report_result report_envelope = Inr None"
proof -
  have "\<exists>done. call_actions plain_std write_call = Inr done"
    by (simp add: call_actions_def spaced_json_def write_arguments Let_def)
  then obtain seen where "observed_actions plain_std report_disk report_envelope report_result = Inr seen"
    by (auto simp: observed_actions_def artifact_seen_def artifact_exists_def report_turn report_calls Let_def)
  moreover have "list_ex from_user report_messages" by (simp add: report_messages_def from_user_def)
  ultimately show ?thesis by (simp add: evidence_check_def in_names_def profiles_def profile_evidence_def)
qed

lemma report_designated: "designate report_disk (designated_texts report_envelope) = Inr (Some ([report_place], False))"
proof -
  have "designated_texts report_envelope = [report_path]" using report_text by (simp add: designated_texts_def List.map_filter_def)
  moreover have "output_place report_place" by (simp add: output_place_def report_place_def climbs_def output_root_def)
  ultimately show ?thesis by (simp add: read_only_absolute) (simp add: report_place_def read_only_absolute)
qed

lemma report_written: "judge_call plain_std report_disk [report_place] False (Suc 0) write_call = Inr Wrote"
proof -
  have name: "casefold (call_name plain_std write_call) = ''write''"
    by (simp add: call_name_def write_call_def por_def text_or_def str_of_def casefold_def casefold_char_def is_upper_def code_def)
  have "write_targets write_call = Some [report_place]"
  proof -
    have "target_ok (PStr report_path)" using report_text by (simp add: target_ok_def)
    moreover have "\<not> dhas write_call ''input''" by (simp add: write_call_def dhas_def)
    moreover have "absolute report_place" "\<not> climbs report_place" by (simp_all add: report_place_def climbs_def)
    ultimately show ?thesis by (simp add: write_targets_def write_arguments List.map_filter_def dhas_def)
  qed
  then show ?thesis
    by (simp add: judge_call_def name spaced_json_def write_arguments call_writes_def mentioned_paths_def confined_def)
      (simp add: report_place_def read_only_absolute confined_def)
qed

lemma report_passes: "vd_status (production_validator plain_std L report_disk report_envelope) = PASS"
proof -
  have x: "extract_result plain_std L report_envelope = Some report_result"
    by (simp add: extract_result_def) (simp add: report_messages_def said_result_def assistant_def dict_or_empty_def List.map_filter_def)
  have ro: "read_only_run plain_std report_envelope report_messages = Inr True"
    by (simp add: read_only_run_def in_names_def profiles_def)
  have "artifact_place report_disk [report_place] False (PDict [(''path'', PStr report_path)]) = Inr None"
    by (simp add: artifact_place_def) (simp add: report_place_def climbs_def read_only_absolute)
  then have "read_only_fault plain_std report_disk report_result report_envelope report_messages = Inr None"
    by (simp add: read_only_fault_def report_designated report_calls report_written)
  then have "scope_check plain_std report_disk report_result report_envelope = Inr None" by (simp add: scope_check_def ro)
  moreover have "schema_check report_result report_envelope = Inr None"
    using report_text by (simp add: schema_check_def in_names_def)
  moreover have "artifacts_check report_disk report_result report_envelope = Inr None" by (simp add: artifacts_check_def artifact_fault_def)
  ultimately have "first_failure (production_checks plain_std report_disk) report_result report_envelope = None"
    by (simp add: checks_silent report_evidence)
  then show ?thesis
    by (simp add: production_pass_iff x text_or_def str_of_def lower_def to_lower_def is_upper_def code_def)
qed

theorem read_only_run_confined_witness:
  "\<exists>qs linked. designate report_disk (designated_texts report_envelope) = Inr (Some (qs, linked)) \<and> (\<forall>q \<in> set qs. output_place q) \<and>
     call_confined plain_std report_disk qs linked write_call"
proof -
  have "read_only_run plain_std report_envelope report_messages = Inr True" by (simp add: read_only_run_def in_names_def profiles_def)
  from read_only_run_confined [OF report_passes _ this] show ?thesis by (fastforce simp: report_calls)
qed

definition removal :: pydict where
  "removal = [(''type'', PStr ''toolCall''), (''name'', PStr ''exec''), (''arguments'', PDict [(''command'', PStr ''rm -r /data'')])]"

theorem other_commands_unseen_witness: "judge_call plain_std report_disk [] False 0 removal = Inr Quiet"
proof -
  let ?t = "jdump_spaced (float_repr plain_std) False (call_arguments removal)"
  let ?command = "casefold (call_name plain_std removal) @ '' '' @ ?t"
  have "spaced_json plain_std (call_arguments removal) = Inr ?t" by (simp add: spaced_json_def call_arguments_def removal_def por_def)
  moreover have "casefold (call_name plain_std removal) \<notin> {''write'', ''edit'', ''apply_patch''}" by code_simp
  moreover have "CHR ''>'' \<notin> set ?command" by code_simp
  moreover have "\<forall>u \<in> {''tee'', ''touch'', ''cp'', ''mv'', ''test''}. \<not> contains ?command u" by code_simp
  ultimately show ?thesis by (rule other_commands_unseen)
qed


definition cut_text :: string where
  "cut_text = CHR ''{'' # CHR 0x22 # ''a'' @ [CHR 0x22] @ '':[1''"

lemma closed_text_is_balanced_witness:
  "\<exists>e stack. stack \<noteq> [] \<and> scan_text (cut_text @ stack) (False, False, []) = Some (False, e, [])"
proof -
  have "close_containers (\<lambda>t. if t = cut_text @ '']}'' then Some (PDict []) else None) cut_text = Some []"
    by (simp add: close_containers_def cut_text_def parsed_dict_def)
  from closed_text_is_balanced [OF this] show ?thesis by blast
qed

end
